(* ===== verification/Prelude.thy ===== *)
theory Prelude
  imports Complex_Main
begin

text \<open>
  Shared vocabulary of the development: the types that stand for Go's built-in ones,
  the effect monad in which the services are written, its weakest-precondition calculus
  and its frame rules.

  A Go service method is a state transformer \<open>('w, 'a) io\<close>: it takes the world
  \<open>'w\<close> (database collections, effect log, step counter) and returns an error or a value
  together with the new world. What the process cannot control (the clock, the random
  identifiers, the failures of the database driver) is an \<open>env\<close>: a family of answers
  indexed by the step counter, so that two readings in one request may differ.
\<close>

named_theorems io_wp \<open>weakest preconditions of the monad's operators\<close>
named_theorems io_frame \<open>frame rules of the monad's operators\<close>
named_theorems go_const \<open>definitions of the source's string constants\<close>

section \<open>Go values\<close>

text \<open>Instants and durations are nanoseconds, as in package \<open>time\<close>.\<close>

type_synonym time = int
type_synonym duration = int
type_synonym ident = string

abbreviation (input) Nanosecond :: duration where "Nanosecond \<equiv> 1"
definition Second :: duration where "Second = 1000000000"
definition Minute :: duration where "Minute = 60 * Second"
definition Hour :: duration where "Hour = 60 * Minute"

text \<open>The dynamic values a \<open>map[string]any\<close> holds in this program.\<close>

datatype gany =
    GNil
  | GStr string
  | GInt int
  | GBool bool
  | GTime time
  | GFloat rat
  | GStrs "string list"
  | GObj "(string \<times> gany) list"

type_synonym gmap = "string \<rightharpoonup> gany"

text \<open>
  Go's integer division truncates towards zero; \<open>float64\<close> values are compared only, so a
  finite one is the rational it denotes.
\<close>

definition go_div :: "int \<Rightarrow> int \<Rightarrow> int" where
  "go_div a b = sgn a * sgn b * (\<bar>a\<bar> div \<bar>b\<bar>)"

lemma go_div_nonneg: "0 \<le> a \<Longrightarrow> 0 < b \<Longrightarrow> go_div a b = a div b"
  by (cases "a = 0") (auto simp: go_div_def)

datatype float64 = NaN | NegInf | PosInf | Fin rat

fun f64_less :: "float64 \<Rightarrow> float64 \<Rightarrow> bool" where
  "f64_less NaN _ = False"
| "f64_less _ NaN = False"
| "f64_less (Fin a) (Fin b) = (a < b)"
| "f64_less NegInf b = (b \<noteq> NegInf)"
| "f64_less _ NegInf = False"
| "f64_less PosInf _ = False"
| "f64_less (Fin _) PosInf = True"

section \<open>Errors\<close>

text \<open>
  \<open>domain/apperror\<close>: the codes and the single error type of the layers. An error that is
  not an \<open>AppError\<close> (\<open>fmt.Errorf\<close>, a sentinel) is a \<open>PlainError\<close>.
\<close>

datatype err_code =
    CodeValidation | CodeUnauthorized | CodeForbidden | CodeNotFound
  | CodeConflict | CodeRateLimited | CodeIntegrationUnavailable | CodeInternal

datatype goerr =
    AppError err_code string gmap "goerr option"
  | PlainError string

type_synonym 'a res = "goerr + 'a"

section \<open>The effect monad\<close>

type_synonym ('w, 'a) io = "'w \<Rightarrow> (goerr + 'a) \<times> 'w"

definition return_io :: "'a \<Rightarrow> ('w, 'a) io" where
  "return_io x = (\<lambda>w. (Inr x, w))"

definition throw_io :: "goerr \<Rightarrow> ('w, 'a) io" where
  "throw_io e = (\<lambda>w. (Inl e, w))"

definition bind_io :: "('w, 'a) io \<Rightarrow> ('a \<Rightarrow> ('w, 'b) io) \<Rightarrow> ('w, 'b) io" where
  "bind_io m f = (\<lambda>w. case m w of (Inl e, w') \<Rightarrow> (Inl e, w') | (Inr x, w') \<Rightarrow> f x w')"

definition then_io :: "('w, 'a) io \<Rightarrow> ('w, 'b) io \<Rightarrow> ('w, 'b) io" where
  "then_io m n = bind_io m (\<lambda>_. n)"

text \<open>\<open>r, err := m()\<close>: both outcomes become a value the caller inspects.\<close>

definition try_io :: "('w, 'a) io \<Rightarrow> ('w, 'a res) io" where
  "try_io m = (\<lambda>w. case m w of (r, w') \<Rightarrow> (Inr r, w'))"

text \<open>\<open>_ = m()\<close>: the outcome is dropped, the effects stay.\<close>

definition ignore_io :: "('w, 'a) io \<Rightarrow> ('w, unit) io" where
  "ignore_io m = (\<lambda>w. (Inr (), snd (m w)))"

definition lift_res :: "'a res \<Rightarrow> ('w, 'a) io" where
  "lift_res r = (\<lambda>w. (r, w))"

definition gets_io :: "('w \<Rightarrow> 'a) \<Rightarrow> ('w, 'a) io" where
  "gets_io f = (\<lambda>w. (Inr (f w), w))"

definition modify_io :: "('w \<Rightarrow> 'w) \<Rightarrow> ('w, unit) io" where
  "modify_io f = (\<lambda>w. (Inr (), f w))"

definition when_io :: "bool \<Rightarrow> ('w, unit) io \<Rightarrow> ('w, unit) io" where
  "when_io b m = (if b then m else return_io ())"

definition guard_io :: "bool \<Rightarrow> goerr \<Rightarrow> ('w, unit) io" where
  "guard_io b e = (if b then throw_io e else return_io ())"

text \<open>\<open>defer f()\<close>: runs after the rest of the method, on success and on error.\<close>

definition defer_io :: "('w, unit) io \<Rightarrow> ('w, 'a) io \<Rightarrow> ('w, 'a) io" where
  "defer_io fin m = (\<lambda>w. case m w of (r, w') \<Rightarrow> (r, snd (fin w')))"

text \<open>A \<open>for\<close> loop over a slice; the body's error leaves the loop.\<close>

primrec for_io :: "'a list \<Rightarrow> ('a \<Rightarrow> ('w, unit) io) \<Rightarrow> ('w, unit) io" where
  "for_io [] body = return_io ()"
| "for_io (x # xs) body = then_io (body x) (for_io xs body)"

primrec fold_io :: "('b \<Rightarrow> 'a \<Rightarrow> ('w, 'b) io) \<Rightarrow> 'b \<Rightarrow> 'a list \<Rightarrow> ('w, 'b) io" where
  "fold_io f b [] = return_io b"
| "fold_io f b (x # xs) = bind_io (f b x) (\<lambda>b'. fold_io f b' xs)"

lemmas io_defs = return_io_def throw_io_def bind_io_def then_io_def try_io_def ignore_io_def
  lift_res_def gets_io_def modify_io_def when_io_def guard_io_def

subsection \<open>Weakest preconditions\<close>

text \<open>
  \<open>wp m Q E w\<close>: started in \<open>w\<close>, \<open>m\<close> ends in a value and world satisfying \<open>Q\<close> or in an
  error and world satisfying \<open>E\<close>. Every operator's rule is an equation, so \<open>simp\<close>
  computes the verification condition of a method.
\<close>

definition wp :: "('w, 'a) io \<Rightarrow> ('a \<Rightarrow> 'w \<Rightarrow> bool) \<Rightarrow> (goerr \<Rightarrow> 'w \<Rightarrow> bool) \<Rightarrow> 'w \<Rightarrow> bool" where
  "wp m Q E w = (case m w of (Inr x, w') \<Rightarrow> Q x w' | (Inl e, w') \<Rightarrow> E e w')"

lemma wp_return [io_wp]: "wp (return_io x) Q E w = Q x w"
  by (simp add: wp_def return_io_def)

lemma wp_throw [io_wp]: "wp (throw_io e) Q E w = E e w"
  by (simp add: wp_def throw_io_def)

lemma wp_bind [io_wp]: "wp (bind_io m f) Q E w = wp m (\<lambda>x. wp (f x) Q E) E w"
  by (auto simp: wp_def bind_io_def split: prod.splits sum.splits)

lemma wp_then [io_wp]: "wp (then_io m n) Q E w = wp m (\<lambda>_. wp n Q E) E w"
  by (simp add: then_io_def wp_bind)

lemma wp_try [io_wp]:
  "wp (try_io m) Q E w = wp m (\<lambda>x. Q (Inr x)) (\<lambda>e. Q (Inl e)) w"
  by (auto simp: wp_def try_io_def split: prod.splits sum.splits)

lemma wp_ignore [io_wp]:
  "wp (ignore_io m) Q E w = wp m (\<lambda>_. Q ()) (\<lambda>_. Q ()) w"
  by (auto simp: wp_def ignore_io_def split: prod.splits sum.splits)

lemma wp_lift [io_wp]:
  "wp (lift_res r) Q E w = (case r of Inr x \<Rightarrow> Q x w | Inl e \<Rightarrow> E e w)"
  by (simp add: wp_def lift_res_def)

lemma wp_gets [io_wp]: "wp (gets_io f) Q E w = Q (f w) w"
  by (simp add: wp_def gets_io_def)

lemma wp_modify [io_wp]: "wp (modify_io f) Q E w = Q () (f w)"
  by (simp add: wp_def modify_io_def)

lemma wp_when [io_wp]:
  "wp (when_io b m) Q E w = (if b then wp m Q E w else Q () w)"
  by (simp add: when_io_def wp_return)

lemma wp_guard [io_wp]:
  "wp (guard_io b e) Q E w = (if b then E e w else Q () w)"
  by (simp add: guard_io_def wp_return wp_throw)

lemma wp_if [io_wp]:
  "wp (if b then m else n) Q E w = (if b then wp m Q E w else wp n Q E w)"
  by simp

lemma wp_let [io_wp]: "wp (let x = a in f x) Q E w = wp (f a) Q E w"
  by (simp add: Let_def)

lemma wp_defer [io_wp]:
  "wp (defer_io f m) Q E w = wp m (\<lambda>x w'. Q x (snd (f w'))) (\<lambda>e w'. E e (snd (f w'))) w"
  by (auto simp: wp_def defer_io_def split: prod.splits sum.splits)

lemma wp_mono:
  assumes "wp m Q E w" and "\<And>x w'. Q x w' \<Longrightarrow> Q' x w'" and "\<And>e w'. E e w' \<Longrightarrow> E' e w'"
  shows "wp m Q' E' w"
  using assms by (auto simp: wp_def split: prod.splits sum.splits)

lemma wp_conj:
  "wp m Q E w \<Longrightarrow> wp m Q' E' w \<Longrightarrow> wp m (\<lambda>x w'. Q x w' \<and> Q' x w') (\<lambda>e w'. E e w' \<and> E' e w') w"
  by (auto simp: wp_def split: prod.splits sum.splits)

lemma wpD:
  "wp m Q E w \<Longrightarrow> m w = (Inr x, w') \<Longrightarrow> Q x w'"
  "wp m Q E w \<Longrightarrow> m w = (Inl e, w') \<Longrightarrow> E e w'"
  by (auto simp: wp_def)

lemma wp_run: "wp m (\<lambda>x w'. m w = (Inr x, w')) (\<lambda>e w'. m w = (Inl e, w')) w"
  by (auto simp: wp_def split: prod.splits sum.splits)

subsection \<open>Frames\<close>

text \<open>
  \<open>framed R m\<close>: whatever \<open>m\<close> does, and whether it fails or not, the worlds before and
  after are related by \<open>R\<close>. \<open>returns m P\<close>: every value \<open>m\<close> returns satisfies \<open>P\<close>.
\<close>

definition framed :: "('w \<Rightarrow> 'w \<Rightarrow> bool) \<Rightarrow> ('w, 'a) io \<Rightarrow> bool" where
  "framed R m \<longleftrightarrow> (\<forall>w. R w (snd (m w)))"

definition returns :: "('w, 'a) io \<Rightarrow> ('a \<Rightarrow> bool) \<Rightarrow> bool" where
  "returns m P \<longleftrightarrow> (\<forall>w x w'. m w = (Inr x, w') \<longrightarrow> P x)"

lemma framedD: "framed R m \<Longrightarrow> m w = (r, w') \<Longrightarrow> R w w'"
  by (metis framed_def snd_conv)

lemma framed_wp: "framed R m = (\<forall>w. wp m (\<lambda>_. R w) (\<lambda>_. R w) w)"
  unfolding framed_def wp_def by (intro iff_allI) (simp split: prod.split sum.split)

lemma wp_framed:
  "framed R m \<Longrightarrow> (\<And>x w'. R w w' \<Longrightarrow> Q x w') \<Longrightarrow> (\<And>e w'. R w w' \<Longrightarrow> E e w') \<Longrightarrow> wp m Q E w"
  unfolding framed_wp by (rule wp_mono) blast+

locale io_rel =
  fixes R :: "'w \<Rightarrow> 'w \<Rightarrow> bool"
  assumes rel_refl: "R w w"
    and rel_trans: "R u v \<Longrightarrow> R v w \<Longrightarrow> R u w"
begin

lemma fr_return: "framed R (return_io x)"
  by (simp add: framed_def return_io_def rel_refl)

lemma fr_throw: "framed R (throw_io e)"
  by (simp add: framed_def throw_io_def rel_refl)

lemma fr_lift: "framed R (lift_res r)"
  by (simp add: framed_def lift_res_def rel_refl)

lemma fr_gets: "framed R (gets_io f)"
  by (simp add: framed_def gets_io_def rel_refl)

lemma fr_guard: "framed R (guard_io b e)"
  by (simp add: guard_io_def fr_return fr_throw)

lemma fr_bind_returns:
  assumes m: "framed R m" and P: "returns m P" and f: "\<And>x. P x \<Longrightarrow> framed R (f x)"
  shows "framed R (bind_io m f)"
proof -
  have "R w (snd (bind_io m f w))" for w
  proof (cases "m w")
    case (Pair r w')
    have *: "R w w'" using m Pair by (auto dest: framedD)
    show ?thesis
    proof (cases r)
      case (Inl e)
      with Pair * show ?thesis by (simp add: bind_io_def)
    next
      case (Inr x)
      with Pair P have "P x" by (auto simp: returns_def)
      then have "R w' (snd (f x w'))" using f by (simp add: framed_def)
      with Pair Inr * show ?thesis by (auto simp: bind_io_def intro: rel_trans)
    qed
  qed
  then show ?thesis by (simp add: framed_def)
qed

lemma fr_bind: "framed R m \<Longrightarrow> (\<And>x. framed R (f x)) \<Longrightarrow> framed R (bind_io m f)"
  using fr_bind_returns [of m "\<lambda>_. True" f] by (simp add: returns_def)

lemma fr_then: "framed R m \<Longrightarrow> framed R n \<Longrightarrow> framed R (then_io m n)"
  by (simp add: then_io_def fr_bind)

lemma fr_try: "framed R m \<Longrightarrow> framed R (try_io m)"
  by (auto simp: framed_def try_io_def split: prod.splits) (metis snd_conv)

lemma fr_ignore: "framed R m \<Longrightarrow> framed R (ignore_io m)"
  by (simp add: framed_def ignore_io_def)

lemma fr_when: "framed R m \<Longrightarrow> framed R (when_io b m)"
  by (simp add: when_io_def fr_return)

lemma fr_if: "framed R m \<Longrightarrow> framed R n \<Longrightarrow> framed R (if b then m else n)"
  by simp

lemma fr_for: "(\<And>x. x \<in> set xs \<Longrightarrow> framed R (body x)) \<Longrightarrow> framed R (for_io xs body)"
  by (induction xs) (auto intro: fr_return fr_then)

lemma fr_fold: "(\<And>b x. framed R (f b x)) \<Longrightarrow> framed R (fold_io f b xs)"
  by (induction xs arbitrary: b) (auto intro: fr_return fr_bind)

lemma fr_defer: "framed R m \<Longrightarrow> framed R f \<Longrightarrow> framed R (defer_io f m)"
  unfolding framed_def defer_io_def by (auto split: prod.split) (metis rel_trans snd_conv)

lemmas fr_basic = fr_return fr_throw fr_lift fr_gets fr_guard fr_bind fr_then fr_try fr_ignore
  fr_when fr_if fr_for fr_fold

end

lemma returns_bind: "(\<And>x. returns (f x) P) \<Longrightarrow> returns (bind_io m f) P"
  by (auto simp: returns_def bind_io_def split: prod.splits sum.splits)

lemma returns_bind_returns:
  "returns m P \<Longrightarrow> (\<And>x. P x \<Longrightarrow> returns (f x) Q) \<Longrightarrow> returns (bind_io m f) Q"
  unfolding returns_def bind_io_def by (auto split: prod.splits sum.splits) blast

lemma returns_return: "P x \<Longrightarrow> returns (return_io x) P"
  by (simp add: returns_def return_io_def)

lemma returns_throw: "returns (throw_io e) P"
  by (simp add: returns_def throw_io_def)

lemma returns_then: "returns n P \<Longrightarrow> returns (then_io m n) P"
  by (simp add: then_io_def returns_bind)

lemma returns_wp: "returns m P = (\<forall>w. wp m (\<lambda>x _. P x) (\<lambda>_ _. True) w)"
  by (auto simp: returns_def wp_def split: prod.splits sum.splits)

section \<open>What the process cannot control\<close>

text \<open>
  \<open>clk n\<close> is what the clock reads, \<open>newid n\<close> the random UUID that is drawn and
  \<open>fault n\<close> the failure the database driver reports (if any) at step \<open>n\<close>. The clock and
  the identifiers come from the operating system and from a third-party package, so they
  are parameters of the model.
\<close>

record env =
  clk :: "nat \<Rightarrow> time"
  newid :: "nat \<Rightarrow> ident"
  fault :: "nat \<Rightarrow> string option"

record base_world =
  step :: nat

definition tick :: "'z base_world_scheme \<Rightarrow> 'z base_world_scheme" where
  "tick w = w\<lparr>step := Suc (step w)\<rparr>"

text \<open>\<open>shared.Clock.Now\<close> and \<open>shared.NewID\<close>.\<close>

definition now_io :: "'e env_scheme \<Rightarrow> ('z base_world_scheme, time) io" where
  "now_io env = (\<lambda>w. (Inr (clk env (step w)), tick w))"

definition new_id :: "'e env_scheme \<Rightarrow> ('z base_world_scheme, ident) io" where
  "new_id env = (\<lambda>w. (Inr (newid env (step w)), tick w))"

lemma wp_now [io_wp]: "wp (now_io env) Q E w = Q (clk env (step w)) (tick w)"
  by (simp add: wp_def now_io_def)

lemma wp_new_id [io_wp]: "wp (new_id env) Q E w = Q (newid env (step w)) (tick w)"
  by (simp add: wp_def new_id_def)

lemma step_tick [simp]: "step (tick w) = Suc (step w)"
  by (simp add: tick_def)

section \<open>Lists\<close>

text \<open>
  The source removes duplicates keeping first occurrences and dropping empty strings
  (a \<open>seen\<close> set and an output slice); \<open>keep_first p\<close> is that loop for the elements that
  pass \<open>p\<close>, with the set as the accumulator.
\<close>

fun keep_first :: "('a \<Rightarrow> bool) \<Rightarrow> 'a set \<Rightarrow> 'a list \<Rightarrow> 'a list" where
  "keep_first p seen [] = []"
| "keep_first p seen (x # xs) =
     (if p x \<and> x \<notin> seen then x # keep_first p (insert x seen) xs else keep_first p seen xs)"

lemma set_keep_first: "set (keep_first p seen xs) = {x \<in> set xs. p x} - seen"
  by (induction p seen xs rule: keep_first.induct) auto

lemma distinct_keep_first: "distinct (keep_first p seen xs)"
  by (induction p seen xs rule: keep_first.induct) (auto simp: set_keep_first)

lemma keep_first_append:
  "keep_first p seen (xs @ ys) =
   keep_first p seen xs @ keep_first p (seen \<union> set (keep_first p seen xs)) ys"
  by (induction p seen xs rule: keep_first.induct) auto

lemma keep_first_id:
  "distinct xs \<Longrightarrow> (\<And>x. x \<in> set xs \<Longrightarrow> p x) \<Longrightarrow> seen \<inter> set xs = {} \<Longrightarrow> keep_first p seen xs = xs"
  by (induction p seen xs rule: keep_first.induct) auto

lemma find_Some_in: "find p xs = Some x \<Longrightarrow> x \<in> set xs \<and> p x"
  by (auto simp: find_Some_iff in_set_conv_nth)

lemma find_filter_Some: "find p xs = Some x \<Longrightarrow> (\<And>y. p y \<Longrightarrow> q y) \<Longrightarrow> find p (filter q xs) = Some x"
  by (induction xs) (auto split: if_splits)

end
