(* ===== verification/Go_Strings.thy ===== *)
theory Go_Strings
  imports Prelude
begin

text \<open>
  The parts of Go's \<open>strings\<close> and \<open>unicode/utf8\<close> packages the services call. A Go
  string is a sequence of bytes and so is HOL's \<open>string\<close>; runes are decoded from it with
  Go's rules, under which an invalid byte is one rune, U+FFFD.
\<close>

section \<open>UTF-8\<close>

definition RuneError :: nat where "RuneError = 0xFFFD"

definition cont_in :: "nat \<Rightarrow> nat \<Rightarrow> char \<Rightarrow> bool" where
  "cont_in lo hi c \<longleftrightarrow> lo \<le> of_char c \<and> of_char c \<le> hi"

text \<open>
  \<open>utf8.DecodeRuneInString\<close>: the rune and its width. \<open>x\<close> is the first byte and \<open>s\<close> what
  follows it in the decoders of the two-, three- and four-byte forms.
\<close>

definition decode2 :: "nat \<Rightarrow> string \<Rightarrow> nat \<times> nat" where
  "decode2 x s = (case s of
     b # _ \<Rightarrow> if cont_in 0x80 0xBF b then ((x - 0xC0) * 64 + (of_char b - 0x80), 2) else (RuneError, 1)
   | [] \<Rightarrow> (RuneError, 1))"

definition decode3 :: "nat \<Rightarrow> string \<Rightarrow> nat \<times> nat" where
  "decode3 x s = (case s of
     b # c # _ \<Rightarrow>
       if cont_in (if x = 0xE0 then 0xA0 else 0x80) (if x = 0xED then 0x9F else 0xBF) b
          \<and> cont_in 0x80 0xBF c
       then ((x - 0xE0) * 4096 + (of_char b - 0x80) * 64 + (of_char c - 0x80), 3)
       else (RuneError, 1)
   | _ \<Rightarrow> (RuneError, 1))"

definition decode4 :: "nat \<Rightarrow> string \<Rightarrow> nat \<times> nat" where
  "decode4 x s = (case s of
     b # c # d # _ \<Rightarrow>
       if cont_in (if x = 0xF0 then 0x90 else 0x80) (if x = 0xF4 then 0x8F else 0xBF) b
          \<and> cont_in 0x80 0xBF c \<and> cont_in 0x80 0xBF d
       then ((x - 0xF0) * 262144 + (of_char b - 0x80) * 4096 + (of_char c - 0x80) * 64
               + (of_char d - 0x80), 4)
       else (RuneError, 1)
   | _ \<Rightarrow> (RuneError, 1))"

fun decode_rune :: "string \<Rightarrow> nat \<times> nat" where
  "decode_rune [] = (RuneError, 0)"
| "decode_rune (a # s) =
    (let x = of_char a in
     if x < 0x80 then (x, 1)
     else if 0xC2 \<le> x \<and> x \<le> 0xDF then decode2 x s
     else if 0xE0 \<le> x \<and> x \<le> 0xEF then decode3 x s
     else if 0xF0 \<le> x \<and> x \<le> 0xF4 then decode4 x s
     else (RuneError, 1))"

declare decode_rune.simps(2) [simp del]

lemmas decode_defs = decode2_def decode3_def decode4_def cont_in_def

lemma decode_rune_size:
  "s \<noteq> [] \<Longrightarrow> 0 < snd (decode_rune s) \<and> snd (decode_rune s) \<le> length s"
  by (cases s) (auto simp: decode_rune.simps(2) decode_defs Let_def split: list.splits)

text \<open>\<open>[]rune(s)\<close>\<close>

function runes :: "string \<Rightarrow> nat list" where
  "runes s = (if s = [] then [] else fst (decode_rune s) # runes (drop (snd (decode_rune s)) s))"
  by pat_completeness auto
termination
  by (relation "measure length") (use decode_rune_size in \<open>auto simp: not_le Suc_le_eq\<close>)

declare runes.simps [simp del]

lemma runes_Nil [simp]: "runes [] = []"
  by (simp add: runes.simps)

text \<open>\<open>utf8.RuneCountInString\<close>\<close>

definition rune_count :: "string \<Rightarrow> nat" where
  "rune_count s = length (runes s)"

text \<open>A rune that UTF-8 can carry: a Unicode scalar value.\<close>

definition valid_rune :: "nat \<Rightarrow> bool" where
  "valid_rune r \<longleftrightarrow> r < 0xD800 \<or> 0xE000 \<le> r \<and> r \<le> 0x10FFFF"

text \<open>\<open>string(rs)\<close> encodes rune by rune; an invalid one is written as U+FFFD.\<close>

definition encode_rune :: "nat \<Rightarrow> string" where
  "encode_rune r0 =
    (let r = (if valid_rune r0 then r0 else RuneError) in
     map char_of
      (if r < 0x80 then [r]
       else if r < 0x800 then [0xC0 + r div 64, 0x80 + r mod 64]
       else if r < 0x10000 then [0xE0 + r div 4096, 0x80 + r div 64 mod 64, 0x80 + r mod 64]
       else [0xF0 + r div 262144, 0x80 + r div 4096 mod 64, 0x80 + r div 64 mod 64, 0x80 + r mod 64]))"

definition string_of_runes :: "nat list \<Rightarrow> string" where
  "string_of_runes rs = concat (map encode_rune rs)"

lemma of_char_less: "(of_char c :: nat) < 256"
  by (simp add: of_char_def)

lemma valid_RuneError: "valid_rune RuneError"
  by (simp add: valid_rune_def RuneError_def)

lemma encode_rune_length: "0 < length (encode_rune r)"
  by (simp add: encode_rune_def Let_def)

lemma valid_ascii: "r < 0x80 \<Longrightarrow> valid_rune r"
  by (simp add: valid_rune_def)

lemma decode2_valid: "0xC2 \<le> x \<Longrightarrow> x \<le> 0xDF \<Longrightarrow> valid_rune (fst (decode2 x s))"
  using valid_RuneError by (auto simp: decode_defs valid_rune_def split: list.split)

lemma decode3_valid: "0xE0 \<le> x \<Longrightarrow> x \<le> 0xEF \<Longrightarrow> valid_rune (fst (decode3 x s))"
  using valid_RuneError by (auto simp: decode_defs valid_rune_def split: list.split)

lemma decode4_valid: "0xF0 \<le> x \<Longrightarrow> x \<le> 0xF4 \<Longrightarrow> valid_rune (fst (decode4 x s))"
  using valid_RuneError by (auto simp: decode_defs valid_rune_def split: list.split)

lemma decode_rune_valid: "s \<noteq> [] \<Longrightarrow> valid_rune (fst (decode_rune s))"
  by (cases s) (auto simp: decode_rune.simps(2) Let_def decode2_valid decode3_valid decode4_valid
      valid_RuneError valid_ascii)

lemma runes_valid: "r \<in> set (runes s) \<Longrightarrow> valid_rune r"
proof (induction s rule: runes.induct)
  case (1 s)
  then show ?case
    by (cases "s = []") (auto simp: runes.simps [of s] decode_rune_valid)
qed

text \<open>The base-64 digits of a rune, which its encoding spells out.\<close>

lemma digits64:
  "64 * (r div 64) + r mod 64 = r"
  "64 * (r div 4096) + r div 64 mod 64 = r div 64"
  "64 * (r div 262144) + r div 4096 mod 64 = r div 4096" for r :: nat
  using mult_div_mod_eq [of 64 r] mult_div_mod_eq [of 64 "r div 64"] mult_div_mod_eq [of 64 "r div 4096"]
  by (simp_all add: div_mult2_eq [symmetric])

lemma decode_encode:
  assumes "valid_rune r"
  shows "decode_rune (encode_rune r @ s) = (r, length (encode_rune r))"
proof -
  have mod64: "\<And>n::nat. n mod 64 \<le> 63" using mod_less_divisor [of 64] by (simp add: less_Suc_eq_le [symmetric])
  have "r \<le> 0x10FFFF" using assms by (auto simp: valid_rune_def)
  then consider "r < 0x80" | "0x80 \<le> r" "r < 0x800" | "0x800 \<le> r" "r < 0x10000" | "0x10000 \<le> r" "r \<le> 0x10FFFF"
    by linarith
  then show ?thesis
  proof cases
    case 1
    with assms show ?thesis by (simp add: encode_rune_def decode_rune.simps(2))
  next
    case 2
    then have "r div 64 < 32" "2 \<le> r div 64" by auto
    with 2 assms show ?thesis
      by (simp add: encode_rune_def decode_rune.simps(2) decode_defs Let_def)
  next
    case 3
    then have "r div 4096 < 16" by auto
    moreover have "r div 4096 = 0 \<Longrightarrow> 32 \<le> r div 64 mod 64" using 3 by (simp add: div_eq_0_iff)
    moreover have "r div 4096 = 13 \<Longrightarrow> r div 64 mod 64 \<le> 31"
    proof -
      assume 13: "r div 4096 = 13"
      then have "r < 55296" using assms by (auto simp: valid_rune_def)
      then show ?thesis using 13 digits64(1,2) [of r] by linarith
    qed
    moreover have "(r div 4096) * 4096 + (r div 64 mod 64) * 64 + r mod 64 = r"
      using digits64(1,2) [of r] by linarith
    ultimately show ?thesis using 3 assms mod64
      by (simp add: encode_rune_def decode_rune.simps(2) decode_defs Let_def)
  next
    case 4
    then have "r div 262144 \<le> 4" by auto
    moreover have "r div 262144 = 0 \<Longrightarrow> 16 \<le> r div 4096 mod 64" using 4 by (simp add: div_eq_0_iff)
    moreover have "r div 262144 = 4 \<Longrightarrow> r div 4096 mod 64 \<le> 15"
    proof -
      assume "r div 262144 = 4"
      moreover have "r div 4096 \<le> 271" using 4 by auto
      ultimately show ?thesis using digits64(3) [of r] by linarith
    qed
    moreover have "(r div 262144) * 262144 + (r div 4096 mod 64) * 4096 + (r div 64 mod 64) * 64 + r mod 64 = r"
      using digits64 [of r] by linarith
    ultimately show ?thesis using 4 assms mod64
      by (simp add: encode_rune_def decode_rune.simps(2) decode_defs Let_def)
  qed
qed

lemma runes_encode: "valid_rune r \<Longrightarrow> runes (encode_rune r @ s) = r # runes s"
  using encode_rune_length [of r] by (subst runes.simps) (simp add: decode_encode)

lemma runes_string_of_runes:
  "(\<And>r. r \<in> set rs \<Longrightarrow> valid_rune r) \<Longrightarrow> runes (string_of_runes rs @ s) = rs @ runes s"
  by (induction rs) (auto simp: string_of_runes_def runes_encode)

section \<open>Trimming, searching, splitting\<close>

text \<open>
  \<open>strings.TrimSpace\<close> removes leading and trailing runes with the Unicode property
  White\_Space. In UTF-8 such a rune is one of the following byte sequences, and the
  first (last) rune of a string is one of them exactly when the string starts (ends) with
  the sequence, because the first byte of a sequence is never a continuation byte.
\<close>

definition space_seqs :: "string list" where
  "space_seqs = [
    [CHR 0x09], [CHR 0x0A], [CHR 0x0B], [CHR 0x0C], [CHR 0x0D], [CHR 0x20],
     [CHR 0xC2, CHR 0x85], [CHR 0xC2, CHR 0xA0], [CHR 0xE1, CHR 0x9A, CHR 0x80],
     [CHR 0xE2, CHR 0x80, CHR 0x80], [CHR 0xE2, CHR 0x80, CHR 0x81],
     [CHR 0xE2, CHR 0x80, CHR 0x82], [CHR 0xE2, CHR 0x80, CHR 0x83],
     [CHR 0xE2, CHR 0x80, CHR 0x84], [CHR 0xE2, CHR 0x80, CHR 0x85],
     [CHR 0xE2, CHR 0x80, CHR 0x86], [CHR 0xE2, CHR 0x80, CHR 0x87],
     [CHR 0xE2, CHR 0x80, CHR 0x88], [CHR 0xE2, CHR 0x80, CHR 0x89],
     [CHR 0xE2, CHR 0x80, CHR 0x8A], [CHR 0xE2, CHR 0x80, CHR 0xA8],
     [CHR 0xE2, CHR 0x80, CHR 0xA9], [CHR 0xE2, CHR 0x80, CHR 0xAF],
     [CHR 0xE2, CHR 0x81, CHR 0x9F], [CHR 0xE3, CHR 0x80, CHR 0x80]]"

definition strip_one :: "string list \<Rightarrow> string \<Rightarrow> string option" where
  "strip_one ps s =
     map_option (\<lambda>p. drop (length p) s) (find (\<lambda>p. p \<noteq> [] \<and> take (length p) s = p) ps)"

lemma strip_one_shorter: "strip_one ps s = Some t \<Longrightarrow> length t < length s"
proof -
  assume "strip_one ps s = Some t"
  then obtain p where "p \<noteq> []" and p: "take (length p) s = p" and t: "t = drop (length p) s"
    by (auto simp: strip_one_def dest!: find_Some_in)
  then have "0 < length p" by simp
  moreover have "length p \<le> length s" using p by (metis length_take min.cobounded1)
  moreover have "length t = length s - length p" using t by simp
  ultimately show ?thesis by linarith
qed

function strip_all :: "string list \<Rightarrow> string \<Rightarrow> string" where
  "strip_all ps s = (case strip_one ps s of None \<Rightarrow> s | Some t \<Rightarrow> strip_all ps t)"
  by pat_completeness auto
termination
  by (relation "measure (\<lambda>(ps, s). length s)") (auto dest: strip_one_shorter)

declare strip_all.simps [simp del]

definition trim_space :: "string \<Rightarrow> string" where
  "trim_space s =
    (let ps = space_seqs
     in rev (strip_all (map rev ps) (rev (strip_all ps s))))"

lemma strip_all_Nil [simp]: "strip_all ps [] = []"
proof -
  have "strip_one ps [] = None"
    by (auto simp: strip_one_def find_None_iff)
  then show ?thesis by (simp add: strip_all.simps)
qed

lemma strip_one_strip_all: "strip_one ps (strip_all ps s) = None"
proof (induction ps s rule: strip_all.induct)
  case (1 ps s)
  then show ?case
    by (cases "strip_one ps s") (simp_all add: strip_all.simps [of ps s])
qed

lemma strip_all_fixed: "strip_one ps s = None \<Longrightarrow> strip_all ps s = s"
  by (simp add: strip_all.simps)

lemma trim_space_Nil [simp]: "trim_space [] = []"
  by (simp add: trim_space_def)

text \<open>
  Printable ASCII at both ends is not trimmed; most of the program's own strings are of
  this kind.
\<close>

definition plain_char :: "char \<Rightarrow> bool" where
  "plain_char c \<longleftrightarrow> c \<notin> {CHR 0x09, CHR 0x0A, CHR 0x0B, CHR 0x0C, CHR 0x0D, CHR 0x20,
     CHR 0xC2, CHR 0xE1, CHR 0xE2, CHR 0xE3} \<and> \<not> digit7 c"

lemma space_seq_ends:
  "p \<in> set space_seqs \<Longrightarrow> p \<noteq> [] \<and> \<not> plain_char (hd p) \<and> \<not> plain_char (last p)"
  by (auto simp: space_seqs_def plain_char_def)

lemma strip_all_plain:
  assumes "\<And>p. p \<in> set ps \<Longrightarrow> \<not> plain_char (hd p)" and "plain_char (hd s)"
  shows "strip_all ps s = s"
proof (rule strip_all_fixed)
  have "take (length p) s = p \<Longrightarrow> p \<noteq> [] \<Longrightarrow> hd p = hd s" for p
    by (metis hd_take length_greater_0_conv)
  with assms show "strip_one ps s = None"
    by (force simp: strip_one_def find_None_iff)
qed

lemma trim_space_plain:
  assumes "s \<noteq> []" "plain_char (hd s)" "plain_char (last s)"
  shows "trim_space s = s"
proof -
  have "strip_all space_seqs s = s"
    using assms space_seq_ends by (intro strip_all_plain) auto
  moreover have "strip_all (map rev space_seqs) (rev s) = rev s"
    using assms space_seq_ends by (intro strip_all_plain) (auto simp: hd_rev)
  ultimately show ?thesis by (simp add: trim_space_def)
qed

lemma trim_space_Cons [simp]:
  "plain_char c \<Longrightarrow> plain_char (last (c # s)) \<Longrightarrow> trim_space (c # s) = c # s"
  by (rule trim_space_plain) auto

declare plain_char_def [simp]

text \<open>\<open>strings.HasPrefix\<close>, \<open>strings.Contains\<close>, \<open>strings.Split\<close> (one-byte separator) and
  \<open>strings.ReplaceAll\<close> (non-empty pattern).\<close>

definition has_prefix :: "string \<Rightarrow> string \<Rightarrow> bool" where
  "has_prefix s p \<longleftrightarrow> take (length p) s = p"

fun str_contains :: "string \<Rightarrow> string \<Rightarrow> bool" where
  "str_contains [] p \<longleftrightarrow> p = []"
| "str_contains (c # s) p \<longleftrightarrow> has_prefix (c # s) p \<or> str_contains s p"

fun split_on :: "char \<Rightarrow> string \<Rightarrow> string list" where
  "split_on sep [] = [[]]"
| "split_on sep (c # s) =
     (if c = sep then [] # split_on sep s
      else (case split_on sep s of [] \<Rightarrow> [[c]] | w # ws \<Rightarrow> (c # w) # ws))"

function replace_all :: "string \<Rightarrow> string \<Rightarrow> string \<Rightarrow> string" where
  "replace_all old new s =
     (if old = [] \<or> s = [] then s
      else if has_prefix s old then new @ replace_all old new (drop (length old) s)
      else hd s # replace_all old new (tl s))"
  by pat_completeness auto
termination
  by (relation "measure (\<lambda>(old, new, s). length s)") auto

declare replace_all.simps [simp del]

lemma str_contains_iff: "str_contains s p \<longleftrightarrow> (\<exists>u v. s = u @ p @ v)"
proof (induction s)
  case (Cons c s)
  have "has_prefix (c # s) p \<longleftrightarrow> (\<exists>v. c # s = p @ v)"
    unfolding has_prefix_def by (metis append_eq_conv_conj append_take_drop_id)
  moreover have "(\<exists>u v. c # s = u @ p @ v) \<longleftrightarrow> (\<exists>v. c # s = p @ v) \<or> (\<exists>u v. s = u @ p @ v)"
    by (metis append_Cons append_Nil list.inject neq_Nil_conv)
  ultimately show ?case using Cons.IH by simp
qed auto

lemma join_split_on: "\<forall>w \<in> set (split_on sep s). sep \<notin> set w"
  by (induction s) (auto split: list.splits)

end
