(* ===== verification/Shared.thy ===== *)
theory Shared
  imports Go_Strings
begin

text \<open>
  The packages at the bottom of the dependency graph: \<open>domain/apperror\<close> (error
  constructors), \<open>domain/authz\<close> (permissions and the request's authorization state) and
  \<open>domain/shared\<close> (tenant scope, automation origin, realtime topics, pagination).
\<close>

section \<open>domain/apperror\<close>

definition HTTPStatus :: "err_code \<Rightarrow> nat" where
  "HTTPStatus c = (case c of
     CodeValidation \<Rightarrow> 400 | CodeUnauthorized \<Rightarrow> 401 | CodeForbidden \<Rightarrow> 403 | CodeNotFound \<Rightarrow> 404
   | CodeConflict \<Rightarrow> 409 | CodeRateLimited \<Rightarrow> 429 | CodeIntegrationUnavailable \<Rightarrow> 502
   | CodeInternal \<Rightarrow> 500)"

definition newErr :: "err_code \<Rightarrow> string \<Rightarrow> goerr" where
  "newErr c msg = AppError c msg Map.empty None"

abbreviation Validation :: "string \<Rightarrow> goerr" where "Validation \<equiv> newErr CodeValidation"
abbreviation Unauthorized :: "string \<Rightarrow> goerr" where "Unauthorized \<equiv> newErr CodeUnauthorized"
abbreviation Forbidden :: "string \<Rightarrow> goerr" where "Forbidden \<equiv> newErr CodeForbidden"
abbreviation NotFound :: "string \<Rightarrow> goerr" where "NotFound \<equiv> newErr CodeNotFound"
abbreviation Conflict :: "string \<Rightarrow> goerr" where "Conflict \<equiv> newErr CodeConflict"
abbreviation Internal :: "string \<Rightarrow> goerr" where "Internal \<equiv> newErr CodeInternal"

text \<open>\<open>WithDetails\<close> merges: existing keys survive unless overwritten. \<open>Wrap\<close> sets the cause.\<close>

fun WithDetails :: "goerr \<Rightarrow> gmap \<Rightarrow> goerr" where
  "WithDetails (AppError c m d cause) ds = AppError c m (d ++ ds) cause"
| "WithDetails (PlainError s) ds = PlainError s"

fun Wrap :: "goerr \<Rightarrow> goerr \<Rightarrow> goerr" where
  "Wrap (AppError c m d _) cause = AppError c m d (Some cause)"
| "Wrap (PlainError s) cause = PlainError s"

text \<open>\<open>From\<close> normalizes any error: what is not an \<open>AppError\<close> becomes an internal one.\<close>

fun From :: "goerr \<Rightarrow> goerr" where
  "From (AppError c m d cause) = AppError c m d cause"
| "From (PlainError s) = Wrap (Internal ''internal server error'') (PlainError s)"

fun err_code_of :: "goerr \<Rightarrow> err_code" where
  "err_code_of (AppError c _ _ _) = c"
| "err_code_of (PlainError _) = CodeInternal"

fun err_message_of :: "goerr \<Rightarrow> string" where
  "err_message_of (AppError _ m _ _) = m"
| "err_message_of (PlainError _) = ''internal server error''"

text \<open>\<open>AppError.Error\<close>: what \<open>%v\<close> prints of an error.\<close>

definition code_text :: "err_code \<Rightarrow> string" where
  "code_text c = (case c of
     CodeValidation \<Rightarrow> ''validation_error'' | CodeUnauthorized \<Rightarrow> ''unauthorized'' | CodeForbidden \<Rightarrow> ''forbidden''
   | CodeNotFound \<Rightarrow> ''not_found'' | CodeConflict \<Rightarrow> ''conflict'' | CodeRateLimited \<Rightarrow> ''rate_limited''
   | CodeIntegrationUnavailable \<Rightarrow> ''integration_unavailable'' | CodeInternal \<Rightarrow> ''internal_error'')"

fun Error :: "goerr \<Rightarrow> string" where
  "Error (AppError c m _ None) = code_text c @ '': '' @ m"
| "Error (AppError c m _ (Some cause)) = code_text c @ '': '' @ m @ '': '' @ Error cause"
| "Error (PlainError s) = s"

lemma err_code_newErr [simp]: "err_code_of (newErr c m) = c"
  by (simp add: newErr_def)

lemma err_code_WithDetails [simp]: "err_code_of (WithDetails e ds) = err_code_of e"
  by (cases e) auto

lemma err_code_Wrap [simp]: "err_code_of (Wrap e c) = err_code_of e"
  by (cases e) auto

lemma From_code: "err_code_of (From e) = err_code_of e \<and> From (From e) = From e"
  by (cases e) (auto simp: newErr_def)

section \<open>domain/authz\<close>

type_synonym permission = string

definition AllPermissions :: "permission list" where
  "AllPermissions =
    [''conversation.read'', ''conversation.assign'', ''conversation.transfer'', ''conversation.close'',
     ''message.send'', ''message.internal_note'', ''message.delete'',
     ''contact.read'', ''contact.write'', ''contact.view_financial'', ''contact.view_connection_status'',
     ''sector.manage'', ''queue.manage'', ''user.manage'',
     ''automation.manage'',
     ''copilot.use'', ''copilot.configure'',
     ''integration.read'', ''integration.configure'', ''integration.execute_action'',
     ''channel.manage'', ''webhook.manage'',
     ''group.view'', ''group.manage'',
     ''pipeline.view'', ''pipeline.manage'',
     ''deal.view'', ''deal.manage'',
     ''crm.manage'',
     ''report.view'', ''report.export'',
     ''audit.view'', ''privacy.manage'',
     ''customattribute.manage'']"

definition ConversationRead :: permission where "ConversationRead = ''conversation.read''"
definition MessageDelete :: permission where "MessageDelete = ''message.delete''"

definition IsValidPermission :: "permission \<Rightarrow> bool" where
  "IsValidPermission p \<longleftrightarrow> p \<in> set AllPermissions"

text \<open>
  \<open>SanitizePermissions\<close>: the first loop collects the valid permissions in a set, the second
  walks the catalog and emits those collected.
\<close>

definition SanitizePermissions :: "permission list \<Rightarrow> permission list" where
  "SanitizePermissions perms =
    (let seen = set (filter IsValidPermission perms) in filter (\<lambda>p. p \<in> seen) AllPermissions)"

definition ScopeAll :: string where "ScopeAll = ''all''"
definition ScopeOwn :: string where "ScopeOwn = ''own''"

lemma scope_distinct [simp]: "ScopeAll \<noteq> ScopeOwn" "ScopeOwn \<noteq> ScopeAll"
  by (simp_all add: ScopeAll_def ScopeOwn_def)

definition scope_valid :: "string \<Rightarrow> bool" where
  "scope_valid s \<longleftrightarrow> s = ScopeAll \<or> s = ScopeOwn"

record auth_context =
  ac_TenantID :: ident
  ac_UserID :: ident
  ac_Permissions :: "permission set"
  ac_SectorIDs :: "ident list"
  ac_SectorScope :: string

definition NewAuthContext ::
  "ident \<Rightarrow> ident \<Rightarrow> permission list \<Rightarrow> ident list \<Rightarrow> string \<Rightarrow> auth_context" where
  "NewAuthContext tenantID userID perms sectorIDs scope =
    \<lparr>ac_TenantID = tenantID, ac_UserID = userID, ac_Permissions = set perms,
     ac_SectorIDs = sectorIDs,
     ac_SectorScope = (if scope_valid scope then scope else ScopeOwn)\<rparr>"

definition SystemActor :: "ident \<Rightarrow> auth_context" where
  "SystemActor tenantID = NewAuthContext tenantID ''system'' AllPermissions [] ScopeAll"

definition ac_has :: "auth_context \<Rightarrow> permission \<Rightarrow> bool" where
  "ac_has ac p \<longleftrightarrow> p \<in> ac_Permissions ac"

definition PermissionList :: "auth_context \<Rightarrow> permission list" where
  "PermissionList ac = filter (\<lambda>p. p \<in> ac_Permissions ac) AllPermissions"

definition CanAccessSector :: "auth_context \<Rightarrow> ident \<Rightarrow> bool" where
  "CanAccessSector ac sectorID \<longleftrightarrow>
     ac_SectorScope ac = ScopeAll \<or> sectorID \<in> set (ac_SectorIDs ac)"

lemma distinct_AllPermissions: "distinct AllPermissions"
  by (simp add: AllPermissions_def)

lemma set_SanitizePermissions:
  "set (SanitizePermissions ps) = {p \<in> set ps. IsValidPermission p}"
  by (auto simp: SanitizePermissions_def IsValidPermission_def Let_def)

section \<open>The request context\<close>

text \<open>
  What the services read from a \<open>context.Context\<close>: the tenant and the authorization state
  (both absent when never set), and the automation origin and depth.
\<close>

record ctx =
  ctx_tenant :: "ident option"
  ctx_auth :: "auth_context option"
  ctx_origin :: "string option"
  ctx_depth :: "int option"

definition RequireTenant :: "ctx \<Rightarrow> ident res" where
  "RequireTenant c = (case ctx_tenant c of
     Some t \<Rightarrow> if t \<noteq> [] then Inr t else Inl (Forbidden ''missing tenant scope'')
   | None \<Rightarrow> Inl (Forbidden ''missing tenant scope''))"

definition WithTenant :: "ctx \<Rightarrow> ident \<Rightarrow> ctx" where
  "WithTenant c t = c\<lparr>ctx_tenant := Some t\<rparr>"

definition WithAuthContext :: "ctx \<Rightarrow> auth_context \<Rightarrow> ctx" where
  "WithAuthContext c ac = c\<lparr>ctx_auth := Some ac\<rparr>"

definition OriginExternal :: string where "OriginExternal = ''external''"
definition OriginAutomation :: string where "OriginAutomation = ''automation''"

lemma origin_distinct [simp]: "OriginExternal \<noteq> OriginAutomation" "OriginAutomation \<noteq> OriginExternal"
  "OriginAutomation \<noteq> []" "OriginExternal \<noteq> []"
  by (simp_all add: OriginExternal_def OriginAutomation_def)

definition WithRuleOrigin :: "ctx \<Rightarrow> string \<Rightarrow> ctx" where
  "WithRuleOrigin c o1 = c\<lparr>ctx_origin := Some o1\<rparr>"

definition RuleOriginFromContext :: "ctx \<Rightarrow> string" where
  "RuleOriginFromContext c = (case ctx_origin c of
     Some o1 \<Rightarrow> if o1 \<noteq> [] then o1 else OriginExternal | None \<Rightarrow> OriginExternal)"

definition WithRuleDepth :: "ctx \<Rightarrow> int \<Rightarrow> ctx" where
  "WithRuleDepth c d = c\<lparr>ctx_depth := Some d\<rparr>"

definition RuleDepthFromContext :: "ctx \<Rightarrow> int" where
  "RuleDepthFromContext c = (case ctx_depth c of Some d \<Rightarrow> d | None \<Rightarrow> 0)"

lemmas ctx_defs = WithTenant_def WithAuthContext_def WithRuleOrigin_def WithRuleDepth_def

lemma RequireTenant_Inr:
  "RequireTenant c = Inr t \<longleftrightarrow> ctx_tenant c = Some t \<and> t \<noteq> []"
  by (auto simp: RequireTenant_def split: option.splits if_splits)

lemma RequireTenant_cases:
  obtains (ok) t where "ctx_tenant c = Some t" "t \<noteq> []" "RequireTenant c = Inr t"
  | (missing) "RequireTenant c = Inl (Forbidden ''missing tenant scope'')"
proof (cases "\<exists>t. ctx_tenant c = Some t \<and> t \<noteq> []")
  case True
  then show ?thesis using ok by (auto simp: RequireTenant_Inr)
next
  case False
  then show ?thesis using missing by (auto simp: RequireTenant_def split: option.split)
qed

section \<open>Realtime topics\<close>

definition TopicTenant :: "ident \<Rightarrow> string" where
  "TopicTenant t = ''t:'' @ t @ '':tenant''"

definition TopicPresence :: "ident \<Rightarrow> string" where
  "TopicPresence t = ''t:'' @ t @ '':presence''"

definition TopicUser :: "ident \<Rightarrow> ident \<Rightarrow> string" where
  "TopicUser t u = ''t:'' @ t @ '':user:'' @ u"

definition TopicConversation :: "ident \<Rightarrow> ident \<Rightarrow> string" where
  "TopicConversation t c = ''t:'' @ t @ '':conversation:'' @ c"

definition TopicInbox :: "ident \<Rightarrow> ident \<Rightarrow> string" where
  "TopicInbox t s = ''t:'' @ t @ '':inbox:'' @ s"

definition TopicUnassigned :: "ident \<Rightarrow> string" where
  "TopicUnassigned t = ''t:'' @ t @ '':unassigned''"

definition InboxTopicsFor :: "ident \<Rightarrow> ident \<Rightarrow> ident \<Rightarrow> string list" where
  "InboxTopicsFor t sectorID assignedTo =
    (if sectorID \<noteq> [] then [TopicInbox t sectorID]
     else TopicUnassigned t # (if assignedTo \<noteq> [] then [TopicUser t assignedTo] else []))"

definition DealTopicsFor :: "ident \<Rightarrow> ident \<Rightarrow> ident \<Rightarrow> string list" where
  "DealTopicsFor t sectorID assignedTo =
     TopicUnassigned t # (if sectorID \<noteq> [] then [TopicInbox t sectorID] else [])
       @ (if assignedTo \<noteq> [] then [TopicUser t assignedTo] else [])"

text \<open>
  The rooms a client joins when its socket opens
  (\<open>presenter/websocket/handler.go\<close>, \<open>joinDefaultRooms\<close>), from the claims of its token.
\<close>

definition joinDefaultRooms :: "auth_context \<Rightarrow> string set" where
  "joinDefaultRooms ac =
    {TopicTenant (ac_TenantID ac), TopicUser (ac_TenantID ac) (ac_UserID ac),
     TopicPresence (ac_TenantID ac)}
    \<union> (if ac_SectorScope ac = ScopeAll then {TopicUnassigned (ac_TenantID ac)} else {})
    \<union> {TopicInbox (ac_TenantID ac) s | s. s \<in> set (ac_SectorIDs ac) \<and> s \<noteq> []}"

text \<open>
  A topic is its tenant, a scope and an identifier separated by colons, so two topics of
  identifiers without a colon are equal only when their parts are.
\<close>

definition no_colon :: "string \<Rightarrow> bool" where
  "no_colon s \<longleftrightarrow> CHR '':'' \<notin> set s"

lemma colon_split:
  "no_colon a \<Longrightarrow> no_colon b \<Longrightarrow> a @ CHR '':'' # x = b @ CHR '':'' # y \<Longrightarrow> a = b \<and> x = y"
proof (induction a arbitrary: b)
  case Nil
  then show ?case by (cases b) (auto simp: no_colon_def)
next
  case (Cons c a)
  then show ?case by (cases b) (auto simp: no_colon_def)
qed

lemma topic_eq:
  assumes "no_colon a" "no_colon b"
  shows "''t:'' @ a @ CHR '':'' # x = ''t:'' @ b @ CHR '':'' # y \<longleftrightarrow> a = b \<and> x = y"
  using colon_split [OF assms] by auto

lemmas topic_defs = TopicTenant_def TopicPresence_def TopicUser_def TopicConversation_def
  TopicInbox_def TopicUnassigned_def

section \<open>Pagination\<close>

text \<open>
  The token of a page is opaque to clients: it is empty, malformed, or the encoding of a
  cursor (its JSON in URL-safe base64), and the model keeps which.
\<close>

record cursor =
  cur_CreatedAt :: int
  cur_ID :: ident

datatype page_token = NoToken | BadToken | Token cursor

definition DecodeCursor :: "page_token \<Rightarrow> cursor res" where
  "DecodeCursor tok = (case tok of
     NoToken \<Rightarrow> Inr \<lparr>cur_CreatedAt = 0, cur_ID = []\<rparr>
   | BadToken \<Rightarrow> Inl (Validation ''invalid cursor'')
   | Token c \<Rightarrow> Inr c)"

record page_request =
  pr_Cursor :: page_token
  pr_Limit :: int

definition DefaultPageSize :: int where "DefaultPageSize = 25"
definition MaxPageSize :: int where "MaxPageSize = 100"

definition Normalize :: "page_request \<Rightarrow> page_request" where
  "Normalize p =
    (let l1 = (if pr_Limit p \<le> 0 then DefaultPageSize else pr_Limit p);
         l2 = (if l1 > MaxPageSize then MaxPageSize else l1)
     in p\<lparr>pr_Limit := l2\<rparr>)"

lemma Normalize_bounds:
  "1 \<le> pr_Limit (Normalize p) \<and> pr_Limit (Normalize p) \<le> MaxPageSize"
  by (simp add: Normalize_def Let_def DefaultPageSize_def MaxPageSize_def)

record page_info =
  pi_NextCursor :: page_token
  pi_HasMore :: bool

text \<open>
  \<open>NewPage\<close>: the repository over-fetches by one; the extra element says there is a next
  page and the last one kept gives its cursor.
\<close>

definition NewPage :: "'a list \<Rightarrow> nat \<Rightarrow> ('a \<Rightarrow> cursor) \<Rightarrow> 'a list \<times> page_info" where
  "NewPage items limit cursorOf =
    (let hasMore = length items > limit;
         items' = (if hasMore then take limit items else items)
     in (items', \<lparr>pi_NextCursor = (if hasMore \<and> items' \<noteq> [] then Token (cursorOf (last items')) else NoToken),
                  pi_HasMore = hasMore\<rparr>))"

end
