(* ===== verification/Mongo.thy ===== *)
theory Mongo
  imports Shared "HOL-Library.List_Lexorder" "HOL-Library.Char_ord" "HOL-Library.Product_Lexorder"
begin

text \<open>
  \<open>infra/database/mongodb\<close>: a collection is the list of its documents in the server's
  natural order, and the driver's calls are the list operations they stand for. Every call
  first meets the fault the environment has in store for it. The keyset pagination of
  helpers.go is here too, with the proof that walking the pages enumerates a collection.
\<close>

section \<open>Driver errors\<close>

datatype mongo_err = ErrNoDocuments | DuplicateKey | DriverError string

definition MapError :: "mongo_err \<Rightarrow> goerr" where
  "MapError e = (case e of
     ErrNoDocuments \<Rightarrow> NotFound ''resource not found''
   | DuplicateKey \<Rightarrow> Conflict ''resource already exists''
   | DriverError msg \<Rightarrow> Wrap (Internal ''database error'') (PlainError msg))"

lemma MapError_code [simp]:
  "err_code_of (MapError ErrNoDocuments) = CodeNotFound"
  "err_code_of (MapError DuplicateKey) = CodeConflict"
  "err_code_of (MapError (DriverError m)) = CodeInternal"
  by (simp_all add: MapError_def)

text \<open>A round trip to the server: it fails with the environment's fault or runs.\<close>

definition db_call :: "'e env_scheme \<Rightarrow> ('z base_world_scheme, 'a) io \<Rightarrow> ('z base_world_scheme, 'a) io" where
  "db_call env m = (\<lambda>w. case fault env (step w) of
     Some e \<Rightarrow> (Inl (MapError (DriverError e)), tick w)
   | None \<Rightarrow> m (tick w))"

lemma wp_db_call [io_wp]:
  "wp (db_call env m) Q E w =
     (case fault env (step w) of
        Some e \<Rightarrow> E (MapError (DriverError e)) (tick w) | None \<Rightarrow> wp m Q E (tick w))"
  by (simp add: wp_def db_call_def split: option.split)

section \<open>Collections\<close>

text \<open>\<open>InsertOne\<close> (the \<open>_id\<close> index is unique), \<open>FindOne\<close>, \<open>UpdateOne\<close>.\<close>

definition insert_one :: "('d \<Rightarrow> ident) \<Rightarrow> 'd \<Rightarrow> 'd list \<Rightarrow> mongo_err + 'd list" where
  "insert_one key d ds = (if key d \<in> key ` set ds then Inl DuplicateKey else Inr (ds @ [d]))"

definition find_one :: "('d \<Rightarrow> bool) \<Rightarrow> 'd list \<Rightarrow> mongo_err + 'd" where
  "find_one p ds = (case find p ds of None \<Rightarrow> Inl ErrNoDocuments | Some d \<Rightarrow> Inr d)"

fun update_first :: "('d \<Rightarrow> bool) \<Rightarrow> ('d \<Rightarrow> 'd) \<Rightarrow> 'd list \<Rightarrow> 'd list" where
  "update_first p f [] = []"
| "update_first p f (d # ds) = (if p d then f d # ds else d # update_first p f ds)"

text \<open>\<open>MatchedCount == 0\<close> becomes \<open>ErrNoDocuments\<close> in every repository's \<open>Update\<close>.\<close>

definition update_one :: "('d \<Rightarrow> bool) \<Rightarrow> ('d \<Rightarrow> 'd) \<Rightarrow> 'd list \<Rightarrow> mongo_err + 'd list" where
  "update_one p f ds = (if \<exists>d \<in> set ds. p d then Inr (update_first p f ds) else Inl ErrNoDocuments)"

text \<open>\<open>FindOne\<close> with a descending sort: the first maximal document in natural order.\<close>

definition find_latest :: "('d \<Rightarrow> bool) \<Rightarrow> ('d \<Rightarrow> int) \<Rightarrow> 'd list \<Rightarrow> mongo_err + 'd" where
  "find_latest p t ds = find_one (\<lambda>_. True) (sort_key (\<lambda>d. - t d) (filter p ds))"

definition map_err :: "mongo_err + 'a \<Rightarrow> 'a res" where
  "map_err r = (case r of Inl e \<Rightarrow> Inl (MapError e) | Inr x \<Rightarrow> Inr x)"

lemma map_err_simps [simp]:
  "map_err (Inl e) = Inl (MapError e)" "map_err (Inr x) = Inr x"
  by (simp_all add: map_err_def)

subsection \<open>What updates keep\<close>

lemma length_update_first [simp]: "length (update_first p f ds) = length ds"
  by (induction ds) auto

lemma map_update_first: "(\<And>d. p d \<Longrightarrow> g (f d) = g d) \<Longrightarrow> map g (update_first p f ds) = map g ds"
  by (induction ds) auto

lemma filter_update_first:
  "(\<And>d. p d \<Longrightarrow> \<not> q d \<and> \<not> q (f d)) \<Longrightarrow> filter q (update_first p f ds) = filter q ds"
  by (induction ds) auto

lemma set_update_first: "d' \<in> set (update_first p f ds) \<Longrightarrow> d' \<in> set ds \<or> (\<exists>d \<in> set ds. p d \<and> d' = f d)"
  by (induction ds) (auto split: if_splits)

lemma find_update_first:
  "(\<And>d. p d \<Longrightarrow> p (f d)) \<Longrightarrow> find p (update_first p f ds) = map_option f (find p ds)"
  by (induction ds) auto

lemma find_update_other:
  "(\<And>d. p d \<Longrightarrow> \<not> q d \<and> \<not> q (f d)) \<Longrightarrow> find q (update_first p f ds) = find q ds"
  by (induction ds) auto

lemma find_None_update: "find p ds = None \<Longrightarrow> update_first p f ds = ds"
  by (induction ds) (auto split: if_splits)

lemma find_append_last: "find p (ds @ [d]) = (case find p ds of None \<Rightarrow> if p d then Some d else None | Some x \<Rightarrow> Some x)"
  by (induction ds) auto

lemma update_one_find: "update_one p f ds = (case find p ds of None \<Rightarrow> Inl ErrNoDocuments | Some _ \<Rightarrow> Inr (update_first p f ds))"
  by (auto simp: update_one_def find_None_iff split: option.split) (metis find_None_iff option.distinct(1))+

text \<open>
  A tenant-scoped document store as the repositories promise it: documents are found and
  updated by identifier within one tenant, and identifiers are unique.
\<close>

locale tenant_docs =
  fixes key :: "'d \<Rightarrow> ident" and tenant :: "'d \<Rightarrow> ident" and merge :: "'d \<Rightarrow> 'd \<Rightarrow> 'd"
  assumes merge_key: "key (merge new old) = key old"
    and merge_tenant: "tenant (merge new old) = tenant old"
begin

lemma insert_keys_distinct:
  "distinct (map key ds) \<Longrightarrow> insert_one key d ds = Inr ds' \<Longrightarrow> distinct (map key ds')"
  by (auto simp: insert_one_def split: if_splits)

lemma update_keys:
  "map key (update_first (\<lambda>d. key d = i \<and> tenant d = t) (merge new) ds) = map key ds"
  by (rule map_update_first) (simp add: merge_key)

lemma update_other_tenants:
  "filter (\<lambda>d. tenant d \<noteq> t) (update_first (\<lambda>d. key d = i \<and> tenant d = t) (merge new) ds)
     = filter (\<lambda>d. tenant d \<noteq> t) ds"
  by (rule filter_update_first) (simp add: merge_tenant)

lemma insert_other_tenants:
  "insert_one key d ds = Inr ds' \<Longrightarrow> tenant d = t \<Longrightarrow>
     filter (\<lambda>d. tenant d \<noteq> t) ds' = filter (\<lambda>d. tenant d \<noteq> t) ds"
  by (auto simp: insert_one_def split: if_splits)

lemma find_after_update:
  "find (\<lambda>d. key d = i \<and> tenant d = t) (update_first (\<lambda>d. key d = i \<and> tenant d = t) (merge new) ds)
     = map_option (merge new) (find (\<lambda>d. key d = i \<and> tenant d = t) ds)"
  by (rule find_update_first) (simp add: merge_key merge_tenant)

lemma find_after_update_other:
  "j \<noteq> i \<Longrightarrow> find (\<lambda>d. key d = j \<and> tenant d = t)
       (update_first (\<lambda>d. key d = i \<and> tenant d = t) (merge new) ds)
     = find (\<lambda>d. key d = j \<and> tenant d = t) ds"
  by (rule find_update_other) (simp add: merge_key)

lemma find_after_insert:
  assumes "insert_one key d ds = Inr ds'" "tenant d = t"
  shows "find (\<lambda>x. key x = key d \<and> tenant x = t) ds' = Some d"
proof -
  have "key d \<notin> key ` set ds" and ds': "ds' = ds @ [d]"
    using assms(1) by (auto simp: insert_one_def split: if_splits)
  then have "find (\<lambda>x. key x = key d \<and> tenant x = t) ds = None"
    unfolding find_None_iff by (auto simp: image_iff)
  then show ?thesis using assms(2) ds' by (simp add: find_append_last)
qed

end

section \<open>Keyset pagination\<close>

text \<open>
  \<open>KeysetSort\<close> orders by (time, id) descending and \<open>ApplyKeyset\<close> keeps what lies strictly
  after the cursor in that order; an empty identifier means the first page. A cursor holds
  milliseconds, the precision at which the server stores instants. Strings are compared
  byte by byte.
\<close>

definition Millisecond :: duration where "Millisecond = 1000000"

definition CursorOf :: "time \<Rightarrow> ident \<Rightarrow> cursor" where
  "CursorOf t i = \<lparr>cur_CreatedAt = t div Millisecond, cur_ID = i\<rparr>"

definition KeysetSort :: "('d \<Rightarrow> time) \<Rightarrow> ('d \<Rightarrow> ident) \<Rightarrow> 'd list \<Rightarrow> 'd list" where
  "KeysetSort t i ds = rev (sort_key (\<lambda>d. (t d, i d)) ds)"

definition ApplyKeyset :: "('d \<Rightarrow> time) \<Rightarrow> ('d \<Rightarrow> ident) \<Rightarrow> cursor \<Rightarrow> 'd \<Rightarrow> bool" where
  "ApplyKeyset t i cur d \<longleftrightarrow>
     (if cur_ID cur = [] then True
      else let from = cur_CreatedAt cur * Millisecond
           in t d < from \<or> t d = from \<and> i d < cur_ID cur)"

text \<open>One listing as the repositories do it: filter, keyset condition, sort, over-fetch by one.\<close>

definition list_page ::
  "('d \<Rightarrow> bool) \<Rightarrow> ('d \<Rightarrow> time) \<Rightarrow> ('d \<Rightarrow> ident) \<Rightarrow> cursor \<Rightarrow> int \<Rightarrow> 'd list \<Rightarrow> 'd list" where
  "list_page p t i cur limit ds =
     take (nat (limit + 1)) (KeysetSort t i (filter (\<lambda>d. p d \<and> ApplyKeyset t i cur d) ds))"

text \<open>
  A client that follows \<open>next_cursor\<close> while \<open>has_more\<close>, for at most \<open>n\<close> requests.
\<close>

fun walk_pages ::
  "nat \<Rightarrow> ('d \<Rightarrow> bool) \<Rightarrow> ('d \<Rightarrow> time) \<Rightarrow> ('d \<Rightarrow> ident) \<Rightarrow> nat \<Rightarrow> 'd list \<Rightarrow> page_token \<Rightarrow> 'd list" where
  "walk_pages 0 p t i limit ds tok = []"
| "walk_pages (Suc n) p t i limit ds tok = (case DecodeCursor tok of
     Inl _ \<Rightarrow> []
   | Inr cur \<Rightarrow>
       (case NewPage (list_page p t i cur (int limit) ds) limit (\<lambda>d. CursorOf (t d) (i d)) of
          (items, info) \<Rightarrow>
            items @ (if pi_HasMore info then walk_pages n p t i limit ds (pi_NextCursor info) else [])))"

definition after :: "('d \<Rightarrow> time) \<Rightarrow> ('d \<Rightarrow> ident) \<Rightarrow> 'd \<Rightarrow> 'd \<Rightarrow> bool" where
  "after t i d e \<longleftrightarrow> (t d, i d) < (t e, i e)"

lemma ApplyKeyset_CursorOf:
  "t e mod Millisecond = 0 \<Longrightarrow> i e \<noteq> [] \<Longrightarrow> ApplyKeyset t i (CursorOf (t e) (i e)) d = after t i d e"
  by (auto simp: ApplyKeyset_def CursorOf_def after_def Let_def)

lemma filter_sort_key: "filter p (sort_key f xs) = sort_key f (filter p xs)"
  by (induction xs) (simp_all add: filter_insort_triv filter_insort)

lemma filter_KeysetSort: "filter p (KeysetSort t i ds) = KeysetSort t i (filter p ds)"
  by (simp add: KeysetSort_def rev_filter [symmetric] filter_sort_key)

lemma KeysetSort_sorted:
  assumes "distinct (map i ds)"
  shows "sorted_wrt (\<lambda>x y. after t i y x) (KeysetSort t i ds)"
proof -
  let ?f = "\<lambda>d. (t d, i d)"
  have "distinct (map i (sort_key ?f ds))"
    using assms by (metis distinct_map distinct_sort inj_on_def set_sort)
  moreover have "map snd (map ?f (sort_key ?f ds)) = map i (sort_key ?f ds)" by simp
  ultimately have "distinct (map ?f (sort_key ?f ds))" by (metis distinct_map)
  then have "sorted_wrt (<) (map ?f (sort_key ?f ds))"
    by (simp add: strict_sorted_iff sorted_sort_key)
  then show ?thesis by (simp add: KeysetSort_def sorted_wrt_rev sorted_wrt_map after_def)
qed

lemma sorted_wrt_after:
  assumes "sorted_wrt (\<lambda>x y. after t i y x) (xs @ e # ys)"
  shows "filter (\<lambda>d. after t i d e) (xs @ e # ys) = ys"
proof -
  have "\<not> after t i x e" if "x \<in> set xs" for x
    using assms that by (force simp: sorted_wrt_append after_def)
  moreover have "after t i y e" if "y \<in> set ys" for y
    using assms that by (auto simp: sorted_wrt_append)
  moreover have "\<not> after t i e e" by (simp add: after_def)
  ultimately show ?thesis by (simp add: filter_empty_conv cong: filter_cong)
qed

text \<open>
  The position of a token in the sorted listing: at its start, or just after the last
  element already seen.
\<close>

definition at_token :: "('d \<Rightarrow> time) \<Rightarrow> ('d \<Rightarrow> ident) \<Rightarrow> page_token \<Rightarrow> 'd list \<Rightarrow> bool" where
  "at_token t i tok seen \<longleftrightarrow>
     (if seen = [] then tok = NoToken else tok = Token (CursorOf (t (last seen)) (i (last seen))))"

lemma list_page_at:
  assumes "distinct (map i ds)" "\<And>d. d \<in> set ds \<Longrightarrow> t d mod Millisecond = 0 \<and> i d \<noteq> []"
    and split: "KeysetSort t i (filter p ds) = seen @ rest" and tok: "at_token t i tok seen"
  shows "\<exists>cur. DecodeCursor tok = Inr cur \<and> list_page p t i cur limit ds = take (nat (limit + 1)) rest"
proof (cases "seen = []")
  case True
  then show ?thesis using tok split
    by (simp add: at_token_def DecodeCursor_def list_page_def ApplyKeyset_def)
next
  case False
  then obtain xs e where seen: "seen = xs @ [e]" by (metis rev_exhaust)
  have "e \<in> set (KeysetSort t i (filter p ds))" using split seen by simp
  then have "e \<in> set ds" by (simp add: KeysetSort_def)
  then have ak: "ApplyKeyset t i (CursorOf (t e) (i e)) d = after t i d e" for d
    using assms(2) by (simp add: ApplyKeyset_CursorOf)
  have "sorted_wrt (\<lambda>x y. after t i y x) (xs @ e # rest)"
    using KeysetSort_sorted [of i "filter p ds" t] assms(1) split seen by (simp add: distinct_map_filter)
  from sorted_wrt_after [OF this]
  have "KeysetSort t i (filter (\<lambda>d. p d \<and> after t i d e) ds) = rest"
    using split seen filter_KeysetSort [of "\<lambda>d. after t i d e" t i "filter p ds"]
    by (simp add: conj_commute)
  then show ?thesis using tok seen False
    by (simp add: at_token_def DecodeCursor_def list_page_def ak)
qed

lemma walk_pages_rest:
  assumes "distinct (map i ds)" "\<And>d. d \<in> set ds \<Longrightarrow> t d mod Millisecond = 0 \<and> i d \<noteq> []" "0 < limit"
  shows "KeysetSort t i (filter p ds) = seen @ rest \<Longrightarrow> at_token t i tok seen \<Longrightarrow> length rest < n
    \<Longrightarrow> walk_pages n p t i limit ds tok = rest"
proof (induction n arbitrary: seen rest tok)
  case (Suc n)
  obtain cur where cur: "DecodeCursor tok = Inr cur"
      "list_page p t i cur (int limit) ds = take (nat (int limit + 1)) rest"
    using list_page_at [OF assms(1,2) Suc.prems(1,2)] by blast
  have lim: "nat (int limit + 1) = Suc limit" by simp
  show ?case
  proof (cases "length rest \<le> limit")
    case True
    then show ?thesis using cur by (simp add: lim NewPage_def Let_def)
  next
    case False
    let ?hd = "take limit rest"
    have more: "limit < length (take (Suc limit) rest)" "take limit (take (Suc limit) rest) = ?hd"
      using False by (simp_all add: min_def)
    moreover have "?hd \<noteq> []" using False \<open>0 < limit\<close> by auto
    moreover have "walk_pages n p t i limit ds (Token (CursorOf (t (last ?hd)) (i (last ?hd)))) = drop limit rest"
    proof (rule Suc.IH)
      show "KeysetSort t i (filter p ds) = (seen @ ?hd) @ drop limit rest" using Suc.prems(1) by simp
      show "at_token t i (Token (CursorOf (t (last ?hd)) (i (last ?hd)))) (seen @ ?hd)"
        using \<open>?hd \<noteq> []\<close> by (simp add: at_token_def)
      show "length (drop limit rest) < n" using Suc.prems(3) False \<open>0 < limit\<close> by simp
    qed
    ultimately show ?thesis using cur by (simp add: lim NewPage_def Let_def)
  qed
qed simp

end
