(* ===== verification/Conv_Entity.thy ===== *)
theory Conv_Entity
  imports Shared
begin

text \<open>
  \<open>domain/conversations/entity\<close>: the conversation, its last-message snapshot and the WhatsApp
  service window (conversation.go), the message with its structured payloads and their
  validators and the delivery-status ladder (message.go), and the timeline event (event.go).
  A Go string type stays a string, since a request can carry any value of it.
\<close>

section \<open>Conversation status and priority\<close>

definition StatusNew :: string where "StatusNew = ''new''"
definition StatusQueued :: string where "StatusQueued = ''queued''"
definition StatusAssigned :: string where "StatusAssigned = ''assigned''"
definition StatusWaitingCustomer :: string where "StatusWaitingCustomer = ''waiting_customer''"
definition StatusWaitingAgent :: string where "StatusWaitingAgent = ''waiting_agent''"
definition StatusTransferred :: string where "StatusTransferred = ''transferred''"
definition StatusResolved :: string where "StatusResolved = ''resolved''"
definition StatusClosed :: string where "StatusClosed = ''closed''"
definition StatusArchived :: string where "StatusArchived = ''archived''"

lemmas status_defs = StatusNew_def StatusQueued_def StatusAssigned_def StatusWaitingCustomer_def
  StatusWaitingAgent_def StatusTransferred_def StatusResolved_def StatusClosed_def StatusArchived_def

lemma distinct_status:
  "distinct [StatusNew, StatusQueued, StatusAssigned, StatusWaitingCustomer, StatusWaitingAgent,
     StatusTransferred, StatusResolved, StatusClosed, StatusArchived]"
  "distinct (rev [StatusNew, StatusQueued, StatusAssigned, StatusWaitingCustomer, StatusWaitingAgent,
     StatusTransferred, StatusResolved, StatusClosed, StatusArchived])"
  by (simp_all add: status_defs)

lemmas status_distinct [simp] = distinct_status [simplified]

definition status_valid :: "string \<Rightarrow> bool" where
  "status_valid s \<longleftrightarrow> s \<in> {StatusNew, StatusQueued, StatusAssigned,
     StatusWaitingCustomer, StatusWaitingAgent, StatusTransferred,
     StatusResolved, StatusClosed, StatusArchived}"

definition status_is_closed :: "string \<Rightarrow> bool" where
  "status_is_closed s \<longleftrightarrow> s = StatusResolved \<or> s = StatusClosed \<or> s = StatusArchived"

definition PriorityLow :: string where "PriorityLow = ''low''"
definition PriorityNormal :: string where "PriorityNormal = ''normal''"
definition PriorityHigh :: string where "PriorityHigh = ''high''"
definition PriorityUrgent :: string where "PriorityUrgent = ''urgent''"

lemmas priority_defs = PriorityLow_def PriorityNormal_def PriorityHigh_def PriorityUrgent_def

definition priority_valid :: "string \<Rightarrow> bool" where
  "priority_valid p \<longleftrightarrow> p \<in> {PriorityLow, PriorityNormal, PriorityHigh, PriorityUrgent}"

lemma status_closed_valid: "status_is_closed s \<Longrightarrow> status_valid s"
  by (auto simp: status_is_closed_def status_valid_def)

lemma status_is_closed_simps [simp]:
  "status_is_closed StatusResolved" "status_is_closed StatusClosed" "status_is_closed StatusArchived"
  "\<not> status_is_closed StatusNew" "\<not> status_is_closed StatusQueued" "\<not> status_is_closed StatusAssigned"
  "\<not> status_is_closed StatusTransferred" "\<not> status_is_closed StatusWaitingCustomer"
  "\<not> status_is_closed StatusWaitingAgent"
  by (simp_all add: status_is_closed_def)

lemma status_valid_simps [simp]:
  "status_valid StatusResolved" "status_valid StatusClosed" "status_valid StatusArchived"
  "status_valid StatusNew" "status_valid StatusQueued" "status_valid StatusAssigned"
  "status_valid StatusTransferred" "status_valid StatusWaitingCustomer" "status_valid StatusWaitingAgent"
  by (simp_all add: status_valid_def)

section \<open>Messages\<close>

definition SenderCustomer :: string where "SenderCustomer = ''customer''"
definition SenderAgent :: string where "SenderAgent = ''agent''"
definition SenderSystem :: string where "SenderSystem = ''system''"
definition SenderCopilot :: string where "SenderCopilot = ''copilot''"
definition SenderAutomation :: string where "SenderAutomation = ''automation''"

lemmas sender_defs = SenderCustomer_def SenderAgent_def SenderSystem_def SenderCopilot_def
  SenderAutomation_def

lemma distinct_sender:
  "distinct [SenderCustomer, SenderAgent, SenderSystem, SenderCopilot, SenderAutomation]"
  "distinct (rev [SenderCustomer, SenderAgent, SenderSystem, SenderCopilot, SenderAutomation])"
  by (simp_all add: sender_defs)

lemmas sender_distinct [simp] = distinct_sender [simplified]

definition DirectionInbound :: string where "DirectionInbound = ''inbound''"
definition DirectionOutbound :: string where "DirectionOutbound = ''outbound''"
definition DirectionInternal :: string where "DirectionInternal = ''internal''"

lemma direction_distinct [simp]:
  "DirectionInbound \<noteq> DirectionOutbound" "DirectionInbound \<noteq> DirectionInternal"
  "DirectionOutbound \<noteq> DirectionInternal" "DirectionOutbound \<noteq> DirectionInbound"
  "DirectionInternal \<noteq> DirectionInbound" "DirectionInternal \<noteq> DirectionOutbound"
  by (simp_all add: DirectionInbound_def DirectionOutbound_def DirectionInternal_def)

definition MessageText :: string where "MessageText = ''text''"
definition MessageImage :: string where "MessageImage = ''image''"
definition MessageFile :: string where "MessageFile = ''file''"
definition MessageAudio :: string where "MessageAudio = ''audio''"
definition MessageVideo :: string where "MessageVideo = ''video''"
definition MessageContact :: string where "MessageContact = ''contact''"
definition MessageLocation :: string where "MessageLocation = ''location''"
definition MessageInteractive :: string where "MessageInteractive = ''interactive''"
definition MessageInteractiveReply :: string where "MessageInteractiveReply = ''interactive_reply''"
definition MessageTemplate :: string where "MessageTemplate = ''template''"
definition MessageSystem :: string where "MessageSystem = ''system''"

lemmas mtype_defs = MessageText_def MessageImage_def MessageFile_def MessageAudio_def
  MessageVideo_def MessageContact_def MessageLocation_def MessageInteractive_def
  MessageInteractiveReply_def MessageTemplate_def MessageSystem_def

lemma distinct_mtype:
  "distinct [MessageText, MessageImage, MessageFile, MessageAudio, MessageVideo, MessageContact,
     MessageLocation, MessageInteractive, MessageInteractiveReply, MessageTemplate, MessageSystem]"
  "distinct (rev [MessageText, MessageImage, MessageFile, MessageAudio, MessageVideo, MessageContact,
     MessageLocation, MessageInteractive, MessageInteractiveReply, MessageTemplate, MessageSystem])"
  by (simp_all add: mtype_defs)

lemmas mtype_distinct [simp] = distinct_mtype [simplified]

definition mtype_valid :: "string \<Rightarrow> bool" where
  "mtype_valid t \<longleftrightarrow> t \<in> {MessageText, MessageImage, MessageFile, MessageAudio, MessageVideo,
     MessageContact, MessageLocation, MessageInteractive, MessageInteractiveReply,
     MessageTemplate, MessageSystem}"

definition MessageTypeForContentType :: "string \<Rightarrow> string" where
  "MessageTypeForContentType ct =
    (if has_prefix ct ''image/'' then MessageImage
     else if has_prefix ct ''audio/'' then MessageAudio
     else if has_prefix ct ''video/'' then MessageVideo
     else MessageFile)"

subsection \<open>Contact cards and locations\<close>

record contact_name =
  cn_Formatted :: string
  cn_First :: string
  cn_Last :: string

record contact_phone =
  cp_Phone :: string
  cp_Type :: string
  cp_WaID :: string

record contact_email =
  ce_Email :: string
  ce_Type :: string

record contact_org =
  co_Company :: string
  co_Title :: string

record contact_card =
  cc_Name :: contact_name
  cc_Phones :: "contact_phone list"
  cc_Emails :: "contact_email list"
  cc_Organization :: "contact_org option"

record location =
  loc_Latitude :: float64
  loc_Longitude :: float64
  loc_Name :: string
  loc_Address :: string

definition MaxContactsPerMessage :: nat where "MaxContactsPerMessage = 10"

fun validate_phones :: "contact_phone list \<Rightarrow> string" where
  "validate_phones [] = []"
| "validate_phones (p # ps) =
     (if trim_space (cp_Phone p) = [] then ''contact phone must not be empty'' else validate_phones ps)"

fun validate_cards :: "contact_card list \<Rightarrow> string" where
  "validate_cards [] = []"
| "validate_cards (c # cs) =
     (if trim_space (cn_Formatted (cc_Name c)) = [] \<and> trim_space (cn_First (cc_Name c)) = []
           \<and> trim_space (cn_Last (cc_Name c)) = []
      then ''each contact requires a name''
      else if cc_Phones c = [] then ''each contact requires at least one phone''
      else let msg = validate_phones (cc_Phones c)
           in if msg \<noteq> [] then msg else validate_cards cs)"

definition ValidateContacts :: "contact_card list \<Rightarrow> string" where
  "ValidateContacts cs =
    (if length cs = 0 then ''contacts are required for message_type=contact''
     else if length cs > MaxContactsPerMessage then ''at most 10 contacts per message''
     else validate_cards cs)"

definition location_Validate :: "location option \<Rightarrow> string" where
  "location_Validate l0 = (case l0 of
     None \<Rightarrow> ''location is required for message_type=location''
   | Some l \<Rightarrow>
      if f64_less (loc_Latitude l) (Fin (- 90)) \<or> f64_less (Fin 90) (loc_Latitude l)
      then ''latitude must be between -90 and 90''
      else if f64_less (loc_Longitude l) (Fin (- 180)) \<or> f64_less (Fin 180) (loc_Longitude l)
      then ''longitude must be between -180 and 180''
      else [])"

subsection \<open>Interactive menus\<close>

definition InteractiveButtons :: string where "InteractiveButtons = ''buttons''"
definition InteractiveList :: string where "InteractiveList = ''list''"

lemma interactive_distinct [simp]:
  "InteractiveButtons \<noteq> InteractiveList" "InteractiveList \<noteq> InteractiveButtons"
  by (simp_all add: InteractiveButtons_def InteractiveList_def)

record interactive_button =
  ib_ID :: string
  ib_Title :: string

record interactive_row =
  ir_ID :: string
  ir_Title :: string
  ir_Description :: string

record interactive_section =
  is_Title :: string
  is_Rows :: "interactive_row list"

record interactive =
  iv_Kind :: string
  iv_Header :: string
  iv_Body :: string
  iv_Footer :: string
  iv_Buttons :: "interactive_button list"
  iv_Button :: string
  iv_Sections :: "interactive_section list"

record interactive_reply =
  irp_Type :: string
  irp_ID :: string
  irp_Title :: string
  irp_Description :: string
  irp_ContextMessageID :: ident

definition tooLong :: "string \<Rightarrow> nat \<Rightarrow> bool" where
  "tooLong s mx \<longleftrightarrow> rune_count s > mx"

text \<open>The loop over the buttons, with the set of identifiers already seen.\<close>

fun validate_buttons :: "string set \<Rightarrow> interactive_button list \<Rightarrow> string" where
  "validate_buttons seen [] = []"
| "validate_buttons seen (b # bs) =
     (if trim_space (ib_ID b) = [] then ''button id is required''
      else if tooLong (ib_ID b) 256 then ''button id must be at most 256 characters''
      else if trim_space (ib_Title b) = [] then ''button title is required''
      else if tooLong (ib_Title b) 20 then ''button title must be at most 20 characters''
      else if ib_ID b \<in> seen then ''button ids must be unique within the message''
      else validate_buttons (insert (ib_ID b) seen) bs)"

text \<open>
  The two nested loops of a list menu: the identifiers seen and the number of rows are
  carried across the sections. \<open>Inl\<close> is the reason the source returns.
\<close>

fun validate_rows ::
  "string set \<Rightarrow> nat \<Rightarrow> interactive_row list \<Rightarrow> string + (string set \<times> nat)" where
  "validate_rows seen n [] = Inr (seen, n)"
| "validate_rows seen n (r # rs) =
     (if trim_space (ir_ID r) = [] then Inl ''row id is required''
      else if tooLong (ir_ID r) 200 then Inl ''row id must be at most 200 characters''
      else if trim_space (ir_Title r) = [] then Inl ''row title is required''
      else if tooLong (ir_Title r) 24 then Inl ''row title must be at most 24 characters''
      else if tooLong (ir_Description r) 72 then Inl ''row description must be at most 72 characters''
      else if ir_ID r \<in> seen then Inl ''row ids must be unique within the message''
      else validate_rows (insert (ir_ID r) seen) (Suc n) rs)"

fun validate_sections ::
  "string set \<Rightarrow> nat \<Rightarrow> interactive_section list \<Rightarrow> string + (string set \<times> nat)" where
  "validate_sections seen n [] = Inr (seen, n)"
| "validate_sections seen n (s # ss) =
     (if tooLong (is_Title s) 24 then Inl ''section title must be at most 24 characters''
      else if is_Rows s = [] then Inl ''each list section requires at least one row''
      else case validate_rows seen n (is_Rows s) of
        Inl msg \<Rightarrow> Inl msg
      | Inr (seen', n') \<Rightarrow> validate_sections seen' n' ss)"

definition validate_kind_buttons :: "interactive \<Rightarrow> string" where
  "validate_kind_buttons iv =
    (if tooLong (iv_Body iv) 1024 then ''interactive body must be at most 1024 characters''
     else if length (iv_Buttons iv) = 0 then ''interactive requires at least one button''
     else if length (iv_Buttons iv) > 3 then ''interactive supports at most 3 buttons''
     else validate_buttons {} (iv_Buttons iv))"

definition validate_kind_list :: "interactive \<Rightarrow> string" where
  "validate_kind_list iv =
    (if tooLong (iv_Body iv) 4096 then ''interactive body must be at most 4096 characters''
     else if trim_space (iv_Button iv) = [] then ''list button label is required''
     else if tooLong (iv_Button iv) 20 then ''list button label must be at most 20 characters''
     else if length (iv_Sections iv) = 0 then ''list requires at least one section''
     else if length (iv_Sections iv) > 10 then ''list supports at most 10 sections''
     else case validate_sections {} 0 (iv_Sections iv) of
       Inl msg \<Rightarrow> msg
     | Inr (_, n) \<Rightarrow>
         if n > 10 then ''list supports at most 10 rows in total'' else [])"

definition interactive_Validate :: "interactive option \<Rightarrow> string" where
  "interactive_Validate iv0 = (case iv0 of
     None \<Rightarrow> ''interactive is required for message_type=interactive''
   | Some iv \<Rightarrow>
      if tooLong (iv_Header iv) 60 then ''interactive header must be at most 60 characters''
      else if tooLong (iv_Footer iv) 60 then ''interactive footer must be at most 60 characters''
      else if trim_space (iv_Body iv) = [] then ''interactive body is required''
      else if iv_Kind iv = InteractiveButtons then validate_kind_buttons iv
      else if iv_Kind iv = InteractiveList then validate_kind_list iv
      else ''interactive.kind must be '' @ [CHR 0x27] @ ''buttons'' @ [CHR 0x27] @ '' or '' @ [CHR 0x27] @ ''list'' @ [CHR 0x27])"

subsection \<open>Delivery status\<close>

definition DeliveryNone :: string where "DeliveryNone = []"
definition DeliveryPending :: string where "DeliveryPending = ''pending''"
definition DeliverySent :: string where "DeliverySent = ''sent''"
definition DeliveryDelivered :: string where "DeliveryDelivered = ''delivered''"
definition DeliveryRead :: string where "DeliveryRead = ''read''"
definition DeliveryFailed :: string where "DeliveryFailed = ''failed''"

lemmas delivery_defs = DeliveryNone_def DeliveryPending_def DeliverySent_def DeliveryDelivered_def
  DeliveryRead_def DeliveryFailed_def

lemma distinct_delivery:
  "distinct [DeliveryNone, DeliveryPending, DeliverySent, DeliveryDelivered, DeliveryRead, DeliveryFailed]"
  "distinct (rev [DeliveryNone, DeliveryPending, DeliverySent, DeliveryDelivered, DeliveryRead, DeliveryFailed])"
  by (simp_all add: delivery_defs)

lemmas delivery_distinct [simp] = distinct_delivery [simplified]

definition deliveryRank :: "string \<Rightarrow> int" where
  "deliveryRank d =
    (if d = DeliveryNone then 0
     else if d = DeliveryPending then 1
     else if d = DeliverySent then 2
     else if d = DeliveryDelivered then 3
     else if d = DeliveryRead then 4
     else if d = DeliveryFailed then - 1
     else 0)"

definition DeliveryAdvances :: "string \<Rightarrow> string \<Rightarrow> bool" where
  "DeliveryAdvances from to =
    (if to = DeliveryFailed then from \<noteq> DeliveryRead \<and> from \<noteq> DeliveryFailed
     else if from = DeliveryFailed then False
     else deliveryRank to > deliveryRank from)"

subsection \<open>The message\<close>

record group_sender =
  gs_JID :: string
  gs_Name :: string
  gs_Phone :: string

record attachment =
  at_ID :: ident
  at_URL :: string
  at_ContentType :: string
  at_Filename :: string
  at_Size :: int

record template_payload =
  tp_TemplateID :: ident
  tp_Params :: "string \<rightharpoonup> string"

record message =
  m_ID :: ident
  m_TenantID :: ident
  m_ConversationID :: ident
  m_SenderType :: string
  m_SenderID :: ident
  m_Direction :: string
  m_MessageType :: string
  m_Text :: string
  m_Attachments :: "attachment list"
  m_Template :: "template_payload option"
  m_Contacts :: "contact_card list"
  m_Location :: "location option"
  m_Interactive :: "interactive option"
  m_InteractiveReply :: "interactive_reply option"
  m_GroupSender :: "group_sender option"
  m_Metadata :: gmap
  m_CreatedAt :: time
  m_DeliveryStatus :: string
  m_DeliveryError :: string
  m_ExternalMessageID :: string
  m_DeliveredAt :: "time option"
  m_ReadAt :: "time option"
  m_EditedAt :: "time option"
  m_DeletedAt :: "time option"

text \<open>Go's zero value, from which the services' composite literals start.\<close>

definition zero_message :: message where
  "zero_message = \<lparr>m_ID = [], m_TenantID = [], m_ConversationID = [], m_SenderType = [],
     m_SenderID = [], m_Direction = [], m_MessageType = [], m_Text = [], m_Attachments = [],
     m_Template = None, m_Contacts = [], m_Location = None, m_Interactive = None,
     m_InteractiveReply = None, m_GroupSender = None, m_Metadata = Map.empty, m_CreatedAt = 0,
     m_DeliveryStatus = [], m_DeliveryError = [], m_ExternalMessageID = [], m_DeliveredAt = None,
     m_ReadAt = None, m_EditedAt = None, m_DeletedAt = None\<rparr>"

definition IsDeleted :: "message \<Rightarrow> bool" where
  "IsDeleted m \<longleftrightarrow> m_DeletedAt m \<noteq> None"

section \<open>The conversation\<close>

record last_message_snapshot =
  lm_MessageID :: ident
  lm_Preview :: string
  lm_SenderType :: string
  lm_MessageType :: string
  lm_CreatedAt :: time

record conversation =
  cv_ID :: ident
  cv_TenantID :: ident
  cv_ContactID :: ident
  cv_Channel :: string
  cv_ChannelID :: ident
  cv_SectorID :: ident
  cv_QueueID :: ident
  cv_Status :: string
  cv_AssignedTo :: ident
  cv_Priority :: string
  cv_Protocol :: string
  cv_Tags :: "string list"
  cv_CustomAttributes :: gmap
  cv_LastMessageAt :: time
  cv_LastMessage :: "last_message_snapshot option"
  cv_LastCustomerMessageAt :: "time option"
  cv_UnreadCount :: int
  cv_LastReadAt :: "time option"
  cv_CreatedAt :: time
  cv_UpdatedAt :: time
  cv_ClosedAt :: "time option"

definition ChannelTypeWhatsApp :: string where "ChannelTypeWhatsApp = ''whatsapp''"

definition WhatsAppWindowDuration :: duration where "WhatsAppWindowDuration = 24 * Hour"

record whatsapp_window =
  ww_Open :: bool
  ww_ExpiresAt :: "time option"

definition WhatsAppWindowState :: "conversation \<Rightarrow> time \<Rightarrow> whatsapp_window option" where
  "WhatsAppWindowState c now =
    (if cv_Channel c \<noteq> ChannelTypeWhatsApp then None
     else Some (case cv_LastCustomerMessageAt c of
        Some l \<Rightarrow> let exp = l + WhatsAppWindowDuration in \<lparr>ww_Open = now < exp, ww_ExpiresAt = Some exp\<rparr>
      | None \<Rightarrow> \<lparr>ww_Open = False, ww_ExpiresAt = None\<rparr>))"

definition lastMessagePreviewLen :: nat where "lastMessagePreviewLen = 280"

text \<open>The ellipsis is U+2026, three bytes in UTF-8.\<close>

definition ellipsis :: string where "ellipsis = [CHR 0xE2, CHR 0x80, CHR 0xA6]"

definition truncateRunes :: "string \<Rightarrow> nat \<Rightarrow> string" where
  "truncateRunes s n =
    (let r = runes s in if length r \<le> n then s else string_of_runes (take n r) @ ellipsis)"

definition NewLastMessageSnapshot :: "message option \<Rightarrow> last_message_snapshot option" where
  "NewLastMessageSnapshot m0 = map_option (\<lambda>m.
     \<lparr>lm_MessageID = m_ID m, lm_Preview = truncateRunes (m_Text m) lastMessagePreviewLen,
      lm_SenderType = m_SenderType m, lm_MessageType = m_MessageType m,
      lm_CreatedAt = m_CreatedAt m\<rparr>) m0"

section \<open>The timeline event\<close>

definition ActorAgent :: string where "ActorAgent = ''agent''"
definition ActorSystem :: string where "ActorSystem = ''system''"

record conversation_event =
  ev_ID :: ident
  ev_TenantID :: ident
  ev_ConversationID :: ident
  ev_Type :: string
  ev_ActorType :: string
  ev_ActorID :: ident
  ev_Data :: gmap
  ev_CreatedAt :: time

section \<open>What the validators accept\<close>

definition button_ok :: "interactive_button \<Rightarrow> bool" where
  "button_ok b \<longleftrightarrow> trim_space (ib_ID b) \<noteq> [] \<and> rune_count (ib_ID b) \<le> 256
     \<and> trim_space (ib_Title b) \<noteq> [] \<and> rune_count (ib_Title b) \<le> 20"

definition row_ok :: "interactive_row \<Rightarrow> bool" where
  "row_ok r \<longleftrightarrow> trim_space (ir_ID r) \<noteq> [] \<and> rune_count (ir_ID r) \<le> 200
     \<and> trim_space (ir_Title r) \<noteq> [] \<and> rune_count (ir_Title r) \<le> 24
     \<and> rune_count (ir_Description r) \<le> 72"

definition buttons_menu_ok :: "interactive \<Rightarrow> bool" where
  "buttons_menu_ok iv \<longleftrightarrow> rune_count (iv_Body iv) \<le> 1024
     \<and> 1 \<le> length (iv_Buttons iv) \<and> length (iv_Buttons iv) \<le> 3
     \<and> (\<forall>b \<in> set (iv_Buttons iv). button_ok b) \<and> distinct (map ib_ID (iv_Buttons iv))"

definition list_menu_ok :: "interactive \<Rightarrow> bool" where
  "list_menu_ok iv \<longleftrightarrow> rune_count (iv_Body iv) \<le> 4096
     \<and> trim_space (iv_Button iv) \<noteq> [] \<and> rune_count (iv_Button iv) \<le> 20
     \<and> 1 \<le> length (iv_Sections iv) \<and> length (iv_Sections iv) \<le> 10
     \<and> (\<forall>s \<in> set (iv_Sections iv). rune_count (is_Title s) \<le> 24 \<and> is_Rows s \<noteq> [])
     \<and> (let rows = concat (map is_Rows (iv_Sections iv))
        in (\<forall>r \<in> set rows. row_ok r) \<and> distinct (map ir_ID rows) \<and> length rows \<le> 10)"

definition interactive_ok :: "interactive \<Rightarrow> bool" where
  "interactive_ok iv \<longleftrightarrow> rune_count (iv_Header iv) \<le> 60 \<and> rune_count (iv_Footer iv) \<le> 60
     \<and> trim_space (iv_Body iv) \<noteq> []
     \<and> (iv_Kind iv = InteractiveButtons \<and> buttons_menu_ok iv
        \<or> iv_Kind iv = InteractiveList \<and> list_menu_ok iv)"

lemma validate_buttons_iff:
  "validate_buttons seen bs = [] \<longleftrightarrow>
     (\<forall>b \<in> set bs. button_ok b) \<and> distinct (map ib_ID bs) \<and> ib_ID ` set bs \<inter> seen = {}"
  by (induction seen bs rule: validate_buttons.induct) (auto simp: button_ok_def tooLong_def)

lemma validate_rows_Inr:
  "validate_rows seen n rs = Inr p \<longleftrightarrow>
     (\<forall>r \<in> set rs. row_ok r) \<and> distinct (map ir_ID rs) \<and> ir_ID ` set rs \<inter> seen = {}
     \<and> p = (seen \<union> ir_ID ` set rs, n + length rs)"
  by (induction seen n rs rule: validate_rows.induct) (auto simp: row_ok_def tooLong_def)

lemma validate_sections_Inr:
  "validate_sections seen n ss = Inr p \<longleftrightarrow>
     (\<forall>s \<in> set ss. rune_count (is_Title s) \<le> 24 \<and> is_Rows s \<noteq> [])
     \<and> (\<forall>r \<in> set (concat (map is_Rows ss)). row_ok r)
     \<and> distinct (map ir_ID (concat (map is_Rows ss)))
     \<and> ir_ID ` set (concat (map is_Rows ss)) \<inter> seen = {}
     \<and> p = (seen \<union> ir_ID ` set (concat (map is_Rows ss)), n + length (concat (map is_Rows ss)))"
proof (induction ss arbitrary: seen n)
  case (Cons s ss)
  show ?case
  proof (cases "validate_rows seen n (is_Rows s)")
    case (Inl msg)
    then have "\<not> ((\<forall>r \<in> set (is_Rows s). row_ok r) \<and> distinct (map ir_ID (is_Rows s))
       \<and> ir_ID ` set (is_Rows s) \<inter> seen = {})"
      using validate_rows_Inr [of seen n "is_Rows s"] by (metis Inl_Inr_False)
    with Inl show ?thesis by (auto simp: tooLong_def)
  next
    case (Inr q)
    moreover from Inr have "(\<forall>r \<in> set (is_Rows s). row_ok r) \<and> distinct (map ir_ID (is_Rows s))
       \<and> ir_ID ` set (is_Rows s) \<inter> seen = {}
       \<and> q = (seen \<union> ir_ID ` set (is_Rows s), n + length (is_Rows s))"
      by (rule validate_rows_Inr [THEN iffD1])
    ultimately show ?thesis
      by (auto simp: Cons.IH tooLong_def image_Un Int_Un_distrib Int_Un_distrib2 Int_commute Un_ac
          simp del: set_concat)
  qed
qed auto

lemma validate_rows_Inl: "validate_rows seen n rs = Inl msg \<Longrightarrow> msg \<noteq> []"
  by (induction seen n rs rule: validate_rows.induct) (auto split: if_splits)

lemma validate_sections_Inl: "validate_sections seen n ss = Inl msg \<Longrightarrow> msg \<noteq> []"
  by (induction seen n ss rule: validate_sections.induct)
     (auto split: if_splits sum.splits dest: validate_rows_Inl)
lemma interactive_Validate_iff:
  "interactive_Validate iv = [] \<longleftrightarrow> (\<exists>i. iv = Some i \<and> interactive_ok i)"
proof (cases iv)
  case (Some i)
  have "validate_kind_buttons i = [] \<longleftrightarrow> buttons_menu_ok i"
    by (auto simp: validate_kind_buttons_def buttons_menu_ok_def validate_buttons_iff tooLong_def Suc_le_eq)
  moreover have "validate_kind_list i = [] \<longleftrightarrow> list_menu_ok i"
  proof (cases "validate_sections {} 0 (iv_Sections i)")
    case (Inl msg)
    then have "msg \<noteq> [] \<and> \<not> list_menu_ok i"
      using validate_sections_Inl [OF Inl] validate_sections_Inr [of "{}" 0 "iv_Sections i"]
      by (auto simp: list_menu_ok_def Let_def)
    with Inl show ?thesis by (auto simp: validate_kind_list_def)
  next
    case (Inr q)
    moreover from this [unfolded validate_sections_Inr] have "snd q = length (concat (map is_Rows (iv_Sections i)))"
      by simp
    ultimately show ?thesis
      using validate_sections_Inr [of "{}" 0 "iv_Sections i" q]
      by (auto simp: validate_kind_list_def list_menu_ok_def tooLong_def Suc_le_eq Let_def split: prod.splits)
  qed
  ultimately show ?thesis
    using Some by (auto simp: interactive_Validate_def interactive_ok_def tooLong_def)
qed (simp add: interactive_Validate_def)


definition card_ok :: "contact_card \<Rightarrow> bool" where
  "card_ok c \<longleftrightarrow> (trim_space (cn_Formatted (cc_Name c)) \<noteq> [] \<or> trim_space (cn_First (cc_Name c)) \<noteq> []
      \<or> trim_space (cn_Last (cc_Name c)) \<noteq> [])
    \<and> cc_Phones c \<noteq> [] \<and> (\<forall>p \<in> set (cc_Phones c). trim_space (cp_Phone p) \<noteq> [])"

lemma validate_phones_iff: "validate_phones ps = [] \<longleftrightarrow> (\<forall>p \<in> set ps. trim_space (cp_Phone p) \<noteq> [])"
  by (induction ps) auto

lemma validate_cards_iff: "validate_cards cs = [] \<longleftrightarrow> (\<forall>c \<in> set cs. card_ok c)"
  by (induction cs) (auto simp: card_ok_def validate_phones_iff Let_def)

lemma ValidateContacts_iff:
  "ValidateContacts cs = [] \<longleftrightarrow> 1 \<le> length cs \<and> length cs \<le> 10 \<and> (\<forall>c \<in> set cs. card_ok c)"
  by (auto simp: ValidateContacts_def MaxContactsPerMessage_def validate_cards_iff Suc_le_eq)

section \<open>Previews\<close>

lemma runes_ellipsis: "runes ellipsis = [0x2026]"
  by (simp add: ellipsis_def runes.simps decode_rune.simps(2) decode3_def cont_in_def)

lemma runes_truncateRunes:
  "runes (truncateRunes s n) =
     (if length (runes s) \<le> n then runes s else take n (runes s) @ [0x2026])"
  using runes_string_of_runes [of "take n (runes s)" ellipsis] runes_valid [of _ s]
  by (auto simp: truncateRunes_def Let_def runes_ellipsis dest: in_set_takeD)

section \<open>The delivery ladder\<close>

text \<open>What a receipt does to the status: it moves forward or is ignored.\<close>

definition receive :: "string \<Rightarrow> string \<Rightarrow> string" where
  "receive s to = (if DeliveryAdvances s to then to else s)"

lemma deliveryRank_le: "deliveryRank d \<le> 4"
  by (simp add: deliveryRank_def)

lemma deliveryRank_Read [simp]: "deliveryRank DeliveryRead = 4"
  by (simp add: deliveryRank_def)

lemma deliveryRank_nonneg: "d \<noteq> DeliveryFailed \<Longrightarrow> 0 \<le> deliveryRank d"
  by (simp add: deliveryRank_def)

lemma deliveryRank_inj: "deliveryRank a = deliveryRank b \<Longrightarrow> 0 < deliveryRank a \<Longrightarrow> a = b"
  by (auto simp: deliveryRank_def split: if_splits)

lemma DeliveryAdvances_irrefl: "\<not> DeliveryAdvances s s"
  by (auto simp: DeliveryAdvances_def)

lemma DeliveryAdvances_trans:
  "DeliveryAdvances a b \<Longrightarrow> DeliveryAdvances b c \<Longrightarrow> DeliveryAdvances a c"
  using deliveryRank_le [of b] deliveryRank_le [of c] by (auto simp: DeliveryAdvances_def split: if_splits)

lemma DeliveryAdvances_wf: "wfp (\<lambda>b a. DeliveryAdvances a b)"
proof -
  let ?f = "\<lambda>s. if s = DeliveryFailed then 0 else nat (5 - deliveryRank s)"
  have "?f b < ?f a" if "DeliveryAdvances a b" for a b
    using that deliveryRank_le [of a] deliveryRank_le [of b] deliveryRank_nonneg [of a]
    by (auto simp: DeliveryAdvances_def split: if_splits)
  then show ?thesis by (rule wfp_if_convertible_to_nat)
qed

lemma receive_idem: "receive (receive s r) r = receive s r"
  by (auto simp: receive_def DeliveryAdvances_irrefl)

lemma receive_ladder:
  "r \<noteq> DeliveryFailed \<Longrightarrow> receive s r =
     (if s \<noteq> DeliveryFailed \<and> deliveryRank s < deliveryRank r then r else s)"
  by (auto simp: receive_def DeliveryAdvances_def)

lemma receive_commute:
  assumes "r \<noteq> DeliveryFailed" "q \<noteq> DeliveryFailed"
  shows "receive (receive s r) q = receive (receive s q) r"
  using assms deliveryRank_inj [of r q] deliveryRank_nonneg [of s]
  by (auto simp: receive_ladder)

end
