(* ===== verification/Conv_Repo.thy ===== *)
theory Conv_Repo
  imports Mongo Conv_Entity
begin

text \<open>
  The state the conversations services work on and the repositories that own it
  (\<open>infra/database/mongodb/repositories/conversations\<close>), the payloads of
  \<open>domain/conversations/contracts\<close>, and the ports through which a service talks to the
  rest of the system. A call on a port (realtime publish, webhook emit, automation rule
  event, notification, audit, SLA and CSAT hooks) is an entry of the world's effect log, in
  the order the calls are made.
\<close>

section \<open>Channels and sectors\<close>

record template_variable =
  tv_Key :: string
  tv_Label :: string
  tv_Example :: string

record template_header =
  th_Type :: string
  th_Text :: string

record template_button =
  tb_Type :: string
  tb_Text :: string
  tb_URL :: string

text \<open>The body of a template is its text and its variables.\<close>

record whatsapp_template =
  wt_ID :: ident
  wt_Name :: string
  wt_Language :: string
  wt_Category :: string
  wt_BodyText :: string
  wt_Variables :: "template_variable list"
  wt_Header :: "template_header option"
  wt_Buttons :: "template_button list"
  wt_Footer :: string

definition FindTemplate :: "whatsapp_template list \<Rightarrow> ident \<Rightarrow> whatsapp_template option" where
  "FindTemplate ts i = find (\<lambda>t. wt_ID t = i) ts"

record channel_connection =
  ch_ID :: ident
  ch_TenantID :: ident
  ch_Type :: string
  ch_Name :: string
  ch_BusinessHours :: gmap
  ch_OutOfHoursMessage :: string
  ch_Enabled :: bool
  ch_UsesProtocol :: bool
  ch_WhatsAppTemplates :: "whatsapp_template list"

record sector =
  se_ID :: ident
  se_TenantID :: ident
  se_Name :: string
  se_Enabled :: bool

section \<open>Payloads\<close>

record last_message_payload =
  lp_Preview :: string
  lp_SenderType :: string
  lp_MessageType :: string
  lp_CreatedAt :: time

record conversation_payload =
  cp_ID :: ident
  cp_TenantID :: ident
  cp_ContactID :: ident
  cp_Channel :: string
  cp_ChannelID :: ident
  cp_SectorID :: ident
  cp_QueueID :: ident
  cp_Status :: string
  cp_AssignedTo :: ident
  cp_Priority :: string
  cp_Protocol :: string
  cp_Tags :: "string list"
  cp_LastMessageAt :: time
  cp_LastMessage :: "last_message_payload option"
  cp_UnreadCount :: int
  cp_LastReadAt :: "time option"
  cp_UpdatedAt :: time
  cp_WhatsAppWindow :: "whatsapp_window option"

definition newLastMessagePayload :: "last_message_snapshot option \<Rightarrow> last_message_payload option" where
  "newLastMessagePayload s0 = map_option (\<lambda>s.
     \<lparr>lp_Preview = lm_Preview s, lp_SenderType = lm_SenderType s,
      lp_MessageType = lm_MessageType s, lp_CreatedAt = lm_CreatedAt s\<rparr>) s0"

text \<open>The payload reads the wall clock itself (\<open>time.Now()\<close>), here its argument \<open>now\<close>.\<close>

definition NewConversationPayload :: "conversation \<Rightarrow> time \<Rightarrow> conversation_payload" where
  "NewConversationPayload c now =
    \<lparr>cp_ID = cv_ID c, cp_TenantID = cv_TenantID c, cp_ContactID = cv_ContactID c,
     cp_Channel = cv_Channel c, cp_ChannelID = cv_ChannelID c, cp_SectorID = cv_SectorID c,
     cp_QueueID = cv_QueueID c, cp_Status = cv_Status c, cp_AssignedTo = cv_AssignedTo c,
     cp_Priority = cv_Priority c, cp_Protocol = cv_Protocol c, cp_Tags = cv_Tags c,
     cp_LastMessageAt = cv_LastMessageAt c, cp_LastMessage = newLastMessagePayload (cv_LastMessage c),
     cp_UnreadCount = cv_UnreadCount c, cp_LastReadAt = cv_LastReadAt c,
     cp_UpdatedAt = cv_UpdatedAt c, cp_WhatsAppWindow = WhatsAppWindowState c now\<rparr>"

record message_payload =
  mp_ID :: ident
  mp_ConversationID :: ident
  mp_SenderType :: string
  mp_SenderID :: ident
  mp_Direction :: string
  mp_MessageType :: string
  mp_Text :: string
  mp_Attachments :: "attachment list"
  mp_Contacts :: "contact_card list"
  mp_Location :: "location option"
  mp_Interactive :: "interactive option"
  mp_InteractiveReply :: "interactive_reply option"
  mp_GroupSender :: "group_sender option"
  mp_Template :: "template_payload option"
  mp_Internal :: bool
  mp_DeliveryStatus :: string
  mp_CreatedAt :: time
  mp_EditedAt :: "time option"

definition NewMessagePayload :: "message \<Rightarrow> message_payload" where
  "NewMessagePayload m =
    \<lparr>mp_ID = m_ID m, mp_ConversationID = m_ConversationID m, mp_SenderType = m_SenderType m,
     mp_SenderID = m_SenderID m, mp_Direction = m_Direction m, mp_MessageType = m_MessageType m,
     mp_Text = m_Text m, mp_Attachments = m_Attachments m, mp_Contacts = m_Contacts m,
     mp_Location = m_Location m, mp_Interactive = m_Interactive m,
     mp_InteractiveReply = m_InteractiveReply m, mp_GroupSender = m_GroupSender m,
     mp_Template = m_Template m, mp_Internal = (m_Direction m = DirectionInternal),
     mp_DeliveryStatus = m_DeliveryStatus m, mp_CreatedAt = m_CreatedAt m,
     mp_EditedAt = m_EditedAt m\<rparr>"

text \<open>
  The integration variant swaps the URL of each attachment for its signed media URL, when
  there is a non-empty one.
\<close>

definition NewIntegrationMessagePayload :: "message \<Rightarrow> (ident \<times> string) list \<Rightarrow> message_payload" where
  "NewIntegrationMessagePayload m mediaURLs =
    (let p = NewMessagePayload m in
     if mp_Attachments p = [] \<or> mediaURLs = [] then p
     else p\<lparr>mp_Attachments := map (\<lambda>a. case map_of mediaURLs (at_ID a) of
              Some u \<Rightarrow> if u \<noteq> [] then a\<lparr>at_URL := u\<rparr> else a | None \<Rightarrow> a) (mp_Attachments p)\<rparr>)"

datatype payload =
    ConvPayload conversation_payload
  | MsgPayload message_payload
  | MsgStatusPayload ident ident string
  | MsgRefPayload ident ident
  | TypingPayload ident ident
  | ReadPayload ident ident time
  | PresencePayload ident ident string string bool int int time
  | SlaPayload ident ident string ident "time option" "time option" bool
  | DealPayload ident ident ident ident string string ident

section \<open>The world\<close>

text \<open>
  A webhook is emitted with its payload, or lazily: then the entry keeps what its builder closes over: the conversation and, for a
  message event, the message.
\<close>

datatype effect =
    EPublish string string payload
  | EWebhook ident string ident conversation "message option"
  | EHook ident string ident payload
  | ERule ident string ident string int payload
  | ENotify ident ident string string
  | EQueueChanged ident ident ident
  | EAudit ident string ident gmap
  | ESlaCreated conversation
  | ESlaFirstResponse conversation time
  | ESlaResolved conversation time
  | ECsatClosed conversation

record conv_world = base_world +
  convs :: "conversation list"
  msgs :: "message list"
  cevents :: "conversation_event list"
  chans :: "channel_connection list"
  sectors :: "sector list"
  effects :: "effect list"

definition log_effect :: "effect \<Rightarrow> ('z conv_world_scheme, unit) io" where
  "log_effect e = modify_io (\<lambda>w. w\<lparr>effects := effects w @ [e]\<rparr>)"

text \<open>
  \<open>Publish\<close> goes over Redis and may fail; \<open>PublishAll\<close> is one pipelined round trip whose
  error is dropped.
\<close>

definition Publish :: "'e env_scheme \<Rightarrow> string \<Rightarrow> string \<Rightarrow> payload \<Rightarrow> ('z conv_world_scheme, unit) io" where
  "Publish d topic event data = db_call d (log_effect (EPublish topic event data))"

definition PublishAll :: "'e env_scheme \<Rightarrow> (string \<times> string \<times> payload) list \<Rightarrow> ('z conv_world_scheme, unit) io" where
  "PublishAll d evs = (if evs = [] then return_io () else
     ignore_io (db_call d (modify_io (\<lambda>w. w\<lparr>effects := effects w @ map (\<lambda>(t, e, p). EPublish t e p) evs\<rparr>))))"

section \<open>Conversation repository\<close>

definition by_id :: "ident \<Rightarrow> ident \<Rightarrow> conversation \<Rightarrow> bool" where
  "by_id t i cv \<longleftrightarrow> cv_ID cv = i \<and> cv_TenantID cv = t"

definition conv_Create :: "'e env_scheme \<Rightarrow> ctx \<Rightarrow> conversation \<Rightarrow> ('z conv_world_scheme, unit) io" where
  "conv_Create d c cv = then_io (lift_res (RequireTenant c))
     (db_call d (\<lambda>w. case insert_one cv_ID cv (convs w) of
        Inl e \<Rightarrow> (Inl (MapError e), w) | Inr cs \<Rightarrow> (Inr (), w\<lparr>convs := cs\<rparr>)))"

text \<open>The \<open>$set\<close> of \<open>Update\<close>: fourteen fields of \<open>new\<close>, the rest of the stored document.\<close>

definition conv_set :: "conversation \<Rightarrow> conversation \<Rightarrow> conversation" where
  "conv_set new old = old\<lparr>cv_SectorID := cv_SectorID new, cv_QueueID := cv_QueueID new,
     cv_Status := cv_Status new, cv_AssignedTo := cv_AssignedTo new, cv_Priority := cv_Priority new,
     cv_Tags := cv_Tags new, cv_CustomAttributes := cv_CustomAttributes new,
     cv_LastMessageAt := cv_LastMessageAt new, cv_LastMessage := cv_LastMessage new,
     cv_LastCustomerMessageAt := cv_LastCustomerMessageAt new, cv_UnreadCount := cv_UnreadCount new,
     cv_LastReadAt := cv_LastReadAt new, cv_UpdatedAt := cv_UpdatedAt new,
     cv_ClosedAt := cv_ClosedAt new\<rparr>"

definition conv_Update :: "'e env_scheme \<Rightarrow> ctx \<Rightarrow> conversation \<Rightarrow> ('z conv_world_scheme, unit) io" where
  "conv_Update d c cv = bind_io (lift_res (RequireTenant c)) (\<lambda>t.
     db_call d (\<lambda>w. case update_one (by_id t (cv_ID cv)) (conv_set cv) (convs w) of
        Inl e \<Rightarrow> (Inl (MapError e), w) | Inr cs \<Rightarrow> (Inr (), w\<lparr>convs := cs\<rparr>)))"

definition conv_query ::
  "'e env_scheme \<Rightarrow> ctx \<Rightarrow> (ident \<Rightarrow> conversation list \<Rightarrow> mongo_err + 'a) \<Rightarrow> ('z conv_world_scheme, 'a) io" where
  "conv_query d c q = bind_io (lift_res (RequireTenant c)) (\<lambda>t.
     db_call d (\<lambda>w. (map_err (q t (convs w)), w)))"

definition conv_FindByID :: "'e env_scheme \<Rightarrow> ctx \<Rightarrow> ident \<Rightarrow> ('z conv_world_scheme, conversation) io" where
  "conv_FindByID d c i = conv_query d c (\<lambda>t. find_one (by_id t i))"

definition conv_FindByIDs :: "'e env_scheme \<Rightarrow> ctx \<Rightarrow> ident list \<Rightarrow> ('z conv_world_scheme, conversation list) io" where
  "conv_FindByIDs d c ids = then_io (lift_res (RequireTenant c))
     (if ids = [] then return_io []
      else conv_query d c (\<lambda>t cs. Inr (filter (\<lambda>cv. cv_ID cv \<in> set ids \<and> cv_TenantID cv = t) cs)))"

definition closedStatuses :: "string list" where
  "closedStatuses = [StatusResolved, StatusClosed, StatusArchived]"

definition FindOpenByContactChannelID ::
  "'e env_scheme \<Rightarrow> ctx \<Rightarrow> ident \<Rightarrow> ident \<Rightarrow> ('z conv_world_scheme, conversation) io" where
  "FindOpenByContactChannelID d c contactID channelID = conv_query d c (\<lambda>t. find_latest
     (\<lambda>cv. cv_TenantID cv = t \<and> cv_ContactID cv = contactID \<and> cv_ChannelID cv = channelID
        \<and> cv_Status cv \<notin> set closedStatuses) cv_UpdatedAt)"

definition FindLastByContactChannelID ::
  "'e env_scheme \<Rightarrow> ctx \<Rightarrow> ident \<Rightarrow> ident \<Rightarrow> ('z conv_world_scheme, conversation) io" where
  "FindLastByContactChannelID d c contactID channelID = conv_query d c (\<lambda>t. find_latest
     (\<lambda>cv. cv_TenantID cv = t \<and> cv_ContactID cv = contactID \<and> cv_ChannelID cv = channelID)
     cv_UpdatedAt)"

definition FindOpenByContact ::
  "'e env_scheme \<Rightarrow> ctx \<Rightarrow> ident \<Rightarrow> ('z conv_world_scheme, conversation) io" where
  "FindOpenByContact d c contactID = conv_query d c (\<lambda>t. find_latest
     (\<lambda>cv. cv_TenantID cv = t \<and> cv_ContactID cv = contactID \<and> cv_Status cv \<notin> set closedStatuses)
     cv_UpdatedAt)"

definition FindLastByContact ::
  "'e env_scheme \<Rightarrow> ctx \<Rightarrow> ident \<Rightarrow> ('z conv_world_scheme, conversation) io" where
  "FindLastByContact d c contactID = conv_query d c (\<lambda>t. find_latest
     (\<lambda>cv. cv_TenantID cv = t \<and> cv_ContactID cv = contactID) cv_UpdatedAt)"

definition ListInactiveOpen ::
  "'e env_scheme \<Rightarrow> ctx \<Rightarrow> time \<Rightarrow> int \<Rightarrow> ('z conv_world_scheme, conversation list) io" where
  "ListInactiveOpen d c idleBefore limit =
    (let limit' = (if limit \<le> 0 then 500 else limit) in
     conv_query d c (\<lambda>t cs. Inr (take (nat limit') (sort_key cv_LastMessageAt
       (filter (\<lambda>cv. cv_TenantID cv = t \<and> cv_Status cv \<notin> set closedStatuses
          \<and> cv_LastMessageAt cv \<le> idleBefore) cs)))))"

record list_filter =
  lf_Status :: string
  lf_SectorID :: ident
  lf_QueueID :: ident
  lf_AssignedTo :: ident
  lf_ContactID :: ident
  lf_Protocol :: string
  lf_Tag :: string

record visibility_t =
  vi_All :: bool
  vi_SectorIDs :: "ident list"
  vi_UserID :: ident

text \<open>
  A Mongo document omits an empty string (\<open>omitempty\<close>), but a filter by the empty string
  matches only a present empty field, which \<open>Update\<close> writes: both forms are one value here,
  and the listing's visibility condition is compared as the driver sends it.
\<close>

definition in_visibility :: "visibility_t \<Rightarrow> conversation \<Rightarrow> bool" where
  "in_visibility vis cv \<longleftrightarrow> vi_All vis \<or> cv_AssignedTo cv = vi_UserID vis
     \<or> cv_SectorID cv \<in> set (vi_SectorIDs vis)"

definition in_filter :: "list_filter \<Rightarrow> conversation \<Rightarrow> bool" where
  "in_filter f cv \<longleftrightarrow> (lf_Status f = [] \<or> cv_Status cv = lf_Status f)
     \<and> (lf_SectorID f = [] \<or> cv_SectorID cv = lf_SectorID f)
     \<and> (lf_QueueID f = [] \<or> cv_QueueID cv = lf_QueueID f)
     \<and> (lf_AssignedTo f = [] \<or> cv_AssignedTo cv = lf_AssignedTo f)
     \<and> (lf_ContactID f = [] \<or> cv_ContactID cv = lf_ContactID f)
     \<and> (lf_Protocol f = [] \<or> cv_Protocol cv = lf_Protocol f)
     \<and> (lf_Tag f = [] \<or> lf_Tag f \<in> set (cv_Tags cv))"

definition conv_List ::
  "'e env_scheme \<Rightarrow> ctx \<Rightarrow> list_filter \<Rightarrow> visibility_t \<Rightarrow> page_request \<Rightarrow> ('z conv_world_scheme, conversation list) io" where
  "conv_List d c f vis page = then_io (lift_res (RequireTenant c))
     (bind_io (lift_res (DecodeCursor (pr_Cursor page))) (\<lambda>cur.
        conv_query d c (\<lambda>t cs. Inr (list_page
          (\<lambda>cv. cv_TenantID cv = t \<and> in_filter f cv \<and> in_visibility vis cv)
          cv_UpdatedAt cv_ID cur (pr_Limit page) cs))))"

record unread_counts =
  uc_Mine :: int
  uc_Sector :: int
  uc_Queue :: int

definition count_docs :: "('d \<Rightarrow> bool) \<Rightarrow> 'd list \<Rightarrow> int" where
  "count_docs p ds = int (length (filter p ds))"

definition conv_UnreadCounts :: "'e env_scheme \<Rightarrow> ctx \<Rightarrow> visibility_t \<Rightarrow> ('z conv_world_scheme, unread_counts) io" where
  "conv_UnreadCounts d c vis =
    (let base = (\<lambda>t cv. cv_TenantID cv = t \<and> cv_UnreadCount cv > 0);
         mine = (\<lambda>t cv. base t cv \<and> cv_AssignedTo cv = vi_UserID vis);
         inSectors = (\<lambda>cv. vi_All vis \<or> cv_SectorID cv \<in> set (vi_SectorIDs vis));
         sector = (\<lambda>t cv. base t cv \<and> inSectors cv);
         queue = (\<lambda>t cv. base t cv \<and> cv_AssignedTo cv = [] \<and> inSectors cv) in
     bind_io (conv_query d c (\<lambda>t cs. Inr (count_docs (mine t) cs))) (\<lambda>n1.
     bind_io (conv_query d c (\<lambda>t cs. Inr (count_docs (sector t) cs))) (\<lambda>n2.
     bind_io (conv_query d c (\<lambda>t cs. Inr (count_docs (queue t) cs))) (\<lambda>n3.
     return_io \<lparr>uc_Mine = n1, uc_Sector = n2, uc_Queue = n3\<rparr>))))"

section \<open>Message and event repositories\<close>

definition msg_by_id :: "ident \<Rightarrow> ident \<Rightarrow> message \<Rightarrow> bool" where
  "msg_by_id t i m \<longleftrightarrow> m_ID m = i \<and> m_TenantID m = t"

definition msg_Create :: "'e env_scheme \<Rightarrow> ctx \<Rightarrow> message \<Rightarrow> ('z conv_world_scheme, unit) io" where
  "msg_Create d c m = then_io (lift_res (RequireTenant c))
     (db_call d (\<lambda>w. case insert_one m_ID m (msgs w) of
        Inl e \<Rightarrow> (Inl (MapError e), w) | Inr ms \<Rightarrow> (Inr (), w\<lparr>msgs := ms\<rparr>)))"

definition msg_set :: "message \<Rightarrow> message \<Rightarrow> message" where
  "msg_set new old = old\<lparr>m_Text := m_Text new, m_DeliveryStatus := m_DeliveryStatus new,
     m_DeliveryError := m_DeliveryError new, m_ExternalMessageID := m_ExternalMessageID new,
     m_DeliveredAt := m_DeliveredAt new, m_ReadAt := m_ReadAt new, m_EditedAt := m_EditedAt new,
     m_DeletedAt := m_DeletedAt new\<rparr>"

definition msg_Update :: "'e env_scheme \<Rightarrow> ctx \<Rightarrow> message \<Rightarrow> ('z conv_world_scheme, unit) io" where
  "msg_Update d c m = bind_io (lift_res (RequireTenant c)) (\<lambda>t.
     db_call d (\<lambda>w. case update_one (msg_by_id t (m_ID m)) (msg_set m) (msgs w) of
        Inl e \<Rightarrow> (Inl (MapError e), w) | Inr ms \<Rightarrow> (Inr (), w\<lparr>msgs := ms\<rparr>)))"

definition msg_query ::
  "'e env_scheme \<Rightarrow> ctx \<Rightarrow> (ident \<Rightarrow> message list \<Rightarrow> mongo_err + 'a) \<Rightarrow> ('z conv_world_scheme, 'a) io" where
  "msg_query d c q = bind_io (lift_res (RequireTenant c)) (\<lambda>t.
     db_call d (\<lambda>w. (map_err (q t (msgs w)), w)))"

definition msg_FindByID :: "'e env_scheme \<Rightarrow> ctx \<Rightarrow> ident \<Rightarrow> ('z conv_world_scheme, message) io" where
  "msg_FindByID d c i = msg_query d c (\<lambda>t. find_one (msg_by_id t i))"

definition LatestByConversation :: "'e env_scheme \<Rightarrow> ctx \<Rightarrow> ident \<Rightarrow> ('z conv_world_scheme, message) io" where
  "LatestByConversation d c convID = msg_query d c (\<lambda>t. find_latest
     (\<lambda>m. m_TenantID m = t \<and> m_ConversationID m = convID \<and> m_DeletedAt m = None) m_CreatedAt)"

definition msg_ListByConversation ::
  "'e env_scheme \<Rightarrow> ctx \<Rightarrow> ident \<Rightarrow> page_request \<Rightarrow> ('z conv_world_scheme, message list) io" where
  "msg_ListByConversation d c convID page = then_io (lift_res (RequireTenant c))
     (bind_io (lift_res (DecodeCursor (pr_Cursor page))) (\<lambda>cur.
        msg_query d c (\<lambda>t ms. Inr (list_page
          (\<lambda>m. m_TenantID m = t \<and> m_ConversationID m = convID \<and> m_DeletedAt m = None)
          m_CreatedAt m_ID cur (pr_Limit page) ms))))"

definition FindByExternalMessageID ::
  "'e env_scheme \<Rightarrow> ctx \<Rightarrow> ident \<Rightarrow> string \<Rightarrow> ('z conv_world_scheme, message) io" where
  "FindByExternalMessageID d c convID externalID = msg_query d c (\<lambda>t. find_one
     (\<lambda>m. m_TenantID m = t \<and> m_ConversationID m = convID \<and> m_ExternalMessageID m = externalID
        \<and> m_DeletedAt m = None))"

definition event_Create :: "'e env_scheme \<Rightarrow> ctx \<Rightarrow> conversation_event \<Rightarrow> ('z conv_world_scheme, unit) io" where
  "event_Create d c e = then_io (lift_res (RequireTenant c))
     (db_call d (\<lambda>w. case insert_one ev_ID e (cevents w) of
        Inl er \<Rightarrow> (Inl (MapError er), w) | Inr es \<Rightarrow> (Inr (), w\<lparr>cevents := es\<rparr>)))"

definition event_ListByConversation ::
  "'e env_scheme \<Rightarrow> ctx \<Rightarrow> ident \<Rightarrow> page_request \<Rightarrow> ('z conv_world_scheme, conversation_event list) io" where
  "event_ListByConversation d c convID page = bind_io (lift_res (RequireTenant c)) (\<lambda>t.
     bind_io (lift_res (DecodeCursor (pr_Cursor page))) (\<lambda>cur.
       db_call d (gets_io (\<lambda>w. list_page
          (\<lambda>e. ev_TenantID e = t \<and> ev_ConversationID e = convID)
          ev_CreatedAt ev_ID cur (pr_Limit page) (cevents w)))))"

definition channel_FindByID :: "'e env_scheme \<Rightarrow> ctx \<Rightarrow> ident \<Rightarrow> ('z conv_world_scheme, channel_connection) io" where
  "channel_FindByID d c i = bind_io (lift_res (RequireTenant c)) (\<lambda>t.
     db_call d (\<lambda>w. (map_err (find_one (\<lambda>x. ch_ID x = i \<and> ch_TenantID x = t) (chans w)), w)))"

definition sector_FindByID :: "'e env_scheme \<Rightarrow> ctx \<Rightarrow> ident \<Rightarrow> ('z conv_world_scheme, sector) io" where
  "sector_FindByID d c i = bind_io (lift_res (RequireTenant c)) (\<lambda>t.
     db_call d (\<lambda>w. (map_err (find_one (\<lambda>x. se_ID x = i \<and> se_TenantID x = t) (sectors w)), w)))"

section \<open>The repositories as tenant-scoped document stores\<close>

interpretation conv_docs: tenant_docs cv_ID cv_TenantID conv_set
  by unfold_locales (simp_all add: conv_set_def)

interpretation msg_docs: tenant_docs m_ID m_TenantID msg_set
  by unfold_locales (simp_all add: msg_set_def)

lemmas by_id_abs = by_id_def [abs_def]
lemmas msg_by_id_abs = msg_by_id_def [abs_def]

lemma find_conv_update:
  "find (by_id t i) (update_first (by_id t i) (conv_set new) ds) = map_option (conv_set new) (find (by_id t i) ds)"
  unfolding by_id_abs by (rule conv_docs.find_after_update)

lemma find_conv_other:
  "j \<noteq> i \<Longrightarrow> find (by_id t j) (update_first (by_id t i) (conv_set new) ds) = find (by_id t j) ds"
  unfolding by_id_abs by (rule conv_docs.find_after_update_other)

lemma find_msg_update:
  "find (msg_by_id t i) (update_first (msg_by_id t i) (msg_set new) ds) = map_option (msg_set new) (find (msg_by_id t i) ds)"
  unfolding msg_by_id_abs by (rule msg_docs.find_after_update)

lemma find_msg_other:
  "j \<noteq> i \<Longrightarrow> find (msg_by_id t j) (update_first (msg_by_id t i) (msg_set new) ds) = find (msg_by_id t j) ds"
  unfolding msg_by_id_abs by (rule msg_docs.find_after_update_other)

text \<open>
  Writing back a document that was read and changed only in fields of the \<open>$set\<close> stores
  exactly that document.
\<close>

definition same_identity :: "conversation \<Rightarrow> conversation \<Rightarrow> bool" where
  "same_identity a b \<longleftrightarrow> cv_ID a = cv_ID b \<and> cv_TenantID a = cv_TenantID b
     \<and> cv_ContactID a = cv_ContactID b \<and> cv_Channel a = cv_Channel b
     \<and> cv_ChannelID a = cv_ChannelID b \<and> cv_Protocol a = cv_Protocol b
     \<and> cv_CreatedAt a = cv_CreatedAt b"

lemma conv_set_same: "same_identity new old \<Longrightarrow> conv_set new old = new"
  by (cases new; cases old) (simp add: same_identity_def conv_set_def)

lemma same_identity_conv_set: "same_identity (conv_set new old) old"
  by (simp add: same_identity_def conv_set_def)

definition same_message_core :: "message \<Rightarrow> message \<Rightarrow> bool" where
  "same_message_core a b \<longleftrightarrow> (\<exists>t s e x da ra ea dl. a = b\<lparr>m_Text := t, m_DeliveryStatus := s,
     m_DeliveryError := e, m_ExternalMessageID := x, m_DeliveredAt := da, m_ReadAt := ra,
     m_EditedAt := ea, m_DeletedAt := dl\<rparr>)"

lemma msg_set_same: "same_message_core new old \<Longrightarrow> msg_set new old = new"
  by (auto simp: same_message_core_def msg_set_def)

section \<open>Weakest preconditions of the repositories\<close>

text \<open>
  A repository call checks the tenant, meets the driver's fault and then runs on the
  collection. \<open>on_db\<close> states the two checks once, for all of them.
\<close>

definition on_db :: "'e env_scheme \<Rightarrow> ctx \<Rightarrow> 'z conv_world_scheme \<Rightarrow> (goerr \<Rightarrow> 'z conv_world_scheme \<Rightarrow> bool)
    \<Rightarrow> (ident \<Rightarrow> 'z conv_world_scheme \<Rightarrow> bool) \<Rightarrow> bool" where
  "on_db d c w E P = (case RequireTenant c of Inl e \<Rightarrow> E e w
     | Inr t \<Rightarrow> (case fault d (step w) of Some e \<Rightarrow> E (MapError (DriverError e)) (tick w)
                | None \<Rightarrow> P t (tick w)))"

lemma wp_conv_query [io_wp]:
  "wp (conv_query d c q) Q E w = on_db d c w E (\<lambda>t w'. case q t (convs w') of
      Inl e \<Rightarrow> E (MapError e) w' | Inr x \<Rightarrow> Q x w')"
  by (auto simp: wp_def conv_query_def on_db_def io_defs db_call_def split: sum.split option.split)

lemma wp_msg_query [io_wp]:
  "wp (msg_query d c q) Q E w = on_db d c w E (\<lambda>t w'. case q t (msgs w') of
      Inl e \<Rightarrow> E (MapError e) w' | Inr x \<Rightarrow> Q x w')"
  by (auto simp: wp_def msg_query_def on_db_def io_defs db_call_def split: sum.split option.split)

lemma wp_conv_Update [io_wp]:
  "wp (conv_Update d c cv) Q E w = on_db d c w E (\<lambda>t w'. case find (by_id t (cv_ID cv)) (convs w') of
      None \<Rightarrow> E (MapError ErrNoDocuments) w'
    | Some _ \<Rightarrow> Q () (w'\<lparr>convs := update_first (by_id t (cv_ID cv)) (conv_set cv) (convs w')\<rparr>))"
  by (auto simp: wp_def conv_Update_def on_db_def io_defs db_call_def update_one_find split: sum.split option.split)

lemma wp_msg_Update [io_wp]:
  "wp (msg_Update d c m) Q E w = on_db d c w E (\<lambda>t w'. case find (msg_by_id t (m_ID m)) (msgs w') of
      None \<Rightarrow> E (MapError ErrNoDocuments) w'
    | Some _ \<Rightarrow> Q () (w'\<lparr>msgs := update_first (msg_by_id t (m_ID m)) (msg_set m) (msgs w')\<rparr>))"
  by (auto simp: wp_def msg_Update_def on_db_def io_defs db_call_def update_one_find split: sum.split option.split)

lemma wp_conv_Create [io_wp]:
  "wp (conv_Create d c cv) Q E w = on_db d c w E (\<lambda>t w'. if cv_ID cv \<in> cv_ID ` set (convs w')
      then E (MapError DuplicateKey) w' else Q () (w'\<lparr>convs := convs w' @ [cv]\<rparr>))"
  by (auto simp: wp_def conv_Create_def on_db_def io_defs db_call_def insert_one_def split: sum.split option.split)

lemma wp_msg_Create [io_wp]:
  "wp (msg_Create d c m) Q E w = on_db d c w E (\<lambda>t w'. if m_ID m \<in> m_ID ` set (msgs w')
      then E (MapError DuplicateKey) w' else Q () (w'\<lparr>msgs := msgs w' @ [m]\<rparr>))"
  by (auto simp: wp_def msg_Create_def on_db_def io_defs db_call_def insert_one_def split: sum.split option.split)

lemma wp_log [io_wp]: "wp (log_effect e) Q E w = Q () (w\<lparr>effects := effects w @ [e]\<rparr>)"
  by (simp add: log_effect_def io_wp)

lemma wp_conv_FindByID [io_wp]:
  "wp (conv_FindByID d c i) Q E w = on_db d c w E (\<lambda>t w'. case find (by_id t i) (convs w') of
      None \<Rightarrow> E (MapError ErrNoDocuments) w' | Some cv \<Rightarrow> Q cv w')"
  by (simp add: conv_FindByID_def io_wp find_one_def option.case_distrib [of "case_sum _ _"] cong: option.case_cong)

lemma wp_msg_FindByID [io_wp]:
  "wp (msg_FindByID d c i) Q E w = on_db d c w E (\<lambda>t w'. case find (msg_by_id t i) (msgs w') of
      None \<Rightarrow> E (MapError ErrNoDocuments) w' | Some m \<Rightarrow> Q m w')"
  by (simp add: msg_FindByID_def io_wp find_one_def option.case_distrib [of "case_sum _ _"] cong: option.case_cong)

lemma tick_simps [simp]:
  "convs (tick w) = convs w" "msgs (tick w) = msgs w" "cevents (tick w) = cevents w"
  "chans (tick w) = chans w" "sectors (tick w) = sectors w" "effects (tick w) = effects w"
  "conv_world.more (tick w) = conv_world.more w"
  by (simp_all add: tick_def)

section \<open>Tenant isolation of the repositories\<close>

text \<open>Which tenant an effect concerns; a topic belongs to the tenant it starts with.\<close>

fun effect_of :: "ident \<Rightarrow> effect \<Rightarrow> bool" where
  "effect_of t (EPublish topic _ _) = (\<exists>s. topic = ''t:'' @ t @ CHR '':'' # s)"
| "effect_of t (EWebhook t' _ _ cv mo) = (t' = t \<and> cv_TenantID cv = t \<and> (\<forall>m. mo = Some m \<longrightarrow> m_TenantID m = t))"
| "effect_of t (EHook t' _ _ _) = (t' = t)"
| "effect_of t (ERule t' _ _ _ _ _) = (t' = t)"
| "effect_of t (ENotify t' _ _ _) = (t' = t)"
| "effect_of t (EQueueChanged t' _ _) = (t' = t)"
| "effect_of t (EAudit t' _ _ _) = (t' = t)"
| "effect_of t (ESlaCreated cv) = (cv_TenantID cv = t)"
| "effect_of t (ESlaFirstResponse cv _) = (cv_TenantID cv = t)"
| "effect_of t (ESlaResolved cv _) = (cv_TenantID cv = t)"
| "effect_of t (ECsatClosed cv) = (cv_TenantID cv = t)"

definition tenant_frame :: "ident \<Rightarrow> 'z conv_world_scheme \<Rightarrow> 'z conv_world_scheme \<Rightarrow> bool" where
  "tenant_frame t w w' \<longleftrightarrow>
     filter (\<lambda>x. cv_TenantID x \<noteq> t) (convs w') = filter (\<lambda>x. cv_TenantID x \<noteq> t) (convs w)
   \<and> filter (\<lambda>x. m_TenantID x \<noteq> t) (msgs w') = filter (\<lambda>x. m_TenantID x \<noteq> t) (msgs w)
   \<and> filter (\<lambda>x. ev_TenantID x \<noteq> t) (cevents w') = filter (\<lambda>x. ev_TenantID x \<noteq> t) (cevents w)
   \<and> chans w' = chans w \<and> sectors w' = sectors w
   \<and> (\<exists>es. effects w' = effects w @ es \<and> (\<forall>e \<in> set es. effect_of t e))"

lemma tenant_frame_refl [simp]: "tenant_frame t w w"
  by (simp add: tenant_frame_def)

lemma tenant_frame_trans: "tenant_frame t u v \<Longrightarrow> tenant_frame t v w \<Longrightarrow> tenant_frame t u w"
  by (fastforce simp: tenant_frame_def)

interpretation iso: io_rel "tenant_frame t" for t
  by unfold_locales (simp, erule tenant_frame_trans)

lemma framed_wpI: "(\<And>w. wp m (\<lambda>_. R w) (\<lambda>_. R w) w) \<Longrightarrow> framed R m"
  by (simp add: framed_wp)

lemma on_dbI:
  assumes "\<And>e. E e w" "\<And>e. E e (tick w)" "\<And>t. ctx_tenant c = Some t \<Longrightarrow> P t (tick w)"
  shows "on_db d c w E P"
  using assms by (auto simp: on_db_def RequireTenant_Inr split: sum.split option.split)

lemma tenant_frame_tick [simp]: "tenant_frame t w (tick w)"
  by (simp add: tenant_frame_def)

lemma iso_conv_query: "framed (tenant_frame t) (conv_query d c q)"
  by (rule framed_wpI) (auto simp: io_wp intro!: on_dbI split: sum.split)

lemma iso_msg_query: "framed (tenant_frame t) (msg_query d c q)"
  by (rule framed_wpI) (auto simp: io_wp intro!: on_dbI split: sum.split)

lemma iso_conv_FindByID: "framed (tenant_frame t) (conv_FindByID d c i)"
  by (simp add: conv_FindByID_def iso_conv_query)

lemma iso_msg_FindByID: "framed (tenant_frame t) (msg_FindByID d c i)"
  by (simp add: msg_FindByID_def iso_msg_query)

lemma iso_db_read: "framed (tenant_frame t) (bind_io (lift_res (RequireTenant c)) (\<lambda>s. db_call d (\<lambda>w. (f s w, w))))"
  by (auto simp: framed_def io_defs db_call_def split: sum.split option.split intro: iso.rel_refl)

lemma iso_channel_FindByID: "framed (tenant_frame t) (channel_FindByID d c i)"
  unfolding channel_FindByID_def by (rule iso_db_read)

lemma iso_sector_FindByID: "framed (tenant_frame t) (sector_FindByID d c i)"
  unfolding sector_FindByID_def by (rule iso_db_read)

lemma iso_conv_Update:
  assumes "ctx_tenant c = Some t"
  shows "framed (tenant_frame t) (conv_Update d c cv)"
proof (rule framed_wpI)
  fix w
  have "filter (\<lambda>x. cv_TenantID x \<noteq> t) (update_first (by_id t i) (conv_set cv) cs)
      = filter (\<lambda>x. cv_TenantID x \<noteq> t) cs" for i cs
    using conv_docs.update_other_tenants by (simp add: by_id_abs)
  then have "tenant_frame t w ((tick w)\<lparr>convs := update_first (by_id t (cv_ID cv)) (conv_set cv) (convs w)\<rparr>)"
    by (simp add: tenant_frame_def)
  then show "wp (conv_Update d c cv) (\<lambda>_. tenant_frame t w) (\<lambda>_. tenant_frame t w) w"
    using assms by (auto simp: io_wp intro!: on_dbI iso.rel_refl split: option.split)
qed

lemma iso_msg_Update:
  assumes "ctx_tenant c = Some t"
  shows "framed (tenant_frame t) (msg_Update d c m)"
proof (rule framed_wpI)
  fix w
  have "filter (\<lambda>x. m_TenantID x \<noteq> t) (update_first (msg_by_id t i) (msg_set m) ms)
      = filter (\<lambda>x. m_TenantID x \<noteq> t) ms" for i ms
    using msg_docs.update_other_tenants by (simp add: msg_by_id_abs)
  then have "tenant_frame t w ((tick w)\<lparr>msgs := update_first (msg_by_id t (m_ID m)) (msg_set m) (msgs w)\<rparr>)"
    by (simp add: tenant_frame_def)
  then show "wp (msg_Update d c m) (\<lambda>_. tenant_frame t w) (\<lambda>_. tenant_frame t w) w"
    using assms by (auto simp: io_wp intro!: on_dbI iso.rel_refl split: option.split)
qed

lemma iso_conv_Create: "cv_TenantID cv = t \<Longrightarrow> framed (tenant_frame t) (conv_Create d c cv)"
  by (rule framed_wpI) (auto simp: io_wp tenant_frame_def intro!: on_dbI)

lemma iso_msg_Create: "m_TenantID m = t \<Longrightarrow> framed (tenant_frame t) (msg_Create d c m)"
  by (rule framed_wpI) (auto simp: io_wp tenant_frame_def intro!: on_dbI)

lemma iso_event_Create: "ev_TenantID e = t \<Longrightarrow> framed (tenant_frame t) (event_Create d c e)"
  by (auto simp: framed_def event_Create_def io_defs db_call_def insert_one_def tenant_frame_def
      split: sum.split option.split)

lemma iso_log: "effect_of t e \<Longrightarrow> framed (tenant_frame t) (log_effect e)"
  by (simp add: framed_def log_effect_def io_defs tenant_frame_def)

lemma iso_db_call: "framed (tenant_frame t) m \<Longrightarrow> framed (tenant_frame t) (db_call d m)"
  unfolding framed_def db_call_def
  by (auto split: option.split intro: iso.rel_trans [OF tenant_frame_tick])

lemma iso_Publish: "(\<exists>s. topic = ''t:'' @ t @ CHR '':'' # s) \<Longrightarrow> framed (tenant_frame t) (Publish d topic ev p)"
  unfolding Publish_def by (intro iso_db_call iso_log) simp

lemma iso_PublishAll:
  "(\<And>topic ev p. (topic, ev, p) \<in> set evs \<Longrightarrow> \<exists>s. topic = ''t:'' @ t @ CHR '':'' # s) \<Longrightarrow>
     framed (tenant_frame t) (PublishAll d evs)"
  unfolding PublishAll_def
  by (auto simp: framed_def db_call_def io_defs tenant_frame_def split: option.split)

lemma iso_now: "framed (tenant_frame t) (now_io d)"
  by (simp add: framed_def now_io_def)

lemma iso_new_id: "framed (tenant_frame t) (new_id d)"
  by (simp add: framed_def new_id_def)

lemma topics_of_tenant:
  "\<exists>s. TopicTenant t = ''t:'' @ t @ CHR '':'' # s"
  "\<exists>s. TopicUser t u = ''t:'' @ t @ CHR '':'' # s"
  "\<exists>s. TopicConversation t u = ''t:'' @ t @ CHR '':'' # s"
  "\<exists>s. TopicInbox t u = ''t:'' @ t @ CHR '':'' # s"
  "\<exists>s. TopicUnassigned t = ''t:'' @ t @ CHR '':'' # s"
  by (simp_all add: topic_defs)

lemma inbox_topics_of_tenant: "topic \<in> set (InboxTopicsFor t s a) \<Longrightarrow> \<exists>r. topic = ''t:'' @ t @ CHR '':'' # r"
  by (auto simp: InboxTopicsFor_def topic_defs split: if_splits)

lemmas iso_repo = iso_conv_query iso_msg_query iso_conv_FindByID iso_msg_FindByID iso_channel_FindByID
  iso_sector_FindByID iso_now iso_new_id

lemma returns_conv_FindByID:
  "ctx_tenant c = Some t \<Longrightarrow> returns (conv_FindByID d c i) (\<lambda>cv. cv_TenantID cv = t \<and> cv_ID cv = i)"
  by (auto simp: returns_wp io_wp by_id_def intro!: on_dbI split: option.split dest!: find_Some_in)

lemma returns_msg_FindByID:
  "ctx_tenant c = Some t \<Longrightarrow> returns (msg_FindByID d c i) (\<lambda>m. m_TenantID m = t \<and> m_ID m = i)"
  by (auto simp: returns_wp io_wp msg_by_id_def intro!: on_dbI split: option.split dest!: find_Some_in)

end
