(* ===== verification/Conv_Service.thy ===== *)
theory Conv_Service
  imports Conv_Repo
begin

text \<open>
  \<open>domain/conversations/service/conversation_service.go\<close>: the conversations use cases, one
  definition per method. A method takes the service's dependencies \<open>d\<close>, the request context
  \<open>c\<close> and its arguments, and runs in the effect monad. Dependencies the code tests for nil
  are options; a port answers at the step it is asked. A Go map whose keys are enumerated
  is the list of its entries.
\<close>

section \<open>Names of events\<close>

definition RealtimeMessageCreated :: string where "RealtimeMessageCreated = ''message.created''"
definition RealtimeMessageUpdated :: string where "RealtimeMessageUpdated = ''message.updated''"
definition RealtimeMessageDeleted :: string where "RealtimeMessageDeleted = ''message.deleted''"
definition RealtimeConversationCreated :: string where "RealtimeConversationCreated = ''conversation.created''"
definition RealtimeConversationUpdated :: string where "RealtimeConversationUpdated = ''conversation.updated''"
definition RealtimeConversationClosed :: string where "RealtimeConversationClosed = ''conversation.closed''"
definition RealtimeConversationResolved :: string where "RealtimeConversationResolved = ''conversation.resolved''"
definition RealtimeConversationReopened :: string where "RealtimeConversationReopened = ''conversation.reopened''"
definition RealtimeConversationAssigned :: string where "RealtimeConversationAssigned = ''conversation.assigned''"
definition RealtimeConversationTransferred :: string where "RealtimeConversationTransferred = ''conversation.transferred''"
definition RealtimeConversationTagged :: string where "RealtimeConversationTagged = ''conversation.tagged''"
definition RealtimeTypingStarted :: string where "RealtimeTypingStarted = ''typing.started''"
definition RealtimeTypingStopped :: string where "RealtimeTypingStopped = ''typing.stopped''"
definition RealtimeMessageRead :: string where "RealtimeMessageRead = ''message.read''"
definition RealtimeMessageDelivered :: string where "RealtimeMessageDelivered = ''message.delivered''"
definition RealtimeMessageFailed :: string where "RealtimeMessageFailed = ''message.failed''"

definition EventConversationCreated :: string where "EventConversationCreated = ''conversation.created''"
definition EventMessageCreated :: string where "EventMessageCreated = ''message.created''"
definition EventMessageEdited :: string where "EventMessageEdited = ''message.edited''"
definition EventMessageDeleted :: string where "EventMessageDeleted = ''message.deleted''"
definition EventInternalNoteAdded :: string where "EventInternalNoteAdded = ''internal_note.added''"
definition EventConversationUpdated :: string where "EventConversationUpdated = ''conversation.updated''"
definition EventConversationClosed :: string where "EventConversationClosed = ''conversation.closed''"
definition EventConversationReopened :: string where "EventConversationReopened = ''conversation.reopened''"
definition EventConversationAssigned :: string where "EventConversationAssigned = ''conversation.assigned''"
definition EventConversationTransferred :: string where "EventConversationTransferred = ''conversation.transferred''"
definition EventConversationEnqueued :: string where "EventConversationEnqueued = ''conversation.enqueued''"
definition EventConversationTagged :: string where "EventConversationTagged = ''conversation.tagged''"

lemma EventMessageCreated_note [simp]: "EventInternalNoteAdded \<noteq> EventMessageCreated"
  by (simp add: EventMessageCreated_def EventInternalNoteAdded_def)

section \<open>Dependencies and commands\<close>

record attachment_resolver =
  ar_Hydrate :: "nat \<Rightarrow> ctx \<Rightarrow> ident list \<Rightarrow> (ident \<times> attachment) list res"
  ar_Validate :: "nat \<Rightarrow> ctx \<Rightarrow> ident list \<Rightarrow> unit res"

record conv_deps = env +
  dp_tags :: "(nat \<Rightarrow> ctx \<Rightarrow> string list \<Rightarrow> bool \<Rightarrow> string list res) option"
  dp_closeReasons :: "(nat \<Rightarrow> ctx \<Rightarrow> ident \<Rightarrow> bool res) option"
  dp_attachments :: "attachment_resolver option"
  dp_agents :: "(nat \<Rightarrow> ctx \<Rightarrow> ident list \<Rightarrow> (ident \<times> string) list res) option"
  dp_customAttr :: "nat \<Rightarrow> ctx \<Rightarrow> string \<Rightarrow> gmap \<Rightarrow> unit res"
  dp_ruleSink :: bool

definition ask :: "(nat \<Rightarrow> 'a res) \<Rightarrow> ('z base_world_scheme, 'a) io" where
  "ask f = (\<lambda>w. (f (step w), tick w))"

lemma wp_ask [io_wp]: "wp (ask f) Q E w = (case f (step w) of Inr x \<Rightarrow> Q x (tick w) | Inl e \<Rightarrow> E e (tick w))"
  by (simp add: wp_def ask_def)

record create_conversation =
  cc_ContactID :: string
  cc_ChannelID :: string
  cc_SectorID :: ident
  cc_QueueID :: ident
  cc_AssignedTo :: ident
  cc_Priority :: string
  cc_Tags :: "string list"

record update_conversation =
  uu_SectorID :: "ident option"
  uu_QueueID :: "ident option"
  uu_Status :: "string option"
  uu_AssignedTo :: "ident option"
  uu_Priority :: "string option"
  uu_Tags :: "string list option"
  uu_CustomAttributes :: "gmap option"

record send_template =
  st_TemplateID :: string
  st_Params :: "(string \<times> string) list"

record send_message =
  sm_MessageType :: string
  sm_Text :: string
  sm_Attachments :: "attachment list"
  sm_Template :: "send_template option"
  sm_Contacts :: "contact_card list"
  sm_Location :: "location option"
  sm_Interactive :: "interactive option"
  sm_Metadata :: gmap

record close_conversation =
  cl_CloseReasonID :: ident
  cl_Note :: string

definition ctx_tenant_id :: "ctx \<Rightarrow> ident" where
  "ctx_tenant_id c = (case ctx_tenant c of Some t \<Rightarrow> t | None \<Rightarrow> [])"

section \<open>Visibility\<close>

definition visibleTo :: "conversation \<Rightarrow> auth_context \<Rightarrow> bool" where
  "visibleTo cv ac \<longleftrightarrow> ac_SectorScope ac = ScopeAll
     \<or> cv_AssignedTo cv \<noteq> [] \<and> cv_AssignedTo cv = ac_UserID ac
     \<or> (\<exists>sid \<in> set (ac_SectorIDs ac). sid = cv_SectorID cv \<and> sid \<noteq> [])"

definition visibility :: "ctx \<Rightarrow> visibility_t res" where
  "visibility c = (case ctx_auth c of
     None \<Rightarrow> Inl (Unauthorized ''authentication required'')
   | Some ac \<Rightarrow> Inr \<lparr>vi_All = (ac_SectorScope ac = ScopeAll), vi_SectorIDs = ac_SectorIDs ac,
                     vi_UserID = ac_UserID ac\<rparr>)"

definition loadVisible ::
  "'e env_scheme \<Rightarrow> ctx \<Rightarrow> ident \<Rightarrow> ('z conv_world_scheme, conversation \<times> auth_context) io" where
  "loadVisible d c i = then_io (lift_res (RequireTenant c)) (case ctx_auth c of
     None \<Rightarrow> throw_io (Unauthorized ''authentication required'')
   | Some ac \<Rightarrow> bind_io (conv_FindByID d c i) (\<lambda>cv.
       if \<not> visibleTo cv ac then throw_io (NotFound ''conversation not found'')
       else return_io (cv, ac)))"

section \<open>Internals\<close>

definition attachmentIDs :: "attachment list \<Rightarrow> ident list" where
  "attachmentIDs atts = filter (\<lambda>i. i \<noteq> []) (map at_ID atts)"

definition attachmentIDsOnly :: "attachment list \<Rightarrow> attachment list" where
  "attachmentIDsOnly atts = map (\<lambda>a. \<lparr>at_ID = at_ID a, at_URL = [], at_ContentType = [],
     at_Filename = [], at_Size = 0\<rparr>) atts"

definition deriveMessageType :: "message \<Rightarrow> string" where
  "deriveMessageType m =
    (if trim_space (m_Text m) \<noteq> [] \<or> m_Attachments m = [] then m_MessageType m
     else if m_MessageType m = MessageTemplate \<or> m_MessageType m = MessageSystem then m_MessageType m
     else MessageTypeForContentType (at_ContentType (hd (m_Attachments m))))"

text \<open>The hydration of one message from the resolved attachments.\<close>

definition hydrate_one :: "(ident \<times> attachment) list \<Rightarrow> message \<Rightarrow> message" where
  "hydrate_one resolved m =
    (let m' = m\<lparr>m_Attachments := map (\<lambda>a. case map_of resolved (at_ID a) of Some full \<Rightarrow> full | None \<Rightarrow> a)
                 (m_Attachments m)\<rparr>
     in m'\<lparr>m_MessageType := deriveMessageType m'\<rparr>)"

definition hydrateMessages :: "'e conv_deps_scheme \<Rightarrow> ctx \<Rightarrow> message list \<Rightarrow> ('z conv_world_scheme, message list) io" where
  "hydrateMessages d c ms = (case dp_attachments d of
     None \<Rightarrow> return_io ms
   | Some ar \<Rightarrow>
      (let ids = concat (map (\<lambda>m. attachmentIDs (m_Attachments m)) ms) in
       if ms = [] \<or> ids = [] then return_io ms
       else bind_io (try_io (ask (\<lambda>n. ar_Hydrate ar n c ids))) (\<lambda>r. case r of
              Inl _ \<Rightarrow> return_io ms
            | Inr resolved \<Rightarrow> if resolved = [] then return_io ms
                else return_io (map (hydrate_one resolved) ms))))"

definition hydrate_msg :: "'e conv_deps_scheme \<Rightarrow> ctx \<Rightarrow> message \<Rightarrow> ('z conv_world_scheme, message) io" where
  "hydrate_msg d c m = bind_io (hydrateMessages d c [m]) (\<lambda>ms. return_io (hd ms))"

definition recordEvent ::
  "'e env_scheme \<Rightarrow> ctx \<Rightarrow> conversation \<Rightarrow> string \<Rightarrow> gmap \<Rightarrow> ('z conv_world_scheme, unit) io" where
  "recordEvent d c cv eventType data =
    (let actor = (case ctx_auth c of
            Some ac \<Rightarrow> if ac_UserID ac \<noteq> [] then (ActorAgent, ac_UserID ac) else (ActorSystem, [])
          | None \<Rightarrow> (ActorSystem, [])) in
     bind_io (new_id d) (\<lambda>i. bind_io (now_io d) (\<lambda>now.
       ignore_io (event_Create d c \<lparr>ev_ID = i, ev_TenantID = cv_TenantID cv,
         ev_ConversationID = cv_ID cv, ev_Type = eventType, ev_ActorType = fst actor,
         ev_ActorID = snd actor, ev_Data = data, ev_CreatedAt = now\<rparr>))))"

definition emitRuleEvent ::
  "'e conv_deps_scheme \<Rightarrow> ctx \<Rightarrow> conversation \<Rightarrow> string \<Rightarrow> payload \<Rightarrow> ('z conv_world_scheme, unit) io" where
  "emitRuleEvent d c cv event p = when_io (dp_ruleSink d)
     (log_effect (ERule (cv_TenantID cv) event (cv_ID cv) (RuleOriginFromContext c) (RuleDepthFromContext c) p))"

definition emitConversationWebhook :: "conversation \<Rightarrow> string \<Rightarrow> ('z conv_world_scheme, unit) io" where
  "emitConversationWebhook cv event = log_effect (EWebhook (cv_TenantID cv) event (cv_SectorID cv) cv None)"

definition emitMessageWebhook :: "conversation \<Rightarrow> message \<Rightarrow> string \<Rightarrow> ('z conv_world_scheme, unit) io" where
  "emitMessageWebhook cv m event = log_effect (EWebhook (cv_TenantID cv) event (cv_SectorID cv) cv (Some m))"

definition conv_payload :: "'e env_scheme \<Rightarrow> conversation \<Rightarrow> ('z conv_world_scheme, payload) io" where
  "conv_payload d cv = bind_io (now_io d) (\<lambda>now. return_io (ConvPayload (NewConversationPayload cv now)))"

text \<open>The topics \<open>publishConversation\<close> and \<open>publishLifecycle\<close> both fan out to.\<close>

definition fan_out :: "'e env_scheme \<Rightarrow> conversation \<Rightarrow> string \<Rightarrow> payload \<Rightarrow> ('z conv_world_scheme, unit) io" where
  "fan_out d cv event p = then_io
     (ignore_io (Publish d (TopicConversation (cv_TenantID cv) (cv_ID cv)) event p))
     (for_io (InboxTopicsFor (cv_TenantID cv) (cv_SectorID cv) (cv_AssignedTo cv))
        (\<lambda>topic. ignore_io (Publish d topic event p)))"

definition publishConversation :: "'e env_scheme \<Rightarrow> conversation \<Rightarrow> ('z conv_world_scheme, unit) io" where
  "publishConversation d cv = bind_io (conv_payload d cv) (fan_out d cv RealtimeConversationUpdated)"

definition publishLifecycle ::
  "'e conv_deps_scheme \<Rightarrow> ctx \<Rightarrow> conversation \<Rightarrow> string \<Rightarrow> ('z conv_world_scheme, unit) io" where
  "publishLifecycle d c cv event = (if event = [] then return_io () else
     bind_io (conv_payload d cv) (\<lambda>p.
       then_io (fan_out d cv event p) (emitRuleEvent d c cv event p)))"

definition lifecycleEventFor :: "string \<Rightarrow> string" where
  "lifecycleEventFor status =
    (if status = StatusResolved then RealtimeConversationResolved
     else if status = StatusClosed \<or> status = StatusArchived then RealtimeConversationClosed
     else [])"

text \<open>What the last message does to the conversation.\<close>

definition bump :: "message \<Rightarrow> conversation \<Rightarrow> conversation" where
  "bump m cv = cv\<lparr>cv_LastMessageAt := m_CreatedAt m, cv_LastMessage := NewLastMessageSnapshot (Some m),
     cv_UpdatedAt := m_CreatedAt m\<rparr>"

definition persistMessage ::
  "'e conv_deps_scheme \<Rightarrow> ctx \<Rightarrow> conversation \<Rightarrow> message \<Rightarrow> string \<Rightarrow> ('z conv_world_scheme, message \<times> conversation) io" where
  "persistMessage d c cv msg0 eventType =
    bind_io (hydrate_msg d c msg0) (\<lambda>msg.
    then_io (msg_Create d c (msg\<lparr>m_Attachments := attachmentIDsOnly (m_Attachments msg)\<rparr>))
    (let cv' = bump msg cv in
     then_io (conv_Update d c cv')
    (then_io (recordEvent d c cv' eventType [''message_id'' \<mapsto> GStr (m_ID msg)])
    (bind_io (conv_payload d cv') (\<lambda>convPayload.
     then_io (PublishAll d
       ([(TopicConversation (cv_TenantID cv') (cv_ID cv'), RealtimeMessageCreated, MsgPayload (NewMessagePayload msg)),
         (TopicConversation (cv_TenantID cv') (cv_ID cv'), RealtimeConversationUpdated, convPayload)]
        @ map (\<lambda>topic. (topic, RealtimeConversationUpdated, convPayload))
            (InboxTopicsFor (cv_TenantID cv') (cv_SectorID cv') (cv_AssignedTo cv'))))
    (then_io (when_io (eventType = EventMessageCreated)
       (then_io (emitMessageWebhook cv' msg EventMessageCreated)
         (let ruleCtx = (if m_SenderType msg = SenderAutomation then WithRuleOrigin c OriginAutomation else c)
          in emitRuleEvent d ruleCtx cv' EventMessageCreated (MsgPayload (NewMessagePayload msg)))))
     (return_io (msg, cv'))))))))"

section \<open>Opening, reading and updating\<close>

definition create_details :: "string \<Rightarrow> string \<Rightarrow> string \<Rightarrow> (string \<times> gany) list" where
  "create_details contactID channelID priority =
     (if contactID = [] then [(''contact_id'', GStr ''is required'')] else [])
   @ (if channelID = [] then [(''channel_id'', GStr ''is required'')] else [])
   @ (if \<not> priority_valid priority
      then [(''priority'', GStr ''must be one of low|normal|high|urgent'')] else [])"

text \<open>\<open>if From(err).Code == CodeNotFound { return other } return err\<close>.\<close>

definition remap_not_found :: "goerr \<Rightarrow> ('w, 'a) io \<Rightarrow> ('w, 'a) io" where
  "remap_not_found e' m = bind_io (try_io m) (\<lambda>r. case r of
     Inr x \<Rightarrow> return_io x
   | Inl e \<Rightarrow> throw_io (if err_code_of (From e) = CodeNotFound then e' else e))"

definition initial_status :: "ident \<Rightarrow> ident \<Rightarrow> string" where
  "initial_status assignedTo queueID =
    (if assignedTo \<noteq> [] then StatusAssigned else if queueID \<noteq> [] then StatusQueued else StatusNew)"

definition Create :: "'e conv_deps_scheme \<Rightarrow> ctx \<Rightarrow> create_conversation \<Rightarrow> ('z conv_world_scheme, conversation) io" where
  "Create d c cmd =
    bind_io (lift_res (RequireTenant c)) (\<lambda>tenantID.
    let contactID = trim_space (cc_ContactID cmd);
        channelID = trim_space (cc_ChannelID cmd);
        priority = (if cc_Priority cmd = [] then PriorityNormal else cc_Priority cmd);
        v = create_details contactID channelID priority in
    then_io (guard_io (v \<noteq> []) (WithDetails (Validation ''validation failed'') (map_of v)))
    (bind_io (remap_not_found
        (WithDetails (Validation ''channel does not exist'') [''channel_id'' \<mapsto> GStr ''not found''])
        (channel_FindByID d c channelID)) (\<lambda>conn.
    then_io (when_io (cc_SectorID cmd \<noteq> []) (bind_io (remap_not_found
        (WithDetails (Validation ''sector does not exist'') [''sector_id'' \<mapsto> GStr ''not found''])
        (sector_FindByID d c (cc_SectorID cmd))) (\<lambda>_. return_io ())))
    (bind_io (now_io d) (\<lambda>now. bind_io (new_id d) (\<lambda>i.
     let cv = \<lparr>cv_ID = i, cv_TenantID = tenantID, cv_ContactID = contactID,
               cv_Channel = ch_Type conn, cv_ChannelID = channelID, cv_SectorID = cc_SectorID cmd,
               cv_QueueID = cc_QueueID cmd,
               cv_Status = initial_status (cc_AssignedTo cmd) (cc_QueueID cmd),
               cv_AssignedTo = cc_AssignedTo cmd, cv_Priority = priority, cv_Protocol = [],
               cv_Tags = cc_Tags cmd, cv_CustomAttributes = Map.empty, cv_LastMessageAt = now,
               cv_LastMessage = None, cv_LastCustomerMessageAt = None, cv_UnreadCount = 0,
               cv_LastReadAt = None, cv_CreatedAt = now, cv_UpdatedAt = now, cv_ClosedAt = None\<rparr> in
     then_io (conv_Create d c cv)
    (then_io (recordEvent d c cv EventConversationCreated Map.empty)
    (then_io (publishConversation d cv)
    (then_io (publishLifecycle d c cv RealtimeConversationCreated)
    (then_io (emitConversationWebhook cv EventConversationCreated)
    (then_io (log_effect (ESlaCreated cv))
    (then_io (when_io (cv_Status cv = StatusQueued \<and> cv_QueueID cv \<noteq> [])
        (log_effect (EQueueChanged (ctx_tenant_id c) (cv_SectorID cv) (cv_QueueID cv))))
    (return_io cv)))))))))))))"

definition Get :: "'e conv_deps_scheme \<Rightarrow> ctx \<Rightarrow> ident \<Rightarrow> ('z conv_world_scheme, conversation) io" where
  "Get d c i = bind_io (loadVisible d c i) (\<lambda>(cv, _). return_io cv)"

definition List_convs ::
  "'e conv_deps_scheme \<Rightarrow> ctx \<Rightarrow> list_filter \<Rightarrow> page_request \<Rightarrow> ('z conv_world_scheme, conversation list) io" where
  "List_convs d c f page = then_io (lift_res (RequireTenant c))
     (bind_io (lift_res (visibility c)) (\<lambda>vis. conv_List d c f vis (Normalize page)))"

definition UnreadCounts :: "'e conv_deps_scheme \<Rightarrow> ctx \<Rightarrow> ('z conv_world_scheme, unread_counts) io" where
  "UnreadCounts d c = then_io (lift_res (RequireTenant c))
     (bind_io (lift_res (visibility c)) (conv_UnreadCounts d c))"

text \<open>The snapshot after an edit, or after a delete of the message it mirrors.\<close>

definition snapshot_after ::
  "'e env_scheme \<Rightarrow> ctx \<Rightarrow> conversation \<Rightarrow> message \<Rightarrow> bool \<Rightarrow> ('z conv_world_scheme, conversation) io" where
  "snapshot_after d c cv affected deleted =
    (if \<not> deleted then return_io (cv\<lparr>cv_LastMessage := NewLastMessageSnapshot (Some affected)\<rparr>)
     else bind_io (try_io (LatestByConversation d c (cv_ID cv))) (\<lambda>r. case r of
         Inl e \<Rightarrow> if err_code_of (From e) \<noteq> CodeNotFound then throw_io e
                  else return_io (cv\<lparr>cv_LastMessage := NewLastMessageSnapshot None\<rparr>)
       | Inr latest \<Rightarrow> return_io (cv\<lparr>cv_LastMessage := NewLastMessageSnapshot (Some latest),
                                     cv_LastMessageAt := m_CreatedAt latest\<rparr>)))"

definition refreshLastMessageSnapshot ::
  "'e conv_deps_scheme \<Rightarrow> ctx \<Rightarrow> conversation \<Rightarrow> message \<Rightarrow> bool \<Rightarrow> ('z conv_world_scheme, conversation) io" where
  "refreshLastMessageSnapshot d c cv affected deleted =
    (if map_option lm_MessageID (cv_LastMessage cv) \<noteq> Some (m_ID affected) then return_io cv
     else bind_io (snapshot_after d c cv affected deleted) (\<lambda>cv1.
       bind_io (now_io d) (\<lambda>now.
          let cv2 = cv1\<lparr>cv_UpdatedAt := now\<rparr> in
          then_io (conv_Update d c cv2) (then_io (publishConversation d cv2) (return_io cv2)))))"

definition set_opt :: "'a option \<Rightarrow> ('a \<Rightarrow> 'b \<Rightarrow> 'b) \<Rightarrow> 'b \<Rightarrow> 'b" where
  "set_opt o1 f x = (case o1 of None \<Rightarrow> x | Some v \<Rightarrow> f v x)"

definition Update_conv ::
  "'e conv_deps_scheme \<Rightarrow> ctx \<Rightarrow> ident \<Rightarrow> update_conversation \<Rightarrow> ('z conv_world_scheme, conversation) io" where
  "Update_conv d c i cmd =
    bind_io (loadVisible d c i) (\<lambda>(cv0, _).
    let cv1 = set_opt (uu_SectorID cmd) (\<lambda>v x. x\<lparr>cv_SectorID := v\<rparr>) cv0;
        cv2 = set_opt (uu_QueueID cmd) (\<lambda>v x. x\<lparr>cv_QueueID := v\<rparr>) cv1;
        cv3 = set_opt (uu_AssignedTo cmd) (\<lambda>v x. x\<lparr>cv_AssignedTo := v\<rparr>) cv2 in
    then_io (guard_io (\<exists>p \<in> set_option (uu_Priority cmd). \<not> priority_valid p) (Validation ''invalid priority''))
   (then_io (guard_io (\<exists>s \<in> set_option (uu_Status cmd). \<not> status_valid s) (Validation ''invalid status''))
   (let cv4 = set_opt (uu_Priority cmd) (\<lambda>v x. x\<lparr>cv_Priority := v\<rparr>) cv3;
        statusChanged = (\<exists>s \<in> set_option (uu_Status cmd). cv_Status cv4 \<noteq> s);
        cv5 = set_opt (uu_Status cmd) (\<lambda>v x. x\<lparr>cv_Status := v\<rparr>) cv4;
        cv6 = set_opt (uu_Tags cmd) (\<lambda>v x. x\<lparr>cv_Tags := v\<rparr>) cv5 in
    then_io (case uu_CustomAttributes cmd of None \<Rightarrow> return_io ()
             | Some attrs \<Rightarrow> ask (\<lambda>n. dp_customAttr d n c ''conversation'' attrs))
   (let cv7 = set_opt (uu_CustomAttributes cmd) (\<lambda>v x. x\<lparr>cv_CustomAttributes := v\<rparr>) cv6 in
    bind_io (now_io d) (\<lambda>now. let cv = cv7\<lparr>cv_UpdatedAt := now\<rparr> in
    then_io (conv_Update d c cv)
   (then_io (recordEvent d c cv EventConversationUpdated Map.empty)
   (then_io (publishConversation d cv)
   (then_io (emitConversationWebhook cv RealtimeConversationUpdated)
   (then_io (bind_io (conv_payload d cv) (emitRuleEvent d c cv RealtimeConversationUpdated))
   (then_io (when_io statusChanged (publishLifecycle d c cv (lifecycleEventFor (cv_Status cv))))
   (return_io cv)))))))))))"

section \<open>Messages\<close>

definition template_details :: "template_variable list \<Rightarrow> (string \<times> string) list \<Rightarrow> (string \<times> gany) list" where
  "template_details vars params =
     map (\<lambda>va. (''template.params.'' @ tv_Key va, GStr ''is required''))
       (filter (\<lambda>va. case map_of params (tv_Key va) of None \<Rightarrow> True | Some v \<Rightarrow> trim_space v = []) vars)
   @ map (\<lambda>(k, _). (''template.params.'' @ k, GStr ''is not a variable of this template''))
       (filter (\<lambda>(k, _). k \<notin> tv_Key ` set vars) params)"

definition template_display :: "whatsapp_template \<Rightarrow> (string \<times> string) list \<Rightarrow> string" where
  "template_display tmpl params = foldl (\<lambda>display va.
     replace_all (''{{'' @ tv_Key va @ ''}}'')
       (case map_of params (tv_Key va) of Some v \<Rightarrow> v | None \<Rightarrow> []) display)
     (wt_BodyText tmpl) (wt_Variables tmpl)"

definition resolveTemplate ::
  "'e conv_deps_scheme \<Rightarrow> ctx \<Rightarrow> conversation \<Rightarrow> send_template option
     \<Rightarrow> ('z conv_world_scheme, string \<times> template_payload) io" where
  "resolveTemplate d c cv sel0 = (case sel0 of
     None \<Rightarrow> throw_io (WithDetails (Validation ''template is required for a template message'')
               [''template.template_id'' \<mapsto> GStr ''is required''])
   | Some sel \<Rightarrow>
      then_io (guard_io (trim_space (st_TemplateID sel) = [])
        (WithDetails (Validation ''template is required for a template message'')
           [''template.template_id'' \<mapsto> GStr ''is required'']))
     (then_io (guard_io (cv_ChannelID cv = [])
        (Validation ''conversation has no channel to resolve the template against''))
     (bind_io (channel_FindByID d c (cv_ChannelID cv)) (\<lambda>conn.
      case FindTemplate (ch_WhatsAppTemplates conn) (st_TemplateID sel) of
        None \<Rightarrow> throw_io (WithDetails (Validation ''template not available on this channel'')
                  [''template.template_id'' \<mapsto> GStr ''not found on this channel''])
      | Some tmpl \<Rightarrow>
          (let v = template_details (wt_Variables tmpl) (st_Params sel) in
           then_io (guard_io (v \<noteq> []) (WithDetails (Validation ''invalid template params'') (map_of v)))
             (return_io (template_display tmpl (st_Params sel),
                \<lparr>tp_TemplateID = wt_ID tmpl, tp_Params = map_of (st_Params sel)\<rparr>)))))))"

definition bad_payload :: "string \<Rightarrow> string \<Rightarrow> goerr" where
  "bad_payload key msg = WithDetails (Validation msg) [key \<mapsto> GStr msg]"

text \<open>The \<open>switch mtype\<close> of \<open>SendMessage\<close>: the text to store and the template payload.\<close>

definition send_content ::
  "'e conv_deps_scheme \<Rightarrow> ctx \<Rightarrow> conversation \<Rightarrow> string \<Rightarrow> send_message
     \<Rightarrow> ('z conv_world_scheme, string \<times> template_payload option) io" where
  "send_content d c cv mtype cmd =
    (if mtype = MessageTemplate then
       bind_io (resolveTemplate d c cv (sm_Template cmd)) (\<lambda>(txt, p). return_io (txt, Some p))
     else if mtype = MessageContact then
       (let msg = ValidateContacts (sm_Contacts cmd) in
        then_io (guard_io (msg \<noteq> []) (bad_payload ''contacts'' msg)) (return_io (sm_Text cmd, None)))
     else if mtype = MessageLocation then
       (let msg = location_Validate (sm_Location cmd) in
        then_io (guard_io (msg \<noteq> []) (bad_payload ''location'' msg)) (return_io (sm_Text cmd, None)))
     else if mtype = MessageInteractive then
       (let msg = interactive_Validate (sm_Interactive cmd) in
        then_io (guard_io (msg \<noteq> []) (bad_payload ''interactive'' msg))
          (return_io ((if trim_space (sm_Text cmd) = []
             then (case sm_Interactive cmd of Some iv \<Rightarrow> iv_Body iv | None \<Rightarrow> []) else sm_Text cmd), None)))
     else
       then_io (guard_io (trim_space (sm_Text cmd) = [] \<and> sm_Attachments cmd = [])
         (Validation ''message text or attachments required''))
      (then_io (case dp_attachments d of
           Some ar \<Rightarrow> when_io (sm_Attachments cmd \<noteq> [])
              (ask (\<lambda>n. ar_Validate ar n c (attachmentIDs (sm_Attachments cmd))))
         | None \<Rightarrow> return_io ())
       (return_io (sm_Text cmd, None))))"

definition SendMessage ::
  "'e conv_deps_scheme \<Rightarrow> ctx \<Rightarrow> ident \<Rightarrow> send_message \<Rightarrow> ('z conv_world_scheme, message) io" where
  "SendMessage d c conversationID cmd =
    bind_io (loadVisible d c conversationID) (\<lambda>(cv, ac).
    then_io (guard_io (status_is_closed (cv_Status cv)) (Conflict ''conversation is closed''))
   (let mtype = (if sm_MessageType cmd = [] then MessageText else sm_MessageType cmd) in
    then_io (guard_io (\<not> mtype_valid mtype) (Validation ''invalid message_type''))
   (then_io (guard_io (cv_Channel cv \<noteq> ChannelTypeWhatsApp \<and> mtype = MessageInteractive)
      (Validation ''interactive messages are only supported on WhatsApp channels''))
   (then_io (guard_io (cv_Channel cv \<noteq> ChannelTypeWhatsApp \<and> mtype = MessageTemplate)
      (Validation ''templates are only supported on WhatsApp channels''))
   (bind_io (send_content d c cv mtype cmd) (\<lambda>(txt, templatePayload).
    bind_io (now_io d) (\<lambda>now. bind_io (new_id d) (\<lambda>i.
    let msg = zero_message\<lparr>m_ID := i, m_TenantID := cv_TenantID cv, m_ConversationID := cv_ID cv,
          m_SenderType := SenderAgent, m_SenderID := ac_UserID ac, m_Direction := DirectionOutbound,
          m_MessageType := mtype, m_Text := txt, m_Attachments := sm_Attachments cmd,
          m_Template := templatePayload, m_Contacts := sm_Contacts cmd, m_Location := sm_Location cmd,
          m_Interactive := sm_Interactive cmd, m_Metadata := sm_Metadata cmd, m_CreatedAt := now,
          m_DeliveryStatus := DeliveryPending\<rparr> in
    bind_io (persistMessage d c cv msg EventMessageCreated) (\<lambda>(saved, cv').
    then_io (log_effect (ESlaFirstResponse cv' (m_CreatedAt saved))) (return_io saved))))))))))"

definition AddInternalNote ::
  "'e conv_deps_scheme \<Rightarrow> ctx \<Rightarrow> ident \<Rightarrow> string \<Rightarrow> ident list \<Rightarrow> ('z conv_world_scheme, message) io" where
  "AddInternalNote d c conversationID txt mentions =
    bind_io (loadVisible d c conversationID) (\<lambda>(cv, ac).
    then_io (guard_io (trim_space txt = []) (Validation ''note text is required''))
   (bind_io (now_io d) (\<lambda>now. bind_io (new_id d) (\<lambda>i.
    let msg = zero_message\<lparr>m_ID := i, m_TenantID := cv_TenantID cv, m_ConversationID := cv_ID cv,
          m_SenderType := SenderAgent, m_SenderID := ac_UserID ac, m_Direction := DirectionInternal,
          m_MessageType := MessageText, m_Text := txt, m_CreatedAt := now,
          m_DeliveryStatus := DeliveryNone\<rparr> in
    bind_io (persistMessage d c cv msg EventInternalNoteAdded) (\<lambda>(saved, _).
    then_io (for_io mentions (\<lambda>uid. if uid = [] \<or> uid = ac_UserID ac then return_io ()
        else log_effect (ENotify (cv_TenantID cv) uid ''mention.internal_note''
               (''/conversations/'' @ cv_ID cv))))
     (return_io saved))))))"

section \<open>Closing and reopening\<close>

text \<open>The hooks that follow a stored close, shared by \<open>Close\<close> and \<open>CloseInactive\<close>.\<close>

definition close_effects ::
  "'e conv_deps_scheme \<Rightarrow> ctx \<Rightarrow> conversation \<Rightarrow> gmap \<Rightarrow> bool \<Rightarrow> time \<Rightarrow> ('z conv_world_scheme, unit) io" where
  "close_effects d c cv data wasQueued now =
    then_io (recordEvent d c cv EventConversationClosed data)
   (then_io (publishConversation d cv)
   (then_io (publishLifecycle d c cv RealtimeConversationClosed)
   (then_io (emitConversationWebhook cv EventConversationClosed)
   (then_io (log_effect (ESlaResolved cv now))
   (then_io (log_effect (ECsatClosed cv))
   (when_io wasQueued (log_effect (EQueueChanged (ctx_tenant_id c) (cv_SectorID cv) (cv_QueueID cv)))))))))"

definition Close ::
  "'e conv_deps_scheme \<Rightarrow> ctx \<Rightarrow> ident \<Rightarrow> close_conversation \<Rightarrow> ('z conv_world_scheme, conversation) io" where
  "Close d c conversationID cmd =
    bind_io (loadVisible d c conversationID) (\<lambda>(cv0, _).
    then_io (guard_io (cv_Status cv0 = StatusClosed \<or> cv_Status cv0 = StatusArchived)
      (Conflict ''conversation is already closed''))
   (then_io (case dp_closeReasons d of
        Some requiresNote \<Rightarrow> if cl_CloseReasonID cmd = [] then return_io ()
          else bind_io (ask (\<lambda>n. requiresNote n c (cl_CloseReasonID cmd))) (\<lambda>req.
            guard_io (req \<and> trim_space (cl_Note cmd) = [])
              (WithDetails (Validation ''this close reason requires a note'')
                 [''note'' \<mapsto> GStr ''is required for this close reason'']))
      | None \<Rightarrow> return_io ())
   (let wasQueued = (cv_Status cv0 = StatusQueued \<and> cv_QueueID cv0 \<noteq> []) in
    bind_io (now_io d) (\<lambda>now.
    let cv = cv0\<lparr>cv_Status := StatusClosed, cv_ClosedAt := Some now, cv_UpdatedAt := now\<rparr> in
    then_io (conv_Update d c cv)
   (then_io (when_io (trim_space (cl_Note cmd) \<noteq> [])
       (bind_io (AddInternalNote d c (cv_ID cv) (cl_Note cmd) []) (\<lambda>_. return_io ())))
   (then_io (close_effects d c cv
       [''close_reason_id'' \<mapsto> GStr (cl_CloseReasonID cmd), ''note'' \<mapsto> GStr (cl_Note cmd)] wasQueued now)
   (then_io (log_effect (EAudit (ctx_tenant_id c) ''conversation.closed'' (cv_ID cv)
       [''close_reason_id'' \<mapsto> GStr (cl_CloseReasonID cmd)]))
    (return_io cv))))))))"

text \<open>One turn of \<open>CloseInactive\<close>'s loop; a failed write skips the conversation.\<close>

definition close_inactive_one ::
  "'e conv_deps_scheme \<Rightarrow> ctx \<Rightarrow> time \<Rightarrow> nat \<Rightarrow> conversation \<Rightarrow> ('z conv_world_scheme, nat) io" where
  "close_inactive_one d c now n cv0 =
    (let wasQueued = (cv_Status cv0 = StatusQueued \<and> cv_QueueID cv0 \<noteq> []);
         cv = cv0\<lparr>cv_Status := StatusClosed, cv_ClosedAt := Some now, cv_UpdatedAt := now\<rparr> in
     bind_io (try_io (conv_Update d c cv)) (\<lambda>r. case r of
       Inl _ \<Rightarrow> return_io n
     | Inr _ \<Rightarrow> then_io (close_effects d c cv [''reason'' \<mapsto> GStr ''inactivity''] wasQueued now)
                  (return_io (Suc n))))"

definition CloseInactive :: "'e conv_deps_scheme \<Rightarrow> ctx \<Rightarrow> duration \<Rightarrow> ('z conv_world_scheme, nat) io" where
  "CloseInactive d c idleFor = then_io (lift_res (RequireTenant c))
    (bind_io (now_io d) (\<lambda>now.
     bind_io (ListInactiveOpen d c (now - idleFor) 500) (\<lambda>cvs.
     fold_io (close_inactive_one d c now) 0 cvs)))"

definition Reopen :: "'e conv_deps_scheme \<Rightarrow> ctx \<Rightarrow> ident \<Rightarrow> ('z conv_world_scheme, conversation) io" where
  "Reopen d c conversationID =
    bind_io (loadVisible d c conversationID) (\<lambda>(cv0, _).
    then_io (guard_io (\<not> status_is_closed (cv_Status cv0)) (Conflict ''conversation is not closed''))
   (bind_io (now_io d) (\<lambda>now.
    let cv = cv0\<lparr>cv_Status := initial_status (cv_AssignedTo cv0) (cv_QueueID cv0),
                 cv_ClosedAt := None, cv_UpdatedAt := now\<rparr> in
    then_io (conv_Update d c cv)
   (then_io (recordEvent d c cv EventConversationReopened Map.empty)
   (then_io (publishConversation d cv)
   (then_io (publishLifecycle d c cv RealtimeConversationReopened)
    (return_io cv)))))))"

section \<open>System and automation messages\<close>

text \<open>
  \<open>SendSystemMessage\<close> and \<open>SendAutomationMessage\<close>: no visibility and no closed-conversation
  check; they differ in the sender.
\<close>

definition send_trusted ::
  "'e conv_deps_scheme \<Rightarrow> ctx \<Rightarrow> ident \<Rightarrow> string \<Rightarrow> ident \<Rightarrow> string \<Rightarrow> ('z conv_world_scheme, message) io" where
  "send_trusted d c conversationID senderType senderID txt =
    then_io (lift_res (RequireTenant c))
   (bind_io (conv_FindByID d c conversationID) (\<lambda>cv.
    then_io (guard_io (trim_space txt = []) (Validation ''message text is required''))
   (bind_io (now_io d) (\<lambda>now. bind_io (new_id d) (\<lambda>i.
    let msg = zero_message\<lparr>m_ID := i, m_TenantID := cv_TenantID cv, m_ConversationID := cv_ID cv,
          m_SenderType := senderType, m_SenderID := senderID, m_Direction := DirectionOutbound,
          m_MessageType := MessageText, m_Text := txt, m_CreatedAt := now,
          m_DeliveryStatus := DeliveryPending\<rparr> in
    bind_io (persistMessage d c cv msg EventMessageCreated) (\<lambda>(saved, _). return_io saved))))))"

definition SendSystemMessage ::
  "'e conv_deps_scheme \<Rightarrow> ctx \<Rightarrow> ident \<Rightarrow> string \<Rightarrow> ('z conv_world_scheme, message) io" where
  "SendSystemMessage d c conversationID txt = send_trusted d c conversationID SenderSystem [] txt"

definition SendAutomationMessage ::
  "'e conv_deps_scheme \<Rightarrow> ctx \<Rightarrow> ident \<Rightarrow> ident \<Rightarrow> string \<Rightarrow> ('z conv_world_scheme, unit) io" where
  "SendAutomationMessage d c conversationID ruleID txt =
     bind_io (send_trusted d c conversationID SenderAutomation ruleID txt) (\<lambda>_. return_io ())"

section \<open>Tags\<close>

definition dedupe :: "string list \<Rightarrow> string list" where
  "dedupe xs = keep_first (\<lambda>s. s \<noteq> []) {} xs"

text \<open>The closure \<open>keep\<close> runs over \<open>current\<close>, then over \<open>add\<close>, with one \<open>seen\<close> set.\<close>

definition applyTagChanges :: "string list \<Rightarrow> string list \<Rightarrow> string list \<Rightarrow> string list" where
  "applyTagChanges current add remove =
    (let keep = keep_first (\<lambda>t. t \<noteq> [] \<and> t \<notin> set remove);
         out = keep {} current
     in out @ keep (set out) add)"

definition resolve_tags ::
  "'e conv_deps_scheme \<Rightarrow> ctx \<Rightarrow> string list \<Rightarrow> bool \<Rightarrow> ('z conv_world_scheme, string list) io" where
  "resolve_tags d c refs strict = (case dp_tags d of
     None \<Rightarrow> return_io refs
   | Some catalog \<Rightarrow> if refs = [] then return_io refs else ask (\<lambda>n. catalog n c refs strict))"

definition ApplyTags ::
  "'e conv_deps_scheme \<Rightarrow> ctx \<Rightarrow> ident \<Rightarrow> string list \<Rightarrow> string list \<Rightarrow> ('z conv_world_scheme, conversation) io" where
  "ApplyTags d c conversationID add0 remove0 =
    bind_io (loadVisible d c conversationID) (\<lambda>(cv0, _).
    let add1 = dedupe add0; remove1 = dedupe remove0 in
    then_io (guard_io (add1 = [] \<and> remove1 = []) (Validation ''provide at least one tag to add or remove''))
   (bind_io (resolve_tags d c add1 True) (\<lambda>add.
    bind_io (resolve_tags d c remove1 False) (\<lambda>remove.
    bind_io (now_io d) (\<lambda>now.
    let cv = cv0\<lparr>cv_Tags := applyTagChanges (cv_Tags cv0) add remove, cv_UpdatedAt := now\<rparr> in
    then_io (conv_Update d c cv)
   (then_io (recordEvent d c cv EventConversationTagged [''added'' \<mapsto> GStrs add, ''removed'' \<mapsto> GStrs remove])
   (bind_io (conv_payload d cv) (\<lambda>p.
    then_io (ignore_io (Publish d (TopicConversation (cv_TenantID cv) (cv_ID cv)) RealtimeConversationTagged p))
   (then_io (publishConversation d cv)
    (return_io cv)))))))))) "

section \<open>Timelines, typing and read state\<close>

definition ListMessages ::
  "'e conv_deps_scheme \<Rightarrow> ctx \<Rightarrow> ident \<Rightarrow> page_request \<Rightarrow> ('z conv_world_scheme, message list) io" where
  "ListMessages d c conversationID page = then_io (loadVisible d c conversationID)
     (bind_io (msg_ListByConversation d c conversationID (Normalize page)) (hydrateMessages d c))"

definition ListEvents ::
  "'e conv_deps_scheme \<Rightarrow> ctx \<Rightarrow> ident \<Rightarrow> page_request \<Rightarrow> ('z conv_world_scheme, conversation_event list) io" where
  "ListEvents d c conversationID page = then_io (loadVisible d c conversationID)
     (event_ListByConversation d c conversationID (Normalize page))"

definition SetTyping :: "'e conv_deps_scheme \<Rightarrow> ctx \<Rightarrow> ident \<Rightarrow> bool \<Rightarrow> ('z conv_world_scheme, unit) io" where
  "SetTyping d c conversationID on = bind_io (loadVisible d c conversationID) (\<lambda>(cv, ac).
     Publish d (TopicConversation (cv_TenantID cv) (cv_ID cv))
       (if on then RealtimeTypingStarted else RealtimeTypingStopped)
       (TypingPayload (cv_ID cv) (ac_UserID ac)))"

definition MarkRead :: "'e conv_deps_scheme \<Rightarrow> ctx \<Rightarrow> ident \<Rightarrow> ('z conv_world_scheme, unit) io" where
  "MarkRead d c conversationID = bind_io (loadVisible d c conversationID) (\<lambda>(cv0, ac).
     bind_io (now_io d) (\<lambda>now.
     then_io (when_io (cv_UnreadCount cv0 \<noteq> 0 \<or> cv_LastReadAt cv0 = None)
       (let cv = cv0\<lparr>cv_UnreadCount := 0, cv_LastReadAt := Some now, cv_UpdatedAt := now\<rparr> in
        then_io (conv_Update d c cv) (publishConversation d cv)))
     (Publish d (TopicConversation (cv_TenantID cv0) (cv_ID cv0)) RealtimeMessageRead
        (ReadPayload (cv_ID cv0) (ac_UserID ac) now))))"

definition MarkUnread :: "'e conv_deps_scheme \<Rightarrow> ctx \<Rightarrow> ident \<Rightarrow> ('z conv_world_scheme, unit) io" where
  "MarkUnread d c conversationID = bind_io (loadVisible d c conversationID) (\<lambda>(cv0, _).
     if cv_UnreadCount cv0 \<noteq> 0 then return_io ()
     else bind_io (now_io d) (\<lambda>now.
       let cv = cv0\<lparr>cv_UnreadCount := 1, cv_UpdatedAt := now\<rparr> in
       then_io (conv_Update d c cv) (publishConversation d cv)))"

section \<open>Editing and deleting messages\<close>

definition loadMessage :: "'e env_scheme \<Rightarrow> ctx \<Rightarrow> conversation \<Rightarrow> ident \<Rightarrow> ('z conv_world_scheme, message) io" where
  "loadMessage d c cv messageID = bind_io (msg_FindByID d c messageID) (\<lambda>msg.
     then_io (guard_io (m_ConversationID msg \<noteq> cv_ID cv) (NotFound ''message not found''))
    (then_io (guard_io (IsDeleted msg) (Conflict ''message is already deleted''))
     (return_io msg)))"

definition canManageMessage :: "auth_context \<Rightarrow> message \<Rightarrow> bool" where
  "canManageMessage ac msg \<longleftrightarrow>
     m_SenderID msg \<noteq> [] \<and> m_SenderID msg = ac_UserID ac \<or> ac_has ac MessageDelete"

definition EditMessage ::
  "'e conv_deps_scheme \<Rightarrow> ctx \<Rightarrow> ident \<Rightarrow> ident \<Rightarrow> string \<Rightarrow> ('z conv_world_scheme, message) io" where
  "EditMessage d c conversationID messageID txt0 =
    bind_io (loadVisible d c conversationID) (\<lambda>(cv, ac).
    let txt = trim_space txt0 in
    then_io (guard_io (txt = []) (Validation ''message text is required''))
   (bind_io (loadMessage d c cv messageID) (\<lambda>msg0.
    then_io (guard_io (m_SenderType msg0 \<noteq> SenderAgent) (Validation ''only agent messages can be edited''))
   (then_io (guard_io (\<not> canManageMessage ac msg0) (Forbidden ''you can only edit your own messages''))
   (bind_io (now_io d) (\<lambda>now.
    let msg1 = msg0\<lparr>m_Text := txt, m_EditedAt := Some now\<rparr> in
    then_io (msg_Update d c msg1)
   (bind_io (hydrate_msg d c msg1) (\<lambda>msg.
    bind_io (refreshLastMessageSnapshot d c cv msg False) (\<lambda>cv'.
    then_io (recordEvent d c cv' EventMessageEdited [''message_id'' \<mapsto> GStr (m_ID msg)])
   (then_io (ignore_io (Publish d (TopicConversation (cv_TenantID cv') (cv_ID cv'))
        RealtimeMessageUpdated (MsgPayload (NewMessagePayload msg))))
   (then_io (when_io (m_Direction msg \<noteq> DirectionInternal)
        (emitMessageWebhook cv' msg RealtimeMessageUpdated))
    (return_io msg)))))))))))) "

definition DeleteMessage ::
  "'e conv_deps_scheme \<Rightarrow> ctx \<Rightarrow> ident \<Rightarrow> ident \<Rightarrow> ('z conv_world_scheme, unit) io" where
  "DeleteMessage d c conversationID messageID =
    bind_io (loadVisible d c conversationID) (\<lambda>(cv, ac).
    bind_io (try_io (loadMessage d c cv messageID)) (\<lambda>r. case r of
      Inl e \<Rightarrow> if err_code_of (From e) = CodeConflict then return_io () else throw_io e
    | Inr msg0 \<Rightarrow>
        then_io (guard_io (\<not> canManageMessage ac msg0) (Forbidden ''not allowed to delete this message''))
       (bind_io (now_io d) (\<lambda>now.
        let msg = msg0\<lparr>m_DeletedAt := Some now\<rparr> in
        then_io (msg_Update d c msg)
       (bind_io (refreshLastMessageSnapshot d c cv msg True) (\<lambda>cv'.
        then_io (recordEvent d c cv' EventMessageDeleted [''message_id'' \<mapsto> GStr (m_ID msg)])
       (then_io (ignore_io (Publish d (TopicConversation (cv_TenantID cv') (cv_ID cv'))
            RealtimeMessageDeleted (MsgRefPayload (m_ID msg) (cv_ID cv'))))
        (log_effect (EAudit (ctx_tenant_id c) ''message.deleted'' (m_ID msg)
           [''sender_type'' \<mapsto> GStr (m_SenderType msg), ''conversation_id'' \<mapsto> GStr (cv_ID cv')])))))))))"

section \<open>Delivery receipts\<close>

definition receipt_status :: "string \<Rightarrow> string option" where
  "receipt_status status =
    (let s = trim_space status in
     if s = ''delivered'' then Some DeliveryDelivered
     else if s = ''read'' then Some DeliveryRead
     else if s = ''failed'' then Some DeliveryFailed
     else None)"

definition receipt_event :: "string \<Rightarrow> string" where
  "receipt_event to =
    (if to = DeliveryDelivered then RealtimeMessageDelivered
     else if to = DeliveryRead then RealtimeMessageRead
     else if to = DeliveryFailed then RealtimeMessageFailed else [])"

definition stamp_receipt :: "string \<Rightarrow> time \<Rightarrow> message \<Rightarrow> message" where
  "stamp_receipt to now m =
    (let m' = m\<lparr>m_DeliveryStatus := to\<rparr> in
     if to = DeliveryDelivered then m'\<lparr>m_DeliveredAt := Some now\<rparr>
     else if to = DeliveryRead then m'\<lparr>m_ReadAt := Some now\<rparr> else m')"

definition ApplyDeliveryReceipt ::
  "'e conv_deps_scheme \<Rightarrow> ctx \<Rightarrow> ident \<Rightarrow> string \<Rightarrow> ('z conv_world_scheme, unit) io" where
  "ApplyDeliveryReceipt d c messageID status =
    then_io (lift_res (RequireTenant c)) (case receipt_status status of
      None \<Rightarrow> throw_io (WithDetails (Validation ''status must be one of: delivered, read, failed'')
                [''status'' \<mapsto> GStr ''must be delivered|read|failed''])
    | Some to \<Rightarrow> bind_io (msg_FindByID d c messageID) (\<lambda>msg0.
        if \<not> DeliveryAdvances (m_DeliveryStatus msg0) to then return_io ()
        else bind_io (now_io d) (\<lambda>now.
          let msg = stamp_receipt to now msg0 in
          then_io (msg_Update d c msg)
            (ignore_io (Publish d (TopicConversation (m_TenantID msg) (m_ConversationID msg))
               (receipt_event to) (MsgStatusPayload (m_ID msg) (m_ConversationID msg) to))))))"

end
