(* ===== verification/Conv_Demo.thy ===== *)
theory Conv_Demo
  imports Conv_Service
begin

text \<open>
  A small concrete state on which the properties' hypotheses are discharged: one tenant with
  an agent, a WhatsApp channel, a queued conversation and a message in it, and a clock that
  advances by a millisecond at each step.
\<close>

definition demo_deps :: conv_deps where
  "demo_deps = \<lparr>clk = (\<lambda>n. int n * 1000000), newid = (\<lambda>n. CHR ''n'' # replicate n CHR ''1''),
     fault = (\<lambda>_. None), dp_tags = None, dp_closeReasons = None, dp_attachments = None,
     dp_agents = None, dp_customAttr = (\<lambda>_ _ _ _. Inr ()), dp_ruleSink = True\<rparr>"

definition demo_agent :: auth_context where
  "demo_agent = \<lparr>ac_TenantID = ''t1'', ac_UserID = ''u1'', ac_Permissions = set AllPermissions,
     ac_SectorIDs = [''s1''], ac_SectorScope = ScopeOwn\<rparr>"

definition demo_ctx :: ctx where
  "demo_ctx = \<lparr>ctx_tenant = Some ''t1'', ctx_auth = Some demo_agent, ctx_origin = None, ctx_depth = None\<rparr>"

definition demo_conv :: conversation where
  "demo_conv = \<lparr>cv_ID = ''c1'', cv_TenantID = ''t1'', cv_ContactID = ''p1'', cv_Channel = ''whatsapp'',
     cv_ChannelID = ''ch1'', cv_SectorID = ''s1'', cv_QueueID = ''q1'', cv_Status = StatusQueued,
     cv_AssignedTo = [], cv_Priority = PriorityNormal, cv_Protocol = [], cv_Tags = [''vip''],
     cv_CustomAttributes = Map.empty, cv_LastMessageAt = 0, cv_LastMessage = None,
     cv_LastCustomerMessageAt = None, cv_UnreadCount = 2, cv_LastReadAt = None, cv_CreatedAt = 0,
     cv_UpdatedAt = 0, cv_ClosedAt = None\<rparr>"

definition demo_msg :: message where
  "demo_msg = zero_message\<lparr>m_ID := ''m1'', m_TenantID := ''t1'', m_ConversationID := ''c1'',
     m_SenderType := SenderAgent, m_SenderID := ''u1'', m_Direction := DirectionOutbound,
     m_MessageType := MessageText, m_Text := ''hello'', m_DeliveryStatus := DeliveryPending\<rparr>"

definition demo_channel :: channel_connection where
  "demo_channel = \<lparr>ch_ID = ''ch1'', ch_TenantID = ''t1'', ch_Type = ''whatsapp'', ch_Name = ''main'',
     ch_BusinessHours = Map.empty, ch_OutOfHoursMessage = [], ch_Enabled = True,
     ch_UsesProtocol = False, ch_WhatsAppTemplates = []\<rparr>"

definition demo_world :: conv_world where
  "demo_world = \<lparr>step = 0, convs = [demo_conv], msgs = [demo_msg], cevents = [],
     chans = [demo_channel], sectors = [\<lparr>se_ID = ''s1'', se_TenantID = ''t1'', se_Name = ''sales'',
     se_Enabled = True\<rparr>], effects = []\<rparr>"

definition demo_closed :: conv_world where
  "demo_closed = demo_world\<lparr>convs := [demo_conv\<lparr>cv_Status := StatusClosed, cv_ClosedAt := Some 0\<rparr>]\<rparr>"

definition demo_other_ctx :: ctx where
  "demo_other_ctx = demo_ctx\<lparr>ctx_tenant := Some ''t2'',
     ctx_auth := Some (demo_agent\<lparr>ac_TenantID := ''t2'', ac_SectorScope := ScopeAll\<rparr>)\<rparr>"

definition demo_stranger :: ctx where
  "demo_stranger = demo_ctx\<lparr>ctx_auth := Some (demo_agent\<lparr>ac_UserID := ''u9'', ac_SectorIDs := [''s9'']\<rparr>)\<rparr>"

lemmas demo_defs = demo_deps_def demo_agent_def demo_ctx_def demo_conv_def demo_msg_def demo_world_def
  demo_channel_def demo_closed_def demo_other_ctx_def demo_stranger_def zero_message_def

end
