(* ===== verification/Conv_Isolation.thy ===== *)
theory Conv_Isolation
  imports Conv_Service Conv_Demo
begin

text \<open>
  Tenant isolation of the conversations service: a request scoped to a tenant leaves every
  document of the other tenants, and every channel and sector, as it found them, and each of
  its effects concerns that tenant. Proved by the frame rules of the monad, operation by
  operation, whether or not the operation fails.
\<close>

section \<open>Internals\<close>

lemma iso_ask: "framed (tenant_frame t) (ask f)"
  by (simp add: framed_def ask_def)

lemma iso_loadVisible: "framed (tenant_frame t) (loadVisible d c i)"
  unfolding loadVisible_def
  by (intro iso.fr_then iso.fr_lift) (auto intro!: iso.fr_basic iso_repo split: option.split)

lemma returns_loadVisible:
  assumes "ctx_tenant c = Some t"
  shows "returns (loadVisible d c i) (\<lambda>(cv, ac). cv_TenantID cv = t \<and> cv_ID cv = i
    \<and> ctx_auth c = Some ac \<and> visibleTo cv ac)"
  unfolding loadVisible_def
  by (cases "ctx_auth c")
     (auto intro!: returns_then returns_throw returns_bind_returns [OF returns_conv_FindByID [OF assms]] returns_return)

lemma iso_with_visible:
  assumes "ctx_tenant c = Some t"
    and "\<And>cv ac. cv_TenantID cv = t \<Longrightarrow> cv_ID cv = i \<Longrightarrow> framed (tenant_frame t) (f (cv, ac))"
  shows "framed (tenant_frame t) (bind_io (loadVisible d c i) f)"
  using assms(2)
  by (intro iso.fr_bind_returns [OF iso_loadVisible returns_loadVisible [OF assms(1)]]) auto

lemma iso_with_conv:
  assumes "ctx_tenant c = Some t"
    and "\<And>cv. cv_TenantID cv = t \<Longrightarrow> framed (tenant_frame t) (f cv)"
  shows "framed (tenant_frame t) (bind_io (conv_FindByID d c i) f)"
  using assms(2)
  by (intro iso.fr_bind_returns [OF iso_conv_FindByID returns_conv_FindByID [OF assms(1)]]) auto

lemma iso_recordEvent: "cv_TenantID cv = t \<Longrightarrow> framed (tenant_frame t) (recordEvent d c cv ev data)"
  unfolding recordEvent_def Let_def
  by (intro iso.fr_bind iso.fr_ignore iso_repo iso_event_Create) simp

lemma iso_emitRule: "cv_TenantID cv = t \<Longrightarrow> framed (tenant_frame t) (emitRuleEvent d c cv ev p)"
  unfolding emitRuleEvent_def by (intro iso.fr_when iso_log) simp

lemma iso_emitConv: "cv_TenantID cv = t \<Longrightarrow> framed (tenant_frame t) (emitConversationWebhook cv ev)"
  unfolding emitConversationWebhook_def by (intro iso_log) simp

lemma iso_emitMsg:
  "cv_TenantID cv = t \<Longrightarrow> m_TenantID m = t \<Longrightarrow> framed (tenant_frame t) (emitMessageWebhook cv m ev)"
  unfolding emitMessageWebhook_def by (intro iso_log) simp

lemma iso_payload: "framed (tenant_frame t) (conv_payload d cv)"
  unfolding conv_payload_def by (intro iso.fr_bind iso_repo iso.fr_return)

lemma iso_publish_conv_topic:
  "cv_TenantID cv = t \<Longrightarrow> framed (tenant_frame t) (Publish d (TopicConversation (cv_TenantID cv) i) ev p)"
  by (rule iso_Publish) (simp add: topic_defs)

lemma iso_fan_out: "cv_TenantID cv = t \<Longrightarrow> framed (tenant_frame t) (fan_out d cv ev p)"
  unfolding fan_out_def
  by (intro iso.fr_then iso.fr_for iso.fr_ignore iso_publish_conv_topic iso_Publish)
     (auto dest: inbox_topics_of_tenant)

lemma iso_publishConversation: "cv_TenantID cv = t \<Longrightarrow> framed (tenant_frame t) (publishConversation d cv)"
  unfolding publishConversation_def by (intro iso.fr_bind iso_payload iso_fan_out)

lemma iso_publishLifecycle: "cv_TenantID cv = t \<Longrightarrow> framed (tenant_frame t) (publishLifecycle d c cv ev)"
  unfolding publishLifecycle_def
  by (intro iso.fr_if iso.fr_return iso.fr_bind iso.fr_then iso_payload iso_fan_out iso_emitRule)

lemma iso_hydrateMessages: "framed (tenant_frame t) (hydrateMessages d c ms)"
  unfolding hydrateMessages_def Let_def
  by (auto intro!: iso.fr_basic iso_ask split: option.split sum.split)

lemma hydrate_one_keeps [simp]:
  "m_TenantID (hydrate_one r m) = m_TenantID m" "m_ID (hydrate_one r m) = m_ID m"
  "m_ConversationID (hydrate_one r m) = m_ConversationID m" "m_CreatedAt (hydrate_one r m) = m_CreatedAt m"
  "m_Text (hydrate_one r m) = m_Text m" "m_SenderType (hydrate_one r m) = m_SenderType m"
  "m_Direction (hydrate_one r m) = m_Direction m" "m_SenderID (hydrate_one r m) = m_SenderID m"
  "m_DeliveryStatus (hydrate_one r m) = m_DeliveryStatus m"
  by (simp_all add: hydrate_one_def Let_def)

text \<open>Hydration changes a message in its attachments and its type only.\<close>

definition hydration_of :: "message \<Rightarrow> message \<Rightarrow> bool" where
  "hydration_of m m' \<longleftrightarrow> m' = m \<or> (\<exists>r. m' = hydrate_one r m)"

lemma wp_hydrate_msg:
  "(\<And>m' n. hydration_of m m' \<Longrightarrow> Q m' (w\<lparr>step := n\<rparr>)) \<Longrightarrow> wp (hydrate_msg d c m) Q E w"
proof -
  assume *: "\<And>m' n. hydration_of m m' \<Longrightarrow> Q m' (w\<lparr>step := n\<rparr>)"
  have "Q m w" using * [of m "step w"] by (simp add: hydration_of_def)
  moreover have "Q m (tick w)" using * [of m] by (simp add: hydration_of_def tick_def)
  moreover have "Q (hydrate_one r m) (tick w)" for r
    using * [of "hydrate_one r m"] by (auto simp: hydration_of_def tick_def)
  ultimately show ?thesis
    by (auto simp: hydrate_msg_def hydrateMessages_def Let_def io_wp split: option.split sum.split)
qed

lemma returns_hydrate_msg: "returns (hydrate_msg d c m) (hydration_of m)"
  by (simp add: returns_wp wp_hydrate_msg)

lemma iso_hydrate_msg: "framed (tenant_frame t) (hydrate_msg d c m)"
  unfolding hydrate_msg_def by (intro iso.fr_bind iso_hydrateMessages iso.fr_return)

lemma hydration_keeps:
  "hydration_of m m' \<Longrightarrow> m_TenantID m' = m_TenantID m" "hydration_of m m' \<Longrightarrow> m_ID m' = m_ID m"
  "hydration_of m m' \<Longrightarrow> m_ConversationID m' = m_ConversationID m"
  "hydration_of m m' \<Longrightarrow> m_CreatedAt m' = m_CreatedAt m" "hydration_of m m' \<Longrightarrow> m_Text m' = m_Text m"
  "hydration_of m m' \<Longrightarrow> m_SenderType m' = m_SenderType m"
  "hydration_of m m' \<Longrightarrow> m_Direction m' = m_Direction m"
  "hydration_of m m' \<Longrightarrow> m_SenderID m' = m_SenderID m"
  "hydration_of m m' \<Longrightarrow> m_DeliveryStatus m' = m_DeliveryStatus m"
  by (auto simp: hydration_of_def)

lemma bump_keeps [simp]:
  "cv_TenantID (bump m cv) = cv_TenantID cv" "cv_ID (bump m cv) = cv_ID cv"
  "cv_Status (bump m cv) = cv_Status cv" "cv_SectorID (bump m cv) = cv_SectorID cv"
  "cv_AssignedTo (bump m cv) = cv_AssignedTo cv"
  by (simp_all add: bump_def)

lemma returns_persist:
  assumes "cv_TenantID cv = t" "m_TenantID m = t"
  shows "returns (persistMessage d c cv m ev) (\<lambda>(m', cv'). cv_TenantID cv' = t \<and> m_TenantID m' = t)"
  unfolding persistMessage_def Let_def using assms
  by (intro returns_bind_returns [OF returns_hydrate_msg] returns_then returns_bind returns_return)
     (simp add: hydration_keeps)

lemma iso_persistMessage:
  assumes "ctx_tenant c = Some t" "cv_TenantID cv = t" "m_TenantID m = t"
  shows "framed (tenant_frame t) (persistMessage d c cv m ev)"
  unfolding persistMessage_def Let_def
  using assms
  by (intro iso.fr_bind_returns [OF iso_hydrate_msg returns_hydrate_msg] iso.fr_then iso.fr_bind
        iso.fr_when iso.fr_return iso_msg_Create iso_conv_Update iso_recordEvent iso_payload
        iso_PublishAll iso_emitMsg iso_emitRule)
     (auto simp: hydration_keeps topic_defs dest: inbox_topics_of_tenant)

lemma iso_with_persist:
  assumes "ctx_tenant c = Some t" "cv_TenantID cv = t" "m_TenantID m = t"
    and "\<And>m' cv'. m_TenantID m' = t \<Longrightarrow> cv_TenantID cv' = t \<Longrightarrow> framed (tenant_frame t) (f (m', cv'))"
  shows "framed (tenant_frame t) (bind_io (persistMessage d c cv m ev) f)"
  using assms(4)
  by (intro iso.fr_bind_returns [OF iso_persistMessage [OF assms(1-3)] returns_persist [OF assms(2,3)]]) auto

lemmas iso_internals = iso_recordEvent iso_emitRule iso_emitConv iso_emitMsg iso_payload
  iso_publish_conv_topic iso_publishConversation iso_publishLifecycle iso_hydrateMessages
  iso_hydrate_msg iso_conv_Update iso_msg_Update iso_conv_Create iso_ask iso_repo iso_log

section \<open>The use cases\<close>

lemma iso_remap: "framed (tenant_frame t) m \<Longrightarrow> framed (tenant_frame t) (remap_not_found e m)"
  unfolding remap_not_found_def
  by (intro iso.fr_bind iso.fr_try) (auto intro!: iso.fr_basic split: sum.split)

lemma RequireTenant_some: "ctx_tenant c = Some t \<Longrightarrow> returns (lift_res (RequireTenant c)) (\<lambda>x. x = t)"
  by (auto simp: returns_def lift_res_def RequireTenant_Inr)

lemma ctx_tenant_id_Some [simp]: "ctx_tenant c = Some t \<Longrightarrow> ctx_tenant_id c = t"
  by (simp add: ctx_tenant_id_def)

lemma iso_Create:
  assumes "ctx_tenant c = Some t"
  shows "framed (tenant_frame t) (Create d c cmd)"
  unfolding Create_def Let_def
  using assms
  by (intro iso.fr_bind_returns [OF iso.fr_lift RequireTenant_some [OF assms]] iso.fr_then iso.fr_guard
        iso.fr_bind iso_remap iso.fr_when iso.fr_return iso_internals) auto

lemma iso_Get: "framed (tenant_frame t) (Get d c i)"
  unfolding Get_def by (intro iso.fr_bind iso_loadVisible) (auto intro: iso.fr_return)

lemma iso_conv_List: "framed (tenant_frame t) (conv_List d c f vis page)"
  unfolding conv_List_def by (intro iso.fr_then iso.fr_bind iso.fr_lift iso_repo)

lemma iso_List: "framed (tenant_frame t) (List_convs d c f page)"
  unfolding List_convs_def by (intro iso.fr_then iso.fr_bind iso.fr_lift iso_conv_List)

lemma iso_UnreadCounts: "framed (tenant_frame t) (UnreadCounts d c)"
  unfolding UnreadCounts_def conv_UnreadCounts_def Let_def
  by (intro iso.fr_then iso.fr_bind iso.fr_lift iso_repo iso.fr_return)

lemma iso_Latest: "framed (tenant_frame t) (LatestByConversation d c i)"
  unfolding LatestByConversation_def by (rule iso_repo)

lemma returns_snapshot_after:
  "cv_TenantID cv = t \<Longrightarrow> returns (snapshot_after d c cv m b) (\<lambda>cv'. cv_TenantID cv' = t)"
  unfolding snapshot_after_def
  by (auto intro!: returns_return returns_throw returns_bind split: sum.split)

lemma iso_snapshot_after: "framed (tenant_frame t) (snapshot_after d c cv m b)"
  unfolding snapshot_after_def
  by (intro iso.fr_if iso.fr_return iso.fr_bind iso.fr_try iso_Latest)
     (auto intro!: iso.fr_basic split: sum.split)

lemma returns_refresh:
  assumes "cv_TenantID cv = t"
  shows "returns (refreshLastMessageSnapshot d c cv m b) (\<lambda>cv'. cv_TenantID cv' = t)"
  unfolding refreshLastMessageSnapshot_def Let_def using assms
  by (auto intro!: returns_return returns_bind_returns [OF returns_snapshot_after [OF assms]]
        returns_bind [where m = "now_io d"] returns_then)

lemma iso_refresh:
  assumes "ctx_tenant c = Some t" "cv_TenantID cv = t"
  shows "framed (tenant_frame t) (refreshLastMessageSnapshot d c cv m b)"
  unfolding refreshLastMessageSnapshot_def Let_def using assms
  by (intro iso.fr_if iso.fr_return iso.fr_bind_returns [OF iso_snapshot_after returns_snapshot_after]
        iso.fr_bind iso.fr_then iso_internals) auto

lemma set_opt_keeps: "(\<And>v y. cv_TenantID (f v y) = cv_TenantID y) \<Longrightarrow> cv_TenantID (set_opt o1 f x) = cv_TenantID x"
  by (simp add: set_opt_def split: option.split)

lemma iso_Update:
  assumes "ctx_tenant c = Some t"
  shows "framed (tenant_frame t) (Update_conv d c i cmd)"
  unfolding Update_conv_def Let_def
  using assms
  by (intro iso_with_visible [OF assms])
     (auto intro!: iso.fr_then iso.fr_guard iso.fr_bind iso.fr_when iso.fr_return iso_internals
       simp: set_opt_keeps split: option.split)

lemma iso_send_content: "framed (tenant_frame t) (send_content d c cv mt cmd)"
  unfolding send_content_def resolveTemplate_def Let_def
  by (intro iso.fr_if iso.fr_bind iso.fr_then iso.fr_guard)
     (auto intro!: iso.fr_basic iso_internals split: option.split)

lemma iso_SendMessage:
  assumes "ctx_tenant c = Some t"
  shows "framed (tenant_frame t) (SendMessage d c i cmd)"
  unfolding SendMessage_def Let_def using assms
  by (intro iso_with_visible [OF assms])
     (auto intro!: iso.fr_then iso.fr_guard iso.fr_bind [OF iso_send_content] iso.fr_bind [OF iso_now]
        iso.fr_bind [OF iso_new_id] iso.fr_return iso_with_persist iso_log)

lemma iso_AddInternalNote:
  assumes "ctx_tenant c = Some t"
  shows "framed (tenant_frame t) (AddInternalNote d c i txt us)"
  unfolding AddInternalNote_def Let_def using assms
  by (intro iso_with_visible [OF assms])
     (auto intro!: iso.fr_then iso.fr_guard iso.fr_bind [OF iso_now] iso.fr_bind [OF iso_new_id]
        iso.fr_return iso.fr_for iso_with_persist iso_log)

lemma iso_close_effects:
  "ctx_tenant c = Some t \<Longrightarrow> cv_TenantID cv = t \<Longrightarrow> framed (tenant_frame t) (close_effects d c cv data q now)"
  unfolding close_effects_def by (intro iso.fr_then iso.fr_when iso_internals) auto

lemma iso_Close:
  assumes "ctx_tenant c = Some t"
  shows "framed (tenant_frame t) (Close d c i cmd)"
  unfolding Close_def Let_def
  using assms
  by (intro iso_with_visible [OF assms])
     (auto intro!: iso.fr_then iso.fr_guard iso.fr_bind iso.fr_when iso.fr_return iso_close_effects
        iso_internals iso_AddInternalNote split: option.split)

lemma returns_ListInactiveOpen:
  "ctx_tenant c = Some t \<Longrightarrow>
     returns (ListInactiveOpen d c tm n) (\<lambda>cvs. \<forall>cv \<in> set cvs. cv_TenantID cv = t)"
  by (auto simp: returns_wp ListInactiveOpen_def Let_def io_wp intro!: on_dbI dest!: in_set_takeD)

lemma iso_fold_list:
  "(\<And>b x. x \<in> set xs \<Longrightarrow> framed (tenant_frame t) (f b x)) \<Longrightarrow> framed (tenant_frame t) (fold_io f b xs)"
  by (induction xs arbitrary: b) (auto intro: iso.fr_return iso.fr_bind)

lemma iso_close_inactive_one:
  "ctx_tenant c = Some t \<Longrightarrow> cv_TenantID cv = t \<Longrightarrow> framed (tenant_frame t) (close_inactive_one d c now n cv)"
  unfolding close_inactive_one_def Let_def
  by (intro iso.fr_bind iso.fr_try)
     (auto intro!: iso.fr_then iso.fr_return iso_close_effects iso_conv_Update split: sum.split)

lemma iso_ListInactiveOpen: "framed (tenant_frame t) (ListInactiveOpen d c tm n)"
  unfolding ListInactiveOpen_def Let_def by (rule iso_repo)

lemma iso_CloseInactive:
  assumes "ctx_tenant c = Some t"
  shows "framed (tenant_frame t) (CloseInactive d c idle)"
  unfolding CloseInactive_def
  using assms
  by (intro iso.fr_then iso.fr_lift iso.fr_bind [OF iso_now]
      iso.fr_bind_returns [OF iso_ListInactiveOpen returns_ListInactiveOpen [OF assms]] iso_fold_list)
     (auto intro: iso_close_inactive_one)

lemma iso_Reopen:
  assumes "ctx_tenant c = Some t"
  shows "framed (tenant_frame t) (Reopen d c i)"
  unfolding Reopen_def Let_def using assms
  by (intro iso_with_visible [OF assms])
     (auto intro!: iso.fr_then iso.fr_guard iso.fr_bind iso.fr_return iso_internals)

lemma iso_send_trusted:
  assumes "ctx_tenant c = Some t"
  shows "framed (tenant_frame t) (send_trusted d c i st si txt)"
  unfolding send_trusted_def Let_def using assms
  by (intro iso.fr_then iso.fr_lift iso_with_conv [OF assms])
     (auto intro!: iso.fr_then iso.fr_guard iso.fr_bind [OF iso_now] iso.fr_bind [OF iso_new_id]
        iso.fr_return iso_with_persist)

lemma iso_resolve_tags: "framed (tenant_frame t) (resolve_tags d c refs s)"
  unfolding resolve_tags_def by (auto intro!: iso.fr_basic iso_ask split: option.split)

lemma iso_ApplyTags:
  assumes "ctx_tenant c = Some t"
  shows "framed (tenant_frame t) (ApplyTags d c i as rs)"
  unfolding ApplyTags_def Let_def using assms
  by (intro iso_with_visible [OF assms])
     (auto intro!: iso.fr_then iso.fr_guard iso.fr_bind iso.fr_return iso.fr_ignore iso_resolve_tags
        iso_Publish iso_internals simp: topic_defs)

lemma iso_ListMessages: "framed (tenant_frame t) (ListMessages d c i page)"
  unfolding ListMessages_def msg_ListByConversation_def
  by (intro iso.fr_then iso.fr_bind iso.fr_lift iso_loadVisible iso_internals)

lemma iso_ListEvents: "framed (tenant_frame t) (ListEvents d c i page)"
  unfolding ListEvents_def event_ListByConversation_def
  by (intro iso.fr_then iso.fr_bind iso.fr_lift iso_loadVisible iso_db_call iso.fr_gets)

lemma iso_SetTyping:
  "ctx_tenant c = Some t \<Longrightarrow> framed (tenant_frame t) (SetTyping d c i on)"
  unfolding SetTyping_def
  by (intro iso_with_visible) (auto intro!: iso_Publish simp: topic_defs)

lemma iso_MarkRead:
  "ctx_tenant c = Some t \<Longrightarrow> framed (tenant_frame t) (MarkRead d c i)"
  unfolding MarkRead_def Let_def
  by (intro iso_with_visible)
     (auto intro!: iso.fr_then iso.fr_bind iso.fr_when iso_Publish iso_internals simp: topic_defs)

lemma iso_MarkUnread:
  "ctx_tenant c = Some t \<Longrightarrow> framed (tenant_frame t) (MarkUnread d c i)"
  unfolding MarkUnread_def Let_def
  by (intro iso_with_visible)
     (auto intro!: iso.fr_then iso.fr_bind iso.fr_return iso_internals simp: topic_defs)

lemma iso_loadMessage: "framed (tenant_frame t) (loadMessage d c cv i)"
  unfolding loadMessage_def by (intro iso.fr_bind iso.fr_then iso.fr_guard iso.fr_return iso_repo)

lemma returns_loadMessage:
  "ctx_tenant c = Some t \<Longrightarrow> returns (loadMessage d c cv i) (\<lambda>m. m_TenantID m = t)"
  unfolding loadMessage_def
  by (intro returns_bind_returns [OF returns_msg_FindByID] returns_then returns_return) auto

lemma iso_with_hydrated:
  assumes "\<And>m'. m_TenantID m' = m_TenantID m \<Longrightarrow> framed (tenant_frame t) (f m')"
  shows "framed (tenant_frame t) (bind_io (hydrate_msg d c m) f)"
  using assms by (intro iso.fr_bind_returns [OF iso_hydrate_msg returns_hydrate_msg]) (simp add: hydration_keeps)

lemma iso_with_refreshed:
  assumes "ctx_tenant c = Some t" "cv_TenantID cv = t"
    and "\<And>cv'. cv_TenantID cv' = t \<Longrightarrow> framed (tenant_frame t) (f cv')"
  shows "framed (tenant_frame t) (bind_io (refreshLastMessageSnapshot d c cv m b) f)"
  using assms by (intro iso.fr_bind_returns [OF iso_refresh returns_refresh])

lemma iso_EditMessage:
  assumes "ctx_tenant c = Some t"
  shows "framed (tenant_frame t) (EditMessage d c i j txt)"
  unfolding EditMessage_def Let_def using assms
  by (intro iso_with_visible [OF assms])
     (auto intro!: iso.fr_then iso.fr_guard iso.fr_bind_returns [OF iso_loadMessage returns_loadMessage]
        iso_with_hydrated iso_with_refreshed iso.fr_when iso.fr_ignore iso_Publish
        iso.fr_bind [OF iso_now] iso.fr_return iso_internals simp: topic_defs)

lemma iso_DeleteMessage:
  assumes "ctx_tenant c = Some t"
  shows "framed (tenant_frame t) (DeleteMessage d c i j)"
proof -
  have "returns (try_io (loadMessage d c cv j)) (\<lambda>r. \<forall>m. r = Inr m \<longrightarrow> m_TenantID m = t)" for cv
    using returns_loadMessage [OF assms] by (fastforce simp: returns_def try_io_def split: prod.splits)
  then show ?thesis unfolding DeleteMessage_def Let_def using assms
    by (intro iso_with_visible [OF assms])
       (auto intro!: iso.fr_then iso.fr_guard iso.fr_bind_returns [OF iso.fr_try [OF iso_loadMessage]]
          iso_with_refreshed iso.fr_ignore iso_Publish iso.fr_throw
          iso.fr_bind [OF iso_now] iso.fr_return iso_internals simp: topic_defs split: sum.split)
qed

lemma iso_ApplyDeliveryReceipt:
  assumes "ctx_tenant c = Some t"
  shows "framed (tenant_frame t) (ApplyDeliveryReceipt d c i st)"
  unfolding ApplyDeliveryReceipt_def Let_def using assms
  by (intro iso.fr_then iso.fr_lift)
     (auto intro!: iso.fr_throw iso.fr_return iso.fr_bind_returns [OF iso_msg_FindByID returns_msg_FindByID]
        iso.fr_bind [OF iso_now] iso.fr_then iso_msg_Update iso.fr_ignore iso_Publish
        simp: topic_defs stamp_receipt_def Let_def split: option.split)

section \<open>Any sequence of requests\<close>

text \<open>
  The use cases as requests: a run executes a list of them, each in its own context, and
  drops the answers. Failures are answers too.
\<close>

datatype request =
    ReqCreate create_conversation
  | ReqGet ident
  | ReqList list_filter page_request
  | ReqUnreadCounts
  | ReqUpdate ident update_conversation
  | ReqSendMessage ident send_message
  | ReqAddInternalNote ident string "ident list"
  | ReqClose ident close_conversation
  | ReqCloseInactive duration
  | ReqReopen ident
  | ReqSendSystemMessage ident string
  | ReqSendAutomationMessage ident ident string
  | ReqApplyTags ident "string list" "string list"
  | ReqListMessages ident page_request
  | ReqListEvents ident page_request
  | ReqSetTyping ident bool
  | ReqMarkRead ident
  | ReqMarkUnread ident
  | ReqEditMessage ident ident string
  | ReqDeleteMessage ident ident
  | ReqApplyDeliveryReceipt ident string

fun serve :: "'e conv_deps_scheme \<Rightarrow> ctx \<Rightarrow> request \<Rightarrow> ('z conv_world_scheme, unit) io" where
  "serve d c (ReqCreate cmd) = ignore_io (Create d c cmd)"
| "serve d c (ReqGet i) = ignore_io (Get d c i)"
| "serve d c (ReqList f p) = ignore_io (List_convs d c f p)"
| "serve d c ReqUnreadCounts = ignore_io (UnreadCounts d c)"
| "serve d c (ReqUpdate i cmd) = ignore_io (Update_conv d c i cmd)"
| "serve d c (ReqSendMessage i cmd) = ignore_io (SendMessage d c i cmd)"
| "serve d c (ReqAddInternalNote i txt us) = ignore_io (AddInternalNote d c i txt us)"
| "serve d c (ReqClose i cmd) = ignore_io (Close d c i cmd)"
| "serve d c (ReqCloseInactive idle) = ignore_io (CloseInactive d c idle)"
| "serve d c (ReqReopen i) = ignore_io (Reopen d c i)"
| "serve d c (ReqSendSystemMessage i txt) = ignore_io (SendSystemMessage d c i txt)"
| "serve d c (ReqSendAutomationMessage i r txt) = ignore_io (SendAutomationMessage d c i r txt)"
| "serve d c (ReqApplyTags i as rs) = ignore_io (ApplyTags d c i as rs)"
| "serve d c (ReqListMessages i p) = ignore_io (ListMessages d c i p)"
| "serve d c (ReqListEvents i p) = ignore_io (ListEvents d c i p)"
| "serve d c (ReqSetTyping i on) = ignore_io (SetTyping d c i on)"
| "serve d c (ReqMarkRead i) = ignore_io (MarkRead d c i)"
| "serve d c (ReqMarkUnread i) = ignore_io (MarkUnread d c i)"
| "serve d c (ReqEditMessage i j txt) = ignore_io (EditMessage d c i j txt)"
| "serve d c (ReqDeleteMessage i j) = ignore_io (DeleteMessage d c i j)"
| "serve d c (ReqApplyDeliveryReceipt j st) = ignore_io (ApplyDeliveryReceipt d c j st)"

definition serve_all :: "'e conv_deps_scheme \<Rightarrow> (ctx \<times> request) list \<Rightarrow> ('z conv_world_scheme, unit) io" where
  "serve_all d reqs = for_io reqs (\<lambda>(c, req). serve d c req)"

lemma iso_serve:
  assumes "ctx_tenant c = Some t"
  shows "framed (tenant_frame t) (serve d c req)"
proof (cases req)
qed (use assms in \<open>auto intro!: iso.fr_ignore iso.fr_bind [OF iso_send_trusted] iso.fr_return
       iso_send_trusted iso_Create iso_Get iso_List iso_UnreadCounts iso_Update iso_SendMessage
       iso_AddInternalNote iso_Close iso_CloseInactive iso_Reopen iso_ApplyTags iso_ListMessages
       iso_ListEvents iso_SetTyping iso_MarkRead iso_MarkUnread iso_EditMessage iso_DeleteMessage
       iso_ApplyDeliveryReceipt simp: SendSystemMessage_def SendAutomationMessage_def\<close>)

text \<open>What one tenant owns of the world.\<close>

definition tenant_view ::
  "ident \<Rightarrow> 'z conv_world_scheme \<Rightarrow> conversation list \<times> message list \<times> conversation_event list" where
  "tenant_view t w = (filter (\<lambda>x. cv_TenantID x = t) (convs w), filter (\<lambda>x. m_TenantID x = t) (msgs w),
     filter (\<lambda>x. ev_TenantID x = t) (cevents w))"

lemma filter_other:
  assumes "filter (\<lambda>x. f x \<noteq> s) xs = filter (\<lambda>x. f x \<noteq> s) ys" "t \<noteq> s"
  shows "filter (\<lambda>x. f x = t) xs = filter (\<lambda>x. f x = t) ys"
proof -
  have "filter (\<lambda>x. f x = t) zs = filter (\<lambda>x. f x = t) (filter (\<lambda>x. f x \<noteq> s) zs)" for zs
    using assms(2) by (induction zs) auto
  then show ?thesis using assms(1) by metis
qed

lemma tenant_frame_view:
  assumes "tenant_frame s w w'" "t \<noteq> s"
  shows "tenant_view t w' = tenant_view t w"
proof -
  note * = assms(1) [unfolded tenant_frame_def]
  show ?thesis unfolding tenant_view_def
    using filter_other [OF * [THEN conjunct1] assms(2)]
      filter_other [OF * [THEN conjunct2, THEN conjunct1] assms(2)]
      filter_other [OF * [THEN conjunct2, THEN conjunct2, THEN conjunct1] assms(2)]
    by simp
qed

definition same_view :: "ident \<Rightarrow> 'z conv_world_scheme \<Rightarrow> 'z conv_world_scheme \<Rightarrow> bool" where
  "same_view t w w' \<longleftrightarrow> tenant_view t w' = tenant_view t w"

interpretation view: io_rel "same_view t" for t
  by unfold_locales (simp_all add: same_view_def)

lemma view_serve:
  assumes "ctx_tenant c = Some s" "s \<noteq> t"
  shows "framed (same_view t) (serve d c req)"
  using iso_serve [OF assms(1)] assms(2) tenant_frame_view
  unfolding framed_def same_view_def by metis

text \<open>
  C1: tenant isolation. Whatever requests the other tenants make, and in whatever order,
  with whatever driver failures, the conversations, messages and timeline events of tenant
  \<open>t\<close> are what they were.
\<close>

theorem tenants_do_not_interfere:
  assumes "\<forall>(c, req) \<in> set reqs. \<exists>s. ctx_tenant c = Some s \<and> s \<noteq> t"
  shows "tenant_view t (snd (serve_all d reqs w)) = tenant_view t w"
proof -
  have "framed (same_view t) (serve_all d reqs)"
    unfolding serve_all_def using assms by (intro view.fr_for) (auto intro: view_serve)
  then show ?thesis unfolding framed_def same_view_def by blast
qed

theorem tenants_do_not_interfere_witness:
  "tenant_view ''t1'' (snd (serve_all demo_deps
      [(demo_other_ctx, ReqMarkRead ''c1''), (demo_other_ctx, ReqDeleteMessage ''c1'' ''m1'')] demo_world))
    = tenant_view ''t1'' demo_world"
  by (rule tenants_do_not_interfere) (simp add: demo_other_ctx_def)

text \<open>
  C2: a request of tenant \<open>t\<close> publishes only to topics of \<open>t\<close> and calls every other port
  (webhooks, automation rules, notifications, audit, SLA, CSAT) on behalf of \<open>t\<close> only.
\<close>

theorem effects_stay_in_tenant:
  assumes "ctx_tenant c = Some t"
  shows "\<exists>es. effects (snd (serve d c req w)) = effects w @ es \<and> (\<forall>e \<in> set es. effect_of t e)"
  using iso_serve [OF assms, of d req] unfolding framed_def tenant_frame_def by blast

theorem effects_stay_in_tenant_witness:
  "\<exists>es. effects (snd (serve demo_deps demo_ctx (ReqMarkRead ''c1'') demo_world)) = effects demo_world @ es
     \<and> (\<forall>e \<in> set es. effect_of ''t1'' e)"
  by (rule effects_stay_in_tenant) (simp add: demo_ctx_def)

end
