(* ===== verification/Conv_Rules.thy ===== *)
theory Conv_Rules
  imports Conv_Isolation
begin

text \<open>
  Verification rules for the conversations service. The best-effort tails of the use cases
  (timeline event, realtime, webhooks, hooks) never fail and leave conversations and messages
  alone: they are dealt with by one frame rule, so that a proof about a use case only meets
  its reads and its writes.
\<close>

section \<open>Quiet steps\<close>

definition noerr :: "('w, 'a) io \<Rightarrow> bool" where
  "noerr m \<longleftrightarrow> (\<forall>w. \<exists>x w'. m w = (Inr x, w'))"

lemma noerr_return: "noerr (return_io x)"
  by (simp add: noerr_def return_io_def)

lemma noerr_bind: "noerr m \<Longrightarrow> (\<And>x. noerr (f x)) \<Longrightarrow> noerr (bind_io m f)"
  unfolding noerr_def bind_io_def by (metis (mono_tags, lifting) case_prod_conv sum.case(2))

lemma noerr_then: "noerr m \<Longrightarrow> noerr n \<Longrightarrow> noerr (then_io m n)"
  by (simp add: then_io_def noerr_bind)

lemma noerr_ignore: "noerr (ignore_io m)"
  by (simp add: noerr_def ignore_io_def)

lemma noerr_try: "noerr (try_io m)"
  by (simp add: noerr_def try_io_def split: prod.split)

lemma noerr_when: "noerr m \<Longrightarrow> noerr (when_io b m)"
  by (simp add: when_io_def noerr_return)

lemma noerr_if: "noerr m \<Longrightarrow> noerr n \<Longrightarrow> noerr (if b then m else n)"
  by simp

lemma noerr_for: "(\<And>x. noerr (body x)) \<Longrightarrow> noerr (for_io xs body)"
  by (induction xs) (auto intro: noerr_return noerr_then)

lemma noerr_log: "noerr (log_effect e)"
  by (simp add: noerr_def log_effect_def modify_io_def)

lemma noerr_now: "noerr (now_io d)"
  by (simp add: noerr_def now_io_def)

lemma noerr_new_id: "noerr (new_id d)"
  by (simp add: noerr_def new_id_def)

lemmas noerr_basic = noerr_return noerr_bind noerr_then noerr_ignore noerr_try noerr_when noerr_if
  noerr_for noerr_log noerr_now noerr_new_id

text \<open>
  \<open>noted P\<close>: conversations, messages and the rest of the world are kept; the effect log
  grows by effects that satisfy \<open>P\<close> and the timeline may grow.
\<close>

definition noted :: "(effect \<Rightarrow> bool) \<Rightarrow> 'z conv_world_scheme \<Rightarrow> 'z conv_world_scheme \<Rightarrow> bool" where
  "noted P w w' \<longleftrightarrow> convs w' = convs w \<and> msgs w' = msgs w \<and> chans w' = chans w
     \<and> sectors w' = sectors w \<and> conv_world.more w' = conv_world.more w
     \<and> (\<exists>es. effects w' = effects w @ es \<and> (\<forall>e \<in> set es. P e))"

lemma noted_refl [simp]: "noted P w w"
  by (simp add: noted_def)

lemma noted_trans: "noted P u v \<Longrightarrow> noted P v w \<Longrightarrow> noted P u w"
  by (fastforce simp: noted_def)

interpretation note_rel: io_rel "noted P" for P
  by unfold_locales (simp, erule noted_trans)

lemma noted_mono: "noted P w w' \<Longrightarrow> (\<And>e. P e \<Longrightarrow> P' e) \<Longrightarrow> noted P' w w'"
  by (auto simp: noted_def)

lemma noted_tick [simp]: "noted P w (tick w)"
  by (simp add: noted_def)

lemma noted_step [simp]: "noted P w (w\<lparr>step := n\<rparr>)"
  by (simp add: noted_def)

lemma wp_quiet:
  "framed R m \<Longrightarrow> noerr m \<Longrightarrow> (\<And>x w'. R w w' \<Longrightarrow> Q x w') \<Longrightarrow> wp m Q E w"
  unfolding framed_def noerr_def wp_def by (metis (mono_tags, lifting) case_prod_conv snd_conv sum.case(2))

definition is_publish :: "effect \<Rightarrow> bool" where
  "is_publish e = (case e of EPublish _ _ _ \<Rightarrow> True | _ \<Rightarrow> False)"

definition is_rule :: "effect \<Rightarrow> bool" where
  "is_rule e = (case e of ERule _ _ _ _ _ _ \<Rightarrow> True | _ \<Rightarrow> False)"

definition is_webhook :: "effect \<Rightarrow> bool" where
  "is_webhook e = (case e of EWebhook _ _ _ _ _ \<Rightarrow> True | _ \<Rightarrow> False)"

definition fan :: "effect \<Rightarrow> bool" where
  "fan e \<longleftrightarrow> is_publish e \<or> is_rule e \<or> is_webhook e"

lemma fan_simps [simp]:
  "fan (EPublish a b p)" "fan (ERule a b i s n p)" "fan (EWebhook a b i cv m)"
  "\<not> fan (ESlaCreated cv)" "\<not> fan (ESlaFirstResponse cv t)" "\<not> fan (ESlaResolved cv t)"
  "\<not> fan (ECsatClosed cv)" "\<not> fan (ENotify a b s1 s2)" "\<not> fan (EQueueChanged a b i)"
  "\<not> fan (EAudit a b i g)" "\<not> fan (EHook a b i p)"
  by (simp_all add: fan_def is_publish_def is_rule_def is_webhook_def)

lemma fr_note_log: "P e \<Longrightarrow> framed (noted P) (log_effect e)"
  by (simp add: framed_def log_effect_def io_defs noted_def)

lemma fr_note_now: "framed (noted P) (now_io d)"
  by (simp add: framed_def now_io_def)

lemma fr_note_new_id: "framed (noted P) (new_id d)"
  by (simp add: framed_def new_id_def)

lemma fr_note_db: "framed (noted P) m \<Longrightarrow> framed (noted P) (db_call d m)"
  unfolding framed_def db_call_def by (auto split: option.split intro: noted_trans [OF noted_tick])

lemma fr_note_Publish: "(\<And>a b p. P (EPublish a b p)) \<Longrightarrow> framed (noted P) (Publish d topic ev p)"
  unfolding Publish_def by (intro fr_note_db fr_note_log)

lemma fr_note_PublishAll: "(\<And>a b p. P (EPublish a b p)) \<Longrightarrow> framed (noted P) (PublishAll d evs)"
  unfolding PublishAll_def by (auto simp: framed_def db_call_def io_defs noted_def split: option.split)

lemma noerr_PublishAll: "noerr (PublishAll d evs)"
  by (simp add: PublishAll_def noerr_return noerr_ignore)

lemma fr_note_recordEvent: "framed (noted P) (recordEvent d c cv ev data)"
  unfolding recordEvent_def Let_def
  by (intro note_rel.fr_bind note_rel.fr_ignore fr_note_new_id fr_note_now)
     (auto simp: framed_def event_Create_def io_defs db_call_def noted_def split: sum.split option.split)

lemma noerr_recordEvent: "noerr (recordEvent d c cv ev data)"
  unfolding recordEvent_def Let_def by (intro noerr_basic)

lemma fr_note_payload: "framed (noted P) (conv_payload d cv)"
  unfolding conv_payload_def by (intro note_rel.fr_bind fr_note_now note_rel.fr_return)

lemma noerr_payload: "noerr (conv_payload d cv)"
  unfolding conv_payload_def by (intro noerr_basic)

lemma fr_note_fan_out: "framed (noted fan) (fan_out d cv ev p)"
  unfolding fan_out_def by (intro note_rel.fr_then note_rel.fr_ignore note_rel.fr_for fr_note_Publish) simp_all

lemma noerr_fan_out: "noerr (fan_out d cv ev p)"
  unfolding fan_out_def by (intro noerr_basic)

lemma fr_note_rule: "framed (noted fan) (emitRuleEvent d c cv ev p)"
  unfolding emitRuleEvent_def by (intro note_rel.fr_when fr_note_log) simp

lemma noerr_rule: "noerr (emitRuleEvent d c cv ev p)"
  unfolding emitRuleEvent_def by (intro noerr_basic)

lemma fr_note_publishConversation: "framed (noted fan) (publishConversation d cv)"
  unfolding publishConversation_def by (intro note_rel.fr_bind fr_note_payload fr_note_fan_out)

lemma noerr_publishConversation: "noerr (publishConversation d cv)"
  unfolding publishConversation_def by (intro noerr_bind noerr_payload noerr_fan_out)

lemma fr_note_publishLifecycle: "framed (noted fan) (publishLifecycle d c cv ev)"
  unfolding publishLifecycle_def
  by (intro note_rel.fr_if note_rel.fr_return note_rel.fr_bind note_rel.fr_then fr_note_payload
      fr_note_fan_out fr_note_rule)

lemma noerr_publishLifecycle: "noerr (publishLifecycle d c cv ev)"
  unfolding publishLifecycle_def
  by (intro noerr_if noerr_return noerr_bind noerr_then noerr_payload noerr_fan_out noerr_rule)

lemma fr_note_webhooks:
  "framed (noted fan) (emitConversationWebhook cv ev)" "framed (noted fan) (emitMessageWebhook cv m ev)"
  unfolding emitConversationWebhook_def emitMessageWebhook_def by (intro fr_note_log; simp)+

lemma noerr_webhooks: "noerr (emitConversationWebhook cv ev)" "noerr (emitMessageWebhook cv m ev)"
  unfolding emitConversationWebhook_def emitMessageWebhook_def by (rule noerr_log)+

lemmas fr_notes = fr_note_recordEvent fr_note_publishConversation fr_note_publishLifecycle
  fr_note_webhooks fr_note_payload fr_note_rule fr_note_fan_out fr_note_now fr_note_new_id

lemmas noerrs = noerr_recordEvent noerr_publishConversation noerr_publishLifecycle noerr_webhooks
  noerr_payload noerr_rule noerr_fan_out noerr_now noerr_new_id noerr_log noerr_return

section \<open>Reads and writes\<close>

text \<open>\<open>reliable d\<close>: the database driver reports no failure.\<close>

definition reliable :: "'e env_scheme \<Rightarrow> bool" where
  "reliable d \<longleftrightarrow> (\<forall>n. fault d n = None)"

text \<open>What \<open>loadVisible\<close> answers, as a function of the collection.\<close>

definition lookup_visible :: "ctx \<Rightarrow> ident \<Rightarrow> conversation list \<Rightarrow> (conversation \<times> auth_context) res" where
  "lookup_visible c i cs = (case RequireTenant c of
     Inl e \<Rightarrow> Inl e
   | Inr t \<Rightarrow> (case ctx_auth c of
       None \<Rightarrow> Inl (Unauthorized ''authentication required'')
     | Some ac \<Rightarrow> (case find (by_id t i) cs of
         None \<Rightarrow> Inl (NotFound ''resource not found'')
       | Some cv \<Rightarrow> if visibleTo cv ac then Inr (cv, ac) else Inl (NotFound ''conversation not found''))))"

lemma lookup_visible_Inr:
  "lookup_visible c i cs = Inr (cv, ac) \<longleftrightarrow>
     (\<exists>t. ctx_tenant c = Some t \<and> t \<noteq> [] \<and> ctx_auth c = Some ac \<and> find (by_id t i) cs = Some cv \<and> visibleTo cv ac)"
  by (auto simp: lookup_visible_def RequireTenant_Inr split: sum.splits option.splits if_splits)
     (auto simp: RequireTenant_def)

lemma wp_loadVisible:
  assumes "\<And>cv ac n. lookup_visible c i (convs w) = Inr (cv, ac) \<Longrightarrow> Q (cv, ac) (w\<lparr>step := n\<rparr>)"
    and "\<And>e n. lookup_visible c i (convs w) = Inl e \<Longrightarrow> E e (w\<lparr>step := n\<rparr>)"
    and "\<And>e n. \<not> reliable d \<Longrightarrow> E e (w\<lparr>step := n\<rparr>)"
  shows "wp (loadVisible d c i) Q E w"
proof -
  have w: "w\<lparr>step := step w\<rparr> = w" "w\<lparr>step := Suc (step w)\<rparr> = tick w" by (simp_all add: tick_def)
  have "E e w" "E e (tick w)" if "lookup_visible c i (convs w) = Inl e" for e
    using assms(2) [OF that, of "step w"] assms(2) [OF that, of "Suc (step w)"] by (simp_all add: w)
  moreover have "Q (cv, ac) (tick w)" if "lookup_visible c i (convs w) = Inr (cv, ac)" for cv ac
    using assms(1) [OF that, of "Suc (step w)"] by (simp add: w)
  moreover have "E e (tick w)" if "fault d n = Some s" for e n s
    using assms(3) [of e "Suc (step w)"] that by (auto simp: w reliable_def)
  ultimately show ?thesis
    by (auto simp: loadVisible_def lookup_visible_def io_wp on_db_def MapError_def
        split: sum.split option.split)
qed

lemma wp_conv_Update_loaded:
  assumes "ctx_tenant c = Some t" "t \<noteq> []" "find (by_id t (cv_ID cv)) (convs w) \<noteq> None"
    and "\<And>n. Q () (w\<lparr>step := n, convs := update_first (by_id t (cv_ID cv)) (conv_set cv) (convs w)\<rparr>)"
    and "\<And>e n. \<not> reliable d \<Longrightarrow> E e (w\<lparr>step := n\<rparr>)"
  shows "wp (conv_Update d c cv) Q E w"
  using assms(1-3) assms(4) [of "Suc (step w)"] assms(5) [of _ "Suc (step w)"]
  by (auto simp: io_wp on_db_def RequireTenant_def reliable_def tick_def split: option.split)

lemma wp_msg_Update_loaded:
  assumes "ctx_tenant c = Some t" "t \<noteq> []" "find (msg_by_id t (m_ID m)) (msgs w) \<noteq> None"
    and "\<And>n. Q () (w\<lparr>step := n, msgs := update_first (msg_by_id t (m_ID m)) (msg_set m) (msgs w)\<rparr>)"
    and "\<And>e n. \<not> reliable d \<Longrightarrow> E e (w\<lparr>step := n\<rparr>)"
  shows "wp (msg_Update d c m) Q E w"
  using assms(1-3) assms(4) [of "Suc (step w)"] assms(5) [of _ "Suc (step w)"]
  by (auto simp: io_wp on_db_def RequireTenant_def reliable_def tick_def split: option.split)

lemma wp_now_step: "wp (now_io d) Q E w = Q (clk d (step w)) (w\<lparr>step := Suc (step w)\<rparr>)"
  by (simp add: wp_now tick_def)

text \<open>Storing a changed copy of what was found: the collection afterwards.\<close>

lemma stored_update:
  assumes "find (by_id t i) cs = Some old" "same_identity cv old"
  shows "find (by_id t i) (update_first (by_id t (cv_ID cv)) (conv_set cv) cs) = Some cv"
    and "j \<noteq> i \<Longrightarrow> find (by_id t j) (update_first (by_id t (cv_ID cv)) (conv_set cv) cs) = find (by_id t j) cs"
proof -
  have "cv_ID cv = i" using assms find_Some_in [OF assms(1)] by (simp add: by_id_def same_identity_def)
  then show "find (by_id t i) (update_first (by_id t (cv_ID cv)) (conv_set cv) cs) = Some cv"
    and "j \<noteq> i \<Longrightarrow> find (by_id t j) (update_first (by_id t (cv_ID cv)) (conv_set cv) cs) = find (by_id t j) cs"
    using assms find_conv_update [where i = i and t = t and new = cv and ds = cs]
      find_conv_other [where i = i and j = j and t = t and new = cv and ds = cs]
    by (simp_all add: conv_set_same)
qed

text \<open>
  \<open>only_changed t i cv w w'\<close>: the conversation \<open>i\<close> of tenant \<open>t\<close> is now \<open>cv\<close> and the others
  are as they were.
\<close>

definition only_changed :: "ident \<Rightarrow> ident \<Rightarrow> conversation \<Rightarrow> 'z conv_world_scheme \<Rightarrow> 'z conv_world_scheme \<Rightarrow> bool" where
  "only_changed t i cv w w' \<longleftrightarrow> find (by_id t i) (convs w') = Some cv
     \<and> (\<forall>j. j \<noteq> i \<longrightarrow> find (by_id t j) (convs w') = find (by_id t j) (convs w))"

lemma only_changed_update:
  assumes "find (by_id t i) (convs w) = Some old" "same_identity cv old"
    "convs w' = update_first (by_id t (cv_ID cv)) (conv_set cv) (convs w)"
  shows "only_changed t i cv w w'"
  using stored_update [OF assms(1,2)] assms(3) by (simp add: only_changed_def)

lemma found_id: "find (by_id t i) cs = Some cv \<Longrightarrow> cv_ID cv = i \<and> cv_TenantID cv = t"
  by (auto simp: by_id_def dest: find_Some_in)

text \<open>\<open>untouched w w'\<close>: nothing was written and no port was called.\<close>

definition untouched :: "'z conv_world_scheme \<Rightarrow> 'z conv_world_scheme \<Rightarrow> bool" where
  "untouched w w' \<longleftrightarrow> (\<exists>n. w' = w\<lparr>step := n\<rparr>)"

lemma untouched_step [simp]: "untouched w (w\<lparr>step := n\<rparr>)"
  by (auto simp: untouched_def)

end
