(* ===== verification/Conv_Props.thy ===== *)
theory Conv_Props
  imports Conv_Rules
begin

text \<open>
  What the conversations use cases do, on every branch: visibility, closing and reopening,
  sending, tagging, read state, editing and deleting, receipts, and the job that closes
  inactive conversations.
\<close>

section \<open>Hooks\<close>

lemmas mon_wp = wp_return wp_throw wp_bind wp_then wp_try wp_ignore wp_lift wp_gets wp_modify
  wp_when wp_guard wp_if wp_let wp_log wp_ask wp_now_step

text \<open>The calls on the SLA, CSAT, queue, audit and notification ports, in order.\<close>

definition hook_log :: "'z conv_world_scheme \<Rightarrow> effect list" where
  "hook_log w = filter (\<lambda>e. \<not> fan e) (effects w)"

lemma noted_hooks: "noted fan w w' \<Longrightarrow> hook_log w' = hook_log w"
  by (auto simp: noted_def hook_log_def filter_empty_conv)

lemma hook_log_simps [simp]:
  "hook_log (w\<lparr>step := n\<rparr>) = hook_log w" "hook_log (w\<lparr>convs := cs\<rparr>) = hook_log w"
  "hook_log (w\<lparr>msgs := ms\<rparr>) = hook_log w" "hook_log (tick w) = hook_log w"
  "hook_log (w\<lparr>effects := effects w @ es\<rparr>) = hook_log w @ filter (\<lambda>e. \<not> fan e) es"
  by (simp_all add: hook_log_def)

text \<open>The documents and hooks of two worlds agree.\<close>

definition same_docs :: "'z conv_world_scheme \<Rightarrow> 'z conv_world_scheme \<Rightarrow> bool" where
  "same_docs w w' \<longleftrightarrow> convs w' = convs w \<and> msgs w' = msgs w \<and> chans w' = chans w"

lemma noted_docs: "noted P w w' \<Longrightarrow> same_docs w w'"
  by (simp add: noted_def same_docs_def)

lemma wp_note:
  assumes "framed (noted fan) m" "noerr m"
    "\<And>x w'. same_docs w w' \<Longrightarrow> hook_log w' = hook_log w \<Longrightarrow> Q x w'"
  shows "wp m Q E w"
  using assms by (intro wp_quiet [OF assms(1,2)]) (auto simp: noted_hooks noted_docs)

definition close_hooks :: "ident \<Rightarrow> conversation \<Rightarrow> bool \<Rightarrow> time \<Rightarrow> effect list" where
  "close_hooks t cv wasQueued now = [ESlaResolved cv now, ECsatClosed cv]
     @ (if wasQueued then [EQueueChanged t (cv_SectorID cv) (cv_QueueID cv)] else [])"

lemma wp_close_effects:
  assumes "\<And>w'. same_docs w w' \<Longrightarrow> hook_log w' = hook_log w @ close_hooks (ctx_tenant_id c) cv q now \<Longrightarrow> Q () w'"
  shows "wp (close_effects d c cv data q now) Q E w"
  unfolding close_effects_def mon_wp
  by (rule wp_note [OF fr_note_recordEvent noerr_recordEvent],
      rule wp_note [OF fr_note_publishConversation noerr_publishConversation],
      rule wp_note [OF fr_note_publishLifecycle noerr_publishLifecycle],
      rule wp_note [OF fr_note_webhooks(1) noerr_webhooks(1)])
     (auto simp: mon_wp same_docs_def close_hooks_def intro!: assms)

definition closed_copy :: "time \<Rightarrow> conversation \<Rightarrow> conversation" where
  "closed_copy now cv = cv\<lparr>cv_Status := StatusClosed, cv_ClosedAt := Some now, cv_UpdatedAt := now\<rparr>"

lemma closed_copy_keeps [simp]:
  "cv_ID (closed_copy now cv) = cv_ID cv" "cv_TenantID (closed_copy now cv) = cv_TenantID cv"
  by (simp_all add: closed_copy_def)

lemma same_identity_changes [simp]:
  "same_identity (cv\<lparr>cv_Status := s, cv_ClosedAt := a, cv_UpdatedAt := u\<rparr>) cv"
  "same_identity (cv\<lparr>cv_UnreadCount := n, cv_LastReadAt := a, cv_UpdatedAt := u\<rparr>) cv"
  "same_identity (cv\<lparr>cv_UnreadCount := n, cv_UpdatedAt := u\<rparr>) cv"
  "same_identity (cv\<lparr>cv_Tags := ts, cv_UpdatedAt := u\<rparr>) cv"
  "same_identity (bump m cv) cv" "same_identity (closed_copy u cv) cv"
  by (simp_all add: same_identity_def bump_def closed_copy_def)

section \<open>Failures of the database\<close>

text \<open>
  \<open>driver_failed d w w' r\<close>: a database call made between the two worlds failed, and its error,
  mapped the way the repositories map it, is the answer.
\<close>

definition driver_failed ::
  "'e env_scheme \<Rightarrow> 'z conv_world_scheme \<Rightarrow> 'z conv_world_scheme \<Rightarrow> 'a res \<Rightarrow> bool" where
  "driver_failed d w w' r \<longleftrightarrow> (\<exists>k s. step w \<le> k \<and> k < step w' \<and> fault d k = Some s
     \<and> r = Inl (MapError (DriverError s)))"

lemma reliable_driver [simp]: "reliable d \<Longrightarrow> \<not> driver_failed d w w' r"
  by (simp add: reliable_def driver_failed_def)

lemma driver_failedI [intro]:
  "fault d k = Some s \<Longrightarrow> step w \<le> k \<Longrightarrow> k < step w' \<Longrightarrow> driver_failed d w w' (Inl (MapError (DriverError s)))"
  by (auto simp: driver_failed_def)

lemma driver_failed_later: "driver_failed d (w\<lparr>step := k\<rparr>) w' r \<Longrightarrow> step w \<le> k \<Longrightarrow> driver_failed d w w' r"
  unfolding driver_failed_def by (metis base_world.select_convs(1) base_world.surjective base_world.update_convs(1) order_trans)

lemma driver_failed_step [simp]:
  "driver_failed d (w\<lparr>convs := cs\<rparr>) w' r = driver_failed d w w' r"
  "driver_failed d w (w'\<lparr>msgs := ms\<rparr>) r = driver_failed d w w' r"
  by (simp_all add: driver_failed_def)

lemma wp_loadVisible_exact:
  assumes "\<And>cv ac. lookup_visible c i (convs w) = Inr (cv, ac) \<Longrightarrow> Q (cv, ac) (w\<lparr>step := Suc (step w)\<rparr>)"
    and "\<And>e n. lookup_visible c i (convs w) = Inl e \<Longrightarrow> E e (w\<lparr>step := n\<rparr>)"
    and "\<And>s. fault d (step w) = Some s \<Longrightarrow> E (MapError (DriverError s)) (w\<lparr>step := Suc (step w)\<rparr>)"
  shows "wp (loadVisible d c i) Q E w"
proof -
  have w: "w\<lparr>step := step w\<rparr> = w" "w\<lparr>step := Suc (step w)\<rparr> = tick w" by (simp_all add: tick_def)
  have "E e w" "E e (tick w)" if "lookup_visible c i (convs w) = Inl e" for e
    using assms(2) [OF that, of "step w"] assms(2) [OF that, of "Suc (step w)"] by (simp_all add: w)
  then show ?thesis using assms(1,3) unfolding w
    by (auto simp: loadVisible_def lookup_visible_def io_wp on_db_def MapError_def
        split: sum.split option.split)
qed

lemma wp_conv_Update_exact:
  assumes "ctx_tenant c = Some t" "t \<noteq> []" "find (by_id t (cv_ID cv)) (convs w) \<noteq> None"
    and "Q () (w\<lparr>step := Suc (step w), convs := update_first (by_id t (cv_ID cv)) (conv_set cv) (convs w)\<rparr>)"
    and "\<And>s. fault d (step w) = Some s \<Longrightarrow> E (MapError (DriverError s)) (w\<lparr>step := Suc (step w)\<rparr>)"
  shows "wp (conv_Update d c cv) Q E w"
  using assms by (auto simp: io_wp on_db_def RequireTenant_def tick_def split: option.split)

lemma wp_msg_Create_exact:
  assumes "ctx_tenant c = Some t" "t \<noteq> []"
    and "m_ID m \<notin> m_ID ` set (msgs w) \<Longrightarrow> Q () (w\<lparr>step := Suc (step w), msgs := msgs w @ [m]\<rparr>)"
    and "m_ID m \<in> m_ID ` set (msgs w) \<Longrightarrow> E (MapError DuplicateKey) (w\<lparr>step := Suc (step w)\<rparr>)"
    and "\<And>s. fault d (step w) = Some s \<Longrightarrow> E (MapError (DriverError s)) (w\<lparr>step := Suc (step w)\<rparr>)"
  shows "wp (msg_Create d c m) Q E w"
  using assms by (auto simp: wp_msg_Create on_db_def RequireTenant_def tick_def split: option.split)

lemma wp_hydrate_later:
  fixes w :: "'z conv_world_scheme"
  assumes "\<And>m' n. hydration_of m m' \<Longrightarrow> step w \<le> n \<Longrightarrow> Q m' (w\<lparr>step := n\<rparr>)"
  shows "wp (hydrate_msg d c m) Q E w"
proof -
  have "framed (\<lambda>w w'. step w \<le> step w') (hydrate_msg d c m :: ('z conv_world_scheme, message) io)"
    by (auto simp: framed_def hydrate_msg_def hydrateMessages_def Let_def io_defs ask_def tick_def
        split: option.split sum.split)
  then have "wp (hydrate_msg d c m) (\<lambda>_ w'. step w \<le> step w') (\<lambda>_ w'. step w \<le> step w') w"
    by (simp add: framed_wp)
  moreover have "wp (hydrate_msg d c m) (\<lambda>m' w'. hydration_of m m' \<and> (\<exists>n. w' = w\<lparr>step := n\<rparr>)) (\<lambda>_ _. False) w"
    by (rule wp_hydrate_msg) auto
  ultimately show ?thesis
    using assms by (fastforce simp: wp_def split: prod.splits sum.splits)
qed

section \<open>Persisting a message\<close>

text \<open>
  \<open>persisted\<close>: the message is in the collection, with its attachments reduced to their
  identifiers, and the conversation shows it as its last message.
\<close>

definition stored_form :: "message \<Rightarrow> message" where
  "stored_form msg = msg\<lparr>m_Attachments := attachmentIDsOnly (m_Attachments msg)\<rparr>"

definition persisted :: "ident \<Rightarrow> ident \<Rightarrow> conversation \<Rightarrow> message \<Rightarrow> 'z conv_world_scheme \<Rightarrow> 'z conv_world_scheme \<Rightarrow> bool" where
  "persisted t i cv msg w w' \<longleftrightarrow> msgs w' = msgs w @ [stored_form msg] \<and> only_changed t i (bump msg cv) w w'"

text \<open>
  \<open>half_persisted\<close>: the message is in the collection, but the conversation was not updated
  and nothing else was done.
\<close>

definition half_persisted :: "message \<Rightarrow> 'z conv_world_scheme \<Rightarrow> 'z conv_world_scheme \<Rightarrow> bool" where
  "half_persisted msg w w' \<longleftrightarrow> (\<exists>n. w' = w\<lparr>msgs := msgs w @ [stored_form msg], step := n\<rparr>)"

text \<open>How \<open>persistMessage\<close> fails: the three ways, with the error of each.\<close>

definition persist_failed ::
  "'e env_scheme \<Rightarrow> message \<Rightarrow> goerr \<Rightarrow> 'z conv_world_scheme \<Rightarrow> 'z conv_world_scheme \<Rightarrow> bool" where
  "persist_failed d msg0 e w w' \<longleftrightarrow>
     untouched w w' \<and> driver_failed d w w' (Inl e :: unit res)
   \<or> untouched w w' \<and> m_ID msg0 \<in> m_ID ` set (msgs w) \<and> e = MapError DuplicateKey
   \<or> m_ID msg0 \<notin> m_ID ` set (msgs w) \<and> (\<exists>msg. hydration_of msg0 msg \<and> half_persisted msg w w')
       \<and> driver_failed d w w' (Inl e :: unit res)"

lemma wp_persist_on_faults:
  assumes "ctx_tenant c = Some t" "t \<noteq> []" "find (by_id t i) (convs w) = Some cv"
    and ok: "\<And>msg w'. hydration_of msg0 msg \<Longrightarrow> m_ID msg0 \<notin> m_ID ` set (msgs w) \<Longrightarrow>
          persisted t i cv msg w w' \<Longrightarrow> hook_log w' = hook_log w \<Longrightarrow> Q (msg, bump msg cv) w'"
    and err: "\<And>e w'. persist_failed d msg0 e w w' \<Longrightarrow> E e w'"
  shows "wp (persistMessage d c cv msg0 ev) Q E w"
  unfolding persistMessage_def Let_def mon_wp stored_form_def [symmetric]
proof (rule wp_hydrate_later, rule wp_msg_Create_exact [OF assms(1,2)], goal_cases)
  case (1 msg n)
  have cv: "cv_ID cv = i" using found_id [OF assms(3)] by simp
  have id: "m_ID msg = m_ID msg0" "m_ID (stored_form msg) = m_ID msg"
    using hydration_keeps(2) [OF 1(1)] by (simp_all add: stored_form_def)
  let ?w = "w\<lparr>step := Suc n, msgs := msgs w @ [stored_form msg]\<rparr>"
  have post: "persisted t i cv msg w w'"
    if "same_docs (?w\<lparr>step := j, convs := update_first (by_id t i) (conv_set (bump msg cv)) (convs w)\<rparr>) w'" for j w'
    using that only_changed_update [OF assms(3), of "bump msg cv" w'] cv
    by (auto simp: persisted_def same_docs_def)
  show ?case
  proof (rule wp_conv_Update_exact [OF assms(1,2)], goal_cases)
    case 1 then show ?case using assms(3) cv by simp
  next
    case 2
    show ?case
      by (rule wp_note [OF fr_note_recordEvent noerr_recordEvent],
          rule wp_note [OF fr_note_payload noerr_payload],
          rule wp_note [OF fr_note_PublishAll noerr_PublishAll], simp)
         (use ok [OF \<open>hydration_of msg0 msg\<close>] 1 id post cv in
           \<open>auto simp: mon_wp same_docs_def intro!: wp_note [OF fr_note_webhooks(2) noerr_webhooks(2)]
              wp_note [OF fr_note_rule noerr_rule]\<close>)
  next
    case (3 s)
    then show ?case using 1 id
      by (intro err) (auto simp: persist_failed_def half_persisted_def driver_failedI intro!: exI [of _ msg])
  qed
next
  case (2 msg n)
  then show ?case by (intro err) (auto simp: persist_failed_def hydration_keeps stored_form_def untouched_def)
next
  case (3 msg n s)
  then show ?case by (intro err) (auto simp: persist_failed_def driver_failedI untouched_def)
qed

lemma wp_persistMessage:
  assumes "reliable d" "ctx_tenant c = Some t" "t \<noteq> []" "find (by_id t i) (convs w) = Some cv"
    and "\<And>msg w'. hydration_of msg0 msg \<Longrightarrow> m_ID msg0 \<notin> m_ID ` set (msgs w) \<Longrightarrow>
          persisted t i cv msg w w' \<Longrightarrow> hook_log w' = hook_log w \<Longrightarrow> Q (msg, bump msg cv) w'"
    and "\<And>e n. m_ID msg0 \<in> m_ID ` set (msgs w) \<Longrightarrow> E e (w\<lparr>step := n\<rparr>)"
  shows "wp (persistMessage d c cv msg0 ev) Q E w"
  by (rule wp_persist_on_faults [OF assms(2-4)])
     (use assms(1,5,6) in \<open>auto simp: persist_failed_def untouched_def\<close>)

section \<open>Closing\<close>

text \<open>What the close-reason port says of a close: nothing to object, or the error to answer.\<close>

definition close_reason_check :: "'e conv_deps_scheme \<Rightarrow> nat \<Rightarrow> ctx \<Rightarrow> close_conversation \<Rightarrow> unit res" where
  "close_reason_check d n c cmd = (case dp_closeReasons d of
     None \<Rightarrow> Inr ()
   | Some requiresNote \<Rightarrow> if cl_CloseReasonID cmd = [] then Inr ()
       else (case requiresNote n c (cl_CloseReasonID cmd) of
          Inl e \<Rightarrow> Inl e
        | Inr req \<Rightarrow> if req \<and> trim_space (cl_Note cmd) = []
            then Inl (WithDetails (Validation ''this close reason requires a note'')
                   [''note'' \<mapsto> GStr ''is required for this close reason''])
            else Inr ()))"

text \<open>The closing note: internal, written by the acting agent.\<close>

definition closing_note :: "auth_context \<Rightarrow> conversation \<Rightarrow> close_conversation \<Rightarrow> message \<Rightarrow> bool" where
  "closing_note ac cv cmd m \<longleftrightarrow> m_Text m = cl_Note cmd \<and> m_Direction m = DirectionInternal
     \<and> m_SenderType m = SenderAgent \<and> m_SenderID m = ac_UserID ac
     \<and> m_TenantID m = cv_TenantID cv \<and> m_ConversationID m = cv_ID cv"

text \<open>The ports called by a completed close, in order.\<close>

definition close_calls :: "ctx \<Rightarrow> conversation \<Rightarrow> close_conversation \<Rightarrow> time \<Rightarrow> effect list" where
  "close_calls c cv cmd now =
     close_hooks (ctx_tenant_id c) (closed_copy now cv) (cv_Status cv = StatusQueued \<and> cv_QueueID cv \<noteq> []) now
   @ [EAudit (ctx_tenant_id c) ''conversation.closed'' (cv_ID cv)
        [''close_reason_id'' \<mapsto> GStr (cl_CloseReasonID cmd)]]"

definition close_stored ::
  "'e env_scheme \<Rightarrow> ctx \<Rightarrow> conversation \<Rightarrow> auth_context \<Rightarrow> close_conversation \<Rightarrow> time \<Rightarrow>
   'z conv_world_scheme \<Rightarrow> conversation res \<Rightarrow> 'z conv_world_scheme \<Rightarrow> bool" where
  "close_stored d c cv ac cmd now w r w' \<longleftrightarrow>
     (let cv' = closed_copy now cv; t = ctx_tenant_id c; i = cv_ID cv in
      if trim_space (cl_Note cmd) = []
      then r = Inr cv' \<and> only_changed t i cv' w w' \<and> msgs w' = msgs w
           \<and> hook_log w' = hook_log w @ close_calls c cv cmd now
      else r = Inr cv' \<and> (\<exists>m. closing_note ac cv cmd m \<and> persisted t i (cv') m w w')
           \<and> hook_log w' = hook_log w @ close_calls c cv cmd now
         \<or> (driver_failed d w w' r \<or> r = Inl (MapError DuplicateKey) \<and> (\<exists>k. newid d k \<in> m_ID ` set (msgs w)))
           \<and> only_changed t i cv' w w' \<and> effects w' = effects w
           \<and> (msgs w' = msgs w \<or> (\<exists>m. closing_note ac cv cmd m \<and> msgs w' = msgs w @ [stored_form m])))"

definition close_outcome ::
  "'e conv_deps_scheme \<Rightarrow> ctx \<Rightarrow> ident \<Rightarrow> close_conversation \<Rightarrow>
   'z conv_world_scheme \<Rightarrow> conversation res \<Rightarrow> 'z conv_world_scheme \<Rightarrow> bool" where
  "close_outcome d c i cmd w r w' \<longleftrightarrow>
     untouched w w' \<and> driver_failed d w w' r
   \<or> (case lookup_visible c i (convs w) of
        Inl e \<Rightarrow> r = Inl e \<and> untouched w w'
      | Inr (cv, ac) \<Rightarrow>
         if cv_Status cv \<in> {StatusClosed, StatusArchived}
         then r = Inl (Conflict ''conversation is already closed'') \<and> untouched w w'
         else (case close_reason_check d (Suc (step w)) c cmd of
            Inl e \<Rightarrow> r = Inl e \<and> untouched w w'
          | Inr _ \<Rightarrow> \<exists>n. close_stored d c cv ac cmd (clk d n) w r w'))"

lemma wp_outcome: "wp m (\<lambda>x w'. P (Inr x) w') (\<lambda>e w'. P (Inl e) w') w \<Longrightarrow> P (fst (m w)) (snd (m w))"
  by (auto simp: wp_def split: prod.splits sum.splits)

lemma wp_close_reason:
  assumes "\<And>n. close_reason_check d (step w) c cmd = Inr () \<Longrightarrow> step w \<le> n \<Longrightarrow> Q () (w\<lparr>step := n\<rparr>)"
    and "\<And>e n. close_reason_check d (step w) c cmd = Inl e \<Longrightarrow> E e (w\<lparr>step := n\<rparr>)"
  shows "wp (case dp_closeReasons d of
        Some requiresNote \<Rightarrow> if cl_CloseReasonID cmd = [] then return_io ()
          else bind_io (ask (\<lambda>n. requiresNote n c (cl_CloseReasonID cmd))) (\<lambda>req.
            guard_io (req \<and> trim_space (cl_Note cmd) = [])
              (WithDetails (Validation ''this close reason requires a note'')
                 [''note'' \<mapsto> GStr ''is required for this close reason'']))
      | None \<Rightarrow> return_io ()) Q E w"
  using assms(1) [of "step w"] assms(1) [of "Suc (step w)"] assms(2) [of _ "Suc (step w)"]
  by (auto simp: close_reason_check_def mon_wp tick_def split: option.split sum.split)

lemma close_outcome_stored:
  assumes "lookup_visible c i (convs w) = Inr (cv, ac)" "cv_Status cv \<notin> {StatusClosed, StatusArchived}"
    "close_reason_check d (Suc (step w)) c cmd = Inr ()" "close_stored d c cv ac cmd (clk d n) w r w'"
  shows "close_outcome d c i cmd w r w'"
  using assms by (auto simp: close_outcome_def)

lemma wp_close_calls:
  assumes "\<And>w'. same_docs w w' \<Longrightarrow> hook_log w' = hook_log w @ close_calls c cv cmd now \<Longrightarrow> Q w'"
  shows "wp (close_effects d c (closed_copy now cv) data (cv_Status cv = StatusQueued \<and> cv_QueueID cv \<noteq> []) now)
    (\<lambda>_ w'. Q (w'\<lparr>effects := effects w' @ [EAudit (ctx_tenant_id c) ''conversation.closed'' (cv_ID cv)
        [''close_reason_id'' \<mapsto> GStr (cl_CloseReasonID cmd)]]\<rparr>)) E w"
  by (rule wp_close_effects) (auto simp: same_docs_def close_calls_def intro!: assms)

lemma note_hydrated:
  assumes "hydration_of (zero_message\<lparr>m_ID := i, m_TenantID := t, m_ConversationID := j,
      m_SenderType := SenderAgent, m_SenderID := u, m_Direction := DirectionInternal,
      m_MessageType := MessageText, m_Text := txt, m_CreatedAt := now, m_DeliveryStatus := DeliveryNone\<rparr>) m"
    "cl_Note cmd = txt" "ac_UserID ac = u" "cv_TenantID cv = t" "cv_ID cv = j"
  shows "closing_note ac cv cmd m"
  using assms by (simp add: closing_note_def hydration_keeps)

lemma wp_closing_note:
  assumes lk: "lookup_visible c i (convs w) = Inr (cv, ac)" and "trim_space (cl_Note cmd) \<noteq> []"
    and ok: "\<And>m w'. closing_note ac cv cmd m \<Longrightarrow> persisted (ctx_tenant_id c) i cv m w w' \<Longrightarrow>
          hook_log w' = hook_log w \<Longrightarrow> Q m w'"
    and err: "\<And>e w'. driver_failed d w w' (Inl e :: unit res) \<or>
            e = MapError DuplicateKey \<and> (\<exists>k. newid d k \<in> m_ID ` set (msgs w)) \<Longrightarrow>
          untouched w w' \<or> (\<exists>m. closing_note ac cv cmd m \<and> half_persisted m w w') \<Longrightarrow> E e w'"
  shows "wp (AddInternalNote d c i (cl_Note cmd) []) Q E w"
proof -
  obtain t where t: "ctx_tenant c = Some t" "t \<noteq> []" "find (by_id t i) (convs w) = Some cv"
    using lk by (auto simp: lookup_visible_Inr)
  have tid: "ctx_tenant_id c = t" using t(1) by simp
  show ?thesis
    unfolding AddInternalNote_def Let_def mon_wp
  proof (rule wp_loadVisible_exact, goal_cases)
    case (1 cv' ac')
    then have eq: "cv' = cv" "ac' = ac" using lk by auto
    show ?case unfolding eq prod.case mon_wp wp_new_id tick_def
      using assms(2)
    proof (simp, intro wp_persist_on_faults [where i = i, OF t(1,2)], goal_cases)
      case 1 then show ?case using t(3) by simp
    next
      case (2 msg w')
      then show ?case
        by (auto simp: mon_wp tid persisted_def only_changed_def intro!: ok note_hydrated)
    next
      case (3 e w')
      then show ?case
        by (intro err) (auto simp: persist_failed_def untouched_def half_persisted_def
            intro: note_hydrated dest!: driver_failed_later)
    qed
  next
    case (3 s)
    then show ?case by (intro err) (auto simp: driver_failed_def)
  qed (use lk in simp)
qed

text \<open>What \<open>Close\<close> does once the closed conversation is stored.\<close>

lemma wp_close_rest:
  assumes lk: "lookup_visible c i (convs w) = Inr (cv, ac)" and "step w \<le> k"
    and P: "\<And>r w'. close_stored d c cv ac cmd now w r w' \<Longrightarrow> P r w'"
    and w1: "w1 = w\<lparr>step := k, convs := update_first (by_id (ctx_tenant_id c) (cv_ID cv))
               (conv_set (closed_copy now cv)) (convs w)\<rparr>"
  shows "wp (then_io (when_io (trim_space (cl_Note cmd) \<noteq> [])
               (bind_io (AddInternalNote d c (cv_ID cv) (cl_Note cmd) []) (\<lambda>_. return_io ())))
            (then_io (close_effects d c (closed_copy now cv) data
               (cv_Status cv = StatusQueued \<and> cv_QueueID cv \<noteq> []) now)
            (then_io (log_effect (EAudit (ctx_tenant_id c) ''conversation.closed'' (cv_ID cv)
               [''close_reason_id'' \<mapsto> GStr (cl_CloseReasonID cmd)]))
             (return_io (closed_copy now cv)))))
          (\<lambda>x. P (Inr x)) (\<lambda>e. P (Inl e)) w1"
proof -
  obtain t where t: "ctx_tenant c = Some t" "t \<noteq> []" "find (by_id t i) (convs w) = Some cv"
      "ctx_auth c = Some ac" "visibleTo cv ac"
    using lk by (auto simp: lookup_visible_Inr)
  then have cv: "cv_ID cv = i" "ctx_tenant_id c = t" by (auto dest: found_id)
  have changed: "only_changed t i (closed_copy now cv) w w1"
    by (intro only_changed_update [OF t(3)]) (simp_all add: cv w1)
  have lk1: "lookup_visible c i (convs w1) = Inr (closed_copy now cv, ac)"
    using changed t(1,2,4,5) by (auto simp: lookup_visible_Inr only_changed_def visibleTo_def closed_copy_def)
  have same: "msgs w1 = msgs w" "hook_log w1 = hook_log w" "effects w1 = effects w" by (simp_all add: w1)
  have failed: "driver_failed d w w' (Inl e :: conversation res)" if "driver_failed d w1 w' (Inl e :: unit res)" for w' e
    using that assms(2) by (auto simp: driver_failed_def [of d "w\<lparr>step := k\<rparr>"] w1)
  have note_of: "closing_note ac (closed_copy now cv) cmd m = closing_note ac cv cmd m" for m
    by (simp add: closing_note_def)
  show ?thesis
  proof (cases "trim_space (cl_Note cmd) = []")
    case True
    then show ?thesis unfolding mon_wp
      by (auto intro!: wp_close_calls P)
         (use changed in \<open>auto simp: close_stored_def same_docs_def only_changed_def same cv\<close>)
  next
    case False
    then show ?thesis unfolding mon_wp cv(1)
    proof (simp, intro wp_closing_note [OF lk1], goal_cases)
      case 1 then show ?case by simp
    next
      case (2 m w2)
      then have "persisted t i (closed_copy now cv) m w w3" if "same_docs w2 w3" for w3
        using that changed cv by (auto simp: persisted_def only_changed_def same_docs_def same)
      then show ?case using 2 False
        by (intro wp_close_calls [where cv = cv, unfolded cv(1)] P)
           (auto simp: close_stored_def Let_def same cv note_of)
    next
      case (3 e w2)
      then show ?case
        by (intro P)
           (use False changed failed in \<open>auto simp: close_stored_def only_changed_def same cv note_of untouched_def half_persisted_def\<close>)
    qed
  qed
qed

lemma Close_outcome:
  "close_outcome d c i cmd w (fst (Close d c i cmd w)) (snd (Close d c i cmd w))"
proof (rule wp_outcome)
  show "wp (Close d c i cmd) (\<lambda>x. close_outcome d c i cmd w (Inr x)) (\<lambda>e. close_outcome d c i cmd w (Inl e)) w"
    unfolding Close_def Let_def closed_copy_def [symmetric] wp_bind
  proof (rule wp_loadVisible_exact, goal_cases)
    case (1 cv ac)
    then obtain t where t: "ctx_tenant c = Some t" "t \<noteq> []" "find (by_id t i) (convs w) = Some cv"
      by (auto simp: lookup_visible_Inr)
    then have cv: "cv_ID cv = i" "ctx_tenant_id c = t" by (auto dest: found_id)
    note lk = 1
    show ?case
    proof (cases "cv_Status cv \<in> {StatusClosed, StatusArchived}")
      case True
      then show ?thesis using 1 by (auto simp: mon_wp close_outcome_def)
    next
      case open_: False
      then have guard: "(cv_Status cv = StatusClosed \<or> cv_Status cv = StatusArchived) = False" by simp
      show ?thesis unfolding prod.case wp_then wp_guard guard if_False
      proof (rule wp_close_reason, goal_cases)
        case (1 n)
        then have check: "close_reason_check d (Suc (step w)) c cmd = Inr ()" by simp
        show ?case unfolding wp_now_step wp_bind
        proof (subst wp_then, rule wp_conv_Update_exact [OF t(1,2)], goal_cases)
          case 2
          show ?case unfolding closed_copy_keeps
            by (rule wp_close_rest [OF lk, where k = "Suc (Suc n)" and P = "close_outcome d c i cmd w"])
               (use open_ check \<open>step _ \<le> n\<close> cv in \<open>simp_all add: close_outcome_stored [OF lk]\<close>)
        next
          case (3 s)
          then have "driver_failed d w (w\<lparr>step := Suc (Suc n)\<rparr>) (Inl (MapError (DriverError s)) :: conversation res)"
            using \<open>step _ \<le> n\<close> by (intro driver_failedI) auto
          then show ?case by (simp add: close_outcome_def)
        qed (use t(3) cv in simp)
      next
        case (2 e n)
        then show ?case using lk open_ by (simp add: close_outcome_def)
      qed
    qed
  qed (auto simp: close_outcome_def driver_failed_def)
qed

text \<open>
  C3: closing a conversation, on every branch. An actor who cannot see the conversation gets
  the lookup's error, a closed or archived one gives a conflict, a close reason that is refused
  or asks for a missing note gives that error, and a failed database call before the write gives
  the driver's: none of these changes anything. Otherwise the stored conversation becomes closed
  with its closing time and no other conversation changes. Without a note no message changes, the
  closed conversation is answered and the SLA, CSAT, queue and audit ports are called once each,
  in that order (the queue only when it was waiting in one). With a note the same is done after
  one internal message of the acting agent was stored and shown by the conversation; when that
  message cannot be stored (a database call fails, or the drawn identifier is taken) the close
  answers the error with the conversation already closed and none of the ports called.
\<close>

theorem Close_on_every_branch:
  "close_outcome d c i cmd w (fst (Close d c i cmd w)) (snd (Close d c i cmd w))"
  by (rule Close_outcome)

lemma reliable_demo [simp]: "reliable demo_deps"
  by (simp add: reliable_def demo_deps_def)

lemma demo_ports [simp]:
  "dp_closeReasons demo_deps = None" "dp_tags demo_deps = None" "dp_attachments demo_deps = None"
  by (simp_all add: demo_deps_def)

section \<open>Reopening\<close>

definition reopened_copy :: "time \<Rightarrow> conversation \<Rightarrow> conversation" where
  "reopened_copy now cv = cv\<lparr>cv_Status := initial_status (cv_AssignedTo cv) (cv_QueueID cv),
     cv_ClosedAt := None, cv_UpdatedAt := now\<rparr>"

lemma same_identity_reopened [simp]: "same_identity (reopened_copy now cv) cv"
  by (simp add: reopened_copy_def)

definition reopen_outcome ::
  "ctx \<Rightarrow> ident \<Rightarrow> 'z conv_world_scheme \<Rightarrow> conversation res \<Rightarrow> 'z conv_world_scheme \<Rightarrow> bool" where
  "reopen_outcome c i w r w' \<longleftrightarrow> (case lookup_visible c i (convs w) of
     Inl e \<Rightarrow> r = Inl e \<and> untouched w w'
   | Inr (cv, _) \<Rightarrow>
      if \<not> status_is_closed (cv_Status cv)
      then r = Inl (Conflict ''conversation is not closed'') \<and> untouched w w'
      else (\<exists>now. r = Inr (reopened_copy now cv) \<and> only_changed (ctx_tenant_id c) i (reopened_copy now cv) w w'
              \<and> msgs w' = msgs w \<and> hook_log w' = hook_log w))"

lemma Reopen_outcome:
  assumes "reliable d"
  shows "reopen_outcome c i w (fst (Reopen d c i w)) (snd (Reopen d c i w))"
proof (rule wp_outcome)
  show "wp (Reopen d c i) (\<lambda>x. reopen_outcome c i w (Inr x)) (\<lambda>e. reopen_outcome c i w (Inl e)) w"
    unfolding Reopen_def Let_def mon_wp reopened_copy_def [symmetric]
  proof (rule wp_loadVisible, goal_cases)
    case (1 cv ac n)
    then obtain t where t: "ctx_tenant c = Some t" "t \<noteq> []" "find (by_id t i) (convs w) = Some cv"
      by (auto simp: lookup_visible_Inr)
    then have cv: "cv_ID cv = i" "ctx_tenant_id c = t" by (auto dest: found_id)
    let ?cv = "reopened_copy (clk d n) cv"
    have id: "cv_ID ?cv = i" by (simp add: reopened_copy_def cv)
    have "only_changed t i ?cv w w'" if "convs w' = update_first (by_id t i) (conv_set ?cv) (convs w)" for w'
      using that by (intro only_changed_update [OF t(3)]) (auto simp: id)
    then show ?case using 1 t cv assms
      by (auto simp: mon_wp reopen_outcome_def id same_docs_def
          intro!: wp_conv_Update_loaded wp_note [OF fr_note_recordEvent noerr_recordEvent]
            wp_note [OF fr_note_publishConversation noerr_publishConversation]
            wp_note [OF fr_note_publishLifecycle noerr_publishLifecycle] exI [of _ "clk d n"])
  qed (use assms in \<open>auto simp: reopen_outcome_def\<close>)
qed

text \<open>
  Closing and reopening are inverse. A visible conversation whose status is the one its
  assignment calls for, once closed and reopened, is stored as it was except for its update
  time; every other conversation and the messages are untouched.
\<close>

theorem reopen_undoes_close:
  assumes "reliable d" "lookup_visible c i (convs w) = Inr (cv, ac)" "cv_ClosedAt cv = None"
    "cv_Status cv = initial_status (cv_AssignedTo cv) (cv_QueueID cv)"
    "trim_space (cl_Note cmd) = []" "dp_closeReasons d = None \<or> cl_CloseReasonID cmd = []"
  shows "\<exists>now. only_changed (ctx_tenant_id c) i (cv\<lparr>cv_UpdatedAt := now\<rparr>) w
           (snd (Reopen d c i (snd (Close d c i cmd w))))
       \<and> msgs (snd (Reopen d c i (snd (Close d c i cmd w)))) = msgs w"
proof -
  let ?w1 = "snd (Close d c i cmd w)"
  let ?w2 = "snd (Reopen d c i ?w1)"
  have "cv_Status cv \<notin> {StatusClosed, StatusArchived}"
    using assms(4) by (simp add: initial_status_def)
  moreover have "close_reason_check d n c cmd = Inr ()" for n
    using assms(6) by (auto simp: close_reason_check_def split: option.split)
  moreover have "cv_ID cv = i" using assms(2) by (auto simp: lookup_visible_Inr dest: found_id)
  ultimately obtain now where close: "only_changed (ctx_tenant_id c) i (closed_copy now cv) w ?w1" "msgs ?w1 = msgs w"
    using Close_outcome [of d c i cmd w] assms(1,2,5) by (auto simp: close_outcome_def close_stored_def Let_def)
  obtain t where t: "ctx_tenant c = Some t" "t \<noteq> []" "ctx_auth c = Some ac" "visibleTo cv ac"
    using assms(2) by (auto simp: lookup_visible_Inr)
  then have "lookup_visible c i (convs ?w1) = Inr (closed_copy now cv, ac)"
    using close(1) by (auto simp: lookup_visible_Inr only_changed_def visibleTo_def closed_copy_def)
  then obtain now' where re: "only_changed (ctx_tenant_id c) i (reopened_copy now' (closed_copy now cv)) ?w1 ?w2"
      "msgs ?w2 = msgs ?w1"
    using Reopen_outcome [OF assms(1), of c i ?w1] by (auto simp: reopen_outcome_def closed_copy_def)
  moreover have "reopened_copy now' (closed_copy now cv) = cv\<lparr>cv_UpdatedAt := now'\<rparr>"
    using assms(3,4) by (cases cv) (simp add: reopened_copy_def closed_copy_def)
  ultimately show ?thesis using close by (auto simp: only_changed_def intro!: exI [of _ now'])
qed

theorem reopen_undoes_close_witness:
  "\<exists>now. only_changed ''t1'' ''c1'' (demo_conv\<lparr>cv_UpdatedAt := now\<rparr>) demo_world
      (snd (Reopen demo_deps demo_ctx ''c1''
        (snd (Close demo_deps demo_ctx ''c1'' \<lparr>cl_CloseReasonID = [], cl_Note = []\<rparr> demo_world))))
    \<and> msgs (snd (Reopen demo_deps demo_ctx ''c1''
        (snd (Close demo_deps demo_ctx ''c1'' \<lparr>cl_CloseReasonID = [], cl_Note = []\<rparr> demo_world)))) = msgs demo_world"
  using reopen_undoes_close [of demo_deps demo_ctx "''c1''" demo_world demo_conv demo_agent
      "\<lparr>cl_CloseReasonID = [], cl_Note = []\<rparr>"]
  by (simp add: lookup_visible_Inr demo_ctx_def demo_world_def by_id_def visibleTo_def ctx_tenant_id_def)
     (simp add: demo_conv_def demo_agent_def initial_status_def)

section \<open>Conversations out of sight\<close>

fun request_conv :: "request \<Rightarrow> ident option" where
  "request_conv (ReqGet i) = Some i"
| "request_conv (ReqUpdate i _) = Some i"
| "request_conv (ReqSendMessage i _) = Some i"
| "request_conv (ReqAddInternalNote i _ _) = Some i"
| "request_conv (ReqClose i _) = Some i"
| "request_conv (ReqReopen i) = Some i"
| "request_conv (ReqApplyTags i _ _) = Some i"
| "request_conv (ReqListMessages i _) = Some i"
| "request_conv (ReqListEvents i _) = Some i"
| "request_conv (ReqSetTyping i _) = Some i"
| "request_conv (ReqMarkRead i) = Some i"
| "request_conv (ReqMarkUnread i) = Some i"
| "request_conv (ReqEditMessage i _ _) = Some i"
| "request_conv (ReqDeleteMessage i _) = Some i"
| "request_conv _ = None"

lemma load_fails:
  assumes "lookup_visible c i (convs w) = Inl e"
  shows "untouched w (snd (bind_io (loadVisible d c i) f w))"
proof -
  have "wp (loadVisible d c i) (\<lambda>_ _. False) (\<lambda>_. untouched w) w"
    using assms by (intro wp_loadVisible) auto
  then show ?thesis by (auto simp: wp_def bind_io_def split: prod.splits sum.splits)
qed

lemma load_fails_then:
  "lookup_visible c i (convs w) = Inl e \<Longrightarrow> untouched w (snd (then_io (loadVisible d c i) m w))"
  by (simp add: then_io_def load_fails)

text \<open>
  C4: a request about a conversation its actor may not see (or that does not exist in the
  tenant) reads only: no document is written and no port is called, whatever the request is
  and whatever the driver does.
\<close>

theorem out_of_sight_out_of_reach:
  assumes "request_conv req = Some i" "lookup_visible c i (convs w) = Inl e"
  shows "untouched w (snd (serve d c req w))"
  using assms
  by (cases req)
     (auto simp: ignore_io_def Get_def Update_conv_def SendMessage_def AddInternalNote_def Close_def Reopen_def
        ApplyTags_def ListMessages_def ListEvents_def SetTyping_def MarkRead_def MarkUnread_def
        EditMessage_def DeleteMessage_def load_fails load_fails_then)

theorem out_of_sight_out_of_reach_witness:
  "untouched demo_world (snd (serve demo_deps demo_stranger (ReqDeleteMessage ''c1'' ''m1'') demo_world))"
  by (rule out_of_sight_out_of_reach [where i = "''c1''" and e = "NotFound ''conversation not found''"])
     (simp_all add: lookup_visible_def RequireTenant_def demo_defs by_id_def visibleTo_def)

end
