(* ===== verification/Conv_Messages.thy ===== *)
theory Conv_Messages
  imports Conv_Props "HOL-Library.Multiset"
begin

text \<open>
  Messages: delivery receipts against the abstract ladder, sending on every branch, and what
  editing and deleting may touch.
\<close>

section \<open>Delivery receipts\<close>

lemma receipt_status_set:
  "receipt_status s = Some to \<Longrightarrow> to \<in> {DeliveryDelivered, DeliveryRead, DeliveryFailed}"
  by (auto simp: receipt_status_def Let_def split: if_splits)

lemma stamp_receipt_core: "same_message_core (stamp_receipt to now m) m"
  unfolding same_message_core_def stamp_receipt_def Let_def
  by (cases m) (auto intro: exI)

lemma stamp_receipt_simps [simp]:
  "m_ID (stamp_receipt to now m) = m_ID m" "m_TenantID (stamp_receipt to now m) = m_TenantID m"
  "m_DeliveryStatus (stamp_receipt to now m) = to" "m_Text (stamp_receipt to now m) = m_Text m"
  by (simp_all add: stamp_receipt_def Let_def)

lemma found_msg: "find (msg_by_id t i) ms = Some m \<Longrightarrow> m_ID m = i \<and> m_TenantID m = t"
  by (auto simp: msg_by_id_def dest: find_Some_in)

text \<open>One receipt moves the stored status as the abstract \<open>receive\<close> does, and nothing else.\<close>

definition receipt_post :: "ident \<Rightarrow> ident \<Rightarrow> string \<Rightarrow> 'z conv_world_scheme \<Rightarrow> 'z conv_world_scheme \<Rightarrow> bool" where
  "receipt_post t i to w w' \<longleftrightarrow> (\<forall>m. find (msg_by_id t i) (msgs w) = Some m \<longrightarrow>
     (\<exists>m'. find (msg_by_id t i) (msgs w') = Some m'
        \<and> m_DeliveryStatus m' = receive (m_DeliveryStatus m) to \<and> m_Text m' = m_Text m))
   \<and> (\<forall>j. j \<noteq> i \<longrightarrow> find (msg_by_id t j) (msgs w') = find (msg_by_id t j) (msgs w))
   \<and> convs w' = convs w"

lemma receipt_step:
  assumes "reliable d" "ctx_tenant c = Some t" "t \<noteq> []" "receipt_status st = Some to"
    "find (msg_by_id t i) (msgs w) = Some m"
  shows "wp (ApplyDeliveryReceipt d c i st) (\<lambda>_. receipt_post t i to w) (\<lambda>_ _. False) w"
proof (cases "DeliveryAdvances (m_DeliveryStatus m) to")
  case False
  then show ?thesis using assms
    by (auto simp: ApplyDeliveryReceipt_def mon_wp RequireTenant_def wp_msg_FindByID on_db_def reliable_def
        receipt_post_def receive_def)
next
  case True
  let ?m = "stamp_receipt to (clk d (Suc (step w))) m"
  have upd: "find (msg_by_id t i) (update_first (msg_by_id t i) (msg_set ?m) (msgs w)) = Some ?m"
    using assms(5) by (simp add: find_msg_update msg_set_same stamp_receipt_core)
  have post: "receipt_post t i to w w'"
    if "msgs w' = update_first (msg_by_id t i) (msg_set ?m) (msgs w)" "convs w' = convs w" for w'
    using that upd assms(5) True by (simp add: receipt_post_def receive_def find_msg_other)
  have step2: "wp (then_io (msg_Update d c ?m) (ignore_io (Publish d topic ev p)))
      (\<lambda>_. receipt_post t i to w) (\<lambda>_ _. False) (w\<lparr>step := k\<rparr>)" for k topic ev p
    unfolding mon_wp
    using assms found_msg [OF assms(5)] post
    by (auto simp: noted_def intro!: wp_msg_Update_loaded wp_quiet [OF note_rel.fr_ignore [OF fr_note_Publish [where P = fan]] noerr_ignore, unfolded mon_wp]
          wp_quiet [OF fr_note_Publish [where P = fan]])
  then show ?thesis using assms True
    by (auto simp: ApplyDeliveryReceipt_def mon_wp RequireTenant_def wp_msg_FindByID on_db_def reliable_def
        Let_def tick_def)
qed

definition receive_all :: "'e conv_deps_scheme \<Rightarrow> ctx \<Rightarrow> ident \<Rightarrow> string list \<Rightarrow> ('z conv_world_scheme, unit) io" where
  "receive_all d c i sts = for_io sts (ApplyDeliveryReceipt d c i)"

lemma receipts_refine:
  assumes "reliable d" "ctx_tenant c = Some t" "t \<noteq> []"
  shows "list_all (\<lambda>s. receipt_status s \<noteq> None) sts \<Longrightarrow> find (msg_by_id t i) (msgs w) = Some m \<Longrightarrow>
    wp (receive_all d c i sts)
      (\<lambda>_ w'. \<exists>m'. find (msg_by_id t i) (msgs w') = Some m' \<and> m_Text m' = m_Text m
         \<and> m_DeliveryStatus m' = foldl receive (m_DeliveryStatus m) (map (the \<circ> receipt_status) sts))
      (\<lambda>_ _. False) w"
proof (induction sts arbitrary: w m)
  case Nil
  then show ?case by (simp add: receive_all_def mon_wp)
next
  case (Cons st sts)
  then obtain to where to: "receipt_status st = Some to" by auto
  have rest: "wp (receive_all d c i sts) (\<lambda>_ w'. \<exists>m'. find (msg_by_id t i) (msgs w') = Some m' \<and> m_Text m' = m_Text m
       \<and> m_DeliveryStatus m' = foldl receive (receive (m_DeliveryStatus m) to) (map (the \<circ> receipt_status) sts))
      (\<lambda>_ _. False) w'" if post: "receipt_post t i to w w'" for w'
  proof -
    obtain m1 where "find (msg_by_id t i) (msgs w') = Some m1"
        "m_DeliveryStatus m1 = receive (m_DeliveryStatus m) to" "m_Text m1 = m_Text m"
      using post Cons.prems(2) by (auto simp: receipt_post_def)
    then show ?thesis using Cons.IH [of w' m1] Cons.prems(1) by (simp add: comp_def)
  qed
  show ?case unfolding receive_all_def for_io.simps mon_wp
    using to by (intro wp_mono [OF receipt_step [OF assms to Cons.prems(2)]])
      (use rest in \<open>auto simp: receive_all_def\<close>)
qed

lemma foldl_receive_perm:
  assumes "mset rs = mset qs" "DeliveryFailed \<notin> set rs"
  shows "foldl receive s rs = foldl receive s qs"
proof -
  have "fold (\<lambda>r s. receive s r) rs = fold (\<lambda>r s. receive s r) qs"
  proof (rule fold_multiset_equiv [OF _ assms(1)])
    fix x y assume "x \<in> set rs" "y \<in> set rs"
    then have "x \<noteq> DeliveryFailed" "y \<noteq> DeliveryFailed" using assms(2) by auto
    then show "(\<lambda>s. receive s x) \<circ> (\<lambda>s. receive s y) = (\<lambda>s. receive s y) \<circ> (\<lambda>s. receive s x)"
      using receive_commute by (auto simp: fun_eq_iff)
  qed
  then show ?thesis by (simp add: foldl_conv_fold)
qed

text \<open>
  C10: delivery receipts are order tolerant and idempotent. Receipts other than \<open>failed\<close> for a
  stored message, delivered in any two orders, leave the same delivery status, which is what
  the abstract ladder gives; each call succeeds and the text is kept.
\<close>

theorem receipts_converge:
  assumes "reliable d" "ctx_tenant c = Some t" "t \<noteq> []" "find (msg_by_id t i) (msgs w) = Some m"
    and "\<forall>s \<in> set sts. receipt_status s \<in> {Some DeliveryDelivered, Some DeliveryRead}"
    and "mset sts = mset sts'"
  shows "\<exists>m1 m2. find (msg_by_id t i) (msgs (snd (receive_all d c i sts w))) = Some m1
     \<and> find (msg_by_id t i) (msgs (snd (receive_all d c i sts' w))) = Some m2
     \<and> m_DeliveryStatus m1 = m_DeliveryStatus m2
     \<and> m_DeliveryStatus m1 = foldl receive (m_DeliveryStatus m) (map (the \<circ> receipt_status) sts)
     \<and> fst (receive_all d c i sts w) = Inr () \<and> m_Text m1 = m_Text m"
proof -
  have set: "set sts = set sts'" using assms(6) by (metis set_mset_mset)
  then have ok: "list_all (\<lambda>s. receipt_status s \<noteq> None) sts" "list_all (\<lambda>s. receipt_status s \<noteq> None) sts'"
    using assms(5) by (auto simp: list_all_iff)
  have "mset (map (the \<circ> receipt_status) sts) = mset (map (the \<circ> receipt_status) sts')"
    using assms(6) by (metis mset_map)
  moreover have "DeliveryFailed \<notin> set (map (the \<circ> receipt_status) sts)"
    using assms(5) by force
  ultimately have "foldl receive (m_DeliveryStatus m) (map (the \<circ> receipt_status) sts)
      = foldl receive (m_DeliveryStatus m) (map (the \<circ> receipt_status) sts')"
    by (rule foldl_receive_perm)
  then show ?thesis
    using receipts_refine [OF assms(1-3) ok(1) assms(4)] receipts_refine [OF assms(1-3) ok(2) assms(4)]
    by (auto simp: wp_def split: prod.splits sum.splits)
qed

theorem receipts_converge_witness:
  "\<exists>m1 m2. find (msg_by_id ''t1'' ''m1'') (msgs (snd (receive_all demo_deps demo_ctx ''m1'' [''read'', '' delivered''] demo_world))) = Some m1
     \<and> find (msg_by_id ''t1'' ''m1'') (msgs (snd (receive_all demo_deps demo_ctx ''m1'' ['' delivered'', ''read''] demo_world))) = Some m2
     \<and> m_DeliveryStatus m1 = m_DeliveryStatus m2"
proof -
  have "receipt_status ''read'' = Some DeliveryRead" "receipt_status '' delivered'' = Some DeliveryDelivered"
    by (code_simp, code_simp)
  then show ?thesis
    using receipts_converge [of demo_deps demo_ctx "''t1''" "''m1''" demo_world demo_msg "[''read'', '' delivered'']" "['' delivered'', ''read'']"]
    by (auto simp: demo_ctx_def demo_world_def demo_msg_def msg_by_id_def)
qed

section \<open>Sending\<close>

lemma untouched_refl [simp]: "untouched w w"
  using untouched_step [of w "step w"] by simp

lemma untouched_trans: "untouched u v \<Longrightarrow> untouched v w \<Longrightarrow> untouched u w"
  by (auto simp: untouched_def)

text \<open>\<open>waited w w'\<close>: nothing was written and no port was called, and time went on.\<close>

definition waited :: "'z conv_world_scheme \<Rightarrow> 'z conv_world_scheme \<Rightarrow> bool" where
  "waited w w' \<longleftrightarrow> untouched w w' \<and> step w \<le> step w'"

interpretation waits: io_rel waited
  by unfold_locales (simp add: waited_def, auto simp: waited_def intro: untouched_trans)

lemma waited_tick [simp]: "waited w (tick w)"
  by (auto simp: waited_def untouched_def tick_def)

lemma waits_ask: "framed waited (ask f)"
  by (simp add: framed_def ask_def)

lemma waits_read: "framed waited (bind_io (lift_res (RequireTenant c)) (\<lambda>s. db_call d (\<lambda>w. (f s w, w))))"
  by (auto simp: framed_def io_defs db_call_def waits.rel_refl split: sum.split option.split)

lemma waits_channel_FindByID: "framed waited (channel_FindByID d c i)"
  unfolding channel_FindByID_def by (rule waits_read)

lemma waits_send_content: "framed waited (send_content d c cv mt cmd)"
  unfolding send_content_def resolveTemplate_def Let_def
  by (intro waits.fr_if waits.fr_bind waits.fr_then waits.fr_guard)
     (auto intro!: waits.fr_basic waits_ask waits_channel_FindByID split: option.split)

definition sent_by :: "auth_context \<Rightarrow> conversation \<Rightarrow> message \<Rightarrow> bool" where
  "sent_by ac cv m \<longleftrightarrow> m_SenderType m = SenderAgent \<and> m_SenderID m = ac_UserID ac
     \<and> m_Direction m = DirectionOutbound \<and> m_DeliveryStatus m = DeliveryPending
     \<and> m_TenantID m = cv_TenantID cv \<and> m_ConversationID m = cv_ID cv"

definition accepted_send ::
  "ctx \<Rightarrow> ident \<Rightarrow> 'z conv_world_scheme \<Rightarrow> conversation \<Rightarrow> message \<Rightarrow> bool" where
  "accepted_send c i w cv m \<longleftrightarrow> (\<exists>ac. lookup_visible c i (convs w) = Inr (cv, ac) \<and> \<not> status_is_closed (cv_Status cv)
     \<and> sent_by ac cv m \<and> m_ID m \<notin> m_ID ` set (msgs w))"

definition send_outcome ::
  "'e env_scheme \<Rightarrow> ctx \<Rightarrow> ident \<Rightarrow> 'z conv_world_scheme \<Rightarrow> message res \<Rightarrow> 'z conv_world_scheme \<Rightarrow> bool" where
  "send_outcome d c i w r w' \<longleftrightarrow> (case r of
     Inl e \<Rightarrow> untouched w w'
       \<or> driver_failed d w w' r \<and> (\<exists>cv m. accepted_send c i w cv m \<and> half_persisted m w w')
   | Inr m \<Rightarrow> (\<exists>cv. accepted_send c i w cv m \<and> persisted (ctx_tenant_id c) i cv m w w'
        \<and> hook_log w' = hook_log w @ [ESlaFirstResponse (bump m cv) (m_CreatedAt m)]))"

lemma wp_new_id_step: "wp (new_id d) Q E w = Q (newid d (step w)) (w\<lparr>step := Suc (step w)\<rparr>)"
  by (simp add: wp_new_id tick_def)

lemma same_docs_untouched: "untouched w w' \<Longrightarrow> convs w' = convs w \<and> msgs w' = msgs w \<and> hook_log w' = hook_log w"
  by (auto simp: untouched_def)

text \<open>The common end of the sends: build the message and persist it.\<close>

lemma persist_new:
  assumes "ctx_tenant c = Some t" "t \<noteq> []" "find (by_id t i) (convs w) = Some cv" "waited w w1"
    and "\<And>msg w'. hydration_of msg0 msg \<Longrightarrow> m_ID msg0 \<notin> m_ID ` set (msgs w) \<Longrightarrow>
          persisted t i cv msg w w' \<Longrightarrow> hook_log w' = hook_log w \<Longrightarrow> Q (msg, bump msg cv) w'"
    and "\<And>e w'. persist_failed d msg0 e w w' \<Longrightarrow> E e w'"
  shows "wp (persistMessage d c cv msg0 ev) Q E w1"
proof (rule wp_persist_on_faults [where i = i, OF assms(1,2)])
  obtain k where w1: "w1 = w\<lparr>step := k\<rparr>" "step w \<le> k" using assms(4) by (auto simp: waited_def untouched_def)
  show "find (by_id t i) (convs w1) = Some cv" using assms(3) by (simp add: w1)
  show "E e w'" if "persist_failed d msg0 e w1 w'" for e w'
    using that w1(2)
    by (intro assms(6)) (auto simp: w1(1) persist_failed_def untouched_def half_persisted_def dest: driver_failed_later)
  show "Q (msg, bump msg cv) w'" if "hydration_of msg0 msg" "m_ID msg0 \<notin> m_ID ` set (msgs w1)"
      "persisted t i cv msg w1 w'" "hook_log w' = hook_log w1" for msg w'
    using that by (intro assms(5)) (auto simp: w1 persisted_def only_changed_def)
qed

lemma sent_by_hydrated: "hydration_of m0 m \<Longrightarrow> sent_by ac cv m = sent_by ac cv m0"
  by (simp add: sent_by_def hydration_keeps)

lemma send_failed:
  assumes "persist_failed d m0 e w w'" "lookup_visible c i (convs w) = Inr (cv, ac)"
    "\<not> status_is_closed (cv_Status cv)" "sent_by ac cv m0"
  shows "send_outcome d c i w (Inl e) w'"
proof -
  have "driver_failed d w w' (Inl e :: message res) = driver_failed d w w' (Inl e :: unit res)"
    by (simp add: driver_failed_def)
  moreover have "accepted_send c i w cv m" if "hydration_of m0 m" "m_ID m0 \<notin> m_ID ` set (msgs w)" for m
    using that assms(2-4) by (auto simp: accepted_send_def sent_by_hydrated hydration_keeps)
  ultimately show ?thesis
    using assms(1) by (auto simp: persist_failed_def send_outcome_def)
qed

lemma send_done:
  assumes "hydration_of m0 m" "m_ID m0 \<notin> m_ID ` set (msgs w)" "persisted (ctx_tenant_id c) i cv m w w'"
    "hook_log w' = hook_log w" "lookup_visible c i (convs w) = Inr (cv, ac)"
    "\<not> status_is_closed (cv_Status cv)" "sent_by ac cv m0"
  shows "send_outcome d c i w (Inr m) (w'\<lparr>effects := effects w' @ [ESlaFirstResponse (bump m cv) (m_CreatedAt m)]\<rparr>)"
  using assms by (auto simp: send_outcome_def accepted_send_def sent_by_hydrated hydration_keeps
      persisted_def only_changed_def)

lemma SendMessage_outcome:
  "send_outcome d c i w (fst (SendMessage d c i cmd w)) (snd (SendMessage d c i cmd w))"
proof (rule wp_outcome)
  show "wp (SendMessage d c i cmd) (\<lambda>x. send_outcome d c i w (Inr x)) (\<lambda>e. send_outcome d c i w (Inl e)) w"
    unfolding SendMessage_def Let_def mon_wp
  proof (rule wp_loadVisible_exact, goal_cases)
    case (1 cv ac)
    then obtain t where t: "ctx_tenant c = Some t" "t \<noteq> []" "find (by_id t i) (convs w) = Some cv"
      by (auto simp: lookup_visible_Inr)
    have tid: "ctx_tenant_id c = t" using t(1) by simp
    have refused: "send_outcome d c i w (Inl e) w'" if "untouched w w'" for e w'
      using that by (simp add: send_outcome_def)
    have later: "untouched w w'" "waited w (w'\<lparr>step := Suc (Suc (step w'))\<rparr>)"
      if "waited (w\<lparr>step := Suc (step w)\<rparr>) w'" for w'
      using that by (auto simp: waited_def untouched_def)
    have tail: "wp (persistMessage d c cv m0 ev) Q (\<lambda>e. send_outcome d c i w (Inl e)) w1"
      if "waited w w1" "\<not> status_is_closed (cv_Status cv)" "sent_by ac cv m0"
        "\<And>m w'. send_outcome d c i w (Inr m)
            (w'\<lparr>effects := effects w' @ [ESlaFirstResponse (bump m cv) (m_CreatedAt m)]\<rparr>) \<Longrightarrow> Q (m, bump m cv) w'"
      for m0 ev Q w1
      using that(2-4) by (intro persist_new [OF t that(1)]) (auto intro: send_failed [OF _ 1] send_done [OF _ _ _ _ 1, unfolded tid])
    show ?case
      by (auto simp: mon_wp wp_new_id_step refused later sent_by_def
          intro!: wp_framed [OF waits_send_content] tail)
  qed (auto simp: send_outcome_def)
qed

text \<open>
  C5: sending, whatever the database does. Either the send fails and nothing was written and no
  port called; or the conversation was visible and open, exactly one message was stored (from
  the acting agent, outbound, pending, attachments as identifiers), the conversation and only
  it was updated to show that message, and the SLA saw exactly one first response; or the driver
  failed on the conversation's update, the send answers that failure, and the message alone is
  stored: no conversation changed, no port was called.
\<close>

theorem SendMessage_on_every_branch:
  "send_outcome d c i w (fst (SendMessage d c i cmd w)) (snd (SendMessage d c i cmd w))"
  by (rule SendMessage_outcome)

definition demo_send :: send_message where
  "demo_send = \<lparr>sm_MessageType = [], sm_Text = ''hi'', sm_Attachments = [], sm_Template = None,
     sm_Contacts = [], sm_Location = None, sm_Interactive = None, sm_Metadata = Map.empty\<rparr>"

text \<open>
  The half-done outcomes happen. With a database that fails once: a close with a note whose
  message cannot be stored answers an error and leaves the conversation closed without the SLA,
  CSAT, queue and audit ports; a send whose conversation update fails answers an error and leaves
  the message in the thread.
\<close>

definition demo_failing :: "nat \<Rightarrow> conv_deps" where
  "demo_failing k = demo_deps\<lparr>fault := (\<lambda>n. if n = k then Some ''connection reset'' else None)\<rparr>"

lemma failed_note_leaves_conversation_closed:
  "let (r, w) = Close (demo_failing 3) demo_ctx ''c1'' \<lparr>cl_CloseReasonID = [], cl_Note = ''paid''\<rparr> demo_world
   in isl r \<and> map cv_Status (convs w) = [StatusClosed] \<and> map m_Text (msgs w) = [''hello''] \<and> effects w = []"
  by code_simp

lemma failed_update_leaves_message:
  "let (r, w) = SendMessage (demo_failing 4) demo_ctx ''c1'' demo_send demo_world
   in isl r \<and> map cv_LastMessageAt (convs w) = [0] \<and> map m_Text (msgs w) = [''hello'', ''hi''] \<and> effects w = []"
  by code_simp

text \<open>
  A text message on a visible conversation is accepted with its text when the
  conversation is open and the drawn identifier is fresh, and refused with a conflict when it
  is resolved, closed or archived.
\<close>

theorem SendMessage_text:
  assumes "reliable d" "lookup_visible c i (convs w) = Inr (cv, ac)"
    and "sm_MessageType cmd \<in> {[], MessageText}" "trim_space (sm_Text cmd) \<noteq> []" "sm_Attachments cmd = []"
    and "\<forall>n. newid d n \<notin> m_ID ` set (msgs w)"
  shows "if status_is_closed (cv_Status cv)
         then fst (SendMessage d c i cmd w) = Inl (Conflict ''conversation is closed'')
         else \<exists>m. fst (SendMessage d c i cmd w) = Inr m \<and> m_Text m = sm_Text cmd \<and> m_MessageType m = MessageText"
    (is "?P (fst (SendMessage d c i cmd w))")
proof (rule wp_outcome [where P = "\<lambda>r _. ?P r"])
  obtain t where t: "ctx_tenant c = Some t" "t \<noteq> []" "find (by_id t i) (convs w) = Some cv"
    using assms(2) by (auto simp: lookup_visible_Inr)
  have mt: "mtype_valid MessageText" by (simp add: mtype_valid_def)
  have content: "send_content d c cv MessageText cmd = return_io (sm_Text cmd, None)"
    using assms(4,5) by (simp add: send_content_def io_defs fun_eq_iff split: option.split)
  have mtype: "(if sm_MessageType cmd = [] then MessageText else sm_MessageType cmd) = MessageText"
    using assms(3) by auto
  have persist: "wp (persistMessage d c cv (zero_message\<lparr>m_ID := newid d n, m_TenantID := cv_TenantID cv,
          m_ConversationID := cv_ID cv, m_SenderType := SenderAgent, m_SenderID := ac_UserID ac,
          m_Direction := DirectionOutbound, m_MessageType := MessageText, m_Text := sm_Text cmd,
          m_Attachments := [], m_Template := None, m_Contacts := sm_Contacts cmd, m_Location := sm_Location cmd,
          m_Interactive := sm_Interactive cmd, m_Metadata := sm_Metadata cmd, m_CreatedAt := now,
          m_DeliveryStatus := DeliveryPending\<rparr>) EventMessageCreated)
      (\<lambda>x w'. m_Text (fst x) = sm_Text cmd \<and> m_MessageType (fst x) = MessageText) (\<lambda>_ _. False) (w\<lparr>step := k\<rparr>)" for n now k
    using assms(1,4,6) t
    by (intro wp_persistMessage [OF assms(1) t(1,2)])
       (auto simp: hydration_of_def hydrate_one_def deriveMessageType_def Let_def)
  show "wp (SendMessage d c i cmd) (\<lambda>x _. ?P (Inr x)) (\<lambda>e _. ?P (Inl e)) w"
    unfolding SendMessage_def Let_def mtype mon_wp
    by (rule wp_loadVisible)
       (use assms(1,2,5) mt in \<open>auto simp: mon_wp wp_new_id_step content intro!: wp_mono [OF persist]\<close>)
qed

theorem SendMessage_text_witness:
  "\<exists>m. fst (SendMessage demo_deps demo_ctx ''c1'' demo_send demo_world) = Inr m \<and> m_Text m = ''hi''
     \<and> m_MessageType m = MessageText"
proof -
  have "lookup_visible demo_ctx ''c1'' (convs demo_world) = Inr (demo_conv, demo_agent)"
    by (simp add: lookup_visible_Inr demo_defs by_id_def visibleTo_def)
  moreover have "\<forall>n. newid demo_deps n \<notin> m_ID ` set (msgs demo_world)"
    by (simp add: demo_defs)
  moreover have "\<not> status_is_closed (cv_Status demo_conv)" by (simp add: demo_conv_def)
  ultimately show ?thesis
    using SendMessage_text [of demo_deps demo_ctx "''c1''" demo_world demo_conv demo_agent demo_send]
    by (simp add: demo_send_def)
qed

section \<open>Who may edit and delete\<close>

definition manages :: "ctx \<Rightarrow> ident \<Rightarrow> ident \<Rightarrow> 'z conv_world_scheme \<Rightarrow> (message \<Rightarrow> bool) \<Rightarrow> bool" where
  "manages c i j w P \<longleftrightarrow> (\<exists>cv ac m t. lookup_visible c i (convs w) = Inr (cv, ac) \<and> ctx_tenant c = Some t
     \<and> find (msg_by_id t j) (msgs w) = Some m \<and> m_ConversationID m = i \<and> \<not> IsDeleted m
     \<and> canManageMessage ac m \<and> P m)"

text \<open>What \<open>loadMessage\<close> hands over: a live message of the conversation.\<close>

lemma wp_loadMessage:
  assumes "ctx_tenant c = Some t"
    and "\<And>m n. find (msg_by_id t j) (msgs w) = Some m \<Longrightarrow> m_ConversationID m = cv_ID cv \<Longrightarrow> \<not> IsDeleted m \<Longrightarrow>
           Q m (w\<lparr>step := n\<rparr>)"
    and "\<And>e n. E e (w\<lparr>step := n\<rparr>)"
  shows "wp (loadMessage d c cv j) Q E w"
proof -
  have "E e w" "E e (tick w)" for e
    using assms(3) [of e "step w"] assms(3) [of e "Suc (step w)"] by (simp_all add: tick_def)
  moreover have "Q m (tick w)" if "find (msg_by_id t j) (msgs w) = Some m" "m_ConversationID m = cv_ID cv" "\<not> IsDeleted m" for m
    using assms(2) [OF that, of "Suc (step w)"] by (simp add: tick_def)
  ultimately show ?thesis using assms(1)
    by (auto simp: loadMessage_def mon_wp wp_msg_FindByID on_db_def RequireTenant_Inr split: sum.split option.split)
qed

lemma untouched_run: "wp m (\<lambda>_. untouched w) (\<lambda>_. untouched w) w \<Longrightarrow> untouched w (snd (m w))"
  by (auto simp: wp_def split: prod.splits sum.splits)

lemma edit_untouched:
  assumes "\<not> manages c i j w (\<lambda>m. m_SenderType m = SenderAgent)"
  shows "untouched w (snd (EditMessage d c i j txt w))"
proof (rule untouched_run, unfold EditMessage_def Let_def mon_wp, rule wp_loadVisible, goal_cases)
  case (1 cv ac n)
  then obtain t where "ctx_tenant c = Some t" "cv_ID cv = i"
    by (auto simp: lookup_visible_Inr dest: found_id)
  then show ?case using assms 1
    by (auto simp: mon_wp manages_def intro!: wp_loadMessage)
qed auto

lemma delete_untouched:
  assumes "\<not> manages c i j w (\<lambda>_. True)"
  shows "untouched w (snd (DeleteMessage d c i j w))"
proof (rule untouched_run, unfold DeleteMessage_def Let_def mon_wp, rule wp_loadVisible, goal_cases)
  case (1 cv ac n)
  then obtain t where "ctx_tenant c = Some t" "cv_ID cv = i"
    by (auto simp: lookup_visible_Inr dest: found_id)
  then show ?case using assms 1
    by (auto simp: mon_wp manages_def intro!: wp_loadMessage)
qed auto

text \<open>
  C11: no change without authority. Editing writes nothing unless the actor sees the
  conversation, the message is live, belongs to it, was written by an agent, and is the
  actor's own or the actor holds the delete permission; deleting writes nothing unless the
  same holds, whoever wrote the message. This is so whatever the driver does.
\<close>

theorem no_change_without_authority:
  "(\<not> manages c i j w (\<lambda>m. m_SenderType m = SenderAgent) \<longrightarrow> untouched w (snd (EditMessage d c i j txt w)))
 \<and> (\<not> manages c i j w (\<lambda>_. True) \<longrightarrow> untouched w (snd (DeleteMessage d c i j w)))"
  using edit_untouched delete_untouched by blast

theorem no_change_without_authority_witness:
  "\<not> manages demo_stranger ''c1'' ''m1'' demo_world (\<lambda>_. True)
   \<and> untouched demo_world (snd (EditMessage demo_deps demo_stranger ''c1'' ''m1'' ''x'' demo_world))
   \<and> untouched demo_world (snd (DeleteMessage demo_deps demo_stranger ''c1'' ''m1'' demo_world))"
proof -
  have "\<not> manages demo_stranger ''c1'' ''m1'' demo_world P" for P
    by (simp add: manages_def lookup_visible_Inr demo_defs by_id_def visibleTo_def)
  then show ?thesis
    using no_change_without_authority [of demo_stranger "''c1''" "''m1''" demo_world demo_deps "''x''"] by simp
qed

end
