(* ===== verification/Conv_Inbox.thy ===== *)
theory Conv_Inbox
  imports Conv_Messages
begin

text \<open>
  The inbox: tags and read state, the visibility of listings and of realtime rooms, the
  job that closes inactive conversations, and automation's messages.
\<close>

section \<open>Tags\<close>

text \<open>
  The tags after \<open>applyTagChanges\<close> are the current and the added ones, without the removed
  ones and without empty strings, each once; surviving tags keep their order and come before
  the new ones. Removing wins over adding.
\<close>

theorem applyTagChanges_spec:
  "set (applyTagChanges cur add rem) = (set cur \<union> set add) - set rem - {[]}
 \<and> distinct (applyTagChanges cur add rem)
 \<and> (\<exists>new. applyTagChanges cur add rem = keep_first (\<lambda>t. t \<noteq> [] \<and> t \<notin> set rem) {} cur @ new
        \<and> set new \<inter> set cur = {})"
  by (auto simp: applyTagChanges_def Let_def set_keep_first distinct_keep_first)

section \<open>Read state\<close>

lemma demo_lookup: "lookup_visible demo_ctx ''c1'' (convs demo_world) = Inr (demo_conv, demo_agent)"
  by (simp add: lookup_visible_Inr demo_defs by_id_def visibleTo_def)

lemma demo_tenant: "ctx_tenant_id demo_ctx = ''t1''"
  by (simp add: ctx_tenant_id_def demo_ctx_def)

lemma wp_mark:
  assumes "reliable d" "lookup_visible c i (convs w) = Inr (cv, ac)" "ctx_tenant c = Some t"
    and "same_identity cv' cv"
    and "\<And>w'. only_changed t i cv' w w' \<Longrightarrow> msgs w' = msgs w \<Longrightarrow> Q () w'"
  shows "wp (then_io (conv_Update d c cv') (publishConversation d cv')) Q E (w\<lparr>step := n\<rparr>)"
proof -
  have t: "t \<noteq> []" "find (by_id t i) (convs w) = Some cv"
    using assms(2,3) by (auto simp: lookup_visible_Inr)
  have id: "cv_ID cv' = i" using assms(4) found_id [OF t(2)] by (simp add: same_identity_def)
  have fin: "Q () w'" if "convs w' = update_first (by_id t i) (conv_set cv') (convs w)" "msgs w' = msgs w" for w'
    using only_changed_update [OF t(2) assms(4)] that id by (intro assms(5)) simp_all
  show ?thesis unfolding mon_wp
    using assms(1) t
    by (intro wp_conv_Update_loaded [OF assms(3) t(1)] wp_note [OF fr_note_publishConversation noerr_publishConversation])
       (auto simp: same_docs_def id intro!: fin)
qed

text \<open>
  Marking as unread lights one dot and never lowers a true count: with a working database
  a visible conversation ends with unread count 1 if it had 0 and is otherwise unchanged.
\<close>

theorem MarkUnread_never_lowers:
  assumes "reliable d" "lookup_visible c i (convs w) = Inr (cv, ac)"
  shows "\<exists>cv'. find (by_id (ctx_tenant_id c) i) (convs (snd (MarkUnread d c i w))) = Some cv'
     \<and> cv_UnreadCount cv' = (if cv_UnreadCount cv = 0 then 1 else cv_UnreadCount cv)
     \<and> cv_LastReadAt cv' = cv_LastReadAt cv \<and> cv_Status cv' = cv_Status cv"
    (is "?P (snd (MarkUnread d c i w))")
proof (rule wp_outcome [where P = "\<lambda>_. ?P"], unfold MarkUnread_def Let_def mon_wp, rule wp_loadVisible, goal_cases)
  case (1 cv0 ac0 n)
  then have eq: "cv0 = cv" "ac0 = ac" using assms(2) by auto
  obtain t where t: "ctx_tenant c = Some t" "find (by_id t i) (convs w) = Some cv"
    using assms(2) by (auto simp: lookup_visible_Inr)
  have upd: "wp (then_io (conv_Update d c (cv\<lparr>cv_UnreadCount := 1, cv_UpdatedAt := u\<rparr>))
        (publishConversation d (cv\<lparr>cv_UnreadCount := 1, cv_UpdatedAt := u\<rparr>))) (\<lambda>_. ?P) (\<lambda>_. ?P) (w\<lparr>step := k\<rparr>)"
    if "cv_UnreadCount cv = 0" for u k
    using t that by (intro wp_mark [OF assms t(1)]) (auto simp: only_changed_def)
  show ?case unfolding eq using t upd [unfolded mon_wp] by (auto simp: mon_wp)
qed (use assms in auto)

theorem MarkUnread_never_lowers_witness:
  "\<exists>cv'. find (by_id ''t1'' ''c1'') (convs (snd (MarkUnread demo_deps demo_ctx ''c1'' demo_world))) = Some cv'
     \<and> cv_UnreadCount cv' = 2"
  using MarkUnread_never_lowers [of demo_deps demo_ctx "''c1''" demo_world demo_conv demo_agent]
  by (auto simp: demo_lookup demo_tenant) (auto simp: demo_conv_def)

section \<open>What a listing shows\<close>

text \<open>
  C28: an agent's listing shows only conversations of the tenant that the agent may open one by
  one (\<open>Get\<close>), provided the agent's user id and sector ids are not empty strings, and at most one
  more than the page size.
\<close>

theorem listing_is_visible:
  assumes "List_convs d c f page w = (Inr cvs, w')" "ctx_auth c = Some ac" "ctx_tenant c = Some t"
    and "ac_UserID ac \<noteq> []" "[] \<notin> set (ac_SectorIDs ac)"
  shows "(\<forall>cv \<in> set cvs. visibleTo cv ac \<and> cv_TenantID cv = t \<and> cv \<in> set (convs w))
       \<and> length cvs \<le> nat MaxPageSize + 1"
proof -
  have mem: "d \<in> set (list_page p tf idf cur l ds) \<Longrightarrow> d \<in> set ds \<and> p d" for d p tf idf cur l and ds :: "conversation list"
    unfolding list_page_def KeysetSort_def by (auto dest!: in_set_takeD)
  have len: "length (list_page p tf idf cur (pr_Limit (Normalize page)) ds) \<le> nat MaxPageSize + 1"
    for p tf idf cur and ds :: "conversation list"
    using Normalize_bounds [of page] unfolding list_page_def by (auto simp: nat_add_distrib min_le_iff_disj nat_mono)
  let ?vis = "\<lparr>vi_All = ac_SectorScope ac = ScopeAll, vi_SectorIDs = ac_SectorIDs ac, vi_UserID = ac_UserID ac\<rparr>"
  have ok: "visibleTo cv ac" if "in_visibility ?vis cv" for cv
    using that assms(4,5) by (auto simp: in_visibility_def visibleTo_def)
  have "wp (List_convs d c f page) (\<lambda>cvs _. (\<forall>cv \<in> set cvs. visibleTo cv ac \<and> cv_TenantID cv = t \<and> cv \<in> set (convs w))
       \<and> length cvs \<le> nat MaxPageSize + 1) (\<lambda>_ _. True) w"
    using assms(2,3) len
    by (auto simp: List_convs_def conv_List_def mon_wp visibility_def wp_conv_query on_db_def RequireTenant_Inr
        split: sum.split option.split dest!: mem intro!: ok)
  then show ?thesis using assms(1) by (rule wpD(1))
qed

theorem listing_is_visible_witness:
  "visibleTo demo_conv demo_agent \<and> cv_TenantID demo_conv = ''t1'' \<and> demo_conv \<in> set (convs demo_world)
    \<and> length [demo_conv] \<le> nat MaxPageSize + 1"
proof -
  have "fst (List_convs demo_deps demo_ctx \<lparr>lf_Status = [], lf_SectorID = [], lf_QueueID = [], lf_AssignedTo = [],
      lf_ContactID = [], lf_Protocol = [], lf_Tag = []\<rparr> \<lparr>pr_Cursor = NoToken, pr_Limit = 10\<rparr> demo_world) = Inr [demo_conv]"
    by (simp add: List_convs_def conv_List_def conv_query_def io_defs db_call_def RequireTenant_def visibility_def
        Normalize_def DecodeCursor_def list_page_def KeysetSort_def ApplyKeyset_def in_filter_def in_visibility_def
        demo_defs DefaultPageSize_def MaxPageSize_def Let_def)
  then have "(\<forall>cv \<in> set [demo_conv]. visibleTo cv demo_agent \<and> cv_TenantID cv = ''t1'' \<and> cv \<in> set (convs demo_world))
    \<and> length [demo_conv] \<le> nat MaxPageSize + 1"
    by (intro listing_is_visible [where c = demo_ctx and d = demo_deps and page = "\<lparr>pr_Cursor = NoToken, pr_Limit = 10\<rparr>"
         and f = "\<lparr>lf_Status = [], lf_SectorID = [], lf_QueueID = [], lf_AssignedTo = [], lf_ContactID = [], lf_Protocol = [], lf_Tag = []\<rparr>"
         and w' = "snd (List_convs demo_deps demo_ctx \<lparr>lf_Status = [], lf_SectorID = [], lf_QueueID = [], lf_AssignedTo = [],
           lf_ContactID = [], lf_Protocol = [], lf_Tag = []\<rparr> \<lparr>pr_Cursor = NoToken, pr_Limit = 10\<rparr> demo_world)"])
       (auto simp: prod_eq_iff demo_ctx_def demo_agent_def)
  then show ?thesis by simp
qed

section \<open>Closing inactive conversations\<close>

definition inactive :: "ident \<Rightarrow> time \<Rightarrow> conversation \<Rightarrow> bool" where
  "inactive t cutoff cv \<longleftrightarrow> cv_TenantID cv = t \<and> cv_Status cv \<notin> set closedStatuses \<and> cv_LastMessageAt cv \<le> cutoff"

lemma wp_close_inactive_one:
  assumes "reliable d" "ctx_tenant c = Some t" "t \<noteq> []" "find (by_id t i) (convs w) = Some cv"
    and "\<And>w'. only_changed t i (closed_copy now cv) w w' \<Longrightarrow> msgs w' = msgs w \<Longrightarrow> Q (Suc n) w'"
  shows "wp (close_inactive_one d c now n cv) Q E w"
proof -
  have id: "cv_ID cv = i" using found_id [OF assms(4)] by simp
  have fin: "Q (Suc n) w'"
    if "convs w' = update_first (by_id t i) (conv_set (closed_copy now cv)) (convs w)" "msgs w' = msgs w" for w'
    using only_changed_update [OF assms(4), of "closed_copy now cv" w'] that id by (intro assms(5)) simp_all
  show ?thesis
    unfolding close_inactive_one_def Let_def closed_copy_def [symmetric] mon_wp sum.case
    using assms(1,4)
    by (intro wp_conv_Update_loaded [OF assms(2,3)] wp_close_effects)
       (auto simp: id same_docs_def intro!: fin)
qed

lemma wp_close_loop:
  assumes "reliable d" "ctx_tenant c = Some t" "t \<noteq> []"
  shows "distinct (map cv_ID cvs) \<Longrightarrow> (\<And>cv. cv \<in> set cvs \<Longrightarrow> find (by_id t (cv_ID cv)) (convs w) = Some cv) \<Longrightarrow>
    (\<And>w'. (\<And>j. j \<notin> cv_ID ` set cvs \<Longrightarrow> find (by_id t j) (convs w') = find (by_id t j) (convs w)) \<Longrightarrow>
       (\<And>cv. cv \<in> set cvs \<Longrightarrow> find (by_id t (cv_ID cv)) (convs w') = Some (closed_copy now cv)) \<Longrightarrow>
       msgs w' = msgs w \<Longrightarrow> Q (n + length cvs) w') \<Longrightarrow>
    wp (fold_io (close_inactive_one d c now) n cvs) Q E w"
proof (induction cvs arbitrary: n w)
  case Nil
  then show ?case by (simp add: mon_wp)
next
  case (Cons cv cvs)
  show ?case unfolding fold_io.simps mon_wp
  proof (rule wp_close_inactive_one [OF assms, of "cv_ID cv"])
    show "find (by_id t (cv_ID cv)) (convs w) = Some cv" using Cons.prems(2) by simp
    fix w1 assume w1: "only_changed t (cv_ID cv) (closed_copy now cv) w w1" "msgs w1 = msgs w"
    show "wp (fold_io (close_inactive_one d c now) (Suc n) cvs) Q E w1"
    proof (rule Cons.IH, goal_cases)
      case 1
      then show ?case using Cons.prems(1) by simp
    next
      case (2 x)
      have "cv_ID x \<in> cv_ID ` set cvs" "cv_ID cv \<notin> cv_ID ` set cvs" using 2 Cons.prems(1) by simp_all
      then have "cv_ID x \<noteq> cv_ID cv" by metis
      then show ?case using 2 w1 Cons.prems(2) [of x] by (simp add: only_changed_def)
    next
      case (3 w')
      have "Q (n + length (cv # cvs)) w'"
        by (rule Cons.prems(3)) (use 3 w1 Cons.prems(1) in \<open>auto simp: only_changed_def\<close>)
      then show ?case by simp
    qed
  qed
qed

lemma find_by_distinct:
  "distinct (map cv_ID cs) \<Longrightarrow> cv \<in> set cs \<Longrightarrow> cv_TenantID cv = t \<Longrightarrow> find (by_id t (cv_ID cv)) cs = Some cv"
  by (induction cs) (auto simp: by_id_def)

text \<open>
  The inactivity job does its work. With a working database, distinct identifiers and at
  most 500 idle open conversations in the tenant, it reports how many there were, closes each
  of them, leaves no open conversation idle since the cutoff, and changes no other
  conversation of the tenant and no message.
\<close>

theorem CloseInactive_closes_all:
  assumes "reliable d" "ctx_tenant c = Some t" "t \<noteq> []" "distinct (map cv_ID (convs w))"
    and "cutoff = clk d (step w) - idle" "length (filter (inactive t cutoff) (convs w)) \<le> 500"
  shows "fst (CloseInactive d c idle w) = Inr (length (filter (inactive t cutoff) (convs w)))
     \<and> (\<forall>i cv'. find (by_id t i) (convs (snd (CloseInactive d c idle w))) = Some cv' \<longrightarrow> \<not> inactive t cutoff cv')
     \<and> (\<forall>i cv. find (by_id t i) (convs w) = Some cv \<and> \<not> inactive t cutoff cv \<longrightarrow>
          find (by_id t i) (convs (snd (CloseInactive d c idle w))) = Some cv)
     \<and> msgs (snd (CloseInactive d c idle w)) = msgs w"
    (is "?P (fst (CloseInactive d c idle w)) (snd (CloseInactive d c idle w))")
proof (rule wp_outcome [where P = ?P])
  let ?F = "filter (inactive t cutoff) (convs w)"
  let ?L = "sort_key cv_LastMessageAt ?F"
  have F: "filter (\<lambda>cv. cv_TenantID cv = t \<and> cv_Status cv \<notin> set closedStatuses \<and> cv_LastMessageAt cv \<le> cutoff) (convs w) = ?F"
    unfolding inactive_def by simp
  have take: "take (nat 500) ?L = ?L" using assms(6) by simp
  have dist: "distinct (map cv_ID ?L)"
    using assms(4) by (metis distinct_map distinct_map_filter distinct_sort set_sort)
  have found: "find (by_id t (cv_ID cv)) (convs w) = Some cv" if "cv \<in> set ?L" for cv
    using that assms(4) by (auto intro: find_by_distinct simp: inactive_def)
  have closed: "\<not> inactive t cutoff (closed_copy now cv)" for now cv
    by (simp add: inactive_def closed_copy_def closedStatuses_def)
  have in_L: "cv' \<in> set ?L" if "find (by_id t i) (convs w) = Some cv'" "inactive t cutoff cv'" for i cv'
    using that find_Some_in [OF that(1)] by simp
  have post: "?P (Inr (length ?F)) w'"
    if other: "\<And>j. j \<notin> cv_ID ` set ?L \<Longrightarrow> find (by_id t j) (convs w') = find (by_id t j) (convs w)"
      and gone: "\<And>cv. cv \<in> set ?L \<Longrightarrow> find (by_id t (cv_ID cv)) (convs w') = Some (closed_copy now cv)"
      and "msgs w' = msgs w" for w' now
  proof -
    have "\<not> inactive t cutoff cv'" if "find (by_id t i) (convs w') = Some cv'" for i cv'
    proof (cases "i \<in> cv_ID ` set ?L")
      case True
      then show ?thesis using gone that closed by auto
    next
      case False
      then have "find (by_id t i) (convs w) = Some cv'" using other that by simp
      then show ?thesis using in_L [of i cv'] False by (auto dest: found_id)
    qed
    moreover have "find (by_id t i) (convs w') = Some cv"
      if "find (by_id t i) (convs w) = Some cv" "\<not> inactive t cutoff cv" for i cv
    proof -
      have "i \<notin> cv_ID ` set ?L" using that found by force
      then show ?thesis using other that by simp
    qed
    ultimately show ?thesis using that(3) by auto
  qed
  have "wp (fold_io (close_inactive_one d c now) 0 ?L) (\<lambda>x. ?P (Inr x)) (\<lambda>e. ?P (Inl e)) (w\<lparr>step := k\<rparr>)" for now k
  proof (rule wp_close_loop [OF assms(1-3) dist])
    show "find (by_id t (cv_ID cv)) (convs (w\<lparr>step := k\<rparr>)) = Some cv" if "cv \<in> set ?L" for cv
      using found [OF that] by simp
    show "?P (Inr (0 + length ?L)) w'"
      if "\<And>j. j \<notin> cv_ID ` set ?L \<Longrightarrow> find (by_id t j) (convs w') = find (by_id t j) (convs (w\<lparr>step := k\<rparr>))"
        "\<And>cv. cv \<in> set ?L \<Longrightarrow> find (by_id t (cv_ID cv)) (convs w') = Some (closed_copy now cv)"
        "msgs w' = msgs (w\<lparr>step := k\<rparr>)" for w'
      unfolding add_0 length_sort by (rule post [of w' now]) (simp_all add: that)
  qed
  then show "wp (CloseInactive d c idle) (\<lambda>x. ?P (Inr x)) (\<lambda>e. ?P (Inl e)) w"
    unfolding CloseInactive_def ListInactiveOpen_def Let_def
    using assms(1-3,5) F take
    by (simp add: mon_wp wp_conv_query on_db_def RequireTenant_def reliable_def tick_def)
qed

theorem CloseInactive_closes_all_witness:
  "fst (CloseInactive demo_deps demo_ctx (- 5) demo_world) = Inr 1
   \<and> \<not> (\<exists>i cv'. find (by_id ''t1'' i) (convs (snd (CloseInactive demo_deps demo_ctx (- 5) demo_world))) = Some cv'
        \<and> inactive ''t1'' 5 cv')"
proof -
  have F: "filter (inactive ''t1'' 5) (convs demo_world) = [demo_conv]"
    by (simp add: inactive_def demo_defs closedStatuses_def)
  have "reliable demo_deps" "ctx_tenant demo_ctx = Some ''t1''" "(''t1'' :: ident) \<noteq> []"
      "distinct (map cv_ID (convs demo_world))" "(5 :: int) = clk demo_deps (step demo_world) - (- 5)"
    by (simp_all add: demo_ctx_def demo_world_def demo_deps_def reliable_def)
  moreover have "length (filter (inactive ''t1'' 5) (convs demo_world)) \<le> 500" unfolding F by simp
  ultimately have R: "fst (CloseInactive demo_deps demo_ctx (- 5) demo_world) = Inr (length [demo_conv])
      \<and> (\<forall>i cv'. find (by_id ''t1'' i) (convs (snd (CloseInactive demo_deps demo_ctx (- 5) demo_world))) = Some cv' \<longrightarrow>
        \<not> inactive ''t1'' 5 cv')"
    using CloseInactive_closes_all [where idle = "- 5"] unfolding F [symmetric] by blast
  then show ?thesis unfolding list.size One_nat_def add_0 add_Suc_right by blast
qed

end
