(* ===== verification/Conv_Automation.thy ===== *)
theory Conv_Automation
  imports Conv_Rules
begin

text \<open>
  \<open>domain/conversations/service/automation_actions.go\<close>: the mutations the automation engine
  performs on conversations. They are tenant scoped and check no agent visibility. Run under
  a context of origin automation, or sending a message authored by automation, they emit
  rule events of that origin only.
\<close>

section \<open>Actions\<close>

definition missingRef :: "goerr \<Rightarrow> string \<Rightarrow> goerr" where
  "missingRef err what = (if err_code_of (From err) = CodeNotFound then NotFound (what @ '' not found'') else err)"

definition ensureAgentExists :: "'e conv_deps_scheme \<Rightarrow> ctx \<Rightarrow> ident \<Rightarrow> ('z conv_world_scheme, unit) io" where
  "ensureAgentExists d c agentID = (case dp_agents d of
     None \<Rightarrow> return_io ()
   | Some cards \<Rightarrow> bind_io (ask (\<lambda>n. cards n c [agentID])) (\<lambda>found.
       guard_io (map_of found agentID = None) (NotFound ''agent not found'')))"

text \<open>
  \<open>automationMutate\<close>: \<open>mutate\<close> returns the changed conversation and the event to emit; the
  empty event means nothing to do.
\<close>

definition automationMutate ::
  "'e conv_deps_scheme \<Rightarrow> ctx \<Rightarrow> ident \<Rightarrow> (conversation \<Rightarrow> ('z conv_world_scheme, conversation \<times> string) io)
     \<Rightarrow> ('z conv_world_scheme, unit) io" where
  "automationMutate d c conversationID mutate = then_io (lift_res (RequireTenant c))
    (bind_io (conv_FindByID d c conversationID) (\<lambda>cv0.
     bind_io (mutate cv0) (\<lambda>(cv1, event).
     if event = [] then return_io ()
     else bind_io (now_io d) (\<lambda>now.
       let cv = cv1\<lparr>cv_UpdatedAt := now\<rparr> in
       then_io (conv_Update d c cv)
      (then_io (recordEvent d c cv event Map.empty)
      (then_io (publishConversation d cv)
      (then_io (emitConversationWebhook cv event)
       (bind_io (conv_payload d cv) (emitRuleEvent d c cv event)))))))))"

definition AutomationAssignAgent :: "'e conv_deps_scheme \<Rightarrow> ctx \<Rightarrow> ident \<Rightarrow> ident \<Rightarrow> ('z conv_world_scheme, unit) io" where
  "AutomationAssignAgent d c i agentID = automationMutate d c i (\<lambda>cv.
     then_io (ensureAgentExists d c agentID)
       (return_io (cv\<lparr>cv_AssignedTo := agentID, cv_Status := StatusAssigned\<rparr>, EventConversationAssigned)))"

definition AutomationAssignTeam :: "'e conv_deps_scheme \<Rightarrow> ctx \<Rightarrow> ident \<Rightarrow> ident \<Rightarrow> ('z conv_world_scheme, unit) io" where
  "AutomationAssignTeam d c i sectorID = automationMutate d c i (\<lambda>cv.
     bind_io (try_io (sector_FindByID d c sectorID)) (\<lambda>r. case r of
       Inl e \<Rightarrow> throw_io (missingRef e ''sector'')
     | Inr _ \<Rightarrow> return_io ((if cv_AssignedTo cv = [] then cv\<lparr>cv_SectorID := sectorID, cv_Status := StatusQueued\<rparr>
                             else cv\<lparr>cv_SectorID := sectorID\<rparr>), EventConversationUpdated)))"

definition AutomationRemoveAgent :: "'e conv_deps_scheme \<Rightarrow> ctx \<Rightarrow> ident \<Rightarrow> ('z conv_world_scheme, unit) io" where
  "AutomationRemoveAgent d c i = automationMutate d c i (\<lambda>cv. return_io
     ((if cv_SectorID cv \<noteq> [] then cv\<lparr>cv_AssignedTo := [], cv_Status := StatusQueued\<rparr>
       else cv\<lparr>cv_AssignedTo := []\<rparr>), EventConversationUpdated))"

definition AutomationRemoveTeam :: "'e conv_deps_scheme \<Rightarrow> ctx \<Rightarrow> ident \<Rightarrow> ('z conv_world_scheme, unit) io" where
  "AutomationRemoveTeam d c i = automationMutate d c i (\<lambda>cv. return_io
     (cv\<lparr>cv_SectorID := []\<rparr>, EventConversationUpdated))"

definition AutomationAddTag :: "'e conv_deps_scheme \<Rightarrow> ctx \<Rightarrow> ident \<Rightarrow> string \<Rightarrow> ('z conv_world_scheme, unit) io" where
  "AutomationAddTag d c i tagID = automationMutate d c i (\<lambda>cv.
     bind_io (case dp_tags d of
         None \<Rightarrow> return_io tagID
       | Some catalog \<Rightarrow> bind_io (try_io (ask (\<lambda>n. catalog n c [tagID] True))) (\<lambda>r. case r of
           Inr (resolved # _) \<Rightarrow> return_io resolved
         | _ \<Rightarrow> throw_io (NotFound ''tag not found'')))
     (\<lambda>tag. return_io (if tag \<in> set (cv_Tags cv) then (cv, [])
              else (cv\<lparr>cv_Tags := cv_Tags cv @ [tag]\<rparr>, EventConversationUpdated))))"

definition AutomationRemoveTag :: "'e conv_deps_scheme \<Rightarrow> ctx \<Rightarrow> ident \<Rightarrow> string \<Rightarrow> ('z conv_world_scheme, unit) io" where
  "AutomationRemoveTag d c i tagID = automationMutate d c i (\<lambda>cv.
     bind_io (case dp_tags d of
         None \<Rightarrow> return_io tagID
       | Some catalog \<Rightarrow> bind_io (try_io (ask (\<lambda>n. catalog n c [tagID] False))) (\<lambda>r. case r of
           Inr (resolved # _) \<Rightarrow> return_io resolved
         | _ \<Rightarrow> return_io tagID))
     (\<lambda>tag. return_io (cv\<lparr>cv_Tags := filter (\<lambda>x. x \<noteq> tag) (cv_Tags cv)\<rparr>,
              if tag \<in> set (cv_Tags cv) then EventConversationUpdated else [])))"

definition AutomationChangePriority :: "'e conv_deps_scheme \<Rightarrow> ctx \<Rightarrow> ident \<Rightarrow> string \<Rightarrow> ('z conv_world_scheme, unit) io" where
  "AutomationChangePriority d c i priority = automationMutate d c i (\<lambda>cv.
     then_io (guard_io (\<not> priority_valid priority) (Validation ''invalid priority''))
       (return_io (cv\<lparr>cv_Priority := priority\<rparr>, EventConversationUpdated)))"

definition AutomationResolve :: "'e conv_deps_scheme \<Rightarrow> ctx \<Rightarrow> ident \<Rightarrow> ('z conv_world_scheme, unit) io" where
  "AutomationResolve d c i = automationMutate d c i (\<lambda>cv.
     if status_is_closed (cv_Status cv) then return_io (cv, [])
     else bind_io (now_io d) (\<lambda>now.
       return_io (cv\<lparr>cv_Status := StatusResolved, cv_ClosedAt := Some now\<rparr>, EventConversationClosed)))"

definition AutomationOpen :: "'e conv_deps_scheme \<Rightarrow> ctx \<Rightarrow> ident \<Rightarrow> ('z conv_world_scheme, unit) io" where
  "AutomationOpen d c i = automationMutate d c i (\<lambda>cv. return_io
     (if \<not> status_is_closed (cv_Status cv) then (cv, [])
      else (cv\<lparr>cv_Status := (if cv_AssignedTo cv \<noteq> [] then StatusAssigned
                             else if cv_SectorID cv \<noteq> [] then StatusQueued else StatusNew),
               cv_ClosedAt := None\<rparr>, EventConversationReopened)))"

definition AutomationMarkPending :: "'e conv_deps_scheme \<Rightarrow> ctx \<Rightarrow> ident \<Rightarrow> ('z conv_world_scheme, unit) io" where
  "AutomationMarkPending d c i = automationMutate d c i (\<lambda>cv. return_io
     (if cv_Status cv = StatusQueued then (cv, [])
      else (cv\<lparr>cv_Status := StatusQueued\<rparr>, EventConversationUpdated)))"

definition SendAutomationAttachment ::
  "'e conv_deps_scheme \<Rightarrow> ctx \<Rightarrow> ident \<Rightarrow> ident \<Rightarrow> ident \<Rightarrow> ('z conv_world_scheme, unit) io" where
  "SendAutomationAttachment d c conversationID ruleID attachmentID =
    then_io (lift_res (RequireTenant c))
   (then_io (guard_io (trim_space attachmentID = []) (Validation ''attachment_id is required''))
   (bind_io (conv_FindByID d c conversationID) (\<lambda>cv.
    then_io (case dp_attachments d of
        None \<Rightarrow> return_io ()
      | Some ar \<Rightarrow> bind_io (try_io (ask (\<lambda>n. ar_Hydrate ar n c [attachmentID]))) (\<lambda>r.
          guard_io (case r of Inl _ \<Rightarrow> True | Inr resolved \<Rightarrow> resolved = []) (NotFound ''attachment not found'')))
   (bind_io (now_io d) (\<lambda>now. bind_io (new_id d) (\<lambda>mid.
    let msg = zero_message\<lparr>m_ID := mid, m_TenantID := cv_TenantID cv, m_ConversationID := cv_ID cv,
          m_SenderType := SenderAutomation, m_SenderID := ruleID, m_Direction := DirectionOutbound,
          m_MessageType := MessageFile,
          m_Attachments := [\<lparr>at_ID = attachmentID, at_URL = [], at_ContentType = [], at_Filename = [], at_Size = 0\<rparr>],
          m_CreatedAt := now, m_DeliveryStatus := DeliveryPending\<rparr> in
    bind_io (persistMessage d c cv msg EventMessageCreated) (\<lambda>_. return_io ())))))))"

text \<open>
  The menu arrives as JSON text; \<open>parse\<close> is its decoding (\<open>json.Unmarshal\<close>), \<open>None\<close> when the text
  is not a valid object.
\<close>

definition SendAutomationInteractive ::
  "'e conv_deps_scheme \<Rightarrow> (string \<Rightarrow> interactive option) \<Rightarrow> ctx \<Rightarrow> ident \<Rightarrow> ident \<Rightarrow> string \<Rightarrow> ('z conv_world_scheme, unit) io" where
  "SendAutomationInteractive d parse c conversationID ruleID interactiveJSON =
    then_io (lift_res (RequireTenant c))
   (then_io (guard_io (trim_space interactiveJSON = []) (Validation ''interactive is required''))
   (case parse interactiveJSON of
      None \<Rightarrow> throw_io (Validation ''interactive must be a valid JSON object'')
    | Some iv \<Rightarrow>
       (let msg = interactive_Validate (Some iv) in
        then_io (guard_io (msg \<noteq> []) (bad_payload ''interactive'' msg))
       (bind_io (conv_FindByID d c conversationID) (\<lambda>cv.
        bind_io (now_io d) (\<lambda>now. bind_io (new_id d) (\<lambda>mid.
        let m = zero_message\<lparr>m_ID := mid, m_TenantID := cv_TenantID cv, m_ConversationID := cv_ID cv,
              m_SenderType := SenderAutomation, m_SenderID := ruleID, m_Direction := DirectionOutbound,
              m_MessageType := MessageInteractive, m_Text := iv_Body iv, m_Interactive := Some iv,
              m_CreatedAt := now, m_DeliveryStatus := DeliveryPending\<rparr> in
        bind_io (persistMessage d c cv m EventMessageCreated) (\<lambda>_. return_io ()))))))))"

section \<open>The actions as one family\<close>

datatype auto_action =
    ActAssignAgent ident
  | ActAssignTeam ident
  | ActRemoveAgent
  | ActRemoveTeam
  | ActAddTag string
  | ActRemoveTag string
  | ActChangePriority string
  | ActResolve
  | ActOpen
  | ActMarkPending
  | ActSendMessage ident string
  | ActSendAttachment ident ident
  | ActSendInteractive ident string

fun perform ::
  "'e conv_deps_scheme \<Rightarrow> (string \<Rightarrow> interactive option) \<Rightarrow> ctx \<Rightarrow> ident \<Rightarrow> auto_action \<Rightarrow> ('z conv_world_scheme, unit) io" where
  "perform d parse c i (ActAssignAgent a) = AutomationAssignAgent d c i a"
| "perform d parse c i (ActAssignTeam s) = AutomationAssignTeam d c i s"
| "perform d parse c i ActRemoveAgent = AutomationRemoveAgent d c i"
| "perform d parse c i ActRemoveTeam = AutomationRemoveTeam d c i"
| "perform d parse c i (ActAddTag g) = AutomationAddTag d c i g"
| "perform d parse c i (ActRemoveTag g) = AutomationRemoveTag d c i g"
| "perform d parse c i (ActChangePriority p) = AutomationChangePriority d c i p"
| "perform d parse c i ActResolve = AutomationResolve d c i"
| "perform d parse c i ActOpen = AutomationOpen d c i"
| "perform d parse c i ActMarkPending = AutomationMarkPending d c i"
| "perform d parse c i (ActSendMessage r txt) = SendAutomationMessage d c i r txt"
| "perform d parse c i (ActSendAttachment r a) = SendAutomationAttachment d c i r a"
| "perform d parse c i (ActSendInteractive r j) = SendAutomationInteractive d parse c i r j"

section \<open>Frames of the actions\<close>

text \<open>
  The actions change the world only by advancing the step counter, writing conversations,
  messages and timeline events, and appending effects. A relation closed under these is
  kept by every action; \<open>P\<close> says which effects it tolerates, and it must tolerate those of
  realtime, webhooks and rule events of origin automation.
\<close>

locale action_frame = io_rel R
  for R :: "'z conv_world_scheme \<Rightarrow> 'z conv_world_scheme \<Rightarrow> bool" +
  fixes P :: "effect \<Rightarrow> bool"
  assumes R_tick: "R w (tick w)"
    and R_convs: "R w (w\<lparr>convs := cs\<rparr>)"
    and R_msgs: "R w (w\<lparr>msgs := ms\<rparr>)"
    and R_cevents: "R w (w\<lparr>cevents := evs\<rparr>)"
    and R_effects: "(\<forall>e \<in> set es. P e) \<Longrightarrow> R w (w\<lparr>effects := effects w @ es\<rparr>)"
    and P_publish: "P (EPublish topic ev p)"
    and P_webhook: "P (EWebhook t ev i cv m)"
    and P_rule: "P (ERule t ev i OriginAutomation n p)"
begin

lemma af_tick_then: "R (tick w) w' \<Longrightarrow> R w w'"
  by (rule rel_trans [OF R_tick])

lemma af_ask: "framed R (ask f)"
  by (simp add: framed_def ask_def R_tick)

lemma af_now: "framed R (now_io d)"
  by (simp add: framed_def now_io_def R_tick)

lemma af_new_id: "framed R (new_id d)"
  by (simp add: framed_def new_id_def R_tick)

lemma af_db: "(\<And>w. R w (snd (m w))) \<Longrightarrow> framed R (db_call d m)"
  by (auto simp: framed_def db_call_def R_tick intro: af_tick_then split: option.split)

lemma af_read: "framed R (bind_io (lift_res (RequireTenant c)) (\<lambda>s. db_call d (\<lambda>w. (f s w, w))))"
  by (intro fr_bind fr_lift af_db) (simp add: rel_refl)

lemma af_conv_FindByID: "framed R (conv_FindByID d c i)"
  unfolding conv_FindByID_def conv_query_def by (rule af_read)

lemma af_sector_FindByID: "framed R (sector_FindByID d c i)"
  unfolding sector_FindByID_def by (rule af_read)

lemma af_conv_Update: "framed R (conv_Update d c cv)"
  unfolding conv_Update_def
  by (intro fr_bind fr_lift af_db) (auto simp: rel_refl R_convs split: sum.split)

lemma af_msg_Create: "framed R (msg_Create d c m)"
  unfolding msg_Create_def
  by (intro fr_then fr_lift af_db) (auto simp: rel_refl R_msgs split: sum.split)

lemma af_recordEvent: "framed R (recordEvent d c cv ev data)"
  unfolding recordEvent_def event_Create_def Let_def
  by (intro fr_bind fr_then fr_lift fr_ignore af_new_id af_now af_db)
     (auto simp: rel_refl R_cevents split: sum.split)

lemma af_log: "P e \<Longrightarrow> framed R (log_effect e)"
  using R_effects [of "[e]"] by (simp add: framed_def log_effect_def modify_io_def)

lemma af_Publish: "framed R (Publish d topic ev p)"
  unfolding Publish_def using af_log [OF P_publish] by (intro af_db) (simp add: framed_def)

lemma af_PublishAll: "framed R (PublishAll d evs)"
proof -
  have "R w (w\<lparr>effects := effects w @ map (\<lambda>(t, e, p). EPublish t e p) evs\<rparr>)" for w
    by (rule R_effects) (auto simp: P_publish)
  then show ?thesis unfolding PublishAll_def
    by (intro fr_if fr_return fr_ignore af_db) (simp add: modify_io_def)
qed

lemma af_payload: "framed R (conv_payload d cv)"
  unfolding conv_payload_def by (intro fr_bind af_now fr_return)

lemma af_publishConversation: "framed R (publishConversation d cv)"
  unfolding publishConversation_def fan_out_def
  by (intro fr_bind fr_then fr_for fr_ignore af_payload af_Publish)

lemma af_webhooks:
  "framed R (emitConversationWebhook cv ev)" "framed R (emitMessageWebhook cv m ev)"
  unfolding emitConversationWebhook_def emitMessageWebhook_def by (intro af_log P_webhook)+

lemma af_emitRule:
  "RuleOriginFromContext c = OriginAutomation \<Longrightarrow> framed R (emitRuleEvent d c cv ev p)"
  unfolding emitRuleEvent_def by (intro fr_when af_log) (simp add: P_rule)

lemma af_hydrate: "framed R (hydrate_msg d c m)"
  unfolding hydrate_msg_def hydrateMessages_def Let_def
  by (auto intro!: fr_basic af_ask split: option.split sum.split)

lemmas af_ops = af_ask af_now af_new_id af_conv_FindByID af_sector_FindByID af_conv_Update af_msg_Create
  af_recordEvent af_PublishAll af_payload af_publishConversation af_webhooks

end

lemma RuleOrigin_tagged [simp]: "RuleOriginFromContext (WithRuleOrigin c OriginAutomation) = OriginAutomation"
  by (simp add: RuleOriginFromContext_def WithRuleOrigin_def)

context action_frame
begin

text \<open>A message authored by automation tags its rule event whatever the context says.\<close>

lemma af_persist:
  assumes "m_SenderType m = SenderAutomation"
  shows "framed R (persistMessage d c cv m ev)"
  unfolding persistMessage_def Let_def using assms
  by (intro fr_bind_returns [OF af_hydrate returns_hydrate_msg] fr_then fr_bind fr_when fr_return af_ops af_emitRule)
     (auto simp: hydration_keeps)

lemma af_send_trusted: "framed R (send_trusted d c i SenderAutomation r txt)"
  unfolding send_trusted_def Let_def
  by (intro fr_then fr_lift fr_bind fr_guard af_ops af_persist) (auto intro: fr_return)

lemma af_mutate:
  assumes "RuleOriginFromContext c = OriginAutomation" "\<And>cv. framed R (f cv)"
  shows "framed R (automationMutate d c i f)"
  unfolding automationMutate_def Let_def
  by (intro fr_then fr_lift fr_bind af_ops assms)
     (auto intro!: fr_if fr_return fr_bind fr_then af_ops af_emitRule assms split: prod.split)

lemma af_perform:
  assumes "RuleOriginFromContext c = OriginAutomation"
  shows "framed R (perform d parse c i act)"
proof (cases act)
  case (ActSendMessage r x)
  then show ?thesis
    by (auto simp: SendAutomationMessage_def intro!: fr_bind [OF af_send_trusted] fr_return)
next
  case (ActSendAttachment r a)
  then show ?thesis
    by (auto simp: SendAutomationAttachment_def Let_def
        intro!: fr_then fr_lift fr_guard fr_bind fr_try fr_return af_ops af_persist split: option.split)
next
  case (ActSendInteractive r j)
  then show ?thesis
    by (auto simp: SendAutomationInteractive_def Let_def
        intro!: fr_then fr_lift fr_guard fr_bind fr_return fr_throw af_ops af_persist split: option.split)
qed (use assms in \<open>auto intro!: af_mutate fr_basic af_ops
      simp: AutomationAssignAgent_def AutomationAssignTeam_def AutomationRemoveAgent_def AutomationRemoveTeam_def
        AutomationAddTag_def AutomationRemoveTag_def AutomationChangePriority_def AutomationResolve_def
        AutomationOpen_def AutomationMarkPending_def ensureAgentExists_def
      split: option.split sum.split list.split\<close>)

end

section \<open>Origin of the rule events\<close>

fun from_automation :: "effect \<Rightarrow> bool" where
  "from_automation (ERule _ _ _ o1 _ _) = (o1 = OriginAutomation)"
| "from_automation _ = True"

definition grows :: "(effect \<Rightarrow> bool) \<Rightarrow> 'z conv_world_scheme \<Rightarrow> 'z conv_world_scheme \<Rightarrow> bool" where
  "grows P w w' \<longleftrightarrow> (\<exists>es. effects w' = effects w @ es \<and> (\<forall>e \<in> set es. P e))"

lemma grows_trans: "grows P u v \<Longrightarrow> grows P v w \<Longrightarrow> grows P u w"
  by (fastforce simp: grows_def)

interpretation gro: action_frame "grows from_automation" from_automation
  by unfold_locales (auto simp: grows_def elim: grows_trans [unfolded grows_def])

text \<open>The rest of a larger world, beyond what the conversations service owns, is kept.\<close>

definition same_rest :: "'z conv_world_scheme \<Rightarrow> 'z conv_world_scheme \<Rightarrow> bool" where
  "same_rest w w' \<longleftrightarrow> conv_world.more w' = conv_world.more w"

interpretation rest: action_frame same_rest "\<lambda>_. True"
  by unfold_locales (auto simp: same_rest_def)

end
