(* ===== verification/Redis.thy ===== *)
theory Redis
  imports Conv_Repo
begin

text \<open>
  What the program uses of Redis and the components built on it: the distributed lock of
  \<open>infra/redis/lock.go\<close>, the fixed-window limiters (\<open>infra/automationrules/budget.go\<close>,
  \<open>infra/webhooks/ratelimit.go\<close>, \<open>infra/providerhub/ratelimit.go\<close>,
  \<open>presenter/middleware/ratelimit.go\<close>) and the firing guard
  \<open>infra/automationrules/deduper.go\<close>. A key carries an optional expiry instant and is gone
  from that instant on. The server reads the same clock as the process.
\<close>

section \<open>The commands\<close>

datatype redis_value = RString string | RCounter int

record redis_entry =
  re_Value :: redis_value
  re_Expires :: "time option"

type_synonym redis = "string \<rightharpoonup> redis_entry"

definition alive :: "time \<Rightarrow> redis_entry \<Rightarrow> bool" where
  "alive now e \<longleftrightarrow> (case re_Expires e of None \<Rightarrow> True | Some x \<Rightarrow> now < x)"

definition rget :: "time \<Rightarrow> string \<Rightarrow> redis \<Rightarrow> redis_entry option" where
  "rget now k s = (case s k of Some e \<Rightarrow> if alive now e then Some e else None | None \<Rightarrow> None)"

text \<open>\<open>SET key value NX PX ttl\<close>: whether the key was set.\<close>

definition SetNX :: "string \<Rightarrow> string \<Rightarrow> duration \<Rightarrow> time \<Rightarrow> redis \<Rightarrow> bool res \<times> redis" where
  "SetNX k v ttl now s = (if rget now k s = None
     then (Inr True, s(k \<mapsto> \<lparr>re_Value = RString v, re_Expires = Some (now + ttl)\<rparr>))
     else (Inr False, s))"

definition Incr :: "string \<Rightarrow> time \<Rightarrow> redis \<Rightarrow> int res \<times> redis" where
  "Incr k now s = (case rget now k s of
     None \<Rightarrow> (Inr 1, s(k \<mapsto> \<lparr>re_Value = RCounter 1, re_Expires = None\<rparr>))
   | Some e \<Rightarrow> (case re_Value e of
       RCounter n \<Rightarrow> (Inr (n + 1), s(k \<mapsto> e\<lparr>re_Value := RCounter (n + 1)\<rparr>))
     | RString _ \<Rightarrow> (Inl (PlainError ''ERR value is not an integer or out of range''), s)))"

definition Expire :: "string \<Rightarrow> duration \<Rightarrow> time \<Rightarrow> redis \<Rightarrow> unit res \<times> redis" where
  "Expire k ttl now s = (case rget now k s of
     None \<Rightarrow> (Inr (), s) | Some e \<Rightarrow> (Inr (), s(k \<mapsto> e\<lparr>re_Expires := Some (now + ttl)\<rparr>)))"

text \<open>The unlock script: delete the key only while it still holds the caller's token.\<close>

definition unlockScript :: "string \<Rightarrow> string \<Rightarrow> time \<Rightarrow> redis \<Rightarrow> unit res \<times> redis" where
  "unlockScript k token now s = (case rget now k s of
     Some e \<Rightarrow> if re_Value e = RString token then (Inr (), s(k := None)) else (Inr (), s)
   | None \<Rightarrow> (Inr (), s))"

section \<open>The clients\<close>

record ops_world = conv_world +
  redis :: redis

text \<open>A round trip: the environment's fault, or the command at the clock's reading.\<close>

definition redis_call :: "'e env_scheme \<Rightarrow> (time \<Rightarrow> redis \<Rightarrow> 'a res \<times> redis) \<Rightarrow> ('z ops_world_scheme, 'a) io" where
  "redis_call d cmd = (\<lambda>w. case fault d (step w) of
     Some e \<Rightarrow> (Inl (PlainError e), tick w)
   | None \<Rightarrow> (case cmd (clk d (step w)) (redis w) of (r, s) \<Rightarrow> (r, (tick w)\<lparr>redis := s\<rparr>)))"

text \<open>
  \<open>Locker.Acquire\<close>: the token when the lock was taken, none when it is held elsewhere. The
  closure it returns is \<open>release\<close> at the key and token.
\<close>

definition Acquire :: "'e env_scheme \<Rightarrow> string \<Rightarrow> duration \<Rightarrow> ('z ops_world_scheme, string option) io" where
  "Acquire d key ttl = bind_io (new_id d) (\<lambda>token.
     bind_io (redis_call d (SetNX key token ttl)) (\<lambda>ok.
       return_io (if ok then Some token else None)))"

definition release :: "'e env_scheme \<Rightarrow> string \<Rightarrow> string \<Rightarrow> ('z ops_world_scheme, unit) io" where
  "release d key token = ignore_io (redis_call d (unlockScript key token))"

text \<open>The limiters' common body: count the call, arm the window on the first one.\<close>

definition count_window :: "'e env_scheme \<Rightarrow> string \<Rightarrow> duration \<Rightarrow> int \<Rightarrow> ('z ops_world_scheme, bool) io" where
  "count_window d key window cap = bind_io (try_io (redis_call d (Incr key))) (\<lambda>r. case r of
     Inl _ \<Rightarrow> return_io True
   | Inr n \<Rightarrow> then_io (when_io (n = 1) (ignore_io (redis_call d (Expire key window)))) (return_io (n \<le> cap)))"

definition budgetMax :: int where "budgetMax = 100"
definition budgetWindow :: duration where "budgetWindow = 10 * Minute"

definition AllowAutomationMessage :: "'e env_scheme \<Rightarrow> ctx \<Rightarrow> ident \<Rightarrow> ('z ops_world_scheme, bool) io" where
  "AllowAutomationMessage d c conversationID = (case RequireTenant c of
     Inl _ \<Rightarrow> return_io True
   | Inr t \<Rightarrow> count_window d (''autom:budget:'' @ t @ '':'' @ conversationID) budgetWindow budgetMax)"

definition webhook_Allow :: "'e env_scheme \<Rightarrow> ident \<Rightarrow> int \<Rightarrow> ('z ops_world_scheme, bool) io" where
  "webhook_Allow d webhookID limitPerMin =
    (if limitPerMin \<le> 0 then return_io True
     else count_window d (''webhook:rl:'' @ webhookID) Minute limitPerMin)"

text \<open>\<open>NewRateLimiter\<close> replaces a maximum that is not positive by sixty.\<close>

definition providerhub_Allow :: "'e env_scheme \<Rightarrow> int \<Rightarrow> ident \<Rightarrow> ('z ops_world_scheme, bool) io" where
  "providerhub_Allow d maxPerMinute tenantID = count_window d (''providerhub:rl:'' @ tenantID) Minute
     (if maxPerMinute \<le> 0 then 60 else maxPerMinute)"

text \<open>
  The HTTP limiter: \<open>fwd\<close> is the \<open>X-Forwarded-For\<close> header and \<open>remote\<close> the peer address.
  The rest of the chain runs when the request is let through.
\<close>

definition tenantOrAnon :: "ctx \<Rightarrow> string" where
  "tenantOrAnon c = (case RequireTenant c of Inr t \<Rightarrow> t | Inl _ \<Rightarrow> ''anon'')"

definition clientIP :: "string \<Rightarrow> string \<Rightarrow> string" where
  "clientIP fwd remote = (if fwd \<noteq> [] then fwd else remote)"

definition rateKey :: "string \<Rightarrow> ctx \<Rightarrow> string \<Rightarrow> string \<Rightarrow> string" where
  "rateKey scope c fwd remote = ''ratelimit:'' @ (if scope \<noteq> [] then scope @ '':'' else [])
     @ tenantOrAnon c @ '':'' @ clientIP fwd remote"

definition RateLimitScoped ::
  "'e env_scheme \<Rightarrow> int \<Rightarrow> duration \<Rightarrow> string \<Rightarrow> ctx \<Rightarrow> string \<Rightarrow> string \<Rightarrow> ('z ops_world_scheme, 'a) io \<Rightarrow> ('z ops_world_scheme, 'a) io" where
  "RateLimitScoped d requests window scope c fwd remote next =
     bind_io (count_window d (rateKey scope c fwd remote) window requests) (\<lambda>allowed.
       if allowed then next else throw_io (newErr CodeRateLimited ''rate limit exceeded''))"

definition dedupWindow :: duration where "dedupWindow = 1 * Hour"

text \<open>\<open>Deduper.Allow\<close>: the first claim of a key within the window wins; an error lets through.\<close>

definition Allow :: "'e env_scheme \<Rightarrow> string \<Rightarrow> ('z ops_world_scheme, bool) io" where
  "Allow d key = bind_io (try_io (redis_call d (SetNX key ''1'' dedupWindow))) (\<lambda>r.
     return_io (case r of Inl _ \<Rightarrow> True | Inr ok \<Rightarrow> ok))"

section \<open>Facts on the commands\<close>

lemma rget_upd [simp]: "rget now k (s(k \<mapsto> e)) = (if alive now e then Some e else None)"
  by (simp add: rget_def)

lemma rget_other [simp]: "k' \<noteq> k \<Longrightarrow> rget now k (s(k' := e)) = rget now k s"
  by (simp add: rget_def)

lemma rget_SomeD: "rget now k s = Some e \<Longrightarrow> s k = Some e \<and> alive now e"
  by (auto simp: rget_def split: option.splits if_splits)

lemma alive_simps [simp]:
  "alive now \<lparr>re_Value = v, re_Expires = None\<rparr>"
  "alive now \<lparr>re_Value = v, re_Expires = Some x\<rparr> = (now < x)"
  by (simp_all add: alive_def)

lemma alive_mono: "alive t e \<Longrightarrow> t' \<le> t \<Longrightarrow> alive t' e"
  by (auto simp: alive_def split: option.splits)

lemma alive_upd_value [simp]: "alive now (e\<lparr>re_Value := v\<rparr>) = alive now e"
  by (simp add: alive_def)

lemma wp_redis_call [io_wp]:
  "wp (redis_call d cmd) Q E w = (case fault d (step w) of
     Some e \<Rightarrow> E (PlainError e) (tick w)
   | None \<Rightarrow> (case cmd (clk d (step w)) (redis w) of
       (Inl e, s) \<Rightarrow> E e ((tick w)\<lparr>redis := s\<rparr>) | (Inr x, s) \<Rightarrow> Q x ((tick w)\<lparr>redis := s\<rparr>)))"
  by (auto simp: wp_def redis_call_def split: option.split prod.split sum.split)

lemma redis_tick [simp]: "redis (tick w) = redis w"
  by (simp add: tick_def)

lemma redis_call_simps [simp]:
  "convs (snd (redis_call d cmd w)) = convs w" "msgs (snd (redis_call d cmd w)) = msgs w"
  "effects (snd (redis_call d cmd w)) = effects w" "cevents (snd (redis_call d cmd w)) = cevents w"
  "ops_world.more (snd (redis_call d cmd w)) = ops_world.more w"
  by (auto simp: redis_call_def tick_def split: option.split prod.split)

text \<open>Everything built on Redis keeps a relation that tolerates a change of the keyspace.\<close>

locale redis_frame = io_rel R for R :: "'z ops_world_scheme \<Rightarrow> 'z ops_world_scheme \<Rightarrow> bool" +
  assumes R_clock: "R w (tick w)"
    and R_redis: "R w (w\<lparr>redis := s\<rparr>)"
begin

lemma R_call: "framed R (redis_call d cmd)"
  by (auto simp: framed_def redis_call_def R_clock intro: rel_trans [OF R_clock R_redis] split: option.split prod.split)

lemma R_id: "framed R (new_id d)"
  by (simp add: framed_def new_id_def R_clock)

lemma rf_Acquire: "framed R (Acquire d key ttl)"
  unfolding Acquire_def by (intro fr_bind R_id R_call fr_return)

lemma rf_release: "framed R (release d key tok)"
  unfolding release_def by (intro fr_ignore R_call)

lemma rf_window: "framed R (count_window d key window cap)"
  unfolding count_window_def
  by (intro fr_bind fr_try R_call) (auto intro!: fr_basic R_call split: sum.split)

lemma rf_budget: "framed R (AllowAutomationMessage d c i)"
  unfolding AllowAutomationMessage_def by (auto intro: fr_return rf_window split: sum.split)

lemma rf_Allow: "framed R (Allow d key)"
  unfolding Allow_def by (intro fr_bind fr_try R_call fr_return)

lemmas rf_ops = rf_Acquire rf_release rf_window rf_budget rf_Allow

end

end
