(* ===== verification/Automation_Rules.thy ===== *)
theory Automation_Rules
  imports Conv_Automation Redis
begin

text \<open>
  \<open>domain/automationrules\<close>: a rule's conditions and their matching (entity/match.go,
  entity/rule.go), the evaluator that runs the tasks of the queue (service/evaluator.go), the
  executor that performs a rule's actions on the conversations service (service/executor.go)
  and the enqueuer of \<open>infra/automationrules\<close>. Deals, contacts, the outbound
  webhook rail and the Unicode case mapping are parameters of \<open>rule_deps\<close>.
\<close>

section \<open>Rules\<close>

definition FieldStatus :: string where "FieldStatus = ''status''"
definition FieldChannel :: string where "FieldChannel = ''channel''"
definition FieldAssignedAgentID :: string where "FieldAssignedAgentID = ''assigned_agent_id''"
definition FieldSectorID :: string where "FieldSectorID = ''sector_id''"
definition FieldQueueID :: string where "FieldQueueID = ''queue_id''"
definition FieldPriority :: string where "FieldPriority = ''priority''"
definition FieldTags :: string where "FieldTags = ''tags''"
definition FieldContactPhone :: string where "FieldContactPhone = ''contact_phone''"
definition FieldMessageContent :: string where "FieldMessageContent = ''message_content''"
definition FieldInteractiveReplyID :: string where "FieldInteractiveReplyID = ''interactive_reply_id''"

lemmas field_defs = FieldStatus_def FieldChannel_def FieldAssignedAgentID_def FieldSectorID_def
  FieldQueueID_def FieldPriority_def FieldTags_def FieldContactPhone_def FieldMessageContent_def
  FieldInteractiveReplyID_def

definition OpEqualTo :: string where "OpEqualTo = ''equal_to''"
definition OpNotEqualTo :: string where "OpNotEqualTo = ''not_equal_to''"
definition OpContains :: string where "OpContains = ''contains''"
definition OpDoesNotContain :: string where "OpDoesNotContain = ''does_not_contain''"

lemmas op_defs = OpEqualTo_def OpNotEqualTo_def OpContains_def OpDoesNotContain_def

definition allowedOperators :: "string \<Rightarrow> string list" where
  "allowedOperators f =
    (if f \<in> {FieldStatus, FieldChannel, FieldAssignedAgentID, FieldSectorID, FieldQueueID, FieldPriority}
     then [OpEqualTo, OpNotEqualTo]
     else if f = FieldTags then [OpContains, OpDoesNotContain]
     else if f = FieldContactPhone then [OpEqualTo, OpContains]
     else if f = FieldMessageContent then [OpContains, OpDoesNotContain]
     else if f = FieldInteractiveReplyID then [OpEqualTo, OpNotEqualTo, OpContains, OpDoesNotContain]
     else [])"

definition OperatorAllowed :: "string \<Rightarrow> string \<Rightarrow> bool" where
  "OperatorAllowed f op1 \<longleftrightarrow> op1 \<in> set (allowedOperators f)"

record condition =
  co_Field :: string
  co_Operator :: string
  co_Value :: string

record rule_action =
  ra_Type :: string
  ra_Params :: "string \<rightharpoonup> string"

definition Param :: "rule_action \<Rightarrow> string \<Rightarrow> string" where
  "Param a key = (case ra_Params a key of Some v \<Rightarrow> v | None \<Rightarrow> [])"

record automation_rule =
  ar_ID :: ident
  ar_TenantID :: ident
  ar_Name :: string
  ar_Description :: string
  ar_Event :: string
  ar_Enabled :: bool
  ar_Priority :: int
  ar_Conditions :: "condition list"
  ar_Actions :: "rule_action list"
  ar_CreatedAt :: time
  ar_UpdatedAt :: time

record eval_context =
  ec_Status :: string
  ec_Channel :: string
  ec_AssignedAgentID :: ident
  ec_SectorID :: ident
  ec_QueueID :: ident
  ec_Priority :: string
  ec_Tags :: "string list"
  ec_ContactPhone :: string
  ec_MessageContent :: string
  ec_InteractiveReplyID :: ident

definition scalarField :: "eval_context \<Rightarrow> string \<Rightarrow> string" where
  "scalarField ec f =
    (if f = FieldStatus then ec_Status ec
     else if f = FieldChannel then ec_Channel ec
     else if f = FieldAssignedAgentID then ec_AssignedAgentID ec
     else if f = FieldSectorID then ec_SectorID ec
     else if f = FieldQueueID then ec_QueueID ec
     else if f = FieldPriority then ec_Priority ec
     else [])"

definition idInList :: "ident \<Rightarrow> string \<Rightarrow> bool" where
  "idInList i csv \<longleftrightarrow> i \<noteq> [] \<and> (\<exists>item \<in> set (split_on CHR '','' csv). trim_space item = i)"

text \<open>\<open>lower\<close> is \<open>strings.ToLower\<close>.\<close>

definition cond_match :: "(string \<Rightarrow> string) \<Rightarrow> eval_context \<Rightarrow> condition \<Rightarrow> bool" where
  "cond_match lower ec c =
    (if co_Field c = FieldTags then
       (let has = co_Value c \<in> set (ec_Tags ec) in if co_Operator c = OpDoesNotContain then \<not> has else has)
     else if co_Field c = FieldContactPhone then
       (if co_Operator c = OpContains then str_contains (ec_ContactPhone ec) (co_Value c)
        else ec_ContactPhone ec = co_Value c)
     else if co_Field c = FieldMessageContent then
       (let has = str_contains (lower (ec_MessageContent ec)) (lower (co_Value c))
        in if co_Operator c = OpDoesNotContain then \<not> has else has)
     else if co_Field c = FieldInteractiveReplyID then
       (if co_Operator c = OpContains \<or> co_Operator c = OpDoesNotContain then
          (let isin = idInList (ec_InteractiveReplyID ec) (co_Value c)
           in if co_Operator c = OpDoesNotContain then \<not> isin else isin)
        else if co_Operator c = OpNotEqualTo then ec_InteractiveReplyID ec \<noteq> co_Value c
        else ec_InteractiveReplyID ec = co_Value c)
     else (let v = scalarField ec (co_Field c)
           in if co_Operator c = OpNotEqualTo then v \<noteq> co_Value c else v = co_Value c))"

definition Matches :: "(string \<Rightarrow> string) \<Rightarrow> eval_context \<Rightarrow> automation_rule \<Rightarrow> bool" where
  "Matches lower ec r \<longleftrightarrow> (\<forall>c \<in> set (ar_Conditions r). cond_match lower ec c)"

section \<open>Tasks\<close>

record evaluate_task =
  et_TenantID :: ident
  et_Event :: string
  et_ConversationID :: ident
  et_Data :: payload
  et_EventID :: ident
  et_Origin :: string
  et_Depth :: int

text \<open>What the enqueuer makes of a rule event; \<open>i\<close> is the fresh event id.\<close>

definition task_of :: "ident \<Rightarrow> effect \<Rightarrow> evaluate_task option" where
  "task_of i e = (case e of
     ERule t ev cv o1 dep p \<Rightarrow> if t = [] \<or> cv = [] then None
       else Some \<lparr>et_TenantID = t, et_Event = ev, et_ConversationID = cv, et_Data = p, et_EventID = i,
                  et_Origin = o1, et_Depth = dep\<rparr>
   | _ \<Rightarrow> None)"

record trigger_message =
  tm_Text :: string
  tm_MessageType :: string
  tm_InteractiveReplyID :: ident

definition triggerMessageFrom :: "evaluate_task \<Rightarrow> trigger_message" where
  "triggerMessageFrom task = (case et_Data task of
     MsgPayload p \<Rightarrow> if et_Event task = ''message.created''
       then \<lparr>tm_Text = mp_Text p, tm_MessageType = mp_MessageType p,
             tm_InteractiveReplyID = (case mp_InteractiveReply p of Some r \<Rightarrow> irp_ID r | None \<Rightarrow> [])\<rparr>
       else \<lparr>tm_Text = [], tm_MessageType = [], tm_InteractiveReplyID = []\<rparr>
   | _ \<Rightarrow> \<lparr>tm_Text = [], tm_MessageType = [], tm_InteractiveReplyID = []\<rparr>)"

definition RuleEventForInternal :: "string \<Rightarrow> string option" where
  "RuleEventForInternal ev =
    (if ev = ''conversation.created'' then Some ''conversation_created''
     else if ev = ''conversation.updated'' then Some ''conversation_updated''
     else if ev = ''conversation.resolved'' then Some ''conversation_resolved''
     else if ev = ''conversation.reopened'' then Some ''conversation_opened''
     else if ev = ''conversation.closed'' then Some ''conversation_closed''
     else if ev = ''message.created'' then Some ''message_created''
     else None)"

definition applicableRuleEvents :: "evaluate_task \<Rightarrow> trigger_message \<Rightarrow> string list" where
  "applicableRuleEvents task tm = (case RuleEventForInternal (et_Event task) of
     None \<Rightarrow> []
   | Some b \<Rightarrow> b # (if b = ''message_created'' \<and> tm_MessageType tm = ''interactive_reply''
                    then [''interactive_reply_received''] else []))"

section \<open>The evaluator\<close>

datatype eval_status = EvalActionEnqueued | EvalSkippedDedup | EvalSkippedAutomation | EvalSkippedStale
  | EvalSkippedBudget | EvalSkippedMissingRef | EvalError

record rule_log =
  rl_ID :: ident
  rl_TenantID :: ident
  rl_RuleID :: ident
  rl_Event :: string
  rl_ConversationID :: ident
  rl_ActionType :: string
  rl_Status :: eval_status
  rl_ErrorSummary :: string
  rl_CreatedAt :: time

datatype rule_call = CallEmitTo ident ident string payload | CallMoveDeal ident ident ident

record rule_world = ops_world +
  rules :: "automation_rule list"
  rlogs :: "rule_log list"
  rule_calls :: "rule_call list"

text \<open>
  What the evaluator and executor are wired with, beyond the conversations service: Unicode
  lower-casing, the JSON decoder of a menu, the contact's phone, the webhook and deal ports,
  and whether a deduper and a budget limiter are given.
\<close>

record rule_deps = conv_deps +
  rd_lower :: "string \<Rightarrow> string"
  rd_parse :: "string \<Rightarrow> interactive option"
  rd_phone :: "nat \<Rightarrow> ident \<Rightarrow> string option"
  rd_emitTo :: "nat \<Rightarrow> unit res"
  rd_moveDeal :: "nat \<Rightarrow> unit res"
  rd_budget :: bool
  rd_dedup :: bool

definition ErrBudgetExceeded :: goerr where
  "ErrBudgetExceeded = PlainError ''automation message budget exceeded''"

definition summarize :: "goerr \<Rightarrow> string" where
  "summarize e = take 200 (Error e)"

definition classify :: "unit res \<Rightarrow> eval_status \<times> string" where
  "classify r = (case r of
     Inr _ \<Rightarrow> (EvalActionEnqueued, [])
   | Inl e \<Rightarrow> if e = ErrBudgetExceeded then (EvalSkippedBudget, [])
              else if err_code_of (From e) = CodeNotFound then (EvalSkippedMissingRef, summarize e)
              else (EvalError, summarize e))"

definition hydrate :: "'e rule_deps_scheme \<Rightarrow> ctx \<Rightarrow> ident \<Rightarrow> trigger_message \<Rightarrow> (rule_world, eval_context) io" where
  "hydrate d c conversationID tm = bind_io (conv_FindByID d c conversationID) (\<lambda>cv.
     bind_io (if cv_ContactID cv = [] then return_io None
              else ask (\<lambda>n. Inr (rd_phone d n (cv_ContactID cv)))) (\<lambda>phone.
     return_io \<lparr>ec_Status = cv_Status cv, ec_Channel = cv_Channel cv, ec_AssignedAgentID = cv_AssignedTo cv,
       ec_SectorID = cv_SectorID cv, ec_QueueID = cv_QueueID cv, ec_Priority = cv_Priority cv,
       ec_Tags = cv_Tags cv, ec_ContactPhone = (case phone of Some p \<Rightarrow> p | None \<Rightarrow> []),
       ec_MessageContent = tm_Text tm, ec_InteractiveReplyID = tm_InteractiveReplyID tm\<rparr>))"

definition dedupKey :: "ident \<Rightarrow> ident \<Rightarrow> ident \<Rightarrow> string" where
  "dedupKey t r e = ''rule:fired:'' @ t @ '':'' @ r @ '':'' @ e"

definition rule_log_io ::
  "'e rule_deps_scheme \<Rightarrow> ctx \<Rightarrow> evaluate_task \<Rightarrow> automation_rule \<Rightarrow> string \<Rightarrow> eval_status \<Rightarrow> string \<Rightarrow> (rule_world, unit) io" where
  "rule_log_io d c task rule actionType st summary = bind_io (new_id d) (\<lambda>i. bind_io (now_io d) (\<lambda>now.
     ignore_io (then_io (lift_res (RequireTenant c)) (db_call d (modify_io (\<lambda>w. w\<lparr>rlogs := rlogs w @
       [\<lparr>rl_ID = i, rl_TenantID = et_TenantID task, rl_RuleID = ar_ID rule, rl_Event = ar_Event rule,
         rl_ConversationID = et_ConversationID task, rl_ActionType = actionType, rl_Status = st,
         rl_ErrorSummary = summary, rl_CreatedAt = now\<rparr>]\<rparr>))))))"

section \<open>The executor\<close>

definition checkBudget :: "'e rule_deps_scheme \<Rightarrow> ctx \<Rightarrow> ident \<Rightarrow> (rule_world, unit) io" where
  "checkBudget d c conversationID =
    (if \<not> rd_budget d then return_io ()
     else bind_io (try_io (AllowAutomationMessage d c conversationID)) (\<lambda>r. case r of
       Inl _ \<Rightarrow> return_io ()
     | Inr allowed \<Rightarrow> guard_io (\<not> allowed) ErrBudgetExceeded))"

definition call_io :: "(nat \<Rightarrow> unit res) \<Rightarrow> rule_call \<Rightarrow> (rule_world, unit) io" where
  "call_io answer rc = then_io (modify_io (\<lambda>w. w\<lparr>rule_calls := rule_calls w @ [rc]\<rparr>)) (ask answer)"

definition run_conv :: "'e rule_deps_scheme \<Rightarrow> ctx \<Rightarrow> ident \<Rightarrow> auto_action \<Rightarrow> (rule_world, unit) io" where
  "run_conv d c conversationID act = perform d (rd_parse d) c conversationID act"

definition exec_action ::
  "'e rule_deps_scheme \<Rightarrow> ctx \<Rightarrow> evaluate_task \<Rightarrow> automation_rule \<Rightarrow> rule_action \<Rightarrow> (rule_world, unit) io" where
  "exec_action d c0 task rule a =
    (let c = WithRuleDepth (WithRuleOrigin c0 OriginAutomation) (et_Depth task + 1);
         i = et_ConversationID task; ty = ra_Type a in
     if ty = ''send_webhook'' then
       call_io (rd_emitTo d) (CallEmitTo (et_TenantID task) (Param a ''webhook_id'') (ar_Event rule) (et_Data task))
     else if ty = ''send_message'' then
       then_io (checkBudget d c i) (run_conv d c i (ActSendMessage (ar_ID rule) (Param a ''text'')))
     else if ty = ''send_attachment'' then
       then_io (checkBudget d c i) (run_conv d c i (ActSendAttachment (ar_ID rule) (Param a ''attachment_id'')))
     else if ty = ''send_interactive'' then
       then_io (checkBudget d c i) (run_conv d c i (ActSendInteractive (ar_ID rule) (Param a ''interactive'')))
     else if ty = ''assign_agent'' then run_conv d c i (ActAssignAgent (Param a ''agent_id''))
     else if ty = ''assign_team'' then run_conv d c i (ActAssignTeam (Param a ''sector_id''))
     else if ty = ''remove_assigned_agent'' then run_conv d c i ActRemoveAgent
     else if ty = ''remove_assigned_team'' then run_conv d c i ActRemoveTeam
     else if ty = ''add_tag'' then run_conv d c i (ActAddTag (Param a ''tag_id''))
     else if ty = ''remove_tag'' then run_conv d c i (ActRemoveTag (Param a ''tag_id''))
     else if ty = ''change_priority'' then run_conv d c i (ActChangePriority (Param a ''priority''))
     else if ty = ''resolve_conversation'' then run_conv d c i ActResolve
     else if ty = ''open_conversation'' then run_conv d c i ActOpen
     else if ty = ''mark_pending'' then run_conv d c i ActMarkPending
     else if ty = ''move_deal_stage'' then
       call_io (rd_moveDeal d) (CallMoveDeal i (Param a ''pipeline_id'') (Param a ''stage_id''))
     else throw_io (PlainError (''unsupported action type '' @ ty)))"

definition fire :: "'e rule_deps_scheme \<Rightarrow> ctx \<Rightarrow> evaluate_task \<Rightarrow> automation_rule \<Rightarrow> (rule_world, unit) io" where
  "fire d c task rule = for_io (ar_Actions rule) (\<lambda>a.
     bind_io (try_io (exec_action d c task rule a)) (\<lambda>r.
       rule_log_io d c task rule (ra_Type a) (fst (classify r)) (snd (classify r))))"

text \<open>One turn of the loop over the matched rules.\<close>

definition eval_rule ::
  "'e rule_deps_scheme \<Rightarrow> ctx \<Rightarrow> evaluate_task \<Rightarrow> eval_context \<Rightarrow> automation_rule \<Rightarrow> (rule_world, unit) io" where
  "eval_rule d c task live rule =
    (if \<not> Matches (rd_lower d) live rule then rule_log_io d c task rule [] EvalSkippedStale []
     else bind_io (if rd_dedup d then Allow d (dedupKey (et_TenantID task) (ar_ID rule) (et_EventID task))
                   else return_io True) (\<lambda>allowed.
       if \<not> allowed then rule_log_io d c task rule [] EvalSkippedDedup []
       else fire d c task rule))"

definition rule_ListEnabledByEvent :: "'e rule_deps_scheme \<Rightarrow> ctx \<Rightarrow> string \<Rightarrow> (rule_world, automation_rule list) io" where
  "rule_ListEnabledByEvent d c ev = bind_io (lift_res (RequireTenant c)) (\<lambda>t.
     db_call d (gets_io (\<lambda>w. filter (\<lambda>r. ar_TenantID r = t \<and> ar_Enabled r \<and> ar_Event r = ev) (rules w))))"

definition maxDepth :: int where "maxDepth = 3"
definition lockTTL :: duration where "lockTTL = 15 * Second"

text \<open>\<open>sort.SliceStable\<close> by priority, creation time and identifier.\<close>

definition rule_key :: "automation_rule \<Rightarrow> int \<times> time \<times> ident" where
  "rule_key r = (ar_Priority r, ar_CreatedAt r, ar_ID r)"

definition order_rules :: "automation_rule list \<Rightarrow> automation_rule list" where
  "order_rules rs = sort_key rule_key rs"

text \<open>A missing conversation ends the task without an error.\<close>

definition or_gone :: "(rule_world, 'a) io \<Rightarrow> ('a \<Rightarrow> (rule_world, unit) io) \<Rightarrow> (rule_world, unit) io" where
  "or_gone m k = bind_io (try_io m) (\<lambda>r. case r of
     Inl e \<Rightarrow> if err_code_of (From e) = CodeNotFound then return_io () else throw_io e
   | Inr x \<Rightarrow> k x)"

definition Evaluate :: "'e rule_deps_scheme \<Rightarrow> ctx \<Rightarrow> evaluate_task \<Rightarrow> (rule_world, unit) io" where
  "Evaluate d c0 task =
    (if et_Origin task = OriginAutomation then return_io ()
     else if et_Depth task > maxDepth then return_io ()
     else let trigger = triggerMessageFrom task; ruleEvents = applicableRuleEvents task trigger in
       if ruleEvents = [] then return_io ()
       else let c = WithTenant c0 (et_TenantID task) in
         bind_io (fold_io (\<lambda>rs ev. bind_io (rule_ListEnabledByEvent d c ev) (\<lambda>more. return_io (rs @ more))) [] ruleEvents) (\<lambda>rs.
         if rs = [] then return_io ()
         else or_gone (hydrate d c (et_ConversationID task) trigger) (\<lambda>ec.
           let matched = filter (Matches (rd_lower d) ec) rs in
           if matched = [] then return_io ()
           else let key = ''rule:conv:'' @ et_TenantID task @ '':'' @ et_ConversationID task in
             bind_io (try_io (Acquire d key lockTTL)) (\<lambda>l.
             defer_io (case l of Inr (Some token) \<Rightarrow> release d key token | _ \<Rightarrow> return_io ())
             (or_gone (hydrate d c (et_ConversationID task) trigger) (\<lambda>live.
                for_io (order_rules matched) (eval_rule d c task live)))))))"

section \<open>Automation does not feed itself\<close>

interpretation gro_r: redis_frame "grows from_automation :: rule_world \<Rightarrow> rule_world \<Rightarrow> bool"
  by unfold_locales (auto simp: grows_def)

lemma gro_rule_log: "framed (grows from_automation) (rule_log_io d c task r a st sm)"
  unfolding rule_log_io_def
  by (intro gro.fr_bind gro.fr_ignore gro.fr_then gro.fr_lift gro.af_new_id gro.af_now gro.af_db)
     (simp add: modify_io_def grows_def)

lemma gro_call: "framed (grows from_automation) (call_io f rc)"
  unfolding call_io_def by (intro gro.fr_then gro.af_ask) (simp add: framed_def modify_io_def grows_def)

lemma gro_budget: "framed (grows from_automation) (checkBudget d c i)"
  unfolding checkBudget_def by (auto intro!: gro.fr_basic gro_r.rf_budget split: sum.split)

lemma gro_run_conv:
  "RuleOriginFromContext c = OriginAutomation \<Longrightarrow> framed (grows from_automation) (run_conv d c i act)"
  unfolding run_conv_def by (rule gro.af_perform)

lemma RuleOrigin_depth [simp]: "RuleOriginFromContext (WithRuleDepth c n) = RuleOriginFromContext c"
  by (simp add: RuleOriginFromContext_def WithRuleDepth_def)

lemma gro_exec: "framed (grows from_automation) (exec_action d c task rule a)"
  unfolding exec_action_def Let_def
  by (intro gro.fr_if gro.fr_then gro.fr_throw gro_call gro_budget gro_run_conv) simp_all

lemma gro_fire: "framed (grows from_automation) (fire d c task rule)"
  unfolding fire_def by (intro gro.fr_for gro.fr_bind gro.fr_try gro_exec gro_rule_log)

lemma gro_eval_rule: "framed (grows from_automation) (eval_rule d c task live rule)"
  unfolding eval_rule_def by (intro gro.fr_if gro.fr_bind gro.fr_return gro_rule_log gro_r.rf_Allow gro_fire)

lemma gro_hydrate: "framed (grows from_automation) (hydrate d c i tm)"
  unfolding hydrate_def by (intro gro.fr_bind gro.fr_if gro.fr_return gro.af_ask gro.af_conv_FindByID)

lemma gro_list: "framed (grows from_automation) (rule_ListEnabledByEvent d c ev)"
  unfolding rule_ListEnabledByEvent_def
  by (intro gro.fr_bind gro.fr_lift gro.af_db) (simp add: gets_io_def gro.rel_refl)

lemma gro_or_gone:
  "framed (grows from_automation) m \<Longrightarrow> (\<And>x. framed (grows from_automation) (k x)) \<Longrightarrow>
     framed (grows from_automation) (or_gone m k)"
  unfolding or_gone_def by (intro gro.fr_bind gro.fr_try) (auto intro!: gro.fr_basic split: sum.split)

lemma gro_Evaluate: "framed (grows from_automation) (Evaluate d c task)"
  unfolding Evaluate_def Let_def
  by (intro gro.fr_if gro.fr_return gro.fr_bind gro.fr_fold gro.fr_try gro.fr_defer gro.fr_for gro_or_gone
      gro_hydrate gro_list gro_r.rf_Acquire gro_eval_rule)
     (auto intro: gro.fr_return gro_r.rf_release split: sum.split option.split)

lemma task_of_automation: "from_automation e \<Longrightarrow> task_of i e = Some tk \<Longrightarrow> et_Origin tk = OriginAutomation"
  by (cases e) (auto simp: task_of_def split: if_splits)

text \<open>
  C12: automation cannot feed itself. Whatever rules a task fires, every rule event emitted
  while it is processed becomes a task (with any event id) that any evaluator, in any state,
  finishes at once without doing anything.
\<close>

theorem automation_never_feeds_itself:
  "\<exists>es. effects (snd (Evaluate d c task w)) = effects w @ es
     \<and> (\<forall>e \<in> set es. \<forall>i tk. task_of i e = Some tk \<longrightarrow> (\<forall>d' c' w'. Evaluate d' c' tk w' = (Inr (), w')))"
proof -
  obtain es where es: "effects (snd (Evaluate d c task w)) = effects w @ es" "\<forall>e \<in> set es. from_automation e"
    using gro_Evaluate [of d c task] unfolding framed_def grows_def by blast
  have "Evaluate d' c' tk w' = (Inr (), w')" if "e \<in> set es" "task_of i e = Some tk" for e i tk d' c' w'
    using task_of_automation [OF _ that(2)] es(2) that(1) by (simp add: Evaluate_def return_io_def)
  then show ?thesis using es(1) by blast
qed

definition demo_rules_world :: rule_world where
  "demo_rules_world = \<lparr>step = 0, convs = [demo_conv], msgs = [], cevents = [], chans = [], sectors = [],
     effects = [], redis = Map.empty, rules = [\<lparr>ar_ID = ''r1'', ar_TenantID = ''t1'', ar_Name = ''close'', ar_Description = [], ar_Event = ''message_created'',
       ar_Enabled = True, ar_Priority = 1, ar_Conditions = [],
       ar_Actions = [\<lparr>ra_Type = ''resolve_conversation'', ra_Params = Map.empty\<rparr>], ar_CreatedAt = 0, ar_UpdatedAt = 0\<rparr>],
     rlogs = [], rule_calls = []\<rparr>"

definition demo_rule_deps :: rule_deps where
  "demo_rule_deps = \<lparr>clk = (\<lambda>n. int n), newid = (\<lambda>n. CHR ''n'' # replicate n CHR ''1''), fault = (\<lambda>_. None),
     dp_tags = None, dp_closeReasons = None, dp_attachments = None, dp_agents = None,
     dp_customAttr = (\<lambda>_ _ _ _. Inr ()), dp_ruleSink = True, rd_lower = id, rd_parse = (\<lambda>_. None),
     rd_phone = (\<lambda>_ _. None), rd_emitTo = (\<lambda>_. Inr ()), rd_moveDeal = (\<lambda>_. Inr ()), rd_budget = True,
     rd_dedup = True\<rparr>"

definition demo_task :: evaluate_task where
  "demo_task = \<lparr>et_TenantID = ''t1'', et_Event = ''message.created'', et_ConversationID = ''c1'',
     et_Data = TypingPayload [] [], et_EventID = ''e1'', et_Origin = OriginExternal, et_Depth = 0\<rparr>"

theorem automation_never_feeds_itself_witness:
  "\<exists>es. effects (snd (Evaluate demo_rule_deps demo_ctx demo_task demo_rules_world)) = effects demo_rules_world @ es
     \<and> \<not> (\<exists>e i tk. e \<in> set es \<and> task_of i e = Some tk
          \<and> Evaluate demo_rule_deps demo_ctx tk demo_rules_world \<noteq> (Inr (), demo_rules_world))"
  using automation_never_feeds_itself [of demo_rule_deps demo_ctx demo_task demo_rules_world] by blast

section \<open>A rule fires once per event\<close>

text \<open>The claims are the keys the deduper owns; a rule's actions leave them alone.\<close>

definition keeps_claims :: "rule_world \<Rightarrow> rule_world \<Rightarrow> bool" where
  "keeps_claims w w' \<longleftrightarrow> (\<forall>k. take 1 k = ''r'' \<longrightarrow> redis w' k = redis w k)"

interpretation clm: io_rel keeps_claims
  by unfold_locales (auto simp: keeps_claims_def)

lemma redis_more: "conv_world.more w' = conv_world.more w \<Longrightarrow> redis w' = redis w"
  for w w' :: rule_world
  by (cases w; cases w') simp

lemma clm_run_conv:
  assumes "RuleOriginFromContext c = OriginAutomation"
  shows "framed keeps_claims (run_conv d c i act)"
  using rest.af_perform [OF assms, of d "rd_parse d" i act]
  unfolding framed_def same_rest_def run_conv_def keeps_claims_def by (metis redis_more)

lemma clm_ask: "framed keeps_claims (ask f)"
  by (simp add: framed_def ask_def keeps_claims_def)

lemma clm_rule_log: "framed keeps_claims (rule_log_io d c task r a st sm)"
  by (auto simp: framed_def rule_log_io_def io_defs db_call_def keeps_claims_def new_id_def now_io_def
      split: option.split sum.split)

lemma clm_redis:
  assumes "\<And>k now s. take 1 k = ''r'' \<Longrightarrow> snd (cmd now s) k = s k"
  shows "framed keeps_claims (redis_call d cmd)"
  using assms by (auto simp: framed_def redis_call_def keeps_claims_def split: option.split prod.split)
    (metis snd_conv)

lemma clm_budget: "framed keeps_claims (checkBudget d c i)"
  unfolding checkBudget_def AllowAutomationMessage_def count_window_def
  by (auto intro!: clm.fr_basic clm_redis simp: Incr_def Expire_def
      split: sum.split option.split redis_value.split)

lemma clm_exec: "framed keeps_claims (exec_action d c task rule a)"
proof -
  have "framed keeps_claims (call_io f rc)" for f rc
    unfolding call_io_def by (intro clm.fr_then clm_ask) (simp add: framed_def modify_io_def keeps_claims_def)
  then show ?thesis unfolding exec_action_def Let_def
    by (intro clm.fr_if clm.fr_then clm.fr_throw clm_run_conv clm_budget) simp_all
qed

lemma clm_fire: "framed keeps_claims (fire d c task rule)"
  unfolding fire_def by (intro clm.fr_for clm.fr_bind clm.fr_try clm_exec clm_rule_log)

text \<open>The part of the world a rule's actions can change.\<close>

definition acted :: "rule_world \<Rightarrow> conversation list \<times> message list \<times> effect list \<times> rule_call list" where
  "acted w = (convs w, msgs w, effects w, rule_calls w)"

lemma acted_log: "acted (snd (rule_log_io d c task r a st sm w)) = acted w"
  by (auto simp: rule_log_io_def io_defs db_call_def acted_def tick_def new_id_def now_io_def
      split: option.split sum.split)

lemma eval_rule_claimed:
  assumes "reliable d" "rd_dedup d"
    and "rget (clk d (step w)) (dedupKey (et_TenantID task) (ar_ID rule) (et_EventID task)) (redis w) \<noteq> None"
  shows "acted (snd (eval_rule d c task live rule w)) = acted w"
proof -
  let ?k = "dedupKey (et_TenantID task) (ar_ID rule) (et_EventID task)"
  have "Allow d ?k w = (Inr False, (tick w)\<lparr>redis := redis w\<rparr>)"
    using assms by (simp add: Allow_def reliable_def redis_call_def SetNX_def io_defs)
  moreover have "acted ((tick w)\<lparr>redis := redis w\<rparr>) = acted w" by (simp add: acted_def tick_def)
  ultimately show ?thesis using assms(2) by (simp add: eval_rule_def bind_io_def acted_log)
qed

lemma dedupKey_r: "take 1 (dedupKey t r e) = ''r''"
  by (simp add: dedupKey_def)

lemma eval_rule_claims:
  assumes "reliable d" "rd_dedup d" "Matches (rd_lower d) live rule"
    and "rget (clk d (step w)) (dedupKey (et_TenantID task) (ar_ID rule) (et_EventID task)) (redis w) = None"
  shows "redis (snd (eval_rule d c task live rule w)) (dedupKey (et_TenantID task) (ar_ID rule) (et_EventID task))
     = Some \<lparr>re_Value = RString ''1'', re_Expires = Some (clk d (step w) + dedupWindow)\<rparr>"
proof -
  let ?k = "dedupKey (et_TenantID task) (ar_ID rule) (et_EventID task)"
  let ?w = "(tick w)\<lparr>redis := (redis w)(?k \<mapsto> \<lparr>re_Value = RString ''1'', re_Expires = Some (clk d (step w) + dedupWindow)\<rparr>)\<rparr>"
  have "Allow d ?k w = (Inr True, ?w)"
    using assms(1,4) by (simp add: Allow_def reliable_def redis_call_def SetNX_def io_defs)
  then have "eval_rule d c task live rule w = fire d c task rule ?w"
    using assms(2,3) by (simp add: eval_rule_def bind_io_def)
  moreover have "redis (snd (fire d c task rule ?w)) ?k = redis ?w ?k"
    using clm_fire [of d c task rule] dedupKey_r unfolding framed_def keeps_claims_def by blast
  ultimately show ?thesis by simp
qed

text \<open>
  C13: a retry of the task never runs a rule's actions again. With a working Redis, once a
  matching rule has been through the loop for an event, going through it again for the same
  event within the hour the claim lives, in whatever state that still holds the claim and
  whether or not the rule still matches, changes no conversation and no message and calls no
  port.
\<close>

theorem rule_fires_once_per_event:
  fixes task :: evaluate_task and rule :: automation_rule
  defines "k \<equiv> dedupKey (et_TenantID task) (ar_ID rule) (et_EventID task)"
  assumes "reliable d" "rd_dedup d" "Matches (rd_lower d) live rule"
    and "rget (clk d (step w)) k (redis w) = None"
    and "redis w' k = redis (snd (eval_rule d c task live rule w)) k"
    and "clk d (step w') < clk d (step w) + dedupWindow"
  shows "acted (snd (eval_rule d c' task live' rule w')) = acted w'"
  using eval_rule_claims [OF assms(2-4), of w task c] assms(5-7) unfolding k_def
  by (intro eval_rule_claimed [OF assms(2,3)]) (simp add: rget_def)

definition demo_rule_ec :: eval_context where
  "demo_rule_ec = \<lparr>ec_Status = StatusQueued, ec_Channel = ''whatsapp'', ec_AssignedAgentID = [], ec_SectorID = ''s1'',
     ec_QueueID = ''q1'', ec_Priority = PriorityNormal, ec_Tags = [''vip''], ec_ContactPhone = [],
     ec_MessageContent = [], ec_InteractiveReplyID = []\<rparr>"

theorem rule_fires_once_per_event_witness:
  "acted (snd (eval_rule demo_rule_deps demo_ctx demo_task demo_rule_ec (hd (rules demo_rules_world))
       ((snd (eval_rule demo_rule_deps demo_ctx demo_task demo_rule_ec (hd (rules demo_rules_world)) demo_rules_world))\<lparr>step := 9\<rparr>)))
   = acted ((snd (eval_rule demo_rule_deps demo_ctx demo_task demo_rule_ec (hd (rules demo_rules_world)) demo_rules_world))\<lparr>step := 9\<rparr>)"
  by (rule rule_fires_once_per_event [where live = demo_rule_ec and c = demo_ctx and w = demo_rules_world])
     (simp_all add: reliable_def demo_rule_deps_def Matches_def demo_rules_world_def rget_def dedupWindow_def
        Hour_def Minute_def Second_def)

section \<open>Order and matching\<close>

text \<open>
  The rules that fire are run in ascending priority, ties broken by creation time and then
  by identifier, and ordering neither loses nor invents a rule.
\<close>

theorem rules_run_in_order:
  "sorted (map rule_key (order_rules rs)) \<and> set (order_rules rs) = set rs \<and> length (order_rules rs) = length rs"
  by (simp add: order_rules_def)

lemma ops_distinct [simp]:
  "OpDoesNotContain \<noteq> OpContains" "OpContains \<noteq> OpDoesNotContain" "OpNotEqualTo \<noteq> OpEqualTo"
  "OpEqualTo \<noteq> OpNotEqualTo" "OpContains \<noteq> OpNotEqualTo" "OpDoesNotContain \<noteq> OpNotEqualTo"
  "OpNotEqualTo \<noteq> OpContains" "OpNotEqualTo \<noteq> OpDoesNotContain" "OpEqualTo \<noteq> OpContains"
  "OpEqualTo \<noteq> OpDoesNotContain" "OpContains \<noteq> OpEqualTo" "OpDoesNotContain \<noteq> OpEqualTo"
  by (simp_all add: op_defs)

lemma allowed_special [simp]:
  "allowedOperators FieldTags = [OpContains, OpDoesNotContain]"
  "allowedOperators FieldContactPhone = [OpEqualTo, OpContains]"
  "allowedOperators FieldMessageContent = [OpContains, OpDoesNotContain]"
  "allowedOperators FieldInteractiveReplyID = [OpEqualTo, OpNotEqualTo, OpContains, OpDoesNotContain]"
  by (simp_all add: allowedOperators_def field_defs)

lemma allowed_scalar:
  "f \<notin> {FieldTags, FieldContactPhone, FieldMessageContent, FieldInteractiveReplyID} \<Longrightarrow>
     set (allowedOperators f) \<subseteq> {OpEqualTo, OpNotEqualTo}"
  by (auto simp: allowedOperators_def)

lemma fields_distinct [simp]:
  "FieldTags \<noteq> FieldContactPhone" "FieldMessageContent \<noteq> FieldContactPhone" "FieldInteractiveReplyID \<noteq> FieldContactPhone"
  "FieldMessageContent \<noteq> FieldTags" "FieldInteractiveReplyID \<noteq> FieldTags" "FieldInteractiveReplyID \<noteq> FieldMessageContent"
  by (simp_all add: field_defs)

text \<open>
  On every field where both are allowed, the negative operator is the complement of the
  positive one, for any value and any conversation.
\<close>

theorem negative_operators_complement:
  assumes "(pos, neg) \<in> {(OpEqualTo, OpNotEqualTo), (OpContains, OpDoesNotContain)}"
    and "OperatorAllowed f pos" "OperatorAllowed f neg"
  shows "cond_match lower ec \<lparr>co_Field = f, co_Operator = neg, co_Value = v\<rparr>
     \<longleftrightarrow> \<not> cond_match lower ec \<lparr>co_Field = f, co_Operator = pos, co_Value = v\<rparr>"
proof -
  have phone: "f \<noteq> FieldContactPhone" using assms by (auto simp: OperatorAllowed_def)
  moreover have "pos = OpContains \<and> neg = OpDoesNotContain" if "f = FieldTags \<or> f = FieldMessageContent"
    using assms that by (auto simp: OperatorAllowed_def)
  moreover have "pos = OpEqualTo \<and> neg = OpNotEqualTo"
    if "f \<notin> {FieldTags, FieldMessageContent, FieldInteractiveReplyID}"
    using assms that phone allowed_scalar [of f] by (auto simp: OperatorAllowed_def)
  moreover have "(pos = OpEqualTo \<and> neg = OpNotEqualTo) \<or> (pos = OpContains \<and> neg = OpDoesNotContain)"
    using assms(1) by auto
  ultimately show ?thesis
    by (cases "f = FieldTags"; cases "f = FieldMessageContent"; cases "f = FieldInteractiveReplyID")
       (auto simp: cond_match_def Let_def)
qed

theorem negative_operators_complement_witness:
  "cond_match id demo_rule_ec \<lparr>co_Field = FieldTags, co_Operator = OpDoesNotContain, co_Value = ''gold''\<rparr>
     \<longleftrightarrow> \<not> cond_match id demo_rule_ec \<lparr>co_Field = FieldTags, co_Operator = OpContains, co_Value = ''gold''\<rparr>"
  by (rule negative_operators_complement)
     (simp_all add: OperatorAllowed_def)

end
