(* ===== verification/Redis_Lock.thy ===== *)
theory Redis_Lock
  imports Redis
begin

text \<open>
  The distributed lock as a protocol between processes, and the limiters. A process runs
  \<open>Acquire\<close>, works, and runs the release closure; it may also crash, Redis may fail on any
  call, and time passes between any two steps. \<open>checked\<close> says whether a process that did not
  get the lock stays out (routing, inbound) or works all the same (the rule evaluator).
\<close>

section \<open>The protocol\<close>

record lease =
  le_Key :: string
  le_Token :: string
  le_Until :: time

text \<open>A process is outside or inside its critical section, with the lease it was given, if any.\<close>

datatype phase = Outside | Inside string "lease option"

record lock_state =
  ls_now :: time
  ls_world :: ops_world
  ls_phase :: "nat \<Rightarrow> phase"
  ls_used :: "string set"

abbreviation ls_redis :: "lock_state \<Rightarrow> redis" where
  "ls_redis s \<equiv> redis (ls_world s)"

text \<open>The environment of one call: the server's time, the identifier drawn, the failures met.\<close>

definition call_env :: "time \<Rightarrow> string \<Rightarrow> (nat \<Rightarrow> string option) \<Rightarrow> env" where
  "call_env now token f = \<lparr>clk = (\<lambda>_. now), newid = (\<lambda>_. token), fault = f\<rparr>"

text \<open>
  What a client makes of \<open>Acquire\<close>'s answer: routing and inbound go on only with the lock, the
  rule evaluator goes on whatever the answer is.
\<close>

fun entered :: "bool \<Rightarrow> string \<Rightarrow> time \<Rightarrow> string option res \<Rightarrow> phase" where
  "entered checked key till (Inr (Some token)) = Inside key (Some \<lparr>le_Key = key, le_Token = token, le_Until = till\<rparr>)"
| "entered checked key till _ = (if checked then Outside else Inside key None)"

inductive lock_step :: "bool \<Rightarrow> lock_state \<Rightarrow> lock_state \<Rightarrow> bool" for checked :: bool where
  pass: "ls_now s \<le> t \<Longrightarrow> lock_step checked s (s\<lparr>ls_now := t\<rparr>)"
| attempt: "ls_phase s p = Outside \<Longrightarrow> token \<notin> ls_used s \<Longrightarrow>
    Acquire (call_env (ls_now s) token f) key ttl (ls_world s) = (r, w) \<Longrightarrow>
    lock_step checked s (s\<lparr>ls_world := w, ls_used := insert token (ls_used s),
      ls_phase := (ls_phase s)(p := entered checked key (ls_now s + ttl) r)\<rparr>)"
| leave: "ls_phase s p = Inside key (Some l) \<Longrightarrow>
    release (call_env (ls_now s) token f) (le_Key l) (le_Token l) (ls_world s) = (r, w) \<Longrightarrow>
    lock_step checked s (s\<lparr>ls_world := w, ls_phase := (ls_phase s)(p := Outside)\<rparr>)"
| leave_unowned: "ls_phase s p = Inside key None \<Longrightarrow>
    lock_step checked s (s\<lparr>ls_phase := (ls_phase s)(p := Outside)\<rparr>)"
| crash: "lock_step checked s (s\<lparr>ls_phase := (ls_phase s)(p := Outside)\<rparr>)"

definition lock_init :: "time \<Rightarrow> ops_world \<Rightarrow> lock_state" where
  "lock_init now w = \<lparr>ls_now = now, ls_world = w, ls_phase = (\<lambda>_. Outside), ls_used = {}\<rparr>"

inductive lock_reach :: "bool \<Rightarrow> lock_state \<Rightarrow> bool" for checked :: bool where
  init: "lock_reach checked (lock_init now w)"
| step: "lock_reach checked s \<Longrightarrow> lock_step checked s s' \<Longrightarrow> lock_reach checked s'"

definition in_lease :: "lock_state \<Rightarrow> nat \<Rightarrow> string \<Rightarrow> bool" where
  "in_lease s p key \<longleftrightarrow> (\<exists>l. ls_phase s p = Inside key (Some l) \<and> ls_now s < le_Until l)"

definition working :: "lock_state \<Rightarrow> nat \<Rightarrow> string \<Rightarrow> bool" where
  "working s p key \<longleftrightarrow> (\<exists>l. ls_phase s p = Inside key l)"

section \<open>Mutual exclusion\<close>

text \<open>
  The invariant: an unexpired lease is what the server stores under its key, leases of
  different processes carry different tokens, and every token in play has been drawn.
\<close>

definition lock_inv :: "lock_state \<Rightarrow> bool" where
  "lock_inv s \<longleftrightarrow>
     (\<forall>p key l. ls_phase s p = Inside key (Some l) \<longrightarrow> le_Key l = key \<and> le_Token l \<in> ls_used s
        \<and> (ls_now s < le_Until l \<longrightarrow>
             ls_redis s key = Some \<lparr>re_Value = RString (le_Token l), re_Expires = Some (le_Until l)\<rparr>))
   \<and> (\<forall>p q key key' l l'. ls_phase s p = Inside key (Some l) \<longrightarrow> ls_phase s q = Inside key' (Some l') \<longrightarrow>
        le_Token l = le_Token l' \<longrightarrow> p = q)"

lemma lock_invD:
  assumes "lock_inv s" "ls_phase s p = Inside key (Some l)"
  shows "le_Key l = key" "le_Token l \<in> ls_used s"
    "ls_now s < le_Until l \<Longrightarrow>
       ls_redis s key = Some \<lparr>re_Value = RString (le_Token l), re_Expires = Some (le_Until l)\<rparr>"
  using assms unfolding lock_inv_def by blast+

lemma lock_inv_token:
  "lock_inv s \<Longrightarrow> ls_phase s p = Inside key (Some l) \<Longrightarrow> ls_phase s q = Inside key' (Some l') \<Longrightarrow>
     le_Token l = le_Token l' \<Longrightarrow> p = q"
  unfolding lock_inv_def by blast

lemma lock_invI:
  assumes "\<And>p key l. ls_phase s p = Inside key (Some l) \<Longrightarrow> le_Key l = key \<and> le_Token l \<in> ls_used s"
    and "\<And>p key l. ls_phase s p = Inside key (Some l) \<Longrightarrow> ls_now s < le_Until l \<Longrightarrow>
       ls_redis s key = Some \<lparr>re_Value = RString (le_Token l), re_Expires = Some (le_Until l)\<rparr>"
    and "\<And>p q key key' l l'. ls_phase s p = Inside key (Some l) \<Longrightarrow> ls_phase s q = Inside key' (Some l') \<Longrightarrow>
       le_Token l = le_Token l' \<Longrightarrow> p = q"
  shows "lock_inv s"
  unfolding lock_inv_def using assms by blast

text \<open>
  The two calls. \<open>Acquire\<close> answers a token only when the key was free and now holds that token
  for the time asked; every other answer leaves the store alone. Releasing a token changes no
  entry but that token's.
\<close>

lemma Acquire_cases:
  assumes "Acquire (call_env now token f) key ttl w = (r, w')"
  obtains "r = Inr (Some token)" "rget now key (redis w) = None"
      "redis w' = (redis w)(key \<mapsto> \<lparr>re_Value = RString token, re_Expires = Some (now + ttl)\<rparr>)"
    | "\<nexists>t. r = Inr (Some t)" "redis w' = redis w"
  using assms
  by (auto simp: Acquire_def call_env_def redis_call_def SetNX_def io_defs new_id_def tick_def
      split: option.splits if_splits)

lemma release_keeps:
  assumes "release (call_env now t0 f) key token w = (x, w')"
    and "redis w k = Some e" "k \<noteq> key \<or> re_Value e \<noteq> RString token"
  shows "redis w' k = Some e"
  using assms
  by (auto simp: release_def call_env_def redis_call_def unlockScript_def rget_def io_defs
      split: option.splits if_splits)

lemma release_other: "release (call_env now t0 f) key token w = (x, w') \<Longrightarrow> k \<noteq> key \<Longrightarrow> redis w' k = redis w k"
  by (auto simp: release_def call_env_def redis_call_def unlockScript_def io_defs
      split: option.splits if_splits)

text \<open>A step that gives out no lease keeps the invariant if it keeps the live entries.\<close>

lemma inv_mono:
  assumes inv: "lock_inv s" and sub: "ls_used s \<subseteq> ls_used s'" "ls_now s \<le> ls_now s'"
    and ph: "\<And>p k l. ls_phase s' p = Inside k (Some l) \<Longrightarrow> ls_phase s p = Inside k (Some l)"
    and keep: "\<And>p k l. ls_phase s' p = Inside k (Some l) \<Longrightarrow> ls_now s' < le_Until l \<Longrightarrow> ls_redis s' k = ls_redis s k"
  shows "lock_inv s'"
proof (rule lock_invI)
  fix p k l assume p: "ls_phase s' p = Inside k (Some l)"
  show "le_Key l = k \<and> le_Token l \<in> ls_used s'" using lock_invD(1,2) [OF inv ph [OF p]] sub(1) by blast
  show "ls_redis s' k = Some \<lparr>re_Value = RString (le_Token l), re_Expires = Some (le_Until l)\<rparr>"
    if "ls_now s' < le_Until l"
    using lock_invD(3) [OF inv ph [OF p]] keep [OF p that] that sub(2) by simp
next
  fix p q k k' l l'
  assume "ls_phase s' p = Inside k (Some l)" "ls_phase s' q = Inside k' (Some l')" "le_Token l = le_Token l'"
  then show "p = q" by (intro lock_inv_token [OF inv ph ph])
qed

lemma inv_enter:
  assumes inv: "lock_inv s" and new: "token \<notin> ls_used s" and free: "rget (ls_now s) key (ls_redis s) = None"
    and w: "redis w = (ls_redis s)(key \<mapsto> \<lparr>re_Value = RString token, re_Expires = Some (ls_now s + ttl)\<rparr>)"
  shows "lock_inv (s\<lparr>ls_world := w, ls_used := insert token (ls_used s),
      ls_phase := (ls_phase s)(p := Inside key (Some \<lparr>le_Key = key, le_Token = token, le_Until = ls_now s + ttl\<rparr>))\<rparr>)"
    (is "lock_inv ?s'")
proof (rule lock_invI)
  fix q k l assume q: "ls_phase ?s' q = Inside k (Some l)"
  show "le_Key l = k \<and> le_Token l \<in> ls_used ?s'"
    using q lock_invD(1,2) [OF inv, of q k l] by (auto split: if_splits)
  show "ls_redis ?s' k = Some \<lparr>re_Value = RString (le_Token l), re_Expires = Some (le_Until l)\<rparr>"
    if live: "ls_now ?s' < le_Until l"
  proof (cases "q = p")
    case False
    then have old: "ls_redis s k = Some \<lparr>re_Value = RString (le_Token l), re_Expires = Some (le_Until l)\<rparr>"
      using q live lock_invD(3) [OF inv, of q k l] by simp
    with live free have "k \<noteq> key" by (auto simp: rget_def)
    with old show ?thesis by (simp add: w)
  qed (use q w in auto)
next
  fix q q' k k' l l'
  assume "ls_phase ?s' q = Inside k (Some l)" "ls_phase ?s' q' = Inside k' (Some l')" "le_Token l = le_Token l'"
  then show "q = q'"
    using lock_inv_token [OF inv, of q k l q' k' l'] lock_invD(2) [OF inv, of q k l] lock_invD(2) [OF inv, of q' k' l'] new
    by (auto split: if_splits)
qed

lemma entered_refused: "\<nexists>t. r = Inr (Some t) \<Longrightarrow> entered checked key till r \<noteq> Inside k (Some l)"
  by (cases "(checked, key, till, r)" rule: entered.cases) auto

lemma inv_attempt:
  assumes inv: "lock_inv s" and "token \<notin> ls_used s"
    and "Acquire (call_env (ls_now s) token f) key ttl (ls_world s) = (r, w)"
  shows "lock_inv (s\<lparr>ls_world := w, ls_used := insert token (ls_used s),
      ls_phase := (ls_phase s)(p := entered checked key (ls_now s + ttl) r)\<rparr>)"
  using assms(3)
proof (cases rule: Acquire_cases)
  case 1
  then show ?thesis using inv_enter [OF inv assms(2)] by simp
next
  case 2
  show ?thesis
    by (rule inv_mono [OF inv]) (use 2 entered_refused in \<open>auto split: if_splits\<close>)
qed

lemma inv_leave:
  assumes inv: "lock_inv s" and p: "ls_phase s p = Inside key (Some l)"
    and r: "release (call_env (ls_now s) t0 f) (le_Key l) (le_Token l) (ls_world s) = (r, w)"
  shows "lock_inv (s\<lparr>ls_world := w, ls_phase := (ls_phase s)(p := Outside)\<rparr>)" (is "lock_inv ?s'")
proof (rule inv_mono [OF inv])
  fix q k m assume q: "ls_phase ?s' q = Inside k (Some m)" and live: "ls_now ?s' < le_Until m"
  then have q': "q \<noteq> p" "ls_phase s q = Inside k (Some m)" by (auto split: if_splits)
  then have "le_Token m \<noteq> le_Token l" using lock_inv_token [OF inv q'(2) p] by blast
  then show "ls_redis ?s' k = ls_redis s k"
    using release_keeps [OF r lock_invD(3) [OF inv q'(2)]] lock_invD(3) [OF inv q'(2)] live by simp
qed (auto split: if_splits)

lemma lock_step_inv: "lock_step checked s s' \<Longrightarrow> lock_inv s \<Longrightarrow> lock_inv s'"
proof (induction rule: lock_step.induct)
  case (pass s t)
  show ?case by (rule inv_mono [OF pass(2)]) (use pass(1) in auto)
next
  case (attempt s p token f key ttl r w)
  show ?case by (rule inv_attempt [OF attempt(4,2,3)])
next
  case (leave s p key l t0 f r w)
  then show ?case by (intro inv_leave)
next
  case (leave_unowned s p key)
  show ?case by (rule inv_mono [OF leave_unowned(2)]) (auto split: if_splits)
next
  case (crash s p)
  show ?case by (rule inv_mono [OF crash]) (auto split: if_splits)
qed

lemma lock_reach_inv: "lock_reach checked s \<Longrightarrow> lock_inv s"
proof (induction rule: lock_reach.induct)
  case init
  show ?case by (rule lock_invI) (simp_all add: lock_init_def)
qed (rule lock_step_inv)

lemma in_lease_alone: "lock_inv s \<Longrightarrow> in_lease s p key \<Longrightarrow> in_lease s q key \<Longrightarrow> p = q"
  using lock_invD(3) lock_inv_token unfolding in_lease_def
  by (metis option.inject redis_entry.ext_inject redis_value.inject(1))

lemma in_lease_held: "lock_inv s \<Longrightarrow> in_lease s p key \<Longrightarrow> rget (ls_now s) key (ls_redis s) \<noteq> None"
  using lock_invD(3) by (fastforce simp: in_lease_def rget_def)

text \<open>
  C14: the lock excludes. In every state that runs of \<open>Acquire\<close> and of its release closure lead
  to, whatever processes acquired, released, crashed or let their lease run out and whatever
  calls Redis failed, at most one process is inside its critical section for a key with an
  unexpired lease, and while there is one, \<open>Acquire\<close> gives the key to nobody.
\<close>

theorem lock_mutual_exclusion:
  assumes "lock_reach checked s" "in_lease s p key"
  shows "(\<forall>q. in_lease s q key \<longrightarrow> q = p)
     \<and> (\<forall>token f ttl t. fst (Acquire (call_env (ls_now s) token f) key ttl (ls_world s)) \<noteq> Inr (Some t))"
proof -
  note inv = lock_reach_inv [OF assms(1)]
  have "fst (Acquire (call_env (ls_now s) token f) key ttl (ls_world s)) \<noteq> Inr (Some t)" for token f ttl t
  proof (cases "Acquire (call_env (ls_now s) token f) key ttl (ls_world s)" rule: prod.exhaust)
    case (Pair r w)
    then show ?thesis
      by (cases rule: Acquire_cases) (use in_lease_held [OF inv assms(2)] Pair in auto)
  qed
  then show ?thesis using in_lease_alone [OF inv _ assms(2)] by blast
qed

definition demo_ops :: ops_world where
  "demo_ops = \<lparr>step = 0, convs = [], msgs = [], cevents = [], chans = [], sectors = [], effects = [], redis = Map.empty\<rparr>"

text \<open>One process has taken the lock of a key for fifteen units of time.\<close>

definition demo_locked :: "string \<Rightarrow> lock_state" where
  "demo_locked key = \<lparr>ls_now = 0,
     ls_world = demo_ops\<lparr>step := 2, redis := [key \<mapsto> \<lparr>re_Value = RString ''a'', re_Expires = Some 15\<rparr>]\<rparr>,
     ls_phase = (\<lambda>_. Outside)(0 := Inside key (Some \<lparr>le_Key = key, le_Token = ''a'', le_Until = 15\<rparr>)),
     ls_used = {''a''}\<rparr>"

lemma demo_locked_reach: "lock_reach checked (demo_locked key)"
proof -
  have "Acquire (call_env 0 ''a'' (\<lambda>_. None)) key 15 demo_ops = (Inr (Some ''a''), ls_world (demo_locked key))"
    by (simp add: Acquire_def call_env_def redis_call_def SetNX_def rget_def io_defs new_id_def tick_def
        demo_locked_def demo_ops_def)
  then have "lock_step checked (lock_init 0 demo_ops) (demo_locked key)"
    using lock_step.attempt [of "lock_init 0 demo_ops" 0 "''a''" "\<lambda>_. None" key 15 "Inr (Some ''a'')" "ls_world (demo_locked key)" checked]
    by (simp add: lock_init_def demo_locked_def)
  then show ?thesis using lock_reach.init lock_reach.step by blast
qed

theorem lock_mutual_exclusion_witness:
  "in_lease (demo_locked ''k'') 0 ''k'' \<and> \<not> in_lease (demo_locked ''k'') 1 ''k''
   \<and> fst (Acquire (call_env 0 ''b'' (\<lambda>_. None)) ''k'' 15 (ls_world (demo_locked ''k''))) \<noteq> Inr (Some ''b'')"
proof -
  have in0: "in_lease (demo_locked ''k'') 0 ''k''" by (simp add: in_lease_def demo_locked_def)
  have "ls_now (demo_locked ''k'') = 0" by (simp add: demo_locked_def)
  then show ?thesis using lock_mutual_exclusion [OF demo_locked_reach [of True] in0] in0 by fastforce
qed

text \<open>
  A late release is harmless. Whatever a process holds, running its release closure leaves
  every other key alone and never deletes the entry of a process whose lease is unexpired.
\<close>

theorem release_spares_others:
  assumes "lock_reach checked s" and "ls_phase s p = Inside key (Some l)"
    and "release (call_env (ls_now s) t0 f) (le_Key l) (le_Token l) (ls_world s) = (r, w)"
  shows "(\<forall>k. k \<noteq> key \<longrightarrow> redis w k = ls_redis s k)
     \<and> (\<forall>q k. q \<noteq> p \<longrightarrow> in_lease s q k \<longrightarrow> redis w k = ls_redis s k)"
proof -
  note inv = lock_reach_inv [OF assms(1)]
  have "redis w k = ls_redis s k" if "q \<noteq> p" "in_lease s q k" for q k
  proof -
    obtain m where m: "ls_phase s q = Inside k (Some m)" "ls_now s < le_Until m"
      using \<open>in_lease s q k\<close> by (auto simp: in_lease_def)
    then have "le_Token m \<noteq> le_Token l" using lock_inv_token [OF inv m(1) assms(2)] \<open>q \<noteq> p\<close> by blast
    then show ?thesis using release_keeps [OF assms(3) lock_invD(3) [OF inv m]] lock_invD(3) [OF inv m] by simp
  qed
  then show ?thesis using release_other [OF assms(3)] lock_invD(1) [OF inv assms(2)] by blast
qed

theorem release_spares_others_witness:
  "redis (snd (release (call_env 0 [] (\<lambda>_. None)) ''k'' ''a'' (ls_world (demo_locked ''k'')))) ''other''
     = ls_redis (demo_locked ''k'') ''other''"
proof -
  obtain r w where run: "release (call_env 0 [] (\<lambda>_. None)) ''k'' ''a'' (ls_world (demo_locked ''k'')) = (r, w)"
    by (cases "release (call_env 0 [] (\<lambda>_. None)) ''k'' ''a'' (ls_world (demo_locked ''k''))")
  then have "redis w ''other'' = ls_redis (demo_locked ''k'') ''other''"
    using release_spares_others [OF demo_locked_reach [of True "''k''"], of 0 "''k''"
        "\<lparr>le_Key = ''k'', le_Token = ''a'', le_Until = 15\<rparr>" "[]" "\<lambda>_. None" r w]
    by (simp add: demo_locked_def)
  then show ?thesis by (simp add: run)
qed

text \<open>
  A client that ignores whether it was given the lock is not serialized by it. The rule
  evaluator drops the \<open>acquired\<close> result, so two evaluations of one conversation can be at
  work at the same time although the lease of the first one is unexpired.
\<close>

theorem unchecked_lock_does_not_serialize:
  "\<exists>s. lock_reach False s \<and> working s 0 key \<and> working s 1 key \<and> in_lease s 0 key"
proof -
  let ?s = "demo_locked key"
  obtain r w where acq: "Acquire (call_env (ls_now ?s) ''b'' (\<lambda>_. None)) key 15 (ls_world ?s) = (r, w)"
    by (cases "Acquire (call_env (ls_now ?s) ''b'' (\<lambda>_. None)) key 15 (ls_world ?s)")
  then have "entered False key 15 r = Inside key None"
    by (auto simp: Acquire_def call_env_def redis_call_def SetNX_def io_defs new_id_def tick_def demo_locked_def)
  then have "lock_step False ?s (?s\<lparr>ls_world := w, ls_used := {''b'', ''a''},
      ls_phase := (ls_phase ?s)(1 := Inside key None)\<rparr>)" (is "lock_step False ?s ?s2")
    using lock_step.attempt [OF _ _ acq, of 1 False] by (simp add: demo_locked_def)
  then have "lock_reach False ?s2" using demo_locked_reach lock_reach.step by blast
  moreover have "working ?s2 0 key \<and> working ?s2 1 key \<and> in_lease ?s2 0 key"
    by (simp add: working_def in_lease_def demo_locked_def)
  ultimately show ?thesis by blast
qed

section \<open>The limiters\<close>

text \<open>A caller that asks \<open>n\<close> times in a row.\<close>

primrec ask_times :: "nat \<Rightarrow> ('w, bool) io \<Rightarrow> ('w, bool list) io" where
  "ask_times 0 m = return_io []"
| "ask_times (Suc n) m = bind_io m (\<lambda>b. bind_io (ask_times n m) (\<lambda>bs. return_io (b # bs)))"

text \<open>Once the counter is armed, a call adds one and keeps the expiry.\<close>

lemma count_window_armed:
  assumes "fault d (step w) = None" "redis w key = Some \<lparr>re_Value = RCounter m, re_Expires = x\<rparr>" "0 < m"
    and "alive (clk d (step w)) \<lparr>re_Value = RCounter m, re_Expires = x\<rparr>"
  shows "count_window d key window cap w = (Inr (m + 1 \<le> cap),
     (tick w)\<lparr>redis := (redis w)(key \<mapsto> \<lparr>re_Value = RCounter (m + 1), re_Expires = x\<rparr>)\<rparr>)"
  using assms by (simp add: count_window_def redis_call_def Incr_def rget_def io_defs)

lemma ask_times_armed:
  assumes "\<And>i. step w \<le> i \<Longrightarrow> i < step w + n \<Longrightarrow> fault d i = None"
    and "\<And>i v. step w \<le> i \<Longrightarrow> i < step w + n \<Longrightarrow> alive (clk d i) \<lparr>re_Value = v, re_Expires = x\<rparr>"
    and "redis w key = Some \<lparr>re_Value = RCounter (int m), re_Expires = x\<rparr>" "0 < m"
  shows "fst (ask_times n (count_window d key window cap) w) = Inr (map (\<lambda>i. int i \<le> cap) [Suc m..<Suc (m + n)])"
  using assms
proof (induction n arbitrary: w m)
  case (Suc n)
  let ?w = "(tick w)\<lparr>redis := (redis w)(key \<mapsto> \<lparr>re_Value = RCounter (int m + 1), re_Expires = x\<rparr>)\<rparr>"
  have one: "count_window d key window cap w = (Inr (int m + 1 \<le> cap), ?w)"
    using Suc.prems by (intro count_window_armed) auto
  have step: "step ?w = Suc (step w)" by simp
  have "fst (ask_times n (count_window d key window cap) ?w) = Inr (map (\<lambda>i. int i \<le> cap) [Suc (Suc m)..<Suc (Suc m + n)])"
    by (rule Suc.IH) (use Suc.prems(1,2) step in auto)
  then show ?case using one upt_conv_Cons [of "Suc m" "Suc (m + Suc n)"]
    by (auto simp: bind_io_def return_io_def add.commute split: prod.split sum.split)
qed (simp add: return_io_def)

lemma count_window_first:
  assumes "fault d (step w) = None" "rget (clk d (step w)) key (redis w) = None"
  shows "count_window d key window cap w = (Inr (1 \<le> cap), (tick (tick w))\<lparr>redis := (redis w)(key \<mapsto>
     \<lparr>re_Value = RCounter 1, re_Expires = (case fault d (Suc (step w)) of
        None \<Rightarrow> Some (clk d (Suc (step w)) + window) | Some _ \<Rightarrow> None)\<rparr>)\<rparr>)"
  using assms by (auto simp: count_window_def redis_call_def Incr_def Expire_def io_defs tick_def split: option.split)

lemma ask_times_first:
  assumes "fault d (step w) = None" "rget (clk d (step w)) key (redis w) = None"
    and "\<And>i. Suc (step w) < i \<Longrightarrow> i < Suc (step w + n) \<Longrightarrow> fault d i = None"
    and "\<And>i v. Suc (step w) < i \<Longrightarrow> i < Suc (step w + n) \<Longrightarrow> alive (clk d i) \<lparr>re_Value = v, re_Expires =
        (case fault d (Suc (step w)) of None \<Rightarrow> Some (clk d (Suc (step w)) + window) | Some _ \<Rightarrow> None)\<rparr>"
  shows "fst (ask_times n (count_window d key window cap) w) = Inr (map (\<lambda>i. int i \<le> cap) [1..<Suc n])"
proof (cases n)
  case (Suc k)
  let ?x = "case fault d (Suc (step w)) of None \<Rightarrow> Some (clk d (Suc (step w)) + window) | Some _ \<Rightarrow> None"
  let ?w = "(tick (tick w))\<lparr>redis := (redis w)(key \<mapsto> \<lparr>re_Value = RCounter (int 1), re_Expires = ?x\<rparr>)\<rparr>"
  have one: "count_window d key window cap w = (Inr (1 \<le> cap), ?w)"
    using count_window_first [OF assms(1,2), of window cap] by simp
  have step: "step ?w = Suc (Suc (step w))" by simp
  have "fst (ask_times k (count_window d key window cap) ?w) = Inr (map (\<lambda>i. int i \<le> cap) [Suc 1..<Suc (1 + k)])"
    by (rule ask_times_armed) (use assms(3,4) Suc step in auto)
  then show ?thesis using one Suc upt_conv_Cons [of 1 "Suc n"]
    by (auto simp: bind_io_def return_io_def split: prod.split sum.split)
qed (simp add: return_io_def)

text \<open>
  The limiters let exactly the first \<open>cap\<close> calls of a window through. With a reachable
  Redis, when a key's window is over and \<open>n\<close> calls follow within the window that the first
  of them opens, the i-th is allowed if and only if i is at most the cap.
\<close>

theorem limiter_caps_a_window:
  assumes "\<forall>i. fault d i = None" and "rget (clk d (step w)) key (redis w) = None"
    and "\<forall>i. Suc (step w) < i \<and> i < Suc (step w + n) \<longrightarrow> clk d i < clk d (Suc (step w)) + window"
  shows "fst (ask_times n (count_window d key window cap) w) = Inr (map (\<lambda>i. int i \<le> cap) [1..<Suc n])"
  by (rule ask_times_first) (use assms in auto)

definition demo_env :: "(nat \<Rightarrow> string option) \<Rightarrow> env" where
  "demo_env f = \<lparr>clk = (\<lambda>n. int n), newid = (\<lambda>n. CHR ''n'' # replicate n CHR ''1''), fault = f\<rparr>"

theorem limiter_caps_a_window_witness:
  "fst (ask_times 4 (count_window (demo_env (\<lambda>_. None)) ''k'' 100 2) demo_ops) = Inr [True, True, False, False]"
  using limiter_caps_a_window [of "demo_env (\<lambda>_. None)" demo_ops "''k''" 4 100 2]
  by (simp add: demo_env_def demo_ops_def rget_def upt_rec)

text \<open>
  C15: one lost \<open>EXPIRE\<close> closes a limiter for good. Its error is dropped, so the counter
  stays without an expiry: from then on, with Redis working again and however much time goes
  by (nothing is assumed of the clock), every call after the first \<open>cap\<close> is refused.
\<close>

theorem lost_expire_blocks_forever:
  assumes "fault d (step w) = None" "fault d (Suc (step w)) \<noteq> None" "\<forall>i > Suc (step w). fault d i = None"
    and "rget (clk d (step w)) key (redis w) = None"
  shows "fst (ask_times n (count_window d key window cap) w) = Inr (map (\<lambda>i. int i \<le> cap) [1..<Suc n])"
  by (rule ask_times_first) (use assms in auto)

theorem lost_expire_blocks_forever_witness:
  "fst (ask_times 5 (count_window (demo_env (\<lambda>n. if n = 1 then Some ''eof'' else None)) ''k'' 1 2) demo_ops)
     = Inr [True, True, False, False, False]"
  using lost_expire_blocks_forever [of "demo_env (\<lambda>n. if n = 1 then Some ''eof'' else None)" demo_ops "''k''" 5 1 2]
  by (simp add: demo_env_def demo_ops_def rget_def upt_rec)

end
