(* ===== verification/Presence.thy ===== *)
theory Presence
  imports Redis Conv_Rules
begin

text \<open>
  \<open>domain/presence\<close> and its Redis store (\<open>infra/presence/store.go\<close>), with what it uses of
  \<open>domain/iam\<close>: the agents, their durable availability, the sockets they hold open and the
  effective status that routing reads. The load counter
  (\<open>infra/database/mongodb/repositories/presence\<close>) derives an agent's load from the
  conversations collection.
\<close>

section \<open>Users and queues\<close>

record user =
  us_ID :: ident
  us_TenantID :: ident
  us_Name :: string
  us_Email :: string
  us_Status :: string
  us_RoleIDs :: "ident list"
  us_SectorIDs :: "ident list"
  us_MaxConcurrentChats :: int
  us_PresenceAvailability :: string
  us_AutoOffline :: "bool option"

definition UserActive :: string where "UserActive = ''active''"

definition IsActive :: "user \<Rightarrow> bool" where
  "IsActive u \<longleftrightarrow> us_Status u = UserActive"

definition AvailabilityOr :: "user \<Rightarrow> string" where
  "AvailabilityOr u = (if trim_space (us_PresenceAvailability u) = [] then ''online'' else us_PresenceAvailability u)"

definition AutoOfflineOr :: "user \<Rightarrow> bool" where
  "AutoOfflineOr u = (case us_AutoOffline u of None \<Rightarrow> True | Some b \<Rightarrow> b)"

definition NormalizeSectorIDs :: "string list \<Rightarrow> ident list" where
  "NormalizeSectorIDs ids = keep_first (\<lambda>i. i \<noteq> []) {} (map trim_space ids)"

record queue =
  qu_ID :: ident
  qu_TenantID :: ident
  qu_SectorID :: ident
  qu_Name :: string
  qu_Strategy :: string
  qu_MaxWaitSeconds :: int
  qu_Enabled :: bool

section \<open>Presence\<close>

definition PresenceOffline :: string where "PresenceOffline = ''offline''"
definition PresenceOnline :: string where "PresenceOnline = ''online''"
definition PresenceAvailable :: string where "PresenceAvailable = ''available''"

definition CanReceive :: "string \<Rightarrow> bool" where
  "CanReceive s \<longleftrightarrow> s = PresenceOnline \<or> s = PresenceAvailable"

definition AvailabilityOnline :: string where "AvailabilityOnline = ''online''"
definition AvailabilityAway :: string where "AvailabilityAway = ''away''"
definition AvailabilityOffline :: string where "AvailabilityOffline = ''offline''"

definition ResolveEffective :: "string \<Rightarrow> bool \<Rightarrow> bool \<Rightarrow> string" where
  "ResolveEffective availability autoOffline hasLiveSocket =
    (if availability = AvailabilityOffline then PresenceOffline
     else if availability = AvailabilityOnline \<or> availability = [] then
       (if hasLiveSocket then PresenceOnline else if autoOffline then PresenceOffline else PresenceOnline)
     else availability)"

record agent_presence =
  ap_TenantID :: ident
  ap_UserID :: ident
  ap_Status :: string
  ap_Availability :: string
  ap_AutoOffline :: bool
  ap_CurrentLoad :: int
  ap_MaxConcurrentChats :: int
  ap_LastSeenAt :: time

definition HasCapacity :: "agent_presence \<Rightarrow> bool" where
  "HasCapacity p \<longleftrightarrow> ap_MaxConcurrentChats p \<le> 0 \<or> ap_CurrentLoad p < ap_MaxConcurrentChats p"

section \<open>The store\<close>

text \<open>
  The connection set of an agent is a sorted set: client identifiers with the millisecond
  they were last seen, and the instant the whole key expires. The presence hash and the
  roster of a tenant do not expire.
\<close>

type_synonym conn_set = "(ident \<times> int) list \<times> time"

record team_world = ops_world +
  users :: "user list"
  queues :: "queue list"
  presences :: "ident \<times> ident \<rightharpoonup> agent_presence"
  roster :: "(ident \<times> ident) list"
  conns :: "ident \<times> ident \<rightharpoonup> conn_set"

definition presenceTTL :: duration where "presenceTTL = 60 * Second"
definition UnixMilli :: "time \<Rightarrow> int" where "UnixMilli t = t div 1000000"

definition presence_call :: "'e env_scheme \<Rightarrow> (time \<Rightarrow> ('z team_world_scheme, 'a) io) \<Rightarrow> ('z team_world_scheme, 'a) io" where
  "presence_call d m = (\<lambda>w. case fault d (step w) of
     Some e \<Rightarrow> (Inl (Wrap (Internal ''presence store error'') (PlainError e)), tick w)
   | None \<Rightarrow> m (clk d (step w)) (tick w))"

text \<open>The members of a connection set that has not expired.\<close>

definition members :: "time \<Rightarrow> ident \<times> ident \<Rightarrow> 'z team_world_scheme \<Rightarrow> (ident \<times> int) list" where
  "members now k w = (case conns w k of Some (ms, x) \<Rightarrow> if now < x then ms else [] | None \<Rightarrow> [])"

definition zadd_expire :: "'e env_scheme \<Rightarrow> ident \<times> ident \<Rightarrow> int \<Rightarrow> ident \<Rightarrow> ('z team_world_scheme, unit) io" where
  "zadd_expire d k score client = presence_call d (\<lambda>now. modify_io (\<lambda>w. w\<lparr>conns := (conns w)(k \<mapsto>
     (filter (\<lambda>m. fst m \<noteq> client) (members now k w) @ [(client, score)], now + presenceTTL))\<rparr>))"

text \<open>Removing members keeps the key's expiry; an empty sorted set does not exist.\<close>

definition zfilter :: "'e env_scheme \<Rightarrow> ident \<times> ident \<Rightarrow> (ident \<times> int \<Rightarrow> bool) \<Rightarrow> ('z team_world_scheme, unit) io" where
  "zfilter d k keep = presence_call d (\<lambda>now. modify_io (\<lambda>w. w\<lparr>conns := (conns w)(k :=
     (case conns w k of None \<Rightarrow> None
      | Some (ms, x) \<Rightarrow> if filter keep (members now k w) = [] then None else Some (filter keep (members now k w), x)))\<rparr>))"

definition zcard :: "'e env_scheme \<Rightarrow> ident \<times> ident \<Rightarrow> ('z team_world_scheme, nat) io" where
  "zcard d k = presence_call d (\<lambda>now. gets_io (\<lambda>w. length (members now k w)))"

definition prune :: "'e env_scheme \<Rightarrow> ident \<times> ident \<Rightarrow> ('z team_world_scheme, unit) io" where
  "prune d k = bind_io (now_io d) (\<lambda>now.
     ignore_io (zfilter d k (\<lambda>m. UnixMilli (now - presenceTTL) \<le> snd m)))"

text \<open>\<open>n, _ := ZCard\<close>: an error reads as zero.\<close>

definition zcard0 :: "'e env_scheme \<Rightarrow> ident \<times> ident \<Rightarrow> ('z team_world_scheme, nat) io" where
  "zcard0 d k = bind_io (try_io (zcard d k)) (\<lambda>r. return_io (case r of Inr n \<Rightarrow> n | Inl _ \<Rightarrow> 0))"

definition Connect :: "'e env_scheme \<Rightarrow> ctx \<Rightarrow> ident \<Rightarrow> ident \<Rightarrow> ('z team_world_scheme, bool) io" where
  "Connect d c userID clientID = bind_io (lift_res (RequireTenant c)) (\<lambda>t.
     then_io (prune d (t, userID)) (bind_io (zcard0 d (t, userID)) (\<lambda>before.
     bind_io (now_io d) (\<lambda>now.
     then_io (zadd_expire d (t, userID) (UnixMilli now) clientID) (return_io (before = 0))))))"

definition store_Heartbeat :: "'e env_scheme \<Rightarrow> ctx \<Rightarrow> ident \<Rightarrow> ident \<Rightarrow> ('z team_world_scheme, unit) io" where
  "store_Heartbeat d c userID clientID = bind_io (lift_res (RequireTenant c)) (\<lambda>t.
     bind_io (now_io d) (\<lambda>now. zadd_expire d (t, userID) (UnixMilli now) clientID))"

definition Disconnect :: "'e env_scheme \<Rightarrow> ctx \<Rightarrow> ident \<Rightarrow> ident \<Rightarrow> ('z team_world_scheme, bool) io" where
  "Disconnect d c userID clientID = bind_io (lift_res (RequireTenant c)) (\<lambda>t.
     then_io (zfilter d (t, userID) (\<lambda>m. fst m \<noteq> clientID))
     (then_io (prune d (t, userID)) (bind_io (zcard0 d (t, userID)) (\<lambda>n.
       if n = 0 then then_io (ignore_io (presence_call d (\<lambda>_. modify_io (\<lambda>w. w\<lparr>conns := (conns w)((t, userID) := None)\<rparr>))))
         (return_io True)
       else return_io False))))"

definition HasLiveSocket :: "'e env_scheme \<Rightarrow> ctx \<Rightarrow> ident \<Rightarrow> ('z team_world_scheme, bool) io" where
  "HasLiveSocket d c userID = bind_io (lift_res (RequireTenant c)) (\<lambda>t.
     then_io (prune d (t, userID)) (bind_io (zcard d (t, userID)) (\<lambda>n. return_io (n > 0))))"

text \<open>\<open>last_seen_at\<close> is stored in milliseconds.\<close>

definition Save :: "'e env_scheme \<Rightarrow> ctx \<Rightarrow> agent_presence \<Rightarrow> ('z team_world_scheme, unit) io" where
  "Save d c p = bind_io (lift_res (RequireTenant c)) (\<lambda>t. presence_call d (\<lambda>_. modify_io (\<lambda>w. w\<lparr>
     presences := (presences w)((t, ap_UserID p) \<mapsto> p\<lparr>ap_LastSeenAt := UnixMilli (ap_LastSeenAt p) * 1000000\<rparr>),
     roster := (if (t, ap_UserID p) \<in> set (roster w) then roster w else roster w @ [(t, ap_UserID p)])\<rparr>)))"

definition Remove :: "'e env_scheme \<Rightarrow> ctx \<Rightarrow> ident \<Rightarrow> ('z team_world_scheme, unit) io" where
  "Remove d c userID = bind_io (lift_res (RequireTenant c)) (\<lambda>t. presence_call d (\<lambda>_. modify_io (\<lambda>w. w\<lparr>
     presences := (presences w)((t, userID) := None), conns := (conns w)((t, userID) := None),
     roster := removeAll (t, userID) (roster w)\<rparr>)))"

text \<open>Reading a hash back: the identity comes from the key, an empty status is offline.\<close>

definition fromFields :: "ident \<Rightarrow> ident \<Rightarrow> agent_presence \<Rightarrow> agent_presence" where
  "fromFields t u p = p\<lparr>ap_TenantID := t, ap_UserID := u,
     ap_Status := (if ap_Status p = [] then PresenceOffline else ap_Status p)\<rparr>"

definition presence_Get :: "'e env_scheme \<Rightarrow> ctx \<Rightarrow> ident \<Rightarrow> ('z team_world_scheme, agent_presence) io" where
  "presence_Get d c userID = bind_io (lift_res (RequireTenant c)) (\<lambda>t. presence_call d (\<lambda>_ w.
     case presences w (t, userID) of
       None \<Rightarrow> (Inl (NotFound ''presence not found''), w) | Some p \<Rightarrow> (Inr (fromFields t userID p), w)))"

definition store_List :: "'e env_scheme \<Rightarrow> ctx \<Rightarrow> ('z team_world_scheme, agent_presence list) io" where
  "store_List d c = bind_io (lift_res (RequireTenant c)) (\<lambda>t.
     bind_io (presence_call d (\<lambda>_. gets_io (\<lambda>w. map snd (filter (\<lambda>k. fst k = t) (roster w))))) (\<lambda>ids.
     fold_io (\<lambda>out uid. bind_io (try_io (presence_call d (\<lambda>_. gets_io (\<lambda>w. presences w (t, uid))))) (\<lambda>r.
       return_io (case r of Inr (Some p) \<Rightarrow> out @ [fromFields t uid p] | _ \<Rightarrow> out))) [] ids))"

section \<open>Load\<close>

definition openStatuses :: "string list" where
  "openStatuses = [''open'', ''assigned'', ''pending'']"

definition counts_as_load :: "ident \<Rightarrow> ident \<Rightarrow> conversation \<Rightarrow> bool" where
  "counts_as_load t u cv \<longleftrightarrow> cv_TenantID cv = t \<and> cv_AssignedTo cv = u \<and> cv_Status cv \<in> set openStatuses"

definition CountOpenAssigned :: "'e env_scheme \<Rightarrow> ctx \<Rightarrow> ident \<Rightarrow> ('z conv_world_scheme, int) io" where
  "CountOpenAssigned d c userID = conv_query d c (\<lambda>t cs. Inr (count_docs (counts_as_load t userID) cs))"

text \<open>The aggregation groups by assignee; an absent key reads as zero in Go.\<close>

definition OpenAssignedLoads :: "'e env_scheme \<Rightarrow> ctx \<Rightarrow> ('z conv_world_scheme, ident \<Rightarrow> int) io" where
  "OpenAssignedLoads d c = conv_query d c (\<lambda>t cs. Inr (\<lambda>u. if u = [] then 0 else count_docs (counts_as_load t u) cs))"

section \<open>Users of the tenant\<close>

definition user_by_id :: "ident \<Rightarrow> ident \<Rightarrow> user \<Rightarrow> bool" where
  "user_by_id t i u \<longleftrightarrow> us_ID u = i \<and> us_TenantID u = t"

definition user_FindByID :: "'e env_scheme \<Rightarrow> ctx \<Rightarrow> ident \<Rightarrow> ('z team_world_scheme, user) io" where
  "user_FindByID d c i = bind_io (lift_res (RequireTenant c)) (\<lambda>t.
     db_call d (\<lambda>w. (map_err (find_one (user_by_id t i) (users w)), w)))"

definition ListBySector :: "'e env_scheme \<Rightarrow> ctx \<Rightarrow> ident \<Rightarrow> ('z team_world_scheme, user list) io" where
  "ListBySector d c sectorID = bind_io (lift_res (RequireTenant c)) (\<lambda>t.
     db_call d (gets_io (\<lambda>w. take 1000 (filter (\<lambda>u. us_TenantID u = t \<and> sectorID \<in> set (us_SectorIDs u)
        \<and> us_Status u = UserActive) (users w)))))"

definition SetPresenceSettings ::
  "'e env_scheme \<Rightarrow> ctx \<Rightarrow> ident \<Rightarrow> string option \<Rightarrow> bool option \<Rightarrow> ('z team_world_scheme, unit) io" where
  "SetPresenceSettings d c userID availability autoOffline = bind_io (lift_res (RequireTenant c)) (\<lambda>t.
     if availability = None \<and> autoOffline = None then return_io ()
     else db_call d (\<lambda>w. case update_one (user_by_id t userID)
          (\<lambda>u. u\<lparr>us_PresenceAvailability := (case availability of Some a \<Rightarrow> a | None \<Rightarrow> us_PresenceAvailability u),
                us_AutoOffline := (case autoOffline of Some b \<Rightarrow> Some b | None \<Rightarrow> us_AutoOffline u)\<rparr>) (users w) of
        Inl e \<Rightarrow> (Inl (MapError e), w) | Inr us \<Rightarrow> (Inr (), w\<lparr>users := us\<rparr>)))"

section \<open>The service\<close>

definition UserManage :: permission where "UserManage = ''user.manage''"
definition EventPresenceChanged :: string where "EventPresenceChanged = ''agent.presence_changed''"

definition NewPresenceChanged :: "agent_presence \<Rightarrow> payload" where
  "NewPresenceChanged p = PresencePayload (ap_TenantID p) (ap_UserID p) (ap_Status p) (ap_Availability p)
     (ap_AutoOffline p) (ap_CurrentLoad p) (ap_MaxConcurrentChats p) (ap_LastSeenAt p)"

definition authorizeTarget :: "ctx \<Rightarrow> ident \<Rightarrow> ident res" where
  "authorizeTarget c targetUserID = (case ctx_auth c of
     None \<Rightarrow> Inl (Unauthorized ''authentication required'')
   | Some ac \<Rightarrow> (let target = (if targetUserID = [] then ac_UserID ac else targetUserID) in
       if target \<noteq> ac_UserID ac \<and> \<not> ac_has ac UserManage
       then Inl (Forbidden (''cannot change another agent'' @ [CHR 0x27] @ ''s presence'')) else Inr target))"

definition validAvailability :: "string \<Rightarrow> bool" where
  "validAvailability a \<longleftrightarrow> a \<in> {AvailabilityOnline, AvailabilityAway, AvailabilityOffline}"

definition recomputeAndPublish :: "'e env_scheme \<Rightarrow> ctx \<Rightarrow> ident \<Rightarrow> ('z team_world_scheme, agent_presence) io" where
  "recomputeAndPublish d c userID = bind_io (user_FindByID d c userID) (\<lambda>user.
     bind_io (HasLiveSocket d c userID) (\<lambda>hasLive.
     bind_io (CountOpenAssigned d c userID) (\<lambda>load.
     bind_io (now_io d) (\<lambda>now.
     let tenantID = ctx_tenant_id c; availability = AvailabilityOr user; autoOffline = AutoOfflineOr user;
         p = \<lparr>ap_TenantID = tenantID, ap_UserID = userID,
              ap_Status = ResolveEffective availability autoOffline hasLive, ap_Availability = availability,
              ap_AutoOffline = autoOffline, ap_CurrentLoad = load,
              ap_MaxConcurrentChats = us_MaxConcurrentChats user, ap_LastSeenAt = now\<rparr> in
     then_io (Save d c p)
     (then_io (ignore_io (Publish d (TopicPresence tenantID) EventPresenceChanged (NewPresenceChanged p)))
     (then_io (ignore_io (Publish d (TopicUser tenantID userID) EventPresenceChanged (NewPresenceChanged p)))
       (return_io p)))))))"

definition SetStatus :: "'e env_scheme \<Rightarrow> ctx \<Rightarrow> ident \<Rightarrow> string \<Rightarrow> ('z team_world_scheme, agent_presence) io" where
  "SetStatus d c targetUserID status = then_io (lift_res (RequireTenant c))
     (bind_io (lift_res (authorizeTarget c targetUserID)) (\<lambda>target.
     if \<not> validAvailability status then
       throw_io (WithDetails (Validation ''invalid status'') [''status'' \<mapsto> GStr ''must be online, away or offline''])
     else then_io (SetPresenceSettings d c target (Some status) None) (recomputeAndPublish d c target)))"

definition SetAutoOffline :: "'e env_scheme \<Rightarrow> ctx \<Rightarrow> ident \<Rightarrow> bool \<Rightarrow> ('z team_world_scheme, agent_presence) io" where
  "SetAutoOffline d c targetUserID enabled = then_io (lift_res (RequireTenant c))
     (bind_io (lift_res (authorizeTarget c targetUserID)) (\<lambda>target.
      then_io (SetPresenceSettings d c target None (Some enabled)) (recomputeAndPublish d c target)))"

definition Connected :: "'e env_scheme \<Rightarrow> ctx \<Rightarrow> ident \<Rightarrow> ident \<Rightarrow> ('z team_world_scheme, unit) io" where
  "Connected d c userID clientID = then_io (lift_res (RequireTenant c))
     (bind_io (Connect d c userID clientID) (\<lambda>becameLive.
      when_io becameLive (ignore_io (recomputeAndPublish d c userID))))"

definition Heartbeat :: "'e env_scheme \<Rightarrow> ctx \<Rightarrow> ident \<Rightarrow> ident \<Rightarrow> ('z team_world_scheme, unit) io" where
  "Heartbeat d c userID clientID = then_io (lift_res (RequireTenant c)) (store_Heartbeat d c userID clientID)"

definition Disconnected :: "'e env_scheme \<Rightarrow> ctx \<Rightarrow> ident \<Rightarrow> ident \<Rightarrow> ('z team_world_scheme, bool) io" where
  "Disconnected d c userID clientID = then_io (lift_res (RequireTenant c)) (Disconnect d c userID clientID)"

definition Vanished :: "'e env_scheme \<Rightarrow> ctx \<Rightarrow> ident \<Rightarrow> ('z team_world_scheme, unit) io" where
  "Vanished d c userID = then_io (lift_res (RequireTenant c))
     (then_io (recomputeAndPublish d c userID) (return_io ()))"

definition presence_List :: "'e env_scheme \<Rightarrow> ctx \<Rightarrow> ident \<Rightarrow> ('z team_world_scheme, agent_presence list) io" where
  "presence_List d c sectorID = then_io (lift_res (RequireTenant c))
     (bind_io (store_List d c) (\<lambda>items0.
      bind_io (if sectorID = [] then return_io items0
               else bind_io (ListBySector d c sectorID) (\<lambda>us.
                 return_io (filter (\<lambda>p. ap_UserID p \<in> us_ID ` set us) items0))) (\<lambda>items.
      bind_io (OpenAssignedLoads d c) (\<lambda>loads.
      return_io (map (\<lambda>p. p\<lparr>ap_CurrentLoad := loads (ap_UserID p)\<rparr>) items)))))"

end
