(* ===== verification/Routing.thy ===== *)
theory Routing
  imports Presence
begin

text \<open>
  \<open>domain/routing/service/routing_service.go\<close>: manual and automatic assignment, transfer and
  enqueueing of conversations under the per-conversation Redis lock.
\<close>

section \<open>Commands and results\<close>

record transfer_command =
  tc_SectorID :: ident
  tc_AgentID :: ident

record run_result =
  rr_Assigned :: "(ident \<times> ident) list"
  rr_Skipped :: "(ident \<times> string) list"

record candidate =
  cd_UserID :: ident
  cd_Load :: int

definition routingLockTTL :: duration where "routingLockTTL = 5 * Second"

section \<open>Realtime and timeline\<close>

definition publish_to :: "'e env_scheme \<Rightarrow> string list \<Rightarrow> string \<Rightarrow> payload \<Rightarrow> ('z conv_world_scheme, unit) io" where
  "publish_to d topics event p = for_io topics (\<lambda>t. ignore_io (Publish d t event p))"

definition publishAssigned :: "'e env_scheme \<Rightarrow> conversation \<Rightarrow> ident \<Rightarrow> ('z conv_world_scheme, unit) io" where
  "publishAssigned d cv agentID = bind_io (conv_payload d cv) (publish_to d
     ([TopicConversation (cv_TenantID cv) (cv_ID cv)]
      @ (if cv_SectorID cv \<noteq> [] then [TopicInbox (cv_TenantID cv) (cv_SectorID cv)] else [])
      @ (if agentID \<noteq> [] then [TopicUser (cv_TenantID cv) agentID] else []))
     RealtimeConversationAssigned)"

definition publishTransferred :: "'e env_scheme \<Rightarrow> conversation \<Rightarrow> ident \<Rightarrow> ('z conv_world_scheme, unit) io" where
  "publishTransferred d cv fromSector = bind_io (conv_payload d cv) (publish_to d
     ([TopicConversation (cv_TenantID cv) (cv_ID cv)]
      @ (if fromSector \<noteq> [] then [TopicInbox (cv_TenantID cv) fromSector] else [])
      @ (if cv_SectorID cv \<noteq> [] \<and> cv_SectorID cv \<noteq> fromSector then [TopicInbox (cv_TenantID cv) (cv_SectorID cv)] else [])
      @ (if cv_AssignedTo cv \<noteq> [] then [TopicUser (cv_TenantID cv) (cv_AssignedTo cv)] else []))
     RealtimeConversationTransferred)"

definition publishUpdated :: "'e env_scheme \<Rightarrow> conversation \<Rightarrow> ('z conv_world_scheme, unit) io" where
  "publishUpdated d cv = bind_io (conv_payload d cv) (publish_to d
     ([TopicConversation (cv_TenantID cv) (cv_ID cv)]
      @ (if cv_SectorID cv \<noteq> [] then [TopicInbox (cv_TenantID cv) (cv_SectorID cv)] else []))
     RealtimeConversationUpdated)"

section \<open>Access\<close>

text \<open>\<open>contains\<close>: a non-empty member.\<close>

definition contains_id :: "ident list \<Rightarrow> ident \<Rightarrow> bool" where
  "contains_id ss v \<longleftrightarrow> v \<noteq> [] \<and> v \<in> set ss"

definition assertAccess :: "ctx \<Rightarrow> conversation \<Rightarrow> unit res" where
  "assertAccess c cv = (case ctx_auth c of
     None \<Rightarrow> Inl (Unauthorized ''authentication required'')
   | Some ac \<Rightarrow> if ac_SectorScope ac = ScopeAll then Inr ()
       else if cv_AssignedTo cv \<noteq> [] \<and> cv_AssignedTo cv = ac_UserID ac then Inr ()
       else if contains_id (ac_SectorIDs ac) (cv_SectorID cv) \<and> cv_SectorID cv \<noteq> [] then Inr ()
       else Inl (NotFound ''conversation not found''))"

section \<open>Eligibility\<close>

definition sortCandidates :: "candidate list \<Rightarrow> candidate list" where
  "sortCandidates cs = sort_key (\<lambda>x. (cd_Load x, cd_UserID x)) cs"

text \<open>One turn of the loop over the sector's users; an error on the presence means offline.\<close>

definition consider_agent ::
  "'e env_scheme \<Rightarrow> ctx \<Rightarrow> (ident \<Rightarrow> int) \<Rightarrow> candidate list \<Rightarrow> user \<Rightarrow> ('z team_world_scheme, candidate list) io" where
  "consider_agent d c loads cands u =
    (if \<not> IsActive u then return_io cands
     else bind_io (try_io (presence_Get d c (us_ID u))) (\<lambda>r. return_io (case r of
       Inl _ \<Rightarrow> cands
     | Inr p \<Rightarrow> if \<not> CanReceive (ap_Status p) then cands
         else if us_MaxConcurrentChats u > 0 \<and> loads (us_ID u) \<ge> us_MaxConcurrentChats u then cands
         else cands @ [\<lparr>cd_UserID = us_ID u, cd_Load = loads (us_ID u)\<rparr>])))"

definition eligibleAgents :: "'e env_scheme \<Rightarrow> ctx \<Rightarrow> ident \<Rightarrow> ('z team_world_scheme, candidate list) io" where
  "eligibleAgents d c sectorID = bind_io (ListBySector d c sectorID) (\<lambda>us.
     bind_io (OpenAssignedLoads d c) (\<lambda>loads.
     bind_io (fold_io (consider_agent d c loads) [] us) (\<lambda>cands. return_io (sortCandidates cands))))"

definition evaluateAgent :: "'e env_scheme \<Rightarrow> ctx \<Rightarrow> ident \<Rightarrow> ident \<Rightarrow> bool \<Rightarrow> ('z team_world_scheme, unit) io" where
  "evaluateAgent d c agentID sectorID allowOffline =
    bind_io (remap_not_found (WithDetails (Validation ''agent not found'') [''agent_id'' \<mapsto> GStr ''not found''])
      (user_FindByID d c agentID)) (\<lambda>u.
    then_io (guard_io (\<not> IsActive u) (Validation ''agent is disabled''))
   (then_io (guard_io (\<not> contains_id (us_SectorIDs u) sectorID) (Validation ''agent does not belong to the sector''))
   (then_io (if allowOffline then return_io ()
      else bind_io (try_io (presence_Get d c agentID)) (\<lambda>r. case r of
        Inl _ \<Rightarrow> throw_io (Conflict ''agent is offline'')
      | Inr p \<Rightarrow> guard_io (ap_Status p \<noteq> PresenceAvailable) (Conflict ''agent is not available'')))
   (bind_io (CountOpenAssigned d c agentID) (\<lambda>load.
      guard_io (us_MaxConcurrentChats u > 0 \<and> load \<ge> us_MaxConcurrentChats u)
        (Conflict ''agent is at maximum concurrent chats''))))))"

section \<open>The operations\<close>

definition routing_key :: "ident \<Rightarrow> ident \<Rightarrow> string" where
  "routing_key t i = ''routing:lock:'' @ t @ '':'' @ i"

definition withLock ::
  "'e env_scheme \<Rightarrow> ctx \<Rightarrow> ident \<Rightarrow> (conversation \<Rightarrow> ('z ops_world_scheme, conversation) io) \<Rightarrow> ('z ops_world_scheme, conversation) io" where
  "withLock d c conversationID f = bind_io (lift_res (RequireTenant c)) (\<lambda>t.
     bind_io (conv_FindByID d c conversationID) (\<lambda>cv0.
     then_io (lift_res (assertAccess c cv0))
     (bind_io (try_io (Acquire d (routing_key t conversationID) routingLockTTL)) (\<lambda>r. case r of
        Inl e \<Rightarrow> throw_io (Wrap (Internal ''could not acquire routing lock'') e)
      | Inr None \<Rightarrow> throw_io (Conflict ''conversation is being routed by another operation'')
      | Inr (Some token) \<Rightarrow> defer_io (release d (routing_key t conversationID) token)
          (bind_io (conv_FindByID d c conversationID) f)))))"

definition applyAssignment :: "'e env_scheme \<Rightarrow> ctx \<Rightarrow> conversation \<Rightarrow> ident \<Rightarrow> ('z conv_world_scheme, conversation) io" where
  "applyAssignment d c cv0 agentID = bind_io (now_io d) (\<lambda>now.
     let cv = cv0\<lparr>cv_AssignedTo := agentID, cv_Status := StatusAssigned, cv_QueueID := [], cv_UpdatedAt := now\<rparr> in
     then_io (conv_Update d c cv)
    (then_io (recordEvent d c cv EventConversationAssigned [''agent_id'' \<mapsto> GStr agentID])
    (then_io (publishAssigned d cv agentID)
    (then_io (log_effect (EQueueChanged (ctx_tenant_id c) (cv_SectorID cv) (cv_QueueID cv0)))
    (then_io (emitConversationWebhook cv EventConversationAssigned)
    (then_io (log_effect (ENotify (cv_TenantID cv) agentID ''conversation.assigned_to_you'' (''/conversations/'' @ cv_ID cv)))
      (return_io cv)))))))"

definition assign_body :: "'e env_scheme \<Rightarrow> ctx \<Rightarrow> ident \<Rightarrow> conversation \<Rightarrow> ('z team_world_scheme, conversation) io" where
  "assign_body d c agentID cv =
     then_io (guard_io (status_is_closed (cv_Status cv)) (Conflict ''closed conversation cannot be assigned''))
    (then_io (guard_io (cv_SectorID cv = []) (Validation ''conversation has no sector to assign within''))
    (then_io (evaluateAgent d c agentID (cv_SectorID cv) True) (applyAssignment d c cv agentID)))"

definition Assign :: "'e env_scheme \<Rightarrow> ctx \<Rightarrow> ident \<Rightarrow> ident \<Rightarrow> ('z team_world_scheme, conversation) io" where
  "Assign d c conversationID agentID = withLock d c conversationID (assign_body d c agentID)"

definition auto_body :: "'e env_scheme \<Rightarrow> ctx \<Rightarrow> conversation \<Rightarrow> ('z team_world_scheme, conversation) io" where
  "auto_body d c cv =
     then_io (guard_io (status_is_closed (cv_Status cv)) (Conflict ''closed conversation cannot be assigned''))
    (then_io (guard_io (cv_AssignedTo cv \<noteq> []) (Conflict ''conversation is already assigned''))
    (then_io (guard_io (cv_SectorID cv = []) (Validation ''conversation has no sector''))
    (bind_io (eligibleAgents d c (cv_SectorID cv)) (\<lambda>cands.
      case cands of [] \<Rightarrow> throw_io (Conflict ''no eligible agents available'')
      | best # _ \<Rightarrow> applyAssignment d c cv (cd_UserID best)))))"

definition AutoAssign :: "'e env_scheme \<Rightarrow> ctx \<Rightarrow> ident \<Rightarrow> ('z team_world_scheme, conversation) io" where
  "AutoAssign d c conversationID = withLock d c conversationID (auto_body d c)"

text \<open>
  The part of \<open>Transfer\<close> before the write: the target sector is checked, then the target
  agent, with the clock read in between.
\<close>

definition transfer_target ::
  "'e env_scheme \<Rightarrow> ctx \<Rightarrow> transfer_command \<Rightarrow> conversation \<Rightarrow> ('z team_world_scheme, conversation) io" where
  "transfer_target d c cmd cv0 =
     then_io (guard_io (status_is_closed (cv_Status cv0)) (Conflict ''closed conversation cannot be transferred''))
    (bind_io (if tc_SectorID cmd \<noteq> [] \<and> tc_SectorID cmd \<noteq> cv_SectorID cv0
        then bind_io (remap_not_found
            (WithDetails (Validation ''target sector does not exist'') [''sector_id'' \<mapsto> GStr ''not found''])
            (sector_FindByID d c (tc_SectorID cmd))) (\<lambda>_. return_io (cv0\<lparr>cv_SectorID := tc_SectorID cmd\<rparr>))
        else return_io cv0) (\<lambda>cv1.
     bind_io (now_io d) (\<lambda>now.
     bind_io (if tc_AgentID cmd \<noteq> []
        then then_io (guard_io (cv_SectorID cv1 = []) (Validation ''transfer to an agent requires a sector''))
            (then_io (evaluateAgent d c (tc_AgentID cmd) (cv_SectorID cv1) True)
               (return_io (cv1\<lparr>cv_AssignedTo := tc_AgentID cmd, cv_Status := StatusAssigned, cv_QueueID := []\<rparr>)))
        else return_io (cv1\<lparr>cv_AssignedTo := [], cv_Status := StatusTransferred\<rparr>)) (\<lambda>cv2.
     return_io (cv2\<lparr>cv_UpdatedAt := now\<rparr>)))))"

definition transfer_data :: "conversation \<Rightarrow> conversation \<Rightarrow> gmap" where
  "transfer_data old new = [''from_sector'' \<mapsto> GStr (cv_SectorID old), ''to_sector'' \<mapsto> GStr (cv_SectorID new),
     ''from_agent'' \<mapsto> GStr (cv_AssignedTo old), ''to_agent'' \<mapsto> GStr (cv_AssignedTo new)]"

definition transfer_body :: "'e env_scheme \<Rightarrow> ctx \<Rightarrow> transfer_command \<Rightarrow> conversation \<Rightarrow> ('z team_world_scheme, conversation) io" where
  "transfer_body d c cmd cv0 =
     bind_io (transfer_target d c cmd cv0) (\<lambda>cv.
     then_io (conv_Update d c cv)
    (then_io (recordEvent d c cv EventConversationTransferred (transfer_data cv0 cv))
    (then_io (publishTransferred d cv (cv_SectorID cv0))
    (then_io (when_io (cv_QueueID cv0 \<noteq> []) (log_effect (EQueueChanged (ctx_tenant_id c) (cv_SectorID cv0) (cv_QueueID cv0))))
    (then_io (emitConversationWebhook cv EventConversationTransferred)
    (then_io (log_effect (EAudit (ctx_tenant_id c) ''conversation.transferred'' (cv_ID cv) (transfer_data cv0 cv)))
    (then_io (when_io (cv_AssignedTo cv \<noteq> []) (log_effect (ENotify (cv_TenantID cv) (cv_AssignedTo cv)
        ''conversation.transferred_to_you'' (''/conversations/'' @ cv_ID cv))))
      (return_io cv))))))))"

definition Transfer :: "'e env_scheme \<Rightarrow> ctx \<Rightarrow> ident \<Rightarrow> transfer_command \<Rightarrow> ('z team_world_scheme, conversation) io" where
  "Transfer d c conversationID cmd = withLock d c conversationID (transfer_body d c cmd)"

definition queue_FindByID :: "'e env_scheme \<Rightarrow> ctx \<Rightarrow> ident \<Rightarrow> ('z team_world_scheme, queue) io" where
  "queue_FindByID d c i = bind_io (lift_res (RequireTenant c)) (\<lambda>t.
     db_call d (\<lambda>w. (map_err (find_one (\<lambda>q. qu_ID q = i \<and> qu_TenantID q = t) (queues w)), w)))"

definition enqueue_body :: "'e env_scheme \<Rightarrow> ctx \<Rightarrow> ident \<Rightarrow> conversation \<Rightarrow> ('z team_world_scheme, conversation) io" where
  "enqueue_body d c queueID cv0 =
     then_io (guard_io (status_is_closed (cv_Status cv0)) (Conflict ''closed conversation cannot be enqueued''))
    (bind_io (remap_not_found (WithDetails (Validation ''queue does not exist'') [''queue_id'' \<mapsto> GStr ''not found''])
        (queue_FindByID d c queueID)) (\<lambda>q.
     bind_io (now_io d) (\<lambda>now.
     let cv = cv0\<lparr>cv_QueueID := qu_ID q, cv_SectorID := qu_SectorID q, cv_AssignedTo := [],
                 cv_Status := StatusQueued, cv_UpdatedAt := now\<rparr> in
     then_io (conv_Update d c cv)
    (then_io (recordEvent d c cv EventConversationEnqueued
        [''queue_id'' \<mapsto> GStr (qu_ID q), ''sector_id'' \<mapsto> GStr (qu_SectorID q)])
    (then_io (publishUpdated d cv)
    (then_io (log_effect (EQueueChanged (ctx_tenant_id c) (qu_SectorID q) (qu_ID q)))
    (then_io (when_io (cv_QueueID cv0 \<noteq> [] \<and> cv_QueueID cv0 \<noteq> qu_ID q)
        (log_effect (EQueueChanged (ctx_tenant_id c) (cv_SectorID cv0) (cv_QueueID cv0))))
      (return_io cv))))))))"

definition Enqueue :: "'e env_scheme \<Rightarrow> ctx \<Rightarrow> ident \<Rightarrow> ident \<Rightarrow> ('z team_world_scheme, conversation) io" where
  "Enqueue d c conversationID queueID = withLock d c conversationID (enqueue_body d c queueID)"

section \<open>Runs\<close>

text \<open>One conversation of a batch: the result grows by an assignment or by a skip.\<close>

definition route_one :: "'e env_scheme \<Rightarrow> ctx \<Rightarrow> run_result \<Rightarrow> conversation \<Rightarrow> ('z team_world_scheme, run_result) io" where
  "route_one d c res cv =
    (if cv_SectorID cv = [] \<or> cv_AssignedTo cv \<noteq> []
     then return_io (res\<lparr>rr_Skipped := rr_Skipped res @ [(cv_ID cv, ''no sector or already assigned'')]\<rparr>)
     else bind_io (try_io (AutoAssign d c (cv_ID cv))) (\<lambda>r. return_io (case r of
       Inl e \<Rightarrow> res\<lparr>rr_Skipped := rr_Skipped res @ [(cv_ID cv, err_message_of (From e))]\<rparr>
     | Inr a \<Rightarrow> res\<lparr>rr_Assigned := rr_Assigned res @ [(cv_ID a, cv_AssignedTo a)]\<rparr>)))"

definition empty_run :: run_result where
  "empty_run = \<lparr>rr_Assigned = [], rr_Skipped = []\<rparr>"

definition status_filter :: "string \<Rightarrow> list_filter" where
  "status_filter s = \<lparr>lf_Status = s, lf_SectorID = [], lf_QueueID = [], lf_AssignedTo = [], lf_ContactID = [],
     lf_Protocol = [], lf_Tag = []\<rparr>"

definition runBatch :: "'e env_scheme \<Rightarrow> ctx \<Rightarrow> ('z team_world_scheme, run_result) io" where
  "runBatch d c = bind_io (lift_res (visibility c)) (\<lambda>vis.
     fold_io (\<lambda>res s. bind_io (conv_List d c (status_filter s) vis \<lparr>pr_Cursor = NoToken, pr_Limit = 100\<rparr>) (\<lambda>cvs.
       fold_io (route_one d c) res cvs)) empty_run [StatusQueued, StatusNew])"

definition Run :: "'e env_scheme \<Rightarrow> ctx \<Rightarrow> ident \<Rightarrow> ('z team_world_scheme, run_result) io" where
  "Run d c conversationID = then_io (lift_res (RequireTenant c))
     (if conversationID \<noteq> [] then bind_io (AutoAssign d c conversationID) (\<lambda>cv.
        return_io (empty_run\<lparr>rr_Assigned := [(cv_ID cv, cv_AssignedTo cv)]\<rparr>))
      else runBatch d c)"

end
