(* ===== verification/Presence_Props.thy ===== *)
theory Presence_Props
  imports Presence Conv_Demo
begin

text \<open>
  Correctness of presence: the sockets of an agent as the connection set records them, and
  the effective status derived from them.
\<close>

section \<open>Sockets\<close>

text \<open>What the sockets of one agent do, one call of the service each.\<close>

datatype socket_op = OpConnect ident | OpHeartbeat ident | OpDisconnect ident | OpProbe

fun socket_op_io :: "'e env_scheme \<Rightarrow> ctx \<Rightarrow> ident \<Rightarrow> socket_op \<Rightarrow> ('z team_world_scheme, unit) io" where
  "socket_op_io d c u (OpConnect i) = ignore_io (Connect d c u i)"
| "socket_op_io d c u (OpHeartbeat i) = ignore_io (Heartbeat d c u i)"
| "socket_op_io d c u (OpDisconnect i) = ignore_io (Disconnected d c u i)"
| "socket_op_io d c u OpProbe = ignore_io (HasLiveSocket d c u)"

definition clock_runs :: "'e env_scheme \<Rightarrow> bool" where
  "clock_runs d \<longleftrightarrow> (\<forall>m n. m \<le> n \<longrightarrow> clk d m \<le> clk d n)"

lemma clock_runsD: "clock_runs d \<Longrightarrow> m \<le> n \<Longrightarrow> clk d m \<le> clk d n"
  by (simp add: clock_runs_def)

text \<open>
  \<open>seen_since t0 i k w\<close>: client \<open>i\<close> is in the connection set with a score no older than
  \<open>t0\<close>, and the key lives for the whole liveness window after \<open>t0\<close>.
\<close>

definition seen_since :: "time \<Rightarrow> ident \<Rightarrow> ident \<times> ident \<Rightarrow> 'z team_world_scheme \<Rightarrow> bool" where
  "seen_since t0 i k w \<longleftrightarrow> (\<exists>ms x s. conns w k = Some (ms, x) \<and> t0 + presenceTTL \<le> x \<and> (i, s) \<in> set ms \<and> UnixMilli t0 \<le> s)"

lemma seen_tick [simp]: "seen_since t0 i k (tick w) = seen_since t0 i k w"
  by (simp add: seen_since_def tick_def)

lemma members_tick [simp]: "members now k (tick w) = members now k w"
  by (simp add: members_def tick_def)

lemma milli_mono: "a \<le> b \<Longrightarrow> UnixMilli a \<le> UnixMilli b"
  by (simp add: UnixMilli_def zdiv_mono1)

lemma seen_zfilter:
  assumes "seen_since t0 i k w" "clk d (step w) < t0 + presenceTTL"
    and "\<And>s. UnixMilli t0 \<le> s \<Longrightarrow> keep (i, s)"
  shows "wp (zfilter d k keep) (\<lambda>_ w'. seen_since t0 i k w' \<and> step w' = Suc (step w))
     (\<lambda>_ w'. seen_since t0 i k w' \<and> step w' = Suc (step w)) w"
proof (cases "fault d (step w)")
  case None
  obtain ms x s where k: "conns w k = Some (ms, x)" "t0 + presenceTTL \<le> x" "(i, s) \<in> set ms" "UnixMilli t0 \<le> s"
    using assms(1) by (auto simp: seen_since_def)
  then have "(i, s) \<in> set (filter keep ms)" using assms(3) by auto
  then have "filter keep ms \<noteq> []" by (metis empty_iff list.set(1))
  then show ?thesis using None k assms(2,3)
    by (auto simp: wp_def zfilter_def presence_call_def modify_io_def members_def seen_since_def tick_def)
next
  case (Some e)
  then show ?thesis using assms(1) by (simp add: wp_def zfilter_def presence_call_def)
qed

lemma seen_zadd:
  assumes "seen_since t0 i k w" "clk d (step w) < t0 + presenceTTL" "t0 \<le> clk d (step w)" "UnixMilli t0 \<le> s'"
  shows "wp (zadd_expire d k s' j) (\<lambda>_ w'. seen_since t0 i k w' \<and> step w' = Suc (step w))
     (\<lambda>_ w'. seen_since t0 i k w' \<and> step w' = Suc (step w)) w"
  using assms
  by (auto simp: wp_def zadd_expire_def presence_call_def modify_io_def members_def seen_since_def tick_def
      split: option.split prod.split) (cases "i = j"; blast)+

lemma seen_prune:
  assumes "seen_since t0 i k w" "clk d (Suc (step w)) < t0 + presenceTTL" "clock_runs d"
  shows "wp (prune d k) (\<lambda>_ w'. seen_since t0 i k w' \<and> step w' = Suc (Suc (step w))) E w"
proof -
  have "clk d (step w) \<le> clk d (Suc (step w))" using assms(3) by (simp add: clock_runsD)
  then have "UnixMilli (clk d (step w) - presenceTTL) \<le> UnixMilli t0"
    using assms(2) by (intro milli_mono) simp
  then show ?thesis
    using seen_zfilter [of t0 i k "tick w" d "\<lambda>m. UnixMilli (clk d (step w) - presenceTTL) \<le> snd m"] assms(1,2)
    by (simp add: prune_def io_wp)
qed

lemma seen_members:
  "seen_since t0 i k w \<Longrightarrow> now < t0 + presenceTTL \<Longrightarrow> members now k w \<noteq> []"
  by (auto simp: seen_since_def members_def)

lemma wp_presence_call [io_wp]:
  "wp (presence_call d m) Q E w = (case fault d (step w) of
     Some e \<Rightarrow> E (Wrap (Internal ''presence store error'') (PlainError e)) (tick w)
   | None \<Rightarrow> wp (m (clk d (step w))) Q E (tick w))"
  by (simp add: wp_def presence_call_def split: option.split)

text \<open>
  \<open>count_lost d op w\<close>: the call is a disconnect whose count of the remaining sockets (its fourth
  step) fails; Go reads the failed count as zero. \<open>counts_lost\<close> looks for one in a whole run.
\<close>

fun count_lost :: "'e env_scheme \<Rightarrow> socket_op \<Rightarrow> 'z team_world_scheme \<Rightarrow> bool" where
  "count_lost d (OpDisconnect j) w \<longleftrightarrow> fault d (step w + 3) \<noteq> None"
| "count_lost d _ w \<longleftrightarrow> False"

primrec counts_lost :: "'e env_scheme \<Rightarrow> ctx \<Rightarrow> ident \<Rightarrow> socket_op list \<Rightarrow> 'z team_world_scheme \<Rightarrow> bool" where
  "counts_lost d c u [] w \<longleftrightarrow> False"
| "counts_lost d c u (op # ops) w \<longleftrightarrow> count_lost d op w \<or> counts_lost d c u ops (snd (socket_op_io d c u op w))"

text \<open>No call of another client, and no repeated call of its own but a disconnect, loses a client.\<close>

lemma seen_op:
  assumes "\<not> count_lost d op w" "clock_runs d" "RequireTenant c = Inr t" "op \<noteq> OpDisconnect i"
    and "seen_since t0 i (t, u) w" "t0 \<le> clk d (step w)" "clk d (step w + 6) < t0 + presenceTTL"
  shows "wp (socket_op_io d c u op) (\<lambda>_ w'. seen_since t0 i (t, u) w' \<and> step w \<le> step w' \<and> step w' \<le> step w + 6) E w"
proof -
  have late: "clk d n < t0 + presenceTTL" if "n \<le> step w + 6" for n
    using clock_runsD [OF assms(2) that] assms(7) by simp
  have early: "t0 \<le> clk d n" "UnixMilli t0 \<le> UnixMilli (clk d n)" if "step w \<le> n" for n
    using clock_runsD [OF assms(2) that] assms(6) by (auto intro: milli_mono)
  note seen = assms(5)
  have pr: "wp (prune d (t, u)) Q E' w1"
    if "seen_since t0 i (t, u) w1" "step w1 < step w + 6"
      "\<And>w'. seen_since t0 i (t, u) w' \<Longrightarrow> step w' = Suc (Suc (step w1)) \<Longrightarrow> Q () w'" for Q E' and w1 :: "'b team_world_scheme"
    by (rule wp_mono [OF seen_prune [of t0 i _ _ d, OF that(1) _ assms(2)]])
       (use late that in auto)
  have za: "wp (zadd_expire d (t, u) (UnixMilli (clk d n)) j) Q E' w1"
    if "seen_since t0 i (t, u) w1" "step w \<le> step w1" "step w1 < step w + 6" "step w \<le> n"
      "\<And>w'. seen_since t0 i (t, u) w' \<Longrightarrow> step w' = Suc (step w1) \<Longrightarrow> Q () w'"
      "\<And>e w'. seen_since t0 i (t, u) w' \<Longrightarrow> step w' = Suc (step w1) \<Longrightarrow> E' e w'" for Q E' n j and w1 :: "'b team_world_scheme"
    by (rule wp_mono [OF seen_zadd [of t0 i _ _ d]]) (use late early that in auto)
  show ?thesis
  proof (cases op)
    case (OpConnect j)
    then show ?thesis using seen
      by (auto simp: Connect_def zcard0_def zcard_def io_wp assms(3) intro!: pr za split: option.split)
  next
    case (OpHeartbeat j)
    then show ?thesis using seen
      by (auto simp: Heartbeat_def store_Heartbeat_def io_wp assms(3) intro!: za)
  next
    case (OpDisconnect j)
    have zf: "wp (zfilter d (t, u) (\<lambda>m. fst m \<noteq> j)) Q E' w"
      if "\<And>w'. seen_since t0 i (t, u) w' \<Longrightarrow> step w' = Suc (step w) \<Longrightarrow> Q () w'"
        "\<And>e w'. seen_since t0 i (t, u) w' \<Longrightarrow> step w' = Suc (step w) \<Longrightarrow> E' e w'" for Q E'
      by (rule wp_mono [OF seen_zfilter [of t0 i _ _ d, OF seen]])
         (use late that OpDisconnect assms(4) in auto)
    have ne: "members (clk d n) (t, u) w1 \<noteq> []" if "seen_since t0 i (t, u) w1" "n \<le> step w + 6"
      for n and w1 :: "'b team_world_scheme"
      by (rule seen_members [OF that(1) late [OF that(2)]])
    have counted: "fault d (Suc (Suc (Suc (step w)))) = None"
      using assms(1) OpDisconnect by (simp add: numeral_3_eq_3)
    show ?thesis using OpDisconnect
      by (auto simp: Disconnected_def Disconnect_def zcard0_def zcard_def io_wp assms(3) counted ne
          intro!: zf pr)
  next
    case OpProbe
    then show ?thesis using seen
      by (auto simp: HasLiveSocket_def zcard_def io_wp assms(3) intro!: pr split: option.split)
  qed
qed

lemma seen_ops:
  assumes "clock_runs d" "RequireTenant c = Inr t" "OpDisconnect i \<notin> set ops" "\<not> counts_lost d c u ops w"
    and "seen_since t0 i (t, u) w" "t0 \<le> clk d (step w)" "clk d (step w + 6 * length ops) < t0 + presenceTTL"
  shows "wp (for_io ops (socket_op_io d c u)) (\<lambda>_ w'. seen_since t0 i (t, u) w' \<and> step w \<le> step w' \<and> step w' \<le> step w + 6 * length ops) E w"
  using assms(3-)
proof (induction ops arbitrary: w)
  case (Cons op ops)
  have le: "clk d n < t0 + presenceTTL" if "n \<le> step w + 6 * length (op # ops)" for n
    using clock_runsD [OF assms(1) that] Cons.prems(5) by simp
  have one: "wp (socket_op_io d c u op) (\<lambda>_ w'. seen_since t0 i (t, u) w' \<and> step w \<le> step w' \<and> step w' \<le> step w + 6) E w"
    for E by (rule seen_op [OF _ assms(1,2)]) (use Cons.prems le in auto)
  obtain x w' where run: "socket_op_io d c u op w = (x, w')" by force
  have w': "x = Inr ()" "seen_since t0 i (t, u) w'" "step w \<le> step w'" "step w' \<le> step w + 6"
    using one [of "\<lambda>_ _. False"] run by (auto simp: wp_def split: sum.splits)
  have "wp (for_io ops (socket_op_io d c u))
      (\<lambda>_ w''. seen_since t0 i (t, u) w'' \<and> step w \<le> step w'' \<and> step w'' \<le> step w + 6 * length (op # ops)) E w'"
  proof (rule wp_mono [OF Cons.IH [of w']])
    show "t0 \<le> clk d (step w')" using clock_runsD [OF assms(1) w'(3)] Cons.prems(4) by simp
  qed (use w' le Cons.prems run in auto)
  then show ?case unfolding for_io.simps wp_then using run w'(1) by (simp add: wp_def)
qed (simp add: io_wp)

lemma heartbeat_seen:
  assumes "clock_runs d" "RequireTenant c = Inr t"
  shows "wp (Heartbeat d c u i) (\<lambda>_ w'. seen_since (clk d (step w)) i (t, u) w' \<and> step w' = Suc (Suc (step w))) (\<lambda>_ _. True) w"
  using assms clock_runsD [OF assms(1), of "step w" "Suc (step w)"]
  by (auto simp: Heartbeat_def store_Heartbeat_def zadd_expire_def io_wp seen_since_def split: option.split)

lemma seen_probe:
  assumes "clock_runs d" "RequireTenant c = Inr t"
    and "seen_since t0 i (t, u) w" "clk d (step w + 2) < t0 + presenceTTL"
  shows "fst (HasLiveSocket d c u w) = (case fault d (step w + 2) of
     None \<Rightarrow> Inr True | Some s \<Rightarrow> Inl (Wrap (Internal ''presence store error'') (PlainError s)))" (is "_ = ?a")
proof -
  have "clk d (Suc (step w)) < t0 + presenceTTL"
    using clock_runsD [OF assms(1), of "Suc (step w)" "step w + 2"] assms(4) by simp
  then have "wp (HasLiveSocket d c u) (\<lambda>b _. Inr b = ?a) (\<lambda>e _. Inl e = ?a) w" using assms(2,4)
    by (auto simp: HasLiveSocket_def io_wp zcard_def split: option.split
        intro!: wp_mono [OF seen_prune [OF assms(3) _ assms(1)]] dest: seen_members)
  then show ?thesis by (auto simp: wp_def split: prod.splits sum.splits)
qed

text \<open>
  C20: an agent whose socket is heard of within the liveness window has a live socket. After a
  heartbeat of client \<open>i\<close> that reached Redis, whatever the agent's sockets do in any number and
  order (other tabs connecting, closing, heartbeats, status probes) and whatever calls Redis
  fails, as long as \<open>i\<close> itself does not disconnect, no disconnect of another client fails in
  counting the remaining sockets, the clock does not go back and less than \<open>presenceTTL\<close> goes
  by, a probe answers that the agent is connected, or Redis's error when it fails the probe's
  count. The exception is needed: \<open>failed_count_drops_live_sockets\<close> below.
\<close>

theorem heartbeat_keeps_agent_live:
  assumes "clock_runs d" "RequireTenant c = Inr t" "OpDisconnect i \<notin> set ops"
    and "Heartbeat d c u i w0 = (Inr (), w)" "\<not> counts_lost d c u ops w"
    and "clk d (step w + 6 * length ops + 2) < clk d (step w0) + presenceTTL"
    and "for_io ops (socket_op_io d c u) w = (r, w')"
  shows "fst (HasLiveSocket d c u w') = (case fault d (step w' + 2) of
     None \<Rightarrow> Inr True | Some s \<Rightarrow> Inl (Wrap (Internal ''presence store error'') (PlainError s)))"
proof -
  have t0: "seen_since (clk d (step w0)) i (t, u) w" "step w = Suc (Suc (step w0))"
    using heartbeat_seen [OF assms(1,2), of u i w0] assms(4) by (auto simp: wp_def)
  have le: "clk d n < clk d (step w0) + presenceTTL" if "n \<le> step w + 6 * length ops + 2" for n
    using clock_runsD [OF assms(1) that] assms(6) by simp
  have "clk d (step w0) \<le> clk d (step w)" by (rule clock_runsD [OF assms(1)]) (simp add: t0(2))
  then have "wp (for_io ops (socket_op_io d c u))
      (\<lambda>_ w'. seen_since (clk d (step w0)) i (t, u) w' \<and> step w \<le> step w' \<and> step w' \<le> step w + 6 * length ops) (\<lambda>_ _. False) w"
    by (intro seen_ops [OF assms(1-3,5) t0(1)]) (use le in auto)
  then have "seen_since (clk d (step w0)) i (t, u) w'" "step w' \<le> step w + 6 * length ops"
    using assms(7) by (auto simp: wp_def split: sum.splits)
  then show ?thesis by (intro seen_probe [OF assms(1,2)]) (use le in auto)
qed

definition demo_user :: user where
  "demo_user = \<lparr>us_ID = ''u1'', us_TenantID = ''t1'', us_Name = ''Ana'', us_Email = ''ana'', us_Status = UserActive,
     us_RoleIDs = [], us_SectorIDs = [''s1''], us_MaxConcurrentChats = 3, us_PresenceAvailability = [],
     us_AutoOffline = None\<rparr>"

definition demo_team :: team_world where
  "demo_team = \<lparr>step = 0, convs = [demo_conv], msgs = [], cevents = [], chans = [], sectors = [], effects = [],
     redis = Map.empty, users = [demo_user], queues = [], presences = Map.empty, roster = [], conns = Map.empty\<rparr>"

definition tick_env :: env where
  "tick_env = \<lparr>clk = (\<lambda>n. int n), newid = (\<lambda>n. CHR ''n'' # replicate n CHR ''1''), fault = (\<lambda>_. None)\<rparr>"

lemma tick_env_ok: "reliable tick_env" "clock_runs tick_env"
  by (simp_all add: tick_env_def reliable_def clock_runs_def)

text \<open>The same clock with a Redis that fails its fourth call.\<close>

definition flaky_env :: env where
  "flaky_env = tick_env\<lparr>fault := (\<lambda>n. if n = 4 then Some ''eof'' else None)\<rparr>"

theorem heartbeat_keeps_agent_live_witness:
  "fst (HasLiveSocket flaky_env demo_ctx ''u1'' (snd (for_io [OpConnect ''b'', OpDisconnect ''b'']
     (socket_op_io flaky_env demo_ctx ''u1'') (snd (Heartbeat flaky_env demo_ctx ''u1'' ''a'' demo_team))))) = Inr True"
proof -
  let ?ops = "[OpConnect ''b'', OpDisconnect ''b'']"
  let ?w = "snd (Heartbeat flaky_env demo_ctx ''u1'' ''a'' demo_team)"
  let ?w' = "snd (for_io ?ops (socket_op_io flaky_env demo_ctx ''u1'') ?w)"
  have clock: "clock_runs flaky_env" by (simp add: flaky_env_def tick_env_def clock_runs_def)
  have tenant: "RequireTenant demo_ctx = Inr ''t1''" by (simp add: demo_ctx_def RequireTenant_def)
  have w: "\<not> isl (fst (Heartbeat flaky_env demo_ctx ''u1'' ''a'' demo_team))" "step ?w = 2" by code_simp+
  then have beat: "Heartbeat flaky_env demo_ctx ''u1'' ''a'' demo_team = (Inr (), ?w)"
    by (cases "fst (Heartbeat flaky_env demo_ctx ''u1'' ''a'' demo_team)") (auto simp: prod_eq_iff)
  have "step (snd (socket_op_io flaky_env demo_ctx ''u1'' (OpConnect ''b'') ?w)) = 7" by code_simp
  then have counted: "\<not> counts_lost flaky_env demo_ctx ''u1'' ?ops ?w" by (simp add: flaky_env_def)
  have window: "clk flaky_env (step ?w + 6 * length ?ops + 2) < clk flaky_env (step demo_team) + presenceTTL"
    unfolding w(2) by (simp add: flaky_env_def tick_env_def demo_team_def presenceTTL_def Second_def)
  have "4 < step ?w'"
    by (simp add: Heartbeat_def store_Heartbeat_def zadd_expire_def Connect_def Disconnected_def Disconnect_def
        prune_def zfilter_def zcard_def zcard0_def presence_call_def now_io_def io_defs members_def tick_def flaky_env_def
        tick_env_def demo_team_def demo_ctx_def RequireTenant_def presenceTTL_def Second_def UnixMilli_def)
  then have "fault flaky_env (step ?w' + 2) = None" by (simp add: flaky_env_def)
  moreover have run: "for_io ?ops (socket_op_io flaky_env demo_ctx ''u1'') ?w
      = (fst (for_io ?ops (socket_op_io flaky_env demo_ctx ''u1'') ?w), ?w')" by (simp only: prod.collapse)
  ultimately show ?thesis
    using heartbeat_keeps_agent_live [OF clock tenant _ beat counted window run] by simp
qed

section \<open>Effective status\<close>

definition settled :: "user \<Rightarrow> bool" where
  "settled u \<longleftrightarrow> us_PresenceAvailability u = [] \<or> validAvailability (us_PresenceAvailability u)"

lemma availability_names: "trim_space a = a \<and> a \<noteq> []" if "validAvailability a"
  using that by (auto simp: validAvailability_def AvailabilityOnline_def AvailabilityAway_def AvailabilityOffline_def
      plain_char_def)

lemma CanReceive_Resolve:
  assumes "settled u"
  shows "CanReceive (ResolveEffective (AvailabilityOr u) a live) \<longleftrightarrow>
     us_PresenceAvailability u \<in> {[], AvailabilityOnline} \<and> (live \<or> \<not> a)"
proof (cases "us_PresenceAvailability u = []")
  case False
  then have v: "validAvailability (us_PresenceAvailability u)" using assms by (simp add: settled_def)
  then have "AvailabilityOr u = us_PresenceAvailability u" using availability_names by (simp add: AvailabilityOr_def)
  with v show ?thesis
    by (auto simp: CanReceive_def ResolveEffective_def validAvailability_def AvailabilityOnline_def AvailabilityAway_def
        AvailabilityOffline_def PresenceOnline_def PresenceOffline_def PresenceAvailable_def)
qed (auto simp: CanReceive_def ResolveEffective_def AvailabilityOr_def AvailabilityOnline_def
        AvailabilityOffline_def PresenceOnline_def PresenceOffline_def PresenceAvailable_def)

text \<open>Looking for a live socket touches the connection set only.\<close>

definition conns_only :: "'z team_world_scheme \<Rightarrow> 'z team_world_scheme \<Rightarrow> bool" where
  "conns_only w w' \<longleftrightarrow> w'\<lparr>step := 0, conns := Map.empty\<rparr> = w\<lparr>step := 0, conns := Map.empty\<rparr>"

lemma conns_onlyD:
  assumes "conns_only w w'"
  shows "convs w' = convs w" "users w' = users w" "effects w' = effects w" "presences w' = presences w" "roster w' = roster w"
  using assms unfolding conns_only_def by (cases w; cases w'; simp)+

lemma HasLiveSocket_live:
  assumes "reliable d" "RequireTenant c = Inr t"
  shows "\<exists>live w'. HasLiveSocket d c u w = (Inr live, w') \<and> conns_only w w'"
  using assms
  by (simp add: HasLiveSocket_def prune_def zfilter_def zcard_def presence_call_def now_io_def io_defs reliable_def
      conns_only_def tick_def)

text \<open>
  Presence decides who is routed to. Recomputing an agent's presence returns and stores
  for routing the status it resolves; with a settled availability the agent can receive
  conversations if and only if the choice on the account is online (or was never made) and a
  socket is live or auto-offline is switched off. Conversations and accounts are not touched
  and the change is published once to the board and once to the agent.
\<close>

theorem presence_decides_routing:
  assumes "reliable d" "RequireTenant c = Inr t" "find (user_by_id t u) (users w) = Some usr" "settled usr"
  shows "\<exists>p w'. recomputeAndPublish d c u w = (Inr p, w')
     \<and> presences w' = (presences w)((t, u) \<mapsto> p\<lparr>ap_LastSeenAt := UnixMilli (ap_LastSeenAt p) * 1000000\<rparr>)
     \<and> (CanReceive (ap_Status p) \<longleftrightarrow> us_PresenceAvailability usr \<in> {[], AvailabilityOnline}
          \<and> (fst (HasLiveSocket d c u (tick w)) = Inr True \<or> \<not> AutoOfflineOr usr))
     \<and> convs w' = convs w \<and> users w' = users w
     \<and> effects w' = effects w @ [EPublish (TopicPresence t) EventPresenceChanged (NewPresenceChanged p),
          EPublish (TopicUser t u) EventPresenceChanged (NewPresenceChanged p)]"
proof -
  obtain live w1 where live: "HasLiveSocket d c u (tick w) = (Inr live, w1)" "conns_only (tick w) w1"
    using HasLiveSocket_live [OF assms(1,2)] by blast
  have t: "ctx_tenant_id c = t" using assms(2) by (auto simp: RequireTenant_Inr ctx_tenant_id_def)
  have find: "user_FindByID d c u w = (Inr usr, tick w)"
    using assms(1-3) by (simp add: user_FindByID_def io_defs db_call_def reliable_def find_one_def tick_def)
  have none: "fault d n = None" for n using assms(1) by (simp add: reliable_def)
  have same: "convs w1 = convs w" "users w1 = users w" "effects w1 = effects w" "presences w1 = presences w"
    using conns_onlyD [OF live(2)] by (simp_all add: tick_def)
  show ?thesis
    using CanReceive_Resolve [OF assms(4)] none same live(1)
    by (simp add: recomputeAndPublish_def bind_io_def find assms(2) t Let_def CountOpenAssigned_def conv_query_def
        then_io_def lift_res_def db_call_def now_io_def Save_def presence_call_def modify_io_def Publish_def
        log_effect_def ignore_io_def return_io_def tick_def)
qed

theorem presence_decides_routing_witness:
  "\<exists>p w'. recomputeAndPublish tick_env demo_ctx ''u1'' demo_team = (Inr p, w') \<and> \<not> CanReceive (ap_Status p)"
  using presence_decides_routing [of tick_env demo_ctx "''t1''" "''u1''" demo_team demo_user] tick_env_ok
  by (auto simp: demo_ctx_def RequireTenant_def demo_team_def demo_user_def user_by_id_def settled_def AutoOfflineOr_def
      HasLiveSocket_def prune_def zfilter_def zcard_def presence_call_def now_io_def io_defs tick_env_def members_def tick_def)

section \<open>A failed count reads as zero\<close>

text \<open>
  C23: a Redis error while the sockets are counted disconnects the agent. When one of two live
  sockets closes and the count fails, \<open>Disconnect\<close> reports the last socket gone and deletes the
  whole connection set, although the other socket was seen in this very millisecond.
\<close>

theorem failed_count_drops_live_sockets:
  assumes "RequireTenant c = Inr t" "fault d (step w) = None" "fault d (Suc (Suc (step w))) = None"
    and "fault d (Suc (Suc (Suc (step w)))) \<noteq> None" "fault d (Suc (Suc (Suc (Suc (step w))))) = None"
  shows "fst (Disconnect d c u i w) = Inr True \<and> conns (snd (Disconnect d c u i w)) (t, u) = None"
  using assms by (auto simp: Disconnect_def prune_def zfilter_def zcard0_def zcard_def presence_call_def now_io_def io_defs)

definition demo_two :: team_world where
  "demo_two = demo_team\<lparr>conns := [(''t1'', ''u1'') \<mapsto> ([(''a'', 0), (''b'', 0)], presenceTTL)]\<rparr>"

theorem failed_count_drops_live_sockets_witness:
  "(''b'', 0) \<in> set (members 0 (''t1'', ''u1'') demo_two)
   \<and> fst (Disconnect (tick_env\<lparr>fault := (\<lambda>n. if n = 3 then Some ''eof'' else None)\<rparr>) demo_ctx ''u1'' ''a'' demo_two) = Inr True
   \<and> conns (snd (Disconnect (tick_env\<lparr>fault := (\<lambda>n. if n = 3 then Some ''eof'' else None)\<rparr>) demo_ctx ''u1'' ''a'' demo_two)) (''t1'', ''u1'') = None"
  using failed_count_drops_live_sockets [of demo_ctx "''t1''" "tick_env\<lparr>fault := (\<lambda>n. if n = 3 then Some ''eof'' else None)\<rparr>" demo_two "''u1''" "''a''"]
  by (simp add: demo_ctx_def RequireTenant_def demo_two_def demo_team_def members_def presenceTTL_def Second_def)

end
