(* ===== verification/Routing_Props.thy ===== *)
theory Routing_Props
  imports Routing Conv_Props Conv_Automation Presence_Props
begin

text \<open>
  What routing guarantees: the conversation goes to the least loaded eligible agent, manual
  routing keeps to the sector and the capacity, every operation takes and gives back the
  conversation's lock, and what it stores is what it returns.
\<close>

section \<open>Eligible agents\<close>

text \<open>The agents automatic routing may pick from, read off the collections and the presence store.\<close>

definition load_of :: "ident \<Rightarrow> 'z conv_world_scheme \<Rightarrow> ident \<Rightarrow> int" where
  "load_of t w u = (if u = [] then 0 else count_docs (counts_as_load t u) (convs w))"

definition reachable_agent :: "ident \<Rightarrow> 'z team_world_scheme \<Rightarrow> ident \<Rightarrow> bool" where
  "reachable_agent t w u \<longleftrightarrow> (case presences w (t, u) of None \<Rightarrow> False
     | Some p \<Rightarrow> CanReceive (ap_Status (fromFields t u p)))"

definition below_capacity :: "ident \<Rightarrow> 'z conv_world_scheme \<Rightarrow> user \<Rightarrow> bool" where
  "below_capacity t w u \<longleftrightarrow> us_MaxConcurrentChats u \<le> 0 \<or> load_of t w (us_ID u) < us_MaxConcurrentChats u"

definition sector_agents :: "ident \<Rightarrow> ident \<Rightarrow> 'z team_world_scheme \<Rightarrow> user list" where
  "sector_agents t s w = take 1000 (filter (\<lambda>u. us_TenantID u = t \<and> s \<in> set (us_SectorIDs u)
     \<and> us_Status u = UserActive) (users w))"

definition eligible :: "ident \<Rightarrow> ident \<Rightarrow> 'z team_world_scheme \<Rightarrow> user list" where
  "eligible t s w = filter (\<lambda>u. reachable_agent t w (us_ID u) \<and> below_capacity t w u) (sector_agents t s w)"

definition cand_of :: "ident \<Rightarrow> 'z conv_world_scheme \<Rightarrow> user \<Rightarrow> candidate" where
  "cand_of t w u = \<lparr>cd_UserID = us_ID u, cd_Load = load_of t w (us_ID u)\<rparr>"

lemma step_eqs [simp]:
  "load_of t (w\<lparr>step := n\<rparr>) = load_of t w" "reachable_agent t (v\<lparr>step := n\<rparr>) = reachable_agent t v"
  "below_capacity t (w\<lparr>step := n\<rparr>) = below_capacity t w" "sector_agents t s (v\<lparr>step := n\<rparr>) = sector_agents t s v"
  "eligible t s (v\<lparr>step := n\<rparr>) = eligible t s v" "cand_of t (w\<lparr>step := n\<rparr>) = cand_of t w"
  by (rule ext | simp add: load_of_def reachable_agent_def below_capacity_def sector_agents_def eligible_def cand_of_def)+

lemma load_of_fold [simp]: "(\<lambda>u. if u = [] then 0 else count_docs (counts_as_load t u) (convs w)) = load_of t w"
  by (rule ext) (simp add: load_of_def)

lemma tick_step: "tick w = w\<lparr>step := Suc (step w)\<rparr>"
  by (simp add: tick_def)

lemma consider_agent_eq:
  assumes "reliable d" "RequireTenant c = Inr t" "IsActive u"
  shows "consider_agent d c (load_of t v) cands u w =
     (Inr (cands @ (if reachable_agent t w (us_ID u) \<and> below_capacity t v u then [cand_of t v u] else [])),
      w\<lparr>step := Suc (step w)\<rparr>)"
  using assms
  by (auto simp: consider_agent_def presence_Get_def presence_call_def io_defs reliable_def tick_step
      reachable_agent_def below_capacity_def cand_of_def split: option.split)

lemma fold_consider:
  assumes "reliable d" "RequireTenant c = Inr t"
  shows "\<forall>u \<in> set us. IsActive u \<Longrightarrow> \<exists>n. fold_io (consider_agent d c (load_of t v)) cands us w =
     (Inr (cands @ map (cand_of t v) (filter (\<lambda>u. reachable_agent t w (us_ID u) \<and> below_capacity t v u) us)), w\<lparr>step := n\<rparr>)"
proof (induction us arbitrary: cands w)
  case Nil
  have "w\<lparr>step := step w\<rparr> = w" by simp
  then show ?case by (metis append_Nil2 filter.simps(1) fold_io.simps(1) list.map(1) return_io_def)
next
  case (Cons u us)
  let ?w = "w\<lparr>step := Suc (step w)\<rparr>"
  let ?c = "cands @ (if reachable_agent t w (us_ID u) \<and> below_capacity t v u then [cand_of t v u] else [])"
  obtain n where n: "fold_io (consider_agent d c (load_of t v)) ?c us ?w =
     (Inr (?c @ map (cand_of t v) (filter (\<lambda>u. reachable_agent t ?w (us_ID u) \<and> below_capacity t v u) us)), ?w\<lparr>step := n\<rparr>)"
    using Cons.IH [of ?c ?w] Cons.prems by auto
  have "fold_io (consider_agent d c (load_of t v)) cands (u # us) w
      = fold_io (consider_agent d c (load_of t v)) ?c us ?w"
    using consider_agent_eq [OF assms, of u v cands w] Cons.prems by (simp add: bind_io_def)
  then show ?case using n by (auto intro: exI [of _ n])
qed

lemma eligibleAgents_eq:
  assumes "reliable d" "RequireTenant c = Inr t"
  shows "\<exists>n. eligibleAgents d c s w = (Inr (sortCandidates (map (cand_of t w) (eligible t s w))), w\<lparr>step := n\<rparr>)"
proof -
  let ?w = "w\<lparr>step := Suc (Suc (step w))\<rparr>"
  have act: "\<forall>u \<in> set (sector_agents t s w). IsActive u"
    by (auto simp: sector_agents_def IsActive_def dest!: in_set_takeD)
  obtain n where n: "fold_io (consider_agent d c (load_of t w)) [] (sector_agents t s w) ?w =
     (Inr (map (cand_of t w) (filter (\<lambda>u. reachable_agent t ?w (us_ID u) \<and> below_capacity t w u) (sector_agents t s w))), ?w\<lparr>step := n\<rparr>)"
    using fold_consider [OF assms act, of w "[]" ?w] by auto
  then show ?thesis using assms
    by (auto simp: eligibleAgents_def ListBySector_def OpenAssignedLoads_def conv_query_def db_call_def bind_io_def
        lift_res_def gets_io_def reliable_def tick_step sector_agents_def [symmetric] return_io_def eligible_def)
qed

lemma map_insort_key: "map f (insort_key (\<lambda>y. g (f y)) x xs) = insort_key g (f x) (map f xs)"
  by (induction xs) auto

lemma map_sort_key: "map f (sort_key (\<lambda>y. g (f y)) xs) = sort_key g (map f xs)"
  by (induction xs) (simp_all add: map_insort_key)

lemma sortCandidates_map:
  "sortCandidates (map (cand_of t w) us) = map (cand_of t w) (sort_key (\<lambda>u. (load_of t w (us_ID u), us_ID u)) us)"
  using map_sort_key [of "cand_of t w" "\<lambda>x. (cd_Load x, cd_UserID x)" us] by (simp add: sortCandidates_def cand_of_def)

text \<open>The first of a list sorted by a key is a minimum of the list.\<close>

lemma hd_sort_key:
  assumes "xs \<noteq> []"
  shows "hd (sort_key f xs) \<in> set xs \<and> (\<forall>y \<in> set xs. f (hd (sort_key f xs)) \<le> f y)"
proof -
  have "sort_key f xs \<noteq> []" using assms by (metis length_0_conv length_sort)
  then obtain z zs where z: "sort_key f xs = z # zs" by (cases "sort_key f xs") auto
  then have "set xs = insert z (set zs)" by (metis list.simps(15) set_sort)
  moreover have "sorted (map f (z # zs))" using sorted_sort_key [of f xs] z by simp
  ultimately show ?thesis using z by auto
qed

section \<open>Under the lock\<close>

lemma assertAccess_visible:
  "ctx_auth c = Some ac \<Longrightarrow> assertAccess c cv = (if visibleTo cv ac then Inr () else Inl (NotFound ''conversation not found''))"
  by (auto simp: assertAccess_def visibleTo_def contains_id_def)

text \<open>Whether the lock of a conversation is held when the operation asks for it.\<close>

definition lock_held :: "'e env_scheme \<Rightarrow> ident \<Rightarrow> ident \<Rightarrow> 'z ops_world_scheme \<Rightarrow> bool" where
  "lock_held d t i w \<longleftrightarrow> rget (clk d (step w + 2)) (routing_key t i) (redis w) \<noteq> None"

text \<open>The world in which the body runs: three clock steps later, the lock stored.\<close>

definition locked :: "'e env_scheme \<Rightarrow> ident \<Rightarrow> ident \<Rightarrow> 'z ops_world_scheme \<Rightarrow> 'z ops_world_scheme" where
  "locked d t i w = w\<lparr>redis := (redis w)(routing_key t i \<mapsto>
     \<lparr>re_Value = RString (newid d (step w + 1)), re_Expires = Some (clk d (step w + 2) + routingLockTTL)\<rparr>),
     step := step w + 4\<rparr>"

text \<open>Every way \<open>withLock\<close> can go.\<close>

lemma withLock_cases:
  assumes "reliable d"
  shows "withLock d c i f w = (case RequireTenant c of
     Inl e \<Rightarrow> (Inl e, w)
   | Inr t \<Rightarrow> (case find (by_id t i) (convs w) of
       None \<Rightarrow> (Inl (NotFound ''resource not found''), tick w)
     | Some cv \<Rightarrow> (case assertAccess c cv of
         Inl e \<Rightarrow> (Inl e, tick w)
       | Inr _ \<Rightarrow> if lock_held d t i w
           then (Inl (Conflict ''conversation is being routed by another operation''), w\<lparr>step := step w + 3\<rparr>)
           else (case f cv (locked d t i w) of (r, w') \<Rightarrow> (r, snd (release d (routing_key t i) (newid d (step w + 1)) w'))))))"
proof -
  have none: "fault d n = None" for n using assms by (simp add: reliable_def)
  show ?thesis
    by (auto simp: withLock_def io_defs none conv_FindByID_def conv_query_def db_call_def find_one_def MapError_def
        Acquire_def new_id_def redis_call_def SetNX_def lock_held_def locked_def defer_io_def tick_step
        numeral_eq_Suc split: sum.split option.split prod.split)
qed

section \<open>Storing an assignment\<close>

definition assigned_copy :: "ident \<Rightarrow> time \<Rightarrow> conversation \<Rightarrow> conversation" where
  "assigned_copy a now cv = cv\<lparr>cv_AssignedTo := a, cv_Status := StatusAssigned, cv_QueueID := [], cv_UpdatedAt := now\<rparr>"

lemma assigned_identity [simp]:
  "same_identity (assigned_copy a now cv) cv" "cv_ID (assigned_copy a now cv) = cv_ID cv"
  "cv_TenantID (assigned_copy a now cv) = cv_TenantID cv" "cv_SectorID (assigned_copy a now cv) = cv_SectorID cv"
  by (simp_all add: same_identity_def assigned_copy_def)

definition assign_hooks :: "ident \<Rightarrow> ident \<Rightarrow> conversation \<Rightarrow> effect list" where
  "assign_hooks t a cv = [EQueueChanged t (cv_SectorID cv) (cv_QueueID cv),
     ENotify (cv_TenantID cv) a ''conversation.assigned_to_you'' (''/conversations/'' @ cv_ID cv)]"

lemma fr_note_publish_to: "framed (noted fan) (publish_to d topics ev p)"
  unfolding publish_to_def by (intro note_rel.fr_for note_rel.fr_ignore fr_note_Publish) simp

lemma noerr_publish_to: "noerr (publish_to d topics ev p)"
  unfolding publish_to_def by (intro noerr_basic)

lemma fr_note_publishes:
  "framed (noted fan) (publishAssigned d cv a)" "framed (noted fan) (publishTransferred d cv s)"
  "framed (noted fan) (publishUpdated d cv)"
  unfolding publishAssigned_def publishTransferred_def publishUpdated_def
  by (intro note_rel.fr_bind fr_note_payload fr_note_publish_to)+

lemma noerr_publishes:
  "noerr (publishAssigned d cv a)" "noerr (publishTransferred d cv s)" "noerr (publishUpdated d cv)"
  unfolding publishAssigned_def publishTransferred_def publishUpdated_def
  by (intro noerr_bind noerr_payload noerr_publish_to)+

lemma wp_applyAssignment:
  assumes "reliable d" "ctx_tenant c = Some t" "t \<noteq> []" "find (by_id t i) (convs w) = Some cv"
    and "\<And>now w'. only_changed t i (assigned_copy a now cv) w w' \<Longrightarrow> msgs w' = msgs w \<Longrightarrow>
      hook_log w' = hook_log w @ assign_hooks t a cv \<Longrightarrow> Q (assigned_copy a now cv) w'"
  shows "wp (applyAssignment d c cv a) Q E w"
proof -
  have cv: "cv_ID cv = i" "cv_TenantID cv = t" using found_id [OF assms(4)] by auto
  have store: "only_changed t i (assigned_copy a now cv) w w'"
    if "same_docs (w\<lparr>step := k, convs := update_first (by_id t i) (conv_set (assigned_copy a now cv)) (convs w)\<rparr>) w'" for k now w'
    using that assms(4) cv by (intro only_changed_update [OF assms(4)]) (auto simp: same_docs_def)
  have t: "ctx_tenant_id c = t" using assms(2) by (simp add: ctx_tenant_id_def)
  show ?thesis
    unfolding applyAssignment_def Let_def mon_wp assigned_copy_def [symmetric]
    by (rule wp_conv_Update_loaded [where t = t])
       (use assms cv t store in \<open>auto simp: mon_wp same_docs_def assign_hooks_def reliable_def
         intro!: wp_note [OF fr_note_recordEvent noerr_recordEvent] wp_note [OF fr_note_publishes(1) noerr_publishes(1)]
           wp_note [OF fr_note_webhooks(1) noerr_webhooks(1)] assms(5)\<close>)
qed

section \<open>Automatic routing\<close>

lemma locked_simps [simp]:
  "convs (locked d t i w) = convs w" "msgs (locked d t i w) = msgs w" "effects (locked d t i w) = effects w"
  "hook_log (locked d t i w) = hook_log w" "load_of t (locked d t i w) = load_of t w"
  by (simp_all add: locked_def hook_log_def load_of_def fun_eq_iff)

lemma eligible_locked [simp]: "eligible t s (locked d t i w) = eligible t s w" for w :: "'z team_world_scheme"
  by (simp add: locked_def eligible_def sector_agents_def reachable_agent_def below_capacity_def load_of_def)

lemma released_simps [simp]:
  "convs (snd (release d k tok w)) = convs w" "msgs (snd (release d k tok w)) = msgs w"
  "effects (snd (release d k tok w)) = effects w" "hook_log (snd (release d k tok w)) = hook_log w"
  by (simp_all add: release_def ignore_io_def hook_log_def)

lemma only_changed_views:
  "only_changed t i cv (locked d t' j w) w' = only_changed t i cv w w'"
  "only_changed t i cv w (snd (release d k tok w')) = only_changed t i cv w w'"
  by (simp_all add: only_changed_def)

text \<open>The order in which agents are preferred: load, then identifier.\<close>

definition preference :: "ident \<Rightarrow> 'z conv_world_scheme \<Rightarrow> user \<Rightarrow> int \<times> ident" where
  "preference t w u = (load_of t w (us_ID u), us_ID u)"

text \<open>
  The decision automatic routing makes, as a function of the state it finds: the reason to
  refuse, or the conversation with the agent it goes to.
\<close>

definition auto_decision ::
  "'e env_scheme \<Rightarrow> ctx \<Rightarrow> ident \<Rightarrow> 'z team_world_scheme \<Rightarrow> (conversation \<times> user) res" where
  "auto_decision d c i w = (case RequireTenant c of
     Inl e \<Rightarrow> Inl e
   | Inr t \<Rightarrow> (case find (by_id t i) (convs w) of
       None \<Rightarrow> Inl (NotFound ''resource not found'')
     | Some cv \<Rightarrow> (case assertAccess c cv of
         Inl e \<Rightarrow> Inl e
       | Inr _ \<Rightarrow>
          if lock_held d t i w then Inl (Conflict ''conversation is being routed by another operation'')
          else if status_is_closed (cv_Status cv) then Inl (Conflict ''closed conversation cannot be assigned'')
          else if cv_AssignedTo cv \<noteq> [] then Inl (Conflict ''conversation is already assigned'')
          else if cv_SectorID cv = [] then Inl (Validation ''conversation has no sector'')
          else if eligible t (cv_SectorID cv) w = [] then Inl (Conflict ''no eligible agents available'')
          else Inr (cv, hd (sort_key (preference t w) (eligible t (cv_SectorID cv) w))))))"

definition routed_outcome ::
  "ctx \<Rightarrow> ident \<Rightarrow> (conversation \<times> user) res \<Rightarrow> 'z conv_world_scheme \<Rightarrow> conversation res \<Rightarrow> 'z conv_world_scheme \<Rightarrow> bool" where
  "routed_outcome c i dec w r w' \<longleftrightarrow> (case dec of
     Inl e \<Rightarrow> r = Inl e \<and> convs w' = convs w \<and> msgs w' = msgs w \<and> effects w' = effects w
   | Inr (cv, u) \<Rightarrow> (\<exists>now. r = Inr (assigned_copy (us_ID u) now cv)
        \<and> only_changed (ctx_tenant_id c) i (assigned_copy (us_ID u) now cv) w w' \<and> msgs w' = msgs w
        \<and> hook_log w' = hook_log w @ assign_hooks (ctx_tenant_id c) (us_ID u) cv))"

lemma wp_auto_body:
  fixes w :: "'z team_world_scheme"
  assumes "reliable d" "RequireTenant c = Inr t" "find (by_id t i) (convs w) = Some cv" "assertAccess c cv = Inr ()"
    and free: "\<not> lock_held d t i w"
  shows "wp (auto_body d c cv) (\<lambda>x. routed_outcome c i (auto_decision d c i w) w (Inr x))
     (\<lambda>e. routed_outcome c i (auto_decision d c i w) w (Inl e)) (locked d t i w)"
proof -
  let ?us = "eligible t (cv_SectorID cv) w"
  have t: "ctx_tenant c = Some t" "t \<noteq> []" "ctx_tenant_id c = t"
    using assms(2) by (auto simp: RequireTenant_Inr ctx_tenant_id_def)
  obtain n where n: "eligibleAgents d c (cv_SectorID cv) (locked d t i w)
      = (Inr (sortCandidates (map (cand_of t (locked d t i w)) ?us)), (locked d t i w)\<lparr>step := n\<rparr>)"
    using eligibleAgents_eq [OF assms(1,2), of "cv_SectorID cv" "locked d t i w"] by auto
  have cands: "sortCandidates (map (cand_of t (locked d t i w)) ?us) = map (cand_of t w) (sort_key (preference t w) ?us)"
    by (simp add: sortCandidates_map preference_def [abs_def] cand_of_def)
  have el: "wp (eligibleAgents d c (cv_SectorID cv)) Q E (locked d t i w)
      = Q (map (cand_of t w) (sort_key (preference t w) ?us)) ((locked d t i w)\<lparr>step := n\<rparr>)" for Q E
    by (simp add: wp_def n cands)
  have go: "wp (applyAssignment d c cv a) Q E ((locked d t i w)\<lparr>step := n\<rparr>)"
    if "\<And>now w'. only_changed t i (assigned_copy a now cv) w w' \<Longrightarrow> msgs w' = msgs w \<Longrightarrow>
      hook_log w' = hook_log w @ assign_hooks t a cv \<Longrightarrow> Q (assigned_copy a now cv) w'" for a Q E
    using that assms(3) by (intro wp_applyAssignment [OF assms(1) t(1,2)]) (auto simp: only_changed_def)
  show ?thesis
  proof (cases "sort_key (preference t w) ?us")
    case Nil
    then have "?us = []" by (metis length_0_conv length_sort)
    then show ?thesis using assms(2-5) Nil
      by (simp add: auto_body_def mon_wp el auto_decision_def routed_outcome_def)
  next
    case (Cons u us)
    then have "?us \<noteq> []" by (metis list.distinct(1) sort_key_simps(1))
    then show ?thesis using assms(2-5) Cons t
      by (auto simp: auto_body_def mon_wp el auto_decision_def routed_outcome_def cand_of_def intro!: go)
  qed
qed

lemma AutoAssign_outcome:
  assumes "reliable d"
  shows "routed_outcome c i (auto_decision d c i w) w (fst (AutoAssign d c i w)) (snd (AutoAssign d c i w))"
proof (cases "\<exists>t cv. RequireTenant c = Inr t \<and> find (by_id t i) (convs w) = Some cv \<and> assertAccess c cv = Inr ()
    \<and> \<not> lock_held d t i w")
  case True
  then obtain t cv where *: "RequireTenant c = Inr t" "find (by_id t i) (convs w) = Some cv" "assertAccess c cv = Inr ()"
    "\<not> lock_held d t i w" by blast
  obtain r w' where r: "auto_body d c cv (locked d t i w) = (r, w')" by fastforce
  have "routed_outcome c i (auto_decision d c i w) w r w'"
    using wp_auto_body [OF assms *] r by (cases r) (auto simp: wp_def)
  then show ?thesis unfolding AutoAssign_def withLock_cases [OF assms] using * r
    by (auto simp: routed_outcome_def only_changed_views split: sum.splits prod.splits)
next
  case False
  then show ?thesis unfolding AutoAssign_def withLock_cases [OF assms]
    by (auto simp: routed_outcome_def auto_decision_def split: sum.splits option.splits)
qed

text \<open>
  C16: automatic routing on every branch. The call refuses with the first reason that applies
  (tenant, unknown or hidden conversation, lock held by another operation, closed, already
  assigned, no sector, nobody eligible) and then changes no conversation, no message and calls
  no port; otherwise it returns and stores the conversation assigned to the agent of the
  decision, taken out of its queue, and reports the queue it left and the agent once each.
\<close>

theorem AutoAssign_on_every_branch:
  assumes "reliable d"
  shows "routed_outcome c i (auto_decision d c i w) w (fst (AutoAssign d c i w)) (snd (AutoAssign d c i w))"
  using assms by (rule AutoAssign_outcome)

definition demo_agent2 :: user where
  "demo_agent2 = demo_user\<lparr>us_ID := ''u2'', us_Name := ''Bea''\<rparr>"

definition demo_online :: "ident \<Rightarrow> agent_presence" where
  "demo_online u = \<lparr>ap_TenantID = ''t1'', ap_UserID = u, ap_Status = PresenceOnline, ap_Availability = AvailabilityOnline,
     ap_AutoOffline = True, ap_CurrentLoad = 0, ap_MaxConcurrentChats = 3, ap_LastSeenAt = 0\<rparr>"

text \<open>Two agents of the sector are online; the first already has a conversation.\<close>

definition demo_floor :: team_world where
  "demo_floor = demo_team\<lparr>users := [demo_user, demo_agent2],
     convs := [demo_conv, demo_conv\<lparr>cv_ID := ''c2'', cv_Status := StatusAssigned, cv_AssignedTo := ''u1''\<rparr>],
     presences := (\<lambda>(t, u). if t = ''t1'' then Some (demo_online u) else None)\<rparr>"

lemma demo_floor_eligible: "eligible ''t1'' ''s1'' demo_floor = [demo_user, demo_agent2]"
  by (simp add: eligible_def sector_agents_def reachable_agent_def below_capacity_def load_of_def count_docs_def
      counts_as_load_def openStatuses_def demo_floor_def demo_team_def demo_user_def demo_agent2_def demo_online_def
      demo_defs fromFields_def CanReceive_def PresenceOnline_def)

lemma demo_floor_loads: "load_of ''t1'' demo_floor ''u1'' = 1" "load_of ''t1'' demo_floor ''u2'' = 0"
  by (simp_all add: load_of_def count_docs_def counts_as_load_def openStatuses_def demo_floor_def demo_defs StatusAssigned_def)

lemma demo_floor_views:
  "find (by_id ''t1'' ''c1'') (convs demo_floor) = Some demo_conv" "\<not> lock_held d t i demo_floor"
  "us_ID demo_user = ''u1''" "us_ID demo_agent2 = ''u2''"
  by (simp_all add: by_id_def lock_held_def rget_def demo_floor_def demo_team_def demo_user_def demo_agent2_def demo_conv_def)

lemma demo_floor_decision: "auto_decision tick_env demo_ctx ''c1'' demo_floor = Inr (demo_conv, demo_agent2)"
proof -
  have "cv_Status demo_conv = StatusQueued" "cv_AssignedTo demo_conv = []" "cv_SectorID demo_conv = ''s1''"
    "assertAccess demo_ctx demo_conv = Inr ()" "RequireTenant demo_ctx = Inr ''t1''"
    by (simp_all add: demo_defs assertAccess_def contains_id_def RequireTenant_def)
  then show ?thesis
    by (simp add: auto_decision_def demo_floor_views demo_floor_eligible preference_def demo_floor_loads)
qed

theorem AutoAssign_on_every_branch_witness:
  "routed_outcome demo_ctx ''c1'' (Inr (demo_conv, demo_agent2)) demo_floor
     (fst (AutoAssign tick_env demo_ctx ''c1'' demo_floor)) (snd (AutoAssign tick_env demo_ctx ''c1'' demo_floor))"
  using AutoAssign_on_every_branch [OF tick_env_ok(1), of demo_ctx "''c1''" demo_floor] unfolding demo_floor_decision .

text \<open>
  C17: the conversation goes to the least loaded eligible agent. If automatic routing succeeds,
  the agent is an active member of the conversation's sector who is online and below capacity,
  and no other such agent (of the thousand the sector listing considers) has a smaller load,
  or an equal load and a smaller identifier.
\<close>

theorem AutoAssign_least_loaded:
  assumes "reliable d" "RequireTenant c = Inr t" "fst (AutoAssign d c i w) = Inr cv"
  shows "\<exists>u \<in> set (eligible t (cv_SectorID cv) w). cv_AssignedTo cv = us_ID u \<and> us_Status u = UserActive
     \<and> cv_SectorID cv \<in> set (us_SectorIDs u)
     \<and> (\<forall>v \<in> set (eligible t (cv_SectorID cv) w). preference t w u \<le> preference t w v)"
proof -
  obtain old u where dec: "auto_decision d c i w = Inr (old, u)" "cv_SectorID cv = cv_SectorID old" "cv_AssignedTo cv = us_ID u"
    using AutoAssign_outcome [OF assms(1), of c i w] assms(3)
    by (auto simp: routed_outcome_def assigned_copy_def split: sum.splits)
  then have "eligible t (cv_SectorID cv) w \<noteq> []" "u = hd (sort_key (preference t w) (eligible t (cv_SectorID cv) w))"
    using assms(2) by (auto simp: auto_decision_def split: sum.splits option.splits if_splits)
  then have "u \<in> set (eligible t (cv_SectorID cv) w)" "\<forall>v \<in> set (eligible t (cv_SectorID cv) w). preference t w u \<le> preference t w v"
    using hd_sort_key by blast+
  moreover from this(1) have "us_Status u = UserActive \<and> cv_SectorID cv \<in> set (us_SectorIDs u)"
    by (auto simp: eligible_def sector_agents_def dest!: in_set_takeD)
  ultimately show ?thesis using dec(3) by blast
qed

theorem AutoAssign_least_loaded_witness:
  "\<exists>cv u. fst (AutoAssign tick_env demo_ctx ''c1'' demo_floor) = Inr cv \<and> cv_AssignedTo cv = us_ID u
     \<and> preference ''t1'' demo_floor u \<le> preference ''t1'' demo_floor demo_agent2"
proof -
  obtain cv where cv: "fst (AutoAssign tick_env demo_ctx ''c1'' demo_floor) = Inr cv" "cv_SectorID cv = ''s1''"
    using AutoAssign_outcome [OF tick_env_ok(1), of demo_ctx "''c1''" demo_floor]
    unfolding demo_floor_decision by (auto simp: routed_outcome_def demo_conv_def)
  show ?thesis
    using AutoAssign_least_loaded [OF tick_env_ok(1) _ cv(1), of "''t1''"] cv demo_floor_eligible
    by (auto simp: demo_ctx_def RequireTenant_def)
qed

section \<open>Manual routing\<close>

lemma evaluateAgent_Inr:
  assumes "evaluateAgent d c a s True w = (Inr (), w')"
  shows "\<exists>t u. RequireTenant c = Inr t \<and> find (user_by_id t a) (users w) = Some u \<and> IsActive u
     \<and> contains_id (us_SectorIDs u) s
     \<and> (us_MaxConcurrentChats u \<le> 0 \<or> count_docs (counts_as_load t a) (convs w) < us_MaxConcurrentChats u)
     \<and> users w' = users w \<and> convs w' = convs w"
  using assms
  by (auto simp: evaluateAgent_def remap_not_found_def user_FindByID_def CountOpenAssigned_def conv_query_def io_defs
      db_call_def find_one_def tick_def split: sum.splits option.splits if_splits prod.splits)

text \<open>The agents a manual choice is allowed to name.\<close>

definition assignable :: "ident \<Rightarrow> ident \<Rightarrow> ident \<Rightarrow> 'z team_world_scheme \<Rightarrow> bool" where
  "assignable t a s w \<longleftrightarrow> (\<exists>u. find (user_by_id t a) (users w) = Some u \<and> us_Status u = UserActive \<and> s \<noteq> []
     \<and> s \<in> set (us_SectorIDs u)
     \<and> (us_MaxConcurrentChats u \<le> 0 \<or> count_docs (counts_as_load t a) (convs w) < us_MaxConcurrentChats u))"

lemma evaluateAgent_assignable:
  "wp (evaluateAgent d c a s True) (\<lambda>_ w'. \<exists>t. RequireTenant c = Inr t \<and> assignable t a s w) (\<lambda>_ _. True) w"
  using evaluateAgent_Inr [of d c a s w] unfolding assignable_def IsActive_def contains_id_def
  by (fastforce simp: wp_def split: prod.splits sum.splits)

lemma wp_weaken: "wp m Q E w \<Longrightarrow> (\<And>x w'. Q x w' \<Longrightarrow> Q' x w') \<Longrightarrow> wp m Q' (\<lambda>_ _. True) w"
  by (erule wp_mono) auto

lemma wp_returns: "returns m P \<Longrightarrow> wp m (\<lambda>x _. P x) (\<lambda>_ _. True) w"
  by (simp add: returns_wp)

lemma wp_True: "wp m (\<lambda>_ _. True) (\<lambda>_ _. True) w"
  by (auto simp: wp_def split: prod.splits sum.splits)

lemma assign_body_assignable:
  "wp (assign_body d c a cv) (\<lambda>x _. cv_AssignedTo x = a \<and> cv_Status x = StatusAssigned
      \<and> (\<exists>t. RequireTenant c = Inr t \<and> assignable t a (cv_SectorID x) w)) (\<lambda>_ _. True) w"
proof -
  have app: "wp (applyAssignment d c cv a) (\<lambda>x _. cv_AssignedTo x = a \<and> cv_Status x = StatusAssigned \<and> cv_SectorID x = cv_SectorID cv) (\<lambda>_ _. True) w'" for w'
    unfolding applyAssignment_def Let_def mon_wp by (simp add: wp_mono [OF wp_True])
  show ?thesis unfolding assign_body_def mon_wp
    by (auto intro!: wp_weaken [OF evaluateAgent_assignable] wp_weaken [OF app])
qed

lemma transfer_target_assignable:
  fixes w :: "'z team_world_scheme"
  assumes "tc_AgentID cmd \<noteq> []"
  shows "wp (transfer_target d c cmd cv) (\<lambda>x _. cv_AssignedTo x = tc_AgentID cmd \<and> cv_Status x = StatusAssigned
      \<and> (\<exists>t. RequireTenant c = Inr t \<and> assignable t (tc_AgentID cmd) (cv_SectorID x) w)) (\<lambda>_ _. True) w"
proof -
  have same: "assignable t a s w' = assignable t a s w" if "users w' = users w" "convs w' = convs w" for t a s and w' :: "'z team_world_scheme"
    using that by (simp add: assignable_def)
  have sec: "wp (remap_not_found e (sector_FindByID d c s)) (\<lambda>_ w'. users w' = users w \<and> convs w' = convs w) (\<lambda>_ _. True) w" for e s
    by (auto simp: wp_def remap_not_found_def sector_FindByID_def io_defs db_call_def tick_def split: sum.split option.split)
  have agent: "wp (evaluateAgent d c (tc_AgentID cmd) s True) (\<lambda>_ _. \<exists>t. RequireTenant c = Inr t \<and> assignable t (tc_AgentID cmd) s w) (\<lambda>_ _. True) w'"
    if "users w' = users w" "convs w' = convs w" for s and w' :: "'z team_world_scheme"
    by (rule wp_weaken [OF evaluateAgent_assignable]) (auto simp: same [OF that])
  have tick: "users (w'\<lparr>step := n\<rparr>) = users w'" "convs (w'\<lparr>step := n\<rparr>) = convs w'" for n and w' :: "'z team_world_scheme"
    by simp_all
  show ?thesis unfolding transfer_target_def mon_wp using assms
    by (auto simp: mon_wp intro!: wp_weaken [OF sec] wp_weaken [OF agent])
qed

lemma wp_withLock:
  fixes w :: "'z team_world_scheme"
  assumes "\<And>t cv w'. RequireTenant c = Inr t \<Longrightarrow> users w' = users w \<Longrightarrow> convs w' = convs w \<Longrightarrow>
     wp (f cv) (\<lambda>x _. Q x) (\<lambda>_ _. True) w'"
  shows "wp (withLock d c i f) (\<lambda>x _. Q x) (\<lambda>_ _. True) w"
  using assms
  by (auto simp: withLock_def io_wp conv_FindByID_def on_db_def Acquire_def SetNX_def tick_def
      split: sum.split option.split prod.split if_splits)

text \<open>
  C18: manual routing keeps to the sector, the account and the capacity. Whatever the driver
  does, if \<open>Assign\<close> or a \<open>Transfer\<close> to an agent succeeds, the returned conversation is assigned
  to the agent asked for, who is an active account of the tenant, a member of the sector the
  conversation now is in, and below the maximum of concurrent conversations.
\<close>

theorem manual_routing_respects_sector_and_capacity:
  fixes w :: "'z team_world_scheme"
  assumes "RequireTenant c = Inr t"
    and "fst (Assign d c i a w) = Inr cv \<or> a \<noteq> [] \<and> fst (Transfer d c i \<lparr>tc_SectorID = s, tc_AgentID = a\<rparr> w) = Inr cv"
  shows "cv_AssignedTo cv = a \<and> cv_Status cv = StatusAssigned \<and> assignable t a (cv_SectorID cv) w"
proof -
  let ?Q = "\<lambda>x. cv_AssignedTo x = a \<and> cv_Status x = StatusAssigned \<and> assignable t a (cv_SectorID x) w"
  let ?cmd = "\<lparr>tc_SectorID = s, tc_AgentID = a\<rparr>"
  have same: "assignable t' b s' w" if "users w' = users w" "convs w' = convs w" "assignable t' b s' w'"
    for t' b s' and w' :: "'z team_world_scheme"
    using that by (simp add: assignable_def)
  have "wp (Assign d c i a) (\<lambda>x _. ?Q x) (\<lambda>_ _. True) w"
    unfolding Assign_def
    by (intro wp_withLock wp_weaken [OF assign_body_assignable]) (use assms(1) in \<open>auto intro: same\<close>)
  moreover have "wp (Transfer d c i ?cmd) (\<lambda>x _. ?Q x) (\<lambda>_ _. True) w" if "a \<noteq> []"
    unfolding Transfer_def
  proof (intro wp_withLock, goal_cases)
    case (1 t' cv0 w')
    show ?case unfolding transfer_body_def wp_bind
      by (intro wp_weaken [OF transfer_target_assignable] wp_returns returns_then returns_return)
         (use 1 that assms(1) in \<open>auto intro: same\<close>)
  qed
  ultimately show ?thesis using assms(2) by (auto simp: wp_def split: prod.splits)
qed

lemma demo_conv_views:
  "cv_Status demo_conv = StatusQueued" "cv_AssignedTo demo_conv = []" "cv_SectorID demo_conv = ''s1''"
  "assertAccess demo_ctx demo_conv = Inr ()" "RequireTenant demo_ctx = Inr ''t1''"
  by (simp_all add: demo_defs assertAccess_def contains_id_def RequireTenant_def)

lemma demo_evaluate:
  "evaluateAgent tick_env demo_ctx ''u2'' ''s1'' True (locked tick_env ''t1'' ''c1'' demo_floor)
     = (Inr (), (locked tick_env ''t1'' ''c1'' demo_floor)\<lparr>step := 6\<rparr>)"
  using demo_floor_loads
  by (simp add: evaluateAgent_def remap_not_found_def user_FindByID_def CountOpenAssigned_def conv_query_def db_call_def
      io_defs demo_conv_views find_one_def user_by_id_def IsActive_def contains_id_def load_of_def locked_def tick_def
      tick_env_def demo_floor_def demo_team_def demo_user_def demo_agent2_def)

lemma wp_eq: "m w = (Inr x, w') \<Longrightarrow> wp m Q E w = Q x w'"
  by (simp add: wp_def)

theorem manual_routing_respects_sector_and_capacity_witness:
  "\<exists>cv. fst (Assign tick_env demo_ctx ''c1'' ''u2'' demo_floor) = Inr cv \<and> assignable ''t1'' ''u2'' (cv_SectorID cv) demo_floor"
proof -
  note ev = wp_eq [of "evaluateAgent tick_env demo_ctx ''u2'' ''s1'' True", OF demo_evaluate]
  have "wp (applyAssignment tick_env demo_ctx demo_conv ''u2'') (\<lambda>_ _. True) (\<lambda>_ _. False)
      ((locked tick_env ''t1'' ''c1'' demo_floor)\<lparr>step := 6\<rparr>)"
    by (rule wp_applyAssignment [OF tick_env_ok(1), where t = "''t1''" and i = "''c1''"])
       (simp_all add: demo_floor_views demo_ctx_def)
  then have "wp (assign_body tick_env demo_ctx ''u2'' demo_conv) (\<lambda>_ _. True) (\<lambda>_ _. False) (locked tick_env ''t1'' ''c1'' demo_floor)"
    using demo_conv_views by (simp add: assign_body_def mon_wp ev)
  then have "\<not> isl (fst (Assign tick_env demo_ctx ''c1'' ''u2'' demo_floor))"
    using demo_conv_views
    by (auto simp: Assign_def withLock_cases [OF tick_env_ok(1)] demo_floor_views wp_def split: prod.splits sum.splits)
  then have "\<exists>cv. fst (Assign tick_env demo_ctx ''c1'' ''u2'' demo_floor) = Inr cv"
    by (cases "fst (Assign tick_env demo_ctx ''c1'' ''u2'' demo_floor)") auto
  then show ?thesis
    using manual_routing_respects_sector_and_capacity [of demo_ctx "''t1''" tick_env "''c1''" "''u2''" demo_floor]
    by (auto simp: demo_ctx_def RequireTenant_def)
qed

section \<open>What counts as load\<close>

text \<open>
  Most of an agent's open conversations carry no load. The load counter looks for the
  statuses open, assigned and pending, of which only assigned exists: conversations that are
  new, queued, waiting for the customer, waiting for the agent or transferred are open but
  never counted, so an agent with any number of them is still below any positive capacity.
\<close>

theorem waiting_conversations_carry_no_load:
  assumes "\<forall>cv \<in> set (convs w). cv_Status cv \<in> {StatusNew, StatusQueued, StatusWaitingCustomer, StatusWaitingAgent, StatusTransferred}"
    and "0 < us_MaxConcurrentChats u"
  shows "load_of t w a = 0 \<and> below_capacity t w u"
proof -
  have "\<not> counts_as_load t b cv" if "cv \<in> set (convs w)" for b cv
    using assms(1) that by (auto simp: counts_as_load_def openStatuses_def StatusNew_def StatusQueued_def
        StatusWaitingCustomer_def StatusWaitingAgent_def StatusTransferred_def)
  then have "filter (counts_as_load t b) (convs w) = []" for b by (simp add: filter_empty_conv)
  then show ?thesis using assms(2) by (simp add: load_of_def below_capacity_def count_docs_def)
qed

definition demo_waiting :: team_world where
  "demo_waiting = demo_floor\<lparr>convs := map (\<lambda>n. demo_conv\<lparr>cv_ID := n, cv_Status := StatusWaitingAgent,
     cv_AssignedTo := ''u1''\<rparr>) [''c1'', ''c2'', ''c3'', ''c4'']\<rparr>"

theorem waiting_conversations_carry_no_load_witness:
  "length (filter (\<lambda>cv. cv_AssignedTo cv = ''u1'' \<and> \<not> status_is_closed (cv_Status cv)) (convs demo_waiting)) = 4
   \<and> us_MaxConcurrentChats demo_user = 3 \<and> below_capacity ''t1'' demo_waiting demo_user"
proof -
  have "below_capacity ''t1'' demo_waiting demo_user"
    using waiting_conversations_carry_no_load [of demo_waiting demo_user "''t1''"]
    by (simp add: demo_waiting_def demo_user_def)
  then show ?thesis by (simp add: demo_waiting_def demo_user_def)
qed

section \<open>The lock of a conversation\<close>

datatype routing_op = OpAssign ident | OpAuto | OpTransfer transfer_command | OpEnqueue ident

fun run_routing :: "'e env_scheme \<Rightarrow> ctx \<Rightarrow> ident \<Rightarrow> routing_op \<Rightarrow> ('z team_world_scheme, conversation) io" where
  "run_routing d c i (OpAssign a) = Assign d c i a"
| "run_routing d c i OpAuto = AutoAssign d c i"
| "run_routing d c i (OpTransfer cmd) = Transfer d c i cmd"
| "run_routing d c i (OpEnqueue q) = Enqueue d c i q"

lemma rest_read: "framed same_rest (bind_io (lift_res r) (\<lambda>t. db_call d (\<lambda>w. (f t w, w))))"
  by (auto simp: framed_def bind_io_def lift_res_def db_call_def same_rest_def tick_def split: sum.split option.split)

lemma rest_user: "framed same_rest (user_FindByID d c i)"
  unfolding user_FindByID_def by (rule rest_read)

lemma rest_queue: "framed same_rest (queue_FindByID d c i)"
  unfolding queue_FindByID_def by (rule rest_read)

lemma rest_sector_agents: "framed same_rest (ListBySector d c s)"
  unfolding ListBySector_def gets_io_def by (rule rest_read)

lemma rest_loads: "framed same_rest (CountOpenAssigned d c a)" "framed same_rest (OpenAssignedLoads d c)"
  unfolding CountOpenAssigned_def OpenAssignedLoads_def conv_query_def by (rule rest_read)+

lemma rest_presence: "framed same_rest (presence_Get d c u)"
  by (auto simp: framed_def presence_Get_def presence_call_def io_defs same_rest_def tick_def split: sum.split option.split)

lemma rest_remap: "framed same_rest m \<Longrightarrow> framed same_rest (remap_not_found e m)"
  unfolding remap_not_found_def by (auto intro!: rest.fr_basic split: sum.split)

lemma rest_publish_to: "framed same_rest (publish_to d topics ev p)"
  unfolding publish_to_def by (intro rest.fr_for rest.fr_ignore rest.af_Publish)

lemma rest_publishes:
  "framed same_rest (publishAssigned d cv a)" "framed same_rest (publishTransferred d cv s)" "framed same_rest (publishUpdated d cv)"
  unfolding publishAssigned_def publishTransferred_def publishUpdated_def
  by (intro rest.fr_bind rest.af_payload rest_publish_to)+

lemma rest_log: "framed same_rest (log_effect e)"
  by (simp add: framed_def log_effect_def modify_io_def same_rest_def)

lemmas rest_ops = rest_user rest_queue rest_sector_agents rest_loads rest_presence rest_remap rest_publishes rest_log
  rest.af_ops

lemma rest_apply: "framed same_rest (applyAssignment d c cv a)"
  unfolding applyAssignment_def Let_def by (intro rest.fr_bind rest.fr_then rest.fr_return rest_ops)

lemma rest_evaluate: "framed same_rest (evaluateAgent d c a s b)"
  unfolding evaluateAgent_def
  by (intro rest.fr_bind rest.fr_then rest.fr_guard rest.fr_if rest.fr_return rest.fr_try rest_ops)
     (auto intro!: rest.fr_basic split: sum.split)

lemma rest_eligible: "framed same_rest (eligibleAgents d c s)"
  unfolding eligibleAgents_def consider_agent_def
  by (intro rest.fr_bind rest.fr_fold rest.fr_if rest.fr_return rest.fr_try rest_ops)

lemma rest_target: "framed same_rest (transfer_target d c cmd cv)"
  unfolding transfer_target_def
  by (intro rest.fr_bind rest.fr_then rest.fr_guard rest.fr_if rest.fr_return rest_evaluate rest_ops)

lemma routing_withLock: "\<exists>f. run_routing d c i op = withLock d c i f \<and> (\<forall>cv. framed same_rest (f cv))"
proof (cases op)
  case (OpAssign a)
  have "framed same_rest (assign_body d c a cv)" for cv
    unfolding assign_body_def by (intro rest.fr_then rest.fr_guard rest_evaluate rest_apply)
  then show ?thesis using OpAssign by (auto simp: Assign_def)
next
  case OpAuto
  have "framed same_rest (auto_body d c cv)" for cv
    unfolding auto_body_def
    by (intro rest.fr_then rest.fr_bind rest.fr_guard rest_eligible)
       (auto intro: rest.fr_throw rest_apply split: list.split)
  then show ?thesis using OpAuto by (auto simp: AutoAssign_def)
next
  case (OpTransfer cmd)
  have "framed same_rest (transfer_body d c cmd cv)" for cv
    unfolding transfer_body_def by (intro rest.fr_bind rest.fr_then rest.fr_when rest.fr_return rest_target rest_ops)
  then show ?thesis using OpTransfer by (auto simp: Transfer_def)
next
  case (OpEnqueue q)
  have "framed same_rest (enqueue_body d c q cv)" for cv
    unfolding enqueue_body_def Let_def
    by (intro rest.fr_bind rest.fr_then rest.fr_guard rest.fr_when rest.fr_return rest_ops)
  then show ?thesis using OpEnqueue by (auto simp: Enqueue_def)
qed

lemma rget_later: "rget t k s = None \<Longrightarrow> t \<le> t' \<Longrightarrow> rget t' k s = None"
  by (auto simp: rget_def dest: alive_mono split: option.splits if_splits)

lemma release_frees:
  assumes "reliable d" "clock_runs d" "redis w k = Some \<lparr>re_Value = RString tok, re_Expires = x\<rparr>" "step w \<le> n"
  shows "rget (clk d n) k (redis (snd (release d k tok w))) = None"
proof -
  have "rget (clk d (step w)) k (redis (snd (release d k tok w))) = None"
    using assms(1,3)
    by (auto simp: release_def redis_call_def io_defs reliable_def unlockScript_def rget_def split: option.split)
  then show ?thesis using clock_runsD [OF assms(2,4)] by (rule rget_later)
qed

text \<open>
  C19: a routing operation never leaves its lock behind. If the lock of the conversation was
  free when an operation started, then, whatever the operation decided and however it ended,
  the lock is free again from the moment it returns.
\<close>

theorem routing_gives_the_lock_back:
  fixes w :: "'z team_world_scheme"
  assumes "reliable d" "clock_runs d" "RequireTenant c = Inr t"
    and free: "rget (clk d (step w)) (routing_key t i) (redis w) = None"
    and "run_routing d c i op w = (r, w')" "step w' \<le> n"
  shows "rget (clk d n) (routing_key t i) (redis w') = None"
proof -
  obtain f :: "conversation \<Rightarrow> ('z team_world_scheme, conversation) io" where f: "run_routing d c i op = withLock d c i f" "\<And>cv. framed same_rest (f cv)"
    using routing_withLock [of d c i op] by blast
  have same: "redis v' = redis v" if "same_rest v v'" for v v' :: "'z team_world_scheme"
    using that by (cases v; cases v') (simp add: same_rest_def)
  have keep: "redis (snd (f cv (locked d t i w))) = redis (locked d t i w)" for cv
    using f(2) [of cv] same unfolding framed_def by blast
  have "redis w' = redis w \<and> step w \<le> step w'
     \<or> (\<exists>cv. w' = snd (release d (routing_key t i) (newid d (step w + 1)) (snd (f cv (locked d t i w)))))"
    using assms(5) unfolding f(1) withLock_cases [OF assms(1)] assms(3)
    by (auto split: sum.splits option.splits if_splits prod.splits) (metis snd_conv)+
  then show ?thesis
  proof (elim disjE exE conjE)
    assume "redis w' = redis w" "step w \<le> step w'"
    then show ?thesis using rget_later [OF free clock_runsD [OF assms(2)], of n] assms(6) by simp
  next
    fix cv assume w': "w' = snd (release d (routing_key t i) (newid d (step w + 1)) (snd (f cv (locked d t i w))))"
    let ?v = "snd (f cv (locked d t i w))"
    have "step ?v \<le> n" using assms(6) assms(1) unfolding w'
      by (simp add: release_def ignore_io_def redis_call_def reliable_def split: prod.splits)
    then show ?thesis using keep [of cv] unfolding w'
      by (intro release_frees [OF assms(1,2), where x = "Some (clk d (step w + 2) + routingLockTTL)"])
         (simp_all add: locked_def)
  qed
qed

theorem routing_gives_the_lock_back_witness:
  "rget (clk tick_env (step (snd (run_routing tick_env demo_ctx ''c1'' OpAuto demo_floor)))) (routing_key ''t1'' ''c1'')
     (redis (snd (run_routing tick_env demo_ctx ''c1'' OpAuto demo_floor))) = None"
  by (rule routing_gives_the_lock_back [OF tick_env_ok, where w = demo_floor and op = OpAuto and c = demo_ctx
        and r = "fst (run_routing tick_env demo_ctx ''c1'' OpAuto demo_floor)"])
     (simp_all add: demo_ctx_def RequireTenant_def demo_floor_def demo_team_def rget_def)

end
