(* ===== verification/Contract_Props.thy ===== *)
theory Contract_Props
  imports Conv_Demo
begin

text \<open>
  What clients of the conversations API rely on: a listing read page by page ends and shows each
  conversation once, and an interactive menu is accepted exactly when it has the documented shape.
\<close>

section \<open>Reading a listing to its end\<close>

text \<open>A client that asks for pages of \<open>limit\<close> and follows the cursor while there is more.\<close>

fun walk_conversations :: "nat \<Rightarrow> 'e env_scheme \<Rightarrow> ctx \<Rightarrow> list_filter \<Rightarrow> visibility_t \<Rightarrow> nat \<Rightarrow> page_token
    \<Rightarrow> 'z conv_world_scheme \<Rightarrow> conversation list option" where
  "walk_conversations 0 d c f vis limit tok w = None"
| "walk_conversations (Suc n) d c f vis limit tok w =
    (case conv_List d c f vis \<lparr>pr_Cursor = tok, pr_Limit = int limit\<rparr> w of
       (Inl _, _) \<Rightarrow> None
     | (Inr xs, w') \<Rightarrow> (case NewPage xs limit (\<lambda>cv. CursorOf (cv_UpdatedAt cv) (cv_ID cv)) of (items, info) \<Rightarrow>
          if pi_HasMore info
          then map_option (\<lambda>rest. items @ rest) (walk_conversations n d c f vis limit (pi_NextCursor info) w')
          else Some items))"

definition shown :: "ident \<Rightarrow> list_filter \<Rightarrow> visibility_t \<Rightarrow> conversation \<Rightarrow> bool" where
  "shown t f vis cv \<longleftrightarrow> cv_TenantID cv = t \<and> in_filter f cv \<and> in_visibility vis cv"

lemma conv_List_run:
  assumes "\<forall>n. fault d n = None" "RequireTenant c = Inr t" "DecodeCursor tok = Inr cur"
  shows "conv_List d c f vis \<lparr>pr_Cursor = tok, pr_Limit = l\<rparr> w =
    (Inr (list_page (shown t f vis) cv_UpdatedAt cv_ID cur l (convs w)), tick w)"
  using assms by (simp add: conv_List_def conv_query_def io_defs db_call_def shown_def [abs_def])

lemma walk_conversations_rest:
  fixes w :: "'z conv_world_scheme"
  assumes ok: "\<forall>n. fault d n = None" "RequireTenant c = Inr t" and pos: "0 < limit"
  shows "distinct (map cv_ID (convs w)) \<Longrightarrow> (\<And>cv. cv \<in> set (convs w) \<Longrightarrow> cv_UpdatedAt cv mod Millisecond = 0 \<and> cv_ID cv \<noteq> [])
    \<Longrightarrow> KeysetSort cv_UpdatedAt cv_ID (filter (shown t f vis) (convs w)) = seen @ rest
    \<Longrightarrow> at_token cv_UpdatedAt cv_ID tok seen \<Longrightarrow> length rest < n
    \<Longrightarrow> walk_conversations n d c f vis limit tok w = Some rest"
proof (induction n arbitrary: seen rest tok w)
  case (Suc n)
  obtain cur where cur: "DecodeCursor tok = Inr cur"
      "list_page (shown t f vis) cv_UpdatedAt cv_ID cur (int limit) (convs w) = take (nat (int limit + 1)) rest"
    using list_page_at [OF Suc.prems(1,2,3,4)] by blast
  have lim: "nat (int limit + 1) = Suc limit" by simp
  show ?case
  proof (cases "length rest \<le> limit")
    case True
    then show ?thesis using cur by (simp add: conv_List_run [OF ok] lim NewPage_def Let_def)
  next
    case False
    let ?hd = "take limit rest"
    have more: "limit < length (take (Suc limit) rest)" "take limit (take (Suc limit) rest) = ?hd"
      using False by (simp_all add: min_def)
    have ne: "?hd \<noteq> []" using False pos by auto
    have "walk_conversations n d c f vis limit (Token (CursorOf (cv_UpdatedAt (last ?hd)) (cv_ID (last ?hd)))) (tick w) = Some (drop limit rest)"
    proof (rule Suc.IH)
      show "KeysetSort cv_UpdatedAt cv_ID (filter (shown t f vis) (convs (tick w))) = (seen @ ?hd) @ drop limit rest"
        using Suc.prems(3) by simp
      show "at_token cv_UpdatedAt cv_ID (Token (CursorOf (cv_UpdatedAt (last ?hd)) (cv_ID (last ?hd)))) (seen @ ?hd)"
        using ne by (simp add: at_token_def)
      show "length (drop limit rest) < n" using Suc.prems(5) False pos by simp
    qed (use Suc.prems(1,2) in simp_all)
    with more ne show ?thesis using cur by (simp add: conv_List_run [OF ok] lim NewPage_def Let_def)
  qed
qed simp

text \<open>
  C28: Paging ends and misses nothing. On a store nobody writes to meanwhile (identifiers unique and
  non-empty, times of millisecond precision as the database keeps them), a client that follows the
  cursors of the conversation listing reaches the end after at most one request per conversation
  shown, and has then seen every one of them exactly once, latest update first.
\<close>
theorem paging_reaches_the_end:
  fixes w :: "'z conv_world_scheme"
  assumes "\<forall>n. fault d n = None" "RequireTenant c = Inr t" and "0 < limit"
    and "distinct (map cv_ID (convs w))"
    and "\<forall>cv \<in> set (convs w). cv_UpdatedAt cv mod Millisecond = 0 \<and> cv_ID cv \<noteq> []"
    and "length (filter (shown t f vis) (convs w)) < n"
  shows "\<exists>xs. walk_conversations n d c f vis limit NoToken w = Some xs
    \<and> set xs = {cv \<in> set (convs w). shown t f vis cv} \<and> distinct (map cv_ID xs)
    \<and> sorted_wrt (\<lambda>a b. cv_UpdatedAt b \<le> cv_UpdatedAt a) xs"
proof -
  let ?xs = "KeysetSort cv_UpdatedAt cv_ID (filter (shown t f vis) (convs w))"
  have "walk_conversations n d c f vis limit NoToken w = Some ?xs"
    using assms by (intro walk_conversations_rest [where seen = "[]"]) (auto simp: at_token_def KeysetSort_def)
  moreover have "set ?xs = {cv \<in> set (convs w). shown t f vis cv}" by (auto simp: KeysetSort_def)
  moreover have "sorted_wrt (\<lambda>x y. after cv_UpdatedAt cv_ID y x) ?xs"
    using assms(4) by (intro KeysetSort_sorted) (simp add: distinct_map_filter)
  then have "sorted_wrt (\<lambda>a b. cv_UpdatedAt b \<le> cv_UpdatedAt a) ?xs"
    by (auto simp: after_def elim: sorted_wrt_mono_rel [rotated])
  moreover have "distinct (map cv_ID (filter (shown t f vis) (convs w)))" using assms(4) by (simp add: distinct_map_filter)
  then have "distinct (map cv_ID ?xs)" by (simp add: KeysetSort_def distinct_map)
  ultimately show ?thesis by blast
qed

lemma paging_reaches_the_end_witness:
  "\<exists>xs. walk_conversations 2 demo_deps demo_ctx \<lparr>lf_Status = [], lf_SectorID = [], lf_QueueID = [], lf_AssignedTo = [],
      lf_ContactID = [], lf_Protocol = [], lf_Tag = []\<rparr> \<lparr>vi_All = False, vi_SectorIDs = [''s1''], vi_UserID = ''u1''\<rparr> 1 NoToken demo_world
     = Some xs \<and> set xs = {demo_conv}"
proof -
  have "shown ''t1'' \<lparr>lf_Status = [], lf_SectorID = [], lf_QueueID = [], lf_AssignedTo = [], lf_ContactID = [],
      lf_Protocol = [], lf_Tag = []\<rparr> \<lparr>vi_All = False, vi_SectorIDs = [''s1''], vi_UserID = ''u1''\<rparr> demo_conv"
    by (simp add: shown_def in_filter_def in_visibility_def demo_conv_def)
  moreover have "convs demo_world = [demo_conv]" by (simp add: demo_world_def)
  ultimately show ?thesis
    using paging_reaches_the_end [of demo_deps demo_ctx "''t1''" 1 demo_world "\<lparr>lf_Status = [], lf_SectorID = [],
        lf_QueueID = [], lf_AssignedTo = [], lf_ContactID = [], lf_Protocol = [], lf_Tag = []\<rparr>"
        "\<lparr>vi_All = False, vi_SectorIDs = [''s1''], vi_UserID = ''u1''\<rparr>" 2]
    by (auto simp: demo_deps_def demo_ctx_def RequireTenant_def) (auto simp: demo_conv_def)
qed

section \<open>Menus\<close>

text \<open>
  C27: \<open>InteractivePayload.Validate\<close>, written as a sequence of early returns over loops with
  running counters and a set of seen identifiers, accepts a menu exactly when it has the shape the
  channel documents: the lengths, the number of buttons, sections and rows, distinct identifiers,
  one kind.
\<close>
theorem menu_accepted_iff_documented:
  "interactive_Validate iv = [] \<longleftrightarrow> (\<exists>i. iv = Some i \<and> interactive_ok i)"
  by (rule interactive_Validate_iff)

end
