(* ===== verification/Business_Hours.thy ===== *)
theory Business_Hours
  imports Conv_Rules
begin

text \<open>
  \<open>domain/businesshours\<close>: the weekly schedule of a channel (entity/schedule.go), holidays
  (entity/holiday.go), the business status and the business-time arithmetic the SLA rests on
  (service/businesshours_service.go, service/businessclock.go).

  A civil date is a day number (days since 1970-01-01), a civil time of day nanoseconds since
  midnight. The time zone database and the JSON decoder are parameters: a location answers an
  instant with the offset in force and the period it is in force for, as package \<open>time\<close> does.
\<close>

section \<open>Calendar\<close>

definition Day :: duration where "Day = 24 * Hour"

text \<open>The proleptic Gregorian calendar: year, month and day of a day number.\<close>

definition civil_of_day :: "int \<Rightarrow> int \<times> int \<times> int" where
  "civil_of_day n =
    (let z = n + 719468; era = z div 146097; doe = z mod 146097;
         yoe = (doe - doe div 1460 + doe div 36524 - doe div 146096) div 365;
         doy = doe - (365 * yoe + yoe div 4 - yoe div 100);
         mp = (5 * doy + 2) div 153; m = (if mp < 10 then mp + 3 else mp - 9)
     in (yoe + era * 400 + (if m \<le> 2 then 1 else 0), m, doy - (153 * mp + 2) div 5 + 1))"

definition leap_year :: "int \<Rightarrow> bool" where
  "leap_year y \<longleftrightarrow> y mod 4 = 0 \<and> (y mod 100 \<noteq> 0 \<or> y mod 400 = 0)"

definition month_days :: "int \<Rightarrow> int \<Rightarrow> int" where
  "month_days y m = (if m = 2 then (if leap_year y then 29 else 28)
     else if m \<in> {4, 6, 9, 11} then 30 else 31)"

text \<open>Sunday is 0; the first of January 1970 was a Thursday.\<close>

definition weekday_of :: "int \<Rightarrow> int" where
  "weekday_of n = (n + 4) mod 7"

definition digit_val :: "char \<Rightarrow> int option" where
  "digit_val c = (let n = of_char c :: nat in if 48 \<le> n \<and> n \<le> 57 then Some (int n - 48) else None)"

fun digits_val :: "int \<Rightarrow> string \<Rightarrow> int option" where
  "digits_val acc [] = Some acc"
| "digits_val acc (c # cs) = (case digit_val c of None \<Rightarrow> None | Some v \<Rightarrow> digits_val (acc * 10 + v) cs)"

text \<open>\<open>strconv.Atoi\<close>: an optional sign and digits.\<close>

definition Atoi :: "string \<Rightarrow> int option" where
  "Atoi s = (case s of
     [] \<Rightarrow> None
   | c # cs \<Rightarrow> if c = CHR ''-'' \<or> c = CHR ''+'' then
        (if cs = [] then None else map_option (\<lambda>v. if c = CHR ''-'' then - v else v) (digits_val 0 cs))
      else digits_val 0 s)"

text \<open>\<open>splitDate\<close>: \<open>time.Parse\<close> with the layout 2006-01-02.\<close>

definition splitDate :: "string \<Rightarrow> (int \<times> int \<times> int) option" where
  "splitDate s =
    (if length s = 10 \<and> s ! 4 = CHR ''-'' \<and> s ! 7 = CHR ''-'' then
       (case (digits_val 0 (take 4 s), digits_val 0 (take 2 (drop 5 s)), digits_val 0 (drop 8 s)) of
          (Some y, Some m, Some d) \<Rightarrow>
            if 1 \<le> m \<and> m \<le> 12 \<and> 1 \<le> d \<and> d \<le> month_days y m then Some (y, m, d) else None
        | _ \<Rightarrow> None)
     else None)"

section \<open>Locations\<close>

record zone =
  zn_lookup :: "time \<Rightarrow> duration \<times> time \<times> time"

definition UTC :: zone where "UTC = \<lparr>zn_lookup = (\<lambda>_. (0, 0, 0))\<rparr>"

definition zone_offset :: "zone \<Rightarrow> time \<Rightarrow> duration" where
  "zone_offset z t = fst (zn_lookup z t)"

definition local_day :: "zone \<Rightarrow> time \<Rightarrow> int" where
  "local_day z t = (t + zone_offset z t) div Day"

definition local_clock :: "zone \<Rightarrow> time \<Rightarrow> duration" where
  "local_clock z t = (t + zone_offset z t) mod Day"

text \<open>\<open>time.Date\<close>: the civil time is read as UTC, then moved by the offset in force there.\<close>

definition go_Date :: "zone \<Rightarrow> int \<Rightarrow> duration \<Rightarrow> time" where
  "go_Date z day clock =
    (let civil = day * Day + clock in case zn_lookup z civil of (off, start, end1) \<Rightarrow>
       if off = 0 then civil
       else let utc = civil - off in
         if utc < start \<or> end1 \<le> utc then civil - zone_offset z utc else utc)"

section \<open>Schedules\<close>

record interval =
  iv_StartMin :: int
  iv_EndMin :: int

definition iv_Contains :: "interval \<Rightarrow> int \<Rightarrow> bool" where
  "iv_Contains i m \<longleftrightarrow> iv_StartMin i \<le> m \<and> m < iv_EndMin i"

record schedule =
  sc_Timezone :: string
  sc_Weekly :: "int \<Rightarrow> interval list"
  sc_Configured :: bool

record raw_interval =
  ri_Start :: string
  ri_End :: string

record raw_day =
  ry_Day :: int
  ry_Intervals :: "raw_interval list"

record raw_schedule =
  rs_Timezone :: string
  rs_Weekly :: "raw_day list"

record biz_deps = env +
  bd_decode :: "gmap \<Rightarrow> raw_schedule option"
  bd_loadLocation :: "string \<Rightarrow> zone option"

text \<open>\<open>len(doc) == 0\<close>: a map of the model is a function, empty when it has no entry.\<close>

definition decodeRaw :: "'e biz_deps_scheme \<Rightarrow> gmap \<Rightarrow> raw_schedule option" where
  "decodeRaw d doc = (if doc = Map.empty then None else bd_decode d doc)"

definition parseHHMM :: "string \<Rightarrow> int option" where
  "parseHHMM str =
    (let s = trim_space str; hh = takeWhile (\<lambda>c. c \<noteq> CHR '':'') s; rest = dropWhile (\<lambda>c. c \<noteq> CHR '':'') s in
     if rest = [] then None
     else (case (Atoi hh, Atoi (tl rest)) of
        (Some h, Some m) \<Rightarrow>
          if h < 0 \<or> h > 24 \<or> m < 0 \<or> m > 59 then None
          else if h * 60 + m > 24 * 60 then None else Some (h * 60 + m)
      | _ \<Rightarrow> None))"

text \<open>The lenient reading: what does not parse is skipped, a day without intervals is closed.\<close>

definition parse_interval :: "raw_interval \<Rightarrow> interval option" where
  "parse_interval iv = (case (parseHHMM (ri_Start iv), parseHHMM (ri_End iv)) of
     (Some s, Some e) \<Rightarrow> if e \<le> s then None else Some \<lparr>iv_StartMin = s, iv_EndMin = e\<rparr>
   | _ \<Rightarrow> None)"

definition add_day :: "schedule \<Rightarrow> raw_day \<Rightarrow> schedule" where
  "add_day s day =
    (if ry_Day day < 0 \<or> ry_Day day > 6 then s
     else let out = List.map_filter parse_interval (ry_Intervals day) in
       if out = [] then s
       else s\<lparr>sc_Weekly := (sc_Weekly s)(ry_Day day := out), sc_Configured := True\<rparr>)"

definition ParseSchedule :: "'e biz_deps_scheme \<Rightarrow> gmap \<Rightarrow> schedule" where
  "ParseSchedule d doc =
    (let s0 = \<lparr>sc_Timezone = ''UTC'', sc_Weekly = (\<lambda>_. []), sc_Configured = False\<rparr> in
     case decodeRaw d doc of
       None \<Rightarrow> s0
     | Some raw \<Rightarrow> let tz = trim_space (rs_Timezone raw) in
         foldl add_day (if tz \<noteq> [] then s0\<lparr>sc_Timezone := tz\<rparr> else s0) (rs_Weekly raw))"

text \<open>The strict reading of the write path.\<close>

datatype schedule_error = Malformed | UnknownTimezone string | BadDay int | RepeatedDay int
  | InvalidStart int string | InvalidEnd int string | EndBeforeStart int | Overlap int

fun check_intervals :: "int \<Rightarrow> raw_interval list \<Rightarrow> schedule_error + interval list" where
  "check_intervals day [] = Inr []"
| "check_intervals day (iv # ivs) = (case parseHHMM (ri_Start iv) of
     None \<Rightarrow> Inl (InvalidStart day (ri_Start iv))
   | Some s \<Rightarrow> (case parseHHMM (ri_End iv) of
       None \<Rightarrow> Inl (InvalidEnd day (ri_End iv))
     | Some e \<Rightarrow> if e \<le> s then Inl (EndBeforeStart day)
         else (case check_intervals day ivs of
             Inl err \<Rightarrow> Inl err | Inr out \<Rightarrow> Inr (\<lparr>iv_StartMin = s, iv_EndMin = e\<rparr> # out))))"

fun overlapping :: "interval list \<Rightarrow> bool" where
  "overlapping (a # b # ivs) = (iv_StartMin b < iv_EndMin a \<or> overlapping (b # ivs))"
| "overlapping _ = False"

fun check_days :: "int set \<Rightarrow> raw_day list \<Rightarrow> schedule_error + unit" where
  "check_days seen [] = Inr ()"
| "check_days seen (day # days) =
    (if ry_Day day < 0 \<or> ry_Day day > 6 then Inl (BadDay (ry_Day day))
     else if ry_Day day \<in> seen then Inl (RepeatedDay (ry_Day day))
     else (case check_intervals (ry_Day day) (ry_Intervals day) of
        Inl err \<Rightarrow> Inl err
      | Inr ivs \<Rightarrow> if overlapping (sort_key iv_StartMin ivs) then Inl (Overlap (ry_Day day))
          else check_days (insert (ry_Day day) seen) days))"

definition ValidateSchedule :: "'e biz_deps_scheme \<Rightarrow> gmap \<Rightarrow> schedule_error + unit" where
  "ValidateSchedule d doc =
    (if doc = Map.empty then Inr ()
     else case decodeRaw d doc of
       None \<Rightarrow> Inl Malformed
     | Some raw \<Rightarrow>
        (let tz0 = trim_space (rs_Timezone raw); tz = (if tz0 = [] then ''UTC'' else tz0) in
         if bd_loadLocation d tz = None then Inl (UnknownTimezone tz)
         else check_days {} (rs_Weekly raw)))"

definition IsOpenAt :: "schedule \<Rightarrow> zone \<Rightarrow> time \<Rightarrow> bool" where
  "IsOpenAt s z t \<longleftrightarrow> \<not> sc_Configured s
     \<or> (\<exists>iv \<in> set (sc_Weekly s (weekday_of (local_day z t))). iv_Contains iv (local_clock z t div Minute))"

section \<open>Holidays\<close>

record holiday =
  ho_ID :: ident
  ho_TenantID :: ident
  ho_Date :: string
  ho_Name :: string
  ho_Scope :: string
  ho_ChannelIDs :: "ident list"
  ho_Recurring :: bool
  ho_CreatedAt :: time
  ho_UpdatedAt :: time

definition ScopeAllChannels :: string where "ScopeAllChannels = ''all_channels''"
definition ScopeChannels :: string where "ScopeChannels = ''channels''"

definition AppliesTo :: "holiday \<Rightarrow> ident \<Rightarrow> bool" where
  "AppliesTo h channelID \<longleftrightarrow> ho_Scope h = ScopeAllChannels \<or> channelID \<in> set (ho_ChannelIDs h)"

text \<open>\<open>FallsOn\<close> on the local day of its argument.\<close>

definition FallsOn :: "holiday \<Rightarrow> int \<Rightarrow> bool" where
  "FallsOn h day = (case splitDate (ho_Date h) of
     None \<Rightarrow> False
   | Some (hy, hm, hd1) \<Rightarrow> (case civil_of_day day of (y, m, dd) \<Rightarrow>
       m = hm \<and> dd = hd1 \<and> (ho_Recurring h \<or> y = hy)))"

section \<open>Business time\<close>

record desk_world = conv_world +
  holidays :: "holiday list"

record resolved =
  re_sched :: schedule
  re_loc :: zone
  re_holidays :: "holiday list"
  re_channelID :: ident

definition ListAll :: "'e env_scheme \<Rightarrow> ctx \<Rightarrow> ('z desk_world_scheme, holiday list) io" where
  "ListAll d c = bind_io (lift_res (RequireTenant c)) (\<lambda>t.
     db_call d (gets_io (\<lambda>w. filter (\<lambda>h. ho_TenantID h = t) (holidays w))))"

text \<open>An unknown zone falls back to UTC.\<close>

definition locate :: "'e biz_deps_scheme \<Rightarrow> schedule \<Rightarrow> schedule \<times> zone" where
  "locate d s = (case bd_loadLocation d (sc_Timezone s) of
     Some z \<Rightarrow> (s, z) | None \<Rightarrow> (s\<lparr>sc_Timezone := ''UTC''\<rparr>, UTC))"

definition biz_resolve :: "'e biz_deps_scheme \<Rightarrow> ctx \<Rightarrow> ident \<Rightarrow> ('z desk_world_scheme, resolved) io" where
  "biz_resolve d c channelID = bind_io (channel_FindByID d c channelID) (\<lambda>conn.
     bind_io (ListAll d c) (\<lambda>hs.
     return_io (case locate d (ParseSchedule d (ch_BusinessHours conn)) of (s, z) \<Rightarrow>
       \<lparr>re_sched = s, re_loc = z, re_holidays = hs, re_channelID = channelID\<rparr>)))"

definition isHoliday :: "resolved \<Rightarrow> time \<Rightarrow> bool" where
  "isHoliday r localDay \<longleftrightarrow> (\<exists>h \<in> set (re_holidays r). AppliesTo h (re_channelID r) \<and> FallsOn h (local_day (re_loc r) localDay))"

definition dayIntervals :: "resolved \<Rightarrow> time \<Rightarrow> (time \<times> time) list" where
  "dayIntervals r localDay =
    (let day = local_day (re_loc r) localDay in
     map (\<lambda>iv. (go_Date (re_loc r) day (iv_StartMin iv * Minute), go_Date (re_loc r) day (iv_EndMin iv * Minute)))
       (sort_key iv_StartMin (sc_Weekly (re_sched r) (weekday_of day))))"

definition startOfDay :: "zone \<Rightarrow> time \<Rightarrow> time" where
  "startOfDay z t = go_Date z (local_day z t) 0"

text \<open>\<open>startOfDay(day.AddDate(0, 0, 1))\<close>.\<close>

definition nextDay :: "zone \<Rightarrow> time \<Rightarrow> time" where
  "nextDay z t = startOfDay z (go_Date z (local_day z t + 1) (local_clock z t))"

definition open_segments :: "resolved \<Rightarrow> time \<Rightarrow> (time \<times> time) list" where
  "open_segments r day = (if isHoliday r day then [] else dayIntervals r day)"

definition maxDaysWalk :: nat where "maxDaysWalk = 4000"

definition clip :: "time \<Rightarrow> time \<Rightarrow> time \<times> time \<Rightarrow> duration" where
  "clip a b seg = (let s = max (fst seg) a; e = min (snd seg) b in if s < e then e - s else 0)"

fun between_loop :: "nat \<Rightarrow> resolved \<Rightarrow> time \<Rightarrow> time \<Rightarrow> time \<Rightarrow> duration \<Rightarrow> duration" where
  "between_loop 0 r a b day acc = acc"
| "between_loop (Suc n) r a b day acc =
    (if b < day then acc
     else between_loop n r a b (nextDay (re_loc r) day) (foldl (\<lambda>sum seg. sum + clip a b seg) acc (open_segments r day)))"

definition BusinessDurationBetween ::
  "'e biz_deps_scheme \<Rightarrow> ctx \<Rightarrow> ident \<Rightarrow> time \<Rightarrow> time \<Rightarrow> ('z desk_world_scheme, duration) io" where
  "BusinessDurationBetween d c channelID a b = then_io (lift_res (RequireTenant c))
     (if b \<le> a then return_io 0
      else bind_io (biz_resolve d c channelID) (\<lambda>r. return_io
        (if \<not> sc_Configured (re_sched r) then b - a
         else between_loop maxDaysWalk r a b (startOfDay (re_loc r) a) 0)))"

text \<open>The inner loop of \<open>AddBusinessDuration\<close>: the instant found, or what remains after the day.\<close>

fun add_segments :: "time \<Rightarrow> duration \<Rightarrow> (time \<times> time) list \<Rightarrow> time + duration" where
  "add_segments cursor remaining [] = Inr remaining"
| "add_segments cursor remaining (seg # segs) =
    (if snd seg \<le> cursor then add_segments cursor remaining segs
     else let segStart = max (fst seg) cursor; avail = snd seg - segStart in
       if avail \<ge> remaining then Inl (segStart + remaining)
       else add_segments cursor (remaining - avail) segs)"

fun add_loop :: "nat \<Rightarrow> resolved \<Rightarrow> time \<Rightarrow> duration \<Rightarrow> time option" where
  "add_loop 0 r cursor remaining = None"
| "add_loop (Suc n) r cursor remaining =
    (let day = startOfDay (re_loc r) cursor in
     case add_segments cursor remaining (open_segments r day) of
       Inl t \<Rightarrow> Some t
     | Inr rest \<Rightarrow> add_loop n r (nextDay (re_loc r) day) rest)"

definition AddBusinessDuration ::
  "'e biz_deps_scheme \<Rightarrow> ctx \<Rightarrow> ident \<Rightarrow> time \<Rightarrow> duration \<Rightarrow> ('z desk_world_scheme, time) io" where
  "AddBusinessDuration d c channelID a dur = then_io (lift_res (RequireTenant c))
     (if dur \<le> 0 then return_io a
      else bind_io (biz_resolve d c channelID) (\<lambda>r. return_io
        (if \<not> sc_Configured (re_sched r) then a + dur
         else (case add_loop maxDaysWalk r a dur of Some t \<Rightarrow> t | None \<Rightarrow> a + dur))))"

section \<open>Status\<close>

datatype status_reason = ReasonOpen | ReasonOutsideHours | ReasonHoliday | ReasonUnconfigured

record business_status =
  bs_ChannelID :: ident
  bs_Open :: bool
  bs_Reason :: status_reason
  bs_Timezone :: string
  bs_LocalTime :: time
  bs_HolidayName :: string
  bs_TodayIntervals :: "interval list"

text \<open>A holiday closes the whole day; then no hours configured means open.\<close>

definition status_at :: "ident \<Rightarrow> schedule \<Rightarrow> zone \<Rightarrow> time \<Rightarrow> holiday list \<Rightarrow> business_status" where
  "status_at channelID sched loc inst hs =
    (let day = local_day loc inst;
         base = \<lparr>bs_ChannelID = channelID, bs_Open = False, bs_Reason = ReasonOutsideHours,
                 bs_Timezone = sc_Timezone sched, bs_LocalTime = inst, bs_HolidayName = [],
                 bs_TodayIntervals = sc_Weekly sched (weekday_of day)\<rparr> in
     case find (\<lambda>h. AppliesTo h channelID \<and> FallsOn h day) hs of
       Some h \<Rightarrow> base\<lparr>bs_Reason := ReasonHoliday, bs_HolidayName := ho_Name h\<rparr>
     | None \<Rightarrow>
        if \<not> sc_Configured sched then base\<lparr>bs_Open := True, bs_Reason := ReasonUnconfigured\<rparr>
        else if IsOpenAt sched loc inst then base\<lparr>bs_Open := True, bs_Reason := ReasonOpen\<rparr>
        else base)"

definition Status :: "'e biz_deps_scheme \<Rightarrow> ctx \<Rightarrow> ident \<Rightarrow> time \<Rightarrow> ('z desk_world_scheme, business_status) io" where
  "Status d c channelID inst = then_io (lift_res (RequireTenant c))
     (bind_io (channel_FindByID d c channelID) (\<lambda>conn.
      case locate d (ParseSchedule d (ch_BusinessHours conn)) of (sched, loc) \<Rightarrow>
      bind_io (ListAll d c) (\<lambda>hs. return_io (status_at channelID sched loc inst hs))))"

definition IsWithinBusinessHours :: "'e biz_deps_scheme \<Rightarrow> ctx \<Rightarrow> ident \<Rightarrow> time \<Rightarrow> ('z desk_world_scheme, bool) io" where
  "IsWithinBusinessHours d c channelID inst = bind_io (Status d c channelID inst) (\<lambda>s. return_io (bs_Open s))"

end
