(* ===== verification/Repo.thy ===== *)
theory Repo
  imports Mongo
begin

text \<open>
  The shape every tenant-scoped repository under \<open>infra/database/mongodb/repositories\<close> has:
  insert, update by identifier and tenant, delete, find, keyset listing, each a round trip
  after \<open>RequireTenant\<close>. The operations take the collection as a reading and a writing
  function of the world; the locale states what those promise and proves what the services
  rely on once.
\<close>

section \<open>Patches\<close>

text \<open>A validation that may refuse, followed by the next one; \<open>patch o f x\<close> applies \<open>f\<close> when a field is given.\<close>

definition res_bind :: "'a res \<Rightarrow> ('a \<Rightarrow> 'b res) \<Rightarrow> 'b res" where
  "res_bind r f = (case r of Inl e \<Rightarrow> Inl e | Inr x \<Rightarrow> f x)"

definition patch :: "'b option \<Rightarrow> ('b \<Rightarrow> 'a \<Rightarrow> 'a) \<Rightarrow> 'a \<Rightarrow> 'a" where
  "patch o1 f x = (case o1 of None \<Rightarrow> x | Some v \<Rightarrow> f v x)"

definition patch_res :: "'b option \<Rightarrow> ('b \<Rightarrow> 'a \<Rightarrow> 'a res) \<Rightarrow> 'a \<Rightarrow> 'a res" where
  "patch_res o1 f x = (case o1 of None \<Rightarrow> Inr x | Some v \<Rightarrow> f v x)"

lemma res_bind_Inr: "res_bind r f = Inr y \<longleftrightarrow> (\<exists>x. r = Inr x \<and> f x = Inr y)"
  by (cases r) (simp_all add: res_bind_def)

lemma patch_keeps: "P x \<Longrightarrow> (\<And>v. P (f v x)) \<Longrightarrow> P (patch o1 f x)"
  by (cases o1) (simp_all add: patch_def)

lemma patch_res_keeps: "patch_res o1 f x = Inr y \<Longrightarrow> P x \<Longrightarrow> (\<And>v y. f v x = Inr y \<Longrightarrow> P y) \<Longrightarrow> P y"
  by (cases o1) (auto simp: patch_res_def)

section \<open>Guards\<close>

lemma bind_assoc: "bind_io (bind_io m f) g = bind_io m (\<lambda>x. bind_io (f x) g)"
  by (auto simp: fun_eq_iff bind_io_def split: prod.split sum.split)

lemma try_bind_lift:
  "bind_io (try_io (bind_io m (\<lambda>x. lift_res (g x)))) f
     = bind_io (try_io m) (\<lambda>r. case r of Inl e \<Rightarrow> f (Inl e) | Inr x \<Rightarrow> f (g x))"
  by (auto simp: fun_eq_iff bind_io_def try_io_def lift_res_def split: prod.split sum.split)

lemma returns_lift: "returns (lift_res r) (\<lambda>x. r = Inr x)"
  by (simp add: returns_def lift_res_def)

context io_rel begin

lemma fr_bind_lift: "(\<And>x. r = Inr x \<Longrightarrow> framed R (f x)) \<Longrightarrow> framed R (bind_io (lift_res r) f)"
  by (rule fr_bind_returns [OF fr_lift returns_lift])

lemma fr_then_lift: "(\<And>x. r = Inr x \<Longrightarrow> framed R m) \<Longrightarrow> framed R (then_io (lift_res r) m)"
  by (simp add: then_io_def fr_bind_lift)

lemma fr_then_guard: "(\<not> b \<Longrightarrow> framed R m) \<Longrightarrow> framed R (then_io (guard_io b e) m)"
  by (cases b) (simp_all add: guard_io_def then_io_def bind_io_def throw_io_def return_io_def framed_def rel_refl)

end

section \<open>Operations\<close>

definition repo_query :: "'e env_scheme \<Rightarrow> ctx \<Rightarrow> ('z base_world_scheme \<Rightarrow> 'd list) \<Rightarrow>
    (ident \<Rightarrow> 'd list \<Rightarrow> mongo_err + 'a) \<Rightarrow> ('z base_world_scheme, 'a) io" where
  "repo_query d c coll q = bind_io (lift_res (RequireTenant c)) (\<lambda>t.
     db_call d (\<lambda>w. (map_err (q t (coll w)), w)))"

definition repo_write :: "'e env_scheme \<Rightarrow> ctx \<Rightarrow> ('z base_world_scheme \<Rightarrow> 'd list) \<Rightarrow>
    ('d list \<Rightarrow> 'z base_world_scheme \<Rightarrow> 'z base_world_scheme) \<Rightarrow>
    (ident \<Rightarrow> 'd list \<Rightarrow> mongo_err + 'd list) \<Rightarrow> ('z base_world_scheme, unit) io" where
  "repo_write d c coll put f = bind_io (lift_res (RequireTenant c)) (\<lambda>t.
     db_call d (\<lambda>w. case f t (coll w) of
        Inl e \<Rightarrow> (Inl (MapError e), w) | Inr ds \<Rightarrow> (Inr (), put ds w)))"

definition delete_first :: "('d \<Rightarrow> bool) \<Rightarrow> 'd list \<Rightarrow> mongo_err + 'd list" where
  "delete_first p ds = (if \<exists>x \<in> set ds. p x
     then Inr (takeWhile (\<lambda>x. \<not> p x) ds @ tl (dropWhile (\<lambda>x. \<not> p x) ds)) else Inl ErrNoDocuments)"

section \<open>The interface of a collection\<close>

locale tenant_repo = tenant_docs key tenant merge
  for key :: "'d \<Rightarrow> ident" and tenant :: "'d \<Rightarrow> ident" and merge :: "'d \<Rightarrow> 'd \<Rightarrow> 'd" +
  fixes coll :: "'z base_world_scheme \<Rightarrow> 'd list"
    and put :: "'d list \<Rightarrow> 'z base_world_scheme \<Rightarrow> 'z base_world_scheme"
  assumes coll_put: "coll (put ds w) = ds"
    and coll_tick: "coll (tick w) = coll w"
begin

text \<open>What a tenant sees: at most one document by identifier.\<close>

definition view :: "ident \<Rightarrow> ident \<Rightarrow> 'z base_world_scheme \<Rightarrow> 'd option" where
  "view t i w = find (\<lambda>x. key x = i \<and> tenant x = t) (coll w)"

lemma query_wp:
  "wp (repo_query d c coll q) (\<lambda>x w'. \<exists>t. RequireTenant c = Inr t \<and> q t (coll w) = Inr x \<and> w' = tick w)
     (\<lambda>_ w'. w' = w \<or> w' = tick w) w"
  unfolding repo_query_def wp_bind wp_lift wp_db_call
  by (auto simp: wp_def coll_tick map_err_def split: option.splits sum.splits)

lemma write_wp:
  "wp (repo_write d c coll put f)
     (\<lambda>_ w'. \<exists>t ds. RequireTenant c = Inr t \<and> f t (coll w) = Inr ds \<and> w' = put ds (tick w))
     (\<lambda>_ w'. w' = w \<or> w' = tick w) w"
  unfolding repo_write_def wp_bind wp_lift wp_db_call
  by (auto simp: wp_def coll_tick split: option.splits sum.splits)

lemma view_tick: "view t i (tick w) = view t i w"
  by (simp add: view_def coll_tick)

lemma insert_view:
  assumes "insert_one key x (coll w) = Inr ds"
  shows "view t i (put ds w') = (if key x = i \<and> tenant x = t then Some x else view t i w)"
proof -
  have ds: "ds = coll w @ [x]" and fresh: "\<forall>y \<in> set (coll w). key y \<noteq> key x"
    using assms by (auto simp: insert_one_def image_iff split: if_splits)
  have "key x = i \<Longrightarrow> find (\<lambda>y. key y = i \<and> tenant y = t) (coll w) = None"
    using fresh by (auto simp: find_None_iff)
  then show ?thesis by (auto simp: view_def coll_put ds find_append_last split: option.split)
qed

lemma update_view:
  assumes "update_one (\<lambda>x. key x = i \<and> tenant x = t) (merge new) (coll w) = Inr ds"
  shows "view t' j (put ds w') = (if j = i \<and> t' = t then map_option (merge new) (view t i w) else view t' j w)"
proof -
  let ?p = "\<lambda>x. key x = i \<and> tenant x = t"
  have ds: "ds = update_first ?p (merge new) (coll w)"
    using assms by (auto simp: update_one_def split: if_splits)
  have same: "find ?p (update_first ?p (merge new) xs) = map_option (merge new) (find ?p xs)" for xs
    by (rule find_update_first) (simp add: merge_key merge_tenant)
  have "find (\<lambda>x. key x = j \<and> tenant x = t') ds = find (\<lambda>x. key x = j \<and> tenant x = t') (coll w)"
    if "\<not> (j = i \<and> t' = t)"
    unfolding ds using that by (intro find_update_other) (auto simp: merge_key merge_tenant)
  with same show ?thesis by (auto simp: view_def coll_put ds)
qed

lemma delete_first_filter:
  "distinct (map key ds) \<Longrightarrow> delete_first (\<lambda>x. key x = i \<and> tenant x = t) ds = Inr ds' \<Longrightarrow>
     ds' = filter (\<lambda>x. \<not> (key x = i \<and> tenant x = t)) ds"
proof (induction ds arbitrary: ds')
  case (Cons a ds)
  show ?case
  proof (cases "key a = i \<and> tenant a = t")
    case True
    with Cons.prems have "ds' = ds" "\<forall>x \<in> set ds. key x \<noteq> i"
      by (auto simp: delete_first_def image_iff)
    with True show ?thesis by (auto simp: filter_id_conv)
  next
    case False
    with Cons.prems obtain ds1 where "delete_first (\<lambda>x. key x = i \<and> tenant x = t) ds = Inr ds1" "ds' = a # ds1"
      by (auto simp: delete_first_def split: if_splits)
    with False Cons show ?thesis by auto
  qed
qed (simp add: delete_first_def)

lemma delete_view:
  assumes "distinct (map key (coll w))" and "delete_first (\<lambda>x. key x = i \<and> tenant x = t) (coll w) = Inr ds"
  shows "view t' j (put ds w') = (if j = i \<and> t' = t then None else view t' j w)"
proof -
  have other: "(\<And>x. q x \<Longrightarrow> p x) \<Longrightarrow> find q (filter p xs) = find q xs" for p q and xs :: "'d list"
    by (induction xs) auto
  show ?thesis
  proof (cases "j = i \<and> t' = t")
    case False
    then have "find (\<lambda>x. key x = j \<and> tenant x = t') ds = find (\<lambda>x. key x = j \<and> tenant x = t') (coll w)"
      unfolding delete_first_filter [OF assms] by (intro other) auto
    with False show ?thesis by (auto simp: view_def coll_put)
  qed (auto simp: view_def coll_put delete_first_filter [OF assms] find_None_iff)
qed

lemma delete_keys:
  "distinct (map key (coll w)) \<Longrightarrow> delete_first (\<lambda>x. key x = i \<and> tenant x = t) (coll w) = Inr ds \<Longrightarrow>
     distinct (map key ds)"
  by (frule (1) delete_first_filter) (simp only: distinct_map_filter)

end

section \<open>Collections of well-formed documents\<close>

text \<open>
  A contract for services that only store well-formed documents: an update of a well-formed
  document by a well-formed one is well formed. Then queries, clock readings, insertions,
  updates and deletions keep every stored document well formed, identifiers unique, and the
  documents of other tenants untouched.
\<close>

locale tenant_store = tenant_repo key tenant merge coll put
  for key :: "'d \<Rightarrow> ident" and tenant :: "'d \<Rightarrow> ident" and merge :: "'d \<Rightarrow> 'd \<Rightarrow> 'd"
    and coll :: "'z base_world_scheme \<Rightarrow> 'd list" and put :: "'d list \<Rightarrow> 'z base_world_scheme \<Rightarrow> 'z base_world_scheme" +
  fixes ok :: "'d \<Rightarrow> bool"
  assumes ok_merge: "ok new \<Longrightarrow> ok old \<Longrightarrow> ok (merge new old)"
begin

definition all_ok :: "'d list \<Rightarrow> bool" where
  "all_ok ds \<longleftrightarrow> distinct (map key ds) \<and> (\<forall>x \<in> set ds. ok x)"

definition owned :: "ident \<Rightarrow> 'd list \<Rightarrow> 'd list" where
  "owned t ds = filter (\<lambda>x. tenant x = t) ds"

definition kept :: "ctx \<Rightarrow> 'z base_world_scheme \<Rightarrow> 'z base_world_scheme \<Rightarrow> bool" where
  "kept c w w' \<longleftrightarrow> (all_ok (coll w) \<longrightarrow>
     all_ok (coll w') \<and> (\<forall>t. ctx_tenant c \<noteq> Some t \<longrightarrow> owned t (coll w') = owned t (coll w)))"

lemma kept_same: "coll w' = coll w \<Longrightarrow> kept c w w'"
  by (simp add: kept_def)

lemma kept_io_rel: "io_rel (kept c)"
  by unfold_locales (auto simp: kept_def)

end

sublocale tenant_store < kept: io_rel "kept c" for c
  by (rule kept_io_rel)

context tenant_store begin

lemma kept_tick: "kept c w (tick w)"
  by (simp add: kept_same coll_tick)

lemma kept_query: "framed (kept c) (repo_query d c' coll' q)"
  unfolding repo_query_def db_call_def
  by (intro kept.fr_bind kept.fr_lift) (simp add: framed_def kept_tick split: option.split)

lemma kept_now: "framed (kept c) (now_io d)" and kept_new_id: "framed (kept c) (new_id d)"
  by (simp_all add: framed_def now_io_def new_id_def kept_tick)

lemma kept_write:
  assumes "\<And>t ds ds'. RequireTenant c = Inr t \<Longrightarrow> all_ok ds \<Longrightarrow> f t ds = Inr ds' \<Longrightarrow>
    all_ok ds' \<and> (\<forall>u. u \<noteq> t \<longrightarrow> owned u ds' = owned u ds)"
  shows "framed (kept c) (repo_write d c coll put f)"
proof (cases "RequireTenant c")
  case (Inl e)
  then show ?thesis by (simp add: framed_def repo_write_def io_defs kept.rel_refl)
next
  case (Inr t)
  then have "ctx_tenant c = Some t" by (simp add: RequireTenant_Inr)
  then have "f t (coll w) = Inr ds \<Longrightarrow> kept c w (put ds (tick w))" for w ds
    using assms [OF Inr, of "coll w" ds] by (auto simp: kept_def coll_put)
  then show ?thesis
    using Inr by (auto simp: framed_def repo_write_def io_defs db_call_def kept_tick coll_tick split: option.split sum.split)
qed

lemma insert_all_ok: "ok x \<Longrightarrow> all_ok ds \<Longrightarrow> insert_one key x ds = Inr ds' \<Longrightarrow>
    all_ok ds' \<and> (\<forall>u. u \<noteq> tenant x \<longrightarrow> owned u ds' = owned u ds)"
  by (auto simp: insert_one_def all_ok_def owned_def split: if_splits)

lemma update_all_ok:
  assumes "ok new" "all_ok ds" "update_one p (merge new) ds = Inr ds'" "\<And>x. p x \<Longrightarrow> tenant x = t"
  shows "all_ok ds' \<and> (\<forall>u. u \<noteq> t \<longrightarrow> owned u ds' = owned u ds)"
proof -
  have ds': "ds' = update_first p (merge new) ds" using assms(3) by (auto simp: update_one_def split: if_splits)
  have "map key ds' = map key ds" unfolding ds' by (rule map_update_first) (simp add: merge_key)
  moreover have "\<forall>x \<in> set ds'. ok x" using assms(1,2) ok_merge by (auto simp: ds' all_ok_def dest!: set_update_first)
  moreover have "owned u ds' = owned u ds" if "u \<noteq> t" for u
    unfolding ds' owned_def using that assms(4) by (intro filter_update_first) (auto simp: merge_tenant)
  ultimately show ?thesis using assms(2) by (simp add: all_ok_def)
qed

lemma delete_all_ok:
  assumes "all_ok ds" "delete_first (\<lambda>x. key x = i \<and> tenant x = t) ds = Inr ds'"
  shows "all_ok ds' \<and> (\<forall>u. u \<noteq> t \<longrightarrow> owned u ds' = owned u ds)"
proof -
  have ds': "ds' = filter (\<lambda>x. \<not> (key x = i \<and> tenant x = t)) ds"
    using delete_first_filter assms by (simp add: all_ok_def)
  have "owned u ds' = owned u ds" if "u \<noteq> t" for u
    unfolding ds' owned_def filter_filter using that by (intro filter_cong) auto
  with assms(1) show ?thesis by (simp add: ds' all_ok_def distinct_map_filter)
qed

lemma kept_insert: "ok x \<Longrightarrow> RequireTenant c = Inr (tenant x) \<Longrightarrow>
    framed (kept c) (repo_write d c coll put (\<lambda>_. insert_one key x))"
  by (rule kept_write) (auto dest: insert_all_ok)

lemma kept_update: "ok x \<Longrightarrow> (\<And>t y. p t y \<Longrightarrow> tenant y = t) \<Longrightarrow>
    framed (kept c) (repo_write d c coll put (\<lambda>t. update_one (p t) (merge x)))"
  by (rule kept_write) (rule update_all_ok, assumption+)

lemma kept_delete:
  assumes "\<And>t y. p t y = (key y = i \<and> tenant y = t)"
  shows "framed (kept c) (repo_write d c coll put (\<lambda>t. delete_first (p t)))"
proof (rule kept_write)
  fix t ds ds' assume "all_ok ds" "delete_first (p t) ds = Inr ds'"
  moreover have "p t = (\<lambda>x. key x = i \<and> tenant x = t)" using assms by auto
  ultimately show "all_ok ds' \<and> (\<forall>u. u \<noteq> t \<longrightarrow> owned u ds' = owned u ds)"
    using delete_all_ok by simp
qed

text \<open>What a lookup returns is a stored document, so it is well formed.\<close>

lemma kept_found:
  assumes "repo_query d c' coll (\<lambda>t. find_one (p t)) w = (Inr x, w1)" "all_ok (coll w)"
  shows "ok x \<and> (\<exists>t. p t x)"
proof -
  from assms(1) obtain t where "find (p t) (coll w) = Some x"
    using wpD(1) [OF query_wp, of d c' "\<lambda>t. find_one (p t)" w x w1]
    by (auto simp: find_one_def split: option.splits)
  with assms(2) show ?thesis by (auto simp: all_ok_def dest: find_Some_in)
qed

lemma kept_try_found:
  assumes none: "\<And>e. framed (kept c) (f (Inl e))" and found: "\<And>x t. ok x \<Longrightarrow> p t x \<Longrightarrow> framed (kept c) (f (Inr x))"
  shows "framed (kept c) (bind_io (try_io (repo_query d c' coll (\<lambda>t. find_one (p t)))) f)"
  unfolding framed_def
proof
  fix w
  obtain r w1 where q: "repo_query d c' coll (\<lambda>t. find_one (p t)) w = (r, w1)" by fastforce
  have k: "kept c w w1" using framedD [OF kept_query] q by blast
  have "all_ok (coll w) \<Longrightarrow> kept c w1 (snd (f r w1))"
    using kept_found [of d c' p w _ w1] q none found by (cases r) (fastforce simp: framed_def)+
  with k have "kept c w (snd (f r w1))" by (auto simp: kept_def)
  with q show "kept c w (snd (bind_io (try_io (repo_query d c' coll (\<lambda>t. find_one (p t)))) f w))"
    by (simp add: bind_io_def try_io_def)
qed

lemma kept_bind_found:
  assumes rest: "\<And>x. ok x \<Longrightarrow> framed (kept c) (f x)"
  shows "framed (kept c) (bind_io (repo_query d c' coll (\<lambda>t. find_one (p t))) f)"
proof -
  have eq: "bind_io (repo_query d c' coll (\<lambda>t. find_one (p t))) f
      = bind_io (try_io (repo_query d c' coll (\<lambda>t. find_one (p t)))) (\<lambda>r. case r of Inl e \<Rightarrow> throw_io e | Inr x \<Rightarrow> f x)"
    by (auto simp: fun_eq_iff bind_io_def try_io_def throw_io_def split: prod.split sum.split)
  show ?thesis unfolding eq by (rule kept_try_found) (simp_all add: kept.fr_throw rest)
qed

text \<open>A sequence of requests, each of them of one tenant.\<close>

lemma kept_requests:
  assumes run: "\<And>w. run [] w = w" "\<And>c rq rqs w. run ((c, rq) # rqs) w = run rqs (snd (serve c rq w))"
    and step: "\<And>c rq. (c, rq) \<in> set rqs \<Longrightarrow> framed (kept c) (serve c rq)"
    and ok: "all_ok (coll w)"
  shows "all_ok (coll (run rqs w)) \<and> (\<forall>t. (\<forall>c rq. (c, rq) \<in> set rqs \<longrightarrow> ctx_tenant c \<noteq> Some t) \<longrightarrow>
     owned t (coll (run rqs w)) = owned t (coll w))"
  using step ok
proof (induction rqs arbitrary: w)
  case (Cons q rqs)
  obtain c rq where q: "q = (c, rq)" by fastforce
  have k: "kept c w (snd (serve c rq w))" using Cons.prems(1) by (simp add: framed_def q)
  then have ok': "all_ok (coll (snd (serve c rq w)))" using Cons.prems(2) by (simp add: kept_def)
  have "\<And>c rq. (c, rq) \<in> set rqs \<Longrightarrow> framed (kept c) (serve c rq)" using Cons.prems(1) by simp
  note IH = Cons.IH [OF this ok']
  have "owned t (coll (run ((c, rq) # rqs) w)) = owned t (coll w)"
    if "\<forall>c' rq'. (c', rq') \<in> set ((c, rq) # rqs) \<longrightarrow> ctx_tenant c' \<noteq> Some t" for t
  proof -
    have "ctx_tenant c \<noteq> Some t" "\<forall>c rq. (c, rq) \<in> set rqs \<longrightarrow> ctx_tenant c \<noteq> Some t" using that by auto
    with IH k Cons.prems(2) show ?thesis by (simp only: run kept_def) metis
  qed
  with IH show ?case by (simp only: q run) blast
qed (simp add: run)

end

end
