(* ===== verification/Holidays.thy ===== *)
theory Holidays
  imports Business_Hours Repo
begin

text \<open>
  \<open>domain/businesshours/service/holiday_service.go\<close> and its repository
  \<open>infra/database/mongodb/repositories/businesshours\<close>: the tenant's holidays.
\<close>

section \<open>The repository\<close>

definition holiday_set :: "holiday \<Rightarrow> holiday \<Rightarrow> holiday" where
  "holiday_set new old = old\<lparr>ho_Date := ho_Date new, ho_Name := ho_Name new, ho_Scope := ho_Scope new,
     ho_ChannelIDs := ho_ChannelIDs new, ho_Recurring := ho_Recurring new, ho_UpdatedAt := ho_UpdatedAt new\<rparr>"

abbreviation put_holidays :: "holiday list \<Rightarrow> 'z desk_world_scheme \<Rightarrow> 'z desk_world_scheme" where
  "put_holidays hs w \<equiv> w\<lparr>holidays := hs\<rparr>"

definition holiday_by :: "ident \<Rightarrow> ident \<Rightarrow> holiday \<Rightarrow> bool" where
  "holiday_by t i h \<longleftrightarrow> ho_ID h = i \<and> ho_TenantID h = t"

definition holiday_Create :: "'e env_scheme \<Rightarrow> ctx \<Rightarrow> holiday \<Rightarrow> ('z desk_world_scheme, unit) io" where
  "holiday_Create d c h = repo_write d c holidays put_holidays (\<lambda>_. insert_one ho_ID h)"

definition holiday_Update :: "'e env_scheme \<Rightarrow> ctx \<Rightarrow> holiday \<Rightarrow> ('z desk_world_scheme, unit) io" where
  "holiday_Update d c h = repo_write d c holidays put_holidays (\<lambda>t. update_one (holiday_by t (ho_ID h)) (holiday_set h))"

definition holiday_Delete :: "'e env_scheme \<Rightarrow> ctx \<Rightarrow> ident \<Rightarrow> ('z desk_world_scheme, unit) io" where
  "holiday_Delete d c i = repo_write d c holidays put_holidays (\<lambda>t. delete_first (holiday_by t i))"

definition holiday_FindByID :: "'e env_scheme \<Rightarrow> ctx \<Rightarrow> ident \<Rightarrow> ('z desk_world_scheme, holiday) io" where
  "holiday_FindByID d c i = repo_query d c holidays (\<lambda>t. find_one (holiday_by t i))"

definition holiday_List :: "'e env_scheme \<Rightarrow> ctx \<Rightarrow> page_request \<Rightarrow> ('z desk_world_scheme, holiday list) io" where
  "holiday_List d c page = then_io (lift_res (RequireTenant c))
     (bind_io (lift_res (DecodeCursor (pr_Cursor page))) (\<lambda>cur.
        repo_query d c holidays (\<lambda>t hs. Inr (list_page (\<lambda>h. ho_TenantID h = t) ho_CreatedAt ho_ID cur (pr_Limit page) hs))))"

interpretation holiday_repo: tenant_repo ho_ID ho_TenantID holiday_set holidays
  "\<lambda>hs w. w\<lparr>holidays := hs\<rparr> :: 'z desk_world_scheme"
  by unfold_locales (simp_all add: holiday_set_def tick_def)

section \<open>The service\<close>

definition digit_char :: "int \<Rightarrow> char" where
  "digit_char n = char_of (nat n + 48)"

definition fmt2 :: "int \<Rightarrow> string" where
  "fmt2 n = [digit_char (n div 10), digit_char (n mod 10)]"

text \<open>\<open>t.Format(2006-01-02)\<close>: a parsed year has four digits.\<close>

definition format_date :: "int \<times> int \<times> int \<Rightarrow> string" where
  "format_date = (\<lambda>(y, m, d). fmt2 (y div 100) @ fmt2 (y mod 100) @ ''-'' @ fmt2 m @ ''-'' @ fmt2 d)"

definition normalizeDate :: "string \<Rightarrow> string res" where
  "normalizeDate date = (case splitDate (trim_space date) of
     None \<Rightarrow> Inl (WithDetails (Validation ''date must be YYYY-MM-DD'') [''date'' \<mapsto> GStr ''must be YYYY-MM-DD''])
   | Some ymd \<Rightarrow> Inr (format_date ymd))"

definition resolveScope :: "ident list \<Rightarrow> string \<times> ident list" where
  "resolveScope channelIDs = (let cleaned = filter (\<lambda>i. i \<noteq> []) (map trim_space channelIDs) in
     if cleaned = [] then (ScopeAllChannels, []) else (ScopeChannels, cleaned))"

record create_holiday =
  xh_Date :: string
  xh_Name :: string
  xh_ChannelIDs :: "ident list"
  xh_Recurring :: "bool option"

record update_holiday =
  uh_Date :: "string option"
  uh_Name :: "string option"
  uh_ChannelIDs :: "ident list option"
  uh_Recurring :: "bool option"

definition holiday_service_Create :: "'e env_scheme \<Rightarrow> ctx \<Rightarrow> create_holiday \<Rightarrow> ('z desk_world_scheme, holiday) io" where
  "holiday_service_Create d c cmd = bind_io (lift_res (RequireTenant c)) (\<lambda>t.
     bind_io (lift_res (normalizeDate (xh_Date cmd))) (\<lambda>date.
     then_io (guard_io (trim_space (xh_Name cmd) = [])
       (WithDetails (Validation ''name is required'') [''name'' \<mapsto> GStr ''is required'']))
     (bind_io (now_io d) (\<lambda>now. bind_io (new_id d) (\<lambda>i.
      case resolveScope (xh_ChannelIDs cmd) of (scope, chs) \<Rightarrow>
      let h = \<lparr>ho_ID = i, ho_TenantID = t, ho_Date = date, ho_Name = trim_space (xh_Name cmd), ho_Scope = scope,
               ho_ChannelIDs = chs, ho_Recurring = (xh_Recurring cmd = Some True), ho_CreatedAt = now, ho_UpdatedAt = now\<rparr>
      in then_io (holiday_Create d c h) (return_io h))))))"

definition patch_name :: "string option \<Rightarrow> ('a \<Rightarrow> string \<Rightarrow> 'a) \<Rightarrow> 'a \<Rightarrow> 'a res" where
  "patch_name n set_name x = (case n of None \<Rightarrow> Inr x
   | Some nm \<Rightarrow> if trim_space nm = []
       then Inl (WithDetails (Validation ''name cannot be empty'') [''name'' \<mapsto> GStr ''cannot be empty''])
       else Inr (set_name x (trim_space nm)))"

definition holiday_service_Update ::
  "'e env_scheme \<Rightarrow> ctx \<Rightarrow> ident \<Rightarrow> update_holiday \<Rightarrow> ('z desk_world_scheme, holiday) io" where
  "holiday_service_Update d c i cmd = then_io (lift_res (RequireTenant c))
     (bind_io (holiday_FindByID d c i) (\<lambda>h.
      bind_io (case uh_Date cmd of None \<Rightarrow> return_io h
        | Some s \<Rightarrow> bind_io (lift_res (normalizeDate s)) (\<lambda>date. return_io (h\<lparr>ho_Date := date\<rparr>))) (\<lambda>h1.
      bind_io (lift_res (patch_name (uh_Name cmd) (\<lambda>h n. h\<lparr>ho_Name := n\<rparr>) h1)) (\<lambda>h2.
      let h3 = (case uh_ChannelIDs cmd of None \<Rightarrow> h2
            | Some chs \<Rightarrow> (case resolveScope chs of (s, cs) \<Rightarrow> h2\<lparr>ho_Scope := s, ho_ChannelIDs := cs\<rparr>));
          h4 = (case uh_Recurring cmd of None \<Rightarrow> h3 | Some r \<Rightarrow> h3\<lparr>ho_Recurring := r\<rparr>) in
      bind_io (now_io d) (\<lambda>now. let h5 = h4\<lparr>ho_UpdatedAt := now\<rparr> in
        then_io (holiday_Update d c h5) (return_io h5))))))"

definition holiday_service_Delete :: "'e env_scheme \<Rightarrow> ctx \<Rightarrow> ident \<Rightarrow> ('z desk_world_scheme, unit) io" where
  "holiday_service_Delete d c i = then_io (lift_res (RequireTenant c))
     (then_io (holiday_FindByID d c i) (holiday_Delete d c i))"

definition holiday_service_Get :: "'e env_scheme \<Rightarrow> ctx \<Rightarrow> ident \<Rightarrow> ('z desk_world_scheme, holiday) io" where
  "holiday_service_Get d c i = then_io (lift_res (RequireTenant c)) (holiday_FindByID d c i)"

definition holiday_service_List :: "'e env_scheme \<Rightarrow> ctx \<Rightarrow> page_request \<Rightarrow> ('z desk_world_scheme, holiday list) io" where
  "holiday_service_List d c page = then_io (lift_res (RequireTenant c)) (holiday_List d c (Normalize page))"

end
