(* ===== verification/Sla.thy ===== *)
theory Sla
  imports Holidays
begin

text \<open>
  \<open>domain/sla\<close>: policies and their service (entity/policy.go, service/policy_service.go), the
  tracking of a conversation (entity/tracking.go), the hooks the conversations service calls and
  the scheduled check (service/sla_service.go), on the repositories of
  \<open>infra/database/mongodb/repositories/sla\<close>. Due instants come from the business-time arithmetic
  of \<open>Business_Hours\<close>.
\<close>

section \<open>Policies\<close>

record sla_policy =
  sp_ID :: ident
  sp_TenantID :: ident
  sp_Name :: string
  sp_SectorIDs :: "ident list"
  sp_Priority :: string
  sp_Channel :: string
  sp_FirstResponseTargetSec :: int
  sp_ResolutionTargetSec :: int
  sp_BusinessHoursOnly :: bool
  sp_WarningThresholdPct :: int
  sp_PauseOnWaitingCustomer :: bool
  sp_Enabled :: bool
  sp_CreatedAt :: time
  sp_UpdatedAt :: time

definition policy_Matches :: "sla_policy \<Rightarrow> ident \<Rightarrow> string \<Rightarrow> string \<Rightarrow> bool" where
  "policy_Matches p sectorID priority channel \<longleftrightarrow>
     (sp_SectorIDs p = [] \<or> sectorID \<in> set (sp_SectorIDs p))
     \<and> (sp_Priority p = [] \<or> sp_Priority p = priority)
     \<and> (sp_Channel p = [] \<or> sp_Channel p = channel)"

definition Specificity :: "sla_policy \<Rightarrow> int" where
  "Specificity p = (if sp_SectorIDs p \<noteq> [] then 4 else 0) + (if sp_Priority p \<noteq> [] then 2 else 0)
     + (if sp_Channel p \<noteq> [] then 1 else 0)"

fun select_loop :: "conversation \<Rightarrow> sla_policy option \<Rightarrow> sla_policy list \<Rightarrow> sla_policy option" where
  "select_loop cv best [] = best"
| "select_loop cv best (p # ps) =
    (if \<not> sp_Enabled p \<or> \<not> policy_Matches p (cv_SectorID cv) (cv_Priority cv) (cv_Channel cv) then select_loop cv best ps
     else if (case best of None \<Rightarrow> True | Some b \<Rightarrow> Specificity p > Specificity b) then select_loop cv (Some p) ps
     else select_loop cv best ps)"

definition selectPolicy :: "sla_policy list \<Rightarrow> conversation \<Rightarrow> sla_policy option" where
  "selectPolicy ps cv = select_loop cv None ps"

section \<open>Trackings\<close>

datatype tracking_status = StatusRunning | StatusMet | StatusBreached

record sla_tracking =
  tr_ID :: ident
  tr_TenantID :: ident
  tr_ConversationID :: ident
  tr_PolicyID :: ident
  tr_SectorID :: ident
  tr_FirstResponseDueAt :: "time option"
  tr_FirstResponseWarnAt :: "time option"
  tr_ResolutionDueAt :: "time option"
  tr_ResolutionWarnAt :: "time option"
  tr_FirstResponseAt :: "time option"
  tr_ResolvedAt :: "time option"
  tr_FirstResponseBreached :: bool
  tr_ResolutionBreached :: bool
  tr_FirstResponseWarned :: bool
  tr_ResolutionWarned :: bool
  tr_PauseOnWaitingCustomer :: bool
  tr_Status :: tracking_status
  tr_CreatedAt :: time
  tr_UpdatedAt :: time

definition Finalize :: "sla_tracking \<Rightarrow> sla_tracking" where
  "Finalize t = t\<lparr>tr_Status := (if tr_FirstResponseBreached t \<or> tr_ResolutionBreached t then StatusBreached else StatusMet)\<rparr>"

definition tr_AtRisk :: "sla_tracking \<Rightarrow> bool" where
  "tr_AtRisk t \<longleftrightarrow> tr_FirstResponseWarned t \<or> tr_ResolutionWarned t \<or> tr_FirstResponseBreached t \<or> tr_ResolutionBreached t"

section \<open>The repositories\<close>

record sla_world = desk_world +
  policies :: "sla_policy list"
  trackings :: "sla_tracking list"

definition policy_set :: "sla_policy \<Rightarrow> sla_policy \<Rightarrow> sla_policy" where
  "policy_set new old = new\<lparr>sp_ID := sp_ID old, sp_TenantID := sp_TenantID old, sp_CreatedAt := sp_CreatedAt old\<rparr>"

definition tracking_set :: "sla_tracking \<Rightarrow> sla_tracking \<Rightarrow> sla_tracking" where
  "tracking_set new old = old\<lparr>tr_FirstResponseAt := tr_FirstResponseAt new, tr_ResolvedAt := tr_ResolvedAt new,
     tr_FirstResponseBreached := tr_FirstResponseBreached new, tr_ResolutionBreached := tr_ResolutionBreached new,
     tr_FirstResponseWarned := tr_FirstResponseWarned new, tr_ResolutionWarned := tr_ResolutionWarned new,
     tr_Status := tr_Status new, tr_UpdatedAt := tr_UpdatedAt new\<rparr>"

abbreviation put_policies :: "sla_policy list \<Rightarrow> 'z sla_world_scheme \<Rightarrow> 'z sla_world_scheme" where
  "put_policies ps w \<equiv> w\<lparr>policies := ps\<rparr>"
abbreviation put_trackings :: "sla_tracking list \<Rightarrow> 'z sla_world_scheme \<Rightarrow> 'z sla_world_scheme" where
  "put_trackings ts w \<equiv> w\<lparr>trackings := ts\<rparr>"

definition policy_by :: "ident \<Rightarrow> ident \<Rightarrow> sla_policy \<Rightarrow> bool" where
  "policy_by t i p \<longleftrightarrow> sp_ID p = i \<and> sp_TenantID p = t"

definition tracking_by :: "ident \<Rightarrow> ident \<Rightarrow> sla_tracking \<Rightarrow> bool" where
  "tracking_by t i x \<longleftrightarrow> tr_ID x = i \<and> tr_TenantID x = t"

definition tracking_of :: "ident \<Rightarrow> ident \<Rightarrow> sla_tracking \<Rightarrow> bool" where
  "tracking_of t convID x \<longleftrightarrow> tr_TenantID x = t \<and> tr_ConversationID x = convID"

definition policy_Create :: "'e env_scheme \<Rightarrow> ctx \<Rightarrow> sla_policy \<Rightarrow> ('z sla_world_scheme, unit) io" where
  "policy_Create d c p = repo_write d c policies put_policies (\<lambda>_. insert_one sp_ID p)"

definition policy_Update :: "'e env_scheme \<Rightarrow> ctx \<Rightarrow> sla_policy \<Rightarrow> ('z sla_world_scheme, unit) io" where
  "policy_Update d c p = repo_write d c policies put_policies (\<lambda>t. update_one (policy_by t (sp_ID p)) (policy_set p))"

definition policy_Delete :: "'e env_scheme \<Rightarrow> ctx \<Rightarrow> ident \<Rightarrow> ('z sla_world_scheme, unit) io" where
  "policy_Delete d c i = repo_write d c policies put_policies (\<lambda>t. delete_first (policy_by t i))"

definition policy_FindByID :: "'e env_scheme \<Rightarrow> ctx \<Rightarrow> ident \<Rightarrow> ('z sla_world_scheme, sla_policy) io" where
  "policy_FindByID d c i = repo_query d c policies (\<lambda>t. find_one (policy_by t i))"

definition policy_List :: "'e env_scheme \<Rightarrow> ctx \<Rightarrow> page_request \<Rightarrow> ('z sla_world_scheme, sla_policy list) io" where
  "policy_List d c page = then_io (lift_res (RequireTenant c))
     (bind_io (lift_res (DecodeCursor (pr_Cursor page))) (\<lambda>cur.
        repo_query d c policies (\<lambda>t ps. Inr (list_page (\<lambda>p. sp_TenantID p = t) sp_CreatedAt sp_ID cur (pr_Limit page) ps))))"

definition ListEnabled :: "'e env_scheme \<Rightarrow> ctx \<Rightarrow> ('z sla_world_scheme, sla_policy list) io" where
  "ListEnabled d c = repo_query d c policies (\<lambda>t ps. Inr (filter (\<lambda>p. sp_TenantID p = t \<and> sp_Enabled p) ps))"

text \<open>The index \<open>tenant_conversation_unique\<close> (migration 0012) is checked beside the identifier's.\<close>

definition insert_tracking :: "sla_tracking \<Rightarrow> sla_tracking list \<Rightarrow> mongo_err + sla_tracking list" where
  "insert_tracking x ts = (if \<exists>y \<in> set ts. tracking_of (tr_TenantID x) (tr_ConversationID x) y
     then Inl DuplicateKey else insert_one tr_ID x ts)"

definition tracking_Create :: "'e env_scheme \<Rightarrow> ctx \<Rightarrow> sla_tracking \<Rightarrow> ('z sla_world_scheme, unit) io" where
  "tracking_Create d c x = repo_write d c trackings put_trackings (\<lambda>_. insert_tracking x)"

definition tracking_Update :: "'e env_scheme \<Rightarrow> ctx \<Rightarrow> sla_tracking \<Rightarrow> ('z sla_world_scheme, unit) io" where
  "tracking_Update d c x = repo_write d c trackings put_trackings (\<lambda>t. update_one (tracking_by t (tr_ID x)) (tracking_set x))"

definition FindByConversation :: "'e env_scheme \<Rightarrow> ctx \<Rightarrow> ident \<Rightarrow> ('z sla_world_scheme, sla_tracking) io" where
  "FindByConversation d c convID = repo_query d c trackings (\<lambda>t. find_one (tracking_of t convID))"

definition ListAtRisk :: "'e env_scheme \<Rightarrow> ctx \<Rightarrow> page_request \<Rightarrow> ('z sla_world_scheme, sla_tracking list) io" where
  "ListAtRisk d c page = then_io (lift_res (RequireTenant c))
     (bind_io (lift_res (DecodeCursor (pr_Cursor page))) (\<lambda>cur.
        repo_query d c trackings (\<lambda>t xs. Inr (list_page
          (\<lambda>x. tr_TenantID x = t \<and> tr_Status x = StatusRunning \<and> (tr_FirstResponseWarned x \<or> tr_ResolutionWarned x
             \<or> tr_FirstResponseBreached x \<or> tr_ResolutionBreached x))
          tr_CreatedAt tr_ID cur (pr_Limit page) xs))))"

text \<open>
  System-wide, without a sort: the scan of the index on \<open>status\<close> returns equal keys in the order
  the documents were inserted, the order of the model's list.
\<close>

definition ListRunningAcrossTenants :: "'e env_scheme \<Rightarrow> int \<Rightarrow> ('z sla_world_scheme, sla_tracking list) io" where
  "ListRunningAcrossTenants d limit =
    (let limit' = (if limit \<le> 0 then 1000 else limit) in
     db_call d (gets_io (\<lambda>w. take (nat limit') (filter (\<lambda>x. tr_Status x = StatusRunning) (trackings w)))))"

interpretation policy_repo: tenant_repo sp_ID sp_TenantID policy_set policies
  "\<lambda>ps w. w\<lparr>policies := ps\<rparr> :: 'z sla_world_scheme"
  by unfold_locales (simp_all add: policy_set_def tick_def)

interpretation tracking_repo: tenant_repo tr_ID tr_TenantID tracking_set trackings
  "\<lambda>ts w. w\<lparr>trackings := ts\<rparr> :: 'z sla_world_scheme"
  by unfold_locales (simp_all add: tracking_set_def tick_def)

lemma sla_tick [simp]: "policies (tick w) = policies w" "trackings (tick w) = trackings w"
  by (simp_all add: tick_def)

section \<open>The policy service\<close>

record create_policy =
  xp_Name :: string
  xp_SectorIDs :: "ident list"
  xp_Priority :: string
  xp_Channel :: string
  xp_FirstResponseTargetSec :: int
  xp_ResolutionTargetSec :: int
  xp_BusinessHoursOnly :: bool
  xp_WarningThresholdPct :: int
  xp_PauseOnWaitingCustomer :: bool
  xp_Enabled :: "bool option"

record update_policy =
  up_Name :: "string option"
  up_SectorIDs :: "ident list option"
  up_Priority :: "string option"
  up_Channel :: "string option"
  up_FirstResponseTargetSec :: "int option"
  up_ResolutionTargetSec :: "int option"
  up_BusinessHoursOnly :: "bool option"
  up_WarningThresholdPct :: "int option"
  up_PauseOnWaitingCustomer :: "bool option"
  up_Enabled :: "bool option"

definition policy_service_Create :: "'e env_scheme \<Rightarrow> ctx \<Rightarrow> create_policy \<Rightarrow> ('z sla_world_scheme, sla_policy) io" where
  "policy_service_Create d c cmd = bind_io (lift_res (RequireTenant c)) (\<lambda>t.
     then_io (guard_io (trim_space (xp_Name cmd) = [])
       (WithDetails (Validation ''name is required'') [''name'' \<mapsto> GStr ''is required'']))
     (then_io (guard_io (xp_FirstResponseTargetSec cmd \<le> 0 \<and> xp_ResolutionTargetSec cmd \<le> 0)
       (WithDetails (Validation ''at least one target must be set'')
          [''targets'' \<mapsto> GStr ''first_response or resolution required'']))
     (let warn = (if xp_WarningThresholdPct cmd \<le> 0 \<or> xp_WarningThresholdPct cmd \<ge> 100 then 80 else xp_WarningThresholdPct cmd) in
      bind_io (now_io d) (\<lambda>now. bind_io (new_id d) (\<lambda>i.
      let p = \<lparr>sp_ID = i, sp_TenantID = t, sp_Name = trim_space (xp_Name cmd), sp_SectorIDs = xp_SectorIDs cmd,
               sp_Priority = trim_space (xp_Priority cmd), sp_Channel = trim_space (xp_Channel cmd),
               sp_FirstResponseTargetSec = xp_FirstResponseTargetSec cmd,
               sp_ResolutionTargetSec = xp_ResolutionTargetSec cmd,
               sp_BusinessHoursOnly = xp_BusinessHoursOnly cmd, sp_WarningThresholdPct = warn,
               sp_PauseOnWaitingCustomer = xp_PauseOnWaitingCustomer cmd,
               sp_Enabled = (xp_Enabled cmd = None \<or> xp_Enabled cmd = Some True),
               sp_CreatedAt = now, sp_UpdatedAt = now\<rparr>
      in then_io (policy_Create d c p) (return_io p))))))"

text \<open>A nil field is left unchanged.\<close>

definition patched :: "'a option \<Rightarrow> 'a \<Rightarrow> 'a" where
  "patched new old = (case new of None \<Rightarrow> old | Some x \<Rightarrow> x)"

definition policy_service_Update ::
  "'e env_scheme \<Rightarrow> ctx \<Rightarrow> ident \<Rightarrow> update_policy \<Rightarrow> ('z sla_world_scheme, sla_policy) io" where
  "policy_service_Update d c i cmd = then_io (lift_res (RequireTenant c))
     (bind_io (policy_FindByID d c i) (\<lambda>p0.
      bind_io (lift_res (patch_name (up_Name cmd) (\<lambda>p n. p\<lparr>sp_Name := n\<rparr>) p0)) (\<lambda>p.
      let warn = (case up_WarningThresholdPct cmd of None \<Rightarrow> sp_WarningThresholdPct p
            | Some x \<Rightarrow> if 0 < x \<and> x < 100 then x else sp_WarningThresholdPct p);
          p1 = p\<lparr>sp_SectorIDs := patched (up_SectorIDs cmd) (sp_SectorIDs p),
                sp_Priority := patched (map_option trim_space (up_Priority cmd)) (sp_Priority p),
                sp_Channel := patched (map_option trim_space (up_Channel cmd)) (sp_Channel p),
                sp_FirstResponseTargetSec := patched (up_FirstResponseTargetSec cmd) (sp_FirstResponseTargetSec p),
                sp_ResolutionTargetSec := patched (up_ResolutionTargetSec cmd) (sp_ResolutionTargetSec p),
                sp_BusinessHoursOnly := patched (up_BusinessHoursOnly cmd) (sp_BusinessHoursOnly p),
                sp_WarningThresholdPct := warn,
                sp_PauseOnWaitingCustomer := patched (up_PauseOnWaitingCustomer cmd) (sp_PauseOnWaitingCustomer p),
                sp_Enabled := patched (up_Enabled cmd) (sp_Enabled p)\<rparr> in
      bind_io (now_io d) (\<lambda>now. let p2 = p1\<lparr>sp_UpdatedAt := now\<rparr> in
        then_io (policy_Update d c p2) (return_io p2)))))"

definition policy_service_Delete :: "'e env_scheme \<Rightarrow> ctx \<Rightarrow> ident \<Rightarrow> ('z sla_world_scheme, unit) io" where
  "policy_service_Delete d c i = then_io (lift_res (RequireTenant c))
     (then_io (policy_FindByID d c i) (policy_Delete d c i))"

definition policy_service_Get :: "'e env_scheme \<Rightarrow> ctx \<Rightarrow> ident \<Rightarrow> ('z sla_world_scheme, sla_policy) io" where
  "policy_service_Get d c i = then_io (lift_res (RequireTenant c)) (policy_FindByID d c i)"

definition policy_service_List :: "'e env_scheme \<Rightarrow> ctx \<Rightarrow> page_request \<Rightarrow> ('z sla_world_scheme, sla_policy list) io" where
  "policy_service_List d c page = then_io (lift_res (RequireTenant c)) (policy_List d c (Normalize page))"

section \<open>Due instants\<close>

text \<open>\<open>time.Time{}\<close>, the first of January of year 1.\<close>

definition zero_time :: time where "zero_time = - 62135596800 * Second"

definition pct :: "int \<Rightarrow> int \<Rightarrow> int" where
  "pct targetSec percent = (if targetSec \<le> 0 then 0 else go_div (targetSec * percent) 100)"

definition computeDue :: "'e biz_deps_scheme \<Rightarrow> ctx \<Rightarrow> ident \<Rightarrow> time \<Rightarrow> int \<Rightarrow> bool \<Rightarrow> ('z sla_world_scheme, time option) io" where
  "computeDue d c channelID start targetSec bizOnly =
    (if targetSec \<le> 0 then return_io None
     else let dur = targetSec * Second in
       if bizOnly then bind_io (try_io (AddBusinessDuration d c channelID start dur)) (\<lambda>r.
         return_io (Some (case r of Inl _ \<Rightarrow> start + dur | Inr t \<Rightarrow> t)))
       else return_io (Some (start + dur)))"

section \<open>The hooks of a conversation\<close>

definition start_tracking :: "'e biz_deps_scheme \<Rightarrow> ctx \<Rightarrow> conversation \<Rightarrow> sla_policy \<Rightarrow> time \<Rightarrow> ('z sla_world_scheme, sla_tracking) io" where
  "start_tracking d c cv p start =
    (let due = (\<lambda>target. computeDue d c (cv_ChannelID cv) start target (sp_BusinessHoursOnly p)) in
     bind_io (new_id d) (\<lambda>i.
     bind_io (due (sp_FirstResponseTargetSec p)) (\<lambda>frDue.
     bind_io (due (pct (sp_FirstResponseTargetSec p) (sp_WarningThresholdPct p))) (\<lambda>frWarn.
     bind_io (due (sp_ResolutionTargetSec p)) (\<lambda>reDue.
     bind_io (due (pct (sp_ResolutionTargetSec p) (sp_WarningThresholdPct p))) (\<lambda>reWarn.
     bind_io (now_io d) (\<lambda>created. bind_io (now_io d) (\<lambda>updated.
     return_io \<lparr>tr_ID = i, tr_TenantID = cv_TenantID cv, tr_ConversationID = cv_ID cv, tr_PolicyID = sp_ID p,
        tr_SectorID = cv_SectorID cv, tr_FirstResponseDueAt = frDue, tr_FirstResponseWarnAt = frWarn,
        tr_ResolutionDueAt = reDue, tr_ResolutionWarnAt = reWarn, tr_FirstResponseAt = None, tr_ResolvedAt = None,
        tr_FirstResponseBreached = False, tr_ResolutionBreached = False, tr_FirstResponseWarned = False,
        tr_ResolutionWarned = False, tr_PauseOnWaitingCustomer = sp_PauseOnWaitingCustomer p,
        tr_Status = StatusRunning, tr_CreatedAt = created, tr_UpdatedAt = updated\<rparr>))))))))"

definition OnConversationCreated :: "'e biz_deps_scheme \<Rightarrow> ctx \<Rightarrow> conversation \<Rightarrow> ('z sla_world_scheme, unit) io" where
  "OnConversationCreated d c cv = bind_io (try_io (FindByConversation d c (cv_ID cv))) (\<lambda>existing.
     case existing of Inr _ \<Rightarrow> return_io ()
     | Inl _ \<Rightarrow> bind_io (try_io (ListEnabled d c)) (\<lambda>ps.
         case ps of Inl _ \<Rightarrow> return_io ()
         | Inr ps \<Rightarrow> (case selectPolicy ps cv of
             None \<Rightarrow> return_io ()
           | Some p \<Rightarrow> bind_io (if cv_CreatedAt cv = zero_time then now_io d else return_io (cv_CreatedAt cv)) (\<lambda>start.
               bind_io (start_tracking d c cv p start) (\<lambda>t. ignore_io (tracking_Create d c t))))))"

text \<open>\<open>at.After(*due)\<close>, false when there is no due instant.\<close>

definition late :: "time \<Rightarrow> time option \<Rightarrow> bool" where
  "late t due = (case due of None \<Rightarrow> False | Some x \<Rightarrow> x < t)"

definition respond_mark :: "time \<Rightarrow> sla_tracking \<Rightarrow> sla_tracking" where
  "respond_mark inst t =
    (let t1 = t\<lparr>tr_FirstResponseAt := Some inst\<rparr> in
     if late inst (tr_FirstResponseDueAt t1) then t1\<lparr>tr_FirstResponseBreached := True\<rparr> else t1)"

definition OnFirstResponse :: "'e biz_deps_scheme \<Rightarrow> ctx \<Rightarrow> conversation \<Rightarrow> time \<Rightarrow> ('z sla_world_scheme, unit) io" where
  "OnFirstResponse d c cv inst = bind_io (try_io (FindByConversation d c (cv_ID cv))) (\<lambda>r.
     case r of Inl _ \<Rightarrow> return_io ()
     | Inr t \<Rightarrow> if tr_FirstResponseAt t \<noteq> None then return_io ()
        else bind_io (now_io d) (\<lambda>now. ignore_io (tracking_Update d c ((respond_mark inst t)\<lparr>tr_UpdatedAt := now\<rparr>))))"

definition resolve_mark :: "time \<Rightarrow> sla_tracking \<Rightarrow> sla_tracking" where
  "resolve_mark inst t =
    (let t1 = t\<lparr>tr_ResolvedAt := Some inst\<rparr>;
         t2 = (if late inst (tr_ResolutionDueAt t1) then t1\<lparr>tr_ResolutionBreached := True\<rparr> else t1);
         t3 = (if tr_FirstResponseAt t2 = None \<and> late inst (tr_FirstResponseDueAt t2)
               then t2\<lparr>tr_FirstResponseBreached := True\<rparr> else t2)
     in Finalize t3)"

definition OnResolved :: "'e biz_deps_scheme \<Rightarrow> ctx \<Rightarrow> conversation \<Rightarrow> time \<Rightarrow> ('z sla_world_scheme, unit) io" where
  "OnResolved d c cv inst = bind_io (try_io (FindByConversation d c (cv_ID cv))) (\<lambda>r.
     case r of Inl _ \<Rightarrow> return_io ()
     | Inr t \<Rightarrow> if tr_ResolvedAt t \<noteq> None then return_io ()
        else bind_io (now_io d) (\<lambda>now. ignore_io (tracking_Update d c ((resolve_mark inst t)\<lparr>tr_UpdatedAt := now\<rparr>))))"

definition sla_Status :: "'e env_scheme \<Rightarrow> ctx \<Rightarrow> ident \<Rightarrow> ('z sla_world_scheme, sla_tracking) io" where
  "sla_Status d c convID = then_io (lift_res (RequireTenant c)) (FindByConversation d c convID)"

definition sla_AtRisk :: "'e env_scheme \<Rightarrow> ctx \<Rightarrow> page_request \<Rightarrow> ('z sla_world_scheme, sla_tracking list) io" where
  "sla_AtRisk d c page = then_io (lift_res (RequireTenant c)) (ListAtRisk d c (Normalize page))"

section \<open>The scheduled check\<close>

definition checkBatchLimit :: int where "checkBatchLimit = 1000"

definition RealtimeSLAWarning :: string where "RealtimeSLAWarning = ''sla.warning''"
definition RealtimeSLABreached :: string where "RealtimeSLABreached = ''sla.breached''"

definition sla_fire :: "'e env_scheme \<Rightarrow> sla_tracking \<Rightarrow> conversation \<Rightarrow> string \<Rightarrow> string \<Rightarrow> bool \<Rightarrow> ('z sla_world_scheme, unit) io" where
  "sla_fire d t cv leg event breach =
    (let p = SlaPayload (tr_ConversationID t) (tr_PolicyID t) leg (cv_SectorID cv)
               (tr_FirstResponseDueAt t) (tr_ResolutionDueAt t) breach in
     then_io (ignore_io (Publish d (TopicConversation (tr_TenantID t) (tr_ConversationID t)) event p))
     (then_io (ignore_io (Publish d (TopicTenant (tr_TenantID t)) event p))
     (then_io (when_io breach (log_effect (EHook (tr_TenantID t) RealtimeSLABreached (cv_SectorID cv) p)))
       (when_io (cv_AssignedTo cv \<noteq> []) (log_effect (ENotify (tr_TenantID t) (cv_AssignedTo cv)
          (if breach then ''sla.breached'' else ''sla.at_risk'') (''/conversations/'' @ tr_ConversationID t)))))))"

text \<open>
  One leg of \<open>evaluate\<close>: nothing, a warning (\<open>Some False\<close>) or a breach (\<open>Some True\<close>).
\<close>

definition leg_alert :: "time option \<Rightarrow> time option \<Rightarrow> time option \<Rightarrow> bool \<Rightarrow> bool \<Rightarrow> time \<Rightarrow> bool option" where
  "leg_alert at1 due warn breached warned now =
    (case due of None \<Rightarrow> None | Some x \<Rightarrow>
       if at1 \<noteq> None then None
       else if \<not> breached \<and> x \<le> now then Some True
       else if \<not> warned \<and> (case warn of None \<Rightarrow> False | Some y \<Rightarrow> y \<le> now) then Some False
       else None)"

definition first_alert :: "sla_tracking \<Rightarrow> time \<Rightarrow> bool option" where
  "first_alert t = leg_alert (tr_FirstResponseAt t) (tr_FirstResponseDueAt t) (tr_FirstResponseWarnAt t)
     (tr_FirstResponseBreached t) (tr_FirstResponseWarned t)"

definition resolution_alert :: "sla_tracking \<Rightarrow> time \<Rightarrow> bool option" where
  "resolution_alert t = leg_alert (tr_ResolvedAt t) (tr_ResolutionDueAt t) (tr_ResolutionWarnAt t)
     (tr_ResolutionBreached t) (tr_ResolutionWarned t)"

definition mark_first :: "bool option \<Rightarrow> sla_tracking \<Rightarrow> sla_tracking" where
  "mark_first a t = (case a of None \<Rightarrow> t
     | Some b \<Rightarrow> t\<lparr>tr_FirstResponseBreached := b \<or> tr_FirstResponseBreached t, tr_FirstResponseWarned := True\<rparr>)"

definition mark_resolution :: "bool option \<Rightarrow> sla_tracking \<Rightarrow> sla_tracking" where
  "mark_resolution a t = (case a of None \<Rightarrow> t
     | Some b \<Rightarrow> t\<lparr>tr_ResolutionBreached := b \<or> tr_ResolutionBreached t, tr_ResolutionWarned := True\<rparr>)"

definition alert_fire :: "'e env_scheme \<Rightarrow> sla_tracking \<Rightarrow> conversation \<Rightarrow> string \<Rightarrow> bool option \<Rightarrow> ('z sla_world_scheme, unit) io" where
  "alert_fire d t cv leg a = (case a of None \<Rightarrow> return_io ()
     | Some b \<Rightarrow> sla_fire d t cv leg (if b then RealtimeSLABreached else RealtimeSLAWarning) b)"

definition sla_evaluate :: "'e env_scheme \<Rightarrow> ctx \<Rightarrow> sla_tracking \<Rightarrow> conversation \<Rightarrow> time \<Rightarrow> ('z sla_world_scheme, unit) io" where
  "sla_evaluate d c t cv now =
    (if tr_PauseOnWaitingCustomer t \<and> cv_Status cv = StatusWaitingCustomer then return_io ()
     else let a1 = first_alert t now; t1 = mark_first a1 t;
              a2 = resolution_alert t1 now; t2 = mark_resolution a2 t1 in
       then_io (alert_fire d t1 cv ''first_response'' a1)
       (then_io (alert_fire d t2 cv ''resolution'' a2)
       (when_io (a1 \<noteq> None \<or> a2 \<noteq> None)
         (ignore_io (tracking_Update d c (t2\<lparr>tr_UpdatedAt := now\<rparr>))))))"

text \<open>
  The conversations of the batch by identifier, the last of equal ones; the order in which a
  \<open>map\<close> is ranged over is Go's choice at each run, a parameter.
\<close>

record sla_deps = biz_deps +
  sd_order :: "nat \<Rightarrow> ident list \<Rightarrow> ident list"

definition check_tenant :: "'e env_scheme \<Rightarrow> ctx \<Rightarrow> time \<Rightarrow> ident \<Rightarrow> sla_tracking list \<Rightarrow> ('z sla_world_scheme, unit) io" where
  "check_tenant d c now tenantID ts =
    (let tctx = WithAuthContext (WithTenant c tenantID) (SystemActor tenantID) in
     bind_io (try_io (conv_FindByIDs d tctx (map tr_ConversationID ts))) (\<lambda>r.
     case r of Inl _ \<Rightarrow> return_io ()
     | Inr cs \<Rightarrow> for_io ts (\<lambda>t. case find (\<lambda>cv. cv_ID cv = tr_ConversationID t) (rev cs) of
         None \<Rightarrow> return_io () | Some cv \<Rightarrow> sla_evaluate d tctx t cv now)))"

definition RunCheck :: "'e sla_deps_scheme \<Rightarrow> ctx \<Rightarrow> ('z sla_world_scheme, unit) io" where
  "RunCheck d c = bind_io (ListRunningAcrossTenants d checkBatchLimit) (\<lambda>items.
     bind_io (now_io d) (\<lambda>now. bind_io (gets_io step) (\<lambda>n.
       for_io (sd_order d n (remdups (map tr_TenantID items))) (\<lambda>t.
         check_tenant d c now t (filter (\<lambda>x. tr_TenantID x = t) items)))))"

end
