(* ===== verification/Business_Props.thy ===== *)
theory Business_Props
  imports Business_Hours
begin

text \<open>
  Properties of the business-time arithmetic: what a validated schedule promises, the agreement
  of the open/closed answer with the walk over open segments, and the round trip between
  \<open>AddBusinessDuration\<close> and \<open>BusinessDurationBetween\<close>.
\<close>

section \<open>Validated schedules\<close>

definition in_day :: "interval \<Rightarrow> bool" where
  "in_day iv \<longleftrightarrow> 0 \<le> iv_StartMin iv \<and> iv_StartMin iv < iv_EndMin iv \<and> iv_EndMin iv \<le> 1440"

definition tidy_day :: "interval list \<Rightarrow> bool" where
  "tidy_day ivs \<longleftrightarrow> (\<forall>iv \<in> set ivs. in_day iv) \<and> \<not> overlapping (sort_key iv_StartMin ivs)"

definition tidy :: "schedule \<Rightarrow> bool" where
  "tidy s \<longleftrightarrow> (\<forall>wd. tidy_day (sc_Weekly s wd))"

lemma parseHHMM_range: "parseHHMM str = Some m \<Longrightarrow> 0 \<le> m \<and> m \<le> 1440"
  by (auto simp: parseHHMM_def Let_def split: if_splits option.splits)

lemma check_intervals_Inr:
  "check_intervals day ivs = Inr out \<Longrightarrow>
     List.map_filter parse_interval ivs = out \<and> length out = length ivs \<and> (\<forall>iv \<in> set out. in_day iv)"
proof (induction ivs arbitrary: out)
  case (Cons iv ivs)
  from Cons.prems obtain s e out1 where
    iv: "parseHHMM (ri_Start iv) = Some s" "parseHHMM (ri_End iv) = Some e" "s < e"
    and out: "check_intervals day ivs = Inr out1" "out = \<lparr>iv_StartMin = s, iv_EndMin = e\<rparr> # out1"
    by (auto split: option.splits if_splits sum.splits)
  with Cons.IH [OF out(1)] show ?case
    using parseHHMM_range [OF iv(1)] parseHHMM_range [OF iv(2)]
    by (simp add: map_filter_simps parse_interval_def in_day_def)
qed (simp add: map_filter_simps)

text \<open>An accepted document loses nothing in the lenient reading: each day is what it says.\<close>

lemma check_days_step:
  assumes "check_days seen (day # days) = Inr ()"
  shows "0 \<le> ry_Day day" "ry_Day day \<le> 6" "ry_Day day \<notin> seen"
    "tidy_day (List.map_filter parse_interval (ry_Intervals day))"
    "length (List.map_filter parse_interval (ry_Intervals day)) = length (ry_Intervals day)"
    "check_days (insert (ry_Day day) seen) days = Inr ()"
  using assms by (auto simp: tidy_day_def split: if_splits sum.splits dest!: check_intervals_Inr)

lemma add_day_weekly:
  "sc_Weekly (add_day s day) wd =
     (if wd = ry_Day day \<and> 0 \<le> wd \<and> wd \<le> 6 \<and> List.map_filter parse_interval (ry_Intervals day) \<noteq> []
      then List.map_filter parse_interval (ry_Intervals day) else sc_Weekly s wd)"
  by (auto simp: add_day_def Let_def)

lemma check_days_tidy:
  "check_days seen days = Inr () \<Longrightarrow> tidy s \<Longrightarrow> tidy (foldl add_day s days)"
proof (induction days arbitrary: seen s)
  case (Cons day days)
  have "tidy (add_day s day)"
    using check_days_step(4) [OF Cons.prems(1)] Cons.prems(2) by (simp add: tidy_def add_day_weekly)
  then show ?case using Cons.IH [OF check_days_step(6) [OF Cons.prems(1)]] by simp
qed simp

lemma tidy_unconfigured: "tidy \<lparr>sc_Timezone = z, sc_Weekly = (\<lambda>_. []), sc_Configured = b\<rparr>"
  by (simp add: tidy_def tidy_day_def)

lemma tidy_timezone: "tidy (s\<lparr>sc_Timezone := z\<rparr>) = tidy s"
  by (simp add: tidy_def)

lemma ValidateSchedule_tidy:
  assumes "ValidateSchedule d doc = Inr ()"
  shows "tidy (ParseSchedule d doc)"
proof (cases "decodeRaw d doc")
  case None
  then show ?thesis by (simp add: ParseSchedule_def tidy_unconfigured)
next
  case (Some raw)
  moreover from Some have "doc \<noteq> Map.empty" by (auto simp: decodeRaw_def)
  ultimately have "check_days {} (rs_Weekly raw) = Inr ()"
    using assms by (auto simp: ValidateSchedule_def Let_def split: if_splits)
  with Some show ?thesis
    by (auto simp: ParseSchedule_def Let_def intro!: check_days_tidy
        simp: tidy_timezone tidy_unconfigured)
qed

lemma overlapping_Cons:
  "\<not> overlapping (a # ivs) \<Longrightarrow> (\<forall>iv \<in> set (a # ivs). in_day iv) \<Longrightarrow>
     (\<forall>b \<in> set ivs. iv_EndMin a \<le> iv_StartMin b) \<and> \<not> overlapping ivs"
proof (induction ivs arbitrary: a)
  case (Cons b ivs)
  then have *: "iv_EndMin a \<le> iv_StartMin b" "\<not> overlapping (b # ivs)" by simp_all
  with Cons have "\<forall>x \<in> set ivs. iv_EndMin b \<le> iv_StartMin x" by simp
  moreover from Cons.prems have "iv_StartMin b < iv_EndMin b" by (simp add: in_day_def)
  ultimately show ?case using * by fastforce
qed simp

section \<open>Chains of segments\<close>

fun chain :: "(time \<times> time) list \<Rightarrow> bool" where
  "chain [] = True"
| "chain (s # ss) = (fst s < snd s \<and> (\<forall>x \<in> set ss. snd s \<le> fst x) \<and> chain ss)"

lemma chain_append:
  "chain (xs @ ys) \<longleftrightarrow> chain xs \<and> chain ys \<and> (\<forall>x \<in> set xs. \<forall>y \<in> set ys. snd x \<le> fst y)"
  by (induction xs) auto

lemma chain_nonempty: "chain xs \<Longrightarrow> x \<in> set xs \<Longrightarrow> fst x < snd x"
  by (induction xs) auto

definition ahead :: "time \<Rightarrow> time \<times> time \<Rightarrow> duration" where
  "ahead a seg = (if snd seg \<le> a then 0 else snd seg - max (fst seg) a)"

abbreviation clips :: "time \<Rightarrow> time \<Rightarrow> (time \<times> time) list \<Rightarrow> duration" where
  "clips a b segs \<equiv> sum_list (map (clip a b) segs)"

lemma clips_before: "(\<forall>x \<in> set segs. b \<le> fst x) \<Longrightarrow> clips a b segs = 0"
  by (induction segs) (auto simp: clip_def Let_def)

lemma clips_le_ahead: "chain segs \<Longrightarrow> clips a b segs \<le> sum_list (map (ahead a) segs)"
  by (rule sum_list_mono) (auto simp: clip_def ahead_def Let_def dest: chain_nonempty)

lemma add_segments_after:
  "add_segments cursor rem segs = Inl t \<Longrightarrow> 0 < rem \<Longrightarrow> (\<forall>x \<in> set segs. y \<le> fst x) \<Longrightarrow> y < t"
  by (induction cursor rem segs rule: add_segments.induct)
     (auto simp: Let_def max_def split: if_splits)

lemma add_segments_cursor: "add_segments cursor rem segs = Inl t \<Longrightarrow> 0 < rem \<Longrightarrow> cursor < t"
  by (induction cursor rem segs rule: add_segments.induct)
     (auto simp: Let_def max_def split: if_splits)

text \<open>The instant found has exactly the requested open time behind it.\<close>

lemma add_segments_exact:
  "add_segments cursor rem segs = Inl t \<Longrightarrow> 0 < rem \<Longrightarrow> chain segs \<Longrightarrow> clips cursor t segs = rem"
proof (induction cursor rem segs rule: add_segments.induct)
  case (2 cursor remaining seg segs)
  let ?s = "max (fst seg) cursor"
  show ?case
  proof (cases "snd seg \<le> cursor")
    case True
    with 2 show ?thesis by (simp add: clip_def Let_def)
  next
    case open1: False
    show ?thesis
    proof (cases "remaining \<le> snd seg - ?s")
      case True
      with open1 2(3) have t: "t = ?s + remaining" by (simp add: Let_def)
      with True 2(5) have "clips cursor t segs = 0" by (intro clips_before) auto
      with t True 2(4) show ?thesis by (auto simp: clip_def [of _ _ seg] Let_def)
    next
      case False
      with open1 2(3) have rest: "add_segments cursor (remaining - (snd seg - ?s)) segs = Inl t"
        by (simp add: Let_def)
      with False 2(2,4,5) open1 have "clips cursor t segs = remaining - (snd seg - ?s)"
        by (simp add: Let_def)
      moreover have "snd seg < t"
        using rest False 2(5) by (intro add_segments_after [OF rest]) auto
      moreover from 2(5) open1 have "?s < snd seg" by auto
      ultimately show ?thesis by (auto simp: clip_def [of _ _ seg] Let_def)
    qed
  qed
qed simp

text \<open>It exists exactly when the segments ahead hold enough open time.\<close>

lemma ahead_nonneg: "chain segs \<Longrightarrow> 0 \<le> sum_list (map (ahead a) segs)"
  by (induction segs) (auto simp: ahead_def)

lemma add_segments_Inr:
  "add_segments cursor rem segs = Inr rest \<Longrightarrow> 0 < rem \<Longrightarrow>
     rest = rem - sum_list (map (ahead cursor) segs) \<and> 0 < rest"
proof (induction segs arbitrary: rem)
  case (Cons seg segs)
  show ?case
  proof (cases "snd seg \<le> cursor")
    case True
    with Cons show ?thesis by (simp add: ahead_def [of _ seg])
  next
    case False
    with Cons.prems have "add_segments cursor (rem - ahead cursor seg) segs = Inr rest" "0 < rem - ahead cursor seg"
      by (auto simp: ahead_def Let_def split: if_splits)
    then show ?thesis using Cons.IH by fastforce
  qed
qed simp

lemma add_segments_append:
  "add_segments cursor rem (xs @ ys) = (case add_segments cursor rem xs of
     Inl t \<Rightarrow> Inl t | Inr rest \<Rightarrow> add_segments cursor rest ys)"
  by (induction cursor rem xs rule: add_segments.induct) (auto simp: Let_def)

lemma add_segments_shift:
  "(\<forall>x \<in> set segs. c2 \<le> fst x \<and> fst x < snd x) \<Longrightarrow> c1 \<le> c2 \<Longrightarrow>
     add_segments c1 rem segs = add_segments c2 rem segs"
  by (induction c1 rem segs rule: add_segments.induct) (auto simp: Let_def max_def)

section \<open>Walking the days\<close>

lemma Day_pos [simp]: "0 < Day"
  by (simp add: Day_def Hour_def Minute_def Second_def)

lemma Minutes_of_Day: "1440 * Minute = Day"
  by (simp add: Day_def Hour_def)

lemma Minute_pos [simp]: "0 < Minute"
  by (simp add: Minute_def Second_def)

fun days_segs :: "nat \<Rightarrow> resolved \<Rightarrow> time \<Rightarrow> (time \<times> time) list" where
  "days_segs 0 r day = []"
| "days_segs (Suc n) r day = open_segments r day @ days_segs n r (nextDay (re_loc r) day)"

text \<open>
  A day is in order when the walk leaves it for a later midnight that is a midnight of the zone,
  and the instants of its opening and closing times follow each other between the two. A clock
  change can break this: a skipped midnight, or an opening time skipped together with its
  closing time.
\<close>

definition day_in_order :: "resolved \<Rightarrow> time \<Rightarrow> bool" where
  "day_in_order r day \<longleftrightarrow> (let next1 = nextDay (re_loc r) day in
     day < next1 \<and> startOfDay (re_loc r) next1 = next1 \<and> chain (open_segments r day)
     \<and> (\<forall>seg \<in> set (open_segments r day). day \<le> fst seg \<and> snd seg \<le> next1))"

fun in_order :: "nat \<Rightarrow> resolved \<Rightarrow> time \<Rightarrow> bool" where
  "in_order 0 r day = True"
| "in_order (Suc n) r day = (day_in_order r day \<and> in_order n r (nextDay (re_loc r) day))"

text \<open>All days the two walks may visit from \<open>a\<close> on are in order.\<close>

definition walk_in_order :: "resolved \<Rightarrow> time \<Rightarrow> bool" where
  "walk_in_order r a \<longleftrightarrow> a \<le> nextDay (re_loc r) (startOfDay (re_loc r) a)
     \<and> in_order maxDaysWalk r (startOfDay (re_loc r) a)"

lemma day_in_orderD:
  assumes "day_in_order r day"
  shows "day < nextDay (re_loc r) day" "startOfDay (re_loc r) (nextDay (re_loc r) day) = nextDay (re_loc r) day"
    "chain (open_segments r day)"
    "seg \<in> set (open_segments r day) \<Longrightarrow> day \<le> fst seg \<and> fst seg < snd seg \<and> snd seg \<le> nextDay (re_loc r) day"
  using assms by (auto simp: day_in_order_def Let_def dest: chain_nonempty)

lemma days_from: "in_order k r day \<Longrightarrow> seg \<in> set (days_segs k r day) \<Longrightarrow> day \<le> fst seg \<and> fst seg < snd seg"
proof (induction k arbitrary: day)
  case (Suc k)
  then have "day_in_order r day" by simp
  from day_in_orderD(1,4) [OF this] Suc show ?case by (fastforce dest: less_imp_le)
qed simp

lemma days_chain: "in_order k r day \<Longrightarrow> chain (days_segs k r day)"
proof (induction k arbitrary: day)
  case (Suc k)
  then have day: "day_in_order r day" and rest: "in_order k r (nextDay (re_loc r) day)" by simp_all
  have "snd x \<le> fst y" if "x \<in> set (open_segments r day)" "y \<in> set (days_segs k r (nextDay (re_loc r) day))" for x y
    using day_in_orderD(4) [OF day that(1)] days_from [OF rest that(2)] by linarith
  then show ?case using Suc.IH [OF rest] day_in_orderD(3) [OF day] by (simp add: chain_append)
qed simp

lemma foldl_clips: "foldl (\<lambda>sum seg. sum + clip a b seg) acc segs = acc + clips a b segs"
  by (induction segs arbitrary: acc) auto

lemma between_loop_clips: "in_order k r day \<Longrightarrow> between_loop k r a b day acc = acc + clips a b (days_segs k r day)"
proof (induction k arbitrary: day acc)
  case (Suc k)
  show ?case
  proof (cases "b < day")
    case True
    moreover from True have "clips a b (days_segs (Suc k) r day) = 0"
      by (intro clips_before) (auto dest!: days_from [OF Suc.prems] simp del: days_segs.simps)
    ultimately show ?thesis by simp
  next
    case False
    with Suc show ?thesis by (simp add: foldl_clips)
  qed
qed simp

lemma add_loop_segments:
  "in_order k r (startOfDay (re_loc r) cursor) \<Longrightarrow> k = 0 \<or> cursor \<le> nextDay (re_loc r) (startOfDay (re_loc r) cursor) \<Longrightarrow>
   0 < rem \<Longrightarrow> add_loop k r cursor rem =
     (case add_segments cursor rem (days_segs k r (startOfDay (re_loc r) cursor)) of Inl t \<Rightarrow> Some t | Inr _ \<Rightarrow> None)"
proof (induction k arbitrary: cursor rem)
  case (Suc k)
  let ?day = "startOfDay (re_loc r) cursor" and ?next = "nextDay (re_loc r) (startOfDay (re_loc r) cursor)"
  have day: "day_in_order r ?day" and rest: "in_order k r ?next" using Suc.prems(1) by simp_all
  note next1 = day_in_orderD(2) [OF day]
  show ?case
  proof (cases "add_segments cursor rem (open_segments r ?day)")
    case (Inl t)
    then show ?thesis by (simp add: Let_def add_segments_append)
  next
    case (Inr left1)
    have "add_segments cursor left1 (days_segs k r ?next) = add_segments ?next left1 (days_segs k r ?next)"
      by (intro add_segments_shift) (use Suc.prems(2) in \<open>auto dest: days_from [OF rest]\<close>)
    moreover have "k = 0 \<or> ?next \<le> nextDay (re_loc r) (startOfDay (re_loc r) ?next)"
      using rest next1 day_in_orderD(1) [of r ?next] by (cases k) (auto dest: less_imp_le)
    ultimately show ?thesis
      using Inr Suc.IH [of ?next left1] add_segments_Inr [OF Inr Suc.prems(3)] rest
      by (simp add: Let_def add_segments_append next1)
  qed
qed simp

text \<open>The walk that adds and the walk that measures agree.\<close>

lemma add_then_between:
  assumes walk: "walk_in_order r a" and "0 < dur" and "add_loop maxDaysWalk r a dur = Some t"
  shows "a < t \<and> between_loop maxDaysWalk r a t (startOfDay (re_loc r) a) 0 = dur"
proof -
  have o: "in_order maxDaysWalk r (startOfDay (re_loc r) a)" using walk by (simp add: walk_in_order_def)
  have segs: "add_segments a dur (days_segs maxDaysWalk r (startOfDay (re_loc r) a)) = Inl t"
    using assms add_loop_segments [OF o _ assms(2)] by (auto simp: walk_in_order_def split: sum.splits)
  then show ?thesis
    using assms(2) days_chain [OF o] add_segments_exact [OF segs] add_segments_cursor [OF segs]
    by (simp add: between_loop_clips [OF o])
qed

lemma add_fails_between:
  assumes walk: "walk_in_order r a" and "0 < dur" and "add_loop maxDaysWalk r a dur = None"
  shows "between_loop maxDaysWalk r a b (startOfDay (re_loc r) a) 0 < dur"
proof -
  have o: "in_order maxDaysWalk r (startOfDay (re_loc r) a)" using walk by (simp add: walk_in_order_def)
  obtain rest where segs: "add_segments a dur (days_segs maxDaysWalk r (startOfDay (re_loc r) a)) = Inr rest"
    using assms add_loop_segments [OF o _ assms(2)] by (auto simp: walk_in_order_def split: sum.splits)
  have "clips a b (days_segs maxDaysWalk r (startOfDay (re_loc r) a))
      \<le> sum_list (map (ahead a) (days_segs maxDaysWalk r (startOfDay (re_loc r) a)))"
    by (rule clips_le_ahead [OF days_chain [OF o]])
  then show ?thesis
    using add_segments_Inr [OF segs assms(2)] by (simp add: between_loop_clips [OF o])
qed

section \<open>Days without a clock change\<close>

text \<open>The offset is the same at every instant of \<open>S\<close>.\<close>

definition steady :: "zone \<Rightarrow> duration \<Rightarrow> time set \<Rightarrow> bool" where
  "steady z off S \<longleftrightarrow> (\<forall>t \<in> S. zone_offset z t = off)"

text \<open>\<open>S\<close> holds the day \<open>n\<close>, both as civil time and as instants.\<close>

definition covers :: "time set \<Rightarrow> duration \<Rightarrow> int \<Rightarrow> bool" where
  "covers S off n \<longleftrightarrow> {n * Day..(n + 1) * Day} \<subseteq> S \<and> {n * Day - off..(n + 1) * Day - off} \<subseteq> S"

lemma coversI:
  "lo \<le> n * Day \<Longrightarrow> lo \<le> n * Day - off \<Longrightarrow> n * Day + Day \<le> hi \<Longrightarrow> n * Day + Day - off \<le> hi \<Longrightarrow> covers {lo..hi} off n"
  "lo \<le> n * Day \<Longrightarrow> lo \<le> n * Day - off \<Longrightarrow> covers {lo..} off n"
  by (auto simp: covers_def algebra_simps)

lemma coversD:
  assumes "covers S off n" "0 \<le> k" "k \<le> Day"
  shows "n * Day + k \<in> S" "n * Day + k - off \<in> S"
  using assms by (auto simp: covers_def subset_iff algebra_simps)

lemma go_Date_steady:
  assumes "steady z off S" "n * Day + clock \<in> S" "n * Day + clock - off \<in> S"
  shows "go_Date z n clock = n * Day + clock - off"
proof -
  have "fst (zn_lookup z (n * Day + clock)) = off" "zone_offset z (n * Day + clock - off) = off"
    using assms by (simp_all add: steady_def zone_offset_def)
  then show ?thesis by (auto simp: go_Date_def Let_def split: prod.split)
qed

lemma go_Date_covers:
  "steady z off S \<Longrightarrow> covers S off n \<Longrightarrow> 0 \<le> clock \<Longrightarrow> clock \<le> Day \<Longrightarrow> go_Date z n clock = n * Day + clock - off"
  by (rule go_Date_steady) (auto dest: coversD)

lemma local_day_steady:
  assumes "steady z off S" "n * Day + k - off \<in> S" "0 \<le> k" "k < Day"
  shows "local_day z (n * Day + k - off) = n" "local_clock z (n * Day + k - off) = k"
  using assms by (simp_all add: local_day_def local_clock_def steady_def)

lemma nextDay_steady:
  assumes z: "steady z off S" and n: "covers S off n"
  shows "nextDay z (n * Day - off) = (n + 1) * Day - off" "startOfDay z ((n + 1) * Day - off) = (n + 1) * Day - off"
proof -
  have midnight: "n * Day + Day = (n + 1) * Day" by (simp add: algebra_simps)
  have in_S: "(n + 1) * Day \<in> S" "(n + 1) * Day - off \<in> S"
    using coversD [OF n, of Day] by (simp_all add: midnight less_imp_le)
  have today: "local_day z (n * Day - off) = n" "local_clock z (n * Day - off) = 0"
    using local_day_steady [OF z, of n 0] coversD [OF n, of 0] by (simp_all add: less_imp_le)
  have tomorrow: "local_day z ((n + 1) * Day - off) = n + 1" "go_Date z (n + 1) 0 = (n + 1) * Day - off"
    using local_day_steady [OF z, of "n + 1" 0] go_Date_steady [OF z, of "n + 1" 0] in_S by simp_all
  then show "startOfDay z ((n + 1) * Day - off) = (n + 1) * Day - off" by (simp add: startOfDay_def)
  then show "nextDay z (n * Day - off) = (n + 1) * Day - off" by (simp add: nextDay_def today tomorrow)
qed

lemma startOfDay_steady:
  assumes z: "steady z off S" and a: "a \<in> S" and n: "covers S off (local_day z a)"
  shows "startOfDay z a = local_day z a * Day - off" "startOfDay z a \<le> a" "a < startOfDay z a + Day"
    "a = local_day z a * Day - off + local_clock z a"
proof -
  show eq: "startOfDay z a = local_day z a * Day - off"
    using go_Date_covers [OF z n, of 0] by (simp add: startOfDay_def less_imp_le)
  have off: "zone_offset z a = off" using z a by (simp add: steady_def)
  have "a + off = (a + off) div Day * Day + (a + off) mod Day" by simp
  moreover have "0 \<le> (a + off) mod Day" "(a + off) mod Day < Day" by simp_all
  ultimately show "startOfDay z a \<le> a" "a < startOfDay z a + Day" "a = local_day z a * Day - off + local_clock z a"
    unfolding eq unfolding local_day_def local_clock_def off by linarith+
qed

lemma chain_of_intervals:
  "(\<forall>iv \<in> set ivs. in_day iv) \<Longrightarrow> \<not> overlapping ivs \<Longrightarrow>
     chain (map (\<lambda>iv. (x + iv_StartMin iv * Minute, x + iv_EndMin iv * Minute)) ivs)"
proof (induction ivs)
  case (Cons a ivs)
  with overlapping_Cons [of a ivs] show ?case
    by (fastforce simp: in_day_def intro: mult_right_mono less_imp_le)
qed simp

lemma in_day_minutes:
  assumes "in_day iv"
  shows "0 \<le> iv_StartMin iv * Minute" "iv_StartMin iv * Minute < iv_EndMin iv * Minute" "iv_EndMin iv * Minute \<le> Day"
proof -
  have "iv_EndMin iv * Minute \<le> 1440 * Minute"
    using assms by (intro mult_right_mono) (auto simp: in_day_def less_imp_le)
  then show "iv_EndMin iv * Minute \<le> Day" by (simp add: Minutes_of_Day)
qed (use assms in \<open>simp_all add: in_day_def less_imp_le\<close>)

lemma dayIntervals_steady:
  assumes z: "steady (re_loc r) off S" and n: "covers S off n" and s: "tidy (re_sched r)"
  shows "dayIntervals r (n * Day - off) = map (\<lambda>iv. (n * Day - off + iv_StartMin iv * Minute, n * Day - off + iv_EndMin iv * Minute))
     (sort_key iv_StartMin (sc_Weekly (re_sched r) (weekday_of n)))"
proof -
  have "local_day (re_loc r) (n * Day - off) = n"
    using local_day_steady(1) [OF z, of n 0] coversD [OF n, of 0] by (simp add: less_imp_le)
  moreover have "go_Date (re_loc r) n (iv_StartMin iv * Minute) = n * Day - off + iv_StartMin iv * Minute
      \<and> go_Date (re_loc r) n (iv_EndMin iv * Minute) = n * Day - off + iv_EndMin iv * Minute"
    if "iv \<in> set (sc_Weekly (re_sched r) (weekday_of n))" for iv
  proof -
    have iv: "in_day iv" using that s by (simp add: tidy_def tidy_day_def)
    show ?thesis
      using in_day_minutes [OF iv] go_Date_covers [OF z n, of "iv_StartMin iv * Minute"]
        go_Date_covers [OF z n, of "iv_EndMin iv * Minute"] by linarith
  qed
  ultimately show ?thesis by (auto simp: dayIntervals_def Let_def)
qed

lemma day_in_order_steady:
  assumes z: "steady (re_loc r) off S" and n: "covers S off n" and s: "tidy (re_sched r)"
  shows "day_in_order r (n * Day - off)"
proof -
  have td: "tidy_day (sc_Weekly (re_sched r) (weekday_of n))" using s by (simp add: tidy_def)
  have "chain (open_segments r (n * Day - off))"
    using td by (auto simp: open_segments_def dayIntervals_steady [OF assms] tidy_day_def intro!: chain_of_intervals)
  moreover have "n * Day - off \<le> fst seg \<and> snd seg \<le> (n + 1) * Day - off" if seg_in: "seg \<in> set (open_segments r (n * Day - off))" for seg
  proof -
    obtain iv where iv: "in_day iv"
      and seg: "seg = (n * Day - off + iv_StartMin iv * Minute, n * Day - off + iv_EndMin iv * Minute)"
      using seg_in td by (auto simp: open_segments_def dayIntervals_steady [OF assms] tidy_day_def split: if_splits)
    show ?thesis using in_day_minutes [OF iv] by (simp add: seg distrib_right)
  qed
  ultimately show ?thesis
    unfolding day_in_order_def Let_def nextDay_steady [OF z n] using Day_pos by (auto simp: distrib_right)
qed

lemma in_order_steady:
  assumes z: "steady (re_loc r) off S" and s: "tidy (re_sched r)"
  shows "(\<And>m. n \<le> m \<Longrightarrow> m < n + int k \<Longrightarrow> covers S off m) \<Longrightarrow> in_order k r (n * Day - off)"
proof (induction k arbitrary: n)
  case (Suc k)
  have n: "covers S off n" using Suc.prems by simp
  show ?case
    using day_in_order_steady [OF z n s] Suc.IH [of "n + 1"] Suc.prems by (simp add: nextDay_steady [OF z n])
qed simp

text \<open>
  A tidy schedule in a zone that changed its clock for the last time three days ago or earlier:
  every day from then on is in order.
\<close>

lemma walk_in_order_steady:
  assumes z: "steady (re_loc r) off {T..}" and s: "tidy (re_sched r)" and off: "\<bar>off\<bar> \<le> Day" and a: "T + 3 * Day \<le> a"
  shows "walk_in_order r a"
proof -
  let ?n = "local_day (re_loc r) a"
  have aT: "a \<in> {T..}" using a Day_pos by (simp only: atLeast_iff)
  have "zone_offset (re_loc r) a = off" using z aT by (simp add: steady_def)
  then have "a + off = ?n * Day + (a + off) mod Day" by (simp add: local_day_def)
  moreover have "0 \<le> (a + off) mod Day" "(a + off) mod Day < Day" by simp_all
  ultimately have today: "T + Day \<le> ?n * Day" using a off by linarith
  have cov: "covers {T..} off m" if "?n \<le> m" for m
  proof (rule coversI(2))
    have "?n * Day \<le> m * Day" using that by (simp add: mult_right_mono less_imp_le)
    then show "T \<le> m * Day" "T \<le> m * Day - off" using today off Day_pos by linarith+
  qed
  note start = startOfDay_steady [OF z aT cov [OF order_refl]]
  have "in_order maxDaysWalk r (startOfDay (re_loc r) a)"
    unfolding start(1) by (rule in_order_steady [OF z s]) (rule cov)
  moreover have "a \<le> nextDay (re_loc r) (startOfDay (re_loc r) a)"
    unfolding start(1) nextDay_steady(1) [OF z cov [OF order_refl]] distrib_right using start(1,3) by linarith
  ultimately show ?thesis by (simp add: walk_in_order_def)
qed

section \<open>The use cases\<close>

definition resolution :: "'e biz_deps_scheme \<Rightarrow> channel_connection \<Rightarrow> holiday list \<Rightarrow> ident \<Rightarrow> resolved" where
  "resolution d conn hs channelID = (case locate d (ParseSchedule d (ch_BusinessHours conn)) of (s, z) \<Rightarrow>
     \<lparr>re_sched = s, re_loc = z, re_holidays = hs, re_channelID = channelID\<rparr>)"

definition found_resolution :: "'e biz_deps_scheme \<Rightarrow> ctx \<Rightarrow> ident \<Rightarrow> 'z desk_world_scheme \<Rightarrow> resolved \<Rightarrow> bool" where
  "found_resolution d c channelID w r \<longleftrightarrow> (\<exists>t conn. RequireTenant c = Inr t
     \<and> find (\<lambda>x. ch_ID x = channelID \<and> ch_TenantID x = t) (chans w) = Some conn
     \<and> r = resolution d conn (filter (\<lambda>h. ho_TenantID h = t) (holidays w)) channelID)"

lemma desk_tick [simp]: "holidays (tick w) = holidays w" "chans (tick w) = chans w"
  by (simp_all add: tick_def)

lemma map_err_find_one: "map_err (find_one p ds) = Inr x \<longleftrightarrow> find p ds = Some x"
  by (auto simp: find_one_def split: option.splits)

lemma channel_FindByID_wp:
  "wp (channel_FindByID d c i) (\<lambda>conn w'. \<exists>t. RequireTenant c = Inr t
      \<and> find (\<lambda>x. ch_ID x = i \<and> ch_TenantID x = t) (chans w) = Some conn \<and> w' = tick w) (\<lambda>_ _. True) w"
  unfolding channel_FindByID_def wp_bind wp_lift wp_db_call
  by (auto simp: wp_def map_err_find_one split: option.splits sum.splits)

lemma biz_resolve_found: "biz_resolve d c channelID w = (Inr r, w') \<Longrightarrow> found_resolution d c channelID w r"
proof -
  have "wp (biz_resolve d c channelID) (\<lambda>r _. found_resolution d c channelID w r) (\<lambda>_ _. True) w"
    unfolding biz_resolve_def wp_bind
    by (rule wp_mono [OF channel_FindByID_wp])
       (auto simp: io_wp ListAll_def found_resolution_def resolution_def split: option.splits sum.splits prod.split)
  then show "biz_resolve d c channelID w = (Inr r, w') \<Longrightarrow> ?thesis" by (rule wpD)
qed

lemma found_unique:
  "found_resolution d c i w r \<Longrightarrow> found_resolution d c i w2 r2 \<Longrightarrow> chans w2 = chans w \<Longrightarrow> holidays w2 = holidays w \<Longrightarrow> r2 = r"
  by (auto simp: found_resolution_def)

lemma resolution_tidy:
  assumes "found_resolution d c i w r"
    and "\<forall>conn \<in> set (chans w). ch_ID conn = i \<longrightarrow> ValidateSchedule d (ch_BusinessHours conn) = Inr ()"
  shows "tidy (re_sched r)"
proof -
  obtain conn hs where conn: "conn \<in> set (chans w)" "ch_ID conn = i" and r: "r = resolution d conn hs i"
    using assms(1) by (auto simp: found_resolution_def dest: find_Some_in)
  with assms(2) have "tidy (ParseSchedule d (ch_BusinessHours conn))" by (blast intro: ValidateSchedule_tidy)
  then show ?thesis
    by (auto simp: r resolution_def locate_def tidy_timezone split: option.split)
qed

lemma Add_run:
  "AddBusinessDuration d c i a dur w = (Inr x, w') \<Longrightarrow> 0 < dur \<Longrightarrow> \<exists>r. found_resolution d c i w r
     \<and> x = (if sc_Configured (re_sched r) then (case add_loop maxDaysWalk r a dur of Some t \<Rightarrow> t | None \<Rightarrow> a + dur) else a + dur)"
  by (auto simp: AddBusinessDuration_def io_defs split: sum.splits prod.splits if_splits option.splits
      dest!: biz_resolve_found)

lemma Between_run:
  "BusinessDurationBetween d c i a b w = (Inr y, w') \<Longrightarrow> a < b \<Longrightarrow> \<exists>r. found_resolution d c i w r
     \<and> y = (if sc_Configured (re_sched r) then between_loop maxDaysWalk r a b (startOfDay (re_loc r) a) 0 else b - a)"
  by (auto simp: BusinessDurationBetween_def io_defs split: sum.splits prod.splits if_splits option.splits
      dest!: biz_resolve_found)

lemma add_then_measure:
  fixes w :: "'z desk_world_scheme"
  assumes "AddBusinessDuration d c i a dur w = (Inr x, w1)" and "0 < dur"
    and r: "found_resolution d c i w r" and walk: "walk_in_order r a"
  shows "a < x \<and> ((\<forall>(w2 :: 'z desk_world_scheme) y w3. chans w2 = chans w \<and> holidays w2 = holidays w
          \<and> BusinessDurationBetween d c i a x w2 = (Inr y, w3) \<longrightarrow> y = dur)
      \<or> x = a + dur \<and> (\<forall>b (w2 :: 'z desk_world_scheme) y w3. chans w2 = chans w \<and> holidays w2 = holidays w
          \<and> BusinessDurationBetween d c i a b w2 = (Inr y, w3) \<longrightarrow> y < dur))"
proof -
  have x: "x = (if sc_Configured (re_sched r)
      then (case add_loop maxDaysWalk r a dur of Some t \<Rightarrow> t | None \<Rightarrow> a + dur) else a + dur)"
    using Add_run [OF assms(1,2)] found_unique [OF r] by blast
  have ax: "a < x" using add_then_between [OF walk assms(2)] assms(2) by (auto simp: x split: option.split)
  have y: "y = (if sc_Configured (re_sched r) then between_loop maxDaysWalk r a b (startOfDay (re_loc r) a) 0 else b - a)"
    if "chans w2 = chans w" "holidays w2 = holidays w" "BusinessDurationBetween d c i a b w2 = (Inr y, w3)" "a < b"
    for b y w3 and w2 :: "'z desk_world_scheme"
    using Between_run [OF that(3,4)] found_unique [OF r _ that(1,2)] by blast
  have early: "y = 0" if "BusinessDurationBetween d c i a b w2 = (Inr y, w3)" "b \<le> a" for b y w3 and w2 :: "'z desk_world_scheme"
    using that by (auto simp: BusinessDurationBetween_def io_defs split: sum.splits)
  show ?thesis
  proof (cases "sc_Configured (re_sched r) \<and> add_loop maxDaysWalk r a dur = None")
    case True
    then have "y < dur" if "chans w2 = chans w" "holidays w2 = holidays w" "BusinessDurationBetween d c i a b w2 = (Inr y, w3)"
      for b y w3 and w2 :: "'z desk_world_scheme"
      using y [OF that] early [OF that(3)] add_fails_between [OF walk assms(2)] assms(2) by (cases "a < b") auto
    then show ?thesis using True ax x by auto
  next
    case False
    then have "y = dur" if "chans w2 = chans w" "holidays w2 = holidays w" "BusinessDurationBetween d c i a x w2 = (Inr y, w3)"
      for y w3 and w2 :: "'z desk_world_scheme"
      using y [OF that ax] add_then_between [OF walk assms(2)] by (auto simp: x split: option.splits if_splits)
    then show ?thesis using ax by blast
  qed
qed

text \<open>
  C25: Adding business time and measuring it agree. When every day the walks may visit from the
  start on is in order in the channel's zone (no clock change skips a midnight or turns opening
  and closing times round), the instant \<open>AddBusinessDuration\<close> computes for a positive duration is
  later than its start and has exactly that duration of open time behind it by
  \<open>BusinessDurationBetween\<close>; the one exception is the documented fallback to wall time, taken only
  when no instant at all has that duration of open time behind it.
  \<open>walk_in_order_steady\<close> gives the condition for every validated schedule in a zone without a
  clock change ahead, and the witness crosses one; \<open>skipped_midnight_goes_back\<close> is what happens
  where it fails.
\<close>
theorem business_time_round_trip:
  fixes w w2 w4 :: "'z desk_world_scheme"
  assumes "AddBusinessDuration d c i a dur w = (Inr x, w1)" and "0 < dur"
    and "BusinessDurationBetween d c i a x w2 = (Inr y, w3)" "chans w2 = chans w" "holidays w2 = holidays w"
    and "BusinessDurationBetween d c i a b w4 = (Inr z, w5)" "chans w4 = chans w" "holidays w4 = holidays w"
    and "found_resolution d c i w r" and "walk_in_order r a"
  shows "a < x \<and> (y = dur \<or> x = a + dur \<and> y < dur \<and> z < dur)"
  using add_then_measure [OF assms(1,2,9,10)] assms(3-8) by blast

text \<open>
  C26: The strict check of the write path is what the rest relies on: a schedule it accepts is
  read back with, for each weekday, non-empty intervals inside the day, no minute of which is
  in two of them.
\<close>
theorem validated_schedule_is_tidy:
  assumes "ValidateSchedule d doc = Inr ()"
  shows "let ivs = sc_Weekly (ParseSchedule d doc) wd in
    (\<forall>iv \<in> set ivs. 0 \<le> iv_StartMin iv \<and> iv_StartMin iv < iv_EndMin iv \<and> iv_EndMin iv \<le> 1440)
    \<and> length (filter (\<lambda>iv. iv_Contains iv m) ivs) \<le> 1"
proof -
  let ?ivs = "sc_Weekly (ParseSchedule d doc) wd"
  have td: "tidy_day ?ivs" using ValidateSchedule_tidy [OF assms] by (simp add: tidy_def)
  have one: "(\<forall>iv \<in> set ivs. in_day iv) \<Longrightarrow> \<not> overlapping ivs \<Longrightarrow> length (filter (\<lambda>iv. iv_Contains iv m) ivs) \<le> 1" for ivs
  proof (induction ivs)
    case (Cons a ivs)
    then have "\<forall>b \<in> set ivs. iv_EndMin a \<le> iv_StartMin b" "\<not> overlapping ivs"
      using overlapping_Cons by blast+
    then have "iv_Contains a m \<Longrightarrow> filter (\<lambda>iv. iv_Contains iv m) ivs = []"
      by (fastforce simp: filter_empty_conv iv_Contains_def)
    with Cons \<open>\<not> overlapping ivs\<close> show ?case by auto
  qed simp
  have "length (filter (\<lambda>iv. iv_Contains iv m) (sort_key iv_StartMin ?ivs)) = length (filter (\<lambda>iv. iv_Contains iv m) ?ivs)"
    by (simp add: filter_sort)
  with one [of "sort_key iv_StartMin ?ivs"] td show ?thesis
    by (simp add: Let_def tidy_day_def in_day_def)
qed

section \<open>The open status and the walk\<close>

lemma clip_instant: "fst seg < snd seg \<Longrightarrow> clip a (a + 1) seg = of_bool (fst seg \<le> a \<and> a < snd seg)"
  by (auto simp: clip_def Let_def)

lemma clips_instant: "chain segs \<Longrightarrow> clips a (a + 1) segs = of_bool (\<exists>seg \<in> set segs. fst seg \<le> a \<and> a < snd seg)"
proof (induction segs)
  case (Cons seg segs)
  then have "\<forall>x \<in> set segs. snd seg \<le> fst x" by simp
  with Cons show ?case by (fastforce simp: clip_instant)
qed simp

lemma le_minute: "x * Minute \<le> k \<longleftrightarrow> x \<le> k div Minute" "k < x * Minute \<longleftrightarrow> k div Minute < x"
proof -
  have k: "k = k div Minute * Minute + k mod Minute" "0 \<le> k mod Minute" "k mod Minute < Minute" by simp_all
  show *: "x * Minute \<le> k \<longleftrightarrow> x \<le> k div Minute"
  proof
    assume "x * Minute \<le> k"
    then have "x * Minute < (k div Minute + 1) * Minute" using k unfolding distrib_right by linarith
    then show "x \<le> k div Minute" by (simp only: mult_less_cancel_right_pos [OF Minute_pos])
  next
    assume "x \<le> k div Minute"
    then have "x * Minute \<le> k div Minute * Minute" by (simp add: mult_right_mono)
    then show "x * Minute \<le> k" using k by linarith
  qed
  then show "k < x * Minute \<longleftrightarrow> k div Minute < x" by linarith
qed

lemma day_segment_open:
  assumes z: "steady (re_loc r) off S" and a: "a \<in> S" and n: "covers S off (local_day (re_loc r) a)"
    and s: "tidy (re_sched r)" and conf: "sc_Configured (re_sched r)"
  shows "(\<exists>seg \<in> set (open_segments r (startOfDay (re_loc r) a)). fst seg \<le> a \<and> a < snd seg)
    \<longleftrightarrow> \<not> isHoliday r a \<and> IsOpenAt (re_sched r) (re_loc r) a"
proof -
  let ?n = "local_day (re_loc r) a" and ?k = "local_clock (re_loc r) a"
  note start = startOfDay_steady [OF z a n]
  have "local_day (re_loc r) (?n * Day - off) = ?n"
    using local_day_steady(1) [OF z, of ?n 0] coversD [OF n, of 0] by (simp add: less_imp_le)
  then have hol: "isHoliday r (?n * Day - off) = isHoliday r a" by (simp add: isHoliday_def)
  have "(\<exists>seg \<in> set (dayIntervals r (?n * Day - off)). fst seg \<le> a \<and> a < snd seg)
      \<longleftrightarrow> (\<exists>iv \<in> set (sc_Weekly (re_sched r) (weekday_of ?n)). iv_Contains iv (?k div Minute))"
    unfolding dayIntervals_steady [OF z n s]
    by (subst (2 3) start(4)) (simp add: iv_Contains_def le_minute)
  then show ?thesis
    using conf by (simp add: start(1) hol open_segments_def IsOpenAt_def)
qed

lemma status_at_cases:
  assumes "locate d (ParseSchedule d (ch_BusinessHours conn)) = (sched, loc)"
    and r0: "r = resolution d conn hs i"
  shows "bs_Open (status_at i sched loc a hs) = (\<not> isHoliday r a \<and> IsOpenAt (re_sched r) (re_loc r) a)"
    "bs_Reason (status_at i sched loc a hs) = ReasonHoliday \<longleftrightarrow> isHoliday r a"
proof -
  have r: "r = \<lparr>re_sched = sched, re_loc = loc, re_holidays = hs, re_channelID = i\<rparr>"
    using assms(1) by (simp add: r0 resolution_def)
  have "isHoliday r a \<longleftrightarrow> find (\<lambda>h. AppliesTo h i \<and> FallsOn h (local_day loc a)) hs \<noteq> None"
    unfolding find_None_iff by (auto simp: isHoliday_def r)
  then show "bs_Open (status_at i sched loc a hs) = (\<not> isHoliday r a \<and> IsOpenAt (re_sched r) (re_loc r) a)"
    "bs_Reason (status_at i sched loc a hs) = ReasonHoliday \<longleftrightarrow> isHoliday r a"
    by (auto simp: status_at_def Let_def r IsOpenAt_def split: option.split)
qed

lemma Status_run:
  assumes "Status d c i a w = (Inr s, w')"
  shows "\<exists>r. found_resolution d c i w r
     \<and> bs_Open s = (\<not> isHoliday r a \<and> IsOpenAt (re_sched r) (re_loc r) a)
     \<and> (bs_Reason s = ReasonHoliday \<longleftrightarrow> isHoliday r a)"
proof -
  have "wp (Status d c i a) (\<lambda>s _. \<exists>t conn hs sched loc. RequireTenant c = Inr t
      \<and> find (\<lambda>x. ch_ID x = i \<and> ch_TenantID x = t) (chans w) = Some conn
      \<and> hs = filter (\<lambda>h. ho_TenantID h = t) (holidays w)
      \<and> locate d (ParseSchedule d (ch_BusinessHours conn)) = (sched, loc) \<and> s = status_at i sched loc a hs)
      (\<lambda>_ _. True) w"
    unfolding Status_def wp_then wp_bind wp_lift
    by (clarsimp split: sum.split, rule wp_mono [OF channel_FindByID_wp])
       (auto simp: io_wp ListAll_def split: option.split prod.split)
  from wpD(1) [OF this assms] obtain t conn hs sched loc where "RequireTenant c = Inr t"
    "find (\<lambda>x. ch_ID x = i \<and> ch_TenantID x = t) (chans w) = Some conn" "hs = filter (\<lambda>h. ho_TenantID h = t) (holidays w)"
    and loc: "locate d (ParseSchedule d (ch_BusinessHours conn)) = (sched, loc)" and s: "s = status_at i sched loc a hs"
    by blast
  then have "found_resolution d c i w (resolution d conn hs i)" by (auto simp: found_resolution_def)
  with status_at_cases [OF loc refl, of i a hs] s show ?thesis by blast
qed

text \<open>
  No clock change within three days of the instant; an offset is at most a day.
\<close>

definition no_clock_change :: "zone \<Rightarrow> time \<Rightarrow> bool" where
  "no_clock_change z a \<longleftrightarrow> \<bar>zone_offset z a\<bar> \<le> Day \<and> (\<forall>t. \<bar>t - a\<bar> \<le> 3 * Day \<longrightarrow> zone_offset z t = zone_offset z a)"

lemma no_clock_change_covers:
  assumes "no_clock_change z a"
  shows "steady z (zone_offset z a) {a - 3 * Day..a + 3 * Day}"
    "covers {a - 3 * Day..a + 3 * Day} (zone_offset z a) (local_day z a)"
    "covers {a - 3 * Day..a + 3 * Day} (zone_offset z a) (local_day z a + 1)"
proof -
  let ?off = "zone_offset z a" and ?n = "local_day z a"
  show "steady z ?off {a - 3 * Day..a + 3 * Day}"
    unfolding steady_def
  proof
    fix t assume "t \<in> {a - 3 * Day..a + 3 * Day}"
    then have "\<bar>t - a\<bar> \<le> 3 * Day" by (simp add: abs_le_iff)
    with assms show "zone_offset z t = ?off" unfolding no_clock_change_def by blast
  qed
  have "a + ?off = ?n * Day + (a + ?off) mod Day" by (simp add: local_day_def)
  moreover have "0 \<le> (a + ?off) mod Day" "(a + ?off) mod Day < Day" by simp_all
  moreover have "\<bar>?off\<bar> \<le> Day" using assms by (simp add: no_clock_change_def)
  ultimately have "?n * Day \<le> a + ?off" "a + ?off < ?n * Day + Day" "?off \<le> Day" "- Day \<le> ?off" by linarith+
  then show "covers {a - 3 * Day..a + 3 * Day} ?off ?n" "covers {a - 3 * Day..a + 3 * Day} ?off (?n + 1)"
    using Day_pos by (intro coversI; simp only: distrib_right mult_1; linarith)+
qed

text \<open>Measuring a nanosecond looks at the segments of its day only.\<close>

lemma between_instant:
  assumes o: "day_in_order r day" "day_in_order r (nextDay (re_loc r) day)"
    and a: "day \<le> a" "a < nextDay (re_loc r) day" "a + 1 < nextDay (re_loc r) (nextDay (re_loc r) day)"
  shows "between_loop (Suc (Suc (Suc k))) r a (a + 1) day 0 = clips a (a + 1) (open_segments r day)"
proof -
  have "clips a (a + 1) (open_segments r (nextDay (re_loc r) day)) = 0"
    using a(2) day_in_orderD(4) [OF o(2)] by (intro clips_before) fastforce
  then show ?thesis using a by (simp add: foldl_clips)
qed

text \<open>
  C27: The two readings of a schedule agree. On a channel whose hours passed \<open>ValidateSchedule\<close>, at
  an instant with no clock change within three days, the channel is open by \<open>Status\<close> (civil clock
  truncated to the minute) exactly when \<open>BusinessDurationBetween\<close> (walk over segments of instants)
  counts the nanosecond that starts there as business time. A channel without business hours is
  counted always, also on a holiday, on which \<open>Status\<close> reports it closed.
\<close>
theorem open_status_is_open_time:
  fixes w :: "'z desk_world_scheme"
  assumes "Status d c i a w = (Inr s, w1)" "BusinessDurationBetween d c i a (a + 1) w2 = (Inr y, w3)"
    and "chans w2 = chans w" "holidays w2 = holidays w" and "found_resolution d c i w r"
    and "\<forall>conn \<in> set (chans w). ch_ID conn = i \<longrightarrow> ValidateSchedule d (ch_BusinessHours conn) = Inr ()"
    and "no_clock_change (re_loc r) a"
  shows "y = (if bs_Open s \<or> \<not> sc_Configured (re_sched r) then 1 else 0)"
proof -
  note tidy1 = resolution_tidy [OF assms(5,6)]
  have st: "bs_Open s = (\<not> isHoliday r a \<and> IsOpenAt (re_sched r) (re_loc r) a)"
    using Status_run [OF assms(1)] found_unique [OF assms(5)] by blast
  have y: "y = (if sc_Configured (re_sched r) then between_loop maxDaysWalk r a (a + 1) (startOfDay (re_loc r) a) 0 else 1)"
    using Between_run [OF assms(2)] found_unique [OF assms(5) _ assms(3,4)] by fastforce
  show ?thesis
  proof (cases "sc_Configured (re_sched r)")
    case True
    let ?z = "re_loc r" and ?n = "local_day (re_loc r) a" and ?off = "zone_offset (re_loc r) a"
    note z = no_clock_change_covers(1) [OF assms(7)] and n = no_clock_change_covers(2) [OF assms(7)]
      and n1 = no_clock_change_covers(3) [OF assms(7)]
    have a: "a \<in> {a - 3 * Day..a + 3 * Day}" using Day_pos by (simp add: less_imp_le)
    note start = startOfDay_steady [OF z a n]
    have days: "day_in_order r (?n * Day - ?off)" "day_in_order r ((?n + 1) * Day - ?off)"
      by (rule day_in_order_steady [OF z _ tidy1], rule n n1)+
    have next1: "nextDay ?z (startOfDay ?z a) = (?n + 1) * Day - ?off"
        "nextDay ?z ((?n + 1) * Day - ?off) = (?n + 1 + 1) * Day - ?off"
      by (simp_all only: start(1) nextDay_steady(1) [OF z n] nextDay_steady(1) [OF z n1])
    have "between_loop (Suc (Suc (Suc 3997))) r a (a + 1) (startOfDay ?z a) 0 = clips a (a + 1) (open_segments r (startOfDay ?z a))"
    proof (rule between_instant)
      show "day_in_order r (startOfDay ?z a)" using days(1) by (simp only: start(1))
      show "day_in_order r (nextDay ?z (startOfDay ?z a))" using days(2) by (simp only: next1)
      show "a < nextDay ?z (startOfDay ?z a)" "a + 1 < nextDay ?z (nextDay ?z (startOfDay ?z a))"
        unfolding next1 unfolding distrib_right mult_1 using start(1,3) Day_pos by linarith+
    qed (rule start(2))
    moreover have "maxDaysWalk = Suc (Suc (Suc 3997))" by (simp add: maxDaysWalk_def)
    ultimately have "y = clips a (a + 1) (open_segments r (startOfDay ?z a))" using True y by metis
    then show ?thesis
      using clips_instant [OF day_in_orderD(3) [OF days(1)]] day_segment_open [OF z a n tidy1 True] st True
      by (simp add: start(1))
  qed (use y in simp)
qed

section \<open>A desk on which the properties apply\<close>

text \<open>
  An office at UTC-3, open Thursdays and Fridays from 8 to 12 and from 13 to 18; from 17:00 on
  Thursday the first of January 1970, three business hours end at 10:00 on Friday.
\<close>

definition brt :: zone where
  "brt = \<lparr>zn_lookup = (\<lambda>_. (- 3 * Hour, - 1000 * Day, 100000 * Day))\<rparr>"

definition office_day :: "int \<Rightarrow> raw_day" where
  "office_day wd = \<lparr>ry_Day = wd, ry_Intervals =
     [\<lparr>ri_Start = ''08:00'', ri_End = ''12:00''\<rparr>, \<lparr>ri_Start = ''13:00'', ri_End = ''18:00''\<rparr>]\<rparr>"

definition desk_deps :: biz_deps where
  "desk_deps = \<lparr>clk = (\<lambda>n. 0), newid = (\<lambda>n. []), fault = (\<lambda>_. None),
     bd_decode = (\<lambda>_. Some \<lparr>rs_Timezone = ''America/Sao_Paulo'', rs_Weekly = [office_day 4, office_day 5]\<rparr>),
     bd_loadLocation = (\<lambda>n. if n = ''America/Sao_Paulo'' then Some brt else None)\<rparr>"

definition office_hours :: gmap where "office_hours = [''weekly'' \<mapsto> GNil]"

definition desk0 :: desk_world where
  "desk0 = \<lparr>step = 0, convs = [], msgs = [], cevents = [],
     chans = [demo_channel\<lparr>ch_BusinessHours := office_hours\<rparr>], sectors = [], effects = [],
     holidays = [\<lparr>ho_ID = ''h1'', ho_TenantID = ''t1'', ho_Date = ''1970-12-25'', ho_Name = ''Natal'',
       ho_Scope = ScopeAllChannels, ho_ChannelIDs = [], ho_Recurring = True, ho_CreatedAt = 0, ho_UpdatedAt = 0\<rparr>]\<rparr>"

definition desk_sched :: schedule where
  "desk_sched = ParseSchedule desk_deps office_hours"

lemma desk_validated: "ValidateSchedule desk_deps office_hours = Inr ()"
  unfolding ValidateSchedule_def decodeRaw_def
  by (simp add: office_hours_def desk_deps_def) code_simp

lemma desk_week: "sc_Weekly desk_sched 4 = [\<lparr>iv_StartMin = 480, iv_EndMin = 720\<rparr>, \<lparr>iv_StartMin = 780, iv_EndMin = 1080\<rparr>]"
 "sc_Weekly desk_sched 5 = [\<lparr>iv_StartMin = 480, iv_EndMin = 720\<rparr>, \<lparr>iv_StartMin = 780, iv_EndMin = 1080\<rparr>]"
 "sc_Configured desk_sched" "sc_Timezone desk_sched = ''America/Sao_Paulo''"
  unfolding desk_sched_def ParseSchedule_def decodeRaw_def
  by (simp_all add: office_hours_def desk_deps_def) code_simp+

lemma add_loop_numeral: "add_loop (numeral k) r cursor rem =
    (let day = startOfDay (re_loc r) cursor in
     case add_segments cursor rem (open_segments r day) of
       Inl t \<Rightarrow> Some t
     | Inr rest \<Rightarrow> add_loop (pred_numeral k) r (nextDay (re_loc r) day) rest)"
  by (simp add: numeral_eq_Suc)

lemma between_loop_numeral: "between_loop (numeral k) r a b day acc =
    (if b < day then acc
     else between_loop (pred_numeral k) r a b (nextDay (re_loc r) day) (foldl (\<lambda>sum seg. sum + clip a b seg) acc (open_segments r day)))"
  by (simp add: numeral_eq_Suc)

definition desk_r :: resolved where
  "desk_r = \<lparr>re_sched = desk_sched, re_loc = brt, re_holidays = holidays desk0, re_channelID = ''ch1''\<rparr>"

lemma desk_parts: "fault desk_deps n = None" "bd_loadLocation desk_deps ''America/Sao_Paulo'' = Some brt"
  "ParseSchedule desk_deps office_hours = desk_sched"
  by (simp_all add: desk_deps_def desk_sched_def)

lemma desk_resolve: "biz_resolve desk_deps demo_ctx ''ch1'' desk0 = (Inr desk_r, tick (tick desk0))"
 "biz_resolve desk_deps demo_ctx ''ch1'' (tick (tick desk0)) = (Inr desk_r, tick (tick (tick (tick desk0))))"
  unfolding biz_resolve_def channel_FindByID_def ListAll_def
  by (simp_all add: io_defs db_call_def demo_ctx_def RequireTenant_def desk0_def tick_def find_one_def demo_channel_def
    desk_r_def locate_def desk_week desk_parts)

lemma desk_day: "open_segments desk_r (3 * Hour) = [(11 * Hour, 15 * Hour), (16 * Hour, 21 * Hour)]"
  "open_segments desk_r (27 * Hour) = [(35 * Hour, 39 * Hour), (40 * Hour, 45 * Hour)]"
proof -
  have "civil_of_day 0 = (1970, 1, 1)" "civil_of_day 1 = (1970, 1, 2)" "splitDate ''1970-12-25'' = Some (1970, 12, 25)"
    by code_simp+
  then show "open_segments desk_r (3 * Hour) = [(11 * Hour, 15 * Hour), (16 * Hour, 21 * Hour)]"
   "open_segments desk_r (27 * Hour) = [(35 * Hour, 39 * Hour), (40 * Hour, 45 * Hour)]"
  by (simp_all add: open_segments_def dayIntervals_def isHoliday_def desk_r_def local_day_def zone_offset_def brt_def Hour_def Minute_def Second_def Day_def weekday_of_def desk_week go_Date_def
      desk0_def FallsOn_def)
qed

lemma desk_start: "startOfDay brt (20 * Hour) = 3 * Hour"  "startOfDay brt (3 * Hour) = 3 * Hour" "startOfDay brt (27 * Hour) = 27 * Hour"
   "nextDay brt (3 * Hour) = 27 * Hour" "nextDay brt (27 * Hour) = 51 * Hour"
  by (simp_all add: startOfDay_def nextDay_def local_day_def local_clock_def zone_offset_def brt_def go_Date_def Hour_def Minute_def Second_def Day_def)

lemma Hour_pos [simp]: "0 < Hour" "\<not> Hour \<le> 0"
  by (simp_all add: Hour_def Minute_def Second_def)

lemma desk_tenant: "RequireTenant demo_ctx = Inr ''t1''"
  by (simp add: RequireTenant_def demo_ctx_def)

lemma desk_r_parts: "re_loc desk_r = brt" "sc_Configured (re_sched desk_r)"
  by (simp_all add: desk_r_def desk_week)

lemma desk_stores: "chans (tick (tick desk0)) = chans desk0" "holidays (tick (tick desk0)) = holidays desk0"
  "\<forall>conn \<in> set (chans desk0). ValidateSchedule desk_deps (ch_BusinessHours conn) = Inr ()"
  by (simp_all add: desk0_def desk_validated)

lemma desk_tidy: "tidy desk_sched"
  using ValidateSchedule_tidy [OF desk_validated] by (simp add: desk_sched_def)

lemma desk_walk: "walk_in_order desk_r a"
proof (rule walk_in_order_steady)
  show "steady (re_loc desk_r) (- 3 * Hour) {a - 3 * Day..}"
    by (simp add: steady_def zone_offset_def brt_def desk_r_parts)
qed (simp_all add: desk_r_def desk_tidy Day_def Hour_def Minute_def Second_def)

subsection \<open>The same desk across a clock change\<close>

text \<open>The desk in another zone: what the channel's location answers is all that differs.\<close>

definition desk_in :: "zone \<Rightarrow> biz_deps" where
  "desk_in z = desk_deps\<lparr>bd_loadLocation := (\<lambda>n. if n = ''America/Sao_Paulo'' then Some z else None)\<rparr>"

lemma desk_in_parts: "fault (desk_in z) n = None" "bd_loadLocation (desk_in z) ''America/Sao_Paulo'' = Some z"
  "ParseSchedule (desk_in z) doc = ParseSchedule desk_deps doc"
  by (simp_all add: desk_in_def desk_deps_def ParseSchedule_def decodeRaw_def)

lemma desk_in_resolve:
  "biz_resolve (desk_in z) demo_ctx ''ch1'' desk0 = (Inr (desk_r\<lparr>re_loc := z\<rparr>), tick (tick desk0))"
  "biz_resolve (desk_in z) demo_ctx ''ch1'' (tick (tick desk0)) = (Inr (desk_r\<lparr>re_loc := z\<rparr>), tick (tick (tick (tick desk0))))"
  unfolding biz_resolve_def channel_FindByID_def ListAll_def
  by (simp_all add: io_defs db_call_def demo_ctx_def RequireTenant_def desk0_def tick_def find_one_def demo_channel_def
    desk_r_def locate_def desk_week desk_in_parts desk_parts(3))

text \<open>The clock goes forward an hour on Friday at two in the morning.\<close>

definition spring :: zone where
  "spring = \<lparr>zn_lookup = (\<lambda>t. if t < 29 * Hour then (- 3 * Hour, - 1000 * Day, 29 * Hour)
     else (- 2 * Hour, 29 * Hour, 100000 * Day))\<rparr>"

abbreviation spring_r :: resolved where "spring_r \<equiv> desk_r\<lparr>re_loc := spring\<rparr>"

lemma new_year: "civil_of_day 0 = (1970, 1, 1)" "civil_of_day 1 = (1970, 1, 2)" "splitDate ''1970-12-25'' = Some (1970, 12, 25)"
  by code_simp+

lemma spring_day: "open_segments spring_r (3 * Hour) = [(11 * Hour, 15 * Hour), (16 * Hour, 21 * Hour)]"
  "open_segments spring_r (27 * Hour) = [(34 * Hour, 38 * Hour), (39 * Hour, 44 * Hour)]"
  by (simp_all add: open_segments_def dayIntervals_def isHoliday_def desk_r_def local_day_def zone_offset_def spring_def
      Hour_def Minute_def Second_def Day_def weekday_of_def desk_week go_Date_def desk0_def FallsOn_def new_year)

lemma spring_start: "startOfDay spring (20 * Hour) = 3 * Hour" "startOfDay spring (3 * Hour) = 3 * Hour"
  "startOfDay spring (27 * Hour) = 27 * Hour" "startOfDay spring (50 * Hour) = 50 * Hour"
  "nextDay spring (3 * Hour) = 27 * Hour" "nextDay spring (27 * Hour) = 50 * Hour"
  by (simp_all add: startOfDay_def nextDay_def local_day_def local_clock_def zone_offset_def spring_def go_Date_def
      Hour_def Minute_def Second_def Day_def)

lemma spring_walk: "walk_in_order spring_r (20 * Hour)"
proof -
  have days: "day_in_order spring_r (3 * Hour)" "day_in_order spring_r (27 * Hour)"
    by (simp_all add: day_in_order_def Let_def spring_day spring_start)
  have "steady spring (- 2 * Hour) {29 * Hour..}" by (simp add: steady_def zone_offset_def spring_def)
  then have "in_order k spring_r (2 * Day - (- 2 * Hour))" for k
  proof (intro in_order_steady)
    show "covers {29 * Hour..} (- 2 * Hour) m" if "2 \<le> m" for m
      using mult_right_mono [OF that, of Day] by (intro coversI(2)) (simp_all add: Day_def Hour_def Minute_def Second_def)
  qed (simp_all add: desk_r_def desk_tidy)
  moreover have "2 * Day - (- 2 * Hour) = 50 * Hour" by (simp add: Day_def)
  ultimately have "in_order 3998 spring_r (50 * Hour)" by metis
  then have "in_order (Suc (Suc 3998)) spring_r (3 * Hour)"
    using days unfolding in_order.simps(2) by (simp add: spring_start)
  moreover have "maxDaysWalk = Suc (Suc 3998)" by (simp add: maxDaysWalk_def)
  ultimately show ?thesis by (simp add: walk_in_order_def spring_start)
qed

lemma spring_add: "AddBusinessDuration (desk_in spring) demo_ctx ''ch1'' (20 * Hour) (3 * Hour) desk0
    = (Inr (36 * Hour), tick (tick desk0))"
proof -
  have "add_loop 4000 spring_r (20 * Hour) (3 * Hour) = Some (36 * Hour)"
    by (simp add: add_loop_numeral spring_start spring_day Let_def)
  then show ?thesis
    unfolding AddBusinessDuration_def maxDaysWalk_def
    by (simp add: io_defs desk_in_resolve desk_tenant desk_r_parts)
qed

lemma spring_between: "BusinessDurationBetween (desk_in spring) demo_ctx ''ch1'' (20 * Hour) (36 * Hour) (tick (tick desk0))
    = (Inr (3 * Hour), tick (tick (tick (tick desk0))))"
proof -
  have "between_loop 4000 spring_r (20 * Hour) (36 * Hour) (3 * Hour) 0 = 3 * Hour"
    by (simp add: between_loop_numeral spring_start spring_day Let_def clip_def)
  then show ?thesis
    unfolding BusinessDurationBetween_def maxDaysWalk_def
    by (simp add: io_defs desk_in_resolve desk_tenant desk_r_parts spring_start)
qed

theorem business_time_round_trip_witness:
  "AddBusinessDuration (desk_in spring) demo_ctx ''ch1'' (20 * Hour) (3 * Hour) desk0 = (Inr (36 * Hour), tick (tick desk0))
   \<and> BusinessDurationBetween (desk_in spring) demo_ctx ''ch1'' (20 * Hour) (36 * Hour) (tick (tick desk0))
       = (Inr (3 * Hour), tick (tick (tick (tick desk0))))
   \<and> 20 * Hour < 36 * Hour \<and> (3 * Hour = 3 * Hour \<or> 36 * Hour = 20 * Hour + 3 * Hour \<and> 3 * Hour < 3 * Hour)"
proof (intro conjI spring_add spring_between)
  have "0 < 3 * Hour" by simp
  note * = business_time_round_trip [OF spring_add this spring_between desk_stores(1,2) spring_between desk_stores(1,2)
      biz_resolve_found [OF desk_in_resolve(1)] spring_walk]
  show "20 * Hour < 36 * Hour" using * by blast
  show "3 * Hour = 3 * Hour \<or> 36 * Hour = 20 * Hour + 3 * Hour \<and> 3 * Hour < 3 * Hour" using * by blast
qed

text \<open>
  Where the clock goes forward at midnight (as in Sao Paulo until 2019, and in Asuncion, Havana or
  Cairo), \<open>time.Date\<close> reads the skipped midnight as eleven in the evening before, the walk never
  leaves that day, and time already gone is counted again: three business hours from 17:00 on
  Thursday end at 10:00 on the same Thursday.
\<close>

definition midnight_gap :: zone where
  "midnight_gap = \<lparr>zn_lookup = (\<lambda>t. if t < 27 * Hour then (- 3 * Hour, - 1000 * Day, 27 * Hour)
     else (- 2 * Hour, 27 * Hour, 100000 * Day))\<rparr>"

lemma gap_start: "startOfDay midnight_gap (20 * Hour) = 3 * Hour" "startOfDay midnight_gap (3 * Hour) = 3 * Hour"
  "nextDay midnight_gap (3 * Hour) = 3 * Hour"
  by (simp_all add: startOfDay_def nextDay_def local_day_def local_clock_def zone_offset_def midnight_gap_def go_Date_def
      Hour_def Minute_def Second_def Day_def)

lemma gap_day: "open_segments (desk_r\<lparr>re_loc := midnight_gap\<rparr>) (3 * Hour) = [(11 * Hour, 15 * Hour), (16 * Hour, 21 * Hour)]"
  by (simp add: open_segments_def dayIntervals_def isHoliday_def desk_r_def local_day_def zone_offset_def midnight_gap_def
      Hour_def Minute_def Second_def Day_def weekday_of_def desk_week go_Date_def desk0_def FallsOn_def new_year)

lemma skipped_midnight_goes_back:
  "AddBusinessDuration (desk_in midnight_gap) demo_ctx ''ch1'' (20 * Hour) (3 * Hour) desk0 = (Inr (13 * Hour), tick (tick desk0))"
proof -
  have "add_loop 4000 (desk_r\<lparr>re_loc := midnight_gap\<rparr>) (20 * Hour) (3 * Hour) = Some (13 * Hour)"
    by (simp add: add_loop_numeral gap_start gap_day Let_def)
  then show ?thesis
    unfolding AddBusinessDuration_def maxDaysWalk_def
    by (simp add: io_defs desk_in_resolve desk_tenant desk_r_parts)
qed

subsection \<open>Open and closed\<close>

lemma validated_schedule_is_tidy_witness:
  "let ivs = sc_Weekly (ParseSchedule desk_deps office_hours) 4 in
    (\<forall>iv \<in> set ivs. 0 \<le> iv_StartMin iv \<and> iv_StartMin iv < iv_EndMin iv \<and> iv_EndMin iv \<le> 1440)
    \<and> length (filter (\<lambda>iv. iv_Contains iv 720) ivs) \<le> 1"
  by (rule validated_schedule_is_tidy [OF desk_validated])

definition desk_status :: business_status where
  "desk_status = status_at ''ch1'' desk_sched brt (20 * Hour) (holidays desk0)"

lemma desk_status_run: "Status desk_deps demo_ctx ''ch1'' (20 * Hour) desk0 = (Inr desk_status, tick (tick desk0))"
  unfolding Status_def channel_FindByID_def ListAll_def desk_status_def
  by (simp add: io_defs db_call_def demo_ctx_def RequireTenant_def desk0_def tick_def find_one_def demo_channel_def
    locate_def desk_week desk_parts)

lemma desk_instant: "BusinessDurationBetween desk_deps demo_ctx ''ch1'' (20 * Hour) (20 * Hour + 1) (tick (tick desk0))
    = (Inr 1, tick (tick (tick (tick desk0))))"
proof -
  have "between_loop 4000 desk_r (20 * Hour) (20 * Hour + 1) (3 * Hour) 0 = 1"
    unfolding between_loop_numeral
    by (simp add: desk_r_parts desk_start desk_day Let_def clip_def)
       (simp add: between_loop_numeral  Hour_def Minute_def Second_def)
  then show ?thesis
    unfolding BusinessDurationBetween_def maxDaysWalk_def
    by (simp add: io_defs desk_resolve desk_tenant desk_r_parts desk_start)
qed

theorem open_status_is_open_time_witness: "bs_Open desk_status"
proof -
  have found: "found_resolution desk_deps demo_ctx ''ch1'' desk0 desk_r"
    by (rule biz_resolve_found [OF desk_resolve(1)])
  have "no_clock_change (re_loc desk_r) (20 * Hour)"
    by (simp add: no_clock_change_def desk_r_parts zone_offset_def brt_def Day_def Hour_def Minute_def Second_def)
  moreover have "\<forall>conn \<in> set (chans desk0). ch_ID conn = ''ch1'' \<longrightarrow> ValidateSchedule desk_deps (ch_BusinessHours conn) = Inr ()"
    using desk_stores(3) by blast
  ultimately have "1 = (if bs_Open desk_status \<or> \<not> sc_Configured (re_sched desk_r) then 1 else (0::int))"
    using open_status_is_open_time [OF desk_status_run desk_instant desk_stores(1,2) found] by blast
  then show ?thesis by (simp add: desk_r_parts split: if_splits)
qed

end
