(* ===== verification/Sla_Check.thy ===== *)
theory Sla_Check
  imports Sla Business_Props
begin

text \<open>
  The scheduled check and the hooks as a whole: what one run of the check stores and reports, the
  states a server can reach by any sequence of hooks and checks with any failure of the database,
  and what holds in all of them.
\<close>

section \<open>The check on a database that answers\<close>

definition answers :: "'e env_scheme \<Rightarrow> bool" where
  "answers d \<longleftrightarrow> (\<forall>n. fault d n = None)"

lemma answers_call: "answers d \<Longrightarrow> db_call d m w = m (tick w)"
  by (simp add: answers_def db_call_def)

definition fire_effects :: "sla_tracking \<Rightarrow> conversation \<Rightarrow> string \<Rightarrow> bool option \<Rightarrow> effect list" where
  "fire_effects t cv leg a = (case a of None \<Rightarrow> [] | Some b \<Rightarrow>
     let p = SlaPayload (tr_ConversationID t) (tr_PolicyID t) leg (cv_SectorID cv)
               (tr_FirstResponseDueAt t) (tr_ResolutionDueAt t) b;
         ev = (if b then RealtimeSLABreached else RealtimeSLAWarning) in
     [EPublish (TopicConversation (tr_TenantID t) (tr_ConversationID t)) ev p, EPublish (TopicTenant (tr_TenantID t)) ev p]
     @ (if b then [EHook (tr_TenantID t) RealtimeSLABreached (cv_SectorID cv) p] else [])
     @ (if cv_AssignedTo cv \<noteq> [] then [ENotify (tr_TenantID t) (cv_AssignedTo cv)
          (if b then ''sla.breached'' else ''sla.at_risk'') (''/conversations/'' @ tr_ConversationID t)] else []))"

definition suspended :: "sla_tracking \<Rightarrow> conversation \<Rightarrow> bool" where
  "suspended t cv \<longleftrightarrow> tr_PauseOnWaitingCustomer t \<and> cv_Status cv = StatusWaitingCustomer"

text \<open>The tracking after one evaluation and what the evaluation reports.\<close>

definition check_mark :: "sla_tracking \<Rightarrow> conversation \<Rightarrow> time \<Rightarrow> sla_tracking" where
  "check_mark t cv now = (if suspended t cv \<or> first_alert t now = None \<and> resolution_alert t now = None then t
     else (mark_resolution (resolution_alert t now) (mark_first (first_alert t now) t))\<lparr>tr_UpdatedAt := now\<rparr>)"

definition check_effects :: "sla_tracking \<Rightarrow> conversation \<Rightarrow> time \<Rightarrow> effect list" where
  "check_effects t cv now = (if suspended t cv then []
     else fire_effects t cv ''first_response'' (first_alert t now) @ fire_effects t cv ''resolution'' (resolution_alert t now))"

definition moved :: "'z sla_world_scheme \<Rightarrow> effect list \<Rightarrow> sla_tracking list \<Rightarrow> 'z sla_world_scheme \<Rightarrow> bool" where
  "moved w es ts w' \<longleftrightarrow> effects w' = effects w @ es \<and> trackings w' = ts \<and> convs w' = convs w"

lemma moved_refl: "moved w [] (trackings w) w"
  by (simp add: moved_def)

lemma mark_fields [simp]:
  "tr_ID (mark_first a t) = tr_ID t" "tr_TenantID (mark_first a t) = tr_TenantID t"
  "tr_ConversationID (mark_first a t) = tr_ConversationID t" "resolution_alert (mark_first a t) = resolution_alert t"
  "tr_ID (mark_resolution a t) = tr_ID t" "tr_TenantID (mark_resolution a t) = tr_TenantID t"
  "tr_ConversationID (mark_resolution a t) = tr_ConversationID t"
  "fire_effects (mark_first a t) cv leg b = fire_effects t cv leg b"
  "fire_effects (mark_resolution a t) cv leg b = fire_effects t cv leg b"
  by (auto simp: mark_first_def mark_resolution_def resolution_alert_def fire_effects_def Let_def fun_eq_iff split: option.split)

lemma check_mark_fields [simp]:
  "tr_ID (check_mark t cv now) = tr_ID t" "tr_TenantID (check_mark t cv now) = tr_TenantID t"
  "tr_ConversationID (check_mark t cv now) = tr_ConversationID t"
  "tr_Status (check_mark t cv now) = tr_Status t" "tr_ResolvedAt (check_mark t cv now) = tr_ResolvedAt t"
  "tr_FirstResponseAt (check_mark t cv now) = tr_FirstResponseAt t"
  "tr_FirstResponseDueAt (check_mark t cv now) = tr_FirstResponseDueAt t"
  "tr_ResolutionDueAt (check_mark t cv now) = tr_ResolutionDueAt t"
  by (auto simp: check_mark_def mark_first_def mark_resolution_def split: option.split)

lemma tracking_set_mark:
  "tracking_set ((mark_resolution b (mark_first a t))\<lparr>tr_UpdatedAt := now\<rparr>) t = (mark_resolution b (mark_first a t))\<lparr>tr_UpdatedAt := now\<rparr>"
  by (auto simp: tracking_set_def mark_first_def mark_resolution_def split: option.split)

lemma alert_fire_run:
  fixes w :: "'z sla_world_scheme"
  assumes "answers d"
  shows "\<exists>w'. alert_fire d t cv leg a w = (Inr (), w') \<and> moved w (fire_effects t cv leg a) (trackings w) w'"
proof (cases a)
  case (Some b)
  then show ?thesis using assms
    by (simp add: alert_fire_def sla_fire_def io_defs Publish_def answers_call log_effect_def fire_effects_def Let_def moved_def)
qed (simp add: alert_fire_def io_defs fire_effects_def moved_def)

lemma update_first_map:
  assumes "distinct (map key ds)" "x \<in> set ds" "p x" "\<And>y. p y \<Longrightarrow> key y = key x"
  shows "update_first p g ds = map (\<lambda>y. if y = x then g y else y) ds"
  using assms(1,2)
proof (induction ds)
  case (Cons a ds)
  show ?case
  proof (cases "p a")
    case True
    with assms(4) have "key a = key x" by blast
    with Cons.prems have "a = x" "x \<notin> set ds" by (auto simp: image_iff)
    with True show ?thesis by (auto intro: map_idI [symmetric])
  next
    case False
    with assms(3) Cons show ?thesis by auto
  qed
qed simp

lemma tracking_Update_run:
  fixes w :: "'z sla_world_scheme"
  assumes "answers d" and "RequireTenant c = Inr t" and "x \<in> set (trackings w)" "distinct (map tr_ID (trackings w))"
    and "tr_ID y = tr_ID x" "tr_TenantID x = t"
  shows "\<exists>w'. tracking_Update d c y w = (Inr (), w')
    \<and> moved w [] (map (\<lambda>z. if z = x then tracking_set y z else z) (trackings w)) w'"
proof -
  have "tracking_by t (tr_ID y) x" using assms(5,6) by (simp add: tracking_by_def)
  with assms(3) have ex: "\<exists>z \<in> set (trackings w). tracking_by t (tr_ID y) z" by blast
  have "update_first (tracking_by t (tr_ID y)) (tracking_set y) (trackings w) =
      map (\<lambda>z. if z = x then tracking_set y z else z) (trackings w)"
    using assms by (intro update_first_map [where key = tr_ID]) (auto simp: tracking_by_def)
  with ex show ?thesis
    using assms(1,2) by (simp add: tracking_Update_def repo_write_def io_defs answers_call update_one_def moved_def tick_def)
qed

lemma sla_evaluate_run:
  fixes w :: "'z sla_world_scheme"
  assumes "answers d" and "RequireTenant c = Inr (tr_TenantID t)" and "t \<in> set (trackings w)"
    and dist: "distinct (map tr_ID (trackings w))"
  shows "\<exists>w'. sla_evaluate d c t cv now w = (Inr (), w') \<and> moved w (check_effects t cv now)
    (map (\<lambda>z. if z = t then check_mark t cv now else z) (trackings w)) w'"
proof -
  have same: "map (\<lambda>z. if z = t then t else z) (trackings w) = trackings w" by (rule map_idI) simp
  let ?a1 = "first_alert t now" and ?a2 = "resolution_alert t now"
  let ?t1 = "mark_first ?a1 t" and ?t2 = "mark_resolution ?a2 (mark_first ?a1 t)"
  show ?thesis
  proof (cases "suspended t cv")
    case True
    then have "check_mark t cv now = t" by (simp add: check_mark_def)
    with True show ?thesis by (simp add: sla_evaluate_def suspended_def check_effects_def io_defs same moved_refl cong: if_cong)
  next
    case False
    then have ev: "sla_evaluate d c t cv now = then_io (alert_fire d ?t1 cv ''first_response'' ?a1)
        (then_io (alert_fire d ?t2 cv ''resolution'' ?a2) (when_io (?a1 \<noteq> None \<or> ?a2 \<noteq> None)
          (ignore_io (tracking_Update d c (?t2\<lparr>tr_UpdatedAt := now\<rparr>)))))"
      by (simp only: sla_evaluate_def suspended_def if_False Let_def mark_fields)
    obtain w1 where w1: "alert_fire d ?t1 cv ''first_response'' ?a1 w = (Inr (), w1)"
      and m1: "moved w (fire_effects ?t1 cv ''first_response'' ?a1) (trackings w) w1"
      using alert_fire_run [OF assms(1)] by blast
    obtain w2 where w2: "alert_fire d ?t2 cv ''resolution'' ?a2 w1 = (Inr (), w2)"
      and m2: "moved w1 (fire_effects ?t2 cv ''resolution'' ?a2) (trackings w1) w2"
      using alert_fire_run [OF assms(1)] by blast
    have ts: "trackings w2 = trackings w" using m1 m2 by (simp add: moved_def)
    obtain w3 where w3: "tracking_Update d c (?t2\<lparr>tr_UpdatedAt := now\<rparr>) w2 = (Inr (), w3)"
      and m3: "moved w2 [] (map (\<lambda>z. if z = t then tracking_set (?t2\<lparr>tr_UpdatedAt := now\<rparr>) z else z) (trackings w)) w3"
      using tracking_Update_run [OF assms(1,2), of t w2 "?t2\<lparr>tr_UpdatedAt := now\<rparr>"] assms(3) dist
      by (auto simp: ts)
    have m3': "moved w2 [] (map (\<lambda>z. if z = t then ?t2\<lparr>tr_UpdatedAt := now\<rparr> else z) (trackings w)) w3"
      using m3 by (simp add: tracking_set_mark cong: if_cong)
    show ?thesis
    proof (cases "?a1 = None \<and> ?a2 = None")
      case True
      then have "check_mark t cv now = t" by (simp add: check_mark_def)
      with True show ?thesis using False w1 w2 m1 m2
        by (simp add: ev io_defs check_effects_def moved_def same cong: if_cong)
    next
      case alert: False
      then have "check_mark t cv now = ?t2\<lparr>tr_UpdatedAt := now\<rparr>" using False by (auto simp: check_mark_def)
      with alert show ?thesis using False w1 w2 w3 m1 m2 m3'
        by (auto simp: ev io_defs check_effects_def moved_def cong: if_cong)
    qed
  qed
qed

subsection \<open>A batch\<close>

text \<open>The conversation the check hydrates for a tracking.\<close>

definition conv_for :: "'z conv_world_scheme \<Rightarrow> sla_tracking \<Rightarrow> conversation option" where
  "conv_for w t = (if tr_TenantID t = [] then None
     else find (\<lambda>cv. cv_ID cv = tr_ConversationID t) (rev (filter (\<lambda>cv. cv_TenantID cv = tr_TenantID t) (convs w))))"

definition checked :: "'z conv_world_scheme \<Rightarrow> time \<Rightarrow> sla_tracking \<Rightarrow> sla_tracking" where
  "checked w now t = (case conv_for w t of None \<Rightarrow> t | Some cv \<Rightarrow> check_mark t cv now)"

definition reported :: "'z conv_world_scheme \<Rightarrow> time \<Rightarrow> sla_tracking \<Rightarrow> effect list" where
  "reported w now t = (case conv_for w t of None \<Rightarrow> [] | Some cv \<Rightarrow> check_effects t cv now)"

lemma checked_fields [simp]:
  "tr_ID (checked w now t) = tr_ID t" "tr_TenantID (checked w now t) = tr_TenantID t"
  "tr_ConversationID (checked w now t) = tr_ConversationID t" "tr_Status (checked w now t) = tr_Status t"
  "tr_ResolvedAt (checked w now t) = tr_ResolvedAt t" "tr_FirstResponseAt (checked w now t) = tr_FirstResponseAt t"
  "tr_FirstResponseDueAt (checked w now t) = tr_FirstResponseDueAt t"
  "tr_ResolutionDueAt (checked w now t) = tr_ResolutionDueAt t"
  by (simp_all add: checked_def split: option.split)

definition batched :: "time \<Rightarrow> 'z sla_world_scheme \<Rightarrow> sla_tracking list \<Rightarrow> 'z sla_world_scheme \<Rightarrow> bool" where
  "batched now w ts w' \<longleftrightarrow> moved w (concat (map (reported w now) ts))
     (map (\<lambda>z. if z \<in> set ts then checked w now z else z) (trackings w)) w'"

lemma batched_Nil: "batched now w [] w"
  by (simp add: batched_def moved_def)

lemma batched_convs: "batched now w ts w1 \<Longrightarrow> convs w1 = convs w"
  by (simp add: batched_def moved_def)

lemma convs_same: "convs w1 = convs w \<Longrightarrow> checked w1 = checked w \<and> reported w1 = reported w"
  by (simp add: checked_def reported_def conv_for_def fun_eq_iff)

lemma batched_keeps:
  assumes "batched now w ts w1"
  shows "map tr_ID (trackings w1) = map tr_ID (trackings w)"
    "set us \<subseteq> set (trackings w) \<Longrightarrow> set ts \<inter> set us = {} \<Longrightarrow> set us \<subseteq> set (trackings w1)"
  using assms by (auto simp: batched_def moved_def image_iff split: if_splits)

lemma batched_append:
  assumes "batched now w ts w1" "batched now w1 us w2" and "distinct (map tr_ID (ts @ us))"
  shows "batched now w (ts @ us) w2"
proof -
  have same: "checked w1 = checked w" "reported w1 = reported w"
    using convs_same [OF batched_convs [OF assms(1)]] by simp_all
  have "checked w now z \<notin> set us" if "z \<in> set ts" for z
  proof
    assume "checked w now z \<in> set us"
    then have "tr_ID z \<in> tr_ID ` set us" by (metis checked_fields(1) image_eqI)
    with that assms(3) show False by auto
  qed
  then have "map (\<lambda>z. if z \<in> set us then checked w now z else z)
      (map (\<lambda>z. if z \<in> set ts then checked w now z else z) (trackings w)) =
    map (\<lambda>z. if z \<in> set (ts @ us) then checked w now z else z) (trackings w)"
    by auto
  moreover have "trackings w2 = map (\<lambda>z. if z \<in> set us then checked w now z else z)
      (map (\<lambda>z. if z \<in> set ts then checked w now z else z) (trackings w))"
    using assms(1,2) unfolding batched_def moved_def same by metis
  ultimately show ?thesis using assms(1,2) by (simp add: batched_def moved_def same)
qed

lemma batch_of_tenant:
  fixes w :: "'z sla_world_scheme"
  assumes "answers d" and "RequireTenant c = Inr T" and "set ts \<subseteq> set (trackings w)"
    and "distinct (map tr_ID (trackings w))" and "\<forall>t \<in> set ts. tr_TenantID t = T" and "distinct (map tr_ID ts)"
    and look: "\<And>t. t \<in> set ts \<Longrightarrow> look t = conv_for w t"
  shows "\<exists>w'. for_io ts (\<lambda>t. case look t of None \<Rightarrow> return_io () | Some cv \<Rightarrow> sla_evaluate d c t cv now) w = (Inr (), w')
    \<and> batched now w ts w'"
  using assms(3-7)
proof (induction ts arbitrary: w)
  case Nil
  then show ?case by (simp add: io_defs batched_Nil)
next
  case (Cons t ts)
  have "\<exists>w1. (case look t of None \<Rightarrow> return_io () | Some cv \<Rightarrow> sla_evaluate d c t cv now) w = (Inr (), w1) \<and> batched now w [t] w1"
  proof (cases "look t")
    case None
    with Cons.prems(5) [of t] have "conv_for w t = None" by simp
    then have "checked w now t = t" "reported w now t = []" by (simp_all add: checked_def reported_def)
    moreover have "map (\<lambda>z. if z = t then t else z) (trackings w) = trackings w" by (rule map_idI) simp
    ultimately show ?thesis using None by (simp add: io_defs batched_def moved_def cong: if_cong)
  next
    case (Some cv)
    with Cons.prems(5) [of t] have "conv_for w t = Some cv" by simp
    then have "checked w now t = check_mark t cv now" "reported w now t = check_effects t cv now"
      by (simp_all add: checked_def reported_def)
    moreover obtain w1 where "sla_evaluate d c t cv now w = (Inr (), w1)"
      "moved w (check_effects t cv now) (map (\<lambda>z. if z = t then check_mark t cv now else z) (trackings w)) w1"
      using sla_evaluate_run [OF assms(1), of c t w cv now] assms(2) Cons.prems by auto
    ultimately show ?thesis using Some by (simp add: batched_def cong: if_cong)
  qed
  then obtain w1 where w1: "(case look t of None \<Rightarrow> return_io () | Some cv \<Rightarrow> sla_evaluate d c t cv now) w = (Inr (), w1)"
    and b1: "batched now w [t] w1" by blast
  have "t \<notin> set ts" using Cons.prems(4) by auto
  then have sub: "set ts \<subseteq> set (trackings w1)" using batched_keeps(2) [OF b1, of ts] Cons.prems(1) by simp
  have "look s = conv_for w1 s" if "s \<in> set ts" for s
    using that Cons.prems(5) [of s] batched_convs [OF b1] by (simp add: conv_for_def)
  moreover have "distinct (map tr_ID (trackings w1))" "distinct (map tr_ID ts)" "\<forall>s \<in> set ts. tr_TenantID s = T"
    using Cons.prems(2,3,4) batched_keeps(1) [OF b1] by simp_all
  ultimately obtain w2 where
    w2: "for_io ts (\<lambda>t. case look t of None \<Rightarrow> return_io () | Some cv \<Rightarrow> sla_evaluate d c t cv now) w1 = (Inr (), w2)"
    and b2: "batched now w1 ts w2"
    using Cons.IH [OF sub] by blast
  from w1 w2 batched_append [OF b1 b2] Cons.prems(4) show ?case by (simp add: io_defs)
qed

lemma find_filter_cong: "(\<And>x. p x \<Longrightarrow> q x = r x) \<Longrightarrow> find p (filter q xs) = find p (filter r xs)"
  by (induction xs) auto

lemma batched_tick: "batched now (tick w) ts w' = batched now w ts w'"
proof -
  have "checked (tick w) = checked w" "reported (tick w) = reported w"
    using convs_same [of "tick w" w] by simp_all
  then show ?thesis by (simp add: batched_def moved_def cong: if_cong)
qed

lemma check_tenant_run:
  fixes w :: "'z sla_world_scheme"
  assumes "answers d" and "set ts \<subseteq> set (trackings w)" and "distinct (map tr_ID (trackings w))"
    and "\<forall>t \<in> set ts. tr_TenantID t = T" and "distinct (map tr_ID ts)"
  shows "\<exists>w'. check_tenant d c now T ts w = (Inr (), w') \<and> batched now w ts w'"
proof (cases "T = [] \<or> ts = []")
  case True
  then have idle: "\<And>t. t \<in> set ts \<Longrightarrow> checked w now t = t \<and> reported w now t = []"
    using assms(4) by (auto simp: checked_def reported_def conv_for_def)
  have "map (\<lambda>z. if z \<in> set ts then checked w now z else z) (trackings w) = trackings w"
    by (rule map_idI) (auto dest: idle)
  moreover have "concat (map (reported w now) ts) = []" using idle by simp
  ultimately have "batched now w ts w" by (simp add: batched_def moved_def)
  moreover have "check_tenant d c now T ts w = (Inr (), w)"
    using True by (auto simp: check_tenant_def Let_def io_defs conv_FindByIDs_def RequireTenant_def ctx_defs split: sum.split)
  ultimately show ?thesis by blast
next
  case False
  let ?c = "WithAuthContext (WithTenant c T) (SystemActor T)"
  have T: "RequireTenant ?c = Inr T" using False by (simp add: RequireTenant_def ctx_defs)
  let ?cs = "filter (\<lambda>cv. cv_ID cv \<in> set (map tr_ConversationID ts) \<and> cv_TenantID cv = T) (convs w)"
  have "find (\<lambda>cv. cv_ID cv = tr_ConversationID t) (rev ?cs) = conv_for (tick w) t" if "t \<in> set ts" for t
    using that assms(4) False unfolding rev_filter conv_for_def
    by (auto intro!: find_filter_cong simp: rev_filter)
  then obtain w' where "for_io ts (\<lambda>t. case find (\<lambda>cv. cv_ID cv = tr_ConversationID t) (rev ?cs) of None \<Rightarrow> return_io ()
       | Some cv \<Rightarrow> sla_evaluate d ?c t cv now) (tick w) = (Inr (), w')" "batched now (tick w) ts w'"
    using batch_of_tenant [OF assms(1) T, of ts "tick w" "\<lambda>t. find (\<lambda>cv. cv_ID cv = tr_ConversationID t) (rev ?cs)" now] assms(2-5)
    by auto
  then show ?thesis
    using False T assms(1) by (simp add: check_tenant_def Let_def io_defs conv_FindByIDs_def conv_query_def answers_call batched_tick)
qed

lemma check_tenants_run:
  fixes w :: "'z sla_world_scheme"
  assumes "answers d" and "distinct (map tr_ID items)"
    and "{x \<in> set items. tr_TenantID x \<in> set Ts} \<subseteq> set (trackings w)"
    and "distinct (map tr_ID (trackings w))" and "distinct Ts"
  shows "\<exists>w' ts. for_io Ts (\<lambda>T. check_tenant d c now T (filter (\<lambda>x. tr_TenantID x = T) items)) w = (Inr (), w')
    \<and> batched now w ts w' \<and> distinct (map tr_ID ts) \<and> set ts = {x \<in> set items. tr_TenantID x \<in> set Ts}"
  using assms(3-5)
proof (induction Ts arbitrary: w)
  case Nil
  then show ?case by (auto simp: io_defs intro!: exI [of _ "[]"] batched_Nil)
next
  case (Cons T Ts)
  let ?ts = "filter (\<lambda>x. tr_TenantID x = T) items" and ?us = "filter (\<lambda>x. tr_TenantID x \<in> set Ts) items"
  have "set ?ts \<subseteq> set (trackings w)" "\<forall>t \<in> set ?ts. tr_TenantID t = T" "distinct (map tr_ID ?ts)"
    using Cons.prems(1) assms(2) by (auto simp: distinct_map_filter)
  then obtain w1 where w1: "check_tenant d c now T ?ts w = (Inr (), w1)" and b1: "batched now w ?ts w1"
    using check_tenant_run [OF assms(1), of ?ts w T c now] Cons.prems(2) by blast
  have "set ?us \<subseteq> set (trackings w1)"
    using Cons.prems(1,3) by (intro batched_keeps(2) [OF b1]) auto
  then have "{x \<in> set items. tr_TenantID x \<in> set Ts} \<subseteq> set (trackings w1)" by auto
  moreover have "distinct (map tr_ID (trackings w1))" "distinct Ts"
    using Cons.prems(2,3) batched_keeps(1) [OF b1] by simp_all
  ultimately obtain w2 ts where w2: "for_io Ts (\<lambda>T. check_tenant d c now T (filter (\<lambda>x. tr_TenantID x = T) items)) w1 = (Inr (), w2)"
    and b2: "batched now w1 ts w2" and ts: "distinct (map tr_ID ts)" "set ts = {x \<in> set items. tr_TenantID x \<in> set Ts}"
    using Cons.IH by blast
  have inj: "inj_on tr_ID (set items)" using assms(2) by (simp add: distinct_map)
  have "tr_ID x \<noteq> tr_ID y" if "x \<in> set ?ts" "y \<in> set ts" for x y
    using that ts(2) Cons.prems(3) inj_onD [OF inj, of x y] by auto
  then have dist: "distinct (map tr_ID (?ts @ ts))"
    using ts(1) assms(2) by (auto simp: distinct_map_filter)
  have "set (?ts @ ts) = {x \<in> set items. tr_TenantID x \<in> set (T # Ts)}" using ts(2) by auto
  with w1 w2 batched_append [OF b1 b2 dist] dist show ?case
    by (intro exI [of _ w2] exI [of _ "?ts @ ts"]) (simp add: io_defs)
qed

section \<open>What one run of the check does\<close>

definition check_batch :: "'z sla_world_scheme \<Rightarrow> sla_tracking list" where
  "check_batch w = take (nat checkBatchLimit) (filter (\<lambda>x. tr_Status x = StatusRunning) (trackings w))"

definition any_order :: "'e sla_deps_scheme \<Rightarrow> bool" where
  "any_order d \<longleftrightarrow> (\<forall>n xs. distinct xs \<longrightarrow> distinct (sd_order d n xs) \<and> set (sd_order d n xs) = set xs)"

lemma RunCheck_batch:
  fixes w :: "'z sla_world_scheme"
  assumes "answers d" "any_order d" "distinct (map tr_ID (trackings w))"
  shows "\<exists>w' ts. RunCheck d c w = (Inr (), w') \<and> batched (clk d (Suc (step w))) w ts w'
    \<and> distinct (map tr_ID ts) \<and> set ts = set (check_batch w)"
proof -
  let ?items = "check_batch w" and ?now = "clk d (Suc (step w))"
  let ?Ts = "sd_order d (Suc (Suc (step w))) (remdups (map tr_TenantID ?items))"
  have Ts: "distinct ?Ts" "set ?Ts = tr_TenantID ` set ?items"
    using assms(2) by (simp_all add: any_order_def)
  have all1: "{x \<in> set ?items. tr_TenantID x \<in> set ?Ts} = set ?items" using Ts(2) by auto
  have items: "set ?items \<subseteq> set (trackings w)" "distinct (map tr_ID ?items)"
    using assms(3) by (auto simp: check_batch_def distinct_map_filter take_map [symmetric] dest: in_set_takeD)
  obtain w' ts where "for_io ?Ts (\<lambda>T. check_tenant d c ?now T (filter (\<lambda>x. tr_TenantID x = T) ?items)) (tick (tick w)) = (Inr (), w')"
    and b: "batched ?now w ts w'" "distinct (map tr_ID ts)" "set ts = set ?items"
    using check_tenants_run [OF assms(1) items(2), of ?Ts "tick (tick w)" c ?now, unfolded all1] assms(3) items(1) Ts
    by (auto simp: batched_tick)
  then have "RunCheck d c w = (Inr (), w')"
    using assms(1) by (simp add: RunCheck_def ListRunningAcrossTenants_def Let_def io_defs answers_call now_io_def
        check_batch_def checkBatchLimit_def)
  with b show ?thesis by blast
qed

text \<open>
  One run of the scheduled check, on a database that answers: it reads the first 1000 running
  trackings in insertion order, evaluates each against its own tenant's conversation at one
  instant and stores the result; every other tracking, tenant and conversation is left as it was,
  whatever the order in which the tenants are visited. What comes after the first 1000 running
  trackings is not looked at, however overdue.
\<close>
theorem RunCheck_evaluates_batch:
  fixes w :: "'z sla_world_scheme"
  assumes "\<forall>n. fault d n = None" "any_order d" "distinct (map tr_ID (trackings w))"
  shows "fst (RunCheck d c w) = Inr ()
    \<and> trackings (snd (RunCheck d c w)) = map (\<lambda>x. if x \<in> set (check_batch w)
        then checked w (clk d (Suc (step w))) x else x) (trackings w)
    \<and> convs (snd (RunCheck d c w)) = convs w"
proof -
  obtain w' ts where "RunCheck d c w = (Inr (), w')" "batched (clk d (Suc (step w))) w ts w'" "set ts = set (check_batch w)"
    using RunCheck_batch [OF _ assms(2,3), of c] assms(1) by (auto simp: answers_def)
  then show ?thesis by (simp add: batched_def moved_def)
qed

section \<open>Overdue trackings are reported once\<close>

text \<open>The \<open>sla.breached\<close> webhooks of one leg of a conversation in a log.\<close>

fun breach_of :: "ident \<Rightarrow> ident \<Rightarrow> string \<Rightarrow> effect \<Rightarrow> bool" where
  "breach_of T i leg (EHook t ev s (SlaPayload cid pid l s' fd rd b)) = (t = T \<and> cid = i \<and> l = leg)"
| "breach_of T i leg _ = False"

definition breaches :: "ident \<Rightarrow> ident \<Rightarrow> string \<Rightarrow> effect list \<Rightarrow> nat" where
  "breaches T i leg es = length (filter (breach_of T i leg) es)"

definition leg_breached :: "string \<Rightarrow> sla_tracking \<Rightarrow> bool" where
  "leg_breached leg x = (if leg = ''first_response'' then tr_FirstResponseBreached x
     else leg = ''resolution'' \<and> tr_ResolutionBreached x)"

definition keyed :: "'z sla_world_scheme \<Rightarrow> bool" where
  "keyed w \<longleftrightarrow> distinct (map tr_ID (trackings w)) \<and> distinct (map (\<lambda>x. (tr_TenantID x, tr_ConversationID x)) (trackings w))"

lemma breaches_append: "breaches T i leg (xs @ ys) = breaches T i leg xs + breaches T i leg ys"
  by (simp add: breaches_def)

lemma breaches_fire:
  "breaches T i leg (fire_effects t cv l a) = (if a = Some True \<and> tracking_of T i t \<and> l = leg then 1 else 0)"
  by (auto simp: breaches_def fire_effects_def Let_def tracking_of_def split: option.split)

lemma leg_alert_breach: "leg_alert at1 due warn breached warned now = Some True \<Longrightarrow> \<not> breached"
  by (auto simp: leg_alert_def split: option.splits if_splits)

lemma first_alert_breach: "first_alert t now = Some True \<Longrightarrow> \<not> tr_FirstResponseBreached t"
  and resolution_alert_breach: "resolution_alert t now = Some True \<Longrightarrow> \<not> tr_ResolutionBreached t"
  by (auto simp: first_alert_def resolution_alert_def dest: leg_alert_breach)

lemma check_mark_breached:
  "tr_FirstResponseBreached (check_mark t cv now) \<longleftrightarrow>
     tr_FirstResponseBreached t \<or> \<not> suspended t cv \<and> first_alert t now = Some True"
  "tr_ResolutionBreached (check_mark t cv now) \<longleftrightarrow>
     tr_ResolutionBreached t \<or> \<not> suspended t cv \<and> resolution_alert t now = Some True"
  by (auto simp: check_mark_def mark_first_def mark_resolution_def split: option.split)

lemma breaches_check:
  "breaches T i leg (check_effects t cv now) = (if tracking_of T i t \<and> leg_breached leg (check_mark t cv now)
     \<and> \<not> leg_breached leg t then 1 else 0)"
proof (cases "suspended t cv")
  case True
  then show ?thesis by (simp add: check_effects_def check_mark_def breaches_def)
next
  case False
  then show ?thesis
    using first_alert_breach [of t now] resolution_alert_breach [of t now]
    by (simp add: check_effects_def breaches_append breaches_fire leg_breached_def check_mark_breached)
qed

lemma one_of_conversation:
  "distinct (map (\<lambda>x. (tr_TenantID x, tr_ConversationID x)) ts) \<Longrightarrow> x \<in> set ts \<Longrightarrow> y \<in> set ts \<Longrightarrow>
     tracking_of T i x \<Longrightarrow> tracking_of T i y \<Longrightarrow> x = y"
  by (auto simp: distinct_map tracking_of_def inj_on_def)

section \<open>Any sequence of requests\<close>

definition on_tracking :: "'e env_scheme \<Rightarrow> ctx \<Rightarrow> ident \<Rightarrow> (sla_tracking \<Rightarrow> bool) \<Rightarrow> (sla_tracking \<Rightarrow> sla_tracking)
    \<Rightarrow> ('z sla_world_scheme, unit) io" where
  "on_tracking d c i stop g = bind_io (try_io (FindByConversation d c i)) (\<lambda>r.
     case r of Inl _ \<Rightarrow> return_io ()
     | Inr t0 \<Rightarrow> if stop t0 then return_io ()
        else bind_io (now_io d) (\<lambda>now. ignore_io (tracking_Update d c ((g t0)\<lparr>tr_UpdatedAt := now\<rparr>))))"

lemma hooks_on_tracking:
  "OnFirstResponse d c cv inst = on_tracking d c (cv_ID cv) (\<lambda>t. tr_FirstResponseAt t \<noteq> None) (respond_mark inst)"
  "OnResolved d c cv inst = on_tracking d c (cv_ID cv) (\<lambda>t. tr_ResolvedAt t \<noteq> None) (resolve_mark inst)"
  by (simp_all only: OnFirstResponse_def OnResolved_def on_tracking_def)

lemma marks_written:
  "tracking_set ((respond_mark inst t)\<lparr>tr_UpdatedAt := now\<rparr>) t = (respond_mark inst t)\<lparr>tr_UpdatedAt := now\<rparr>"
  "tracking_set ((resolve_mark inst t)\<lparr>tr_UpdatedAt := now\<rparr>) t = (resolve_mark inst t)\<lparr>tr_UpdatedAt := now\<rparr>"
  by (auto simp: tracking_set_def respond_mark_def resolve_mark_def Finalize_def Let_def)

lemma FindByConversation_run:
  assumes "answers d"
  shows "FindByConversation d c i w = (case RequireTenant c of Inl e \<Rightarrow> (Inl e, w)
    | Inr t \<Rightarrow> (map_err (find_one (tracking_of t i) (trackings w)), tick w))"
  using assms by (simp add: FindByConversation_def repo_query_def io_defs answers_call split: sum.split)

text \<open>What holds of every stored tracking.\<close>

definition truthful :: "sla_tracking \<Rightarrow> bool" where
  "truthful x \<longleftrightarrow> (\<forall>f. tr_FirstResponseAt x = Some f \<longrightarrow> late f (tr_FirstResponseDueAt x) \<longrightarrow> tr_FirstResponseBreached x)
     \<and> (tr_Status x = StatusMet \<longrightarrow> (\<exists>r. tr_ResolvedAt x = Some r \<and> \<not> late r (tr_ResolutionDueAt x)
          \<and> (\<not> late r (tr_FirstResponseDueAt x)
             \<or> (\<exists>f. tr_FirstResponseAt x = Some f \<and> \<not> late f (tr_FirstResponseDueAt x)))))"

lemma truthful_respond: "truthful t \<Longrightarrow> tr_FirstResponseAt t = None \<Longrightarrow> truthful ((respond_mark inst t)\<lparr>tr_UpdatedAt := now\<rparr>)"
  by (auto simp: truthful_def respond_mark_def Let_def)

lemma truthful_resolve: "truthful t \<Longrightarrow> truthful ((resolve_mark inst t)\<lparr>tr_UpdatedAt := now\<rparr>)"
  by (cases "tr_FirstResponseAt t") (auto simp: truthful_def resolve_mark_def Finalize_def Let_def)

lemma check_mark_truthful: "truthful t \<Longrightarrow> tr_Status t = StatusRunning \<Longrightarrow> truthful (checked w now t)"
  by (auto simp: truthful_def checked_def check_mark_breached split: option.split)

lemma mark_keeps:
  "tr_ID (respond_mark inst t) = tr_ID t" "tr_TenantID (respond_mark inst t) = tr_TenantID t"
  "tr_ConversationID (respond_mark inst t) = tr_ConversationID t"
  "leg_breached leg t \<Longrightarrow> leg_breached leg (respond_mark inst t)"
  "tr_ID (resolve_mark inst t) = tr_ID t" "tr_TenantID (resolve_mark inst t) = tr_TenantID t"
  "tr_ConversationID (resolve_mark inst t) = tr_ConversationID t"
  "leg_breached leg t \<Longrightarrow> leg_breached leg (resolve_mark inst t)"
  by (auto simp: respond_mark_def resolve_mark_def Finalize_def Let_def leg_breached_def split: if_splits)

section \<open>The invariant, with failures\<close>

text \<open>The database calls that failed between two steps.\<close>

definition failures :: "'e env_scheme \<Rightarrow> nat \<Rightarrow> nat \<Rightarrow> nat" where
  "failures d a b = length (filter (\<lambda>k. fault d k \<noteq> None) [a..<b])"

lemma failures_Suc: "a \<le> b \<Longrightarrow> failures d a (Suc b) = failures d a b + (if fault d b = None then 0 else 1)"
  by (simp add: failures_def)

lemma failures_self [simp]: "failures d a a = 0"
  by (simp add: failures_def)

lemma failures_mono: "b \<le> b' \<Longrightarrow> failures d a b \<le> failures d a b'"
  by (induction rule: dec_induct) (auto simp: failures_def split: if_splits)

definition flagged :: "ident \<Rightarrow> ident \<Rightarrow> string \<Rightarrow> sla_tracking list \<Rightarrow> nat" where
  "flagged T i leg ts = (if \<exists>x \<in> set ts. tracking_of T i x \<and> leg_breached leg x then 1 else 0)"

text \<open>
  \<open>sla_good n w\<close>: one tracking a conversation, every tracking truthful, and no more webhooks than
  the stored flag and \<open>n\<close> lost writes account for.
\<close>

definition sla_good :: "nat \<Rightarrow> 'z sla_world_scheme \<Rightarrow> bool" where
  "sla_good n w \<longleftrightarrow> keyed w \<and> (\<forall>x \<in> set (trackings w). truthful x)
     \<and> (\<forall>T i leg. breaches T i leg (effects w) \<le> flagged T i leg (trackings w) + n)"

lemma sla_goodD:
  assumes "sla_good n w"
  shows "keyed w" "x \<in> set (trackings w) \<Longrightarrow> truthful x"
    "breaches T i leg (effects w) \<le> flagged T i leg (trackings w) + n"
  using assms by (auto simp: sla_good_def)

lemma sla_good_mono: "sla_good n w \<Longrightarrow> n \<le> m \<Longrightarrow> sla_good m w"
  unfolding sla_good_def by (meson add_left_mono order_trans)

lemma sla_good_cong: "trackings w' = trackings w \<Longrightarrow> effects w' = effects w \<Longrightarrow> sla_good n w' = sla_good n w"
  by (simp add: sla_good_def keyed_def)

lemma sla_good_tick [simp]: "sla_good n (tick w) = sla_good n w"
  by (rule sla_good_cong) simp_all

text \<open>Replacing trackings by ones of the same conversation: what the webhooks may grow by.\<close>

lemma mapped_good:
  assumes good: "sla_good n w" and tr: "trackings w' = map f (trackings w)"
    and f: "\<And>x. x \<in> set (trackings w) \<Longrightarrow> tr_ID (f x) = tr_ID x \<and> tr_TenantID (f x) = tr_TenantID x
        \<and> tr_ConversationID (f x) = tr_ConversationID x"
    and true: "\<And>x. x \<in> set (trackings w) \<Longrightarrow> truthful (f x)"
    and es: "\<And>T i leg. breaches T i leg (effects w') + flagged T i leg (trackings w)
        \<le> breaches T i leg (effects w) + flagged T i leg (trackings w')"
  shows "sla_good n w'"
proof -
  have "map tr_ID (trackings w') = map tr_ID (trackings w)"
    "map (\<lambda>x. (tr_TenantID x, tr_ConversationID x)) (trackings w') = map (\<lambda>x. (tr_TenantID x, tr_ConversationID x)) (trackings w)"
    using f by (simp_all add: tr)
  then have "keyed w'" using sla_goodD(1) [OF good] by (simp add: keyed_def)
  moreover have "breaches T i leg (effects w') \<le> flagged T i leg (trackings w') + n" for T i leg
    using es [of T i leg] sla_goodD(3) [OF good, of T i leg] by linarith
  ultimately show ?thesis using true by (auto simp: sla_good_def tr)
qed

lemma flagged_map:
  assumes "\<And>x. x \<in> set ts \<Longrightarrow> tr_TenantID (f x) = tr_TenantID x \<and> tr_ConversationID (f x) = tr_ConversationID x"
    and "\<And>x. x \<in> set ts \<Longrightarrow> leg_breached leg x \<Longrightarrow> leg_breached leg (f x)"
  shows "flagged T i leg ts \<le> flagged T i leg (map f ts)"
  using assms by (fastforce simp: flagged_def tracking_of_def)

lemma wp_reads: "wp (\<lambda>w. (r w, w)) Q E w = (case r w of Inr x \<Rightarrow> Q x w | Inl e \<Rightarrow> E e w)"
  by (simp add: wp_def)

lemma wp_tracking_Update:
  assumes "RequireTenant c = Inr (tr_TenantID t)" "t \<in> set (trackings w)" "distinct (map tr_ID (trackings w))"
    and "tr_ID y = tr_ID t" "tracking_set y t = y"
    and "Q () ((tick w)\<lparr>trackings := map (\<lambda>z. if z = t then y else z) (trackings w)\<rparr>)"
    and "\<And>s. fault d (step w) = Some s \<Longrightarrow> E (MapError (DriverError s)) (tick w)"
  shows "wp (tracking_Update d c y) Q E w"
proof -
  have "tracking_by (tr_TenantID t) (tr_ID y) t" using assms(4) by (simp add: tracking_by_def)
  then have "\<exists>z \<in> set (trackings w). tracking_by (tr_TenantID t) (tr_ID y) z" using assms(2) by blast
  moreover have "update_first (tracking_by (tr_TenantID t) (tr_ID y)) (tracking_set y) (trackings w) =
      map (\<lambda>z. if z = t then tracking_set y z else z) (trackings w)"
    using assms by (intro update_first_map [where key = tr_ID]) (auto simp: tracking_by_def)
  ultimately show ?thesis
    using assms(1,5-)
    unfolding tracking_Update_def repo_write_def wp_bind wp_lift wp_db_call
    by (auto simp: update_one_def wp_def split: option.split cong: if_cong)
qed

subsection \<open>The hooks\<close>

lemma on_tracking_good:
  fixes w :: "'z sla_world_scheme"
  assumes good: "sla_good n w"
    and wr: "\<And>t now. tracking_set ((g t)\<lparr>tr_UpdatedAt := now\<rparr>) t = (g t)\<lparr>tr_UpdatedAt := now\<rparr>"
    and g: "\<And>t. tr_ID (g t) = tr_ID t \<and> tr_TenantID (g t) = tr_TenantID t \<and> tr_ConversationID (g t) = tr_ConversationID t"
    and legs: "\<And>t leg. leg_breached leg t \<Longrightarrow> leg_breached leg (g t)"
    and true1: "\<And>t now. truthful t \<Longrightarrow> \<not> stop t \<Longrightarrow> truthful ((g t)\<lparr>tr_UpdatedAt := now\<rparr>)"
  shows "sla_good n (snd (on_tracking d c i stop g w))"
proof -
  have upd: "leg_breached leg (x\<lparr>tr_UpdatedAt := now\<rparr>) = leg_breached leg x" for leg x now by (simp add: leg_breached_def)
  have dist: "distinct (map tr_ID (trackings w))" using sla_goodD(1) [OF good] by (simp add: keyed_def)
  have stored: "sla_good n (w'\<lparr>trackings := map (\<lambda>z. if z = t then (g t)\<lparr>tr_UpdatedAt := now\<rparr> else z) (trackings w)\<rparr>)"
    if "t \<in> set (trackings w)" "\<not> stop t" "effects w' = effects w" for t now and w' :: "'z sla_world_scheme"
    by (rule mapped_good [OF good, where f = "\<lambda>z. if z = t then (g t)\<lparr>tr_UpdatedAt := now\<rparr> else z"])
       (use that sla_goodD(2) [OF good] g legs true1 in \<open>auto simp: upd intro!: flagged_map\<close>)
  have "wp (on_tracking d c i stop g) (\<lambda>_ w'. sla_good n w') (\<lambda>_ w'. sla_good n w') w"
  proof (cases "RequireTenant c")
    case (Inr t)
    have "wp (bind_io (now_io d) (\<lambda>now. ignore_io (tracking_Update d c ((g t0)\<lparr>tr_UpdatedAt := now\<rparr>))))
        (\<lambda>_ w'. sla_good n w') (\<lambda>_ w'. sla_good n w') (tick w)"
      if "find (tracking_of t i) (trackings w) = Some t0" "\<not> stop t0" for t0
      using find_Some_in [OF that(1)] that(2) good Inr dist g wr stored
      by (auto simp: io_wp tracking_of_def intro!: wp_tracking_Update [where t = t0])
    then show ?thesis using Inr good
      by (auto simp: on_tracking_def FindByConversation_def repo_query_def io_wp wp_reads find_one_def split: option.split)
  qed (use good in \<open>simp add: on_tracking_def FindByConversation_def repo_query_def io_wp\<close>)
  then show ?thesis by (auto simp: wp_def split: prod.splits sum.splits)
qed

lemma hooks_good:
  assumes "sla_good n w"
  shows "sla_good n (snd (OnFirstResponse d c cv inst w))" "sla_good n (snd (OnResolved d c cv inst w))"
  unfolding hooks_on_tracking
  by (rule on_tracking_good [OF assms]; (rule marks_written | simp add: mark_keeps truthful_respond truthful_resolve))+

subsection \<open>The check\<close>

lemma breaches_publish [simp]: "breaches T i leg (EPublish tp ev p # es) = breaches T i leg es"
  by (simp add: breaches_def)

text \<open>What firing an alert does, whatever publishes fail: its webhook goes out.\<close>

definition fired :: "sla_tracking \<Rightarrow> string \<Rightarrow> bool option \<Rightarrow> 'z sla_world_scheme \<Rightarrow> 'z sla_world_scheme \<Rightarrow> bool" where
  "fired t l a w w' \<longleftrightarrow> trackings w' = trackings w \<and> step w \<le> step w'
     \<and> (\<forall>T i leg. breaches T i leg (effects w') = breaches T i leg (effects w)
          + (if a = Some True \<and> tracking_of T i t \<and> l = leg then 1 else 0))"

lemma wp_alert_fire: "(\<And>w'. fired t l a w w' \<Longrightarrow> Q () w') \<Longrightarrow> wp (alert_fire d t cv l a) Q E w"
  by (cases a)
     (auto simp: alert_fire_def sla_fire_def Publish_def io_wp Let_def fired_def breaches_append tracking_of_def tick_def
        breaches_def split: option.split)

lemma breach_grows:
  "(if first_alert t now = Some True \<and> \<not> suspended t cv \<and> tracking_of T i t \<and> ''first_response'' = leg then 1 else 0)
   + (if resolution_alert t now = Some True \<and> \<not> suspended t cv \<and> tracking_of T i t \<and> ''resolution'' = leg then 1 else 0)
   = (if tracking_of T i t \<and> leg_breached leg (check_mark t cv now) \<and> \<not> leg_breached leg t then 1 else (0::nat))"
  using first_alert_breach [of t now] resolution_alert_breach [of t now]
  by (auto simp: leg_breached_def check_mark_breached)

text \<open>The two ends of an evaluation that reported: the marked tracking stored, or the write lost.\<close>

definition new_breach :: "ident \<Rightarrow> ident \<Rightarrow> string \<Rightarrow> sla_tracking \<Rightarrow> sla_tracking \<Rightarrow> nat" where
  "new_breach T i leg t t' = (if tracking_of T i t \<and> leg_breached leg t' \<and> \<not> leg_breached leg t then 1 else 0)"

lemma stored_good:
  fixes w :: "'z sla_world_scheme"
  assumes good: "sla_good n w" and t: "t \<in> set (trackings w)" "tr_Status t = StatusRunning"
    and tr: "trackings w' = map (\<lambda>z. if z = t then check_mark t cv now else z) (trackings w)"
    and es: "\<And>T i leg. breaches T i leg (effects w') = breaches T i leg (effects w) + new_breach T i leg t (check_mark t cv now)"
  shows "sla_good n w'"
proof (rule mapped_good [OF good tr])
  fix T i leg
  have kd: "distinct (map (\<lambda>x. (tr_TenantID x, tr_ConversationID x)) (trackings w))"
    using sla_goodD(1) [OF good] by (simp add: keyed_def)
  have keep: "leg_breached leg x \<Longrightarrow> leg_breached leg (check_mark x cv now)" for x
    by (auto simp: leg_breached_def check_mark_breached split: if_splits)
  have "flagged T i leg (trackings w) \<le> flagged T i leg (trackings w')"
    unfolding tr by (rule flagged_map) (auto intro: keep)
  moreover have "flagged T i leg (trackings w) = 0 \<and> flagged T i leg (trackings w') = 1" if "new_breach T i leg t (check_mark t cv now) \<noteq> 0"
  proof -
    have new: "tracking_of T i t" "leg_breached leg (check_mark t cv now)" "\<not> leg_breached leg t"
      using that by (auto simp: new_breach_def split: if_splits)
    then have "tracking_of T i (check_mark t cv now)" by (simp add: tracking_of_def)
    moreover have "check_mark t cv now \<in> set (trackings w')" using t(1) by (auto simp: tr)
    ultimately have "flagged T i leg (trackings w') = 1" using new(2) by (auto simp: flagged_def)
    then show ?thesis
      using new one_of_conversation [OF kd _ t(1) _ new(1)] by (auto simp: flagged_def)
  qed
  ultimately show "breaches T i leg (effects w') + flagged T i leg (trackings w)
      \<le> breaches T i leg (effects w) + flagged T i leg (trackings w')"
    using es [of T i leg] by (cases "new_breach T i leg t (check_mark t cv now) = 0") (auto simp: new_breach_def split: if_splits)
qed (use sla_goodD(2) [OF good] check_mark_truthful t(2) in \<open>auto simp: checked_def truthful_def check_mark_breached\<close>)

lemma lost_good:
  assumes "sla_good n w" "trackings w' = trackings w"
    and "\<And>T i leg. breaches T i leg (effects w') = breaches T i leg (effects w) + new_breach T i leg t t'"
  shows "sla_good (Suc n) w'"
proof -
  have "new_breach T i leg t t' \<le> 1" for T i leg by (simp add: new_breach_def)
  then have "breaches T i leg (effects w') \<le> flagged T i leg (trackings w') + Suc n" for T i leg
    using assms(3) [of T i leg] sla_goodD(3) [OF assms(1), of T i leg] unfolding assms(2)
    by (metis add.commute add_Suc_right add_le_mono plus_1_eq_Suc)
  then show ?thesis using assms(1,2) by (auto simp: sla_good_def keyed_def)
qed

lemma wp_evaluate:
  fixes w :: "'z sla_world_scheme"
  assumes good: "sla_good (n + failures d s0 (step w)) w" "s0 \<le> step w"
    and t: "t \<in> set (trackings w)" "tr_Status t = StatusRunning" "RequireTenant c = Inr (tr_TenantID t)"
    and Q: "\<And>w'. sla_good (n + failures d s0 (step w')) w' \<Longrightarrow> s0 \<le> step w' \<Longrightarrow>
        set (trackings w) - {t} \<subseteq> set (trackings w') \<Longrightarrow> Q () w'"
  shows "wp (sla_evaluate d c t cv now) Q E w"
proof (cases "suspended t cv")
  case True
  then show ?thesis using good by (auto simp: sla_evaluate_def suspended_def io_wp intro!: Q)
next
  case False
  let ?a1 = "first_alert t now" and ?a2 = "resolution_alert t now"
  let ?t1 = "mark_first ?a1 t" and ?t2 = "mark_resolution ?a2 (mark_first ?a1 t)"
  let ?y = "?t2\<lparr>tr_UpdatedAt := now\<rparr>"
  have ev: "sla_evaluate d c t cv now = then_io (alert_fire d ?t1 cv ''first_response'' ?a1)
      (then_io (alert_fire d ?t2 cv ''resolution'' ?a2) (when_io (?a1 \<noteq> None \<or> ?a2 \<noteq> None)
        (ignore_io (tracking_Update d c ?y))))"
    using False by (simp only: sla_evaluate_def suspended_def if_False Let_def mark_fields)
  have of: "tracking_of T i ?t1 = tracking_of T i t" "tracking_of T i ?t2 = tracking_of T i t" for T i
    by (simp_all add: tracking_of_def)
  show ?thesis unfolding ev wp_then wp_when
  proof (rule wp_alert_fire, rule wp_alert_fire, goal_cases)
    case (1 w1 w2)
    have tr: "trackings w2 = trackings w" and st: "step w \<le> step w2" using 1 by (auto simp: fired_def)
    have es: "breaches T i leg (effects w2) = breaches T i leg (effects w) + new_breach T i leg t (check_mark t cv now)" for T i leg
      using 1 breach_grows [of t now cv T i leg] False by (simp add: fired_def of new_breach_def)
    have le: "n + failures d s0 (step w) \<le> n + failures d s0 (step w2)" using failures_mono [OF st] by simp
    show ?case
    proof (cases "?a1 = None \<and> ?a2 = None")
      case True
      then have "check_mark t cv now = t" by (simp add: check_mark_def)
      then have "sla_good (n + failures d s0 (step w2)) w2"
        using sla_good_mono [OF good(1) le] es tr by (auto simp: sla_good_def keyed_def new_breach_def)
      then show ?thesis using True good(2) st tr by (auto intro!: Q)
    next
      case alert: False
      then have y: "check_mark t cv now = ?y" using False by (auto simp: check_mark_def)
      have dist: "distinct (map tr_ID (trackings w))" using sla_goodD(1) [OF good(1)] by (simp add: keyed_def)
      let ?w3 = "(tick w2)\<lparr>trackings := map (\<lambda>z. if z = t then ?y else z) (trackings w2)\<rparr>"
      have "sla_good (n + failures d s0 (step w)) ?w3"
        by (rule stored_good [OF good(1) t(1,2), of _ cv now]) (use es tr y in simp_all)
      then have "sla_good (n + failures d s0 (step ?w3)) ?w3"
        using failures_mono [of "step w" "step ?w3" d s0] st by (auto intro: sla_good_mono)
      moreover have "sla_good (Suc (n + failures d s0 (step w))) (tick w2)"
        by (rule lost_good [OF good(1)]) (use es tr in simp_all)
      then have "sla_good (n + failures d s0 (step (tick w2))) (tick w2)" if "fault d (step w2) = Some s" for s
        using that le good(2) st by (auto simp: failures_Suc intro: sla_good_mono)
      ultimately show ?thesis using alert t(1,3) dist good(2) st
        by (auto simp: wp_ignore tr tracking_set_mark intro!: wp_tracking_Update [where t = t] Q)
    qed
  qed
qed

lemma wp_batch:
  fixes w :: "'z sla_world_scheme"
  assumes "sla_good (n + failures d s0 (step w)) w" "s0 \<le> step w" "set ts \<union> us \<subseteq> set (trackings w)"
    and "distinct (map tr_ID ts)" "set ts \<inter> us = {}" "\<forall>t \<in> set ts. tr_Status t = StatusRunning \<and> tr_TenantID t = T"
    and "RequireTenant c = Inr T"
    and "\<And>w'. sla_good (n + failures d s0 (step w')) w' \<Longrightarrow> s0 \<le> step w' \<Longrightarrow> us \<subseteq> set (trackings w') \<Longrightarrow> Q () w'"
  shows "wp (for_io ts (\<lambda>t. case look t of None \<Rightarrow> return_io () | Some cv \<Rightarrow> sla_evaluate d c t cv now)) Q E w"
  using assms
proof (induction ts arbitrary: w)
  case (Cons t ts)
  have rest: "wp (for_io ts (\<lambda>t. case look t of None \<Rightarrow> return_io () | Some cv \<Rightarrow> sla_evaluate d c t cv now)) Q E w'"
    if "sla_good (n + failures d s0 (step w')) w'" "s0 \<le> step w'" "set (trackings w) - {t} \<subseteq> set (trackings w')" for w'
  proof (rule Cons.IH [OF that(1,2) _ _ _ _ Cons.prems(7,8)])
    have "t \<notin> set ts \<union> us" using Cons.prems(4,5) by auto
    then show "set ts \<union> us \<subseteq> set (trackings w')" using that(3) Cons.prems(3) by auto
  qed (use Cons.prems(4-6) in auto)
  show ?case unfolding for_io.simps wp_then
  proof (cases "look t")
    case None
    then show "wp (case look t of None \<Rightarrow> return_io () | Some cv \<Rightarrow> sla_evaluate d c t cv now)
        (\<lambda>x. wp (for_io ts (\<lambda>t. case look t of None \<Rightarrow> return_io () | Some cv \<Rightarrow> sla_evaluate d c t cv now)) Q E) E w"
      using rest [OF Cons.prems(1,2)] by (auto simp: io_wp)
  next
    case (Some cv)
    then show "wp (case look t of None \<Rightarrow> return_io () | Some cv \<Rightarrow> sla_evaluate d c t cv now)
        (\<lambda>x. wp (for_io ts (\<lambda>t. case look t of None \<Rightarrow> return_io () | Some cv \<Rightarrow> sla_evaluate d c t cv now)) Q E) E w"
      using Cons.prems(3,6,7) by (auto intro!: wp_evaluate [OF Cons.prems(1,2)] rest)
  qed
qed (auto simp: io_wp)

lemma good_tick:
  "sla_good (n + failures d s0 (step w)) w \<Longrightarrow> sla_good (n + failures d s0 (Suc (step w))) (tick w)"
  using failures_mono [of "step w" "Suc (step w)" d s0] by (auto intro: sla_good_mono)

lemma wp_check_tenant:
  fixes w :: "'z sla_world_scheme"
  assumes "sla_good (n + failures d s0 (step w)) w" "s0 \<le> step w" "set ts \<union> us \<subseteq> set (trackings w)"
    and "distinct (map tr_ID ts)" "set ts \<inter> us = {}" "\<forall>t \<in> set ts. tr_Status t = StatusRunning \<and> tr_TenantID t = T"
    and Q: "\<And>w'. sla_good (n + failures d s0 (step w')) w' \<Longrightarrow> s0 \<le> step w' \<Longrightarrow> us \<subseteq> set (trackings w') \<Longrightarrow> Q () w'"
  shows "wp (check_tenant d c now T ts) Q E w"
proof (cases "T = []")
  case True
  then show ?thesis using assms
    by (auto simp: check_tenant_def Let_def io_wp conv_FindByIDs_def RequireTenant_def ctx_defs intro!: Q)
next
  case False
  have T: "RequireTenant (WithAuthContext (WithTenant c T) (SystemActor T)) = Inr T"
    using False by (simp add: RequireTenant_def ctx_defs)
  have "wp (for_io ts (\<lambda>t. case look t of None \<Rightarrow> return_io ()
      | Some cv \<Rightarrow> sla_evaluate d (WithAuthContext (WithTenant c T) (SystemActor T)) t cv now)) Q E w'"
    if "w' = w \<or> w' = tick w" for look w'
    by (rule wp_batch [where T = T]) (use that assms T good_tick [OF assms(1)] in auto)
  moreover have "Q () (tick w)" by (rule Q) (use assms good_tick [OF assms(1)] in auto)
  ultimately show ?thesis
    by (auto simp: check_tenant_def Let_def io_wp wp_reads conv_FindByIDs_def conv_query_def T split: option.split)
qed

lemma wp_check_tenants:
  fixes w :: "'z sla_world_scheme"
  assumes "sla_good (n + failures d s0 (step w)) w" "s0 \<le> step w" "distinct (map tr_ID items)" "distinct Ts"
    and "\<forall>t \<in> set items. tr_Status t = StatusRunning"
    and "{x \<in> set items. tr_TenantID x \<in> set Ts} \<subseteq> set (trackings w)"
    and Q: "\<And>w'. sla_good (n + failures d s0 (step w')) w' \<Longrightarrow> Q () w'"
  shows "wp (for_io Ts (\<lambda>T. check_tenant d c now T (filter (\<lambda>x. tr_TenantID x = T) items))) Q E w"
  using assms
proof (induction Ts arbitrary: w)
  case (Cons T Ts)
  show ?case unfolding for_io.simps wp_then
    by (rule wp_check_tenant [OF Cons.prems(1,2), where us = "{x \<in> set items. tr_TenantID x \<in> set Ts}"])
       (use Cons.prems Cons.IH in \<open>auto simp: distinct_map_filter\<close>)
qed (auto simp: io_wp)

lemma RunCheck_good:
  fixes w :: "'z sla_world_scheme"
  assumes good: "sla_good n w" and "any_order d"
  shows "sla_good (n + failures d (step w) (step (snd (RunCheck d c w)))) (snd (RunCheck d c w))"
proof -
  let ?ok = "\<lambda>w'. sla_good (n + failures d (step w) (step w')) w'"
  have ticks: "?ok (tick w)" "?ok (tick (tick w))"
    using good_tick [of n d "step w" w] good_tick [of n d "step w" "tick w"] good by simp_all
  have items: "set (check_batch w) \<subseteq> set (trackings w)" "distinct (map tr_ID (check_batch w))"
      "\<forall>t \<in> set (check_batch w). tr_Status t = StatusRunning"
    using sla_goodD(1) [OF good] by (auto simp: keyed_def check_batch_def distinct_map_filter take_map [symmetric] dest: in_set_takeD)
  have batch: "check_batch (tick w) = check_batch w" and limit: "\<not> checkBatchLimit \<le> 0"
    by (simp_all add: check_batch_def checkBatchLimit_def)
  have "wp (RunCheck d c) (\<lambda>_. ?ok) (\<lambda>_. ?ok) w"
    unfolding RunCheck_def ListRunningAcrossTenants_def
    using ticks items assms(2)
    by (auto simp: io_wp any_order_def check_batch_def [symmetric] batch limit
        intro!: wp_check_tenants split: option.split)
  then show ?thesis by (auto simp: wp_def split: prod.splits sum.splits)
qed

subsection \<open>Starting a tracking\<close>

definition sla_kept :: "'z sla_world_scheme \<Rightarrow> 'z sla_world_scheme \<Rightarrow> bool" where
  "sla_kept w w' \<longleftrightarrow> (\<forall>n. sla_good n w \<longrightarrow> sla_good n w')"

interpretation kept: io_rel sla_kept
  by unfold_locales (auto simp: sla_kept_def)

lemma kept_db: "framed sla_kept m \<Longrightarrow> framed sla_kept (db_call d m)"
  by (auto simp: framed_def db_call_def sla_kept_def split: option.split)

lemma kept_read: "framed sla_kept (db_call d (\<lambda>w. (f w, w)))"
  by (intro kept_db) (simp add: framed_def sla_kept_def)

lemma sla_kept_now: "framed sla_kept (now_io d)" and kept_new_id: "framed sla_kept (new_id d)"
  by (simp_all add: framed_def now_io_def new_id_def sla_kept_def)

lemma sla_kept_query: "framed sla_kept (repo_query d c coll q)"
  unfolding repo_query_def by (intro kept.fr_bind kept.fr_lift kept_read)

lemma kept_case_opt: "framed R m \<Longrightarrow> (\<And>x. framed R (f x)) \<Longrightarrow> framed R (case o1 of None \<Rightarrow> m | Some x \<Rightarrow> f x)"
  by (cases o1) auto

lemma kept_case_sum: "(\<And>e. framed R (m e)) \<Longrightarrow> (\<And>x. framed R (f x)) \<Longrightarrow> framed R (case s of Inl e \<Rightarrow> m e | Inr x \<Rightarrow> f x)"
  by (cases s) auto

lemma kept_computeDue: "framed sla_kept (computeDue d c ch start target biz)"
proof -
  have "framed sla_kept (AddBusinessDuration d c ch start dur)" for dur
    unfolding AddBusinessDuration_def biz_resolve_def channel_FindByID_def ListAll_def gets_io_def
    by (intro kept.fr_basic kept_read)
  then show ?thesis
    unfolding computeDue_def Let_def by (intro kept.fr_basic)
qed

definition newborn :: "sla_tracking \<Rightarrow> bool" where
  "newborn t \<longleftrightarrow> tr_FirstResponseAt t = None \<and> tr_Status t = StatusRunning"

lemma kept_Create: "newborn t \<Longrightarrow> framed sla_kept (tracking_Create d c t)"
proof -
  assume new: "newborn t"
  have "sla_good n (w\<lparr>trackings := ts\<rparr>)" if "insert_tracking t (trackings w) = Inr ts" "sla_good n w" for n w ts
  proof -
    have ts: "ts = trackings w @ [t]" and "tr_ID t \<notin> tr_ID ` set (trackings w)"
      and "\<forall>y \<in> set (trackings w). \<not> tracking_of (tr_TenantID t) (tr_ConversationID t) y"
      using that(1) by (auto simp: insert_tracking_def insert_one_def split: if_splits)
    with sla_goodD(1) [OF that(2)] have "keyed (w\<lparr>trackings := ts\<rparr>)" by (auto simp: keyed_def tracking_of_def)
    moreover have "flagged T i leg (trackings w) \<le> flagged T i leg ts" for T i leg by (auto simp: flagged_def ts)
    then have "breaches T i leg (effects w) \<le> flagged T i leg ts + n" for T i leg
      using sla_goodD(3) [OF that(2), of T i leg] by (meson add_le_mono1 order_trans)
    moreover have "truthful t" using new by (simp add: newborn_def truthful_def)
    ultimately show ?thesis using sla_goodD(2) [OF that(2)] by (auto simp: sla_good_def ts)
  qed
  then show ?thesis
    unfolding tracking_Create_def repo_write_def
    by (intro kept.fr_bind kept.fr_lift kept_db) (auto simp: framed_def sla_kept_def split: sum.split)
qed

lemma Created_good: "framed sla_kept (OnConversationCreated d c cv)"
proof -
  have born: "returns (start_tracking d c cv p start) newborn" for p start
    unfolding start_tracking_def Let_def by (intro returns_bind returns_return) (simp add: newborn_def)
  have "framed sla_kept (start_tracking d c cv p start)" for p start
    unfolding start_tracking_def Let_def by (intro kept.fr_bind kept.fr_return sla_kept_now kept_new_id kept_computeDue)
  then have track: "framed sla_kept (bind_io (start_tracking d c cv p start) (\<lambda>t. ignore_io (tracking_Create d c t)))" for p start
    by (intro kept.fr_bind_returns [OF _ born] kept.fr_ignore kept_Create)
  then show ?thesis
    unfolding OnConversationCreated_def FindByConversation_def ListEnabled_def
    by (intro kept.fr_bind [OF kept.fr_try [OF sla_kept_query]] kept_case_sum kept_case_opt kept.fr_return
        kept.fr_bind [OF _ track] kept.fr_if sla_kept_now)
qed

section \<open>Reachable states\<close>

datatype sla_request = Created conversation | Responded conversation time | Resolved conversation time | Scheduled

fun sla_serve :: "'e sla_deps_scheme \<Rightarrow> ctx \<Rightarrow> sla_request \<Rightarrow> ('z sla_world_scheme, unit) io" where
  "sla_serve d c (Created cv) = OnConversationCreated d c cv"
| "sla_serve d c (Responded cv inst) = OnFirstResponse d c cv inst"
| "sla_serve d c (Resolved cv inst) = OnResolved d c cv inst"
| "sla_serve d c Scheduled = RunCheck d c"

text \<open>
  The states of a server that starts without trackings: hooks and checks run one after the
  other, in any order, for any tenants, and between them the rest of the program changes what it
  likes except the trackings, adding effects that are not SLA webhooks.
\<close>

definition not_sla :: "effect \<Rightarrow> bool" where
  "not_sla e \<longleftrightarrow> (\<forall>T i leg. \<not> breach_of T i leg e)"

inductive sla_reachable :: "'e sla_deps_scheme \<Rightarrow> 'z sla_world_scheme \<Rightarrow> bool" for d where
  init: "trackings w = [] \<Longrightarrow> (\<forall>e \<in> set (effects w). not_sla e) \<Longrightarrow> sla_reachable d w"
| serve: "sla_reachable d w \<Longrightarrow> sla_reachable d (snd (sla_serve d c rq w))"
| rest: "sla_reachable d w \<Longrightarrow> trackings w' = trackings w \<Longrightarrow> effects w' = effects w @ es \<Longrightarrow>
    (\<forall>e \<in> set es. not_sla e) \<Longrightarrow> sla_reachable d w'"

text \<open>The same with the number of database calls that failed while checks ran.\<close>

fun check_failures :: "'e sla_deps_scheme \<Rightarrow> sla_request \<Rightarrow> 'z sla_world_scheme \<Rightarrow> 'z sla_world_scheme \<Rightarrow> nat" where
  "check_failures d Scheduled w w' = failures d (step w) (step w')"
| "check_failures d _ w w' = 0"

inductive sla_trace :: "'e sla_deps_scheme \<Rightarrow> nat \<Rightarrow> 'z sla_world_scheme \<Rightarrow> bool" for d where
  init: "trackings w = [] \<Longrightarrow> (\<forall>e \<in> set (effects w). not_sla e) \<Longrightarrow> sla_trace d 0 w"
| serve: "sla_trace d n w \<Longrightarrow>
    sla_trace d (n + check_failures d rq w (snd (sla_serve d c rq w))) (snd (sla_serve d c rq w))"
| rest: "sla_trace d n w \<Longrightarrow> trackings w' = trackings w \<Longrightarrow> effects w' = effects w @ es \<Longrightarrow>
    (\<forall>e \<in> set es. not_sla e) \<Longrightarrow> sla_trace d n w'"

lemma reachable_trace: "sla_reachable d w \<Longrightarrow> \<exists>n. sla_trace d n w"
  by (induction rule: sla_reachable.induct) (blast intro: sla_trace.intros)+

lemma breaches_not_sla: "(\<forall>e \<in> set es. not_sla e) \<Longrightarrow> breaches T i leg es = 0"
  by (simp add: breaches_def not_sla_def)

lemma trace_good: "sla_trace d n w \<Longrightarrow> any_order d \<Longrightarrow> sla_good n w"
proof (induction rule: sla_trace.induct)
  case (init w)
  then show ?case by (simp add: sla_good_def keyed_def breaches_not_sla)
next
  case (serve n w rq c)
  then show ?case
    by (cases rq) (simp_all add: hooks_good RunCheck_good Created_good [unfolded framed_def sla_kept_def, rule_format])
next
  case (rest n w w' es)
  then show ?case by (simp add: sla_good_def keyed_def breaches_append breaches_not_sla)
qed

text \<open>
  C21: A breach is reported once, and once more for each write a check loses. Whatever the hooks and
  checks run so far, their order and the calls the database failed, no more \<open>sla.breached\<close> webhooks
  have gone out for a leg of a conversation than one, if the tracking stored for the conversation
  says so, plus the number of database calls that failed while checks ran; with none, at most one.
\<close>
theorem breach_reported_once:
  assumes "sla_trace d n w" and "any_order d"
  shows "breaches T i leg (effects w)
    \<le> (if \<exists>x \<in> set (trackings w). tracking_of T i x \<and> leg_breached leg x then 1 else 0) + n"
  using sla_goodD(3) [OF trace_good [OF assms], of T i leg] by (simp only: flagged_def)

text \<open>
  C22: A tracking closed as met was met: it has a resolution instant no later than the
  resolution's due instant, and the first response came in time or the conversation was resolved
  before one was due. There is one tracking for each conversation of a tenant. This is so whatever
  calls the database failed.
\<close>
theorem met_means_in_time:
  assumes "sla_reachable d w" and "any_order d"
    and "x \<in> set (trackings w)" and "tr_Status x = StatusMet"
  shows "(\<exists>r. tr_ResolvedAt x = Some r \<and> \<not> late r (tr_ResolutionDueAt x)
      \<and> (\<not> late r (tr_FirstResponseDueAt x) \<or> (\<exists>f. tr_FirstResponseAt x = Some f \<and> \<not> late f (tr_FirstResponseDueAt x))))
    \<and> (\<forall>y \<in> set (trackings w). tracking_of (tr_TenantID x) (tr_ConversationID x) y \<longrightarrow> y = x)"
proof -
  obtain n where good: "sla_good n w" using reachable_trace [OF assms(1)] trace_good assms(2) by blast
  have "\<forall>y \<in> set (trackings w). tracking_of (tr_TenantID x) (tr_ConversationID x) y \<longrightarrow> y = x"
    using one_of_conversation [of "trackings w" _ x] sla_goodD(1) [OF good] assms(3)
    by (auto simp: keyed_def tracking_of_def)
  with sla_goodD(2) [OF good assms(3)] assms(4) show ?thesis by (auto simp: truthful_def)
qed

section \<open>A conversation with a target\<close>

definition sla_deps0 :: sla_deps where
  "sla_deps0 = \<lparr>clk = (\<lambda>n. 100 * Hour), newid = (\<lambda>n. ''id''), fault = (\<lambda>_. None),
     bd_decode = bd_decode desk_deps, bd_loadLocation = bd_loadLocation desk_deps, sd_order = (\<lambda>_ ts. ts)\<rparr>"

definition sla_policy0 :: sla_policy where
  "sla_policy0 = \<lparr>sp_ID = ''p1'', sp_TenantID = ''t1'', sp_Name = ''gold'', sp_SectorIDs = [''s1''], sp_Priority = [],
     sp_Channel = [], sp_FirstResponseTargetSec = 600, sp_ResolutionTargetSec = 360000, sp_BusinessHoursOnly = False,
     sp_WarningThresholdPct = 80, sp_PauseOnWaitingCustomer = False, sp_Enabled = True, sp_CreatedAt = 0, sp_UpdatedAt = 0\<rparr>"

definition sla_conv :: conversation where
  "sla_conv = demo_conv\<lparr>cv_CreatedAt := 20 * Hour\<rparr>"

definition sla0 :: sla_world where
  "sla0 = \<lparr>step = 0, convs = [sla_conv], msgs = [], cevents = [], chans = chans desk0, sectors = [], effects = [],
     holidays = holidays desk0, policies = [sla_policy0], trackings = []\<rparr>"

definition tracking0 :: sla_tracking where
  "tracking0 = \<lparr>tr_ID = ''id'', tr_TenantID = ''t1'', tr_ConversationID = ''c1'', tr_PolicyID = ''p1'', tr_SectorID = ''s1'',
     tr_FirstResponseDueAt = Some (20 * Hour + 600 * Second), tr_FirstResponseWarnAt = Some (20 * Hour + 480 * Second),
     tr_ResolutionDueAt = Some (20 * Hour + 360000 * Second), tr_ResolutionWarnAt = Some (20 * Hour + 288000 * Second),
     tr_FirstResponseAt = None, tr_ResolvedAt = None, tr_FirstResponseBreached = False, tr_ResolutionBreached = False,
     tr_FirstResponseWarned = False, tr_ResolutionWarned = False, tr_PauseOnWaitingCustomer = False,
     tr_Status = StatusRunning, tr_CreatedAt = 100 * Hour, tr_UpdatedAt = 100 * Hour\<rparr>"

abbreviation sla1 :: sla_world where
  "sla1 \<equiv> snd (OnConversationCreated sla_deps0 demo_ctx sla_conv sla0)"

lemma sla_deps0_facts: "\<forall>n. fault sla_deps0 n = None" "any_order sla_deps0" "clk sla_deps0 n = 100 * Hour" "newid sla_deps0 n = ''id''"
  by (simp_all add: sla_deps0_def any_order_def)

lemma sla_conv_fields: "cv_ID sla_conv = ''c1''" "cv_TenantID sla_conv = ''t1''" "cv_SectorID sla_conv = ''s1''"
  "cv_CreatedAt sla_conv = 20 * Hour" "cv_Status sla_conv = StatusQueued" "cv_AssignedTo sla_conv = []"
  by (simp_all add: sla_conv_def demo_conv_def)

lemma sla0_fields: "policies sla0 = [sla_policy0]" "trackings sla0 = []" "effects sla0 = []" "convs sla0 = [sla_conv]"
  by (simp_all add: sla0_def)

lemma sla_policy0_fields: "sp_ID sla_policy0 = ''p1''" "sp_TenantID sla_policy0 = ''t1''" "sp_Enabled sla_policy0"
  "sp_FirstResponseTargetSec sla_policy0 = 600" "sp_ResolutionTargetSec sla_policy0 = 360000"
  "\<not> sp_BusinessHoursOnly sla_policy0" "sp_WarningThresholdPct sla_policy0 = 80" "\<not> sp_PauseOnWaitingCustomer sla_policy0"
  "policy_Matches sla_policy0 ''s1'' x y"
  by (simp_all add: sla_policy0_def policy_Matches_def)

lemma created_tracking:
  fixes d :: "'e biz_deps_scheme"
  assumes "\<And>n. n < 30 \<Longrightarrow> fault d n = None" "\<And>n. clk d n = 100 * Hour" "\<And>n. newid d n = ''id''"
  shows "trackings (snd (OnConversationCreated d demo_ctx sla_conv sla0)) = [tracking0]"
    "effects (snd (OnConversationCreated d demo_ctx sla_conv sla0)) = []"
    "convs (snd (OnConversationCreated d demo_ctx sla_conv sla0)) = [sla_conv]"
proof -
  have sel: "selectPolicy [sla_policy0] sla_conv = Some sla_policy0"
    by (simp add: selectPolicy_def sla_policy0_fields sla_conv_fields)
  have start: "step sla0 = 0" by (simp add: sla0_def)
  have "20 * Hour \<noteq> zero_time" by (simp add: zero_time_def Hour_def Minute_def Second_def)
  then show "trackings (snd (OnConversationCreated d demo_ctx sla_conv sla0)) = [tracking0]"
    "effects (snd (OnConversationCreated d demo_ctx sla_conv sla0)) = []"
    "convs (snd (OnConversationCreated d demo_ctx sla_conv sla0)) = [sla_conv]"
    unfolding OnConversationCreated_def FindByConversation_def ListEnabled_def repo_query_def tracking_Create_def
      repo_write_def start_tracking_def computeDue_def
    by (simp_all add: io_defs db_call_def assms start desk_tenant find_one_def sla0_fields sel sla_policy0_fields
        sla_conv_fields now_io_def new_id_def pct_def go_div_def insert_tracking_def insert_one_def tracking0_def Let_def)
qed

lemma sla1_fields: "trackings sla1 = [tracking0]" "effects sla1 = []" "convs sla1 = [sla_conv]"
  by (rule created_tracking; simp add: sla_deps0_facts)+

lemma tracking0_fields: "tr_ID tracking0 = ''id''" "tr_TenantID tracking0 = ''t1''" "tr_ConversationID tracking0 = ''c1''"
  "tr_Status tracking0 = StatusRunning" "\<not> tr_PauseOnWaitingCustomer tracking0"
  by (simp_all add: tracking0_def)

lemma sla1_keyed: "distinct (map tr_ID (trackings sla1))"
  by (simp add: sla1_fields)

lemma RunCheck_evaluates_batch_witness:
  "trackings (snd (RunCheck sla_deps0 demo_ctx sla1)) = [tracking0\<lparr>tr_FirstResponseBreached := True,
     tr_FirstResponseWarned := True, tr_ResolutionWarned := True, tr_UpdatedAt := 100 * Hour\<rparr>]"
proof -
  have batch: "check_batch sla1 = [tracking0]"
    by (simp add: check_batch_def sla1_fields tracking0_fields checkBatchLimit_def)
  have "conv_for sla1 tracking0 = Some sla_conv"
    by (simp add: conv_for_def sla1_fields tracking0_fields sla_conv_fields)
  then have "checked sla1 (100 * Hour) tracking0 = tracking0\<lparr>tr_FirstResponseBreached := True,
     tr_FirstResponseWarned := True, tr_ResolutionWarned := True, tr_UpdatedAt := 100 * Hour\<rparr>"
    by (simp add: checked_def check_mark_def suspended_def tracking0_def first_alert_def resolution_alert_def
        leg_alert_def mark_first_def mark_resolution_def Hour_def Minute_def Second_def)
  with RunCheck_evaluates_batch [OF sla_deps0_facts(1,2) sla1_keyed, of demo_ctx] show ?thesis
    by (simp add: batch sla1_fields sla_deps0_facts)
qed

lemma sla0_reachable: "sla_reachable sla_deps0 sla0"
  by (rule sla_reachable.init) (simp_all add: sla0_fields)

lemma sla1_reachable: "sla_reachable sla_deps0 sla1"
  using sla_reachable.serve [OF sla0_reachable, of demo_ctx "Created sla_conv"] by simp

definition tracking_met :: sla_tracking where
  "tracking_met = tracking0\<lparr>tr_ResolvedAt := Some (20 * Hour + 60 * Second), tr_Status := StatusMet\<rparr>"

lemma sla_met: "trackings (snd (OnResolved sla_deps0 demo_ctx sla_conv (20 * Hour + 60 * Second) sla1)) = [tracking_met]"
proof -
  have "(resolve_mark (20 * Hour + 60 * Second) tracking0)\<lparr>tr_UpdatedAt := 100 * Hour\<rparr> = tracking_met"
    by (simp add: resolve_mark_def tracking0_def tracking_met_def Finalize_def late_def Hour_def Minute_def Second_def)
  moreover have "tracking_set tracking_met tracking0 = tracking_met" by (simp add: tracking_set_def tracking_met_def tracking0_def)
  ultimately show ?thesis
    unfolding OnResolved_def FindByConversation_def tracking_Update_def repo_query_def repo_write_def
    by (simp add: io_defs db_call_def sla_deps0_facts desk_tenant find_one_def sla1_fields tracking_of_def sla_conv_fields
        tracking0_fields now_io_def update_one_def tracking_by_def mark_keeps)
       (simp add: tracking0_def tracking_met_def)
qed

lemma met_means_in_time_witness:
  "\<exists>r. tr_ResolvedAt tracking_met = Some r \<and> \<not> late r (tr_ResolutionDueAt tracking_met)
    \<and> (\<not> late r (tr_FirstResponseDueAt tracking_met)
       \<or> (\<exists>f. tr_FirstResponseAt tracking_met = Some f \<and> \<not> late f (tr_FirstResponseDueAt tracking_met)))"
proof -
  have r: "sla_reachable sla_deps0 (snd (OnResolved sla_deps0 demo_ctx sla_conv (20 * Hour + 60 * Second) sla1))"
    using sla_reachable.serve [OF sla1_reachable, of demo_ctx "Resolved sla_conv (20 * Hour + 60 * Second)"] by simp
  have "tracking_met \<in> set (trackings (snd (OnResolved sla_deps0 demo_ctx sla_conv (20 * Hour + 60 * Second) sla1)))"
    "tr_Status tracking_met = StatusMet"
    by (simp_all add: sla_met) (simp add: tracking_met_def)
  from met_means_in_time [OF r sla_deps0_facts(2) this] show ?thesis by blast
qed

subsection \<open>A lost write\<close>

text \<open>
  The bound is met. The database drops one write, that of the tracking after the first check
  reported the breach: the second check reports it again.
\<close>

definition lossy_deps :: sla_deps where
  "lossy_deps = sla_deps0\<lparr>fault := (\<lambda>n. if n = 37 then Some ''connection reset'' else None)\<rparr>"

definition sla_late :: sla_world where
  "sla_late = sla0\<lparr>step := 30, trackings := [tracking0]\<rparr>"

abbreviation sla_once :: sla_world where
  "sla_once \<equiv> snd (RunCheck lossy_deps demo_ctx sla_late)"

abbreviation sla_twice :: sla_world where
  "sla_twice \<equiv> snd (RunCheck lossy_deps demo_ctx sla_once)"

lemma lost_write_reports_again:
  "breaches ''t1'' ''c1'' ''first_response'' (effects sla_once) = 1
   \<and> breaches ''t1'' ''c1'' ''first_response'' (effects sla_twice) = 2"
  by code_simp

lemma sla_late_trace: "sla_trace lossy_deps 0 sla_late"
proof -
  have "sla_trace lossy_deps 0 sla0" by (rule sla_trace.init) (simp_all add: sla0_fields)
  from sla_trace.serve [OF this, of "Created sla_conv" demo_ctx]
  have "sla_trace lossy_deps 0 (snd (OnConversationCreated lossy_deps demo_ctx sla_conv sla0))" by simp
  then show ?thesis
    by (rule sla_trace.rest [where es = "[]"])
       (use created_tracking [of lossy_deps] in \<open>simp_all add: lossy_deps_def sla_deps0_def sla_late_def sla0_fields\<close>)
qed

theorem breach_reported_once_witness:
  "breaches ''t1'' ''c1'' ''first_response'' (effects sla_twice) \<le> 1 + 1"
proof -
  have "failures lossy_deps (step sla_late) (step sla_once) = 1" "failures lossy_deps (step sla_once) (step sla_twice) = 0"
    by code_simp+
  then have "sla_trace lossy_deps 1 sla_twice"
    using sla_trace.serve [OF sla_trace.serve [OF sla_late_trace, of Scheduled demo_ctx], of Scheduled demo_ctx] by simp
  moreover have "any_order lossy_deps" by (simp add: lossy_deps_def sla_deps0_def any_order_def)
  ultimately have "breaches ''t1'' ''c1'' ''first_response'' (effects sla_twice)
      \<le> (if \<exists>x \<in> set (trackings sla_twice). tracking_of ''t1'' ''c1'' x \<and> leg_breached ''first_response'' x then 1 else 0) + 1"
    by (rule breach_reported_once)
  then show ?thesis by (auto split: if_splits)
qed

end
