(* ===== verification/Sla_Props.thy ===== *)
theory Sla_Props
  imports Sla_Check
begin

text \<open>
  The choice of the policy, the due instants in business time, and the interleaving in which the
  scheduled check undoes a first response.
\<close>

section \<open>The policy chosen\<close>

abbreviation applies :: "conversation \<Rightarrow> sla_policy \<Rightarrow> bool" where
  "applies cv p \<equiv> sp_Enabled p \<and> policy_Matches p (cv_SectorID cv) (cv_Priority cv) (cv_Channel cv)"

definition first_best :: "sla_policy list \<Rightarrow> sla_policy option" where
  "first_best ps = find (\<lambda>p. Specificity p = Max (Specificity ` set ps)) ps"

lemma first_best_skip: "Specificity b < Specificity p \<Longrightarrow> first_best (b # p # ps) = first_best (p # ps)"
proof -
  assume "Specificity b < Specificity p"
  moreover have "Specificity p \<le> Max (Specificity ` set (p # ps))" by (intro Max_ge) simp_all
  ultimately have "max (Specificity b) (Max (Specificity ` set (p # ps))) = Max (Specificity ` set (p # ps))"
    "Specificity b \<noteq> Max (Specificity ` set (p # ps))" by linarith+
  then show ?thesis by (simp add: first_best_def)
qed

lemma first_best_keep: "Specificity p \<le> Specificity b \<Longrightarrow> first_best (b # p # ps) = first_best (b # ps)"
proof -
  assume le: "Specificity p \<le> Specificity b"
  then have m: "Max (Specificity ` set (b # p # ps)) = Max (Specificity ` set (b # ps))"
    by (cases "ps = []") (simp_all add: max.left_commute max.absorb1 max.assoc [symmetric])
  moreover have "Specificity b \<le> Max (Specificity ` set (b # ps))" by (intro Max_ge) simp_all
  ultimately show ?thesis using le by (auto simp: first_best_def)
qed

lemma select_loop_best:
  "select_loop cv (Some b) ps = first_best (b # filter (applies cv) ps)"
proof (induction ps arbitrary: b)
  case (Cons p ps)
  then show ?case by (auto simp: first_best_skip first_best_keep not_less)
qed (simp add: first_best_def)

text \<open>
  The policy of a conversation: the loop over the enabled policies returns the first of the
  most specific ones that apply (sector before priority before channel), and none when no policy
  applies.
\<close>
theorem selectPolicy_first_best:
  "selectPolicy ps cv = (if filter (applies cv) ps = [] then None else first_best (filter (applies cv) ps))"
proof (induction ps)
  case (Cons p ps)
  then show ?case by (simp add: selectPolicy_def select_loop_best)
qed (simp add: selectPolicy_def)

section \<open>Due instants in business time\<close>

text \<open>Reading the clock, the identifiers and the database only moves the step counter.\<close>

definition ticked :: "'z base_world_scheme \<Rightarrow> 'z base_world_scheme \<Rightarrow> bool" where
  "ticked w w' \<longleftrightarrow> (\<exists>n \<ge> step w. w' = w\<lparr>step := n\<rparr>)"

interpretation desk: io_rel ticked
proof
  show "ticked w w" for w :: "'z base_world_scheme"
    unfolding ticked_def by (rule exI [of _ "step w"]) simp
next
  fix u v w :: "'z base_world_scheme"
  assume "ticked u v" "ticked v w"
  then show "ticked u w" unfolding ticked_def by (elim exE conjE) (rule exI [of _ "step w"], simp)
qed

lemma ticked_tick: "ticked w w1 \<Longrightarrow> ticked w (tick w1)"
  unfolding ticked_def tick_def by (elim exE conjE) (rule exI [of _ "Suc (step w1)"], simp)

lemma ticked_same:
  "ticked w w' \<Longrightarrow> chans w' = chans w" "ticked v v' \<Longrightarrow> holidays v' = holidays v"
  "ticked u u' \<Longrightarrow> trackings u' = trackings u" "ticked u u' \<Longrightarrow> policies u' = policies u"
  "ticked x x' \<Longrightarrow> step x \<le> step x'"
  by (auto simp: ticked_def)

lemma desk_db: "framed ticked m \<Longrightarrow> framed ticked (db_call d m)"
  unfolding framed_def db_call_def
  by (auto split: option.split intro: ticked_tick [OF desk.rel_refl] desk.rel_trans [OF ticked_tick [OF desk.rel_refl]])

lemma desk_read: "framed ticked (db_call d (\<lambda>w. (f w, w)))"
  by (intro desk_db) (simp add: framed_def desk.rel_refl)

lemma desk_query: "framed ticked (repo_query d c coll q)"
  unfolding repo_query_def by (intro desk.fr_bind desk.fr_lift desk_read)

lemma desk_Add: "framed ticked (AddBusinessDuration d c ch start dur)"
  unfolding AddBusinessDuration_def biz_resolve_def channel_FindByID_def ListAll_def gets_io_def
  by (intro desk.fr_basic desk_read)

text \<open>
  What \<open>computeDue\<close> answers: nothing without a target, the wall-clock instant when the policy
  does not count business hours, and otherwise what \<open>AddBusinessDuration\<close> gives on the same desk,
  the wall-clock instant only when it fails. The bound \<open>m\<close> is the step at which the run ends.
\<close>

definition due_of ::
  "'e biz_deps_scheme \<Rightarrow> ctx \<Rightarrow> ident \<Rightarrow> time \<Rightarrow> bool \<Rightarrow> int \<Rightarrow> 'z desk_world_scheme \<Rightarrow> nat \<Rightarrow> time option \<Rightarrow> bool" where
  "due_of d c ch start biz target w m r \<longleftrightarrow>
     (if target \<le> 0 then r = None
      else if \<not> biz then r = Some (start + target * Second)
      else \<exists>w1 a w2. ticked w w1 \<and> AddBusinessDuration d c ch start (target * Second) w1 = (a, w2) \<and> step w2 \<le> m
        \<and> r = Some (case a of Inl _ \<Rightarrow> start + target * Second | Inr t \<Rightarrow> t))"

lemma due_of_wider:
  "due_of d c ch start biz target w m r \<Longrightarrow> ticked v w \<Longrightarrow> m \<le> n \<Longrightarrow> due_of d c ch start biz target v n r"
  unfolding due_of_def by (auto intro: desk.rel_trans order_trans split: if_splits)

lemma due_ofI:
  "AddBusinessDuration d c ch start (target * Second) w = (a, w2) \<Longrightarrow> 0 < target \<Longrightarrow>
     due_of d c ch start True target w (step w2) (Some (case a of Inl _ \<Rightarrow> start + target * Second | Inr t \<Rightarrow> t))"
  unfolding due_of_def using desk.rel_refl [of w] by auto

lemma computeDue_run:
  assumes "computeDue d c ch start target biz w = (r, w')"
  shows "\<exists>x. r = Inr x \<and> ticked w w' \<and> due_of d c ch start biz target w (step w') x"
proof (cases "0 < target \<and> biz")
  case True
  obtain a w1 where add: "AddBusinessDuration d c ch start (target * Second) w = (a, w1)" by fastforce
  with True assms have "r = Inr (Some (case a of Inl _ \<Rightarrow> start + target * Second | Inr t \<Rightarrow> t))" "w' = w1"
    by (auto simp: computeDue_def Let_def io_defs split: sum.splits)
  with True due_ofI [OF add] framedD [OF desk_Add add] show ?thesis by simp
next
  case False
  with assms show ?thesis
    by (auto simp: computeDue_def Let_def io_defs due_of_def desk.rel_refl split: if_splits)
qed

text \<open>The four instants of a tracking, each target and its warning share.\<close>

abbreviation warned_target :: "sla_policy \<Rightarrow> int \<Rightarrow> int" where
  "warned_target p target \<equiv> pct target (sp_WarningThresholdPct p)"

definition tracks :: "(int \<Rightarrow> time option \<Rightarrow> bool) \<Rightarrow> sla_policy \<Rightarrow> sla_tracking \<Rightarrow> bool" where
  "tracks ok p t \<longleftrightarrow> ok (sp_FirstResponseTargetSec p) (tr_FirstResponseDueAt t)
     \<and> ok (warned_target p (sp_FirstResponseTargetSec p)) (tr_FirstResponseWarnAt t)
     \<and> ok (sp_ResolutionTargetSec p) (tr_ResolutionDueAt t)
     \<and> ok (warned_target p (sp_ResolutionTargetSec p)) (tr_ResolutionWarnAt t)"

lemma tracks_mono: "tracks ok p t \<Longrightarrow> (\<And>target due. ok target due \<Longrightarrow> ok2 target due) \<Longrightarrow> tracks ok2 p t"
  by (simp add: tracks_def)

lemma start_tracking_run:
  assumes "start_tracking d c cv p start w = (r, w')"
  shows "\<exists>t. r = Inr t \<and> ticked w w' \<and> tr_PolicyID t = sp_ID p \<and> tr_ConversationID t = cv_ID cv
    \<and> tracks (\<lambda>target. due_of d c (cv_ChannelID cv) start (sp_BusinessHoursOnly p) target w (step w')) p t"
proof -
  let ?due = "\<lambda>target. computeDue d c (cv_ChannelID cv) start target (sp_BusinessHoursOnly p)"
  let ?ok = "\<lambda>target. due_of d c (cv_ChannelID cv) start (sp_BusinessHoursOnly p) target"
  obtain w0 where w0: "new_id d w = (Inr (newid d (step w)), w0)" "ticked w w0" using ticked_tick [OF desk.rel_refl, of w] by (simp add: new_id_def)
  obtain x1 w1 where x1: "?due (sp_FirstResponseTargetSec p) w0 = (Inr x1, w1)" "ticked w0 w1"
      "?ok (sp_FirstResponseTargetSec p) w0 (step w1) x1"
    by (metis computeDue_run surj_pair)
  obtain x2 w2 where x2: "?due (warned_target p (sp_FirstResponseTargetSec p)) w1 = (Inr x2, w2)" "ticked w1 w2"
      "?ok (warned_target p (sp_FirstResponseTargetSec p)) w1 (step w2) x2"
    by (metis computeDue_run surj_pair)
  obtain x3 w3 where x3: "?due (sp_ResolutionTargetSec p) w2 = (Inr x3, w3)" "ticked w2 w3"
      "?ok (sp_ResolutionTargetSec p) w2 (step w3) x3"
    by (metis computeDue_run surj_pair)
  obtain x4 w4 where x4: "?due (warned_target p (sp_ResolutionTargetSec p)) w3 = (Inr x4, w4)" "ticked w3 w4"
      "?ok (warned_target p (sp_ResolutionTargetSec p)) w3 (step w4) x4"
    by (metis computeDue_run surj_pair)
  let ?e = "tick (tick w4)"
  have from_w: "ticked w w0" "ticked w w1" "ticked w w2" "ticked w w3"
    using w0(2) x1(2) x2(2) x3(2) by (blast intro: desk.rel_trans)+
  have to_e: "step w1 \<le> step ?e" "step w2 \<le> step ?e" "step w3 \<le> step ?e" "step w4 \<le> step ?e"
    using ticked_same(5) [OF x2(2)] ticked_same(5) [OF x3(2)] ticked_same(5) [OF x4(2)] by (simp_all add: tick_def)
  have "ticked w ?e" using from_w(4) x4(2) by (blast intro: desk.rel_trans ticked_tick)
  moreover obtain t where "start_tracking d c cv p start w = (Inr t, ?e)" "tr_PolicyID t = sp_ID p"
    "tr_ConversationID t = cv_ID cv" "tr_FirstResponseDueAt t = x1" "tr_FirstResponseWarnAt t = x2"
    "tr_ResolutionDueAt t = x3" "tr_ResolutionWarnAt t = x4"
    using w0(1) x1(1) x2(1) x3(1) x4(1) by (simp add: start_tracking_def Let_def io_defs now_io_def)
  ultimately show ?thesis
    using assms due_of_wider [OF x1(3) from_w(1) to_e(1)] due_of_wider [OF x2(3) from_w(2) to_e(2)]
      due_of_wider [OF x3(3) from_w(3) to_e(3)] due_of_wider [OF x4(3) from_w(4) to_e(4)]
    by (auto simp: tracks_def)
qed

lemma query_run:
  assumes "repo_query d c coll q w = (r, w')" and "\<And>v. ticked w v \<Longrightarrow> coll v = coll w"
  shows "ticked w w' \<and> (\<forall>x. r = Inr x \<longrightarrow> (\<exists>t. RequireTenant c = Inr t \<and> q t (coll w) = Inr x))"
proof -
  have "coll (tick w) = coll w" by (rule assms(2)) (rule ticked_tick [OF desk.rel_refl])
  with assms(1) framedD [OF desk_query assms(1)] show ?thesis
    by (auto simp: repo_query_def io_defs db_call_def map_err_def split: sum.splits option.splits)
qed

lemma Created_run:
  fixes w :: "'z sla_world_scheme"
  assumes new: "x \<in> set (trackings (snd (OnConversationCreated d c cv w)))" "x \<notin> set (trackings w)"
    and "cv_CreatedAt cv \<noteq> zero_time"
  shows "\<exists>t p. RequireTenant c = Inr t \<and> selectPolicy (filter (\<lambda>p. sp_TenantID p = t \<and> sp_Enabled p) (policies w)) cv = Some p
    \<and> tr_PolicyID x = sp_ID p \<and> tr_ConversationID x = cv_ID cv
    \<and> tracks (\<lambda>target. due_of d c (cv_ChannelID cv) (cv_CreatedAt cv) (sp_BusinessHoursOnly p) target w
        (step (snd (OnConversationCreated d c cv w)))) p x"
proof -
  obtain r1 w1 where q1: "FindByConversation d c (cv_ID cv) w = (r1, w1)" by fastforce
  have t1: "ticked w w1" using query_run q1 ticked_same(3) unfolding FindByConversation_def by blast
  then have tr1: "trackings w1 = trackings w" and po1: "policies w1 = policies w" by (rule ticked_same)+
  obtain e where r1: "r1 = Inl e"
    using new q1 tr1 by (cases r1) (auto simp: OnConversationCreated_def io_defs)
  obtain r2 w2 where q2: "ListEnabled d c w1 = (r2, w2)" by fastforce
  from query_run [of d c policies _ w1 r2 w2] q2 ticked_same(4)
  have t2: "ticked w1 w2" and enabled: "\<And>ps. r2 = Inr ps \<Longrightarrow> \<exists>t. RequireTenant c = Inr t
      \<and> ps = filter (\<lambda>p. sp_TenantID p = t \<and> sp_Enabled p) (policies w1)"
    unfolding ListEnabled_def by fastforce+
  have t12: "ticked w w2" using t1 t2 by (rule desk.rel_trans)
  then have tr2: "trackings w2 = trackings w" by (rule ticked_same)
  obtain ps where r2: "r2 = Inr ps"
    using new q1 q2 r1 tr2 by (cases r2) (auto simp: OnConversationCreated_def io_defs)
  obtain p where p: "selectPolicy ps cv = Some p"
    using new q1 q2 r1 r2 tr2 by (cases "selectPolicy ps cv") (auto simp: OnConversationCreated_def io_defs)
  obtain r3 w3 where q3: "start_tracking d c cv p (cv_CreatedAt cv) w2 = (r3, w3)" by fastforce
  from start_tracking_run [OF q3] obtain y where y: "r3 = Inr y" "ticked w2 w3" "tr_PolicyID y = sp_ID p" "tr_ConversationID y = cv_ID cv"
    "tracks (\<lambda>target. due_of d c (cv_ChannelID cv) (cv_CreatedAt cv) (sp_BusinessHoursOnly p) target w2 (step w3)) p y" by blast
  have tr3: "trackings w3 = trackings w" using ticked_same(3) [OF y(2)] tr2 by simp
  have run: "snd (OnConversationCreated d c cv w) = snd (tracking_Create d c y w3)"
    using q1 q2 q3 r1 r2 p y(1) assms(3) by (simp add: OnConversationCreated_def io_defs)
  moreover have "set (trackings (snd (tracking_Create d c y w3))) \<subseteq> insert y (set (trackings w))"
    by (auto simp: tracking_Create_def repo_write_def io_defs db_call_def insert_tracking_def insert_one_def tr3
        split: sum.splits option.splits if_splits)
  ultimately have xy: "x = y" using new by auto
  have "step w3 \<le> step (snd (tracking_Create d c y w3))"
    by (auto simp: tracking_Create_def repo_write_def io_defs db_call_def tick_def split: sum.splits option.splits)
  then have "tracks (\<lambda>target. due_of d c (cv_ChannelID cv) (cv_CreatedAt cv) (sp_BusinessHoursOnly p) target w
      (step (snd (OnConversationCreated d c cv w)))) p x"
    unfolding run xy using y(5) t12 by (auto elim!: tracks_mono intro: due_of_wider)
  with y enabled [OF r2] p po1 xy show ?thesis by auto
qed

text \<open>The arithmetic fails for a known channel only when a database call of the run fails.\<close>

definition lost_between :: "'e env_scheme \<Rightarrow> nat \<Rightarrow> nat \<Rightarrow> bool" where
  "lost_between d n m \<longleftrightarrow> (\<exists>k. n \<le> k \<and> k < m \<and> fault d k \<noteq> None)"

lemma Add_fails:
  assumes "AddBusinessDuration d c i a dur w = (Inl e, w')" and "found_resolution d c i w r"
  shows "lost_between d (step w) (step w')"
proof -
  have "fault d (step w) \<noteq> None \<and> step w' = Suc (step w) \<or> fault d (Suc (step w)) \<noteq> None \<and> step w' = Suc (Suc (step w))"
    using assms
    by (auto simp: AddBusinessDuration_def biz_resolve_def channel_FindByID_def ListAll_def found_resolution_def
        gets_io_def io_defs db_call_def find_one_def tick_def split: sum.splits option.splits if_splits prod.splits)
  then show ?thesis unfolding lost_between_def by (metis le_refl lessI less_SucI le_SucI)
qed

lemma found_ticked: "ticked w w1 \<Longrightarrow> found_resolution d c i w1 r = found_resolution d c i w r"
  by (auto simp: ticked_def found_resolution_def)

text \<open>
  A due instant on budget. A policy on wall time counts exactly its target. A policy on business
  hours has exactly its target of open time up to the instant; the wall-clock instant stands in
  only when the channel cannot be read (it is gone, or a database call of the run failed) or when
  no instant has that much open time before it.
\<close>

definition on_budget ::
  "'e biz_deps_scheme \<Rightarrow> ctx \<Rightarrow> conversation \<Rightarrow> 'z desk_world_scheme \<Rightarrow> nat \<Rightarrow> bool \<Rightarrow> int \<Rightarrow> time option \<Rightarrow> bool" where
  "on_budget d c cv w m biz target due \<longleftrightarrow>
     (let wall = cv_CreatedAt cv + target * Second;
          measured = (\<lambda>b y. \<exists>(w2 :: 'z desk_world_scheme) w3. chans w2 = chans w \<and> holidays w2 = holidays w
             \<and> BusinessDurationBetween d c (cv_ChannelID cv) (cv_CreatedAt cv) b w2 = (Inr y, w3));
          unreadable = (\<nexists>r. found_resolution d c (cv_ChannelID cv) w r) \<or> lost_between d (step w) m in
      if target \<le> 0 then due = None
      else if \<not> biz then due = Some wall
      else \<exists>t. due = Some t \<and> cv_CreatedAt cv < t \<and>
        ((\<forall>y. measured t y \<longrightarrow> y = target * Second)
         \<or> t = wall \<and> (unreadable \<or> (\<forall>b y. measured b y \<longrightarrow> y < target * Second))))"

lemma due_on_budget:
  fixes w :: "'z desk_world_scheme"
  assumes "due_of d c (cv_ChannelID cv) (cv_CreatedAt cv) biz target w m r"
    and walks: "\<forall>r. found_resolution d c (cv_ChannelID cv) w r \<longrightarrow> walk_in_order r (cv_CreatedAt cv)"
  shows "on_budget d c cv w m biz target r"
proof (cases "0 < target \<and> biz")
  case True
  let ?wall = "cv_CreatedAt cv + target * Second"
  have pos: "0 < target * Second" using True by (simp add: Second_def)
  from assms(1) True obtain w1 a w2 where w1: "ticked w w1" "step w2 \<le> m"
      and add: "AddBusinessDuration d c (cv_ChannelID cv) (cv_CreatedAt cv) (target * Second) w1 = (a, w2)"
      and r: "r = Some (case a of Inl _ \<Rightarrow> ?wall | Inr t \<Rightarrow> t)"
    by (auto simp: due_of_def)
  show ?thesis
  proof (cases a)
    case (Inl e)
    have "lost_between d (step w) m" if "found_resolution d c (cv_ChannelID cv) w f" for f
      using Add_fails [OF add [unfolded Inl]] that found_ticked [OF w1(1)] ticked_same(5) [OF w1(1)] w1(2)
      unfolding lost_between_def by (meson order_trans order_less_le_trans)
    then show ?thesis using True pos r Inl by (auto simp: on_budget_def Let_def)
  next
    case (Inr t)
    obtain f where f: "found_resolution d c (cv_ChannelID cv) w1 f" using Add_run [OF add [unfolded Inr] pos] by blast
    then have "walk_in_order f (cv_CreatedAt cv)" using walks found_ticked [OF w1(1)] by blast
    from add_then_measure [OF add [unfolded Inr] pos f this] show ?thesis
      using True r Inr ticked_same(1) [OF w1(1)] ticked_same(2) [OF w1(1)] by (auto simp: on_budget_def Let_def)
  qed
qed (use assms in \<open>auto simp: on_budget_def due_of_def Let_def\<close>)

text \<open>
  C23: Due instants are counted in business time when the policy says so. When the hook starts a
  tracking of a conversation that has a creation instant, and the days ahead are in order in the
  zone of its channel (see C25), the tracking is of a policy of the tenant and each of its four
  instants, due and warning of the first response and of the resolution, is on budget: absent
  when the target is not set; for a policy on wall time the creation plus the target; for a
  policy on business hours an instant after the creation with exactly the target of open time in
  between, where wall time stands in only if the channel could not be read during the hook or no
  instant has that much open time before it.
\<close>
theorem due_counts_business_time:
  fixes w :: "'z sla_world_scheme"
  assumes "x \<in> set (trackings (snd (OnConversationCreated d c cv w)))" "x \<notin> set (trackings w)"
    and "cv_CreatedAt cv \<noteq> zero_time"
    and "\<forall>r. found_resolution d c (cv_ChannelID cv) w r \<longrightarrow> walk_in_order r (cv_CreatedAt cv)"
  shows "\<exists>p \<in> set (policies w). tr_PolicyID x = sp_ID p \<and> ctx_tenant c = Some (sp_TenantID p)
    \<and> tracks (on_budget d c cv w (step (snd (OnConversationCreated d c cv w))) (sp_BusinessHoursOnly p)) p x"
proof -
  let ?m = "step (snd (OnConversationCreated d c cv w))"
  obtain t p where t: "RequireTenant c = Inr t"
    and p: "selectPolicy (filter (\<lambda>p. sp_TenantID p = t \<and> sp_Enabled p) (policies w)) cv = Some p"
    and x: "tr_PolicyID x = sp_ID p"
      "tracks (\<lambda>target. due_of d c (cv_ChannelID cv) (cv_CreatedAt cv) (sp_BusinessHoursOnly p) target w ?m) p x"
    using Created_run [OF assms(1-3)] by blast
  have "select_loop cv b qs = Some p \<Longrightarrow> b = Some p \<or> p \<in> set qs" for b qs
    by (induction cv b qs rule: select_loop.induct) (auto split: if_splits)
  with p have "p \<in> set (policies w)" "sp_TenantID p = t" by (fastforce simp: selectPolicy_def)+
  moreover have "tracks (on_budget d c cv w ?m (sp_BusinessHoursOnly p)) p x"
    using x(2) by (rule tracks_mono) (rule due_on_budget [OF _ assms(4)])
  ultimately show ?thesis using t x(1) by (auto simp: RequireTenant_Inr)
qed

section \<open>A check that overlaps a first response\<close>

lemma keyed_find:
  assumes "keyed w" "t \<in> set (trackings w)"
  shows "find (tracking_of (tr_TenantID t) (tr_ConversationID t)) (trackings w) = Some t"
proof -
  have "tracking_of (tr_TenantID t) (tr_ConversationID t) t" by (simp add: tracking_of_def)
  then obtain x where x: "find (tracking_of (tr_TenantID t) (tr_ConversationID t)) (trackings w) = Some x"
    using assms(2) by (metis find_None_iff not_Some_eq)
  with find_Some_in [OF x] one_of_conversation [of "trackings w" x t] assms show ?thesis
    by (auto simp: keyed_def tracking_of_def)
qed

text \<open>
  C24: A first response that arrives while a check is under way is lost. The check evaluates the
  tracking it read before the response and writes its whole state back: as soon as it has
  anything to report (a mere warning is enough) the stored first response is gone, and the
  tracking counts as unanswered again.
\<close>
theorem stale_check_erases_response:
  fixes w :: "'z sla_world_scheme"
  assumes "\<forall>n. fault d n = None" and "keyed w" and "t \<in> set (trackings w)"
    and "RequireTenant c = Inr (tr_TenantID t)" and "cv_ID cv = tr_ConversationID t"
    and "tr_FirstResponseAt t = None" and "first_alert t now \<noteq> None" and "\<not> suspended t cv2"
  shows "(\<exists>x \<in> set (trackings (snd (OnFirstResponse d c cv inst w))). tr_ID x = tr_ID t \<and> tr_FirstResponseAt x = Some inst)
    \<and> (\<exists>x \<in> set (trackings (snd (then_io (OnFirstResponse d c cv inst) (sla_evaluate d c t cv2 now) w))).
         tr_ID x = tr_ID t \<and> tr_FirstResponseAt x = None \<and> tr_FirstResponseWarned x)"
proof -
  have d: "answers d" using assms(1) by (simp add: answers_def)
  have dist: "distinct (map tr_ID (trackings w))" using assms(2) by (simp add: keyed_def)
  let ?r = "(respond_mark inst t)\<lparr>tr_UpdatedAt := clk d (Suc (step w))\<rparr>"
  obtain w1 where w1: "tracking_Update d c ?r (tick (tick w)) = (Inr (), w1)"
    "moved (tick (tick w)) [] (map (\<lambda>z. if z = t then tracking_set ?r z else z) (trackings w)) w1"
    using tracking_Update_run [OF d assms(4), of t "tick (tick w)" ?r] assms(3) dist by (auto simp: mark_keeps)
  have run1: "OnFirstResponse d c cv inst w = (Inr (), w1)"
    using w1(1) assms(4-6) keyed_find [OF assms(2,3)]
    by (simp add: OnFirstResponse_def io_defs FindByConversation_run [OF d] find_one_def now_io_def)
  have ts1: "trackings w1 = map (\<lambda>z. if z = t then ?r else z) (trackings w)"
    using w1(2) by (simp add: moved_def marks_written cong: if_cong)
  then have r: "?r \<in> set (trackings w1)" "tr_FirstResponseAt ?r = Some inst" "tr_ID ?r = tr_ID t" "tr_TenantID ?r = tr_TenantID t"
    using assms(3) by (auto simp: respond_mark_def Let_def)
  have "map tr_ID (trackings w1) = map tr_ID (trackings w)" by (simp add: ts1 mark_keeps)
  then have dist1: "distinct (map tr_ID (trackings w1))" using dist by simp
  let ?a1 = "first_alert t now" and ?a2 = "resolution_alert t now"
  let ?t1 = "mark_first ?a1 t" and ?t2 = "mark_resolution ?a2 (mark_first ?a1 t)"
  obtain w2 where w2: "alert_fire d ?t1 cv2 ''first_response'' ?a1 w1 = (Inr (), w2)" "trackings w2 = trackings w1"
    using alert_fire_run [OF d, of ?t1 cv2 "''first_response''" ?a1 w1] by (auto simp: moved_def)
  obtain w3 where w3: "alert_fire d ?t2 cv2 ''resolution'' ?a2 w2 = (Inr (), w3)" "trackings w3 = trackings w2"
    using alert_fire_run [OF d, of ?t2 cv2 "''resolution''" ?a2 w2] by (auto simp: moved_def)
  let ?y = "?t2\<lparr>tr_UpdatedAt := now\<rparr>"
  obtain w4 where w4: "tracking_Update d c ?y w3 = (Inr (), w4)"
    "moved w3 [] (map (\<lambda>z. if z = ?r then tracking_set ?y z else z) (trackings w3)) w4"
    using tracking_Update_run [OF d assms(4), of ?r w3 ?y] r dist1 by (auto simp: w2(2) w3(2))
  have "sla_evaluate d c t cv2 now w1 = (Inr (), w4)"
    using w2(1) w3(1) w4(1) assms(7,8)
    by (simp add: sla_evaluate_def suspended_def [symmetric] Let_def io_defs)
  then have run: "snd (then_io (OnFirstResponse d c cv inst) (sla_evaluate d c t cv2 now) w) = w4"
    using run1 by (simp add: io_defs)
  have "tracking_set ?y ?r \<in> set (trackings w4)" using w4(2) r(1) by (auto simp: moved_def w2(2) w3(2))
  moreover have "tr_FirstResponseAt (tracking_set ?y ?r) = None" "tr_FirstResponseWarned (tracking_set ?y ?r)"
    "tr_ID (tracking_set ?y ?r) = tr_ID t"
    using assms(6,7) r(3) by (auto simp: tracking_set_def mark_first_def mark_resolution_def split: option.split)
  ultimately have "\<exists>x \<in> set (trackings w4). tr_ID x = tr_ID t \<and> tr_FirstResponseAt x = None \<and> tr_FirstResponseWarned x"
    by blast
  moreover have "\<exists>x \<in> set (trackings w1). tr_ID x = tr_ID t \<and> tr_FirstResponseAt x = Some inst" using r by blast
  ultimately show ?thesis by (simp only: run run1 snd_conv)
qed

section \<open>Concrete instances\<close>

text \<open>
  A policy that counts business hours: three for the first response, ten for the resolution. The
  conversation starts on Thursday at 17:00, an hour before closing: the response is due on Friday
  at 10:00 (warning at 9:24) and the resolution when the desk closes at 18:00 (warning at 16:00).
\<close>

definition desk_policy :: sla_policy where
  "desk_policy = sla_policy0\<lparr>sp_BusinessHoursOnly := True, sp_FirstResponseTargetSec := 10800, sp_ResolutionTargetSec := 36000\<rparr>"

definition desk_sla :: sla_world where
  "desk_sla = sla0\<lparr>policies := [desk_policy]\<rparr>"

definition desk_tracking :: sla_tracking where
  "desk_tracking = tracking0\<lparr>tr_FirstResponseDueAt := Some (37 * Hour), tr_FirstResponseWarnAt := Some (36 * Hour + 24 * Minute),
     tr_ResolutionDueAt := Some (45 * Hour), tr_ResolutionWarnAt := Some (43 * Hour)\<rparr>"

lemma sla_resolve:
  assumes "chans w = chans desk0" "holidays w = holidays desk0"
  shows "biz_resolve sla_deps0 demo_ctx ''ch1'' w = (Inr desk_r, tick (tick w))"
proof -
  have "ParseSchedule sla_deps0 office_hours = desk_sched" "bd_loadLocation sla_deps0 ''America/Sao_Paulo'' = Some brt"
    by (simp_all add: sla_deps0_def ParseSchedule_def decodeRaw_def desk_sched_def desk_parts)
  then show ?thesis
    unfolding biz_resolve_def channel_FindByID_def ListAll_def
    by (simp add: io_defs db_call_def assms desk_tenant sla_deps0_facts desk0_def find_one_def demo_channel_def desk_r_def
        locate_def desk_week)
qed

lemma sla_add:
  assumes "chans w = chans desk0" "holidays w = holidays desk0" "0 < dur" "add_loop 4000 desk_r a dur = Some t"
  shows "AddBusinessDuration sla_deps0 demo_ctx ''ch1'' a dur w = (Inr t, tick (tick w))"
  using assms unfolding AddBusinessDuration_def maxDaysWalk_def
  by (simp add: io_defs sla_resolve desk_tenant desk_r_parts)

lemma desk_walks:
  "add_loop 4000 desk_r (20 * Hour) (10800 * Second) = Some (37 * Hour)"
  "add_loop 4000 desk_r (20 * Hour) (8640 * Second) = Some (36 * Hour + 24 * Minute)"
  "add_loop 4000 desk_r (20 * Hour) (36000 * Second) = Some (45 * Hour)"
  "add_loop 4000 desk_r (20 * Hour) (28800 * Second) = Some (43 * Hour)"
  by (simp_all add: add_loop_numeral desk_r_parts desk_start desk_day Let_def)
     (simp_all add: Hour_def Minute_def Second_def)

lemma desk_due:
  assumes "chans w = chans desk0" "holidays w = holidays desk0" "0 < target"
    and "add_loop 4000 desk_r (20 * Hour) (target * Second) = Some t"
  shows "computeDue sla_deps0 demo_ctx ''ch1'' (20 * Hour) target True w = (Inr (Some t), tick (tick w))"
  using sla_add [of w "target * Second" "20 * Hour" t] assms by (simp add: computeDue_def Let_def io_defs Second_def)

lemma desk_created: "trackings (snd (OnConversationCreated sla_deps0 demo_ctx sla_conv desk_sla)) = [desk_tracking]"
proof -
  have policy: "selectPolicy [desk_policy] sla_conv = Some desk_policy" "sp_TenantID desk_policy = ''t1''" "sp_Enabled desk_policy"
    by (simp_all add: selectPolicy_def desk_policy_def sla_policy0_def policy_Matches_def sla_conv_fields)
  have store: "chans desk_sla = chans desk0" "holidays desk_sla = holidays desk0" "policies desk_sla = [desk_policy]"
      "trackings desk_sla = []" "chans (tick w) = chans w" "trackings (tick w) = trackings w" "policies (tick w) = policies w" for w :: sla_world
    by (simp_all add: desk_sla_def sla0_def tick_def)
  have "cv_ChannelID sla_conv = ''ch1''" by (simp add: sla_conv_def demo_conv_def)
  then have "start_tracking sla_deps0 demo_ctx sla_conv desk_policy (20 * Hour) (tick (tick desk_sla))
      = (Inr desk_tracking, ((tick ^^ 11) (tick (tick desk_sla))))"
    unfolding start_tracking_def
    by (simp add: desk_policy_def sla_policy0_fields pct_def go_div_def Let_def io_defs new_id_def now_io_def
        desk_due store desk_walks sla_deps0_facts)
       (simp add: desk_tracking_def tracking0_def sla_conv_fields sla_policy0_def eval_nat_numeral)
  moreover have "20 * Hour \<noteq> zero_time" by (simp add: zero_time_def Hour_def Minute_def Second_def)
  ultimately show ?thesis
    unfolding OnConversationCreated_def FindByConversation_def ListEnabled_def repo_query_def tracking_Create_def repo_write_def
    by (simp add: io_defs db_call_def sla_deps0_facts desk_tenant find_one_def store policy sla_conv_fields
        insert_tracking_def insert_one_def eval_nat_numeral)
qed

theorem due_counts_business_time_witness:
  "trackings (snd (OnConversationCreated sla_deps0 demo_ctx sla_conv desk_sla)) = [desk_tracking]
   \<and> (\<exists>p \<in> set (policies desk_sla). tr_PolicyID desk_tracking = sp_ID p \<and> ctx_tenant demo_ctx = Some (sp_TenantID p)
     \<and> tracks (on_budget sla_deps0 demo_ctx sla_conv desk_sla (step (snd (OnConversationCreated sla_deps0 demo_ctx sla_conv desk_sla)))
         (sp_BusinessHoursOnly p)) p desk_tracking)"
proof (intro conjI due_counts_business_time)
  show "desk_tracking \<in> set (trackings (snd (OnConversationCreated sla_deps0 demo_ctx sla_conv desk_sla)))"
    "trackings (snd (OnConversationCreated sla_deps0 demo_ctx sla_conv desk_sla)) = [desk_tracking]"
    "desk_tracking \<notin> set (trackings desk_sla)"
    by (simp_all add: desk_created) (simp add: desk_sla_def sla0_def)
  show "cv_CreatedAt sla_conv \<noteq> zero_time" by (simp add: sla_conv_fields zero_time_def Hour_def Minute_def Second_def)
  have "found_resolution sla_deps0 demo_ctx ''ch1'' desk_sla desk_r"
    by (rule biz_resolve_found [OF sla_resolve]) (simp_all add: desk_sla_def sla0_def)
  then have "r = desk_r" if "found_resolution sla_deps0 demo_ctx ''ch1'' desk_sla r" for r using found_unique that by blast
  then show "\<forall>r. found_resolution sla_deps0 demo_ctx (cv_ChannelID sla_conv) desk_sla r \<longrightarrow> walk_in_order r (cv_CreatedAt sla_conv)"
    using desk_walk by (auto simp: sla_conv_def demo_conv_def)
qed

lemma stale_check_erases_response_witness:
  "(\<exists>x \<in> set (trackings (snd (OnFirstResponse sla_deps0 demo_ctx sla_conv (20 * Hour + 60 * Second) sla1))).
      tr_ID x = ''id'' \<and> tr_FirstResponseAt x = Some (20 * Hour + 60 * Second))
    \<and> (\<exists>x \<in> set (trackings (snd (then_io (OnFirstResponse sla_deps0 demo_ctx sla_conv (20 * Hour + 60 * Second))
           (sla_evaluate sla_deps0 demo_ctx tracking0 sla_conv (20 * Hour + 500 * Second)) sla1))).
         tr_ID x = ''id'' \<and> tr_FirstResponseAt x = None \<and> tr_FirstResponseWarned x)"
  using stale_check_erases_response [OF sla_deps0_facts(1), of sla1 tracking0 demo_ctx sla_conv "20 * Hour + 500 * Second" sla_conv
      "20 * Hour + 60 * Second"]
  by (simp add: sla1_fields keyed_def tracking0_fields desk_tenant sla_conv_fields suspended_def first_alert_def leg_alert_def
      tracking0_def Second_def)

end
