(* ===== verification/Holiday_Props.thy ===== *)
theory Holiday_Props
  imports Holidays Business_Props
begin

text \<open>
  What the holiday service keeps of the stored holidays, for any sequence of requests of any
  tenants: every holiday has a date that closes a day, a name and a scope that agrees with its
  channels; and no tenant's request reaches another tenant's holidays.
\<close>

section \<open>Dates\<close>

lemma digit_val_range: "digit_val c = Some v \<Longrightarrow> 0 \<le> v \<and> v \<le> 9 \<and> digit_char v = c"
proof -
  assume "digit_val c = Some v"
  then have n: "48 \<le> (of_char c :: nat)" "(of_char c :: nat) \<le> 57" "v = int (of_char c) - 48"
    by (auto simp: digit_val_def Let_def split: if_splits)
  then have "nat v + 48 = of_char c" by simp
  then have "digit_char v = c" by (simp add: digit_char_def)
  with n show ?thesis by simp
qed

lemma digits_val2:
  "digits_val acc [a, b] = Some v \<longleftrightarrow> (\<exists>x y. digit_val a = Some x \<and> digit_val b = Some y \<and> v = (acc * 10 + x) * 10 + y)"
  by (auto split: option.splits)

lemma digits_val4:
  "digits_val 0 [a, b, c, e] = Some v \<longleftrightarrow> (\<exists>u. digits_val 0 [a, b] = Some u \<and> digits_val u [c, e] = Some v)"
  by (auto split: option.splits)

lemma fmt2_digits: "digits_val 0 [a, b] = Some v \<Longrightarrow> fmt2 v = [a, b]"
proof -
  assume "digits_val 0 [a, b] = Some v"
  then obtain x y where xy: "digit_val a = Some x" "digit_val b = Some y" "v = x * 10 + y"
    by (auto simp: digits_val2 simp del: digits_val.simps)
  with digit_val_range [of a x] digit_val_range [of b y] have "v div 10 = x" "v mod 10 = y" "digit_char x = a" "digit_char y = b"
    by auto
  then show ?thesis by (simp add: fmt2_def)
qed

lemma length10: "length s = 10 \<Longrightarrow> \<exists>a b c e f g h i j k. s = [a, b, c, e, f, g, h, i, j, k]"
  by (simp add: numeral_eq_Suc length_Suc_conv) blast

text \<open>A date that parses is printed back as it was.\<close>

lemma format_splitDate: "splitDate s = Some ymd \<Longrightarrow> format_date ymd = s"
proof -
  assume p: "splitDate s = Some ymd"
  then have "length s = 10" by (auto simp: splitDate_def split: if_splits)
  from length10 [OF this] obtain a b c e f g h i j k where s: "s = [a, b, c, e, f, g, h, i, j, k]"
    by (elim exE) blast
  obtain y m dd where ymd: "ymd = (y, m, dd)" by (cases ymd)
  from p have f: "f = CHR ''-''" "i = CHR ''-''" and y: "digits_val 0 [a, b, c, e] = Some y"
    and m: "digits_val 0 [g, h] = Some m" and dd: "digits_val 0 [j, k] = Some dd"
    by (auto simp: splitDate_def s ymd simp del: digits_val.simps split: if_splits option.splits)
  from y obtain u where u: "digits_val 0 [a, b] = Some u" and v: "digits_val u [c, e] = Some y" by (auto simp: digits_val4 simp del: digits_val.simps)
  from v obtain p q where pq: "digit_val c = Some p" "digit_val e = Some q" "y = (u * 10 + p) * 10 + q"
    by (auto simp: digits_val2 simp del: digits_val.simps)
  have "0 \<le> p" "p \<le> 9" "0 \<le> q" "q \<le> 9" using digit_val_range pq(1,2) by blast+
  moreover have "y = u * 100 + (p * 10 + q)" using pq(3) by simp
  ultimately have "y div 100 = u" "y mod 100 = p * 10 + q" by auto
  moreover have "digits_val 0 [c, e] = Some (p * 10 + q)" using pq(1,2) by simp
  ultimately show ?thesis
    using fmt2_digits [OF u] fmt2_digits [OF m] fmt2_digits [OF dd] fmt2_digits
    by (simp add: ymd format_date_def s f del: digits_val.simps)
qed

section \<open>Well-formed holidays\<close>

definition holiday_ok :: "holiday \<Rightarrow> bool" where
  "holiday_ok h \<longleftrightarrow> splitDate (ho_Date h) \<noteq> None \<and> ho_Name h \<noteq> []
     \<and> (ho_Scope h = ScopeAllChannels \<and> ho_ChannelIDs h = []
        \<or> ho_Scope h = ScopeChannels \<and> ho_ChannelIDs h \<noteq> [] \<and> [] \<notin> set (ho_ChannelIDs h))"

lemma normalizeDate_ok: "normalizeDate s = Inr date \<Longrightarrow> splitDate date \<noteq> None"
  by (auto simp: normalizeDate_def format_splitDate split: option.splits)

lemma resolveScope_ok:
  "resolveScope chs = (s, ids) \<Longrightarrow> s = ScopeAllChannels \<and> ids = [] \<or> s = ScopeChannels \<and> ids \<noteq> [] \<and> [] \<notin> set ids"
  by (auto simp: resolveScope_def Let_def split: if_splits)

datatype holiday_request = NewHoliday create_holiday | EditHoliday ident update_holiday | DropHoliday ident

fun serve_holiday :: "'e env_scheme \<Rightarrow> ctx \<Rightarrow> holiday_request \<Rightarrow> ('z desk_world_scheme, unit) io" where
  "serve_holiday d c (NewHoliday cmd) = then_io (holiday_service_Create d c cmd) (return_io ())"
| "serve_holiday d c (EditHoliday i cmd) = then_io (holiday_service_Update d c i cmd) (return_io ())"
| "serve_holiday d c (DropHoliday i) = holiday_service_Delete d c i"

fun serve_holidays :: "'e env_scheme \<Rightarrow> (ctx \<times> holiday_request) list \<Rightarrow> 'z desk_world_scheme \<Rightarrow> 'z desk_world_scheme" where
  "serve_holidays d [] w = w"
| "serve_holidays d ((c, rq) # rqs) w = serve_holidays d rqs (snd (serve_holiday d c rq w))"

text \<open>
  What one request may do: keep the store well formed, and leave the holidays of every tenant
  but its own.
\<close>

definition of_tenant :: "ident \<Rightarrow> 'z desk_world_scheme \<Rightarrow> holiday list" where
  "of_tenant t w = filter (\<lambda>h. ho_TenantID h = t) (holidays w)"

interpretation cal: tenant_store ho_ID ho_TenantID holiday_set holidays
  "\<lambda>hs w. w\<lparr>holidays := hs\<rparr> :: 'z desk_world_scheme" holiday_ok
  by unfold_locales (simp add: holiday_ok_def holiday_set_def)

lemma cal_Create: "holiday_ok h \<Longrightarrow> RequireTenant c = Inr (ho_TenantID h) \<Longrightarrow> framed (cal.kept c) (holiday_Create d c h)"
  unfolding holiday_Create_def by (rule cal.kept_insert)

lemma cal_Update: "holiday_ok h \<Longrightarrow> framed (cal.kept c) (holiday_Update d c h)"
  unfolding holiday_Update_def by (rule cal.kept_update) (simp_all add: holiday_by_def)

lemma cal_Delete: "framed (cal.kept c) (holiday_Delete d c i)"
  unfolding holiday_Delete_def by (rule cal.kept_delete) (simp add: holiday_by_def)

lemma cal_service_Create: "framed (cal.kept c) (holiday_service_Create d c cmd)"
  unfolding holiday_service_Create_def Let_def
proof (intro cal.kept.fr_bind_lift cal.kept.fr_then_guard cal.kept.fr_bind cal.kept_now cal.kept_new_id)
  fix t date now i
  assume t: "RequireTenant c = Inr t" and date: "normalizeDate (xh_Date cmd) = Inr date" and nm: "trim_space (xh_Name cmd) \<noteq> []"
  show "framed (cal.kept c) (case resolveScope (xh_ChannelIDs cmd) of (scope, chs) \<Rightarrow>
      then_io (holiday_Create d c \<lparr>ho_ID = i, ho_TenantID = t, ho_Date = date, ho_Name = trim_space (xh_Name cmd),
          ho_Scope = scope, ho_ChannelIDs = chs, ho_Recurring = (xh_Recurring cmd = Some True),
          ho_CreatedAt = now, ho_UpdatedAt = now\<rparr>)
        (return_io \<lparr>ho_ID = i, ho_TenantID = t, ho_Date = date, ho_Name = trim_space (xh_Name cmd),
          ho_Scope = scope, ho_ChannelIDs = chs, ho_Recurring = (xh_Recurring cmd = Some True),
          ho_CreatedAt = now, ho_UpdatedAt = now\<rparr>))"
    using normalizeDate_ok [OF date] nm resolveScope_ok [of "xh_ChannelIDs cmd"] t
    by (auto simp: holiday_ok_def split: prod.split intro!: cal.kept.fr_then cal.kept.fr_return cal_Create)
qed

text \<open>The holiday an update writes is well formed when the one it read was.\<close>

lemmas cal_bind_found = cal.kept_bind_found [where p = "\<lambda>t. holiday_by t i" for i, folded holiday_FindByID_def]

lemma patch_name_ok: "patch_name n (\<lambda>h n. h\<lparr>ho_Name := n\<rparr>) h = Inr h' \<Longrightarrow> holiday_ok h \<Longrightarrow> holiday_ok h'"
  by (auto simp: patch_name_def holiday_ok_def split: option.splits if_splits)

lemma cal_service_Update: "framed (cal.kept c) (holiday_service_Update d c i cmd)"
proof -
  have date: "framed (cal.kept c) (case o1 of None \<Rightarrow> return_io h
        | Some s \<Rightarrow> bind_io (lift_res (normalizeDate s)) (\<lambda>date. return_io (h\<lparr>ho_Date := date\<rparr>)))" for o1 and h :: holiday
    by (cases o1) (auto intro: cal.kept.fr_bind cal.kept.fr_lift cal.kept.fr_return)
  have dated: "returns (case o1 of None \<Rightarrow> return_io h
        | Some s \<Rightarrow> bind_io (lift_res (normalizeDate s)) (\<lambda>date. return_io (h\<lparr>ho_Date := date\<rparr>))) holiday_ok"
    if "holiday_ok h" for o1 and h :: holiday
    using that by (cases o1) (auto simp: holiday_ok_def normalizeDate_ok
        intro!: returns_return returns_bind_returns [OF returns_lift])
  have scoped: "holiday_ok (case o1 of None \<Rightarrow> h | Some chs \<Rightarrow> (case resolveScope chs of (s, cs) \<Rightarrow> h\<lparr>ho_Scope := s, ho_ChannelIDs := cs\<rparr>))"
    if "holiday_ok h" for o1 h
    using that by (auto simp: holiday_ok_def dest!: resolveScope_ok split: option.split prod.split)
  have recur: "holiday_ok (case o1 of None \<Rightarrow> h | Some r \<Rightarrow> h\<lparr>ho_Recurring := r\<rparr>)"
    if "holiday_ok h" for o1 h
    using that by (auto simp: holiday_ok_def split: option.split)
  have tail: "framed (cal.kept c) (bind_io (now_io d) (\<lambda>now. then_io (holiday_Update d c (h\<lparr>ho_UpdatedAt := now\<rparr>))
      (return_io (h\<lparr>ho_UpdatedAt := now\<rparr>))))" if "holiday_ok h" for h
    using that by (intro cal.kept.fr_bind cal.kept_now cal.kept.fr_then cal_Update cal.kept.fr_return) (simp add: holiday_ok_def)
  show ?thesis
    unfolding holiday_service_Update_def Let_def
    by (rule cal.kept.fr_then [OF cal.kept.fr_lift], rule cal_bind_found, rule cal.kept.fr_bind_returns [OF date],
        rule dated, assumption, rule cal.kept.fr_bind_lift, rule tail)
       (rule recur, rule scoped, rule patch_name_ok)
qed

lemma cal_service_Delete: "framed (cal.kept c) (holiday_service_Delete d c i)"
  unfolding holiday_service_Delete_def holiday_FindByID_def
  by (intro cal.kept.fr_then cal.kept.fr_lift cal.kept_query cal_Delete)

lemma cal_serve: "framed (cal.kept c) (serve_holiday d c rq)"
  by (cases rq) (auto intro: cal.kept.fr_then cal.kept.fr_return cal_service_Create cal_service_Update cal_service_Delete)

text \<open>
  C29: The holidays a tenant keeps are always usable. Whatever requests to create, change or delete
  holidays are served, for any tenants and with any failures of the database, every stored
  holiday has a date that parses (so that \<open>FallsOn\<close> can match), a name, and the scope that agrees
  with its channels; and the holidays of a tenant none of whose requests was served are as they
  were.
\<close>
theorem holidays_stay_well_formed:
  assumes "distinct (map ho_ID (holidays w))" and "\<forall>h \<in> set (holidays w). holiday_ok h"
  shows "(\<forall>h \<in> set (holidays (serve_holidays d rqs w)). holiday_ok h)
    \<and> (\<forall>t. (\<forall>c rq. (c, rq) \<in> set rqs \<longrightarrow> ctx_tenant c \<noteq> Some t) \<longrightarrow>
         of_tenant t (serve_holidays d rqs w) = of_tenant t w)"
  using cal.kept_requests [where run = "serve_holidays d" and serve = "serve_holiday d" and w = w and rqs = rqs] assms
  cal_serve
  by (auto simp: cal.all_ok_def cal.owned_def of_tenant_def)

lemma holidays_stay_well_formed_witness:
  "of_tenant ''t2'' (serve_holidays desk_deps [(demo_ctx, DropHoliday ''h1''), (demo_ctx, NewHoliday
      \<lparr>xh_Date = ''1970-01-01'', xh_Name = ''New Year'', xh_ChannelIDs = [], xh_Recurring = None\<rparr>)] desk0) = of_tenant ''t2'' desk0"
proof -
  have "holiday_ok (hd (holidays desk0))"
  proof -
    have "splitDate ''1970-12-25'' = Some (1970, 12, 25)" by code_simp
    then show ?thesis by (simp add: holiday_ok_def desk0_def)
  qed
  then have "distinct (map ho_ID (holidays desk0))" "\<forall>h \<in> set (holidays desk0). holiday_ok h"
    by (simp_all add: desk0_def)
  note * = holidays_stay_well_formed [OF this]
  have "\<forall>c rq. (c, rq) \<in> set [(demo_ctx, DropHoliday ''h1''), (demo_ctx, NewHoliday
      \<lparr>xh_Date = ''1970-01-01'', xh_Name = ''New Year'', xh_ChannelIDs = [], xh_Recurring = None\<rparr>)] \<longrightarrow>
    ctx_tenant c \<noteq> Some ''t2''"
    by (simp add: demo_ctx_def)
  with * show ?thesis by blast
qed

end
