(* ===== verification/Go_Text.thy ===== *)
theory Go_Text
  imports Go_Strings
begin

text \<open>
  What the services use of packages \<open>strconv\<close> and \<open>net/url\<close>: decimal numerals, and the scheme
  and the host \<open>url.Parse\<close> finds, or none when it refuses the string.
\<close>

section \<open>Trimming twice\<close>

lemma strip_all_drop: "\<exists>k. strip_all ps s = drop k s"
proof (induction ps s rule: strip_all.induct)
  case (1 ps s)
  show ?case
  proof (cases "strip_one ps s")
    case None
    then have "strip_all ps s = drop 0 s" by (simp add: strip_all_fixed)
    then show ?thesis by blast
  next
    case (Some t)
    then have "\<exists>n. t = drop n s" by (auto simp: strip_one_def)
    with 1 [OF Some] Some show ?thesis by (auto simp: strip_all.simps [of ps s])
  qed
qed

lemma strip_one_take: "strip_one ps s = None \<Longrightarrow> strip_one ps (take k s) = None"
proof -
  assume none: "strip_one ps s = None"
  have "take (length p) s = p" if "take (length p) (take k s) = p" for p
  proof -
    have "length p = min (length p) (length (take k s))" using arg_cong [OF that, of length] by simp
    then have "length p \<le> k" by simp
    with that show ?thesis by (simp add: take_take min_def)
  qed
  with none show ?thesis by (auto simp: strip_one_def find_None_iff)
qed

lemma trim_space_idem [simp]: "trim_space (trim_space s) = trim_space s"
proof -
  define s1 where "s1 = strip_all space_seqs s"
  define r where "r = strip_all (map rev space_seqs) (rev s1)"
  obtain k where "r = drop k (rev s1)" using strip_all_drop r_def by blast
  then have "rev r = take (length s1 - k) s1" by (simp add: rev_drop)
  then have "strip_one space_seqs (rev r) = None"
    using strip_one_take [OF strip_one_strip_all [of space_seqs s]] by (simp add: s1_def)
  moreover have "strip_one (map rev space_seqs) r = None" by (simp add: r_def strip_one_strip_all)
  ultimately show ?thesis by (simp add: trim_space_def [of s] Let_def flip: s1_def r_def) (simp add: trim_space_def strip_all_fixed)
qed

section \<open>Numerals\<close>

fun nat_digits :: "nat \<Rightarrow> string" where
  "nat_digits n = (if n < 10 then [char_of (48 + n)] else nat_digits (n div 10) @ [char_of (48 + n mod 10)])"

declare nat_digits.simps [simp del]

definition itoa :: "int \<Rightarrow> string" where
  "itoa n = (if n < 0 then CHR ''-'' # nat_digits (nat (- n)) else nat_digits (nat n))"

section \<open>Strings\<close>

definition byte :: "char \<Rightarrow> nat" where
  "byte c = of_char c"

definition is_digit :: "char \<Rightarrow> bool" where
  "is_digit c \<longleftrightarrow> 48 \<le> byte c \<and> byte c \<le> 57"

definition is_letter :: "char \<Rightarrow> bool" where
  "is_letter c \<longleftrightarrow> 65 \<le> byte c \<and> byte c \<le> 90 \<or> 97 \<le> byte c \<and> byte c \<le> 122"

definition ascii_lower :: "string \<Rightarrow> string" where
  "ascii_lower = map (\<lambda>c. if 65 \<le> byte c \<and> byte c \<le> 90 then char_of (byte c + 32) else c)"

text \<open>\<open>strings.Cut\<close> at a byte, and the split at its last occurrence.\<close>

definition cut :: "char \<Rightarrow> string \<Rightarrow> string \<times> string option" where
  "cut c s = (takeWhile (\<lambda>x. x \<noteq> c) s,
     if c \<in> set s then Some (tl (dropWhile (\<lambda>x. x \<noteq> c) s)) else None)"

definition last_cut :: "char \<Rightarrow> string \<Rightarrow> (string \<times> string) option" where
  "last_cut c s = (case cut c (rev s) of (a, None) \<Rightarrow> None | (a, Some b) \<Rightarrow> Some (rev b, rev a))"

fun before_sub :: "string \<Rightarrow> string \<Rightarrow> (string \<times> string) option" where
  "before_sub p [] = None"
| "before_sub p (c # s) = (if has_prefix (c # s) p then Some ([], c # s)
     else map_option (\<lambda>(a, b). (c # a, b)) (before_sub p s))"

section \<open>Escapes\<close>

datatype encoding = EncodePath | EncodeUserPassword | EncodeHost | EncodeZone | EncodeFragment

definition hex_val :: "char \<Rightarrow> nat option" where
  "hex_val c = (if is_digit c then Some (byte c - 48)
     else if 97 \<le> byte c \<and> byte c \<le> 102 then Some (byte c - 87)
     else if 65 \<le> byte c \<and> byte c \<le> 70 then Some (byte c - 55) else None)"

text \<open>\<open>shouldEscape\<close> in the modes that ask it.\<close>

definition host_byte :: "char \<Rightarrow> bool" where
  "host_byte c \<longleftrightarrow> is_letter c \<or> is_digit c \<or> c \<in> set ''!$&()*+,;=:[]<>-_.~'' \<or> byte c = 39 \<or> byte c = 34"

fun unescape :: "encoding \<Rightarrow> string \<Rightarrow> string option" where
  "unescape m [] = Some []"
| "unescape m (c # s) = (if c = CHR ''%'' then
     (case s of a # b # r \<Rightarrow>
        (case (hex_val a, hex_val b) of (Some x, Some y) \<Rightarrow>
           if m = EncodeHost \<and> x < 8 \<and> \<not> (a = CHR ''2'' \<and> b = CHR ''5'') then None
           else if m = EncodeZone \<and> \<not> (a = CHR ''2'' \<and> b = CHR ''5'') \<and> 16 * x + y \<noteq> 32
                   \<and> \<not> host_byte (char_of (16 * x + y)) then None
           else map_option (Cons (char_of (16 * x + y))) (unescape m r)
         | _ \<Rightarrow> None)
      | _ \<Rightarrow> None)
     else if (m = EncodeHost \<or> m = EncodeZone) \<and> byte c < 128 \<and> \<not> host_byte c then None
     else map_option (Cons c) (unescape m s))"

section \<open>Parse\<close>

text \<open>\<open>getScheme\<close>: none on a missing scheme name, otherwise the scheme (maybe empty) and the rest.\<close>

fun scheme_from :: "string \<Rightarrow> string \<Rightarrow> string \<Rightarrow> (string \<times> string) option" where
  "scheme_from raw acc [] = Some ([], raw)"
| "scheme_from raw acc (c # s) =
    (if is_letter c then scheme_from raw (acc @ [c]) s
     else if is_digit c \<or> c \<in> set ''+-.'' then
       (if acc = [] then Some ([], raw) else scheme_from raw (acc @ [c]) s)
     else if c = CHR '':'' then (if acc = [] then None else Some (acc, s))
     else Some ([], raw))"

definition getScheme :: "string \<Rightarrow> (string \<times> string) option" where
  "getScheme raw = scheme_from raw [] raw"

definition validOptionalPort :: "string \<Rightarrow> bool" where
  "validOptionalPort port \<longleftrightarrow> port = [] \<or> hd port = CHR '':'' \<and> list_all is_digit (tl port)"

definition parseHost :: "string \<Rightarrow> string option" where
  "parseHost host =
    (if has_prefix host ''['' then
       (case last_cut (CHR '']'') host of
          None \<Rightarrow> None
        | Some (a, port) \<Rightarrow>
            if \<not> validOptionalPort port then None
            else (case before_sub ''%25'' a of
                None \<Rightarrow> unescape EncodeHost host
              | Some (h, zone) \<Rightarrow> Option.bind (unescape EncodeHost h) (\<lambda>h1.
                  Option.bind (unescape EncodeZone zone) (\<lambda>h2.
                  map_option (\<lambda>h3. h1 @ h2 @ h3) (unescape EncodeHost (CHR '']'' # port))))))
     else (case last_cut (CHR '':'') host of
          Some (a, port) \<Rightarrow> if validOptionalPort (CHR '':'' # port) then unescape EncodeHost host else None
        | None \<Rightarrow> unescape EncodeHost host))"

definition validUserinfo :: "string \<Rightarrow> bool" where
  "validUserinfo s = list_all (\<lambda>c. is_letter c \<or> is_digit c \<or> c \<in> set ''-._:~!$&()*+,;=%@'' \<or> byte c = 39) s"

definition parseAuthority :: "string \<Rightarrow> string option" where
  "parseAuthority authority = (case last_cut (CHR ''@'') authority of
     None \<Rightarrow> parseHost authority
   | Some (user, h) \<Rightarrow> Option.bind (parseHost h) (\<lambda>host.
       if \<not> validUserinfo user then None
       else (case cut (CHR '':'') user of
           (name, None) \<Rightarrow> Option.bind (unescape EncodeUserPassword name) (\<lambda>_. Some host)
         | (name, Some pass) \<Rightarrow> Option.bind (unescape EncodeUserPassword name) (\<lambda>_.
             Option.bind (unescape EncodeUserPassword pass) (\<lambda>_. Some host)))))"

text \<open>The path after the scheme, without the query.\<close>

definition without_query :: "string \<Rightarrow> string" where
  "without_query s = fst (cut (CHR ''?'') s)"

definition span_slash :: "string \<Rightarrow> string \<times> string" where
  "span_slash s = (takeWhile (\<lambda>c. c \<noteq> CHR ''/'') s, dropWhile (\<lambda>c. c \<noteq> CHR ''/'') s)"

definition parse_rest :: "string \<Rightarrow> string \<Rightarrow> (string \<times> string) option" where
  "parse_rest scheme rest =
    (if \<not> has_prefix rest ''/'' \<and> scheme \<noteq> [] then Some (scheme, [])
     else if \<not> has_prefix rest ''/'' \<and> CHR '':'' \<in> set (fst (cut (CHR ''/'') rest)) then None
     else if (scheme \<noteq> [] \<or> \<not> has_prefix rest ''///'') \<and> has_prefix rest ''//'' then
       (let (authority, path) = span_slash (drop 2 rest) in
        Option.bind (parseAuthority authority) (\<lambda>host.
        Option.bind (unescape EncodePath path) (\<lambda>_. Some (scheme, host))))
     else Option.bind (unescape EncodePath rest) (\<lambda>_. Some (scheme, [])))"

definition url_Parse :: "string \<Rightarrow> (string \<times> string) option" where
  "url_Parse raw = (case cut (CHR ''#'') raw of (u, frag) \<Rightarrow>
     if list_ex (\<lambda>c. byte c < 32 \<or> byte c = 127) u then None
     else Option.bind (if u = ''*'' then Some ([], []) else
        Option.bind (getScheme u) (\<lambda>(scheme, rest). parse_rest (ascii_lower scheme) (without_query rest)))
      (\<lambda>r. case frag of None \<Rightarrow> Some r
         | Some f \<Rightarrow> Option.bind (unescape EncodeFragment f) (\<lambda>_. Some r)))"

end
