(* ===== verification/Webhooks.thy ===== *)
theory Webhooks
  imports Redis Repo Go_Text "HOL-Library.Word"
begin

text \<open>
  \<open>domain/webhooks\<close>: the tenant's webhook subscriptions (service/subscription_service.go), the
  dispatcher that turns an internal event into one delivery per matching subscription
  (service/dispatcher.go) and the delivery worker with its retries, backoff and dead letters
  (service/delivery_service.go), on the repositories of
  \<open>infra/database/mongodb/repositories/webhooks\<close> and the sender, queue and limiter of
  \<open>infra/webhooks\<close>. Cryptography, the JSON encoder and the receivers are parameters.
\<close>

section \<open>Events\<close>

definition SupportedEvents :: "string list" where
  "SupportedEvents = [''conversation_created'', ''conversation_status_changed'', ''conversation_assigned'',
     ''conversation_transferred'', ''conversation_updated'', ''message_created'', ''message_updated'',
     ''contact_created'', ''contact_updated'', ''sla_breached'']"

definition internalToWire :: "(string \<times> string) list" where
  "internalToWire = [(''conversation.created'', ''conversation_created''),
     (''conversation.closed'', ''conversation_status_changed''),
     (''conversation.assigned'', ''conversation_assigned''),
     (''conversation.transferred'', ''conversation_transferred''),
     (''conversation.updated'', ''conversation_updated''), (''message.created'', ''message_created''),
     (''message.updated'', ''message_updated''), (''contact.created'', ''contact_created''),
     (''contact.updated'', ''contact_updated''), (''sla.breached'', ''sla_breached'')]"

definition WireEvent :: "string \<Rightarrow> string option" where
  "WireEvent internal = map_of internalToWire internal"

definition IsSupportedEvent :: "string \<Rightarrow> bool" where
  "IsSupportedEvent e \<longleftrightarrow> e \<in> set SupportedEvents"

definition managedChannelEvents :: "string list" where
  "managedChannelEvents = take 7 SupportedEvents @ [''group_sync_requested'', ''templates_sync_requested'']"

section \<open>Entities\<close>

record webhook_subscription =
  ws_ID :: ident
  ws_TenantID :: ident
  ws_Name :: string
  ws_URL :: string
  ws_Events :: "string list"
  ws_Scopes :: "ident list"
  ws_Secret :: string
  ws_Enabled :: bool
  ws_RateLimitPerMin :: int
  ws_OwnedByChannelID :: ident
  ws_CreatedBy :: ident
  ws_CreatedAt :: time
  ws_UpdatedAt :: time

definition Managed :: "webhook_subscription \<Rightarrow> bool" where
  "Managed s \<longleftrightarrow> ws_OwnedByChannelID s \<noteq> []"

definition SubscribesTo :: "webhook_subscription \<Rightarrow> string \<Rightarrow> bool" where
  "SubscribesTo s event \<longleftrightarrow> ws_Enabled s \<and> event \<in> set (ws_Events s)"

text \<open>The delivery statuses (those of a message have the shorter names).\<close>

definition HookPending :: string where [go_const]: "HookPending = ''pending''"
definition HookDelivered :: string where [go_const]: "HookDelivered = ''delivered''"
definition HookRetrying :: string where [go_const]: "HookRetrying = ''retrying''"
definition HookFailed :: string where [go_const]: "HookFailed = ''failed''"
definition HookDead :: string where [go_const]: "HookDead = ''dead''"

definition IsTerminal :: "string \<Rightarrow> bool" where
  "IsTerminal s \<longleftrightarrow> s = HookDelivered \<or> s = HookDead"

record webhook_delivery =
  wd_ID :: ident
  wd_TenantID :: ident
  wd_WebhookID :: ident
  wd_Event :: string
  wd_Payload :: string
  wd_Status :: string
  wd_Attempts :: int
  wd_LastError :: string
  wd_NextRetryAt :: "time option"
  wd_CreatedAt :: time
  wd_UpdatedAt :: time

section \<open>The outside\<close>

text \<open>One request to a receiver, one task of the queue (delay in seconds).\<close>

record hook_request =
  rq_URL :: string
  rq_Event :: string
  rq_Timestamp :: string
  rq_Signature :: string
  rq_DeliveryID :: ident
  rq_Body :: string

record hook_task =
  ht_TenantID :: ident
  ht_DeliveryID :: ident
  ht_Delay :: int

text \<open>
  \<open>he_Seal\<close> and \<open>he_Open\<close> are AES-GCM with base64, \<open>he_HMAC\<close> the hexadecimal HMAC-SHA256 of a key
  and a message, \<open>he_Rand\<close> the hexadecimal random bytes drawn at a step, \<open>he_Marshal\<close> the JSON
  encoder on an envelope (identifier, event, instant, data), \<open>he_Respond\<close> what the network
  answers a request at a step: an error or a status code. \<open>he_Usage\<close> is the optional port to
  the automation rules: an error, or the name of the rule that uses a webhook.
\<close>

record hook_env = env +
  he_Seal :: "nat \<Rightarrow> string \<Rightarrow> string res"
  he_Open :: "string \<Rightarrow> string res"
  he_HMAC :: "string \<Rightarrow> string \<Rightarrow> string"
  he_Rand :: "nat \<Rightarrow> string"
  he_Marshal :: "ident \<Rightarrow> string \<Rightarrow> time \<Rightarrow> gany \<Rightarrow> string res"
  he_Respond :: "nat \<Rightarrow> hook_request \<Rightarrow> string + int"
  he_Usage :: "(nat \<Rightarrow> ident \<Rightarrow> string option res) option"
  he_HasLimiter :: bool
  he_HasEnqueuer :: bool

record hook_world = ops_world +
  subs :: "webhook_subscription list"
  deliveries :: "webhook_delivery list"
  hook_tasks :: "hook_task list"
  requests :: "hook_request list"

text \<open>\<open>infra/secrets/cipher.go\<close>: the empty string stays empty.\<close>

definition Encrypt :: "'e hook_env_scheme \<Rightarrow> string \<Rightarrow> ('z base_world_scheme, string) io" where
  "Encrypt d plaintext = (if plaintext = [] then return_io []
     else (\<lambda>w. (he_Seal d (step w) plaintext, tick w)))"

definition Decrypt :: "'e hook_env_scheme \<Rightarrow> string \<Rightarrow> string res" where
  "Decrypt d encoded = (if encoded = [] then Inr [] else he_Open d encoded)"

definition enqueue :: "'e env_scheme \<Rightarrow> hook_task \<Rightarrow> ('z hook_world_scheme, unit) io" where
  "enqueue d t = (\<lambda>w. case fault d (step w) of
     Some e \<Rightarrow> (Inl (PlainError e), tick w)
   | None \<Rightarrow> (Inr (), (tick w)\<lparr>hook_tasks := hook_tasks w @ [t]\<rparr>))"

definition EnqueueDeliver :: "'e env_scheme \<Rightarrow> ident \<Rightarrow> ident \<Rightarrow> ('z hook_world_scheme, unit) io" where
  "EnqueueDeliver d t i = enqueue d \<lparr>ht_TenantID = t, ht_DeliveryID = i, ht_Delay = 0\<rparr>"

definition EnqueueRetry :: "'e env_scheme \<Rightarrow> ident \<Rightarrow> ident \<Rightarrow> int \<Rightarrow> ('z hook_world_scheme, unit) io" where
  "EnqueueRetry d t i delay = enqueue d \<lparr>ht_TenantID = t, ht_DeliveryID = i, ht_Delay = delay\<rparr>"

definition Sign :: "'e hook_env_scheme \<Rightarrow> string \<Rightarrow> string \<Rightarrow> string \<Rightarrow> string" where
  "Sign d secret timestamp body = he_HMAC d secret (timestamp @ ''.'' @ body)"

definition request_of :: "'e hook_env_scheme \<Rightarrow> webhook_subscription \<Rightarrow> webhook_delivery \<Rightarrow> time \<Rightarrow> hook_request" where
  "request_of d sub del now = (let ts = itoa (now div Second) in
     \<lparr>rq_URL = ws_URL sub, rq_Event = wd_Event del, rq_Timestamp = ts,
      rq_Signature = ''sha256='' @ Sign d (ws_Secret sub) ts (wd_Payload del),
      rq_DeliveryID = wd_ID del, rq_Body = wd_Payload del\<rparr>)"

text \<open>\<open>Sender.Send\<close>: the status code of a completed request.\<close>

definition Send :: "'e hook_env_scheme \<Rightarrow> webhook_subscription \<Rightarrow> webhook_delivery \<Rightarrow> ('z hook_world_scheme, int) io" where
  "Send d sub del = bind_io (now_io d) (\<lambda>now w. let rq = request_of d sub del now in
     ((case he_Respond d (step w) rq of Inl e \<Rightarrow> Inl (PlainError e) | Inr code \<Rightarrow> Inr code),
      (tick w)\<lparr>requests := requests w @ [rq]\<rparr>))"

section \<open>Subscription repository\<close>

definition sub_by :: "ident \<Rightarrow> ident \<Rightarrow> webhook_subscription \<Rightarrow> bool" where
  "sub_by t i s \<longleftrightarrow> ws_ID s = i \<and> ws_TenantID s = t"

abbreviation put_subs :: "webhook_subscription list \<Rightarrow> 'z hook_world_scheme \<Rightarrow> 'z hook_world_scheme" where
  "put_subs ss w \<equiv> w\<lparr>subs := ss\<rparr>"

definition sealed :: "string \<Rightarrow> ('w, 'a) io \<Rightarrow> ('w, 'a) io" where
  "sealed msg m = bind_io (try_io m) (\<lambda>r. case r of
     Inl e \<Rightarrow> throw_io (Wrap (Internal msg) e) | Inr x \<Rightarrow> return_io x)"

text \<open>A stored subscription holds the ciphertext of its secret.\<close>

definition toModel :: "webhook_subscription \<Rightarrow> string \<Rightarrow> webhook_subscription" where
  "toModel s enc = s\<lparr>ws_Secret := enc\<rparr>"

definition toEntity :: "'e hook_env_scheme \<Rightarrow> webhook_subscription \<Rightarrow> webhook_subscription res" where
  "toEntity d m = (case Decrypt d (ws_Secret m) of
     Inl e \<Rightarrow> Inl (Wrap (Internal ''decrypt secret'') e) | Inr s \<Rightarrow> Inr (m\<lparr>ws_Secret := s\<rparr>))"

primrec decodeAll :: "'e hook_env_scheme \<Rightarrow> webhook_subscription list \<Rightarrow> webhook_subscription list res" where
  "decodeAll d [] = Inr []"
| "decodeAll d (m # ms) = (case toEntity d m of Inl e \<Rightarrow> Inl e
     | Inr s \<Rightarrow> (case decodeAll d ms of Inl e \<Rightarrow> Inl e | Inr ss \<Rightarrow> Inr (s # ss)))"

definition sub_set :: "webhook_subscription \<Rightarrow> webhook_subscription \<Rightarrow> webhook_subscription" where
  "sub_set new old = old\<lparr>ws_Name := ws_Name new, ws_URL := ws_URL new, ws_Events := ws_Events new,
     ws_Scopes := ws_Scopes new, ws_Secret := ws_Secret new, ws_Enabled := ws_Enabled new,
     ws_RateLimitPerMin := ws_RateLimitPerMin new, ws_OwnedByChannelID := ws_OwnedByChannelID new,
     ws_UpdatedAt := ws_UpdatedAt new\<rparr>"

definition sub_Create :: "'e hook_env_scheme \<Rightarrow> ctx \<Rightarrow> webhook_subscription \<Rightarrow> ('z hook_world_scheme, unit) io" where
  "sub_Create d c s = then_io (lift_res (RequireTenant c))
     (bind_io (sealed ''encrypt secret'' (Encrypt d (ws_Secret s))) (\<lambda>enc.
        repo_write d c subs put_subs (\<lambda>_. insert_one ws_ID (toModel s enc))))"

definition sub_Update :: "'e hook_env_scheme \<Rightarrow> ctx \<Rightarrow> webhook_subscription \<Rightarrow> ('z hook_world_scheme, unit) io" where
  "sub_Update d c s = then_io (lift_res (RequireTenant c))
     (bind_io (sealed ''encrypt secret'' (Encrypt d (ws_Secret s))) (\<lambda>enc.
        repo_write d c subs put_subs (\<lambda>t. update_one (sub_by t (ws_ID s)) (sub_set (toModel s enc)))))"

definition sub_Delete :: "'e env_scheme \<Rightarrow> ctx \<Rightarrow> ident \<Rightarrow> ('z hook_world_scheme, unit) io" where
  "sub_Delete d c i = repo_write d c subs put_subs (\<lambda>t. delete_first (sub_by t i))"

definition sub_FindByID :: "'e hook_env_scheme \<Rightarrow> ctx \<Rightarrow> ident \<Rightarrow> ('z hook_world_scheme, webhook_subscription) io" where
  "sub_FindByID d c i = bind_io (repo_query d c subs (\<lambda>t. find_one (sub_by t i))) (\<lambda>m. lift_res (toEntity d m))"

definition sub_FindByChannelID ::
  "'e hook_env_scheme \<Rightarrow> ctx \<Rightarrow> ident \<Rightarrow> ('z hook_world_scheme, webhook_subscription) io" where
  "sub_FindByChannelID d c ch = bind_io (repo_query d c subs
       (\<lambda>t. find_one (\<lambda>s. ws_TenantID s = t \<and> ws_OwnedByChannelID s = ch)))
     (\<lambda>m. lift_res (toEntity d m))"

definition sub_List ::
  "'e hook_env_scheme \<Rightarrow> ctx \<Rightarrow> page_request \<Rightarrow> ('z hook_world_scheme, webhook_subscription list) io" where
  "sub_List d c page = then_io (lift_res (RequireTenant c))
     (bind_io (lift_res (DecodeCursor (pr_Cursor page))) (\<lambda>cur.
      bind_io (repo_query d c subs (\<lambda>t ss. Inr (list_page (\<lambda>s. ws_TenantID s = t) ws_CreatedAt ws_ID cur (pr_Limit page) ss)))
        (\<lambda>ms. lift_res (decodeAll d ms))))"

text \<open>The dispatcher's query takes its tenant as an argument.\<close>

definition ListEnabledByEvent ::
  "'e hook_env_scheme \<Rightarrow> ident \<Rightarrow> string \<Rightarrow> ('z hook_world_scheme, webhook_subscription list) io" where
  "ListEnabledByEvent d t event = bind_io (db_call d (gets_io (\<lambda>w.
       filter (\<lambda>s. ws_TenantID s = t \<and> SubscribesTo s event) (subs w))))
     (\<lambda>ms. lift_res (decodeAll d ms))"

section \<open>Delivery repository\<close>

definition delivery_by :: "ident \<Rightarrow> ident \<Rightarrow> webhook_delivery \<Rightarrow> bool" where
  "delivery_by t i x \<longleftrightarrow> wd_ID x = i \<and> wd_TenantID x = t"

definition delivery_set :: "webhook_delivery \<Rightarrow> webhook_delivery \<Rightarrow> webhook_delivery" where
  "delivery_set new old = old\<lparr>wd_Status := wd_Status new, wd_Attempts := wd_Attempts new,
     wd_LastError := wd_LastError new, wd_NextRetryAt := wd_NextRetryAt new, wd_UpdatedAt := wd_UpdatedAt new\<rparr>"

abbreviation put_deliveries :: "webhook_delivery list \<Rightarrow> 'z hook_world_scheme \<Rightarrow> 'z hook_world_scheme" where
  "put_deliveries xs w \<equiv> w\<lparr>deliveries := xs\<rparr>"

definition delivery_Create :: "'e env_scheme \<Rightarrow> ctx \<Rightarrow> webhook_delivery \<Rightarrow> ('z hook_world_scheme, unit) io" where
  "delivery_Create d c x = repo_write d c deliveries put_deliveries (\<lambda>_. insert_one wd_ID x)"

definition delivery_Update :: "'e env_scheme \<Rightarrow> ctx \<Rightarrow> webhook_delivery \<Rightarrow> ('z hook_world_scheme, unit) io" where
  "delivery_Update d c x = repo_write d c deliveries put_deliveries
     (\<lambda>t. update_one (delivery_by t (wd_ID x)) (delivery_set x))"

definition delivery_FindByID :: "'e env_scheme \<Rightarrow> ctx \<Rightarrow> ident \<Rightarrow> ('z hook_world_scheme, webhook_delivery) io" where
  "delivery_FindByID d c i = repo_query d c deliveries (\<lambda>t. find_one (delivery_by t i))"

definition ListByWebhook ::
  "'e env_scheme \<Rightarrow> ctx \<Rightarrow> ident \<Rightarrow> page_request \<Rightarrow> ('z hook_world_scheme, webhook_delivery list) io" where
  "ListByWebhook d c hook page = then_io (lift_res (RequireTenant c))
     (bind_io (lift_res (DecodeCursor (pr_Cursor page))) (\<lambda>cur.
        repo_query d c deliveries (\<lambda>t xs. Inr (list_page (\<lambda>x. wd_TenantID x = t \<and> wd_WebhookID x = hook)
          wd_CreatedAt wd_ID cur (pr_Limit page) xs))))"

interpretation sub_repo: tenant_repo ws_ID ws_TenantID sub_set subs
  "\<lambda>ss w. w\<lparr>subs := ss\<rparr> :: 'z hook_world_scheme"
  by unfold_locales (simp_all add: sub_set_def tick_def)

interpretation delivery_repo: tenant_repo wd_ID wd_TenantID delivery_set deliveries
  "\<lambda>xs w. w\<lparr>deliveries := xs\<rparr> :: 'z hook_world_scheme"
  by unfold_locales (simp_all add: delivery_set_def tick_def)

section \<open>The dispatcher\<close>

definition scopeAllows :: "ident list \<Rightarrow> ident \<Rightarrow> bool" where
  "scopeAllows scopes sectorID \<longleftrightarrow> scopes = [] \<or> sectorID \<noteq> [] \<and> sectorID \<in> set scopes"

definition new_delivery :: "ident \<Rightarrow> ident \<Rightarrow> ident \<Rightarrow> string \<Rightarrow> string \<Rightarrow> time \<Rightarrow> webhook_delivery" where
  "new_delivery i t hook event body now =
     \<lparr>wd_ID = i, wd_TenantID = t, wd_WebhookID = hook, wd_Event = event, wd_Payload = body,
      wd_Status = HookPending, wd_Attempts = 0, wd_LastError = [], wd_NextRetryAt = None,
      wd_CreatedAt = now, wd_UpdatedAt = now\<rparr>"

definition announce :: "'e hook_env_scheme \<Rightarrow> ident \<Rightarrow> ident \<Rightarrow> ('z hook_world_scheme, unit) io" where
  "announce d t i = when_io (he_HasEnqueuer d) (ignore_io (EnqueueDeliver d t i))"

text \<open>The body of the dispatcher's loop: every failure skips the subscription.\<close>

definition emit_one ::
  "'e hook_env_scheme \<Rightarrow> ctx \<Rightarrow> ident \<Rightarrow> string \<Rightarrow> ident \<Rightarrow> time \<Rightarrow> gany \<Rightarrow> webhook_subscription \<Rightarrow> ('z hook_world_scheme, unit) io" where
  "emit_one d c t wire sectorID now payload sub =
    (if \<not> scopeAllows (ws_Scopes sub) sectorID then return_io ()
     else bind_io (new_id d) (\<lambda>i. case he_Marshal d i wire now payload of
         Inl _ \<Rightarrow> return_io ()
       | Inr body \<Rightarrow> bind_io (try_io (delivery_Create d c (new_delivery i t (ws_ID sub) wire body now))) (\<lambda>r. case r of
             Inl _ \<Rightarrow> return_io () | Inr _ \<Rightarrow> announce d t i)))"

text \<open>\<open>build\<close> is the deferred payload builder: it runs at most once, after the lookup.\<close>

definition emit ::
  "'e hook_env_scheme \<Rightarrow> ctx \<Rightarrow> ident \<Rightarrow> string \<Rightarrow> ident \<Rightarrow> ('z hook_world_scheme, gany) io \<Rightarrow> ('z hook_world_scheme, unit) io" where
  "emit d c t event sectorID build = (if t = [] then return_io () else
    (case WireEvent event of None \<Rightarrow> return_io ()
     | Some wire \<Rightarrow> bind_io (try_io (ListEnabledByEvent d t wire)) (\<lambda>r. case r of
          Inl _ \<Rightarrow> return_io ()
        | Inr ss \<Rightarrow> if ss = [] then return_io () else
            bind_io build (\<lambda>payload. bind_io (now_io d) (\<lambda>now.
              for_io ss (emit_one d c t wire sectorID now payload))))))"

definition Emit ::
  "'e hook_env_scheme \<Rightarrow> ctx \<Rightarrow> ident \<Rightarrow> string \<Rightarrow> ident \<Rightarrow> gany \<Rightarrow> ('z hook_world_scheme, unit) io" where
  "Emit d c t event sectorID payload = emit d c t event sectorID (return_io payload)"

definition EmitLazy ::
  "'e hook_env_scheme \<Rightarrow> ctx \<Rightarrow> ident \<Rightarrow> string \<Rightarrow> ident \<Rightarrow> ('z hook_world_scheme, gany) io \<Rightarrow> ('z hook_world_scheme, unit) io" where
  "EmitLazy d c t event sectorID build = emit d c t event sectorID build"

definition EmitTo ::
  "'e hook_env_scheme \<Rightarrow> ctx \<Rightarrow> ident \<Rightarrow> ident \<Rightarrow> string \<Rightarrow> gany \<Rightarrow> ('z hook_world_scheme, unit) io" where
  "EmitTo d c t hook event payload = bind_io (sub_FindByID d c hook) (\<lambda>sub.
     then_io (guard_io (\<not> ws_Enabled sub) (Validation ''webhook is disabled''))
     (bind_io (now_io d) (\<lambda>now. bind_io (new_id d) (\<lambda>i.
      bind_io (lift_res (he_Marshal d i event now payload)) (\<lambda>body.
      then_io (delivery_Create d c (new_delivery i t (ws_ID sub) event body now)) (announce d t i))))))"

definition EmitToChannel ::
  "'e hook_env_scheme \<Rightarrow> ctx \<Rightarrow> ident \<Rightarrow> ident \<Rightarrow> string \<Rightarrow> gany \<Rightarrow> ('z hook_world_scheme, unit) io" where
  "EmitToChannel d c t ch event payload = bind_io (try_io (sub_FindByChannelID d c ch)) (\<lambda>r. case r of
     Inl e \<Rightarrow> if err_code_of (From e) = CodeNotFound
       then throw_io (Conflict (''o canal n'' @ [CHR 0xC3, CHR 0xA3] @ ''o tem webhook gerenciado (configure o outbound_url)'')) else throw_io e
   | Inr sub \<Rightarrow> EmitTo d c t (ws_ID sub) event payload)"

section \<open>The delivery worker\<close>

definition defaultMaxAttempts :: int where "defaultMaxAttempts = 6"

text \<open>\<open>1 << attempt\<close> is a shift of a 64-bit integer.\<close>

definition backoffSeconds :: "int \<Rightarrow> int" where
  "backoffSeconds attempt = (let a = (if attempt < 1 then 1 else attempt);
     v = sint (push_bit (nat a) (1 :: 64 word)) in if v > 300 then 300 else v)"

definition durationSeconds :: "int \<Rightarrow> duration" where
  "durationSeconds s = s * Second"

definition deliveryError :: "int res \<Rightarrow> string" where
  "deliveryError r = (case r of
     Inl e \<Rightarrow> (if length (Error e) > 300 then take 300 (Error e) else Error e)
   | Inr code \<Rightarrow> ''endpoint returned status '' @ itoa code)"

definition delivered :: "'e hook_env_scheme \<Rightarrow> ctx \<Rightarrow> webhook_delivery \<Rightarrow> ('z hook_world_scheme, unit) io" where
  "delivered d c x = bind_io (now_io d) (\<lambda>now. delivery_Update d c
     (x\<lparr>wd_Status := HookDelivered, wd_LastError := [], wd_NextRetryAt := None, wd_UpdatedAt := now\<rparr>))"

definition dead :: "'e hook_env_scheme \<Rightarrow> ctx \<Rightarrow> webhook_delivery \<Rightarrow> string \<Rightarrow> ('z hook_world_scheme, unit) io" where
  "dead d c x reason = bind_io (now_io d) (\<lambda>now. delivery_Update d c
     (x\<lparr>wd_Status := HookDead, wd_LastError := reason, wd_NextRetryAt := None, wd_UpdatedAt := now\<rparr>))"

definition reschedule ::
  "'e hook_env_scheme \<Rightarrow> ctx \<Rightarrow> webhook_delivery \<Rightarrow> int \<Rightarrow> string \<Rightarrow> ('z hook_world_scheme, unit) io" where
  "reschedule d c x delaySeconds reason = bind_io (now_io d) (\<lambda>now. bind_io (now_io d) (\<lambda>now'.
     then_io (delivery_Update d c (x\<lparr>wd_Status := HookRetrying, wd_LastError := reason,
        wd_NextRetryAt := Some (now + durationSeconds delaySeconds), wd_UpdatedAt := now'\<rparr>))
     (when_io (he_HasEnqueuer d) (ignore_io (EnqueueRetry d (wd_TenantID x) (wd_ID x) delaySeconds)))))"

definition retryOrDead ::
  "'e hook_env_scheme \<Rightarrow> ctx \<Rightarrow> webhook_delivery \<Rightarrow> string \<Rightarrow> ('z hook_world_scheme, unit) io" where
  "retryOrDead d c x reason = (if wd_Attempts x \<ge> defaultMaxAttempts then dead d c x reason
     else reschedule d c x (backoffSeconds (wd_Attempts x)) reason)"

text \<open>One attempt: the request, and what follows from its outcome.\<close>

definition attempt ::
  "'e hook_env_scheme \<Rightarrow> ctx \<Rightarrow> webhook_subscription \<Rightarrow> webhook_delivery \<Rightarrow> ('z hook_world_scheme, unit) io" where
  "attempt d c sub x = bind_io (try_io (Send d sub x)) (\<lambda>r.
     let x' = x\<lparr>wd_Attempts := wd_Attempts x + 1\<rparr> in
     case r of
       Inr code \<Rightarrow> if 200 \<le> code \<and> code < 300 then delivered d c x' else retryOrDead d c x' (deliveryError r)
     | Inl _ \<Rightarrow> retryOrDead d c x' (deliveryError r))"

text \<open>The rest of \<open>Deliver\<close> once the subscription is known.\<close>

definition deliver_to ::
  "'e hook_env_scheme \<Rightarrow> ctx \<Rightarrow> webhook_delivery \<Rightarrow> webhook_subscription \<Rightarrow> ('z hook_world_scheme, unit) io" where
  "deliver_to d c x sub = (if \<not> ws_Enabled sub then dead d c x ''subscription disabled''
     else bind_io (if he_HasLimiter d then webhook_Allow d (ws_ID sub) (ws_RateLimitPerMin sub) else return_io True)
       (\<lambda>allowed. if \<not> allowed then reschedule d c x 30 ''rate limited'' else attempt d c sub x))"

definition Deliver :: "'e hook_env_scheme \<Rightarrow> ctx \<Rightarrow> ident \<Rightarrow> ('z hook_world_scheme, unit) io" where
  "Deliver d c i = bind_io (delivery_FindByID d c i) (\<lambda>x.
     if IsTerminal (wd_Status x) then return_io ()
     else bind_io (try_io (sub_FindByID d c (wd_WebhookID x))) (\<lambda>r. case r of
         Inl e \<Rightarrow> if err_code_of (From e) = CodeNotFound then dead d c x ''subscription no longer exists'' else throw_io e
       | Inr sub \<Rightarrow> deliver_to d c x sub))"

text \<open>The queue's handler (\<open>bootstrap_workers.go\<close>): a task runs under its tenant.\<close>

definition deliverWebhook :: "'e hook_env_scheme \<Rightarrow> ctx \<Rightarrow> hook_task \<Rightarrow> ('z hook_world_scheme, unit) io" where
  "deliverWebhook d c p = Deliver d (WithTenant c (ht_TenantID p)) (ht_DeliveryID p)"

end
