(* ===== verification/Webhook_Service.thy ===== *)
theory Webhook_Service
  imports Webhooks Conv_Service
begin

text \<open>
  \<open>domain/webhooks/service/subscription_service.go\<close>: the registration of webhooks, the
  subscriptions a channel manages, and the synchronous test delivery.
\<close>

section \<open>Input\<close>

record create_subscription =
  xs_Name :: string
  xs_URL :: string
  xs_Events :: "string list"
  xs_Scopes :: "ident list"
  xs_Secret :: string
  xs_Enabled :: "bool option"
  xs_RateLimitPerMin :: int

text \<open>A nil slice of a patch is \<open>None\<close>.\<close>

record update_subscription =
  uw_Name :: "string option"
  uw_URL :: "string option"
  uw_Events :: "string list option"
  uw_Scopes :: "ident list option"
  uw_Enabled :: "bool option"
  uw_RateLimitPerMin :: "int option"

text \<open>The loop of \<open>normalizeEvents\<close>: the first unsupported event is the error.\<close>

fun normalize_loop :: "string set \<Rightarrow> string list \<Rightarrow> string list res" where
  "normalize_loop seen [] = Inr []"
| "normalize_loop seen (x # xs) = (let e = trim_space x in
     if \<not> IsSupportedEvent e then Inl (WithDetails (Validation (''unsupported event: '' @ e))
        [''events'' \<mapsto> GStr (''unsupported event '' @ e)])
     else if e \<in> seen then normalize_loop seen xs
     else (case normalize_loop (insert e seen) xs of Inl err \<Rightarrow> Inl err | Inr out \<Rightarrow> Inr (e # out)))"

definition normalizeEvents :: "string list \<Rightarrow> string list res" where
  "normalizeEvents evs = (if evs = [] then Inl (WithDetails (Validation ''at least one event is required'')
       [''events'' \<mapsto> GStr ''is required''])
     else normalize_loop {} evs)"

definition valid_url :: "string \<Rightarrow> bool" where
  "valid_url raw = (case url_Parse (trim_space raw) of None \<Rightarrow> False
     | Some (scheme, host) \<Rightarrow> (scheme = ''https'' \<or> scheme = ''http'') \<and> host \<noteq> [])"

definition validateURL :: "string \<Rightarrow> unit res" where
  "validateURL raw = (if valid_url raw then Inr () else Inl (WithDetails (Validation ''url must be a valid http(s) URL'')
     [''url'' \<mapsto> GStr ''must be a valid http(s) URL'']))"

definition randomToken :: "'e hook_env_scheme \<Rightarrow> ('z base_world_scheme, string) io" where
  "randomToken d = (\<lambda>w. (Inr (he_Rand d (step w)), tick w))"

definition audit_io :: "ctx \<Rightarrow> string \<Rightarrow> ident \<Rightarrow> gmap \<Rightarrow> ('z conv_world_scheme, unit) io" where
  "audit_io c action i data = log_effect (EAudit (ctx_tenant_id c) action i data)"

section \<open>Registration\<close>

definition webhook_Create ::
  "'e hook_env_scheme \<Rightarrow> ctx \<Rightarrow> create_subscription \<Rightarrow> ('z hook_world_scheme, webhook_subscription) io" where
  "webhook_Create d c cmd = bind_io (lift_res (RequireTenant c)) (\<lambda>t.
     then_io (lift_res (validateURL (xs_URL cmd)))
     (bind_io (lift_res (normalizeEvents (xs_Events cmd))) (\<lambda>events.
      bind_io (if trim_space (xs_Secret cmd) = [] then bind_io (randomToken d) (\<lambda>r. return_io (''whsec_'' @ r))
               else return_io (trim_space (xs_Secret cmd))) (\<lambda>secret.
      bind_io (now_io d) (\<lambda>now. bind_io (new_id d) (\<lambda>i.
      let sub = \<lparr>ws_ID = i, ws_TenantID = t, ws_Name = trim_space (xs_Name cmd), ws_URL = trim_space (xs_URL cmd),
                 ws_Events = events, ws_Scopes = xs_Scopes cmd, ws_Secret = secret,
                 ws_Enabled = (case xs_Enabled cmd of None \<Rightarrow> True | Some b \<Rightarrow> b),
                 ws_RateLimitPerMin = xs_RateLimitPerMin cmd, ws_OwnedByChannelID = [],
                 ws_CreatedBy = (case ctx_auth c of None \<Rightarrow> [] | Some ac \<Rightarrow> ac_UserID ac),
                 ws_CreatedAt = now, ws_UpdatedAt = now\<rparr> in
      then_io (sub_Create d c sub)
     (then_io (audit_io c ''webhook.created'' i [''url'' \<mapsto> GStr (ws_URL sub), ''events'' \<mapsto> GStrs events])
     (return_io sub))))))))"

definition webhook_List ::
  "'e hook_env_scheme \<Rightarrow> ctx \<Rightarrow> page_request \<Rightarrow> ('z hook_world_scheme, webhook_subscription list) io" where
  "webhook_List d c page = then_io (lift_res (RequireTenant c)) (sub_List d c (Normalize page))"

definition webhook_Get :: "'e hook_env_scheme \<Rightarrow> ctx \<Rightarrow> ident \<Rightarrow> ('z hook_world_scheme, webhook_subscription) io" where
  "webhook_Get d c i = then_io (lift_res (RequireTenant c)) (sub_FindByID d c i)"

definition patch_url :: "string \<Rightarrow> webhook_subscription \<Rightarrow> webhook_subscription res" where
  "patch_url u s = res_bind (validateURL u) (\<lambda>_. Inr (s\<lparr>ws_URL := trim_space u\<rparr>))"

definition patch_events :: "string list \<Rightarrow> webhook_subscription \<Rightarrow> webhook_subscription res" where
  "patch_events evs s = res_bind (normalizeEvents evs) (\<lambda>out. Inr (s\<lparr>ws_Events := out\<rparr>))"

definition patch_sub :: "update_subscription \<Rightarrow> webhook_subscription \<Rightarrow> webhook_subscription res" where
  "patch_sub cmd s0 =
     res_bind (patch_res (uw_URL cmd) patch_url (patch (uw_Name cmd) (\<lambda>n s. s\<lparr>ws_Name := trim_space n\<rparr>) s0)) (\<lambda>s1.
     res_bind (patch_res (uw_Events cmd) patch_events s1) (\<lambda>s2.
     Inr (patch (uw_RateLimitPerMin cmd) (\<lambda>n s. s\<lparr>ws_RateLimitPerMin := n\<rparr>)
         (patch (uw_Enabled cmd) (\<lambda>b s. s\<lparr>ws_Enabled := b\<rparr>)
         (patch (uw_Scopes cmd) (\<lambda>sc s. s\<lparr>ws_Scopes := sc\<rparr>) s2)))))"

definition webhook_Update ::
  "'e hook_env_scheme \<Rightarrow> ctx \<Rightarrow> ident \<Rightarrow> update_subscription \<Rightarrow> ('z hook_world_scheme, webhook_subscription) io" where
  "webhook_Update d c i cmd = then_io (lift_res (RequireTenant c))
     (bind_io (sub_FindByID d c i) (\<lambda>s0.
      then_io (guard_io (Managed s0) (Conflict (''webhook gerenciado pelo canal; edite pela configura''
         @ [CHR 0xC3, CHR 0xA7, CHR 0xC3, CHR 0xA3] @ ''o do canal'')))
     (bind_io (lift_res (patch_sub cmd s0)) (\<lambda>s1. bind_io (now_io d) (\<lambda>now.
      let s = s1\<lparr>ws_UpdatedAt := now\<rparr> in
      then_io (sub_Update d c s)
     (then_io (audit_io c ''webhook.updated'' (ws_ID s) [''url'' \<mapsto> GStr (ws_URL s), ''enabled'' \<mapsto> GBool (ws_Enabled s)])
     (return_io s)))))))"

text \<open>The rule that uses a webhook, when the optional port knows one.\<close>

definition webhook_usage :: "'e hook_env_scheme \<Rightarrow> ident \<Rightarrow> ('z base_world_scheme, string option) io" where
  "webhook_usage d i = (case he_Usage d of None \<Rightarrow> return_io None | Some use \<Rightarrow> (\<lambda>w. (use (step w) i, tick w)))"

definition webhook_Delete :: "'e hook_env_scheme \<Rightarrow> ctx \<Rightarrow> ident \<Rightarrow> ('z hook_world_scheme, unit) io" where
  "webhook_Delete d c i = then_io (lift_res (RequireTenant c))
     (bind_io (sub_FindByID d c i) (\<lambda>s.
      then_io (guard_io (Managed s) (Conflict (''webhook gerenciado pelo canal; remova pela configura''
         @ [CHR 0xC3, CHR 0xA7, CHR 0xC3, CHR 0xA3] @ ''o do canal'')))
     (bind_io (webhook_usage d i) (\<lambda>used. case used of
        Some rule \<Rightarrow> throw_io (Conflict (''webhook em uso pela regra '' @ rule))
      | None \<Rightarrow> then_io (sub_Delete d c i) (audit_io c ''webhook.deleted'' i Map.empty)))))"

section \<open>Subscriptions managed by a channel\<close>

definition RemoveChannelWebhook :: "'e hook_env_scheme \<Rightarrow> ctx \<Rightarrow> ident \<Rightarrow> ('z hook_world_scheme, unit) io" where
  "RemoveChannelWebhook d c ch = then_io (lift_res (RequireTenant c))
     (bind_io (try_io (sub_FindByChannelID d c ch)) (\<lambda>r. case r of
        Inl e \<Rightarrow> if err_code_of (From e) = CodeNotFound then return_io () else throw_io e
      | Inr s \<Rightarrow> sub_Delete d c (ws_ID s)))"

definition SyncChannelWebhook ::
  "'e hook_env_scheme \<Rightarrow> ctx \<Rightarrow> ident \<Rightarrow> string \<Rightarrow> string \<Rightarrow> ('z hook_world_scheme, unit) io" where
  "SyncChannelWebhook d c ch raw secret = bind_io (lift_res (RequireTenant c)) (\<lambda>t.
     let url = trim_space raw in
     if url = [] then RemoveChannelWebhook d c ch
     else then_io (lift_res (validateURL url)) (bind_io (now_io d) (\<lambda>now.
       bind_io (try_io (sub_FindByChannelID d c ch)) (\<lambda>r. case r of
         Inl e \<Rightarrow> if err_code_of (From e) \<noteq> CodeNotFound then throw_io e
           else bind_io (new_id d) (\<lambda>i. sub_Create d c
             \<lparr>ws_ID = i, ws_TenantID = t, ws_Name = ''Canal '' @ ch, ws_URL = url, ws_Events = managedChannelEvents,
              ws_Scopes = [], ws_Secret = secret, ws_Enabled = True, ws_RateLimitPerMin = 0,
              ws_OwnedByChannelID = ch, ws_CreatedBy = [], ws_CreatedAt = now, ws_UpdatedAt = now\<rparr>)
       | Inr s \<Rightarrow> sub_Update d c (s\<lparr>ws_URL := url, ws_Secret := secret, ws_Events := managedChannelEvents,
              ws_Enabled := True, ws_UpdatedAt := now\<rparr>)))))"

section \<open>Deliveries\<close>

record test_result =
  te_DeliveryID :: ident
  te_OK :: bool
  te_StatusCode :: int
  te_Error :: string

text \<open>The attempt of a test and the record it leaves.\<close>

definition test_attempt ::
  "'e hook_env_scheme \<Rightarrow> ctx \<Rightarrow> webhook_subscription \<Rightarrow> webhook_delivery \<Rightarrow> ('z hook_world_scheme, test_result) io" where
  "test_attempt d c sub x = bind_io (try_io (Send d sub x)) (\<lambda>r. bind_io (now_io d) (\<lambda>now'.
     let x1 = x\<lparr>wd_Attempts := 1, wd_UpdatedAt := now'\<rparr>;
         code = (case r of Inl _ \<Rightarrow> 0 | Inr k \<Rightarrow> k);
         ok = (case r of Inl _ \<Rightarrow> False | Inr k \<Rightarrow> 200 \<le> k \<and> k < 300);
         x2 = (if ok then x1\<lparr>wd_Status := HookDelivered\<rparr>
               else x1\<lparr>wd_Status := HookFailed, wd_LastError := deliveryError r\<rparr>) in
     then_io (ignore_io (delivery_Create d c x2))
       (return_io \<lparr>te_DeliveryID = wd_ID x, te_OK = ok, te_StatusCode = code,
          te_Error = (if ok then [] else ''the endpoint did not accept the test delivery'')\<rparr>)))"

definition Test :: "'e hook_env_scheme \<Rightarrow> ctx \<Rightarrow> ident \<Rightarrow> ('z hook_world_scheme, test_result) io" where
  "Test d c i = then_io (lift_res (RequireTenant c))
     (bind_io (sub_FindByID d c i) (\<lambda>sub. bind_io (now_io d) (\<lambda>now. bind_io (new_id d) (\<lambda>di.
      case he_Marshal d di ''webhook.test'' now (GObj [(''message'', GStr ''This is a test webhook delivery.''),
           (''webhook'', GStr (ws_ID sub))]) of
        Inl e \<Rightarrow> throw_io (Wrap (Internal ''build test payload'') e)
      | Inr body \<Rightarrow> test_attempt d c sub
          (new_delivery di (ws_TenantID sub) (ws_ID sub) ''webhook.test'' body now)))))"

definition ListDeliveries ::
  "'e hook_env_scheme \<Rightarrow> ctx \<Rightarrow> ident \<Rightarrow> page_request \<Rightarrow> ('z hook_world_scheme, webhook_delivery list) io" where
  "ListDeliveries d c hook page = then_io (lift_res (RequireTenant c))
     (then_io (sub_FindByID d c hook) (ListByWebhook d c hook (Normalize page)))"

end
