(* ===== verification/Webhook_Props.thy ===== *)
theory Webhook_Props
  imports Webhook_Service
begin

text \<open>
  The life of a webhook delivery: what one run of the worker may do to it, what holds of every
  delivery in all states the program reaches, and that the queue of deliveries settles. The
  dispatcher creates exactly the deliveries the subscriptions ask for.
\<close>

section \<open>A concrete state\<close>

text \<open>One subscription, a receiver that accepts everything, and an event waiting to be delivered.\<close>

definition hook_env0 :: hook_env where
  "hook_env0 = \<lparr>clk = (\<lambda>n. int n * 1000000), newid = (\<lambda>n. replicate (Suc n) CHR ''d''), fault = (\<lambda>_. None),
     he_Seal = (\<lambda>_ s. Inr s), he_Open = Inr, he_HMAC = (\<lambda>k m. k @ m), he_Rand = (\<lambda>_. ''00''),
     he_Marshal = (\<lambda>i e n p. Inr (i @ e)), he_Respond = (\<lambda>_ _. Inr 200), he_Usage = None,
     he_HasLimiter = True, he_HasEnqueuer = True\<rparr>"

definition hook_ctx0 :: ctx where
  "hook_ctx0 = \<lparr>ctx_tenant = Some ''t1'', ctx_auth = None, ctx_origin = None, ctx_depth = None\<rparr>"

definition hook_sub0 :: webhook_subscription where
  "hook_sub0 = \<lparr>ws_ID = ''h1'', ws_TenantID = ''t1'', ws_Name = [], ws_URL = ''https://a.b'', ws_Events = [''message_created''],
     ws_Scopes = [], ws_Secret = ''s'', ws_Enabled = True, ws_RateLimitPerMin = 0, ws_OwnedByChannelID = [],
     ws_CreatedBy = [], ws_CreatedAt = 0, ws_UpdatedAt = 0\<rparr>"

definition hook_world0 :: hook_world where
  "hook_world0 = \<lparr>step = 0, convs = [], msgs = [], cevents = [], chans = [], sectors = [], effects = [],
     redis = Map.empty, subs = [hook_sub0], deliveries = [], hook_tasks = [], requests = []\<rparr>"

definition hook_world1 :: hook_world where
  "hook_world1 = hook_world0\<lparr>deliveries := [new_delivery ''d1'' ''t1'' ''h1'' ''message_created'' ''body'' 0],
     hook_tasks := [\<lparr>ht_TenantID = ''t1'', ht_DeliveryID = ''d1'', ht_Delay = 0\<rparr>]\<rparr>"

lemmas hook_demo = hook_env0_def hook_ctx0_def hook_sub0_def hook_world0_def hook_world1_def new_delivery_def

section \<open>Steps that leave the webhooks alone\<close>

definition quiet :: "'z hook_world_scheme \<Rightarrow> 'z hook_world_scheme \<Rightarrow> bool" where
  "quiet w w' \<longleftrightarrow> subs w' = subs w \<and> deliveries w' = deliveries w \<and> hook_tasks w' = hook_tasks w
     \<and> requests w' = requests w \<and> step w \<le> step w'"

lemma hook_tick [simp]:
  "subs (tick w) = subs w" "deliveries (tick w) = deliveries w" "hook_tasks (tick w) = hook_tasks w"
  "requests (tick w) = requests w"
  by (simp_all add: tick_def)

lemma quiet_refl [simp]: "quiet w w" and quiet_tick [simp]: "quiet w (tick w)"
  by (simp_all add: quiet_def)

interpretation still: redis_frame "quiet :: 'z hook_world_scheme \<Rightarrow> 'z hook_world_scheme \<Rightarrow> bool"
  by unfold_locales (auto simp: quiet_def)

lemma Allow_wp: "wp (webhook_Allow d i n) (\<lambda>allowed w'. quiet w w' \<and> (allowed \<or> 0 < n)) (\<lambda>_ _. False) w"
  unfolding webhook_Allow_def count_window_def
  by (auto simp: wp_def io_defs redis_call_def quiet_def Let_def split: option.splits sum.splits prod.splits)

section \<open>One run of the worker\<close>

text \<open>
  The life cycle: from a delivery that is not final, with or without a request to the receiver,
  to its next state.
\<close>

inductive life :: "bool \<Rightarrow> webhook_delivery \<Rightarrow> webhook_delivery \<Rightarrow> bool" where
  life_drop: "life False x (x\<lparr>wd_Status := HookDead, wd_LastError := r, wd_NextRetryAt := None, wd_UpdatedAt := n\<rparr>)"
| life_wait: "life False x (x\<lparr>wd_Status := HookRetrying, wd_LastError := r, wd_NextRetryAt := Some k, wd_UpdatedAt := n\<rparr>)"
| life_ok: "life True x (x\<lparr>wd_Attempts := wd_Attempts x + 1, wd_Status := HookDelivered, wd_LastError := [],
     wd_NextRetryAt := None, wd_UpdatedAt := n\<rparr>)"
| life_retry: "wd_Attempts x + 1 < defaultMaxAttempts \<Longrightarrow> life True x (x\<lparr>wd_Attempts := wd_Attempts x + 1,
     wd_Status := HookRetrying, wd_LastError := r, wd_NextRetryAt := Some k, wd_UpdatedAt := n\<rparr>)"
| life_out: "defaultMaxAttempts \<le> wd_Attempts x + 1 \<Longrightarrow> life True x (x\<lparr>wd_Attempts := wd_Attempts x + 1,
     wd_Status := HookDead, wd_LastError := r, wd_NextRetryAt := None, wd_UpdatedAt := n\<rparr>)"

inductive_cases life_cases: "life b x y"

lemma hook_status [simp]:
  "HookPending \<noteq> HookDelivered" "HookPending \<noteq> HookRetrying" "HookPending \<noteq> HookFailed" "HookPending \<noteq> HookDead"
  "HookDelivered \<noteq> HookPending" "HookDelivered \<noteq> HookRetrying" "HookDelivered \<noteq> HookFailed" "HookDelivered \<noteq> HookDead"
  "HookRetrying \<noteq> HookPending" "HookRetrying \<noteq> HookDelivered" "HookRetrying \<noteq> HookFailed" "HookRetrying \<noteq> HookDead"
  "HookFailed \<noteq> HookPending" "HookFailed \<noteq> HookDelivered" "HookFailed \<noteq> HookRetrying" "HookFailed \<noteq> HookDead"
  "HookDead \<noteq> HookPending" "HookDead \<noteq> HookDelivered" "HookDead \<noteq> HookRetrying" "HookDead \<noteq> HookFailed"
  by (simp_all add: go_const)

lemma life_id: "life b x y \<Longrightarrow> wd_ID y = wd_ID x \<and> wd_TenantID y = wd_TenantID x"
  by (auto elim: life_cases)

definition put_back :: "ident \<Rightarrow> ident \<Rightarrow> webhook_delivery \<Rightarrow> webhook_delivery list \<Rightarrow> webhook_delivery list" where
  "put_back t i y xs = update_first (delivery_by t i) (delivery_set y) xs"

text \<open>The retry task follows the stored state, unless the queue failed.\<close>

definition queued :: "'e hook_env_scheme \<Rightarrow> webhook_delivery \<Rightarrow> hook_task list \<Rightarrow> hook_task list \<Rightarrow> bool" where
  "queued d y ts ts' \<longleftrightarrow>
     (ts' = ts \<and> (wd_Status y = HookRetrying \<longrightarrow> \<not> he_HasEnqueuer d \<or> (\<exists>n. fault d n \<noteq> None)))
   \<or> (wd_Status y = HookRetrying \<and> (\<exists>delay. ts' = ts @ [\<lparr>ht_TenantID = wd_TenantID y, ht_DeliveryID = wd_ID y, ht_Delay = delay\<rparr>]))"

text \<open>A run may change nothing: the database failed, the delivery is unknown or final, the secret cannot be read.\<close>

definition excused :: "'e hook_env_scheme \<Rightarrow> ctx \<Rightarrow> ident \<Rightarrow> 'z hook_world_scheme \<Rightarrow> bool" where
  "excused d c i w \<longleftrightarrow> (\<exists>n. fault d n \<noteq> None) \<or> (\<exists>e. RequireTenant c = Inl e)
     \<or> (\<exists>m \<in> set (subs w). \<exists>e. toEntity d m = Inl e)
     \<or> (\<forall>t x. RequireTenant c = Inr t \<longrightarrow> find (delivery_by t i) (deliveries w) = Some x \<longrightarrow> IsTerminal (wd_Status x))"

text \<open>A request is signed with the secret of an enabled subscription of the tenant, the delivery's own.\<close>

definition authentic :: "'e hook_env_scheme \<Rightarrow> ident \<Rightarrow> webhook_delivery \<Rightarrow> 'z hook_world_scheme \<Rightarrow> hook_request \<Rightarrow> bool" where
  "authentic d t x w rq \<longleftrightarrow> (\<exists>m sub now. m \<in> set (subs w) \<and> sub_by t (wd_WebhookID x) m \<and> toEntity d m = Inr sub
     \<and> ws_Enabled m \<and> rq = request_of d sub x now)"

text \<open>A request is put off without an attempt only where the subscription has a rate limit.\<close>

definition throttled :: "'e hook_env_scheme \<Rightarrow> ident \<Rightarrow> webhook_delivery \<Rightarrow> 'z hook_world_scheme \<Rightarrow> bool" where
  "throttled d t x w \<longleftrightarrow> he_HasLimiter d \<and> (\<exists>m \<in> set (subs w). sub_by t (wd_WebhookID x) m \<and> 0 < ws_RateLimitPerMin m)"

definition run_of :: "'e hook_env_scheme \<Rightarrow> ctx \<Rightarrow> ident \<Rightarrow> 'z hook_world_scheme \<Rightarrow> 'z hook_world_scheme \<Rightarrow> bool" where
  "run_of d c i w w' \<longleftrightarrow> (quiet w w' \<and> excused d c i w) \<or>
    (\<exists>t x sent. RequireTenant c = Inr t \<and> find (delivery_by t i) (deliveries w) = Some x \<and> \<not> IsTerminal (wd_Status x)
      \<and> subs w' = subs w \<and> step w \<le> step w'
      \<and> (if sent then \<exists>rq. authentic d t x w rq \<and> requests w' = requests w @ [rq] else requests w' = requests w)
      \<and> ((deliveries w' = deliveries w \<and> hook_tasks w' = hook_tasks w \<and> (\<exists>n. fault d n \<noteq> None))
       \<or> (\<exists>y. life sent x y \<and> (wd_Status y = HookRetrying \<longrightarrow> sent \<or> throttled d t x w)
            \<and> deliveries w' = put_back t i y (deliveries w) \<and> queued d y (hook_tasks w) (hook_tasks w'))))"

lemma delivery_Update_wp:
  assumes "RequireTenant c = Inr t"
  shows "wp (delivery_Update d c y)
     (\<lambda>_ w'. \<exists>x. find (delivery_by t (wd_ID y)) (deliveries w) = Some x
        \<and> w' = (tick w)\<lparr>deliveries := put_back t (wd_ID y) y (deliveries w)\<rparr>)
     (\<lambda>_ w'. quiet w w' \<and> ((\<exists>n. fault d n \<noteq> None) \<or> find (delivery_by t (wd_ID y)) (deliveries w) = None)) w"
  using assms unfolding delivery_Update_def repo_write_def wp_bind wp_lift wp_db_call
  by (auto simp: wp_def update_one_find put_back_def split: option.splits)

lemma Update_found:
  assumes "RequireTenant c = Inr t" "find (delivery_by t i) (deliveries w) = Some x" "wd_ID y = i"
  shows "wp (delivery_Update d c y) (\<lambda>_ w'. w' = (tick w)\<lparr>deliveries := put_back t i y (deliveries w)\<rparr>)
     (\<lambda>_ w'. quiet w w' \<and> (\<exists>n. fault d n \<noteq> None)) w"
  by (rule wp_mono [OF delivery_Update_wp [OF assms(1)]]) (use assms in auto)

lemma announce_retry_wp:
  "wp (when_io (he_HasEnqueuer d) (ignore_io (EnqueueRetry d t i k)))
     (\<lambda>_ w'. subs w' = subs w \<and> deliveries w' = deliveries w \<and> requests w' = requests w \<and> step w \<le> step w'
        \<and> (hook_tasks w' = hook_tasks w \<and> (\<not> he_HasEnqueuer d \<or> (\<exists>n. fault d n \<noteq> None))
           \<or> hook_tasks w' = hook_tasks w @ [\<lparr>ht_TenantID = t, ht_DeliveryID = i, ht_Delay = k\<rparr>]))
     (\<lambda>_ _. False) w"
  unfolding wp_when wp_ignore by (auto simp: wp_def EnqueueRetry_def enqueue_def split: option.splits)

text \<open>The worker's endings, from the world in which the outcome is known.\<close>

definition settle ::
  "'e hook_env_scheme \<Rightarrow> ident \<Rightarrow> ident \<Rightarrow> webhook_delivery \<Rightarrow> 'z hook_world_scheme \<Rightarrow> 'z hook_world_scheme \<Rightarrow> bool" where
  "settle d t i y w w' \<longleftrightarrow> subs w' = subs w \<and> requests w' = requests w \<and> step w \<le> step w'
     \<and> ((deliveries w' = deliveries w \<and> hook_tasks w' = hook_tasks w \<and> (\<exists>n. fault d n \<noteq> None))
       \<or> (deliveries w' = put_back t i y (deliveries w) \<and> queued d y (hook_tasks w) (hook_tasks w')))"

abbreviation ends :: "('w, 'a) io \<Rightarrow> ('w \<Rightarrow> bool) \<Rightarrow> 'w \<Rightarrow> bool" where
  "ends m P w \<equiv> wp m (\<lambda>_. P) (\<lambda>_. P) w"

lemma quiet_settle: "quiet w w' \<Longrightarrow> \<exists>n. fault d n \<noteq> None \<Longrightarrow> settle d t i y w w'"
  by (auto simp: quiet_def settle_def)

lemma settle_put:
  assumes "settle d t i y (tick w) w'"
  shows "settle d t i y w w'"
  using assms by (auto simp: settle_def)

lemma final_settles:
  assumes "RequireTenant c = Inr t" "find (delivery_by t i) (deliveries w) = Some z" "wd_ID y = i"
    and "wd_Status y \<noteq> HookRetrying"
  shows "ends (delivery_Update d c y) (settle d t i y w) w"
  by (rule wp_mono [OF Update_found [OF assms(1-3)]])
     (use assms in \<open>auto simp: quiet_def settle_def queued_def\<close>)

lemma retry_settles:
  assumes "RequireTenant c = Inr t" "find (delivery_by t i) (deliveries w) = Some z" "wd_ID y = i"
    and "wd_Status y = HookRetrying" "wd_TenantID y = u"
  shows "ends (then_io (delivery_Update d c y) (when_io (he_HasEnqueuer d) (ignore_io (EnqueueRetry d u i k))))
     (settle d t i y w) w"
  unfolding wp_then
proof (rule wp_mono [OF Update_found [OF assms(1-3)]])
  fix w' assume w': "w' = (tick w)\<lparr>deliveries := put_back t i y (deliveries w)\<rparr>"
  show "ends (when_io (he_HasEnqueuer d) (ignore_io (EnqueueRetry d u i k))) (settle d t i y w) w'"
    by (rule wp_mono [OF announce_retry_wp]) (use assms(3-) w' in \<open>auto simp: settle_def queued_def\<close>)
qed (auto simp: quiet_settle)

lemma ends_mono: "ends m P w \<Longrightarrow> (\<And>w'. P w' \<Longrightarrow> Q w') \<Longrightarrow> ends m Q w"
  by (rule wp_mono)

lemma dead_settles:
  assumes "RequireTenant c = Inr t" "find (delivery_by t i) (deliveries w) = Some z" "wd_ID x = i"
  shows "ends (dead d c x r) (\<lambda>w'. \<exists>n. settle d t i
     (x\<lparr>wd_Status := HookDead, wd_LastError := r, wd_NextRetryAt := None, wd_UpdatedAt := n\<rparr>) w w') w"
  unfolding dead_def wp_bind wp_now
  by (rule ends_mono [OF final_settles [of c t i _ z]]) (use assms in \<open>auto simp: go_const dest: settle_put\<close>)

lemma delivered_settles:
  assumes "RequireTenant c = Inr t" "find (delivery_by t i) (deliveries w) = Some z" "wd_ID x = i"
  shows "ends (delivered d c x) (\<lambda>w'. \<exists>n. settle d t i
     (x\<lparr>wd_Status := HookDelivered, wd_LastError := [], wd_NextRetryAt := None, wd_UpdatedAt := n\<rparr>) w w') w"
  unfolding delivered_def wp_bind wp_now
  by (rule ends_mono [OF final_settles [of c t i _ z]]) (use assms in \<open>auto simp: go_const dest: settle_put\<close>)

lemma reschedule_settles:
  assumes "RequireTenant c = Inr t" "find (delivery_by t i) (deliveries w) = Some z" "wd_ID x = i"
  shows "ends (reschedule d c x k r) (\<lambda>w'. \<exists>a n. settle d t i
     (x\<lparr>wd_Status := HookRetrying, wd_LastError := r, wd_NextRetryAt := Some a, wd_UpdatedAt := n\<rparr>) w w') w"
  unfolding reschedule_def wp_bind wp_now
  by (rule ends_mono, subst assms(3), rule retry_settles [of c t i _ z])
     (use assms in \<open>auto dest: settle_put\<close>)

lemma retryOrDead_settles:
  assumes "RequireTenant c = Inr t" "find (delivery_by t i) (deliveries w) = Some z" "wd_ID x = i"
  shows "ends (retryOrDead d c (x\<lparr>wd_Attempts := wd_Attempts x + 1\<rparr>) r)
     (\<lambda>w'. \<exists>y. life True x y \<and> settle d t i y w w') w"
proof (cases "defaultMaxAttempts \<le> wd_Attempts x + 1")
  case True
  then show ?thesis unfolding retryOrDead_def
    by (simp, intro ends_mono [OF dead_settles [of c t i w z]])
       (use assms True in \<open>auto dest: life_out\<close>)
next
  case False
  then show ?thesis unfolding retryOrDead_def
    by (simp, intro ends_mono [OF reschedule_settles [of c t i w z]])
       (use assms False in \<open>auto simp: not_le dest: life_retry\<close>)
qed

text \<open>The same after a request: what is observed of the worlds before it and after the ending.\<close>

definition attempted ::
  "'e hook_env_scheme \<Rightarrow> ident \<Rightarrow> ident \<Rightarrow> webhook_subscription \<Rightarrow> webhook_delivery \<Rightarrow> 'z hook_world_scheme \<Rightarrow> 'z hook_world_scheme \<Rightarrow> bool" where
  "attempted d t i sub x w w' \<longleftrightarrow> (\<exists>now y w1. life True x y \<and> settle d t i y w1 w'
     \<and> quiet w (w1\<lparr>requests := requests w\<rparr>) \<and> requests w1 = requests w @ [request_of d sub x now])"

lemma Send_wp:
  "ends (Send d sub x) (\<lambda>w1. quiet w (w1\<lparr>requests := requests w\<rparr>)
     \<and> (\<exists>now. requests w1 = requests w @ [request_of d sub x now])) w"
  unfolding Send_def wp_bind wp_now by (auto simp: wp_def Let_def quiet_def split: sum.split)

lemma attempt_settles:
  assumes "RequireTenant c = Inr t" "find (delivery_by t i) (deliveries w) = Some z" "wd_ID x = i"
  shows "ends (attempt d c sub x) (attempted d t i sub x w) w"
  unfolding attempt_def wp_bind wp_try
proof (rule wp_mono [OF Send_wp])
  fix w1 assume w1: "quiet w (w1\<lparr>requests := requests w\<rparr>)
     \<and> (\<exists>now. requests w1 = requests w @ [request_of d sub x now])"
  then have find: "find (delivery_by t i) (deliveries w1) = Some z" using assms(2) by (simp add: quiet_def)
  have ok: "life True x y \<Longrightarrow> settle d t i y w1 w' \<Longrightarrow> attempted d t i sub x w w'" for y w'
    using w1 by (auto simp: attempted_def)
  have again: "ends (retryOrDead d c (x\<lparr>wd_Attempts := wd_Attempts x + 1\<rparr>) r) (attempted d t i sub x w) w1" for r
    by (rule ends_mono [OF retryOrDead_settles [OF assms(1) find assms(3)]]) (auto dest: ok)
  have fine: "ends (delivered d c (x\<lparr>wd_Attempts := wd_Attempts x + 1\<rparr>)) (attempted d t i sub x w) w1"
  proof (rule ends_mono [OF delivered_settles [OF assms(1) find]])
    show "wd_ID (x\<lparr>wd_Attempts := wd_Attempts x + 1\<rparr>) = i" by (simp add: assms(3))
  qed (auto intro: ok [OF life_ok])
  { fix code show "ends (let x' = x\<lparr>wd_Attempts := wd_Attempts x + 1\<rparr> in case Inr code of
          Inl a \<Rightarrow> retryOrDead d c x' (deliveryError (Inr code))
        | Inr code' \<Rightarrow> if 200 \<le> code' \<and> code' < 300 then delivered d c x' else retryOrDead d c x' (deliveryError (Inr code)))
      (attempted d t i sub x w) w1" using again fine by (simp add: Let_def) }
  { fix e show "ends (let x' = x\<lparr>wd_Attempts := wd_Attempts x + 1\<rparr> in case Inl e of
          Inl a \<Rightarrow> retryOrDead d c x' (deliveryError (Inl e))
        | Inr code' \<Rightarrow> if 200 \<le> code' \<and> code' < 300 then delivered d c x' else retryOrDead d c x' (deliveryError (Inl e)))
      (attempted d t i sub x w) w1" using again by (simp add: Let_def) }
qed

text \<open>The lookups.\<close>

lemma toEntity_enabled: "toEntity d m = Inr s \<Longrightarrow> ws_Enabled s = ws_Enabled m \<and> ws_RateLimitPerMin s = ws_RateLimitPerMin m"
  by (auto simp: toEntity_def split: sum.splits)

lemma sub_FindByID_wp:
  assumes "RequireTenant c = Inr t"
  shows "wp (sub_FindByID d c i)
     (\<lambda>sub w'. w' = tick w \<and> (\<exists>m \<in> set (subs w). sub_by t i m \<and> toEntity d m = Inr sub \<and> ws_Enabled sub = ws_Enabled m))
     (\<lambda>e w'. w' = tick w \<and> (err_code_of (From e) = CodeNotFound \<or> (\<exists>n. fault d n \<noteq> None)
        \<or> (\<exists>m \<in> set (subs w). \<exists>e. toEntity d m = Inl e))) w"
  using assms unfolding sub_FindByID_def repo_query_def wp_bind wp_lift wp_db_call
  by (auto simp: wp_def find_one_def map_err_def lift_res_def From_code MapError_def dest: find_Some_in toEntity_enabled
      split: option.split sum.splits)

lemma delivery_FindByID_wp:
  "wp (delivery_FindByID d c i)
     (\<lambda>x w'. w' = tick w \<and> (\<exists>t. RequireTenant c = Inr t \<and> find (delivery_by t i) (deliveries w) = Some x))
     (\<lambda>e w'. quiet w w' \<and> ((\<exists>n. fault d n \<noteq> None) \<or> (\<exists>e. RequireTenant c = Inl e)
        \<or> (\<exists>t. RequireTenant c = Inr t \<and> find (delivery_by t i) (deliveries w) = None))) w"
  unfolding delivery_FindByID_def repo_query_def wp_bind wp_lift wp_db_call
  by (auto simp: wp_def find_one_def map_err_def split: option.split sum.splits)

lemma settle_run:
  assumes "RequireTenant c = Inr t" "find (delivery_by t i) (deliveries w) = Some x" "\<not> IsTerminal (wd_Status x)"
    and "quiet w w1" "life False x y" "wd_Status y = HookRetrying \<longrightarrow> throttled d t x w" "settle d t i y w1 w'"
  shows "run_of d c i w w'"
  unfolding run_of_def
  by (intro disjI2 exI [of _ t] exI [of _ x] exI [of _ False]) (use assms in \<open>auto simp: quiet_def settle_def\<close>)

lemma authenticI:
  "m \<in> set (subs w) \<Longrightarrow> sub_by t (wd_WebhookID x) m \<Longrightarrow> toEntity d m = Inr sub \<Longrightarrow> ws_Enabled m \<Longrightarrow>
     authentic d t x w (request_of d sub x now)"
  by (auto simp: authentic_def)

lemma attempted_run:
  assumes "RequireTenant c = Inr t" "find (delivery_by t i) (deliveries w) = Some x" "\<not> IsTerminal (wd_Status x)"
    and "quiet w w1" "attempted d t i sub x w1 w'"
    and "m \<in> set (subs w)" "sub_by t (wd_WebhookID x) m" "toEntity d m = Inr sub" "ws_Enabled m"
  shows "run_of d c i w w'"
  unfolding run_of_def
  by (intro disjI2 exI [of _ t] exI [of _ x] exI [of _ True])
     (use assms(1-5) authenticI [OF assms(6-9)] in \<open>auto simp: quiet_def settle_def attempted_def\<close>)

lemma quiet_found: "quiet w w1 \<Longrightarrow> find p (deliveries w) = r \<Longrightarrow> find p (deliveries w1) = r"
  by (simp add: quiet_def)

lemma dead_run:
  assumes "RequireTenant c = Inr t" "find (delivery_by t i) (deliveries w) = Some x" "\<not> IsTerminal (wd_Status x)"
    and "quiet w w1"
  shows "ends (dead d c x r) (run_of d c i w) w1"
proof -
  have id: "wd_ID x = i" using assms(2) by (auto simp: delivery_by_def dest: find_Some_in)
  show ?thesis
    by (rule ends_mono [OF dead_settles [OF assms(1) quiet_found [OF assms(4,2)] id]])
       (auto simp: go_const intro: settle_run [OF assms life_drop])
qed

lemma deliver_to_run:
  assumes "RequireTenant c = Inr t" "find (delivery_by t i) (deliveries w) = Some x" "\<not> IsTerminal (wd_Status x)"
    and w1: "quiet w w1"
    and sub: "m \<in> set (subs w)" "sub_by t (wd_WebhookID x) m" "toEntity d m = Inr sub"
  shows "ends (deliver_to d c x sub) (run_of d c i w) w1"
proof (cases "ws_Enabled sub")
  case True
  have id: "wd_ID x = i" using assms(2) by (auto simp: delivery_by_def dest: find_Some_in)
  have later: "ends (reschedule d c x k r) (run_of d c i w) w2" if "quiet w w2" "throttled d t x w" for k r w2
    by (rule ends_mono [OF reschedule_settles [OF assms(1) quiet_found [OF that(1) assms(2)] id]])
       (auto simp: that(2) intro: settle_run [OF assms(1-3) that(1) life_wait])
  have go: "ends (attempt d c sub x) (run_of d c i w) w2" if "quiet w w2" for w2
    by (rule ends_mono [OF attempt_settles [OF assms(1) quiet_found [OF that assms(2)] id]])
       (use True toEntity_enabled [OF sub(3)] in \<open>auto intro: attempted_run [OF assms(1-3) that _ sub]\<close>)
  have "wp (if he_HasLimiter d then webhook_Allow d (ws_ID sub) (ws_RateLimitPerMin sub) else return_io True)
      (\<lambda>allowed w2. quiet w1 w2 \<and> (allowed \<or> throttled d t x w)) (\<lambda>_ _. False) w1"
    using sub toEntity_enabled [OF sub(3)]
    by (cases "he_HasLimiter d") (auto simp: wp_return throttled_def intro!: wp_mono [OF Allow_wp])
  then have "ends (bind_io (if he_HasLimiter d then webhook_Allow d (ws_ID sub) (ws_RateLimitPerMin sub) else return_io True)
       (\<lambda>allowed. if \<not> allowed then reschedule d c x 30 ''rate limited'' else attempt d c sub x)) (run_of d c i w) w1"
    unfolding wp_bind
    by (rule wp_mono) (auto intro: later go still.rel_trans [OF w1])
  with True show ?thesis by (simp add: deliver_to_def)
qed (simp add: deliver_to_def dead_run [OF assms(1-4)])

lemma Deliver_ends: "ends (Deliver d c i) (run_of d c i w) w"
  unfolding Deliver_def wp_bind
proof (rule wp_mono [OF delivery_FindByID_wp], elim conjE exE)
  fix x w1 t assume w1: "w1 = tick w" and t: "RequireTenant c = Inr t"
    and x: "find (delivery_by t i) (deliveries w) = Some x"
  let ?rest = "\<lambda>r. case r of
       Inl e \<Rightarrow> if err_code_of (From e) = CodeNotFound then dead d c x ''subscription no longer exists'' else throw_io e
     | Inr sub \<Rightarrow> deliver_to d c x sub"
  show "ends (if IsTerminal (wd_Status x) then return_io () else bind_io (try_io (sub_FindByID d c (wd_WebhookID x))) ?rest)
    (run_of d c i w) w1"
  proof (cases "IsTerminal (wd_Status x)")
    case True
    with x w1 t show ?thesis by (simp add: wp_return run_of_def excused_def)
  next
    case False
    have q: "quiet w (tick w1)" using w1 still.rel_trans [OF quiet_tick quiet_tick] by simp
    have s: "subs w1 = subs w" using w1 by simp
    show ?thesis unfolding if_not_P [OF False] wp_bind wp_try
    proof (rule wp_mono [OF sub_FindByID_wp [OF t]], elim conjE bexE)
      fix e w2 assume "w2 = tick w1 \<and> (err_code_of (From e) = CodeNotFound \<or> (\<exists>n. fault d n \<noteq> None)
        \<or> (\<exists>m \<in> set (subs w1). \<exists>e. toEntity d m = Inl e))"
      then show "ends (?rest (Inl e)) (run_of d c i w) w2"
        using q s dead_run [OF t x False q] by (auto simp: wp_throw run_of_def excused_def)
    qed (use q s in \<open>auto intro: deliver_to_run [OF t x False]\<close>)
  qed
qed (auto simp: run_of_def excused_def)

lemma Deliver_run: "run_of d c i w (snd (Deliver d c i w))"
  using Deliver_ends [of d c i w] by (simp add: wp_def split: prod.splits sum.splits)

section \<open>The queue settles\<close>

text \<open>The queue hands one of its tasks, in any order, to a worker.\<close>

inductive work :: "'e hook_env_scheme \<Rightarrow> ctx \<Rightarrow> 'z hook_world_scheme \<Rightarrow> 'z hook_world_scheme \<Rightarrow> bool" for d c where
  "hook_tasks w = xs @ t # ys \<Longrightarrow> work d c w (snd (deliverWebhook d c t (w\<lparr>hook_tasks := xs @ ys\<rparr>)))"

text \<open>The attempts a delivery has left, and the executions the queue may still see.\<close>

definition left_over :: "webhook_delivery \<Rightarrow> nat" where
  "left_over x = (if IsTerminal (wd_Status x) then 0 else nat (defaultMaxAttempts - wd_Attempts x))"

definition budget :: "'z hook_world_scheme \<Rightarrow> nat" where
  "budget w = length (hook_tasks w) + sum_list (map left_over (deliveries w))"

definition unlimited :: "'z hook_world_scheme \<Rightarrow> bool" where
  "unlimited w \<longleftrightarrow> (\<forall>m \<in> set (subs w). ws_RateLimitPerMin m \<le> 0)"

lemma sum_update_first:
  "find p xs = Some x \<Longrightarrow> sum_list (map f (update_first p g xs)) + f x = sum_list (map f xs) + (f (g x) :: nat)"
  by (induction xs) (auto split: if_splits)

lemma set_update_found: "find p xs = Some x \<Longrightarrow> set (update_first p g xs) \<subseteq> insert (g x) (set xs)"
  by (induction xs) (auto split: if_splits)

lemma kept_by_update: "find p xs = Some y \<Longrightarrow> x \<in> set xs \<Longrightarrow> x \<noteq> y \<Longrightarrow> x \<in> set (update_first p g xs)"
  by (induction xs) (auto split: if_splits)

lemma left_over_set: "life b x y \<Longrightarrow> left_over (delivery_set y x) = left_over y"
  by (simp add: left_over_def delivery_set_def)

lemma left_over_less:
  "life b x y \<Longrightarrow> \<not> IsTerminal (wd_Status x) \<Longrightarrow> left_over y \<le> left_over x
     \<and> (wd_Status y = HookRetrying \<longrightarrow> b \<longrightarrow> left_over y < left_over x)"
  by (auto simp: left_over_def IsTerminal_def defaultMaxAttempts_def go_const elim!: life_cases)

lemma run_subs: "run_of d c i w w' \<Longrightarrow> subs w' = subs w"
  by (auto simp: run_of_def quiet_def)

text \<open>
  What a run adds to the executions to come: nothing, unless the rate limit puts the request off,
  and then one. A run that comes back without a request in exchange for its task is throttled.
\<close>

lemma run_budget:
  assumes "run_of d c i w w'"
  shows "length (requests w') + budget w' \<le> Suc (length (requests w) + budget w)
    \<and> (budget w' \<le> budget w \<or> requests w' = requests w \<and> length (hook_tasks w') = Suc (length (hook_tasks w)))
    \<and> (requests w' = requests w \<and> length (hook_tasks w') = Suc (length (hook_tasks w)) \<longrightarrow> (\<exists>t x. throttled d t x w))"
  using assms unfolding run_of_def
proof (elim disjE conjE exE)
  fix t x sent y assume x: "find (delivery_by t i) (deliveries w) = Some x" "\<not> IsTerminal (wd_Status x)"
    and rq: "if sent then \<exists>rq. authentic d t x w rq \<and> requests w' = requests w @ [rq] else requests w' = requests w"
    and y: "life sent x y" "wd_Status y = HookRetrying \<longrightarrow> sent \<or> throttled d t x w"
      "deliveries w' = put_back t i y (deliveries w)" "queued d y (hook_tasks w) (hook_tasks w')"
  have sum: "sum_list (map left_over (deliveries w')) + left_over x = sum_list (map left_over (deliveries w)) + left_over y"
    using sum_update_first [OF x(1), of left_over "delivery_set y"] left_over_set [OF y(1)] y(3) by (simp add: put_back_def)
  have less: "left_over y \<le> left_over x" "wd_Status y = HookRetrying \<Longrightarrow> sent \<Longrightarrow> left_over y < left_over x"
    using left_over_less [OF y(1) x(2)] by blast+
  have rqs: "requests w' = requests w \<longleftrightarrow> \<not> sent" "length (requests w') = length (requests w) + (if sent then 1 else 0)"
    using rq by (auto split: if_splits)
  from y(4) consider "hook_tasks w' = hook_tasks w"
    | "wd_Status y = HookRetrying" "length (hook_tasks w') = Suc (length (hook_tasks w))"
    by (auto simp: queued_def)
  then show ?thesis
  proof cases
    case 1
    with sum less(1) rqs show ?thesis by (auto simp: budget_def)
  next
    case 2
    with sum less rqs y(2) show ?thesis by (cases sent) (auto simp: budget_def)
  qed
qed (auto simp: quiet_def budget_def split: if_splits)

text \<open>A task that comes back to the queue without a request was put off by the rate limit.\<close>

definition put_off :: "'z hook_world_scheme \<Rightarrow> 'z hook_world_scheme \<Rightarrow> bool" where
  "put_off w w' \<longleftrightarrow> requests w' = requests w \<and> length (hook_tasks w') = length (hook_tasks w)"

text \<open>A run of the workers: the tasks executed, and how many of them were put off.\<close>

inductive works :: "'e hook_env_scheme \<Rightarrow> ctx \<Rightarrow> nat \<Rightarrow> nat \<Rightarrow> 'z hook_world_scheme \<Rightarrow> 'z hook_world_scheme \<Rightarrow> bool" for d c where
  rest: "works d c 0 0 w w"
| step: "works d c n k u v \<Longrightarrow> work d c v w \<Longrightarrow> works d c (Suc n) (if put_off v w then Suc k else k) u w"

lemma work_budget:
  assumes "work d c w w'"
  shows "length (requests w') + budget w' \<le> length (requests w) + budget w
    \<and> Suc (budget w') \<le> budget w + (if put_off w w' then 1 else 0)
    \<and> (put_off w w' \<longrightarrow> he_HasLimiter d \<and> \<not> unlimited w) \<and> subs w' = subs w"
  using assms
proof (cases rule: work.cases)
  case (1 xs t ys)
  let ?w = "w\<lparr>hook_tasks := xs @ ys\<rparr>"
  have run: "run_of d (WithTenant c (ht_TenantID t)) (ht_DeliveryID t) ?w w'"
    unfolding 1 deliverWebhook_def by (rule Deliver_run)
  have w: "budget w = Suc (budget ?w)" "length (hook_tasks w) = Suc (length (hook_tasks ?w))" "requests ?w = requests w"
    using 1 by (simp_all add: budget_def)
  have "throttled d u x ?w \<Longrightarrow> he_HasLimiter d \<and> \<not> unlimited w" for u x
    by (auto simp: throttled_def unlimited_def not_le)
  with run_budget [OF run] run_subs [OF run] w show ?thesis by (auto simp: put_off_def)
qed

lemma works_budget:
  "works d c n k w w' \<Longrightarrow> length (requests w') + budget w' \<le> length (requests w) + budget w
     \<and> n + budget w' \<le> budget w + k \<and> subs w' = subs w \<and> (unlimited w \<or> \<not> he_HasLimiter d \<longrightarrow> k = 0)"
proof (induction rule: works.induct)
  case (step n k u v w)
  from work_budget [OF step.hyps(2)] step.IH show ?case by (auto simp: unlimited_def)
qed simp

text \<open>Where nothing fails, a delivery that is not final has its task in the queue.\<close>

definition tracked :: "'z hook_world_scheme \<Rightarrow> bool" where
  "tracked w \<longleftrightarrow> distinct (map wd_ID (deliveries w)) \<and> (\<forall>x \<in> set (deliveries w). wd_TenantID x \<noteq> [] \<and>
     (IsTerminal (wd_Status x) \<or> (\<exists>t \<in> set (hook_tasks w). ht_TenantID t = wd_TenantID x \<and> ht_DeliveryID t = wd_ID x)))"

definition reliable :: "'e hook_env_scheme \<Rightarrow> 'z hook_world_scheme \<Rightarrow> bool" where
  "reliable d w \<longleftrightarrow> (\<forall>n. fault d n = None) \<and> he_HasEnqueuer d \<and> (\<forall>m \<in> set (subs w). \<exists>s. toEntity d m = Inr s)"

lemma set_put_back:
  assumes "distinct (map wd_ID xs)" "find (delivery_by t i) xs = Some x"
  shows "set (put_back t i y xs) = insert (delivery_set y x) (set xs - {x})"
  using assms unfolding put_back_def
  by (induction xs) (auto simp: image_iff dest: find_Some_in split: if_splits)

lemma find_delivery:
  "distinct (map wd_ID xs) \<Longrightarrow> x \<in> set xs \<Longrightarrow> delivery_by t i x \<Longrightarrow> find (delivery_by t i) xs = Some x"
  by (induction xs) (auto simp: delivery_by_def image_iff)

lemma put_back_ids: "map wd_ID (put_back t i y xs) = map wd_ID xs"
  by (simp add: put_back_def delivery_set_def map_update_first)

lemma run_tracked:
  assumes run: "run_of d c i w w'" and rel: "reliable d w" and dist: "distinct (map wd_ID (deliveries w))"
    and others: "\<forall>x \<in> set (deliveries w). wd_TenantID x \<noteq> [] \<and> (IsTerminal (wd_Status x) \<or> delivery_by t i x
      \<or> (\<exists>t \<in> set (hook_tasks w). ht_TenantID t = wd_TenantID x \<and> ht_DeliveryID t = wd_ID x))"
    and c: "ctx_tenant c = Some t"
  shows "tracked w' \<and> reliable d w'"
proof -
  have ok: "\<And>n. fault d n = None" "he_HasEnqueuer d" and dec: "\<forall>m \<in> set (subs w). \<forall>e. toEntity d m \<noteq> Inl e"
    using rel by (force simp: reliable_def)+
  from run show ?thesis unfolding run_of_def
  proof (elim disjE conjE exE)
    assume q: "quiet w w'" "excused d c i w"
    have "IsTerminal (wd_Status x)" if "x \<in> set (deliveries w)" "delivery_by t i x" for x
      using q(2) ok dec c others that find_delivery [OF dist that] 
      by (auto simp: excused_def RequireTenant_Inr RequireTenant_def delivery_by_def split: option.splits if_splits)
    with q(1) dist others rel show ?thesis by (auto simp: tracked_def quiet_def reliable_def)
  next
    fix u x sent y assume u: "RequireTenant c = Inr u" and x: "find (delivery_by u i) (deliveries w) = Some x"
      and y: "life sent x y" "deliveries w' = put_back u i y (deliveries w)" "queued d y (hook_tasks w) (hook_tasks w')"
        and s: "subs w' = subs w"
    have [simp]: "u = t" using u c by (simp add: RequireTenant_Inr)
    have xin: "x \<in> set (deliveries w)" "wd_TenantID x = t" "wd_ID x = i"
      using x by (auto simp: delivery_by_def dest: find_Some_in)
    have new: "IsTerminal (wd_Status (delivery_set y x)) \<or> (\<exists>k \<in> set (hook_tasks w').
         ht_TenantID k = wd_TenantID (delivery_set y x) \<and> ht_DeliveryID k = wd_ID (delivery_set y x))"
      using y(1,3) ok life_id [OF y(1)] by (auto simp: queued_def IsTerminal_def delivery_set_def go_const elim!: life_cases)
    have old: "set (hook_tasks w) \<subseteq> set (hook_tasks w')" using y(3) by (auto simp: queued_def)
    have "wd_TenantID z \<noteq> [] \<and> (IsTerminal (wd_Status z) \<or> (\<exists>k \<in> set (hook_tasks w'). ht_TenantID k = wd_TenantID z \<and> ht_DeliveryID k = wd_ID z))"
      if z: "z \<in> set (deliveries w')" for z
    proof (cases "z = delivery_set y x")
      case True
      with new others xin show ?thesis by (auto simp: delivery_set_def)
    next
      case False
      with z y(2) set_put_back [OF dist x] have z': "z \<in> set (deliveries w)" "z \<noteq> x" by auto
      have "\<not> delivery_by t i z" using find_delivery [OF dist z'(1)] x z'(2) by fastforce
      with others z'(1) old show ?thesis by blast
    qed
    then show ?thesis using dist s rel by (simp add: tracked_def y(2) put_back_ids reliable_def)
  qed (use ok in auto)
qed

lemma work_tracked:
  assumes "work d c w w'" "tracked w" "reliable d w"
  shows "tracked w' \<and> reliable d w'"
  using assms(1)
proof (cases rule: work.cases)
  case (1 xs k ys)
  let ?w = "w\<lparr>hook_tasks := xs @ ys\<rparr>"
  have "run_of d (WithTenant c (ht_TenantID k)) (ht_DeliveryID k) ?w w'"
    unfolding 1 deliverWebhook_def by (rule Deliver_run)
  then show ?thesis
    by (rule run_tracked) (use assms(2,3) 1 in \<open>auto simp: tracked_def reliable_def delivery_by_def WithTenant_def\<close>)
qed

text \<open>
  C35: The delivery queue settles. Whatever the receivers answer, in whatever order the queue hands
  tasks out and whatever fails, the workers send at most \<open>budget\<close> requests (one for each queued
  task and each attempt the open deliveries have left), and execute at most that many tasks more
  than the rate limit put off; without a limiter or a limit on the subscriptions none is put off.
  If the database and the queue never fail, every secret can be opened and each open delivery has
  its task, then once the queue is empty every delivery has been delivered or dead-lettered;
  \<open>failed_read_strands_delivery\<close> is what a failed read does instead.
\<close>

theorem deliveries_settle:
  assumes "works d c n k w w'"
  shows "length (requests w') \<le> length (requests w) + budget w \<and> n \<le> budget w + k
    \<and> (unlimited w \<or> \<not> he_HasLimiter d \<longrightarrow> k = 0)
    \<and> (hook_tasks w' = [] \<and> tracked w \<and> reliable d w \<longrightarrow> (\<forall>x \<in> set (deliveries w'). IsTerminal (wd_Status x)))"
proof -
  have "tracked w \<Longrightarrow> reliable d w \<Longrightarrow> tracked w' \<and> reliable d w'"
    using assms by (induction rule: works.induct) (auto dest: work_tracked)
  with works_budget [OF assms] show ?thesis by (auto simp: tracked_def)
qed

section \<open>Every delivery, in every reachable state\<close>

lemma framed_snd: "framed R m \<Longrightarrow> R w (snd (m w))"
  by (simp add: framed_def)

definition fresh_delivery :: "webhook_delivery \<Rightarrow> bool" where
  "fresh_delivery x \<longleftrightarrow> wd_Status x = HookPending \<and> wd_Attempts x = 0 \<and> wd_NextRetryAt x = None"

text \<open>The dispatcher only adds pending deliveries and sends nothing.\<close>

definition grows :: "'z hook_world_scheme \<Rightarrow> 'z hook_world_scheme \<Rightarrow> bool" where
  "grows w w' \<longleftrightarrow> requests w' = requests w \<and> subs w' = subs w
     \<and> (\<exists>xs. deliveries w' = deliveries w @ xs \<and> (\<forall>x \<in> set xs. fresh_delivery x))"

interpretation grow: io_rel "grows :: 'z hook_world_scheme \<Rightarrow> 'z hook_world_scheme \<Rightarrow> bool"
  by unfold_locales (auto simp: grows_def)

lemma grows_query:
  "framed grows (repo_query d c (coll :: 'z hook_world_scheme \<Rightarrow> 'd list) q)"
  unfolding framed_wp repo_query_def wp_bind wp_lift wp_db_call
  by (auto simp: wp_def grows_def split: option.split sum.split)

lemma grows_sub_find: "framed grows (sub_FindByID d c i :: ('z hook_world_scheme, _) io)"
    "framed grows (sub_FindByChannelID d c i :: ('z hook_world_scheme, _) io)"
    "framed grows (ListEnabledByEvent d t e :: ('z hook_world_scheme, _) io)"
  unfolding sub_FindByID_def sub_FindByChannelID_def ListEnabledByEvent_def
  by (intro grow.fr_bind grows_query grow.fr_lift)+
    (auto intro!: grow.fr_bind grow.fr_lift simp: framed_wp wp_db_call wp_gets grows_def split: option.split)

lemma grows_create: "fresh_delivery x \<Longrightarrow> framed grows (delivery_Create d c x :: ('z hook_world_scheme, _) io)"
  unfolding framed_wp delivery_Create_def repo_write_def wp_bind wp_lift wp_db_call
  by (auto simp: wp_def grows_def insert_one_def split: option.split sum.split)

lemma grows_announce: "framed grows (announce d t i :: ('z hook_world_scheme, _) io)"
  unfolding announce_def EnqueueDeliver_def enqueue_def
  by (auto simp: framed_def grows_def io_defs split: option.split)

lemma grows_clock: "framed grows (now_io d :: ('z hook_world_scheme, _) io)" "framed grows (new_id d :: ('z hook_world_scheme, _) io)"
  by (auto simp: framed_def grows_def now_io_def new_id_def)

lemma fresh_new: "fresh_delivery (new_delivery i t h e b n)"
  by (simp add: fresh_delivery_def new_delivery_def)

lemmas grow_rules = grow.fr_bind grow.fr_then grow.fr_try grow.fr_return grow.fr_throw grow.fr_lift grow.fr_guard
  grow.fr_for grows_sub_find grows_create grows_announce grows_clock fresh_new

lemma emit_one_grows: "framed grows (emit_one d c t wire sec now p sub :: ('z hook_world_scheme, _) io)"
  unfolding emit_one_def
  by (auto intro!: grow_rules split: sum.split)

lemma Emit_grows: "framed grows (Emit d c t ev sec p :: ('z hook_world_scheme, _) io)"
  unfolding Emit_def emit_def
  by (auto intro!: grow_rules emit_one_grows split: sum.split option.split)

lemma EmitTo_grows: "framed grows (EmitTo d c t h ev p :: ('z hook_world_scheme, _) io)"
  unfolding EmitTo_def by (auto intro!: grow_rules)

lemma EmitToChannel_grows: "framed grows (EmitToChannel d c t h ev p :: ('z hook_world_scheme, _) io)"
  unfolding EmitToChannel_def by (auto intro!: grow_rules EmitTo_grows split: sum.split)

text \<open>
  Any sequence of emissions, worker runs and tests, of any tenants, with any failure; whatever
  else the program does leaves deliveries and requests alone.
\<close>

inductive hook_reachable :: "'e hook_env_scheme \<Rightarrow> 'z hook_world_scheme \<Rightarrow> bool" for d where
  start: "deliveries w = [] \<Longrightarrow> requests w = [] \<Longrightarrow> hook_reachable d w"
| emit: "hook_reachable d w \<Longrightarrow> hook_reachable d (snd (Emit d c t ev sec p w))"
| emit_to: "hook_reachable d w \<Longrightarrow> hook_reachable d (snd (EmitTo d c t h ev p w))"
| emit_channel: "hook_reachable d w \<Longrightarrow> hook_reachable d (snd (EmitToChannel d c t ch ev p w))"
| deliver: "hook_reachable d w \<Longrightarrow> hook_reachable d (snd (Deliver d c i w))"
| test: "hook_reachable d w \<Longrightarrow> hook_reachable d (snd (Test d c i w))"
| other: "hook_reachable d w \<Longrightarrow> deliveries w' = deliveries w \<Longrightarrow> requests w' = requests w \<Longrightarrow> hook_reachable d w'"

definition sent :: "ident \<Rightarrow> 'z hook_world_scheme \<Rightarrow> int" where
  "sent i w = int (length (filter (\<lambda>rq. rq_DeliveryID rq = i) (requests w)))"

text \<open>What the status of a delivery says of its attempts.\<close>

definition sound_delivery :: "webhook_delivery \<Rightarrow> bool" where
  "sound_delivery x \<longleftrightarrow> 0 \<le> wd_Attempts x \<and> wd_Attempts x \<le> defaultMaxAttempts
     \<and> wd_Status x \<in> {HookPending, HookRetrying, HookDelivered, HookDead, HookFailed}
     \<and> (wd_Status x = HookPending \<longrightarrow> wd_Attempts x = 0)
     \<and> (wd_Status x \<in> {HookRetrying, HookFailed} \<longrightarrow> wd_Attempts x < defaultMaxAttempts)
     \<and> (wd_Status x \<in> {HookDelivered, HookFailed} \<longrightarrow> 0 < wd_Attempts x)
     \<and> (wd_NextRetryAt x \<noteq> None \<longleftrightarrow> wd_Status x = HookRetrying)"

definition accounted :: "'z hook_world_scheme \<Rightarrow> bool" where
  "accounted w \<longleftrightarrow> (\<forall>x \<in> set (deliveries w). sound_delivery x \<and> wd_Attempts x \<le> sent (wd_ID x) w)"

lemma sound_fresh: "fresh_delivery x \<Longrightarrow> sound_delivery x \<and> wd_Attempts x = 0"
  by (simp add: fresh_delivery_def sound_delivery_def defaultMaxAttempts_def go_const)

lemma grows_accounted: "grows w w' \<Longrightarrow> accounted w \<Longrightarrow> accounted w'"
  by (auto simp: grows_def accounted_def sent_def sound_fresh)

lemma sound_life:
  assumes "life b x y" "sound_delivery x" "\<not> IsTerminal (wd_Status x)"
  shows "sound_delivery (delivery_set y x) \<and> wd_Attempts (delivery_set y x) = wd_Attempts x + (if b then 1 else 0)"
proof -
  have x: "0 \<le> wd_Attempts x" "wd_Attempts x < defaultMaxAttempts"
    using assms(2,3) by (auto simp: sound_delivery_def IsTerminal_def defaultMaxAttempts_def)
  from assms(1) show ?thesis
    by (cases rule: life.cases) (use x in \<open>simp_all add: sound_delivery_def delivery_set_def\<close>)
qed

lemma run_accounted:
  assumes "run_of d c i w w'" "accounted w"
  shows "accounted w'"
  using assms(1) unfolding run_of_def
proof (elim disjE conjE exE)
  fix t x sent y assume x: "find (delivery_by t i) (deliveries w) = Some x" "\<not> IsTerminal (wd_Status x)"
    and rq: "if sent then \<exists>rq. authentic d t x w rq \<and> requests w' = requests w @ [rq] else requests w' = requests w"
    and y: "life sent x y" "deliveries w' = put_back t i y (deliveries w)"
  have xin: "x \<in> set (deliveries w)" using x(1) by (auto dest: find_Some_in)
  then have sx: "sound_delivery x" "wd_Attempts x \<le> Webhook_Props.sent (wd_ID x) w"
    using assms(2) by (auto simp: accounted_def)
  have more: "Webhook_Props.sent j w + (if sent \<and> j = wd_ID x then 1 else 0) \<le> Webhook_Props.sent j w'" for j
    using rq by (auto simp: sent_def authentic_def request_of_def Let_def split: if_splits)
  show ?thesis unfolding accounted_def
  proof
    fix z assume "z \<in> set (deliveries w')"
    then have "z = delivery_set y x \<or> z \<in> set (deliveries w)"
      using set_update_found [OF x(1)] y(2) by (auto simp: put_back_def)
    then show "sound_delivery z \<and> wd_Attempts z \<le> Webhook_Props.sent (wd_ID z) w'"
    proof
      assume z: "z = delivery_set y x"
      then have "wd_ID z = wd_ID x" by (simp add: delivery_set_def)
      with sound_life [OF y(1) sx(1) x(2)] sx(2) more [of "wd_ID x"] z show ?thesis by (auto split: if_splits)
    next
      assume "z \<in> set (deliveries w)"
      with assms(2) more [of "wd_ID z"] show ?thesis by (force simp: accounted_def split: if_splits)
    qed
  qed
qed (use assms(2) in \<open>auto simp: accounted_def quiet_def sent_def split: if_splits\<close>)

lemma accounted_more:
  "accounted w \<Longrightarrow> deliveries w' = deliveries w \<Longrightarrow> requests w' = requests w @ rqs \<Longrightarrow> accounted w'"
  by (fastforce simp: accounted_def sent_def)

lemma Create_accounted:
  assumes "accounted w" "sound_delivery x" "wd_Attempts x \<le> sent (wd_ID x) w"
  shows "ends (ignore_io (delivery_Create d c x)) accounted w"
  unfolding delivery_Create_def repo_write_def wp_ignore wp_bind wp_lift wp_db_call
  using assms by (auto simp: wp_def insert_one_def accounted_def sent_def split: option.split sum.split)

lemma test_attempt_accounted:
  assumes "accounted w" "fresh_delivery x"
  shows "ends (test_attempt d c sub x) accounted w"
proof -
  have final: "ends (then_io (ignore_io (delivery_Create d c y)) (return_io res)) accounted (tick w1)"
    if w1: "quiet w (w1\<lparr>requests := requests w\<rparr>) \<and> (\<exists>now. requests w1 = requests w @ [request_of d sub x now])"
      and y: "wd_ID y = wd_ID x" "wd_Attempts y = 1" "wd_NextRetryAt y = wd_NextRetryAt x" "wd_Status y \<in> {HookDelivered, HookFailed}"
    for w1 y res
  proof -
    have acc: "accounted (tick w1)" using w1 assms(1) by (auto intro: accounted_more simp: quiet_def)
    have one: "1 \<le> sent (wd_ID y) (tick w1)" using w1 y by (auto simp: sent_def request_of_def Let_def)
    have "sound_delivery y" using y assms(2) by (auto simp: sound_delivery_def fresh_delivery_def defaultMaxAttempts_def)
    with acc one y(2) have "ends (ignore_io (delivery_Create d c y)) accounted (tick w1)"
      by (intro Create_accounted) simp_all
    then show ?thesis unfolding wp_then by (rule wp_mono) (simp_all add: wp_return)
  qed
  show ?thesis unfolding test_attempt_def wp_bind wp_try
    by (rule wp_mono [OF Send_wp]) (auto simp: wp_now Let_def intro!: final)
qed

lemma ends_bind: "ends m P w \<Longrightarrow> (\<And>x w'. P w' \<Longrightarrow> ends (f x) P w') \<Longrightarrow> ends (bind_io m f) P w"
  unfolding wp_bind by (rule wp_mono)

lemma Test_accounted:
  assumes "accounted w" shows "accounted (snd (Test d c i w))"
proof -
  have clock: "accounted w' \<Longrightarrow> ends (now_io d) accounted w'" "accounted w' \<Longrightarrow> ends (new_id d) accounted w'" for w'
    by (auto simp: wp_now wp_new_id intro: accounted_more [where rqs = "[]"])
  have look: "accounted w' \<Longrightarrow> ends (sub_FindByID d c i) accounted w'" for w'
    using grows_sub_find(1) [of d c i] by (auto simp: framed_wp intro: ends_mono grows_accounted)
  have "ends (Test d c i) accounted w"
    unfolding Test_def then_io_def
    by (intro ends_bind look clock)
       (auto simp: wp_lift wp_throw assms fresh_new intro!: test_attempt_accounted split: sum.split)
  then show ?thesis by (simp add: wp_def split: prod.splits sum.splits)
qed

text \<open>
  C36: In every state the program reaches, every webhook delivery has between 0 and six attempts,
  no more than requests were sent for it; a pending one has none, a delivered one at least one,
  one that waits for its retry fewer than six and a retry instant, which no other has.
\<close>

theorem deliveries_are_accounted_for:
  assumes "hook_reachable d w" "x \<in> set (deliveries w)"
  shows "sound_delivery x \<and> wd_Attempts x \<le> sent (wd_ID x) w"
proof -
  from assms(1) have "accounted w"
  proof (induction rule: hook_reachable.induct)
    case (start w) then show ?case by (simp add: accounted_def)
  next
    case (other w w') then show ?case by (auto intro: accounted_more [where rqs = "[]"])
  qed (auto intro: grows_accounted run_accounted Deliver_run Test_accounted
         framed_snd [OF Emit_grows] framed_snd [OF EmitTo_grows] framed_snd [OF EmitToChannel_grows])
  with assms(2) show ?thesis by (simp add: accounted_def)
qed

text \<open>
  A delivered or dead-lettered delivery rests: a run of the worker, for any tenant and any
  delivery, leaves it as it is and sends no request for it.
\<close>

theorem final_deliveries_rest:
  assumes "distinct (map wd_ID (deliveries w))" "x \<in> set (deliveries w)" "IsTerminal (wd_Status x)"
  shows "x \<in> set (deliveries (snd (Deliver d c i w))) \<and> sent (wd_ID x) (snd (Deliver d c i w)) = sent (wd_ID x) w"
proof -
  let ?w = "snd (Deliver d c i w)"
  have "quiet w ?w \<or> (\<exists>t y snt. find (delivery_by t i) (deliveries w) = Some y \<and> \<not> IsTerminal (wd_Status y)
      \<and> (requests ?w = requests w \<or> (\<exists>rq. authentic d t y w rq \<and> requests ?w = requests w @ [rq]))
      \<and> (deliveries ?w = deliveries w \<or> (\<exists>z. deliveries ?w = put_back t i z (deliveries w))))"
    using Deliver_run [of d c i w] unfolding run_of_def by (auto split: if_splits)
  then show ?thesis
  proof
    assume "quiet w ?w" then show ?thesis using assms(2) by (simp add: quiet_def sent_def)
  next
    assume "\<exists>t y snt. find (delivery_by t i) (deliveries w) = Some y \<and> \<not> IsTerminal (wd_Status y)
      \<and> (requests ?w = requests w \<or> (\<exists>rq. authentic d t y w rq \<and> requests ?w = requests w @ [rq]))
      \<and> (deliveries ?w = deliveries w \<or> (\<exists>z. deliveries ?w = put_back t i z (deliveries w)))"
    then obtain t y where y: "find (delivery_by t i) (deliveries w) = Some y" "\<not> IsTerminal (wd_Status y)"
      and rq: "requests ?w = requests w \<or> (\<exists>rq. authentic d t y w rq \<and> requests ?w = requests w @ [rq])"
      and ds: "deliveries ?w = deliveries w \<or> (\<exists>z. deliveries ?w = put_back t i z (deliveries w))"
      by blast
    have "x \<noteq> y" using y(2) assms(3) by auto
    with y(1) assms(1,2) have "wd_ID x \<noteq> wd_ID y" by (auto dest!: find_Some_in simp: distinct_map inj_on_def)
    with rq have "sent (wd_ID x) ?w = sent (wd_ID x) w"
      by (auto simp: sent_def authentic_def request_of_def Let_def)
    moreover have "x \<in> set (deliveries ?w)"
      using ds assms(2) \<open>x \<noteq> y\<close> kept_by_update [OF y(1)] by (auto simp: put_back_def)
    ultimately show ?thesis by simp
  qed
qed

section \<open>Witnesses\<close>

lemmas deliver_eval = Deliver_def delivery_FindByID_def repo_query_def db_call_def find_one_def delivery_by_def map_err_def
  RequireTenant_def sub_FindByID_def sub_by_def toEntity_def Decrypt_def deliver_to_def webhook_Allow_def attempt_def
  Send_def now_io_def delivered_def delivery_Update_def repo_write_def update_one_def delivery_set_def IsTerminal_def

lemma demo_delivers:
  "deliveries (snd (Deliver hook_env0 hook_ctx0 ''d1'' (hook_world1\<lparr>hook_tasks := []\<rparr>)))
     = [(hd (deliveries hook_world1))\<lparr>wd_Attempts := 1, wd_Status := HookDelivered, wd_UpdatedAt := 4000000\<rparr>]
   \<and> hook_tasks (snd (Deliver hook_env0 hook_ctx0 ''d1'' (hook_world1\<lparr>hook_tasks := []\<rparr>))) = []"
  by (simp add: deliver_eval hook_demo io_defs tick_def Let_def)

lemma demo_work: "work hook_env0 hook_ctx0 hook_world1 (snd (Deliver hook_env0 hook_ctx0 ''d1'' (hook_world1\<lparr>hook_tasks := []\<rparr>)))"
  using work.intros [of hook_world1 "[]" "\<lparr>ht_TenantID = ''t1'', ht_DeliveryID = ''d1'', ht_Delay = 0\<rparr>" "[]" hook_env0 hook_ctx0]
  by (simp add: deliverWebhook_def hook_world1_def WithTenant_def hook_ctx0_def)

text \<open>
  The subscription of the witness allows one request a minute and the minute's is spent: the first
  run puts the delivery off, the second, a minute later, delivers it.
\<close>

definition slow_env :: hook_env where
  "slow_env = hook_env0\<lparr>clk := (\<lambda>n. if n < 9 then 0 else 2 * Minute)\<rparr>"

definition slow_world :: hook_world where
  "slow_world = hook_world1\<lparr>subs := [hook_sub0\<lparr>ws_RateLimitPerMin := 1\<rparr>],
     redis := [''webhook:rl:h1'' \<mapsto> \<lparr>re_Value = RCounter 1, re_Expires = Some Minute\<rparr>]\<rparr>"

abbreviation run_first :: "hook_env \<Rightarrow> hook_world \<Rightarrow> hook_world" where
  "run_first d w \<equiv> snd (deliverWebhook d hook_ctx0 (hd (hook_tasks w)) (w\<lparr>hook_tasks := tl (hook_tasks w)\<rparr>))"

lemma work_first: "hook_tasks w \<noteq> [] \<Longrightarrow> work d hook_ctx0 w (run_first d w)"
  by (rule work.intros [of _ "[]", simplified]) simp

definition slow_put_off :: hook_world where
  "slow_put_off = slow_world\<lparr>step := 7, redis := [''webhook:rl:h1'' \<mapsto> \<lparr>re_Value = RCounter 2, re_Expires = Some Minute\<rparr>],
     deliveries := [(hd (deliveries hook_world1))\<lparr>wd_Status := HookRetrying, wd_LastError := ''rate limited'',
       wd_NextRetryAt := Some (durationSeconds 30)\<rparr>],
     hook_tasks := [\<lparr>ht_TenantID = ''t1'', ht_DeliveryID = ''d1'', ht_Delay = 30\<rparr>]\<rparr>"

lemmas slow_eval = deliverWebhook_def deliver_eval hook_demo slow_world_def slow_env_def WithTenant_def io_defs tick_def
  count_window_def redis_call_def Incr_def Expire_def rget_def alive_def reschedule_def EnqueueRetry_def enqueue_def

lemma slow_first: "run_first slow_env slow_world = slow_put_off"
  by (simp add: slow_eval slow_put_off_def Minute_def Second_def Let_def)

lemma slow_second:
  "hook_tasks (run_first slow_env slow_put_off) = []" "requests (run_first slow_env slow_put_off) \<noteq> []"
  by (simp_all add: slow_put_off_def slow_eval Minute_def Second_def Let_def)

lemma slow_tasks: "hook_tasks slow_world \<noteq> []" "hook_tasks slow_put_off \<noteq> []" "put_off slow_world slow_put_off"
    "\<not> put_off slow_put_off (run_first slow_env slow_put_off)"
  by (simp_all add: put_off_def slow_second) (simp_all add: slow_put_off_def slow_world_def hook_world1_def)

lemma slow_works: "works slow_env hook_ctx0 2 1 slow_world (run_first slow_env slow_put_off)"
proof -
  have w1: "work slow_env hook_ctx0 slow_world slow_put_off"
    using work_first [OF slow_tasks(1), of slow_env] by (simp only: slow_first)
  show ?thesis
    using works.step [OF works.step [OF works.rest w1] work_first [OF slow_tasks(2)]]
    by (simp only: slow_tasks(3,4) if_True if_False numeral_2_eq_2 One_nat_def)
qed

theorem deliveries_settle_witness:
  "works slow_env hook_ctx0 2 1 slow_world (run_first slow_env slow_put_off)
   \<and> length (requests (run_first slow_env slow_put_off)) \<le> 7
   \<and> list_all (\<lambda>x. IsTerminal (wd_Status x)) (deliveries (run_first slow_env slow_put_off))"
proof -
  have "budget slow_world = 7" "requests slow_world = []"
    by (simp_all add: budget_def left_over_def slow_world_def hook_demo IsTerminal_def defaultMaxAttempts_def)
  moreover have "tracked slow_world" "reliable slow_env slow_world"
    by (simp_all add: tracked_def reliable_def toEntity_def Decrypt_def slow_world_def slow_env_def hook_demo)
  ultimately show ?thesis using deliveries_settle [OF slow_works] slow_second(1) slow_works by (auto simp: list_all_iff)
qed

text \<open>
  A run that cannot read its delivery drops the task: the queue does not retry (\<open>MaxRetry(0)\<close>), so
  the delivery stays pending and nothing will send it.
\<close>

lemma failed_read_strands_delivery:
  "let w = run_first (hook_env0\<lparr>fault := (\<lambda>n. if n = 0 then Some ''timeout'' else None)\<rparr>) hook_world1 in
     hook_tasks w = [] \<and> requests w = [] \<and> map wd_Status (deliveries w) = [HookPending]"
  by (simp add: slow_eval Let_def)

theorem deliveries_are_accounted_for_witness:
  "\<exists>x. hook_reachable hook_env0 (snd (Emit hook_env0 hook_ctx0 ''t1'' ''message.created'' [] GNil hook_world0))
     \<and> x \<in> set (deliveries (snd (Emit hook_env0 hook_ctx0 ''t1'' ''message.created'' [] GNil hook_world0)))
     \<and> sound_delivery x"
proof -
  let ?w = "snd (Emit hook_env0 hook_ctx0 ''t1'' ''message.created'' [] GNil hook_world0)"
  have "hook_reachable hook_env0 hook_world0" by (rule start) (simp_all add: hook_world0_def)
  then have w: "hook_reachable hook_env0 ?w" by (rule emit)
  have "deliveries ?w \<noteq> []"
    by (simp add: Emit_def emit_def WireEvent_def internalToWire_def ListEnabledByEvent_def SubscribesTo_def emit_one_def
        scopeAllows_def delivery_Create_def announce_def EnqueueDeliver_def enqueue_def insert_one_def new_id_def
        deliver_eval hook_demo io_defs tick_def Let_def)
  then have "hd (deliveries ?w) \<in> set (deliveries ?w)" by simp
  with w deliveries_are_accounted_for [OF w this] show ?thesis by blast
qed

theorem final_deliveries_rest_witness:
  "let w = hook_world1\<lparr>deliveries := [(hd (deliveries hook_world1))\<lparr>wd_Status := HookDead\<rparr>]\<rparr> in
     sent ''d1'' (snd (Deliver hook_env0 hook_ctx0 ''d1'' w)) = 0"
proof -
  let ?x = "(hd (deliveries hook_world1))\<lparr>wd_Status := HookDead\<rparr>"
  let ?w = "hook_world1\<lparr>deliveries := [?x]\<rparr>"
  have "sent (wd_ID ?x) (snd (Deliver hook_env0 hook_ctx0 ''d1'' ?w)) = sent (wd_ID ?x) ?w"
    by (rule final_deliveries_rest [THEN conjunct2]) (simp_all add: IsTerminal_def)
  then show ?thesis by (simp add: Let_def sent_def hook_demo)
qed

end
