(* ===== verification/Webhook_Emit.thy ===== *)
theory Webhook_Emit
  imports Webhook_Props
begin

text \<open>
  The dispatcher: an event becomes one pending delivery and one task for each enabled subscription
  of the tenant that listens to it and whose scopes let its sector through, in the order of the
  subscriptions, and nothing else changes.
\<close>

section \<open>The addressees of an event\<close>

definition addressees :: "ident \<Rightarrow> string \<Rightarrow> ident \<Rightarrow> webhook_subscription list \<Rightarrow> webhook_subscription list" where
  "addressees t wire sectorID ss =
     filter (\<lambda>s. ws_TenantID s = t \<and> SubscribesTo s wire \<and> scopeAllows (ws_Scopes s) sectorID) ss"

definition first_task :: "ident \<Rightarrow> ident \<Rightarrow> hook_task" where
  "first_task t i = \<lparr>ht_TenantID = t, ht_DeliveryID = i, ht_Delay = 0\<rparr>"

text \<open>
  An environment in which an emission cannot fail: the database and the queue answer, identifiers
  are fresh, stored secrets can be read and the payload has a JSON encoding.
\<close>

definition smooth :: "'e hook_env_scheme \<Rightarrow> (ident \<Rightarrow> string \<Rightarrow> time \<Rightarrow> gany \<Rightarrow> string) \<Rightarrow> bool" where
  "smooth d body \<longleftrightarrow> (\<forall>n. fault d n = None) \<and> he_HasEnqueuer d \<and> inj (newid d)
     \<and> he_Marshal d = (\<lambda>i e n p. Inr (body i e n p)) \<and> (\<forall>s. \<exists>s'. Decrypt d s = Inr s')"

text \<open>Nothing but the collections and the queue of webhooks differs, and the step counter.\<close>

definition only_adds :: "webhook_delivery list \<Rightarrow> hook_task list \<Rightarrow> 'z hook_world_scheme \<Rightarrow> 'z hook_world_scheme \<Rightarrow> bool" where
  "only_adds xs ts w w' \<longleftrightarrow> (\<exists>n \<ge> step w.
     w' = w\<lparr>step := n, deliveries := deliveries w @ xs, hook_tasks := hook_tasks w @ ts\<rparr>)"

lemma only_adds_refl: "only_adds [] [] w w"
  by (auto simp: only_adds_def intro!: exI [of _ "step w"])

lemma only_adds_trans: "only_adds xs ts w w1 \<Longrightarrow> only_adds ys us w1 w2 \<Longrightarrow> only_adds (xs @ ys) (ts @ us) w w2"
  unfolding only_adds_def
  by (elim exE conjE, rule_tac x = na in exI) (simp add: order_trans)

lemma emit_one_adds:
  assumes "smooth d body" "RequireTenant c = Inr t" "scopeAllows (ws_Scopes sub) sec"
    and "newid d (step w) \<notin> wd_ID ` set (deliveries w)"
  shows "\<exists>w'. emit_one d c t wire sec now p sub w = (Inr (), w') \<and> step w < step w'
     \<and> only_adds [new_delivery (newid d (step w)) t (ws_ID sub) wire (body (newid d (step w)) wire now p) now]
         [first_task t (newid d (step w))] w w'"
  using assms
  by (auto simp: emit_one_def smooth_def io_defs new_id_def delivery_Create_def repo_write_def db_call_def
      insert_one_def new_delivery_def announce_def EnqueueDeliver_def enqueue_def first_task_def only_adds_def tick_def
      intro!: exI [of _ "Suc (Suc (Suc (step w)))"] hook_world.equality)

text \<open>The deliveries and tasks of a list of addressees under given identifiers.\<close>

definition deliveries_for ::
  "(ident \<Rightarrow> string \<Rightarrow> time \<Rightarrow> gany \<Rightarrow> string) \<Rightarrow> ident \<Rightarrow> string \<Rightarrow> time \<Rightarrow> gany \<Rightarrow> webhook_subscription list \<Rightarrow> ident list \<Rightarrow> webhook_delivery list" where
  "deliveries_for body t wire now p ss ids = map2 (\<lambda>s i. new_delivery i t (ws_ID s) wire (body i wire now p) now) ss ids"

lemma emit_loop_adds:
  assumes "smooth d body" "RequireTenant c = Inr t" "wd_ID ` set (deliveries w) \<inter> newid d ` {step w..} = {}"
  shows "\<exists>w' ids. for_io ss (emit_one d c t wire sec now p) w = (Inr (), w')
     \<and> length ids = length (filter (\<lambda>s. scopeAllows (ws_Scopes s) sec) ss) \<and> distinct ids \<and> set ids \<subseteq> newid d ` {step w..}
     \<and> only_adds (deliveries_for body t wire now p (filter (\<lambda>s. scopeAllows (ws_Scopes s) sec) ss) ids) (map (first_task t) ids) w w'"
  using assms(3)
proof (induction ss arbitrary: w)
  case Nil
  then show ?case by (auto simp: deliveries_for_def return_io_def only_adds_refl)
next
  case (Cons s ss)
  show ?case
  proof (cases "scopeAllows (ws_Scopes s) sec")
    case False
    then have "emit_one d c t wire sec now p s w = (Inr (), w)" by (simp add: emit_one_def return_io_def)
    with False Cons.IH [OF Cons.prems] show ?thesis by (simp add: then_io_def bind_io_def)
  next
    case True
    let ?i = "newid d (step w)"
    have "?i \<notin> wd_ID ` set (deliveries w)" using Cons.prems by auto
    from emit_one_adds [OF assms(1,2) True this, of wire now p] obtain w1 where
      w1: "emit_one d c t wire sec now p s w = (Inr (), w1)" "step w < step w1"
        "only_adds [new_delivery ?i t (ws_ID s) wire (body ?i wire now p) now] [first_task t ?i] w w1" by blast
    have inj: "inj (newid d)" using assms(1) by (simp add: smooth_def)
    have ids: "deliveries w1 = deliveries w @ [new_delivery ?i t (ws_ID s) wire (body ?i wire now p) now]"
      using w1(3) by (auto simp: only_adds_def)
    have "wd_ID ` set (deliveries w1) \<inter> newid d ` {step w1..} = {}"
      using Cons.prems w1(2) by (auto simp: ids new_delivery_def dest: injD [OF inj])
    from Cons.IH [OF this] obtain w2 js where
      w2: "for_io ss (emit_one d c t wire sec now p) w1 = (Inr (), w2)"
        "length js = length (filter (\<lambda>s. scopeAllows (ws_Scopes s) sec) ss)" "distinct js" "set js \<subseteq> newid d ` {step w1..}"
        "only_adds (deliveries_for body t wire now p (filter (\<lambda>s. scopeAllows (ws_Scopes s) sec) ss) js) (map (first_task t) js) w1 w2"
      by blast
    have later: "newid d ` {step w1..} \<subseteq> newid d ` {step w..}" using w1(2) by (intro image_mono) auto
    have "?i \<notin> newid d ` {step w1..}" using w1(2) by (auto dest: injD [OF inj])
    then have "?i \<notin> set js" using w2(4) by blast
    moreover have "set (?i # js) \<subseteq> newid d ` {step w..}" using w2(4) later by auto
    ultimately show ?thesis
      using True w1(1) w2(1-3) only_adds_trans [OF w1(3) w2(5)]
      by (intro exI [of _ w2] exI [of _ "?i # js"]) (simp add: then_io_def bind_io_def deliveries_for_def)
  qed
qed

lemma decodeAll_ok:
  "\<forall>s. \<exists>s'. Decrypt d s = Inr s' \<Longrightarrow> \<exists>ss'. decodeAll d ss = Inr ss' \<and> length ss' = length ss
     \<and> map (\<lambda>s. (ws_ID s, ws_Scopes s)) ss' = map (\<lambda>s. (ws_ID s, ws_Scopes s)) ss"
proof (induction ss)
  case (Cons s ss)
  from Cons.prems obtain x where "Decrypt d (ws_Secret s) = Inr x" by blast
  with Cons show ?case by (auto simp: toEntity_def)
qed simp

lemma fan_out_ids:
  "map (\<lambda>s. (ws_ID s, ws_Scopes s)) ss' = map (\<lambda>s. (ws_ID s, ws_Scopes s)) ss \<Longrightarrow>
     deliveries_for body t wire now p (filter (\<lambda>s. scopeAllows (ws_Scopes s) sec) ss') ids
       = deliveries_for body t wire now p (filter (\<lambda>s. scopeAllows (ws_Scopes s) sec) ss) ids
   \<and> length (filter (\<lambda>s. scopeAllows (ws_Scopes s) sec) ss') = length (filter (\<lambda>s. scopeAllows (ws_Scopes s) sec) ss)"
proof (induction ss arbitrary: ss' ids)
  case (Cons s ss)
  then obtain s' ss1 where "ss' = s' # ss1" "ws_ID s' = ws_ID s" "ws_Scopes s' = ws_Scopes s"
    "map (\<lambda>s. (ws_ID s, ws_Scopes s)) ss1 = map (\<lambda>s. (ws_ID s, ws_Scopes s)) ss" by (cases ss') auto
  with Cons.IH [of ss1] show ?case by (cases ids) (auto simp: deliveries_for_def)
qed simp

text \<open>
  The dispatcher on every event. An event that is not part of the webhook contract changes
  nothing; any other becomes exactly one pending delivery, with its own identifier and one task,
  for each enabled subscription of the tenant that listens to its wire name and whose scopes let
  its sector through, in the order of the subscriptions, and nothing else changes.
\<close>

theorem Emit_fans_out:
  assumes "smooth d body" "RequireTenant c = Inr t" "wd_ID ` set (deliveries w) \<inter> range (newid d) = {}"
  shows "case WireEvent ev of None \<Rightarrow> Emit d c t ev sec p w = (Inr (), w)
    | Some wire \<Rightarrow> \<exists>w' ids now. Emit d c t ev sec p w = (Inr (), w') \<and> distinct ids
        \<and> length ids = length (addressees t wire sec (subs w))
        \<and> only_adds (deliveries_for body t wire now p (addressees t wire sec (subs w)) ids) (map (first_task t) ids) w w'"
proof (cases "WireEvent ev")
  case (Some wire)
  let ?ms = "filter (\<lambda>s. ws_TenantID s = t \<and> SubscribesTo s wire) (subs w)"
  have t: "t \<noteq> []" using assms(2) by (simp add: RequireTenant_Inr)
  obtain ss where ss: "decodeAll d ?ms = Inr ss"
      "map (\<lambda>s. (ws_ID s, ws_Scopes s)) ss = map (\<lambda>s. (ws_ID s, ws_Scopes s)) ?ms" "length ss = length ?ms"
    using decodeAll_ok [of d ?ms] assms(1) by (auto simp: smooth_def)
  have addr: "addressees t wire sec (subs w) = filter (\<lambda>s. scopeAllows (ws_Scopes s) sec) ?ms"
    by (auto simp: addressees_def intro: filter_cong)
  have list: "ListEnabledByEvent d t wire w = (Inr ss, tick w)"
    using ss(1) assms(1) by (simp add: ListEnabledByEvent_def smooth_def io_defs db_call_def)
  show ?thesis
  proof (cases "ss = []")
    case True
    with ss(3) have "?ms = []" by simp
    with True list t Some show ?thesis
      by (auto simp: Emit_def emit_def io_defs addr deliveries_for_def only_adds_def intro!: exI [of _ "Suc (step w)"] simp: tick_def)
  next
    case False
    let ?w = "tick (tick w)"
    have "wd_ID ` set (deliveries ?w) \<inter> newid d ` {step ?w..} = {}" using assms(3) by auto
    from emit_loop_adds [OF assms(1,2) this, where wire = wire and sec = sec and now = "clk d (step (tick w))" and p = p and ss = ss]
    obtain w' ids where w': "for_io ss (emit_one d c t wire sec (clk d (step (tick w))) p) ?w = (Inr (), w')"
      "length ids = length (filter (\<lambda>s. scopeAllows (ws_Scopes s) sec) ss)" "distinct ids"
      "only_adds (deliveries_for body t wire (clk d (step (tick w))) p (filter (\<lambda>s. scopeAllows (ws_Scopes s) sec) ss) ids) (map (first_task t) ids) ?w w'"
      by blast
    have "Emit d c t ev sec p w = (Inr (), w')"
      using Some t list False w'(1) by (simp add: Emit_def emit_def io_defs now_io_def)
    moreover have "only_adds [] [] w ?w" by (auto simp: only_adds_def tick_def intro!: exI [of _ "Suc (Suc (step w))"] hook_world.equality)
    ultimately show ?thesis
      using Some w'(2,3) only_adds_trans [OF _ w'(4)] fan_out_ids [OF ss(2)] by (fastforce simp: addr)
  qed
qed (use assms(2) in \<open>auto simp: Emit_def emit_def return_io_def\<close>)

theorem Emit_fans_out_witness:
  "\<exists>w' i now. Emit hook_env0 hook_ctx0 ''t1'' ''message.created'' [] GNil hook_world0 = (Inr (), w')
     \<and> deliveries w' = [new_delivery i ''t1'' ''h1'' ''message_created'' (i @ ''message_created'') now]
     \<and> hook_tasks w' = [first_task ''t1'' i]"
proof -
  have inj: "inj (newid hook_env0)" by (auto simp: hook_env0_def inj_on_def replicate_eq_replicate)
  have smooth: "smooth hook_env0 (\<lambda>i e n p. i @ e)"
    using inj by (simp add: smooth_def hook_env0_def Decrypt_def)
  have "addressees ''t1'' ''message_created'' [] (subs hook_world0) = [hook_sub0]"
    by (simp add: addressees_def hook_demo SubscribesTo_def scopeAllows_def)
  then show ?thesis
    using Emit_fans_out [OF smooth, of hook_ctx0 "''t1''" hook_world0 "''message.created''" "[]" GNil]
    by (auto simp: WireEvent_def internalToWire_def RequireTenant_def hook_ctx0_def only_adds_def deliveries_for_def
        length_Suc_conv hook_world0_def hook_sub0_def) blast
qed

end
