(* ===== verification/Webhook_Forms.thy ===== *)
theory Webhook_Forms
  imports Webhook_Props
begin

text \<open>
  What the subscription service keeps of the stored subscriptions, for any sequence of requests of
  any tenants: a URL that can be called, events the dispatcher knows, and for a subscription
  managed by a channel exactly the channel's events.
\<close>

definition callable :: "string \<Rightarrow> bool" where
  "callable u \<longleftrightarrow> (\<exists>scheme host. url_Parse u = Some (scheme, host) \<and> scheme \<in> {''http'', ''https''} \<and> host \<noteq> [])"

definition sub_ok :: "webhook_subscription \<Rightarrow> bool" where
  "sub_ok s \<longleftrightarrow> callable (ws_URL s) \<and> ws_Events s \<noteq> [] \<and> distinct (ws_Events s)
     \<and> (if Managed s then ws_Events s = managedChannelEvents else set (ws_Events s) \<subseteq> set SupportedEvents)"

lemma validateURL_ok: "validateURL u = Inr () \<Longrightarrow> callable (trim_space u)"
  by (auto simp: validateURL_def valid_url_def callable_def split: if_splits option.splits)

lemma normalize_loop_ok:
  "normalize_loop seen evs = Inr out \<Longrightarrow> distinct out \<and> set out \<subseteq> set SupportedEvents \<and> set out \<inter> seen = {}
     \<and> (evs \<noteq> [] \<longrightarrow> seen = {} \<longrightarrow> out \<noteq> [])"
proof (induction seen evs arbitrary: out rule: normalize_loop.induct)
  case (2 seen x xs)
  let ?e = "trim_space x"
  have sup: "?e \<in> set SupportedEvents" using 2(3) by (auto simp: Let_def IsSupportedEvent_def split: if_splits)
  show ?case
  proof (cases "?e \<in> seen")
    case True
    with 2(3) sup have "normalize_loop seen xs = Inr out" by (simp add: Let_def IsSupportedEvent_def)
    from 2(1) [OF refl _ True this] sup True show ?thesis by (auto simp: IsSupportedEvent_def)
  next
    case False
    with 2(3) sup obtain o1 where "normalize_loop (insert ?e seen) xs = Inr o1" "out = ?e # o1"
      by (auto simp: Let_def IsSupportedEvent_def split: sum.splits)
    with 2(2) [OF refl _ False this(1)] sup show ?thesis using False by (auto simp: IsSupportedEvent_def)
  qed
qed simp

lemma normalizeEvents_ok:
  "normalizeEvents evs = Inr out \<Longrightarrow> distinct out \<and> set out \<subseteq> set SupportedEvents \<and> out \<noteq> []"
  using normalize_loop_ok [of "{}" evs out] by (auto simp: normalizeEvents_def split: if_splits)

lemma managed_events_ok: "managedChannelEvents \<noteq> []" "distinct managedChannelEvents"
  by (simp_all add: managedChannelEvents_def SupportedEvents_def)

interpretation hooks: tenant_store ws_ID ws_TenantID sub_set subs
  "\<lambda>ss w. w\<lparr>subs := ss\<rparr> :: 'z hook_world_scheme" sub_ok
  by unfold_locales (simp add: sub_ok_def sub_set_def Managed_def)

text \<open>Whether a subscription is well formed does not depend on its secret.\<close>

lemma sub_ok_secret [simp]: "sub_ok (s\<lparr>ws_Secret := x\<rparr>) = sub_ok s"
  by (simp add: sub_ok_def Managed_def)

lemma sub_ok_toEntity: "toEntity d m = Inr s \<Longrightarrow> sub_ok s = sub_ok m"
  by (auto simp: toEntity_def split: sum.splits)

text \<open>What neither the collection nor its documents depend on.\<close>

lemma hooks_same: "(\<And>w. subs (snd (m w)) = subs w) \<Longrightarrow> framed (hooks.kept c) (m :: ('z hook_world_scheme, 'a) io)"
  by (simp add: framed_def hooks.kept_same)

lemma hooks_Encrypt: "framed (hooks.kept c) (sealed msg (Encrypt d s) :: ('z hook_world_scheme, string) io)"
  unfolding sealed_def
  by (intro hooks.kept.fr_bind hooks.kept.fr_try)
     (auto intro!: hooks_same hooks.kept.fr_throw hooks.kept.fr_return simp: Encrypt_def return_io_def tick_def split: sum.split)

lemma hooks_audit: "framed (hooks.kept c) (audit_io c' a i g :: ('z hook_world_scheme, unit) io)"
  by (rule hooks_same) (simp add: audit_io_def log_effect_def modify_io_def)

lemma hooks_usage: "framed (hooks.kept c) (webhook_usage d i :: ('z hook_world_scheme, string option) io)"
  by (rule hooks_same) (simp add: webhook_usage_def return_io_def tick_def split: option.split)

lemma hooks_Create: "sub_ok s \<Longrightarrow> RequireTenant c = Inr (ws_TenantID s) \<Longrightarrow> framed (hooks.kept c) (sub_Create d c s)"
  unfolding sub_Create_def
  by (intro hooks.kept.fr_then hooks.kept.fr_lift hooks.kept.fr_bind hooks_Encrypt hooks.kept_insert)
     (simp_all add: toModel_def)

lemma hooks_Update: "sub_ok s \<Longrightarrow> framed (hooks.kept c) (sub_Update d c s)"
  unfolding sub_Update_def
  by (intro hooks.kept.fr_then hooks.kept.fr_lift hooks.kept.fr_bind hooks_Encrypt hooks.kept_update)
     (simp_all add: toModel_def sub_by_def)

lemma hooks_Delete: "framed (hooks.kept c) (sub_Delete d c i)"
  unfolding sub_Delete_def by (rule hooks.kept_delete) (simp add: sub_by_def)

lemma hooks_found:
  "(\<And>s. sub_ok s \<Longrightarrow> framed (hooks.kept c) (f s)) \<Longrightarrow> framed (hooks.kept c) (bind_io (sub_FindByID d c' i) f)"
  unfolding sub_FindByID_def bind_assoc
  by (rule hooks.kept_bind_found, rule hooks.kept.fr_bind_lift) (simp add: sub_ok_toEntity)

lemma hooks_try_found:
  "(\<And>e. framed (hooks.kept c) (f (Inl e))) \<Longrightarrow> (\<And>s. sub_ok s \<Longrightarrow> ws_OwnedByChannelID s = ch \<Longrightarrow> framed (hooks.kept c) (f (Inr s))) \<Longrightarrow>
     framed (hooks.kept c) (bind_io (try_io (sub_FindByChannelID d c' ch)) f)"
  unfolding sub_FindByChannelID_def try_bind_lift
  by (rule hooks.kept_try_found) (auto simp: sub_ok_toEntity toEntity_def split: sum.split)

text \<open>The patches of an update keep a subscription that no channel manages well formed.\<close>

definition own_ok :: "webhook_subscription \<Rightarrow> bool" where
  "own_ok s \<longleftrightarrow> sub_ok s \<and> \<not> Managed s"

lemma patch_sub_ok:
  assumes "patch_sub cmd s = Inr s'" "own_ok s"
  shows "own_ok s'"
proof -
  let ?s0 = "patch (uw_Name cmd) (\<lambda>n s. s\<lparr>ws_Name := trim_space n\<rparr>) s"
  have fields: "own_ok (x\<lparr>ws_Name := n\<rparr>) = own_ok x" "own_ok (x\<lparr>ws_Scopes := sc\<rparr>) = own_ok x"
    "own_ok (x\<lparr>ws_Enabled := b\<rparr>) = own_ok x" "own_ok (x\<lparr>ws_RateLimitPerMin := k\<rparr>) = own_ok x" for x n sc b k
    by (simp_all add: own_ok_def sub_ok_def Managed_def)
  obtain s1 s2 where s1: "patch_res (uw_URL cmd) patch_url ?s0 = Inr s1" and s2: "patch_res (uw_Events cmd) patch_events s1 = Inr s2"
    and s': "s' = patch (uw_RateLimitPerMin cmd) (\<lambda>n s. s\<lparr>ws_RateLimitPerMin := n\<rparr>)
         (patch (uw_Enabled cmd) (\<lambda>b s. s\<lparr>ws_Enabled := b\<rparr>) (patch (uw_Scopes cmd) (\<lambda>sc s. s\<lparr>ws_Scopes := sc\<rparr>) s2))"
    using assms(1) by (auto simp: patch_sub_def res_bind_Inr)
  have "own_ok ?s0" using assms(2) by (simp add: patch_def fields split: option.split)
  then have "own_ok s1"
    using s1 by (auto simp: patch_res_def patch_url_def res_bind_Inr own_ok_def sub_ok_def Managed_def dest: validateURL_ok split: option.splits)
  then have "own_ok s2"
    using s2 by (auto simp: patch_res_def patch_events_def res_bind_Inr own_ok_def sub_ok_def Managed_def dest!: normalizeEvents_ok split: option.splits)
  then show ?thesis by (simp add: s' patch_def fields split: option.split)
qed

section \<open>Requests\<close>

datatype hook_change =
    NewHook create_subscription | EditHook ident update_subscription | DropHook ident
  | SyncHook ident string string | UnhookChannel ident

fun serve_hook :: "'e hook_env_scheme \<Rightarrow> ctx \<Rightarrow> hook_change \<Rightarrow> ('z hook_world_scheme, unit) io" where
  "serve_hook d c (NewHook cmd) = then_io (webhook_Create d c cmd) (return_io ())"
| "serve_hook d c (EditHook i cmd) = then_io (webhook_Update d c i cmd) (return_io ())"
| "serve_hook d c (DropHook i) = webhook_Delete d c i"
| "serve_hook d c (SyncHook ch url secret) = SyncChannelWebhook d c ch url secret"
| "serve_hook d c (UnhookChannel ch) = RemoveChannelWebhook d c ch"

fun serve_hooks :: "'e hook_env_scheme \<Rightarrow> (ctx \<times> hook_change) list \<Rightarrow> 'z hook_world_scheme \<Rightarrow> 'z hook_world_scheme" where
  "serve_hooks d [] w = w"
| "serve_hooks d ((c, rq) # rqs) w = serve_hooks d rqs (snd (serve_hook d c rq w))"

lemmas hooks_rules = hooks.kept.fr_bind_lift hooks.kept.fr_then_lift hooks.kept.fr_then_guard hooks.kept.fr_bind hooks.kept.fr_then
  hooks.kept.fr_lift hooks.kept.fr_return hooks.kept.fr_throw hooks.kept_now hooks.kept_new_id hooks_audit hooks_usage

lemma hooks_rand: "framed (hooks.kept c) (randomToken d :: ('z hook_world_scheme, string) io)"
  by (rule hooks_same) (simp add: randomToken_def tick_def)

lemma hooks_webhook_Create: "framed (hooks.kept c) (webhook_Create d c cmd)"
  unfolding webhook_Create_def Let_def
  by (intro hooks_rules hooks.kept.fr_if hooks_rand hooks_Create)
     (auto simp: sub_ok_def Managed_def dest!: validateURL_ok normalizeEvents_ok)

lemma hooks_webhook_Update: "framed (hooks.kept c) (webhook_Update d c i cmd)"
proof -
  have "sub_ok (s'\<lparr>ws_UpdatedAt := now\<rparr>)" if "sub_ok s" "\<not> Managed s" "patch_sub cmd s = Inr s'" for s s' now
    using patch_sub_ok [OF that(3)] that by (simp add: own_ok_def sub_ok_def Managed_def)
  then show ?thesis
    unfolding webhook_Update_def Let_def
    by (rule_tac hooks.kept.fr_then_lift, rule_tac hooks_found, rule_tac hooks.kept.fr_then_guard, rule_tac hooks.kept.fr_bind_lift)
       (auto intro!: hooks.kept.fr_bind hooks.kept.fr_then hooks.kept.fr_return hooks.kept_now hooks_audit hooks_Update)
qed

lemma hooks_webhook_Delete: "framed (hooks.kept c) (webhook_Delete d c i)"
  unfolding webhook_Delete_def
  by (rule hooks.kept.fr_then_lift, rule hooks_found, rule hooks.kept.fr_then_guard, rule hooks.kept.fr_bind [OF hooks_usage])
     (auto intro: hooks.kept.fr_then hooks.kept.fr_throw hooks_audit hooks_Delete split: option.split)

lemma hooks_Remove: "framed (hooks.kept c) (RemoveChannelWebhook d c ch)"
  unfolding RemoveChannelWebhook_def
  by (rule hooks.kept.fr_then_lift, rule hooks_try_found)
     (auto intro: hooks.kept.fr_return hooks.kept.fr_throw hooks_Delete)

lemma hooks_Sync:
  assumes "ch \<noteq> []" shows "framed (hooks.kept c) (SyncChannelWebhook d c ch url secret)"
proof -
  have ok: "validateURL (trim_space url) = Inr u \<Longrightarrow> ws_URL s = trim_space url \<Longrightarrow> ws_Events s = managedChannelEvents \<Longrightarrow>
      ws_OwnedByChannelID s = ch \<Longrightarrow> sub_ok s" for s u
    using assms managed_events_ok by (auto simp: sub_ok_def Managed_def dest: validateURL_ok)
  show ?thesis
    unfolding SyncChannelWebhook_def Let_def
    by (rule hooks.kept.fr_bind_lift, rule hooks.kept.fr_if [OF hooks_Remove], rule hooks.kept.fr_then_lift,
        rule hooks.kept.fr_bind [OF hooks.kept_now], rule hooks_try_found)
       (auto intro!: hooks.kept.fr_bind hooks.kept.fr_throw hooks.kept_new_id hooks_Create hooks_Update ok)
qed

lemma hooks_serve: "(\<And>url secret. rq \<noteq> SyncHook [] url secret) \<Longrightarrow> framed (hooks.kept c) (serve_hook d c rq)"
  by (cases rq) (auto intro: hooks.kept.fr_then hooks.kept.fr_return hooks_webhook_Create hooks_webhook_Update
      hooks_webhook_Delete hooks_Sync hooks_Remove)

text \<open>
  C37: Registered webhooks stay deliverable. Whatever requests to register, change, remove or
  synchronise webhooks are served, for any tenants and with any failures, every stored
  subscription has an http(s) URL with a host and a non-empty list of distinct events: events of
  the catalogue, or exactly the channel's events when a channel manages it; and the
  subscriptions of a tenant none of whose requests was served are as they were.
\<close>

theorem webhooks_stay_deliverable:
  assumes "distinct (map ws_ID (subs w))" and "\<forall>s \<in> set (subs w). sub_ok s"
    and "\<forall>c url secret. (c, SyncHook [] url secret) \<notin> set rqs"
  shows "(\<forall>s \<in> set (subs (serve_hooks d rqs w)). sub_ok s)
    \<and> (\<forall>t. (\<forall>c rq. (c, rq) \<in> set rqs \<longrightarrow> ctx_tenant c \<noteq> Some t) \<longrightarrow>
         filter (\<lambda>s. ws_TenantID s = t) (subs (serve_hooks d rqs w)) = filter (\<lambda>s. ws_TenantID s = t) (subs w))"
proof -
  have "\<And>c rq. (c, rq) \<in> set rqs \<Longrightarrow> framed (hooks.kept c) (serve_hook d c rq)"
    using assms(3) by (intro hooks_serve) blast
  from hooks.kept_requests [where run = "serve_hooks d" and serve = "serve_hook d" and w = w, OF _ _ this] assms(1,2)
  show ?thesis by (simp add: hooks.all_ok_def hooks.owned_def)
qed

lemma webhooks_stay_deliverable_witness:
  "list_all sub_ok (subs (serve_hooks hook_env0 [(hook_ctx0, NewHook \<lparr>xs_Name = [], xs_URL = ''https://a.b/c'', xs_Events = [''message_created''],
       xs_Scopes = [], xs_Secret = [], xs_Enabled = None, xs_RateLimitPerMin = 0\<rparr>), (hook_ctx0, SyncHook ''c1'' ''http://x'' ''k'')] hook_world0))"
proof -
  have "url_Parse ''https://a.b'' = Some (''https'', ''a.b'')" by code_simp
  then have "sub_ok hook_sub0"
    by (simp add: sub_ok_def hook_sub0_def callable_def Managed_def SupportedEvents_def)
  then show ?thesis unfolding list_all_iff
    by (intro webhooks_stay_deliverable [THEN conjunct1]) (simp_all add: hook_world0_def)
qed

end
