(* ===== verification/Contact_Forms.thy ===== *)
theory Contact_Forms
  imports Go_Text Shared
begin

text \<open>
  \<open>domain/contacts/service/validation.go\<close>: documents (CPF and CNPJ check digits), e-mail
  addresses, phones and channel identities, with the part of \<open>net/mail\<close> and \<open>net\<close> the
  address check reaches. The phone library and the Unicode case tables are parameters. A map
  of field errors is the list of its entries in the order they are set.
\<close>

section \<open>Documents\<close>

definition digitsOnly :: "string \<Rightarrow> string" where
  "digitsOnly s = filter is_digit s"

text \<open>\<open>int(d[i] - '0')\<close>: the difference of two bytes.\<close>

definition digit_at :: "string \<Rightarrow> nat \<Rightarrow> int" where
  "digit_at d i = int ((byte (d ! i) + 256 - 48) mod 256)"

definition allEqual :: "string \<Rightarrow> bool" where
  "allEqual s \<longleftrightarrow> (\<forall>i \<in> {1..<length s}. s ! i = s ! 0) \<and> 0 < length s"

definition cpfDigit :: "string \<Rightarrow> nat \<Rightarrow> nat \<Rightarrow> int" where
  "cpfDigit d n weight =
    (let s = (\<Sum>i\<leftarrow>[0..<n]. digit_at d i * (int weight - int i)); r = (s * 10) mod 11
     in if r = 10 then 0 else r)"

definition isValidCPF :: "string \<Rightarrow> bool" where
  "isValidCPF d \<longleftrightarrow> length d = 11 \<and> \<not> allEqual d \<and> cpfDigit d 9 10 = digit_at d 9 \<and> cpfDigit d 10 11 = digit_at d 10"

definition cnpjDigit :: "string \<Rightarrow> nat \<Rightarrow> int" where
  "cnpjDigit d n =
    (let weights = (if n = 13 then [6, 5, 4, 3, 2, 9, 8, 7, 6, 5, 4, 3, 2] else [5, 4, 3, 2, 9, 8, 7, 6, 5, 4, 3, 2]);
         r = (\<Sum>i\<leftarrow>[0..<n]. digit_at d i * weights ! i) mod 11
     in if r < 2 then 0 else 11 - r)"

definition isValidCNPJ :: "string \<Rightarrow> bool" where
  "isValidCNPJ d \<longleftrightarrow> length d = 14 \<and> \<not> allEqual d \<and> cnpjDigit d 12 = digit_at d 12 \<and> cnpjDigit d 13 = digit_at d 13"

definition NormalizeDocument :: "string \<Rightarrow> string \<times> bool" where
  "NormalizeDocument raw0 =
    (let raw = trim_space raw0; d = digitsOnly raw in
     if raw = [] then ([], True)
     else if length d = 11 \<and> isValidCPF d then (d, True)
     else if length d = 14 \<and> isValidCNPJ d then (d, True)
     else ([], False))"

text \<open>
  \<open>GenerateValidCPF\<close> draws nine digits at a time (\<open>rng n\<close> is the \<open>n\<close>-th answer of
  \<open>rng.Intn(10)\<close>) until the result is not one digit repeated.
\<close>

definition cpf_of :: "string \<Rightarrow> string" where
  "cpf_of base =
    (let d9 = base @ [char_of (nat (48 + cpfDigit base 9 10))]
     in d9 @ [char_of (nat (48 + cpfDigit d9 10 11))])"

definition draw :: "(nat \<Rightarrow> nat) \<Rightarrow> nat \<Rightarrow> string" where
  "draw rng k = map (\<lambda>i. char_of (48 + rng (k + i))) [0..<9]"

partial_function (option) GenerateValidCPF :: "(nat \<Rightarrow> nat) \<Rightarrow> nat \<Rightarrow> string option" where
  "GenerateValidCPF rng k = (let out = cpf_of (draw rng k) in
     if \<not> allEqual out then Some out else GenerateValidCPF rng (k + 9))"

section \<open>E-mail addresses\<close>

text \<open>
  \<open>mail.ParseAddress(e)\<close> with \<open>addr.Address == e\<close>: a display name, angle brackets, a group,
  comments, folding space and a quoted local part all make the parsed address shorter than
  the text, so what is left is \<open>consumeAddrSpec\<close> on the whole text: an atom with single dots,
  an at sign, and another such atom or a bracketed IP address.
\<close>

definition isAtext :: "nat \<Rightarrow> bool" where
  "isAtext r \<longleftrightarrow> (33 \<le> r \<and> r \<le> 126 \<or> 128 \<le> r)
     \<and> r \<notin> set (map of_char (''()<>[]:;@,'' @ [CHR 92, CHR 34]))"

function atom_length :: "string \<Rightarrow> nat option" where
  "atom_length s = (if s = [] then Some 0
     else (case decode_rune s of (r, n) \<Rightarrow>
       if r = RuneError \<and> n = 1 then None
       else if \<not> isAtext r then Some 0
       else map_option (\<lambda>k. n + k) (atom_length (drop n s))))"
  by pat_completeness auto
termination
proof (relation "measure length")
  fix s :: string and r n assume "s \<noteq> []" "(r, n) = decode_rune s"
  then have "n = snd (decode_rune s)" by (simp add: prod_eq_iff)
  with decode_rune_size [OF \<open>s \<noteq> []\<close>] \<open>s \<noteq> []\<close> show "(drop n s, s) \<in> measure length" by (simp add: diff_less)
qed simp

declare atom_length.simps [simp del]

text \<open>\<open>consumeAtom(true, false)\<close>: the atom and what follows it.\<close>

definition consumeAtom :: "string \<Rightarrow> (string \<times> string) option" where
  "consumeAtom s = (case atom_length s of None \<Rightarrow> None
     | Some n \<Rightarrow> (let atom = take n s in
         if n = 0 \<or> has_prefix atom ''.'' \<or> str_contains atom ''..'' \<or> last atom = CHR ''.'' then None
         else Some (atom, drop n s)))"

subsection \<open>\<open>net.ParseIP\<close>\<close>

definition split_at :: "char \<Rightarrow> string \<Rightarrow> string list" where
  "split_at c s = foldr (\<lambda>x acc. if x = c then [] # acc else (x # hd acc) # tl acc) s [[]]"

definition dec_val :: "string \<Rightarrow> nat" where
  "dec_val s = foldl (\<lambda>n c. 10 * n + (byte c - 48)) 0 s"

definition ipv4_octet :: "string \<Rightarrow> bool" where
  "ipv4_octet s \<longleftrightarrow> s \<noteq> [] \<and> list_all is_digit s \<and> dec_val s \<le> 255 \<and> (1 < length s \<longrightarrow> hd s \<noteq> CHR ''0'')"

definition valid_ipv4 :: "string \<Rightarrow> bool" where
  "valid_ipv4 s \<longleftrightarrow> (let ps = split_at (CHR ''.'') s in length ps = 4 \<and> list_all ipv4_octet ps)"

definition hex_group :: "string \<Rightarrow> bool" where
  "hex_group s \<longleftrightarrow> s \<noteq> [] \<and> length s \<le> 4 \<and> list_all (\<lambda>c. hex_val c \<noteq> None) s"

text \<open>The number of 16-bit groups of a part of the address; the last may be an IPv4 address.\<close>

fun ipv6_groups :: "bool \<Rightarrow> string list \<Rightarrow> nat option" where
  "ipv6_groups v4 [] = Some 0"
| "ipv6_groups v4 [s] = (if hex_group s then Some 1 else if v4 \<and> valid_ipv4 s then Some 2 else None)"
| "ipv6_groups v4 (s # ss) = (if hex_group s then map_option Suc (ipv6_groups v4 ss) else None)"

definition part_groups :: "bool \<Rightarrow> string \<Rightarrow> nat option" where
  "part_groups v4 s = (if s = [] then Some 0 else ipv6_groups v4 (split_at (CHR '':'') s))"

definition valid_ipv6 :: "string \<Rightarrow> bool" where
  "valid_ipv6 s \<longleftrightarrow> (case before_sub ''::'' s of
     None \<Rightarrow> part_groups True s = Some 8
   | Some (l, r) \<Rightarrow> (case (part_groups False l, part_groups True (drop 2 r)) of
        (Some m, Some n) \<Rightarrow> m + n < 8 | _ \<Rightarrow> False))"

definition ParseIP :: "string \<Rightarrow> bool" where
  "ParseIP s \<longleftrightarrow> (if CHR '':'' \<in> set s then valid_ipv6 s else valid_ipv4 s)"

definition mail_domain :: "string \<Rightarrow> bool" where
  "mail_domain s \<longleftrightarrow> (case s of [] \<Rightarrow> False
     | c # t \<Rightarrow> if c = CHR ''['' then t \<noteq> [] \<and> last t = CHR '']'' \<and> ParseIP (butlast t)
                else (case consumeAtom s of Some (_, r) \<Rightarrow> r = [] | None \<Rightarrow> False))"

definition bare_address :: "string \<Rightarrow> bool" where
  "bare_address s \<longleftrightarrow> (case consumeAtom s of
     Some (_, c # d) \<Rightarrow> c = CHR ''@'' \<and> mail_domain d | _ \<Rightarrow> False)"

definition normalizeEmailStrict :: "(string \<Rightarrow> string) \<Rightarrow> string \<Rightarrow> string \<times> bool" where
  "normalizeEmailStrict lower raw =
    (let e = lower (trim_space raw) in
     if e = [] then ([], True) else if bare_address e then (e, True) else ([], False))"

section \<open>Phones\<close>

text \<open>
  \<open>lib\<close> is what the phone library makes of a text in region BR: the E.164 form of the number
  it parses, when that is a valid number.
\<close>

definition NormalizePhoneE164 :: "(string \<Rightarrow> string option) \<Rightarrow> string \<Rightarrow> string \<times> bool" where
  "NormalizePhoneE164 lib raw0 =
    (let raw = trim_space raw0 in
     if raw = [] then ([], False)
     else (case lib raw of None \<Rightarrow> ([], False) | Some e \<Rightarrow> (e, True)))"

type_synonym field_errors = "(string \<times> gany) list"

fun phones_loop :: "(string \<Rightarrow> string option) \<Rightarrow> nat \<Rightarrow> string set \<Rightarrow> string list \<Rightarrow> string list \<times> field_errors" where
  "phones_loop lib i seen [] = ([], [])"
| "phones_loop lib i seen (p # ps) =
    (if trim_space p = [] then phones_loop lib (Suc i) seen ps
     else (case NormalizePhoneE164 lib p of (e164, ok) \<Rightarrow>
       if \<not> ok then (case phones_loop lib (Suc i) seen ps of (out, det) \<Rightarrow>
           (out, (''phones['' @ itoa (int i) @ '']'', GStr ''is not a valid phone number'') # det))
       else if e164 \<in> seen then phones_loop lib (Suc i) seen ps
       else (case phones_loop lib (Suc i) (insert e164 seen) ps of (out, det) \<Rightarrow> (e164 # out, det))))"

definition normalizePhonesValidated :: "(string \<Rightarrow> string option) \<Rightarrow> string list \<Rightarrow> string list \<times> field_errors" where
  "normalizePhonesValidated lib ps = phones_loop lib 0 {} ps"

section \<open>Identities\<close>

record channel_identity =
  ci_Channel :: string
  ci_ExternalID :: string

definition SupportedIdentityChannels :: "string list" where
  "SupportedIdentityChannels = [''whatsapp'', ''telegram'', ''instagram'', ''messenger'', ''webchat'',
     ''sms'', ''email'', ''api'', ''crm'', ''custom'']"

definition IsSupportedIdentityChannel :: "string \<Rightarrow> bool" where
  "IsSupportedIdentityChannel ch \<longleftrightarrow> ch \<in> set SupportedIdentityChannels"

definition validIdentityChannel :: "(string \<Rightarrow> string) \<Rightarrow> string \<Rightarrow> bool" where
  "validIdentityChannel lower ch \<longleftrightarrow> IsSupportedIdentityChannel (lower (trim_space ch))"

text \<open>The key \<open>ch + "\0" + ex\<close> of the set of pairs already seen.\<close>

definition identity_key :: "channel_identity \<Rightarrow> string" where
  "identity_key ci = ci_Channel ci @ [CHR 0x00] @ ci_ExternalID ci"

definition norm_identity :: "(string \<Rightarrow> string) \<Rightarrow> channel_identity \<Rightarrow> channel_identity" where
  "norm_identity lower x = \<lparr>ci_Channel = lower (trim_space (ci_Channel x)), ci_ExternalID = trim_space (ci_ExternalID x)\<rparr>"

definition unsupported :: "(string \<Rightarrow> string) \<Rightarrow> channel_identity \<Rightarrow> bool" where
  "unsupported lower ci \<longleftrightarrow> ci_Channel ci \<noteq> [] \<and> \<not> validIdentityChannel lower (ci_Channel ci)"

fun identities_loop :: "(string \<Rightarrow> string) \<Rightarrow> nat \<Rightarrow> string set \<Rightarrow> channel_identity list
    \<Rightarrow> channel_identity list \<times> field_errors" where
  "identities_loop lower i seen [] = ([], [])"
| "identities_loop lower i seen (ci # cs) =
    (if unsupported lower ci then
       (case identities_loop lower (Suc i) seen cs of (out, det) \<Rightarrow>
         (out, (''external_ids['' @ itoa (int i) @ ''].channel'', GStr ''is not a supported channel'') # det))
     else if ci_Channel ci = [] \<or> ci_ExternalID ci = [] then identities_loop lower (Suc i) seen cs
     else if identity_key ci \<in> seen then identities_loop lower (Suc i) seen cs
     else (case identities_loop lower (Suc i) (insert (identity_key ci) seen) cs of (out, det) \<Rightarrow> (ci # out, det)))"

definition normalizeIdentitiesValidated ::
  "(string \<Rightarrow> string) \<Rightarrow> channel_identity list \<Rightarrow> channel_identity list \<times> field_errors" where
  "normalizeIdentitiesValidated lower ids = identities_loop lower 0 {} (map (norm_identity lower) ids)"

section \<open>What the forms return\<close>

lemma phones_loop_out: "phones_loop lib i seen ps = (out, det) \<Longrightarrow> distinct out \<and> (\<forall>x \<in> set out. x \<notin> seen)"
proof (induction lib i seen ps arbitrary: out det rule: phones_loop.induct)
  case (2 lib i seen p ps)
  obtain e ok where e: "NormalizePhoneE164 lib p = (e, ok)" by fastforce
  consider "trim_space p = []" | "trim_space p \<noteq> []" "\<not> ok" | "trim_space p \<noteq> []" "ok" "e \<in> seen"
    | "trim_space p \<noteq> []" "ok" "e \<notin> seen" by blast
  then show ?case
  proof cases
    case 1
    with "2.IH"(1) "2.prems" show ?thesis by simp
  next
    case 2
    with e "2.prems" obtain det' where "phones_loop lib (Suc i) seen ps = (out, det')" by (auto split: prod.splits)
    with "2.IH"(2) [OF 2(1) e [symmetric] 2(2)] show ?thesis by simp
  next
    case 3
    with e "2.prems" have "phones_loop lib (Suc i) seen ps = (out, det)" by simp
    with "2.IH"(3) [OF 3(1) e [symmetric]] 3 show ?thesis by simp
  next
    case 4
    with e "2.prems" obtain out' where "phones_loop lib (Suc i) (insert e seen) ps = (out', det)" "out = e # out'"
      by (auto split: prod.splits)
    with "2.IH"(4) [OF 4(1) e [symmetric]] 4 show ?thesis by auto
  qed
qed simp

lemma normalizePhones_distinct: "distinct (fst (normalizePhonesValidated lib ps))"
  using phones_loop_out [of lib 0 "{}" ps] by (cases "phones_loop lib 0 {} ps") (simp add: normalizePhonesValidated_def)

lemma identities_loop_out:
  "identities_loop lower i seen xs = (out, det) \<Longrightarrow>
     distinct (map identity_key out) \<and> (\<forall>ci \<in> set out. identity_key ci \<notin> seen \<and> ci_Channel ci \<noteq> [] \<and> ci_ExternalID ci \<noteq> [])"
proof (induction lower i seen xs arbitrary: out det rule: identities_loop.induct)
  case (2 lower i seen x xs)
  let ?bad = "unsupported lower x" and ?half = "ci_Channel x = [] \<or> ci_ExternalID x = []" and ?dup = "identity_key x \<in> seen"
  consider "?bad" | "\<not> ?bad" "?half" | "\<not> ?bad" "\<not> ?half" "?dup" | "\<not> ?bad" "\<not> ?half" "\<not> ?dup" by blast
  then show ?case
  proof cases
    case 1
    with "2.IH"(1) "2.prems" show ?thesis by (auto split: prod.splits)
  next
    case half: 2
    with "2.IH"(2) "2.prems" show ?thesis by simp
  next
    case 3
    with "2.IH"(3) "2.prems" show ?thesis by simp
  next
    case 4
    obtain out' where out': "identities_loop lower (Suc i) (insert (identity_key x) seen) xs = (out', det)" "out = x # out'"
      using "2.prems" 4 by (auto split: prod.splits)
    with "2.IH"(4) [OF 4 out'(1)] 4 show ?thesis by auto
  qed
qed simp

lemma normalizeIdentities_ok:
  "distinct (fst (normalizeIdentitiesValidated lower xs))
     \<and> (\<forall>ci \<in> set (fst (normalizeIdentitiesValidated lower xs)). ci_Channel ci \<noteq> [] \<and> ci_ExternalID ci \<noteq> [])"
  using identities_loop_out [of lower 0 "{}" "map (norm_identity lower) xs"]
  by (cases "identities_loop lower 0 {} (map (norm_identity lower) xs)") (simp add: normalizeIdentitiesValidated_def distinct_map)

end
