(* ===== verification/Repo_Unique.thy ===== *)
theory Repo_Unique
  imports Repo
begin

text \<open>
  Collections with a secondary key that the service, not an index, keeps unique: it looks the
  key up, refuses or goes on, and writes some steps later. The locale has the small logic
  those services need: which steps leave the collection as it is, what a lookup teaches about
  it, and when a write keeps the keys unique.
\<close>

definition isNotFound :: "goerr \<Rightarrow> bool" where
  "isNotFound e \<longleftrightarrow> err_code_of (From e) = CodeNotFound"

lemma isNotFound_MapError [simp]: "isNotFound (MapError e) = (e = ErrNoDocuments)"
  by (cases e) (simp_all add: isNotFound_def From_code)

text \<open>A relation between worlds that the steps which only read, or draw a clock value or an identifier, respect.\<close>

locale io_step = io_rel R for R :: "'z base_world_scheme \<Rightarrow> 'z base_world_scheme \<Rightarrow> bool" +
  assumes rel_tick: "R w (tick w)"
begin

lemma fr_query: "framed R (repo_query d c coll q)"
  unfolding repo_query_def db_call_def
  by (intro fr_bind fr_lift) (simp add: framed_def rel_tick split: option.split)

lemma fr_now: "framed R (now_io d)" and fr_new_id: "framed R (new_id d)"
  by (simp_all add: framed_def now_io_def new_id_def rel_tick)

end

locale keyed_store = tenant_repo key tenant merge coll put
  for key :: "'d \<Rightarrow> ident" and tenant :: "'d \<Rightarrow> ident" and merge :: "'d \<Rightarrow> 'd \<Rightarrow> 'd"
    and coll :: "'z base_world_scheme \<Rightarrow> 'd list" and put :: "'d list \<Rightarrow> 'z base_world_scheme \<Rightarrow> 'z base_world_scheme" +
  fixes keys :: "'d \<Rightarrow> 'k set"
  assumes keys_merge: "keys (merge new old) = keys new"
begin

definition unique :: "'d list \<Rightarrow> bool" where
  "unique ds \<longleftrightarrow> distinct (map key ds) \<and> [] \<notin> set (map key ds)
     \<and> (\<forall>x \<in> set ds. \<forall>y \<in> set ds. tenant x = tenant y \<and> keys x \<inter> keys y \<noteq> {} \<longrightarrow> key x = key y)"

text \<open>In tenant \<open>t\<close> the keys \<open>ks\<close> belong to nobody but \<open>self\<close>.\<close>

definition free :: "ident \<Rightarrow> ident \<Rightarrow> 'k set \<Rightarrow> 'd list \<Rightarrow> bool" where
  "free t self ks ds \<longleftrightarrow> (\<forall>y \<in> set ds. tenant y = t \<and> keys y \<inter> ks \<noteq> {} \<longrightarrow> key y = self)"

lemma insert_unique:
  assumes "unique ds" "free (tenant x) [] (keys x) ds" "key x \<noteq> []" "insert_one key x ds = Inr ds'"
  shows "unique ds'"
proof -
  have ds': "ds' = ds @ [x]" and fresh: "key x \<notin> key ` set ds"
    using assms(4) by (auto simp: insert_one_def split: if_splits)
  have "\<not> (tenant y = tenant x \<and> keys y \<inter> keys x \<noteq> {})" if "y \<in> set ds" for y
    using assms(1,2) that by (force simp: unique_def free_def)
  then have "\<forall>y \<in> set ds. tenant y = tenant x \<longrightarrow> keys y \<inter> keys x = {} \<and> keys x \<inter> keys y = {}" by blast
  with assms(1,3) fresh show ?thesis
    by (auto simp: unique_def ds' image_iff)
qed

lemma update_unique:
  assumes u: "unique ds" and f: "free t i (keys x) ds"
    and up: "update_one (\<lambda>y. key y = i \<and> tenant y = t) (merge x) ds = Inr ds'"
  shows "unique ds'"
proof -
  let ?p = "\<lambda>y. key y = i \<and> tenant y = t"
  have ds': "ds' = update_first ?p (merge x) ds" using up by (auto simp: update_one_def split: if_splits)
  have same: "map key ds' = map key ds" unfolding ds' by (rule update_keys)
  have old: "y \<in> set ds \<or> (\<exists>z \<in> set ds. ?p z \<and> y = merge x z)" if "y \<in> set ds'" for y
    using set_update_first [of y ?p "merge x" ds] that by (simp add: ds')
  have "key y = key z" if y: "y \<in> set ds'" and z: "z \<in> set ds'" and yz: "tenant y = tenant z" "keys y \<inter> keys z \<noteq> {}" for y z
  proof -
    have new: "key a = i \<and> tenant a = t \<and> keys a = keys x" if "a = merge x b" "?p b" for a b
      using that by (simp add: merge_key merge_tenant keys_merge)
    have other: "key b = i" if "b \<in> set ds" "tenant b = t" "keys b \<inter> keys x \<noteq> {}" for b
      using f that by (simp add: free_def)
    from old [OF y] old [OF z] show ?thesis
    proof (elim disjE bexE)
      assume "y \<in> set ds" "z \<in> set ds" with u yz show ?thesis by (simp add: unique_def)
    next
      fix b assume "y \<in> set ds" "?p b \<and> z = merge x b"
      with new [of z b] other [of y] yz show ?thesis by simp
    next
      fix b assume "z \<in> set ds" "?p b \<and> y = merge x b"
      with new [of y b] other [of z] yz show ?thesis by (simp add: Int_commute)
    next
      fix a b assume "?p a \<and> y = merge x a" "?p b \<and> z = merge x b"
      with new [of y a] new [of z b] show ?thesis by simp
    qed
  qed
  with u same show ?thesis by (simp add: unique_def)
qed

subsection \<open>Steps\<close>

definition same :: "'z base_world_scheme \<Rightarrow> 'z base_world_scheme \<Rightarrow> bool" where
  "same w w' \<longleftrightarrow> coll w' = coll w"

lemma same_io_step: "io_step same"
  by unfold_locales (simp_all add: same_def coll_tick)

text \<open>\<open>learns m P\<close>: \<open>m\<close> leaves the collection alone and its value \<open>x\<close> tells \<open>P x\<close> of it.\<close>

definition learns :: "('z base_world_scheme, 'a) io \<Rightarrow> ('a \<Rightarrow> 'd list \<Rightarrow> bool) \<Rightarrow> bool" where
  "learns m P \<longleftrightarrow> (\<forall>w r w'. m w = (r, w') \<longrightarrow> coll w' = coll w \<and> (\<forall>x. r = Inr x \<longrightarrow> P x (coll w)))"

text \<open>\<open>keeps Q m\<close>: started where the keys are unique and \<open>Q\<close> holds, \<open>m\<close> leaves them unique.\<close>

definition keeps :: "('d list \<Rightarrow> bool) \<Rightarrow> ('z base_world_scheme, 'a) io \<Rightarrow> bool" where
  "keeps Q m \<longleftrightarrow> (\<forall>w. unique (coll w) \<and> Q (coll w) \<longrightarrow> unique (coll (snd (m w))))"

end

sublocale keyed_store < same: io_step same
  by (rule same_io_step)

context keyed_store begin

lemma learns_same: "framed same m \<Longrightarrow> learns m (\<lambda>_ _. True)"
  by (auto simp: learns_def framed_def same_def) (metis snd_conv)

lemma learns_returns: "framed same m \<Longrightarrow> returns m P \<Longrightarrow> learns m (\<lambda>x _. P x)"
  by (auto simp: learns_def framed_def same_def returns_def) (metis snd_conv)

lemma learns_mono: "learns m P \<Longrightarrow> (\<And>x ds. P x ds \<Longrightarrow> P' x ds) \<Longrightarrow> learns m P'"
  unfolding learns_def by blast

lemma learns_lift: "learns (lift_res r) (\<lambda>x _. r = Inr x)"
  by (simp add: learns_def lift_res_def)

lemma learns_guard: "learns (guard_io b e) (\<lambda>_ _. \<not> b)"
  by (simp add: learns_def guard_io_def throw_io_def return_io_def)

lemma learns_bind:
  assumes "learns m P" "\<And>x. learns (f x) (\<lambda>y ds. P x ds \<longrightarrow> P' y ds)"
  shows "learns (bind_io m f) P'"
  unfolding learns_def
proof (intro allI impI)
  fix w r w' assume run: "bind_io m f w = (r, w')"
  obtain r0 w0 where m: "m w = (r0, w0)" by fastforce
  show "coll w' = coll w \<and> (\<forall>x. r = Inr x \<longrightarrow> P' x (coll w))"
  proof (cases r0)
    case (Inl e)
    with m run assms(1) show ?thesis by (auto simp: bind_io_def learns_def)
  next
    case (Inr x)
    with m assms(1) have "coll w0 = coll w" "P x (coll w)" unfolding learns_def by blast+
    moreover have "f x w0 = (r, w')" using m Inr run by (simp add: bind_io_def)
    ultimately show ?thesis using assms(2) [of x] unfolding learns_def by metis
  qed
qed

lemma learns_then: "learns m (\<lambda>_. P) \<Longrightarrow> learns n (\<lambda>x ds. P ds \<longrightarrow> P' x ds) \<Longrightarrow> learns (then_io m n) P'"
  unfolding then_io_def by (rule learns_bind)

lemma learns_for: "(\<And>x. learns (body x) (\<lambda>_. P x)) \<Longrightarrow> learns (for_io xs body) (\<lambda>_ ds. \<forall>x \<in> set xs. P x ds)"
proof (induction xs)
  case Nil
  show ?case by (simp add: learns_def return_io_def)
next
  case (Cons a xs)
  have "learns (body a) (\<lambda>_. P a)" by (rule Cons.prems)
  then show ?case unfolding for_io.simps
    by (rule learns_then) (rule learns_mono [OF Cons.IH [OF Cons.prems]], simp)
qed

text \<open>A lookup by a condition: nobody has it, or the answer is a stored document that has it.\<close>

definition found :: "ctx \<Rightarrow> (ident \<Rightarrow> 'd \<Rightarrow> bool) \<Rightarrow> 'd res \<Rightarrow> 'd list \<Rightarrow> bool" where
  "found c p r ds \<longleftrightarrow> (\<forall>t. RequireTenant c = Inr t \<longrightarrow> (case r of
      Inl e \<Rightarrow> isNotFound e \<longrightarrow> (\<forall>y \<in> set ds. \<not> p t y)
    | Inr x \<Rightarrow> x \<in> set ds \<and> p t x))"

lemma learns_found: "learns (try_io (repo_query d c coll (\<lambda>t. find_one (p t)))) (found c p)"
  unfolding learns_def found_def repo_query_def db_call_def find_one_def io_defs
  by (auto simp: coll_tick map_err_def isNotFound_def From_code find_None_iff dest: find_Some_in split: option.splits sum.splits)

lemma learns_find: "learns (repo_query d c coll (\<lambda>t. find_one (p t)))
    (\<lambda>x ds. x \<in> set ds \<and> (\<exists>t. RequireTenant c = Inr t \<and> p t x))"
  unfolding learns_def repo_query_def db_call_def find_one_def io_defs
  by (auto simp: coll_tick map_err_def dest: find_Some_in split: option.splits sum.splits)

lemma keeps_same: "framed same m \<Longrightarrow> keeps Q m"
  by (simp add: keeps_def framed_def same_def)

lemma keeps_mono: "keeps Q m \<Longrightarrow> (\<And>ds. unique ds \<Longrightarrow> Q' ds \<Longrightarrow> Q ds) \<Longrightarrow> keeps Q' m"
  by (simp add: keeps_def)

lemma keeps_bind:
  assumes "learns m P" "\<And>x. keeps (\<lambda>ds. Q ds \<and> P x ds) (f x)"
  shows "keeps Q (bind_io m f)"
  unfolding keeps_def
proof (intro allI impI)
  fix w assume q: "unique (coll w) \<and> Q (coll w)"
  obtain r w0 where m: "m w = (r, w0)" by fastforce
  with assms(1) have same: "coll w0 = coll w" and P: "\<And>x. r = Inr x \<Longrightarrow> P x (coll w)" unfolding learns_def by blast+
  show "unique (coll (snd (bind_io m f w)))"
  proof (cases r)
    case (Inl e)
    with m same q show ?thesis by (simp add: bind_io_def)
  next
    case (Inr x)
    with assms(2) [of x] P same q have "unique (coll (snd (f x w0)))" by (simp add: keeps_def)
    with m Inr show ?thesis by (simp add: bind_io_def)
  qed
qed

lemma keeps_then: "learns m (\<lambda>_. P) \<Longrightarrow> keeps (\<lambda>ds. Q ds \<and> P ds) n \<Longrightarrow> keeps Q (then_io m n)"
  unfolding then_io_def by (rule keeps_bind)

text \<open>A step that tells something of its value only, one that learns nothing, and one after the write.\<close>

lemma keeps_pure:
  assumes "learns m (\<lambda>x _. P x)" "\<And>x. P x \<Longrightarrow> keeps Q (f x)"
  shows "keeps Q (bind_io m f)"
proof (rule keeps_bind [OF assms(1)])
  show "keeps (\<lambda>ds. Q ds \<and> P x) (f x)" for x
    using assms(2) [of x] by (cases "P x") (auto simp: keeps_def)
qed

lemmas keeps_lift = keeps_pure [OF learns_lift]

lemma keeps_guard: "(\<not> b \<Longrightarrow> keeps Q m) \<Longrightarrow> keeps Q (then_io (guard_io b e) m)"
  unfolding then_io_def by (rule keeps_pure [OF learns_guard])

lemma keeps_skip: "framed same m \<Longrightarrow> (\<And>x. keeps Q (f x)) \<Longrightarrow> keeps Q (bind_io m f)"
  by (rule keeps_bind [OF learns_same]) (auto intro: keeps_mono)

lemma keeps_skip_then: "framed same m \<Longrightarrow> keeps Q n \<Longrightarrow> keeps Q (then_io m n)"
  unfolding then_io_def by (rule keeps_skip)

lemma keeps_last: "keeps Q m \<Longrightarrow> framed same n \<Longrightarrow> keeps Q (then_io m n)"
  unfolding keeps_def framed_def same_def then_io_def bind_io_def
  by (auto split: prod.split sum.split)

lemma keeps_if: "(b \<Longrightarrow> keeps Q m) \<Longrightarrow> (\<not> b \<Longrightarrow> keeps Q n) \<Longrightarrow> keeps Q (if b then m else n)"
  by simp

lemma keeps_write:
  assumes "\<And>t ds ds'. RequireTenant c = Inr t \<Longrightarrow> unique ds \<Longrightarrow> Q ds \<Longrightarrow> f t ds = Inr ds' \<Longrightarrow> unique ds'"
  shows "keeps Q (repo_write d c coll put f)"
  unfolding keeps_def repo_write_def db_call_def io_defs
  using assms by (auto simp: coll_tick coll_put split: option.split sum.split)

lemma keeps_insert:
  assumes "key x \<noteq> []" "RequireTenant c = Inr (tenant x)"
  shows "keeps (free (tenant x) [] (keys x)) (repo_write d c coll put (\<lambda>_. insert_one key x))"
  by (rule keeps_write) (metis insert_unique assms(1))

lemma keeps_update:
  assumes "\<And>t y. p t y = (key y = key x \<and> tenant y = t)" "RequireTenant c = Inr t"
  shows "keeps (free t (key x) (keys x)) (repo_write d c coll put (\<lambda>t. update_one (p t) (merge x)))"
proof (rule keeps_write)
  fix t' ds ds' assume t': "RequireTenant c = Inr t'" and h: "unique ds" "free t (key x) (keys x) ds" and up: "update_one (p t') (merge x) ds = Inr ds'"
  have "t' = t" using t' assms(2) by simp
  moreover have "p t = (\<lambda>y. key y = key x \<and> tenant y = t)" using assms(1) by auto
  ultimately show "unique ds'" using update_unique [OF h] up by simp
qed

text \<open>A key found at one document is free for that document.\<close>

lemma found_free:
  assumes "unique ds" "found c (\<lambda>t y. tenant y = t \<and> k \<in> keys y) r ds" "RequireTenant c = Inr t"
    and "case r of Inl e \<Rightarrow> isNotFound e | Inr x \<Rightarrow> key x = self"
  shows "free t self {k} ds"
  using assms unfolding unique_def found_def free_def by (cases r) force+

lemma free_Union: "(\<forall>k \<in> ks. free t self {k} ds) \<Longrightarrow> free t self ks ds"
  unfolding free_def by blast

lemma free_stored: "unique ds \<Longrightarrow> x \<in> set ds \<Longrightarrow> tenant x = t \<Longrightarrow> free t (key x) (keys x) ds"
  unfolding free_def unique_def by (metis Int_commute)

text \<open>A sequence of requests, each of some tenant.\<close>

lemma unique_requests:
  assumes run: "\<And>w. run [] w = w" "\<And>c rq rqs w. run ((c, rq) # rqs) w = run rqs (snd (serve c rq w))"
    and step: "\<And>c rq. (c, rq) \<in> set rqs \<Longrightarrow> keeps (\<lambda>_. True) (serve c rq)"
    and "unique (coll w)"
  shows "unique (coll (run rqs w))"
  using step assms(4)
proof (induction rqs arbitrary: w)
  case (Cons q rqs)
  obtain c rq where q: "q = (c, rq)" by fastforce
  have "keeps (\<lambda>_. True) (serve c rq)" using Cons.prems(1) by (simp add: q)
  with Cons.prems(2) have "unique (coll (snd (serve c rq w)))" by (simp add: keeps_def)
  with Cons.IH Cons.prems(1) show ?case by (simp add: q run(2))
qed (simp add: run)

end

end
