(* ===== verification/Contacts.thy ===== *)
theory Contacts
  imports Contact_Forms Repo_Unique Conv_Service
begin

text \<open>
  The contacts: entity (\<open>domain/contacts/entity\<close>), event payload, Mongo repository
  (\<open>infra/database/mongodb/repositories/contacts\<close>) and service
  (\<open>domain/contacts/service/contact_service.go\<close>). Audit entries and webhook events of the
  service are entries of the contact log, in the order they are made.
\<close>

section \<open>Entity\<close>

definition KindPerson :: string where "KindPerson = ''person''"
definition KindGroup :: string where "KindGroup = ''group''"

record contact =
  ct_ID :: ident
  ct_TenantID :: ident
  ct_Kind :: string
  ct_Name :: string
  ct_Phone :: string
  ct_Phones :: "string list"
  ct_Document :: string
  ct_Email :: string
  ct_Identities :: "channel_identity list"
  ct_Tags :: "string list"
  ct_Notes :: string
  ct_AvatarAttachmentID :: ident
  ct_CustomAttributes :: gmap
  ct_CreatedAt :: time
  ct_UpdatedAt :: time

definition SetPhones :: "string list \<Rightarrow> contact \<Rightarrow> contact" where
  "SetPhones ps ct = ct\<lparr>ct_Phones := ps, ct_Phone := (if ps \<noteq> [] then hd ps else [])\<rparr>"

definition AddPhone :: "string \<Rightarrow> contact \<Rightarrow> contact" where
  "AddPhone phone ct =
    (if phone = [] then ct
     else if phone \<in> set (ct_Phones ct) then ct
     else SetPhones (ct_Phones ct @ [phone]) ct)"

definition HasIdentity :: "contact \<Rightarrow> string \<Rightarrow> string \<Rightarrow> bool" where
  "HasIdentity ct ch ex \<longleftrightarrow> (\<exists>ci \<in> set (ct_Identities ct). ci_Channel ci = ch \<and> ci_ExternalID ci = ex)"

record contact_payload =
  kp_ID :: ident
  kp_TenantID :: ident
  kp_Name :: string
  kp_Phone :: string
  kp_Phones :: "string list"
  kp_Document :: string
  kp_Email :: string
  kp_Identities :: "channel_identity list"
  kp_Tags :: "string list"
  kp_CreatedAt :: time
  kp_UpdatedAt :: time

definition NewContactPayload :: "contact \<Rightarrow> contact_payload" where
  "NewContactPayload ct =
    \<lparr>kp_ID = ct_ID ct, kp_TenantID = ct_TenantID ct, kp_Name = ct_Name ct, kp_Phone = ct_Phone ct,
     kp_Phones = ct_Phones ct, kp_Document = ct_Document ct, kp_Email = ct_Email ct,
     kp_Identities = ct_Identities ct, kp_Tags = ct_Tags ct, kp_CreatedAt = ct_CreatedAt ct,
     kp_UpdatedAt = ct_UpdatedAt ct\<rparr>"

definition EventContactCreated :: string where "EventContactCreated = ''contact.created''"
definition EventContactUpdated :: string where "EventContactUpdated = ''contact.updated''"

datatype contact_effect =
    ContactAudit ident string ident gmap
  | ContactHook ident string contact_payload

record contact_world = conv_world +
  contacts :: "contact list"
  contact_log :: "contact_effect list"

text \<open>
  Dependencies: the phone library, \<open>strings.ToLower\<close>, the server's case-insensitive substring
  match, and the optional ports. A refusing port answers with the entries of its error's
  details.
\<close>

record contact_env = env +
  ke_Phone :: "string \<Rightarrow> string option"
  ke_ToLower :: "string \<Rightarrow> string"
  ke_Matches :: "string \<Rightarrow> string \<Rightarrow> bool"
  ke_tags :: "(nat \<Rightarrow> ctx \<Rightarrow> string list \<Rightarrow> bool \<Rightarrow> string list res) option"
  ke_avatars :: "(nat \<Rightarrow> ctx \<Rightarrow> ident \<Rightarrow> field_errors option) option"
  ke_avatarURLs :: "(nat \<Rightarrow> ctx \<Rightarrow> ident list \<Rightarrow> (ident \<times> string) list res) option"
  ke_customAttr :: "nat \<Rightarrow> ctx \<Rightarrow> string \<Rightarrow> gmap \<Rightarrow> (goerr \<times> field_errors) option"

section \<open>Repository\<close>

definition contact_by :: "ident \<Rightarrow> ident \<Rightarrow> contact \<Rightarrow> bool" where
  "contact_by t i ct \<longleftrightarrow> ct_ID ct = i \<and> ct_TenantID ct = t"

abbreviation put_contacts :: "contact list \<Rightarrow> 'z contact_world_scheme \<Rightarrow> 'z contact_world_scheme" where
  "put_contacts cs w \<equiv> w\<lparr>contacts := cs\<rparr>"

text \<open>The \<open>$set\<close> of \<open>Update\<close>: eleven fields of \<open>new\<close>; the kind is not among them.\<close>

definition contact_set :: "contact \<Rightarrow> contact \<Rightarrow> contact" where
  "contact_set new old = old\<lparr>ct_Name := ct_Name new, ct_Phone := ct_Phone new,
     ct_Phones := ct_Phones new, ct_Document := ct_Document new, ct_Email := ct_Email new,
     ct_Identities := ct_Identities new, ct_Tags := ct_Tags new, ct_Notes := ct_Notes new,
     ct_AvatarAttachmentID := ct_AvatarAttachmentID new,
     ct_CustomAttributes := ct_CustomAttributes new, ct_UpdatedAt := ct_UpdatedAt new\<rparr>"

definition contact_Create :: "'e env_scheme \<Rightarrow> ctx \<Rightarrow> contact \<Rightarrow> ('z contact_world_scheme, unit) io" where
  "contact_Create d c ct = repo_write d c contacts put_contacts (\<lambda>_. insert_one ct_ID ct)"

definition contact_Update :: "'e env_scheme \<Rightarrow> ctx \<Rightarrow> contact \<Rightarrow> ('z contact_world_scheme, unit) io" where
  "contact_Update d c ct = repo_write d c contacts put_contacts
     (\<lambda>t. update_one (contact_by t (ct_ID ct)) (contact_set ct))"

definition contact_FindByID :: "'e env_scheme \<Rightarrow> ctx \<Rightarrow> ident \<Rightarrow> ('z contact_world_scheme, contact) io" where
  "contact_FindByID d c i = repo_query d c contacts (\<lambda>t. find_one (contact_by t i))"

definition contact_FindByIDs :: "'e env_scheme \<Rightarrow> ctx \<Rightarrow> ident list \<Rightarrow> ('z contact_world_scheme, contact list) io" where
  "contact_FindByIDs d c ids = then_io (lift_res (RequireTenant c))
     (if ids = [] then return_io []
      else repo_query d c contacts (\<lambda>t cs. Inr (filter (\<lambda>ct. ct_ID ct \<in> set ids \<and> ct_TenantID ct = t) cs)))"

definition has_identity_of :: "string \<Rightarrow> string \<Rightarrow> ident \<Rightarrow> contact \<Rightarrow> bool" where
  "has_identity_of ch ex t ct \<longleftrightarrow> ct_TenantID ct = t \<and> HasIdentity ct ch ex"

definition FindByChannelIdentity :: "'e env_scheme \<Rightarrow> ctx \<Rightarrow> string \<Rightarrow> string \<Rightarrow> ('z contact_world_scheme, contact) io" where
  "FindByChannelIdentity d c ch ex = repo_query d c contacts (\<lambda>t. find_one (has_identity_of ch ex t))"

definition FindByDocument :: "'e env_scheme \<Rightarrow> ctx \<Rightarrow> string \<Rightarrow> ('z contact_world_scheme, contact) io" where
  "FindByDocument d c document = repo_query d c contacts
     (\<lambda>t. find_one (\<lambda>ct. ct_TenantID ct = t \<and> ct_Document ct = document))"

definition FindByPhone :: "'e env_scheme \<Rightarrow> ctx \<Rightarrow> string \<Rightarrow> ('z contact_world_scheme, contact) io" where
  "FindByPhone d c phone = repo_query d c contacts
     (\<lambda>t. find_one (\<lambda>ct. ct_TenantID ct = t \<and> (ct_Phone ct = phone \<or> phone \<in> set (ct_Phones ct))))"

record contact_filter =
  kf_Query :: string
  kf_Name :: string
  kf_Phone :: string
  kf_TagID :: string

definition in_contact_filter :: "(string \<Rightarrow> string \<Rightarrow> bool) \<Rightarrow> contact_filter \<Rightarrow> contact \<Rightarrow> bool" where
  "in_contact_filter matches f ct \<longleftrightarrow>
     (let q = trim_space (kf_Query f); n = trim_space (kf_Name f);
          p = trim_space (kf_Phone f); tag = trim_space (kf_TagID f) in
      (q = [] \<or> matches q (ct_Name ct) \<or> matches q (ct_Phone ct) \<or> list_ex (matches q) (ct_Phones ct)
         \<or> matches q (ct_Document ct) \<or> matches q (ct_Email ct))
      \<and> (n = [] \<or> matches n (ct_Name ct))
      \<and> (p = [] \<or> list_ex (matches p) (ct_Phones ct))
      \<and> (tag = [] \<or> tag \<in> set (ct_Tags ct)))"

definition contact_List ::
  "'e contact_env_scheme \<Rightarrow> ctx \<Rightarrow> contact_filter \<Rightarrow> page_request \<Rightarrow> ('z contact_world_scheme, contact list) io" where
  "contact_List d c f page = then_io (lift_res (RequireTenant c))
     (bind_io (lift_res (DecodeCursor (pr_Cursor page))) (\<lambda>cur.
        repo_query d c contacts (\<lambda>t cs. Inr (list_page
          (\<lambda>ct. ct_TenantID ct = t \<and> in_contact_filter (ke_Matches d) f ct)
          ct_CreatedAt ct_ID cur (pr_Limit page) cs))))"

section \<open>Service\<close>

record create_contact =
  xk_Name :: string
  xk_Phones :: "string list"
  xk_Document :: string
  xk_Email :: string
  xk_ExternalIDs :: "channel_identity list"
  xk_Tags :: "string list"
  xk_Notes :: string
  xk_AvatarAttachmentID :: string

record update_contact =
  uk_Name :: "string option"
  uk_Phones :: "string list option"
  uk_Document :: "string option"
  uk_Email :: "string option"
  uk_Tags :: "string list option"
  uk_Notes :: "string option"
  uk_ExternalIDs :: "channel_identity list option"
  uk_AvatarAttachmentID :: "string option"
  uk_CustomAttributes :: "gmap option"

record upsert_inbound =
  uf_Channel :: string
  uf_ExternalID :: string
  uf_Name :: string
  uf_Phone :: string
  uf_Document :: string

record display_card =
  dc_Name :: string
  dc_AvatarURL :: string

definition log_contact :: "contact_effect \<Rightarrow> ('z contact_world_scheme, unit) io" where
  "log_contact e = modify_io (\<lambda>w. w\<lparr>contact_log := contact_log w @ [e]\<rparr>)"

definition audit_contact :: "ctx \<Rightarrow> string \<Rightarrow> ident \<Rightarrow> gmap \<Rightarrow> ('z contact_world_scheme, unit) io" where
  "audit_contact c action i data = log_contact (ContactAudit (ctx_tenant_id c) action i data)"

definition emit_contact :: "contact \<Rightarrow> string \<Rightarrow> ('z contact_world_scheme, unit) io" where
  "emit_contact ct event = log_contact (ContactHook (ct_TenantID ct) event (NewContactPayload ct))"

definition SignedAvatarURLs ::
  "'e contact_env_scheme \<Rightarrow> ctx \<Rightarrow> ident list \<Rightarrow> ('z contact_world_scheme, (ident \<times> string) list) io" where
  "SignedAvatarURLs d c ids = (case ke_avatarURLs d of None \<Rightarrow> return_io [] | Some f \<Rightarrow> ask (\<lambda>n. f n c ids))"

definition AvatarURLs ::
  "'e contact_env_scheme \<Rightarrow> ctx \<Rightarrow> ident list \<Rightarrow> ('z contact_world_scheme, (ident \<times> string) list) io" where
  "AvatarURLs d c ids = (if ids = [] then return_io [] else SignedAvatarURLs d c ids)"

definition ContactCards ::
  "'e contact_env_scheme \<Rightarrow> ctx \<Rightarrow> ident list \<Rightarrow> ('z contact_world_scheme, (ident \<times> display_card) list) io" where
  "ContactCards d c ids = (if ids = [] then return_io [] else
     bind_io (contact_FindByIDs d c ids) (\<lambda>cs.
     bind_io (try_io (SignedAvatarURLs d c (filter (\<lambda>i. i \<noteq> []) (map ct_AvatarAttachmentID cs)))) (\<lambda>r.
     let urls = (case r of Inr us \<Rightarrow> us | Inl _ \<Rightarrow> []) in
     return_io (map (\<lambda>ct. (ct_ID ct, \<lparr>dc_Name = ct_Name ct,
        dc_AvatarURL = (case map_of urls (ct_AvatarAttachmentID ct) of Some u \<Rightarrow> u | None \<Rightarrow> [])\<rparr>)) cs))))"

definition validateAvatar :: "'e contact_env_scheme \<Rightarrow> ctx \<Rightarrow> ident \<Rightarrow> ('z contact_world_scheme, field_errors) io" where
  "validateAvatar d c i = (case ke_avatars d of
     None \<Rightarrow> return_io []
   | Some f \<Rightarrow> if trim_space i = [] then return_io []
       else ask (\<lambda>n. Inr (case f n c i of None \<Rightarrow> [] | Some details \<Rightarrow> details)))"

definition cleanList :: "string list \<Rightarrow> string list" where
  "cleanList items = filter (\<lambda>t. t \<noteq> []) (map trim_space items)"

definition normalizeTags :: "'e contact_env_scheme \<Rightarrow> ctx \<Rightarrow> string list \<Rightarrow> ('z contact_world_scheme, string list) io" where
  "normalizeTags d c tags =
    (let out = cleanList tags in
     case ke_tags d of None \<Rightarrow> return_io out
     | Some f \<Rightarrow> if out = [] then return_io out
         else bind_io (try_io (ask (\<lambda>n. f n c out False))) (\<lambda>r. case r of
            Inr resolved \<Rightarrow> return_io resolved | Inl _ \<Rightarrow> return_io out))"

definition contact_Get :: "'e env_scheme \<Rightarrow> ctx \<Rightarrow> ident \<Rightarrow> ('z contact_world_scheme, contact) io" where
  "contact_Get d c i = then_io (lift_res (RequireTenant c)) (contact_FindByID d c i)"

definition contact_service_List ::
  "'e contact_env_scheme \<Rightarrow> ctx \<Rightarrow> contact_filter \<Rightarrow> page_request \<Rightarrow> ('z contact_world_scheme, contact list) io" where
  "contact_service_List d c f page = then_io (lift_res (RequireTenant c)) (contact_List d c f (Normalize page))"

subsection \<open>Uniqueness checks\<close>

text \<open>\<open>err == nil && other.ID != selfID\<close> refuses, an error other than not-found is returned.\<close>

definition refuse_other :: "ident \<Rightarrow> goerr \<Rightarrow> contact res \<Rightarrow> ('w, unit) io" where
  "refuse_other self refusal r = (case r of
     Inr other \<Rightarrow> guard_io (ct_ID other \<noteq> self) refusal
   | Inl e \<Rightarrow> guard_io (\<not> isNotFound e) e)"

definition checkDuplicate ::
  "'e env_scheme \<Rightarrow> ctx \<Rightarrow> ident \<Rightarrow> string \<Rightarrow> string list \<Rightarrow> ('z contact_world_scheme, unit) io" where
  "checkDuplicate d c self document phones = then_io
     (when_io (document \<noteq> []) (bind_io (try_io (FindByDocument d c document))
        (refuse_other self (Conflict ''a contact with this document already exists''))))
     (for_io phones (\<lambda>phone. bind_io (try_io (FindByPhone d c phone))
        (refuse_other self (Conflict ''a contact with this phone already exists''))))"

definition checkIdentityUnique ::
  "'e env_scheme \<Rightarrow> ctx \<Rightarrow> ident \<Rightarrow> channel_identity list \<Rightarrow> ('z contact_world_scheme, unit) io" where
  "checkIdentityUnique d c self ids = for_io ids (\<lambda>ci.
     bind_io (try_io (FindByChannelIdentity d c (ci_Channel ci) (ci_ExternalID ci)))
       (refuse_other self (WithDetails (Conflict ''a contact with this channel identity already exists'')
          [''external_ids'' \<mapsto> GStr (ci_Channel ci @ '':'' @ ci_ExternalID ci @ '' already in use'')])))"

definition invalid_contact :: "field_errors \<Rightarrow> goerr" where
  "invalid_contact v = WithDetails (Validation ''invalid contact'') (map_of (rev v))"

subsection \<open>Writing through the CRM\<close>

definition contact_service_Create ::
  "'e contact_env_scheme \<Rightarrow> ctx \<Rightarrow> create_contact \<Rightarrow> ('z contact_world_scheme, contact) io" where
  "contact_service_Create d c cmd = bind_io (lift_res (RequireTenant c)) (\<lambda>t.
     let name = trim_space (xk_Name cmd);
         phones = normalizePhonesValidated (ke_Phone d) (xk_Phones cmd);
         document = NormalizeDocument (xk_Document cmd);
         email = normalizeEmailStrict (ke_ToLower d) (xk_Email cmd);
         identities = normalizeIdentitiesValidated (ke_ToLower d) (xk_ExternalIDs cmd);
         avatarID = trim_space (xk_AvatarAttachmentID cmd) in
     bind_io (validateAvatar d c avatarID) (\<lambda>averr.
     let v = (if name = [] then [(''name'', GStr ''is required'')] else []) @ snd phones
           @ (if \<not> snd document then [(''document'', GStr ''is not a valid CPF or CNPJ'')] else [])
           @ (if \<not> snd email then [(''email'', GStr ''is not a valid email'')] else [])
           @ snd identities @ averr in
     then_io (guard_io (v \<noteq> []) (invalid_contact v))
    (then_io (checkDuplicate d c [] (fst document) (fst phones))
    (then_io (checkIdentityUnique d c [] (fst identities))
    (bind_io (now_io d) (\<lambda>now. bind_io (new_id d) (\<lambda>i. bind_io (normalizeTags d c (xk_Tags cmd)) (\<lambda>tags.
     let ct = SetPhones (fst phones) \<lparr>ct_ID = i, ct_TenantID = t, ct_Kind = [], ct_Name = name, ct_Phone = [],
           ct_Phones = [], ct_Document = fst document, ct_Email = fst email, ct_Identities = fst identities,
           ct_Tags = tags, ct_Notes = trim_space (xk_Notes cmd), ct_AvatarAttachmentID = avatarID,
           ct_CustomAttributes = Map.empty, ct_CreatedAt = now, ct_UpdatedAt = now\<rparr> in
     then_io (contact_Create d c ct)
    (then_io (audit_contact c ''contact.created'' (ct_ID ct) [''name'' \<mapsto> GStr (ct_Name ct)])
    (then_io (emit_contact ct EventContactCreated)
    (return_io ct)))))))))))"

text \<open>An update in progress: the contact with the fields accepted so far, and the field errors.\<close>

type_synonym contact_form = "contact \<times> field_errors"

definition field_error :: "string \<Rightarrow> string \<Rightarrow> contact_form \<Rightarrow> contact_form" where
  "field_error k msg f = (fst f, snd f @ [(k, GStr msg)])"

definition form_name :: "string \<Rightarrow> contact_form \<Rightarrow> contact_form" where
  "form_name n f = (if trim_space n = [] then field_error ''name'' ''cannot be empty'' f
     else (fst f \<lparr>ct_Name := trim_space n\<rparr>, snd f))"

definition form_phones :: "(string \<Rightarrow> string option) \<Rightarrow> string list \<Rightarrow> contact_form \<Rightarrow> contact_form" where
  "form_phones lib ps f = (fst f, snd f @ snd (normalizePhonesValidated lib ps))"

definition form_document :: "string \<Rightarrow> contact_form \<Rightarrow> contact_form" where
  "form_document s f = (case NormalizeDocument s of (doc, ok) \<Rightarrow>
     if ok then (fst f \<lparr>ct_Document := doc\<rparr>, snd f)
     else field_error ''document'' ''is not a valid CPF or CNPJ'' f)"

definition form_email :: "(string \<Rightarrow> string) \<Rightarrow> string \<Rightarrow> contact_form \<Rightarrow> contact_form" where
  "form_email lower s f = (case normalizeEmailStrict lower s of (email, ok) \<Rightarrow>
     if ok then (fst f \<lparr>ct_Email := email\<rparr>, snd f)
     else field_error ''email'' ''is not a valid email'' f)"

definition form_identities :: "(string \<Rightarrow> string) \<Rightarrow> channel_identity list \<Rightarrow> contact_form \<Rightarrow> contact_form" where
  "form_identities lower ids f = (case normalizeIdentitiesValidated lower ids of (out, det) \<Rightarrow>
     (fst f \<lparr>ct_Identities := out\<rparr>, snd f @ det))"

definition form_tags ::
  "'e contact_env_scheme \<Rightarrow> ctx \<Rightarrow> string list option \<Rightarrow> contact_form \<Rightarrow> ('z contact_world_scheme, contact_form) io" where
  "form_tags d c tags f = (case tags of None \<Rightarrow> return_io f
     | Some ts \<Rightarrow> bind_io (normalizeTags d c ts) (\<lambda>out. return_io (fst f \<lparr>ct_Tags := out\<rparr>, snd f)))"

definition form_avatar ::
  "'e contact_env_scheme \<Rightarrow> ctx \<Rightarrow> string option \<Rightarrow> contact_form \<Rightarrow> ('z contact_world_scheme, contact_form) io" where
  "form_avatar d c avatar f = (case avatar of None \<Rightarrow> return_io f
     | Some a \<Rightarrow> bind_io (validateAvatar d c (trim_space a)) (\<lambda>det.
         return_io (fst f \<lparr>ct_AvatarAttachmentID := trim_space a\<rparr>, snd f @ det)))"

definition form_attributes ::
  "'e contact_env_scheme \<Rightarrow> ctx \<Rightarrow> gmap option \<Rightarrow> contact_form \<Rightarrow> ('z contact_world_scheme, contact_form) io" where
  "form_attributes d c attrs f = (case attrs of None \<Rightarrow> return_io f
     | Some m \<Rightarrow> bind_io (ask (\<lambda>n. Inr (ke_customAttr d n c ''contact'' m))) (\<lambda>r. case r of
         None \<Rightarrow> return_io (fst f \<lparr>ct_CustomAttributes := m\<rparr>, snd f)
       | Some (e, det) \<Rightarrow> if err_code_of (From e) = CodeValidation then return_io (fst f, snd f @ det)
           else throw_io e))"

definition contact_service_Update ::
  "'e contact_env_scheme \<Rightarrow> ctx \<Rightarrow> ident \<Rightarrow> update_contact \<Rightarrow> ('z contact_world_scheme, contact) io" where
  "contact_service_Update d c i cmd = then_io (lift_res (RequireTenant c))
     (bind_io (contact_FindByID d c i) (\<lambda>ct0.
      bind_io (form_tags d c (uk_Tags cmd)
        (patch (uk_Email cmd) (form_email (ke_ToLower d))
        (patch (uk_Document cmd) form_document
        (patch (uk_Phones cmd) (form_phones (ke_Phone d))
        (patch (uk_Name cmd) form_name (ct0, [])))))) (\<lambda>f1.
      bind_io (form_avatar d c (uk_AvatarAttachmentID cmd)
        (patch (uk_ExternalIDs cmd) (form_identities (ke_ToLower d))
        (patch (uk_Notes cmd) (\<lambda>n f. (fst f \<lparr>ct_Notes := trim_space n\<rparr>, snd f)) f1))) (\<lambda>f2.
      bind_io (form_attributes d c (uk_CustomAttributes cmd) f2) (\<lambda>f3.
      then_io (guard_io (snd f3 \<noteq> []) (invalid_contact (snd f3)))
     (let ct = patch (uk_Phones cmd) (\<lambda>ps. SetPhones (fst (normalizePhonesValidated (ke_Phone d) ps))) (fst f3) in
      then_io (checkDuplicate d c (ct_ID ct) (ct_Document ct) (ct_Phones ct))
     (then_io (checkIdentityUnique d c (ct_ID ct) (ct_Identities ct))
     (bind_io (now_io d) (\<lambda>now. let ct1 = ct\<lparr>ct_UpdatedAt := now\<rparr> in
      then_io (contact_Update d c ct1)
     (then_io (audit_contact c ''contact.updated'' (ct_ID ct1) Map.empty)
     (then_io (emit_contact ct1 EventContactUpdated)
     (return_io ct1))))))))))))"

definition AddChannelIdentity ::
  "'e contact_env_scheme \<Rightarrow> ctx \<Rightarrow> ident \<Rightarrow> string \<Rightarrow> string \<Rightarrow> ('z contact_world_scheme, bool) io" where
  "AddChannelIdentity d c contactID channel externalID = then_io (lift_res (RequireTenant c))
    (let ch = ke_ToLower d (trim_space channel); ex = trim_space externalID in
     then_io (guard_io (trim_space contactID = []) (Validation ''contact_id is required''))
    (then_io (guard_io (ex = []) (Validation ''external_id is required''))
    (then_io (guard_io (ch = [] \<or> \<not> validIdentityChannel (ke_ToLower d) ch)
        (WithDetails (Validation ''unsupported channel'') [''channel'' \<mapsto> GStr ''is not a supported channel'']))
    (bind_io (contact_FindByID d c contactID) (\<lambda>ct.
     if HasIdentity ct ch ex then return_io False
     else bind_io (try_io (FindByChannelIdentity d c ch ex)) (\<lambda>r.
       let add = bind_io (now_io d) (\<lambda>now.
             let ct1 = ct\<lparr>ct_Identities := ct_Identities ct @ [\<lparr>ci_Channel = ch, ci_ExternalID = ex\<rparr>], ct_UpdatedAt := now\<rparr> in
             then_io (contact_Update d c ct1)
            (then_io (audit_contact c ''contact.identity_updated'' (ct_ID ct1) [''channel'' \<mapsto> GStr ch])
            (return_io True))) in
       case r of
         Inr other \<Rightarrow> if ct_ID other \<noteq> ct_ID ct then return_io False else add
       | Inl e \<Rightarrow> if \<not> isNotFound e then throw_io e else add))))))"

subsection \<open>Upserts from inbound messages\<close>

definition normalizePhone :: "string \<Rightarrow> string" where
  "normalizePhone phone =
    (let p = trim_space phone in
     if p = [] then [] else (if hd p = CHR ''+'' then ''+'' else []) @ filter is_digit p)"

text \<open>A lookup whose not-found error means nil.\<close>

definition find_or_nil :: "('w, 'a) io \<Rightarrow> ('w, 'a option) io" where
  "find_or_nil m = bind_io (try_io m) (\<lambda>r. case r of
     Inr x \<Rightarrow> return_io (Some x)
   | Inl e \<Rightarrow> if isNotFound e then return_io None else throw_io e)"

text \<open>The tail of both upserts: write and emit only when something changed.\<close>

definition store_changed :: "'e env_scheme \<Rightarrow> ctx \<Rightarrow> time \<Rightarrow> contact \<Rightarrow> bool \<Rightarrow> ('z contact_world_scheme, contact) io" where
  "store_changed d c now ct changed = (if \<not> changed then return_io ct else
     (let ct1 = ct\<lparr>ct_UpdatedAt := now\<rparr> in
      then_io (contact_Update d c ct1) (then_io (emit_contact ct1 EventContactUpdated) (return_io ct1))))"

definition merge_inbound :: "string \<Rightarrow> string \<Rightarrow> string \<Rightarrow> contact \<Rightarrow> contact \<times> bool" where
  "merge_inbound name phone document ct0 =
    (let chName = (name \<noteq> [] \<and> name \<noteq> ct_Name ct0);
         ct1 = (if chName then ct0\<lparr>ct_Name := name\<rparr> else ct0);
         chPhone = (phone \<noteq> [] \<and> phone \<notin> set (ct_Phones ct1));
         ct2 = (if chPhone then AddPhone phone ct1 else ct1);
         chDoc = (document \<noteq> [] \<and> document \<noteq> ct_Document ct2);
         ct3 = (if chDoc then ct2\<lparr>ct_Document := document\<rparr> else ct2)
     in (ct3, chName \<or> chPhone \<or> chDoc))"

definition UpsertFromInbound ::
  "'e env_scheme \<Rightarrow> ctx \<Rightarrow> upsert_inbound \<Rightarrow> ('z contact_world_scheme, contact) io" where
  "UpsertFromInbound d c cmd = bind_io (lift_res (RequireTenant c)) (\<lambda>t.
     let channel = trim_space (uf_Channel cmd); externalID = trim_space (uf_ExternalID cmd) in
     then_io (guard_io (channel = [] \<or> externalID = [])
       (Validation ''channel and external id are required to identify a contact''))
    (let name = trim_space (uf_Name cmd); phone = normalizePhone (uf_Phone cmd);
         document = trim_space (uf_Document cmd) in
     bind_io (now_io d) (\<lambda>now.
     bind_io (find_or_nil (FindByChannelIdentity d c channel externalID)) (\<lambda>existing. case existing of
       Some ct0 \<Rightarrow> (case merge_inbound name phone document ct0 of (ct, changed) \<Rightarrow> store_changed d c now ct changed)
     | None \<Rightarrow> bind_io (new_id d) (\<lambda>i.
         let ct0 = \<lparr>ct_ID = i, ct_TenantID = t, ct_Kind = [], ct_Name = name, ct_Phone = [], ct_Phones = [],
               ct_Document = document, ct_Email = [],
               ct_Identities = [\<lparr>ci_Channel = channel, ci_ExternalID = externalID\<rparr>], ct_Tags = [], ct_Notes = [],
               ct_AvatarAttachmentID = [], ct_CustomAttributes = Map.empty, ct_CreatedAt = now, ct_UpdatedAt = now\<rparr>;
             ct = (if phone \<noteq> [] then SetPhones [phone] ct0 else ct0) in
         then_io (contact_Create d c ct) (then_io (emit_contact ct EventContactCreated) (return_io ct)))))))"

definition merge_group :: "string \<Rightarrow> string \<Rightarrow> string \<Rightarrow> string \<Rightarrow> contact \<Rightarrow> contact \<times> bool" where
  "merge_group channel groupJID name description ct0 =
    (let chKind = (ct_Kind ct0 \<noteq> KindGroup);
         ct1 = (if chKind then ct0\<lparr>ct_Kind := KindGroup\<rparr> else ct0);
         chId = (\<not> HasIdentity ct1 channel groupJID);
         ct2 = (if chId then ct1\<lparr>ct_Identities := ct_Identities ct1 @ [\<lparr>ci_Channel = channel, ci_ExternalID = groupJID\<rparr>]\<rparr> else ct1);
         chName = (name \<noteq> [] \<and> name \<noteq> ct_Name ct2);
         ct3 = (if chName then ct2\<lparr>ct_Name := name\<rparr> else ct2);
         chNotes = (description \<noteq> [] \<and> trim_space (ct_Notes ct3) = []);
         ct4 = (if chNotes then ct3\<lparr>ct_Notes := description\<rparr> else ct3)
     in (ct4, chKind \<or> chId \<or> chName \<or> chNotes))"

definition UpsertGroupContact ::
  "'e env_scheme \<Rightarrow> ctx \<Rightarrow> string \<Rightarrow> string \<Rightarrow> string \<Rightarrow> string \<Rightarrow> ('z contact_world_scheme, contact) io" where
  "UpsertGroupContact d c channel0 groupJID0 name0 description0 = bind_io (lift_res (RequireTenant c)) (\<lambda>t.
     let channel = trim_space channel0; groupJID = trim_space groupJID0 in
     then_io (guard_io (channel = [] \<or> groupJID = [])
       (Validation ''channel and group_jid are required to identify a group contact''))
    (let name = trim_space name0; description = trim_space description0 in
     bind_io (now_io d) (\<lambda>now.
     bind_io (find_or_nil (FindByChannelIdentity d c channel groupJID)) (\<lambda>existing. case existing of
       Some ct0 \<Rightarrow> (case merge_group channel groupJID name description ct0 of (ct, changed) \<Rightarrow> store_changed d c now ct changed)
     | None \<Rightarrow> bind_io (new_id d) (\<lambda>i.
         let ct = \<lparr>ct_ID = i, ct_TenantID = t, ct_Kind = KindGroup, ct_Name = name, ct_Phone = [], ct_Phones = [],
               ct_Document = [], ct_Email = [],
               ct_Identities = [\<lparr>ci_Channel = channel, ci_ExternalID = groupJID\<rparr>], ct_Tags = [], ct_Notes = description,
               ct_AvatarAttachmentID = [], ct_CustomAttributes = Map.empty, ct_CreatedAt = now, ct_UpdatedAt = now\<rparr> in
         then_io (contact_Create d c ct) (then_io (emit_contact ct EventContactCreated) (return_io ct)))))))"

end
