(* ===== verification/Contact_Props.thy ===== *)
theory Contact_Props
  imports Contacts
begin

text \<open>
  What the contacts service keeps of the stored contacts under any sequence of requests (CRM
  writes and inbound upserts): a channel identity belongs to one contact of its tenant, so an
  inbound message always finds the same conversation; phones and identities are well formed;
  no tenant's request reaches another tenant's contacts. Then the document numbers.
\<close>

section \<open>Well-formed contacts with one owner per identity\<close>

definition identity_keys :: "contact \<Rightarrow> (string \<times> string) set" where
  "identity_keys ct = (\<lambda>ci. (ci_Channel ci, ci_ExternalID ci)) ` set (ct_Identities ct)"

definition contact_ok :: "contact \<Rightarrow> bool" where
  "contact_ok ct \<longleftrightarrow> ct_Phone ct = (if ct_Phones ct \<noteq> [] then hd (ct_Phones ct) else []) \<and> distinct (ct_Phones ct)
     \<and> distinct (ct_Identities ct) \<and> (\<forall>ci \<in> set (ct_Identities ct). ci_Channel ci \<noteq> [] \<and> ci_ExternalID ci \<noteq> [])"

interpretation book: keyed_store ct_ID ct_TenantID contact_set contacts
  "put_contacts :: contact list \<Rightarrow> 'z contact_world_scheme \<Rightarrow> 'z contact_world_scheme" identity_keys
  by unfold_locales (simp_all add: contact_set_def tick_def identity_keys_def)

interpretation cards: tenant_store ct_ID ct_TenantID contact_set contacts
  "put_contacts :: contact list \<Rightarrow> 'z contact_world_scheme \<Rightarrow> 'z contact_world_scheme" contact_ok
  by unfold_locales (simp add: contact_ok_def contact_set_def)

definition address_book :: "contact list \<Rightarrow> bool" where
  "address_book cs \<longleftrightarrow> distinct (map ct_ID cs) \<and> [] \<notin> set (map ct_ID cs)
     \<and> (\<forall>x \<in> set cs. \<forall>y \<in> set cs. ct_TenantID x = ct_TenantID y \<and> identity_keys x \<inter> identity_keys y \<noteq> {} \<longrightarrow> ct_ID x = ct_ID y)
     \<and> (\<forall>x \<in> set cs. contact_ok x)"

lemma address_book_iff: "address_book cs \<longleftrightarrow> book.unique cs \<and> cards.all_ok cs"
  by (auto simp: address_book_def book.unique_def cards.all_ok_def)

lemma HasIdentity_keys: "HasIdentity ct ch ex \<longleftrightarrow> (ch, ex) \<in> identity_keys ct"
  by (auto simp: HasIdentity_def identity_keys_def)

lemma FindByChannelIdentity_keys:
  "FindByChannelIdentity d c ch ex = repo_query d c contacts (\<lambda>t. find_one (\<lambda>y. ct_TenantID y = t \<and> (ch, ex) \<in> identity_keys y))"
  by (simp add: FindByChannelIdentity_def has_identity_of_def [abs_def] HasIdentity_keys)

section \<open>Steps that do not write contacts\<close>

lemma log_contact_frames:
  "framed book.same (log_contact e)" "framed (cards.kept c) (log_contact e)"
  by (simp_all add: log_contact_def framed_def modify_io_def book.same_def cards.kept_same)

locale contact_step = io_step R for R :: "'z contact_world_scheme \<Rightarrow> 'z contact_world_scheme \<Rightarrow> bool"
begin

lemma fr_ask: "framed R (ask f)"
  by (simp add: framed_def ask_def rel_tick)

lemma fr_refuse: "framed R (refuse_other self e r)"
  by (auto simp: refuse_other_def intro: fr_guard split: sum.split)

lemma fr_checkDuplicate: "framed R (checkDuplicate d c self document phones)"
  unfolding checkDuplicate_def FindByDocument_def FindByPhone_def
  by (intro fr_then fr_when fr_for fr_bind fr_try fr_query fr_refuse)

lemma fr_checkIdentityUnique: "framed R (checkIdentityUnique d c self ids)"
  unfolding checkIdentityUnique_def FindByChannelIdentity_def
  by (intro fr_for fr_bind fr_try fr_query fr_refuse)

lemma fr_validateAvatar: "framed R (validateAvatar d c i)"
  by (auto simp: validateAvatar_def intro: fr_return fr_ask split: option.split)

lemma fr_normalizeTags: "framed R (normalizeTags d c tags)"
  unfolding normalizeTags_def Let_def
  by (auto intro!: fr_return fr_bind fr_try fr_ask split: option.split sum.split)

lemma fr_forms: "framed R (form_tags d c o1 f)" "framed R (form_avatar d c o2 f)" "framed R (form_attributes d c o3 f)"
  unfolding form_tags_def form_avatar_def form_attributes_def
  by (auto intro!: fr_return fr_throw fr_bind fr_normalizeTags fr_validateAvatar fr_ask split: option.split)

end

interpretation reads: contact_step book.same ..

interpretation cards_step: contact_step "cards.kept c" for c
  by unfold_locales (rule cards.kept_tick)

section \<open>Identities stay unique\<close>

text \<open>A passed check: in the request's tenant nobody but \<open>self\<close> has one of the identities.\<close>

definition owned_by :: "ctx \<Rightarrow> ident \<Rightarrow> (string \<times> string) set \<Rightarrow> contact list \<Rightarrow> bool" where
  "owned_by c self ks cs \<longleftrightarrow> (\<forall>t. RequireTenant c = Inr t \<longrightarrow> book.free t self ks cs)"

lemma learns_refuse_other:
  "book.learns (refuse_other self e r) (\<lambda>_ cs. book.found c (\<lambda>t y. ct_TenantID y = t \<and> k \<in> identity_keys y) r cs
      \<longrightarrow> book.unique cs \<longrightarrow> owned_by c self {k} cs)"
proof (cases r)
  case (Inl x)
  show ?thesis unfolding Inl refuse_other_def sum.case
    by (rule book.learns_mono [OF book.learns_guard]) (auto simp: owned_by_def dest: book.found_free [of _ c k "Inl x"])
next
  case (Inr x)
  show ?thesis unfolding Inr refuse_other_def sum.case
    by (rule book.learns_mono [OF book.learns_guard]) (auto simp: owned_by_def dest: book.found_free [of _ c k "Inr x"])
qed

lemma learns_checkIdentityUnique:
  "book.learns (checkIdentityUnique d c self ids)
     (\<lambda>_ cs. \<forall>ci \<in> set ids. book.unique cs \<longrightarrow> owned_by c self {(ci_Channel ci, ci_ExternalID ci)} cs)"
  unfolding checkIdentityUnique_def FindByChannelIdentity_keys
  by (intro book.learns_for book.learns_bind [OF book.learns_found] learns_refuse_other)

lemma owned_by_keys:
  "book.unique cs \<Longrightarrow> (\<forall>ci \<in> set (ct_Identities ct). book.unique cs \<longrightarrow> owned_by c self {(ci_Channel ci, ci_ExternalID ci)} cs) \<Longrightarrow>
     owned_by c self (identity_keys ct) cs"
  unfolding owned_by_def by (intro allI impI book.free_Union) (auto simp: identity_keys_def [of ct])

lemma keeps_contact_Create:
  "ct_ID ct \<noteq> [] \<Longrightarrow> RequireTenant c = Inr (ct_TenantID ct) \<Longrightarrow> book.keeps (owned_by c [] (identity_keys ct)) (contact_Create d c ct)"
  unfolding contact_Create_def by (rule book.keeps_mono [OF book.keeps_insert]) (simp_all add: owned_by_def)

lemma keeps_contact_Update:
  "book.keeps (owned_by c (ct_ID ct) (identity_keys ct)) (contact_Update d c ct)"
proof (cases "RequireTenant c")
  case (Inl e)
  then show ?thesis by (simp add: contact_Update_def book.keeps_def repo_write_def io_defs)
next
  case (Inr t)
  show ?thesis unfolding contact_Update_def
    by (rule book.keeps_mono [OF book.keeps_update]) (simp_all add: owned_by_def contact_by_def Inr)
qed

lemma learns_new_id:
  "(\<And>n. newid d n \<noteq> []) \<Longrightarrow> book.learns (new_id d) (\<lambda>i _. i \<noteq> [])"
  by (rule book.learns_returns [OF book.same.fr_new_id]) (auto simp: returns_def new_id_def)

lemmas contact_tail = book.same.fr_then book.same.fr_return log_contact_frames(1)

lemma SetPhones_fields [simp]:
  "ct_ID (SetPhones ps ct) = ct_ID ct" "ct_TenantID (SetPhones ps ct) = ct_TenantID ct"
  "ct_Identities (SetPhones ps ct) = ct_Identities ct" "identity_keys (SetPhones ps ct) = identity_keys ct"
  by (simp_all add: SetPhones_def identity_keys_def)

lemma keeps_service_Create:
  assumes "\<And>n. newid d n \<noteq> []"
  shows "book.keeps (\<lambda>_. True) (contact_service_Create d c cmd)"
  unfolding contact_service_Create_def Let_def audit_contact_def emit_contact_def
  apply (rule book.keeps_lift)
  apply (rule book.keeps_skip [OF reads.fr_validateAvatar])
  apply (rule book.keeps_guard)
  apply (rule book.keeps_skip_then [OF reads.fr_checkDuplicate])
  apply (rule book.keeps_then [OF learns_checkIdentityUnique])
  apply (rule book.keeps_skip [OF book.same.fr_now])
  apply (rule book.keeps_pure [OF learns_new_id [OF assms]])
  apply (rule book.keeps_skip [OF reads.fr_normalizeTags])
  apply (rule book.keeps_last)
   apply (rule book.keeps_mono [OF keeps_contact_Create])
     apply (simp_all add: contact_tail)
  apply (rule owned_by_keys, simp_all)
  done

lemma patch_identity: "(\<And>v ct. g (f v ct) = g ct) \<Longrightarrow> g (patch o1 f ct) = g ct"
  by (cases o1) (simp_all add: patch_def)

lemma keeps_service_Update:
  "book.keeps (\<lambda>_. True) (contact_service_Update d c i cmd)"
  unfolding contact_service_Update_def Let_def audit_contact_def emit_contact_def contact_FindByID_def
  apply (rule book.keeps_skip_then [OF book.same.fr_lift])
  apply (rule book.keeps_skip [OF book.same.fr_query])
  apply (rule book.keeps_skip [OF reads.fr_forms(1)])
  apply (rule book.keeps_skip [OF reads.fr_forms(2)])
  apply (rule book.keeps_skip [OF reads.fr_forms(3)])
  apply (rule book.keeps_guard)
  apply (rule book.keeps_skip_then [OF reads.fr_checkDuplicate])
  apply (rule book.keeps_then [OF learns_checkIdentityUnique])
  apply (rule book.keeps_skip [OF book.same.fr_now])
  apply (rule book.keeps_last)
   apply (rule book.keeps_mono [OF keeps_contact_Update])
   apply (rule owned_by_keys, assumption, simp)
  apply (intro contact_tail)
  done

lemma keeps_store_changed:
  assumes "\<And>cs. book.unique cs \<Longrightarrow> Q cs \<Longrightarrow> owned_by c (ct_ID ct) (identity_keys ct) cs"
  shows "book.keeps Q (store_changed d c now ct changed)"
  unfolding store_changed_def Let_def emit_contact_def
  by (intro book.keeps_if book.keeps_same book.same.fr_return book.keeps_last
      book.keeps_mono [OF keeps_contact_Update] contact_tail)
    (auto simp: identity_keys_def dest: assms)

lemma keeps_option:
  "(o1 = None \<Longrightarrow> book.keeps Q m) \<Longrightarrow> (\<And>x. o1 = Some x \<Longrightarrow> book.keeps Q (f x)) \<Longrightarrow>
     book.keeps Q (case o1 of None \<Rightarrow> m | Some x \<Rightarrow> f x)"
  by (cases o1) auto

lemma single_key [simp]: "ct_Identities ct = [\<lparr>ci_Channel = ch, ci_ExternalID = ex\<rparr>] \<Longrightarrow> identity_keys ct = {(ch, ex)}"
  by (simp add: identity_keys_def)

text \<open>What a lookup by identity that may answer nil teaches.\<close>

lemma learns_find_or_nil:
  "book.learns (find_or_nil (FindByChannelIdentity d c ch ex)) (\<lambda>o1 cs. book.unique cs \<longrightarrow> (case o1 of
      None \<Rightarrow> owned_by c [] {(ch, ex)} cs
    | Some ct \<Rightarrow> ((\<exists>t. RequireTenant c = Inr t) \<longrightarrow> (ch, ex) \<in> identity_keys ct)
        \<and> owned_by c (ct_ID ct) (identity_keys ct) cs))"
  unfolding find_or_nil_def FindByChannelIdentity_keys
proof (rule book.learns_bind [OF book.learns_found])
  fix r :: "contact res"
  let ?p = "\<lambda>t y. ct_TenantID y = t \<and> (ch, ex) \<in> identity_keys y"
  let ?m = "case r of Inl e \<Rightarrow> if isNotFound e then return_io None else throw_io e | Inr x \<Rightarrow> return_io (Some x)"
  have none: "r = Inl e \<Longrightarrow> isNotFound e \<Longrightarrow> book.found c ?p r cs \<Longrightarrow> book.unique cs \<Longrightarrow> owned_by c [] {(ch, ex)} cs" for e cs
    by (auto simp: owned_by_def dest: book.found_free [of _ c "(ch, ex)" "Inl e"])
  have some: "r = Inr ct \<Longrightarrow> book.found c ?p r cs \<Longrightarrow> book.unique cs \<Longrightarrow>
      ((\<exists>t. RequireTenant c = Inr t) \<longrightarrow> (ch, ex) \<in> identity_keys ct) \<and> owned_by c (ct_ID ct) (identity_keys ct) cs" for ct cs
    by (auto simp: owned_by_def book.found_def intro: book.free_stored)
  show "book.learns ?m (\<lambda>o1 cs. book.found c ?p r cs \<longrightarrow> book.unique cs \<longrightarrow> (case o1 of
      None \<Rightarrow> owned_by c [] {(ch, ex)} cs
    | Some ct \<Rightarrow> ((\<exists>t. RequireTenant c = Inr t) \<longrightarrow> (ch, ex) \<in> identity_keys ct) \<and> owned_by c (ct_ID ct) (identity_keys ct) cs))"
    using none some by (auto simp: book.learns_def return_io_def throw_io_def split: sum.split)
qed

lemma AddPhone_fields [simp]:
  "ct_ID (AddPhone p ct) = ct_ID ct" "ct_TenantID (AddPhone p ct) = ct_TenantID ct"
  "ct_Identities (AddPhone p ct) = ct_Identities ct"
  by (simp_all add: AddPhone_def)

lemma merge_inbound_same: "merge_inbound name phone document ct0 = (ct, changed) \<Longrightarrow>
    ct_ID ct = ct_ID ct0 \<and> identity_keys ct = identity_keys ct0"
  by (auto simp: merge_inbound_def identity_keys_def Let_def split: if_splits)

lemma keeps_UpsertFromInbound:
  assumes "\<And>n. newid d n \<noteq> []"
  shows "book.keeps (\<lambda>_. True) (UpsertFromInbound d c cmd)"
  unfolding UpsertFromInbound_def Let_def emit_contact_def
  apply (rule book.keeps_lift)
  apply (rule book.keeps_guard)
  apply (rule book.keeps_skip [OF book.same.fr_now])
  apply (rule book.keeps_bind [OF learns_find_or_nil])
  apply (rule keeps_option)
   apply (rule book.keeps_pure [OF learns_new_id [OF assms]])
   apply (rule book.keeps_last)
    apply (rule book.keeps_mono [OF keeps_contact_Create])
      apply (simp_all add: contact_tail single_key)
  apply (auto split: prod.split dest: merge_inbound_same intro!: keeps_store_changed)
  done

lemma merge_group_same: "merge_group channel jid name description ct0 = (ct, changed) \<Longrightarrow>
    ct_ID ct = ct_ID ct0 \<and> ((channel, jid) \<in> identity_keys ct0 \<longrightarrow> identity_keys ct = identity_keys ct0)"
  by (auto simp: merge_group_def HasIdentity_keys identity_keys_def Let_def split: if_splits)

lemma keeps_UpsertGroupContact:
  assumes "\<And>n. newid d n \<noteq> []"
  shows "book.keeps (\<lambda>_. True) (UpsertGroupContact d c channel jid name description)"
  unfolding UpsertGroupContact_def Let_def emit_contact_def
  apply (rule book.keeps_lift)
  apply (rule book.keeps_guard)
  apply (rule book.keeps_skip [OF book.same.fr_now])
  apply (rule book.keeps_bind [OF learns_find_or_nil])
  apply (rule keeps_option)
   apply (rule book.keeps_pure [OF learns_new_id [OF assms]])
   apply (rule book.keeps_last)
    apply (rule book.keeps_mono [OF keeps_contact_Create])
      apply (simp_all add: contact_tail)
  apply (auto split: prod.split dest!: merge_group_same intro!: keeps_store_changed)
  done

lemma keeps_AddChannelIdentity:
  "book.keeps (\<lambda>_. True) (AddChannelIdentity d c i channel externalID)"
proof -
  let ?ch = "ke_ToLower d (trim_space channel)" and ?ex = "trim_space externalID"
  let ?new = "\<lambda>ct now. ct\<lparr>ct_Identities := ct_Identities ct @ [\<lparr>ci_Channel = ?ch, ci_ExternalID = ?ex\<rparr>], ct_UpdatedAt := now\<rparr>"
  let ?p = "\<lambda>t y. ct_TenantID y = t \<and> (?ch, ?ex) \<in> identity_keys y"
  have keys: "identity_keys (?new ct now) = insert (?ch, ?ex) (identity_keys ct)" for ct now
    by (auto simp: identity_keys_def)
  have add: "book.keeps Q (bind_io (now_io d) (\<lambda>now. then_io (contact_Update d c (?new ct now))
        (then_io (log_contact (e ct now)) (return_io True))))"
    if "\<And>cs. book.unique cs \<Longrightarrow> Q cs \<Longrightarrow> owned_by c (ct_ID ct) (insert (?ch, ?ex) (identity_keys ct)) cs" for Q ct e
    apply (rule book.keeps_skip [OF book.same.fr_now])
    apply (rule book.keeps_last)
     apply (rule book.keeps_mono [OF keeps_contact_Update])
     apply (simp only: keys) apply (simp add: that) apply (intro contact_tail) done
  have own: "owned_by c (ct_ID ct) (insert (?ch, ?ex) (identity_keys ct)) cs"
    if h: "book.unique cs" "ct \<in> set cs \<and> (\<exists>t. RequireTenant c = Inr t \<and> contact_by t i ct)" "book.found c ?p r cs"
       "case r of Inl e \<Rightarrow> isNotFound e | Inr x \<Rightarrow> ct_ID x = ct_ID ct" for ct r cs
  proof -
    obtain t where t: "RequireTenant c = Inr t" "ct_TenantID ct = t" using h(2) by (auto simp: contact_by_def)
    have "book.free t (ct_ID ct) (identity_keys ct) cs" using h(1,2) t(2) by (intro book.free_stored) auto
    moreover have "book.free t (ct_ID ct) {(?ch, ?ex)} cs" by (rule book.found_free [OF h(1,3) t(1) h(4)])
    ultimately have "book.free t (ct_ID ct) (insert (?ch, ?ex) (identity_keys ct)) cs" unfolding book.free_def by blast
    with t(1) show ?thesis by (simp add: owned_by_def)
  qed
  have done_or_add: "book.keeps Q (case r of Inl e \<Rightarrow> if \<not> isNotFound e then throw_io e else m
        | Inr other \<Rightarrow> if ct_ID other \<noteq> ct_ID ct then return_io False else m)"
    if "(case r of Inl e \<Rightarrow> isNotFound e | Inr x \<Rightarrow> ct_ID x = ct_ID ct) \<Longrightarrow> book.keeps Q m" for Q r m and ct :: contact
    using that by (cases r) (auto intro: book.keeps_same book.same.fr_return book.same.fr_throw)
  show ?thesis
    unfolding AddChannelIdentity_def Let_def audit_contact_def contact_FindByID_def FindByChannelIdentity_keys
    apply (rule book.keeps_skip_then [OF book.same.fr_lift])
    apply (rule book.keeps_guard)+
    apply (rule book.keeps_bind [OF book.learns_find])
    apply (rule book.keeps_if)
     apply (rule book.keeps_same [OF book.same.fr_return])
    apply (rule book.keeps_bind [OF book.learns_found])
    apply (rule done_or_add, rule add, rule own)
       apply assumption apply simp apply (elim conjE, assumption) apply assumption
    done
qed

section \<open>Contacts stay well formed\<close>

lemma cards_Create: "contact_ok ct \<Longrightarrow> RequireTenant c = Inr (ct_TenantID ct) \<Longrightarrow> framed (cards.kept c) (contact_Create d c ct)"
  unfolding contact_Create_def by (rule cards.kept_insert)

lemma cards_Update: "contact_ok ct \<Longrightarrow> framed (cards.kept c) (contact_Update d c ct)"
  unfolding contact_Update_def by (rule cards.kept_update) (simp_all add: contact_by_def)

lemmas cards_bind_found = cards.kept_bind_found [where p = "\<lambda>t. contact_by t i" for i, folded contact_FindByID_def]

lemmas cards_tail = cards.kept.fr_then cards.kept.fr_return log_contact_frames(2)

lemma SetPhones_ok: "contact_ok ct \<Longrightarrow> distinct ps \<Longrightarrow> contact_ok (SetPhones ps ct)"
  by (simp add: contact_ok_def SetPhones_def)

lemma contact_ok_upd [simp]:
  "contact_ok (ct\<lparr>ct_UpdatedAt := x\<rparr>) = contact_ok ct" "contact_ok (ct\<lparr>ct_Name := s\<rparr>) = contact_ok ct"
  "contact_ok (ct\<lparr>ct_Document := s\<rparr>) = contact_ok ct" "contact_ok (ct\<lparr>ct_Email := s\<rparr>) = contact_ok ct"
  "contact_ok (ct\<lparr>ct_Tags := ss\<rparr>) = contact_ok ct" "contact_ok (ct\<lparr>ct_Notes := s\<rparr>) = contact_ok ct"
  "contact_ok (ct\<lparr>ct_AvatarAttachmentID := s\<rparr>) = contact_ok ct" "contact_ok (ct\<lparr>ct_Kind := s\<rparr>) = contact_ok ct"
  "contact_ok (ct\<lparr>ct_CustomAttributes := m\<rparr>) = contact_ok ct"
  by (simp_all add: contact_ok_def)

lemma AddPhone_ok: "contact_ok ct \<Longrightarrow> contact_ok (AddPhone p ct)"
  by (auto simp: AddPhone_def contact_ok_def SetPhones_def)

lemma cards_service_Create: "framed (cards.kept c) (contact_service_Create d c cmd)"
  unfolding contact_service_Create_def Let_def audit_contact_def emit_contact_def
  apply (rule cards.kept.fr_bind_lift)
  apply (rule cards.kept.fr_bind [OF cards_step.fr_validateAvatar])
  apply (rule cards.kept.fr_then_guard)
  apply (rule cards.kept.fr_then [OF cards_step.fr_checkDuplicate])
  apply (rule cards.kept.fr_then [OF cards_step.fr_checkIdentityUnique])
  apply (rule cards.kept.fr_bind [OF cards.kept_now])
  apply (rule cards.kept.fr_bind [OF cards.kept_new_id])
  apply (rule cards.kept.fr_bind [OF cards_step.fr_normalizeTags])
  apply (rule cards.kept.fr_then)
   apply (rule cards_Create)
    apply (rule SetPhones_ok [OF _ normalizePhones_distinct])
    apply (simp_all add: contact_ok_def normalizeIdentities_ok cards_tail)
  done

text \<open>A form in progress is well formed when the contact it started from is.\<close>

lemma form_ok:
  "contact_ok (fst f) \<Longrightarrow> contact_ok (fst (form_name n f))" "contact_ok (fst f) \<Longrightarrow> contact_ok (fst (form_phones lib ps f))"
  "contact_ok (fst f) \<Longrightarrow> contact_ok (fst (form_document s f))" "contact_ok (fst f) \<Longrightarrow> contact_ok (fst (form_email lower s f))"
  "contact_ok (fst f) \<Longrightarrow> contact_ok (fst (form_identities lower ids f))"
  using normalizeIdentities_ok [of lower ids]
  by (auto simp: form_name_def form_phones_def form_document_def form_email_def form_identities_def field_error_def
      split: prod.split) (auto simp: contact_ok_def)

lemma patch_ok: "P f \<Longrightarrow> (\<And>v g. P g \<Longrightarrow> P (h v g)) \<Longrightarrow> P (patch o1 h f)"
  by (cases o1) (simp_all add: patch_def)

lemma form_io_ok:
  "contact_ok (fst f) \<Longrightarrow> returns (form_tags d c tags f) (\<lambda>g. contact_ok (fst g))"
  "contact_ok (fst f) \<Longrightarrow> returns (form_avatar d c avatar f) (\<lambda>g. contact_ok (fst g))"
  "contact_ok (fst f) \<Longrightarrow> returns (form_attributes d c attrs f) (\<lambda>g. contact_ok (fst g))"
  unfolding form_tags_def form_avatar_def form_attributes_def
  by (auto intro!: returns_bind returns_return returns_throw split: option.split)

lemma cards_service_Update: "framed (cards.kept c) (contact_service_Update d c i cmd)"
  unfolding contact_service_Update_def Let_def audit_contact_def emit_contact_def
  apply (rule cards.kept.fr_then [OF cards.kept.fr_lift])
  apply (rule cards_bind_found)
  apply (rule cards.kept.fr_bind_returns [OF cards_step.fr_forms(1) form_io_ok(1)])
   apply (intro patch_ok [where P = "\<lambda>f. contact_ok (fst f)"] form_ok) apply simp apply assumption+
  apply (rule cards.kept.fr_bind_returns [OF cards_step.fr_forms(2) form_io_ok(2)])
   apply (intro patch_ok [where P = "\<lambda>f. contact_ok (fst f)"] form_ok) apply assumption apply simp apply assumption
  apply (rule cards.kept.fr_bind_returns [OF cards_step.fr_forms(3) form_io_ok(3)]) apply assumption
  apply (rule cards.kept.fr_then_guard)
  apply (rule cards.kept.fr_then [OF cards_step.fr_checkDuplicate])
  apply (rule cards.kept.fr_then [OF cards_step.fr_checkIdentityUnique])
  apply (rule cards.kept.fr_bind [OF cards.kept_now])
  apply (rule cards.kept.fr_then [OF cards_Update])
   apply (simp, rule patch_ok, assumption, rule SetPhones_ok, assumption, rule normalizePhones_distinct)
  apply (intro cards_tail)
  done

lemma cards_find_or_nil:
  assumes none: "framed (cards.kept c) (g None)"
    and some: "\<And>ct t. contact_ok ct \<Longrightarrow> has_identity_of ch ex t ct \<Longrightarrow> framed (cards.kept c) (g (Some ct))"
  shows "framed (cards.kept c) (bind_io (find_or_nil (FindByChannelIdentity d c' ch ex)) g)"
  unfolding find_or_nil_def bind_assoc FindByChannelIdentity_def
proof (rule cards.kept_try_found)
  show "framed (cards.kept c) (bind_io (case Inl e of Inl e \<Rightarrow> if isNotFound e then return_io None else throw_io e
        | Inr x \<Rightarrow> return_io (Some x)) g)" for e
    using none by (simp add: bind_io_def return_io_def throw_io_def framed_def cards.kept.rel_refl)
  show "framed (cards.kept c) (bind_io (case Inr x of Inl e \<Rightarrow> if isNotFound e then return_io None else throw_io e
        | Inr x \<Rightarrow> return_io (Some x)) g)" if "contact_ok x" "has_identity_of ch ex t x" for x t
    using some [OF that] by (simp add: bind_io_def return_io_def)
qed

lemma cards_store_changed: "contact_ok ct \<Longrightarrow> framed (cards.kept c) (store_changed d c now ct changed)"
  unfolding store_changed_def Let_def emit_contact_def
  by (intro cards.kept.fr_if cards_tail cards_Update) simp_all

lemma merge_inbound_ok: "contact_ok ct0 \<Longrightarrow> contact_ok (fst (merge_inbound name phone document ct0))"
  by (simp add: merge_inbound_def Let_def AddPhone_ok)

lemma merge_group_ok:
  "contact_ok ct0 \<Longrightarrow> HasIdentity ct0 channel jid \<Longrightarrow> contact_ok (fst (merge_group channel jid name description ct0))"
proof -
  have "HasIdentity (ct0\<lparr>ct_Kind := k\<rparr>) channel jid = HasIdentity ct0 channel jid" for k by (simp add: HasIdentity_def)
  then show "contact_ok ct0 \<Longrightarrow> HasIdentity ct0 channel jid \<Longrightarrow> contact_ok (fst (merge_group channel jid name description ct0))"
    by (simp add: merge_group_def Let_def)
qed

lemma cards_UpsertFromInbound: "framed (cards.kept c) (UpsertFromInbound d c cmd)"
  unfolding UpsertFromInbound_def Let_def emit_contact_def
  apply (rule cards.kept.fr_bind_lift)
  apply (rule cards.kept.fr_then_guard)
  apply (rule cards.kept.fr_bind [OF cards.kept_now])
  apply (rule cards_find_or_nil)
   apply simp
   apply (rule cards.kept.fr_bind [OF cards.kept_new_id])
   apply (rule cards.kept.fr_then [OF cards_Create])
     apply (simp_all add: contact_ok_def SetPhones_def cards_tail)
  using merge_inbound_ok by (auto simp: contact_ok_def [symmetric] split: prod.split intro!: cards_store_changed) (metis fst_conv)

lemma cards_UpsertGroupContact: "framed (cards.kept c) (UpsertGroupContact d c channel jid name description)"
  unfolding UpsertGroupContact_def Let_def emit_contact_def
  apply (rule cards.kept.fr_bind_lift)
  apply (rule cards.kept.fr_then_guard)
  apply (rule cards.kept.fr_bind [OF cards.kept_now])
  apply (rule cards_find_or_nil)
   apply simp
   apply (rule cards.kept.fr_bind [OF cards.kept_new_id])
   apply (rule cards.kept.fr_then [OF cards_Create])
     apply (simp_all add: contact_ok_def cards_tail)
  using merge_group_ok by (auto simp: contact_ok_def [symmetric] has_identity_of_def split: prod.split intro!: cards_store_changed) (metis fst_conv)

lemma cards_AddChannelIdentity: "framed (cards.kept c) (AddChannelIdentity d c i channel externalID)"
proof -
  let ?ch = "ke_ToLower d (trim_space channel)" and ?ex = "trim_space externalID"
  have ok: "contact_ok (ct\<lparr>ct_Identities := ct_Identities ct @ [\<lparr>ci_Channel = ?ch, ci_ExternalID = ?ex\<rparr>], ct_UpdatedAt := now\<rparr>)"
    if "contact_ok ct" "\<not> HasIdentity ct ?ch ?ex" "?ch \<noteq> []" "?ex \<noteq> []" for ct now
    using that by (auto simp: contact_ok_def HasIdentity_def)
  show ?thesis
    unfolding AddChannelIdentity_def Let_def audit_contact_def FindByChannelIdentity_def
    apply (rule cards.kept.fr_then [OF cards.kept.fr_lift])
    apply (rule cards.kept.fr_then_guard)+
    apply (rule cards_bind_found)
    apply (auto split: sum.split intro!: cards.kept.fr_bind cards.kept.fr_try cards.kept_query cards.kept.fr_return
        cards.kept.fr_throw cards.kept.fr_then cards.kept_now cards_Update log_contact_frames ok)
    done
qed

section \<open>Any sequence of requests\<close>

datatype contact_request =
    CreateContact create_contact
  | EditContact ident update_contact
  | LinkIdentity ident string string
  | InboundFrom upsert_inbound
  | InboundGroup string string string string

fun serve_contact :: "'e contact_env_scheme \<Rightarrow> ctx \<Rightarrow> contact_request \<Rightarrow> ('z contact_world_scheme, unit) io" where
  "serve_contact d c (CreateContact cmd) = then_io (contact_service_Create d c cmd) (return_io ())"
| "serve_contact d c (EditContact i cmd) = then_io (contact_service_Update d c i cmd) (return_io ())"
| "serve_contact d c (LinkIdentity i ch ex) = then_io (AddChannelIdentity d c i ch ex) (return_io ())"
| "serve_contact d c (InboundFrom cmd) = then_io (UpsertFromInbound d c cmd) (return_io ())"
| "serve_contact d c (InboundGroup ch jid name descr) = then_io (UpsertGroupContact d c ch jid name descr) (return_io ())"

fun serve_contacts :: "'e contact_env_scheme \<Rightarrow> (ctx \<times> contact_request) list \<Rightarrow> 'z contact_world_scheme \<Rightarrow> 'z contact_world_scheme" where
  "serve_contacts d [] w = w"
| "serve_contacts d ((c, rq) # rqs) w = serve_contacts d rqs (snd (serve_contact d c rq w))"

lemma serve_contact_kept: "framed (cards.kept c) (serve_contact d c rq)"
  by (cases rq) (auto intro!: cards.kept.fr_then cards.kept.fr_return cards_service_Create cards_service_Update
      cards_AddChannelIdentity cards_UpsertFromInbound cards_UpsertGroupContact)

lemma serve_contact_unique: "(\<And>n. newid d n \<noteq> []) \<Longrightarrow> book.keeps (\<lambda>_. True) (serve_contact d c rq)"
  by (cases rq) (auto intro!: book.keeps_last book.same.fr_return keeps_service_Create keeps_service_Update
      keeps_AddChannelIdentity keeps_UpsertFromInbound keeps_UpsertGroupContact)

text \<open>
  C34: Through any sequence of CRM writes, identity links and inbound upserts, of any tenants and
  with any failures of the database, a channel identity belongs to at most one contact of its
  tenant, every contact's primary phone is the first of its distinct phones and its identities
  are distinct and complete; and the contacts of a tenant that makes no request do not change.
  Identifiers are drawn as UUIDs, so they are not empty.
\<close>

theorem identities_have_one_owner:
  assumes ids: "\<And>n. newid d n \<noteq> []" and book: "address_book (contacts w)"
  shows "address_book (contacts (serve_contacts d rqs w))
    \<and> (\<forall>t. (\<forall>c rq. (c, rq) \<in> set rqs \<longrightarrow> ctx_tenant c \<noteq> Some t) \<longrightarrow>
         filter (\<lambda>ct. ct_TenantID ct = t) (contacts (serve_contacts d rqs w)) = filter (\<lambda>ct. ct_TenantID ct = t) (contacts w))"
proof -
  have u: "book.unique (contacts w)" and ok: "cards.all_ok (contacts w)" using book by (simp_all add: address_book_iff)
  have "book.unique (contacts (serve_contacts d rqs w))"
    by (rule book.unique_requests [where run = "serve_contacts d" and serve = "serve_contact d", OF _ _ serve_contact_unique u])
      (simp_all add: ids)
  moreover have "cards.all_ok (contacts (serve_contacts d rqs w)) \<and> (\<forall>t. (\<forall>c rq. (c, rq) \<in> set rqs \<longrightarrow> ctx_tenant c \<noteq> Some t) \<longrightarrow>
     cards.owned t (contacts (serve_contacts d rqs w)) = cards.owned t (contacts w))"
    by (rule cards.kept_requests [where run = "serve_contacts d" and serve = "serve_contact d", OF _ _ serve_contact_kept ok]) simp_all
  ultimately show ?thesis by (simp add: address_book_iff cards.owned_def)
qed

section \<open>A tenant with one contact\<close>

definition contact_env0 :: contact_env where
  "contact_env0 = \<lparr>clk = (\<lambda>n. int n), newid = (\<lambda>n. replicate (Suc n) CHR ''k''), fault = (\<lambda>_. None),
     ke_Phone = (\<lambda>s. Some s), ke_ToLower = id, ke_Matches = str_contains, ke_tags = None, ke_avatars = None,
     ke_avatarURLs = None, ke_customAttr = (\<lambda>_ _ _ _. None)\<rparr>"

definition contact_ctx0 :: ctx where
  "contact_ctx0 = \<lparr>ctx_tenant = Some ''t1'', ctx_auth = None, ctx_origin = None, ctx_depth = None\<rparr>"

definition contact_world0 :: contact_world where
  "contact_world0 = \<lparr>step = 0, convs = [], msgs = [], cevents = [], chans = [], sectors = [], effects = [],
     contacts = [], contact_log = []\<rparr>"

definition from_ana :: "string \<Rightarrow> upsert_inbound" where
  "from_ana name = \<lparr>uf_Channel = ''whatsapp'', uf_ExternalID = ''5511'', uf_Name = name, uf_Phone = [], uf_Document = []\<rparr>"

lemmas contact_demo = contact_env0_def contact_ctx0_def contact_world0_def from_ana_def

lemma demo_upserts:
  "map ct_Name (contacts (serve_contacts contact_env0
     [(contact_ctx0, InboundFrom (from_ana ''Ana'')), (contact_ctx0, InboundFrom (from_ana ''Ana Maria''))] contact_world0)) = [''Ana Maria'']"
  by (simp add: contact_demo UpsertFromInbound_def RequireTenant_def io_defs Let_def now_io_def new_id_def tick_def
      find_or_nil_def FindByChannelIdentity_def repo_query_def repo_write_def db_call_def find_one_def normalizePhone_def
      contact_Create_def contact_Update_def emit_contact_def log_contact_def insert_one_def isNotFound_def MapError_def
      map_err_def has_identity_of_def HasIdentity_def merge_inbound_def store_changed_def update_one_def contact_by_def
      contact_set_def newErr_def plain_char_def)

theorem identities_have_one_owner_witness:
  "let w = serve_contacts contact_env0
     [(contact_ctx0, InboundFrom (from_ana ''Ana'')), (contact_ctx0, InboundFrom (from_ana ''Ana Maria''))] contact_world0
   in map ct_Name (contacts w) = [''Ana Maria''] \<and> address_book (contacts w)"
proof -
  have "newid contact_env0 n \<noteq> []" "address_book (contacts contact_world0)" for n
    by (simp_all add: contact_env0_def contact_world0_def address_book_def)
  from identities_have_one_owner [of contact_env0, OF this] demo_upserts show ?thesis by (simp add: Let_def del: serve_contacts.simps)
qed

end
