(* ===== verification/Document_Props.thy ===== *)
theory Document_Props
  imports Contact_Forms
begin

text \<open>
  CPF and CNPJ numbers: what the form accepts is stable under a second normalization and
  satisfies the check equations, and the demo seed's generator ends with a number the form
  accepts.
\<close>

lemma byte_char_of: "(n :: nat) < 256 \<Longrightarrow> byte (char_of n) = n"
  by (simp add: byte_def of_char_of)

lemma is_digit_char: "(n :: nat) < 10 \<Longrightarrow> is_digit (char_of (48 + n))"
  by (simp add: is_digit_def byte_char_of)

lemma digit_cases: "is_digit c \<Longrightarrow> c \<in> set ''0123456789''"
proof -
  assume d: "is_digit c"
  then have "byte c \<in> {48, 49, 50, 51, 52, 53, 54, 55, 56, 57}" unfolding is_digit_def by simp presburger
  then have "byte c \<in> byte ` set ''0123456789''" by (simp add: byte_def)
  then show ?thesis by (auto simp only: byte_def of_char_eq_iff)
qed

lemma is_digit_plain: "is_digit c \<Longrightarrow> plain_char c"
  by (drule digit_cases) (auto simp: plain_char_def)

lemma trim_digits: "list_all is_digit s \<Longrightarrow> trim_space s = s"
proof (cases "s = []")
  case False
  moreover assume "list_all is_digit s"
  ultimately have "plain_char (hd s)" "plain_char (last s)" using is_digit_plain by (auto simp: list_all_iff)
  with False show ?thesis by (simp add: trim_space_plain)
qed simp

lemma digitsOnly_digits: "list_all is_digit s \<Longrightarrow> digitsOnly s = s" "list_all is_digit (digitsOnly s)"
  by (simp_all add: digitsOnly_def filter_id_conv list_all_iff)

definition check_digits :: "string \<Rightarrow> bool" where
  "check_digits d \<longleftrightarrow> length d = 11 \<and> isValidCPF d \<or> length d = 14 \<and> isValidCNPJ d"

lemma NormalizeDocument_digits:
  "list_all is_digit d \<Longrightarrow> d \<noteq> [] \<Longrightarrow> NormalizeDocument d = (if check_digits d then (d, True) else ([], False))"
  by (simp add: NormalizeDocument_def Let_def trim_digits digitsOnly_digits check_digits_def)

text \<open>
  What the form makes of a document is accepted again and left as it is; it is empty, or the
  digits of the text, eleven or fourteen of them, with both check digits right.
\<close>

theorem normalized_documents_are_stable:
  assumes "NormalizeDocument raw = (d, True)"
  shows "NormalizeDocument d = (d, True) \<and> (d = [] \<or> d = digitsOnly (trim_space raw) \<and> list_all is_digit d \<and> check_digits d)"
proof (cases "d = []")
  case False
  then have "d = digitsOnly (trim_space raw)" "check_digits d"
    using assms by (auto simp: NormalizeDocument_def Let_def check_digits_def split: if_splits)
  with False show ?thesis using digitsOnly_digits(2) [of "trim_space raw"] by (simp add: NormalizeDocument_digits)
qed (simp add: NormalizeDocument_def)

section \<open>Generated numbers\<close>

lemma cpfDigit_range: "0 \<le> cpfDigit d n weight \<and> cpfDigit d n weight \<le> 9"
proof -
  have "0 \<le> x mod 11 \<and> x mod 11 \<le> (10 :: int)" for x :: int
    using pos_mod_sign [of 11 x] pos_mod_bound [of 11 x] by simp
  then have "0 \<le> x mod 11 \<and> (x mod 11 \<noteq> 10 \<longrightarrow> x mod 11 \<le> 9)" for x :: int by (smt (verit))
  then show ?thesis by (simp add: cpfDigit_def Let_def)
qed

lemma cpfDigit_append: "n \<le> length d \<Longrightarrow> cpfDigit (d @ e) n weight = cpfDigit d n weight"
proof -
  assume "n \<le> length d"
  then have "map (\<lambda>i. digit_at (d @ e) i * (int weight - int i)) [0..<n] = map (\<lambda>i. digit_at d i * (int weight - int i)) [0..<n]"
    by (auto simp: digit_at_def nth_append)
  then show ?thesis unfolding cpfDigit_def by (simp only:)
qed

lemma digit_at_char: "0 \<le> v \<Longrightarrow> v \<le> 9 \<Longrightarrow> d ! i = char_of (nat (48 + v)) \<Longrightarrow> digit_at d i = v"
  by (simp add: digit_at_def byte_char_of nat_add_distrib)

lemma cpf_of_valid:
  assumes "length base = 9" "list_all is_digit base"
  shows "length (cpf_of base) = 11 \<and> list_all is_digit (cpf_of base) \<and> (\<not> allEqual (cpf_of base) \<longrightarrow> isValidCPF (cpf_of base))"
proof -
  let ?v = "cpfDigit base 9 10" and ?c = "\<lambda>v. char_of (nat (48 + v)) :: char"
  let ?d9 = "base @ [?c ?v]"
  let ?u = "cpfDigit ?d9 10 11"
  have out: "cpf_of base = ?d9 @ [?c ?u]" by (simp add: cpf_of_def Let_def)
  have digit: "is_digit (?c v)" if "0 \<le> v \<and> v \<le> 9" for v
    using is_digit_char [of "nat v"] that by (simp add: nat_add_distrib nat_less_iff)
  have "cpfDigit (cpf_of base) 9 10 = ?v" using cpfDigit_append [of 9 base "[?c ?v, ?c ?u]" 10] assms(1) by (simp add: out)
  moreover have "cpfDigit (cpf_of base) 10 11 = ?u" using cpfDigit_append [of 10 ?d9 "[?c ?u]" 11] assms(1) by (simp add: out)
  moreover have "digit_at (cpf_of base) 9 = ?v" "digit_at (cpf_of base) 10 = ?u"
    using cpfDigit_range assms(1) by (auto intro!: digit_at_char simp: out nth_append)
  ultimately show ?thesis
    using assms digit [OF cpfDigit_range] by (simp add: isValidCPF_def out)
qed

lemma valid_cpf_accepted: "list_all is_digit out \<Longrightarrow> length out = 11 \<Longrightarrow> isValidCPF out \<Longrightarrow> NormalizeDocument out = (out, True)"
  by (subst NormalizeDocument_digits) (auto simp: check_digits_def)

lemma draw_digits: "(\<And>n. rng n < 10) \<Longrightarrow> length (draw rng k) = 9 \<and> list_all is_digit (draw rng k)"
  by (auto simp: draw_def list_all_iff intro: is_digit_char)

lemma mixed_draw:
  assumes small: "\<And>n. rng n < 10" and i: "i < 8" "rng (k + i) \<noteq> rng (k + Suc i)"
  shows "\<not> allEqual (cpf_of (draw rng k))"
proof
  let ?s = "cpf_of (draw rng k)"
  assume eq: "allEqual ?s"
  have "?s ! j = char_of (48 + rng (k + j))" if "j < 9" for j
    using that by (simp add: cpf_of_def Let_def draw_def nth_append)
  moreover have "length ?s = 11" using cpf_of_valid [of "draw rng k"] draw_digits [of rng k, OF small] by simp
  moreover have "?s ! j = ?s ! 0" if "j < 11" for j
    using that eq \<open>length ?s = 11\<close> by (cases "j = 0") (auto simp: allEqual_def)
  moreover have "i < 9" "Suc i < 9" "i < 11" "Suc i < 11" using i(1) by simp_all
  ultimately have "char_of (48 + rng (k + i)) = (char_of (48 + rng (k + Suc i)) :: char)" by metis
  then have "byte (char_of (48 + rng (k + i))) = byte (char_of (48 + rng (k + Suc i)))" by (simp only:)
  with small [of "k + i"] small [of "k + Suc i"] i(2) show False by (simp add: byte_char_of)
qed

text \<open>
  The generator of the demo seed returns, as soon as one batch of nine draws is not one digit
  repeated, and what it returns passes the validation of the contact form unchanged.
\<close>

theorem generated_documents_are_valid:
  assumes "\<And>n. rng n < 10" and "\<exists>m. \<exists>i < 8. rng (k + 9 * m + i) \<noteq> rng (k + 9 * m + Suc i)"
  shows "\<exists>out. GenerateValidCPF rng k = Some out \<and> NormalizeDocument out = (out, True)"
proof -
  obtain m i where "i < 8" "rng (k + 9 * m + i) \<noteq> rng (k + 9 * m + Suc i)" using assms(2) by blast
  then have "\<not> allEqual (cpf_of (draw rng (k + 9 * m)))" using mixed_draw [of rng i "k + 9 * m", OF assms(1)] by simp
  then show ?thesis
  proof (induction m arbitrary: k)
    case 0
    then have "GenerateValidCPF rng k = Some (cpf_of (draw rng k))" by (simp add: GenerateValidCPF.simps Let_def)
    moreover note out = cpf_of_valid [of "draw rng k"] draw_digits [of rng k, OF assms(1)]
    ultimately show ?case using 0 by (auto intro: valid_cpf_accepted)
  next
    case (Suc m)
    have ih: "\<exists>out. GenerateValidCPF rng (k + 9) = Some out \<and> NormalizeDocument out = (out, True)"
      using Suc.IH [of "k + 9"] Suc.prems by (simp add: add.assoc)
    show ?case
    proof (cases "allEqual (cpf_of (draw rng k))")
      case True
      with ih show ?thesis by (simp add: GenerateValidCPF.simps [of rng k] Let_def)
    next
      case False
      moreover note cpf_of_valid [of "draw rng k"] draw_digits [of rng k, OF assms(1)]
      ultimately show ?thesis by (auto simp: GenerateValidCPF.simps [of rng k] Let_def intro: valid_cpf_accepted)
    qed
  qed
qed

theorem normalized_documents_are_stable_witness:
  "NormalizeDocument ''11144477735'' = (''11144477735'', True)"
proof -
  have "\<not> allEqual ''11144477735''" by (auto simp: allEqual_def intro!: bexI [of _ 3])
  then have "NormalizeDocument ''111.444.777-35'' = (''11144477735'', True)"
    by (simp add: NormalizeDocument_def Let_def digitsOnly_def is_digit_def byte_def isValidCPF_def
        cpfDigit_def digit_at_def plain_char_def upt_rec)
  from normalized_documents_are_stable [OF this] show ?thesis by blast
qed

theorem generated_documents_are_valid_witness:
  "\<exists>out. GenerateValidCPF (\<lambda>n. n mod 10) 0 = Some out \<and> NormalizeDocument out = (out, True)"
proof (rule generated_documents_are_valid)
  show "\<exists>m. \<exists>i<8. (0 + 9 * m + i) mod 10 \<noteq> (0 + 9 * m + Suc i) mod (10 :: nat)"
    by (intro exI [of _ 0] exI [of _ 1]) simp
qed simp

end
