(* ===== verification/Wa_Groups.thy ===== *)
theory Wa_Groups
  imports Contacts
begin

text \<open>
  The registry of WhatsApp groups (\<open>domain/groups\<close>, \<open>repositories/groups\<close>): the gateway's
  sync, the operator's attendance choice and the lookup the inbound flow is gated by.
\<close>

section \<open>State\<close>

record wa_group =
  gr_ID :: ident
  gr_TenantID :: ident
  gr_ChannelID :: ident
  gr_GroupJID :: string
  gr_Name :: string
  gr_Description :: string
  gr_Participants :: "string list"
  gr_GroupAdmins :: "string list"
  gr_CompanyID :: string
  gr_WhatsAppWID :: string
  gr_OwnerName :: string
  gr_OwnerJID :: string
  gr_Activated :: bool
  gr_Attend :: bool
  gr_SyncedAt :: time
  gr_CreatedAt :: time
  gr_UpdatedAt :: time

record upsert_group =
  ug_GroupJID :: string
  ug_Name :: string
  ug_Description :: string
  ug_Participants :: "string list"
  ug_GroupAdmins :: "string list"
  ug_CompanyID :: string
  ug_WhatsAppWID :: string
  ug_OwnerName :: string
  ug_OwnerJID :: string
  ug_Activated :: bool

record group_world = contact_world +
  wgroups :: "wa_group list"

text \<open>The channel's managed webhook and the server's text search are ports.\<close>

record group_env = contact_env +
  ge_Emit :: "(nat \<Rightarrow> ctx \<Rightarrow> ident \<Rightarrow> ident \<Rightarrow> string \<Rightarrow> gmap \<Rightarrow> unit res) option"
  ge_TextMatch :: "string \<Rightarrow> wa_group \<Rightarrow> bool"

section \<open>Repository\<close>

abbreviation put_groups :: "wa_group list \<Rightarrow> 'z group_world_scheme \<Rightarrow> 'z group_world_scheme" where
  "put_groups gs w \<equiv> w\<lparr>wgroups := gs\<rparr>"

definition group_by :: "ident \<Rightarrow> ident \<Rightarrow> wa_group \<Rightarrow> bool" where
  "group_by t i g \<longleftrightarrow> gr_ID g = i \<and> gr_TenantID g = t"

definition group_jid :: "ident \<Rightarrow> string \<Rightarrow> wa_group \<Rightarrow> bool" where
  "group_jid t jid g \<longleftrightarrow> gr_TenantID g = t \<and> gr_GroupJID g = jid"

text \<open>The \<open>$set\<close> of one upsert, and the document it inserts when no group of the tenant has the JID.\<close>

definition sync_set :: "ident \<Rightarrow> time \<Rightarrow> upsert_group \<Rightarrow> wa_group \<Rightarrow> wa_group" where
  "sync_set channelID now u g = g\<lparr>gr_ChannelID := channelID, gr_Name := ug_Name u, gr_Description := ug_Description u,
     gr_Participants := ug_Participants u, gr_GroupAdmins := ug_GroupAdmins u, gr_CompanyID := ug_CompanyID u,
     gr_WhatsAppWID := ug_WhatsAppWID u, gr_OwnerName := ug_OwnerName u, gr_OwnerJID := ug_OwnerJID u,
     gr_Activated := ug_Activated u, gr_SyncedAt := now, gr_UpdatedAt := now\<rparr>"

definition sync_new :: "ident \<Rightarrow> ident \<Rightarrow> time \<Rightarrow> ident \<Rightarrow> upsert_group \<Rightarrow> wa_group" where
  "sync_new t channelID now i u = sync_set channelID now u
     \<lparr>gr_ID = i, gr_TenantID = t, gr_ChannelID = [], gr_GroupJID = ug_GroupJID u, gr_Name = [], gr_Description = [],
      gr_Participants = [], gr_GroupAdmins = [], gr_CompanyID = [], gr_WhatsAppWID = [], gr_OwnerName = [],
      gr_OwnerJID = [], gr_Activated = False, gr_Attend = True, gr_SyncedAt = 0, gr_CreatedAt = now, gr_UpdatedAt = 0\<rparr>"

text \<open>One operation of the bulk: the new collection, and whether it counts as upserted or modified.\<close>

definition sync_one :: "ident \<Rightarrow> ident \<Rightarrow> time \<Rightarrow> ident \<Rightarrow> upsert_group \<Rightarrow> wa_group list \<Rightarrow> mongo_err + (wa_group list \<times> int)" where
  "sync_one t channelID now i u gs = (case find (group_jid t (ug_GroupJID u)) gs of
     Some g \<Rightarrow> Inr (update_first (group_jid t (ug_GroupJID u)) (sync_set channelID now u) gs,
                if sync_set channelID now u g = g then 0 else 1)
   | None \<Rightarrow> (case insert_one gr_ID (sync_new t channelID now i u) gs of
                Inl e \<Rightarrow> Inl e | Inr gs' \<Rightarrow> Inr (gs', 1)))"

text \<open>
  \<open>BulkWrite\<close> unordered: every operation is tried, in the order of the batch here; any write
  error is the error of the call, and the other operations stay applied.
\<close>

fun sync_all :: "ident \<Rightarrow> ident \<Rightarrow> time \<Rightarrow> (ident \<times> upsert_group) list \<Rightarrow> wa_group list \<Rightarrow> wa_group list \<times> mongo_err option \<times> int" where
  "sync_all t channelID now [] gs = (gs, None, 0)"
| "sync_all t channelID now ((i, u) # ops) gs = (case sync_one t channelID now i u gs of
     Inl e \<Rightarrow> (case sync_all t channelID now ops gs of (gs', _, n) \<Rightarrow> (gs', Some e, n))
   | Inr (gs1, k) \<Rightarrow> (case sync_all t channelID now ops gs1 of (gs', e, n) \<Rightarrow> (gs', e, k + n)))"

primrec new_ids :: "'e env_scheme \<Rightarrow> 'a list \<Rightarrow> ('z base_world_scheme, (ident \<times> 'a) list) io" where
  "new_ids d [] = return_io []"
| "new_ids d (x # xs) = bind_io (new_id d) (\<lambda>i. bind_io (new_ids d xs) (\<lambda>ys. return_io ((i, x) # ys)))"

definition group_repo_UpsertBatch ::
  "'e env_scheme \<Rightarrow> ctx \<Rightarrow> ident \<Rightarrow> upsert_group list \<Rightarrow> ('z group_world_scheme, int) io" where
  "group_repo_UpsertBatch d c channelID us = bind_io (lift_res (RequireTenant c)) (\<lambda>t.
     bind_io (now_io d) (\<lambda>now. bind_io (new_ids d us) (\<lambda>ops.
     db_call d (\<lambda>w. case sync_all t channelID now ops (wgroups w) of (gs, e, n) \<Rightarrow>
       (case e of Some err \<Rightarrow> Inl (MapError err) | None \<Rightarrow> Inr n, put_groups gs w)))))"

definition group_FindByID :: "'e env_scheme \<Rightarrow> ctx \<Rightarrow> ident \<Rightarrow> ('z group_world_scheme, wa_group) io" where
  "group_FindByID d c i = repo_query d c wgroups (\<lambda>t. find_one (group_by t i))"

definition group_repo_FindByJID :: "'e env_scheme \<Rightarrow> ctx \<Rightarrow> string \<Rightarrow> ('z group_world_scheme, wa_group) io" where
  "group_repo_FindByJID d c jid = repo_query d c wgroups (\<lambda>t. find_one (group_jid t jid))"

record group_filter =
  gf_Q :: string
  gf_ChannelID :: ident
  gf_Attend :: "bool option"

definition group_repo_List ::
  "'e group_env_scheme \<Rightarrow> ctx \<Rightarrow> group_filter \<Rightarrow> page_request \<Rightarrow> ('z group_world_scheme, wa_group list) io" where
  "group_repo_List d c f page = then_io (lift_res (RequireTenant c))
     (bind_io (lift_res (DecodeCursor (pr_Cursor page))) (\<lambda>cur.
        repo_query d c wgroups (\<lambda>t gs. Inr (list_page
          (\<lambda>g. gr_TenantID g = t \<and> (gf_ChannelID f = [] \<or> gr_ChannelID g = gf_ChannelID f)
             \<and> (case gf_Attend f of None \<Rightarrow> True | Some a \<Rightarrow> gr_Attend g = a)
             \<and> (gf_Q f = [] \<or> ge_TextMatch d (gf_Q f) g))
          gr_CreatedAt gr_ID cur (pr_Limit page) gs))))"

text \<open>\<open>FindOneAndUpdate\<close>, returning the document after the update.\<close>

definition group_repo_SetAttend :: "'e env_scheme \<Rightarrow> ctx \<Rightarrow> ident \<Rightarrow> bool \<Rightarrow> ('z group_world_scheme, wa_group) io" where
  "group_repo_SetAttend d c i attend = bind_io (lift_res (RequireTenant c)) (\<lambda>t. bind_io (now_io d) (\<lambda>now.
     db_call d (\<lambda>w. let f = (\<lambda>g. g\<lparr>gr_Attend := attend, gr_UpdatedAt := now\<rparr>) in
       case find (group_by t i) (wgroups w) of
         None \<Rightarrow> (Inl (MapError ErrNoDocuments), w)
       | Some g \<Rightarrow> (Inr (f g), put_groups (update_first (group_by t i) f (wgroups w)) w))))"

section \<open>Service\<close>

definition maxSyncBatch :: nat where "maxSyncBatch = 2000"

definition eventGroupSyncRequested :: string where "eventGroupSyncRequested = ''group_sync_requested''"

definition clean_batch :: "upsert_group list \<Rightarrow> upsert_group list" where
  "clean_batch us = filter (\<lambda>u. ug_GroupJID u \<noteq> []) (map (\<lambda>u. u\<lparr>ug_GroupJID := trim_space (ug_GroupJID u)\<rparr>) us)"

definition UpsertBatch :: "'e env_scheme \<Rightarrow> ctx \<Rightarrow> ident \<Rightarrow> upsert_group list \<Rightarrow> ('z group_world_scheme, int) io" where
  "UpsertBatch d c channelID us = then_io (lift_res (RequireTenant c))
    (then_io (guard_io (us = []) (Validation ''groups is required''))
    (then_io (guard_io (length us > maxSyncBatch) (WithDetails (Validation ''batch too large'')
        [''groups'' \<mapsto> GStr ''at most 2000 per batch; split the sync'']))
    (then_io (guard_io (clean_batch us = []) (Validation ''no group with a group_jid in the batch''))
    (group_repo_UpsertBatch d c (trim_space channelID) (clean_batch us)))))"

definition group_List ::
  "'e group_env_scheme \<Rightarrow> ctx \<Rightarrow> group_filter \<Rightarrow> page_request \<Rightarrow> ('z group_world_scheme, wa_group list) io" where
  "group_List d c f page = then_io (lift_res (RequireTenant c)) (group_repo_List d c f (Normalize page))"

definition SetAttend :: "'e env_scheme \<Rightarrow> ctx \<Rightarrow> ident \<Rightarrow> bool \<Rightarrow> ('z group_world_scheme, wa_group) io" where
  "SetAttend d c i attend = then_io (lift_res (RequireTenant c))
     (bind_io (group_repo_SetAttend d c i attend) (\<lambda>g.
      then_io (log_effect (EAudit (ctx_tenant_id c) ''group.attend_changed'' (gr_ID g) [''attend'' \<mapsto> GBool attend]))
        (return_io g)))"

definition group_FindByJID :: "'e env_scheme \<Rightarrow> ctx \<Rightarrow> string \<Rightarrow> ('z group_world_scheme, wa_group) io" where
  "group_FindByJID d c jid = then_io (lift_res (RequireTenant c)) (group_repo_FindByJID d c (trim_space jid))"

definition Sync :: "'e group_env_scheme \<Rightarrow> ctx \<Rightarrow> ident \<Rightarrow> ('z group_world_scheme, unit) io" where
  "Sync d c channelID0 = bind_io (lift_res (RequireTenant c)) (\<lambda>t.
     let channelID = trim_space channelID0 in
     then_io (guard_io (channelID = []) (Validation ''channel_id is required''))
     (case ge_Emit d of
        None \<Rightarrow> throw_io (newErr CodeIntegrationUnavailable ''group sync is not configured'')
      | Some emit \<Rightarrow> then_io (ask (\<lambda>n. emit n c t channelID eventGroupSyncRequested [''channel_id'' \<mapsto> GStr channelID]))
          (log_effect (EAudit (ctx_tenant_id c) ''group.sync_requested'' channelID Map.empty))))"

section \<open>The operator's choice\<close>

text \<open>One group per JID of a tenant, as the unique index has it, and unique identifiers.\<close>

definition group_registry :: "wa_group list \<Rightarrow> bool" where
  "group_registry gs \<longleftrightarrow> distinct (map gr_ID gs) \<and> distinct (map (\<lambda>g. (gr_TenantID g, gr_GroupJID g)) gs)"

text \<open>What the operator chose for a group, by tenant and JID.\<close>

definition attend_of :: "ident \<Rightarrow> string \<Rightarrow> wa_group list \<Rightarrow> bool option" where
  "attend_of t jid gs = map_option gr_Attend (find (group_jid t jid) gs)"

lemma sync_set_keeps [simp]:
  "gr_ID (sync_set ch now u g) = gr_ID g" "gr_TenantID (sync_set ch now u g) = gr_TenantID g"
  "gr_GroupJID (sync_set ch now u g) = gr_GroupJID g" "gr_Attend (sync_set ch now u g) = gr_Attend g"
  by (simp_all add: sync_set_def)

lemma sync_new_fields [simp]:
  "gr_ID (sync_new t ch now i u) = i" "gr_TenantID (sync_new t ch now i u) = t"
  "gr_GroupJID (sync_new t ch now i u) = ug_GroupJID u" "gr_Attend (sync_new t ch now i u)"
  by (simp_all add: sync_new_def)

lemma attend_of_update:
  assumes "\<And>g. gr_TenantID (f g) = gr_TenantID g" "\<And>g. gr_GroupJID (f g) = gr_GroupJID g" "\<And>g. gr_Attend (f g) = gr_Attend g"
  shows "attend_of t jid (update_first p f gs) = attend_of t jid gs"
  using assms by (induction gs) (auto simp: attend_of_def group_jid_def)

lemma sync_one_keeps:
  assumes "sync_one t ch now i u gs = Inr (gs', n)" "group_registry gs"
  shows "group_registry gs' \<and> (\<forall>s jid. attend_of s jid gs \<noteq> None \<longrightarrow> attend_of s jid gs' = attend_of s jid gs)
    \<and> attend_of t (ug_GroupJID u) gs' = Some (attend_of t (ug_GroupJID u) gs \<noteq> Some False)"
proof (cases "find (group_jid t (ug_GroupJID u)) gs")
  case (Some g)
  then have gs': "gs' = update_first (group_jid t (ug_GroupJID u)) (sync_set ch now u) gs"
    using assms(1) by (simp add: sync_one_def)
  have keep: "attend_of s jid gs' = attend_of s jid gs" for s jid
    unfolding gs' by (rule attend_of_update) simp_all
  have "map gr_ID gs' = map gr_ID gs" "map (\<lambda>g. (gr_TenantID g, gr_GroupJID g)) gs' = map (\<lambda>g. (gr_TenantID g, gr_GroupJID g)) gs"
    unfolding gs' by (rule map_update_first; simp)+
  moreover have "attend_of t (ug_GroupJID u) gs = Some (gr_Attend g)" using Some by (simp add: attend_of_def)
  ultimately show ?thesis using assms(2) keep by (simp add: group_registry_def)
next
  case None
  then have fresh: "i \<notin> gr_ID ` set gs" and gs': "gs' = gs @ [sync_new t ch now i u]"
    using assms(1) by (auto simp: sync_one_def insert_one_def split: if_splits)
  have "\<forall>g \<in> set gs. \<not> group_jid t (ug_GroupJID u) g" using None by (simp add: find_None_iff)
  then have "group_registry gs'" using assms(2) fresh by (auto simp: group_registry_def gs' group_jid_def)
  moreover have "attend_of s jid gs' = attend_of s jid gs" if "attend_of s jid gs \<noteq> None" for s jid
    using that by (auto simp: attend_of_def gs' find_append_last split: option.split)
  moreover have "attend_of t (ug_GroupJID u) gs = None" "attend_of t (ug_GroupJID u) gs' = Some True"
    using None by (simp_all add: attend_of_def gs' find_append_last group_jid_def)
  ultimately show ?thesis by simp
qed

lemma sync_all_keeps:
  "sync_all t ch now ops gs = (gs', e, n) \<Longrightarrow> group_registry gs \<Longrightarrow>
     group_registry gs' \<and> (\<forall>s jid. attend_of s jid gs \<noteq> None \<longrightarrow> attend_of s jid gs' = attend_of s jid gs)"
proof (induction ops arbitrary: gs gs' e n)
  case (Cons op ops)
  obtain i u where op: "op = (i, u)" by fastforce
  show ?case
  proof (cases "sync_one t ch now i u gs")
    case (Inl err)
    with Cons op show ?thesis by (auto split: prod.splits)
  next
    case (Inr r)
    obtain gs1 k where r: "r = (gs1, k)" by fastforce
    obtain e1 n1 where rest: "sync_all t ch now ops gs1 = (gs', e1, n1)"
      using Cons.prems(1) Inr by (auto simp: op r split: prod.splits)
    note one = sync_one_keeps [OF Inr [unfolded r] Cons.prems(2)]
    with Cons.IH [OF rest] show ?thesis by fastforce
  qed
qed simp

lemma frame_bind_same:
  "(\<And>w. g (snd (m w)) = g w) \<Longrightarrow> (\<And>x w. P (g w) (g (snd (f x w)))) \<Longrightarrow> (\<And>x. P x x) \<Longrightarrow> P (g w) (g (snd (bind_io m f w)))"
  by (auto simp: bind_io_def split: prod.split sum.split) (metis snd_conv)+

lemma wgroups_new_ids: "wgroups (snd (new_ids d us w)) = wgroups w"
proof (induction us arbitrary: w)
  case (Cons u us)
  show ?case unfolding new_ids.simps
    by (rule frame_bind_same [where P = "\<lambda>x y. y = x"])
      (auto simp: new_id_def tick_def intro!: frame_bind_same [where P = "\<lambda>x y. y = x"] Cons simp: return_io_def)
qed (simp add: return_io_def)

text \<open>
  A sync of the gateway, whatever it sends and whether it fails or not, keeps one group per
  JID of a tenant and never changes the attendance the operator chose for a group that is
  already registered, of its own tenant or of any other.
\<close>

theorem sync_keeps_attendance:
  assumes "group_registry (wgroups w)"
  shows "group_registry (wgroups (snd (UpsertBatch d c channelID us w)))
    \<and> (\<forall>t jid. attend_of t jid (wgroups w) \<noteq> None \<longrightarrow>
         attend_of t jid (wgroups (snd (UpsertBatch d c channelID us w))) = attend_of t jid (wgroups w))"
proof -
  let ?P = "\<lambda>gs gs'. group_registry gs \<longrightarrow> group_registry gs' \<and> (\<forall>t jid. attend_of t jid gs \<noteq> None \<longrightarrow> attend_of t jid gs' = attend_of t jid gs)"
  have refl: "?P gs gs" for gs by simp
  have "?P (wgroups w) (wgroups (snd (group_repo_UpsertBatch d c ch vs w)))" for ch vs w
    unfolding group_repo_UpsertBatch_def
    apply (rule frame_bind_same [where P = ?P, OF _ _ refl], simp add: lift_res_def)
    apply (rule frame_bind_same [where P = ?P, OF _ _ refl], simp add: now_io_def tick_def)
    apply (rule frame_bind_same [where P = ?P, OF _ _ refl], rule wgroups_new_ids)
    by (auto simp: db_call_def tick_def split: option.split prod.split dest!: sync_all_keeps)
  then have "?P (wgroups w) (wgroups (snd (UpsertBatch d c channelID us w)))"
    by (auto simp: UpsertBatch_def io_defs split: sum.split)
  with assms show ?thesis by blast
qed

section \<open>A group the operator opted out of\<close>

definition group_env0 :: group_env where
  "group_env0 = \<lparr>clk = (\<lambda>n. int n), newid = (\<lambda>n. replicate (Suc n) CHR ''g''), fault = (\<lambda>_. None),
     ke_Phone = (\<lambda>s. Some s), ke_ToLower = id, ke_Matches = str_contains, ke_tags = None, ke_avatars = None,
     ke_avatarURLs = None, ke_customAttr = (\<lambda>_ _ _ _. None), ge_Emit = None, ge_TextMatch = (\<lambda>_ _. True)\<rparr>"

definition group_ctx0 :: ctx where
  "group_ctx0 = \<lparr>ctx_tenant = Some ''t1'', ctx_auth = None, ctx_origin = None, ctx_depth = None\<rparr>"

definition group_sync0 :: upsert_group where
  "group_sync0 = \<lparr>ug_GroupJID = ''1@g.us'', ug_Name = ''Sales'', ug_Description = [], ug_Participants = [],
     ug_GroupAdmins = [], ug_CompanyID = [], ug_WhatsAppWID = [], ug_OwnerName = [], ug_OwnerJID = [], ug_Activated = True\<rparr>"

definition group_world0 :: group_world where
  "group_world0 = \<lparr>step = 0, convs = [], msgs = [], cevents = [], chans = [], sectors = [], effects = [],
     contacts = [], contact_log = [],
     wgroups = [(sync_new ''t1'' ''c1'' 0 ''g1'' group_sync0)\<lparr>gr_Attend := False\<rparr>]\<rparr>"

theorem sync_keeps_attendance_witness:
  "attend_of ''t1'' ''1@g.us'' (wgroups (snd (UpsertBatch group_env0 group_ctx0 ''c1'' [group_sync0] group_world0))) = Some False"
proof -
  have w: "attend_of ''t1'' ''1@g.us'' (wgroups group_world0) = Some False" "group_registry (wgroups group_world0)"
    by (simp_all add: attend_of_def group_jid_def group_registry_def group_world0_def group_sync0_def)
  from sync_keeps_attendance [OF w(2), of group_env0 group_ctx0 "''c1''" "[group_sync0]"] w(1) show ?thesis by (metis option.distinct(1))
qed

end
