(* ===== verification/Inbound.thy ===== *)
theory Inbound
  imports Wa_Groups Business_Hours
begin

text \<open>
  The inbound pipeline (\<open>domain/channels/service/inbound_service.go\<close>): from a gateway's message
  to the contact, the conversation and the stored message, with the idempotency ledger
  (\<open>repositories/channels/inbound_repository.go\<close>) and the protocol counters
  (\<open>repositories/conversations/protocol_counter_repository.go\<close>).
\<close>

section \<open>State and ports\<close>

record inbound_record =
  il_ID :: ident
  il_TenantID :: ident
  il_Channel :: string
  il_ExternalMessageID :: string
  il_ConversationID :: ident
  il_MessageID :: ident
  il_CreatedAt :: time

record inbound_world = group_world +
  inbound_records :: "inbound_record list"
  protocol_counters :: "string \<rightharpoonup> int"

record raw_file =
  rf_Filename :: string
  rf_ContentType :: string
  rf_Data :: string

record inbound_interactive_reply =
  iir_Type :: string
  iir_ID :: string
  iir_Title :: string
  iir_Description :: string
  iir_ContextExternalID :: string

record inbound_message =
  im_TenantKey :: string
  im_IntegrationKey :: string
  im_ExternalMessageID :: string
  im_ExternalContactID :: string
  im_ContactName :: string
  im_ContactPhone :: string
  im_ContactDocument :: string
  im_Channel :: string
  im_GroupJID :: string
  im_SenderJID :: string
  im_SenderName :: string
  im_SenderPhone :: string
  im_Text :: string
  im_Attachments :: "attachment list"
  im_RawAttachments :: "raw_file list"
  im_Contacts :: "contact_card list"
  im_Location :: "location option"
  im_InteractiveReply :: "inbound_interactive_reply option"
  im_Metadata :: gmap
  im_Timestamp :: int

record inbound_result =
  ir_Conversation :: ident
  ir_Message :: ident
  ir_Contact :: ident
  ir_Status :: string
  ir_Idempotent :: bool
  ir_Discarded :: bool

text \<open>
  The locker, the attachment store, the business-hours checker and the sender of the
  out-of-hours notice are interfaces of the service; the last two may change the world.
\<close>

record 'w inbound_env = env +
  ie_Acquire :: "nat \<Rightarrow> string \<Rightarrow> bool res"
  ie_Store :: "(nat \<Rightarrow> ctx \<Rightarrow> ident \<Rightarrow> raw_file \<Rightarrow> attachment res) option"
  ie_RuleSink :: bool
  ie_GroupGate :: bool
  ie_Hours :: "(ctx \<Rightarrow> ident \<Rightarrow> time \<Rightarrow> ('w, bool) io) option"
  ie_Sender :: "(ctx \<Rightarrow> ident \<Rightarrow> ident \<Rightarrow> string \<Rightarrow> ('w, unit) io) option"

section \<open>Repositories\<close>

definition record_of :: "ident \<Rightarrow> string \<Rightarrow> string \<Rightarrow> inbound_record \<Rightarrow> bool" where
  "record_of t channel ext r \<longleftrightarrow> il_TenantID r = t \<and> il_Channel r = channel \<and> il_ExternalMessageID r = ext"

definition FindByExternalID ::
  "'e env_scheme \<Rightarrow> ctx \<Rightarrow> string \<Rightarrow> string \<Rightarrow> ('z inbound_world_scheme, inbound_record) io" where
  "FindByExternalID d c channel ext = repo_query d c inbound_records (\<lambda>t. find_one (record_of t channel ext))"

text \<open>\<open>InsertOne\<close> under the two unique indexes: the identifier and (tenant, channel, external message).\<close>

definition insert_record :: "inbound_record \<Rightarrow> inbound_record list \<Rightarrow> mongo_err + inbound_record list" where
  "insert_record r rs = (if \<exists>x \<in> set rs. il_ID x = il_ID r \<or> record_of (il_TenantID r) (il_Channel r) (il_ExternalMessageID r) x
     then Inl DuplicateKey else Inr (rs @ [r]))"

definition inbound_Create :: "'e env_scheme \<Rightarrow> ctx \<Rightarrow> inbound_record \<Rightarrow> ('z inbound_world_scheme, unit) io" where
  "inbound_Create d c r = repo_write d c inbound_records (\<lambda>rs w. w\<lparr>inbound_records := rs\<rparr>) (\<lambda>_. insert_record r)"

text \<open>The counter's document identifier is \<open>tenant:year\<close>; \<open>$inc\<close> creates it at one.\<close>

definition NextSequence :: "'e env_scheme \<Rightarrow> ident \<Rightarrow> int \<Rightarrow> ('z inbound_world_scheme, int) io" where
  "NextSequence d tenantID year =
    (let i = tenantID @ '':'' @ itoa year in
     db_call d (\<lambda>w. let n = (case protocol_counters w i of Some k \<Rightarrow> k | None \<Rightarrow> 0) + 1
       in (Inr n, w\<lparr>protocol_counters := (protocol_counters w)(i \<mapsto> n)\<rparr>)))"

section \<open>Service\<close>

definition inbound_recordEvent ::
  "'e env_scheme \<Rightarrow> ctx \<Rightarrow> conversation \<Rightarrow> string \<Rightarrow> gmap \<Rightarrow> ('z inbound_world_scheme, unit) io" where
  "inbound_recordEvent d c cv eventType data =
     bind_io (new_id d) (\<lambda>i. bind_io (now_io d) (\<lambda>now.
       ignore_io (event_Create d c \<lparr>ev_ID = i, ev_TenantID = cv_TenantID cv, ev_ConversationID = cv_ID cv,
         ev_Type = eventType, ev_ActorType = ActorSystem, ev_ActorID = [], ev_Data = data, ev_CreatedAt = now\<rparr>)))"

definition emit_rule_io :: "('w, 'e) inbound_env_scheme \<Rightarrow> ctx \<Rightarrow> conversation \<Rightarrow> string \<Rightarrow> payload \<Rightarrow> ('z inbound_world_scheme, unit) io" where
  "emit_rule_io d c cv event p = when_io (ie_RuleSink d)
     (log_effect (ERule (cv_TenantID cv) event (cv_ID cv) (RuleOriginFromContext c) (RuleDepthFromContext c) p))"

definition emitRule :: "('w, 'e) inbound_env_scheme \<Rightarrow> ctx \<Rightarrow> conversation \<Rightarrow> string \<Rightarrow> ('z inbound_world_scheme, unit) io" where
  "emitRule d c cv event = when_io (ie_RuleSink d) (bind_io (conv_payload d cv) (emit_rule_io d c cv event))"

definition reopened :: "conversation \<Rightarrow> time \<Rightarrow> conversation" where
  "reopened cv now = cv\<lparr>cv_Status := (if cv_AssignedTo cv \<noteq> [] then StatusAssigned
       else if cv_QueueID cv \<noteq> [] then StatusQueued else StatusNew),
     cv_ClosedAt := None, cv_UpdatedAt := now\<rparr>"

definition reopen ::
  "('w, 'e) inbound_env_scheme \<Rightarrow> ctx \<Rightarrow> conversation \<Rightarrow> time \<Rightarrow> ('z inbound_world_scheme, conversation) io" where
  "reopen d c cv now = (if \<not> status_is_closed (cv_Status cv) then return_io cv else
     (let cv' = reopened cv now in
      then_io (conv_Update d c cv')
     (then_io (inbound_recordEvent d c cv' EventConversationReopened Map.empty)
     (then_io (emitRule d c cv' EventConversationReopened)
     (then_io (emitConversationWebhook cv' RealtimeConversationUpdated)
     (return_io cv'))))))"

text \<open>\<open>fmt.Sprintf\<close> with \<open>%06d\<close> of a positive number.\<close>

definition pad6 :: "int \<Rightarrow> string" where
  "pad6 n = replicate (6 - length (itoa n)) CHR ''0'' @ itoa n"

definition protocol_of :: "int \<Rightarrow> int \<Rightarrow> string" where
  "protocol_of year n = itoa year @ ''-'' @ pad6 n"

definition utc_year :: "time \<Rightarrow> int" where
  "utc_year now = fst (civil_of_day (now div Day))"

definition nextProtocol :: "'e env_scheme \<Rightarrow> ident \<Rightarrow> time \<Rightarrow> ('z inbound_world_scheme, string) io" where
  "nextProtocol d tenantID now = bind_io (NextSequence d tenantID (utc_year now)) (\<lambda>n.
     return_io (protocol_of (utc_year now) n))"

definition findOpenConversation ::
  "'e env_scheme \<Rightarrow> ctx \<Rightarrow> ident \<Rightarrow> ident \<Rightarrow> bool \<Rightarrow> ('z inbound_world_scheme, conversation) io" where
  "findOpenConversation d c contactID channelID isGroup =
    (if isGroup then FindOpenByContact d c contactID else FindOpenByContactChannelID d c contactID channelID)"

definition findLastConversation ::
  "'e env_scheme \<Rightarrow> ctx \<Rightarrow> ident \<Rightarrow> ident \<Rightarrow> bool \<Rightarrow> ('z inbound_world_scheme, conversation) io" where
  "findLastConversation d c contactID channelID isGroup =
    (if isGroup then FindLastByContact d c contactID else FindLastByContactChannelID d c contactID channelID)"

definition create_conversation_io ::
  "('w, 'e) inbound_env_scheme \<Rightarrow> ctx \<Rightarrow> ident \<Rightarrow> ident \<Rightarrow> string \<Rightarrow> ident \<Rightarrow> string \<Rightarrow> time \<Rightarrow> ('z inbound_world_scheme, conversation \<times> bool) io" where
  "create_conversation_io d c tenantID contactID channel channelID protocol now = bind_io (new_id d) (\<lambda>i.
     let cv = \<lparr>cv_ID = i, cv_TenantID = tenantID, cv_ContactID = contactID, cv_Channel = channel,
           cv_ChannelID = channelID, cv_SectorID = [], cv_QueueID = [], cv_Status = StatusNew, cv_AssignedTo = [],
           cv_Priority = PriorityNormal, cv_Protocol = protocol, cv_Tags = [], cv_CustomAttributes = Map.empty,
           cv_LastMessageAt = now, cv_LastMessage = None, cv_LastCustomerMessageAt = None, cv_UnreadCount = 0,
           cv_LastReadAt = None, cv_CreatedAt = now, cv_UpdatedAt = now, cv_ClosedAt = None\<rparr> in
     then_io (conv_Create d c cv)
    (then_io (inbound_recordEvent d c cv EventConversationCreated Map.empty)
    (then_io (emitRule d c cv EventConversationCreated)
    (return_io (cv, True)))))"

definition findOrCreateConversation ::
  "('w, 'e) inbound_env_scheme \<Rightarrow> ctx \<Rightarrow> ident \<Rightarrow> ident \<Rightarrow> string \<Rightarrow> ident \<Rightarrow> bool \<Rightarrow> bool \<Rightarrow> ('z inbound_world_scheme, conversation \<times> bool) io" where
  "findOrCreateConversation d c tenantID contactID channel channelID usesProtocol isGroup =
     bind_io (find_or_nil (findOpenConversation d c contactID channelID isGroup)) (\<lambda>o1. case o1 of
       Some cv \<Rightarrow> return_io (cv, False)
     | None \<Rightarrow> bind_io (now_io d) (\<lambda>now.
         bind_io (if \<not> usesProtocol \<or> isGroup then find_or_nil (findLastConversation d c contactID channelID isGroup)
                  else return_io None) (\<lambda>o2. case o2 of
           Some prev \<Rightarrow> bind_io (reopen d c prev now) (\<lambda>cv. return_io (cv, False))
         | None \<Rightarrow> bind_io (if usesProtocol \<and> \<not> isGroup then nextProtocol d tenantID now else return_io []) (\<lambda>protocol.
             create_conversation_io d c tenantID contactID channel channelID protocol now))))"

definition routeNew :: "('w, 'e) inbound_env_scheme \<Rightarrow> ctx \<Rightarrow> conversation \<Rightarrow> ('z inbound_world_scheme, conversation) io" where
  "routeNew d c cv = bind_io (now_io d) (\<lambda>now.
     let cv' = cv\<lparr>cv_Status := StatusQueued, cv_UpdatedAt := now\<rparr> in
     then_io (conv_Update d c cv')
    (then_io (inbound_recordEvent d c cv' EventConversationEnqueued Map.empty)
    (then_io (publishConversation d cv')
    (then_io (emitConversationWebhook cv' EventConversationCreated)
    (return_io cv')))))"

definition groupSenderFrom :: "inbound_message \<Rightarrow> group_sender option" where
  "groupSenderFrom im =
    (let jid = trim_space (im_SenderJID im); name = trim_space (im_SenderName im); phone = trim_space (im_SenderPhone im) in
     if trim_space (im_GroupJID im) = [] then None
     else if jid = [] \<and> name = [] \<and> phone = [] then None
     else Some \<lparr>gs_JID = jid, gs_Name = name, gs_Phone = phone\<rparr>)"

definition resolveInteractiveReply ::
  "'e env_scheme \<Rightarrow> ctx \<Rightarrow> ident \<Rightarrow> inbound_interactive_reply \<Rightarrow> ('z inbound_world_scheme, interactive_reply) io" where
  "resolveInteractiveReply d c convID r =
    (let r0 = \<lparr>irp_Type = iir_Type r, irp_ID = iir_ID r, irp_Title = iir_Title r,
               irp_Description = iir_Description r, irp_ContextMessageID = []\<rparr>;
         ext = trim_space (iir_ContextExternalID r) in
     if ext = [] then return_io r0
     else bind_io (try_io (FindByExternalMessageID d c convID ext)) (\<lambda>res. case res of
        Inr menu \<Rightarrow> return_io (r0\<lparr>irp_ContextMessageID := m_ID menu\<rparr>)
      | Inl _ \<Rightarrow> return_io r0))"

text \<open>The loop over the raw files: the first that cannot be stored ends the request.\<close>

primrec store_files ::
  "('w, 'e) inbound_env_scheme \<Rightarrow> ctx \<Rightarrow> ident \<Rightarrow> raw_file list \<Rightarrow> ('z inbound_world_scheme, attachment list) io" where
  "store_files d c convID [] = return_io []"
| "store_files d c convID (f # fs) = bind_io (case ie_Store d of
       Some store \<Rightarrow> ask (\<lambda>n. store n c convID f)
     | None \<Rightarrow> throw_io (PlainError ''nil attachment store'')) (\<lambda>a.
     bind_io (store_files d c convID fs) (\<lambda>rest. return_io (a # rest)))"

text \<open>The \<open>switch\<close> on the payload: message type, text and interactive reply.\<close>

definition inbound_content ::
  "'e env_scheme \<Rightarrow> ctx \<Rightarrow> conversation \<Rightarrow> attachment list \<Rightarrow> inbound_message
     \<Rightarrow> ('z inbound_world_scheme, string \<times> string \<times> interactive_reply option) io" where
  "inbound_content d c cv attachments im =
    (if im_Contacts im \<noteq> [] then
       (let msg = ValidateContacts (im_Contacts im) in
        then_io (guard_io (msg \<noteq> []) (bad_payload ''contacts'' msg)) (return_io (MessageContact, im_Text im, None)))
     else if im_Location im \<noteq> None then
       (let msg = location_Validate (im_Location im) in
        then_io (guard_io (msg \<noteq> []) (bad_payload ''location'' msg)) (return_io (MessageLocation, im_Text im, None)))
     else (case im_InteractiveReply im of
         Some r \<Rightarrow> bind_io (resolveInteractiveReply d c (cv_ID cv) r) (\<lambda>reply.
            return_io (MessageInteractiveReply, if trim_space (im_Text im) = [] then irp_Title reply else im_Text im, Some reply))
       | None \<Rightarrow> return_io (if attachments \<noteq> [] then MessageTypeForContentType (at_ContentType (hd attachments)) else MessageText,
            im_Text im, None)))"

definition bump_inbound :: "message \<Rightarrow> conversation \<Rightarrow> conversation" where
  "bump_inbound m cv = cv\<lparr>cv_LastMessageAt := m_CreatedAt m, cv_LastCustomerMessageAt := Some (m_CreatedAt m),
     cv_LastMessage := NewLastMessageSnapshot (Some m), cv_UpdatedAt := m_CreatedAt m,
     cv_UnreadCount := cv_UnreadCount cv + 1\<rparr>"

definition appendInboundMessage ::
  "('w, 'e) inbound_env_scheme \<Rightarrow> ctx \<Rightarrow> conversation \<Rightarrow> ident \<Rightarrow> inbound_message \<Rightarrow> ('z inbound_world_scheme, message) io" where
  "appendInboundMessage d c cv contactID im = bind_io (now_io d) (\<lambda>now.
     let createdAt = (if im_Timestamp im > 0 then im_Timestamp im * Millisecond else now) in
     bind_io (store_files d c (cv_ID cv) (im_RawAttachments im)) (\<lambda>stored.
     let attachments = im_Attachments im @ stored in
     bind_io (inbound_content d c cv attachments im) (\<lambda>(mtype, txt, reply).
     bind_io (new_id d) (\<lambda>i.
     let m = \<lparr>m_ID = i, m_TenantID = cv_TenantID cv, m_ConversationID = cv_ID cv, m_SenderType = SenderCustomer,
           m_SenderID = contactID, m_Direction = DirectionInbound, m_MessageType = mtype, m_Text = txt,
           m_Attachments = attachments, m_Template = None, m_Contacts = im_Contacts im, m_Location = im_Location im,
           m_Interactive = None, m_InteractiveReply = reply, m_GroupSender = groupSenderFrom im,
           m_Metadata = im_Metadata im, m_CreatedAt = createdAt, m_DeliveryStatus = DeliveryNone, m_DeliveryError = [],
           m_ExternalMessageID = trim_space (im_ExternalMessageID im), m_DeliveredAt = None, m_ReadAt = None,
           m_EditedAt = None, m_DeletedAt = None\<rparr> in
     then_io (msg_Create d c m)
    (let cv' = bump_inbound m cv in
     then_io (conv_Update d c cv')
    (then_io (inbound_recordEvent d c cv' EventMessageCreated [''message_id'' \<mapsto> GStr (m_ID m)])
    (bind_io (conv_payload d cv') (\<lambda>convPayload.
     then_io (PublishAll d
       ([(TopicConversation (cv_TenantID cv') (cv_ID cv'), RealtimeMessageCreated, MsgPayload (NewMessagePayload m)),
         (TopicConversation (cv_TenantID cv') (cv_ID cv'), RealtimeConversationUpdated, convPayload)]
        @ map (\<lambda>topic. (topic, RealtimeConversationUpdated, convPayload))
            (InboxTopicsFor (cv_TenantID cv') (cv_SectorID cv') (cv_AssignedTo cv'))))
    (then_io (emit_rule_io d c cv' EventMessageCreated (MsgPayload (NewMessagePayload m)))
    (then_io (emitMessageWebhook cv' m EventMessageCreated)
    (return_io m)))))))))))"

definition maybeSendOutOfHours ::
  "('z inbound_world_scheme, 'e) inbound_env_scheme \<Rightarrow> ctx \<Rightarrow> channel_connection \<Rightarrow> conversation \<Rightarrow> ('z inbound_world_scheme, unit) io" where
  "maybeSendOutOfHours d c conn cv =
    (let txt = trim_space (ch_OutOfHoursMessage conn) in
     case (ie_Hours d, ie_Sender d) of
       (Some hours, Some send) \<Rightarrow> if txt = [] then return_io () else
         bind_io (now_io d) (\<lambda>now. bind_io (try_io (hours c (ch_ID conn) now)) (\<lambda>r. case r of
            Inl _ \<Rightarrow> return_io ()
          | Inr opened \<Rightarrow> if opened then return_io () else ignore_io (send c (cv_ID cv) [] txt)))
     | _ \<Rightarrow> return_io ())"

definition resolveInboundContact ::
  "('w, 'e) inbound_env_scheme \<Rightarrow> ctx \<Rightarrow> string \<Rightarrow> string \<Rightarrow> string \<Rightarrow> inbound_message \<Rightarrow> ('z inbound_world_scheme, contact option) io" where
  "resolveInboundContact d c channel groupJID externalContact im =
    (if groupJID = [] then
       bind_io (UpsertFromInbound d c \<lparr>uf_Channel = channel, uf_ExternalID = externalContact, uf_Name = im_ContactName im,
          uf_Phone = im_ContactPhone im, uf_Document = im_ContactDocument im\<rparr>) (\<lambda>ct. return_io (Some ct))
     else if \<not> ie_GroupGate d then return_io None
     else bind_io (find_or_nil (group_FindByJID d c groupJID)) (\<lambda>o1. case o1 of
         None \<Rightarrow> return_io None
       | Some grp \<Rightarrow> if \<not> gr_Attend grp then return_io None
           else bind_io (UpsertGroupContact d c channel groupJID (gr_Name grp) (gr_Description grp)) (\<lambda>ct. return_io (Some ct))))"

definition idempotentResult :: "'e env_scheme \<Rightarrow> ctx \<Rightarrow> inbound_record \<Rightarrow> ('z inbound_world_scheme, inbound_result) io" where
  "idempotentResult d c r = bind_io (try_io (conv_FindByID d c (il_ConversationID r))) (\<lambda>o1.
     return_io \<lparr>ir_Conversation = il_ConversationID r, ir_Message = il_MessageID r, ir_Contact = [],
       ir_Status = (case o1 of Inr cv \<Rightarrow> cv_Status cv | Inl _ \<Rightarrow> []), ir_Idempotent = True, ir_Discarded = False\<rparr>)"

definition discarded_result :: inbound_result where
  "discarded_result = \<lparr>ir_Conversation = [], ir_Message = [], ir_Contact = [], ir_Status = ''discarded'',
     ir_Idempotent = False, ir_Discarded = True\<rparr>"

text \<open>The part of \<open>Handle\<close> after the lookup in the ledger.\<close>

definition process_inbound ::
  "('z inbound_world_scheme, 'e) inbound_env_scheme \<Rightarrow> ctx \<Rightarrow> channel_connection \<Rightarrow> ident \<Rightarrow> string \<Rightarrow> string \<Rightarrow> string \<Rightarrow> inbound_message
     \<Rightarrow> ('z inbound_world_scheme, inbound_result) io" where
  "process_inbound d c conn tenantID groupJID externalContact ext im =
     bind_io (resolveInboundContact d c (ch_Type conn) groupJID externalContact im) (\<lambda>o1. case o1 of
       None \<Rightarrow> return_io discarded_result
     | Some contact \<Rightarrow>
         bind_io (findOrCreateConversation d c tenantID (ct_ID contact) (ch_Type conn) (ch_ID conn) (ch_UsesProtocol conn) (groupJID \<noteq> []))
           (\<lambda>(cv0, isNew).
         bind_io (if isNew then routeNew d c cv0 else return_io cv0) (\<lambda>cv.
         bind_io (appendInboundMessage d c cv (ct_ID contact) im) (\<lambda>m.
         then_io (when_io isNew (maybeSendOutOfHours d c conn cv))
        (bind_io (new_id d) (\<lambda>i. bind_io (now_io d) (\<lambda>now.
         bind_io (try_io (inbound_Create d c \<lparr>il_ID = i, il_TenantID = tenantID, il_Channel = ch_Type conn,
              il_ExternalMessageID = ext, il_ConversationID = cv_ID cv, il_MessageID = m_ID m, il_CreatedAt = now\<rparr>)) (\<lambda>r.
         let result = \<lparr>ir_Conversation = cv_ID cv, ir_Message = m_ID m, ir_Contact = ct_ID contact,
                ir_Status = cv_Status cv, ir_Idempotent = False, ir_Discarded = False\<rparr> in
         case r of
           Inr _ \<Rightarrow> return_io result
         | Inl e \<Rightarrow> if err_code_of (From e) \<noteq> CodeConflict then throw_io e else return_io result))))))))"

definition has_content :: "inbound_message \<Rightarrow> bool" where
  "has_content im \<longleftrightarrow> trim_space (im_Text im) \<noteq> [] \<or> im_Attachments im \<noteq> [] \<or> im_RawAttachments im \<noteq> []
     \<or> im_Contacts im \<noteq> [] \<or> im_Location im \<noteq> None \<or> im_InteractiveReply im \<noteq> None"

definition external_contact :: "inbound_message \<Rightarrow> string" where
  "external_contact im = (if trim_space (im_ExternalContactID im) = [] then trim_space (im_ContactPhone im)
     else trim_space (im_ExternalContactID im))"

definition Handle ::
  "('z inbound_world_scheme, 'e) inbound_env_scheme \<Rightarrow> ctx \<Rightarrow> channel_connection \<Rightarrow> inbound_message \<Rightarrow> ('z inbound_world_scheme, inbound_result) io" where
  "Handle d c conn im = bind_io (lift_res (RequireTenant c)) (\<lambda>tenantID.
     let channel = ch_Type conn; ext = trim_space (im_ExternalMessageID im);
         groupJID = trim_space (im_GroupJID im); externalContact = external_contact im in
     then_io (guard_io (ext = []) (Validation ''external_message_id is required''))
    (then_io (guard_io (groupJID = [] \<and> externalContact = []) (Validation ''external_contact_id or contact_phone is required''))
    (then_io (guard_io (\<not> has_content im) (Validation ''text, attachments, contacts, location or interactive_reply are required''))
    (then_io (guard_io (im_RawAttachments im \<noteq> [] \<and> ie_Store d = None) (Internal ''attachment storage is not configured''))
    (bind_io (try_io (ask (\<lambda>n. ie_Acquire d n (''inbound:lock:'' @ tenantID @ '':'' @ channel @ '':'' @ ext)))) (\<lambda>lock. case lock of
       Inl e \<Rightarrow> throw_io (Wrap (Internal ''could not acquire inbound lock'') e)
     | Inr False \<Rightarrow> throw_io (Conflict ''inbound message is already being processed'')
     | Inr True \<Rightarrow>
        bind_io (find_or_nil (FindByExternalID d c channel ext)) (\<lambda>o1. case o1 of
          Some existing \<Rightarrow> idempotentResult d c existing
        | None \<Rightarrow> process_inbound d c conn tenantID groupJID externalContact ext im)))))))"

end
