(* ===== verification/Inbound_Frames.thy ===== *)
theory Inbound_Frames
  imports Inbound Contact_Props
begin

text \<open>
  What the steps of the inbound pipeline write. The first locale is a relation between worlds
  that does not look at contacts, messages, timeline or effects: every step before and after the
  conversation writes respects it. The second does not look at conversations and protocol
  counters either: everything but the ledger entry respects it.
\<close>

locale inbound_quiet = io_step R for R :: "'z inbound_world_scheme \<Rightarrow> 'z inbound_world_scheme \<Rightarrow> bool" +
  assumes R_contacts: "R w (w\<lparr>contacts := cs\<rparr>)" and R_log: "R w (w\<lparr>contact_log := l\<rparr>)"
    and R_msgs: "R w (w\<lparr>msgs := ms\<rparr>)" and R_cevents: "R w (w\<lparr>cevents := es\<rparr>)" and R_effects: "R w (w\<lparr>effects := fs\<rparr>)"
begin

lemma fr_db: "framed R m \<Longrightarrow> framed R (db_call d m)"
  unfolding framed_def db_call_def using rel_tick rel_trans by (auto split: option.split) blast

lemma fr_write: "(\<And>w ds. R w (put ds w)) \<Longrightarrow> framed R (repo_write d c coll put f)"
  unfolding repo_write_def
  by (intro fr_bind fr_lift fr_db) (auto simp: framed_def rel_refl split: sum.split)

lemma fr_ask: "framed R (ask f)"
  by (simp add: framed_def ask_def rel_tick)

lemma fr_find_or_nil: "framed R m \<Longrightarrow> framed R (find_or_nil m)"
  unfolding find_or_nil_def by (auto intro!: fr_bind fr_try fr_return fr_throw split: sum.split)

lemma fr_log_contact: "framed R (log_contact e)"
  by (simp add: log_contact_def framed_def modify_io_def R_log)

lemma fr_store_changed: "framed R (store_changed d c now ct changed)"
  unfolding store_changed_def contact_Update_def emit_contact_def Let_def
  by (intro fr_if fr_return fr_then fr_write R_contacts fr_log_contact)

lemma fr_contact_Create: "framed R (contact_Create d c ct)"
  unfolding contact_Create_def by (intro fr_write R_contacts)

lemma fr_UpsertFromInbound: "framed R (UpsertFromInbound d c cmd)"
  unfolding UpsertFromInbound_def FindByChannelIdentity_def emit_contact_def Let_def
  by (auto intro!: fr_bind fr_lift fr_then fr_guard fr_now fr_new_id fr_find_or_nil fr_query fr_store_changed
      fr_contact_Create fr_log_contact fr_return split: option.split prod.split)

lemma fr_UpsertGroupContact: "framed R (UpsertGroupContact d c channel jid name description)"
  unfolding UpsertGroupContact_def FindByChannelIdentity_def emit_contact_def Let_def
  by (auto intro!: fr_bind fr_lift fr_then fr_guard fr_now fr_new_id fr_find_or_nil fr_query fr_store_changed
      fr_contact_Create fr_log_contact fr_return split: option.split prod.split)

lemma fr_resolveInboundContact: "framed R (resolveInboundContact d c channel jid ext im)"
  unfolding resolveInboundContact_def group_FindByJID_def group_repo_FindByJID_def
  by (auto intro!: fr_bind fr_lift fr_then fr_find_or_nil fr_query fr_UpsertFromInbound fr_UpsertGroupContact
      fr_return split: option.split)

lemma fr_effect: "framed R (log_effect e)"
  by (simp add: framed_def log_effect_def modify_io_def R_effects)

lemma fr_event: "framed R (inbound_recordEvent d c cv ev data)"
  unfolding inbound_recordEvent_def event_Create_def
  by (intro fr_bind fr_new_id fr_now fr_ignore fr_then fr_lift fr_db) (auto simp: framed_def rel_refl R_cevents split: sum.split)

lemma fr_payload: "framed R (conv_payload d cv)"
  unfolding conv_payload_def by (intro fr_bind fr_now fr_return)

lemma fr_emitRule: "framed R (emit_rule_io d c cv ev p)" "framed R (emitRule d c cv ev)"
  unfolding emitRule_def emit_rule_io_def by (intro fr_when fr_bind fr_payload fr_effect)+

lemma fr_webhooks: "framed R (emitConversationWebhook cv ev)" "framed R (emitMessageWebhook cv m ev)"
  unfolding emitConversationWebhook_def emitMessageWebhook_def by (intro fr_effect)+

lemma fr_publish: "framed R (publishConversation d cv)" "framed R (PublishAll d evs)"
proof -
  have "framed R (modify_io (\<lambda>w. w\<lparr>effects := g w\<rparr>))" for g by (simp add: framed_def modify_io_def R_effects)
  then show "framed R (PublishAll d evs)" unfolding PublishAll_def by (intro fr_if fr_return fr_ignore fr_db)
  show "framed R (publishConversation d cv)" unfolding publishConversation_def fan_out_def Publish_def
    by (intro fr_bind fr_payload fr_then fr_for fr_ignore fr_db fr_effect)
qed

lemma fr_msg_Create: "framed R (msg_Create d c m)"
  unfolding msg_Create_def by (intro fr_then fr_lift fr_db) (auto simp: framed_def rel_refl R_msgs split: sum.split)

lemma fr_store_files: "framed R (store_files d c i fs)"
  by (induction fs) (auto intro!: fr_bind fr_ask fr_throw fr_return split: option.split)

lemma fr_msg_query: "framed R (msg_query d c q)" "framed R (conv_query d c q')"
  unfolding msg_query_def conv_query_def
  by (intro fr_bind fr_lift fr_db; simp add: framed_def rel_refl)+

lemma fr_content: "framed R (inbound_content d c cv atts im)"
  unfolding inbound_content_def resolveInteractiveReply_def FindByExternalMessageID_def Let_def
  by (auto intro!: fr_bind fr_then fr_guard fr_return fr_try fr_msg_query split: option.split sum.split)

lemma fr_find_conversations:
  "framed R (findOpenConversation d c ct ch g)" "framed R (findLastConversation d c ct ch g)" "framed R (conv_FindByID d c i)"
  unfolding findOpenConversation_def findLastConversation_def FindOpenByContact_def FindOpenByContactChannelID_def
    FindLastByContact_def FindLastByContactChannelID_def conv_FindByID_def
  by (intro fr_if fr_msg_query)+

lemmas fr_steps = fr_bind fr_then fr_return fr_throw fr_guard fr_lift fr_now fr_new_id fr_ask fr_try fr_find_or_nil
  fr_event fr_payload fr_emitRule fr_webhooks fr_publish fr_msg_Create fr_store_files fr_content fr_find_conversations
  fr_resolveInboundContact

end

locale inbound_writes = inbound_quiet R for R :: "'z inbound_world_scheme \<Rightarrow> 'z inbound_world_scheme \<Rightarrow> bool" +
  assumes R_convs: "R w (w\<lparr>convs := vs\<rparr>)" and R_counters: "R w (w\<lparr>protocol_counters := k\<rparr>)"
begin

lemma fr_conv_writes: "framed R (conv_Update d c cv)" "framed R (conv_Create d c cv)"
  unfolding conv_Update_def conv_Create_def
  by (intro fr_bind fr_then fr_lift fr_db; auto simp: framed_def rel_refl R_convs split: sum.split)+

lemma fr_nextProtocol: "framed R (nextProtocol d t now)"
  unfolding nextProtocol_def NextSequence_def Let_def
  by (intro fr_bind fr_return fr_db) (simp add: framed_def R_counters)

lemma fr_findOrCreate: "framed R (findOrCreateConversation d c t ct channel ch up g)"
  unfolding findOrCreateConversation_def reopen_def create_conversation_io_def Let_def
  by (auto intro!: fr_steps fr_conv_writes fr_nextProtocol split: option.split)

lemma fr_routeNew: "framed R (routeNew d c cv)"
  unfolding routeNew_def Let_def by (intro fr_steps fr_conv_writes)

lemma fr_append: "framed R (appendInboundMessage d c cv i im)"
  unfolding appendInboundMessage_def Let_def
  by (auto intro!: fr_steps fr_conv_writes split: prod.split)

end

end
