(* ===== verification/Inbound_Ledger.thy ===== *)
theory Inbound_Ledger
  imports Inbound_Frames
begin

text \<open>
  Redelivery: the gateway repeats a message until it is acknowledged, and the ledger makes the
  repetitions harmless once the first attempt has returned.
\<close>

section \<open>Ports\<close>

text \<open>The business-hours checker and the sender of the notice respect \<open>R\<close>.\<close>

definition ports_respect ::
  "('z inbound_world_scheme \<Rightarrow> 'z inbound_world_scheme \<Rightarrow> bool) \<Rightarrow> ('z inbound_world_scheme, 'e) inbound_env_scheme \<Rightarrow> bool" where
  "ports_respect R d \<longleftrightarrow> (\<forall>hours c i n. ie_Hours d = Some hours \<longrightarrow> framed R (hours c i n))
     \<and> (\<forall>send c i r s. ie_Sender d = Some send \<longrightarrow> framed R (send c i r s))"

context inbound_quiet begin

lemma fr_notice: "ports_respect R d \<Longrightarrow> framed R (maybeSendOutOfHours d c conn cv)"
  unfolding maybeSendOutOfHours_def ports_respect_def Let_def
  by (auto intro!: fr_return fr_bind fr_now fr_try fr_ignore split: option.split sum.split)

end

section \<open>What one request adds to the ledger\<close>

definition same_ledger :: "'z inbound_world_scheme \<Rightarrow> 'z inbound_world_scheme \<Rightarrow> bool" where
  "same_ledger w w' \<longleftrightarrow> inbound_records w' = inbound_records w"

interpretation ledger: inbound_writes "same_ledger :: 'z inbound_world_scheme \<Rightarrow> 'z inbound_world_scheme \<Rightarrow> bool"
  by unfold_locales (simp_all add: same_ledger_def tick_def)

definition recorded :: "ident \<Rightarrow> string \<Rightarrow> string \<Rightarrow> inbound_result \<Rightarrow> inbound_record \<Rightarrow> bool" where
  "recorded t channel ext r x \<longleftrightarrow> record_of t channel ext x \<and> il_ConversationID x = ir_Conversation r \<and> il_MessageID x = ir_Message r"

lemma wp_inbound_Create:
  assumes "RequireTenant c = Inr t" "il_TenantID x = t"
    "\<forall>y \<in> set (inbound_records w). il_ID y \<noteq> il_ID x \<and> \<not> record_of t (il_Channel x) (il_ExternalMessageID x) y"
  shows "wp (inbound_Create d c x) (\<lambda>_ w'. inbound_records w' = inbound_records w @ [x]) (\<lambda>e _. err_code_of (From e) = CodeInternal) w"
  using assms
  unfolding inbound_Create_def repo_write_def wp_bind wp_lift wp_db_call
  by (auto simp: wp_def insert_record_def tick_def From_code MapError_def split: option.split)

lemma process_records:
  assumes t: "RequireTenant c = Inr t" and ports: "ports_respect same_ledger d"
    and fresh: "\<forall>y \<in> set (inbound_records w). (\<forall>n. il_ID y \<noteq> newid d n) \<and> \<not> record_of t (ch_Type conn) ext y"
  shows "wp (process_inbound d c conn t jid ec ext im)
     (\<lambda>r w'. ir_Discarded r \<or> (\<exists>x. inbound_records w' = inbound_records w @ [x] \<and> recorded t (ch_Type conn) ext r x))
     (\<lambda>_ _. True) w"
  unfolding process_inbound_def wp_bind
  apply (rule wp_framed [OF ledger.fr_resolveInboundContact])
   apply (rename_tac o1 w1, case_tac o1)
    apply (simp add: wp_return discarded_result_def)
   apply (simp only: option.case wp_bind case_prod_beta)
   apply (rule wp_framed [OF ledger.fr_findOrCreate])
    apply (simp only: wp_bind case_prod_beta)
    apply (rule wp_framed [where R = same_ledger])
      apply (simp add: ledger.fr_routeNew ledger.fr_return)
     apply (simp only: wp_bind)
     apply (rule wp_framed [OF ledger.fr_append])
      apply (simp only: wp_then)
      apply (rule wp_framed [where R = same_ledger])
        apply (rule ledger.fr_when [OF ledger.fr_notice [OF ports]])
       apply (simp only: wp_bind wp_new_id wp_now wp_try)
       apply (rule wp_mono [OF wp_inbound_Create [OF t]])
          apply simp
         using fresh apply (auto simp: same_ledger_def tick_def) [1]
        apply (simp add: Let_def wp_return recorded_def record_of_def same_ledger_def tick_def)
       apply (simp add: Let_def wp_throw)
  apply simp_all
  done

lemma wp_find_record:
  assumes "RequireTenant c = Inr t"
  shows "wp (find_or_nil (FindByExternalID d c channel ext))
     (\<lambda>o1 w'. same_ledger w w' \<and> o1 = find (record_of t channel ext) (inbound_records w)) (\<lambda>_ _. True) w"
  unfolding find_or_nil_def FindByExternalID_def repo_query_def wp_bind wp_try wp_lift wp_db_call assms
  by (auto simp: wp_def find_one_def tick_def same_ledger_def return_io_def throw_io_def isNotFound_def From_code
      split: option.split)

text \<open>After a first answer the ledger finds a record with the answer's identifiers.\<close>

lemma Handle_records:
  assumes t: "RequireTenant c = Inr t" and ports: "ports_respect same_ledger d"
    and fresh: "\<And>y n. y \<in> set (inbound_records w) \<Longrightarrow> il_ID y \<noteq> newid d n"
  shows "wp (Handle d c conn im) (\<lambda>r w'. ir_Discarded r \<or>
     (\<exists>x. find (record_of t (ch_Type conn) (trim_space (im_ExternalMessageID im))) (inbound_records w') = Some x
        \<and> recorded t (ch_Type conn) (trim_space (im_ExternalMessageID im)) r x)) (\<lambda>_ _. True) w"
  (is "wp _ ?Q ?E w")
proof -
  let ?p = "record_of t (ch_Type conn) (trim_space (im_ExternalMessageID im))"
  have found: "wp (idempotentResult d c x) ?Q ?E w'"
    if "find ?p (inbound_records w) = Some x" "same_ledger w w'" for x w'
  proof -
    have "?p x" using that(1) by (auto dest: find_Some_in)
    then show ?thesis unfolding idempotentResult_def wp_bind wp_try using that
      by (intro wp_framed [OF ledger.fr_find_conversations(3)]) (simp_all add: wp_return recorded_def same_ledger_def)
  qed
  have new: "wp (process_inbound d c conn t jid ec (trim_space (im_ExternalMessageID im)) im) ?Q ?E w'"
    if "find ?p (inbound_records w) = None" "same_ledger w w'" for jid ec w'
  proof -
    have none: "\<forall>y \<in> set (inbound_records w'). \<not> ?p y" "inbound_records w' = inbound_records w"
      using that by (auto simp: same_ledger_def find_None_iff)
    show ?thesis
      by (rule wp_mono [OF process_records [OF t ports]])
        (use none fresh that(1) in \<open>auto simp: recorded_def find_append_last\<close>)
  qed
  have look: "wp (bind_io (find_or_nil (FindByExternalID d c (ch_Type conn) (trim_space (im_ExternalMessageID im))))
      (\<lambda>o1. case o1 of Some existing \<Rightarrow> idempotentResult d c existing
        | None \<Rightarrow> process_inbound d c conn t jid ec (trim_space (im_ExternalMessageID im)) im)) ?Q ?E w'"
    if "same_ledger w w'" for jid ec w'
    unfolding wp_bind using that
    by (intro wp_mono [OF wp_find_record [OF t]]) (auto simp: same_ledger_def intro!: found new split: option.split)
  show ?thesis
    unfolding Handle_def Let_def wp_bind [of "lift_res _"] wp_bind [of "try_io _"] wp_lift t sum.case wp_then wp_guard wp_try wp_ask
    by (auto simp: wp_throw same_ledger_def tick_def split: sum.split bool.split intro!: look)
qed

section \<open>Redelivery\<close>

text \<open>A message \<open>Handle\<close> does not refuse.\<close>

definition acceptable :: "('w, 'e) inbound_env_scheme \<Rightarrow> inbound_message \<Rightarrow> bool" where
  "acceptable d im \<longleftrightarrow> trim_space (im_ExternalMessageID im) \<noteq> [] \<and> has_content im
     \<and> (trim_space (im_GroupJID im) \<noteq> [] \<or> external_contact im \<noteq> []) \<and> (im_RawAttachments im \<noteq> [] \<longrightarrow> ie_Store d \<noteq> None)"

definition calm :: "('w, 'e) inbound_env_scheme \<Rightarrow> bool" where
  "calm d \<longleftrightarrow> (\<forall>n. fault d n = None) \<and> (\<forall>n k. ie_Acquire d n k = Inr True)"

lemma calm_lookup:
  assumes "calm d" "RequireTenant c = Inr t" "find (record_of t channel ext) (inbound_records w) = Some x"
  shows "find_or_nil (FindByExternalID d c channel ext) w = (Inr (Some x), tick w)"
  using assms by (simp add: find_or_nil_def FindByExternalID_def repo_query_def io_defs db_call_def calm_def find_one_def tick_def)

lemma calm_idempotentResult:
  assumes "calm d" "RequireTenant c = Inr t"
  shows "\<exists>r. idempotentResult d c x w = (Inr r, tick w) \<and> ir_Conversation r = il_ConversationID x
     \<and> ir_Message r = il_MessageID x \<and> ir_Idempotent r"
  using assms by (auto simp: idempotentResult_def conv_FindByID_def conv_query_def io_defs db_call_def calm_def)

lemma find_append_Some: "find p xs = Some x \<Longrightarrow> find p (xs @ ys) = Some x"
  by (induction xs) auto

text \<open>
  C30: Once a message has been handled and not discarded, every later delivery of the same external
  message on a channel of the same type, whatever its content and however many other messages
  were handled in between, answers with the same conversation and message and stores nothing:
  only the step counter of the world moves. The database and the locker answer the second time,
  the ports keep their hands off the ledger the first time, and identifiers are fresh.
\<close>

theorem redelivery_is_idempotent:
  assumes first: "Handle d c conn im w = (Inr r, w1)" "\<not> ir_Discarded r" "ports_respect same_ledger d"
      "\<And>y n. y \<in> set (inbound_records w) \<Longrightarrow> il_ID y \<noteq> newid d n"
    and grown: "inbound_records w2 = inbound_records w1 @ later"
    and second: "calm d2" "acceptable d2 im2" "RequireTenant c2 = RequireTenant c" "ch_Type conn2 = ch_Type conn"
      "trim_space (im_ExternalMessageID im2) = trim_space (im_ExternalMessageID im)"
  shows "\<exists>r2 n. Handle d2 c2 conn2 im2 w2 = (Inr r2, w2\<lparr>step := n\<rparr>)
    \<and> ir_Conversation r2 = ir_Conversation r \<and> ir_Message r2 = ir_Message r \<and> ir_Idempotent r2"
proof -
  let ?ext = "trim_space (im_ExternalMessageID im)"
  obtain t where t: "RequireTenant c = Inr t" using first(1) by (auto simp: Handle_def io_defs split: sum.splits)
  obtain x where x: "find (record_of t (ch_Type conn) ?ext) (inbound_records w1) = Some x" "recorded t (ch_Type conn) ?ext r x"
    using wpD(1) [OF Handle_records [OF t first(3)] first(1)] first(2,4) by blast
  have "find (record_of t (ch_Type conn) ?ext) (inbound_records w2) = Some x"
    using x(1) by (simp add: grown find_append_Some)
  then have found: "find_or_nil (FindByExternalID d2 c2 (ch_Type conn) ?ext) (tick w2) = (Inr (Some x), tick (tick w2))"
    by (intro calm_lookup [OF second(1), of c2 t]) (simp_all add: second(3) t tick_def)
  obtain r2 where "idempotentResult d2 c2 x (tick (tick w2)) = (Inr r2, tick (tick (tick w2)))"
      "ir_Conversation r2 = il_ConversationID x" "ir_Message r2 = il_MessageID x" "ir_Idempotent r2"
    using calm_idempotentResult [OF second(1), of c2 t x "tick (tick w2)"] second(3) t by auto
  moreover have "Handle d2 c2 conn2 im2 w2 = idempotentResult d2 c2 x (tick (tick w2))"
    using second(1,2,4,5) found
    by (auto simp: Handle_def second(3) t io_defs Let_def acceptable_def ask_def calm_def)
  ultimately show ?thesis using x(2) by (auto simp: tick_def recorded_def)
qed

section \<open>A first message and its redelivery\<close>

definition inbound_env0 :: "(inbound_world, unit) inbound_env_scheme" where
  "inbound_env0 = \<lparr>clk = (\<lambda>n. int n * Millisecond), newid = (\<lambda>n. replicate (Suc n) CHR ''i''), fault = (\<lambda>_. None),
     ie_Acquire = (\<lambda>_ _. Inr True), ie_Store = None, ie_RuleSink = True, ie_GroupGate = True, ie_Hours = None, ie_Sender = None\<rparr>"

definition inbound_ctx0 :: ctx where
  "inbound_ctx0 = \<lparr>ctx_tenant = Some ''t1'', ctx_auth = None, ctx_origin = None, ctx_depth = None\<rparr>"

definition inbound_world0 :: inbound_world where
  "inbound_world0 = \<lparr>step = 0, convs = [], msgs = [], cevents = [], chans = [], sectors = [], effects = [],
     contacts = [], contact_log = [], wgroups = [], inbound_records = [], protocol_counters = Map.empty\<rparr>"

definition inbound_conn0 :: channel_connection where
  "inbound_conn0 = \<lparr>ch_ID = ''ch1'', ch_TenantID = ''t1'', ch_Type = ''whatsapp'', ch_Name = ''Sales'', ch_BusinessHours = Map.empty,
     ch_OutOfHoursMessage = [], ch_Enabled = True, ch_UsesProtocol = True, ch_WhatsAppTemplates = []\<rparr>"

definition hello :: "string \<Rightarrow> inbound_message" where
  "hello txt = \<lparr>im_TenantKey = [], im_IntegrationKey = [], im_ExternalMessageID = ''wamid1'', im_ExternalContactID = ''5511'', im_ContactName = ''Ana'', im_ContactPhone = [],
     im_ContactDocument = [], im_Channel = [], im_GroupJID = [], im_SenderJID = [], im_SenderName = [], im_SenderPhone = [], im_Text = txt,
     im_Attachments = [], im_RawAttachments = [], im_Contacts = [], im_Location = None, im_InteractiveReply = None,
     im_Metadata = Map.empty, im_Timestamp = 0\<rparr>"

lemmas inbound_demo = inbound_env0_def inbound_ctx0_def inbound_world0_def inbound_conn0_def hello_def

lemma demo_trims: "trim_space ''whatsapp'' = ''whatsapp''" "trim_space ''5511'' = ''5511''" "trim_space ''wamid1'' = ''wamid1''"
  "trim_space ''Ana'' = ''Ana''" "trim_space ''hi'' = ''hi''" "trim_space ''again'' = ''again''" "trim_space [] = []"
  by code_simp+

text \<open>The definitions one accepted message of a new contact runs through.\<close>

lemmas inbound_run = Handle_def process_inbound_def resolveInboundContact_def UpsertFromInbound_def findOrCreateConversation_def
  findOpenConversation_def create_conversation_io_def nextProtocol_def routeNew_def appendInboundMessage_def inbound_content_def
  maybeSendOutOfHours_def bump_inbound_def has_content_def external_contact_def RequireTenant_def

lemmas inbound_stores = FindByExternalID_def FindByChannelIdentity_def find_or_nil_def repo_query_def repo_write_def db_call_def
  contact_Create_def FindOpenByContactChannelID_def conv_query_def find_latest_def NextSequence_def conv_Create_def conv_Update_def
  msg_Create_def event_Create_def inbound_Create_def insert_record_def insert_one_def find_one_def update_one_find by_id_def
  conv_set_def MapError_def From_code isNotFound_def

lemmas inbound_signals = emit_contact_def log_contact_def inbound_recordEvent_def emitRule_def emit_rule_io_def log_effect_def
  conv_payload_def publishConversation_def fan_out_def Publish_def PublishAll_def InboxTopicsFor_def emitConversationWebhook_def
  emitMessageWebhook_def

lemma first_delivery: "\<exists>r w. Handle inbound_env0 inbound_ctx0 inbound_conn0 (hello ''hi'') inbound_world0 = (Inr r, w) \<and> \<not> ir_Discarded r"
  by (simp add: inbound_demo demo_trims inbound_run inbound_stores inbound_signals io_defs ask_def now_io_def new_id_def tick_def
      normalizePhone_def Let_def cong: if_weak_cong option.case_cong_weak sum.case_cong_weak prod.case_cong_weak)

theorem redelivery_is_idempotent_witness:
  "\<exists>r w1 r2 n. Handle inbound_env0 inbound_ctx0 inbound_conn0 (hello ''hi'') inbound_world0 = (Inr r, w1)
     \<and> Handle inbound_env0 inbound_ctx0 inbound_conn0 (hello ''again'') w1 = (Inr r2, w1\<lparr>step := n\<rparr>) \<and> ir_Message r2 = ir_Message r"
proof -
  obtain r w1 where one: "Handle inbound_env0 inbound_ctx0 inbound_conn0 (hello ''hi'') inbound_world0 = (Inr r, w1)" "\<not> ir_Discarded r"
    using first_delivery by blast
  have "\<exists>r2 n. Handle inbound_env0 inbound_ctx0 inbound_conn0 (hello ''again'') w1 = (Inr r2, w1\<lparr>step := n\<rparr>)
      \<and> ir_Conversation r2 = ir_Conversation r \<and> ir_Message r2 = ir_Message r \<and> ir_Idempotent r2"
    by (rule redelivery_is_idempotent [OF one, where later = "[]"])
      (simp_all add: inbound_demo demo_trims ports_respect_def calm_def acceptable_def has_content_def external_contact_def)
  with one(1) show ?thesis by blast
qed

end
