(* ===== verification/Inbound_Threads.thy ===== *)
theory Inbound_Threads
  imports Inbound_Ledger Document_Props
begin

text \<open>
  What the inbound pipeline keeps of the conversations: at most one of them is open for a
  contact on a connection, and no two of a tenant have the same protocol number.
\<close>

section \<open>Protocol numbers are injective\<close>

lemma itoa_digits: "0 \<le> n \<Longrightarrow> list_all is_digit (itoa n)"
proof -
  have "list_all is_digit (nat_digits k)" for k
    by (induction k rule: nat_digits.induct) (subst nat_digits.simps, auto intro: is_digit_char)
  then show "0 \<le> n \<Longrightarrow> ?thesis" by (simp add: itoa_def)
qed

lemma dec_val_snoc: "dec_val (s @ [c]) = 10 * dec_val s + (byte c - 48)"
  by (simp add: dec_val_def)

lemma dec_val_digits: "dec_val (nat_digits k) = k"
proof (induction k rule: nat_digits.induct)
  case (1 k)
  show ?case
  proof (cases "k < 10")
    case True
    then show ?thesis by (simp add: nat_digits.simps [of k] dec_val_def byte_char_of)
  next
    case False
    with 1 show ?thesis by (simp add: nat_digits.simps [of k] dec_val_snoc byte_char_of)
  qed
qed

lemma dec_val_zeros: "dec_val (replicate j CHR ''0'' @ s) = dec_val s"
proof -
  have "foldl (\<lambda>n c. 10 * n + (byte c - 48)) 0 (replicate j CHR ''0'') = 0"
    by (induction j) (simp_all add: byte_def)
  then show ?thesis by (simp add: dec_val_def)
qed

lemma dec_val_pad6: "0 \<le> n \<Longrightarrow> dec_val (pad6 n) = nat n"
  by (simp add: pad6_def dec_val_zeros itoa_def dec_val_digits)

lemma digits_no_dash: "list_all is_digit s \<Longrightarrow> CHR ''-'' \<notin> set s"
  by (auto simp: list_all_iff is_digit_def byte_def)

lemma pad6_no_dash: "0 \<le> n \<Longrightarrow> CHR ''-'' \<notin> set (pad6 n)"
  using itoa_digits [of n] digits_no_dash by (auto simp: pad6_def)

lemma itoa_inj: "itoa m = itoa n \<Longrightarrow> m = n"
proof -
  assume eq: "itoa m = itoa n"
  have dash: "itoa k = CHR ''-'' # nat_digits (nat (- k))" if "k < 0" for k using that by (simp add: itoa_def)
  show "m = n"
  proof (cases "m < 0 \<longleftrightarrow> n < 0")
    case True
    with eq have "nat_digits (nat \<bar>m\<bar>) = nat_digits (nat \<bar>n\<bar>)" by (auto simp: itoa_def split: if_splits)
    then have "nat \<bar>m\<bar> = nat \<bar>n\<bar>" by (metis dec_val_digits)
    with True show ?thesis by linarith
  next
    case False
    then have "CHR ''-'' \<in> set (itoa m) \<longleftrightarrow> CHR ''-'' \<notin> set (itoa n)"
      using dash itoa_digits digits_no_dash by (metis linorder_not_less list.set_intros(1))
    with eq show ?thesis by simp
  qed
qed

lemma split_last_unique:
  assumes "a @ x # b = a' @ x # b'" "x \<notin> set b" "x \<notin> set b'"
  shows "a = a' \<and> b = b'"
proof -
  have tw: "takeWhile (\<lambda>y. y \<noteq> x) (rev (c @ x # e)) = rev e" "dropWhile (\<lambda>y. y \<noteq> x) (rev (c @ x # e)) = x # rev c"
    if "x \<notin> set e" for c e
  proof -
    have all: "\<And>y. y \<in> set (rev e) \<Longrightarrow> y \<noteq> x" using that by auto
    show "takeWhile (\<lambda>y. y \<noteq> x) (rev (c @ x # e)) = rev e" "dropWhile (\<lambda>y. y \<noteq> x) (rev (c @ x # e)) = x # rev c"
      using takeWhile_append2 [of "rev e" "\<lambda>y. y \<noteq> x", OF all] dropWhile_append2 [of "rev e" "\<lambda>y. y \<noteq> x", OF all] by simp_all
  qed
  from tw [OF assms(2), of a] tw [OF assms(3), of a'] assms(1) show ?thesis by simp
qed

lemma protocol_of_inj: "protocol_of y m = protocol_of z n \<Longrightarrow> 0 \<le> m \<Longrightarrow> 0 \<le> n \<Longrightarrow> y = z \<and> m = n"
proof -
  assume "protocol_of y m = protocol_of z n" and mn: "0 \<le> m" "0 \<le> n"
  then have "itoa y = itoa z \<and> pad6 m = pad6 n"
    unfolding protocol_of_def using split_last_unique [of "itoa y" "CHR ''-''" "pad6 m" "itoa z" "pad6 n"] pad6_no_dash by simp
  then show "y = z \<and> m = n" using itoa_inj dec_val_pad6 mn by (metis nat_eq_iff)
qed

lemma protocol_of_nonempty: "protocol_of y n \<noteq> []"
  by (simp add: protocol_of_def)

section \<open>The invariant\<close>

definition is_open :: "conversation \<Rightarrow> bool" where
  "is_open cv \<longleftrightarrow> cv_Status cv \<notin> set closedStatuses"

lemma is_open_status: "is_open cv = (\<not> status_is_closed (cv_Status cv))"
  by (auto simp: is_open_def closedStatuses_def status_is_closed_def)

text \<open>Two open conversations of one tenant and contact on one connection are the same.\<close>

definition one_thread :: "conversation list \<Rightarrow> bool" where
  "one_thread cs \<longleftrightarrow> (\<forall>x \<in> set cs. \<forall>y \<in> set cs. is_open x \<and> is_open y \<and> cv_TenantID x = cv_TenantID y
      \<and> cv_ContactID x = cv_ContactID y \<and> cv_ChannelID x = cv_ChannelID y \<longrightarrow> x = y)"

definition issued :: "(string \<rightharpoonup> int) \<Rightarrow> ident \<Rightarrow> int \<Rightarrow> int" where
  "issued k t y = (case k (t @ '':'' @ itoa y) of None \<Rightarrow> 0 | Some n \<Rightarrow> n)"

text \<open>
  Protocol numbers of a tenant are distinct, and each was issued: its sequence number is not above
  its year's counter.
\<close>

definition protocols_unique :: "conversation list \<Rightarrow> (string \<rightharpoonup> int) \<Rightarrow> bool" where
  "protocols_unique cs k \<longleftrightarrow> (\<forall>i n. k i = Some n \<longrightarrow> 0 \<le> n)
     \<and> (\<forall>x \<in> set cs. cv_Protocol x \<noteq> [] \<longrightarrow> (\<exists>y n. cv_Protocol x = protocol_of y n \<and> 0 < n \<and> n \<le> issued k (cv_TenantID x) y))
     \<and> (\<forall>x \<in> set cs. \<forall>y \<in> set cs. cv_TenantID x = cv_TenantID y \<and> cv_Protocol x = cv_Protocol y \<and> cv_Protocol x \<noteq> [] \<longrightarrow> x = y)"

definition threads :: "conversation list \<Rightarrow> (string \<rightharpoonup> int) \<Rightarrow> bool" where
  "threads cs k \<longleftrightarrow> distinct (map cv_ID cs) \<and> one_thread cs \<and> protocols_unique cs k"

subsection \<open>What the writes do to it\<close>

lemma threads_insert:
  assumes "threads cs k" "insert_one cv_ID cv cs = Inr cs'"
    and op: "\<And>y. y \<in> set cs \<Longrightarrow> is_open y \<Longrightarrow> cv_TenantID y = cv_TenantID cv \<Longrightarrow> cv_ContactID y = cv_ContactID cv \<Longrightarrow> cv_ChannelID y = cv_ChannelID cv \<Longrightarrow> \<not> is_open cv"
    and pr: "cv_Protocol cv \<noteq> [] \<Longrightarrow> (\<exists>y n. cv_Protocol cv = protocol_of y n \<and> 0 < n \<and> n \<le> issued k (cv_TenantID cv) y)
        \<and> (\<forall>x \<in> set cs. cv_TenantID x = cv_TenantID cv \<longrightarrow> cv_Protocol x \<noteq> cv_Protocol cv)"
  shows "threads cs' k \<and> cv \<in> set cs'"
proof -
  have cs': "cs' = cs @ [cv]" "cv_ID cv \<notin> cv_ID ` set cs" using assms(2) by (auto simp: insert_one_def split: if_splits)
  have clash: "\<not> (is_open y \<and> is_open cv \<and> cv_TenantID y = cv_TenantID cv \<and> cv_ContactID y = cv_ContactID cv \<and> cv_ChannelID y = cv_ChannelID cv)"
    if "y \<in> set cs" for y using op [OF that] by blast
  have "one_thread cs'" unfolding one_thread_def
  proof (intro ballI impI)
    fix x y assume "x \<in> set cs'" "y \<in> set cs'" and h: "is_open x \<and> is_open y \<and> cv_TenantID x = cv_TenantID y
      \<and> cv_ContactID x = cv_ContactID y \<and> cv_ChannelID x = cv_ChannelID y"
    with clash [of x] clash [of y] assms(1) show "x = y"
      by (auto simp: cs'(1) threads_def one_thread_def)
  qed
  moreover have "protocols_unique cs' k" using assms(1) pr unfolding threads_def protocols_unique_def cs'(1)
    by auto
  ultimately show ?thesis using assms(1) cs' by (simp add: threads_def)
qed

text \<open>Writing back a conversation that was read, with another status or message data.\<close>

lemma update_read:
  assumes "distinct (map cv_ID cs)" "cv \<in> set cs" "same_identity cv' cv" "cv_TenantID cv = t"
  shows "update_first (by_id t (cv_ID cv')) (conv_set cv') cs = map (\<lambda>x. if cv_ID x = cv_ID cv then cv' else x) cs"
  using assms
proof (induction cs)
  case (Cons a cs)
  have s: "cv_ID cv' = cv_ID cv" using Cons.prems(3) by (simp add: same_identity_def)
  show ?case
  proof (cases "a = cv")
    case True
    have "map (\<lambda>x. if cv_ID x = cv_ID cv then cv' else x) cs = cs"
      using Cons.prems(1) True by (intro map_idI) (auto simp: image_iff)
    with True Cons.prems s show ?thesis by (simp add: by_id_def conv_set_same)
  next
    case False
    with Cons.prems have "cv \<in> set cs" "cv_ID a \<noteq> cv_ID cv" by (auto simp: image_iff)
    with Cons s show ?thesis by (simp add: by_id_def)
  qed
qed simp

lemma threads_update:
  assumes thr: "threads cs k" and cv: "cv \<in> set cs" "same_identity cv' cv" "cv_TenantID cv = t"
    and op: "is_open cv' \<Longrightarrow> \<not> is_open cv \<Longrightarrow> (\<And>y. y \<in> set cs \<Longrightarrow> is_open y \<Longrightarrow> cv_TenantID y = t \<Longrightarrow> cv_ContactID y = cv_ContactID cv \<Longrightarrow> cv_ChannelID y = cv_ChannelID cv \<Longrightarrow> False)"
  shows "threads (update_first (by_id t (cv_ID cv')) (conv_set cv') cs) k
    \<and> cv' \<in> set (update_first (by_id t (cv_ID cv')) (conv_set cv') cs)"
proof -
  let ?g = "\<lambda>x. if cv_ID x = cv_ID cv then cv' else x"
  have dist: "distinct (map cv_ID cs)" using thr by (simp add: threads_def)
  note up = update_read [OF dist cv]
  have one: "x = cv" if "x \<in> set cs" "cv_ID x = cv_ID cv" for x
    using dist that cv(1) by (auto simp: distinct_map inj_on_def)
  have g: "?g x = (if x = cv then cv' else x)" if "x \<in> set cs" for x using one that by auto
  have id: "cv_TenantID cv' = cv_TenantID cv" "cv_ContactID cv' = cv_ContactID cv" "cv_ChannelID cv' = cv_ChannelID cv"
    "cv_Protocol cv' = cv_Protocol cv" "cv_ID cv' = cv_ID cv" using cv(2) by (simp_all add: same_identity_def)
  have old: "\<exists>x0 \<in> set cs. x = ?g x0 \<and> cv_TenantID x = cv_TenantID x0 \<and> cv_ContactID x = cv_ContactID x0
      \<and> cv_ChannelID x = cv_ChannelID x0 \<and> cv_Protocol x = cv_Protocol x0 \<and> (is_open x \<longrightarrow> is_open x0 \<or> x0 = cv \<and> is_open cv')" if "x \<in> set (map ?g cs)" for x
  proof -
    from that obtain x0 where "x0 \<in> set cs" "x = ?g x0" by auto
    with g [of x0] id show ?thesis by (intro bexI [of _ x0]) auto
  qed
  have thread: "is_open x \<Longrightarrow> is_open y \<Longrightarrow> x = y" if "x \<in> set cs" "y \<in> set cs"
    "cv_TenantID x = cv_TenantID y" "cv_ContactID x = cv_ContactID y" "cv_ChannelID x = cv_ChannelID y" for x y
    using thr that unfolding threads_def one_thread_def by blast
  have reopened: "is_open cv' \<Longrightarrow> is_open y \<Longrightarrow> y = cv" if "y \<in> set cs"
    "cv_TenantID y = cv_TenantID cv" "cv_ContactID y = cv_ContactID cv" "cv_ChannelID y = cv_ChannelID cv" for y
    using op [OF _ _ that(1)] thread [OF that(1) cv(1)] that cv(3) by (cases "is_open cv") auto
  have "map cv_ID (map ?g cs) = map cv_ID cs" by (auto simp: id)
  then have d: "distinct (map cv_ID (map ?g cs))" using dist by (simp only:)
  moreover have "one_thread (map ?g cs)"
    unfolding one_thread_def
  proof (intro ballI impI)
    fix x y assume x: "x \<in> set (map ?g cs)" and y: "y \<in> set (map ?g cs)" and h: "is_open x \<and> is_open y \<and> cv_TenantID x = cv_TenantID y
      \<and> cv_ContactID x = cv_ContactID y \<and> cv_ChannelID x = cv_ChannelID y"
    obtain x0 y0 where x0: "x0 \<in> set cs" "x = ?g x0" "is_open x0 \<or> x0 = cv \<and> is_open cv'" and y0: "y0 \<in> set cs" "y = ?g y0" "is_open y0 \<or> y0 = cv \<and> is_open cv'"
      and eq: "cv_TenantID x0 = cv_TenantID y0" "cv_ContactID x0 = cv_ContactID y0" "cv_ChannelID x0 = cv_ChannelID y0"
      using old [OF x] old [OF y] h by auto
    then have "x0 = y0" using thread [of x0 y0] reopened [of x0] reopened [of y0] by metis
    with x0(2) y0(2) show "x = y" by simp
  qed
  moreover have "protocols_unique (map ?g cs) k"
    unfolding protocols_unique_def
  proof (intro conjI ballI impI)
    show "\<forall>i n. k i = Some n \<longrightarrow> 0 \<le> n" using thr by (simp add: threads_def protocols_unique_def)
    fix x assume x: "x \<in> set (map ?g cs)"
    show "\<exists>y n. cv_Protocol x = protocol_of y n \<and> 0 < n \<and> n \<le> issued k (cv_TenantID x) y" if "cv_Protocol x \<noteq> []"
      using old [OF x] thr that unfolding threads_def protocols_unique_def by metis
    fix y assume y: "y \<in> set (map ?g cs)" and h: "cv_TenantID x = cv_TenantID y \<and> cv_Protocol x = cv_Protocol y \<and> cv_Protocol x \<noteq> []"
    obtain x0 y0 where "x0 \<in> set cs" "x = ?g x0" "y0 \<in> set cs" "y = ?g y0" "cv_TenantID x0 = cv_TenantID y0" "cv_Protocol x0 = cv_Protocol y0" "cv_Protocol x0 \<noteq> []"
      using old [OF x] old [OF y] h by metis
    with thr show "x = y" unfolding threads_def protocols_unique_def by metis
  qed
  moreover have "cv' \<in> set (map ?g cs)" using cv(1) by auto
  ultimately show ?thesis unfolding up threads_def by (intro conjI)
qed

section \<open>Steps of the pipeline\<close>

definition same_threads :: "'z inbound_world_scheme \<Rightarrow> 'z inbound_world_scheme \<Rightarrow> bool" where
  "same_threads w w' \<longleftrightarrow> convs w' = convs w \<and> protocol_counters w' = protocol_counters w"

interpretation still: inbound_quiet "same_threads :: 'z inbound_world_scheme \<Rightarrow> 'z inbound_world_scheme \<Rightarrow> bool"
  by unfold_locales (simp_all add: same_threads_def tick_def)

definition threads_of :: "'z inbound_world_scheme \<Rightarrow> bool" where
  "threads_of w \<longleftrightarrow> threads (convs w) (protocol_counters w)"

text \<open>
  \<open>triple P m Q\<close>: started with the invariant and \<open>P\<close>, \<open>m\<close> ends with the invariant, and with \<open>Q\<close>
  of its value when it returns one. The assertions are about conversations and counters.
\<close>

definition triple ::
  "(conversation list \<Rightarrow> (string \<rightharpoonup> int) \<Rightarrow> bool) \<Rightarrow> ('z inbound_world_scheme, 'a) io
     \<Rightarrow> ('a \<Rightarrow> conversation list \<Rightarrow> (string \<rightharpoonup> int) \<Rightarrow> bool) \<Rightarrow> bool" where
  "triple P m Q \<longleftrightarrow> (\<forall>w. threads_of w \<and> P (convs w) (protocol_counters w) \<longrightarrow>
     wp m (\<lambda>x w'. threads_of w' \<and> Q x (convs w') (protocol_counters w')) (\<lambda>_. threads_of) w)"

lemma triple_bind: "triple P m R \<Longrightarrow> (\<And>x. triple (R x) (f x) Q) \<Longrightarrow> triple P (bind_io m f) Q"
  unfolding triple_def wp_bind by (blast intro: wp_mono)

lemma triple_then: "triple P m (\<lambda>_. R) \<Longrightarrow> triple R n Q \<Longrightarrow> triple P (then_io m n) Q"
  unfolding then_io_def by (rule triple_bind)

lemma triple_mono:
  fixes m :: "('z inbound_world_scheme, 'a) io"
  assumes "triple P m Q" "\<And>cs k. threads cs k \<Longrightarrow> P' cs k \<Longrightarrow> P cs k" "\<And>x cs k. Q x cs k \<Longrightarrow> Q' x cs k"
  shows "triple P' m Q'"
  unfolding triple_def
proof (intro allI impI)
  fix w :: "'z inbound_world_scheme" assume "threads_of w \<and> P' (convs w) (protocol_counters w)"
  then have "wp m (\<lambda>x w'. threads_of w' \<and> Q x (convs w') (protocol_counters w')) (\<lambda>_. threads_of) w"
    using assms(1,2) unfolding triple_def threads_of_def by blast
  then show "wp m (\<lambda>x w'. threads_of w' \<and> Q' x (convs w') (protocol_counters w')) (\<lambda>_. threads_of) w"
    by (rule wp_mono) (use assms(3) in auto)
qed

lemma triple_frame: "framed same_threads m \<Longrightarrow> triple P m (\<lambda>_. P)"
  unfolding triple_def by (auto intro!: wp_framed [where R = same_threads] simp: same_threads_def threads_of_def)

lemma triple_return: "(\<And>cs k. P cs k \<Longrightarrow> Q x cs k) \<Longrightarrow> triple P (return_io x) Q"
  by (simp add: triple_def wp_return)

text \<open>A step that does not touch the conversations, and a last one.\<close>

lemma triple_skip: "framed same_threads m \<Longrightarrow> (\<And>x. triple P (f x) Q) \<Longrightarrow> triple P (bind_io m f) Q"
  by (rule triple_bind [OF triple_frame])

lemma triple_skip_then: "framed same_threads m \<Longrightarrow> triple P n Q \<Longrightarrow> triple P (then_io m n) Q"
  by (rule triple_then [OF triple_frame])

lemma triple_pre: "triple P m Q \<Longrightarrow> (\<And>cs k. threads cs k \<Longrightarrow> P' cs k \<Longrightarrow> P cs k) \<Longrightarrow> triple P' m Q"
  by (rule triple_mono)

lemma triple_pure: "(\<And>cs k. P cs k \<Longrightarrow> R) \<Longrightarrow> (R \<Longrightarrow> triple P m Q) \<Longrightarrow> triple P m Q"
  unfolding triple_def by blast

lemma triple_lift: "(\<And>x. r = Inr x \<Longrightarrow> triple P (f x) Q) \<Longrightarrow> triple P (bind_io (lift_res r) f) Q"
  unfolding triple_def wp_bind wp_lift by (cases r) auto

lemma triple_guard: "(\<not> b \<Longrightarrow> triple P m Q) \<Longrightarrow> triple P (then_io (guard_io b e) m) Q"
  unfolding triple_def wp_then wp_guard by auto

lemma triple_throw: "triple P (throw_io e) Q"
  by (simp add: triple_def wp_throw)

lemma triple_option:
  "triple (P None) m Q \<Longrightarrow> (\<And>x. triple (P (Some x)) (f x) Q) \<Longrightarrow> triple (P o1) (case o1 of None \<Rightarrow> m | Some x \<Rightarrow> f x) Q"
  by (cases o1) auto

lemma find_latest_cases:
  "find_latest p f ds = Inl ErrNoDocuments \<and> (\<forall>y \<in> set ds. \<not> p y) \<or> (\<exists>x. find_latest p f ds = Inr x \<and> x \<in> set ds \<and> p x)"
proof (cases "sort_key (\<lambda>d. - f d) (filter p ds)")
  case Nil
  then have "set (filter p ds) = {}" by (metis set_sort set_empty)
  then show ?thesis by (auto simp: find_latest_def find_one_def Nil filter_empty_conv)
next
  case (Cons a xs)
  then have "a \<in> set (filter p ds)" by (metis list.set_intros(1) set_sort)
  then show ?thesis by (auto simp: find_latest_def find_one_def Cons)
qed

lemma triple_find_latest:
  assumes "RequireTenant c = Inr t"
  shows "triple P (find_or_nil (conv_query d c (\<lambda>t. find_latest (p t) f)) :: ('z inbound_world_scheme, _) io)
     (\<lambda>o1 cs k. P cs k \<and> (case o1 of None \<Rightarrow> \<forall>y \<in> set cs. \<not> p t y | Some x \<Rightarrow> x \<in> set cs \<and> p t x))"
  (is "triple P _ ?R")
  unfolding triple_def find_or_nil_def wp_bind wp_try
proof (intro allI impI)
  fix w :: "'z inbound_world_scheme" assume pre: "threads_of w \<and> P (convs w) (protocol_counters w)"
  show "wp (conv_query d c (\<lambda>t. find_latest (p t) f))
     (\<lambda>x. wp (case Inr x of Inl e \<Rightarrow> if isNotFound e then return_io None else throw_io e | Inr x \<Rightarrow> return_io (Some x))
        (\<lambda>x w'. threads_of w' \<and> ?R x (convs w') (protocol_counters w')) (\<lambda>_. threads_of))
     (\<lambda>e. wp (case Inl e of Inl e \<Rightarrow> if isNotFound e then return_io None else throw_io e | Inr x \<Rightarrow> return_io (Some x))
        (\<lambda>x w'. threads_of w' \<and> ?R x (convs w') (protocol_counters w')) (\<lambda>_. threads_of)) w" (is ?G)
  proof (cases "fault d (step w)")
    case (Some e)
    with pre show ?G by (simp add: wp_conv_query on_db_def assms wp_throw threads_of_def tick_def)
  next
    case None
    from find_latest_cases [of "p t" f "convs w"] show ?G
    proof (elim disjE exE conjE)
      assume "find_latest (p t) f (convs w) = Inl ErrNoDocuments" "\<forall>y \<in> set (convs w). \<not> p t y"
      with None pre show ?G by (simp add: wp_conv_query on_db_def assms wp_return threads_of_def tick_def)
    next
      fix x assume "find_latest (p t) f (convs w) = Inr x" "x \<in> set (convs w)" "p t x"
      with None pre show ?G by (simp add: wp_conv_query on_db_def assms wp_return threads_of_def tick_def)
    qed
  qed
qed

definition stored :: "ident \<Rightarrow> conversation \<Rightarrow> conversation list \<Rightarrow> bool" where
  "stored t cv cs \<longleftrightarrow> cv \<in> set cs \<and> cv_TenantID cv = t"

definition no_thread :: "ident \<Rightarrow> ident \<Rightarrow> ident \<Rightarrow> conversation list \<Rightarrow> bool" where
  "no_thread t contact channelID cs \<longleftrightarrow> (\<forall>y \<in> set cs. \<not> (is_open y \<and> cv_TenantID y = t \<and> cv_ContactID y = contact \<and> cv_ChannelID y = channelID))"

definition new_protocol :: "ident \<Rightarrow> string \<Rightarrow> conversation list \<Rightarrow> (string \<rightharpoonup> int) \<Rightarrow> bool" where
  "new_protocol t p cs k \<longleftrightarrow> p = [] \<or> (\<exists>y n. p = protocol_of y n \<and> 0 < n \<and> n \<le> issued k t y)
     \<and> (\<forall>x \<in> set cs. cv_TenantID x = t \<longrightarrow> cv_Protocol x \<noteq> p)"

lemma triple_update:
  assumes t: "RequireTenant c = Inr t"
  shows "triple (\<lambda>cs k. stored t cv cs \<and> same_identity cv' cv
       \<and> (is_open cv' \<longrightarrow> is_open cv \<or> no_thread t (cv_ContactID cv) (cv_ChannelID cv) cs))
     (conv_Update d c cv') (\<lambda>_ cs k. stored t cv' cs)"
  unfolding triple_def wp_conv_Update on_db_def t sum.case
proof (intro allI impI, elim conjE)
  fix w :: "'a inbound_world_scheme"
  assume w: "threads_of w" "stored t cv (convs w)" "same_identity cv' cv"
    "is_open cv' \<longrightarrow> is_open cv \<or> no_thread t (cv_ContactID cv) (cv_ChannelID cv) (convs w)"
  have "threads (update_first (by_id t (cv_ID cv')) (conv_set cv') (convs w)) (protocol_counters w)
      \<and> cv' \<in> set (update_first (by_id t (cv_ID cv')) (conv_set cv') (convs w))"
    using w by (intro threads_update [of _ _ cv]) (auto simp: threads_of_def stored_def no_thread_def)
  moreover have "cv_TenantID cv' = t" using w(2,3) by (simp add: same_identity_def stored_def)
  ultimately show "case fault d (step w) of
       None \<Rightarrow> (case find (by_id t (cv_ID cv')) (convs (tick w)) of
           None \<Rightarrow> threads_of (tick w)
         | Some _ \<Rightarrow> threads_of (tick w\<lparr>convs := update_first (by_id t (cv_ID cv')) (conv_set cv') (convs (tick w))\<rparr>)
             \<and> stored t cv' (convs (tick w\<lparr>convs := update_first (by_id t (cv_ID cv')) (conv_set cv') (convs (tick w))\<rparr>)))
     | Some e \<Rightarrow> threads_of (tick w)"
    using w(1) by (auto simp: threads_of_def tick_def stored_def split: option.split)
qed

lemma triple_create:
  assumes t: "RequireTenant c = Inr t"
  shows "triple (\<lambda>cs k. cv_TenantID cv = t \<and> no_thread t (cv_ContactID cv) (cv_ChannelID cv) cs \<and> new_protocol t (cv_Protocol cv) cs k)
     (conv_Create d c cv) (\<lambda>_ cs k. stored t cv cs)"
  unfolding triple_def wp_conv_Create on_db_def t sum.case
proof (intro allI impI, elim conjE)
  fix w :: "'a inbound_world_scheme"
  assume w: "threads_of w" "cv_TenantID cv = t" "no_thread t (cv_ContactID cv) (cv_ChannelID cv) (convs w)"
    "new_protocol t (cv_Protocol cv) (convs w) (protocol_counters w)"
  have "threads (convs w @ [cv]) (protocol_counters w)" if "cv_ID cv \<notin> cv_ID ` set (convs w)"
    using threads_insert [of "convs w" "protocol_counters w" cv "convs w @ [cv]"] w that
    by (auto simp: threads_of_def insert_one_def no_thread_def new_protocol_def)
  with w(1,2) show "case fault d (step w) of
       None \<Rightarrow> if cv_ID cv \<in> cv_ID ` set (convs (tick w)) then threads_of (tick w)
         else threads_of (tick w\<lparr>convs := convs (tick w) @ [cv]\<rparr>) \<and> stored t cv (convs (tick w\<lparr>convs := convs (tick w) @ [cv]\<rparr>))
     | Some e \<Rightarrow> threads_of (tick w)"
    by (auto simp: threads_of_def tick_def stored_def split: option.split)
qed

text \<open>The next number of a counter was issued to nobody.\<close>

lemma next_number:
  assumes thr: "threads cs k" and n_def: "n = (case k (t @ '':'' @ itoa y) of Some m \<Rightarrow> m | None \<Rightarrow> 0) + 1"
  shows "threads cs (k(t @ '':'' @ itoa y \<mapsto> n)) \<and> new_protocol t (protocol_of y n) cs (k(t @ '':'' @ itoa y \<mapsto> n))"
proof -
  let ?k = "k(t @ '':'' @ itoa y \<mapsto> n)"
  have n: "n = issued k t y + 1" by (simp add: n_def issued_def split: option.split)
  have nonneg: "0 \<le> m" if "k i = Some m" for i m using thr that unfolding threads_def protocols_unique_def by blast
  then have pos: "0 < n" unfolding n_def by (cases "k (t @ '':'' @ itoa y)") (auto simp: add_nonneg_pos)
  have more: "issued k u z \<le> issued ?k u z" for u z
    using n by (auto simp: issued_def split: option.splits if_splits)
  have old: "\<exists>z m. cv_Protocol x = protocol_of z m \<and> 0 < m \<and> m \<le> issued k (cv_TenantID x) z" if "x \<in> set cs" "cv_Protocol x \<noteq> []" for x
    using thr that unfolding threads_def protocols_unique_def by blast
  have "threads cs ?k"
    unfolding threads_def protocols_unique_def
  proof (intro conjI ballI impI allI)
    show "distinct (map cv_ID cs)" "one_thread cs" using thr by (simp_all add: threads_def)
    show "0 \<le> m" if "?k i = Some m" for i m using that pos nonneg by (auto split: if_splits)
    show "\<exists>z m. cv_Protocol x = protocol_of z m \<and> 0 < m \<and> m \<le> issued ?k (cv_TenantID x) z" if "x \<in> set cs" "cv_Protocol x \<noteq> []" for x
      using old [OF that] more by (meson order_trans)
    show "x = x'" if "x \<in> set cs" "x' \<in> set cs" "cv_TenantID x = cv_TenantID x' \<and> cv_Protocol x = cv_Protocol x' \<and> cv_Protocol x \<noteq> []" for x x'
      using thr that unfolding threads_def protocols_unique_def by blast
  qed
  moreover have "cv_Protocol x \<noteq> protocol_of y n" if x: "x \<in> set cs" "cv_TenantID x = t" for x
  proof
    assume p: "cv_Protocol x = protocol_of y n"
    then obtain z m where "protocol_of y n = protocol_of z m" "0 < m" "m \<le> issued k t z"
      using old [OF x(1)] x(2) protocol_of_nonempty by metis
    with protocol_of_inj [of y n z m] pos n show False by auto
  qed
  moreover have "issued ?k t y = n" by (simp add: issued_def)
  then have "\<exists>z m. protocol_of y n = protocol_of z m \<and> 0 < m \<and> m \<le> issued ?k t z" using pos by (metis order_refl)
  ultimately show ?thesis unfolding new_protocol_def by simp
qed

lemma triple_nextProtocol:
  "triple (\<lambda>cs k. P cs) (nextProtocol d t now) (\<lambda>p cs k. P cs \<and> new_protocol t p cs k)"
  unfolding nextProtocol_def NextSequence_def Let_def triple_def wp_bind wp_db_call wp_return
  using next_number by (auto simp: threads_of_def wp_def tick_def split: option.split)

lemma same_identity_updates [simp]:
  "same_identity (reopened cv now) cv" "same_identity (bump_inbound m cv) cv"
  "same_identity (cv\<lparr>cv_Status := s, cv_UpdatedAt := u\<rparr>) cv" "same_identity cv cv"
  by (simp_all add: same_identity_def reopened_def bump_inbound_def)

lemma triple_reopen:
  assumes t: "RequireTenant c = Inr t"
  shows "triple (\<lambda>cs k. stored t cv cs \<and> no_thread t (cv_ContactID cv) (cv_ChannelID cv) cs) (reopen d c cv now)
     (\<lambda>cv' cs k. stored t cv' cs)"
proof (cases "status_is_closed (cv_Status cv)")
  case False
  then show ?thesis by (simp add: reopen_def) (rule triple_return, simp)
next
  case True
  show ?thesis unfolding reopen_def Let_def using True
    apply (simp only: if_False simp_thms)
    apply (rule triple_then, rule triple_pre [OF triple_update [OF t, of cv]], simp)
    apply (rule triple_skip_then, rule still.fr_event)
    apply (rule triple_skip_then, rule still.fr_emitRule)
    apply (rule triple_skip_then, rule still.fr_webhooks)
    apply (rule triple_return, assumption)
    done
qed

lemma triple_create_conversation:
  assumes t: "RequireTenant c = Inr t"
  shows "triple (\<lambda>cs k. no_thread t contactID channelID cs \<and> new_protocol t protocol cs k)
     (create_conversation_io d c t contactID channel channelID protocol now) (\<lambda>(cv, isNew) cs k. stored t cv cs \<and> is_open cv)"
  unfolding create_conversation_io_def Let_def
  apply (rule triple_skip, rule still.fr_new_id)
  apply (rule triple_then, rule triple_pre [OF triple_create [OF t]], simp)
  apply (rule triple_skip_then, rule still.fr_event)
  apply (rule triple_skip_then, rule still.fr_emitRule)
  apply (rule triple_return, simp add: is_open_status)
  done

lemma triple_routeNew:
  assumes t: "RequireTenant c = Inr t"
  shows "triple (\<lambda>cs k. stored t cv cs \<and> is_open cv) (routeNew d c cv) (\<lambda>cv' cs k. stored t cv' cs)"
  unfolding routeNew_def Let_def
  apply (rule triple_skip, rule still.fr_now)
  apply (rule triple_then, rule triple_pre [OF triple_update [OF t, of cv]], simp)
  apply (rule triple_skip_then, rule still.fr_event)
  apply (rule triple_skip_then, rule still.fr_publish)
  apply (rule triple_skip_then, rule still.fr_webhooks)
  apply (rule triple_return, assumption)
  done

lemma triple_append:
  assumes t: "RequireTenant c = Inr t"
  shows "triple (\<lambda>cs k. stored t cv cs) (appendInboundMessage d c cv contactID im) (\<lambda>_ cs k. True)"
  unfolding appendInboundMessage_def Let_def
  apply (rule triple_skip, rule still.fr_now)
  apply (rule triple_skip, rule still.fr_store_files)
  apply (rule triple_skip, rule still.fr_content)
  apply (simp only: case_prod_beta)
  apply (rule triple_skip, rule still.fr_new_id)
  apply (rule triple_skip_then, rule still.fr_msg_Create)
  apply (rule triple_then, rule triple_pre [OF triple_update [OF t, of cv]])
   apply (simp add: is_open_def bump_inbound_def same_identity_def)
  apply (rule triple_skip_then, rule still.fr_event)
  apply (rule triple_skip, rule still.fr_payload)
  apply (rule triple_skip_then, rule still.fr_publish)
  apply (rule triple_skip_then, rule still.fr_emitRule)
  apply (rule triple_skip_then, rule still.fr_webhooks)
  apply (rule triple_return, simp)
  done

text \<open>The lookups of \<open>findOrCreateConversation\<close>.\<close>

lemma triple_findOpen:
  assumes "RequireTenant c = Inr t"
  shows "triple P (find_or_nil (findOpenConversation d c contactID channelID g))
     (\<lambda>o1 cs k. case o1 of Some cv \<Rightarrow> stored t cv cs
        | None \<Rightarrow> no_thread t contactID channelID cs \<and> (g \<longrightarrow> (\<forall>ch. no_thread t contactID ch cs)))"
proof (cases g)
  case True
  then show ?thesis unfolding findOpenConversation_def FindOpenByContact_def
    by (simp, intro triple_mono [OF triple_find_latest [OF assms, where P = P]])
      (auto simp: stored_def no_thread_def is_open_def split: option.splits)
next
  case False
  then show ?thesis unfolding findOpenConversation_def FindOpenByContactChannelID_def
    by (simp, intro triple_mono [OF triple_find_latest [OF assms, where P = P]])
      (auto simp: stored_def no_thread_def is_open_def split: option.splits)
qed

lemma triple_findLast:
  assumes "RequireTenant c = Inr t"
  shows "triple P (find_or_nil (findLastConversation d c contactID channelID g))
     (\<lambda>o1 cs k. P cs k \<and> (case o1 of None \<Rightarrow> True | Some cv \<Rightarrow> stored t cv cs \<and> cv_ContactID cv = contactID \<and> (\<not> g \<longrightarrow> cv_ChannelID cv = channelID)))"
proof (cases g)
  case True
  then show ?thesis unfolding findLastConversation_def FindLastByContact_def
    by (simp, intro triple_mono [OF triple_find_latest [OF assms, where P = P]])
      (auto simp: stored_def split: option.splits)
next
  case False
  then show ?thesis unfolding findLastConversation_def FindLastByContactChannelID_def
    by (simp, intro triple_mono [OF triple_find_latest [OF assms, where P = P]])
      (auto simp: stored_def split: option.splits)
qed

lemma triple_findOrCreate:
  assumes t: "RequireTenant c = Inr t"
  shows "triple P (findOrCreateConversation d c t contactID channel channelID up g)
     (\<lambda>(cv, isNew) cs k. stored t cv cs \<and> (isNew \<longrightarrow> is_open cv))"
proof -
  let ?none = "\<lambda>cs k. no_thread t contactID channelID cs \<and> (g \<longrightarrow> (\<forall>ch. no_thread t contactID ch cs))"
  let ?Q = "\<lambda>(cv, isNew) cs k. stored t cv cs \<and> (isNew \<longrightarrow> is_open cv)"
  have last: "triple ?none (if \<not> up \<or> g then find_or_nil (findLastConversation d c contactID channelID g) else return_io None)
      (\<lambda>o2 cs k. ?none cs k \<and> (case o2 of None \<Rightarrow> True | Some cv \<Rightarrow> stored t cv cs \<and> cv_ContactID cv = contactID \<and> (\<not> g \<longrightarrow> cv_ChannelID cv = channelID)))"
    using triple_findLast [OF t, where P = ?none] by (auto intro: triple_return)
  have revive: "triple (\<lambda>cs k. ?none cs k \<and> stored t prev cs \<and> cv_ContactID prev = contactID \<and> (\<not> g \<longrightarrow> cv_ChannelID prev = channelID))
      (bind_io (reopen d c prev now) (\<lambda>cv. return_io (cv, False))) ?Q" for prev now
    apply (rule triple_bind, rule triple_pre [OF triple_reopen [OF t]], auto) [1]
    apply (rule triple_return, simp)
    done
  have number: "triple ?none (if up \<and> \<not> g then nextProtocol d t now else return_io [])
      (\<lambda>p cs k. no_thread t contactID channelID cs \<and> new_protocol t p cs k)" for now
    using triple_nextProtocol [of "no_thread t contactID channelID" d t now]
    by (auto intro!: triple_return intro: triple_pre simp: new_protocol_def)
  show ?thesis
    unfolding findOrCreateConversation_def
    apply (rule triple_bind, rule triple_findOpen [OF t])
    apply (rule triple_option)
     apply (simp only: option.case)
     apply (rule triple_skip, rule still.fr_now)
     apply (rule triple_bind, rule last)
     apply (rule triple_option)
      apply (simp only: option.case)
      apply (rule triple_bind, rule triple_pre [OF number], simp)
      apply (rule triple_mono [OF triple_create_conversation [OF t]], simp, auto) [1]
     apply (simp only: option.case)
     apply (rule revive)
    apply (rule triple_return, simp)
    done
qed

section \<open>Any sequence of inbound messages\<close>

definition keeps_threads :: "'z inbound_world_scheme \<Rightarrow> 'z inbound_world_scheme \<Rightarrow> bool" where
  "keeps_threads w w' \<longleftrightarrow> (threads_of w \<longrightarrow> threads_of w')"

interpretation keep: io_step "keeps_threads :: 'z inbound_world_scheme \<Rightarrow> 'z inbound_world_scheme \<Rightarrow> bool"
  by unfold_locales (auto simp: keeps_threads_def threads_of_def tick_def)

lemma triple_keep: "framed keeps_threads m \<Longrightarrow> triple P m (\<lambda>_ _ _. True)"
  unfolding triple_def by (auto intro!: wp_framed [where R = keeps_threads] simp: keeps_threads_def)

lemma keep_triple: "triple (\<lambda>_ _. True) m (\<lambda>_ _ _. True) \<Longrightarrow> framed keeps_threads m"
  unfolding framed_wp triple_def keeps_threads_def by (auto intro: wp_mono simp: wp_def split: prod.splits sum.splits)

lemma keep_notice: "ports_respect keeps_threads d \<Longrightarrow> framed keeps_threads (maybeSendOutOfHours d c conn cv)"
  unfolding maybeSendOutOfHours_def ports_respect_def Let_def
  by (auto intro!: keep.fr_return keep.fr_bind keep.fr_now keep.fr_try keep.fr_ignore split: option.split sum.split)

lemma triple_process:
  assumes t: "RequireTenant c = Inr t" and ports: "ports_respect keeps_threads d"
  shows "triple (\<lambda>_ _. True) (process_inbound d c conn t jid ec ext im) (\<lambda>_ _ _. True)"
  unfolding process_inbound_def
  apply (rule triple_skip, rule still.fr_resolveInboundContact)
  apply (rule triple_option [where P = "\<lambda>_ _ _. True"])
   apply (rule triple_return, simp)
  apply (rule triple_bind, rule triple_findOrCreate [OF t])
  apply (simp only: case_prod_beta)
  apply (rule triple_bind [where R = "\<lambda>cv cs k. stored t cv cs"])
   apply (split if_split, intro conjI impI)
    apply (rule triple_pre [OF triple_routeNew [OF t]], simp)
   apply (rule triple_return, simp)
  apply (rule triple_bind, rule triple_append [OF t])
  apply (rule triple_then, rule triple_keep, rule keep.fr_when, rule keep_notice [OF ports])
  apply (rule triple_skip, rule still.fr_new_id)
  apply (rule triple_skip, rule still.fr_now)
  apply (rule triple_skip)
   apply (simp only: inbound_Create_def)
   apply (intro still.fr_try still.fr_write) apply (simp add: same_threads_def)
  apply (auto simp: Let_def intro!: triple_return triple_throw split: sum.split)
  done

lemma triple_ledger:
  assumes t: "RequireTenant c = Inr t" and ports: "ports_respect keeps_threads d"
  shows "triple (\<lambda>_ _. True) (bind_io (find_or_nil (FindByExternalID d c channel ext)) (\<lambda>o1. case o1 of
      Some existing \<Rightarrow> idempotentResult d c existing
    | None \<Rightarrow> process_inbound d c conn t jid ec ext' im)) (\<lambda>_ _ _. True)"
  apply (rule triple_skip)
   apply (simp add: FindByExternalID_def, intro still.fr_find_or_nil still.fr_query)
  apply (rule triple_option [where P = "\<lambda>_ _ _. True"])
   apply (rule triple_process [OF t ports])
  apply (rule triple_frame, unfold idempotentResult_def)
  apply (intro still.fr_bind still.fr_try still.fr_find_conversations(3) still.fr_return)
  done

lemma triple_Handle:
  assumes ports: "ports_respect keeps_threads d"
  shows "triple (\<lambda>_ _. True) (Handle d c conn im) (\<lambda>_ _ _. True)"
  unfolding Handle_def Let_def
  apply (rule triple_lift)
  apply (rule triple_guard)+
  apply (rule triple_skip, intro still.fr_try still.fr_ask)
  apply (auto split: sum.split bool.split intro!: triple_throw triple_ledger [OF _ ports])
  done

fun serve_inbound ::
  "('z inbound_world_scheme, 'e) inbound_env_scheme \<Rightarrow> (ctx \<times> channel_connection \<times> inbound_message) list \<Rightarrow> 'z inbound_world_scheme \<Rightarrow> 'z inbound_world_scheme" where
  "serve_inbound d [] w = w"
| "serve_inbound d ((c, conn, im) # rqs) w = serve_inbound d rqs (snd (Handle d c conn im w))"

text \<open>
  C29: Whatever messages arrive on whatever connections, and whatever fails on the way: a contact has
  at most one open conversation on a connection, conversations keep distinct identifiers, and the
  protocol numbers of a tenant are distinct and issued by its counters. The out-of-hours notice
  and the business-hours check are only required to keep that too.
\<close>

theorem inbound_keeps_one_thread:
  assumes "ports_respect keeps_threads d" "threads_of w"
  shows "threads_of (serve_inbound d rqs w)"
  using assms(2)
proof (induction rqs arbitrary: w)
  case (Cons q rqs)
  obtain c conn im where q: "q = (c, conn, im)" by (cases q) auto
  have "threads_of (snd (Handle d c conn im w))"
    using keep_triple [OF triple_Handle [OF assms(1)]] Cons.prems by (auto simp: framed_def keeps_threads_def)
  with Cons.IH q show ?case by simp
qed simp

theorem inbound_keeps_one_thread_witness:
  "threads_of (serve_inbound inbound_env0 [(inbound_ctx0, inbound_conn0, hello ''hi''), (inbound_ctx0, inbound_conn0, hello ''hi''),
     (inbound_ctx0, inbound_conn0, (hello ''again'')\<lparr>im_ExternalMessageID := ''wamid2''\<rparr>)] inbound_world0)"
  by (rule inbound_keeps_one_thread)
    (simp_all add: inbound_demo ports_respect_def threads_of_def threads_def one_thread_def protocols_unique_def)

end
