(* ===== verification/Crm.thy ===== *)
theory Crm
  imports Contacts
begin

text \<open>
  The sales module: its data (\<open>domain/pipelines\<close>, \<open>domain/products\<close>, \<open>domain/deals\<close>,
  \<open>domain/dealtimeline\<close>, \<open>domain/dealtasks\<close>, \<open>domain/crmsettings\<close>), the world these services
  share, and the switches of the optional modules (\<open>domain/crmsettings/service/service.go\<close> with
  its repository). The services call each other the way \<open>app/factories\<close> wires them.
\<close>

section \<open>Numbers\<close>

text \<open>
  A \<open>float64\<close> is the finite number it denotes. An operation of the code is the exact one followed by the rounding to
  the nearest representable number, an argument of the model. What leaves the finite range is outside it.
\<close>

type_synonym float64 = rat

section \<open>Data\<close>

record stage =
  sg_ID :: ident
  sg_Name :: string
  sg_Order :: int
  sg_IsWon :: bool
  sg_IsLost :: bool
  sg_Color :: string

record pipeline =
  pl_ID :: ident
  pl_TenantID :: ident
  pl_Name :: string
  pl_IsDefault :: bool
  pl_Stages :: "stage list"
  pl_CreatedAt :: time
  pl_UpdatedAt :: time

record product =
  po_ID :: ident
  po_TenantID :: ident
  po_Name :: string
  po_Description :: string
  po_Price :: float64
  po_Currency :: string
  po_SKU :: string
  po_Active :: bool
  po_CreatedAt :: time
  po_UpdatedAt :: time

record deal_item =
  di_ID :: ident
  di_ProductID :: ident
  di_Name :: string
  di_Quantity :: int
  di_UnitPrice :: float64
  di_Total :: float64

record deal =
  de_ID :: ident
  de_TenantID :: ident
  de_PipelineID :: ident
  de_StageID :: ident
  de_ContactID :: ident
  de_Title :: string
  de_Value :: float64
  de_Currency :: string
  de_AssignedTo :: ident
  de_SectorID :: ident
  de_ConversationIDs :: "ident list"
  de_Tags :: "ident list"
  de_Source :: string
  de_Status :: string
  de_LostReason :: string
  de_ExpectedCloseDate :: "time option"
  de_StageChangedAt :: time
  de_ClosedAt :: "time option"
  de_Items :: "deal_item list"
  de_CreatedAt :: time
  de_UpdatedAt :: time

record timeline_event =
  te_ID :: ident
  te_TenantID :: ident
  te_DealID :: ident
  te_Kind :: string
  te_ActorID :: ident
  te_Data :: gmap
  te_CreatedAt :: time

record deal_task =
  tk_ID :: ident
  tk_TenantID :: ident
  tk_DealID :: ident
  tk_Title :: string
  tk_Description :: string
  tk_DueDate :: "time option"
  tk_AssignedTo :: ident
  tk_Status :: string
  tk_CompletedAt :: "time option"
  tk_CreatedBy :: ident
  tk_CreatedAt :: time
  tk_UpdatedAt :: time

record crm_settings =
  cs_TenantID :: ident
  cs_TasksEnabled :: bool
  cs_ProductsEnabled :: bool
  cs_TimelineEnabled :: bool
  cs_UpdatedAt :: time

record crm_world = contact_world +
  crm_configs :: "crm_settings list"
  pipelines :: "pipeline list"
  products :: "product list"
  deals :: "deal list"
  timeline :: "timeline_event list"
  deal_tasks :: "deal_task list"

text \<open>
  The tag catalog, the sector's team, the agents of the tenant and their cards belong to other
  services; the server's regular expressions are its own (\<open>None\<close>: it refuses the pattern).
\<close>

record crm_env = env +
  re_Round :: "rat \<Rightarrow> float64"
  re_ValidateTags :: "(nat \<Rightarrow> ctx \<Rightarrow> ident list \<Rightarrow> unit res) option"
  re_SectorAgents :: "(nat \<Rightarrow> ctx \<Rightarrow> ident \<Rightarrow> ident list res) option"
  re_AgentExists :: "(nat \<Rightarrow> ctx \<Rightarrow> ident \<Rightarrow> bool res) option"
  re_AgentCards :: "(nat \<Rightarrow> ctx \<Rightarrow> ident list \<Rightarrow> (ident \<times> display_card) list res) option"
  re_Regex :: "string \<Rightarrow> (string \<Rightarrow> bool) option"

definition crm_audit :: "ctx \<Rightarrow> string \<Rightarrow> ident \<Rightarrow> gmap \<Rightarrow> ('z conv_world_scheme, unit) io" where
  "crm_audit c action i data = log_effect (EAudit (ctx_tenant_id c) action i data)"

text \<open>The user of the request, or \<open>system\<close>.\<close>

definition dealActor :: "ctx \<Rightarrow> ident" where
  "dealActor c = (case ctx_auth c of
     Some ac \<Rightarrow> if ac_UserID ac \<noteq> [] then ac_UserID ac else ''system''
   | None \<Rightarrow> ''system'')"

definition DefaultCurrency :: string where "DefaultCurrency = ''BRL''"

definition currencyOr :: "string \<Rightarrow> string" where
  "currencyOr s = (if trim_space s = [] then DefaultCurrency else trim_space s)"

text \<open>A listing with an optional pattern on one field.\<close>

definition pattern_page ::
  "'e crm_env_scheme \<Rightarrow> ctx \<Rightarrow> ('z crm_world_scheme \<Rightarrow> 'd list) \<Rightarrow> string \<Rightarrow> ('d \<Rightarrow> string) \<Rightarrow> (ident \<Rightarrow> 'd \<Rightarrow> bool)
     \<Rightarrow> ('d \<Rightarrow> time) \<Rightarrow> ('d \<Rightarrow> ident) \<Rightarrow> page_request \<Rightarrow> ('z crm_world_scheme, 'd list) io" where
  "pattern_page d c coll q field p created key page = then_io (lift_res (RequireTenant c))
     (bind_io (lift_res (DecodeCursor (pr_Cursor page))) (\<lambda>cur.
        repo_query d c coll (\<lambda>t ds. if q = [] then Inr (list_page (p t) created key cur (pr_Limit page) ds)
          else (case re_Regex d q of
             None \<Rightarrow> Inl (DriverError ''invalid regular expression'')
           | Some match \<Rightarrow> Inr (list_page (\<lambda>x. p t x \<and> match (field x)) created key cur (pr_Limit page) ds)))))"

section \<open>Module switches\<close>

definition ModuleTasks :: string where "ModuleTasks = ''tasks''"
definition ModuleProducts :: string where "ModuleProducts = ''products''"
definition ModuleTimeline :: string where "ModuleTimeline = ''timeline''"

definition Default_settings :: "ident \<Rightarrow> crm_settings" where
  "Default_settings t = \<lparr>cs_TenantID = t, cs_TasksEnabled = False, cs_ProductsEnabled = False, cs_TimelineEnabled = True, cs_UpdatedAt = 0\<rparr>"

definition module_Enabled :: "crm_settings \<Rightarrow> string \<Rightarrow> bool" where
  "module_Enabled s m = (if m = ModuleTasks then cs_TasksEnabled s else if m = ModuleProducts then cs_ProductsEnabled s
     else if m = ModuleTimeline then cs_TimelineEnabled s else False)"

definition settings_repo_Get :: "'e env_scheme \<Rightarrow> ctx \<Rightarrow> ('z crm_world_scheme, crm_settings) io" where
  "settings_repo_Get d c = repo_query d c crm_configs (\<lambda>t. find_one (\<lambda>s. cs_TenantID s = t))"

text \<open>The upsert finds the tenant's document or inserts it under the tenant's identifier.\<close>

definition settings_set :: "crm_settings \<Rightarrow> crm_settings \<Rightarrow> crm_settings" where
  "settings_set new old = old\<lparr>cs_TasksEnabled := cs_TasksEnabled new, cs_ProductsEnabled := cs_ProductsEnabled new,
     cs_TimelineEnabled := cs_TimelineEnabled new, cs_UpdatedAt := cs_UpdatedAt new\<rparr>"

definition settings_Upsert :: "'e env_scheme \<Rightarrow> ctx \<Rightarrow> crm_settings \<Rightarrow> ('z crm_world_scheme, unit) io" where
  "settings_Upsert d c s = repo_write d c crm_configs (\<lambda>ss w. w\<lparr>crm_configs := ss\<rparr>) (\<lambda>t ss.
     Inr (if \<exists>x \<in> set ss. cs_TenantID x = t then update_first (\<lambda>x. cs_TenantID x = t) (settings_set s) ss
          else ss @ [s\<lparr>cs_TenantID := t\<rparr>]))"

definition settings_Get :: "'e env_scheme \<Rightarrow> ctx \<Rightarrow> ('z crm_world_scheme, crm_settings) io" where
  "settings_Get d c = bind_io (lift_res (RequireTenant c)) (\<lambda>t.
     bind_io (try_io (settings_repo_Get d c)) (\<lambda>r. case r of
        Inr s \<Rightarrow> return_io s
      | Inl e \<Rightarrow> if err_code_of (From e) = CodeNotFound then return_io (Default_settings t) else throw_io e))"

record update_settings =
  cu_Tasks :: "bool option"
  cu_Products :: "bool option"
  cu_Timeline :: "bool option"

definition settings_Update :: "'e env_scheme \<Rightarrow> ctx \<Rightarrow> update_settings \<Rightarrow> ('z crm_world_scheme, crm_settings) io" where
  "settings_Update d c cmd = bind_io (settings_Get d c) (\<lambda>s0. bind_io (now_io d) (\<lambda>now.
     let s = patch (cu_Timeline cmd) (\<lambda>b x. x\<lparr>cs_TimelineEnabled := b\<rparr>)
           (patch (cu_Products cmd) (\<lambda>b x. x\<lparr>cs_ProductsEnabled := b\<rparr>)
           (patch (cu_Tasks cmd) (\<lambda>b x. x\<lparr>cs_TasksEnabled := b\<rparr>) s0)) \<lparr>cs_UpdatedAt := now\<rparr> in
     then_io (settings_Upsert d c s)
    (then_io (crm_audit c ''crm.settings_updated'' (cs_TenantID s)
        [''tasks_enabled'' \<mapsto> GBool (cs_TasksEnabled s), ''products_enabled'' \<mapsto> GBool (cs_ProductsEnabled s),
         ''timeline_enabled'' \<mapsto> GBool (cs_TimelineEnabled s)])
    (return_io s))))"

definition IsModuleEnabled :: "'e env_scheme \<Rightarrow> ctx \<Rightarrow> string \<Rightarrow> ('z crm_world_scheme, bool) io" where
  "IsModuleEnabled d c m = bind_io (settings_Get d c) (\<lambda>s. return_io (module_Enabled s m))"

text \<open>The gate before a module's write: the switch, or a conflict.\<close>

definition require_module :: "'e env_scheme \<Rightarrow> ctx \<Rightarrow> string \<Rightarrow> string \<Rightarrow> ('z crm_world_scheme, unit) io" where
  "require_module d c m refusal = then_io (lift_res (RequireTenant c))
     (bind_io (IsModuleEnabled d c m) (\<lambda>on. guard_io (\<not> on) (Conflict refusal)))"

end
