(* ===== verification/Products.thy ===== *)
theory Products
  imports Crm
begin

text \<open>
  The product catalog: \<open>domain/products/service/service.go\<close> and its Mongo repository. Writes need the
  products module; a product is deactivated, never deleted.
\<close>

abbreviation put_products :: "product list \<Rightarrow> 'z crm_world_scheme \<Rightarrow> 'z crm_world_scheme" where
  "put_products ps w \<equiv> w\<lparr>products := ps\<rparr>"

definition product_by :: "ident \<Rightarrow> ident \<Rightarrow> product \<Rightarrow> bool" where
  "product_by t i p \<longleftrightarrow> po_ID p = i \<and> po_TenantID p = t"

definition product_set :: "product \<Rightarrow> product \<Rightarrow> product" where
  "product_set new old = old\<lparr>po_Name := po_Name new, po_Description := po_Description new, po_Price := po_Price new,
     po_Currency := po_Currency new, po_SKU := po_SKU new, po_Active := po_Active new, po_UpdatedAt := po_UpdatedAt new\<rparr>"

definition product_repo_Create :: "'e env_scheme \<Rightarrow> ctx \<Rightarrow> product \<Rightarrow> ('z crm_world_scheme, unit) io" where
  "product_repo_Create d c p = repo_write d c products put_products (\<lambda>_. insert_one po_ID p)"

definition product_repo_Update :: "'e env_scheme \<Rightarrow> ctx \<Rightarrow> product \<Rightarrow> ('z crm_world_scheme, unit) io" where
  "product_repo_Update d c p = repo_write d c products put_products (\<lambda>t. update_one (product_by t (po_ID p)) (product_set p))"

definition product_FindByID :: "'e env_scheme \<Rightarrow> ctx \<Rightarrow> ident \<Rightarrow> ('z crm_world_scheme, product) io" where
  "product_FindByID d c i = repo_query d c products (\<lambda>t. find_one (product_by t i))"

record product_filter =
  pf_Q :: string
  pf_Active :: "bool option"

definition product_repo_List ::
  "'e crm_env_scheme \<Rightarrow> ctx \<Rightarrow> product_filter \<Rightarrow> page_request \<Rightarrow> ('z crm_world_scheme, product list) io" where
  "product_repo_List d c f page = pattern_page d c products (pf_Q f) po_Name
     (\<lambda>t p. po_TenantID p = t \<and> (case pf_Active f of None \<Rightarrow> True | Some a \<Rightarrow> po_Active p = a)) po_CreatedAt po_ID page"

record create_product =
  np_Name :: string
  np_Description :: string
  np_Price :: float64
  np_Currency :: string
  np_SKU :: string

record update_product =
  upd_Name :: "string option"
  upd_Description :: "string option"
  upd_Price :: "float64 option"
  upd_Currency :: "string option"
  upd_SKU :: "string option"
  upd_Active :: "bool option"

definition product_guard :: "'e env_scheme \<Rightarrow> ctx \<Rightarrow> ('z crm_world_scheme, unit) io" where
  "product_guard d c = require_module d c ModuleProducts ''the products module is disabled for this tenant''"

definition product_Create :: "'e crm_env_scheme \<Rightarrow> ctx \<Rightarrow> create_product \<Rightarrow> ('z crm_world_scheme, product) io" where
  "product_Create d c cmd = bind_io (lift_res (RequireTenant c)) (\<lambda>t.
     then_io (product_guard d c)
    (let name = trim_space (np_Name cmd) in
     then_io (guard_io (name = []) (Validation ''name is required''))
    (then_io (guard_io (np_Price cmd < 0) (Validation ''price must be >= 0''))
    (bind_io (now_io d) (\<lambda>now. bind_io (new_id d) (\<lambda>i.
     let p = \<lparr>po_ID = i, po_TenantID = t, po_Name = name, po_Description = trim_space (np_Description cmd),
           po_Price = np_Price cmd, po_Currency = currencyOr (np_Currency cmd), po_SKU = trim_space (np_SKU cmd),
           po_Active = True, po_CreatedAt = now, po_UpdatedAt = now\<rparr> in
     then_io (product_repo_Create d c p)
    (then_io (crm_audit c ''product.created'' (po_ID p) Map.empty)
    (return_io p))))))))"

definition patch_product :: "update_product \<Rightarrow> product \<Rightarrow> product res" where
  "patch_product cmd p0 =
     res_bind (patch_res (upd_Name cmd) (\<lambda>n p. if trim_space n = [] then Inl (Validation ''name is required'')
        else Inr (p\<lparr>po_Name := trim_space n\<rparr>)) p0) (\<lambda>p1.
     res_bind (patch_res (upd_Price cmd) (\<lambda>v p. if v < 0 then Inl (Validation ''price must be >= 0'')
        else Inr (p\<lparr>po_Price := v\<rparr>)) (patch (upd_Description cmd) (\<lambda>s p. p\<lparr>po_Description := trim_space s\<rparr>) p1)) (\<lambda>p2.
     Inr (patch (upd_Active cmd) (\<lambda>b p. p\<lparr>po_Active := b\<rparr>)
       (patch (upd_SKU cmd) (\<lambda>s p. p\<lparr>po_SKU := trim_space s\<rparr>)
       (patch (upd_Currency cmd) (\<lambda>s p. p\<lparr>po_Currency := currencyOr s\<rparr>) p2)))))"

definition product_Update :: "'e crm_env_scheme \<Rightarrow> ctx \<Rightarrow> ident \<Rightarrow> update_product \<Rightarrow> ('z crm_world_scheme, product) io" where
  "product_Update d c i cmd = then_io (product_guard d c)
     (bind_io (product_FindByID d c i) (\<lambda>p0. bind_io (lift_res (patch_product cmd p0)) (\<lambda>p.
      bind_io (now_io d) (\<lambda>now. let p1 = p\<lparr>po_UpdatedAt := now\<rparr> in
      then_io (product_repo_Update d c p1)
     (then_io (crm_audit c ''product.updated'' (po_ID p1) Map.empty)
     (return_io p1))))))"

definition product_List ::
  "'e crm_env_scheme \<Rightarrow> ctx \<Rightarrow> product_filter \<Rightarrow> page_request \<Rightarrow> ('z crm_world_scheme, product list) io" where
  "product_List d c f page = then_io (lift_res (RequireTenant c))
     (bind_io (IsModuleEnabled d c ModuleProducts) (\<lambda>on.
      if \<not> on then return_io [] else product_repo_List d c f (Normalize page)))"

end
