(* ===== verification/Pipelines.thy ===== *)
theory Pipelines
  imports Crm
begin

text \<open>
  Sales pipelines: \<open>domain/pipelines\<close> with its Mongo repository. A pipeline is a list of stages; the
  order of the board is the stages' order field. A stage that holds deals cannot be deleted.
\<close>

section \<open>Entity\<close>

definition SortStages :: "pipeline \<Rightarrow> pipeline" where
  "SortStages p = p\<lparr>pl_Stages := sort_key sg_Order (pl_Stages p)\<rparr>"

text \<open>The position of the first element with \<open>p\<close>; \<open>None\<close> for the code's -1.\<close>

primrec index_where :: "('a \<Rightarrow> bool) \<Rightarrow> 'a list \<Rightarrow> nat option" where
  "index_where p [] = None"
| "index_where p (x # xs) = (if p x then Some 0 else map_option Suc (index_where p xs))"

definition StageIndex :: "pipeline \<Rightarrow> ident \<Rightarrow> nat option" where
  "StageIndex p i = index_where (\<lambda>s. sg_ID s = i) (pl_Stages p)"

fun check_stages :: "stage list \<Rightarrow> nat \<Rightarrow> nat \<Rightarrow> string" where
  "check_stages [] won lost = (if won > 1 then ''at most one won stage is allowed''
     else if lost > 1 then ''at most one lost stage is allowed'' else [])"
| "check_stages (s # ss) won lost = (if trim_space (sg_Name s) = [] then ''every stage requires a name''
     else if sg_IsWon s \<and> sg_IsLost s then ''a stage cannot be both won and lost''
     else check_stages ss (if sg_IsWon s then Suc won else won) (if sg_IsLost s then Suc lost else lost))"

definition pipeline_Validate :: "pipeline \<Rightarrow> string" where
  "pipeline_Validate p = (if trim_space (pl_Name p) = [] then ''name is required'' else check_stages (pl_Stages p) 0 0)"

section \<open>Repository\<close>

abbreviation put_pipelines :: "pipeline list \<Rightarrow> 'z crm_world_scheme \<Rightarrow> 'z crm_world_scheme" where
  "put_pipelines ps w \<equiv> w\<lparr>pipelines := ps\<rparr>"

definition pipeline_by :: "ident \<Rightarrow> ident \<Rightarrow> pipeline \<Rightarrow> bool" where
  "pipeline_by t i p \<longleftrightarrow> pl_ID p = i \<and> pl_TenantID p = t"

definition pipeline_set :: "pipeline \<Rightarrow> pipeline \<Rightarrow> pipeline" where
  "pipeline_set new old = old\<lparr>pl_Name := pl_Name new, pl_IsDefault := pl_IsDefault new, pl_Stages := pl_Stages new,
     pl_UpdatedAt := pl_UpdatedAt new\<rparr>"

definition pipeline_repo_Create :: "'e env_scheme \<Rightarrow> ctx \<Rightarrow> pipeline \<Rightarrow> ('z crm_world_scheme, unit) io" where
  "pipeline_repo_Create d c p = repo_write d c pipelines put_pipelines (\<lambda>_. insert_one pl_ID p)"

definition pipeline_repo_Update :: "'e env_scheme \<Rightarrow> ctx \<Rightarrow> pipeline \<Rightarrow> ('z crm_world_scheme, unit) io" where
  "pipeline_repo_Update d c p = repo_write d c pipelines put_pipelines (\<lambda>t. update_one (pipeline_by t (pl_ID p)) (pipeline_set p))"

definition pipeline_repo_Delete :: "'e env_scheme \<Rightarrow> ctx \<Rightarrow> ident \<Rightarrow> ('z crm_world_scheme, unit) io" where
  "pipeline_repo_Delete d c i = repo_write d c pipelines put_pipelines (\<lambda>t. delete_first (pipeline_by t i))"

definition pipeline_FindByID :: "'e env_scheme \<Rightarrow> ctx \<Rightarrow> ident \<Rightarrow> ('z crm_world_scheme, pipeline) io" where
  "pipeline_FindByID d c i = repo_query d c pipelines (\<lambda>t. find_one (pipeline_by t i))"

definition pipeline_repo_List :: "'e env_scheme \<Rightarrow> ctx \<Rightarrow> ('z crm_world_scheme, pipeline list) io" where
  "pipeline_repo_List d c = repo_query d c pipelines (\<lambda>t ps.
     Inr (sort_key (\<lambda>p. (\<not> pl_IsDefault p, pl_Name p)) (filter (\<lambda>p. pl_TenantID p = t) ps)))"

definition CountByTenant :: "'e env_scheme \<Rightarrow> ctx \<Rightarrow> ('z crm_world_scheme, int) io" where
  "CountByTenant d c = repo_query d c pipelines (\<lambda>t ps. Inr (count_docs (\<lambda>p. pl_TenantID p = t) ps))"

definition ClearDefault :: "'e env_scheme \<Rightarrow> ctx \<Rightarrow> ident \<Rightarrow> ('z crm_world_scheme, unit) io" where
  "ClearDefault d c keepID = repo_write d c pipelines put_pipelines (\<lambda>t ps.
     Inr (map (\<lambda>p. if pl_TenantID p = t \<and> pl_ID p \<noteq> keepID \<and> pl_IsDefault p then p\<lparr>pl_IsDefault := False\<rparr> else p) ps))"

text \<open>\<open>CountByStage\<close> of the deals repository, behind the service's \<open>StageHasDeals\<close>.\<close>

definition CountByStage :: "'e env_scheme \<Rightarrow> ctx \<Rightarrow> ident \<Rightarrow> ident \<Rightarrow> ('z crm_world_scheme, int) io" where
  "CountByStage d c pipelineID stageID = repo_query d c deals (\<lambda>t ds.
     Inr (count_docs (\<lambda>x. de_TenantID x = t \<and> de_PipelineID x = pipelineID \<and> de_StageID x = stageID) ds))"

definition StageHasDeals :: "'e env_scheme \<Rightarrow> ctx \<Rightarrow> ident \<Rightarrow> ident \<Rightarrow> ('z crm_world_scheme, bool) io" where
  "StageHasDeals d c pipelineID stageID = bind_io (CountByStage d c pipelineID stageID) (\<lambda>n. return_io (n > 0))"

section \<open>Service\<close>

record stage_input =
  si_Name :: string
  si_Order :: int
  si_IsWon :: bool
  si_IsLost :: bool
  si_Color :: string

record create_pipeline =
  cp_Name :: string
  cp_Stages :: "stage_input list"

record update_pipeline =
  up_Name :: "string option"
  up_IsDefault :: "bool option"

record update_stage =
  ust_Name :: "string option"
  ust_Order :: "int option"
  ust_IsWon :: "bool option"
  ust_IsLost :: "bool option"
  ust_Color :: "string option"

definition new_stage :: "ident \<Rightarrow> stage_input \<Rightarrow> stage" where
  "new_stage i s = \<lparr>sg_ID = i, sg_Name = trim_space (si_Name s), sg_Order = si_Order s, sg_IsWon = si_IsWon s,
     sg_IsLost = si_IsLost s, sg_Color = trim_space (si_Color s)\<rparr>"

primrec new_stages :: "'e env_scheme \<Rightarrow> stage_input list \<Rightarrow> ('z base_world_scheme, stage list) io" where
  "new_stages d [] = return_io []"
| "new_stages d (s # ss) = bind_io (new_id d) (\<lambda>i. bind_io (new_stages d ss) (\<lambda>rest. return_io (new_stage i s # rest)))"

definition validated :: "pipeline \<Rightarrow> ('w, unit) io" where
  "validated p = guard_io (pipeline_Validate p \<noteq> []) (Validation (pipeline_Validate p))"

definition pipeline_Create :: "'e env_scheme \<Rightarrow> ctx \<Rightarrow> create_pipeline \<Rightarrow> ('z crm_world_scheme, pipeline) io" where
  "pipeline_Create d c cmd = bind_io (lift_res (RequireTenant c)) (\<lambda>t. bind_io (now_io d) (\<lambda>now.
     bind_io (new_id d) (\<lambda>i. bind_io (new_stages d (cp_Stages cmd)) (\<lambda>sts.
     let p0 = \<lparr>pl_ID = i, pl_TenantID = t, pl_Name = trim_space (cp_Name cmd), pl_IsDefault = False, pl_Stages = sts,
           pl_CreatedAt = now, pl_UpdatedAt = now\<rparr> in
     then_io (validated p0)
    (bind_io (CountByTenant d c) (\<lambda>n. let p = SortStages (p0\<lparr>pl_IsDefault := (n = 0)\<rparr>) in
     then_io (pipeline_repo_Create d c p)
    (then_io (crm_audit c ''pipeline.created'' (pl_ID p) Map.empty)
    (return_io p))))))))"

definition pipeline_List :: "'e env_scheme \<Rightarrow> ctx \<Rightarrow> ('z crm_world_scheme, pipeline list) io" where
  "pipeline_List d c = then_io (lift_res (RequireTenant c))
     (bind_io (pipeline_repo_List d c) (\<lambda>ps. return_io (map SortStages ps)))"

definition pipeline_Default :: "'e env_scheme \<Rightarrow> ctx \<Rightarrow> ('z crm_world_scheme, pipeline) io" where
  "pipeline_Default d c = bind_io (pipeline_List d c) (\<lambda>ps. case find pl_IsDefault ps of
      Some p \<Rightarrow> return_io p
    | None \<Rightarrow> (case ps of p # _ \<Rightarrow> return_io p
        | [] \<Rightarrow> throw_io (NotFound ''no pipeline configured for this tenant'')))"

definition pipeline_Get :: "'e env_scheme \<Rightarrow> ctx \<Rightarrow> ident \<Rightarrow> ('z crm_world_scheme, pipeline) io" where
  "pipeline_Get d c i = then_io (lift_res (RequireTenant c))
     (bind_io (pipeline_FindByID d c i) (\<lambda>p. return_io (SortStages p)))"

definition pipeline_Update :: "'e env_scheme \<Rightarrow> ctx \<Rightarrow> ident \<Rightarrow> update_pipeline \<Rightarrow> ('z crm_world_scheme, pipeline) io" where
  "pipeline_Update d c i cmd = then_io (lift_res (RequireTenant c))
     (bind_io (pipeline_FindByID d c i) (\<lambda>p0.
      let p = patch (up_IsDefault cmd) (\<lambda>b x. x\<lparr>pl_IsDefault := b\<rparr>)
            (patch (up_Name cmd) (\<lambda>n x. x\<lparr>pl_Name := trim_space n\<rparr>) p0) in
      then_io (validated p)
     (then_io (when_io (up_IsDefault cmd = Some True) (ClearDefault d c (pl_ID p)))
     (bind_io (now_io d) (\<lambda>now. let p1 = p\<lparr>pl_UpdatedAt := now\<rparr> in
      then_io (pipeline_repo_Update d c p1)
     (then_io (crm_audit c ''pipeline.updated'' (pl_ID p1) Map.empty)
     (return_io (SortStages p1))))))))"

definition pipeline_Delete :: "'e env_scheme \<Rightarrow> ctx \<Rightarrow> ident \<Rightarrow> ('z crm_world_scheme, unit) io" where
  "pipeline_Delete d c i = then_io (lift_res (RequireTenant c))
     (bind_io (pipeline_FindByID d c i) (\<lambda>_.
      then_io (pipeline_repo_Delete d c i) (crm_audit c ''pipeline.deleted'' i Map.empty)))"

text \<open>\<open>mutateStages\<close>: load, apply, validate, store.\<close>

definition mutateStages ::
  "'e env_scheme \<Rightarrow> ctx \<Rightarrow> ident \<Rightarrow> string \<Rightarrow> (pipeline \<Rightarrow> ('z crm_world_scheme, pipeline) io) \<Rightarrow> ('z crm_world_scheme, pipeline) io" where
  "mutateStages d c pipelineID action mutate = then_io (lift_res (RequireTenant c))
     (bind_io (pipeline_FindByID d c pipelineID) (\<lambda>p0. bind_io (mutate p0) (\<lambda>p.
      then_io (validated p)
     (bind_io (now_io d) (\<lambda>now. let p1 = p\<lparr>pl_UpdatedAt := now\<rparr> in
      then_io (pipeline_repo_Update d c p1)
     (then_io (crm_audit c action (pl_ID p1) Map.empty)
     (return_io (SortStages p1))))))))"

definition AddStage :: "'e env_scheme \<Rightarrow> ctx \<Rightarrow> ident \<Rightarrow> stage_input \<Rightarrow> ('z crm_world_scheme, pipeline) io" where
  "AddStage d c pipelineID cmd = mutateStages d c pipelineID ''pipeline.stage_added'' (\<lambda>p.
     bind_io (new_id d) (\<lambda>i. return_io (p\<lparr>pl_Stages := pl_Stages p @ [new_stage i cmd]\<rparr>)))"

definition edit_stage :: "update_stage \<Rightarrow> stage \<Rightarrow> stage" where
  "edit_stage cmd s = patch (ust_Color cmd) (\<lambda>v x. x\<lparr>sg_Color := trim_space v\<rparr>)
     (patch (ust_IsLost cmd) (\<lambda>v x. x\<lparr>sg_IsLost := v\<rparr>)
     (patch (ust_IsWon cmd) (\<lambda>v x. x\<lparr>sg_IsWon := v\<rparr>)
     (patch (ust_Order cmd) (\<lambda>v x. x\<lparr>sg_Order := v\<rparr>)
     (patch (ust_Name cmd) (\<lambda>v x. x\<lparr>sg_Name := trim_space v\<rparr>) s))))"

definition UpdateStage :: "'e env_scheme \<Rightarrow> ctx \<Rightarrow> ident \<Rightarrow> ident \<Rightarrow> update_stage \<Rightarrow> ('z crm_world_scheme, pipeline) io" where
  "UpdateStage d c pipelineID stageID cmd = mutateStages d c pipelineID ''pipeline.stage_updated'' (\<lambda>p.
     case StageIndex p stageID of
       None \<Rightarrow> throw_io (NotFound ''stage not found'')
     | Some i \<Rightarrow> return_io (p\<lparr>pl_Stages := (pl_Stages p)[i := edit_stage cmd (pl_Stages p ! i)]\<rparr>))"

text \<open>The loop that checks the listed identifiers, with the positions seen so far.\<close>

fun reorder_check :: "pipeline \<Rightarrow> ident list \<Rightarrow> ident list \<Rightarrow> goerr option" where
  "reorder_check p seen [] = None"
| "reorder_check p seen (i # ids) = (if StageIndex p i = None
     then Some (WithDetails (Validation ''unknown stage id in reorder'') [''stage_id'' \<mapsto> GStr i])
     else if i \<in> set seen then Some (Validation ''duplicate stage id in reorder'')
     else reorder_check p (i # seen) ids)"

text \<open>A stage absent from the map of positions would get Go's zero.\<close>

definition place :: "ident list \<Rightarrow> stage \<Rightarrow> stage" where
  "place ids s = s\<lparr>sg_Order := (case index_where (\<lambda>i. i = sg_ID s) ids of Some k \<Rightarrow> int k | None \<Rightarrow> 0)\<rparr>"

definition ReorderStages :: "'e env_scheme \<Rightarrow> ctx \<Rightarrow> ident \<Rightarrow> ident list \<Rightarrow> ('z crm_world_scheme, pipeline) io" where
  "ReorderStages d c pipelineID ids = mutateStages d c pipelineID ''pipeline.stages_reordered'' (\<lambda>p.
     if length ids \<noteq> length (pl_Stages p) then throw_io (Validation ''reorder must list every stage exactly once'')
     else (case reorder_check p [] ids of
        Some e \<Rightarrow> throw_io e
      | None \<Rightarrow> return_io (p\<lparr>pl_Stages := map (place ids) (pl_Stages p)\<rparr>)))"

definition DeleteStage :: "'e env_scheme \<Rightarrow> ctx \<Rightarrow> ident \<Rightarrow> ident \<Rightarrow> ('z crm_world_scheme, pipeline) io" where
  "DeleteStage d c pipelineID stageID = then_io (lift_res (RequireTenant c))
     (bind_io (pipeline_FindByID d c pipelineID) (\<lambda>p0. case StageIndex p0 stageID of
        None \<Rightarrow> throw_io (NotFound ''stage not found'')
      | Some i \<Rightarrow> bind_io (StageHasDeals d c pipelineID stageID) (\<lambda>has.
          then_io (guard_io has (Conflict ''the stage still has deals; move them before deleting''))
         (let p = p0\<lparr>pl_Stages := take i (pl_Stages p0) @ drop (Suc i) (pl_Stages p0)\<rparr> in
          then_io (validated p)
         (bind_io (now_io d) (\<lambda>now. let p1 = p\<lparr>pl_UpdatedAt := now\<rparr> in
          then_io (pipeline_repo_Update d c p1)
         (then_io (crm_audit c ''pipeline.stage_deleted'' (pl_ID p1) Map.empty)
         (return_io (SortStages p1)))))))))"

definition findStage :: "pipeline \<Rightarrow> ident \<Rightarrow> stage option" where
  "findStage p i = map_option (\<lambda>k. pl_Stages p ! k) (StageIndex p i)"

end
