(* ===== verification/Deal_Timeline.thy ===== *)
theory Deal_Timeline
  imports Pipelines
begin

text \<open>
  A deal's timeline: \<open>domain/dealtimeline/service/service.go\<close> and its Mongo repository. The deals and
  tasks services record events that never fail the action; sellers comment and read the feed of the
  deals they may see. Reading replaces identifiers by names.
\<close>

section \<open>Kinds\<close>

definition KindDealCreated :: string where "KindDealCreated = ''deal_created''"
definition KindStageChanged :: string where "KindStageChanged = ''stage_changed''"
definition KindValueChanged :: string where "KindValueChanged = ''value_changed''"
definition KindAssignedChanged :: string where "KindAssignedChanged = ''assigned_changed''"
definition KindPriorityChanged :: string where "KindPriorityChanged = ''priority_changed''"
definition KindComment :: string where "KindComment = ''comment''"
definition KindTaskCreated :: string where "KindTaskCreated = ''task_created''"
definition KindTaskCompleted :: string where "KindTaskCompleted = ''task_completed''"
definition KindProductAdded :: string where "KindProductAdded = ''product_added''"
definition KindProductRemoved :: string where "KindProductRemoved = ''product_removed''"
definition KindTagAdded :: string where "KindTagAdded = ''tag_added''"
definition KindTagRemoved :: string where "KindTagRemoved = ''tag_removed''"
definition KindWon :: string where "KindWon = ''won''"
definition KindLost :: string where "KindLost = ''lost''"

lemmas kind_defs = KindDealCreated_def KindStageChanged_def KindValueChanged_def KindAssignedChanged_def KindPriorityChanged_def
  KindComment_def KindTaskCreated_def KindTaskCompleted_def KindProductAdded_def KindProductRemoved_def KindTagAdded_def
  KindTagRemoved_def KindWon_def KindLost_def

definition AllKinds :: "string list" where
  "AllKinds = [KindDealCreated, KindStageChanged, KindValueChanged, KindAssignedChanged, KindPriorityChanged, KindComment,
     KindTaskCreated, KindTaskCompleted, KindProductAdded, KindProductRemoved, KindTagAdded, KindTagRemoved, KindWon, KindLost]"

definition ValidKind :: "string \<Rightarrow> bool" where
  "ValidKind k \<longleftrightarrow> k \<in> set AllKinds"

definition ActorSystem_id :: ident where "ActorSystem_id = ''system''"
definition ActorAutomation_id :: ident where "ActorAutomation_id = ''automation''"

section \<open>Repository\<close>

definition timeline_Append :: "'e env_scheme \<Rightarrow> ctx \<Rightarrow> timeline_event \<Rightarrow> ('z crm_world_scheme, unit) io" where
  "timeline_Append d c e = repo_write d c timeline (\<lambda>es w. w\<lparr>timeline := es\<rparr>) (\<lambda>_. insert_one te_ID e)"

definition timeline_ListByDeal ::
  "'e env_scheme \<Rightarrow> ctx \<Rightarrow> ident \<Rightarrow> page_request \<Rightarrow> ('z crm_world_scheme, timeline_event list) io" where
  "timeline_ListByDeal d c dealID page = then_io (lift_res (RequireTenant c))
     (bind_io (lift_res (DecodeCursor (pr_Cursor page))) (\<lambda>cur.
        repo_query d c timeline (\<lambda>t es. Inr (list_page (\<lambda>e. te_TenantID e = t \<and> te_DealID e = dealID)
          te_CreatedAt te_ID cur (pr_Limit page) es))))"

section \<open>Service\<close>

definition timeline_Record ::
  "'e env_scheme \<Rightarrow> ctx \<Rightarrow> ident \<Rightarrow> string \<Rightarrow> ident \<Rightarrow> gmap \<Rightarrow> ('z crm_world_scheme, unit) io" where
  "timeline_Record d c dealID kind actor data = (case RequireTenant c of
     Inl _ \<Rightarrow> return_io ()
   | Inr t \<Rightarrow> if trim_space dealID = [] \<or> \<not> ValidKind kind then return_io ()
       else bind_io (new_id d) (\<lambda>i. bind_io (now_io d) (\<lambda>now.
         ignore_io (timeline_Append d c \<lparr>te_ID = i, te_TenantID = t, te_DealID = dealID, te_Kind = kind,
           te_ActorID = actor, te_Data = data, te_CreatedAt = now\<rparr>))))"

text \<open>The deal lookup, over the deals collection.\<close>

definition deal_by :: "ident \<Rightarrow> ident \<Rightarrow> deal \<Rightarrow> bool" where
  "deal_by t i x \<longleftrightarrow> de_ID x = i \<and> de_TenantID x = t"

definition deal_FindByID :: "'e env_scheme \<Rightarrow> ctx \<Rightarrow> ident \<Rightarrow> ('z crm_world_scheme, deal) io" where
  "deal_FindByID d c i = repo_query d c deals (\<lambda>t. find_one (deal_by t i))"

definition deal_visible :: "auth_context \<Rightarrow> deal \<Rightarrow> bool" where
  "deal_visible ac x \<longleftrightarrow> ac_SectorScope ac = ScopeAll \<or> de_AssignedTo x = ac_UserID ac
     \<or> (\<exists>s \<in> set (ac_SectorIDs ac). s \<noteq> [] \<and> s = de_SectorID x)"

definition ensureVisible :: "'e env_scheme \<Rightarrow> ctx \<Rightarrow> ident \<Rightarrow> ('z crm_world_scheme, deal) io" where
  "ensureVisible d c dealID = bind_io (deal_FindByID d c dealID) (\<lambda>x. case ctx_auth c of
      None \<Rightarrow> throw_io (Unauthorized ''authentication required'')
    | Some ac \<Rightarrow> if deal_visible ac x then return_io x else throw_io (NotFound ''deal not found''))"

record feed_item =
  fi_ID :: ident
  fi_DealID :: ident
  fi_Kind :: string
  fi_ActorID :: ident
  fi_ActorName :: string
  fi_ActorAvatarURL :: string
  fi_Data :: gmap
  fi_CreatedAt :: time

definition dataString :: "gmap \<Rightarrow> string \<Rightarrow> string" where
  "dataString m k = (case m k of Some (GStr s) \<Rightarrow> s | _ \<Rightarrow> [])"

text \<open>The users an event mentions; the map of the code collects them without repetition.\<close>

definition mentioned :: "timeline_event \<Rightarrow> ident list" where
  "mentioned e = filter (\<lambda>i. i \<noteq> [] \<and> i \<noteq> ActorSystem_id \<and> i \<noteq> ActorAutomation_id)
     (te_ActorID e # (if te_Kind e = KindAssignedChanged then [dataString (te_Data e) ''from'', dataString (te_Data e) ''to''] else []))"

definition agentCards ::
  "'e crm_env_scheme \<Rightarrow> ctx \<Rightarrow> timeline_event list \<Rightarrow> ('z crm_world_scheme, (ident \<times> display_card) list) io" where
  "agentCards d c es = (case re_AgentCards d of
     None \<Rightarrow> return_io []
   | Some f \<Rightarrow> let ids = remdups (concat (map mentioned es)) in
       if ids = [] then return_io []
       else bind_io (try_io (ask (\<lambda>n. f n c ids))) (\<lambda>r. return_io (case r of Inr cards \<Rightarrow> cards | Inl _ \<Rightarrow> [])))"

definition stageNames :: "'e env_scheme \<Rightarrow> ctx \<Rightarrow> ident \<Rightarrow> ('z crm_world_scheme, (ident \<times> string) list) io" where
  "stageNames d c pipelineID = (if pipelineID = [] then return_io [] else
     bind_io (try_io (pipeline_Get d c pipelineID)) (\<lambda>r. return_io (case r of
        Inr p \<Rightarrow> rev (map (\<lambda>s. (sg_ID s, sg_Name s)) (pl_Stages p)) | Inl _ \<Rightarrow> [])))"

definition setName :: "string \<Rightarrow> string \<Rightarrow> (string \<Rightarrow> string option) \<Rightarrow> gmap \<Rightarrow> gmap" where
  "setName idKey nameKey names m = (let i = dataString m idKey in
     if i = [] then m else (case names i of Some n \<Rightarrow> m(nameKey \<mapsto> GStr n) | None \<Rightarrow> m))"

definition labelData ::
  "string \<Rightarrow> (ident \<times> display_card) list \<Rightarrow> (ident \<times> string) list \<Rightarrow> gmap \<Rightarrow> gmap" where
  "labelData kind cards stages m =
    (if kind = KindStageChanged then
       setName ''to_stage_id'' ''to_stage_name'' (map_of stages) (setName ''from_stage_id'' ''from_stage_name'' (map_of stages) m)
     else if kind = KindDealCreated \<or> kind = KindWon \<or> kind = KindLost then setName ''stage_id'' ''stage_name'' (map_of stages) m
     else if kind = KindAssignedChanged then
       setName ''to'' ''to_name'' (map_option dc_Name \<circ> map_of cards) (setName ''from'' ''from_name'' (map_option dc_Name \<circ> map_of cards) m)
     else m)"

definition feed_of :: "(ident \<times> display_card) list \<Rightarrow> (ident \<times> string) list \<Rightarrow> timeline_event \<Rightarrow> feed_item" where
  "feed_of cards stages e = \<lparr>fi_ID = te_ID e, fi_DealID = te_DealID e, fi_Kind = te_Kind e, fi_ActorID = te_ActorID e,
     fi_ActorName = (case map_of cards (te_ActorID e) of Some x \<Rightarrow> dc_Name x | None \<Rightarrow> []),
     fi_ActorAvatarURL = (case map_of cards (te_ActorID e) of Some x \<Rightarrow> dc_AvatarURL x | None \<Rightarrow> []),
     fi_Data = labelData (te_Kind e) cards stages (te_Data e), fi_CreatedAt = te_CreatedAt e\<rparr>"

definition enrich_feed ::
  "'e crm_env_scheme \<Rightarrow> ctx \<Rightarrow> deal \<Rightarrow> timeline_event list \<Rightarrow> ('z crm_world_scheme, feed_item list) io" where
  "enrich_feed d c x es = bind_io (agentCards d c es) (\<lambda>cards. bind_io (stageNames d c (de_PipelineID x)) (\<lambda>stages.
     return_io (map (feed_of cards stages) es)))"

definition timeline_Comment :: "'e crm_env_scheme \<Rightarrow> ctx \<Rightarrow> ident \<Rightarrow> string \<Rightarrow> ('z crm_world_scheme, feed_item) io" where
  "timeline_Comment d c dealID text0 = bind_io (lift_res (RequireTenant c)) (\<lambda>t. let txt = trim_space text0 in
     then_io (guard_io (txt = []) (Validation ''text is required''))
    (then_io (require_module d c ModuleTimeline ''the timeline module is disabled for this tenant'')
    (bind_io (ensureVisible d c dealID) (\<lambda>x. bind_io (new_id d) (\<lambda>i. bind_io (now_io d) (\<lambda>now.
     let e = \<lparr>te_ID = i, te_TenantID = t, te_DealID = dealID, te_Kind = KindComment, te_ActorID = dealActor c,
           te_Data = [''text'' \<mapsto> GStr txt], te_CreatedAt = now\<rparr> in
     then_io (timeline_Append d c e)
    (bind_io (enrich_feed d c x [e]) (\<lambda>items. return_io (hd items)))))))))"

definition timeline_Feed :: "'e crm_env_scheme \<Rightarrow> ctx \<Rightarrow> ident \<Rightarrow> page_request \<Rightarrow> ('z crm_world_scheme, feed_item list) io" where
  "timeline_Feed d c dealID page = then_io (lift_res (RequireTenant c))
     (bind_io (IsModuleEnabled d c ModuleTimeline) (\<lambda>on.
      if \<not> on then return_io [] else bind_io (ensureVisible d c dealID) (\<lambda>x.
        bind_io (timeline_ListByDeal d c dealID (Normalize page)) (\<lambda>es. enrich_feed d c x es))))"

end
