(* ===== verification/Deals.thy ===== *)
theory Deals
  imports Products Deal_Timeline
begin

text \<open>
  Sales opportunities: \<open>domain/deals\<close> with its Mongo repository. A deal sits in a stage of its
  pipeline; moving it to a won or lost stage closes it, to any other opens it. Product lines carry
  the price of the moment they were added, and their sum is the deal's value.
\<close>

section \<open>Entity\<close>

definition DealOpen :: string where "DealOpen = ''open''"
definition DealWon :: string where "DealWon = ''won''"
definition DealLost :: string where "DealLost = ''lost''"

text \<open>\<open>float64(Quantity) * UnitPrice\<close>, and the sum in the order of the lines.\<close>

definition line_total :: "(rat \<Rightarrow> float64) \<Rightarrow> deal_item \<Rightarrow> float64" where
  "line_total r x = r (r (of_int (di_Quantity x)) * di_UnitPrice x)"

definition lines_sum :: "(rat \<Rightarrow> float64) \<Rightarrow> deal_item list \<Rightarrow> float64" where
  "lines_sum r xs = foldl (\<lambda>s x. r (s + di_Total x)) 0 xs"

definition RecalcValue :: "(rat \<Rightarrow> float64) \<Rightarrow> deal \<Rightarrow> deal" where
  "RecalcValue r x = (let items = map (\<lambda>it. it\<lparr>di_Total := line_total r it\<rparr>) (de_Items x) in
     x\<lparr>de_Items := items, de_Value := lines_sum r items\<rparr>)"

definition FindItem :: "deal \<Rightarrow> ident \<Rightarrow> nat option" where
  "FindItem x i = index_where (\<lambda>it. di_ID it = i) (de_Items x)"

definition HasConversation :: "deal \<Rightarrow> ident \<Rightarrow> bool" where
  "HasConversation x i \<longleftrightarrow> i \<in> set (de_ConversationIDs x)"

definition HasTag :: "deal \<Rightarrow> ident \<Rightarrow> bool" where
  "HasTag x i \<longleftrightarrow> i \<in> set (de_Tags x)"

section \<open>Repository\<close>

abbreviation put_deals :: "deal list \<Rightarrow> 'z crm_world_scheme \<Rightarrow> 'z crm_world_scheme" where
  "put_deals ds w \<equiv> w\<lparr>deals := ds\<rparr>"

text \<open>The fields of \<open>$set\<close>: all but the identifier, the tenant and the creation instant.\<close>

definition deal_set :: "deal \<Rightarrow> deal \<Rightarrow> deal" where
  "deal_set new old = new\<lparr>de_ID := de_ID old, de_TenantID := de_TenantID old, de_CreatedAt := de_CreatedAt old\<rparr>"

definition deal_repo_Create :: "'e env_scheme \<Rightarrow> ctx \<Rightarrow> deal \<Rightarrow> ('z crm_world_scheme, unit) io" where
  "deal_repo_Create d c x = repo_write d c deals put_deals (\<lambda>_. insert_one de_ID x)"

definition deal_repo_Update :: "'e env_scheme \<Rightarrow> ctx \<Rightarrow> deal \<Rightarrow> ('z crm_world_scheme, unit) io" where
  "deal_repo_Update d c x = repo_write d c deals put_deals (\<lambda>t. update_one (deal_by t (de_ID x)) (deal_set x))"

definition deal_repo_Delete :: "'e env_scheme \<Rightarrow> ctx \<Rightarrow> ident \<Rightarrow> ('z crm_world_scheme, unit) io" where
  "deal_repo_Delete d c i = repo_write d c deals put_deals (\<lambda>t. delete_first (deal_by t i))"

definition deals_FindByConversation :: "'e env_scheme \<Rightarrow> ctx \<Rightarrow> ident \<Rightarrow> ('z crm_world_scheme, deal list) io" where
  "deals_FindByConversation d c i = repo_query d c deals (\<lambda>t ds.
     Inr (filter (\<lambda>x. de_TenantID x = t \<and> i \<in> set (de_ConversationIDs x)) ds))"

record deal_filter =
  df_PipelineID :: ident
  df_StageID :: ident
  df_AssignedTo :: ident
  df_ContactID :: ident
  df_Status :: string
  df_Q :: string
  df_TagID :: ident

definition in_deal_filter :: "deal_filter \<Rightarrow> deal \<Rightarrow> bool" where
  "in_deal_filter f x \<longleftrightarrow> (df_PipelineID f = [] \<or> de_PipelineID x = df_PipelineID f)
     \<and> (df_StageID f = [] \<or> de_StageID x = df_StageID f) \<and> (df_AssignedTo f = [] \<or> de_AssignedTo x = df_AssignedTo f)
     \<and> (df_ContactID f = [] \<or> de_ContactID x = df_ContactID f) \<and> (df_Status f = [] \<or> de_Status x = df_Status f)
     \<and> (df_TagID f = [] \<or> df_TagID f \<in> set (de_Tags x))"

definition deal_in_visibility :: "visibility_t \<Rightarrow> deal \<Rightarrow> bool" where
  "deal_in_visibility v x \<longleftrightarrow> vi_All v \<or> de_AssignedTo x = vi_UserID v \<or> de_SectorID x \<in> set (vi_SectorIDs v)"

definition deal_repo_List ::
  "'e crm_env_scheme \<Rightarrow> ctx \<Rightarrow> deal_filter \<Rightarrow> visibility_t \<Rightarrow> page_request \<Rightarrow> ('z crm_world_scheme, deal list) io" where
  "deal_repo_List d c f v page = pattern_page d c deals (df_Q f) de_Title
     (\<lambda>t x. de_TenantID x = t \<and> in_deal_filter f x \<and> deal_in_visibility v x) de_CreatedAt de_ID page"

section \<open>Service\<close>

record create_deal =
  nd_Title :: string
  nd_Value :: float64
  nd_Currency :: string
  nd_PipelineID :: ident
  nd_StageID :: ident
  nd_ContactID :: ident
  nd_AssignedTo :: ident
  nd_SectorID :: ident
  nd_Source :: string
  nd_ExpectedCloseDate :: "time option"
  nd_Tags :: "ident list"

record update_deal =
  ud_Title :: "string option"
  ud_Value :: "float64 option"
  ud_Currency :: "string option"
  ud_ContactID :: "ident option"
  ud_AssignedTo :: "ident option"
  ud_SectorID :: "ident option"
  ud_Source :: "string option"
  ud_ExpectedCloseDate :: "time option"
  ud_ClearExpectedDate :: bool
  ud_Tags :: "ident list option"

definition no_change :: update_deal where
  "no_change = \<lparr>ud_Title = None, ud_Value = None, ud_Currency = None, ud_ContactID = None, ud_AssignedTo = None,
     ud_SectorID = None, ud_Source = None, ud_ExpectedCloseDate = None, ud_ClearExpectedDate = False, ud_Tags = None\<rparr>"

record create_from_conversation =
  nf_ConversationID :: ident
  nf_Title :: string
  nf_Value :: float64
  nf_Currency :: string

definition RealtimeDealStageChanged :: string where "RealtimeDealStageChanged = ''deal.stage_changed''"
definition RealtimeDealCreated :: string where "RealtimeDealCreated = ''deal.created''"
definition RealtimeDealUpdated :: string where "RealtimeDealUpdated = ''deal.updated''"

definition deal_event :: "deal \<Rightarrow> ident \<Rightarrow> string \<Rightarrow> payload" where
  "deal_event x fromStageID movedBy = DealPayload (de_ID x) (de_PipelineID x) fromStageID (de_StageID x) (de_Status x) movedBy (de_AssignedTo x)"

definition publishDeal :: "'e env_scheme \<Rightarrow> deal \<Rightarrow> string \<Rightarrow> ident \<Rightarrow> string \<Rightarrow> ('z crm_world_scheme, unit) io" where
  "publishDeal d x event fromStageID movedBy = PublishAll d (map (\<lambda>topic. (topic, event, deal_event x fromStageID movedBy))
     (DealTopicsFor (de_TenantID x) (de_SectorID x) (de_AssignedTo x)))"

definition recordTimeline ::
  "'e env_scheme \<Rightarrow> ctx \<Rightarrow> ident \<Rightarrow> string \<Rightarrow> ident \<Rightarrow> gmap \<Rightarrow> ('z crm_world_scheme, unit) io" where
  "recordTimeline d c dealID kind actor data = timeline_Record d c dealID kind actor data"

definition recordStageMove ::
  "'e env_scheme \<Rightarrow> ctx \<Rightarrow> deal \<Rightarrow> ident \<Rightarrow> string \<Rightarrow> ident \<Rightarrow> ('z crm_world_scheme, unit) io" where
  "recordStageMove d c x fromStageID fromStatus actor = then_io
     (when_io (fromStageID \<noteq> de_StageID x) (recordTimeline d c (de_ID x) KindStageChanged actor
        [''from_stage_id'' \<mapsto> GStr fromStageID, ''to_stage_id'' \<mapsto> GStr (de_StageID x)]))
     (if de_Status x = DealWon \<and> fromStatus \<noteq> DealWon
        then recordTimeline d c (de_ID x) KindWon actor [''stage_id'' \<mapsto> GStr (de_StageID x)]
      else when_io (de_Status x = DealLost \<and> fromStatus \<noteq> DealLost)
        (recordTimeline d c (de_ID x) KindLost actor [''stage_id'' \<mapsto> GStr (de_StageID x)]))"

definition auditMove :: "ctx \<Rightarrow> ident \<Rightarrow> string \<Rightarrow> ('z conv_world_scheme, unit) io" where
  "auditMove c i movedBy = crm_audit c ''deal.stage_moved'' i [''moved_by'' \<mapsto> GStr movedBy]"

definition applyStage :: "stage \<Rightarrow> time \<Rightarrow> deal \<Rightarrow> deal" where
  "applyStage st now x = (let x1 = x\<lparr>de_StageID := sg_ID st, de_StageChangedAt := now\<rparr> in
     if sg_IsWon st then x1\<lparr>de_Status := DealWon, de_ClosedAt := Some now\<rparr>
     else if sg_IsLost st then x1\<lparr>de_Status := DealLost, de_ClosedAt := Some now\<rparr>
     else x1\<lparr>de_Status := DealOpen, de_ClosedAt := None\<rparr>)"

definition lostStage :: "pipeline \<Rightarrow> stage option" where
  "lostStage p = find sg_IsLost (pl_Stages p)"

definition resolvePipelineStage ::
  "'e env_scheme \<Rightarrow> ctx \<Rightarrow> ident \<Rightarrow> ident \<Rightarrow> ('z crm_world_scheme, pipeline \<times> stage) io" where
  "resolvePipelineStage d c pipelineID stageID =
     bind_io (if trim_space pipelineID \<noteq> [] then pipeline_Get d c pipelineID else pipeline_Default d c) (\<lambda>p0.
     then_io (guard_io (pl_Stages p0 = []) (Validation ''the pipeline has no stages''))
    (let p = SortStages p0 in
     if trim_space stageID = [] then return_io (p, hd (pl_Stages p))
     else (case findStage p stageID of
         None \<Rightarrow> throw_io (Validation ''the stage does not belong to the pipeline'')
       | Some st \<Rightarrow> return_io (p, st))))"

text \<open>The contact check, through the contacts service.\<close>

definition ContactExists :: "'e env_scheme \<Rightarrow> ctx \<Rightarrow> ident \<Rightarrow> ('z crm_world_scheme, bool) io" where
  "ContactExists d c i = bind_io (try_io (contact_Get d c i)) (\<lambda>r. case r of
      Inr _ \<Rightarrow> return_io True
    | Inl e \<Rightarrow> if err_code_of (From e) = CodeNotFound then return_io False else throw_io e)"

definition requireContact :: "'e env_scheme \<Rightarrow> ctx \<Rightarrow> ident \<Rightarrow> ('z crm_world_scheme, unit) io" where
  "requireContact d c contactID = (let i = trim_space contactID in
     if i = [] then return_io () else bind_io (ContactExists d c i) (\<lambda>found.
       guard_io (\<not> found) (Validation ''contact not found'')))"

definition dedupeNonEmpty :: "string list \<Rightarrow> string list" where
  "dedupeNonEmpty xs = keep_first (\<lambda>v. v \<noteq> []) {} (map trim_space xs)"

definition validateTags :: "'e crm_env_scheme \<Rightarrow> ctx \<Rightarrow> ident list \<Rightarrow> ('z crm_world_scheme, ident list) io" where
  "validateTags d c tagIDs = (let cleaned = dedupeNonEmpty tagIDs in
     if cleaned = [] then return_io []
     else (case re_ValidateTags d of
        None \<Rightarrow> return_io cleaned
      | Some f \<Rightarrow> then_io (ask (\<lambda>n. f n c cleaned)) (return_io cleaned)))"

definition deal_Create :: "'e crm_env_scheme \<Rightarrow> ctx \<Rightarrow> create_deal \<Rightarrow> ('z crm_world_scheme, deal) io" where
  "deal_Create d c cmd = bind_io (lift_res (RequireTenant c)) (\<lambda>t.
     then_io (guard_io (trim_space (nd_Title cmd) = []) (Validation ''title is required''))
    (then_io (guard_io (nd_Value cmd < 0) (Validation ''value must be >= 0''))
    (bind_io (resolvePipelineStage d c (nd_PipelineID cmd) (nd_StageID cmd)) (\<lambda>(p, st).
     then_io (requireContact d c (nd_ContactID cmd))
    (bind_io (validateTags d c (nd_Tags cmd)) (\<lambda>tags. bind_io (now_io d) (\<lambda>now. bind_io (new_id d) (\<lambda>i.
     let x = applyStage st now \<lparr>de_ID = i, de_TenantID = t, de_PipelineID = pl_ID p, de_StageID = [],
           de_ContactID = trim_space (nd_ContactID cmd), de_Title = trim_space (nd_Title cmd), de_Value = nd_Value cmd,
           de_Currency = currencyOr (nd_Currency cmd), de_AssignedTo = trim_space (nd_AssignedTo cmd),
           de_SectorID = trim_space (nd_SectorID cmd), de_ConversationIDs = [], de_Tags = tags,
           de_Source = trim_space (nd_Source cmd), de_Status = [], de_LostReason = [],
           de_ExpectedCloseDate = nd_ExpectedCloseDate cmd, de_StageChangedAt = 0, de_ClosedAt = None, de_Items = [],
           de_CreatedAt = now, de_UpdatedAt = now\<rparr> in
     then_io (deal_repo_Create d c x)
    (then_io (crm_audit c ''deal.created'' (de_ID x) Map.empty)
    (then_io (publishDeal d x RealtimeDealCreated [] [])
    (then_io (recordTimeline d c (de_ID x) KindDealCreated (dealActor c)
        [''title'' \<mapsto> GStr (de_Title x), ''value'' \<mapsto> GFloat (de_Value x), ''stage_id'' \<mapsto> GStr (de_StageID x)])
    (return_io x))))))))))))"

definition LinkConversation :: "'e env_scheme \<Rightarrow> ctx \<Rightarrow> ident \<Rightarrow> ident \<Rightarrow> ('z crm_world_scheme, deal) io" where
  "LinkConversation d c dealID conversationID = then_io (lift_res (RequireTenant c))
    (let cid = trim_space conversationID in
     then_io (guard_io (cid = []) (Validation ''conversation_id is required''))
    (bind_io (deal_FindByID d c dealID) (\<lambda>x. if HasConversation x cid then return_io x else
     bind_io (now_io d) (\<lambda>now. let x1 = x\<lparr>de_ConversationIDs := de_ConversationIDs x @ [cid], de_UpdatedAt := now\<rparr> in
     then_io (deal_repo_Update d c x1)
    (then_io (crm_audit c ''deal.conversation_linked'' (de_ID x1) Map.empty)
    (return_io x1))))))"

definition CreateFromConversation ::
  "'e crm_env_scheme \<Rightarrow> ctx \<Rightarrow> create_from_conversation \<Rightarrow> ('z crm_world_scheme, deal) io" where
  "CreateFromConversation d c cmd = then_io (lift_res (RequireTenant c))
    (let convID = trim_space (nf_ConversationID cmd) in
     then_io (guard_io (convID = []) (Validation ''conversation_id is required''))
    (bind_io (conv_FindByID d c convID) (\<lambda>cv.
     let title = (if trim_space (nf_Title cmd) = [] then ''Oportunidade'' else trim_space (nf_Title cmd)) in
     bind_io (deal_Create d c \<lparr>nd_Title = title, nd_Value = nf_Value cmd, nd_Currency = nf_Currency cmd, nd_PipelineID = [],
        nd_StageID = [], nd_ContactID = cv_ContactID cv, nd_AssignedTo = cv_AssignedTo cv, nd_SectorID = cv_SectorID cv,
        nd_Source = [], nd_ExpectedCloseDate = None, nd_Tags = []\<rparr>) (\<lambda>x.
     LinkConversation d c (de_ID x) convID))))"

definition deal_Get :: "'e env_scheme \<Rightarrow> ctx \<Rightarrow> ident \<Rightarrow> ('z crm_world_scheme, deal) io" where
  "deal_Get d c i = then_io (lift_res (RequireTenant c)) (deal_FindByID d c i)"

definition deal_visibility :: "ctx \<Rightarrow> visibility_t res" where
  "deal_visibility c = (case ctx_auth c of
     None \<Rightarrow> Inl (Unauthorized ''authentication required'')
   | Some ac \<Rightarrow> Inr \<lparr>vi_All = (ac_SectorScope ac = ScopeAll), vi_SectorIDs = ac_SectorIDs ac, vi_UserID = ac_UserID ac\<rparr>)"

definition deal_List ::
  "'e crm_env_scheme \<Rightarrow> ctx \<Rightarrow> deal_filter \<Rightarrow> page_request \<Rightarrow> ('z crm_world_scheme, deal list) io" where
  "deal_List d c f page = then_io (lift_res (RequireTenant c))
     (bind_io (lift_res (deal_visibility c)) (\<lambda>v. deal_repo_List d c f v (Normalize page)))"

text \<open>The edits of \<open>Update\<close> up to the contact, and those after it.\<close>

definition patch_deal :: "update_deal \<Rightarrow> deal \<Rightarrow> deal res" where
  "patch_deal cmd x0 =
     res_bind (patch_res (ud_Title cmd) (\<lambda>s x. if trim_space s = [] then Inl (Validation ''title is required'')
        else Inr (x\<lparr>de_Title := trim_space s\<rparr>)) x0) (\<lambda>x1.
     res_bind (patch_res (ud_Value cmd) (\<lambda>v x. if v < 0 then Inl (Validation ''value must be >= 0'')
        else Inr (if de_Items x = [] then x\<lparr>de_Value := v\<rparr> else x)) x1) (\<lambda>x2.
     Inr (patch (ud_Currency cmd) (\<lambda>s x. x\<lparr>de_Currency := currencyOr s\<rparr>) x2)))"

definition edit_deal :: "update_deal \<Rightarrow> deal \<Rightarrow> deal" where
  "edit_deal cmd x0 =
    (let x1 = patch (ud_Source cmd) (\<lambda>s x. x\<lparr>de_Source := trim_space s\<rparr>)
            (patch (ud_SectorID cmd) (\<lambda>s x. x\<lparr>de_SectorID := trim_space s\<rparr>)
            (patch (ud_AssignedTo cmd) (\<lambda>s x. x\<lparr>de_AssignedTo := trim_space s\<rparr>) x0)) in
     if ud_ClearExpectedDate cmd then x1\<lparr>de_ExpectedCloseDate := None\<rparr>
     else patch (ud_ExpectedCloseDate cmd) (\<lambda>e x. x\<lparr>de_ExpectedCloseDate := Some e\<rparr>) x1)"

definition deal_contact :: "'e env_scheme \<Rightarrow> ctx \<Rightarrow> ident option \<Rightarrow> deal \<Rightarrow> ('z crm_world_scheme, deal) io" where
  "deal_contact d c o1 x = (case o1 of None \<Rightarrow> return_io x
     | Some i \<Rightarrow> then_io (requireContact d c (trim_space i)) (return_io (x\<lparr>de_ContactID := trim_space i\<rparr>)))"

definition deal_tags :: "'e crm_env_scheme \<Rightarrow> ctx \<Rightarrow> ident list option \<Rightarrow> deal \<Rightarrow> ('z crm_world_scheme, deal) io" where
  "deal_tags d c o1 x = (case o1 of None \<Rightarrow> return_io x
     | Some ids \<Rightarrow> bind_io (validateTags d c ids) (\<lambda>tags. return_io (x\<lparr>de_Tags := tags\<rparr>)))"

definition deal_Update :: "'e crm_env_scheme \<Rightarrow> ctx \<Rightarrow> ident \<Rightarrow> update_deal \<Rightarrow> ('z crm_world_scheme, deal) io" where
  "deal_Update d c i cmd = then_io (lift_res (RequireTenant c))
     (bind_io (deal_FindByID d c i) (\<lambda>x0. bind_io (lift_res (patch_deal cmd x0)) (\<lambda>x1.
      bind_io (deal_contact d c (ud_ContactID cmd) x1) (\<lambda>x2.
      bind_io (deal_tags d c (ud_Tags cmd) (edit_deal cmd x2)) (\<lambda>x3. bind_io (now_io d) (\<lambda>now.
      let x = x3\<lparr>de_UpdatedAt := now\<rparr> in
      then_io (deal_repo_Update d c x)
     (then_io (crm_audit c ''deal.updated'' (de_ID x) Map.empty)
     (then_io (publishDeal d x RealtimeDealUpdated [] [])
     (then_io (when_io (ud_Value cmd \<noteq> None \<and> de_Value x \<noteq> de_Value x0) (recordTimeline d c (de_ID x) KindValueChanged (dealActor c)
         [''from'' \<mapsto> GFloat (de_Value x0), ''to'' \<mapsto> GFloat (de_Value x)]))
     (then_io (when_io (ud_AssignedTo cmd \<noteq> None \<and> de_AssignedTo x \<noteq> de_AssignedTo x0) (recordTimeline d c (de_ID x) KindAssignedChanged (dealActor c)
         [''from'' \<mapsto> GStr (de_AssignedTo x0), ''to'' \<mapsto> GStr (de_AssignedTo x)]))
     (return_io x)))))))))))"

definition AssignTo :: "'e crm_env_scheme \<Rightarrow> ctx \<Rightarrow> ident \<Rightarrow> ident \<Rightarrow> ('z crm_world_scheme, deal) io" where
  "AssignTo d c dealID userID = deal_Update d c dealID (no_change\<lparr>ud_AssignedTo := Some (trim_space userID)\<rparr>)"

definition MoveStage :: "'e env_scheme \<Rightarrow> ctx \<Rightarrow> ident \<Rightarrow> ident \<Rightarrow> ('z crm_world_scheme, deal) io" where
  "MoveStage d c dealID stageID = then_io (lift_res (RequireTenant c))
     (bind_io (deal_FindByID d c dealID) (\<lambda>x0. bind_io (pipeline_Get d c (de_PipelineID x0)) (\<lambda>p.
      case findStage p stageID of
        None \<Rightarrow> throw_io (Validation ''the stage does not belong to the deal's pipeline'')
      | Some st \<Rightarrow> bind_io (now_io d) (\<lambda>now. bind_io (now_io d) (\<lambda>later.
          let x = applyStage st now x0 \<lparr>de_UpdatedAt := later\<rparr> in
          then_io (deal_repo_Update d c x)
         (then_io (auditMove c (de_ID x) ''user'')
         (then_io (publishDeal d x RealtimeDealStageChanged (de_StageID x0) ''user'')
         (then_io (recordStageMove d c x (de_StageID x0) (de_Status x0) (dealActor c))
         (return_io x)))))))))"

definition MarkLost :: "'e env_scheme \<Rightarrow> ctx \<Rightarrow> ident \<Rightarrow> string \<Rightarrow> ('z crm_world_scheme, deal) io" where
  "MarkLost d c dealID reason = then_io (lift_res (RequireTenant c))
     (bind_io (deal_FindByID d c dealID) (\<lambda>x0. bind_io (pipeline_Get d c (de_PipelineID x0)) (\<lambda>p. bind_io (now_io d) (\<lambda>now.
      let x1 = (case lostStage p of Some st \<Rightarrow> applyStage st now x0
                | None \<Rightarrow> x0\<lparr>de_Status := DealLost, de_ClosedAt := Some now\<rparr>);
          x = x1\<lparr>de_LostReason := trim_space reason, de_UpdatedAt := now\<rparr> in
      then_io (deal_repo_Update d c x)
     (then_io (crm_audit c ''deal.marked_lost'' (de_ID x) Map.empty)
     (then_io (publishDeal d x RealtimeDealStageChanged (de_StageID x0) ''user'')
     (then_io (recordStageMove d c x (de_StageID x0) (de_Status x0) (dealActor c))
     (return_io x))))))))"

subsection \<open>Moves by rules\<close>

definition moveAudience :: "'e crm_env_scheme \<Rightarrow> ctx \<Rightarrow> deal \<Rightarrow> ('z crm_world_scheme, ident list) io" where
  "moveAudience d c x = (if de_AssignedTo x \<noteq> [] then return_io [de_AssignedTo x]
     else (case re_SectorAgents d of
        Some f \<Rightarrow> if de_SectorID x \<noteq> [] then bind_io (try_io (ask (\<lambda>n. f n c (de_SectorID x)))) (\<lambda>r.
            return_io (case r of Inr ids \<Rightarrow> ids | Inl _ \<Rightarrow> []))
          else return_io []
      | None \<Rightarrow> return_io []))"

definition notifyMoved :: "'e crm_env_scheme \<Rightarrow> ctx \<Rightarrow> deal \<Rightarrow> ('z crm_world_scheme, unit) io" where
  "notifyMoved d c x = bind_io (moveAudience d c x) (\<lambda>recipients. for_io recipients (\<lambda>uid.
     log_effect (ENotify (de_TenantID x) uid ''deal.stage_moved_by_automation''
       (''/crm?deal='' @ de_ID x @ ''&pipeline='' @ de_PipelineID x @ ''&stage='' @ de_StageID x))))"

definition automation_move :: "'e crm_env_scheme \<Rightarrow> ctx \<Rightarrow> ident \<Rightarrow> ident \<Rightarrow> deal \<Rightarrow> ('z crm_world_scheme, unit) io" where
  "automation_move d c pipelineID stageID x0 =
    (if pipelineID \<noteq> [] \<and> de_PipelineID x0 \<noteq> pipelineID then return_io ()
     else if de_StageID x0 = stageID then return_io ()
     else bind_io (pipeline_Get d c (de_PipelineID x0)) (\<lambda>p. case findStage p stageID of
        None \<Rightarrow> throw_io (Validation ''the stage does not belong to the deal's pipeline'')
      | Some st \<Rightarrow> bind_io (now_io d) (\<lambda>now. let x = applyStage st now x0 \<lparr>de_UpdatedAt := now\<rparr> in
          then_io (deal_repo_Update d c x)
         (then_io (auditMove c (de_ID x) ''automation'')
         (then_io (publishDeal d x RealtimeDealStageChanged (de_StageID x0) ''automation'')
         (then_io (recordStageMove d c x (de_StageID x0) (de_Status x0) ''automation'')
         (notifyMoved d c x)))))))"

definition AutomationMoveDealStage ::
  "'e crm_env_scheme \<Rightarrow> ctx \<Rightarrow> ident \<Rightarrow> ident \<Rightarrow> ident \<Rightarrow> ('z crm_world_scheme, unit) io" where
  "AutomationMoveDealStage d c conversationID pipelineID stageID = then_io (lift_res (RequireTenant c))
    (let cid = trim_space conversationID; pid = trim_space pipelineID; sid = trim_space stageID in
     then_io (guard_io (cid = []) (Validation ''conversation_id is required''))
    (then_io (guard_io (sid = []) (Validation ''stage_id is required''))
    (bind_io (deals_FindByConversation d c cid) (\<lambda>xs. for_io xs (automation_move d c pid sid)))))"

subsection \<open>Tags\<close>

definition AddTag :: "'e crm_env_scheme \<Rightarrow> ctx \<Rightarrow> ident \<Rightarrow> ident \<Rightarrow> ('z crm_world_scheme, deal) io" where
  "AddTag d c dealID tagID0 = then_io (lift_res (RequireTenant c))
    (let tagID = trim_space tagID0 in
     then_io (guard_io (tagID = []) (Validation ''tag_id is required''))
    (bind_io (deal_FindByID d c dealID) (\<lambda>x0. if HasTag x0 tagID then return_io x0 else
     then_io (bind_io (validateTags d c [tagID]) (\<lambda>_. return_io ()))
    (bind_io (now_io d) (\<lambda>now. let x = x0\<lparr>de_Tags := de_Tags x0 @ [tagID], de_UpdatedAt := now\<rparr> in
     then_io (deal_repo_Update d c x)
    (then_io (crm_audit c ''deal.tagged'' (de_ID x) Map.empty)
    (then_io (publishDeal d x RealtimeDealUpdated [] [])
    (then_io (recordTimeline d c (de_ID x) KindTagAdded (dealActor c) [''tag_id'' \<mapsto> GStr tagID])
    (return_io x)))))))))"

definition RemoveTag :: "'e env_scheme \<Rightarrow> ctx \<Rightarrow> ident \<Rightarrow> ident \<Rightarrow> ('z crm_world_scheme, deal) io" where
  "RemoveTag d c dealID tagID = then_io (lift_res (RequireTenant c))
     (bind_io (deal_FindByID d c dealID) (\<lambda>x0. if \<not> HasTag x0 tagID then return_io x0 else
      bind_io (now_io d) (\<lambda>now. let x = x0\<lparr>de_Tags := filter (\<lambda>i. i \<noteq> tagID) (de_Tags x0), de_UpdatedAt := now\<rparr> in
      then_io (deal_repo_Update d c x)
     (then_io (crm_audit c ''deal.untagged'' (de_ID x) Map.empty)
     (then_io (publishDeal d x RealtimeDealUpdated [] [])
     (then_io (recordTimeline d c (de_ID x) KindTagRemoved (dealActor c) [''tag_id'' \<mapsto> GStr tagID])
     (return_io x)))))))"

subsection \<open>Product lines\<close>

definition requireProducts :: "'e env_scheme \<Rightarrow> ctx \<Rightarrow> ('z crm_world_scheme, unit) io" where
  "requireProducts d c = require_module d c ModuleProducts ''the products module is disabled for this tenant''"

definition saveItems :: "'e crm_env_scheme \<Rightarrow> ctx \<Rightarrow> deal \<Rightarrow> ('z crm_world_scheme, deal) io" where
  "saveItems d c x0 = bind_io (now_io d) (\<lambda>now. let x = RecalcValue (re_Round d) x0 \<lparr>de_UpdatedAt := now\<rparr> in
     then_io (deal_repo_Update d c x)
    (then_io (crm_audit c ''deal.updated'' (de_ID x) Map.empty)
    (then_io (publishDeal d x RealtimeDealUpdated [] [])
    (return_io x))))"

definition recordItem :: "'e env_scheme \<Rightarrow> ctx \<Rightarrow> deal \<Rightarrow> string \<Rightarrow> deal_item \<Rightarrow> ('z crm_world_scheme, unit) io" where
  "recordItem d c x kind it = recordTimeline d c (de_ID x) kind (dealActor c)
     [''product_id'' \<mapsto> GStr (di_ProductID it), ''name'' \<mapsto> GStr (di_Name it),
      ''quantity'' \<mapsto> GInt (di_Quantity it), ''total'' \<mapsto> GFloat (di_Total it)]"

text \<open>The line is copied before the totals are computed, so the event of an added line carries the zero total.\<close>

definition AddItem :: "'e crm_env_scheme \<Rightarrow> ctx \<Rightarrow> ident \<Rightarrow> ident \<Rightarrow> int \<Rightarrow> ('z crm_world_scheme, deal) io" where
  "AddItem d c dealID productID quantity = then_io (requireProducts d c)
    (then_io (guard_io (quantity \<le> 0) (Validation ''quantity must be > 0''))
    (bind_io (deal_FindByID d c dealID) (\<lambda>x0. bind_io (product_FindByID d c (trim_space productID)) (\<lambda>p.
     then_io (guard_io (\<not> po_Active p) (Validation ''the product is not active''))
    (bind_io (new_id d) (\<lambda>i.
     let it = \<lparr>di_ID = i, di_ProductID = trim_space productID, di_Name = po_Name p, di_Quantity = quantity,
           di_UnitPrice = po_Price p, di_Total = 0\<rparr> in
     bind_io (saveItems d c (x0\<lparr>de_Items := de_Items x0 @ [it]\<rparr>)) (\<lambda>x.
     then_io (recordItem d c x KindProductAdded it) (return_io x))))))))"

record update_item =
  ui_Quantity :: "int option"
  ui_UnitPrice :: "float64 option"

definition patch_item :: "update_item \<Rightarrow> deal_item \<Rightarrow> deal_item res" where
  "patch_item cmd it0 =
     res_bind (patch_res (ui_Quantity cmd) (\<lambda>q it. if q \<le> 0 then Inl (Validation ''quantity must be > 0'')
        else Inr (it\<lparr>di_Quantity := q\<rparr>)) it0) (\<lambda>it1.
     patch_res (ui_UnitPrice cmd) (\<lambda>p it. if p < 0 then Inl (Validation ''unit_price must be >= 0'')
        else Inr (it\<lparr>di_UnitPrice := p\<rparr>)) it1)"

definition UpdateItem :: "'e crm_env_scheme \<Rightarrow> ctx \<Rightarrow> ident \<Rightarrow> ident \<Rightarrow> update_item \<Rightarrow> ('z crm_world_scheme, deal) io" where
  "UpdateItem d c dealID itemID cmd = then_io (requireProducts d c)
     (bind_io (deal_FindByID d c dealID) (\<lambda>x0. case FindItem x0 itemID of
        None \<Rightarrow> throw_io (NotFound ''item not found'')
      | Some k \<Rightarrow> bind_io (lift_res (patch_item cmd (de_Items x0 ! k))) (\<lambda>it.
          saveItems d c (x0\<lparr>de_Items := (de_Items x0)[k := it]\<rparr>))))"

definition RemoveItem :: "'e crm_env_scheme \<Rightarrow> ctx \<Rightarrow> ident \<Rightarrow> ident \<Rightarrow> ('z crm_world_scheme, deal) io" where
  "RemoveItem d c dealID itemID = then_io (requireProducts d c)
     (bind_io (deal_FindByID d c dealID) (\<lambda>x0. case FindItem x0 itemID of
        None \<Rightarrow> throw_io (NotFound ''item not found'')
      | Some k \<Rightarrow> bind_io (saveItems d c (x0\<lparr>de_Items := take k (de_Items x0) @ drop (Suc k) (de_Items x0)\<rparr>)) (\<lambda>x.
          then_io (recordItem d c x KindProductRemoved (de_Items x0 ! k)) (return_io x))))"

definition deal_Delete :: "'e env_scheme \<Rightarrow> ctx \<Rightarrow> ident \<Rightarrow> ('z crm_world_scheme, unit) io" where
  "deal_Delete d c i = then_io (lift_res (RequireTenant c))
     (bind_io (deal_FindByID d c i) (\<lambda>_.
      then_io (deal_repo_Delete d c i) (crm_audit c ''deal.deleted'' i Map.empty)))"

end
