(* ===== verification/Deal_Tasks.thy ===== *)
theory Deal_Tasks
  imports Deals
begin

text \<open>
  Follow-ups on a deal: \<open>domain/dealtasks/service/service.go\<close> and its Mongo repository. A task is
  pending until it is completed, once; every request needs the tasks module and a deal the actor
  may see.
\<close>

definition TaskPending :: string where "TaskPending = ''pending''"
definition TaskDone :: string where "TaskDone = ''done''"

definition IsDone :: "deal_task \<Rightarrow> bool" where
  "IsDone t \<longleftrightarrow> tk_Status t = TaskDone"

section \<open>Repository\<close>

abbreviation put_tasks :: "deal_task list \<Rightarrow> 'z crm_world_scheme \<Rightarrow> 'z crm_world_scheme" where
  "put_tasks ts w \<equiv> w\<lparr>deal_tasks := ts\<rparr>"

definition task_by :: "ident \<Rightarrow> ident \<Rightarrow> deal_task \<Rightarrow> bool" where
  "task_by t i x \<longleftrightarrow> tk_ID x = i \<and> tk_TenantID x = t"

definition task_set :: "deal_task \<Rightarrow> deal_task \<Rightarrow> deal_task" where
  "task_set new old = old\<lparr>tk_Title := tk_Title new, tk_Description := tk_Description new, tk_DueDate := tk_DueDate new,
     tk_AssignedTo := tk_AssignedTo new, tk_Status := tk_Status new, tk_CompletedAt := tk_CompletedAt new,
     tk_UpdatedAt := tk_UpdatedAt new\<rparr>"

definition task_repo_Create :: "'e env_scheme \<Rightarrow> ctx \<Rightarrow> deal_task \<Rightarrow> ('z crm_world_scheme, unit) io" where
  "task_repo_Create d c x = repo_write d c deal_tasks put_tasks (\<lambda>_. insert_one tk_ID x)"

definition task_repo_Update :: "'e env_scheme \<Rightarrow> ctx \<Rightarrow> deal_task \<Rightarrow> ('z crm_world_scheme, unit) io" where
  "task_repo_Update d c x = repo_write d c deal_tasks put_tasks (\<lambda>t. update_one (task_by t (tk_ID x)) (task_set x))"

definition task_repo_Delete :: "'e env_scheme \<Rightarrow> ctx \<Rightarrow> ident \<Rightarrow> ('z crm_world_scheme, unit) io" where
  "task_repo_Delete d c i = repo_write d c deal_tasks put_tasks (\<lambda>t. delete_first (task_by t i))"

definition task_FindByID :: "'e env_scheme \<Rightarrow> ctx \<Rightarrow> ident \<Rightarrow> ('z crm_world_scheme, deal_task) io" where
  "task_FindByID d c i = repo_query d c deal_tasks (\<lambda>t. find_one (task_by t i))"

definition task_find ::
  "'e env_scheme \<Rightarrow> ctx \<Rightarrow> (ident \<Rightarrow> deal_task \<Rightarrow> bool) \<Rightarrow> page_request \<Rightarrow> ('z crm_world_scheme, deal_task list) io" where
  "task_find d c p page = then_io (lift_res (RequireTenant c))
     (bind_io (lift_res (DecodeCursor (pr_Cursor page))) (\<lambda>cur.
        repo_query d c deal_tasks (\<lambda>t xs. Inr (list_page (p t) tk_CreatedAt tk_ID cur (pr_Limit page) xs))))"

definition task_ListByDeal :: "'e env_scheme \<Rightarrow> ctx \<Rightarrow> ident \<Rightarrow> page_request \<Rightarrow> ('z crm_world_scheme, deal_task list) io" where
  "task_ListByDeal d c dealID page = task_find d c (\<lambda>t x. tk_TenantID x = t \<and> tk_DealID x = dealID) page"

record task_filter =
  tf_AssignedTo :: ident
  tf_Status :: string
  tf_DueBefore :: "time option"

definition task_repo_List :: "'e env_scheme \<Rightarrow> ctx \<Rightarrow> task_filter \<Rightarrow> page_request \<Rightarrow> ('z crm_world_scheme, deal_task list) io" where
  "task_repo_List d c f page = task_find d c (\<lambda>t x. tk_TenantID x = t
     \<and> (tf_AssignedTo f = [] \<or> tk_AssignedTo x = tf_AssignedTo f) \<and> (tf_Status f = [] \<or> tk_Status x = tf_Status f)
     \<and> (case tf_DueBefore f of None \<Rightarrow> True | Some b \<Rightarrow> (case tk_DueDate x of Some due \<Rightarrow> due \<le> b | None \<Rightarrow> False))) page"

section \<open>Service\<close>

record create_task =
  nt_DealID :: ident
  nt_Title :: string
  nt_Description :: string
  nt_DueDate :: "time option"
  nt_AssignedTo :: ident

record update_task =
  ut_Title :: "string option"
  ut_Description :: "string option"
  ut_DueDate :: "time option"
  ut_ClearDueDate :: bool
  ut_AssignedTo :: "ident option"

text \<open>A view is the task with the names of its assignee and creator.\<close>

record task_view =
  tv_Task :: deal_task
  tv_AssignedToName :: string
  tv_AssignedToAvatarURL :: string
  tv_CreatedByName :: string

definition task_guard :: "'e env_scheme \<Rightarrow> ctx \<Rightarrow> ('z crm_world_scheme, unit) io" where
  "task_guard d c = require_module d c ModuleTasks ''the tasks module is disabled for this tenant''"

definition task_deal :: "'e env_scheme \<Rightarrow> ctx \<Rightarrow> ident \<Rightarrow> ('z crm_world_scheme, deal) io" where
  "task_deal d c dealID = then_io (guard_io (trim_space dealID = []) (Validation ''deal id is required'')) (ensureVisible d c dealID)"

definition task_load :: "'e env_scheme \<Rightarrow> ctx \<Rightarrow> ident \<Rightarrow> ident \<Rightarrow> ('z crm_world_scheme, deal_task) io" where
  "task_load d c dealID taskID = bind_io (task_deal d c dealID) (\<lambda>_.
     bind_io (task_FindByID d c taskID) (\<lambda>x.
     then_io (guard_io (tk_DealID x \<noteq> dealID) (NotFound ''task not found'')) (return_io x)))"

definition validateAssignee :: "'e crm_env_scheme \<Rightarrow> ctx \<Rightarrow> ident \<Rightarrow> ('z crm_world_scheme, unit) io" where
  "validateAssignee d c userID = (if userID = [] then return_io () else (case re_AgentExists d of
      None \<Rightarrow> return_io ()
    | Some f \<Rightarrow> bind_io (ask (\<lambda>n. f n c userID)) (\<lambda>found.
        guard_io (\<not> found) (Validation ''assigned_to is not an agent of the tenant''))))"

definition task_record :: "'e env_scheme \<Rightarrow> ctx \<Rightarrow> deal_task \<Rightarrow> string \<Rightarrow> ('z crm_world_scheme, unit) io" where
  "task_record d c x kind = timeline_Record d c (tk_DealID x) kind (dealActor c)
     [''task_id'' \<mapsto> GStr (tk_ID x), ''title'' \<mapsto> GStr (tk_Title x)]"

definition notifyAssignee :: "ctx \<Rightarrow> deal_task \<Rightarrow> ('z crm_world_scheme, unit) io" where
  "notifyAssignee c x = when_io (\<not> (tk_AssignedTo x = [] \<or> tk_AssignedTo x = dealActor c))
     (log_effect (ENotify (tk_TenantID x) (tk_AssignedTo x) ''deal.task_assigned''
        (''/crm?deal='' @ tk_DealID x @ ''&task='' @ tk_ID x)))"

definition cardsFor :: "'e crm_env_scheme \<Rightarrow> ctx \<Rightarrow> deal_task list \<Rightarrow> ('z crm_world_scheme, (ident \<times> display_card) list) io" where
  "cardsFor d c xs = (case re_AgentCards d of
     None \<Rightarrow> return_io []
   | Some f \<Rightarrow> let ids = remdups (filter (\<lambda>i. i \<noteq> []) (concat (map (\<lambda>x. [tk_AssignedTo x, tk_CreatedBy x]) xs))) in
       if ids = [] then return_io []
       else bind_io (try_io (ask (\<lambda>n. f n c ids))) (\<lambda>r. return_io (case r of Inr cards \<Rightarrow> cards | Inl _ \<Rightarrow> [])))"

definition task_enrich :: "(ident \<times> display_card) list \<Rightarrow> deal_task \<Rightarrow> task_view" where
  "task_enrich cards x = \<lparr>tv_Task = x,
     tv_AssignedToName = (case map_of cards (tk_AssignedTo x) of Some k \<Rightarrow> dc_Name k | None \<Rightarrow> []),
     tv_AssignedToAvatarURL = (case map_of cards (tk_AssignedTo x) of Some k \<Rightarrow> dc_AvatarURL k | None \<Rightarrow> []),
     tv_CreatedByName = (case map_of cards (tk_CreatedBy x) of Some k \<Rightarrow> dc_Name k | None \<Rightarrow> [])\<rparr>"

definition task_views :: "'e crm_env_scheme \<Rightarrow> ctx \<Rightarrow> deal_task list \<Rightarrow> ('z crm_world_scheme, task_view list) io" where
  "task_views d c xs = bind_io (cardsFor d c xs) (\<lambda>cards. return_io (map (task_enrich cards) xs))"

definition task_view_of :: "'e crm_env_scheme \<Rightarrow> ctx \<Rightarrow> deal_task \<Rightarrow> ('z crm_world_scheme, task_view) io" where
  "task_view_of d c x = bind_io (cardsFor d c [x]) (\<lambda>cards. return_io (task_enrich cards x))"

definition task_Create :: "'e crm_env_scheme \<Rightarrow> ctx \<Rightarrow> create_task \<Rightarrow> ('z crm_world_scheme, task_view) io" where
  "task_Create d c cmd = bind_io (lift_res (RequireTenant c)) (\<lambda>t.
     then_io (task_guard d c)
    (let dealID = trim_space (nt_DealID cmd) in
     bind_io (task_deal d c dealID) (\<lambda>_. let title = trim_space (nt_Title cmd) in
     then_io (guard_io (title = []) (Validation ''title is required''))
    (let assignee = trim_space (nt_AssignedTo cmd) in
     then_io (validateAssignee d c assignee)
    (bind_io (now_io d) (\<lambda>now. bind_io (new_id d) (\<lambda>i.
     let x = \<lparr>tk_ID = i, tk_TenantID = t, tk_DealID = dealID, tk_Title = title, tk_Description = trim_space (nt_Description cmd),
           tk_DueDate = nt_DueDate cmd, tk_AssignedTo = assignee, tk_Status = TaskPending, tk_CompletedAt = None,
           tk_CreatedBy = dealActor c, tk_CreatedAt = now, tk_UpdatedAt = now\<rparr> in
     then_io (task_repo_Create d c x)
    (then_io (task_record d c x KindTaskCreated)
    (then_io (notifyAssignee c x)
    (task_view_of d c x))))))))))"

definition task_title :: "string option \<Rightarrow> deal_task \<Rightarrow> deal_task res" where
  "task_title o1 x = patch_res o1 (\<lambda>s y. if trim_space s = [] then Inl (Validation ''title is required'')
     else Inr (y\<lparr>tk_Title := trim_space s\<rparr>)) x"

definition task_edit :: "update_task \<Rightarrow> deal_task \<Rightarrow> deal_task" where
  "task_edit cmd x = (let x1 = patch (ut_Description cmd) (\<lambda>s y. y\<lparr>tk_Description := trim_space s\<rparr>) x in
     if ut_ClearDueDate cmd then x1\<lparr>tk_DueDate := None\<rparr>
     else patch (ut_DueDate cmd) (\<lambda>v y. y\<lparr>tk_DueDate := Some v\<rparr>) x1)"

definition task_assign :: "'e crm_env_scheme \<Rightarrow> ctx \<Rightarrow> ident option \<Rightarrow> deal_task \<Rightarrow> ('z crm_world_scheme, deal_task) io" where
  "task_assign d c o1 x = (case o1 of None \<Rightarrow> return_io x
     | Some u \<Rightarrow> then_io (validateAssignee d c (trim_space u)) (return_io (x\<lparr>tk_AssignedTo := trim_space u\<rparr>)))"

definition task_Update :: "'e crm_env_scheme \<Rightarrow> ctx \<Rightarrow> ident \<Rightarrow> ident \<Rightarrow> update_task \<Rightarrow> ('z crm_world_scheme, task_view) io" where
  "task_Update d c dealID taskID cmd = then_io (task_guard d c)
     (bind_io (task_load d c dealID taskID) (\<lambda>x0. bind_io (lift_res (task_title (ut_Title cmd) x0)) (\<lambda>x1.
      bind_io (task_assign d c (ut_AssignedTo cmd) (task_edit cmd x1)) (\<lambda>x2. bind_io (now_io d) (\<lambda>now.
      let x = x2\<lparr>tk_UpdatedAt := now\<rparr> in
      then_io (task_repo_Update d c x)
     (then_io (when_io (tk_AssignedTo x \<noteq> [] \<and> tk_AssignedTo x \<noteq> tk_AssignedTo x0) (notifyAssignee c x))
     (task_view_of d c x)))))))"

definition Complete :: "'e crm_env_scheme \<Rightarrow> ctx \<Rightarrow> ident \<Rightarrow> ident \<Rightarrow> ('z crm_world_scheme, task_view) io" where
  "Complete d c dealID taskID = then_io (task_guard d c)
     (bind_io (task_load d c dealID taskID) (\<lambda>x0. if IsDone x0 then task_view_of d c x0 else
      bind_io (now_io d) (\<lambda>now. let x = x0\<lparr>tk_Status := TaskDone, tk_CompletedAt := Some now, tk_UpdatedAt := now\<rparr> in
      then_io (task_repo_Update d c x)
     (then_io (task_record d c x KindTaskCompleted)
     (task_view_of d c x)))))"

definition task_Delete :: "'e env_scheme \<Rightarrow> ctx \<Rightarrow> ident \<Rightarrow> ident \<Rightarrow> ('z crm_world_scheme, unit) io" where
  "task_Delete d c dealID taskID = then_io (task_guard d c)
     (bind_io (task_load d c dealID taskID) (\<lambda>x. task_repo_Delete d c (tk_ID x)))"

definition task_List_of ::
  "'e crm_env_scheme \<Rightarrow> ctx \<Rightarrow> ident \<Rightarrow> page_request \<Rightarrow> ('z crm_world_scheme, task_view list) io" where
  "task_List_of d c dealID page = then_io (lift_res (RequireTenant c))
     (bind_io (IsModuleEnabled d c ModuleTasks) (\<lambda>on. if \<not> on then return_io [] else
      bind_io (task_deal d c dealID) (\<lambda>_.
      bind_io (task_ListByDeal d c dealID (Normalize page)) (\<lambda>xs. task_views d c xs))))"

definition ListMine :: "'e crm_env_scheme \<Rightarrow> ctx \<Rightarrow> task_filter \<Rightarrow> page_request \<Rightarrow> ('z crm_world_scheme, task_view list) io" where
  "ListMine d c f page = then_io (lift_res (RequireTenant c))
     (bind_io (IsModuleEnabled d c ModuleTasks) (\<lambda>on. if \<not> on then return_io [] else
      (case ctx_auth c of
         None \<Rightarrow> throw_io (Unauthorized ''authentication required'')
       | Some ac \<Rightarrow>
          bind_io (task_repo_List d c (if ac_SectorScope ac \<noteq> ScopeAll then f\<lparr>tf_AssignedTo := ac_UserID ac\<rparr> else f) (Normalize page))
            (\<lambda>xs. task_views d c xs))))"

end
