(* ===== verification/Repo_Triple.thy ===== *)
theory Repo_Triple
  imports Repo_Unique
begin

text \<open>
  A small program logic for services that maintain an invariant across collections: what is read
  in one step justifies a write some steps later. The locale sees the world through a projection
  \<open>proj\<close>; \<open>inv\<close> is the invariant of the projected state and \<open>guar\<close> what every request promises of it
  from its first to its last step, failed or not.
\<close>

locale guarantee =
  fixes proj :: "'z base_world_scheme \<Rightarrow> 's" and inv :: "'s \<Rightarrow> bool" and guar :: "'s \<Rightarrow> 's \<Rightarrow> bool"
  assumes proj_tick: "proj (tick w) = proj w"
    and guar_refl: "guar s s"
    and guar_trans: "guar s t \<Longrightarrow> guar t u \<Longrightarrow> guar s u"
begin

definition quiet :: "'z base_world_scheme \<Rightarrow> 'z base_world_scheme \<Rightarrow> bool" where
  "quiet w w' \<longleftrightarrow> proj w' = proj w"

text \<open>\<open>triple P m Q\<close>: \<open>P\<close> and \<open>Q\<close> are about the projected state, \<open>Q\<close> also about the value.\<close>

definition triple :: "('s \<Rightarrow> bool) \<Rightarrow> ('z base_world_scheme, 'a) io \<Rightarrow> ('a \<Rightarrow> 's \<Rightarrow> bool) \<Rightarrow> bool" where
  "triple P m Q \<longleftrightarrow> (\<forall>w. inv (proj w) \<and> P (proj w) \<longrightarrow>
     wp m (\<lambda>x w'. inv (proj w') \<and> guar (proj w) (proj w') \<and> Q x (proj w'))
          (\<lambda>_ w'. inv (proj w') \<and> guar (proj w) (proj w')) w)"

lemma quiet_step: "io_step quiet"
  by unfold_locales (simp_all add: quiet_def proj_tick)

end

sublocale guarantee < quiet: io_step quiet
  by (rule quiet_step)

context guarantee begin

lemma tr_bind:
  assumes "triple P m R" "\<And>x. triple (R x) (f x) Q"
  shows "triple P (bind_io m f) Q"
  unfolding triple_def wp_bind
proof (intro allI impI)
  fix w assume "inv (proj w) \<and> P (proj w)"
  then have "wp m (\<lambda>x w'. inv (proj w') \<and> guar (proj w) (proj w') \<and> R x (proj w'))
      (\<lambda>_ w'. inv (proj w') \<and> guar (proj w) (proj w')) w"
    using assms(1) by (simp add: triple_def)
  then show "wp m (\<lambda>x. wp (f x) (\<lambda>x w'. inv (proj w') \<and> guar (proj w) (proj w') \<and> Q x (proj w'))
      (\<lambda>_ w'. inv (proj w') \<and> guar (proj w) (proj w'))) (\<lambda>_ w'. inv (proj w') \<and> guar (proj w) (proj w')) w"
  proof (rule wp_mono)
    fix x w1 assume h: "inv (proj w1) \<and> guar (proj w) (proj w1) \<and> R x (proj w1)"
    with assms(2) [of x] have "wp (f x) (\<lambda>x w'. inv (proj w') \<and> guar (proj w1) (proj w') \<and> Q x (proj w'))
        (\<lambda>_ w'. inv (proj w') \<and> guar (proj w1) (proj w')) w1" by (simp add: triple_def)
    then show "wp (f x) (\<lambda>x w'. inv (proj w') \<and> guar (proj w) (proj w') \<and> Q x (proj w'))
        (\<lambda>_ w'. inv (proj w') \<and> guar (proj w) (proj w')) w1"
      by (rule wp_mono) (use h guar_trans in blast)+
  qed
qed

lemma tr_then: "triple P m (\<lambda>_. R) \<Longrightarrow> triple R n Q \<Longrightarrow> triple P (then_io m n) Q"
  unfolding then_io_def by (rule tr_bind)

lemma tr_mono:
  assumes "triple P m Q" "\<And>s. inv s \<Longrightarrow> P' s \<Longrightarrow> P s" "\<And>x s. inv s \<Longrightarrow> Q x s \<Longrightarrow> Q' x s"
  shows "triple P' m Q'"
  unfolding triple_def
proof (intro allI impI)
  fix w assume "inv (proj w) \<and> P' (proj w)"
  then have "wp m (\<lambda>x w'. inv (proj w') \<and> guar (proj w) (proj w') \<and> Q x (proj w'))
      (\<lambda>_ w'. inv (proj w') \<and> guar (proj w) (proj w')) w"
    using assms(1,2) by (simp add: triple_def)
  then show "wp m (\<lambda>x w'. inv (proj w') \<and> guar (proj w) (proj w') \<and> Q' x (proj w'))
      (\<lambda>_ w'. inv (proj w') \<and> guar (proj w) (proj w')) w"
    by (rule wp_mono) (use assms(3) in auto)
qed

lemma tr_pre: "triple P m Q \<Longrightarrow> (\<And>s. inv s \<Longrightarrow> P' s \<Longrightarrow> P s) \<Longrightarrow> triple P' m Q"
  by (rule tr_mono)

lemma tr_post: "triple P m Q \<Longrightarrow> (\<And>x s. inv s \<Longrightarrow> Q x s \<Longrightarrow> Q' x s) \<Longrightarrow> triple P m Q'"
  by (rule tr_mono)

lemma tr_quiet: "framed quiet m \<Longrightarrow> triple P m (\<lambda>_. P)"
  unfolding triple_def by (auto intro!: wp_framed [where R = quiet] simp: quiet_def guar_refl)

lemma tr_quiet_returns: "framed quiet m \<Longrightarrow> returns m V \<Longrightarrow> triple P m (\<lambda>x s. P s \<and> V x)"
  unfolding triple_def
proof (intro allI impI)
  fix w assume f: "framed quiet m" and v: "returns m V" and w: "inv (proj w) \<and> P (proj w)"
  have q: "proj (snd (m w)) = proj w" using f by (simp add: framed_def quiet_def)
  then show "wp m (\<lambda>x w'. inv (proj w') \<and> guar (proj w) (proj w') \<and> P (proj w') \<and> V x)
      (\<lambda>_ w'. inv (proj w') \<and> guar (proj w) (proj w')) w"
    using v w by (cases "m w"; cases "fst (m w)") (auto simp: wp_def returns_def guar_refl)
qed

lemma tr_return: "(\<And>s. inv s \<Longrightarrow> P s \<Longrightarrow> Q x s) \<Longrightarrow> triple P (return_io x) Q"
  by (simp add: triple_def wp_return guar_refl)

lemma tr_done: "triple P (return_io x) (\<lambda>_. P)"
  by (rule tr_return)

lemma tr_throw: "triple P (throw_io e) Q"
  by (simp add: triple_def wp_throw guar_refl)

lemma tr_skip: "framed quiet m \<Longrightarrow> (\<And>x. triple P (f x) Q) \<Longrightarrow> triple P (bind_io m f) Q"
  by (rule tr_bind [OF tr_quiet])

lemma tr_skip_then: "framed quiet m \<Longrightarrow> triple P n Q \<Longrightarrow> triple P (then_io m n) Q"
  by (rule tr_then [OF tr_quiet])

lemma tr_lift: "(\<And>x. r = Inr x \<Longrightarrow> triple P (f x) Q) \<Longrightarrow> triple P (bind_io (lift_res r) f) Q"
  unfolding triple_def wp_bind wp_lift by (cases r) (auto simp: guar_refl)

lemma tr_lift_then: "(\<And>x. r = Inr x \<Longrightarrow> triple P m Q) \<Longrightarrow> triple P (then_io (lift_res r) m) Q"
  unfolding then_io_def by (rule tr_lift)

lemma tr_guard: "(\<not> b \<Longrightarrow> triple P m Q) \<Longrightarrow> triple P (then_io (guard_io b e) m) Q"
  unfolding triple_def wp_then wp_guard by (auto simp: guar_refl)

lemma tr_pure: "(\<And>s. inv s \<Longrightarrow> P s \<Longrightarrow> R) \<Longrightarrow> (R \<Longrightarrow> triple P m Q) \<Longrightarrow> triple P m Q"
  unfolding triple_def by blast

lemma tr_conj: "(R \<Longrightarrow> triple P m Q) \<Longrightarrow> triple (\<lambda>s. P s \<and> R) m Q"
  unfolding triple_def by blast

lemma tr_if: "(b \<Longrightarrow> triple P m Q) \<Longrightarrow> (\<not> b \<Longrightarrow> triple P n Q) \<Longrightarrow> triple P (if b then m else n) Q"
  by simp

lemma tr_for: "(\<And>x. x \<in> set xs \<Longrightarrow> triple P (body x) (\<lambda>_. P)) \<Longrightarrow> triple P (for_io xs body) (\<lambda>_. P)"
  by (induction xs) (auto intro: tr_done tr_then)

text \<open>A query tells its answer about the projected state.\<close>

lemma tr_query:
  assumes "\<And>w. coll w = f (proj w)" "\<And>w. coll (tick w) = coll w"
  shows "triple P (repo_query d c coll q) (\<lambda>x s. P s \<and> (\<exists>t. RequireTenant c = Inr t \<and> q t (f s) = Inr x))"
  unfolding triple_def repo_query_def wp_bind wp_lift wp_db_call
  by (auto simp: wp_def assms(2) proj_tick guar_refl map_err_def assms(1) split: option.split sum.split)

lemma tr_try_query:
  assumes "\<And>w. coll w = f (proj w)" "\<And>w. coll (tick w) = coll w"
  shows "triple P (try_io (repo_query d c coll q)) (\<lambda>r s. P s \<and> (\<forall>x. r = Inr x \<longrightarrow> (\<exists>t. RequireTenant c = Inr t \<and> q t (f s) = Inr x)))"
  unfolding triple_def repo_query_def wp_bind wp_lift wp_db_call wp_try
  by (auto simp: wp_def assms(2) proj_tick guar_refl map_err_def assms(1) split: option.split sum.split)

text \<open>A write: the invariant and the promise after it follow from what is known before it.\<close>

lemma tr_write:
  assumes "\<And>w t ds. RequireTenant c = Inr t \<Longrightarrow> inv (proj w) \<Longrightarrow> P (proj w) \<Longrightarrow> f t (coll w) = Inr ds \<Longrightarrow>
      inv (proj (put ds w)) \<and> guar (proj w) (proj (put ds w)) \<and> Q (proj (put ds w))"
    and "\<And>w ds. proj (put ds (tick w)) = proj (put ds w)" "\<And>w. coll (tick w) = coll w"
  shows "triple P (repo_write d c coll put f) (\<lambda>_. Q)"
  unfolding triple_def repo_write_def wp_bind wp_lift wp_db_call
  using assms(1) by (auto simp: wp_def assms(2,3) proj_tick guar_refl split: option.split sum.split)

text \<open>Requests one after the other.\<close>

lemma tr_keeps: "triple (\<lambda>_. True) m Q \<Longrightarrow> inv (proj w) \<Longrightarrow> inv (proj (snd (m w))) \<and> guar (proj w) (proj (snd (m w)))"
  by (cases "m w"; cases "fst (m w)") (auto simp: triple_def wp_def)

end

end
