(* ===== verification/Shop.thy ===== *)
theory Shop
  imports Deal_Tasks Repo_Triple
begin

text \<open>
  What the sales module keeps consistent: well-formed pipelines with one default for each tenant,
  products, deals whose value is the sum of their lines, tasks, and every deal in a stage of its
  own pipeline. This theory states it and shows that each repository write keeps it.
\<close>

section \<open>The shop\<close>

record shop =
  s_pipelines :: "pipeline list"
  s_products :: "product list"
  s_deals :: "deal list"
  s_tasks :: "deal_task list"

definition shop_of :: "'z crm_world_scheme \<Rightarrow> shop" where
  "shop_of w = \<lparr>s_pipelines = pipelines w, s_products = products w, s_deals = deals w, s_tasks = deal_tasks w\<rparr>"

lemma shop_of_sel [simp]:
  "s_pipelines (shop_of w) = pipelines w" "s_products (shop_of w) = products w"
  "s_deals (shop_of w) = deals w" "s_tasks (shop_of w) = deal_tasks w"
  by (simp_all add: shop_of_def)

definition pipeline_ok :: "pipeline \<Rightarrow> bool" where
  "pipeline_ok p \<longleftrightarrow> pipeline_Validate p = []"

definition product_ok :: "product \<Rightarrow> bool" where
  "product_ok p \<longleftrightarrow> po_Name p \<noteq> [] \<and> po_Price p \<ge> 0"

definition lines_ok :: "(rat \<Rightarrow> float64) \<Rightarrow> deal \<Rightarrow> bool" where
  "lines_ok r x \<longleftrightarrow> (\<forall>it \<in> set (de_Items x). di_Quantity it > 0 \<and> di_UnitPrice it \<ge> 0 \<and> di_Total it = line_total r it)
     \<and> (de_Items x \<noteq> [] \<longrightarrow> de_Value x = lines_sum r (de_Items x))"

definition status_ok :: "deal \<Rightarrow> bool" where
  "status_ok x \<longleftrightarrow> (de_Status x = DealOpen \<and> de_ClosedAt x = None)
     \<or> (de_Status x \<in> {DealWon, DealLost} \<and> de_ClosedAt x \<noteq> None)"

definition deal_ok :: "(rat \<Rightarrow> float64) \<Rightarrow> deal \<Rightarrow> bool" where
  "deal_ok r x \<longleftrightarrow> de_Title x \<noteq> [] \<and> de_Value x \<ge> 0 \<and> lines_ok r x \<and> status_ok x
     \<and> distinct (de_Tags x) \<and> [] \<notin> set (de_Tags x) \<and> distinct (de_ConversationIDs x) \<and> [] \<notin> set (de_ConversationIDs x)"

definition task_ok :: "deal_task \<Rightarrow> bool" where
  "task_ok x \<longleftrightarrow> tk_Title x \<noteq> [] \<and> ((tk_Status x = TaskPending \<and> tk_CompletedAt x = None) \<or> (tk_Status x = TaskDone \<and> tk_CompletedAt x \<noteq> None))"

interpretation funnel: tenant_store pl_ID pl_TenantID pipeline_set pipelines
  "put_pipelines :: pipeline list \<Rightarrow> 'z crm_world_scheme \<Rightarrow> 'z crm_world_scheme" pipeline_ok
  by unfold_locales (simp_all add: pipeline_set_def tick_def pipeline_ok_def pipeline_Validate_def split: if_splits)

interpretation catalog: tenant_store po_ID po_TenantID product_set products
  "put_products :: product list \<Rightarrow> 'z crm_world_scheme \<Rightarrow> 'z crm_world_scheme" product_ok
  by unfold_locales (simp_all add: product_set_def tick_def product_ok_def)

interpretation deck: tenant_store de_ID de_TenantID deal_set deals
  "put_deals :: deal list \<Rightarrow> 'z crm_world_scheme \<Rightarrow> 'z crm_world_scheme" "deal_ok r" for r
  by unfold_locales (simp_all add: deal_set_def tick_def deal_ok_def lines_ok_def status_ok_def)

interpretation todo: tenant_store tk_ID tk_TenantID task_set deal_tasks
  "put_tasks :: deal_task list \<Rightarrow> 'z crm_world_scheme \<Rightarrow> 'z crm_world_scheme" task_ok
  by unfold_locales (simp_all add: task_set_def tick_def task_ok_def)

text \<open>The deal's stage is one of its pipeline.\<close>

definition placed :: "pipeline list \<Rightarrow> deal \<Rightarrow> bool" where
  "placed ps x \<longleftrightarrow> (\<exists>p \<in> set ps. pl_ID p = de_PipelineID x \<and> pl_TenantID p = de_TenantID x \<and> de_StageID x \<in> sg_ID ` set (pl_Stages p))"

definition one_default :: "pipeline list \<Rightarrow> bool" where
  "one_default ps \<longleftrightarrow> (\<forall>p \<in> set ps. \<forall>q \<in> set ps. pl_TenantID p = pl_TenantID q \<and> pl_IsDefault p \<and> pl_IsDefault q \<longrightarrow> pl_ID p = pl_ID q)"

definition shop_ok :: "bool \<Rightarrow> (rat \<Rightarrow> float64) \<Rightarrow> shop \<Rightarrow> bool" where
  "shop_ok b r s \<longleftrightarrow> distinct (map pl_ID (s_pipelines s)) \<and> (\<forall>p \<in> set (s_pipelines s). pipeline_ok p) \<and> one_default (s_pipelines s)
     \<and> distinct (map po_ID (s_products s)) \<and> (\<forall>p \<in> set (s_products s). product_ok p)
     \<and> distinct (map de_ID (s_deals s)) \<and> (\<forall>x \<in> set (s_deals s). deal_ok r x)
     \<and> distinct (map tk_ID (s_tasks s)) \<and> (\<forall>x \<in> set (s_tasks s). task_ok x)
     \<and> (b \<longrightarrow> (\<forall>x \<in> set (s_deals s). placed (s_pipelines s) x))"

definition same_for :: "ident \<Rightarrow> shop \<Rightarrow> shop \<Rightarrow> bool" where
  "same_for t s s' \<longleftrightarrow> filter (\<lambda>p. pl_TenantID p = t) (s_pipelines s') = filter (\<lambda>p. pl_TenantID p = t) (s_pipelines s)
     \<and> filter (\<lambda>p. po_TenantID p = t) (s_products s') = filter (\<lambda>p. po_TenantID p = t) (s_products s)
     \<and> filter (\<lambda>x. de_TenantID x = t) (s_deals s') = filter (\<lambda>x. de_TenantID x = t) (s_deals s)
     \<and> filter (\<lambda>x. tk_TenantID x = t) (s_tasks s') = filter (\<lambda>x. tk_TenantID x = t) (s_tasks s)"

definition others_same :: "ctx \<Rightarrow> shop \<Rightarrow> shop \<Rightarrow> bool" where
  "others_same c s s' \<longleftrightarrow> (\<forall>t. ctx_tenant c \<noteq> Some t \<longrightarrow> same_for t s s')"

lemma shop_ok_stores: "shop_ok b r s \<longleftrightarrow> funnel.all_ok (s_pipelines s) \<and> one_default (s_pipelines s) \<and> catalog.all_ok (s_products s)
     \<and> deck.all_ok r (s_deals s) \<and> todo.all_ok (s_tasks s) \<and> (b \<longrightarrow> (\<forall>x \<in> set (s_deals s). placed (s_pipelines s) x))"
  by (auto simp: shop_ok_def funnel.all_ok_def catalog.all_ok_def deck.all_ok_def todo.all_ok_def)

lemma others_same_owned: "others_same c s s' \<longleftrightarrow> (\<forall>t. ctx_tenant c \<noteq> Some t \<longrightarrow> funnel.owned t (s_pipelines s') = funnel.owned t (s_pipelines s)
     \<and> catalog.owned t (s_products s') = catalog.owned t (s_products s) \<and> deck.owned t (s_deals s') = deck.owned t (s_deals s)
     \<and> todo.owned t (s_tasks s') = todo.owned t (s_tasks s))"
  by (simp add: others_same_def same_for_def funnel.owned_def catalog.owned_def deck.owned_def todo.owned_def)

interpretation shop: guarantee "shop_of :: 'z crm_world_scheme \<Rightarrow> shop" "shop_ok b r" "others_same c" for b r c
  by unfold_locales (simp_all add: shop_of_def tick_def others_same_def same_for_def)

section \<open>Steps that leave the shop alone\<close>

lemma shop_read:
  "pipelines w = s_pipelines (shop_of w)" "products w = s_products (shop_of w)" "deals w = s_deals (shop_of w)" "deal_tasks w = s_tasks (shop_of w)"
  by simp_all

locale crm_quiet = io_step R for R :: "'z crm_world_scheme \<Rightarrow> 'z crm_world_scheme \<Rightarrow> bool" +
  assumes R_configs: "R w (w\<lparr>crm_configs := ss\<rparr>)" and R_timeline: "R w (w\<lparr>timeline := es\<rparr>)"
    and R_effects: "R w (w\<lparr>effects := fs\<rparr>)"
begin

lemma fr_db: "framed R m \<Longrightarrow> framed R (db_call d m)"
  unfolding framed_def db_call_def using rel_tick rel_trans by (auto split: option.split) blast

lemma fr_write: "(\<And>w ds. R w (put ds w)) \<Longrightarrow> framed R (repo_write d c coll put f)"
  unfolding repo_write_def
  by (intro fr_bind fr_lift fr_db) (auto simp: framed_def rel_refl split: sum.split)

lemma fr_ask: "framed R (ask f)"
  by (simp add: framed_def ask_def rel_tick)

lemma fr_log: "framed R (log_effect e)"
  by (simp add: framed_def log_effect_def modify_io_def R_effects)

lemma fr_audit: "framed R (crm_audit c a i m)" "framed R (auditMove c i a)"
  by (simp_all add: crm_audit_def auditMove_def fr_log)

lemma fr_publish: "framed R (PublishAll d evs)" "framed R (publishDeal d x ev i a)"
proof -
  have "framed R (modify_io (\<lambda>w. w\<lparr>effects := g w\<rparr>))" for g by (simp add: framed_def modify_io_def R_effects)
  then show p: "framed R (PublishAll d evs)" for evs unfolding PublishAll_def by (intro fr_if fr_return fr_ignore fr_db)
  show "framed R (publishDeal d x ev i a)" unfolding publishDeal_def by (rule p)
qed

lemma fr_record: "framed R (timeline_Record d c i k a m)"
  unfolding timeline_Record_def timeline_Append_def
  by (auto intro!: fr_return fr_bind fr_new_id fr_now fr_ignore fr_write R_timeline split: sum.split)

lemma fr_records: "framed R (recordTimeline d c i k a m)" "framed R (recordStageMove d c x fs ft a)"
    "framed R (recordItem d c x k it)" "framed R (task_record d c tk k)"
  unfolding recordStageMove_def recordItem_def recordTimeline_def task_record_def
  by (intro fr_then fr_when fr_if fr_record)+

lemma fr_settings: "framed R (settings_Get d c)" "framed R (IsModuleEnabled d c m)" "framed R (require_module d c m t)"
proof -
  show g: "framed R (settings_Get d c)" unfolding settings_Get_def settings_repo_Get_def
    by (auto intro!: fr_bind fr_lift fr_try fr_query fr_return fr_throw split: sum.split)
  show i: "framed R (IsModuleEnabled d c m)" for m unfolding IsModuleEnabled_def by (intro fr_bind g fr_return)
  show "framed R (require_module d c m t)" unfolding require_module_def by (intro fr_then fr_lift fr_bind i fr_guard)
qed

lemma fr_settings_Update: "framed R (settings_Update d c cmd)"
  unfolding settings_Update_def settings_Upsert_def Let_def
  by (intro fr_bind fr_settings fr_now fr_then fr_write R_configs fr_audit fr_return)

lemma fr_pattern: "framed R (pattern_page d c coll q f p cr k page)"
  unfolding pattern_page_def by (intro fr_then fr_bind fr_lift fr_query)

lemma fr_deal_Find: "framed R (deal_FindByID d c i)"
  unfolding deal_FindByID_def by (rule fr_query)

lemma fr_pipelines: "framed R (pipeline_List d c)" "framed R (pipeline_Get d c i)" "framed R (pipeline_Default d c)"
proof -
  show l: "framed R (pipeline_List d c)" unfolding pipeline_List_def pipeline_repo_List_def
    by (intro fr_then fr_lift fr_bind fr_query fr_return)
  show "framed R (pipeline_Get d c i)" unfolding pipeline_Get_def pipeline_FindByID_def
    by (intro fr_then fr_lift fr_bind fr_query fr_return)
  show "framed R (pipeline_Default d c)" unfolding pipeline_Default_def
    by (auto intro!: fr_bind l fr_return fr_throw split: option.split list.split)
qed

lemma fr_ensureVisible: "framed R (ensureVisible d c i)"
  unfolding ensureVisible_def by (auto intro!: fr_bind fr_deal_Find fr_return fr_throw split: option.split)

lemma fr_feed: "framed R (enrich_feed d c x es)"
  unfolding enrich_feed_def agentCards_def stageNames_def Let_def
  by (auto intro!: fr_bind fr_return fr_try fr_ask fr_pipelines split: option.split)

lemma fr_comment: "framed R (timeline_Comment d c i txt)" "framed R (timeline_Feed d c i page)"
  unfolding timeline_Comment_def timeline_Feed_def timeline_Append_def timeline_ListByDeal_def Let_def
  by (intro fr_bind fr_then fr_lift fr_guard fr_settings fr_ensureVisible fr_new_id fr_now fr_write R_timeline fr_feed fr_return fr_if fr_query)+

lemma fr_requireContact: "framed R (requireContact d c i)"
  unfolding requireContact_def ContactExists_def contact_Get_def contact_FindByID_def Let_def
  by (auto intro!: fr_bind fr_then fr_lift fr_try fr_query fr_return fr_throw fr_guard split: sum.split)

lemma fr_validateTags: "framed R (validateTags d c ids)"
  unfolding validateTags_def Let_def by (auto intro!: fr_return fr_then fr_ask split: option.split)

lemma fr_deal_forms: "framed R (deal_contact d c o1 x)" "framed R (deal_tags d c o2 x)"
  unfolding deal_contact_def deal_tags_def
  by (auto intro!: fr_return fr_then fr_bind fr_requireContact fr_validateTags split: option.split)

lemma fr_notifyMoved: "framed R (notifyMoved d c x)"
  unfolding notifyMoved_def moveAudience_def
  by (auto intro!: fr_bind fr_return fr_try fr_ask fr_for fr_log split: option.split)

lemma fr_conv_Find: "framed R (conv_FindByID d c i)"
  unfolding conv_FindByID_def conv_query_def by (intro fr_bind fr_lift fr_db) (simp add: framed_def rel_refl)

lemma fr_task_forms: "framed R (task_deal d' c i)" "framed R (validateAssignee d c u)" "framed R (task_assign d c o1 x)"
    "framed R (notifyAssignee c x)" "framed R (task_views d c xs)" "framed R (task_view_of d c x)" "framed R (task_guard d' c)"
proof -
  show v: "framed R (validateAssignee d c u)" for u unfolding validateAssignee_def
    by (auto intro!: fr_return fr_bind fr_ask fr_guard split: option.split)
  show "framed R (task_deal d' c i)" unfolding task_deal_def by (intro fr_then fr_guard fr_ensureVisible)
  show "framed R (task_assign d c o1 x)" unfolding task_assign_def by (auto intro!: fr_return fr_then v split: option.split)
  show "framed R (notifyAssignee c x)" unfolding notifyAssignee_def by (intro fr_when fr_log)
  show "framed R (task_guard d' c)" unfolding task_guard_def by (rule fr_settings)
  have "framed R (cardsFor d c xs)" for xs unfolding cardsFor_def Let_def
    by (auto intro!: fr_return fr_bind fr_try fr_ask split: option.split)
  then show "framed R (task_views d c xs)" "framed R (task_view_of d c x)"
    unfolding task_views_def task_view_of_def by (auto intro!: fr_bind fr_return)
qed

end

interpretation steady: crm_quiet "shop.quiet :: 'z crm_world_scheme \<Rightarrow> 'z crm_world_scheme \<Rightarrow> bool"
  by unfold_locales (simp_all add: shop.quiet_def shop_of_def tick_def)

end
