(* ===== verification/Shop_Writes.thy ===== *)
theory Shop_Writes
  imports Shop
begin

text \<open>
  The reads and writes of the sales repositories as triples over the shop: what a lookup teaches,
  and what has to be known for a write to keep the shop consistent.
\<close>

section \<open>What the requests know\<close>

text \<open>Deals of the pipeline are in its stages; no other pipeline of the tenant is the default.\<close>

definition covers :: "pipeline \<Rightarrow> shop \<Rightarrow> bool" where
  "covers p s \<longleftrightarrow> (\<forall>x \<in> set (s_deals s). de_TenantID x = pl_TenantID p \<and> de_PipelineID x = pl_ID p \<longrightarrow> de_StageID x \<in> sg_ID ` set (pl_Stages p))"

definition alone :: "pipeline \<Rightarrow> shop \<Rightarrow> bool" where
  "alone p s \<longleftrightarrow> (\<forall>q \<in> set (s_pipelines s). pl_TenantID q = pl_TenantID p \<and> pl_IsDefault q \<longrightarrow> pl_ID q = pl_ID p)"

definition offers :: "pipeline list \<Rightarrow> pipeline \<Rightarrow> bool" where
  "offers ps p \<longleftrightarrow> (\<exists>q \<in> set ps. pl_ID q = pl_ID p \<and> pl_TenantID q = pl_TenantID p \<and> sg_ID ` set (pl_Stages q) = sg_ID ` set (pl_Stages p))"

lemma offered_placed: "offers ps p \<Longrightarrow> de_PipelineID x = pl_ID p \<Longrightarrow> de_TenantID x = pl_TenantID p \<Longrightarrow>
    de_StageID x \<in> sg_ID ` set (pl_Stages p) \<Longrightarrow> placed ps x"
  unfolding offers_def placed_def by metis

lemma stored_covers:
  assumes "shop_ok True r s" "p \<in> set (s_pipelines s)" shows "covers p s"
proof -
  have "p = q" if "q \<in> set (s_pipelines s)" "pl_ID q = pl_ID p" for q
    using assms that by (auto simp: shop_ok_def distinct_map dest: inj_onD)
  with assms show ?thesis unfolding covers_def shop_ok_def placed_def by metis
qed

lemma one_defaultD: "one_default ps \<Longrightarrow> p \<in> set ps \<Longrightarrow> q \<in> set ps \<Longrightarrow> pl_TenantID p = pl_TenantID q \<Longrightarrow>
    pl_IsDefault p \<Longrightarrow> pl_IsDefault q \<Longrightarrow> pl_ID p = pl_ID q"
  unfolding one_default_def by blast

lemma shop_one_default: "shop_ok b r s \<Longrightarrow> one_default (s_pipelines s)"
  by (simp add: shop_ok_def)

lemma one_default_snoc:
  assumes "one_default ps" "pl_IsDefault p \<longrightarrow> (\<forall>q \<in> set ps. pl_TenantID q \<noteq> pl_TenantID p)"
  shows "one_default (ps @ [p])"
  unfolding one_default_def set_append list.set Un_insert_right Un_empty_right
proof (intro ballI impI, elim conjE insertE)
  fix x y :: pipeline assume h: "pl_TenantID x = pl_TenantID y" "pl_IsDefault x" "pl_IsDefault y"
  show "x \<in> set ps \<Longrightarrow> y \<in> set ps \<Longrightarrow> pl_ID x = pl_ID y" by (rule one_defaultD [OF assms(1) _ _ h])
  show "x = p \<Longrightarrow> y = p \<Longrightarrow> pl_ID x = pl_ID y" by simp
  show "x = p \<Longrightarrow> y \<in> set ps \<Longrightarrow> pl_ID x = pl_ID y" using assms(2) h by fastforce
  show "x \<in> set ps \<Longrightarrow> y = p \<Longrightarrow> pl_ID x = pl_ID y" using assms(2) h by fastforce
qed

lemma one_default_map:
  assumes "one_default ps" "\<And>q. pl_ID (f q) = pl_ID q \<and> pl_TenantID (f q) = pl_TenantID q \<and> (pl_IsDefault (f q) \<longrightarrow> pl_IsDefault q)"
  shows "one_default (map f ps)"
  unfolding one_default_def
proof (intro ballI impI, elim conjE)
  fix x y assume x: "x \<in> set (map f ps)" and y: "y \<in> set (map f ps)"
    and same: "pl_TenantID x = pl_TenantID y" "pl_IsDefault x" "pl_IsDefault y"
  obtain p where p: "x = f p" "p \<in> set ps" using x unfolding set_map by (rule imageE)
  obtain q where q: "y = f q" "q \<in> set ps" using y unfolding set_map by (rule imageE)
  from one_defaultD [OF assms(1) p(2) q(2)] same assms(2) [of p] assms(2) [of q] p(1) q(1) show "pl_ID x = pl_ID y" by simp
qed

lemma stored_alone: "shop_ok b r s \<Longrightarrow> p \<in> set (s_pipelines s) \<Longrightarrow> pl_IsDefault p \<Longrightarrow> alone p s"
  unfolding shop_ok_def one_default_def alone_def by metis

lemma stored_ok:
  "shop_ok b r s \<Longrightarrow> p \<in> set (s_pipelines s) \<Longrightarrow> pipeline_ok p"
  "shop_ok b r s \<Longrightarrow> q \<in> set (s_products s) \<Longrightarrow> product_ok q"
  "shop_ok b r s \<Longrightarrow> x \<in> set (s_deals s) \<Longrightarrow> deal_ok r x"
  "shop_ok b r s \<Longrightarrow> k \<in> set (s_tasks s) \<Longrightarrow> task_ok k"
  "shop_ok True r s \<Longrightarrow> x \<in> set (s_deals s) \<Longrightarrow> placed (s_pipelines s) x"
  by (simp_all add: shop_ok_def)

section \<open>Reads\<close>

text \<open>A document of the tenant's.\<close>

definition stored :: "ctx \<Rightarrow> ('d \<Rightarrow> ident) \<Rightarrow> 'd list \<Rightarrow> 'd \<Rightarrow> bool" where
  "stored c tenant ds x \<longleftrightarrow> x \<in> set ds \<and> RequireTenant c = Inr (tenant x)"

lemma find_one_Inr: "find_one p ds = Inr x \<Longrightarrow> x \<in> set ds \<and> p x"
  by (auto simp: find_one_def find_Some_iff in_set_conv_nth split: option.splits)

lemma tr_reads:
  "shop.triple b r c P (repo_query d c' pipelines q1) (\<lambda>x s. P s \<and> (\<exists>t. RequireTenant c' = Inr t \<and> q1 t (s_pipelines s) = Inr x))"
  "shop.triple b r c P (repo_query d c' products q2) (\<lambda>x s. P s \<and> (\<exists>t. RequireTenant c' = Inr t \<and> q2 t (s_products s) = Inr x))"
  "shop.triple b r c P (repo_query d c' deals q3) (\<lambda>x s. P s \<and> (\<exists>t. RequireTenant c' = Inr t \<and> q3 t (s_deals s) = Inr x))"
  "shop.triple b r c P (repo_query d c' deal_tasks q4) (\<lambda>x s. P s \<and> (\<exists>t. RequireTenant c' = Inr t \<and> q4 t (s_tasks s) = Inr x))"
  by (rule shop.tr_query; simp add: tick_def)+

lemma tr_pipeline_Find: "shop.triple b r c P (pipeline_FindByID d c i) (\<lambda>p s. P s \<and> stored c pl_TenantID (s_pipelines s) p \<and> pl_ID p = i)"
  unfolding pipeline_FindByID_def
  by (rule shop.tr_post [OF tr_reads(1)])
     (auto simp: pipeline_by_def stored_def dest!: find_one_Inr)

lemma tr_product_Find: "shop.triple b r c P (product_FindByID d c i) (\<lambda>p s. P s \<and> stored c po_TenantID (s_products s) p \<and> po_ID p = i)"
  unfolding product_FindByID_def
  by (rule shop.tr_post [OF tr_reads(2)])
     (auto simp: product_by_def stored_def dest!: find_one_Inr)

lemma tr_deal_Find: "shop.triple b r c P (deal_FindByID d c i) (\<lambda>x s. P s \<and> stored c de_TenantID (s_deals s) x \<and> de_ID x = i)"
  unfolding deal_FindByID_def
  by (rule shop.tr_post [OF tr_reads(3)])
     (auto simp: deal_by_def stored_def dest!: find_one_Inr)

lemma tr_task_Find: "shop.triple b r c P (task_FindByID d c i) (\<lambda>x s. P s \<and> stored c tk_TenantID (s_tasks s) x \<and> tk_ID x = i)"
  unfolding task_FindByID_def
  by (rule shop.tr_post [OF tr_reads(4)])
     (auto simp: task_by_def stored_def dest!: find_one_Inr)

lemma tr_Count: "shop.triple b r c P (CountByTenant d c)
    (\<lambda>n s. P s \<and> (n = 0 \<longrightarrow> (\<forall>t. RequireTenant c = Inr t \<longrightarrow> (\<forall>p \<in> set (s_pipelines s). pl_TenantID p \<noteq> t))))"
  unfolding CountByTenant_def
  by (rule shop.tr_post [OF tr_reads(1)]) (auto simp: count_docs_def filter_empty_conv)

lemma tr_StageHasDeals: "shop.triple b r c P (StageHasDeals d c pid sid) (\<lambda>has s. P s \<and> (\<not> has \<longrightarrow>
    (\<forall>t. RequireTenant c = Inr t \<longrightarrow> (\<forall>x \<in> set (s_deals s). de_TenantID x = t \<and> de_PipelineID x = pid \<longrightarrow> de_StageID x \<noteq> sid))))"
  unfolding StageHasDeals_def CountByStage_def
  by (rule shop.tr_bind [OF tr_reads(3)], rule shop.tr_return)
     (auto simp: count_docs_def filter_empty_conv)

lemma tr_ByConversation: "shop.triple b r c P (deals_FindByConversation d c i) (\<lambda>xs s. P s \<and> (\<forall>x \<in> set xs. stored c de_TenantID (s_deals s) x))"
  unfolding deals_FindByConversation_def
  by (rule shop.tr_post [OF tr_reads(3)]) (auto simp: stored_def)

definition available :: "ctx \<Rightarrow> shop \<Rightarrow> pipeline \<Rightarrow> bool" where
  "available c s p \<longleftrightarrow> offers (s_pipelines s) p \<and> RequireTenant c = Inr (pl_TenantID p)"

lemma SortStages_fields [simp]: "pl_ID (SortStages p) = pl_ID p" "pl_TenantID (SortStages p) = pl_TenantID p"
  "pl_IsDefault (SortStages p) = pl_IsDefault p" "pl_Name (SortStages p) = pl_Name p" "set (pl_Stages (SortStages p)) = set (pl_Stages p)"
  by (simp_all add: SortStages_def)

lemma sorted_available: "stored c pl_TenantID (s_pipelines s) p \<Longrightarrow> available c s (SortStages p)"
  by (auto simp: available_def offers_def stored_def)

lemma tr_pipeline_Get: "shop.triple b r c P (pipeline_Get d c i) (\<lambda>p s. P s \<and> available c s p \<and> pl_ID p = i)"
  unfolding pipeline_Get_def
  by (intro shop.tr_lift_then shop.tr_bind [OF tr_pipeline_Find] shop.tr_return) (auto intro: sorted_available)

lemma tr_pipeline_List: "shop.triple b r c P (pipeline_List d c) (\<lambda>ps s. P s \<and> (\<forall>p \<in> set ps. available c s p))"
  unfolding pipeline_List_def pipeline_repo_List_def
  by (intro shop.tr_lift_then shop.tr_bind [OF tr_reads(1)] shop.tr_return)
     (auto simp: stored_def intro: sorted_available)

lemma tr_pipeline_Default: "shop.triple b r c P (pipeline_Default d c) (\<lambda>p s. P s \<and> available c s p)"
  unfolding pipeline_Default_def
proof (rule shop.tr_bind [OF tr_pipeline_List])
  fix ps
  show "shop.triple b r c (\<lambda>s. P s \<and> (\<forall>p \<in> set ps. available c s p)) (case find pl_IsDefault ps of Some p \<Rightarrow> return_io p
      | None \<Rightarrow> (case ps of p # _ \<Rightarrow> return_io p | [] \<Rightarrow> throw_io (NotFound ''no pipeline configured for this tenant'')))
      (\<lambda>p s. P s \<and> available c s p)"
    by (auto intro!: shop.tr_return shop.tr_throw dest: find_Some_in split: option.split list.split)
qed

lemma index_where_Some: "index_where p xs = Some k \<Longrightarrow> k < length xs \<and> p (xs ! k)"
  by (induction xs arbitrary: k) (auto split: if_splits)

lemma findStage_in: "findStage p i = Some st \<Longrightarrow> st \<in> set (pl_Stages p)"
  by (auto simp: findStage_def StageIndex_def dest!: index_where_Some)

lemma tr_resolve: "shop.triple b r c P (resolvePipelineStage d c pid sid)
    (\<lambda>(p, st) s. P s \<and> available c s p \<and> st \<in> set (pl_Stages p))"
proof -
  have pick: "shop.triple b r c P (if trim_space pid \<noteq> [] then pipeline_Get d c pid else pipeline_Default d c) (\<lambda>p s. P s \<and> available c s p)"
    by (intro shop.tr_if shop.tr_post [OF tr_pipeline_Get] tr_pipeline_Default) simp
  have same: "available c s (SortStages p) = available c s p" for s p by (simp add: available_def offers_def)
  have first: "pl_Stages p \<noteq> [] \<Longrightarrow> hd (pl_Stages (SortStages p)) \<in> set (pl_Stages p)" for p
    by (metis SortStages_fields(5) hd_in_set set_empty)
  have stage: "findStage (SortStages p) sid = Some st \<Longrightarrow> st \<in> set (pl_Stages p)" for p st
    using findStage_in [of "SortStages p" sid st] by simp
  show ?thesis unfolding resolvePipelineStage_def Let_def
    by (rule shop.tr_bind [OF pick], rule shop.tr_guard)
       (auto intro!: shop.tr_return shop.tr_throw simp: same first stage split: option.split)
qed

section \<open>Writes\<close>

lemma put_shop [simp]:
  "shop_of (put_pipelines ps w) = (shop_of w)\<lparr>s_pipelines := ps\<rparr>"
  "shop_of (put_products qs w) = (shop_of w)\<lparr>s_products := qs\<rparr>"
  "shop_of (put_deals ds w) = (shop_of w)\<lparr>s_deals := ds\<rparr>"
  "shop_of (put_tasks ts w) = (shop_of w)\<lparr>s_tasks := ts\<rparr>"
  by (simp_all add: shop_of_def)

lemma shop_set_pipelines: "shop_ok b r s \<Longrightarrow> funnel.all_ok ps \<and> (\<forall>u. u \<noteq> t \<longrightarrow> funnel.owned u ps = funnel.owned u (s_pipelines s)) \<Longrightarrow>
    one_default ps \<Longrightarrow> (b \<Longrightarrow> \<forall>x \<in> set (s_deals s). placed ps x) \<Longrightarrow> RequireTenant c = Inr t \<Longrightarrow>
    shop_ok b r (s\<lparr>s_pipelines := ps\<rparr>) \<and> others_same c s (s\<lparr>s_pipelines := ps\<rparr>)"
  by (auto simp: shop_ok_stores others_same_owned RequireTenant_Inr)

lemma shop_set_products: "shop_ok b r s \<Longrightarrow> catalog.all_ok ps \<and> (\<forall>u. u \<noteq> t \<longrightarrow> catalog.owned u ps = catalog.owned u (s_products s)) \<Longrightarrow>
    RequireTenant c = Inr t \<Longrightarrow> shop_ok b r (s\<lparr>s_products := ps\<rparr>) \<and> others_same c s (s\<lparr>s_products := ps\<rparr>)"
  by (auto simp: shop_ok_stores others_same_owned RequireTenant_Inr)

lemma shop_set_deals: "shop_ok b r s \<Longrightarrow> deck.all_ok r ds \<and> (\<forall>u. u \<noteq> t \<longrightarrow> deck.owned u ds = deck.owned u (s_deals s)) \<Longrightarrow>
    (b \<Longrightarrow> \<forall>x \<in> set ds. placed (s_pipelines s) x) \<Longrightarrow> RequireTenant c = Inr t \<Longrightarrow>
    shop_ok b r (s\<lparr>s_deals := ds\<rparr>) \<and> others_same c s (s\<lparr>s_deals := ds\<rparr>)"
  by (auto simp: shop_ok_stores others_same_owned RequireTenant_Inr)

lemma shop_set_tasks: "shop_ok b r s \<Longrightarrow> todo.all_ok ts \<and> (\<forall>u. u \<noteq> t \<longrightarrow> todo.owned u ts = todo.owned u (s_tasks s)) \<Longrightarrow>
    RequireTenant c = Inr t \<Longrightarrow> shop_ok b r (s\<lparr>s_tasks := ts\<rparr>) \<and> others_same c s (s\<lparr>s_tasks := ts\<rparr>)"
  by (auto simp: shop_ok_stores others_same_owned RequireTenant_Inr)

subsection \<open>Pipelines\<close>

lemma placed_mono: "placed ps x \<Longrightarrow> set ps \<subseteq> set ps' \<Longrightarrow> placed ps' x"
  by (auto simp: placed_def)

lemma tr_pipeline_create:
  assumes p: "pipeline_ok p" "RequireTenant c = Inr (pl_TenantID p)"
  shows "shop.triple b r c (\<lambda>s. pl_IsDefault p \<longrightarrow> (\<forall>q \<in> set (s_pipelines s). pl_TenantID q \<noteq> pl_TenantID p)) (pipeline_repo_Create d c p) (\<lambda>_ _. True)"
  unfolding pipeline_repo_Create_def
proof (rule shop.tr_write)
  fix w :: "'z crm_world_scheme" and t ps
  assume t: "RequireTenant c = Inr t" and ok: "shop_ok b r (shop_of w)"
    and free: "pl_IsDefault p \<longrightarrow> (\<forall>q \<in> set (s_pipelines (shop_of w)). pl_TenantID q \<noteq> pl_TenantID p)"
    and ins: "insert_one pl_ID p (pipelines w) = Inr ps"
  have ps: "ps = pipelines w @ [p]" using ins by (auto simp: insert_one_def split: if_splits)
  have "funnel.all_ok (pipelines w)" using ok by (simp add: shop_ok_stores)
  from funnel.insert_all_ok [OF p(1) this ins] p(2) t
  have kept: "funnel.all_ok ps \<and> (\<forall>u. u \<noteq> t \<longrightarrow> funnel.owned u ps = funnel.owned u (pipelines w))" by simp
  have one: "one_default ps" unfolding ps using one_default_snoc [OF shop_one_default [OF ok]] free by simp
  have "b \<Longrightarrow> \<forall>x \<in> set (deals w). placed ps x"
    using ok by (auto simp: shop_ok_def ps intro: placed_mono)
  with shop_set_pipelines [OF ok _ one _ t] kept
  show "shop_ok b r (shop_of (put_pipelines ps w)) \<and> others_same c (shop_of w) (shop_of (put_pipelines ps w)) \<and> True" by simp
qed (simp_all add: shop_of_def tick_def)

lemma placed_map: "(\<And>q. pl_ID (f q) = pl_ID q) \<Longrightarrow> (\<And>q. pl_TenantID (f q) = pl_TenantID q) \<Longrightarrow> (\<And>q. pl_Stages (f q) = pl_Stages q) \<Longrightarrow>
    placed (map f ps) x = placed ps x"
  by (simp add: placed_def)

lemma in_update_first: "x \<in> set xs \<Longrightarrow> \<not> p x \<Longrightarrow> x \<in> set (update_first p f xs)"
  by (induction xs) auto

lemma updated_in: "\<exists>x \<in> set xs. p x \<Longrightarrow> \<exists>x \<in> set xs. p x \<and> f x \<in> set (update_first p f xs)"
  by (induction xs) auto

lemma placed_update:
  assumes "placed ps x" "\<exists>q \<in> set ps. pipeline_by t i q" "pl_ID p = i"
    and "de_TenantID x = t \<Longrightarrow> de_PipelineID x = i \<Longrightarrow> de_StageID x \<in> sg_ID ` set (pl_Stages p)"
  shows "placed (update_first (pipeline_by t i) (pipeline_set p) ps) x"
proof (cases "de_TenantID x = t \<and> de_PipelineID x = i")
  case True
  from updated_in [OF assms(2), of "pipeline_set p"] obtain q where
    "pipeline_by t i q" "pipeline_set p q \<in> set (update_first (pipeline_by t i) (pipeline_set p) ps)" by blast
  with True assms(3,4) show ?thesis
    unfolding placed_def by (intro bexI [of _ "pipeline_set p q"]) (simp_all add: pipeline_by_def pipeline_set_def)
next
  case False
  with assms(1) obtain q where q: "q \<in> set ps" "pl_ID q = de_PipelineID x" "pl_TenantID q = de_TenantID x" "de_StageID x \<in> sg_ID ` set (pl_Stages q)"
    by (auto simp: placed_def)
  with False have "\<not> pipeline_by t i q" by (auto simp: pipeline_by_def)
  with q(1) have "q \<in> set (update_first (pipeline_by t i) (pipeline_set p) ps)" by (rule in_update_first)
  with q show ?thesis by (auto simp: placed_def)
qed

lemma one_default_update:
  assumes "one_default ps" "\<And>q. q \<in> set ps \<Longrightarrow> pl_IsDefault p \<Longrightarrow> pl_TenantID q = t \<Longrightarrow> pl_IsDefault q \<Longrightarrow> pl_ID q = i"
  shows "one_default (update_first (pipeline_by t i) (pipeline_set p) ps)"
proof -
  have "x \<in> set ps \<or> (pl_ID x = i \<and> pl_TenantID x = t \<and> pl_IsDefault x = pl_IsDefault p)"
    if "x \<in> set (update_first (pipeline_by t i) (pipeline_set p) ps)" for x
    using set_update_first [OF that] by (auto simp: pipeline_by_def pipeline_set_def)
  with assms show ?thesis unfolding one_default_def by metis
qed

lemma tr_pipeline_update:
  assumes p: "pipeline_ok p" "RequireTenant c = Inr (pl_TenantID p)"
  shows "shop.triple b r c (\<lambda>s. (b \<longrightarrow> covers p s) \<and> (pl_IsDefault p \<longrightarrow> alone p s)) (pipeline_repo_Update d c p) (\<lambda>_ _. True)"
  unfolding pipeline_repo_Update_def
proof (rule shop.tr_write)
  fix w :: "'z crm_world_scheme" and t ps
  assume t: "RequireTenant c = Inr t" and ok: "shop_ok b r (shop_of w)"
    and pre: "(b \<longrightarrow> covers p (shop_of w)) \<and> (pl_IsDefault p \<longrightarrow> alone p (shop_of w))"
    and up: "update_one (pipeline_by t (pl_ID p)) (pipeline_set p) (pipelines w) = Inr ps"
  have tp: "pl_TenantID p = t" using p(2) t by simp
  have ps: "ps = update_first (pipeline_by t (pl_ID p)) (pipeline_set p) (pipelines w)" and ex: "\<exists>q \<in> set (pipelines w). pipeline_by t (pl_ID p) q"
    using up by (auto simp: update_one_def split: if_splits)
  have "funnel.all_ok (pipelines w)" using ok by (simp add: shop_ok_stores)
  from funnel.update_all_ok [OF p(1) this up]
  have kept: "funnel.all_ok ps \<and> (\<forall>u. u \<noteq> t \<longrightarrow> funnel.owned u ps = funnel.owned u (pipelines w))" by (simp add: pipeline_by_def)
  have one: "one_default ps" unfolding ps
    by (rule one_default_update) (use ok pre tp in \<open>auto simp: shop_ok_def alone_def\<close>)
  have "b \<Longrightarrow> \<forall>x \<in> set (deals w). placed ps x" unfolding ps
    using ok pre tp ex by (auto intro!: placed_update simp: shop_ok_def covers_def)
  with shop_set_pipelines [OF ok _ one _ t] kept
  show "shop_ok b r (shop_of (put_pipelines ps w)) \<and> others_same c (shop_of w) (shop_of (put_pipelines ps w)) \<and> True" by simp
qed (simp_all add: shop_of_def tick_def)

text \<open>Clearing the other defaults leaves the stages as they are.\<close>

lemma tr_ClearDefault:
  assumes c: "RequireTenant c = Inr (pl_TenantID p)"
  shows "shop.triple b r c (\<lambda>s. b \<longrightarrow> covers p s) (ClearDefault d c (pl_ID p)) (\<lambda>_ s. (b \<longrightarrow> covers p s) \<and> alone p s)"
  unfolding ClearDefault_def
proof (rule shop.tr_write)
  fix w :: "'z crm_world_scheme" and t ps
  let ?f = "\<lambda>q. if pl_TenantID q = t \<and> pl_ID q \<noteq> pl_ID p \<and> pl_IsDefault q then q\<lparr>pl_IsDefault := False\<rparr> else q"
  assume t: "RequireTenant c = Inr t" and ok: "shop_ok b r (shop_of w)" and pre: "b \<longrightarrow> covers p (shop_of w)"
    and "Inr (map ?f (pipelines w)) = (Inr ps :: mongo_err + pipeline list)"
  then have ps: "ps = map ?f (pipelines w)" by simp
  have fields: "pl_ID (?f q) = pl_ID q" "pl_TenantID (?f q) = pl_TenantID q" "pl_Stages (?f q) = pl_Stages q" "pipeline_ok (?f q) = pipeline_ok q" for q
    by (simp_all add: pipeline_ok_def pipeline_Validate_def)
  have ids: "map pl_ID ps = map pl_ID (pipelines w)" by (simp add: ps)
  have all: "funnel.all_ok (pipelines w)" using ok by (simp add: shop_ok_stores)
  have "pipeline_ok q" if q: "q \<in> set ps" for q
  proof -
    obtain q0 where "q = ?f q0" "q0 \<in> set (pipelines w)" using q unfolding ps set_map by (rule imageE)
    with all fields(4) [of q0] show ?thesis by (simp only: funnel.all_ok_def)
  qed
  then have ok': "funnel.all_ok ps" unfolding funnel.all_ok_def ids using all by (simp add: funnel.all_ok_def)
  have "filter (\<lambda>q. pl_TenantID q = u) (map ?f qs) = filter (\<lambda>q. pl_TenantID q = u) qs" if "u \<noteq> t" for u qs
    using that by (induction qs) auto
  then have other: "\<forall>u. u \<noteq> t \<longrightarrow> funnel.owned u ps = funnel.owned u (pipelines w)" unfolding funnel.owned_def ps by blast
  have one: "one_default ps" unfolding ps using shop_one_default [OF ok] by (intro one_default_map) simp_all
  have "placed ps x = placed (pipelines w) x" for x
    unfolding ps using fields(1-3) by (rule placed_map)
  then have "b \<Longrightarrow> \<forall>x \<in> set (deals w). placed ps x" using ok by (simp add: shop_ok_def)
  with shop_set_pipelines [OF ok _ one _ t] ok' other
  have "shop_ok b r (shop_of (put_pipelines ps w)) \<and> others_same c (shop_of w) (shop_of (put_pipelines ps w))" by simp
  moreover have "alone p (shop_of (put_pipelines ps w))" using c t by (auto simp: alone_def ps)
  ultimately show "shop_ok b r (shop_of (put_pipelines ps w)) \<and> others_same c (shop_of w) (shop_of (put_pipelines ps w))
      \<and> (b \<longrightarrow> covers p (shop_of (put_pipelines ps w))) \<and> alone p (shop_of (put_pipelines ps w))" using pre by (simp add: covers_def)
qed (simp_all add: shop_of_def tick_def)

lemma tr_pipeline_remove: "shop.triple False r c P (pipeline_repo_Delete d c i) (\<lambda>_ _. True)"
  unfolding pipeline_repo_Delete_def
proof (rule shop.tr_write)
  fix w :: "'z crm_world_scheme" and t ps
  assume t: "RequireTenant c = Inr t" and ok: "shop_ok False r (shop_of w)" and del: "delete_first (pipeline_by t i) (pipelines w) = Inr ps"
  have all: "funnel.all_ok (pipelines w)" using ok by (simp add: shop_ok_stores)
  have by_eq: "pipeline_by t i = (\<lambda>x. pl_ID x = i \<and> pl_TenantID x = t)" by (simp add: fun_eq_iff pipeline_by_def)
  from funnel.delete_all_ok [OF all del [unfolded by_eq]]
  have kept: "funnel.all_ok ps \<and> (\<forall>u. u \<noteq> t \<longrightarrow> funnel.owned u ps = funnel.owned u (pipelines w))" .
  have "set ps \<subseteq> set (pipelines w)"
    using funnel.delete_first_filter [OF _ del [unfolded by_eq]] all by (auto simp: funnel.all_ok_def)
  then have one: "one_default ps" using ok unfolding one_default_def shop_ok_def by (simp add: subset_iff)
  show "shop_ok False r (shop_of (put_pipelines ps w)) \<and> others_same c (shop_of w) (shop_of (put_pipelines ps w)) \<and> True"
    using shop_set_pipelines [OF ok _ one _ t] kept by simp
qed (simp_all add: shop_of_def tick_def)

subsection \<open>Products and tasks\<close>

lemma tr_products:
  assumes "\<And>t ds ds'. RequireTenant c = Inr t \<Longrightarrow> catalog.all_ok ds \<Longrightarrow> f t ds = Inr ds' \<Longrightarrow>
    catalog.all_ok ds' \<and> (\<forall>u. u \<noteq> t \<longrightarrow> catalog.owned u ds' = catalog.owned u ds)"
  shows "shop.triple b r c P (repo_write d c products put_products f) (\<lambda>_ _. True)"
proof (rule shop.tr_write)
  fix w :: "'z crm_world_scheme" and t ds
  assume t: "RequireTenant c = Inr t" and ok: "shop_ok b r (shop_of w)" and f: "f t (products w) = Inr ds"
  have "catalog.all_ok (products w)" using ok by (simp add: shop_ok_stores)
  from shop_set_products [OF ok _ t] assms [OF t this f]
  show "shop_ok b r (shop_of (put_products ds w)) \<and> others_same c (shop_of w) (shop_of (put_products ds w)) \<and> True" by simp
qed (simp_all add: shop_of_def tick_def)

lemma tr_product_create: "product_ok p \<Longrightarrow> RequireTenant c = Inr (po_TenantID p) \<Longrightarrow>
    shop.triple b r c P (product_repo_Create d c p) (\<lambda>_ _. True)"
  unfolding product_repo_Create_def by (rule tr_products) (use catalog.insert_all_ok in fastforce)

lemma tr_product_update: "product_ok p \<Longrightarrow> shop.triple b r c P (product_repo_Update d c p) (\<lambda>_ _. True)"
  unfolding product_repo_Update_def by (rule tr_products) (erule (2) catalog.update_all_ok, simp add: product_by_def)

lemma tr_tasks:
  assumes "\<And>t ds ds'. RequireTenant c = Inr t \<Longrightarrow> todo.all_ok ds \<Longrightarrow> f t ds = Inr ds' \<Longrightarrow>
    todo.all_ok ds' \<and> (\<forall>u. u \<noteq> t \<longrightarrow> todo.owned u ds' = todo.owned u ds)"
  shows "shop.triple b r c P (repo_write d c deal_tasks put_tasks f) (\<lambda>_ _. True)"
proof (rule shop.tr_write)
  fix w :: "'z crm_world_scheme" and t ds
  assume t: "RequireTenant c = Inr t" and ok: "shop_ok b r (shop_of w)" and f: "f t (deal_tasks w) = Inr ds"
  have "todo.all_ok (deal_tasks w)" using ok by (simp add: shop_ok_stores)
  from shop_set_tasks [OF ok _ t] assms [OF t this f]
  show "shop_ok b r (shop_of (put_tasks ds w)) \<and> others_same c (shop_of w) (shop_of (put_tasks ds w)) \<and> True" by simp
qed (simp_all add: shop_of_def tick_def)

lemma tr_task_create: "task_ok x \<Longrightarrow> RequireTenant c = Inr (tk_TenantID x) \<Longrightarrow>
    shop.triple b r c P (task_repo_Create d c x) (\<lambda>_ _. True)"
  unfolding task_repo_Create_def by (rule tr_tasks) (use todo.insert_all_ok in fastforce)

lemma tr_task_update: "task_ok x \<Longrightarrow> shop.triple b r c P (task_repo_Update d c x) (\<lambda>_ _. True)"
  unfolding task_repo_Update_def by (rule tr_tasks) (erule (2) todo.update_all_ok, simp add: task_by_def)

lemma tr_task_remove: "shop.triple b r c P (task_repo_Delete d c i) (\<lambda>_ _. True)"
  unfolding task_repo_Delete_def
  by (rule tr_tasks) (erule todo.delete_all_ok, simp add: task_by_def [abs_def])

subsection \<open>Deals\<close>

text \<open>A write of deals keeps what is known of the pipelines.\<close>

lemma tr_deals:
  assumes "\<And>t ds ds'. RequireTenant c = Inr t \<Longrightarrow> deck.all_ok r ds \<Longrightarrow> f t ds = Inr ds' \<Longrightarrow>
      deck.all_ok r ds' \<and> (\<forall>u. u \<noteq> t \<longrightarrow> deck.owned u ds' = deck.owned u ds)"
    and "\<And>t ps ds ds'. RequireTenant c = Inr t \<Longrightarrow> (\<forall>x \<in> set ds. placed ps x) \<Longrightarrow> L ps \<Longrightarrow> f t ds = Inr ds' \<Longrightarrow> (\<forall>x \<in> set ds'. placed ps x)"
  shows "shop.triple b r c (\<lambda>s. K (s_pipelines s) \<and> (b \<longrightarrow> L (s_pipelines s))) (repo_write d c deals put_deals f) (\<lambda>_ s. K (s_pipelines s))"
proof (rule shop.tr_write)
  fix w :: "'z crm_world_scheme" and t ds
  assume t: "RequireTenant c = Inr t" and ok: "shop_ok b r (shop_of w)" and f: "f t (deals w) = Inr ds"
    and pre: "K (s_pipelines (shop_of w)) \<and> (b \<longrightarrow> L (s_pipelines (shop_of w)))"
  have "deck.all_ok r (deals w)" using ok by (simp add: shop_ok_stores)
  moreover have "b \<Longrightarrow> \<forall>x \<in> set ds. placed (pipelines w) x" using assms(2) [OF t _ _ f] pre ok by (simp add: shop_ok_def)
  ultimately show "shop_ok b r (shop_of (put_deals ds w)) \<and> others_same c (shop_of w) (shop_of (put_deals ds w)) \<and> K (s_pipelines (shop_of (put_deals ds w)))"
    using shop_set_deals [OF ok _ _ t] assms(1) [OF t _ f] pre by simp
qed (simp_all add: shop_of_def tick_def)

lemma tr_deal_create: "deal_ok r x \<Longrightarrow> RequireTenant c = Inr (de_TenantID x) \<Longrightarrow>
    shop.triple b r c (\<lambda>s. b \<longrightarrow> placed (s_pipelines s) x) (deal_repo_Create d c x) (\<lambda>_ _. True)"
  unfolding deal_repo_Create_def
  by (rule tr_deals [where K = "\<lambda>_. True" and L = "\<lambda>ps. placed ps x", simplified])
     (use deck.insert_all_ok in fastforce, auto simp: insert_one_def split: if_splits)

lemma placed_deal_set: "placed ps (deal_set x y) = placed ps (x\<lparr>de_TenantID := de_TenantID y\<rparr>)"
  by (simp add: placed_def deal_set_def)

lemma tr_deal_update: "deal_ok r x \<Longrightarrow> RequireTenant c = Inr (de_TenantID x) \<Longrightarrow>
    shop.triple b r c (\<lambda>s. K (s_pipelines s) \<and> (b \<longrightarrow> placed (s_pipelines s) x)) (deal_repo_Update d c x) (\<lambda>_ s. K (s_pipelines s))"
  unfolding deal_repo_Update_def
proof (rule tr_deals [where L = "\<lambda>ps. placed ps x"])
  fix t ds ds' assume "deal_ok r x" "deck.all_ok r ds" "update_one (deal_by t (de_ID x)) (deal_set x) ds = Inr ds'"
  then show "deck.all_ok r ds' \<and> (\<forall>u. u \<noteq> t \<longrightarrow> deck.owned u ds' = deck.owned u ds)"
    by (rule deck.update_all_ok) (simp add: deal_by_def)
next
  fix t ps ds ds' assume h: "RequireTenant c = Inr (de_TenantID x)" "RequireTenant c = Inr t" "\<forall>x \<in> set ds. placed ps x" "placed ps x"
    and up: "update_one (deal_by t (de_ID x)) (deal_set x) ds = Inr ds'"
  have ds': "ds' = update_first (deal_by t (de_ID x)) (deal_set x) ds" using up by (auto simp: update_one_def split: if_splits)
  have "placed ps (deal_set x y)" if "deal_by t (de_ID x) y" for y
    using h that by (simp add: placed_deal_set deal_by_def)
  with h(3) show "\<forall>x \<in> set ds'. placed ps x" unfolding ds' by (auto dest!: set_update_first)
qed

lemma tr_deal_save: "deal_ok r x \<Longrightarrow> RequireTenant c = Inr (de_TenantID x) \<Longrightarrow>
    shop.triple b r c (\<lambda>s. b \<longrightarrow> placed (s_pipelines s) x) (deal_repo_Update d c x) (\<lambda>_ _. True)"
  using tr_deal_update [where K = "\<lambda>_. True"] by simp

lemma delete_first_set: "delete_first p ds = Inr ds' \<Longrightarrow> set ds' \<subseteq> set ds"
  by (induction ds arbitrary: ds') (auto simp: delete_first_def split: if_splits)

lemma tr_deal_remove: "shop.triple b r c P (deal_repo_Delete d c i) (\<lambda>_ _. True)"
  unfolding deal_repo_Delete_def
  by (rule shop.tr_pre, rule tr_deals [where K = "\<lambda>_. True" and L = "\<lambda>_. True"])
     (erule deck.delete_all_ok, simp add: deal_by_def [abs_def], auto dest: delete_first_set)

end
