(* ===== verification/Shop_Requests.thy ===== *)
theory Shop_Requests
  imports Shop_Writes
begin

text \<open>
  Every request of the sales services keeps the shop consistent; deleting a pipeline may leave
  deals without a stage, everything else keeps each deal on its board. Then sequences of requests.
\<close>

abbreviation safe :: "bool \<Rightarrow> (rat \<Rightarrow> float64) \<Rightarrow> ctx \<Rightarrow> ('z crm_world_scheme, 'a) io \<Rightarrow> bool" where
  "safe b r c m \<equiv> shop.triple b r c (\<lambda>_. True) m (\<lambda>_ _. True)"

lemma safe_quiet: "framed shop.quiet m \<Longrightarrow> shop.triple b r c P m (\<lambda>_ _. True)"
  by (rule shop.tr_post [OF shop.tr_quiet]) simp_all

lemma tr_write_then: "shop.triple b r c P m (\<lambda>_ _. True) \<Longrightarrow> framed shop.quiet n \<Longrightarrow> shop.triple b r c P (then_io m n) (\<lambda>_ _. True)"
  by (rule shop.tr_then [OF _ safe_quiet])

text \<open>A read before the write whose answer the proof does not need.\<close>

lemmas now_skip = shop.tr_skip [OF shop.quiet.fr_now]
lemmas id_skip = shop.tr_skip [OF shop.quiet.fr_new_id]

lemmas quiet_steps = shop.quiet.fr_return shop.quiet.fr_then shop.quiet.fr_bind shop.quiet.fr_when shop.quiet.fr_for
  steady.fr_audit steady.fr_publish steady.fr_records steady.fr_task_forms steady.fr_notifyMoved

section \<open>Pipelines\<close>

lemma tr_validated: "(pipeline_ok p \<Longrightarrow> shop.triple b r c P m Q) \<Longrightarrow> shop.triple b r c P (then_io (validated p) m) Q"
  unfolding validated_def by (rule shop.tr_guard) (simp add: pipeline_ok_def)

text \<open>Stages are accepted in any order.\<close>

lemma check_stages_accepts: "check_stages ss m n = [] \<longleftrightarrow> (\<forall>s \<in> set ss. trim_space (sg_Name s) \<noteq> [] \<and> \<not> (sg_IsWon s \<and> sg_IsLost s))
    \<and> m + length (filter sg_IsWon ss) \<le> 1 \<and> n + length (filter sg_IsLost ss) \<le> 1"
  by (induction ss m n rule: check_stages.induct) auto

lemma check_sorted [simp]: "check_stages (pl_Stages (SortStages p)) m n = [] \<longleftrightarrow> check_stages (pl_Stages p) m n = []"
  by (simp add: check_stages_accepts SortStages_def filter_sort)

lemma pipeline_ok_fields [simp]:
  "pipeline_ok (SortStages p) = pipeline_ok p" "pipeline_ok (p\<lparr>pl_IsDefault := f\<rparr>) = pipeline_ok p"
  "pipeline_ok (p\<lparr>pl_UpdatedAt := t\<rparr>) = pipeline_ok p"
  by (simp_all add: pipeline_ok_def pipeline_Validate_def)

lemma quiet_new_stages: "framed shop.quiet (new_stages d ss)"
  by (induction ss) (auto intro!: shop.quiet.fr_return shop.quiet.fr_bind shop.quiet.fr_new_id)

lemma safe_pipeline_Create: "safe b r c (pipeline_Create d c cmd)"
  unfolding pipeline_Create_def Let_def
  by (rule shop.tr_lift, rule now_skip, rule id_skip, rule shop.tr_skip [OF quiet_new_stages], rule tr_validated,
      rule shop.tr_bind [OF tr_Count], rule tr_write_then, rule shop.tr_pre, rule tr_pipeline_create)
     (auto simp: pipeline_ok_def pipeline_Validate_def intro!: quiet_steps)

text \<open>Storing a changed pipeline of the tenant: the deals keep their stage, the default stays single.\<close>

lemma covers_fields [simp]: "covers (p\<lparr>pl_UpdatedAt := t\<rparr>) s = covers p s" "alone (p\<lparr>pl_UpdatedAt := t\<rparr>) s = alone p s"
  by (simp_all add: covers_def alone_def)

abbreviation pipeline_tail :: "'e env_scheme \<Rightarrow> ctx \<Rightarrow> string \<Rightarrow> pipeline \<Rightarrow> ('z crm_world_scheme, pipeline) io" where
  "pipeline_tail d c action p \<equiv> bind_io (now_io d) (\<lambda>now. then_io (pipeline_repo_Update d c (p\<lparr>pl_UpdatedAt := now\<rparr>))
     (then_io (crm_audit c action (pl_ID (p\<lparr>pl_UpdatedAt := now\<rparr>)) Map.empty) (return_io (SortStages (p\<lparr>pl_UpdatedAt := now\<rparr>)))))"

lemma tr_store_pipeline:
  assumes "pipeline_ok p" "RequireTenant c = Inr (pl_TenantID p)"
  shows "shop.triple b r c (\<lambda>s. (b \<longrightarrow> covers p s) \<and> (pl_IsDefault p \<longrightarrow> alone p s))
    (pipeline_tail d c action p) (\<lambda>_ _. True)"
  by (rule now_skip, rule tr_write_then, rule shop.tr_pre, rule tr_pipeline_update)
     (use assms in \<open>auto intro!: quiet_steps\<close>)

lemma stored_pipeline_knows:
  "shop_ok b r s \<Longrightarrow> stored c pl_TenantID (s_pipelines s) p \<Longrightarrow> (b \<longrightarrow> covers p s) \<and> (pl_IsDefault p \<longrightarrow> alone p s)"
  using stored_covers stored_alone by (auto simp: stored_def)

lemma tr_flag:
  assumes c: "RequireTenant c = Inr (pl_TenantID p)" and same: "\<And>s. covers p s = covers p0 s" "\<And>s. alone p s = alone p0 s"
    and f: "flag \<noteq> Some True \<Longrightarrow> pl_IsDefault p \<Longrightarrow> pl_IsDefault p0"
  shows "shop.triple b r c (\<lambda>s. stored c pl_TenantID (s_pipelines s) p0) (when_io (flag = Some True) (ClearDefault d c (pl_ID p)))
    (\<lambda>_ s. (b \<longrightarrow> covers p s) \<and> (pl_IsDefault p \<longrightarrow> alone p s))"
proof (cases "flag = Some True")
  case True
  have "shop.triple b r c (\<lambda>s. stored c pl_TenantID (s_pipelines s) p0) (ClearDefault d c (pl_ID p)) (\<lambda>_ s. (b \<longrightarrow> covers p s) \<and> (pl_IsDefault p \<longrightarrow> alone p s))"
    by (rule shop.tr_mono [OF tr_ClearDefault [OF c]]) (use stored_pipeline_knows same in auto)
  with True show ?thesis by (simp add: when_io_def)
next
  case False
  then show ?thesis by (auto simp: when_io_def same intro!: shop.tr_return dest: stored_pipeline_knows f)
qed

lemma safe_pipeline_Update: "safe b r c (pipeline_Update d c i cmd)"
  unfolding pipeline_Update_def Let_def
proof (intro shop.tr_lift_then shop.tr_bind [OF tr_pipeline_Find] tr_validated)
  fix t and p0 :: pipeline
  let ?p = "patch (up_IsDefault cmd) (\<lambda>b x. x\<lparr>pl_IsDefault := b\<rparr>) (patch (up_Name cmd) (\<lambda>n x. x\<lparr>pl_Name := trim_space n\<rparr>) p0)"
  have f: "pl_ID ?p = pl_ID p0" "pl_TenantID ?p = pl_TenantID p0" "pl_Stages ?p = pl_Stages p0"
    "pl_IsDefault ?p = (case up_IsDefault cmd of None \<Rightarrow> pl_IsDefault p0 | Some f \<Rightarrow> f)"
    by (auto simp: patch_def split: option.split)
  have same: "covers ?p s = covers p0 s" "alone ?p s = alone p0 s" for s by (simp_all only: covers_def alone_def f)
  have keep: "up_IsDefault cmd \<noteq> Some True \<Longrightarrow> pl_IsDefault ?p \<Longrightarrow> pl_IsDefault p0" using f(4) by (auto split: option.splits)
  assume ok: "pipeline_ok ?p"
  show "shop.triple b r c (\<lambda>s. True \<and> stored c pl_TenantID (s_pipelines s) p0 \<and> pl_ID p0 = i)
      (then_io (when_io (up_IsDefault cmd = Some True) (ClearDefault d c (pl_ID ?p))) (pipeline_tail d c ''pipeline.updated'' ?p)) (\<lambda>_ _. True)"
  proof (rule shop.tr_pure [where R = "RequireTenant c = Inr (pl_TenantID ?p)"])
    fix s assume "True \<and> stored c pl_TenantID (s_pipelines s) p0 \<and> pl_ID p0 = i"
    then show "RequireTenant c = Inr (pl_TenantID ?p)" unfolding f by (simp add: stored_def)
  next
    assume t: "RequireTenant c = Inr (pl_TenantID ?p)"
    have flag: "shop.triple b r c (\<lambda>s. True \<and> stored c pl_TenantID (s_pipelines s) p0 \<and> pl_ID p0 = i)
      (when_io (up_IsDefault cmd = Some True) (ClearDefault d c (pl_ID ?p))) (\<lambda>_ s. (b \<longrightarrow> covers ?p s) \<and> (pl_IsDefault ?p \<longrightarrow> alone ?p s))"
      by (rule shop.tr_pre, rule tr_flag [OF t same keep]) simp_all
    show "shop.triple b r c (\<lambda>s. True \<and> stored c pl_TenantID (s_pipelines s) p0 \<and> pl_ID p0 = i)
      (then_io (when_io (up_IsDefault cmd = Some True) (ClearDefault d c (pl_ID ?p))) (pipeline_tail d c ''pipeline.updated'' ?p)) (\<lambda>_ _. True)"
      by (rule shop.tr_then [OF flag tr_store_pipeline [OF ok t]])
  qed
qed

lemma safe_pipeline_Delete: "safe False r c (pipeline_Delete d c i)"
  unfolding pipeline_Delete_def
  by (intro shop.tr_lift_then shop.tr_bind [OF tr_pipeline_Find] tr_write_then tr_pipeline_remove quiet_steps)

text \<open>Stage edits that keep the identifiers of the stages keep the deals on the board.\<close>

lemma tr_mutated:
  assumes f: "pl_ID p = pl_ID p0" "pl_TenantID p = pl_TenantID p0" "pl_IsDefault p = pl_IsDefault p0"
    and st: "\<And>s. shop_ok b r s \<Longrightarrow> P s \<Longrightarrow> b \<Longrightarrow> covers p0 s \<Longrightarrow> covers p s"
  shows "shop.triple b r c (\<lambda>s. P s \<and> stored c pl_TenantID (s_pipelines s) p0)
    (then_io (validated p) (pipeline_tail d c action p)) (\<lambda>_ _. True)"
proof (rule tr_validated, rule shop.tr_pure [where R = "RequireTenant c = Inr (pl_TenantID p)"])
  assume "pipeline_ok p" "RequireTenant c = Inr (pl_TenantID p)"
  then show "shop.triple b r c (\<lambda>s. P s \<and> stored c pl_TenantID (s_pipelines s) p0)
    (pipeline_tail d c action p) (\<lambda>_ _. True)"
    by (rule shop.tr_pre [OF tr_store_pipeline]) (use st stored_pipeline_knows f in \<open>auto simp: alone_def\<close>)
qed (simp add: stored_def f)

lemma covers_stages: "sg_ID ` set (pl_Stages p) \<subseteq> sg_ID ` set ss \<Longrightarrow> covers p s \<Longrightarrow> covers (p\<lparr>pl_Stages := ss\<rparr>) s"
  unfolding covers_def by (simp add: subset_iff)

lemma safe_mutate:
  assumes "\<And>p0. shop.triple b r c (\<lambda>s. stored c pl_TenantID (s_pipelines s) p0) (mutate p0)
    (\<lambda>p s. stored c pl_TenantID (s_pipelines s) p0 \<and> (\<exists>ss. p = p0\<lparr>pl_Stages := ss\<rparr> \<and> sg_ID ` set (pl_Stages p0) \<subseteq> sg_ID ` set ss))"
  shows "safe b r c (mutateStages d c pid action mutate)"
  unfolding mutateStages_def Let_def
proof (intro shop.tr_lift_then shop.tr_bind [OF tr_pipeline_Find])
  fix t p0
  show "shop.triple b r c (\<lambda>s. True \<and> stored c pl_TenantID (s_pipelines s) p0 \<and> pl_ID p0 = pid) (bind_io (mutate p0) (\<lambda>p.
      then_io (validated p) (pipeline_tail d c action p))) (\<lambda>_ _. True)"
  proof (rule shop.tr_bind [OF shop.tr_pre [OF assms]])
    fix p
    show "shop.triple b r c (\<lambda>s. stored c pl_TenantID (s_pipelines s) p0 \<and> (\<exists>ss. p = p0\<lparr>pl_Stages := ss\<rparr> \<and> sg_ID ` set (pl_Stages p0) \<subseteq> sg_ID ` set ss))
      (then_io (validated p) (pipeline_tail d c action p)) (\<lambda>_ _. True)"
    proof (rule shop.tr_pure [where R = "\<exists>ss. p = p0\<lparr>pl_Stages := ss\<rparr> \<and> sg_ID ` set (pl_Stages p0) \<subseteq> sg_ID ` set ss"])
      assume "\<exists>ss. p = p0\<lparr>pl_Stages := ss\<rparr> \<and> sg_ID ` set (pl_Stages p0) \<subseteq> sg_ID ` set ss"
      then obtain ss where p: "p = p0\<lparr>pl_Stages := ss\<rparr>" "sg_ID ` set (pl_Stages p0) \<subseteq> sg_ID ` set ss" by blast
      show ?thesis
        by (rule shop.tr_pre, rule tr_mutated [where P = "\<lambda>_. True" and ?p0.0 = p0]) (use p covers_stages in auto)
    qed simp
  qed simp
qed

lemma safe_AddStage: "safe b r c (AddStage d c pid cmd)"
  unfolding AddStage_def
  by (rule safe_mutate, rule id_skip, rule shop.tr_return) (auto intro!: exI)

lemma edit_stage_ID [simp]: "sg_ID (edit_stage cmd s) = sg_ID s"
  by (simp add: edit_stage_def patch_def split: option.split)

lemma safe_UpdateStage: "safe b r c (UpdateStage d c pid sid cmd)"
  unfolding UpdateStage_def
proof (rule safe_mutate)
  fix p0 :: pipeline
  show "shop.triple b r c (\<lambda>s. stored c pl_TenantID (s_pipelines s) p0) (case StageIndex p0 sid of None \<Rightarrow> throw_io (NotFound ''stage not found'')
      | Some i \<Rightarrow> return_io (p0\<lparr>pl_Stages := (pl_Stages p0)[i := edit_stage cmd (pl_Stages p0 ! i)]\<rparr>))
    (\<lambda>p s. stored c pl_TenantID (s_pipelines s) p0 \<and> (\<exists>ss. p = p0\<lparr>pl_Stages := ss\<rparr> \<and> sg_ID ` set (pl_Stages p0) \<subseteq> sg_ID ` set ss))"
  proof (cases "StageIndex p0 sid")
    case (Some i)
    then have i: "i < length (pl_Stages p0)" by (auto simp: StageIndex_def dest: index_where_Some)
    have "map sg_ID ((pl_Stages p0)[i := edit_stage cmd (pl_Stages p0 ! i)]) = map sg_ID (pl_Stages p0)"
      using i by (simp add: map_update list_update_same_conv)
    then have "sg_ID ` set ((pl_Stages p0)[i := edit_stage cmd (pl_Stages p0 ! i)]) = sg_ID ` set (pl_Stages p0)"
      by (metis list.set_map)
    with Some show ?thesis by (auto intro!: shop.tr_return)
  qed (simp add: shop.tr_throw)
qed

lemma safe_ReorderStages: "safe b r c (ReorderStages d c pid ids)"
  unfolding ReorderStages_def
proof (rule safe_mutate)
  fix p0 :: pipeline
  have "sg_ID ` set (map (place ids) (pl_Stages p0)) = sg_ID ` set (pl_Stages p0)" by (simp add: place_def image_image)
  then show "shop.triple b r c (\<lambda>s. stored c pl_TenantID (s_pipelines s) p0)
      (if length ids \<noteq> length (pl_Stages p0) then throw_io (Validation ''reorder must list every stage exactly once'')
       else (case reorder_check p0 [] ids of Some e \<Rightarrow> throw_io e | None \<Rightarrow> return_io (p0\<lparr>pl_Stages := map (place ids) (pl_Stages p0)\<rparr>)))
    (\<lambda>p s. stored c pl_TenantID (s_pipelines s) p0 \<and> (\<exists>ss. p = p0\<lparr>pl_Stages := ss\<rparr> \<and> sg_ID ` set (pl_Stages p0) \<subseteq> sg_ID ` set ss))"
    by (intro shop.tr_if shop.tr_throw) (auto intro!: shop.tr_throw shop.tr_return split: option.split)
qed

text \<open>A stage is removed only while no deal is in it.\<close>

lemma removed_covers:
  assumes i: "StageIndex p0 sid = Some i" and c0: "covers p0 s"
    and empty: "\<forall>x \<in> set (s_deals s). de_TenantID x = pl_TenantID p0 \<and> de_PipelineID x = pl_ID p0 \<longrightarrow> de_StageID x \<noteq> sid"
  shows "covers (p0\<lparr>pl_Stages := take i (pl_Stages p0) @ drop (Suc i) (pl_Stages p0)\<rparr>) s"
proof -
  have l: "i < length (pl_Stages p0)" and sid: "sg_ID (pl_Stages p0 ! i) = sid" using i by (auto simp: StageIndex_def dest: index_where_Some)
  have "set (pl_Stages p0) = insert (pl_Stages p0 ! i) (set (take i (pl_Stages p0) @ drop (Suc i) (pl_Stages p0)))"
    by (subst id_take_nth_drop [OF l]) auto
  then have "sg_ID ` set (pl_Stages p0) = insert sid (sg_ID ` set (take i (pl_Stages p0) @ drop (Suc i) (pl_Stages p0)))" using sid by (metis image_insert)
  with c0 empty show ?thesis unfolding covers_def by auto
qed

lemma safe_DeleteStage: "safe b r c (DeleteStage d c pid sid)"
  unfolding DeleteStage_def Let_def
proof (intro shop.tr_lift_then shop.tr_bind [OF tr_pipeline_Find])
  fix t and p0 :: pipeline
  let ?p = "\<lambda>i. p0\<lparr>pl_Stages := take i (pl_Stages p0) @ drop (Suc i) (pl_Stages p0)\<rparr>"
  show "shop.triple b r c (\<lambda>s. True \<and> stored c pl_TenantID (s_pipelines s) p0 \<and> pl_ID p0 = pid) (case StageIndex p0 sid of None \<Rightarrow> throw_io (NotFound ''stage not found'')
      | Some i \<Rightarrow> bind_io (StageHasDeals d c pid sid) (\<lambda>has. then_io (guard_io has (Conflict ''the stage still has deals; move them before deleting''))
          (then_io (validated (?p i)) (pipeline_tail d c ''pipeline.stage_deleted'' (?p i))))) (\<lambda>_ _. True)"
  proof (cases "StageIndex p0 sid")
    case (Some i)
    let ?empty = "\<lambda>s. pl_ID p0 = pid \<and> stored c pl_TenantID (s_pipelines s) p0 \<and> (\<forall>t. RequireTenant c = Inr t \<longrightarrow>
      (\<forall>x \<in> set (s_deals s). de_TenantID x = t \<and> de_PipelineID x = pid \<longrightarrow> de_StageID x \<noteq> sid))"
    have "shop.triple b r c (\<lambda>s. ?empty s \<and> stored c pl_TenantID (s_pipelines s) p0) (then_io (validated (?p i)) (pipeline_tail d c ''pipeline.stage_deleted'' (?p i))) (\<lambda>_ _. True)"
      by (rule tr_mutated) (auto simp: stored_def intro: removed_covers [OF Some])
    then show ?thesis unfolding Some option.case
      by (intro shop.tr_bind [OF tr_StageHasDeals] shop.tr_guard) (erule shop.tr_pre, auto)
  qed (simp add: shop.tr_throw)
qed

section \<open>Products\<close>

lemma tr_product_guard: "shop.triple b r c P m Q \<Longrightarrow> shop.triple b r c P (then_io (product_guard d c) m) Q"
  unfolding product_guard_def by (rule shop.tr_skip_then [OF steady.fr_settings(3)])

lemma safe_product_Create: "safe b r c (product_Create d c cmd)"
  unfolding product_Create_def Let_def
  by (rule shop.tr_lift, rule tr_product_guard, rule shop.tr_guard, rule shop.tr_guard, rule now_skip, rule id_skip,
      rule tr_write_then, rule tr_product_create)
     (auto simp: product_ok_def intro!: quiet_steps)

lemma patch_product_ok:
  assumes "patch_product cmd p0 = Inr p" "product_ok p0" shows "product_ok p"
proof -
  obtain p1 p2 where
    1: "patch_res (upd_Name cmd) (\<lambda>n p. if trim_space n = [] then Inl (Validation ''name is required'') else Inr (p\<lparr>po_Name := trim_space n\<rparr>)) p0 = Inr p1" and
    2: "patch_res (upd_Price cmd) (\<lambda>v p. if v < 0 then Inl (Validation ''price must be >= 0'') else Inr (p\<lparr>po_Price := v\<rparr>))
      (patch (upd_Description cmd) (\<lambda>s p. p\<lparr>po_Description := trim_space s\<rparr>) p1) = Inr p2" and
    3: "p = patch (upd_Active cmd) (\<lambda>b p. p\<lparr>po_Active := b\<rparr>) (patch (upd_SKU cmd) (\<lambda>s p. p\<lparr>po_SKU := trim_space s\<rparr>)
      (patch (upd_Currency cmd) (\<lambda>s p. p\<lparr>po_Currency := currencyOr s\<rparr>) p2))"
    using assms(1) unfolding patch_product_def res_bind_Inr sum.inject by (elim exE conjE) (rule that, assumption+, rule sym)
  have "product_ok p1" using 1 assms(2) by (auto simp: patch_res_def product_ok_def split: option.splits if_splits)
  then have d: "product_ok (patch (upd_Description cmd) (\<lambda>s p. p\<lparr>po_Description := trim_space s\<rparr>) p1)"
    by (rule patch_keeps) (use \<open>product_ok p1\<close> in \<open>simp add: product_ok_def\<close>)
  have price: "product_ok x \<Longrightarrow> (if v < 0 then Inl e else Inr (x\<lparr>po_Price := v\<rparr>)) = Inr y \<Longrightarrow> product_ok y" for x y v and e :: goerr
    by (cases "v < 0") (auto simp: product_ok_def)
  have "product_ok p2" by (rule patch_res_keeps [where P = product_ok, OF 2 d]) (rule price [OF d])
  then show ?thesis unfolding 3 by (simp add: product_ok_def patch_def split: option.split)
qed

lemma safe_product_Update: "safe b r c (product_Update d c i cmd)"
  unfolding product_Update_def Let_def
proof (rule tr_product_guard, rule shop.tr_bind [OF tr_product_Find], rule shop.tr_lift)
  fix p0 p assume p: "patch_product cmd p0 = Inr p"
  show "shop.triple b r c (\<lambda>s. True \<and> stored c po_TenantID (s_products s) p0 \<and> po_ID p0 = i) (bind_io (now_io d) (\<lambda>now.
      then_io (product_repo_Update d c (p\<lparr>po_UpdatedAt := now\<rparr>)) (then_io (crm_audit c ''product.updated'' (po_ID (p\<lparr>po_UpdatedAt := now\<rparr>)) Map.empty)
        (return_io (p\<lparr>po_UpdatedAt := now\<rparr>))))) (\<lambda>_ _. True)"
  proof (rule shop.tr_pure [where R = "product_ok p"])
    assume "product_ok p"
    then have "product_ok (p\<lparr>po_UpdatedAt := now\<rparr>)" for now by (simp add: product_ok_def)
    then show ?thesis by (intro now_skip tr_write_then tr_product_update quiet_steps)
  qed (auto simp: stored_def intro: patch_product_ok [OF p] stored_ok)
qed

end
