(* ===== verification/Shop_Deals.thy ===== *)
theory Shop_Deals
  imports Shop_Requests
begin

text \<open>
  The requests of the deals and tasks services keep the shop consistent: a deal's value is the sum of its
  lines, its status and closing instant agree, and it stays in a stage of its own pipeline.
\<close>

section \<open>Edits of a deal\<close>

text \<open>\<open>y\<close> is well formed when \<open>x\<close> is, and at the same place of the board.\<close>

definition sound :: "(rat \<Rightarrow> float64) \<Rightarrow> deal \<Rightarrow> deal \<Rightarrow> bool" where
  "sound r x y \<longleftrightarrow> (deal_ok r x \<longrightarrow> deal_ok r y) \<and> de_TenantID y = de_TenantID x \<and> de_PipelineID y = de_PipelineID x \<and> de_StageID y = de_StageID x"

lemma sound_refl [simp]: "sound r x x"
  by (simp add: sound_def)

lemma sound_trans: "sound r x y \<Longrightarrow> sound r y z \<Longrightarrow> sound r x z"
  by (simp add: sound_def)

lemma sound_fields [simp]:
  "sound r x (y\<lparr>de_UpdatedAt := t\<rparr>) = sound r x y" "sound r x (y\<lparr>de_ContactID := i\<rparr>) = sound r x y"
  "sound r x (y\<lparr>de_Currency := s\<rparr>) = sound r x y" "sound r x (y\<lparr>de_AssignedTo := i\<rparr>) = sound r x y"
  "sound r x (y\<lparr>de_SectorID := i\<rparr>) = sound r x y" "sound r x (y\<lparr>de_Source := s\<rparr>) = sound r x y"
  "sound r x (y\<lparr>de_ExpectedCloseDate := e\<rparr>) = sound r x y"
  by (simp_all add: sound_def deal_ok_def lines_ok_def status_ok_def)

lemma sound_tags: "distinct tags \<Longrightarrow> [] \<notin> set tags \<Longrightarrow> sound r x (x\<lparr>de_Tags := tags\<rparr>)"
  by (simp add: sound_def deal_ok_def lines_ok_def status_ok_def)

lemma sound_add_tag: "\<not> HasTag x i \<Longrightarrow> i \<noteq> [] \<Longrightarrow> sound r x (x\<lparr>de_Tags := de_Tags x @ [i]\<rparr>)"
  by (auto simp: sound_def deal_ok_def lines_ok_def status_ok_def HasTag_def)

lemma sound_remove_tag: "sound r x (x\<lparr>de_Tags := filter p (de_Tags x)\<rparr>)"
  by (auto simp: sound_def deal_ok_def lines_ok_def status_ok_def)

lemma sound_link: "\<not> HasConversation x i \<Longrightarrow> i \<noteq> [] \<Longrightarrow> sound r x (x\<lparr>de_ConversationIDs := de_ConversationIDs x @ [i]\<rparr>)"
  by (auto simp: sound_def deal_ok_def lines_ok_def status_ok_def HasConversation_def)

lemma sound_value: "\<not> v < 0 \<Longrightarrow> sound r x (if de_Items x = [] then x\<lparr>de_Value := v\<rparr> else x)"
  by (cases "de_Items x = []") (simp_all add: sound_def deal_ok_def lines_ok_def status_ok_def)

lemma sound_patch: "(\<And>v y. sound r x y \<Longrightarrow> sound r x (f v y)) \<Longrightarrow> sound r x y \<Longrightarrow> sound r x (patch o1 f y)"
  by (cases o1) (simp_all add: patch_def)

lemma sound_patch_deal:
  assumes "patch_deal cmd x0 = Inr x1" shows "sound r x0 x1"
proof -
  obtain y1 y2 where
    1: "patch_res (ud_Title cmd) (\<lambda>s x. if trim_space s = [] then Inl (Validation ''title is required'') else Inr (x\<lparr>de_Title := trim_space s\<rparr>)) x0 = Inr y1" and
    2: "patch_res (ud_Value cmd) (\<lambda>v x. if v < 0 then Inl (Validation ''value must be >= 0'')
        else Inr (if de_Items x = [] then x\<lparr>de_Value := v\<rparr> else x)) y1 = Inr y2" and
    3: "x1 = patch (ud_Currency cmd) (\<lambda>s x. x\<lparr>de_Currency := currencyOr s\<rparr>) y2"
    using assms unfolding patch_deal_def res_bind_Inr sum.inject by (elim exE conjE) (rule that, assumption+, rule sym)
  have "sound r x0 y1" using 1 by (auto simp: patch_res_def sound_def deal_ok_def lines_ok_def status_ok_def split: option.splits if_splits)
  moreover have "sound r y1 y2"
  proof (cases "ud_Value cmd")
    case (Some v)
    with 2 sound_value [of v r y1] show ?thesis by (cases "v < 0") (auto simp only: patch_res_def option.case if_True if_False sum.inject sum.distinct)
  qed (use 2 in \<open>simp add: patch_res_def\<close>)
  ultimately have "sound r x0 y2" by (rule sound_trans)
  then show ?thesis unfolding 3 by (rule sound_patch [rotated]) simp
qed

lemma sound_edit_deal: "sound r x0 x \<Longrightarrow> sound r x0 (edit_deal cmd x)"
  unfolding edit_deal_def Let_def by (auto intro!: sound_patch)

lemma returns_deal_contact: "sound r x0 x \<Longrightarrow> returns (deal_contact d c o1 x) (sound r x0)"
  unfolding deal_contact_def then_io_def by (auto intro!: returns_return returns_bind split: option.split)

lemma dedupeNonEmpty_ok: "distinct (dedupeNonEmpty xs)" "[] \<notin> set (dedupeNonEmpty xs)"
  by (simp_all add: dedupeNonEmpty_def set_keep_first distinct_keep_first)

lemma returns_validateTags: "returns (validateTags d c ids) (\<lambda>tags. distinct tags \<and> [] \<notin> set tags)"
  unfolding validateTags_def Let_def then_io_def
  by (auto intro!: returns_return returns_bind simp: dedupeNonEmpty_ok split: option.split)

lemma returns_deal_tags:
  assumes "sound r x0 x" shows "returns (deal_tags d c o1 x) (sound r x0)"
proof (cases o1)
  case (Some ids)
  have "distinct tags \<and> [] \<notin> set tags \<Longrightarrow> returns (return_io (x\<lparr>de_Tags := tags\<rparr>)) (sound r x0)" for tags
    by (intro returns_return sound_trans [OF assms]) (simp add: sound_tags)
  then show ?thesis unfolding deal_tags_def Some option.case by (rule returns_bind_returns [OF returns_validateTags])
qed (simp add: deal_tags_def returns_return assms)

text \<open>Storing such an edit of a deal that was read.\<close>

lemma tr_edit_deal:
  assumes "sound r x0 x"
  shows "shop.triple b r c (\<lambda>s. stored c de_TenantID (s_deals s) x0) (deal_repo_Update d c x) (\<lambda>_ _. True)"
proof (rule shop.tr_pure [where R = "deal_ok r x0 \<and> RequireTenant c = Inr (de_TenantID x0)"])
  assume "deal_ok r x0 \<and> RequireTenant c = Inr (de_TenantID x0)"
  with assms have "deal_ok r x" "RequireTenant c = Inr (de_TenantID x)" by (simp_all add: sound_def)
  then show "shop.triple b r c (\<lambda>s. stored c de_TenantID (s_deals s) x0) (deal_repo_Update d c x) (\<lambda>_ _. True)"
    by (rule shop.tr_pre [OF tr_deal_save]) (use assms stored_ok(5) in \<open>auto simp: stored_def sound_def placed_def\<close>)
qed (auto simp: stored_def dest: stored_ok)

lemma applyStage_fields [simp]:
  "de_ID (applyStage st now x) = de_ID x" "de_TenantID (applyStage st now x) = de_TenantID x"
  "de_PipelineID (applyStage st now x) = de_PipelineID x" "de_StageID (applyStage st now x) = sg_ID st"
  "de_Title (applyStage st now x) = de_Title x" "de_Value (applyStage st now x) = de_Value x" "de_Items (applyStage st now x) = de_Items x"
  "de_Tags (applyStage st now x) = de_Tags x" "de_ConversationIDs (applyStage st now x) = de_ConversationIDs x"
  by (simp_all add: applyStage_def Let_def)

lemma applyStage_status: "status_ok (applyStage st now x)"
  by (simp add: applyStage_def Let_def status_ok_def DealOpen_def DealWon_def DealLost_def)

lemma status_fields [simp]: "status_ok (x\<lparr>de_UpdatedAt := t\<rparr>) = status_ok x" "status_ok (x\<lparr>de_LostReason := s\<rparr>) = status_ok x"
  by (simp_all add: status_ok_def)

lemma applyStage_ok: "deal_ok r x \<Longrightarrow> deal_ok r (applyStage st now x)"
  by (simp add: deal_ok_def lines_ok_def applyStage_status)

text \<open>Storing a deal that moved to a stage of its pipeline.\<close>

lemma tr_moved_deal:
  assumes x: "deal_ok r x0 \<Longrightarrow> deal_ok r x" "de_TenantID x = de_TenantID x0" "de_PipelineID x = de_PipelineID x0"
    and st: "de_StageID x \<in> sg_ID ` set (pl_Stages p)" and p: "pl_ID p = de_PipelineID x0"
  shows "shop.triple b r c (\<lambda>s. stored c de_TenantID (s_deals s) x0 \<and> available c s p) (deal_repo_Update d c x) (\<lambda>_ _. True)"
proof (rule shop.tr_pure [where R = "deal_ok r x0 \<and> RequireTenant c = Inr (de_TenantID x0)"])
  assume h: "deal_ok r x0 \<and> RequireTenant c = Inr (de_TenantID x0)"
  with x have "deal_ok r x" "RequireTenant c = Inr (de_TenantID x)" by simp_all
  then show "shop.triple b r c (\<lambda>s. stored c de_TenantID (s_deals s) x0 \<and> available c s p) (deal_repo_Update d c x) (\<lambda>_ _. True)"
    by (rule shop.tr_pre [OF tr_deal_save]) (use h x st p in \<open>auto simp: available_def intro!: offered_placed\<close>)
qed (auto simp: stored_def dest: stored_ok)

section \<open>Deals\<close>

lemma tr_new_deal:
  assumes y: "RequireTenant c = Inr (de_TenantID y)" "de_PipelineID y = pl_ID p" "de_Title y \<noteq> []" "\<not> de_Value y < 0" "de_Items y = []"
    "de_Tags y = tags" "de_ConversationIDs y = []"
  shows "shop.triple b r c (\<lambda>s. ((P s \<and> available c s p \<and> st \<in> set (pl_Stages p)) \<and> distinct tags \<and> [] \<notin> set tags))
    (deal_repo_Create d c (applyStage st now y)) (\<lambda>_ _. True)"
proof (rule shop.tr_pure [where R = "distinct tags \<and> [] \<notin> set tags"])
  assume "distinct tags \<and> [] \<notin> set tags"
  then have "deal_ok r (applyStage st now y)" using y by (simp add: deal_ok_def lines_ok_def applyStage_status not_less)
  then show "shop.triple b r c (\<lambda>s. ((P s \<and> available c s p \<and> st \<in> set (pl_Stages p)) \<and> distinct tags \<and> [] \<notin> set tags))
    (deal_repo_Create d c (applyStage st now y)) (\<lambda>_ _. True)"
    by (rule shop.tr_pre [OF tr_deal_create]) (use y in \<open>auto simp: available_def intro!: offered_placed\<close>)
qed simp

lemma safe_deal_Create: "safe b r c (deal_Create d c cmd)"
  unfolding deal_Create_def Let_def
  by (rule shop.tr_lift, rule shop.tr_guard, rule shop.tr_guard, rule shop.tr_bind [OF tr_resolve], simp only: split_paired_all prod.case,
      rule shop.tr_skip_then [OF steady.fr_requireContact], rule shop.tr_bind [OF shop.tr_quiet_returns [OF steady.fr_validateTags returns_validateTags]],
      rule now_skip, rule id_skip, rule tr_write_then, rule tr_new_deal)
     (simp_all, intro quiet_steps)

text \<open>An edit that was read, changed and stored, with only records and messages after it.\<close>

lemma tr_edited:
  assumes "\<And>now. sound r x0 (x now)" "\<And>now. framed shop.quiet (rest now)"
  shows "shop.triple b r c (\<lambda>s. P s \<and> stored c de_TenantID (s_deals s) x0 \<and> R s)
    (bind_io (now_io d) (\<lambda>now. then_io (deal_repo_Update d c (x now)) (rest now))) (\<lambda>_ _. True)"
  by (rule now_skip, rule tr_write_then [OF shop.tr_pre [OF tr_edit_deal]]) (use assms in auto)

lemma safe_LinkConversation: "safe b r c (LinkConversation d c i j)"
  unfolding LinkConversation_def Let_def
proof (rule shop.tr_lift_then, rule shop.tr_guard, rule shop.tr_bind [OF tr_deal_Find], rule shop.tr_if)
  fix x assume "trim_space j \<noteq> []" "\<not> HasConversation x (trim_space j)"
  then have "sound r x (x\<lparr>de_ConversationIDs := de_ConversationIDs x @ [trim_space j]\<rparr>)" by (intro sound_link)
  then show "shop.triple b r c (\<lambda>s. True \<and> stored c de_TenantID (s_deals s) x \<and> de_ID x = i)
    (bind_io (now_io d) (\<lambda>now. then_io (deal_repo_Update d c (x\<lparr>de_ConversationIDs := de_ConversationIDs x @ [trim_space j], de_UpdatedAt := now\<rparr>))
      (then_io (crm_audit c ''deal.conversation_linked'' (de_ID (x\<lparr>de_ConversationIDs := de_ConversationIDs x @ [trim_space j], de_UpdatedAt := now\<rparr>)) Map.empty)
        (return_io (x\<lparr>de_ConversationIDs := de_ConversationIDs x @ [trim_space j], de_UpdatedAt := now\<rparr>))))) (\<lambda>_ _. True)"
    by (intro tr_edited quiet_steps) simp
qed (simp add: shop.tr_return)

lemma safe_then: "shop.triple b r c P m (\<lambda>_ _. True) \<Longrightarrow> (\<And>x. safe b r c (f x)) \<Longrightarrow> shop.triple b r c P (bind_io m f) (\<lambda>_ _. True)"
  by (rule shop.tr_bind)

lemma safe_CreateFromConversation: "safe b r c (CreateFromConversation d c cmd)"
  unfolding CreateFromConversation_def Let_def
  by (rule shop.tr_lift_then, rule shop.tr_guard, rule shop.tr_skip [OF steady.fr_conv_Find], rule safe_then [OF safe_deal_Create safe_LinkConversation])

lemma safe_deal_Update: "safe b r c (deal_Update d c i cmd)"
  unfolding deal_Update_def Let_def
proof (rule shop.tr_lift_then, rule shop.tr_bind [OF tr_deal_Find], rule shop.tr_lift)
  fix x0 x1 assume x1: "patch_deal cmd x0 = Inr x1"
  let ?P = "\<lambda>s. True \<and> stored c de_TenantID (s_deals s) x0 \<and> de_ID x0 = i"
  have contact: "shop.triple b r c P (deal_contact d c (ud_ContactID cmd) x1) (\<lambda>x2 s. P s \<and> sound r x0 x2)" for P
    by (intro shop.tr_quiet_returns steady.fr_deal_forms returns_deal_contact sound_patch_deal [OF x1])
  have tags: "sound r x0 x2 \<Longrightarrow> shop.triple b r c P (deal_tags d c (ud_Tags cmd) (edit_deal cmd x2)) (\<lambda>x3 s. P s \<and> sound r x0 x3)" for P x2
    by (intro shop.tr_quiet_returns steady.fr_deal_forms returns_deal_tags sound_edit_deal)
  show "shop.triple b r c ?P (bind_io (deal_contact d c (ud_ContactID cmd) x1) (\<lambda>x2.
      bind_io (deal_tags d c (ud_Tags cmd) (edit_deal cmd x2)) (\<lambda>x3. bind_io (now_io d) (\<lambda>now.
      then_io (deal_repo_Update d c (x3\<lparr>de_UpdatedAt := now\<rparr>))
     (then_io (crm_audit c ''deal.updated'' (de_ID (x3\<lparr>de_UpdatedAt := now\<rparr>)) Map.empty)
     (then_io (publishDeal d (x3\<lparr>de_UpdatedAt := now\<rparr>) RealtimeDealUpdated [] [])
     (then_io (when_io (ud_Value cmd \<noteq> None \<and> de_Value (x3\<lparr>de_UpdatedAt := now\<rparr>) \<noteq> de_Value x0) (recordTimeline d c (de_ID (x3\<lparr>de_UpdatedAt := now\<rparr>)) KindValueChanged (dealActor c)
         [''from'' \<mapsto> GFloat (de_Value x0), ''to'' \<mapsto> GFloat (de_Value (x3\<lparr>de_UpdatedAt := now\<rparr>))]))
     (then_io (when_io (ud_AssignedTo cmd \<noteq> None \<and> de_AssignedTo (x3\<lparr>de_UpdatedAt := now\<rparr>) \<noteq> de_AssignedTo x0) (recordTimeline d c (de_ID (x3\<lparr>de_UpdatedAt := now\<rparr>)) KindAssignedChanged (dealActor c)
         [''from'' \<mapsto> GStr (de_AssignedTo x0), ''to'' \<mapsto> GStr (de_AssignedTo (x3\<lparr>de_UpdatedAt := now\<rparr>))]))
     (return_io (x3\<lparr>de_UpdatedAt := now\<rparr>)))))))))) (\<lambda>_ _. True)"
    by (rule shop.tr_bind [OF contact], rule shop.tr_conj, rule shop.tr_bind [OF tags], assumption, rule shop.tr_conj, rule tr_edited)
       (simp, intro quiet_steps)
qed

lemma safe_AssignTo: "safe b r c (AssignTo d c i u)"
  unfolding AssignTo_def by (rule safe_deal_Update)

subsection \<open>Moves\<close>

lemma deal_ok_fields [simp]: "deal_ok r (x\<lparr>de_UpdatedAt := t\<rparr>) = deal_ok r x" "deal_ok r (x\<lparr>de_LostReason := m\<rparr>) = deal_ok r x"
  by (simp_all add: deal_ok_def lines_ok_def)

lemma tr_stage_found:
  assumes st: "findStage p sid = Some st" and p: "pl_ID p = de_PipelineID x0"
  shows "shop.triple b r c (\<lambda>s. stored c de_TenantID (s_deals s) x0 \<and> available c s p)
    (deal_repo_Update d c (applyStage st now x0 \<lparr>de_UpdatedAt := later\<rparr>)) (\<lambda>_ _. True)"
  by (rule tr_moved_deal) (use findStage_in [OF st] p in \<open>auto simp: applyStage_ok\<close>)

lemma safe_MoveStage: "safe b r c (MoveStage d c i sid)"
  unfolding MoveStage_def Let_def
proof (rule shop.tr_lift_then, rule shop.tr_bind [OF tr_deal_Find], rule shop.tr_bind [OF tr_pipeline_Get])
  fix x0 p
  show "shop.triple b r c (\<lambda>s. (True \<and> stored c de_TenantID (s_deals s) x0 \<and> de_ID x0 = i) \<and> available c s p \<and> pl_ID p = de_PipelineID x0)
    (case findStage p sid of None \<Rightarrow> throw_io (Validation ''the stage does not belong to the deal's pipeline'')
     | Some st \<Rightarrow> bind_io (now_io d) (\<lambda>now. bind_io (now_io d) (\<lambda>later.
         then_io (deal_repo_Update d c (applyStage st now x0 \<lparr>de_UpdatedAt := later\<rparr>))
        (then_io (auditMove c (de_ID (applyStage st now x0 \<lparr>de_UpdatedAt := later\<rparr>)) ''user'')
        (then_io (publishDeal d (applyStage st now x0 \<lparr>de_UpdatedAt := later\<rparr>) RealtimeDealStageChanged (de_StageID x0) ''user'')
        (then_io (recordStageMove d c (applyStage st now x0 \<lparr>de_UpdatedAt := later\<rparr>) (de_StageID x0) (de_Status x0) (dealActor c))
        (return_io (applyStage st now x0 \<lparr>de_UpdatedAt := later\<rparr>)))))))) (\<lambda>_ _. True)"
  proof (cases "findStage p sid")
    case (Some st)
    have "shop.triple b r c (\<lambda>s. (True \<and> stored c de_TenantID (s_deals s) x0 \<and> de_ID x0 = i) \<and> available c s p \<and> pl_ID p = de_PipelineID x0)
        (deal_repo_Update d c (applyStage st now x0 \<lparr>de_UpdatedAt := later\<rparr>)) (\<lambda>_ _. True)" for now later
      by (rule shop.tr_pure [where R = "pl_ID p = de_PipelineID x0"], simp, rule shop.tr_pre, rule tr_stage_found [OF Some]) auto
    then show ?thesis unfolding Some option.case by (intro now_skip tr_write_then quiet_steps)
  qed (simp add: shop.tr_throw)
qed

lemma lostStage_in: "lostStage p = Some st \<Longrightarrow> st \<in> set (pl_Stages p)"
  by (auto simp: lostStage_def dest: find_Some_in)

lemma safe_MarkLost: "safe b r c (MarkLost d c i reason)"
  unfolding MarkLost_def Let_def
proof (rule shop.tr_lift_then, rule shop.tr_bind [OF tr_deal_Find], rule shop.tr_bind [OF tr_pipeline_Get], rule now_skip)
  fix x0 p now
  let ?x = "(case lostStage p of Some st \<Rightarrow> applyStage st now x0 | None \<Rightarrow> x0\<lparr>de_Status := DealLost, de_ClosedAt := Some now\<rparr>)
      \<lparr>de_LostReason := trim_space reason, de_UpdatedAt := now\<rparr>"
  have "shop.triple b r c (\<lambda>s. (True \<and> stored c de_TenantID (s_deals s) x0 \<and> de_ID x0 = i) \<and> available c s p \<and> pl_ID p = de_PipelineID x0)
      (deal_repo_Update d c ?x) (\<lambda>_ _. True)"
  proof (cases "lostStage p")
    case None
    have "sound r x0 ?x" by (simp add: None sound_def deal_ok_def lines_ok_def status_ok_def DealLost_def)
    then show ?thesis by (rule shop.tr_pre [OF tr_edit_deal]) simp
  next
    case (Some st)
    show ?thesis
      by (rule shop.tr_pure [where R = "pl_ID p = de_PipelineID x0"], simp, rule shop.tr_pre, rule tr_moved_deal [where p = p])
        (use lostStage_in [OF Some] Some in \<open>auto simp: applyStage_ok\<close>)
  qed
  then show "shop.triple b r c (\<lambda>s. (True \<and> stored c de_TenantID (s_deals s) x0 \<and> de_ID x0 = i) \<and> available c s p \<and> pl_ID p = de_PipelineID x0)
      (then_io (deal_repo_Update d c ?x) (then_io (crm_audit c ''deal.marked_lost'' (de_ID ?x) Map.empty)
     (then_io (publishDeal d ?x RealtimeDealStageChanged (de_StageID x0) ''user'')
     (then_io (recordStageMove d c ?x (de_StageID x0) (de_Status x0) (dealActor c)) (return_io ?x))))) (\<lambda>_ _. True)"
    by (intro tr_write_then quiet_steps)
qed

text \<open>A rule's move works on the deals as they were read; a move leaves the pipelines alone.\<close>

lemma safe_automation_move:
  assumes x0: "deal_ok r x0" "RequireTenant c = Inr (de_TenantID x0)"
  shows "safe b r c (automation_move d c pid sid x0)"
  unfolding automation_move_def Let_def
proof (intro shop.tr_if shop.tr_done shop.tr_bind [OF tr_pipeline_Get])
  fix p
  show "shop.triple b r c (\<lambda>s. True \<and> available c s p \<and> pl_ID p = de_PipelineID x0)
    (case findStage p sid of None \<Rightarrow> throw_io (Validation ''the stage does not belong to the deal's pipeline'')
     | Some st \<Rightarrow> bind_io (now_io d) (\<lambda>now. then_io (deal_repo_Update d c (applyStage st now x0 \<lparr>de_UpdatedAt := now\<rparr>))
         (then_io (auditMove c (de_ID (applyStage st now x0 \<lparr>de_UpdatedAt := now\<rparr>)) ''automation'')
         (then_io (publishDeal d (applyStage st now x0 \<lparr>de_UpdatedAt := now\<rparr>) RealtimeDealStageChanged (de_StageID x0) ''automation'')
         (then_io (recordStageMove d c (applyStage st now x0 \<lparr>de_UpdatedAt := now\<rparr>) (de_StageID x0) (de_Status x0) ''automation'')
         (notifyMoved d c (applyStage st now x0 \<lparr>de_UpdatedAt := now\<rparr>))))))) (\<lambda>_ _. True)"
  proof (cases "findStage p sid")
    case (Some st)
    have "shop.triple b r c (\<lambda>s. True \<and> available c s p \<and> pl_ID p = de_PipelineID x0) (deal_repo_Update d c (applyStage st now x0 \<lparr>de_UpdatedAt := now\<rparr>)) (\<lambda>_ _. True)" for now
      by (rule shop.tr_pre [OF tr_deal_save]) (use x0 findStage_in [OF Some] in \<open>auto simp: applyStage_ok available_def intro!: offered_placed\<close>)
    then show ?thesis unfolding Some option.case by (intro now_skip tr_write_then quiet_steps)
  qed (simp add: shop.tr_throw)
qed

lemma safe_AutomationMoveDealStage: "safe b r c (AutomationMoveDealStage d c i pid sid)"
  unfolding AutomationMoveDealStage_def Let_def
proof (rule shop.tr_lift_then, rule shop.tr_guard, rule shop.tr_guard, rule shop.tr_bind [OF tr_ByConversation])
  fix xs
  show "shop.triple b r c (\<lambda>s. True \<and> (\<forall>x \<in> set xs. stored c de_TenantID (s_deals s) x)) (for_io xs (automation_move d c (trim_space pid) (trim_space sid))) (\<lambda>_ _. True)"
  proof (rule shop.tr_pure [where R = "\<forall>x \<in> set xs. deal_ok r x \<and> RequireTenant c = Inr (de_TenantID x)"])
    assume "\<forall>x \<in> set xs. deal_ok r x \<and> RequireTenant c = Inr (de_TenantID x)"
    then show ?thesis by (intro shop.tr_pre [OF shop.tr_for] safe_automation_move) auto
  qed (auto simp: stored_def dest: stored_ok)
qed

subsection \<open>Tags and lines\<close>

lemma safe_AddTag: "safe b r c (AddTag d c i tag)"
  unfolding AddTag_def Let_def
proof (rule shop.tr_lift_then, rule shop.tr_guard, rule shop.tr_bind [OF tr_deal_Find], rule shop.tr_if)
  fix x assume "trim_space tag \<noteq> []" "\<not> HasTag x (trim_space tag)"
  then have s: "sound r x (x\<lparr>de_Tags := de_Tags x @ [trim_space tag]\<rparr>)" by (intro sound_add_tag)
  have "framed shop.quiet (bind_io (validateTags d c [trim_space tag]) (\<lambda>_. return_io ()))"
    by (intro quiet_steps steady.fr_validateTags)
  then show "shop.triple b r c (\<lambda>s. True \<and> stored c de_TenantID (s_deals s) x \<and> de_ID x = i)
    (then_io (bind_io (validateTags d c [trim_space tag]) (\<lambda>_. return_io ()))
      (bind_io (now_io d) (\<lambda>now. then_io (deal_repo_Update d c (x\<lparr>de_Tags := de_Tags x @ [trim_space tag], de_UpdatedAt := now\<rparr>))
        (then_io (crm_audit c ''deal.tagged'' (de_ID (x\<lparr>de_Tags := de_Tags x @ [trim_space tag], de_UpdatedAt := now\<rparr>)) Map.empty)
        (then_io (publishDeal d (x\<lparr>de_Tags := de_Tags x @ [trim_space tag], de_UpdatedAt := now\<rparr>) RealtimeDealUpdated [] [])
        (then_io (recordTimeline d c (de_ID (x\<lparr>de_Tags := de_Tags x @ [trim_space tag], de_UpdatedAt := now\<rparr>)) KindTagAdded (dealActor c) [''tag_id'' \<mapsto> GStr (trim_space tag)])
        (return_io (x\<lparr>de_Tags := de_Tags x @ [trim_space tag], de_UpdatedAt := now\<rparr>)))))))) (\<lambda>_ _. True)"
    by (rule shop.tr_skip_then, intro tr_edited quiet_steps) (simp add: s)
qed (simp add: shop.tr_return)

lemma safe_RemoveTag: "safe b r c (RemoveTag d c i tag)"
  unfolding RemoveTag_def Let_def
  by (rule shop.tr_lift_then, rule shop.tr_bind [OF tr_deal_Find], rule shop.tr_if, rule shop.tr_return, simp, rule tr_edited)
     (simp add: sound_remove_tag, intro quiet_steps)

text \<open>The rounding never turns a non-negative number into a negative one.\<close>

definition rounds_nonneg :: "(rat \<Rightarrow> float64) \<Rightarrow> bool" where
  "rounds_nonneg r \<longleftrightarrow> (\<forall>q. q \<ge> 0 \<longrightarrow> r q \<ge> 0)"

lemma line_total_nonneg: "rounds_nonneg r \<Longrightarrow> di_Quantity it > 0 \<Longrightarrow> di_UnitPrice it \<ge> 0 \<Longrightarrow> line_total r it \<ge> 0"
  unfolding line_total_def rounds_nonneg_def by simp

lemma lines_sum_nonneg:
  assumes r: "rounds_nonneg r" and "\<forall>it \<in> set xs. di_Total it \<ge> 0"
  shows "lines_sum r xs \<ge> 0"
proof -
  have "s \<ge> 0 \<Longrightarrow> \<forall>it \<in> set xs. di_Total it \<ge> 0 \<Longrightarrow> foldl (\<lambda>s x. r (s + di_Total x)) s xs \<ge> 0" for s and xs :: "deal_item list"
    using r by (induction xs arbitrary: s) (auto simp: rounds_nonneg_def)
  with assms(2) show ?thesis by (simp add: lines_sum_def)
qed

text \<open>The recalculation makes any list of priced lines well formed, whatever totals they carried.\<close>

definition priced :: "deal_item list \<Rightarrow> bool" where
  "priced xs \<longleftrightarrow> (\<forall>it \<in> set xs. di_Quantity it > 0 \<and> di_UnitPrice it \<ge> 0)"

lemma RecalcValue_sound:
  assumes "rounds_nonneg r" "priced items" and old: "deal_ok r x"
  shows "deal_ok r (RecalcValue r (x\<lparr>de_Items := items\<rparr>))"
proof -
  have t: "line_total r (it\<lparr>di_Total := v\<rparr>) = line_total r it" for it v by (simp add: line_total_def)
  have "lines_sum r (map (\<lambda>it. it\<lparr>di_Total := line_total r it\<rparr>) items) \<ge> 0"
    using assms(2) by (intro lines_sum_nonneg assms(1)) (auto simp: priced_def intro!: line_total_nonneg assms(1))
  with assms(2) old show ?thesis
    by (auto simp: deal_ok_def lines_ok_def status_ok_def RecalcValue_def Let_def priced_def t)
qed

lemma deal_ok_priced: "deal_ok r x \<Longrightarrow> priced (de_Items x)"
  by (simp add: deal_ok_def lines_ok_def priced_def)

lemma tr_saveItems:
  assumes "rounds_nonneg (re_Round d)" "priced (de_Items x0) \<Longrightarrow> priced items"
  shows "shop.triple b (re_Round d) c (\<lambda>s. stored c de_TenantID (s_deals s) x0) (saveItems d c (x0\<lparr>de_Items := items\<rparr>)) (\<lambda>_ _. True)"
proof -
  have "sound (re_Round d) x0 (RecalcValue (re_Round d) (x0\<lparr>de_Items := items\<rparr>))"
    unfolding sound_def using RecalcValue_sound [OF assms(1)] assms(2) deal_ok_priced by (auto simp: RecalcValue_def Let_def)
  then show ?thesis unfolding saveItems_def Let_def
    by (intro now_skip tr_write_then tr_edit_deal quiet_steps) simp
qed

lemma tr_products_guard: "shop.triple b r c P m Q \<Longrightarrow> shop.triple b r c P (then_io (requireProducts d c) m) Q"
  unfolding requireProducts_def by (rule shop.tr_skip_then [OF steady.fr_settings(3)])

lemma safe_last: "shop.triple b r c P m (\<lambda>_ _. True) \<Longrightarrow> (\<And>x. framed shop.quiet (f x)) \<Longrightarrow> shop.triple b r c P (bind_io m f) (\<lambda>_ _. True)"
  by (rule shop.tr_bind) (auto intro: safe_quiet)

lemma safe_AddItem:
  assumes r: "rounds_nonneg (re_Round d)"
  shows "safe b (re_Round d) c (AddItem d c i pid q)"
  unfolding AddItem_def Let_def
proof (rule tr_products_guard, rule shop.tr_guard, rule shop.tr_bind [OF tr_deal_Find], rule shop.tr_bind [OF tr_product_Find],
    rule shop.tr_guard, rule id_skip, rule safe_last)
  fix x0 p j assume q: "\<not> q \<le> 0"
  show "shop.triple b (re_Round d) c (\<lambda>s. (True \<and> stored c de_TenantID (s_deals s) x0 \<and> de_ID x0 = i) \<and> stored c po_TenantID (s_products s) p \<and> po_ID p = trim_space pid)
    (saveItems d c (x0\<lparr>de_Items := de_Items x0 @ [\<lparr>di_ID = j, di_ProductID = trim_space pid, di_Name = po_Name p, di_Quantity = q, di_UnitPrice = po_Price p, di_Total = 0\<rparr>]\<rparr>)) (\<lambda>_ _. True)"
  proof (rule shop.tr_pure [where R = "product_ok p"])
    assume "product_ok p"
    then have "priced (de_Items x0) \<Longrightarrow> priced (de_Items x0 @ [\<lparr>di_ID = j, di_ProductID = trim_space pid, di_Name = po_Name p, di_Quantity = q, di_UnitPrice = po_Price p, di_Total = 0\<rparr>])"
      using q by (auto simp: priced_def product_ok_def)
    then show ?thesis by (rule shop.tr_pre [OF tr_saveItems [OF r]]) simp_all
  qed (auto simp: stored_def dest: stored_ok)
qed (intro quiet_steps)

lemma patch_item_priced: "patch_item cmd it0 = Inr it \<Longrightarrow> di_Quantity it0 > 0 \<and> di_UnitPrice it0 \<ge> 0 \<Longrightarrow> di_Quantity it > 0 \<and> di_UnitPrice it \<ge> 0"
  unfolding patch_item_def res_bind_Inr patch_res_def by (auto split: option.splits if_splits)

lemma safe_UpdateItem:
  assumes r: "rounds_nonneg (re_Round d)"
  shows "safe b (re_Round d) c (UpdateItem d c i j cmd)"
  unfolding UpdateItem_def
proof (rule tr_products_guard, rule shop.tr_bind [OF tr_deal_Find])
  fix x0
  show "shop.triple b (re_Round d) c (\<lambda>s. True \<and> stored c de_TenantID (s_deals s) x0 \<and> de_ID x0 = i) (case FindItem x0 j of None \<Rightarrow> throw_io (NotFound ''item not found'')
      | Some k \<Rightarrow> bind_io (lift_res (patch_item cmd (de_Items x0 ! k))) (\<lambda>it. saveItems d c (x0\<lparr>de_Items := (de_Items x0)[k := it]\<rparr>))) (\<lambda>_ _. True)"
  proof (cases "FindItem x0 j")
    case (Some k)
    then have k: "k < length (de_Items x0)" by (auto simp: FindItem_def dest: index_where_Some)
    have "priced (de_Items x0) \<Longrightarrow> priced ((de_Items x0)[k := it])" if "patch_item cmd (de_Items x0 ! k) = Inr it" for it
      using patch_item_priced [OF that] k unfolding priced_def by (auto dest: set_update_subset_insert [THEN subsetD])
    then show ?thesis unfolding Some option.case
      by (intro shop.tr_lift shop.tr_pre [OF tr_saveItems [OF r]]) auto
  qed (simp add: shop.tr_throw)
qed

lemma safe_RemoveItem:
  assumes r: "rounds_nonneg (re_Round d)"
  shows "safe b (re_Round d) c (RemoveItem d c i j)"
  unfolding RemoveItem_def
proof (rule tr_products_guard, rule shop.tr_bind [OF tr_deal_Find])
  fix x0
  show "shop.triple b (re_Round d) c (\<lambda>s. True \<and> stored c de_TenantID (s_deals s) x0 \<and> de_ID x0 = i) (case FindItem x0 j of None \<Rightarrow> throw_io (NotFound ''item not found'')
      | Some k \<Rightarrow> bind_io (saveItems d c (x0\<lparr>de_Items := take k (de_Items x0) @ drop (Suc k) (de_Items x0)\<rparr>)) (\<lambda>x.
          then_io (recordItem d c x KindProductRemoved (de_Items x0 ! k)) (return_io x))) (\<lambda>_ _. True)"
  proof (cases "FindItem x0 j")
    case (Some k)
    have "priced (de_Items x0) \<Longrightarrow> priced (take k (de_Items x0) @ drop (Suc k) (de_Items x0))"
      unfolding priced_def by (auto dest: in_set_takeD in_set_dropD)
    then have "shop.triple b (re_Round d) c (\<lambda>s. True \<and> stored c de_TenantID (s_deals s) x0 \<and> de_ID x0 = i)
        (saveItems d c (x0\<lparr>de_Items := take k (de_Items x0) @ drop (Suc k) (de_Items x0)\<rparr>)) (\<lambda>_ _. True)"
      by (rule shop.tr_pre [OF tr_saveItems [OF r]]) simp_all
    then show ?thesis unfolding Some option.case by (rule safe_last) (intro quiet_steps)
  qed (simp add: shop.tr_throw)
qed

lemma safe_deal_Delete: "safe b r c (deal_Delete d c i)"
  unfolding deal_Delete_def
  by (intro shop.tr_lift_then shop.tr_bind [OF tr_deal_Find] tr_write_then tr_deal_remove quiet_steps)

section \<open>Tasks\<close>

lemma tr_task_guard: "shop.triple b r c P m Q \<Longrightarrow> shop.triple b r c P (then_io (task_guard d c) m) Q"
  by (rule shop.tr_skip_then [OF steady.fr_task_forms(7)])

lemma safe_task_Create: "safe b r c (task_Create d c cmd)"
  unfolding task_Create_def Let_def
  by (rule shop.tr_lift, rule tr_task_guard, rule shop.tr_skip [OF steady.fr_task_forms(1)], rule shop.tr_guard,
      rule shop.tr_skip_then [OF steady.fr_task_forms(2)], rule now_skip, rule id_skip, rule tr_write_then, rule tr_task_create)
     (simp_all add: task_ok_def, intro quiet_steps)

text \<open>A task of the tenant's, of a deal the actor sees.\<close>

lemma tr_task_load: "shop.triple b r c P (task_load d c i j) (\<lambda>x s. P s \<and> task_ok x)"
  unfolding task_load_def
  by (rule shop.tr_skip [OF steady.fr_task_forms(1)], rule shop.tr_bind [OF tr_task_Find], rule shop.tr_guard, rule shop.tr_return)
     (auto simp: stored_def intro: stored_ok)

lemma safe_task_Update: "safe b r c (task_Update d c i j cmd)"
  unfolding task_Update_def Let_def
proof (rule tr_task_guard, rule shop.tr_bind [OF tr_task_load], rule shop.tr_conj, rule shop.tr_lift)
  fix x0 x1 assume x0: "task_ok x0" and x1: "task_title (ut_Title cmd) x0 = Inr x1"
  have "task_ok x1" using x0 x1 by (auto simp: task_title_def patch_res_def task_ok_def split: option.splits if_splits)
  then have e: "task_ok (task_edit cmd x1)" unfolding task_edit_def Let_def patch_def task_ok_def by (simp split: option.split)
  have "returns (task_assign d c (ut_AssignedTo cmd) (task_edit cmd x1)) task_ok"
    unfolding task_assign_def then_io_def using e by (auto intro!: returns_return returns_bind simp: task_ok_def split: option.split)
  then have assign: "shop.triple b r c P (task_assign d c (ut_AssignedTo cmd) (task_edit cmd x1)) (\<lambda>x s. P s \<and> task_ok x)" for P
    by (intro shop.tr_quiet_returns steady.fr_task_forms)
  show "safe b r c (bind_io (task_assign d c (ut_AssignedTo cmd) (task_edit cmd x1)) (\<lambda>x2. bind_io (now_io d) (\<lambda>now.
      then_io (task_repo_Update d c (x2\<lparr>tk_UpdatedAt := now\<rparr>))
     (then_io (when_io (tk_AssignedTo (x2\<lparr>tk_UpdatedAt := now\<rparr>) \<noteq> [] \<and> tk_AssignedTo (x2\<lparr>tk_UpdatedAt := now\<rparr>) \<noteq> tk_AssignedTo x0) (notifyAssignee c (x2\<lparr>tk_UpdatedAt := now\<rparr>)))
     (task_view_of d c (x2\<lparr>tk_UpdatedAt := now\<rparr>))))))"
    by (rule shop.tr_bind [OF assign], rule shop.tr_conj, rule now_skip, rule tr_write_then, rule tr_task_update)
       (simp add: task_ok_def, intro quiet_steps)
qed

lemma safe_Complete: "safe b r c (Complete d c i j)"
  unfolding Complete_def Let_def
  by (rule tr_task_guard, rule shop.tr_bind [OF tr_task_load], rule shop.tr_conj, rule shop.tr_if, rule safe_quiet, intro quiet_steps,
      rule now_skip, rule tr_write_then, rule tr_task_update)
     (auto simp: task_ok_def TaskDone_def TaskPending_def intro!: quiet_steps)

lemma safe_task_Delete: "safe b r c (task_Delete d c i j)"
  unfolding task_Delete_def
  by (rule tr_task_guard, rule shop.tr_bind [OF tr_task_load], rule tr_task_remove)

end
