(* ===== verification/Crm_Props.thy ===== *)
theory Crm_Props
  imports Shop_Deals
begin

text \<open>
  The sales module under any sequence of requests: cards stay on the board, values add up, every
  tenant has one default pipeline and nobody reaches another tenant's documents; and tasks and
  comments of a deal the actor may not see are out of reach.
\<close>

section \<open>Requests\<close>

datatype crm_request =
    SwitchModules update_settings
  | AddPipeline create_pipeline
  | EditPipeline ident update_pipeline
  | DropPipeline ident
  | NewStage ident stage_input
  | EditStage ident ident update_stage
  | OrderStages ident "ident list"
  | DropStage ident ident
  | AddProduct create_product
  | EditProduct ident update_product
  | AddDeal create_deal
  | DealFromConversation create_from_conversation
  | EditDeal ident update_deal
  | GiveDeal ident ident
  | MoveDeal ident ident
  | LoseDeal ident string
  | LinkDeal ident ident
  | RuleMove ident ident ident
  | TagDeal ident ident
  | UntagDeal ident ident
  | AddLine ident ident int
  | EditLine ident ident update_item
  | DropLine ident ident
  | DropDeal ident
  | CommentOn ident string
  | AddTask create_task
  | EditTask ident ident update_task
  | CompleteTask ident ident
  | DropTask ident ident

definition void :: "('w, 'a) io \<Rightarrow> ('w, unit) io" where
  "void m = bind_io m (\<lambda>_. return_io ())"

fun serve_crm :: "'e crm_env_scheme \<Rightarrow> ctx \<Rightarrow> crm_request \<Rightarrow> ('z crm_world_scheme, unit) io" where
  "serve_crm d c (SwitchModules cmd) = void (settings_Update d c cmd)"
| "serve_crm d c (AddPipeline cmd) = void (pipeline_Create d c cmd)"
| "serve_crm d c (EditPipeline i cmd) = void (pipeline_Update d c i cmd)"
| "serve_crm d c (DropPipeline i) = pipeline_Delete d c i"
| "serve_crm d c (NewStage i cmd) = void (AddStage d c i cmd)"
| "serve_crm d c (EditStage i j cmd) = void (UpdateStage d c i j cmd)"
| "serve_crm d c (OrderStages i ids) = void (ReorderStages d c i ids)"
| "serve_crm d c (DropStage i j) = void (DeleteStage d c i j)"
| "serve_crm d c (AddProduct cmd) = void (product_Create d c cmd)"
| "serve_crm d c (EditProduct i cmd) = void (product_Update d c i cmd)"
| "serve_crm d c (AddDeal cmd) = void (deal_Create d c cmd)"
| "serve_crm d c (DealFromConversation cmd) = void (CreateFromConversation d c cmd)"
| "serve_crm d c (EditDeal i cmd) = void (deal_Update d c i cmd)"
| "serve_crm d c (GiveDeal i u) = void (AssignTo d c i u)"
| "serve_crm d c (MoveDeal i j) = void (MoveStage d c i j)"
| "serve_crm d c (LoseDeal i reason) = void (MarkLost d c i reason)"
| "serve_crm d c (LinkDeal i j) = void (LinkConversation d c i j)"
| "serve_crm d c (RuleMove i p j) = AutomationMoveDealStage d c i p j"
| "serve_crm d c (TagDeal i j) = void (AddTag d c i j)"
| "serve_crm d c (UntagDeal i j) = void (RemoveTag d c i j)"
| "serve_crm d c (AddLine i j q) = void (AddItem d c i j q)"
| "serve_crm d c (EditLine i j cmd) = void (UpdateItem d c i j cmd)"
| "serve_crm d c (DropLine i j) = void (RemoveItem d c i j)"
| "serve_crm d c (DropDeal i) = deal_Delete d c i"
| "serve_crm d c (CommentOn i txt) = void (timeline_Comment d c i txt)"
| "serve_crm d c (AddTask cmd) = void (task_Create d c cmd)"
| "serve_crm d c (EditTask i j cmd) = void (task_Update d c i j cmd)"
| "serve_crm d c (CompleteTask i j) = void (Complete d c i j)"
| "serve_crm d c (DropTask i j) = task_Delete d c i j"

fun run_crm :: "'e crm_env_scheme \<Rightarrow> (ctx \<times> crm_request) list \<Rightarrow> 'z crm_world_scheme \<Rightarrow> 'z crm_world_scheme" where
  "run_crm d [] w = w"
| "run_crm d ((c, rq) # rqs) w = run_crm d rqs (snd (serve_crm d c rq w))"

lemma safe_void: "safe b r c m \<Longrightarrow> safe b r c (void m)"
  unfolding void_def by (rule safe_last, assumption, intro quiet_steps)

lemma safe_serve_crm:
  assumes "rounds_nonneg (re_Round d)" "b \<Longrightarrow> \<forall>i. rq \<noteq> DropPipeline i"
  shows "safe b (re_Round d) c (serve_crm d c rq)"
proof (cases rq)
  case (DropPipeline i)
  with assms(2) show ?thesis by (cases b) (simp_all add: safe_pipeline_Delete)
qed (simp_all add: safe_void safe_quiet steady.fr_settings_Update steady.fr_comment safe_pipeline_Create safe_pipeline_Update
    safe_AddStage safe_UpdateStage safe_ReorderStages safe_DeleteStage safe_product_Create safe_product_Update safe_deal_Create
    safe_CreateFromConversation safe_deal_Update safe_AssignTo safe_MoveStage safe_MarkLost safe_LinkConversation
    safe_AutomationMoveDealStage safe_AddTag safe_RemoveTag safe_AddItem safe_UpdateItem safe_RemoveItem safe_deal_Delete
    safe_task_Create safe_task_Update safe_Complete safe_task_Delete assms(1))

lemma run_crm_safe:
  assumes "rounds_nonneg (re_Round d)" "b \<Longrightarrow> \<forall>c i. (c, DropPipeline i) \<notin> set rqs" "shop_ok b (re_Round d) (shop_of w)"
  shows "shop_ok b (re_Round d) (shop_of (run_crm d rqs w))
    \<and> (\<forall>t. (\<forall>c rq. (c, rq) \<in> set rqs \<longrightarrow> ctx_tenant c \<noteq> Some t) \<longrightarrow> same_for t (shop_of w) (shop_of (run_crm d rqs w)))"
  using assms(2,3)
proof (induction rqs arbitrary: w)
  case (Cons q rqs)
  obtain c rq where q: "q = (c, rq)" by fastforce
  let ?w = "snd (serve_crm d c rq w)"
  have "safe b (re_Round d) c (serve_crm d c rq)" using Cons.prems(1) q by (intro safe_serve_crm assms(1)) auto
  from shop.tr_keeps [OF this Cons.prems(2)]
  have ok: "shop_ok b (re_Round d) (shop_of ?w)" and oth: "others_same c (shop_of w) (shop_of ?w)" by auto
  have "b \<Longrightarrow> \<forall>c i. (c, DropPipeline i) \<notin> set rqs" using Cons.prems(1) by auto
  note IH = Cons.IH [OF this ok]
  have "same_for t (shop_of w) (shop_of (run_crm d rqs ?w))" if "\<forall>c' rq'. (c', rq') \<in> set (q # rqs) \<longrightarrow> ctx_tenant c' \<noteq> Some t" for t
  proof -
    have "same_for t (shop_of w) (shop_of ?w)" using oth that q by (auto simp: others_same_def)
    moreover have "\<forall>c rq. (c, rq) \<in> set rqs \<longrightarrow> ctx_tenant c \<noteq> Some t" using that by auto
    with IH have "same_for t (shop_of ?w) (shop_of (run_crm d rqs ?w))" by blast
    ultimately show ?thesis by (simp add: same_for_def)
  qed
  with IH show ?case by (simp add: q)
qed (simp add: same_for_def)

text \<open>
  C38: Whatever the requests of whatever tenants and whatever the driver fails, as long as nobody deletes a pipeline, every deal
  is in a stage of its own pipeline: a stage with deals is not deleted, a deal moves only within its pipeline, and edits and
  reorderings keep the stages' identifiers.
\<close>

theorem cards_stay_on_the_board:
  assumes "rounds_nonneg (re_Round d)" and "shop_ok True (re_Round d) (shop_of w)" and "\<forall>c i. (c, DropPipeline i) \<notin> set rqs"
  shows "\<forall>x \<in> set (deals (run_crm d rqs w)). \<exists>p \<in> set (pipelines (run_crm d rqs w)).
     pl_ID p = de_PipelineID x \<and> pl_TenantID p = de_TenantID x \<and> de_StageID x \<in> sg_ID ` set (pl_Stages p)"
proof -
  have "shop_ok True (re_Round d) (shop_of (run_crm d rqs w))" using run_crm_safe [of d True rqs w] assms by blast
  from stored_ok(5) [OF this] show ?thesis by (simp add: placed_def)
qed

text \<open>
  C39: Through any sequence of requests, pipeline deletions included, the sales data stay consistent: pipelines valid with at
  most one default in each tenant; product prices not negative; every deal titled, its value not negative and, when it has
  lines, the rounded sum of their rounded totals, its status and closing instant agreeing, its tags and conversations listed
  once; tasks done exactly when they have a completion instant. A tenant that makes no request finds its documents unchanged.
\<close>

theorem sales_data_stay_consistent:
  assumes "rounds_nonneg (re_Round d)" and "shop_ok False (re_Round d) (shop_of w)"
  shows "shop_ok False (re_Round d) (shop_of (run_crm d rqs w))
    \<and> (\<forall>t. (\<forall>c rq. (c, rq) \<in> set rqs \<longrightarrow> ctx_tenant c \<noteq> Some t) \<longrightarrow> same_for t (shop_of w) (shop_of (run_crm d rqs w)))"
  by (rule run_crm_safe) (use assms in auto)

section \<open>Deals out of sight\<close>

text \<open>No deal of the tenant with this identifier is visible to the actor.\<close>

definition hidden :: "ctx \<Rightarrow> ident \<Rightarrow> deal list \<Rightarrow> bool" where
  "hidden c i ds \<longleftrightarrow> (\<forall>x \<in> set ds. de_ID x = i \<and> ctx_tenant c = Some (de_TenantID x) \<longrightarrow>
     (case ctx_auth c of None \<Rightarrow> True | Some ac \<Rightarrow> \<not> deal_visible ac x))"

definition untouched :: "'z crm_world_scheme \<Rightarrow> 'z crm_world_scheme \<Rightarrow> bool" where
  "untouched w w' \<longleftrightarrow> deals w' = deals w \<and> deal_tasks w' = deal_tasks w \<and> timeline w' = timeline w \<and> effects w' = effects w"

interpretation untouched: io_step "untouched :: 'z crm_world_scheme \<Rightarrow> 'z crm_world_scheme \<Rightarrow> bool"
  by unfold_locales (simp_all add: untouched_def tick_def)

definition refuses :: "ctx \<Rightarrow> ident \<Rightarrow> ('z crm_world_scheme, 'a) io \<Rightarrow> bool" where
  "refuses c i m \<longleftrightarrow> (\<forall>w. hidden c i (deals w) \<longrightarrow> wp m (\<lambda>_ _. False) (\<lambda>_. untouched w) w)"

lemma refuses_first: "refuses c i m \<Longrightarrow> refuses c i (bind_io m f)"
  unfolding refuses_def wp_bind by (auto elim!: wp_mono)

lemma refuses_skip:
  fixes m :: "('z crm_world_scheme, 'a) io"
  assumes m: "framed untouched m" and f: "\<And>x. refuses c i (f x)" shows "refuses c i (bind_io m f)"
  unfolding refuses_def wp_bind
proof (intro allI impI)
  fix w :: "'z crm_world_scheme" assume h: "hidden c i (deals w)"
  show "wp m (\<lambda>x. wp (f x) (\<lambda>_ _. False) (\<lambda>_. untouched w)) (\<lambda>_. untouched w) w"
  proof (rule wp_framed [OF m])
    fix x w' assume u: "untouched w w'"
    then have "wp (f x) (\<lambda>_ _. False) (\<lambda>_. untouched w') w'" using f [of x] h by (simp add: refuses_def untouched_def)
    then show "wp (f x) (\<lambda>_ _. False) (\<lambda>_. untouched w) w'" by (rule wp_mono) (use u untouched.rel_trans in blast)+
  qed
qed

lemma refuses_skip_then: "framed untouched m \<Longrightarrow> refuses c i n \<Longrightarrow> refuses c i (then_io m n)"
  unfolding then_io_def by (rule refuses_skip)

lemma untouched_module: "framed untouched (require_module d c m t)"
  unfolding require_module_def IsModuleEnabled_def settings_Get_def settings_repo_Get_def
  by (intro untouched.fr_then untouched.fr_lift untouched.fr_bind untouched.fr_try untouched.fr_query untouched.fr_guard)
     (auto intro: untouched.fr_return untouched.fr_throw split: sum.split)

lemma refuses_ensureVisible: "refuses c i (ensureVisible d c i :: ('z crm_world_scheme, deal) io)"
  unfolding refuses_def ensureVisible_def deal_FindByID_def wp_bind
proof (intro allI impI)
  fix w :: "'z crm_world_scheme" assume h: "hidden c i (deals w)"
  show "wp (repo_query d c deals (\<lambda>t. find_one (deal_by t i))) (\<lambda>x. wp (case ctx_auth c of None \<Rightarrow> throw_io (Unauthorized ''authentication required'')
      | Some ac \<Rightarrow> if deal_visible ac x then return_io x else throw_io (NotFound ''deal not found'')) (\<lambda>_ _. False) (\<lambda>_. untouched w)) (\<lambda>_. untouched w) w"
  proof (rule wp_mono [OF deck.query_wp])
    fix x w' assume "\<exists>t. RequireTenant c = Inr t \<and> find_one (deal_by t i) (deals w) = Inr x \<and> w' = tick w"
    then have x: "x \<in> set (deals w)" "de_ID x = i" "ctx_tenant c = Some (de_TenantID x)" and w': "untouched w w'"
      by (auto simp: RequireTenant_Inr deal_by_def untouched.rel_tick dest!: find_one_Inr)
    from h x have "case ctx_auth c of None \<Rightarrow> True | Some ac \<Rightarrow> \<not> deal_visible ac x" by (simp add: hidden_def)
    then show "wp (case ctx_auth c of None \<Rightarrow> throw_io (Unauthorized ''authentication required'')
      | Some ac \<Rightarrow> if deal_visible ac x then return_io x else throw_io (NotFound ''deal not found'')) (\<lambda>_ _. False) (\<lambda>_. untouched w) w'"
      using w' by (simp add: wp_throw split: option.splits)
  qed (auto simp: untouched.rel_refl untouched.rel_tick)
qed

lemma refuses_task_deal: "refuses c i (task_deal d c i)"
  unfolding task_deal_def by (rule refuses_skip_then [OF untouched.fr_guard refuses_ensureVisible])

lemma refuses_task_guard: "refuses c i m \<Longrightarrow> refuses c i (then_io (task_guard d c) m)"
  unfolding task_guard_def by (rule refuses_skip_then [OF untouched_module])

lemma refuses_task_load: "refuses c i (task_load d c i j)"
  unfolding task_load_def by (rule refuses_first [OF refuses_task_deal])

fun about_deal :: "crm_request \<Rightarrow> ident option" where
  "about_deal (CommentOn i _) = Some i"
| "about_deal (AddTask cmd) = Some (trim_space (nt_DealID cmd))"
| "about_deal (EditTask i _ _) = Some i"
| "about_deal (CompleteTask i _) = Some i"
| "about_deal (DropTask i _) = Some i"
| "about_deal _ = None"

lemma refuses_Comment: "refuses c i (timeline_Comment d c i msg)"
  unfolding timeline_Comment_def Let_def
  by (intro refuses_skip refuses_skip_then refuses_first untouched.fr_lift untouched.fr_guard untouched_module refuses_ensureVisible)

lemma refuses_task_Create: "refuses c (trim_space (nt_DealID cmd)) (task_Create d c cmd)"
  unfolding task_Create_def Let_def
  by (intro refuses_skip [OF untouched.fr_lift] refuses_task_guard refuses_first [OF refuses_task_deal])

lemma refuses_hidden: "about_deal rq = Some i \<Longrightarrow> refuses c i (serve_crm d c rq)"
  by (cases rq) (auto simp: void_def task_Update_def Complete_def task_Delete_def
      intro!: refuses_first refuses_task_guard refuses_task_load refuses_Comment refuses_task_Create)

text \<open>
  C40: Commenting on a deal and creating, editing, completing or deleting its tasks fail, and change no deal, task, timeline or
  side effect, when the actor may not see the deal: it does not exist in the tenant, or its sector and assignee are not the actor's.
\<close>

theorem hidden_deals_are_out_of_reach:
  assumes "about_deal rq = Some i" and "hidden c i (deals w)"
  shows "case serve_crm d c rq w of (r, w') \<Rightarrow> (\<exists>e. r = Inl e) \<and> deals w' = deals w \<and> deal_tasks w' = deal_tasks w
     \<and> timeline w' = timeline w \<and> effects w' = effects w"
  using refuses_hidden [OF assms(1), of c d] assms(2)
  by (cases "serve_crm d c rq w"; cases "fst (serve_crm d c rq w)") (auto simp: refuses_def wp_def untouched_def)

end
