(* ===== verification/Crm_Order.thy ===== *)
theory Crm_Order
  imports Pipelines
begin

text \<open>The order of the board: an accepted reordering puts the stages exactly in the listed order.\<close>

lemma reorder_checked: "reorder_check p seen ids = None \<Longrightarrow> distinct ids \<and> set ids \<inter> set seen = {} \<and> set ids \<subseteq> sg_ID ` set (pl_Stages p)"
proof (induction ids arbitrary: seen)
  case (Cons i ids)
  have known: "StageIndex p i \<noteq> None" and new: "i \<notin> set seen" and rec: "reorder_check p (i # seen) ids = None"
    using Cons.prems by (auto split: if_splits)
  have "index_where (\<lambda>s. sg_ID s = i) ss \<noteq> None \<Longrightarrow> i \<in> sg_ID ` set ss" for ss
    by (induction ss) (auto split: if_splits)
  with known have "i \<in> sg_ID ` set (pl_Stages p)" by (simp add: StageIndex_def)
  with Cons.IH [OF rec] new show ?case by auto
qed simp

lemma index_where_nth: "distinct ids \<Longrightarrow> i \<in> set ids \<Longrightarrow> \<exists>k < length ids. index_where (\<lambda>j. j = i) ids = Some k \<and> ids ! k = i"
proof (induction ids)
  case (Cons a ids)
  then show ?case
  proof (cases "a = i")
    case False
    with Cons obtain k where "k < length ids" "index_where (\<lambda>j. j = i) ids = Some k" "ids ! k = i" by auto
    with False show ?thesis by (intro exI [of _ "Suc k"]) simp
  qed auto
qed simp

lemma placed_in_order:
  assumes ids: "distinct ids" "sg_ID ` set ss = set ids" "distinct (map sg_ID ss)" "length ids = length ss"
  shows "map sg_ID (sort_key sg_Order (map (place ids) ss)) = ids"
proof -
  let ?ys = "sort_key sg_Order (map (place ids) ss)"
  have pos: "\<exists>k < length ids. sg_Order (place ids s) = int k \<and> ids ! k = sg_ID s" if "s \<in> set ss" for s
  proof -
    have "sg_ID s \<in> set ids" using ids(2) that by blast
    from index_where_nth [OF ids(1) this] show ?thesis by (auto simp: place_def)
  qed
  have at: "ids ! nat (sg_Order y) = sg_ID y \<and> sg_Order y \<in> int ` {..<length ids}" if "y \<in> set ?ys" for y
    using that pos by (force simp: place_def)
  have "inj_on sg_Order (set ?ys)"
  proof (rule inj_onI)
    fix x y assume x: "x \<in> set ?ys" and y: "y \<in> set ?ys" and eq: "sg_Order x = sg_Order y"
    from at [OF x] at [OF y] eq have "sg_ID x = sg_ID y" by simp
    moreover obtain s t where "x = place ids s" "s \<in> set ss" "y = place ids t" "t \<in> set ss" using x y by auto
    ultimately show "x = y" using ids(3) by (auto simp: place_def distinct_map dest: inj_onD)
  qed
  have "map sg_ID (map (place ids) ss) = map sg_ID ss" by (simp add: place_def)
  then have "distinct (map sg_ID (map (place ids) ss))" using ids(3) by (simp only:)
  then have "distinct (map (place ids) ss)" unfolding distinct_map by blast
  then have "distinct ?ys" by simp
  with \<open>inj_on sg_Order (set ?ys)\<close> have d: "distinct (map sg_Order ?ys)" by (simp add: distinct_map)
  have "set (map sg_Order ?ys) \<subseteq> int ` {..<length ids}" using at by auto
  moreover have "card (set (map sg_Order ?ys)) = length ids" using distinct_card [OF d] ids(4) by simp
  ultimately have "set (map sg_Order ?ys) = int ` {..<length ids}"
    by (intro card_subset_eq) (simp_all add: card_image)
  then have "set (map sg_Order ?ys) = set (map int [0..<length ids])" by (simp add: lessThan_atLeast0)
  then have order: "map sg_Order ?ys = map int [0..<length ids]"
    by (intro sorted_distinct_set_unique d sorted_sort_key) (simp_all add: distinct_map sorted_map sorted_wrt_upt)
  have "map sg_ID ?ys = map (\<lambda>z. ids ! nat z) (map sg_Order ?ys)" using at by auto
  also have "\<dots> = ids" unfolding order by (simp add: comp_def map_nth)
  finally show ?thesis .
qed

lemma returns_mutate: "(\<And>p0. returns (mutate p0) P) \<Longrightarrow> (\<And>p t. P p \<Longrightarrow> Q (SortStages (p\<lparr>pl_UpdatedAt := t\<rparr>))) \<Longrightarrow> returns (mutateStages d c pid action mutate) Q"
  unfolding mutateStages_def then_io_def Let_def
  by (rule returns_bind, rule returns_bind, rule returns_bind_returns, assumption) (intro returns_bind returns_return)

text \<open>
  A reordering that is accepted lists every stage once, and the pipeline it answers has its stages in exactly that order.
\<close>

theorem reordering_is_obeyed:
  assumes "ReorderStages d c pid ids w = (Inr p, w')"
  shows "map sg_ID (pl_Stages p) = ids \<and> distinct ids"
proof -
  let ?reordered = "\<lambda>p. distinct ids \<and> map sg_ID (pl_Stages (SortStages p)) = ids"
  have "returns (ReorderStages d c pid ids) (\<lambda>p. distinct ids \<and> map sg_ID (pl_Stages p) = ids)"
    unfolding ReorderStages_def
  proof (rule returns_mutate [where P = ?reordered])
    fix p0
    show "returns (if length ids \<noteq> length (pl_Stages p0) then throw_io (Validation ''reorder must list every stage exactly once'')
      else (case reorder_check p0 [] ids of Some e \<Rightarrow> throw_io e | None \<Rightarrow> return_io (p0\<lparr>pl_Stages := map (place ids) (pl_Stages p0)\<rparr>))) ?reordered"
    proof (cases "length ids = length (pl_Stages p0) \<and> reorder_check p0 [] ids = None")
      case True
      then have n: "length ids = length (pl_Stages p0)" and ids: "distinct ids" "set ids \<subseteq> sg_ID ` set (pl_Stages p0)"
        using reorder_checked by blast+
      have le: "card (sg_ID ` set (pl_Stages p0)) \<le> length ids"
        unfolding n by (metis card_length length_map list.set_map)
      have "set ids = sg_ID ` set (pl_Stages p0)"
        by (rule card_subset_eq) (use ids le distinct_card [OF ids(1)] card_mono [OF _ ids(2)] in auto)
      moreover from this have "distinct (map sg_ID (pl_Stages p0))"
        using distinct_card [OF ids(1)] n by (intro card_distinct) simp
      ultimately show ?thesis using True ids n placed_in_order [of ids "pl_Stages p0"]
        by (auto simp: SortStages_def intro!: returns_return)
    qed (auto intro: returns_throw split: option.split)
  qed (simp add: SortStages_def)
  with assms show ?thesis by (auto simp: returns_def)
qed

end
