(* ===== verification/Crm_Demo.thy ===== *)
theory Crm_Demo
  imports Crm_Props Crm_Order
begin

text \<open>A tenant with a pipeline of two stages, a product and a deal, for the witnesses of the sales module.\<close>

definition crm_env0 :: crm_env where
  "crm_env0 = \<lparr>clk = (\<lambda>n. int n), newid = (\<lambda>n. replicate (Suc n) CHR ''k''), fault = (\<lambda>_. None),
     re_Round = (\<lambda>q. q), re_ValidateTags = None, re_SectorAgents = None, re_AgentExists = None, re_AgentCards = None, re_Regex = (\<lambda>_. None)\<rparr>"

definition seller :: ctx where
  "seller = \<lparr>ctx_tenant = Some ''t1'', ctx_auth = Some \<lparr>ac_TenantID = ''t1'', ac_UserID = ''u1'', ac_Permissions = {}, ac_SectorIDs = [''s1''], ac_SectorScope = ''own''\<rparr>, ctx_origin = None, ctx_depth = None\<rparr>"

definition stage0 :: "ident \<Rightarrow> bool \<Rightarrow> stage" where
  "stage0 i won = \<lparr>sg_ID = i, sg_Name = i, sg_Order = 0, sg_IsWon = won, sg_IsLost = False, sg_Color = []\<rparr>"

definition deal0 :: deal where
  "deal0 = \<lparr>de_ID = ''d1'', de_TenantID = ''t1'', de_PipelineID = ''p1'', de_StageID = ''new'', de_ContactID = [], de_Title = ''Fibra'',
     de_Value = 0, de_Currency = ''BRL'', de_AssignedTo = ''u2'', de_SectorID = ''s2'', de_ConversationIDs = [], de_Tags = [], de_Source = [],
     de_Status = ''open'', de_LostReason = [], de_ExpectedCloseDate = None, de_StageChangedAt = 0, de_ClosedAt = None, de_Items = [],
     de_CreatedAt = 0, de_UpdatedAt = 0\<rparr>"

definition crm_world0 :: crm_world where
  "crm_world0 = \<lparr>step = 0, convs = [], msgs = [], cevents = [], chans = [], sectors = [], effects = [], contacts = [], contact_log = [],
     crm_configs = [\<lparr>cs_TenantID = ''t1'', cs_TasksEnabled = True, cs_ProductsEnabled = True, cs_TimelineEnabled = True, cs_UpdatedAt = 0\<rparr>],
     pipelines = [\<lparr>pl_ID = ''p1'', pl_TenantID = ''t1'', pl_Name = ''Vendas'', pl_IsDefault = True, pl_Stages = [stage0 ''new'' False, stage0 ''won'' True],
       pl_CreatedAt = 0, pl_UpdatedAt = 0\<rparr>],
     products = [\<lparr>po_ID = ''q1'', po_TenantID = ''t1'', po_Name = ''Plano'', po_Description = [], po_Price = 5, po_Currency = ''BRL'', po_SKU = [],
       po_Active = True, po_CreatedAt = 0, po_UpdatedAt = 0\<rparr>],
     deals = [deal0], timeline = [], deal_tasks = []\<rparr>"

definition crm_story :: "(ctx \<times> crm_request) list" where
  "crm_story = [(seller, DropStage ''p1'' ''new''), (seller, AddLine ''d1'' ''q1'' 3), (seller, MoveDeal ''d1'' ''won''), (seller, DropStage ''p1'' ''new'')]"

lemma crm_story_ends:
  "map (\<lambda>x. (de_StageID x, de_Status x, de_Value x)) (deals (run_crm crm_env0 crm_story crm_world0)) = [(''won'', ''won'', 15)]
   \<and> map (\<lambda>p. map sg_ID (pl_Stages p)) (pipelines (run_crm crm_env0 crm_story crm_world0)) = [[''won'']]"
  by code_simp

lemma crm_world0_ok: "shop_ok True (re_Round crm_env0) (shop_of crm_world0)" "rounds_nonneg (re_Round crm_env0)"
  by (simp_all add: crm_world0_def shop_ok_def shop_of_def pipeline_ok_def pipeline_Validate_def stage0_def one_default_def product_ok_def
      deal_ok_def deal0_def lines_ok_def status_ok_def DealOpen_def task_ok_def placed_def crm_env0_def rounds_nonneg_def plain_char_def)

theorem cards_stay_on_the_board_witness:
  "map de_StageID (deals (run_crm crm_env0 crm_story crm_world0)) = [''won''] \<and>
   map (map sg_ID \<circ> pl_Stages) (pipelines (run_crm crm_env0 crm_story crm_world0)) = [[''won'']] \<and>
   (\<exists>p x. [p] = pipelines (run_crm crm_env0 crm_story crm_world0) \<and> [x] = deals (run_crm crm_env0 crm_story crm_world0)
      \<and> pl_ID p = de_PipelineID x)"
proof -
  let ?w = "run_crm crm_env0 crm_story crm_world0"
  have ends: "map de_StageID (deals ?w) = [''won'']" "map (map sg_ID \<circ> pl_Stages) (pipelines ?w) = [[''won'']]"
    using crm_story_ends by auto
  then obtain x p where xp: "deals ?w = [x]" "pipelines ?w = [p]" by (auto simp: map_eq_Cons_conv)
  have "\<forall>c i. (c, DropPipeline i) \<notin> set crm_story" by (simp add: crm_story_def)
  from cards_stay_on_the_board [OF crm_world0_ok(2,1) this] xp have "pl_ID p = de_PipelineID x" by simp
  with xp ends show ?thesis by simp
qed

theorem sales_data_stay_consistent_witness:
  "map de_Value (deals (run_crm crm_env0 crm_story crm_world0)) = [15] \<and> shop_ok False (re_Round crm_env0) (shop_of (run_crm crm_env0 crm_story crm_world0))"
proof -
  have "shop_ok False (re_Round crm_env0) (shop_of crm_world0)" using crm_world0_ok(1) by (simp add: shop_ok_def)
  from sales_data_stay_consistent [OF crm_world0_ok(2) this, of crm_story] crm_story_ends show ?thesis by auto
qed

text \<open>The deal is of another sector and another seller.\<close>

theorem hidden_deals_are_out_of_reach_witness:
  "(\<exists>e. fst (serve_crm crm_env0 seller (CommentOn ''d1'' ''oi'') crm_world0) = Inl e)
    \<and> timeline (snd (serve_crm crm_env0 seller (CommentOn ''d1'' ''oi'') crm_world0)) = []"
proof -
  have "hidden seller ''d1'' (deals crm_world0)"
    by (simp add: hidden_def crm_world0_def deal0_def seller_def deal_visible_def ScopeAll_def)
  from hidden_deals_are_out_of_reach [OF _ this, of "CommentOn ''d1'' ''oi''" crm_env0]
  show ?thesis by (auto simp: crm_world0_def split: prod.splits)
qed

theorem reordering_is_obeyed_witness:
  "\<exists>p w'. ReorderStages crm_env0 seller ''p1'' [''won'', ''new''] crm_world0 = (Inr p, w')
     \<and> map sg_ID (pl_Stages p) = [''won'', ''new'']"
proof -
  have "\<not> isl (fst (ReorderStages crm_env0 seller ''p1'' [''won'', ''new''] crm_world0))" by code_simp
  then obtain p w' where run: "ReorderStages crm_env0 seller ''p1'' [''won'', ''new''] crm_world0 = (Inr p, w')"
    by (cases "ReorderStages crm_env0 seller ''p1'' [''won'', ''new''] crm_world0"; cases "fst (ReorderStages crm_env0 seller ''p1'' [''won'', ''new''] crm_world0)") auto
  from conjunct1 [OF reordering_is_obeyed [OF run]] run show ?thesis by (intro exI conjI)
qed

end
