(* ===== verification/Channels.thy ===== *)
theory Channels
  imports Webhook_Service Business_Hours
begin

text \<open>
  Channel connections: \<open>domain/channels/entity/channel_connection.go\<close>, the integration tokens of
  \<open>domain/channels/service/channel_service.go\<close> and the repository
  (\<open>repositories/channels/connection_repository.go\<close>). A stored connection holds the ciphertext of
  its secret and the hash of its token, never the token.
\<close>

section \<open>Entities\<close>

definition TypeAPI :: string where [go_const]: "TypeAPI = ''api''"
definition TypeWebchat :: string where [go_const]: "TypeWebchat = ''webchat''"
definition TypeCustom :: string where [go_const]: "TypeCustom = ''custom''"

definition channel_Valid :: "string \<Rightarrow> bool" where
  "channel_Valid t \<longleftrightarrow> t \<in> {TypeAPI, ''whatsapp'', ''telegram'', ''instagram'', ''messenger'', TypeWebchat, TypeCustom}"

definition StatusConnected :: string where [go_const]: "StatusConnected = ''connected''"
definition StatusDisconnected :: string where [go_const]: "StatusDisconnected = ''disconnected''"
definition StatusError :: string where [go_const]: "StatusError = ''error''"

definition AuthToken :: string where [go_const]: "AuthToken = ''token''"

text \<open>
  The conversation services read the first part of a connection; these are the fields the
  channel's own service works on.
\<close>

record connection = channel_connection +
  cn_Status :: string
  cn_BaseURL :: string
  cn_AuthType :: string
  cn_Secret :: string
  cn_InboundToken :: string
  cn_InboundTokenHash :: string
  cn_CreatedAt :: time
  cn_UpdatedAt :: time

section \<open>The outside\<close>

text \<open>One request to a channel's outbound URL, and what becomes of it.\<close>

record post_request =
  po_URL :: string
  po_Event :: string
  po_Timestamp :: string
  po_DeliveryID :: ident
  po_Signature :: "string option"
  po_Body :: string

datatype post_outcome = BadRequest string | Unreachable string | Answered int string

record outbound_attachment =
  oa_URL :: string
  oa_DataURL :: string
  oa_FileType :: string
  oa_ContentType :: string
  oa_Filename :: string
  oa_Size :: int

record outbound_contact =
  oc_ID :: ident
  oc_Name :: string
  oc_Phone :: string
  oc_ExternalID :: string

record outbound_template =
  ot_ID :: ident
  ot_Params :: "string \<rightharpoonup> string"

record message_body =
  mb_Content :: string
  mb_Text :: string
  mb_MessageType :: string
  mb_Private :: bool
  mb_FileType :: string
  mb_Attachments :: "outbound_attachment list"
  mb_Template :: "outbound_template option"

record envelope =
  en_DeliveryID :: ident
  en_ConversationID :: ident
  en_Contact :: outbound_contact
  en_Message :: message_body
  en_Timestamp :: int
  en_Metadata :: gmap

record receipt_item =
  rx_ExternalMessageID :: string
  rx_Status :: string
  rx_Error :: string

text \<open>
  \<open>ce_Hash\<close> is the hexadecimal SHA-256, \<open>ce_Byte\<close> what \<open>crypto/rand\<close> puts at each index of the
  buffer filled at a step, \<open>ce_Quote\<close> Go's \<open>%q\<close>. \<open>ce_Envelope\<close> is the JSON encoder on an
  outbound envelope; \<open>ce_Ack\<close>, \<open>ce_ReceiptObject\<close> and \<open>ce_ReceiptArray\<close> are the decoder on the
  three answers that are read. \<open>ce_Post\<close> and \<open>ce_Probe\<close> are the network (a probe fails or is
  answered). \<open>ce_Audience\<close> is the optional list of users to notify; \<open>ce_Biz\<close> is what the
  schedule validation needs.
\<close>

record chan_env = hook_env +
  ce_Hash :: "string \<Rightarrow> string"
  ce_Byte :: "nat \<Rightarrow> nat \<Rightarrow> 8 word"
  ce_Quote :: "string \<Rightarrow> string"
  ce_Envelope :: "envelope \<Rightarrow> string res"
  ce_Ack :: "string \<Rightarrow> (string \<times> string) option"
  ce_ReceiptObject :: "string \<Rightarrow> (receipt_item list \<times> receipt_item) option"
  ce_ReceiptArray :: "string \<Rightarrow> receipt_item list option"
  ce_Post :: "nat \<Rightarrow> post_request \<Rightarrow> post_outcome"
  ce_Probe :: "nat \<Rightarrow> string \<Rightarrow> goerr option"
  ce_Audience :: "(nat \<Rightarrow> ctx \<Rightarrow> ident list res) option"
  ce_HasEmitter :: bool
  ce_Biz :: biz_deps

text \<open>
  The collection is \<open>conns\<close>; \<open>chans\<close> is what the conversation services see of it.
\<close>

record chan_world = hook_world +
  conns :: "connection list"
  posts :: "post_request list"

abbreviation put_conns :: "connection list \<Rightarrow> 'z chan_world_scheme \<Rightarrow> 'z chan_world_scheme" where
  "put_conns cs w \<equiv> w\<lparr>conns := cs, chans := map channel_connection.truncate cs\<rparr>"

section \<open>Integration tokens\<close>

definition hashInboundToken :: "'e chan_env_scheme \<Rightarrow> string \<Rightarrow> string" where
  "hashInboundToken d token = ce_Hash d token"

definition base62Alphabet :: string where
  "base62Alphabet = ''0123456789ABCDEFGHIJKLMNOPQRSTUVWXYZabcdefghijklmnopqrstuvwxyz''"

text \<open>\<open>big.Int.SetBytes\<close> reads a big-endian number.\<close>

definition set_bytes :: "8 word list \<Rightarrow> nat" where
  "set_bytes bs = foldl (\<lambda>n b. 256 * n + unat b) 0 bs"

text \<open>The loop that emits base-62 digits, the least significant first.\<close>

fun base62_digits :: "nat \<Rightarrow> string" where
  "base62_digits n = (if n = 0 then [] else base62Alphabet ! (n mod 62) # base62_digits (n div 62))"

definition pad43 :: "string \<Rightarrow> string" where
  "pad43 s = s @ replicate (43 - length s) (base62Alphabet ! 0)"

definition randomBase62 :: "8 word list \<Rightarrow> string" where
  "randomBase62 buf = pad43 (base62_digits (set_bytes buf))"

definition rand_Read :: "'e chan_env_scheme \<Rightarrow> nat \<Rightarrow> ('z base_world_scheme, 8 word list) io" where
  "rand_Read d n = (\<lambda>w. (Inr (map (ce_Byte d (step w)) [0..<n]), tick w))"

definition newInboundToken :: "'e chan_env_scheme \<Rightarrow> ('z base_world_scheme, string) io" where
  "newInboundToken d = bind_io (rand_Read d 32) (\<lambda>buf. return_io (randomBase62 buf))"

definition hex_digits :: string where "hex_digits = ''0123456789abcdef''"

definition hex_encode :: "8 word list \<Rightarrow> string" where
  "hex_encode bs = concat (map (\<lambda>b. [hex_digits ! (unat b div 16), hex_digits ! (unat b mod 16)]) bs)"

definition channel_randomToken :: "'e chan_env_scheme \<Rightarrow> nat \<Rightarrow> ('z base_world_scheme, string) io" where
  "channel_randomToken d n = bind_io (rand_Read d n) (\<lambda>buf. return_io (hex_encode buf))"

section \<open>Repository\<close>

definition conn_by :: "ident \<Rightarrow> ident \<Rightarrow> connection \<Rightarrow> bool" where
  "conn_by t i c \<longleftrightarrow> ch_ID c = i \<and> ch_TenantID c = t"

definition conn_toModel :: "connection \<Rightarrow> string \<Rightarrow> connection" where
  "conn_toModel c enc = c\<lparr>cn_Secret := enc, cn_InboundToken := []\<rparr>"

definition conn_toEntity :: "'e hook_env_scheme \<Rightarrow> connection \<Rightarrow> connection res" where
  "conn_toEntity d m = (case Decrypt d (cn_Secret m) of
     Inl e \<Rightarrow> Inl (Wrap (Internal ''decrypt secret'') e) | Inr s \<Rightarrow> Inr (m\<lparr>cn_Secret := s, cn_InboundToken := []\<rparr>))"

primrec conn_decodeAll :: "'e hook_env_scheme \<Rightarrow> connection list \<Rightarrow> connection list res" where
  "conn_decodeAll d [] = Inr []"
| "conn_decodeAll d (m # ms) = (case conn_toEntity d m of Inl e \<Rightarrow> Inl e
     | Inr c \<Rightarrow> (case conn_decodeAll d ms of Inl e \<Rightarrow> Inl e | Inr cs \<Rightarrow> Inr (c # cs)))"

text \<open>The \<open>$set\<close> of \<open>Update\<close>: the type and the creation instant are not in it.\<close>

definition conn_assign :: "connection \<Rightarrow> connection \<Rightarrow> connection" where
  "conn_assign new old = old\<lparr>ch_Name := ch_Name new, cn_Status := cn_Status new, cn_BaseURL := cn_BaseURL new,
     cn_AuthType := cn_AuthType new, cn_Secret := cn_Secret new, cn_InboundTokenHash := cn_InboundTokenHash new,
     ch_BusinessHours := ch_BusinessHours new, ch_OutOfHoursMessage := ch_OutOfHoursMessage new,
     ch_Enabled := ch_Enabled new, ch_UsesProtocol := ch_UsesProtocol new,
     ch_WhatsAppTemplates := ch_WhatsAppTemplates new, cn_UpdatedAt := cn_UpdatedAt new\<rparr>"

text \<open>The unique partial index on the token hash (migrations/0021): it ignores empty hashes.\<close>

definition hash_taken :: "connection \<Rightarrow> connection list \<Rightarrow> bool" where
  "hash_taken c cs \<longleftrightarrow> cn_InboundTokenHash c \<noteq> []
     \<and> (\<exists>y \<in> set cs. ch_ID y \<noteq> ch_ID c \<and> cn_InboundTokenHash y = cn_InboundTokenHash c)"

definition conn_insert :: "connection \<Rightarrow> connection list \<Rightarrow> mongo_err + connection list" where
  "conn_insert c cs = (if hash_taken c cs then Inl DuplicateKey else insert_one ch_ID c cs)"

definition conn_replace :: "ident \<Rightarrow> connection \<Rightarrow> connection list \<Rightarrow> mongo_err + connection list" where
  "conn_replace t c cs = (if (\<exists>y \<in> set cs. conn_by t (ch_ID c) y) \<and> hash_taken c cs then Inl DuplicateKey
     else update_one (conn_by t (ch_ID c)) (conn_assign c) cs)"

definition conn_Create :: "'e hook_env_scheme \<Rightarrow> ctx \<Rightarrow> connection \<Rightarrow> ('z chan_world_scheme, unit) io" where
  "conn_Create d c x = then_io (lift_res (RequireTenant c))
     (bind_io (sealed ''encrypt secret'' (Encrypt d (cn_Secret x))) (\<lambda>enc.
        repo_write d c conns put_conns (\<lambda>_. conn_insert (conn_toModel x enc))))"

definition conn_Update :: "'e hook_env_scheme \<Rightarrow> ctx \<Rightarrow> connection \<Rightarrow> ('z chan_world_scheme, unit) io" where
  "conn_Update d c x = then_io (lift_res (RequireTenant c))
     (bind_io (sealed ''encrypt secret'' (Encrypt d (cn_Secret x))) (\<lambda>enc.
        repo_write d c conns put_conns (\<lambda>t. conn_replace t (conn_toModel x enc))))"

definition conn_Delete :: "'e env_scheme \<Rightarrow> ctx \<Rightarrow> ident \<Rightarrow> ('z chan_world_scheme, unit) io" where
  "conn_Delete d c i = repo_write d c conns put_conns (\<lambda>t. delete_first (conn_by t i))"

definition conn_FindByID :: "'e hook_env_scheme \<Rightarrow> ctx \<Rightarrow> ident \<Rightarrow> ('z chan_world_scheme, connection) io" where
  "conn_FindByID d c i = bind_io (repo_query d c conns (\<lambda>t. find_one (conn_by t i)))
     (\<lambda>m. lift_res (conn_toEntity d m))"

text \<open>The lookup of an inbound request has no tenant yet.\<close>

definition FindByInboundTokenHash :: "'e hook_env_scheme \<Rightarrow> string \<Rightarrow> ('z chan_world_scheme, connection) io" where
  "FindByInboundTokenHash d hash =
     bind_io (db_call d (\<lambda>w. (map_err (find_one (\<lambda>m. cn_InboundTokenHash m = hash) (conns w)), w)))
       (\<lambda>m. lift_res (conn_toEntity d m))"

definition conn_List :: "'e hook_env_scheme \<Rightarrow> ctx \<Rightarrow> page_request \<Rightarrow> ('z chan_world_scheme, connection list) io" where
  "conn_List d c page = then_io (lift_res (RequireTenant c))
     (bind_io (lift_res (DecodeCursor (pr_Cursor page))) (\<lambda>cur.
      bind_io (repo_query d c conns (\<lambda>t cs. Inr (list_page (\<lambda>x. ch_TenantID x = t) cn_CreatedAt ch_ID cur (pr_Limit page) cs)))
        (\<lambda>ms. lift_res (conn_decodeAll d ms))))"

interpretation conn_repo: tenant_repo ch_ID ch_TenantID conn_assign conns
  "\<lambda>cs w. put_conns cs w :: 'z chan_world_scheme"
  by unfold_locales (simp_all add: conn_assign_def tick_def)

end
