(* ===== verification/Channel_Adapters.thy ===== *)
theory Channel_Adapters
  imports Channels
begin

text \<open>
  \<open>infra/channels\<close>: the signatures of channel traffic (sign/sign.go), the generic API adapter
  (api/api.go), the webchat adapter (webchat/webchat.go), the registry that resolves an adapter
  by channel type (registry.go) and the health probe (health.go).
\<close>

section \<open>Signatures\<close>

definition sign_Body :: "'e hook_env_scheme \<Rightarrow> string \<Rightarrow> string \<Rightarrow> string" where
  "sign_Body d secret rawBody = he_HMAC d secret rawBody"

definition sign_Payload :: "'e hook_env_scheme \<Rightarrow> string \<Rightarrow> string \<Rightarrow> string \<Rightarrow> string" where
  "sign_Payload d secret timestamp rawBody = he_HMAC d secret (timestamp @ ''.'' @ rawBody)"

text \<open>A header that is absent reads as the empty string.\<close>

type_synonym headers = "string \<Rightarrow> string"

definition trim_prefix :: "string \<Rightarrow> string \<Rightarrow> string" where
  "trim_prefix s p = (if has_prefix s p then drop (length p) s else s)"

text \<open>
  The hexadecimal text compared against has ASCII letters only, so lower-casing the ASCII
  letters of the header is all of \<open>strings.ToLower\<close> that the comparison can see.
\<close>

definition VerifySignature :: "'e hook_env_scheme \<Rightarrow> string \<Rightarrow> string \<Rightarrow> headers \<Rightarrow> unit res" where
  "VerifySignature d secret rawBody h =
    (if secret = [] then Inr ()
     else if h ''X-Signature'' \<noteq> [] then
       (let sg = ascii_lower (trim_prefix (h ''X-Signature'') ''sha256='') in
        if h ''Timestamp'' \<noteq> [] \<and> sign_Payload d secret (h ''Timestamp'') rawBody = sg then Inr ()
        else if sign_Body d secret rawBody = sg then Inr ()
        else Inl (PlainError ''invalid signature''))
     else if h ''X-Integration-Secret'' \<noteq> [] then
       (if h ''X-Integration-Secret'' = secret then Inr () else Inl (PlainError ''invalid secret''))
     else Inl (PlainError ''missing signature''))"

record delivery_receipt =
  rc_ExternalMessageID :: string
  rc_Status :: string
  rc_Error :: string

definition toReceipts :: "receipt_item list \<Rightarrow> delivery_receipt list" where
  "toReceipts items = map (\<lambda>i. \<lparr>rc_ExternalMessageID = rx_ExternalMessageID i, rc_Status = rx_Status i, rc_Error = rx_Error i\<rparr>) items"

definition ParseReceipts :: "'e chan_env_scheme \<Rightarrow> string \<Rightarrow> delivery_receipt list res" where
  "ParseReceipts d rawBody =
    (let items = (case ce_ReceiptObject d rawBody of None \<Rightarrow> []
        | Some (rs, one) \<Rightarrow> if rs = [] \<and> rx_ExternalMessageID one \<noteq> [] then [one] else rs) in
     if items \<noteq> [] then Inr (toReceipts items)
     else case ce_ReceiptArray d rawBody of
        Some (r # rs) \<Rightarrow> Inr (toReceipts (r # rs))
      | _ \<Rightarrow> Inl (PlainError ''no receipts in payload''))"

section \<open>Outbound sends\<close>

record outbound_send =
  os_DeliveryID :: ident
  os_ConversationID :: ident
  os_ExternalContactID :: string
  os_Contact :: outbound_contact
  os_Text :: string
  os_Attachments :: "attachment list"
  os_Template :: "outbound_template option"
  os_Metadata :: gmap

record send_result =
  sr_ExternalMessageID :: string
  sr_Status :: string

definition fileTypeFor :: "string \<Rightarrow> string" where
  "fileTypeFor contentType = (let ct = ascii_lower contentType in
     if has_prefix ct ''image/'' then ''image''
     else if has_prefix ct ''audio/'' then ''audio''
     else if has_prefix ct ''video/'' then ''video'' else ''file'')"

definition api_attachment :: "attachment \<Rightarrow> outbound_attachment" where
  "api_attachment a = \<lparr>oa_URL = at_URL a, oa_DataURL = at_URL a, oa_FileType = fileTypeFor (at_ContentType a),
     oa_ContentType = at_ContentType a, oa_Filename = at_Filename a, oa_Size = at_Size a\<rparr>"

definition outboundMessageBody :: "outbound_send \<Rightarrow> outbound_attachment list \<Rightarrow> string \<Rightarrow> message_body" where
  "outboundMessageBody s atts fileType = (case os_Template s of
     Some t \<Rightarrow> \<lparr>mb_Content = [], mb_Text = [], mb_MessageType = ''outgoing'', mb_Private = False, mb_FileType = [],
        mb_Attachments = [], mb_Template = Some t\<rparr>
   | None \<Rightarrow> \<lparr>mb_Content = os_Text s, mb_Text = os_Text s, mb_MessageType = ''outgoing'', mb_Private = False,
        mb_FileType = fileType, mb_Attachments = atts, mb_Template = None\<rparr>)"

definition first_nonempty :: "string list \<Rightarrow> string" where
  "first_nonempty vals = (case find (\<lambda>v. v \<noteq> []) vals of None \<Rightarrow> [] | Some v \<Rightarrow> v)"

definition truncate_bytes :: "string \<Rightarrow> nat \<Rightarrow> string" where
  "truncate_bytes b n = take n b"

definition envelope_of :: "outbound_send \<Rightarrow> time \<Rightarrow> envelope" where
  "envelope_of s now = (let atts = map api_attachment (os_Attachments s) in
     \<lparr>en_DeliveryID = os_DeliveryID s, en_ConversationID = os_ConversationID s,
      en_Contact = (os_Contact s)\<lparr>oc_ExternalID := first_nonempty [oc_ExternalID (os_Contact s), os_ExternalContactID s]\<rparr>,
      en_Message = outboundMessageBody s atts (case atts of [] \<Rightarrow> [] | a # _ \<Rightarrow> oa_FileType a),
      en_Timestamp = now div 1000000, en_Metadata = os_Metadata s\<rparr>)"

definition post_of :: "'e hook_env_scheme \<Rightarrow> connection \<Rightarrow> outbound_send \<Rightarrow> string \<Rightarrow> string \<Rightarrow> post_request" where
  "post_of d conn s timestamp body =
     \<lparr>po_URL = cn_BaseURL conn, po_Event = ''message.created'', po_Timestamp = timestamp, po_DeliveryID = os_DeliveryID s,
      po_Signature = (if cn_Secret conn \<noteq> [] then Some (sign_Payload d (cn_Secret conn) timestamp body) else None),
      po_Body = body\<rparr>"

definition acknowledged :: "'e chan_env_scheme \<Rightarrow> outbound_send \<Rightarrow> string \<Rightarrow> string" where
  "acknowledged d s respBody = (case ce_Ack d respBody of
     None \<Rightarrow> os_DeliveryID s
   | Some (ext, msg) \<Rightarrow> if ext \<noteq> [] then ext else if msg \<noteq> [] then msg else os_DeliveryID s)"

definition post_result :: "'e chan_env_scheme \<Rightarrow> connection \<Rightarrow> outbound_send \<Rightarrow> post_outcome \<Rightarrow> send_result res" where
  "post_result d conn s out = (case out of
     BadRequest e \<Rightarrow> Inl (PlainError (''api channel: build request: '' @ e))
   | Unreachable e \<Rightarrow> Inl (PlainError (''api channel: POST '' @ cn_BaseURL conn @ '': '' @ e))
   | Answered code respBody \<Rightarrow>
       if code < 200 \<or> code \<ge> 300 then
         Inl (PlainError (''api channel: outbound_url returned '' @ itoa code @ '': '' @ truncate_bytes (take 65536 respBody) 256))
       else Inr \<lparr>sr_ExternalMessageID = acknowledged d s (take 65536 respBody), sr_Status = ''sent''\<rparr>)"

definition api_SendMessage ::
  "'e chan_env_scheme \<Rightarrow> connection \<Rightarrow> outbound_send \<Rightarrow> ('z chan_world_scheme, send_result) io" where
  "api_SendMessage d conn s =
    (if cn_BaseURL conn = [] then throw_io (PlainError ''api channel: outbound_url not configured'')
     else bind_io (now_io d) (\<lambda>now. case ce_Envelope d (envelope_of s now) of
        Inl e \<Rightarrow> throw_io (PlainError (''api channel: marshal envelope: '' @ Error e))
      | Inr body \<Rightarrow> (\<lambda>w. let rq = post_of d conn s (itoa (now div 1000000)) body in
          (post_result d conn s (ce_Post d (step w) rq),
           (tick w)\<lparr>posts := (case ce_Post d (step w) rq of BadRequest _ \<Rightarrow> posts w | _ \<Rightarrow> posts w @ [rq])\<rparr>))))"

definition webchat_SendMessage :: "'e env_scheme \<Rightarrow> ('z base_world_scheme, send_result) io" where
  "webchat_SendMessage d = bind_io (new_id d) (\<lambda>i.
     return_io \<lparr>sr_ExternalMessageID = ''webchat-'' @ i, sr_Status = ''sent''\<rparr>)"

section \<open>Adapters\<close>

definition api_VerifyInbound :: "'e hook_env_scheme \<Rightarrow> connection \<Rightarrow> string \<Rightarrow> headers \<Rightarrow> unit res" where
  "api_VerifyInbound d conn rawBody h =
    (if h ''X-Signature'' = [] \<and> h ''X-Integration-Secret'' = [] then Inr ()
     else VerifySignature d (cn_Secret conn) rawBody h)"

definition webchat_VerifyInbound :: "'e hook_env_scheme \<Rightarrow> connection \<Rightarrow> string \<Rightarrow> headers \<Rightarrow> unit res" where
  "webchat_VerifyInbound d conn rawBody h = VerifySignature d (cn_Secret conn) rawBody h"

datatype adapter = API string | Webchat

text \<open>\<open>Registry.For\<close>: every type without an adapter of its own has the generic one.\<close>

definition NewRegistry :: "string \<rightharpoonup> adapter" where
  "NewRegistry = [TypeAPI \<mapsto> API TypeAPI, TypeWebchat \<mapsto> Webchat]"

definition registry_For :: "string \<Rightarrow> adapter" where
  "registry_For t = (case NewRegistry t of Some a \<Rightarrow> a | None \<Rightarrow> API TypeCustom)"

fun adapter_Type :: "adapter \<Rightarrow> string" where
  "adapter_Type (API t) = t"
| "adapter_Type Webchat = TypeWebchat"

fun VerifyInbound :: "'e hook_env_scheme \<Rightarrow> adapter \<Rightarrow> connection \<Rightarrow> string \<Rightarrow> headers \<Rightarrow> unit res" where
  "VerifyInbound d (API _) = api_VerifyInbound d"
| "VerifyInbound d Webchat = webchat_VerifyInbound d"

fun adapter_SendMessage ::
  "'e chan_env_scheme \<Rightarrow> adapter \<Rightarrow> connection \<Rightarrow> outbound_send \<Rightarrow> ('z chan_world_scheme, send_result) io" where
  "adapter_SendMessage d (API _) conn s = api_SendMessage d conn s"
| "adapter_SendMessage d Webchat conn s = webchat_SendMessage d"

section \<open>Health\<close>

definition trim_slashes :: "string \<Rightarrow> string" where
  "trim_slashes s = rev (dropWhile (\<lambda>c. c = CHR ''/'') (rev s))"

definition health_Check :: "'e chan_env_scheme \<Rightarrow> ctx \<Rightarrow> connection \<Rightarrow> ('z base_world_scheme, unit) io" where
  "health_Check d c conn = (let base = trim_space (cn_BaseURL conn) in
     if base = [] then return_io ()
     else (\<lambda>w. case ce_Probe d (step w) (trim_slashes base @ ''/'') of
        Some e \<Rightarrow> (Inl e, tick w) | None \<Rightarrow> (Inr (), tick w)))"

end
