(* ===== verification/Channel_Service.thy ===== *)
theory Channel_Service
  imports Channel_Adapters
begin

text \<open>
  \<open>domain/channels/service/channel_service.go\<close>: the management of a tenant's channel connections
  and the authentication of inbound requests; and the edge of
  \<open>presenter/controller/channels/inbound_controller.go\<close> that calls it.
\<close>

section \<open>Input\<close>

record create_connection =
  xc_Type :: string
  xc_Name :: string
  xc_BaseURL :: string
  xc_AuthType :: string
  xc_Secret :: string
  xc_BusinessHours :: gmap
  xc_OutOfHoursMessage :: string
  xc_UsesProtocol :: bool
  xc_WhatsAppTemplates :: "whatsapp_template list"

record update_connection =
  uc_Name :: "string option"
  uc_Status :: "string option"
  uc_BaseURL :: "string option"
  uc_AuthType :: "string option"
  uc_Secret :: "string option"
  uc_BusinessHours :: "gmap option"
  uc_OutOfHoursMessage :: "string option"
  uc_Enabled :: "bool option"
  uc_UsesProtocol :: "bool option"
  uc_WhatsAppTemplates :: "whatsapp_template list option"

text \<open>The texts of \<open>ValidateSchedule\<close>'s errors.\<close>

definition schedule_text :: "'e chan_env_scheme \<Rightarrow> schedule_error \<Rightarrow> string" where
  "schedule_text d e = ''business_hours: '' @ (case e of
     Malformed \<Rightarrow> ''malformed document''
   | UnknownTimezone tz \<Rightarrow> ''unknown timezone '' @ ce_Quote d tz
   | BadDay n \<Rightarrow> ''day must be 0..6, got '' @ itoa n
   | RepeatedDay n \<Rightarrow> ''day '' @ itoa n @ '' repeated''
   | InvalidStart n s \<Rightarrow> ''day '' @ itoa n @ '' invalid start '' @ ce_Quote d s
   | InvalidEnd n s \<Rightarrow> ''day '' @ itoa n @ '' invalid end '' @ ce_Quote d s
   | EndBeforeStart n \<Rightarrow> ''day '' @ itoa n @ '' interval end must be after start (no overnight crossing)''
   | Overlap n \<Rightarrow> ''day '' @ itoa n @ '' intervals overlap'')"

definition check_hours :: "'e chan_env_scheme \<Rightarrow> gmap \<Rightarrow> unit res" where
  "check_hours d doc = (case ValidateSchedule (ce_Biz d) doc of
     Inr _ \<Rightarrow> Inr ()
   | Inl e \<Rightarrow> Inl (WithDetails (Validation (schedule_text d e)) [''business_hours'' \<mapsto> GStr (schedule_text d e)]))"

text \<open>The loops of \<open>validateTemplates\<close>: the details in the order they are found.\<close>

definition template_field :: "nat \<Rightarrow> string \<Rightarrow> string" where
  "template_field i f = ''whatsapp_templates['' @ itoa (int i) @ ''].'' @ f"

primrec variable_errors :: "nat \<Rightarrow> nat \<Rightarrow> template_variable list \<Rightarrow> (string \<times> gany) list" where
  "variable_errors i j [] = []"
| "variable_errors i j (v # vs) =
     (if trim_space (tv_Key v) = []
      then [(template_field i (''body.variables['' @ itoa (int j) @ ''].key''), GStr ''is required'')] else [])
     @ variable_errors i (Suc j) vs"

fun template_errors :: "nat \<Rightarrow> string set \<Rightarrow> whatsapp_template list \<Rightarrow> (string \<times> gany) list" where
  "template_errors i seen [] = []"
| "template_errors i seen (t # ts) =
     (if trim_space (wt_ID t) = [] then [(template_field i ''id'', GStr ''is required'')]
      else if wt_ID t \<in> seen then [(template_field i ''id'', GStr ''is duplicated'')] else [])
     @ (if trim_space (wt_Name t) = [] then [(template_field i ''name'', GStr ''is required'')] else [])
     @ variable_errors i 0 (wt_Variables t)
     @ template_errors (Suc i) (if trim_space (wt_ID t) = [] then seen else insert (wt_ID t) seen) ts"

definition validateTemplates :: "whatsapp_template list \<Rightarrow> unit res" where
  "validateTemplates ts = (case template_errors 0 {} ts of
     [] \<Rightarrow> Inr () | es \<Rightarrow> Inl (WithDetails (Validation ''invalid whatsapp_templates'') (map_of es)))"

section \<open>Management\<close>

definition audit_channel :: "ctx \<Rightarrow> string \<Rightarrow> ident \<Rightarrow> gmap \<Rightarrow> ('z conv_world_scheme, unit) io" where
  "audit_channel c action i data = audit_io c action i data"

definition new_secret :: "'e chan_env_scheme \<Rightarrow> create_connection \<Rightarrow> ('z base_world_scheme, string) io" where
  "new_secret d cmd = (if xc_Type cmd = TypeAPI \<and> xc_Secret cmd = [] then channel_randomToken d 32
     else return_io (xc_Secret cmd))"

definition channel_Create ::
  "'e chan_env_scheme \<Rightarrow> ctx \<Rightarrow> create_connection \<Rightarrow> ('z chan_world_scheme, connection) io" where
  "channel_Create d c cmd = bind_io (lift_res (RequireTenant c)) (\<lambda>t.
     then_io (guard_io (\<not> channel_Valid (xc_Type cmd)) (WithDetails (Validation ''invalid channel type'')
        [''type'' \<mapsto> GStr ''must be api|whatsapp|telegram|instagram|messenger|webchat|custom'']))
    (then_io (lift_res (check_hours d (xc_BusinessHours cmd)))
    (then_io (lift_res (validateTemplates (xc_WhatsAppTemplates cmd)))
    (bind_io (new_secret d cmd) (\<lambda>secret. bind_io (now_io d) (\<lambda>now. bind_io (newInboundToken d) (\<lambda>token. bind_io (new_id d) (\<lambda>i.
     let conn = \<lparr>ch_ID = i, ch_TenantID = t, ch_Type = xc_Type cmd, ch_Name = trim_space (xc_Name cmd),
          ch_BusinessHours = xc_BusinessHours cmd, ch_OutOfHoursMessage = trim_space (xc_OutOfHoursMessage cmd),
          ch_Enabled = True, ch_UsesProtocol = xc_UsesProtocol cmd, ch_WhatsAppTemplates = xc_WhatsAppTemplates cmd,
          cn_Status = StatusDisconnected, cn_BaseURL = trim_space (xc_BaseURL cmd),
          cn_AuthType = (if xc_AuthType cmd = [] then AuthToken else xc_AuthType cmd), cn_Secret = secret,
          cn_InboundToken = token, cn_InboundTokenHash = hashInboundToken d token,
          cn_CreatedAt = now, cn_UpdatedAt = now\<rparr> in
     then_io (conn_Create d c conn)
    (then_io (SyncChannelWebhook d c i (cn_BaseURL conn) secret)
    (return_io conn))))))))))"

definition RotateInboundToken :: "'e chan_env_scheme \<Rightarrow> ctx \<Rightarrow> ident \<Rightarrow> ('z chan_world_scheme, connection) io" where
  "RotateInboundToken d c i = then_io (lift_res (RequireTenant c))
     (bind_io (conn_FindByID d c i) (\<lambda>conn0. bind_io (newInboundToken d) (\<lambda>token. bind_io (now_io d) (\<lambda>now.
      let conn = conn0\<lparr>cn_InboundToken := token, cn_InboundTokenHash := hashInboundToken d token, cn_UpdatedAt := now\<rparr> in
      then_io (conn_Update d c conn)
     (then_io (audit_channel c ''channel.token_rotated'' (ch_ID conn) [''type'' \<mapsto> GStr (ch_Type conn)])
     (return_io conn))))))"

definition RotateOutboundSecret :: "'e chan_env_scheme \<Rightarrow> ctx \<Rightarrow> ident \<Rightarrow> ('z chan_world_scheme, connection) io" where
  "RotateOutboundSecret d c i = then_io (lift_res (RequireTenant c))
     (bind_io (conn_FindByID d c i) (\<lambda>conn0. bind_io (channel_randomToken d 32) (\<lambda>secret. bind_io (now_io d) (\<lambda>now.
      let conn = conn0\<lparr>cn_Secret := secret, cn_UpdatedAt := now\<rparr> in
      then_io (conn_Update d c conn)
     (then_io (SyncChannelWebhook d c (ch_ID conn) (cn_BaseURL conn) secret)
     (then_io (audit_channel c ''channel.outbound_secret_rotated'' (ch_ID conn) [''type'' \<mapsto> GStr (ch_Type conn)])
     (return_io conn)))))))"

definition eventTemplatesSyncRequested :: string where
  "eventTemplatesSyncRequested = ''templates_sync_requested''"

definition SyncTemplates :: "'e chan_env_scheme \<Rightarrow> ctx \<Rightarrow> ident \<Rightarrow> ('z chan_world_scheme, unit) io" where
  "SyncTemplates d c channelID = bind_io (lift_res (RequireTenant c)) (\<lambda>t. let ch = trim_space channelID in
     then_io (guard_io (ch = []) (Validation ''channel id is required''))
    (then_io (guard_io (\<not> ce_HasEmitter d) (newErr CodeIntegrationUnavailable ''template sync is not configured''))
    (then_io (EmitToChannel d c t ch eventTemplatesSyncRequested (GObj [(''channel_id'', GStr ch)]))
     (audit_channel c ''channel.templates_sync_requested'' ch Map.empty))))"

text \<open>The notification of every user of the audience; its title and body are not part of the model.\<close>

definition notifyTemplatesUpdated :: "'e chan_env_scheme \<Rightarrow> ctx \<Rightarrow> ident \<Rightarrow> connection \<Rightarrow> ('z chan_world_scheme, unit) io" where
  "notifyTemplatesUpdated d c t conn = (case ce_Audience d of None \<Rightarrow> return_io ()
     | Some recipients \<Rightarrow> bind_io (\<lambda>w. (Inr (recipients (step w) c), tick w)) (\<lambda>r. case r of
          Inl _ \<Rightarrow> return_io ()
        | Inr uids \<Rightarrow> for_io uids (\<lambda>uid. log_effect (ENotify t uid ''channel.templates_updated'' (''/channels/'' @ ch_ID conn)))))"

definition ReplaceTemplates ::
  "'e chan_env_scheme \<Rightarrow> ctx \<Rightarrow> ident \<Rightarrow> whatsapp_template list \<Rightarrow> ('z chan_world_scheme, connection) io" where
  "ReplaceTemplates d c i ts = bind_io (lift_res (RequireTenant c)) (\<lambda>t.
     then_io (lift_res (validateTemplates ts))
    (bind_io (conn_FindByID d c i) (\<lambda>conn0. bind_io (now_io d) (\<lambda>now.
     let conn = conn0\<lparr>ch_WhatsAppTemplates := ts, cn_UpdatedAt := now\<rparr> in
     then_io (conn_Update d c conn)
    (then_io (audit_channel c ''channel.templates_updated'' (ch_ID conn) [''count'' \<mapsto> GInt (int (length ts))])
    (then_io (notifyTemplatesUpdated d c t conn)
    (return_io conn)))))))"

definition patch_hours :: "'e chan_env_scheme \<Rightarrow> gmap \<Rightarrow> connection \<Rightarrow> connection res" where
  "patch_hours d doc x = res_bind (check_hours d doc) (\<lambda>_. Inr (x\<lparr>ch_BusinessHours := doc\<rparr>))"

definition patch_templates :: "whatsapp_template list \<Rightarrow> connection \<Rightarrow> connection res" where
  "patch_templates ts x = res_bind (validateTemplates ts) (\<lambda>_. Inr (x\<lparr>ch_WhatsAppTemplates := ts\<rparr>))"

definition patch_connection :: "'e chan_env_scheme \<Rightarrow> update_connection \<Rightarrow> connection \<Rightarrow> connection res" where
  "patch_connection d cmd x0 =
     (let x1 = patch (uc_Name cmd) (\<lambda>n x. x\<lparr>ch_Name := trim_space n\<rparr>) x0;
          x2 = patch (uc_Status cmd) (\<lambda>s x. x\<lparr>cn_Status := s\<rparr>) x1;
          x3 = patch (uc_BaseURL cmd) (\<lambda>u x. x\<lparr>cn_BaseURL := trim_space u\<rparr>) x2;
          x4 = patch (uc_AuthType cmd) (\<lambda>a x. x\<lparr>cn_AuthType := a\<rparr>) x3;
          x5 = patch (uc_Secret cmd) (\<lambda>s x. x\<lparr>cn_Secret := s\<rparr>) x4 in
      res_bind (patch_res (uc_BusinessHours cmd) (patch_hours d) x5) (\<lambda>x6.
      let x7 = patch (uc_OutOfHoursMessage cmd) (\<lambda>m x. x\<lparr>ch_OutOfHoursMessage := trim_space m\<rparr>) x6;
          x8 = patch (uc_Enabled cmd) (\<lambda>b x. x\<lparr>ch_Enabled := b\<rparr>) x7;
          x9 = patch (uc_UsesProtocol cmd) (\<lambda>b x. x\<lparr>ch_UsesProtocol := b\<rparr>) x8 in
      patch_res (uc_WhatsAppTemplates cmd) patch_templates x9))"

definition channel_Update ::
  "'e chan_env_scheme \<Rightarrow> ctx \<Rightarrow> ident \<Rightarrow> update_connection \<Rightarrow> ('z chan_world_scheme, connection) io" where
  "channel_Update d c i cmd = then_io (lift_res (RequireTenant c))
     (bind_io (conn_FindByID d c i) (\<lambda>conn0. bind_io (lift_res (patch_connection d cmd conn0)) (\<lambda>conn1. bind_io (now_io d) (\<lambda>now.
      let conn = conn1\<lparr>cn_UpdatedAt := now\<rparr> in
      then_io (conn_Update d c conn)
     (then_io (SyncChannelWebhook d c (ch_ID conn) (cn_BaseURL conn) (cn_Secret conn))
     (return_io conn))))))"

definition channel_Delete :: "'e chan_env_scheme \<Rightarrow> ctx \<Rightarrow> ident \<Rightarrow> ('z chan_world_scheme, unit) io" where
  "channel_Delete d c i = then_io (lift_res (RequireTenant c))
     (then_io (conn_Delete d c i) (RemoveChannelWebhook d c i))"

definition channel_Get :: "'e chan_env_scheme \<Rightarrow> ctx \<Rightarrow> ident \<Rightarrow> ('z chan_world_scheme, connection) io" where
  "channel_Get d c i = then_io (lift_res (RequireTenant c)) (conn_FindByID d c i)"

definition channel_List :: "'e chan_env_scheme \<Rightarrow> ctx \<Rightarrow> page_request \<Rightarrow> ('z chan_world_scheme, connection list) io" where
  "channel_List d c page = then_io (lift_res (RequireTenant c)) (conn_List d c (Normalize page))"

section \<open>Probes\<close>

text \<open>
  One turn of the job's loop: whether the stored status changed. The checker is the injected
  port, a program of its own: while a probe waits on the network other requests are served.
\<close>

type_synonym 'w health_checker = "ctx \<Rightarrow> connection \<Rightarrow> ('w, unit) io"

definition health_step ::
  "'e chan_env_scheme \<Rightarrow> 'z chan_world_scheme health_checker \<Rightarrow> ctx \<Rightarrow> time \<Rightarrow> connection \<Rightarrow> ('z chan_world_scheme, bool) io" where
  "health_step d h c now conn = (if \<not> ch_Enabled conn then return_io False
     else bind_io (try_io (h c conn)) (\<lambda>r.
       let newStatus = (case r of Inl _ \<Rightarrow> StatusError | Inr _ \<Rightarrow> StatusConnected) in
       if cn_Status conn = newStatus then return_io False
       else bind_io (try_io (conn_Update d c (conn\<lparr>cn_Status := newStatus, cn_UpdatedAt := now\<rparr>)))
         (\<lambda>r. return_io (case r of Inl _ \<Rightarrow> False | Inr _ \<Rightarrow> True))))"

definition HealthCheck ::
  "'e chan_env_scheme \<Rightarrow> 'z chan_world_scheme health_checker \<Rightarrow> ctx \<Rightarrow> ('z chan_world_scheme, int) io" where
  "HealthCheck d h c = then_io (lift_res (RequireTenant c))
     (bind_io (conn_List d c \<lparr>pr_Cursor = NoToken, pr_Limit = MaxPageSize\<rparr>) (\<lambda>cs. bind_io (now_io d) (\<lambda>now.
      fold_io (\<lambda>n conn. bind_io (health_step d h c now conn) (\<lambda>b. return_io (if b then n + 1 else n))) 0 cs)))"

record channel_test =
  ct_OK :: bool
  ct_ExternalMessageID :: string
  ct_Error :: string

definition probe_send :: outbound_send where
  "probe_send = \<lparr>os_DeliveryID = [], os_ConversationID = [], os_ExternalContactID = ''connection-test'',
     os_Contact = \<lparr>oc_ID = [], oc_Name = [], oc_Phone = [], oc_ExternalID = []\<rparr>, os_Text = ''connection test'',
     os_Attachments = [], os_Template = None, os_Metadata = Map.empty\<rparr>"

text \<open>The registry answers every type, so \<open>Test\<close> and \<open>ResolveInbound\<close> always have an adapter.\<close>

definition channel_Test :: "'e chan_env_scheme \<Rightarrow> ctx \<Rightarrow> ident \<Rightarrow> ('z chan_world_scheme, channel_test \<times> connection) io" where
  "channel_Test d c i = bind_io (channel_Get d c i) (\<lambda>conn0.
     bind_io (try_io (adapter_SendMessage d (registry_For (ch_Type conn0)) conn0 probe_send)) (\<lambda>r. bind_io (now_io d) (\<lambda>now.
     case r of
       Inl e \<Rightarrow> let conn = conn0\<lparr>cn_Status := StatusError, cn_UpdatedAt := now\<rparr> in
         then_io (ignore_io (conn_Update d c conn))
           (return_io (\<lparr>ct_OK = False, ct_ExternalMessageID = [], ct_Error = Error e\<rparr>, conn))
     | Inr res \<Rightarrow> let conn = conn0\<lparr>cn_Status := StatusConnected, cn_UpdatedAt := now\<rparr> in
         then_io (conn_Update d c conn)
           (return_io (\<lparr>ct_OK = True, ct_ExternalMessageID = sr_ExternalMessageID res, ct_Error = []\<rparr>, conn)))))"

section \<open>Inbound requests\<close>

definition ResolveInbound ::
  "'e chan_env_scheme \<Rightarrow> string \<Rightarrow> string \<Rightarrow> string \<Rightarrow> headers \<Rightarrow> ('z chan_world_scheme, connection) io" where
  "ResolveInbound d token channelType rawBody h =
    (if token = [] then throw_io (Unauthorized ''missing inbound token'')
     else let hash = hashInboundToken d token in
      bind_io (try_io (FindByInboundTokenHash d hash)) (\<lambda>r. case r of
        Inl e \<Rightarrow> throw_io (if err_code_of (From e) = CodeNotFound then Unauthorized ''unknown channel'' else e)
      | Inr conn \<Rightarrow>
          then_io (guard_io (cn_InboundTokenHash conn \<noteq> hash) (Unauthorized ''invalid inbound token''))
         (then_io (guard_io (\<not> ch_Enabled conn) (Unauthorized ''channel is disabled''))
         (then_io (guard_io (ch_Type conn \<noteq> channelType) (Unauthorized ''channel type mismatch''))
          (case VerifyInbound d (registry_For (ch_Type conn)) conn rawBody h of
             Inl _ \<Rightarrow> throw_io (Unauthorized ''inbound verification failed'')
           | Inr _ \<Rightarrow> return_io conn)))))"

text \<open>What the controller passes of a request's headers.\<close>

definition verifyHeaders :: "headers \<Rightarrow> headers" where
  "verifyHeaders r = (\<lambda>k. if k = ''X-Signature'' \<or> k = ''X-Integration-Secret'' then r k else [])"

text \<open>
  The edge the five inbound endpoints share: the token of the header or of the body, the
  connection it resolves, and the handler in the tenant of that connection.
\<close>

definition inbound_edge ::
  "'e chan_env_scheme \<Rightarrow> ctx \<Rightarrow> string \<Rightarrow> headers \<Rightarrow> string \<Rightarrow> string \<Rightarrow>
     (ctx \<Rightarrow> connection \<Rightarrow> ('z chan_world_scheme, 'a) io) \<Rightarrow> ('z chan_world_scheme, 'a) io" where
  "inbound_edge d c channel r bodyToken rawBody handler =
    (let token = (if r ''X-Inbound-Token'' = [] then bodyToken else r ''X-Inbound-Token'') in
     bind_io (ResolveInbound d token channel rawBody (verifyHeaders r)) (\<lambda>conn.
       handler (WithTenant c (ch_TenantID conn)) conn))"

definition HandleTemplates ::
  "'e chan_env_scheme \<Rightarrow> ctx \<Rightarrow> string \<Rightarrow> headers \<Rightarrow> string \<Rightarrow> string \<Rightarrow> whatsapp_template list \<Rightarrow> ('z chan_world_scheme, int) io" where
  "HandleTemplates d c channel r bodyToken rawBody ts = inbound_edge d c channel r bodyToken rawBody
     (\<lambda>c' conn. bind_io (ReplaceTemplates d c' (ch_ID conn) ts) (\<lambda>updated.
        return_io (int (length (ch_WhatsAppTemplates updated)))))"

end
