(* ===== verification/Repo_Holds.thy ===== *)
theory Repo_Holds
  imports Repo_Unique
begin

text \<open>
  A logic for services whose writes depend on what they read only through the value: \<open>holds m V\<close>
  says that \<open>m\<close>, started in a world that satisfies the invariant \<open>J\<close>, ends in one, failed or
  not, and that the value it returns satisfies \<open>V\<close>.
\<close>

locale world_invariant =
  fixes J :: "'z base_world_scheme \<Rightarrow> bool"
  assumes J_tick: "J w \<Longrightarrow> J (tick w)"
begin

definition holds :: "('z base_world_scheme, 'a) io \<Rightarrow> ('a \<Rightarrow> bool) \<Rightarrow> bool" where
  "holds m V \<longleftrightarrow> (\<forall>w. J w \<longrightarrow> wp m (\<lambda>x w'. J w' \<and> V x) (\<lambda>_. J) w)"

lemma ho_mono: "holds m V \<Longrightarrow> (\<And>x. V x \<Longrightarrow> U x) \<Longrightarrow> holds m U"
  unfolding holds_def by (blast intro: wp_mono)

lemma ho_return: "V x \<Longrightarrow> holds (return_io x) V"
  by (simp add: holds_def wp_return)

lemma ho_throw: "holds (throw_io e) V"
  by (simp add: holds_def wp_throw)

lemma ho_bind:
  assumes "holds m V" "\<And>x. V x \<Longrightarrow> holds (f x) U"
  shows "holds (bind_io m f) U"
  unfolding holds_def wp_bind
proof (intro allI impI)
  fix w assume "J w"
  with assms(1) have "wp m (\<lambda>x w'. J w' \<and> V x) (\<lambda>_. J) w" by (simp add: holds_def)
  then show "wp m (\<lambda>x. wp (f x) (\<lambda>x w'. J w' \<and> U x) (\<lambda>_. J)) (\<lambda>_. J) w"
    by (rule wp_mono) (use assms(2) in \<open>auto simp: holds_def\<close>)
qed

lemma ho_then: "holds m V \<Longrightarrow> holds n U \<Longrightarrow> holds (then_io m n) U"
  unfolding then_io_def by (rule ho_bind)

lemma ho_lift: "(\<And>x. r = Inr x \<Longrightarrow> holds (f x) U) \<Longrightarrow> holds (bind_io (lift_res r) f) U"
  by (cases r) (simp_all add: holds_def wp_bind wp_lift)

lemma ho_lift_then: "(\<And>x. r = Inr x \<Longrightarrow> holds m U) \<Longrightarrow> holds (then_io (lift_res r) m) U"
  unfolding then_io_def by (rule ho_lift)

lemma ho_lift_last: "(\<And>x. r = Inr x \<Longrightarrow> V x) \<Longrightarrow> holds (lift_res r) V"
  by (cases r) (simp_all add: holds_def wp_lift)

lemma ho_guard: "(\<not> b \<Longrightarrow> holds m U) \<Longrightarrow> holds (then_io (guard_io b e) m) U"
  by (cases b) (simp_all add: holds_def wp_then wp_guard)

lemma ho_try: "holds m V \<Longrightarrow> holds (try_io m) (\<lambda>r. \<forall>x. r = Inr x \<longrightarrow> V x)"
  unfolding holds_def wp_try by (auto elim!: wp_mono)

lemma ho_ignore: "holds m V \<Longrightarrow> holds (ignore_io m) (\<lambda>_. True)"
  unfolding holds_def wp_ignore by (auto elim!: wp_mono)

lemma ho_if: "(b \<Longrightarrow> holds m V) \<Longrightarrow> (\<not> b \<Longrightarrow> holds n V) \<Longrightarrow> holds (if b then m else n) V"
  by simp

lemma ho_for: "(\<And>x. x \<in> set xs \<Longrightarrow> holds (body x) V) \<Longrightarrow> holds (for_io xs body) (\<lambda>_. True)"
  by (induction xs) (auto intro: ho_return ho_then)

lemma ho_fold: "(\<And>b x. x \<in> set xs \<Longrightarrow> holds (f b x) V) \<Longrightarrow> holds (fold_io f b xs) (\<lambda>_. True)"
  by (induction xs arbitrary: b) (auto intro!: ho_return ho_bind)

lemma ho_frame: "framed R m \<Longrightarrow> (\<And>w w'. J w \<Longrightarrow> R w w' \<Longrightarrow> J w') \<Longrightarrow> holds m (\<lambda>_. True)"
  unfolding holds_def by (auto intro!: wp_framed [where R = R])

lemma ho_frame_returns:
  assumes "framed R m" "\<And>w w'. J w \<Longrightarrow> R w w' \<Longrightarrow> J w'" "returns m V"
  shows "holds m V"
  unfolding holds_def
proof (intro allI impI)
  fix w assume w: "J w"
  have *: "wp m (\<lambda>_. R w) (\<lambda>_. R w) w" using assms(1) by (simp add: framed_wp)
  have **: "wp m (\<lambda>x _. V x) (\<lambda>_ _. True) w" using assms(3) by (simp add: returns_wp)
  show "wp m (\<lambda>x w'. J w' \<and> V x) (\<lambda>_. J) w"
    by (rule wp_mono [OF wp_conj [OF * **]]) (use w assms(2) in auto)
qed

lemma ho_now: "holds (now_io d) (\<lambda>_. True)" and ho_new_id: "holds (new_id d) (\<lambda>_. True)"
  by (simp_all add: holds_def wp_now wp_new_id J_tick)

lemma ho_query:
  assumes "\<And>t w x. J w \<Longrightarrow> RequireTenant c = Inr t \<Longrightarrow> q t (coll w) = Inr x \<Longrightarrow> V x"
  shows "holds (repo_query d c coll q) V"
  unfolding holds_def repo_query_def wp_bind wp_lift wp_db_call
  using assms [OF J_tick] by (auto simp: wp_def map_err_def J_tick split: option.split sum.split)

lemma ho_write:
  assumes "\<And>t w ds. J w \<Longrightarrow> RequireTenant c = Inr t \<Longrightarrow> f t (coll w) = Inr ds \<Longrightarrow> J (put ds w)"
  shows "holds (repo_write d c coll put f) (\<lambda>_. True)"
  unfolding holds_def repo_write_def wp_bind wp_lift wp_db_call
  using assms [OF J_tick] by (auto simp: wp_def J_tick split: option.split sum.split)

lemma ho_run: "holds m V \<Longrightarrow> J w \<Longrightarrow> J (snd (m w))"
  by (cases "m w"; cases "fst (m w)") (auto simp: holds_def wp_def)

lemma ho_value: "holds m V \<Longrightarrow> J w \<Longrightarrow> m w = (Inr x, w') \<Longrightarrow> J w' \<and> V x"
  by (auto simp: holds_def dest!: spec [of _ w] dest: wpD)

end

end
