(* ===== verification/Channel_Guard.thy ===== *)
theory Channel_Guard
  imports Channel_Service Repo_Holds
begin

text \<open>
  The invariant of the channel connections: well-formed documents, one connection per token hash,
  the conversation services' view in step, and the connections of the tenants that do not act as
  they are; and that the repository's writes keep it, given what its reads tell.
\<close>

section \<open>The invariant\<close>

text \<open>
  \<open>H\<close> is the set of token hashes that may be stored: those of earlier tokens and those of the
  draws from step \<open>n\<close> on.
\<close>

definition entity_ok :: "'e chan_env_scheme \<Rightarrow> string set \<Rightarrow> connection \<Rightarrow> bool" where
  "entity_ok d H x \<longleftrightarrow> channel_Valid (ch_Type x) \<and> ValidateSchedule (ce_Biz d) (ch_BusinessHours x) = Inr ()
     \<and> validateTemplates (ch_WhatsAppTemplates x) = Inr () \<and> cn_InboundTokenHash x \<in> H"

definition stored_ok :: "'e chan_env_scheme \<Rightarrow> string set \<Rightarrow> connection \<Rightarrow> bool" where
  "stored_ok d H x \<longleftrightarrow> entity_ok d H x \<and> cn_InboundToken x = []"

definition one_per_hash :: "connection list \<Rightarrow> bool" where
  "one_per_hash cs \<longleftrightarrow> distinct (map ch_ID cs) \<and> (\<forall>x \<in> set cs. \<forall>y \<in> set cs.
     cn_InboundTokenHash x \<noteq> [] \<and> cn_InboundTokenHash x = cn_InboundTokenHash y \<longrightarrow> x = y)"

definition conns_of :: "ident \<Rightarrow> connection list \<Rightarrow> connection list" where
  "conns_of t cs = filter (\<lambda>x. ch_TenantID x = t) cs"

definition conns_ok :: "'e chan_env_scheme \<Rightarrow> string set \<Rightarrow> (ident \<rightharpoonup> connection list) \<Rightarrow> connection list \<Rightarrow> bool" where
  "conns_ok d H fz cs \<longleftrightarrow> one_per_hash cs \<and> (\<forall>x \<in> set cs. stored_ok d H x)
     \<and> (\<forall>t xs. fz t = Some xs \<longrightarrow> conns_of t cs = xs)"

definition chan_J ::
  "'e chan_env_scheme \<Rightarrow> nat \<Rightarrow> string set \<Rightarrow> (ident \<rightharpoonup> connection list) \<Rightarrow> 'z chan_world_scheme \<Rightarrow> bool" where
  "chan_J d n H fz w \<longleftrightarrow> n \<le> step w \<and> conns_ok d H fz (conns w) \<and> chans w = map channel_connection.truncate (conns w)"

definition token_drawn :: "'e chan_env_scheme \<Rightarrow> nat \<Rightarrow> string" where
  "token_drawn d k = randomBase62 (map (ce_Byte d k) [0..<32])"

definition draws_in :: "'e chan_env_scheme \<Rightarrow> nat \<Rightarrow> string set \<Rightarrow> bool" where
  "draws_in d n H \<longleftrightarrow> (\<forall>k \<ge> n. hashInboundToken d (token_drawn d k) \<in> H)"

interpretation cj: world_invariant "chan_J d n H fz" for d n H fz
  by unfold_locales (auto simp: chan_J_def tick_def)

abbreviation keeps_channels ::
  "'e chan_env_scheme \<Rightarrow> nat \<Rightarrow> string set \<Rightarrow> (ident \<rightharpoonup> connection list) \<Rightarrow> ('z chan_world_scheme, 'a) io \<Rightarrow> ('a \<Rightarrow> bool) \<Rightarrow> bool" where
  "keeps_channels d n H fz \<equiv> world_invariant.holds (chan_J d n H fz)"

section \<open>Steps that leave the connections alone\<close>

definition chan_still :: "'z chan_world_scheme \<Rightarrow> 'z chan_world_scheme \<Rightarrow> bool" where
  "chan_still w w' \<longleftrightarrow> conns w' = conns w \<and> chans w' = chans w \<and> step w \<le> step w'"

interpretation still: io_step chan_still
  by unfold_locales (auto simp: chan_still_def tick_def)

lemma still_J: "chan_J d n H fz w \<Longrightarrow> chan_still w w' \<Longrightarrow> chan_J d n H fz w'"
  by (simp add: chan_J_def chan_still_def)

lemma ho_still: "framed chan_still m \<Longrightarrow> keeps_channels d n H fz m (\<lambda>_. True)"
  by (erule cj.ho_frame) (rule still_J)

lemmas still_steps = still.fr_bind still.fr_then still.fr_return still.fr_throw still.fr_lift still.fr_guard
  still.fr_try still.fr_ignore still.fr_when still.fr_if still.fr_for still.fr_query still.fr_now still.fr_new_id

lemma still_write: "(\<And>w ds. conns (put ds w) = conns w \<and> chans (put ds w) = chans w \<and> step (put ds w) = step w) \<Longrightarrow>
    framed chan_still (repo_write d c coll put f)"
  unfolding repo_write_def db_call_def
  by (intro still_steps) (auto simp: framed_def chan_still_def tick_def split: option.split sum.split)

lemma still_seal: "framed chan_still (sealed msg (Encrypt d s))"
  unfolding sealed_def Encrypt_def
  by (auto intro!: still_steps split: sum.split) (simp add: framed_def chan_still_def tick_def)

lemma still_subs: "framed chan_still (sub_Create d c s)" "framed chan_still (sub_Update d c s)" "framed chan_still (sub_Delete d c i)"
    "framed chan_still (sub_FindByID d c i)" "framed chan_still (sub_FindByChannelID d c i)"
  unfolding sub_Create_def sub_Update_def sub_Delete_def sub_FindByID_def sub_FindByChannelID_def
  by (auto intro!: still_steps still_seal still_write)

lemma still_managed: "framed chan_still (RemoveChannelWebhook d c i)" "framed chan_still (SyncChannelWebhook d c i u s)"
  unfolding SyncChannelWebhook_def RemoveChannelWebhook_def Let_def
  by (auto intro!: still_steps still_subs split: sum.split)

lemma still_announce: "framed chan_still (announce d t i)"
  unfolding announce_def EnqueueDeliver_def enqueue_def
  by (intro still_steps) (auto simp: framed_def chan_still_def tick_def split: option.split)

lemma still_EmitToChannel: "framed chan_still (EmitToChannel d c t i ev p)"
  unfolding EmitToChannel_def EmitTo_def delivery_Create_def
  by (auto intro!: still_steps still_subs still_announce still_write split: sum.split)

lemma still_effect: "framed chan_still (log_effect e)"
  by (simp add: log_effect_def modify_io_def framed_def chan_still_def)

lemma still_audit: "framed chan_still (audit_channel c a i data)"
  by (simp add: audit_channel_def audit_io_def still_effect)

lemma still_notify: "framed chan_still (notifyTemplatesUpdated d c t x)"
  unfolding notifyTemplatesUpdated_def
  by (auto intro!: still_steps still_effect split: option.split sum.split) (simp add: framed_def chan_still_def tick_def)

lemma still_rand: "framed chan_still (channel_randomToken d n)" "framed chan_still (rand_Read d n)"
  unfolding channel_randomToken_def rand_Read_def
  by (auto intro!: still_steps simp: framed_def chan_still_def tick_def bind_io_def return_io_def)

lemma still_send: "framed chan_still (adapter_SendMessage d a x s)"
proof (cases a)
  case (API t)
  have "framed chan_still (api_SendMessage d x s)"
    unfolding api_SendMessage_def
    by (auto intro!: still_steps split: sum.split) (auto simp: framed_def chan_still_def tick_def Let_def)
  with API show ?thesis by simp
next
  case Webchat
  then show ?thesis by (simp add: webchat_SendMessage_def) (intro still_steps)
qed

lemma still_health: "framed chan_still (health_Check d c x)"
  unfolding health_Check_def Let_def
  by (intro still_steps) (simp add: framed_def chan_still_def tick_def split: option.split)

section \<open>Reads\<close>

lemma entity_secret [simp]: "entity_ok d H (x\<lparr>cn_Secret := s, cn_InboundToken := t\<rparr>) = entity_ok d H x"
  by (simp add: entity_ok_def)

lemma toEntity_ok: "conn_toEntity d m = Inr x \<Longrightarrow> stored_ok d' H m \<Longrightarrow>
    entity_ok d' H x \<and> ch_ID x = ch_ID m \<and> ch_TenantID x = ch_TenantID m \<and> cn_InboundTokenHash x = cn_InboundTokenHash m"
  by (auto simp: conn_toEntity_def stored_ok_def split: sum.splits)

lemma stored_member: "chan_J d n H fz w \<Longrightarrow> x \<in> set (conns w) \<Longrightarrow> stored_ok d H x"
  by (simp add: chan_J_def conns_ok_def)

lemma ho_FindByID: "keeps_channels d n H fz (conn_FindByID d' c i) (\<lambda>x. entity_ok d H x \<and> ch_ID x = i \<and> RequireTenant c = Inr (ch_TenantID x))"
  unfolding conn_FindByID_def
  by (rule cj.ho_bind [OF cj.ho_query [where V = "\<lambda>m. stored_ok d H m \<and> ch_ID m = i \<and> RequireTenant c = Inr (ch_TenantID m)"]])
     (auto simp: find_one_def conn_by_def dest!: find_Some_in toEntity_ok intro: stored_member intro!: cj.ho_lift_last split: option.splits)

lemma decodeAll_valid: "conn_decodeAll d ms = Inr cs \<Longrightarrow> (\<forall>m \<in> set ms. stored_ok d' H m \<and> ch_TenantID m = t) \<Longrightarrow>
    \<forall>x \<in> set cs. entity_ok d' H x \<and> ch_TenantID x = t"
  by (induction ms arbitrary: cs) (auto split: sum.splits dest!: toEntity_ok)

lemma list_page_member: "x \<in> set (list_page p tf idf cur l ds) \<Longrightarrow> x \<in> set ds \<and> p x"
  unfolding list_page_def by (drule in_set_takeD) (simp add: KeysetSort_def)

lemma ho_List: "keeps_channels d n H fz (conn_List d' c page) (\<lambda>cs. \<forall>x \<in> set cs. entity_ok d H x \<and> RequireTenant c = Inr (ch_TenantID x))"
  unfolding conn_List_def
proof (rule cj.ho_lift_then, rule cj.ho_lift)
  fix t cur assume t: "RequireTenant c = Inr t"
  show "keeps_channels d n H fz (bind_io (repo_query d' c conns (\<lambda>t cs. Inr (list_page (\<lambda>x. ch_TenantID x = t) cn_CreatedAt ch_ID cur (pr_Limit page) cs)))
        (\<lambda>ms. lift_res (conn_decodeAll d' ms))) (\<lambda>cs. \<forall>x \<in> set cs. entity_ok d H x \<and> RequireTenant c = Inr (ch_TenantID x))"
  proof (rule cj.ho_bind [OF cj.ho_query [where V = "\<lambda>ms. \<forall>m \<in> set ms. stored_ok d H m \<and> ch_TenantID m = t"]])
    fix t' and w :: "'d chan_world_scheme" and ms
    assume "chan_J d n H fz w" "RequireTenant c = Inr t'" "Inr (list_page (\<lambda>x. ch_TenantID x = t') cn_CreatedAt ch_ID cur (pr_Limit page) (conns w)) = (Inr ms :: mongo_err + _)"
    with t show "\<forall>m \<in> set ms. stored_ok d H m \<and> ch_TenantID m = t"
      by (auto dest!: list_page_member intro: stored_member)
  next
    show "keeps_channels d n H fz (lift_res (conn_decodeAll d' ms)) (\<lambda>cs. \<forall>x \<in> set cs. entity_ok d H x \<and> RequireTenant c = Inr (ch_TenantID x))"
      if "\<forall>m \<in> set ms. stored_ok d H m \<and> ch_TenantID m = t" for ms
    proof (rule cj.ho_lift_last)
      fix cs assume "conn_decodeAll d' ms = Inr cs"
      from decodeAll_valid [OF this that] t show "\<forall>x \<in> set cs. entity_ok d H x \<and> RequireTenant c = Inr (ch_TenantID x)" by simp
    qed
  qed
qed

section \<open>Writes\<close>

lemma one_per_hashD: "one_per_hash cs \<Longrightarrow> x \<in> set cs \<Longrightarrow> y \<in> set cs \<Longrightarrow> cn_InboundTokenHash x \<noteq> [] \<Longrightarrow>
    cn_InboundTokenHash x = cn_InboundTokenHash y \<Longrightarrow> x = y"
  unfolding one_per_hash_def by blast

lemma insert_one_per_hash:
  assumes "one_per_hash cs" "conn_insert x cs = Inr cs'"
  shows "cs' = cs @ [x] \<and> one_per_hash cs'"
proof -
  have cs': "cs' = cs @ [x]" and new: "ch_ID x \<notin> ch_ID ` set cs" and free: "\<not> hash_taken x cs"
    using assms(2) by (auto simp: conn_insert_def insert_one_def split: if_splits)
  from new free have "\<forall>y \<in> set cs. cn_InboundTokenHash x \<noteq> [] \<longrightarrow> cn_InboundTokenHash y \<noteq> cn_InboundTokenHash x"
    unfolding hash_taken_def image_iff by metis
  with assms(1) new show ?thesis by (auto simp: one_per_hash_def cs')
qed

lemma replace_one_per_hash:
  assumes one: "one_per_hash cs" and rep: "conn_replace t x cs = Inr cs'"
  shows "cs' = map (\<lambda>y. if conn_by t (ch_ID x) y then conn_assign x y else y) cs \<and> one_per_hash cs'"
proof -
  let ?p = "conn_by t (ch_ID x)"
  have ids: "distinct (map ch_ID cs)" using one by (simp add: one_per_hash_def)
  have ex: "\<exists>y \<in> set cs. ?p y" and free: "\<not> hash_taken x cs" and up: "cs' = update_first ?p (conn_assign x) cs"
    using rep by (auto simp: conn_replace_def update_one_def split: if_splits)
  have map: "distinct (map ch_ID ds) \<Longrightarrow> update_first ?p (conn_assign x) ds = map (\<lambda>y. if ?p y then conn_assign x y else y) ds" for ds
    by (induction ds) (auto simp: conn_by_def image_iff intro!: map_idI [symmetric])
  note cs' = up [unfolded map [OF ids]]
  have same: "map ch_ID cs' = map ch_ID cs" by (auto simp: cs' conn_assign_def)
  have mine: "y = z" if "y \<in> set cs" "z \<in> set cs" "?p y" "?p z" for y z
    using ids that unfolding distinct_map conn_by_def by (metis inj_onD)
  have other: "cn_InboundTokenHash y \<noteq> cn_InboundTokenHash x" if "y \<in> set cs" "\<not> ?p y" "cn_InboundTokenHash x \<noteq> []" for y
  proof -
    from ex obtain z where z: "z \<in> set cs" "?p z" by blast
    with that ids have "ch_ID y \<noteq> ch_ID x" unfolding distinct_map conn_by_def by (metis inj_onD)
    with free that show ?thesis by (auto simp: hash_taken_def)
  qed
  have "u = v" if u: "u \<in> set cs'" and v: "v \<in> set cs'" and uv: "cn_InboundTokenHash u \<noteq> []" "cn_InboundTokenHash u = cn_InboundTokenHash v" for u v
  proof -
    from u v obtain y z where y: "y \<in> set cs" "u = (if ?p y then conn_assign x y else y)"
      and z: "z \<in> set cs" "v = (if ?p z then conn_assign x z else z)" by (auto simp: cs')
    have set: "cn_InboundTokenHash (conn_assign x w) = cn_InboundTokenHash x" for w by (simp add: conn_assign_def)
    show ?thesis
      using y z uv mine [of y z] other [of y] other [of z] one_per_hashD [OF one, of y z]
      by (cases "?p y"; cases "?p z") (auto simp: set)
  qed
  then have "one_per_hash cs'" using ids unfolding one_per_hash_def same by blast
  with cs' show ?thesis by simp
qed

lemma ho_Create: "entity_ok d H x \<Longrightarrow> RequireTenant c = Inr (ch_TenantID x) \<Longrightarrow> fz (ch_TenantID x) = None \<Longrightarrow>
    keeps_channels d n H fz (conn_Create d' c x) (\<lambda>_. True)"
  unfolding conn_Create_def
proof (rule cj.ho_lift_then, rule cj.ho_bind [OF ho_still [OF still_seal]], rule cj.ho_write)
  fix enc t cs and w :: "'b chan_world_scheme"
  assume x: "entity_ok d H x" "fz (ch_TenantID x) = None" and w: "chan_J d n H fz w"
    and ins: "conn_insert (conn_toModel x enc) (conns w) = Inr cs"
  have "one_per_hash (conns w)" using w by (simp add: chan_J_def conns_ok_def)
  from insert_one_per_hash [OF this ins] w x show "chan_J d n H fz (put_conns cs w)"
    by (auto simp: chan_J_def conns_ok_def stored_ok_def conns_of_def conn_toModel_def)
qed

lemma stored_set: "entity_ok d H x \<Longrightarrow> stored_ok d H y \<Longrightarrow> stored_ok d H (conn_assign (conn_toModel x enc) y)"
  by (simp add: stored_ok_def entity_ok_def conn_assign_def conn_toModel_def)

lemma ho_Update: "entity_ok d H x \<Longrightarrow> RequireTenant c = Inr t \<Longrightarrow> fz t = None \<Longrightarrow>
    keeps_channels d n H fz (conn_Update d' c x) (\<lambda>_. True)"
  unfolding conn_Update_def
proof (rule cj.ho_lift_then, rule cj.ho_bind [OF ho_still [OF still_seal]], rule cj.ho_write)
  fix enc t' cs and w :: "'b chan_world_scheme"
  assume x: "entity_ok d H x" "fz t = None" and w: "chan_J d n H fz w" and t: "RequireTenant c = Inr t" "RequireTenant c = Inr t'"
    and rep: "conn_replace t' (conn_toModel x enc) (conns w) = Inr cs"
  have one: "one_per_hash (conns w)" using w by (simp add: chan_J_def conns_ok_def)
  have cs: "cs = map (\<lambda>y. if conn_by t (ch_ID x) y then conn_assign (conn_toModel x enc) y else y) (conns w)" "one_per_hash cs"
    using replace_one_per_hash [OF one rep] t by (auto simp: conn_toModel_def)
  have "conns_of u cs = conns_of u (conns w)" if "u \<noteq> t" for u
  proof -
    have "filter (\<lambda>x. ch_TenantID x = u) (map (\<lambda>y. if conn_by t (ch_ID x) y then conn_assign (conn_toModel x enc) y else y) ds)
        = filter (\<lambda>x. ch_TenantID x = u) ds" for ds
      using that by (induction ds) (auto simp: conn_by_def conn_assign_def)
    then show ?thesis by (simp add: cs(1) conns_of_def)
  qed
  moreover have "\<forall>y \<in> set cs. stored_ok d H y"
    using w x by (auto simp: cs(1) chan_J_def conns_ok_def intro: stored_set)
  ultimately show "chan_J d n H fz (put_conns cs w)"
    using w x cs(2) by (auto simp: chan_J_def conns_ok_def) (metis option.distinct(1))
qed

lemma delete_J:
  assumes w: "chan_J d n H fz w" and t: "fz t = None" and del: "delete_first (conn_by t i) (conns w) = Inr cs"
  shows "chan_J d n H fz (put_conns cs w)"
proof -
  have one: "one_per_hash (conns w)" using w by (simp add: chan_J_def conns_ok_def)
  have "conn_by t i = (\<lambda>x. ch_ID x = i \<and> ch_TenantID x = t)" by (auto simp: conn_by_def)
  with del conn_repo.delete_first_filter [of "conns w" i t cs] one
  have cs: "cs = filter (\<lambda>x. \<not> (ch_ID x = i \<and> ch_TenantID x = t)) (conns w)" by (simp add: one_per_hash_def)
  have "conns_of u cs = conns_of u (conns w)" if "u \<noteq> t" for u
    unfolding cs conns_of_def filter_filter using that by (intro filter_cong) auto
  moreover have "one_per_hash cs" using one by (auto simp: one_per_hash_def cs distinct_map_filter)
  moreover have "fz u = Some xs \<Longrightarrow> u \<noteq> t" for u xs using t by auto
  moreover have "\<forall>x \<in> set cs. stored_ok d H x" using w by (simp add: cs chan_J_def conns_ok_def)
  ultimately show ?thesis using w by (simp add: chan_J_def conns_ok_def)
qed

lemma ho_Delete: "RequireTenant c = Inr t \<Longrightarrow> fz t = None \<Longrightarrow> keeps_channels d n H fz (conn_Delete d' c i) (\<lambda>_. True)"
  unfolding conn_Delete_def by (rule cj.ho_write) (simp add: delete_J)

end
