(* ===== verification/Channel_Requests.thy ===== *)
theory Channel_Requests
  imports Channel_Guard
begin

text \<open>
  Every operation of the channel service, and the inbound endpoint that stores a template mirror,
  keeps the invariant of Channel_Guard; so does any sequence of requests.
\<close>

section \<open>Operations\<close>

lemma ho_token: "draws_in d n H \<Longrightarrow> keeps_channels d n H fz (newInboundToken d) (\<lambda>t. hashInboundToken d t \<in> H)"
  unfolding cj.holds_def newInboundToken_def rand_Read_def bind_io_def return_io_def
  by (auto simp: wp_def draws_in_def token_drawn_def [symmetric] chan_J_def tick_def)

lemma check_hours_ok: "check_hours d doc = Inr () \<Longrightarrow> ValidateSchedule (ce_Biz d) doc = Inr ()"
  by (auto simp: check_hours_def split: sum.splits)

lemma entity_update [simp]:
  "entity_ok d H (x\<lparr>cn_Secret := s\<rparr>) = entity_ok d H x"
  "entity_ok d H (x\<lparr>cn_Status := s\<rparr>) = entity_ok d H x" "entity_ok d H (x\<lparr>cn_UpdatedAt := t\<rparr>) = entity_ok d H x"
  "entity_ok d H (x\<lparr>cn_Status := s, cn_UpdatedAt := t\<rparr>) = entity_ok d H x"
  "entity_ok d H (x\<lparr>cn_Secret := s, cn_UpdatedAt := t\<rparr>) = entity_ok d H x"
  by (simp_all add: entity_ok_def)

definition same_channel :: "'e chan_env_scheme \<Rightarrow> string set \<Rightarrow> connection \<Rightarrow> connection \<Rightarrow> bool" where
  "same_channel d H x0 x \<longleftrightarrow> (entity_ok d H x0 \<longrightarrow> entity_ok d H x) \<and> ch_ID x = ch_ID x0 \<and> ch_TenantID x = ch_TenantID x0"

lemma same_patch: "same_channel d H x0 x \<Longrightarrow> (\<And>v x. entity_ok d H (f v x) = entity_ok d H x \<and> ch_ID (f v x) = ch_ID x \<and> ch_TenantID (f v x) = ch_TenantID x) \<Longrightarrow>
    same_channel d H x0 (patch o1 f x)"
  by (cases o1) (simp_all add: patch_def same_channel_def)

lemma same_hours: "patch_res o1 (patch_hours d) x = Inr y \<Longrightarrow> same_channel d H x0 x \<Longrightarrow> same_channel d H x0 y"
  by (auto simp: patch_res_def patch_hours_def res_bind_Inr same_channel_def entity_ok_def dest!: check_hours_ok split: option.splits)

lemma same_templates: "patch_res o1 patch_templates x = Inr y \<Longrightarrow> same_channel d H x0 x \<Longrightarrow> same_channel d H x0 y"
  by (auto simp: patch_res_def patch_templates_def res_bind_Inr same_channel_def entity_ok_def split: option.splits)

lemma patch_channel_ok: "patch_connection d cmd x0 = Inr x \<Longrightarrow> same_channel d H x0 x"
  unfolding patch_connection_def Let_def res_bind_Inr
  by (elim exE conjE)
     (erule same_templates, intro same_patch, erule same_hours, intro same_patch, simp_all add: same_channel_def entity_ok_def)

text \<open>A request of a tenant that may act.\<close>

definition may_act :: "(ident \<rightharpoonup> connection list) \<Rightarrow> ctx \<Rightarrow> bool" where
  "may_act fz c \<longleftrightarrow> (\<forall>t. RequireTenant c = Inr t \<longrightarrow> fz t = None)"

lemma ho_skip: "framed chan_still m \<Longrightarrow> (\<And>x. keeps_channels d n H fz (f x) V) \<Longrightarrow> keeps_channels d n H fz (bind_io m f) V"
  by (rule cj.ho_bind [OF ho_still])

lemma ho_skip_then: "framed chan_still m \<Longrightarrow> keeps_channels d n H fz k V \<Longrightarrow> keeps_channels d n H fz (then_io m k) V"
  by (rule cj.ho_then [OF ho_still])

lemma ho_store: "entity_ok d H x \<Longrightarrow> RequireTenant c = Inr (ch_TenantID x) \<Longrightarrow> may_act fz c \<Longrightarrow>
    keeps_channels d n H fz k V \<Longrightarrow> keeps_channels d n H fz (then_io (conn_Update d' c x) k) V"
  by (rule cj.ho_then [OF ho_Update]) (auto simp: may_act_def)

lemmas still_now = still.fr_now still.fr_new_id

lemma ho_channel_Create:
  assumes "draws_in d n H" "may_act fz c" shows "keeps_channels d n H fz (channel_Create d c cmd) (\<lambda>_. True)"
  unfolding channel_Create_def Let_def
  apply (intro cj.ho_lift cj.ho_guard cj.ho_lift_then)
  apply (rule ho_skip)
   apply (simp add: new_secret_def still_rand still.fr_return)
  apply (rule ho_skip [OF still.fr_now] cj.ho_bind [OF ho_token [OF assms(1)]] ho_skip [OF still.fr_new_id])+
  apply (rule cj.ho_then [OF ho_Create])
     apply (use assms in \<open>auto simp: entity_ok_def may_act_def dest: check_hours_ok\<close>) [3]
  apply (intro ho_skip_then still_managed cj.ho_return TrueI)
  done

lemma ho_Rotate:
  assumes "draws_in d n H" "may_act fz c" shows "keeps_channels d n H fz (RotateInboundToken d c i) (\<lambda>_. True)"
  unfolding RotateInboundToken_def Let_def
  by (rule cj.ho_lift_then, rule cj.ho_bind [OF ho_FindByID], rule cj.ho_bind [OF ho_token [OF assms(1)]],
      rule ho_skip [OF still.fr_now], rule ho_store)
     (use assms in \<open>auto simp: entity_ok_def intro!: ho_skip_then still_audit cj.ho_return\<close>)

lemma ho_RotateSecret: "may_act fz c \<Longrightarrow> keeps_channels d n H fz (RotateOutboundSecret d c i) (\<lambda>_. True)"
  unfolding RotateOutboundSecret_def Let_def
  by (rule cj.ho_lift_then, rule cj.ho_bind [OF ho_FindByID], rule ho_skip [OF still_rand(1)],
      rule ho_skip [OF still.fr_now], rule ho_store)
     (auto intro!: ho_skip_then still_audit still_managed cj.ho_return)

lemma ho_Replace: "may_act fz c \<Longrightarrow> keeps_channels d n H fz (ReplaceTemplates d c i ts) (\<lambda>_. True)"
  unfolding ReplaceTemplates_def Let_def
  by (rule cj.ho_lift, rule cj.ho_lift_then, rule cj.ho_bind [OF ho_FindByID], rule ho_skip [OF still.fr_now], rule ho_store)
     (auto simp: entity_ok_def intro!: ho_skip_then still_audit still_notify cj.ho_return)

lemma ho_channel_Update: "may_act fz c \<Longrightarrow> keeps_channels d n H fz (channel_Update d c i cmd) (\<lambda>_. True)"
  unfolding channel_Update_def Let_def
  by (rule cj.ho_lift_then, rule cj.ho_bind [OF ho_FindByID], rule cj.ho_lift, rule ho_skip [OF still.fr_now], rule ho_store)
     (auto simp: same_channel_def dest!: patch_channel_ok intro!: ho_skip_then still_managed cj.ho_return)

lemma ho_channel_Delete: "may_act fz c \<Longrightarrow> keeps_channels d n H fz (channel_Delete d c i) (\<lambda>_. True)"
  unfolding channel_Delete_def
  by (rule cj.ho_lift_then, rule cj.ho_then [OF ho_Delete])
     (auto simp: may_act_def intro!: ho_still still_managed)

lemma ho_Get: "keeps_channels d n H fz (channel_Get d' c i) (\<lambda>x. entity_ok d H x \<and> ch_ID x = i \<and> RequireTenant c = Inr (ch_TenantID x))"
  unfolding channel_Get_def by (rule cj.ho_lift_then, rule ho_FindByID)

lemma ho_Test: "may_act fz c \<Longrightarrow> keeps_channels d n H fz (channel_Test d c i) (\<lambda>_. True)"
  unfolding channel_Test_def Let_def
  apply (rule cj.ho_bind [OF ho_Get], rule ho_skip [OF still.fr_try [OF still_send]], rule ho_skip [OF still.fr_now])
  subgoal for conn0 r now
    by (cases r) (auto intro!: cj.ho_then [OF cj.ho_ignore [OF ho_Update]] ho_store cj.ho_return simp: may_act_def)
  done

lemma ho_HealthCheck:
  assumes "may_act fz c" "\<And>x. framed chan_still (h c x)"
  shows "keeps_channels d n H fz (HealthCheck d h c) (\<lambda>_. True)"
  unfolding HealthCheck_def
proof (rule cj.ho_lift_then, rule cj.ho_bind [OF ho_List], rule ho_skip [OF still.fr_now], rule cj.ho_fold)
  fix cs now b x assume "\<forall>x \<in> set cs. entity_ok d H x \<and> RequireTenant c = Inr (ch_TenantID x)" "x \<in> set cs"
  then have x: "entity_ok d H x" "RequireTenant c = Inr (ch_TenantID x)" by auto
  then have "keeps_channels d n H fz (conn_Update d c (x\<lparr>cn_Status := s, cn_UpdatedAt := now\<rparr>)) (\<lambda>_. True)" for s
    using assms(1) by (auto simp: may_act_def intro: ho_Update)
  note store = cj.ho_mono [OF cj.ho_try [OF this] TrueI]
  show "keeps_channels d n H fz (bind_io (health_step d h c now x) (\<lambda>b'. return_io (if b' then b + 1 else b))) (\<lambda>_. True)"
    unfolding health_step_def Let_def
    by (rule cj.ho_bind [where V = "\<lambda>_. True"])
       (auto intro!: cj.ho_if cj.ho_return ho_skip [OF still.fr_try [OF assms(2)]] cj.ho_bind [OF store])
qed

lemma ho_SyncTemplates: "keeps_channels d n H fz (SyncTemplates d c i) (\<lambda>_. True)"
  unfolding SyncTemplates_def Let_def
  by (intro cj.ho_lift cj.ho_guard ho_skip_then still_EmitToChannel ho_still still_audit)

section \<open>Inbound requests\<close>

text \<open>What an authenticated request has shown.\<close>

definition authenticated ::
  "'e chan_env_scheme \<Rightarrow> string \<Rightarrow> string \<Rightarrow> string \<Rightarrow> headers \<Rightarrow> connection list \<Rightarrow> connection \<Rightarrow> bool" where
  "authenticated d token channelType rawBody h cs x \<longleftrightarrow> token \<noteq> [] \<and> ch_Enabled x \<and> ch_Type x = channelType
     \<and> VerifyInbound d (registry_For channelType) x rawBody h = Inr ()
     \<and> (\<exists>m \<in> set cs. conn_toEntity d m = Inr x \<and> cn_InboundTokenHash m = hashInboundToken d token)"

lemma ResolveInbound_Inr:
  assumes "ResolveInbound d token ty body h w = (Inr x, w')"
  shows "authenticated d token ty body h (conns w) x \<and> w' = tick w"
  using assms unfolding ResolveInbound_def FindByInboundTokenHash_def db_call_def io_defs Let_def authenticated_def
  by (auto simp: map_err_def find_one_def tick_def conn_toEntity_def
      dest!: find_Some_in split: option.splits sum.splits if_splits prod.splits) (rule bexI, simp_all)

lemma still_Resolve: "framed chan_still (ResolveInbound d token ty body h)"
  unfolding ResolveInbound_def FindByInboundTokenHash_def Let_def
  apply (intro still_steps)
   apply (simp add: db_call_def framed_def chan_still_def tick_def split: option.split)
  apply (auto intro!: still_steps split: sum.split)
  done

text \<open>
  A tenant whose connections are frozen has none with the token's hash: the handler runs in the
  tenant of the connection the token resolves.
\<close>

definition names_none :: "'e chan_env_scheme \<Rightarrow> (ident \<rightharpoonup> connection list) \<Rightarrow> string \<Rightarrow> bool" where
  "names_none d fz token \<longleftrightarrow> (\<forall>t xs. fz t = Some xs \<longrightarrow> hashInboundToken d token \<notin> cn_InboundTokenHash ` set xs)"

lemma ho_Resolve: "names_none d fz token \<Longrightarrow>
    keeps_channels d n H fz (ResolveInbound d token ty body h) (\<lambda>x. fz (ch_TenantID x) = None)"
  unfolding cj.holds_def
proof (intro allI impI)
  fix w assume none: "names_none d fz token" and w: "chan_J d n H fz w"
  show "wp (ResolveInbound d token ty body h) (\<lambda>x w'. chan_J d n H fz w' \<and> fz (ch_TenantID x) = None) (\<lambda>_. chan_J d n H fz) w"
  proof (cases "ResolveInbound d token ty body h w")
    case (Pair r w')
    have J: "chan_J d n H fz w'" using still_J [OF w framedD [OF still_Resolve Pair]] .
    have "fz (ch_TenantID x) = None" if "r = Inr x" for x
    proof (rule ccontr)
      assume "fz (ch_TenantID x) \<noteq> None"
      then obtain xs where xs: "fz (ch_TenantID x) = Some xs" by blast
      with w have own: "conns_of (ch_TenantID x) (conns w) = xs" by (simp add: chan_J_def conns_ok_def)
      from ResolveInbound_Inr [of d token ty body h w x w'] Pair that
      obtain m where m: "m \<in> set (conns w)" "conn_toEntity d m = Inr x" "cn_InboundTokenHash m = hashInboundToken d token"
        by (auto simp: authenticated_def)
      then have "ch_TenantID m = ch_TenantID x" by (auto simp: conn_toEntity_def split: sum.splits)
      with m own have "m \<in> set xs" by (auto simp: conns_of_def)
      with m(3) none xs show False unfolding names_none_def by (metis imageI)
    qed
    with J Pair show ?thesis by (cases r) (auto simp: wp_def)
  qed
qed

lemma ho_Templates: "names_none d fz (if r ''X-Inbound-Token'' = [] then tok else r ''X-Inbound-Token'') \<Longrightarrow>
    keeps_channels d n H fz (HandleTemplates d c ty r tok body ts) (\<lambda>_. True)"
  unfolding HandleTemplates_def inbound_edge_def Let_def
  by (rule cj.ho_bind [OF ho_Resolve], assumption, rule cj.ho_bind [OF ho_Replace])
     (auto simp: may_act_def WithTenant_def RequireTenant_Inr intro!: cj.ho_return)

section \<open>Requests\<close>

datatype channel_request =
    CreateChannel create_connection
  | UpdateChannel ident update_connection
  | DeleteChannel ident
  | GetChannel ident
  | ListChannels page_request
  | TestChannel ident
  | CheckHealth
  | RotateToken ident
  | RotateSecret ident
  | AskTemplates ident
  | StoreTemplates ident "whatsapp_template list"
  | PushTemplates string headers string string "whatsapp_template list"

definition done_io :: "('w, 'a) io \<Rightarrow> ('w, unit) io" where
  "done_io m = then_io m (return_io ())"

fun serve_channel :: "'e chan_env_scheme \<Rightarrow> ctx \<Rightarrow> channel_request \<Rightarrow> ('z chan_world_scheme, unit) io" where
  "serve_channel d c (CreateChannel cmd) = done_io (channel_Create d c cmd)"
| "serve_channel d c (UpdateChannel i cmd) = done_io (channel_Update d c i cmd)"
| "serve_channel d c (DeleteChannel i) = channel_Delete d c i"
| "serve_channel d c (GetChannel i) = done_io (channel_Get d c i)"
| "serve_channel d c (ListChannels page) = done_io (channel_List d c page)"
| "serve_channel d c (TestChannel i) = done_io (channel_Test d c i)"
| "serve_channel d c CheckHealth = done_io (HealthCheck d (health_Check d) c)"
| "serve_channel d c (RotateToken i) = done_io (RotateInboundToken d c i)"
| "serve_channel d c (RotateSecret i) = done_io (RotateOutboundSecret d c i)"
| "serve_channel d c (AskTemplates i) = SyncTemplates d c i"
| "serve_channel d c (StoreTemplates i ts) = done_io (ReplaceTemplates d c i ts)"
| "serve_channel d c (PushTemplates ty r tok body ts) = done_io (HandleTemplates d c ty r tok body ts)"

primrec run_channels :: "'e chan_env_scheme \<Rightarrow> (ctx \<times> channel_request) list \<Rightarrow> 'z chan_world_scheme \<Rightarrow> 'z chan_world_scheme" where
  "run_channels d [] w = w"
| "run_channels d (q # qs) w = run_channels d qs (snd (serve_channel d (fst q) (snd q) w))"

text \<open>Whether a request may change the channels of a tenant that has the connections \<open>xs\<close>.\<close>

definition touches :: "'e chan_env_scheme \<Rightarrow> ident \<Rightarrow> connection list \<Rightarrow> ctx \<times> channel_request \<Rightarrow> bool" where
  "touches d t xs q \<longleftrightarrow> (case snd q of
     PushTemplates _ r tok _ _ \<Rightarrow> hashInboundToken d (if r ''X-Inbound-Token'' = [] then tok else r ''X-Inbound-Token'')
        \<in> cn_InboundTokenHash ` set xs
   | _ \<Rightarrow> RequireTenant (fst q) = Inr t)"

lemma ho_done: "keeps_channels d n H fz m (\<lambda>_. True) \<Longrightarrow> keeps_channels d n H fz (done_io m) (\<lambda>_. True)"
  unfolding done_io_def by (rule cj.ho_then) (auto intro: cj.ho_return)

lemma ho_serve:
  assumes "draws_in d n H" "\<And>t xs. fz t = Some xs \<Longrightarrow> \<not> touches d t xs q"
  shows "keeps_channels d n H fz (serve_channel d (fst q) (snd q)) (\<lambda>_. True)"
proof (cases "\<exists>ty r tok body ts. snd q = PushTemplates ty r tok body ts")
  case True
  with assms(2) show ?thesis
    by (fastforce simp: touches_def names_none_def intro!: ho_done ho_Templates)
next
  case False
  have act: "may_act fz (fst q)"
    unfolding may_act_def
  proof (intro allI impI, rule ccontr)
    fix t assume t: "RequireTenant (fst q) = Inr t" "fz t \<noteq> None"
    then obtain xs where "fz t = Some xs" by blast
    from assms(2) [OF this] t(1) False show False by (cases "snd q") (auto simp: touches_def)
  qed
  have list: "keeps_channels d n H fz (channel_List d c page) (\<lambda>_. True)" for c page
    unfolding channel_List_def by (rule cj.ho_lift_then) (rule cj.ho_mono [OF ho_List TrueI])
  show ?thesis
    using False assms(1) act
    by (cases "snd q")
       (auto intro!: ho_done ho_channel_Create ho_channel_Update ho_channel_Delete list ho_Test ho_HealthCheck still_health
          ho_Rotate ho_RotateSecret ho_SyncTemplates ho_Replace cj.ho_mono [OF ho_Get TrueI])
qed

lemma run_J:
  assumes "draws_in d n H" "\<And>q t xs. q \<in> set qs \<Longrightarrow> fz t = Some xs \<Longrightarrow> \<not> touches d t xs q" "chan_J d n H fz w"
  shows "chan_J d n H fz (run_channels d qs w)"
  using assms(2,3)
proof (induction qs arbitrary: w)
  case (Cons q qs)
  have "keeps_channels d n H fz (serve_channel d (fst q) (snd q)) (\<lambda>_. True)"
    using assms(1) Cons.prems(1) by (intro ho_serve) simp_all
  from cj.ho_run [OF this Cons.prems(2)] Cons show ?case by simp
qed simp

end
