(* ===== verification/Channel_Tokens.thy ===== *)
theory Channel_Tokens
  imports Channels
begin

text \<open>
  The integration tokens: what the base-62 encoding of the random bytes keeps of them. The
  value of a token is read back by the inverse of the alphabet.
\<close>

declare base62_digits.simps [simp del]

section \<open>Digits\<close>

definition digit62 :: "char \<Rightarrow> nat" where
  "digit62 c = length (takeWhile (\<lambda>x. x \<noteq> c) base62Alphabet)"

definition base62_value :: "string \<Rightarrow> nat" where
  "base62_value s = foldr (\<lambda>c n. digit62 c + 62 * n) s 0"

lemma length_alphabet: "length base62Alphabet = 62"
  by (simp add: base62Alphabet_def)

lemma distinct_alphabet: "distinct base62Alphabet"
  by (simp add: base62Alphabet_def)

lemma takeWhile_distinct: "distinct xs \<Longrightarrow> k < length xs \<Longrightarrow> takeWhile (\<lambda>x. x \<noteq> xs ! k) xs = take k xs"
proof (induction xs arbitrary: k)
  case (Cons a xs)
  show ?case
  proof (cases k)
    case (Suc j)
    with Cons.prems have "a \<noteq> xs ! j" by (auto simp: in_set_conv_nth)
    with Suc Cons show ?thesis by simp
  qed simp
qed simp

lemma digit62_nth: "k < 62 \<Longrightarrow> digit62 (base62Alphabet ! k) = k"
  by (simp add: digit62_def takeWhile_distinct [OF distinct_alphabet] length_alphabet)

lemma base62_digits_value: "base62_value (base62_digits n) = n"
proof (induction n rule: base62_digits.induct)
  case (1 n)
  show ?case
  proof (cases "n = 0")
    case False
    with 1 show ?thesis
      by (subst base62_digits.simps) (simp add: base62_value_def digit62_nth)
  qed (simp add: base62_digits.simps base62_value_def)
qed

lemma base62_digits_chars: "set (base62_digits n) \<subseteq> set base62Alphabet"
proof (induction n rule: base62_digits.induct)
  case (1 n)
  have "base62Alphabet ! (n mod 62) \<in> set base62Alphabet" by (simp add: length_alphabet)
  with 1 show ?case by (subst base62_digits.simps) auto
qed

lemma base62_digits_length: "n < 62 ^ k \<Longrightarrow> length (base62_digits n) \<le> k"
proof (induction n arbitrary: k rule: base62_digits.induct)
  case (1 n)
  show ?case
  proof (cases "n = 0")
    case False
    with 1(2) obtain j where k: "k = Suc j" by (cases k) auto
    with 1(2) have "n div 62 < 62 ^ j" by (simp add: div_less_iff_less_mult mult.commute)
    with 1(1) [OF False, of j] False k show ?thesis by (subst base62_digits.simps) simp
  qed (simp add: base62_digits.simps)
qed

lemma value_zeros: "base62_value (replicate k (base62Alphabet ! 0)) = 0"
  by (induction k) (simp_all add: base62_value_def digit62_nth)

lemma value_append: "base62_value t = 0 \<Longrightarrow> base62_value (s @ t) = base62_value s"
  by (induction s) (simp_all add: base62_value_def)

lemma value_pad43: "base62_value (pad43 s) = base62_value s"
  by (simp add: pad43_def value_append value_zeros)

section \<open>Bytes\<close>

lemma set_bytes_snoc: "set_bytes (bs @ [b]) = 256 * set_bytes bs + unat b"
  by (simp add: set_bytes_def)

lemma byte_less: "unat (b :: 8 word) < 256"
  using unsigned_less [of b, where 'a = nat] by simp

lemma set_bytes_less: "set_bytes bs < 256 ^ length bs"
proof (induction bs rule: rev_induct)
  case (snoc b bs)
  have "256 * set_bytes bs + unat b < 256 * (set_bytes bs + 1)" using byte_less [of b] by simp
  also have "\<dots> \<le> 256 * 256 ^ length bs" using snoc by (simp only: mult_le_mono2 Suc_eq_plus1 [symmetric] Suc_leI)
  finally show ?case by (simp add: set_bytes_snoc)
qed (simp add: set_bytes_def)

lemma set_bytes_inj: "length as = length bs \<Longrightarrow> set_bytes as = set_bytes bs \<Longrightarrow> as = bs"
proof (induction as arbitrary: bs rule: rev_induct)
  case (snoc a as)
  then obtain b bs' where bs: "bs = bs' @ [b]" by (cases bs rule: rev_cases) auto
  have eq: "256 * set_bytes as + unat a = 256 * set_bytes bs' + unat b"
    using snoc.prems(2) by (simp add: bs set_bytes_snoc)
  have "unat a = unat b" using arg_cong [OF eq, of "\<lambda>n. n mod 256"] byte_less [of a] byte_less [of b] by simp
  moreover with eq have "set_bytes as = set_bytes bs'" by simp
  ultimately show ?case using snoc.IH [of bs'] snoc.prems(1) by (simp add: bs word_eq_iff_unsigned [where 'a = nat])
qed simp

lemma draw_fits: "length bs = 32 \<Longrightarrow> set_bytes bs < 62 ^ 43"
proof -
  assume "length bs = 32"
  with set_bytes_less [of bs] have "set_bytes bs < 256 ^ 32" by simp
  also have "(256 :: nat) ^ 32 < 62 ^ 43" by simp
  finally show ?thesis .
qed

section \<open>Tokens\<close>

lemma token_value: "base62_value (randomBase62 bs) = set_bytes bs"
  by (simp add: randomBase62_def value_pad43 base62_digits_value)

lemma token_length: "length bs = 32 \<Longrightarrow> length (randomBase62 bs) = 43"
  using base62_digits_length [OF draw_fits] by (simp add: randomBase62_def pad43_def)

lemma token_chars: "set (randomBase62 bs) \<subseteq> set base62Alphabet"
proof -
  have "base62Alphabet ! 0 \<in> set base62Alphabet" by (simp add: length_alphabet)
  with base62_digits_chars show ?thesis by (auto simp: randomBase62_def pad43_def)
qed

text \<open>
  C33: An integration token is 43 characters of the base-62 alphabet from which the 32 random bytes
  can be read back: no two draws give the same token, so none of their 256 bits is lost.
\<close>

theorem tokens_keep_their_entropy:
  assumes "length as = 32" and "length bs = 32"
  shows "(length (randomBase62 as) = 43)
    \<and> (set (randomBase62 as) \<subseteq> set base62Alphabet)
    \<and> (randomBase62 as = randomBase62 bs \<longleftrightarrow> as = bs)"
proof (intro conjI)
  show "length (randomBase62 as) = 43" using assms(1) by (rule token_length)
  show "set (randomBase62 as) \<subseteq> set base62Alphabet" by (rule token_chars)
  show "randomBase62 as = randomBase62 bs \<longleftrightarrow> as = bs"
    using set_bytes_inj assms by (metis token_value)
qed

end
