(* ===== verification/Channel_Props.thy ===== *)
theory Channel_Props
  imports Channel_Requests Channel_Tokens
begin

text \<open>
  What the channel connections are guaranteed: who may authenticate with a token and until when,
  that connections stay well formed and apart, and that the managed webhook follows its channel.
\<close>

section \<open>Consistency\<close>

definition channels_ok :: "'e chan_env_scheme \<Rightarrow> 'z chan_world_scheme \<Rightarrow> bool" where
  "channels_ok d w \<longleftrightarrow> one_per_hash (conns w) \<and> (\<forall>x \<in> set (conns w). stored_ok d {h. h \<noteq> []} x)
     \<and> chans w = map channel_connection.truncate (conns w)"

definition sha_length :: "'e chan_env_scheme \<Rightarrow> bool" where
  "sha_length d \<longleftrightarrow> (\<forall>s. length (ce_Hash d s) = 64)"

lemma sha_nonempty: "sha_length d \<Longrightarrow> hashInboundToken d t \<noteq> []"
  unfolding sha_length_def hashInboundToken_def by (metis list.size(3) zero_neq_numeral)

lemma sha_draws: "sha_length d \<Longrightarrow> draws_in d n {h. h \<noteq> []}"
  by (simp add: draws_in_def sha_nonempty)

lemma channels_ok_J: "channels_ok d w \<longleftrightarrow> chan_J d (step w) {h. h \<noteq> []} Map.empty w"
  by (simp add: channels_ok_def chan_J_def conns_ok_def)

lemma J_channels_ok: "chan_J d n {h. h \<noteq> []} fz w \<Longrightarrow> channels_ok d w"
  by (simp add: channels_ok_def chan_J_def conns_ok_def)

lemma run_channels_ok: "sha_length d \<Longrightarrow> channels_ok d w \<Longrightarrow> channels_ok d (run_channels d qs w)"
  unfolding channels_ok_J [of d w]
  by (rule J_channels_ok) (rule run_J [OF sha_draws]; simp)

text \<open>
  C32: Through any sequence of management and inbound requests every stored connection has a known
  type, a valid schedule and valid templates, no plaintext token, and a token hash of its own; the
  conversation services see it as it is; and the connections of a tenant change only by a request
  of that tenant or by an inbound request that presents one of its tokens.
\<close>

theorem channels_stay_consistent:
  assumes "sha_length d" and "channels_ok d w"
  shows "(channels_ok d (run_channels d qs w))
    \<and> ((\<forall>q \<in> set qs. \<not> touches d t (conns_of t (conns w)) q) \<longrightarrow> conns_of t (conns (run_channels d qs w)) = conns_of t (conns w))"
proof (intro conjI)
  show "channels_ok d (run_channels d qs w)" using assms by (rule run_channels_ok)
  show "(\<forall>q \<in> set qs. \<not> touches d t (conns_of t (conns w)) q) \<longrightarrow> conns_of t (conns (run_channels d qs w)) = conns_of t (conns w)"
  proof
    assume still: "\<forall>q \<in> set qs. \<not> touches d t (conns_of t (conns w)) q"
    let ?fz = "[t \<mapsto> conns_of t (conns w)]"
    have "chan_J d (step w) {h. h \<noteq> []} ?fz w" using assms(2) by (simp add: channels_ok_J chan_J_def conns_ok_def)
    then have "chan_J d (step w) {h. h \<noteq> []} ?fz (run_channels d qs w)"
      by (rule run_J [OF sha_draws [OF assms(1)], rotated]) (use still in \<open>auto split: if_splits\<close>)
    then show "conns_of t (conns (run_channels d qs w)) = conns_of t (conns w)" by (simp add: chan_J_def conns_ok_def)
  qed
qed

section \<open>Authentication\<close>

text \<open>The header proves knowledge of the secret.\<close>

definition proves_secret :: "'e hook_env_scheme \<Rightarrow> string \<Rightarrow> string \<Rightarrow> headers \<Rightarrow> bool" where
  "proves_secret d secret rawBody h \<longleftrightarrow> h ''X-Signature'' \<noteq> []
       \<and> ascii_lower (trim_prefix (h ''X-Signature'') ''sha256='') \<in> {sign_Body d secret rawBody, sign_Payload d secret (h ''Timestamp'') rawBody}
     \<or> h ''X-Signature'' = [] \<and> h ''X-Integration-Secret'' = secret"

lemma VerifySignature_Inr: "VerifySignature d secret rawBody h = Inr u \<Longrightarrow> secret = [] \<or> proves_secret d secret rawBody h"
  by (auto simp: VerifySignature_def proves_secret_def Let_def split: if_splits)

lemma registry_cases: "registry_For t = (if t = TypeWebchat then Webchat else if t = TypeAPI then API TypeAPI else API TypeCustom)"
  by (simp add: registry_For_def NewRegistry_def go_const)

lemma VerifyInbound_Inr:
  assumes "VerifyInbound d (registry_For ty) x rawBody h = Inr u"
  shows "cn_Secret x = [] \<or> proves_secret d (cn_Secret x) rawBody h
    \<or> ty \<noteq> TypeWebchat \<and> h ''X-Signature'' = [] \<and> h ''X-Integration-Secret'' = []"
  using assms VerifySignature_Inr [of d "cn_Secret x" rawBody h u]
  by (auto simp: registry_cases api_VerifyInbound_def webchat_VerifyInbound_def split: if_splits)

text \<open>
  C6: A request is let in only as the one connection that stores the hash of its token, enabled and
  of the channel type of the endpoint, and only if it proves the channel's secret, the channel has
  none, or the channel is not webchat and the request carries no signature at all. Authentication
  changes nothing.
\<close>

theorem inbound_token_names_one_channel:
  assumes "channels_ok d w" and "sha_length d"
    and "ResolveInbound d token channelType rawBody h w = (Inr x, w')"
  shows "({m \<in> set (conns w). cn_InboundTokenHash m = hashInboundToken d token} = {m \<in> set (conns w). conn_by (ch_TenantID x) (ch_ID x) m})
    \<and> (\<exists>m \<in> set (conns w). conn_toEntity d m = Inr x)
    \<and> (ch_Enabled x \<and> ch_Type x = channelType)
    \<and> (cn_Secret x = [] \<or> proves_secret d (cn_Secret x) rawBody h
      \<or> channelType \<noteq> TypeWebchat \<and> h ''X-Signature'' = [] \<and> h ''X-Integration-Secret'' = [])
    \<and> (w' = tick w)"
proof (intro conjI)
  from ResolveInbound_Inr [OF assms(3)] obtain m where auth: "authenticated d token channelType rawBody h (conns w) x" "w' = tick w"
    and m: "m \<in> set (conns w)" "conn_toEntity d m = Inr x" "cn_InboundTokenHash m = hashInboundToken d token"
    by (auto simp: authenticated_def)
  have x: "ch_ID x = ch_ID m" "ch_TenantID x = ch_TenantID m" using m(2) by (auto simp: conn_toEntity_def split: sum.splits)
  have one: "one_per_hash (conns w)" using assms(1) by (simp add: channels_ok_def)
  have hash: "y = m" if "y \<in> set (conns w)" "cn_InboundTokenHash y = hashInboundToken d token" for y
    using one_per_hashD [OF one that(1) m(1)] that(2) m(3) sha_nonempty [OF assms(2)] by simp
  have ident: "y = m" if "y \<in> set (conns w)" "ch_ID y = ch_ID m" for y
    using one that m(1) unfolding one_per_hash_def distinct_map by (metis inj_onD)
  have "{m \<in> set (conns w). cn_InboundTokenHash m = hashInboundToken d token} = {m}" using m hash by blast
  moreover have "{m \<in> set (conns w). conn_by (ch_TenantID x) (ch_ID x) m} = {m}" unfolding conn_by_def x using m ident by blast
  ultimately show "{m \<in> set (conns w). cn_InboundTokenHash m = hashInboundToken d token} = {m \<in> set (conns w). conn_by (ch_TenantID x) (ch_ID x) m}"
    by simp
  show "\<exists>m \<in> set (conns w). conn_toEntity d m = Inr x" using m by blast
  show "ch_Enabled x" "ch_Type x = channelType" using auth by (simp_all add: authenticated_def)
  show "cn_Secret x = [] \<or> proves_secret d (cn_Secret x) rawBody h
      \<or> channelType \<noteq> TypeWebchat \<and> h ''X-Signature'' = [] \<and> h ''X-Integration-Secret'' = []"
    by (rule VerifyInbound_Inr [where u = "()"]) (use auth in \<open>simp add: authenticated_def\<close>)
  show "w' = tick w" by (rule auth(2))
qed

section \<open>Rotation\<close>

lemma Rotate_Inr:
  assumes "RotateInboundToken d c i w = (Inr y, w1)"
  shows "\<exists>t k enc. k \<ge> step w \<and> step w \<le> step w1 \<and> RequireTenant c = Inr t \<and> ch_ID y = i \<and> cn_InboundToken y = token_drawn d k
    \<and> cn_InboundTokenHash y = hashInboundToken d (token_drawn d k) \<and> chans w1 = map channel_connection.truncate (conns w1)
    \<and> conn_replace t (conn_toModel y enc) (conns w) = Inr (conns w1)"
  using assms
  unfolding RotateInboundToken_def conn_FindByID_def conn_Update_def repo_query_def repo_write_def db_call_def
    audit_channel_def audit_io_def log_effect_def newInboundToken_def rand_Read_def now_io_def sealed_def Encrypt_def io_defs Let_def
  by (auto simp: tick_def token_drawn_def conn_by_def find_one_def conn_toEntity_def map_err_def dest!: find_Some_in
      split: option.splits sum.splits prod.splits if_splits)
     (rule exI [of _ "Suc (step w)"], auto)+

text \<open>The connections after a rotation: the rotated one stores the new hash, no other changed.\<close>

lemma Rotate_conns:
  assumes "channels_ok d w" "RotateInboundToken d c i w = (Inr y, w1)"
  shows "\<forall>m \<in> set (conns w1). m \<in> set (conns w) \<and> ch_ID m \<noteq> i \<or> ch_ID m = i \<and> cn_InboundTokenHash m = cn_InboundTokenHash y"
    and "\<exists>m \<in> set (conns w1). ch_ID m = i \<and> cn_InboundTokenHash m = hashInboundToken d (cn_InboundToken y)"
proof -
  from Rotate_Inr [OF assms(2)] obtain t k enc where y: "ch_ID y = i" "cn_InboundTokenHash y = hashInboundToken d (cn_InboundToken y)"
    and rep: "conn_replace t (conn_toModel y enc) (conns w) = Inr (conns w1)" by auto
  have one: "one_per_hash (conns w)" using assms(1) by (simp add: channels_ok_def)
  from rep obtain m where m: "m \<in> set (conns w)" "conn_by t i m"
    using y by (auto simp: conn_replace_def update_one_def conn_toModel_def split: if_splits)
  have conns: "conns w1 = map (\<lambda>z. if conn_by t i z then conn_assign (conn_toModel y enc) z else z) (conns w)"
    using replace_one_per_hash [OF one rep] y by (simp add: conn_toModel_def)
  have "conn_by t i z" if "z \<in> set (conns w)" "ch_ID z = i" for z
    using one that m unfolding one_per_hash_def distinct_map conn_by_def by (metis inj_onD)
  then have other: "z \<in> set (conns w) \<Longrightarrow> \<not> conn_by t i z \<Longrightarrow> ch_ID z \<noteq> i" for z by blast
  show "\<forall>m \<in> set (conns w1). m \<in> set (conns w) \<and> ch_ID m \<noteq> i \<or> ch_ID m = i \<and> cn_InboundTokenHash m = cn_InboundTokenHash y"
  proof
    fix m' assume "m' \<in> set (conns w1)"
    then obtain z where z: "z \<in> set (conns w)" "m' = (if conn_by t i z then conn_assign (conn_toModel y enc) z else z)"
      unfolding conns set_map by (rule imageE)
    show "m' \<in> set (conns w) \<and> ch_ID m' \<noteq> i \<or> ch_ID m' = i \<and> cn_InboundTokenHash m' = cn_InboundTokenHash y"
    proof (cases "conn_by t i z")
      case True
      then have "ch_ID z = i" by (simp add: conn_by_def)
      with True z(2) show ?thesis by (simp add: conn_assign_def conn_toModel_def)
    next
      case False
      with other [OF z(1)] z show ?thesis by simp
    qed
  qed
  show "\<exists>m \<in> set (conns w1). ch_ID m = i \<and> cn_InboundTokenHash m = hashInboundToken d (cn_InboundToken y)"
  proof (rule bexI)
    have "(if conn_by t i m then conn_assign (conn_toModel y enc) m else m) \<in> set (conns w1)"
      unfolding conns set_map using m(1) by (rule imageI)
    then show "conn_assign (conn_toModel y enc) m \<in> set (conns w1)" using m(2) by simp
    show "ch_ID (conn_assign (conn_toModel y enc) m) = i \<and> cn_InboundTokenHash (conn_assign (conn_toModel y enc) m) = hashInboundToken d (cn_InboundToken y)"
      using m(2) y by (simp add: conn_assign_def conn_toModel_def conn_by_def)
  qed
qed

text \<open>A hash no connection stores and no later draw has is never stored again.\<close>

lemma dead_hash:
  assumes "channels_ok d w" "h \<notin> cn_InboundTokenHash ` set (conns w)" "\<forall>k \<ge> step w. hashInboundToken d (token_drawn d k) \<noteq> h"
  shows "h \<notin> cn_InboundTokenHash ` set (conns (run_channels d qs w))"
proof -
  have "chan_J d (step w) (- {h}) Map.empty w"
    using assms(1,2) by (auto simp: chan_J_def conns_ok_def channels_ok_def stored_ok_def entity_ok_def)
  then have "chan_J d (step w) (- {h}) Map.empty (run_channels d qs w)"
    by (rule run_J [rotated 2]) (use assms(3) in \<open>auto simp: draws_in_def\<close>)
  then show ?thesis by (auto simp: chan_J_def conns_ok_def stored_ok_def entity_ok_def)
qed

text \<open>
  C7: Rotating a channel's token revokes the one it had: after the rotation, and after any further
  sequence of requests served one after the other, nothing authenticates with the old token, unless
  a later draw has its hash. The channel's stored hash is that of the token the caller was given.
\<close>

theorem rotated_token_stays_dead:
  assumes "channels_ok d w" and "sha_length d"
    and "x \<in> set (conns w)" "ch_ID x = i" "cn_InboundTokenHash x = hashInboundToken d old"
    and "\<forall>k \<ge> step w. hashInboundToken d (token_drawn d k) \<noteq> hashInboundToken d old"
    and "RotateInboundToken d c i w = (Inr y, w1)"
  shows "(\<exists>e. fst (ResolveInbound d old channelType rawBody h (run_channels d qs w1)) = Inl e)
    \<and> (\<exists>m \<in> set (conns w1). ch_ID m = i \<and> cn_InboundTokenHash m = hashInboundToken d (cn_InboundToken y))"
proof (intro conjI)
  let ?h = "hashInboundToken d old"
  from Rotate_Inr [OF assms(7)] obtain k where k: "step w \<le> k" "step w \<le> step w1" "cn_InboundTokenHash y = hashInboundToken d (token_drawn d k)"
    by blast
  have one: "one_per_hash (conns w)" using assms(1) by (simp add: channels_ok_def)
  have "cn_InboundTokenHash m \<noteq> ?h" if "m \<in> set (conns w1)" for m
  proof (cases "ch_ID m = i")
    case True
    with Rotate_conns(1) [OF assms(1,7)] that k assms(6) show ?thesis by force
  next
    case False
    with Rotate_conns(1) [OF assms(1,7)] that have "m \<in> set (conns w)" by blast
    with one_per_hashD [OF one this assms(3)] False assms(4,5) sha_nonempty [OF assms(2)] show ?thesis by auto
  qed
  then have "?h \<notin> cn_InboundTokenHash ` set (conns w1)" unfolding image_iff by metis
  moreover have "channels_ok d w1"
    using run_channels_ok [OF assms(2,1), of "[(c, RotateToken i)]"] assms(7)
    by (simp add: done_io_def then_io_def bind_io_def return_io_def)
  ultimately have dead: "?h \<notin> cn_InboundTokenHash ` set (conns (run_channels d qs w1))"
    using assms(6) k(2) by (intro dead_hash) auto
  show "\<exists>e. fst (ResolveInbound d old channelType rawBody h (run_channels d qs w1)) = Inl e"
  proof (cases "ResolveInbound d old channelType rawBody h (run_channels d qs w1)")
    case (Pair r w2)
    show ?thesis
    proof (cases r)
      case (Inr z)
      with ResolveInbound_Inr [of d old channelType rawBody h "run_channels d qs w1" z w2] Pair
      have "authenticated d old channelType rawBody h (conns (run_channels d qs w1)) z" by simp
      then have "?h \<in> cn_InboundTokenHash ` set (conns (run_channels d qs w1))"
        unfolding authenticated_def by (metis imageI)
      with dead show ?thesis by contradiction
    qed (simp add: Pair)
  qed
  show "\<exists>m \<in> set (conns w1). ch_ID m = i \<and> cn_InboundTokenHash m = hashInboundToken d (cn_InboundToken y)"
    by (rule Rotate_conns(2) [OF assms(1,7)])
qed

end
