(* ===== verification/Channel_Hooks.thy ===== *)
theory Channel_Hooks
  imports Channel_Requests
begin

text \<open>
  The managed webhook of a channel: after every operation that sets a channel's URL or secret the
  tenant has the subscription the channel asks for, with its URL and its current secret, or none
  when the channel has no URL.
\<close>

section \<open>Successful runs\<close>

lemma run_bind: "bind_io m f w = (Inr x, w') \<longleftrightarrow> (\<exists>y w1. m w = (Inr y, w1) \<and> f y w1 = (Inr x, w'))"
  by (auto simp: bind_io_def split: prod.splits sum.splits)

lemma run_then: "then_io m k w = (Inr x, w') \<longleftrightarrow> (\<exists>y w1. m w = (Inr y, w1) \<and> k w1 = (Inr x, w'))"
  by (simp add: then_io_def run_bind)

lemma run_basic:
  "return_io y w = (Inr x, w') \<longleftrightarrow> x = y \<and> w' = w"
  "lift_res r w = (Inr x, w') \<longleftrightarrow> r = Inr x \<and> w' = w"
  "guard_io b e w = (Inr u, w') \<longleftrightarrow> \<not> b \<and> w' = w"
  "throw_io e w = (Inr x, w') \<longleftrightarrow> False"
  "try_io m w = (Inr r, w') \<longleftrightarrow> m w = (r, w')"
  by (auto simp: return_io_def lift_res_def guard_io_def throw_io_def try_io_def split: prod.splits)

lemmas run_simps = run_bind run_then run_basic

section \<open>Subscriptions\<close>

definition managed_by :: "ident \<Rightarrow> ident \<Rightarrow> webhook_subscription \<Rightarrow> bool" where
  "managed_by t ch s \<longleftrightarrow> ws_TenantID s = t \<and> ws_OwnedByChannelID s = ch"

definition subs_ok :: "webhook_subscription list \<Rightarrow> bool" where
  "subs_ok ss \<longleftrightarrow> distinct (map ws_ID ss) \<and> (\<forall>s \<in> set ss. \<forall>s' \<in> set ss. ws_OwnedByChannelID s \<noteq> []
     \<and> ws_TenantID s = ws_TenantID s' \<and> ws_OwnedByChannelID s = ws_OwnedByChannelID s' \<longrightarrow> s = s')"

text \<open>The subscription a channel with this URL and secret asks for.\<close>

definition serves :: "'e hook_env_scheme \<Rightarrow> string \<Rightarrow> string \<Rightarrow> webhook_subscription \<Rightarrow> bool" where
  "serves d url secret s \<longleftrightarrow> ws_URL s = url \<and> Decrypt d (ws_Secret s) = Inr secret \<and> ws_Enabled s \<and> ws_Events s = managedChannelEvents"

definition follows :: "'e hook_env_scheme \<Rightarrow> ident \<Rightarrow> ident \<Rightarrow> string \<Rightarrow> string \<Rightarrow> webhook_subscription list \<Rightarrow> bool" where
  "follows d t ch raw secret ss \<longleftrightarrow> (case filter (managed_by t ch) ss of
     [] \<Rightarrow> trim_space raw = [] | [s] \<Rightarrow> trim_space raw \<noteq> [] \<and> serves d (trim_space raw) secret s | _ \<Rightarrow> False)"

text \<open>AES-GCM opens what it sealed.\<close>

definition opens_seals :: "'e hook_env_scheme \<Rightarrow> bool" where
  "opens_seals d \<longleftrightarrow> (\<forall>k s e. he_Seal d k s = Inr e \<longrightarrow> e \<noteq> [] \<and> he_Open d e = Inr s)"

lemma Encrypt_Inr: "opens_seals d \<Longrightarrow> sealed msg (Encrypt d s) w = (Inr e, w') \<Longrightarrow>
    Decrypt d e = Inr s \<and> (w' = w \<or> w' = tick w)"
  by (auto simp: sealed_def Encrypt_def Decrypt_def opens_seals_def io_defs split: if_splits sum.splits prod.splits)

lemma subs_okD: "subs_ok ss \<Longrightarrow> s \<in> set ss \<Longrightarrow> s' \<in> set ss \<Longrightarrow> ws_OwnedByChannelID s \<noteq> [] \<Longrightarrow>
    ws_TenantID s = ws_TenantID s' \<Longrightarrow> ws_OwnedByChannelID s = ws_OwnedByChannelID s' \<Longrightarrow> s = s'"
  unfolding subs_ok_def by blast

lemma subs_ids: "subs_ok ss \<Longrightarrow> s \<in> set ss \<Longrightarrow> s' \<in> set ss \<Longrightarrow> ws_ID s = ws_ID s' \<Longrightarrow> s = s'"
  by (auto simp: subs_ok_def distinct_map dest: inj_onD)

lemma managed_unique: "subs_ok ss \<Longrightarrow> s \<in> set ss \<Longrightarrow> s' \<in> set ss \<Longrightarrow> ch \<noteq> [] \<Longrightarrow> managed_by t ch s \<Longrightarrow> managed_by t ch s' \<Longrightarrow> s = s'"
  by (rule subs_okD) (simp_all add: managed_by_def)

lemma filter_single: "distinct xs \<Longrightarrow> x \<in> set xs \<Longrightarrow> p x \<Longrightarrow> \<forall>y \<in> set xs. p y \<longrightarrow> y = x \<Longrightarrow> filter p xs = [x]"
proof (induction xs)
  case (Cons a xs)
  show ?case
  proof (cases "a = x")
    case True
    have "\<not> p y" if y: "y \<in> set xs" for y
    proof
      assume "p y"
      with y Cons.prems(4) have "y = x" by simp
      with y True Cons.prems(1) show False by simp
    qed
    then have "filter p xs = []" by (simp add: filter_empty_conv)
    with True Cons.prems(3) show ?thesis by simp
  next
    case False
    have "\<not> p a" using Cons.prems(4) False by (meson list.set_intros(1))
    moreover have "x \<in> set xs" using Cons.prems(2) False by simp
    moreover have "distinct xs" using Cons.prems(1) by simp
    moreover have "\<forall>y \<in> set xs. p y \<longrightarrow> y = x" using Cons.prems(4) by (meson list.set_intros(2))
    moreover note Cons.IH [OF calculation(3,2) Cons.prems(3) calculation(4)]
    ultimately show ?thesis by simp
  qed
qed simp

lemma filter_managed:
  assumes "subs_ok ss" "s \<in> set ss" "ch \<noteq> []" "managed_by t ch s" shows "filter (managed_by t ch) ss = [s]"
proof (rule filter_single)
  show "distinct ss" using assms(1) by (simp add: subs_ok_def distinct_map)
  show "\<forall>y \<in> set ss. managed_by t ch y \<longrightarrow> y = s" using managed_unique [OF assms(1) _ assms(2,3) _ assms(4)] by blast
qed (rule assms(2,4))+

section \<open>The three writes\<close>

lemma subs_insert:
  assumes "subs_ok ss" "insert_one ws_ID s ss = Inr ss'" "filter (managed_by t ch) ss = []" "managed_by t ch s" "ch \<noteq> []"
  shows "subs_ok ss' \<and> filter (managed_by t ch) ss' = [s]"
proof -
  have ss': "ss' = ss @ [s]" "ws_ID s \<notin> ws_ID ` set ss" using assms(2) by (auto simp: insert_one_def split: if_splits)
  have new: "x \<in> set ss \<Longrightarrow> ws_TenantID x = ws_TenantID s \<Longrightarrow> ws_OwnedByChannelID x \<noteq> ws_OwnedByChannelID s" for x
    using assms(3,4) by (auto simp: filter_empty_conv managed_by_def)
  have "subs_ok ss'"
    unfolding subs_ok_def ss'(1) set_append list.set Un_insert_right Un_empty_right
  proof (rule conjI, use assms(1) ss'(2) in \<open>simp add: subs_ok_def\<close>, intro ballI impI, elim conjE insertE)
    fix x y :: webhook_subscription assume xy: "ws_OwnedByChannelID x \<noteq> []" "ws_TenantID x = ws_TenantID y" "ws_OwnedByChannelID x = ws_OwnedByChannelID y"
    show "x = s \<Longrightarrow> y = s \<Longrightarrow> x = y" by simp
    show "x = s \<Longrightarrow> y \<in> set ss \<Longrightarrow> x = y" using new [of y] xy by auto
    show "x \<in> set ss \<Longrightarrow> y = s \<Longrightarrow> x = y" using new [of x] xy by auto
    show "x \<in> set ss \<Longrightarrow> y \<in> set ss \<Longrightarrow> x = y" using subs_okD [OF assms(1) _ _ xy] .
  qed
  with assms(3,4) ss'(1) show ?thesis by simp
qed

lemma subs_delete:
  assumes "subs_ok ss" "s \<in> set ss" "managed_by t ch s" "ch \<noteq> []" "delete_first (sub_by t (ws_ID s)) ss = Inr ss'"
  shows "subs_ok ss' \<and> filter (managed_by t ch) ss' = []"
proof -
  have "sub_by t (ws_ID s) = (\<lambda>x. ws_ID x = ws_ID s \<and> ws_TenantID x = t)" by (auto simp: sub_by_def)
  with assms(1,5) sub_repo.delete_first_filter [of ss "ws_ID s" t ss']
  have ss': "ss' = filter (\<lambda>x. \<not> (ws_ID x = ws_ID s \<and> ws_TenantID x = t)) ss" by (simp add: subs_ok_def)
  have "subs_ok ss'" using assms(1) by (auto simp: subs_ok_def ss' distinct_map_filter)
  moreover have "\<not> managed_by t ch x" if "x \<in> set ss'" for x
    using that managed_unique [OF assms(1,2) _ assms(4,3)] assms(3) by (auto simp: ss' managed_by_def)
  ultimately show ?thesis by (simp add: filter_empty_conv)
qed

lemma subs_update:
  assumes "subs_ok ss" "s \<in> set ss" "managed_by t ch s" "ch \<noteq> []" "managed_by t ch new" "ws_ID new = ws_ID s"
    "update_one (sub_by t (ws_ID new)) (sub_set new) ss = Inr ss'"
  shows "subs_ok ss' \<and> filter (managed_by t ch) ss' = [sub_set new s]"
proof -
  have ids: "distinct (map ws_ID ss)" using assms(1) by (simp add: subs_ok_def)
  have same: "sub_by t (ws_ID new) x \<longleftrightarrow> x = s" if "x \<in> set ss" for x
    using subs_ids [OF assms(1) that assms(2)] assms(3,6) by (auto simp: sub_by_def managed_by_def)
  have up: "(\<And>x. x \<in> set xs \<Longrightarrow> p x \<longleftrightarrow> x = s) \<Longrightarrow> distinct xs \<Longrightarrow> update_first p f xs = map (\<lambda>x. if x = s then f x else x) xs"
    for p f and xs :: "webhook_subscription list"
  proof (induction xs)
    case (Cons a xs)
    have "s \<notin> set xs \<Longrightarrow> map (\<lambda>x. if x = s then f x else x) xs = xs" by (rule map_idI) auto
    with Cons show ?case by (cases "a = s") auto
  qed simp
  have "ss' = update_first (sub_by t (ws_ID new)) (sub_set new) ss"
    using assms(7) by (auto simp: update_one_def split: if_splits)
  also have "\<dots> = map (\<lambda>x. if x = s then sub_set new x else x) ss"
    using ids by (intro up same) (auto simp: distinct_map)
  finally have ss': "ss' = map (\<lambda>x. if x = s then sub_set new x else x) ss" .
  have new: "managed_by t ch (sub_set new s)" "ws_ID (sub_set new s) = ws_ID s"
    using assms(3,5) by (auto simp: sub_set_def managed_by_def)
  have "map ws_ID ss' = map ws_ID ss" by (auto simp: ss' sub_set_def)
  moreover have "x = y" if x: "x \<in> set ss'" and y: "y \<in> set ss'" and xy: "ws_OwnedByChannelID x \<noteq> []"
    "ws_TenantID x = ws_TenantID y" "ws_OwnedByChannelID x = ws_OwnedByChannelID y" for x y
  proof -
    obtain a where a: "a \<in> set ss" "x = (if a = s then sub_set new a else a)" using x unfolding ss' set_map by (rule imageE)
    obtain b where b: "b \<in> set ss" "y = (if b = s then sub_set new b else b)" using y unfolding ss' set_map by (rule imageE)
    have "ws_TenantID x = ws_TenantID a \<and> ws_OwnedByChannelID x = ws_OwnedByChannelID a"
      "ws_TenantID y = ws_TenantID b \<and> ws_OwnedByChannelID y = ws_OwnedByChannelID b"
      using a(2) b(2) new assms(3) by (auto simp: managed_by_def)
    with xy subs_okD [OF assms(1) a(1) b(1)] have "a = b" by simp
    with a(2) b(2) show ?thesis by simp
  qed
  ultimately have ok: "subs_ok ss'" using ids unfolding subs_ok_def by (intro conjI ballI impI) (simp, blast)
  have "sub_set new s \<in> set ss'" using assms(2) by (auto simp: ss')
  from filter_managed [OF ok this assms(4) new(1)] ok show ?thesis by simp
qed

section \<open>Synchronization\<close>

lemma sub_read:
  assumes "sub_FindByChannelID d c ch w = (r, w1)" "RequireTenant c = Inr t"
  shows "subs w1 = subs w" and "r = Inr s \<Longrightarrow> \<exists>m \<in> set (subs w). managed_by t ch m \<and> (\<exists>u. s = m\<lparr>ws_Secret := u\<rparr>)"
    and "r = Inl e \<Longrightarrow> err_code_of (From e) = CodeNotFound \<Longrightarrow> filter (managed_by t ch) (subs w) = []"
  using assms
  by (auto simp: sub_FindByChannelID_def repo_query_def db_call_def io_defs find_one_def managed_by_def toEntity_def tick_def
      map_err_def filter_empty_conv find_None_iff From_code dest!: find_Some_in split: option.splits sum.splits prod.splits)

lemma sub_Create_Inr:
  assumes "sub_Create d c s w = (Inr u, w1)" "opens_seals d"
  shows "\<exists>enc. Decrypt d enc = Inr (ws_Secret s) \<and> insert_one ws_ID (toModel s enc) (subs w) = Inr (subs w1)"
  using assms unfolding sub_Create_def repo_write_def db_call_def
  by (auto simp: run_simps tick_def split: option.splits sum.splits dest!: Encrypt_Inr)

lemma sub_Update_Inr:
  assumes "sub_Update d c s w = (Inr u, w1)" "opens_seals d" "RequireTenant c = Inr t"
  shows "\<exists>enc. Decrypt d enc = Inr (ws_Secret s) \<and> update_one (sub_by t (ws_ID s)) (sub_set (toModel s enc)) (subs w) = Inr (subs w1)"
  using assms unfolding sub_Update_def repo_write_def db_call_def
  by (auto simp: run_simps tick_def split: option.splits sum.splits dest!: Encrypt_Inr)

lemma sub_Delete_Inr:
  assumes "sub_Delete d c i w = (Inr u, w1)" "RequireTenant c = Inr t"
  shows "delete_first (sub_by t i) (subs w) = Inr (subs w1)"
  using assms unfolding sub_Delete_def repo_write_def db_call_def
  by (auto simp: run_simps tick_def split: option.splits sum.splits)

lemma Remove_Inr:
  assumes "RemoveChannelWebhook d c ch w = (Inr u, w1)" "RequireTenant c = Inr t" "subs_ok (subs w)" "ch \<noteq> []"
  shows "subs_ok (subs w1) \<and> filter (managed_by t ch) (subs w1) = []"
proof -
  from assms(1,2) obtain r w0 where r: "sub_FindByChannelID d c ch w = (r, w0)"
    and k: "(case r of Inl e \<Rightarrow> if err_code_of (From e) = CodeNotFound then return_io () else throw_io e
      | Inr s \<Rightarrow> sub_Delete d c (ws_ID s)) w0 = (Inr u, w1)"
    by (auto simp: RemoveChannelWebhook_def run_simps)
  show ?thesis
  proof (cases r)
    case (Inl e)
    with k have "err_code_of (From e) = CodeNotFound" "w1 = w0" by (auto simp: run_simps split: if_splits)
    with sub_read [OF r assms(2)] Inl assms(3) show ?thesis by simp
  next
    case (Inr s)
    with sub_read(2) [OF r assms(2)] obtain m v where m: "m \<in> set (subs w)" "managed_by t ch m" "s = m\<lparr>ws_Secret := v\<rparr>" by blast
    from Inr k have "sub_Delete d c (ws_ID m) w0 = (Inr u, w1)" by (simp add: m(3))
    from sub_Delete_Inr [OF this assms(2)] sub_read(1) [OF r assms(2)]
    show ?thesis by (intro subs_delete [OF assms(3) m(1,2) assms(4)]) simp
  qed
qed

lemma Sync_Inr:
  assumes run: "SyncChannelWebhook d c ch raw secret w = (Inr u, w1)"
    and t: "RequireTenant c = Inr t" and ok: "subs_ok (subs w)" and ch: "ch \<noteq> []" and seal: "opens_seals d"
  shows "subs_ok (subs w1) \<and> follows d t ch raw secret (subs w1)"
proof (cases "trim_space raw = []")
  case True
  with run t have "RemoveChannelWebhook d c ch w = (Inr u, w1)" by (simp add: SyncChannelWebhook_def run_simps Let_def)
  from Remove_Inr [OF this t ok ch] True show ?thesis by (simp add: follows_def)
next
  case False
  from run t False obtain now w0 r w2 where w0: "now_io d w = (Inr now, w0)" and r: "sub_FindByChannelID d c ch w0 = (r, w2)"
    and k: "(case r of
         Inl e \<Rightarrow> if err_code_of (From e) \<noteq> CodeNotFound then throw_io e
           else bind_io (new_id d) (\<lambda>i. sub_Create d c
             \<lparr>ws_ID = i, ws_TenantID = t, ws_Name = ''Canal '' @ ch, ws_URL = trim_space raw, ws_Events = managedChannelEvents,
              ws_Scopes = [], ws_Secret = secret, ws_Enabled = True, ws_RateLimitPerMin = 0,
              ws_OwnedByChannelID = ch, ws_CreatedBy = [], ws_CreatedAt = now, ws_UpdatedAt = now\<rparr>)
       | Inr s \<Rightarrow> sub_Update d c (s\<lparr>ws_URL := trim_space raw, ws_Secret := secret, ws_Events := managedChannelEvents,
              ws_Enabled := True, ws_UpdatedAt := now\<rparr>)) w2 = (Inr u, w1)"
    by (auto simp: SyncChannelWebhook_def run_simps Let_def)
  have same: "subs w2 = subs w" using sub_read(1) [OF r t] w0 by (auto simp: now_io_def tick_def)
  show ?thesis
  proof (cases r)
    case (Inl e)
    with k obtain i w3 where i: "new_id d w2 = (Inr i, w3)" and nf: "err_code_of (From e) = CodeNotFound"
      and cr: "sub_Create d c \<lparr>ws_ID = i, ws_TenantID = t, ws_Name = ''Canal '' @ ch, ws_URL = trim_space raw, ws_Events = managedChannelEvents,
              ws_Scopes = [], ws_Secret = secret, ws_Enabled = True, ws_RateLimitPerMin = 0,
              ws_OwnedByChannelID = ch, ws_CreatedBy = [], ws_CreatedAt = now, ws_UpdatedAt = now\<rparr> w3 = (Inr u, w1)"
      by (auto simp: run_simps split: if_splits)
    have w3: "subs w3 = subs w" using i same by (auto simp: new_id_def tick_def)
    have none: "filter (managed_by t ch) (subs w) = []" using sub_read(3) [OF r t Inl nf] w0 by (auto simp: now_io_def tick_def)
    from sub_Create_Inr [OF cr seal] obtain enc where enc: "Decrypt d enc = Inr secret" and ins: "insert_one ws_ID
        (toModel \<lparr>ws_ID = i, ws_TenantID = t, ws_Name = ''Canal '' @ ch, ws_URL = trim_space raw, ws_Events = managedChannelEvents,
              ws_Scopes = [], ws_Secret = secret, ws_Enabled = True, ws_RateLimitPerMin = 0,
              ws_OwnedByChannelID = ch, ws_CreatedBy = [], ws_CreatedAt = now, ws_UpdatedAt = now\<rparr> enc) (subs w) = Inr (subs w1)"
      by (auto simp: w3)
    from subs_insert [OF ok ins none _ ch] enc False show ?thesis
      by (simp add: managed_by_def toModel_def follows_def serves_def)
  next
    case (Inr s)
    let ?new = "s\<lparr>ws_URL := trim_space raw, ws_Secret := secret, ws_Events := managedChannelEvents, ws_Enabled := True, ws_UpdatedAt := now\<rparr>"
    from sub_read(2) [OF r t Inr] w0 obtain m v where m: "m \<in> set (subs w)" "managed_by t ch m" "s = m\<lparr>ws_Secret := v\<rparr>"
      by (auto simp: now_io_def tick_def)
    from Inr k have "sub_Update d c ?new w2 = (Inr u, w1)" by simp
    from sub_Update_Inr [OF this seal t] obtain enc where enc: "Decrypt d enc = Inr secret"
      and up: "update_one (sub_by t (ws_ID (toModel ?new enc))) (sub_set (toModel ?new enc)) (subs w) = Inr (subs w1)"
      by (auto simp: same toModel_def)
    have "managed_by t ch (toModel ?new enc)" "ws_ID (toModel ?new enc) = ws_ID m"
      using m(2,3) by (simp_all add: managed_by_def toModel_def)
    from subs_update [OF ok m(1,2) ch this up] enc False show ?thesis
      by (simp add: follows_def serves_def sub_set_def toModel_def)
  qed
qed

section \<open>The channel's operations\<close>

definition same_subs :: "'z hook_world_scheme \<Rightarrow> 'z hook_world_scheme \<Rightarrow> bool" where
  "same_subs w w' \<longleftrightarrow> subs w' = subs w"

interpretation ss: io_step same_subs
  by unfold_locales (auto simp: same_subs_def tick_def)

lemmas ss_steps = ss.fr_bind ss.fr_then ss.fr_lift ss.fr_return ss.fr_throw ss.fr_try ss.fr_query ss.fr_now ss.fr_new_id

lemma ss_seal: "framed same_subs (sealed msg (Encrypt d s))"
  unfolding sealed_def Encrypt_def
  by (auto intro!: ss_steps split: sum.split) (simp add: framed_def same_subs_def tick_def)

lemma ss_conns: "framed same_subs (conn_Create d c x)" "framed same_subs (conn_Update d c x)" "framed same_subs (conn_FindByID d c i)"
  unfolding conn_Create_def conn_Update_def conn_FindByID_def repo_write_def db_call_def
  by (auto intro!: ss_steps ss_seal) (auto simp: framed_def same_subs_def tick_def split: option.split sum.split)

lemma ss_random: "framed same_subs (channel_randomToken d n)" "framed same_subs (newInboundToken d)" "framed same_subs (new_secret d cmd)"
  unfolding channel_randomToken_def newInboundToken_def new_secret_def rand_Read_def
  by (auto intro!: ss_steps ss.fr_if) (auto simp: framed_def same_subs_def tick_def bind_io_def return_io_def)

lemma ss_audit: "framed same_subs (audit_channel c a i data)"
  by (simp add: audit_channel_def audit_io_def log_effect_def modify_io_def framed_def same_subs_def)

lemma kept_subs: "m w = (r, w') \<Longrightarrow> framed same_subs m \<Longrightarrow> subs w' = subs w"
  by (drule (1) framedD) (simp add: same_subs_def)

lemmas kept_by = kept_subs [OF _ ss_conns(1)] kept_subs [OF _ ss_conns(2)] kept_subs [OF _ ss_conns(3)]
  kept_subs [OF _ ss_random(1)] kept_subs [OF _ ss_random(2)] kept_subs [OF _ ss_random(3)]
  kept_subs [OF _ ss.fr_now] kept_subs [OF _ ss.fr_new_id] kept_subs [OF _ ss_audit]

text \<open>Every successful operation ends with the synchronization of the channel it returns.\<close>

lemma Create_syncs:
  assumes "channel_Create d c cmd w = (Inr x, w1 :: 'z chan_world_scheme)"
  shows "\<exists>u v :: 'z chan_world_scheme. SyncChannelWebhook d c (ch_ID x) (cn_BaseURL x) (cn_Secret x) u = (Inr (), v) \<and> subs u = subs w \<and> subs w1 = subs v"
  using assms unfolding channel_Create_def Let_def run_simps
  by (auto dest!: kept_by) (intro exI conjI, assumption, simp_all)

lemma Update_syncs:
  assumes "channel_Update d c i cmd w = (Inr x, w1 :: 'z chan_world_scheme)"
  shows "\<exists>u v :: 'z chan_world_scheme. SyncChannelWebhook d c (ch_ID x) (cn_BaseURL x) (cn_Secret x) u = (Inr (), v) \<and> subs u = subs w \<and> subs w1 = subs v"
  using assms unfolding channel_Update_def Let_def run_simps
  by (auto dest!: kept_by) (intro exI conjI, assumption, simp_all)

lemma RotateSecret_syncs:
  assumes "RotateOutboundSecret d c i w = (Inr x, w1 :: 'z chan_world_scheme)"
  shows "\<exists>u v :: 'z chan_world_scheme. SyncChannelWebhook d c (ch_ID x) (cn_BaseURL x) (cn_Secret x) u = (Inr (), v) \<and> subs u = subs w \<and> subs w1 = subs v"
  using assms unfolding RotateOutboundSecret_def Let_def run_simps
  by (auto dest!: kept_by) (intro exI conjI, assumption, simp_all)

text \<open>
  C31: After a channel was created or updated, or its outbound secret rotated, its tenant has exactly
  the managed subscription the channel asks for: enabled, to the channel's URL, with the secret the
  operation returned and the managed events; or none if the channel has no URL. A channel never has
  two.
\<close>

theorem managed_webhook_follows_channel:
  fixes w :: "'z chan_world_scheme"
  assumes "channel_Create d c cmd w = (Inr x, w') \<or> channel_Update d c i changes w = (Inr x, w') \<or> RotateOutboundSecret d c i w = (Inr x, w')"
    and "RequireTenant c = Inr t" and "ch_ID x \<noteq> []" and "subs_ok (subs w)" and "opens_seals d"
  shows "subs_ok (subs w') \<and> follows d t (ch_ID x) (cn_BaseURL x) (cn_Secret x) (subs w')"
proof -
  have "\<exists>u v :: 'z chan_world_scheme. SyncChannelWebhook d c (ch_ID x) (cn_BaseURL x) (cn_Secret x) u = (Inr (), v) \<and> subs u = subs w \<and> subs w' = subs v"
    using assms(1) by (elim disjE) (erule Create_syncs, erule Update_syncs, erule RotateSecret_syncs)
  then obtain u v :: "'z chan_world_scheme" where sync: "SyncChannelWebhook d c (ch_ID x) (cn_BaseURL x) (cn_Secret x) u = (Inr (), v)"
    and same: "subs u = subs w" "subs w' = subs v" by blast
  from Sync_Inr [OF sync assms(2) _ assms(3,5)] assms(4) show ?thesis by (simp add: same)
qed

end
