(* ===== verification/Channel_Gaps.thy ===== *)
theory Channel_Gaps
  imports Channel_Props Channel_Hooks
begin

text \<open>
  Two ways in which the edge of a channel does not do what its parts promise: a health check that
  was probing while a token was rotated stores the old hash again, and the signature over
  timestamp and body, which the adapters accept, cannot get past the controller.
\<close>

section \<open>A probe during a rotation\<close>

lemma conn_Update_Inr:
  assumes "conn_Update d c x w = (Inr u, w1)" "opens_seals d"
  shows "\<exists>t enc. RequireTenant c = Inr t \<and> Decrypt d enc = Inr (cn_Secret x) \<and> conn_replace t (conn_toModel x enc) (conns w) = Inr (conns w1)"
  using assms unfolding conn_Update_def repo_write_def db_call_def
  by (auto simp: run_simps tick_def split: option.splits sum.splits dest!: Encrypt_Inr)

text \<open>A job's turn that reports a change wrote the connection as the job had read it.\<close>

lemma health_step_writes:
  assumes "health_step d h c now x w = (Inr True, w2)"
  shows "\<exists>s. ch_Enabled x \<and> conn_Update d c (x\<lparr>cn_Status := s, cn_UpdatedAt := now\<rparr>) (snd (h c x w)) = (Inr (), w2)"
  using assms unfolding health_step_def Let_def
  by (auto simp: run_simps split: if_splits sum.splits) (metis old.unit.exhaust sumE)+

lemma unsigned_verifies: "ty \<noteq> TypeWebchat \<Longrightarrow> VerifyInbound d (registry_For ty) x body (\<lambda>_. []) = Inr ()"
  by (simp add: registry_cases api_VerifyInbound_def)

text \<open>
  C8: The health check writes back the whole connection it read before the probe. If the token was
  rotated while the probe was waiting, so that nothing authenticates with the old token any more,
  and the status changed, the write stores the old hash again: the revoked token authenticates as
  that channel.
\<close>

theorem stale_probe_revives_old_token:
  assumes "health_step d h c now x w = (Inr True, w2)" and "snd (h c x w) = w1"
    and "channels_ok d w1" and "sha_length d" and "opens_seals d"
    and "\<forall>m \<in> set (conns w1). conn_by (ch_TenantID x) (ch_ID x) m \<longrightarrow> ch_Type m = ch_Type x"
    and "RequireTenant c = Inr (ch_TenantID x)" and "ch_Type x \<noteq> TypeWebchat"
    and "cn_InboundTokenHash x = hashInboundToken d old" and "old \<noteq> []"
    and "\<forall>m \<in> set (conns w1). cn_InboundTokenHash m \<noteq> hashInboundToken d old"
    and "fault d (step w2) = None"
  shows "(\<exists>e. fst (ResolveInbound d old (ch_Type x) body (\<lambda>_. []) w1) = Inl e)
    \<and> (\<exists>y. ch_ID y = ch_ID x \<and> ch_TenantID y = ch_TenantID x \<and> ResolveInbound d old (ch_Type x) body (\<lambda>_. []) w2 = (Inr y, tick w2))"
proof (intro conjI)
  show "\<exists>e. fst (ResolveInbound d old (ch_Type x) body (\<lambda>_. []) w1) = Inl e"
  proof (cases "ResolveInbound d old (ch_Type x) body (\<lambda>_. []) w1")
    case (Pair r w')
    show ?thesis
    proof (cases r)
      case (Inr z)
      with ResolveInbound_Inr [of d old "ch_Type x" body "\<lambda>_. []" w1 z w'] Pair assms(11)
      show ?thesis by (auto simp: authenticated_def)
    qed (simp add: Pair)
  qed
  let ?h = "hashInboundToken d old"
  from health_step_writes [OF assms(1)] assms(2) obtain s where en: "ch_Enabled x"
    and up: "conn_Update d c (x\<lparr>cn_Status := s, cn_UpdatedAt := now\<rparr>) w1 = (Inr (), w2)" by auto
  let ?x = "x\<lparr>cn_Status := s, cn_UpdatedAt := now\<rparr>"
  from conn_Update_Inr [OF up assms(5)] assms(7) obtain enc where enc: "Decrypt d enc = Inr (cn_Secret x)"
    and rep: "conn_replace (ch_TenantID x) (conn_toModel ?x enc) (conns w1) = Inr (conns w2)" by auto
  have one: "one_per_hash (conns w1)" using assms(3) by (simp add: channels_ok_def)
  let ?f = "\<lambda>y. if conn_by (ch_TenantID x) (ch_ID x) y then conn_assign (conn_toModel ?x enc) y else y"
  have conns: "conns w2 = map ?f (conns w1)" and one2: "one_per_hash (conns w2)"
    using replace_one_per_hash [OF one rep] by (auto simp: conn_toModel_def)
  from rep obtain m where m: "m \<in> set (conns w1)" "conn_by (ch_TenantID x) (ch_ID x) m"
    by (auto simp: conn_replace_def update_one_def conn_toModel_def split: if_splits)
  let ?m = "conn_assign (conn_toModel ?x enc) m"
  have "?f m \<in> set (conns w2)" unfolding conns set_map using m(1) by (rule imageI)
  then have m2: "?m \<in> set (conns w2)" using m(2) by simp
  have mh: "cn_InboundTokenHash ?m = ?h" "ch_ID ?m = ch_ID x" "ch_TenantID ?m = ch_TenantID x"
      "ch_Type ?m = ch_Type x" "ch_Enabled ?m" "Decrypt d (cn_Secret ?m) = Inr (cn_Secret x)"
    using m assms(6,9) en enc by (auto simp: conn_assign_def conn_toModel_def conn_by_def)
  have "find (\<lambda>z. cn_InboundTokenHash z = ?h) (conns w2) \<noteq> None" using m2 mh(1) by (auto simp: find_None_iff)
  then obtain z where z: "find (\<lambda>z. cn_InboundTokenHash z = ?h) (conns w2) = Some z" by blast
  then have "z = ?m"
    using find_Some_in [OF z] one_per_hashD [OF one2 _ m2] mh(1) sha_nonempty [OF assms(4)] by metis
  with z have fd: "find (\<lambda>z. cn_InboundTokenHash z = ?h) (conns w2) = Some ?m" by simp
  define y where "y = ?m\<lparr>cn_Secret := cn_Secret x, cn_InboundToken := []\<rparr>"
  have "conn_toEntity d ?m = Inr y" using mh(6) by (simp add: conn_toEntity_def y_def)
  then have "FindByInboundTokenHash d ?h w2 = (Inr y, tick w2)"
    using fd assms(12) by (simp add: FindByInboundTokenHash_def db_call_def find_one_def io_defs tick_def)
  moreover have "cn_InboundTokenHash y = ?h \<and> ch_Enabled y \<and> ch_Type y = ch_Type x \<and> ch_ID y = ch_ID x \<and> ch_TenantID y = ch_TenantID x"
    using mh by (simp add: y_def)
  ultimately show "\<exists>y. ch_ID y = ch_ID x \<and> ch_TenantID y = ch_TenantID x \<and> ResolveInbound d old (ch_Type x) body (\<lambda>_. []) w2 = (Inr y, tick w2)"
    using assms(8,10) unsigned_verifies [of "ch_Type x" d y body]
    by (intro exI [of _ y]) (simp add: ResolveInbound_def Let_def try_io_def bind_io_def then_io_def guard_io_def return_io_def)
qed

section \<open>Signatures at the edge\<close>

text \<open>HMAC digests are printed in lower-case hexadecimal.\<close>

definition lower_hex :: "'e hook_env_scheme \<Rightarrow> bool" where
  "lower_hex d \<longleftrightarrow> (\<forall>k m. ascii_lower (he_HMAC d k m) = he_HMAC d k m \<and> he_HMAC d k m \<noteq> [])"

text \<open>
  C9: A request signed over its timestamp and body, the scheme of the outbound deliveries, satisfies
  every adapter; but the controller does not hand the Timestamp header on, so on a channel with a
  secret the same request is refused, whatever the endpoint (unless both messages have one digest).
\<close>

theorem edge_drops_the_timestamp:
  assumes "lower_hex d" and "opens_seals d"
    and "r ''X-Signature'' = ''sha256='' @ sign_Payload d (cn_Secret x) (r ''Timestamp'') body" and "r ''Timestamp'' \<noteq> []"
    and "cn_Secret x \<noteq> []" and "sign_Payload d (cn_Secret x) (r ''Timestamp'') body \<noteq> sign_Body d (cn_Secret x) body"
  shows "(VerifyInbound d a x body r = Inr ())
    \<and> (VerifyInbound d a x body (verifyHeaders r) = Inl (PlainError ''invalid signature''))
    \<and> (r ''X-Inbound-Token'' \<noteq> [] \<longrightarrow> (\<forall>m \<in> set (conns w). cn_InboundTokenHash m = hashInboundToken d (r ''X-Inbound-Token'') \<longrightarrow> conn_toEntity d m = Inr x)
      \<longrightarrow> (\<exists>e. fst (inbound_edge d c ty r tok body handler w) = Inl e))"
proof (intro conjI)
  have sg: "ascii_lower (trim_prefix (r ''X-Signature'') ''sha256='') = sign_Payload d (cn_Secret x) (r ''Timestamp'') body"
    using assms(1) by (simp add: assms(3) trim_prefix_def has_prefix_def sign_Payload_def lower_hex_def)
  have full: "VerifySignature d (cn_Secret x) body r = Inr ()"
    using assms(3-5) sg by (simp add: VerifySignature_def Let_def)
  have cut: "VerifySignature d (cn_Secret x) body (verifyHeaders r) = Inl (PlainError ''invalid signature'')"
    using assms(3-6) sg by (simp add: VerifySignature_def Let_def verifyHeaders_def)
  show "VerifyInbound d a x body r = Inr ()"
    using full by (cases a) (simp_all add: api_VerifyInbound_def webchat_VerifyInbound_def)
  have refused: "VerifyInbound d a x body (verifyHeaders r) = Inl (PlainError ''invalid signature'')" for a
    using cut assms(3) by (cases a) (simp_all add: api_VerifyInbound_def webchat_VerifyInbound_def verifyHeaders_def)
  show "VerifyInbound d a x body (verifyHeaders r) = Inl (PlainError ''invalid signature'')" by (rule refused)
  show "r ''X-Inbound-Token'' \<noteq> [] \<longrightarrow> (\<forall>m \<in> set (conns w). cn_InboundTokenHash m = hashInboundToken d (r ''X-Inbound-Token'') \<longrightarrow> conn_toEntity d m = Inr x)
      \<longrightarrow> (\<exists>e. fst (inbound_edge d c ty r tok body handler w) = Inl e)"
  proof (intro impI)
    assume tok: "r ''X-Inbound-Token'' \<noteq> []" and only: "\<forall>m \<in> set (conns w). cn_InboundTokenHash m = hashInboundToken d (r ''X-Inbound-Token'') \<longrightarrow> conn_toEntity d m = Inr x"
    show "\<exists>e. fst (inbound_edge d c ty r tok body handler w) = Inl e"
    proof (cases "ResolveInbound d (r ''X-Inbound-Token'') ty body (verifyHeaders r) w")
      case (Pair q w')
      show ?thesis
      proof (cases q)
        case (Inl e)
        with Pair tok show ?thesis by (simp add: inbound_edge_def bind_io_def Let_def)
      next
        case (Inr z)
        from ResolveInbound_Inr [OF Pair [unfolded Inr]] obtain m where m: "m \<in> set (conns w)" "conn_toEntity d m = Inr z"
          "cn_InboundTokenHash m = hashInboundToken d (r ''X-Inbound-Token'')" and v: "VerifyInbound d (registry_For ty) z body (verifyHeaders r) = Inr ()"
          by (auto simp: authenticated_def)
        from m only have "conn_toEntity d m = Inr x" by blast
        with m(2) v refused show ?thesis by simp
      qed
    qed
  qed
qed

end
