(* ===== verification/Channel_Demo.thy ===== *)
theory Channel_Demo
  imports Channel_Gaps
begin

text \<open>A tenant with one API channel that has a secret, for the witnesses.\<close>

definition chan_env0 :: chan_env where
  "chan_env0 = \<lparr>clk = (\<lambda>n. int n * 1000000), newid = (\<lambda>n. replicate (Suc n) CHR ''d''), fault = (\<lambda>_. None),
     he_Seal = (\<lambda>_ s. Inr (CHR ''#'' # s)), he_Open = (\<lambda>e. Inr (tl e)), he_HMAC = (\<lambda>k m. replicate (Suc (length m)) CHR ''a''), he_Rand = (\<lambda>_. ''00''),
     he_Marshal = (\<lambda>i e n p. Inr (i @ e)), he_Respond = (\<lambda>_ _. Inr 200), he_Usage = None,
     he_HasLimiter = True, he_HasEnqueuer = True,
     ce_Hash = (\<lambda>s. replicate 64 (if s = ''old'' then CHR ''0'' else CHR ''1'')), ce_Byte = (\<lambda>_ _. 0), ce_Quote = (\<lambda>s. s),
     ce_Envelope = (\<lambda>_. Inr []), ce_Ack = (\<lambda>_. None), ce_ReceiptObject = (\<lambda>_. None), ce_ReceiptArray = (\<lambda>_. None),
     ce_Post = (\<lambda>_ _. Answered 200 []), ce_Probe = (\<lambda>_ _. Some (PlainError ''timeout'')), ce_Audience = None, ce_HasEmitter = True,
     ce_Biz = \<lparr>clk = (\<lambda>_. 0), newid = (\<lambda>_. []), fault = (\<lambda>_. None), bd_decode = (\<lambda>_. None), bd_loadLocation = (\<lambda>_. None)\<rparr>\<rparr>"

definition manager :: ctx where
  "manager = \<lparr>ctx_tenant = Some ''t1'', ctx_auth = None, ctx_origin = None, ctx_depth = None\<rparr>"

text \<open>The connection as it is stored, and as it is read.\<close>

definition conn0 :: "string \<Rightarrow> connection" where
  "conn0 secret = \<lparr>ch_ID = ''c1'', ch_TenantID = ''t1'', ch_Type = ''api'', ch_Name = ''ERP'', ch_BusinessHours = Map.empty,
     ch_OutOfHoursMessage = [], ch_Enabled = True, ch_UsesProtocol = False, ch_WhatsAppTemplates = [], cn_Status = ''connected'',
     cn_BaseURL = ''https://a.b'', cn_AuthType = ''token'', cn_Secret = secret, cn_InboundToken = [],
     cn_InboundTokenHash = replicate 64 CHR ''0'', cn_CreatedAt = 0, cn_UpdatedAt = 0\<rparr>"

definition chan_world0 :: chan_world where
  "chan_world0 = \<lparr>step = 0, convs = [], msgs = [], cevents = [], chans = [channel_connection.truncate (conn0 ''#s'')], sectors = [], effects = [],
     redis = Map.empty, subs = [], deliveries = [], hook_tasks = [], requests = [], conns = [conn0 ''#s''], posts = []\<rparr>"

lemmas chan_demo = chan_env0_def manager_def conn0_def chan_world0_def

lemma chan_world0_ok: "channels_ok chan_env0 chan_world0" "sha_length chan_env0" "opens_seals chan_env0" "lower_hex chan_env0"
  by (simp_all add: chan_demo channels_ok_def one_per_hash_def stored_ok_def entity_ok_def channel_Valid_def go_const ValidateSchedule_def
      validateTemplates_def sha_length_def opens_seals_def lower_hex_def ascii_lower_def byte_def map_replicate)

lemma old_hash: "hashInboundToken chan_env0 ''old'' = replicate 64 CHR ''0''"
  by (simp add: hashInboundToken_def chan_env0_def)

lemma new_hash: "hashInboundToken chan_env0 (token_drawn chan_env0 k) \<noteq> hashInboundToken chan_env0 ''old''"
proof -
  have "length (token_drawn chan_env0 k) = 43" unfolding token_drawn_def by (rule token_length) simp
  then have "token_drawn chan_env0 k \<noteq> ''old''" by auto
  then show ?thesis by (simp add: hashInboundToken_def chan_env0_def replicate_eq_replicate)
qed

theorem tokens_keep_their_entropy_witness:
  "randomBase62 (replicate 32 1) \<noteq> randomBase62 (replicate 32 2)"
  using tokens_keep_their_entropy [of "replicate 32 1" "replicate 32 2"] by simp

theorem channels_stay_consistent_witness:
  "channels_ok chan_env0 (run_channels chan_env0 [(manager, RotateToken ''c1''), (manager, CheckHealth)] chan_world0)"
  by (rule conjunct1 [OF channels_stay_consistent [OF chan_world0_ok(2,1)]])

theorem inbound_token_names_one_channel_witness:
  "\<exists>x w'. ResolveInbound chan_env0 ''old'' ''api'' [] (\<lambda>_. []) chan_world0 = (Inr x, w') \<and> ch_Type x = ''api'' \<and> w' = tick chan_world0"
proof -
  have "\<not> isl (fst (ResolveInbound chan_env0 ''old'' ''api'' [] (\<lambda>_. []) chan_world0))" by code_simp
  then obtain x w' where run: "ResolveInbound chan_env0 ''old'' ''api'' [] (\<lambda>_. []) chan_world0 = (Inr x, w')"
    by (cases "ResolveInbound chan_env0 ''old'' ''api'' [] (\<lambda>_. []) chan_world0"; cases "fst (ResolveInbound chan_env0 ''old'' ''api'' [] (\<lambda>_. []) chan_world0)") auto
  from inbound_token_names_one_channel [OF chan_world0_ok(1,2) run] run show ?thesis by blast
qed

lemma rotation0: "\<exists>y w1. RotateInboundToken chan_env0 manager ''c1'' chan_world0 = (Inr y, w1)"
proof -
  have "\<not> isl (fst (RotateInboundToken chan_env0 manager ''c1'' chan_world0))" by code_simp
  then show ?thesis
    by (cases "RotateInboundToken chan_env0 manager ''c1'' chan_world0"; cases "fst (RotateInboundToken chan_env0 manager ''c1'' chan_world0)") auto
qed

theorem rotated_token_stays_dead_witness:
  "\<exists>y w1. RotateInboundToken chan_env0 manager ''c1'' chan_world0 = (Inr y, w1)
     \<and> (\<exists>e. fst (ResolveInbound chan_env0 ''old'' ''api'' [] (\<lambda>_. []) w1) = Inl e)"
proof -
  from rotation0 obtain y w1 where run: "RotateInboundToken chan_env0 manager ''c1'' chan_world0 = (Inr y, w1)" by blast
  have "conn0 ''#s'' \<in> set (conns chan_world0)" "ch_ID (conn0 ''#s'') = ''c1''" "cn_InboundTokenHash (conn0 ''#s'') = hashInboundToken chan_env0 ''old''"
    unfolding old_hash by (simp_all add: chan_world0_def conn0_def)
  from rotated_token_stays_dead [OF chan_world0_ok(1,2) this _ run, of "''api''" "[]" "\<lambda>_. []" "[]"] new_hash run show ?thesis by auto
qed

text \<open>A probe that waits while another request rotates the token, and then times out.\<close>

definition slow_probe :: "chan_world health_checker" where
  "slow_probe c x = then_io (RotateInboundToken chan_env0 c (ch_ID x)) (throw_io (PlainError ''timeout''))"

lemma slow_probe_runs: "\<exists>w2. health_step chan_env0 slow_probe manager 9 (conn0 ''s'') chan_world0 = (Inr True, w2)"
proof -
  have "case health_step chan_env0 slow_probe manager 9 (conn0 ''s'') chan_world0 of (Inr b, _) \<Rightarrow> b | _ \<Rightarrow> False" by code_simp
  then show ?thesis by (auto split: prod.splits sum.splits)
qed

theorem stale_probe_revives_old_token_witness:
  "\<exists>w2 y. health_step chan_env0 slow_probe manager 9 (conn0 ''s'') chan_world0 = (Inr True, w2)
     \<and> ResolveInbound chan_env0 ''old'' ''api'' [] (\<lambda>_. []) w2 = (Inr y, tick w2)"
proof -
  from slow_probe_runs obtain w2 where run: "health_step chan_env0 slow_probe manager 9 (conn0 ''s'') chan_world0 = (Inr True, w2)" by blast
  from rotation0 obtain y w1 where rot: "RotateInboundToken chan_env0 manager ''c1'' chan_world0 = (Inr y, w1)" by blast
  have probe: "snd (slow_probe manager (conn0 ''s'') chan_world0) = w1"
    using rot by (simp add: slow_probe_def conn0_def then_io_def bind_io_def throw_io_def)
  have ok: "channels_ok chan_env0 w1"
    using run_channels_ok [OF chan_world0_ok(2,1), of "[(manager, RotateToken ''c1'')]"] rot
    by (simp add: done_io_def then_io_def bind_io_def return_io_def)
  have old: "\<forall>m \<in> set (conns w1). cn_InboundTokenHash m \<noteq> hashInboundToken chan_env0 ''old'' \<and> ch_Type m = ''api''"
  proof -
    have "list_all (\<lambda>m. cn_InboundTokenHash m \<noteq> replicate 64 CHR ''0'' \<and> ch_Type m = ''api'') (conns (snd (RotateInboundToken chan_env0 manager ''c1'' chan_world0)))"
      by code_simp
    with rot show ?thesis by (simp add: old_hash list_all_iff)
  qed
  have "RequireTenant manager = Inr (ch_TenantID (conn0 ''s''))" "ch_Type (conn0 ''s'') \<noteq> TypeWebchat" "cn_InboundTokenHash (conn0 ''s'') = hashInboundToken chan_env0 ''old''"
    "fault chan_env0 (step w2) = None"
    unfolding old_hash by (simp_all add: chan_demo RequireTenant_def go_const)
  note facts = this
  have "\<exists>y. ch_ID y = ch_ID (conn0 ''s'') \<and> ch_TenantID y = ch_TenantID (conn0 ''s'') \<and> ResolveInbound chan_env0 ''old'' (ch_Type (conn0 ''s'')) [] (\<lambda>_. []) w2 = (Inr y, tick w2)"
    by (rule conjunct2 [OF stale_probe_revives_old_token [OF run probe ok chan_world0_ok(2,3) _ facts(1,2,3) _ _ facts(4)]]) (use old in \<open>simp_all add: conn0_def\<close>)
  with run show ?thesis by (auto simp: conn0_def)
qed

theorem managed_webhook_follows_channel_witness:
  "\<exists>x w'. RotateOutboundSecret chan_env0 manager ''c1'' chan_world0 = (Inr x, w') \<and> follows chan_env0 ''t1'' ''c1'' (cn_BaseURL x) (cn_Secret x) (subs w')
     \<and> length (subs w') = 1"
proof -
  have "(case RotateOutboundSecret chan_env0 manager ''c1'' chan_world0 of (Inr x, w') \<Rightarrow> ch_ID x = ''c1'' \<and> length (subs w') = 1 | _ \<Rightarrow> False)" by code_simp
  then obtain x w' where run: "RotateOutboundSecret chan_env0 manager ''c1'' chan_world0 = (Inr x, w')" and x: "ch_ID x = ''c1''" "length (subs w') = 1"
    by (auto split: prod.splits sum.splits)
  have "RequireTenant manager = Inr ''t1''" "ch_ID x \<noteq> []" "subs_ok (subs chan_world0)"
    using x by (simp_all add: chan_demo RequireTenant_def subs_ok_def)
  from managed_webhook_follows_channel [OF _ this chan_world0_ok(3)] run x show ?thesis by metis
qed

theorem edge_drops_the_timestamp_witness:
  "VerifyInbound chan_env0 Webchat (conn0 ''s'') ''hi'' (verifyHeaders ((\<lambda>_. [])(''X-Signature'' := ''sha256='' @ replicate 5 CHR ''a'', ''Timestamp'' := ''1'')))
     = Inl (PlainError ''invalid signature'')"
  by (rule conjunct1 [OF conjunct2 [OF edge_drops_the_timestamp [OF chan_world0_ok(4,3)]]])
     (simp_all add: sign_Payload_def sign_Body_def chan_env0_def conn0_def numeral_eq_Suc)

end
