(* ===== verification/Spec2Isabelle.thy ===== *)
theory Spec2Isabelle
  imports Conv_Messages Conv_Inbox Automation_Rules Redis_Lock Routing_Props Contract_Props Sla_Props Holiday_Props Webhook_Emit Webhook_Forms Contact_Props Document_Props Inbound_Threads Crm_Demo Channel_Demo
begin

text \<open>
  Verification of an omnichannel chat backend written in Go (\<open>src/\<close>): a multi-tenant HTTP and
  worker process over MongoDB, Redis and a task queue, in which agents answer the conversations
  customers hold with a company over WhatsApp, Telegram and a web chat.

  THE PROGRAM. Requests reach a service through a controller that decodes JSON; the service of
  each domain (\<open>src/domain/name/service\<close>) checks the tenant and the actor, reads and writes its
  repositories (\<open>src/infra/database/mongodb/repositories/name\<close>) and calls ports: realtime topics,
  outbound webhooks, automation rule events, notifications, audit, SLA and CSAT hooks. Workers run
  the same services from the queue: the rule evaluator, the SLA check, the routing worker, the
  closing of inactive conversations. The conversation is the shared object: the conversations
  service owns it, routing assigns it, rules mutate it, the SLA follows it.

  HOW IT IS MODELLED. A method is a definition of the same name in the monad \<open>('w, 'a) io\<close> of
  Prelude: it maps the world to an error or a value and the new world, so every early return and
  every failed call is a branch. The world is a record of collections (lists of documents in the
  server's natural order, newest last) extended per component: \<open>base_world\<close> (step counter, log of
  effects), \<open>conv_world\<close> (conversations, messages, events, channels, sectors), and on top of it
  \<open>ops_world\<close> (Redis), \<open>rule_world\<close>, \<open>team_world\<close> (users, presence, queues), \<open>desk_world\<close> (holidays),
  \<open>sla_world\<close>, and beside these \<open>contact_world\<close>, \<open>group_world\<close>, \<open>inbound_world\<close> and \<open>crm_world\<close>. A struct is a record, a nil pointer \<open>None\<close>, a Go string a byte
  string, a time an \<open>int\<close> of nanoseconds (only cursors carry BSON's rounding to milliseconds), a
  float score as the integer it holds. What the process does not decide is an argument: \<open>env\<close> gives the clock,
  the fresh identifiers and the driver's failures step by step; the JSON decoder, the time zone
  database, the Unicode case tables, the order in which Go walks a map and the ports that answer
  (attachment and tag checks, the channel's media rules) are fields of the dependency records. A
  call on a port that only informs (publish, emit, notify, record) is an entry of the effect log.

  THEORIES.
  Prelude, Go_Strings, Shared, Mongo: the monad with its weakest preconditions and the frame
  locale \<open>io_rel\<close>; Go's \<open>strings\<close> and UTF-8; \<open>domain/apperror\<close>, \<open>domain/authz\<close>,
  \<open>domain/shared\<close>; driver calls and keyset paging (\<open>infra/database/mongodb/helpers.go\<close>) with the
  locale \<open>tenant_docs\<close>.

  Conv_Entity, Conv_Repo, Conv_Service, Conv_Automation: \<open>domain/conversations\<close> (entities and
  validators, repositories, payloads and ports, conversation_service.go, automation_actions.go).
  Conv_Isolation proves that a request of one tenant leaves another's documents alone and names
  no other tenant in its effects. Conv_Rules and Conv_Props give verification rules, Close on every
  branch and under any failures, Reopen and visibility; Conv_Messages sending under any failures
  (with what a failed update leaves behind), receipts, editing and deleting; Conv_Inbox tags,
  listings and the inactivity job; Contract_Props cursors and menus; Conv_Demo a concrete state.

  Automation_Rules: \<open>domain/automationrules\<close>: conditions, evaluator, executor, budget and dedup,
  with the absence of feedback and the once-per-event claim.

  Redis, Redis_Lock: the commands used of Redis on an expiring store, the lock of
  \<open>infra/redis/lock.go\<close> and the fixed-window limiters; the lock as a protocol between processes
  whose steps run \<open>Acquire\<close> and its release closure, mutual exclusion of unexpired leases and its limits.

  Presence, Presence_Props, Routing, Routing_Props: \<open>domain/presence\<close> with its Redis store and the
  load counter, \<open>domain/routing\<close>; who can receive a conversation, which agent is chosen, that the
  lock of a conversation is given back on every path.

  Business_Hours, Business_Props, Holidays, Holiday_Props: \<open>domain/businesshours\<close>: schedules,
  holidays, the walk over open segments and its round trip, the invariant of stored holidays. A
  location is a lookup of offsets by instant, so clock changes are in the model: the round trip
  asks that the days the walk visits are in order in the zone (\<open>walk_in_order\<close>), which
  \<open>walk_in_order_steady\<close> gives where no change is ahead, the witness has across one, and a skipped
  midnight breaks (\<open>skipped_midnight_goes_back\<close>).

  Sla, Sla_Check, Sla_Props: \<open>domain/sla\<close>: policies, trackings, hooks and the scheduled check; the
  states any sequence of hooks and checks reaches, breach reports counted against the calls that
  failed, due instants in business time, the lost response.

  Repo, Repo_Unique: the tenant-scoped repository (locale \<open>tenant_store\<close>: what a sequence of
  requests does to well-formed documents and to other tenants') and the store whose documents
  own keys (locale \<open>keyed_store\<close>: a key has one owner through lookups, inserts and updates).

  Go_Text, Webhooks, Webhook_Service, Webhook_Props, Webhook_Emit, Webhook_Forms:
  \<open>domain/webhooks\<close>, \<open>infra/webhooks\<close>, \<open>infra/secrets\<close>: URLs, subscriptions, the dispatcher, the
  delivery worker with its queue of tasks; deliveries settle (what the rate limit puts off is
  counted apart) and are accounted for, an event goes
  to exactly the subscriptions that listen, registrations stay deliverable.

  Contact_Forms, Document_Props, Contacts, Contact_Props: \<open>domain/contacts\<close>: the validation of
  documents, mails, addresses and identities, the contact and its repository, the CRM writes and
  the upserts of inbound messages. A channel identity has one owner; CPF numbers.

  Wa_Groups: \<open>domain/groups\<close>: the mirror of WhatsApp groups; a sync keeps the operator's choice.

  Inbound, Inbound_Frames, Inbound_Ledger, Inbound_Threads: \<open>domain/channels/service/inbound_service.go\<close>,
  the ledger of handled messages and the protocol counters. A redelivered message stores nothing;
  a contact has one open conversation on a connection; protocol numbers are distinct. Requests are
  handled one after the other: the code's lock is per external message (see the findings).

  Crm, Pipelines, Products, Deal_Timeline, Deals, Deal_Tasks: the sales module
  (\<open>domain/pipelines\<close>, \<open>products\<close>, \<open>deals\<close>, \<open>dealtimeline\<close>, \<open>dealtasks\<close>, \<open>crmsettings\<close>), a \<open>float64\<close> as the
  rational it denotes with the rounding of each operation as an argument. Repo_Triple is the
  program logic (locale \<open>guarantee\<close>) for invariants that span collections; Shop states the
  invariant of the sales data and frames what does not touch them; Shop_Writes, Shop_Requests and
  Shop_Deals prove every write and every request in it; Crm_Props has sequences of requests and
  deals out of sight, Crm_Order the order of the board, Crm_Demo the concrete tenant.

  Channels, Channel_Adapters, Channel_Service: the channel connections
  (\<open>domain/channels/service/channel_service.go\<close>, \<open>infra/channels\<close>): tokens, repository, adapters,
  signatures, management, health check, authentication of inbound requests, and the part of the
  inbound controller its endpoints share. SHA-256, HMAC, AES-GCM and the random bytes are
  parameters; what is used of them (a digest has 64 characters, a seal opens to what was sealed,
  hexadecimal is lower case) are named hypotheses. Repo_Holds is a logic of world invariants
  (locale \<open>world_invariant\<close>); Channel_Guard and Channel_Requests prove that every request keeps the
  connections well formed; Channel_Props who is let in and until when, Channel_Tokens what a token
  keeps of its random bytes, Channel_Hooks the managed webhook, Channel_Gaps two faults of the
  edge (requests interleave there: the probe of the health check is a program), Channel_Demo the
  concrete channel.

  BOUNDS. The walk over days stops after \<open>maxDaysWalk\<close> = 4000 days as in the code; the fallback it
  then takes is part of the statements. A run of the SLA check reads \<open>checkBatchLimit\<close> = 1000
  trackings. The client that follows cursors (\<open>walk_conversations\<close>) has one request per document as
  fuel, and the property says that this ends the walk. Counters of Redis and the scores of its sets
  are integers; no arithmetic of the program comes near 64 bits with times of this era.

  NOT MODELLED. The wire formats (BSON, JSON, base64 cursors), HTTP controllers, the OpenAPI
  document, websockets and goroutines, object storage, cryptography, language-model and
  integration clients: input and output with third parties. PROJECT.json lists every part with its
  reason. Interleavings are modelled where the code guards against them or fails to: the lock
  protocol, the SLA check against the response hook, the health check against a rotation; elsewhere a request runs alone.

  PLAN. Next CSAT and the remaining services of the repository shape (tags, close reasons, quick replies, sectors, queues).
\<close>

end
